(* ===== verification/Prelude.thy ===== *)
theory Prelude
  imports Complex_Main "HOL-Library.Word"
begin

text \<open>
  What the theories of the development share.

  The first part is Rust's \<open>Result\<close>: the sum type with \<open>Inl\<close> for \<open>Err\<close> and \<open>Inr\<close> for \<open>Ok\<close>, the
  operator \<open>?\<close> (\<open>try_bind\<close>), \<open>map_err\<close>, \<open>ok_or\<close>, a loop whose body may return early with an error
  (\<open>try_fold\<close>), and \<open>collect::<Result<Vec<_>>>()\<close> (\<open>try_map\<close>). The second part is the integer
  arithmetic of the standard library at a fixed width (checked, saturating, rounded-up division)
  with the lemmas that read it through \<open>unat\<close>. The third part is text: bytes, decimal printing, and
  the number of Unicode scalar values of a UTF-8 byte string.

  The collection \<open>results\<close> holds the lemmas that turn a successful run of a fallible operation into
  facts about its parts, \<open>unats\<close> the ones that read words as natural numbers.
\<close>

named_theorems results \<open>inversion of successful fallible operations\<close>
named_theorems unats \<open>reading fixed-width arithmetic as arithmetic on nat\<close>

type_synonym u8 = "8 word"
type_synonym u32 = "32 word"
type_synonym u64 = "64 word"
type_synonym u128 = "128 word"
type_synonym i64 = "64 word"

section \<open>Results\<close>

definition try_bind :: "'e + 'a \<Rightarrow> ('a \<Rightarrow> 'e + 'b) \<Rightarrow> 'e + 'b" where
  "try_bind r f = (case r of Inl e \<Rightarrow> Inl e | Inr a \<Rightarrow> f a)"

definition map_err :: "('e \<Rightarrow> 'f) \<Rightarrow> 'e + 'a \<Rightarrow> 'f + 'a" where
  "map_err g r = (case r of Inl e \<Rightarrow> Inl (g e) | Inr a \<Rightarrow> Inr a)"

definition map_ok :: "('a \<Rightarrow> 'b) \<Rightarrow> 'e + 'a \<Rightarrow> 'e + 'b" where
  "map_ok g r = (case r of Inl e \<Rightarrow> Inl e | Inr a \<Rightarrow> Inr (g a))"

definition ok_or :: "'e \<Rightarrow> 'a option \<Rightarrow> 'e + 'a" where
  "ok_or e x = (case x of None \<Rightarrow> Inl e | Some a \<Rightarrow> Inr a)"

definition ensure :: "bool \<Rightarrow> 'e \<Rightarrow> 'e + unit" where
  "ensure b e = (if b then Inr () else Inl e)"

fun is_ok :: "'e + 'a \<Rightarrow> bool" where
  "is_ok (Inr _) = True"
| "is_ok (Inl _) = False"

fun try_fold :: "('s \<Rightarrow> 'a \<Rightarrow> 'e + 's) \<Rightarrow> 's \<Rightarrow> 'a list \<Rightarrow> 'e + 's" where
  "try_fold f s [] = Inr s"
| "try_fold f s (x # xs) = (case f s x of Inl e \<Rightarrow> Inl e | Inr s' \<Rightarrow> try_fold f s' xs)"

fun try_map :: "('a \<Rightarrow> 'e + 'b) \<Rightarrow> 'a list \<Rightarrow> 'e + 'b list" where
  "try_map f [] = Inr []"
| "try_map f (x # xs) =
     (case f x of Inl e \<Rightarrow> Inl e
      | Inr y \<Rightarrow> (case try_map f xs of Inl e \<Rightarrow> Inl e | Inr ys \<Rightarrow> Inr (y # ys)))"

lemma try_bind_simps [simp]:
  "try_bind (Inl e) f = Inl e" "try_bind (Inr a) f = f a"
  by (simp_all add: try_bind_def)

lemma try_bind_Inr_iff [results]:
  "try_bind r f = Inr b \<longleftrightarrow> (\<exists>a. r = Inr a \<and> f a = Inr b)"
  by (cases r) auto

lemma map_err_simps [simp]:
  "map_err g (Inl e) = Inl (g e)" "map_err g (Inr a) = Inr a"
  by (simp_all add: map_err_def)

lemma map_err_Inr_iff [results]: "map_err g r = Inr a \<longleftrightarrow> r = Inr a"
  by (cases r) auto

lemma map_ok_simps [simp]:
  "map_ok g (Inl e) = Inl e" "map_ok g (Inr a) = Inr (g a)"
  by (simp_all add: map_ok_def)

lemma map_ok_Inr_iff [results]: "map_ok g r = Inr b \<longleftrightarrow> (\<exists>a. r = Inr a \<and> b = g a)"
  by (cases r) auto

lemma ok_or_simps [simp]: "ok_or e None = Inl e" "ok_or e (Some a) = Inr a"
  by (simp_all add: ok_or_def)

lemma ok_or_Inr_iff [results]: "ok_or e x = Inr a \<longleftrightarrow> x = Some a"
  by (cases x) auto

lemma ensure_Inr_iff [results]: "ensure b e = Inr u \<longleftrightarrow> b"
  by (simp add: ensure_def)

lemma is_ok_iff: "is_ok r \<longleftrightarrow> (\<exists>a. r = Inr a)"
  by (cases r) auto

lemma ensure_simps [simp]: "ensure True e = Inr ()" "ensure False e = Inl e"
  by (simp_all add: ensure_def)

lemma try_fold_append:
  "try_fold f s (xs @ ys) = try_bind (try_fold f s xs) (\<lambda>s'. try_fold f s' ys)"
  by (induction xs arbitrary: s) (auto split: sum.splits)

lemma try_fold_Cons_Inr:
  "try_fold f s (x # xs) = Inr s' \<longleftrightarrow> (\<exists>t. f s x = Inr t \<and> try_fold f t xs = Inr s')"
  by (cases "f s x") simp_all

lemma try_fold_snoc_Inr:
  "try_fold f s (xs @ [x]) = Inr s' \<longleftrightarrow> (\<exists>t. try_fold f s xs = Inr t \<and> f t x = Inr s')"
  by (cases "try_fold f s xs") (auto simp: try_fold_append split: sum.splits)

lemma map_ok_try_bind: "map_ok f (try_bind r g) = try_bind r (\<lambda>a. map_ok f (g a))"
  by (cases r) simp_all

lemma map_ok_id: "map_ok (\<lambda>x. x) r = r"
  by (cases r) simp_all

lemma fold_preserves: "P s \<Longrightarrow> (\<And>x s. P s \<Longrightarrow> P (f x s)) \<Longrightarrow> P (fold f xs s)"
  by (induction xs arbitrary: s) auto

lemma find_None_all: "List.find P xs = None \<longleftrightarrow> (\<forall>x \<in> set xs. \<not> P x)"
  by (auto simp: find_None_iff)

text \<open>The invariant rule of a loop with early return.\<close>

lemma try_fold_invariant:
  assumes "try_fold f s xs = Inr s'" and "P s"
    and step: "\<And>t x t'. x \<in> set xs \<Longrightarrow> P t \<Longrightarrow> f t x = Inr t' \<Longrightarrow> P t'"
  shows "P s'"
  using assms
proof (induction xs arbitrary: s)
  case Nil
  then show ?case by simp
next
  case (Cons x xs)
  from Cons.prems(1) obtain t where t: "f s x = Inr t" "try_fold f t xs = Inr s'"
    by (auto split: sum.splits)
  with Cons.prems(2,3) have "P t" by auto
  then show ?case
    using Cons.IH [OF t(2)] Cons.prems(3) by auto
qed

text \<open>A loop under an invariant that excludes every error of the body returns.\<close>

lemma try_fold_ok:
  assumes "P s"
    and step: "\<And>t x. x \<in> set xs \<Longrightarrow> P t \<Longrightarrow> \<exists>t'. f t x = Inr t' \<and> P t'"
  shows "\<exists>s'. try_fold f s xs = Inr s' \<and> P s'"
  using assms
proof (induction xs arbitrary: s)
  case Nil
  then show ?case by simp
next
  case (Cons x xs)
  from Cons.prems obtain t where "f s x = Inr t" "P t" by fastforce
  with Cons show ?case by auto
qed

lemma try_map_Inr_iff [results]:
  "try_map f xs = Inr ys \<longleftrightarrow> list_all2 (\<lambda>x y. f x = Inr y) xs ys"
proof (induction xs arbitrary: ys)
  case (Cons x xs)
  then show ?case
    by (cases "try_map f xs") (auto split: sum.splits simp: list_all2_Cons1)
qed auto

text \<open>Loops that refuse a repetition, and loops that only check.\<close>

lemma try_fold_distinct:
  assumes "\<And>S x S'. f S x = Inr S' \<longleftrightarrow> P x \<and> k x \<notin> S \<and> S' = insert (k x) S"
  shows "try_fold f S xs = Inr S' \<longleftrightarrow>
     (\<forall>x \<in> set xs. P x) \<and> distinct (map k xs) \<and> k ` set xs \<inter> S = {} \<and> S' = S \<union> k ` set xs"
proof (induction xs arbitrary: S)
  case (Cons x xs)
  show ?case unfolding try_fold_Cons_Inr assms by (auto simp: Cons)
qed auto

lemma try_fold_check: "try_fold (\<lambda>_. f) () xs = Inr () \<longleftrightarrow> (\<forall>x \<in> set xs. f x = Inr ())"
proof (induction xs)
  case (Cons x xs)
  then show ?case by (cases "f x") auto
qed simp

lemma try_map_length: "try_map f xs = Inr ys \<Longrightarrow> length ys = length xs"
  by (auto simp: results dest: list_all2_lengthD)

lemma try_map_ok: "(\<And>x. x \<in> set xs \<Longrightarrow> f x = Inr (g x)) \<Longrightarrow> try_map f xs = Inr (map g xs)"
  by (induction xs) auto

section \<open>Fixed-width arithmetic\<close>

definition max_u :: "'a::len word" where
  "max_u = - 1"

definition checked_add :: "'a::len word \<Rightarrow> 'a word \<Rightarrow> 'a word option" where
  "checked_add a b = (if unat a + unat b < 2 ^ LENGTH('a) then Some (a + b) else None)"

definition checked_sub :: "'a::len word \<Rightarrow> 'a word \<Rightarrow> 'a word option" where
  "checked_sub a b = (if b \<le> a then Some (a - b) else None)"

definition checked_mul :: "'a::len word \<Rightarrow> 'a word \<Rightarrow> 'a word option" where
  "checked_mul a b = (if unat a * unat b < 2 ^ LENGTH('a) then Some (a * b) else None)"

definition saturating_add :: "'a::len word \<Rightarrow> 'a word \<Rightarrow> 'a word" where
  "saturating_add a b = (case checked_add a b of None \<Rightarrow> max_u | Some c \<Rightarrow> c)"

definition saturating_mul :: "'a::len word \<Rightarrow> 'a word \<Rightarrow> 'a word" where
  "saturating_mul a b = (case checked_mul a b of None \<Rightarrow> max_u | Some c \<Rightarrow> c)"

definition div_ceil :: "'a::len word \<Rightarrow> 'a word \<Rightarrow> 'a word" where
  "div_ceil a b = (if 0 < a mod b then a div b + 1 else a div b)"

definition nat_div_ceil :: "nat \<Rightarrow> nat \<Rightarrow> nat" where
  "nat_div_ceil a b = (if 0 < a mod b then a div b + 1 else a div b)"

lemma unat_max_u [unats]: "unat (max_u :: 'a::len word) = 2 ^ LENGTH('a) - 1"
  by (simp add: max_u_def unsigned_minus_1_eq_mask mask_eq_exp_minus_1)

lemma unat_lt [simp]: "unat (x :: 'a::len word) < 2 ^ LENGTH('a)"
  by (rule unsigned_less)

lemma unat_u64_lt: "unat (x :: u64) < 2 ^ 64"
  using unat_lt [of x] by simp

lemma unat_u128_lt: "unat (x :: u128) < 2 ^ 128"
  using unat_lt [of x] by simp

text \<open>\<open>u64::try_from\<close> on a \<open>u128\<close>.\<close>

definition u64_try_from :: "u128 \<Rightarrow> u64 option" where
  "u64_try_from x = (if unat x < 2 ^ 64 then Some (ucast x) else None)"

lemma u64_try_from_le: "u64_try_from x = (if x \<le> ucast (max_u :: u64) then Some (ucast x) else None)"
proof -
  have "unat (ucast (max_u :: u64) :: u128) = 2 ^ 64 - 1"
    by (simp add: unsigned_ucast_eq unat_max_u take_bit_nat_eq_self)
  then show ?thesis by (simp add: u64_try_from_def word_le_nat_alt)
qed

lemma unat_le_max: "unat (x :: 'a::len word) \<le> 2 ^ LENGTH('a) - 1"
  using unat_lt [of x] by linarith

lemma checked_add_Some [unats]: "checked_add a b = Some c \<Longrightarrow> unat c = unat a + unat b"
  by (auto simp: checked_add_def unat_word_ariths split: if_splits)

lemma checked_add_None:
  "checked_add a b = None \<longleftrightarrow> 2 ^ LENGTH('a) \<le> unat (a :: 'a::len word) + unat b"
  by (auto simp: checked_add_def)

lemma checked_mul_Some [unats]: "checked_mul a b = Some c \<Longrightarrow> unat c = unat a * unat b"
  by (auto simp: checked_mul_def unat_word_ariths split: if_splits)

lemma checked_mul_None:
  "checked_mul a b = None \<longleftrightarrow> 2 ^ LENGTH('a) \<le> unat (a :: 'a::len word) * unat b"
  by (auto simp: checked_mul_def)

lemma checked_sub_Some [unats]: "checked_sub a b = Some c \<Longrightarrow> unat c = unat a - unat b"
  by (auto simp: checked_sub_def unat_sub split: if_splits)

lemma unat_saturating_add [unats]:
  "unat (saturating_add a b) = min (unat a + unat b) (2 ^ LENGTH('a) - 1)"
  for a b :: "'a::len word"
proof (cases "checked_add a b")
  case None
  then have "2 ^ LENGTH('a) \<le> unat a + unat b" by (simp add: checked_add_None)
  then have "\<not> unat a + unat b \<le> 2 ^ LENGTH('a) - 1"
    using zero_less_power [of "2 :: nat" "LENGTH('a)"] by linarith
  with None show ?thesis by (simp add: saturating_add_def unat_max_u min_def)
next
  case (Some c)
  then show ?thesis
    using unat_le_max [of c]
    by (simp add: saturating_add_def min_def checked_add_Some)
qed

lemma unat_saturating_mul [unats]:
  "unat (saturating_mul a b) = min (unat a * unat b) (2 ^ LENGTH('a) - 1)"
  for a b :: "'a::len word"
proof (cases "checked_mul a b")
  case None
  then have "2 ^ LENGTH('a) \<le> unat a * unat b" by (simp add: checked_mul_None)
  then have "\<not> unat a * unat b \<le> 2 ^ LENGTH('a) - 1"
    using zero_less_power [of "2 :: nat" "LENGTH('a)"] by linarith
  with None show ?thesis by (simp add: saturating_mul_def unat_max_u min_def)
next
  case (Some c)
  then show ?thesis
    using unat_le_max [of c]
    by (simp add: saturating_mul_def min_def checked_mul_Some)
qed

text \<open>Saturation as a map on the naturals: saturating sums and products of saturated values are the
  saturated sums and products.\<close>

definition sat64 :: "nat \<Rightarrow> nat" where
  "sat64 n = min n (2 ^ 64 - 1)"

lemma sat64_idem [simp]: "sat64 (sat64 n) = sat64 n"
  by (simp add: sat64_def)

lemma sat64_add [simp]: "sat64 (sat64 a + b) = sat64 (a + b)" "sat64 (a + sat64 b) = sat64 (a + b)"
  by (simp_all add: sat64_def min_def)

lemma sat64_Suc [simp]: "sat64 (Suc (sat64 n)) = sat64 (Suc n)"
  using sat64_add(2) [of 1 n] by simp

lemma sat64_mult_right [simp]: "sat64 (sat64 a * b) = sat64 (a * b)"
proof (cases "a \<le> 2 ^ 64 - 1 \<or> b = 0")
  case True
  then show ?thesis by (auto simp: sat64_def)
next
  case False
  then have "2 ^ 64 - 1 \<le> (2 ^ 64 - 1) * b" "2 ^ 64 - 1 \<le> a * b"
    using mult_le_mono [of "2 ^ 64 - 1" a 1 b] mult_le_mono [of "2 ^ 64 - 1" "2 ^ 64 - 1" 1 b]
    by simp_all
  with False show ?thesis by (simp add: sat64_def min_def)
qed

lemma sat64_mult_left [simp]: "sat64 (a * sat64 b) = sat64 (a * b)"
  using sat64_mult_right [of b a] by (simp only: mult.commute)

lemma unat_sat64 [simp]: "sat64 (unat (x :: u64)) = unat x"
  using unat_le_max [of x] by (simp add: sat64_def min_def)

lemma unat_saturating_add64: "unat (saturating_add a b) = sat64 (unat a + unat (b :: u64))"
  by (simp add: unat_saturating_add sat64_def)

lemma unat_saturating_mul64: "unat (saturating_mul a b) = sat64 (unat a * unat (b :: u64))"
  by (simp add: unat_saturating_mul sat64_def)

lemma unat_fold_saturating:
  "unat (fold (\<lambda>x s. saturating_add s (f x)) xs a) = sat64 (unat a + (\<Sum>x \<leftarrow> xs. unat (f x :: u64)))"
  by (induction xs arbitrary: a) (simp_all add: unat_saturating_add64 add.assoc)

lemma sat64_sum_list: "sat64 (a + (\<Sum>x \<leftarrow> xs. sat64 (f x))) = sat64 (a + (\<Sum>x \<leftarrow> xs. f x))"
proof (induction xs arbitrary: a)
  case (Cons x xs)
  have "sat64 (a + (sat64 (f x) + (\<Sum>x \<leftarrow> xs. sat64 (f x))))
      = sat64 ((a + sat64 (f x)) + (\<Sum>x \<leftarrow> xs. sat64 (f x)))"
    by (simp only: add.assoc)
  also have "\<dots> = sat64 ((a + sat64 (f x)) + (\<Sum>x \<leftarrow> xs. f x))" by (rule Cons.IH)
  also have "\<dots> = sat64 ((a + (\<Sum>x \<leftarrow> xs. f x)) + sat64 (f x))" by (simp only: ac_simps)
  also have "\<dots> = sat64 (a + (\<Sum>x \<leftarrow> xs. f x) + f x)" by (simp only: sat64_add)
  finally show ?case by (simp add: ac_simps)
qed simp

lemma unat_fold_sat64:
  assumes "\<And>x. x \<in> set xs \<Longrightarrow> unat (f x :: u64) = sat64 (g x)"
  shows "unat (fold (\<lambda>x s. saturating_add s (f x)) xs a) = sat64 (unat a + (\<Sum>x \<leftarrow> xs. g x))"
proof -
  have "(\<Sum>x \<leftarrow> xs. unat (f x)) = (\<Sum>x \<leftarrow> xs. sat64 (g x))"
    using assms by (intro arg_cong [where f = sum_list]) simp
  then show ?thesis by (simp only: unat_fold_saturating sat64_sum_list)
qed

text \<open>A checked running sum: it succeeds exactly when the exact sum has the width.\<close>

lemma checked_add_Some_iff: "checked_add a b = Some c \<longleftrightarrow> unat c = unat a + unat b"
  for a b c :: "'a::len word"
proof
  assume "unat c = unat a + unat b"
  then have "unat a + unat b < 2 ^ LENGTH('a)" by (metis unat_lt)
  then have "checked_add a b = Some (a + b)" by (simp add: checked_add_def)
  moreover from this have "unat (a + b) = unat c"
    using \<open>unat c = unat a + unat b\<close> by (simp add: checked_add_Some)
  ultimately show "checked_add a b = Some c" by (simp add: word_unat_eq_iff)
qed (rule checked_add_Some)

lemma checked_mul_Some_iff: "checked_mul a b = Some c \<longleftrightarrow> unat c = unat a * unat b"
proof
  assume c: "unat c = unat a * unat b"
  then have "checked_mul a b \<noteq> None" using unat_lt [of c] by (simp add: checked_mul_None)
  then obtain d where d: "checked_mul a b = Some d" by blast
  with checked_mul_Some [OF d] c show "checked_mul a b = Some c" by (simp add: word_unat_eq_iff)
qed (rule checked_mul_Some)

lemma try_fold_checked_add [unats]:
  "try_fold (\<lambda>acc c. ok_or e (checked_add acc c)) a xs = Inr t \<longleftrightarrow>
     unat t = unat a + sum_list (map unat xs)"
  for a t :: "'a::len word"
proof (induction xs arbitrary: a)
  case Nil
  then show ?case by (auto simp: word_unat_eq_iff)
next
  case (Cons x xs)
  show ?case
  proof (cases "checked_add a x")
    case None
    then have "2 ^ LENGTH('a) \<le> unat a + unat x" by (simp add: checked_add_None)
    then have "unat t \<noteq> unat a + sum_list (map unat (x # xs))"
      using unat_lt [of t] by (simp only: list.map sum_list.Cons)
    with None show ?thesis by simp
  next
    case (Some c)
    with Cons show ?thesis by (simp add: checked_add_Some add.assoc)
  qed
qed

lemma div_ceil_bound: "nat_div_ceil a b \<le> a" if "0 < b"
proof (cases "b = 1")
  case False
  with that have "2 \<le> b" by simp
  show ?thesis
  proof (cases "a < b")
    case True
    then show ?thesis by (auto simp: nat_div_ceil_def)
  next
    case False
    with \<open>2 \<le> b\<close> have "a div b < a" by simp
    then show ?thesis by (simp add: nat_div_ceil_def)
  qed
qed (simp add: nat_div_ceil_def)

lemma unat_div_ceil [unats]:
  "0 < unat b \<Longrightarrow> unat (div_ceil a b) = nat_div_ceil (unat a) (unat b)"
  for a b :: "'a::len word"
proof -
  assume b: "0 < unat b"
  have pos: "0 < a mod b \<longleftrightarrow> 0 < unat a mod unat b"
    by (metis unat_gt_0 unat_mod_distrib word_neq_0_conv)
  have "unat (a div b + 1) = unat a div unat b + 1" if "0 < unat a mod unat b"
  proof -
    have "unat a div unat b + 1 \<le> unat a"
      using div_ceil_bound [OF b, of "unat a"] that by (simp add: nat_div_ceil_def)
    then have "unat a div unat b + 1 < 2 ^ LENGTH('a)"
      using unat_lt [of a] by linarith
    then show ?thesis by (simp add: unat_word_ariths unat_div_distrib)
  qed
  with pos show ?thesis by (auto simp: div_ceil_def nat_div_ceil_def unat_div_distrib)
qed

text \<open>The rounded-up quotient is the least number whose product reaches the dividend.\<close>

lemma nat_div_ceil_le_iff: "0 < b \<Longrightarrow> nat_div_ceil a b \<le> q \<longleftrightarrow> a \<le> q * b"
proof -
  assume b: "0 < b"
  have eq: "a = a div b * b + a mod b" by simp
  have r: "a mod b < b" using b by simp
  show ?thesis
  proof
    assume "nat_div_ceil a b \<le> q"
    then have "0 < a mod b \<Longrightarrow> a div b + 1 \<le> q" and "a div b \<le> q"
      by (auto simp: nat_div_ceil_def split: if_splits)
    then show "a \<le> q * b"
    proof (cases "0 < a mod b")
      case True
      then have "(a div b + 1) * b \<le> q * b"
        using \<open>0 < a mod b \<Longrightarrow> a div b + 1 \<le> q\<close> by (intro mult_le_mono1)
      moreover have "a \<le> a div b * b + b" using eq r by linarith
      then have "a \<le> (a div b + 1) * b" by (simp only: add_mult_distrib mult_1)
      ultimately show ?thesis by linarith
    next
      case False
      then have "a = a div b * b" using eq by simp
      then show ?thesis using mult_le_mono1 [OF \<open>a div b \<le> q\<close>] by metis
    qed
  next
    assume le: "a \<le> q * b"
    show "nat_div_ceil a b \<le> q"
    proof (rule ccontr)
      assume "\<not> nat_div_ceil a b \<le> q"
      then have "q < a div b \<or> (q \<le> a div b \<and> 0 < a mod b)"
        by (auto simp: nat_div_ceil_def split: if_splits)
      then have "q * b < a"
      proof
        assume "q < a div b"
        then have "q * b < a div b * b" using b by simp
        with eq show ?thesis by linarith
      next
        assume "q \<le> a div b \<and> 0 < a mod b"
        then have "q * b \<le> a div b * b" "0 < a mod b" by simp_all
        with eq show ?thesis by linarith
      qed
      with le show False by simp
    qed
  qed
qed

lemma nat_div_ceil_mono: "0 < b \<Longrightarrow> a \<le> a' \<Longrightarrow> nat_div_ceil a b \<le> nat_div_ceil a' b"
  by (meson dual_order.trans nat_div_ceil_le_iff order_refl)

section \<open>Text\<close>

text \<open>A Rust string is a sequence of bytes, here a list of characters below 256.\<close>

definition byte_of :: "char \<Rightarrow> nat" where
  "byte_of c = of_char c"

definition is_ascii_lowercase :: "char \<Rightarrow> bool" where
  "is_ascii_lowercase c \<longleftrightarrow> 97 \<le> byte_of c \<and> byte_of c \<le> 122"

definition is_ascii_digit :: "char \<Rightarrow> bool" where
  "is_ascii_digit c \<longleftrightarrow> 48 \<le> byte_of c \<and> byte_of c \<le> 57"

text \<open>\<open>chars().count()\<close> on valid UTF-8: the bytes that do not continue a scalar value.\<close>

definition chars_count :: "string \<Rightarrow> nat" where
  "chars_count s = length (filter (\<lambda>c. byte_of c div 64 \<noteq> 2) s)"

definition digit_char :: "nat \<Rightarrow> char" where
  "digit_char d = char_of (48 + d)"

fun show_nat :: "nat \<Rightarrow> string" where
  "show_nat n = (if n < 10 then [digit_char n] else show_nat (n div 10) @ [digit_char (n mod 10)])"

declare show_nat.simps [simp del]

fun starts_with :: "string \<Rightarrow> string \<Rightarrow> bool" where
  "starts_with s [] = True"
| "starts_with [] (p # ps) = False"
| "starts_with (c # s) (p # ps) = (c = p \<and> starts_with s ps)"

lemma starts_with_iff: "starts_with s p \<longleftrightarrow> (\<exists>r. s = p @ r)"
  by (induction s p rule: starts_with.induct) auto

lemma starts_with_append [simp]: "starts_with (p @ r) p"
  by (auto simp: starts_with_iff)

lemma chars_count_le: "chars_count s \<le> length s"
  by (simp add: chars_count_def)

lemma show_nat_nonempty [simp]: "show_nat n \<noteq> []"
  by (subst show_nat.simps) simp

text \<open>\<open>format!("{contesto}: {messaggio}")\<close>.\<close>

definition con_prefisso :: "string \<Rightarrow> string \<Rightarrow> string" where
  "con_prefisso contesto messaggio = contesto @ '': '' @ messaggio"

end
