(* ===== verification/BTree.thy ===== *)
theory BTree
  imports Prelude "HOL-Library.Char_ord" "HOL-Library.List_Lexorder"
begin

text \<open>
  \<open>std::collections::BTreeMap\<close> as the code uses it: an association list in strictly increasing key
  order, so that iteration (\<open>iter\<close>, \<open>keys\<close>, \<open>values\<close>) visits the keys in order. Strings compare as
  Rust's \<open>str\<close> does, byte by byte (the lexicographic order of \<open>List_Lexorder\<close> over \<open>Char_ord\<close>).

  The locale \<open>map_ops\<close> is the interface the components rely on: what a lookup returns after an
  insertion, a removal or a run of removals, and which keys the map has. It is interpreted on the
  ordered list as \<open>bt\<close>.
\<close>

section \<open>The interface\<close>

locale map_ops =
  fixes empty :: "'m"
    and get :: "'m \<Rightarrow> 'k \<Rightarrow> 'v option"
    and insert_at :: "'k \<Rightarrow> 'v \<Rightarrow> 'm \<Rightarrow> 'm"
    and remove_at :: "'k \<Rightarrow> 'm \<Rightarrow> 'm"
    and keys :: "'m \<Rightarrow> 'k list"
    and wf :: "'m \<Rightarrow> bool"
  assumes get_empty: "get empty k = None"
    and get_insert: "get (insert_at k v m) k' = (if k' = k then Some v else get m k')"
    and get_remove: "get (remove_at k m) k' = (if k' = k then None else get m k')"
    and keys_get: "k \<in> set (keys m) \<longleftrightarrow> get m k \<noteq> None"
    and wf_empty: "wf empty"
    and wf_insert: "wf m \<Longrightarrow> wf (insert_at k v m)"
    and wf_remove: "wf m \<Longrightarrow> wf (remove_at k m)"
    and wf_distinct: "wf m \<Longrightarrow> distinct (keys m)"
begin

lemma get_insert_same [simp]: "get (insert_at k v m) k = Some v"
  by (simp add: get_insert)

lemma get_insert_other [simp]: "k' \<noteq> k \<Longrightarrow> get (insert_at k v m) k' = get m k'"
  by (simp add: get_insert)

lemma keys_insert: "set (keys (insert_at k v m)) = insert k (set (keys m))"
  by (auto simp: keys_get get_insert split: if_splits)

lemma keys_remove: "set (keys (remove_at k m)) = set (keys m) - {k}"
  by (auto simp: keys_get get_remove split: if_splits)

lemma keys_empty: "k \<notin> set (keys empty)"
  by (simp add: keys_get get_empty)

lemma get_remove_all: "get (fold remove_at ks m) k = (if k \<in> set ks then None else get m k)"
  by (induction ks arbitrary: m) (auto simp: get_remove)

lemma keys_remove_all: "set (keys (fold remove_at ks m)) = set (keys m) - set ks"
  by (auto simp: keys_get get_remove_all split: if_splits)

lemma wf_remove_all: "wf m \<Longrightarrow> wf (fold remove_at ks m)"
  by (induction ks arbitrary: m) (auto simp: wf_remove)

text \<open>A map has at most as many keys as any set that contains them.\<close>

lemma length_keys: "wf m \<Longrightarrow> set (keys m) = S \<Longrightarrow> length (keys m) = card S"
  using distinct_card wf_distinct by metis

end

section \<open>The ordered list\<close>

type_synonym ('k, 'v) btree = "('k \<times> 'v) list"

definition bt_get :: "('k::linorder, 'v) btree \<Rightarrow> 'k \<Rightarrow> 'v option" where
  "bt_get m k = map_of m k"

fun bt_insert :: "'k::linorder \<Rightarrow> 'v \<Rightarrow> ('k, 'v) btree \<Rightarrow> ('k, 'v) btree" where
  "bt_insert k v [] = [(k, v)]"
| "bt_insert k v ((k', v') # m) =
     (if k < k' then (k, v) # (k', v') # m
      else if k = k' then (k, v) # m
      else (k', v') # bt_insert k v m)"

definition bt_remove :: "'k::linorder \<Rightarrow> ('k, 'v) btree \<Rightarrow> ('k, 'v) btree" where
  "bt_remove k m = filter (\<lambda>kv. fst kv \<noteq> k) m"

definition bt_keys :: "('k::linorder, 'v) btree \<Rightarrow> 'k list" where
  "bt_keys m = map fst m"

definition bt_values :: "('k::linorder, 'v) btree \<Rightarrow> 'v list" where
  "bt_values m = map snd m"

definition bt_wf :: "('k::linorder, 'v) btree \<Rightarrow> bool" where
  "bt_wf m \<longleftrightarrow> sorted_wrt (<) (map fst m)"

text \<open>\<open>entry(k).or_insert(v)\<close>: the value stays if the key is there.\<close>

definition bt_or_insert :: "'k::linorder \<Rightarrow> 'v \<Rightarrow> ('k, 'v) btree \<Rightarrow> ('k, 'v) btree" where
  "bt_or_insert k v m = (case bt_get m k of None \<Rightarrow> bt_insert k v m | Some _ \<Rightarrow> m)"

lemma map_of_bt_insert: "map_of (bt_insert k v m) = (map_of m)(k \<mapsto> v)"
  by (induction k v m rule: bt_insert.induct) (auto simp: fun_eq_iff)

lemma map_of_bt_remove: "map_of (bt_remove k m) = (map_of m)(k := None)"
  by (induction m) (auto simp: bt_remove_def fun_eq_iff)

lemma fst_set_bt_insert: "fst ` set (bt_insert k v m) = insert k (fst ` set m)"
  by (induction k v m rule: bt_insert.induct) auto

lemma bt_wf_insert: "bt_wf m \<Longrightarrow> bt_wf (bt_insert k v m)"
proof (induction k v m rule: bt_insert.induct)
  case (2 k v k' v' m)
  then have IH: "\<not> k < k' \<Longrightarrow> k \<noteq> k' \<Longrightarrow> bt_wf (bt_insert k v m)"
    by (simp add: bt_wf_def)
  consider "k < k'" | "k = k'" | "\<not> k < k'" "k \<noteq> k'" by blast
  then show ?case
  proof cases
    case 3
    have "\<forall>x \<in> fst ` set (bt_insert k v m). k' < x"
      using 3 "2.prems" by (auto simp: fst_set_bt_insert bt_wf_def)
    with 3 IH show ?thesis by (simp add: bt_wf_def)
  qed (use "2.prems" in \<open>auto simp: bt_wf_def\<close>)
qed (simp add: bt_wf_def)

lemma bt_wf_remove: "bt_wf m \<Longrightarrow> bt_wf (bt_remove k m)"
  by (induction m) (auto simp: bt_wf_def bt_remove_def)

lemma bt_wf_distinct: "bt_wf m \<Longrightarrow> distinct (bt_keys m)"
  by (simp add: bt_wf_def bt_keys_def strict_sorted_iff)

interpretation bt: map_ops "[]" bt_get bt_insert bt_remove bt_keys bt_wf
proof unfold_locales
  show "bt_get [] k = None" for k :: "'a::linorder"
    by (simp add: bt_get_def)
  show "bt_get (bt_insert k v m) k' = (if k' = k then Some v else bt_get m k')"
    for k k' :: "'a::linorder" and v :: 'b and m
    by (simp add: bt_get_def map_of_bt_insert)
  show "bt_get (bt_remove k m) k' = (if k' = k then None else bt_get m k')"
    for k k' :: "'a::linorder" and m :: "('a, 'b) btree"
    by (simp add: bt_get_def map_of_bt_remove)
  show "k \<in> set (bt_keys m) \<longleftrightarrow> bt_get m k \<noteq> None" for k :: "'a::linorder" and m :: "('a, 'b) btree"
    by (force simp: bt_keys_def bt_get_def map_of_eq_None_iff)
qed (auto simp: bt_wf_insert bt_wf_remove bt_wf_distinct, simp add: bt_wf_def)

lemmas bt_simps = bt.get_empty bt.get_insert bt.get_remove bt.get_remove_all
lemmas bt_keys_simps = bt.keys_empty bt.keys_insert bt.keys_remove bt.keys_remove_all

text \<open>Two maps with the same lookups are the same list.\<close>

lemma bt_ext:
  assumes "bt_wf m" "bt_wf m'" "\<And>k. bt_get m k = bt_get m' k"
  shows "m = m'"
  using assms map_sorted_distinct_set_unique [of fst m m']
    map_of_inject_set [of m m']
  by (simp add: bt_wf_def bt_get_def strict_sorted_iff fun_eq_iff inj_on_def)
     (metis eq_key_imp_eq_value prod.collapse)

lemma bt_get_or_insert:
  "bt_get (bt_or_insert k v m) k' =
     (if k' = k \<and> bt_get m k = None then Some v else bt_get m k')"
  by (auto simp: bt_or_insert_def bt.get_insert split: option.splits)

lemma bt_wf_or_insert: "bt_wf m \<Longrightarrow> bt_wf (bt_or_insert k v m)"
  by (auto simp: bt_or_insert_def bt_wf_insert split: option.splits)

lemma bt_values_iff: "bt_wf m \<Longrightarrow> v \<in> set (bt_values m) \<longleftrightarrow> (\<exists>k. bt_get m k = Some v)"
  by (force simp: bt_values_def bt_get_def bt_wf_def strict_sorted_iff image_iff
      dest: map_of_SomeD)

text \<open>
  The values after an insertion under a fresh key, and after a removal, as multisets: what a sum
  over the values needs.
\<close>

lemma bt_values_insert_fresh:
  "bt_get m k = None \<Longrightarrow> set (bt_values (bt_insert k v m)) = insert v (set (bt_values m))"
  by (induction k v m rule: bt_insert.induct)
     (auto simp: bt_values_def bt_get_def split: if_splits)

lemma bt_values_remove: "set (bt_values (bt_remove k m)) \<subseteq> set (bt_values m)"
  by (auto simp: bt_values_def bt_remove_def)

end
