(* ===== verification/Diagnostics.thy ===== *)
theory Diagnostics
  imports BTree
begin

text \<open>
  The row diagnostics of \<open>crates/plenora-core/src/diagnostics.rs\<close>: the payload
  \<open>plenora-row-diagnostics-v1\<close>, its validator \<open>validate_for_emission\<close> and \<open>senza_attribuzione\<close>, which
  drops the examples of a payload whose rows are not rows of the source.

  Records and datatypes have the fields and variants of the code. Counters are \<open>u64\<close>; the validator
  is one definition per block of the Rust function, composed by \<open>validate_for_emission\<close> in its order,
  with the messages of the code as its errors.
\<close>

section \<open>Data\<close>

definition ROW_DIAGNOSTICS_CONTRACT :: string where
  "ROW_DIAGNOSTICS_CONTRACT = ''plenora-row-diagnostics-v1''"

definition ROW_DIAGNOSTICS_INDEX_BASIS :: string where
  "ROW_DIAGNOSTICS_INDEX_BASIS = ''source_row_zero_based''"

definition KNOWLEDGE_LIMIT_ROW_ATTRIBUTION_UNAVAILABLE :: string where
  "KNOWLEDGE_LIMIT_ROW_ATTRIBUTION_UNAVAILABLE = ''read.row_attribution_unavailable''"

datatype row_diagnostic_scope = ScopeRead | ScopeWrite

datatype row_diagnostics_completeness = Complete | Partial | Unknown

datatype row_diagnostic_key_state = KeyValue | KeyRedacted | KeyUnavailable

datatype row_diagnostic_key_value = KString string | KInteger i64 | KBoolean bool

record row_diagnostic_key =
  key_field :: string
  key_state :: row_diagnostic_key_state
  key_value :: "row_diagnostic_key_value option"

datatype row_diagnostic_write_state =
  CertainlyRejected | CertainlyNotAttempted | CertainlyRolledBack | EffectUnknown

record row_diagnostic_example =
  source_index :: u64
  cause :: string
  column :: "string option"
  example_key :: "row_diagnostic_key option"
  write_state :: "row_diagnostic_write_state option"

datatype known_or_unknown_count = Known u64 | UnknownCount

record write_diagnostic_state_counts =
  sc_certainly_rejected :: u64
  sc_certainly_not_attempted :: u64
  sc_certainly_rolled_back :: u64
  sc_effect_unknown :: u64

record row_diagnostic_write_outcome =
  wo_certainly_rejected :: known_or_unknown_count
  wo_certainly_not_attempted :: known_or_unknown_count
  wo_certainly_rolled_back :: known_or_unknown_count
  wo_effect_unknown :: known_or_unknown_count

record row_diagnostics =
  contract :: string
  scope :: row_diagnostic_scope
  index_basis :: string
  completeness :: row_diagnostics_completeness
  knowledge_limits :: "string list option"
  observed_total :: u64
  total :: "u64 option"
  input_total :: "u64 option"
  counts :: "(string, u64) btree"
  examples_limit :: u64
  examples_truncated :: bool
  examples :: "row_diagnostic_example list"
  diagnostic_state_counts :: "write_diagnostic_state_counts option"
  write_outcome :: "row_diagnostic_write_outcome option"

definition write_state_index :: "row_diagnostic_write_state \<Rightarrow> nat" where
  "write_state_index s = (case s of
     CertainlyRejected \<Rightarrow> 0 | CertainlyNotAttempted \<Rightarrow> 1
   | CertainlyRolledBack \<Rightarrow> 2 | EffectUnknown \<Rightarrow> 3)"

section \<open>Codes\<close>

fun split_on :: "char \<Rightarrow> string \<Rightarrow> string list" where
  "split_on c [] = [[]]"
| "split_on c (x # xs) =
     (if x = c then [] # split_on c xs
      else case split_on c xs of [] \<Rightarrow> [[x]] | seg # segs \<Rightarrow> (x # seg) # segs)"

definition code_byte :: "char \<Rightarrow> bool" where
  "code_byte b \<longleftrightarrow> is_ascii_lowercase b \<or> is_ascii_digit b \<or> b = CHR ''_'' \<or> b = CHR ''-''"

definition valid_segment :: "string \<Rightarrow> bool" where
  "valid_segment s = (case s of [] \<Rightarrow> False
     | b # rest \<Rightarrow> is_ascii_lowercase b \<and> list_all code_byte rest)"

definition valid_cause :: "string \<Rightarrow> bool" where
  "valid_cause value \<longleftrightarrow>
     length value \<le> 128 \<and> CHR ''.'' \<in> set value \<and>
     list_all valid_segment (split_on (CHR ''.'') value)"

definition valid_code :: "string \<Rightarrow> bool" where
  "valid_code value \<longleftrightarrow> length value \<le> 128 \<and>
     (case value of [] \<Rightarrow> False
      | b # rest \<Rightarrow> is_ascii_lowercase b \<and>
          list_all (\<lambda>b. is_ascii_lowercase b \<or> is_ascii_digit b \<or>
            b = CHR ''_'' \<or> b = CHR ''.'' \<or> b = CHR ''-'') rest)"

section \<open>The validator\<close>

fun limiti_non_validi :: "string set \<Rightarrow> string list \<Rightarrow> bool" where
  "limiti_non_validi visti [] = False"
| "limiti_non_validi visti (v # vs) =
     (\<not> valid_code v \<or> v \<in> visti \<or> limiti_non_validi (insert v visti) vs)"

definition limiti_di :: "row_diagnostics \<Rightarrow> string list" where
  "limiti_di d = (case knowledge_limits d of None \<Rightarrow> [] | Some ls \<Rightarrow> ls)"

definition campi_radice_validi :: "row_diagnostics \<Rightarrow> bool" where
  "campi_radice_validi d \<longleftrightarrow>
     \<not> (contract d \<noteq> ROW_DIAGNOSTICS_CONTRACT
        \<or> index_basis d \<noteq> ROW_DIAGNOSTICS_INDEX_BASIS \<or> examples_limit d = 0)"

definition example_count :: "row_diagnostics \<Rightarrow> string + u64" where
  "example_count d =
     (if length (examples d) < 2 ^ 64 then Inr (of_nat (length (examples d)))
      else Inl ''troppi esempi'')"

definition somma_cause :: "u64 \<Rightarrow> u64 \<Rightarrow> string + u64" where
  "somma_cause acc count =
     (if count = 0 then Inl ''conteggio causa nullo''
      else ok_or ''overflow conteggi'' (checked_add acc count))"

definition somma_conteggi :: "row_diagnostics \<Rightarrow> string + u64" where
  "somma_conteggi d = try_fold somma_cause 0 (bt_values (counts d))"

definition conteggi_coerenti :: "row_diagnostics \<Rightarrow> u64 \<Rightarrow> u64 \<Rightarrow> bool" where
  "conteggi_coerenti d counted n \<longleftrightarrow>
     \<not> (counted \<noteq> observed_total d
        \<or> list_ex (\<lambda>c. \<not> valid_cause c) (bt_keys (counts d))
        \<or> examples_truncated d \<noteq> (observed_total d > n)
        \<or> (case total d of None \<Rightarrow> False | Some t \<Rightarrow> t = 0 \<or> t < observed_total d))"

definition senza_limiti :: "row_diagnostics \<Rightarrow> bool" where
  "senza_limiti d = (case knowledge_limits d of None \<Rightarrow> True | Some ls \<Rightarrow> ls = [])"

definition verifica_completezza :: "row_diagnostics \<Rightarrow> u64 \<Rightarrow> string + unit" where
  "verifica_completezza d n = (case completeness d of
     Complete \<Rightarrow>
       ensure (\<not> (total d \<noteq> Some (observed_total d) \<or> knowledge_limits d \<noteq> None
               \<or> n \<noteq> min (observed_total d) (examples_limit d))) ''complete incoerente''
   | Partial \<Rightarrow> ensure (\<not> senza_limiti d) ''partial incoerente''
   | Unknown \<Rightarrow>
       ensure (\<not> (total d \<noteq> None \<or> senza_limiti d)) ''unknown incoerente'')"

record stato_esempi =
  source_indices :: "u64 set"
  example_cause_counts :: "(string, u64) btree"
  example_state_counts :: "u64 list"

definition esempio_valido :: "row_diagnostics \<Rightarrow> stato_esempi \<Rightarrow> row_diagnostic_example \<Rightarrow> bool" where
  "esempio_valido d s e \<longleftrightarrow>
     \<not> (source_index e \<in> source_indices s
        \<or> \<not> valid_cause (cause e)
        \<or> bt_get (counts d) (cause e) = None
        \<or> (case column e of None \<Rightarrow> False | Some c \<Rightarrow> c = [] \<or> chars_count c > 256))"

definition chiave_valida :: "row_diagnostic_key \<Rightarrow> string + unit" where
  "chiave_valida k =
     (if key_field k = [] \<or> chars_count (key_field k) > 256 then Inl ''chiave non valida''
      else case (key_state k, key_value k) of
        (KeyValue, Some (KString v)) \<Rightarrow>
          ensure (chars_count v \<le> 1024) ''valore chiave non valido''
      | (KeyValue, Some (KInteger v)) \<Rightarrow>
          ensure (-9007199254740991 \<le> sint v \<and> sint v \<le> 9007199254740991)
            ''valore chiave non valido''
      | (KeyValue, Some (KBoolean _)) \<Rightarrow> Inr ()
      | (KeyRedacted, None) \<Rightarrow> Inr ()
      | (KeyUnavailable, None) \<Rightarrow> Inr ()
      | _ \<Rightarrow> Inl ''valore chiave non valido'')"

definition visita_esempio ::
  "row_diagnostics \<Rightarrow> stato_esempi \<Rightarrow> row_diagnostic_example \<Rightarrow> string + stato_esempi" where
  "visita_esempio d s e =
     try_bind (ensure (esempio_valido d s e) ''esempio non valido'') (\<lambda>_.
     let n = (case bt_get (example_cause_counts s) (cause e) of None \<Rightarrow> 0 | Some c \<Rightarrow> c) in
     try_bind (ok_or ''overflow esempi causa'' (checked_add n 1)) (\<lambda>n'.
     let s1 = s\<lparr>source_indices := insert (source_index e) (source_indices s),
                example_cause_counts := bt_insert (cause e) n' (example_cause_counts s)\<rparr> in
     try_bind (case example_key e of None \<Rightarrow> Inr () | Some k \<Rightarrow> chiave_valida k) (\<lambda>_.
     case write_state e of
       None \<Rightarrow> Inr s1
     | Some w \<Rightarrow>
         let i = write_state_index w in
         try_bind (ok_or ''overflow esempi write''
                     (checked_add (example_state_counts s1 ! i) 1)) (\<lambda>m.
         Inr (s1\<lparr>example_state_counts := (example_state_counts s1)[i := m]\<rparr>)))))"

definition stato_esempi_iniziale :: stato_esempi where
  "stato_esempi_iniziale =
     \<lparr>source_indices = {}, example_cause_counts = [], example_state_counts = [0, 0, 0, 0]\<rparr>"

definition visita_esempi :: "row_diagnostics \<Rightarrow> string + stato_esempi" where
  "visita_esempi d = try_fold (visita_esempio d) stato_esempi_iniziale (examples d)"

definition esempi_eccedono :: "row_diagnostics \<Rightarrow> stato_esempi \<Rightarrow> bool" where
  "esempi_eccedono d s = list_ex (\<lambda>(c, n).
     case bt_get (counts d) c of None \<Rightarrow> True | Some declared \<Rightarrow> n > declared)
     (example_cause_counts s)"

definition verifica_read :: "row_diagnostics \<Rightarrow> string + unit" where
  "verifica_read d = ensure
     (\<not> (input_total d \<noteq> None
         \<or> list_ex (\<lambda>e. write_state e \<noteq> None) (examples d)
         \<or> diagnostic_state_counts d \<noteq> None
         \<or> write_outcome d \<noteq> None)) ''campi write in report read''"

definition somma_stati :: "u64 list \<Rightarrow> string + u64" where
  "somma_stati = try_fold
     (\<lambda>acc count. ok_or ''overflow stati diagnostici'' (checked_add acc count)) 0"

record stato_outcome =
  known_sum :: u64
  diagnosed_unknown :: u64
  all_known :: bool

definition visita_bucket ::
  "stato_outcome \<Rightarrow> known_or_unknown_count \<times> u64 \<Rightarrow> string + stato_outcome" where
  "visita_bucket s bc = (case bc of
     (Known value, diagnosed) \<Rightarrow>
       if diagnosed > value then Inl ''diagnostica eccede outcome noto''
       else try_bind (ok_or ''overflow outcome'' (checked_add (known_sum s) value)) (\<lambda>k.
              Inr (s\<lparr>known_sum := k\<rparr>))
   | (UnknownCount, diagnosed) \<Rightarrow>
       try_bind (ok_or ''overflow outcome ignoto''
                   (checked_add (diagnosed_unknown s) diagnosed)) (\<lambda>u.
       Inr (s\<lparr>all_known := False, diagnosed_unknown := u\<rparr>)))"

definition stati_di :: "write_diagnostic_state_counts \<Rightarrow> u64 list" where
  "stati_di c = [sc_certainly_rejected c, sc_certainly_not_attempted c,
                 sc_certainly_rolled_back c, sc_effect_unknown c]"

definition bucket_di :: "row_diagnostic_write_outcome \<Rightarrow> known_or_unknown_count list" where
  "bucket_di w = [wo_certainly_rejected w, wo_certainly_not_attempted w,
                  wo_certainly_rolled_back w, wo_effect_unknown w]"

definition verifica_write :: "row_diagnostics \<Rightarrow> stato_esempi \<Rightarrow> string + unit" where
  "verifica_write d s =
     try_bind (ok_or ''input_total write mancante''
       (case input_total d of None \<Rightarrow> None | Some t \<Rightarrow> if t > 0 then Some t else None)) (\<lambda>input.
     try_bind (ok_or ''diagnostic_state_counts mancante'' (diagnostic_state_counts d)) (\<lambda>states.
     try_bind (ok_or ''write_outcome mancante'' (write_outcome d)) (\<lambda>outcome.
     try_bind (ensure (\<not> (observed_total d > input
         \<or> list_ex (\<lambda>e. write_state e = None) (examples d))) ''report write incoerente'') (\<lambda>_.
     let state_counts = stati_di states in
     try_bind (somma_stati state_counts) (\<lambda>state_sum.
     try_bind (ensure (\<not> (state_sum \<noteq> observed_total d
         \<or> list_ex (\<lambda>(x, y). x > y) (zip (example_state_counts s) state_counts)))
         ''stati diagnostici incoerenti'') (\<lambda>_.
     try_bind (try_fold visita_bucket
         \<lparr>known_sum = 0, diagnosed_unknown = 0, all_known = True\<rparr>
         (zip (bucket_di outcome) state_counts)) (\<lambda>b.
     ensure (\<not> (known_sum b > input
         \<or> (case checked_add (known_sum b) (diagnosed_unknown b) of
               None \<Rightarrow> True | Some t \<Rightarrow> t > input)
         \<or> (all_known b \<and> known_sum b \<noteq> input))) ''partizione write incoerente'')))))))"

definition validate_for_emission :: "row_diagnostics \<Rightarrow> string + unit" where
  "validate_for_emission d =
     try_bind (ensure (campi_radice_validi d) ''campi radice non validi'') (\<lambda>_.
     try_bind (ensure (\<not> limiti_non_validi {} (limiti_di d)) ''limiti di conoscenza non validi'') (\<lambda>_.
     try_bind (example_count d) (\<lambda>n.
     try_bind (ensure (\<not> (n > examples_limit d \<or> n > observed_total d))
       ''limite esempi superato'') (\<lambda>_.
     try_bind (somma_conteggi d) (\<lambda>counted.
     try_bind (ensure (conteggi_coerenti d counted n) ''conteggi incoerenti'') (\<lambda>_.
     try_bind (verifica_completezza d n) (\<lambda>_.
     try_bind (visita_esempi d) (\<lambda>s.
     try_bind (ensure (\<not> esempi_eccedono d s) ''esempi eccedono il conteggio causa'') (\<lambda>_.
     case scope d of ScopeRead \<Rightarrow> verifica_read d | ScopeWrite \<Rightarrow> verifica_write d s)))))))))"

definition senza_attribuzione :: "row_diagnostics \<Rightarrow> string + row_diagnostics" where
  "senza_attribuzione d =
     (let d1 = d\<lparr>examples := []\<rparr>;
          d2 = d1\<lparr>examples_truncated := observed_total d1 > 0\<rparr>;
          d3 = (if completeness d2 = Complete then d2\<lparr>completeness := Partial\<rparr> else d2);
          limiti = limiti_di d3;
          d4 = d3\<lparr>knowledge_limits := Some
                 (if KNOWLEDGE_LIMIT_ROW_ATTRIBUTION_UNAVAILABLE \<in> set limiti then limiti
                  else limiti @ [KNOWLEDGE_LIMIT_ROW_ATTRIBUTION_UNAVAILABLE])\<rparr>
      in try_bind (validate_for_emission d4) (\<lambda>_. Inr d4))"

section \<open>What the loops of the validator compute\<close>

lemma limiti_non_validi_iff:
  "\<not> limiti_non_validi visti vs \<longleftrightarrow>
     list_all valid_code vs \<and> distinct vs \<and> set vs \<inter> visti = {}"
  by (induction visti vs rule: limiti_non_validi.induct) auto

lemma somma_conteggi_Inr:
  assumes "somma_conteggi d = Inr t"
  shows "unat t = sum_list (map unat (bt_values (counts d))) \<and> 0 \<notin> set (bt_values (counts d))"
proof -
  have "unat t = unat a + sum_list (map unat xs) \<and> 0 \<notin> set xs"
    if "try_fold somma_cause a xs = Inr t" for a t and xs :: "u64 list"
    using that
    by (induction xs arbitrary: a)
       (fastforce simp: somma_cause_def ok_or_def checked_add_Some
          split: if_splits sum.splits option.splits)+
  from this [of 0] assms show ?thesis by (simp add: somma_conteggi_def)
qed

definition cause_count :: "stato_esempi \<Rightarrow> string \<Rightarrow> nat" where
  "cause_count s c = (case bt_get (example_cause_counts s) c of None \<Rightarrow> 0 | Some n \<Rightarrow> unat n)"

lemma visita_esempio_Inr:
  assumes "visita_esempio d s e = Inr s'"
  shows "source_indices s' = insert (source_index e) (source_indices s)"
    and "source_index e \<notin> source_indices s"
    and "bt_get (counts d) (cause e) \<noteq> None"
    and "valid_cause (cause e)"
    and "cause_count s' c = cause_count s c + (if cause e = c then 1 else 0)"
    and "bt_wf (example_cause_counts s) \<Longrightarrow> bt_wf (example_cause_counts s')"
  using assms
  by (auto simp: visita_esempio_def results esempio_valido_def Let_def cause_count_def bt_simps
      checked_add_Some bt_wf_insert split: option.splits if_splits)

lemma visita_esempi_Inr:
  assumes "try_fold (visita_esempio d) s es = Inr s'" and "bt_wf (example_cause_counts s)"
  shows "distinct (map source_index es)
    \<and> set (map source_index es) \<inter> source_indices s = {}
    \<and> (\<forall>e \<in> set es. valid_cause (cause e) \<and> bt_get (counts d) (cause e) \<noteq> None)
    \<and> (\<forall>c. cause_count s' c = cause_count s c + length (filter (\<lambda>e. cause e = c) es))
    \<and> bt_wf (example_cause_counts s')"
  using assms
proof (induction es arbitrary: s)
  case Nil
  then show ?case by simp
next
  case (Cons e es)
  from Cons.prems(1) obtain t where
    t: "visita_esempio d s e = Inr t" "try_fold (visita_esempio d) t es = Inr s'"
    by (auto split: sum.splits)
  note head = visita_esempio_Inr [OF t(1)]
  from Cons.IH [OF t(2) head(6) [OF Cons.prems(2)]] head(1-4) head(5)
  show ?case by auto
qed

lemma esempi_eccedono_iff:
  assumes "bt_wf (example_cause_counts s)"
  shows "\<not> esempi_eccedono d s \<longleftrightarrow>
    (\<forall>c n. bt_get (example_cause_counts s) c = Some n \<longrightarrow>
       (\<exists>m. bt_get (counts d) c = Some m \<and> n \<le> m))"
proof -
  have "bt_get (example_cause_counts s) c = Some n \<longleftrightarrow> (c, n) \<in> set (example_cause_counts s)" for c n
    using assms by (simp add: bt_get_def bt_wf_def strict_sorted_iff)
  then show ?thesis
    by (force simp: esempi_eccedono_def list_ex_iff split: option.splits)
qed

lemma stato_iniziale_simps [simp]:
  "cause_count stato_esempi_iniziale c = 0" "bt_wf (example_cause_counts stato_esempi_iniziale)"
  "source_indices stato_esempi_iniziale = {}"
  by (simp_all add: stato_esempi_iniziale_def cause_count_def bt_simps bt_wf_def)

section \<open>The accepted payloads\<close>

text \<open>
  What a payload that passes the validator satisfies, said without the loops: the counters add up
  exactly as natural numbers, the examples are distinct rows with a counted cause, no cause has more
  examples than rows, and \<open>examples_truncated\<close> says whether observed rows are missing from them.
\<close>

definition payload_coerente :: "row_diagnostics \<Rightarrow> bool" where
  "payload_coerente d \<longleftrightarrow>
     unat (observed_total d) = sum_list (map unat (bt_values (counts d)))
     \<and> 0 \<notin> set (bt_values (counts d))
     \<and> length (examples d) \<le> unat (observed_total d)
     \<and> length (examples d) \<le> unat (examples_limit d)
     \<and> (examples_truncated d \<longleftrightarrow> length (examples d) < unat (observed_total d))
     \<and> distinct (map source_index (examples d))
     \<and> (\<forall>c. length (filter (\<lambda>e. cause e = c) (examples d))
            \<le> (case bt_get (counts d) c of None \<Rightarrow> 0 | Some m \<Rightarrow> unat m))
     \<and> (completeness d = Complete \<longleftrightarrow> knowledge_limits d = None)
     \<and> (completeness d = Complete \<longrightarrow>
          length (examples d) = min (unat (observed_total d)) (unat (examples_limit d)))"

lemma example_count_Inr: "example_count d = Inr n \<Longrightarrow> unat n = length (examples d)"
  by (auto simp: example_count_def unat_of_nat split: if_splits)

lemma validate_parts:
  assumes "validate_for_emission d = Inr ()"
  obtains n counted s where
    "campi_radice_validi d" "\<not> limiti_non_validi {} (limiti_di d)"
    "example_count d = Inr n" "n \<le> examples_limit d" "n \<le> observed_total d"
    "somma_conteggi d = Inr counted" "conteggi_coerenti d counted n"
    "verifica_completezza d n = Inr ()" "visita_esempi d = Inr s" "\<not> esempi_eccedono d s"
    "case scope d of ScopeRead \<Rightarrow> verifica_read d = Inr ()
       | ScopeWrite \<Rightarrow> verifica_write d s = Inr ()"
  using assms
  by (fastforce simp: validate_for_emission_def results not_less split: row_diagnostic_scope.splits)

lemma esempi_entro_i_conteggi:
  assumes "visita_esempi d = Inr s" and "\<not> esempi_eccedono d s"
  shows "length (filter (\<lambda>e. cause e = c) (examples d))
     \<le> (case bt_get (counts d) c of None \<Rightarrow> 0 | Some m \<Rightarrow> unat m)"
proof -
  from assms(1) have run: "try_fold (visita_esempio d) stato_esempi_iniziale (examples d) = Inr s"
    by (simp add: visita_esempi_def)
  from visita_esempi_Inr [OF run]
  have "length (filter (\<lambda>e. cause e = c) (examples d)) = cause_count s c"
    and wf: "bt_wf (example_cause_counts s)" by auto
  with esempi_eccedono_iff [OF wf, of d] assms(2) show ?thesis
    by (fastforce simp: cause_count_def word_le_nat_alt split: option.splits)
qed

lemma validate_payload_coerente:
  assumes "validate_for_emission d = Inr ()"
  shows "payload_coerente d"
  using assms
proof (rule validate_parts)
  fix n counted s
  assume n: "example_count d = Inr n" "n \<le> examples_limit d" "n \<le> observed_total d"
    and sum: "somma_conteggi d = Inr counted" "conteggi_coerenti d counted n"
    and compl: "verifica_completezza d n = Inr ()"
    and es: "visita_esempi d = Inr s" "\<not> esempi_eccedono d s"
  have len: "unat n = length (examples d)" by (rule example_count_Inr [OF n(1)])
  have distinct: "distinct (map source_index (examples d))"
    using visita_esempi_Inr [of d stato_esempi_iniziale "examples d" s] es(1)
    by (simp add: visita_esempi_def)
  have mins: "unat (min a b) = min (unat a) (unat b)" for a b :: u64
    by (simp add: min_def word_le_nat_alt)
  have kl: "(completeness d = Complete \<longleftrightarrow> knowledge_limits d = None)
      \<and> (completeness d = Complete \<longrightarrow>
           length (examples d) = min (unat (observed_total d)) (unat (examples_limit d)))"
    using compl len [symmetric]
    by (auto simp: verifica_completezza_def senza_limiti_def results mins
        split: row_diagnostics_completeness.splits option.splits)
  show ?thesis
    unfolding payload_coerente_def
    using somma_conteggi_Inr [OF sum(1)] sum(2) n(2,3) len distinct kl
      esempi_entro_i_conteggi [OF es]
    by (auto simp: conteggi_coerenti_def word_le_nat_alt word_less_nat_alt)
qed

section \<open>Dropping the attribution\<close>

lemma valid_code_attribution: "valid_code KNOWLEDGE_LIMIT_ROW_ATTRIBUTION_UNAVAILABLE"
  by code_simp

lemma limiti_di_None: "knowledge_limits d = None \<Longrightarrow> limiti_di d = []"
  by (simp add: limiti_di_def)

definition limiti_estesi :: "string list \<Rightarrow> string list" where
  "limiti_estesi limiti =
     (if KNOWLEDGE_LIMIT_ROW_ATTRIBUTION_UNAVAILABLE \<in> set limiti then limiti
      else limiti @ [KNOWLEDGE_LIMIT_ROW_ATTRIBUTION_UNAVAILABLE])"

definition senza_esempi :: "row_diagnostics \<Rightarrow> row_diagnostics" where
  "senza_esempi d = d\<lparr>examples := [], examples_truncated := observed_total d > 0,
     completeness := (if completeness d = Complete then Partial else completeness d),
     knowledge_limits := Some (limiti_estesi (limiti_di d))\<rparr>"

lemma senza_attribuzione_eq:
  "senza_attribuzione d = map_ok (\<lambda>_. senza_esempi d) (validate_for_emission (senza_esempi d))"
  by (cases "validate_for_emission (senza_esempi d)")
     (auto simp: senza_attribuzione_def senza_esempi_def limiti_estesi_def limiti_di_def Let_def
       split: if_splits)

lemma limiti_estesi_validi:
  "\<not> limiti_non_validi {} ls \<Longrightarrow> \<not> limiti_non_validi {} (limiti_estesi ls)"
  by (auto simp: limiti_non_validi_iff limiti_estesi_def valid_code_attribution)

lemma limiti_estesi_mem [simp]:
  "KNOWLEDGE_LIMIT_ROW_ATTRIBUTION_UNAVAILABLE \<in> set (limiti_estesi ls)"
  by (simp add: limiti_estesi_def)

lemma limiti_estesi_nonempty [simp]: "limiti_estesi ls \<noteq> []"
  using limiti_estesi_mem [of ls] by (metis empty_iff empty_set)

lemma verifica_write_stati_nulli:
  assumes "verifica_write d s = Inr ()"
    and "scope d' = scope d" "input_total d' = input_total d" "examples d' = []"
      "diagnostic_state_counts d' = diagnostic_state_counts d"
      "write_outcome d' = write_outcome d" "observed_total d' = observed_total d"
    and "example_state_counts s' = [0, 0, 0, 0]"
  shows "verifica_write d' s' = Inr ()"
  using assms by (fastforce simp: verifica_write_def results Let_def stati_di_def)

lemma validate_senza_esempi:
  assumes "validate_for_emission d = Inr ()"
  shows "validate_for_emission (senza_esempi d) = Inr ()"
  using assms
proof (rule validate_parts)
  fix n counted s
  let ?d = "senza_esempi d"
  assume root: "campi_radice_validi d" and lim: "\<not> limiti_non_validi {} (limiti_di d)"
    and sum: "somma_conteggi d = Inr counted" "conteggi_coerenti d counted n"
    and compl: "verifica_completezza d n = Inr ()"
    and scope: "case scope d of ScopeRead \<Rightarrow> verifica_read d = Inr ()
       | ScopeWrite \<Rightarrow> verifica_write d s = Inr ()"
  have 1: "campi_radice_validi ?d" "example_count ?d = Inr 0"
    using root by (simp_all add: senza_esempi_def campi_radice_validi_def example_count_def)
  have 2: "\<not> limiti_non_validi {} (limiti_di ?d)"
    using limiti_estesi_validi [OF lim] by (simp add: senza_esempi_def limiti_di_def)
  have 3: "somma_conteggi ?d = Inr counted" "conteggi_coerenti ?d counted 0"
    using sum by (auto simp: somma_conteggi_def senza_esempi_def conteggi_coerenti_def
        split: option.splits)
  have 4: "verifica_completezza ?d 0 = Inr ()"
    using compl by (auto simp: verifica_completezza_def senza_esempi_def senza_limiti_def results
        split: row_diagnostics_completeness.splits)
  have 5: "visita_esempi ?d = Inr stato_esempi_iniziale" "\<not> esempi_eccedono ?d stato_esempi_iniziale"
    by (simp_all add: visita_esempi_def senza_esempi_def esempi_eccedono_def
        stato_esempi_iniziale_def)
  have 6: "case scope d of ScopeRead \<Rightarrow> verifica_read ?d = Inr ()
       | ScopeWrite \<Rightarrow> verifica_write ?d stato_esempi_iniziale = Inr ()"
    using scope
    by (auto simp: verifica_read_def senza_esempi_def results stato_esempi_iniziale_def
        split: row_diagnostic_scope.splits elim!: verifica_write_stati_nulli)
  have "scope ?d = scope d" by (simp add: senza_esempi_def)
  with 1 2 3 4 5 6 show ?thesis
    by (cases "scope d") (simp_all add: validate_for_emission_def)
qed

lemma limiti_di_senza_esempi [simp]:
  "limiti_di (senza_esempi d) = limiti_estesi (limiti_di d)"
  by (simp add: senza_esempi_def limiti_di_def)

lemma senza_esempi_idem: "senza_esempi (senza_esempi d) = senza_esempi d"
proof -
  have "limiti_estesi (limiti_estesi ls) = limiti_estesi ls" for ls
    using limiti_estesi_mem [of ls] by (subst limiti_estesi_def) simp
  then show ?thesis by (simp add: senza_esempi_def limiti_di_def)
qed

section \<open>Properties\<close>

text \<open>C1. A payload that passes \<open>validate_for_emission\<close> is coherent: its counters add up to
  \<open>observed_total\<close> as exact numbers (no wrap-around), the examples are distinct source rows within both
  limits, no cause has more examples than counted rows, \<open>examples_truncated\<close> says exactly whether
  observed rows are missing from the examples, and a complete payload has no knowledge limit and as
  many examples as the limit allows.\<close>

theorem validated_payload_is_coherent:
  assumes "validate_for_emission d = Inr ()"
  shows "payload_coerente d"
  using assms by (rule validate_payload_coerente)

definition esempio_minimo :: row_diagnostics where
  "esempio_minimo = \<lparr>contract = ROW_DIAGNOSTICS_CONTRACT, scope = ScopeRead,
     index_basis = ROW_DIAGNOSTICS_INDEX_BASIS, completeness = Complete,
     knowledge_limits = None, observed_total = 2, total = Some 2, input_total = None,
     counts = [(''conversion.invalid_date'', 2)], examples_limit = 1, examples_truncated = True,
     examples = [\<lparr>source_index = 7, cause = ''conversion.invalid_date'', column = Some ''d'',
       example_key = None, write_state = None\<rparr>],
     diagnostic_state_counts = None, write_outcome = None\<rparr>"

lemmas validatore_defs =
  validate_for_emission_def campi_radice_validi_def limiti_di_def example_count_def
  somma_conteggi_def somma_cause_def conteggi_coerenti_def verifica_completezza_def
  senza_limiti_def visita_esempi_def visita_esempio_def esempio_valido_def esempi_eccedono_def
  verifica_read_def stato_esempi_iniziale_def bt_values_def bt_keys_def bt_get_def
  checked_add_def Let_def

lemma esempio_minimo_valido: "validate_for_emission esempio_minimo = Inr ()"
proof -
  have "valid_cause ''conversion.invalid_date''" by code_simp
  then show ?thesis
    by (simp add: validatore_defs esempio_minimo_def chars_count_def byte_of_def)
qed

theorem validated_payload_is_coherent_witness: "payload_coerente esempio_minimo"
  by (rule validated_payload_is_coherent [OF esempio_minimo_valido])

text \<open>\<open>senza_attribuzione\<close> never fails on a payload that the validator accepts: the result has no
  examples, keeps counters, totals and scope, is no longer complete, names the limit
  \<open>read.row_attribution_unavailable\<close>, and is itself accepted.  So the branch of the runner that turns
  a failure of it into an internal error is dead for payloads attached by \<open>with_row_diagnostics\<close>.\<close>

theorem senza_attribuzione_total:
  assumes "validate_for_emission d = Inr ()"
  shows "\<exists>d'. senza_attribuzione d = Inr d' \<and> validate_for_emission d' = Inr ()
    \<and> examples d' = [] \<and> counts d' = counts d \<and> observed_total d' = observed_total d
    \<and> total d' = total d \<and> scope d' = scope d \<and> completeness d' \<noteq> Complete
    \<and> KNOWLEDGE_LIMIT_ROW_ATTRIBUTION_UNAVAILABLE \<in> set (limiti_di d')"
  using validate_senza_esempi [OF assms]
  by (auto simp: senza_attribuzione_eq) (auto simp: senza_esempi_def split: if_splits)

theorem senza_attribuzione_total_witness:
  "\<exists>d'. senza_attribuzione esempio_minimo = Inr d' \<and> validate_for_emission d' = Inr ()
    \<and> examples d' = [] \<and> counts d' = counts esempio_minimo
    \<and> observed_total d' = observed_total esempio_minimo
    \<and> total d' = total esempio_minimo \<and> scope d' = scope esempio_minimo
    \<and> completeness d' \<noteq> Complete
    \<and> KNOWLEDGE_LIMIT_ROW_ATTRIBUTION_UNAVAILABLE \<in> set (limiti_di d')"
  by (rule senza_attribuzione_total [OF esempio_minimo_valido])

end
