(* ===== verification/Errors.thy ===== *)
theory Errors
  imports Diagnostics
begin

text \<open>
  The error type of the workspace, \<open>crates/plenora-core/src/error.rs\<close>, and its public axes
  (\<open>crates/plenora-core/src/error/pubblico.rs\<close>, without the JSON document).

  \<open>plenora_error\<close> has the variants of \<open>PlenoraError\<close>. An I/O error carries the contexts that
  \<open>io_con_contesto\<close> put in front of it, outermost first, and its \<open>ErrorKind\<close>; the text of the
  operating system is not part of the model. The four axes (category, phase, remote effect, retry)
  and the operations on the transparent wrappers are functions over the same recursion as the
  code. The locale \<open>context_layer\<close> is the contract of the operations that only add context to
  an error: category, effect, retry and public code do not change.
\<close>

section \<open>Axes\<close>

datatype error_category =
  CatInvalidPlan | CatInvalidConfiguration | CatSchema | CatDataMapping | CatCrs | CatUnsupported
| CatNotFound | CatConflict | CatConcurrentModification | CatAuthentication | CatAuthorization
| CatTimeout | CatCancelled | CatResourceLimit | CatIo | CatProtocol | CatTransient
| CatExecution | CatInternal

datatype error_phase =
  Validate | Connect | Probe | Prepare | PhRead | PhWrite | Finalize | Commit | Rollback | Cleanup

datatype remote_effect = NoEffect | RolledBack | PartialEffect | Committed | EffUnknown

text \<open>\<open>After\<close> carries a \<open>Duration\<close>, here its nanoseconds.\<close>

datatype retry_disposition =
  Never | Quarantine | Safe | RequiresIdempotencyKey | RequiresRecovery | After nat

definition category_all :: "error_category list" where
  "category_all =
     [CatInvalidPlan, CatInvalidConfiguration, CatSchema, CatDataMapping, CatCrs, CatUnsupported,
      CatNotFound, CatConflict, CatConcurrentModification, CatAuthentication, CatAuthorization,
      CatTimeout, CatCancelled, CatResourceLimit, CatIo, CatProtocol, CatTransient, CatExecution,
      CatInternal]"

fun category_as_str :: "error_category \<Rightarrow> string" where
  "category_as_str CatInvalidPlan = ''invalid_plan''"
| "category_as_str CatInvalidConfiguration = ''invalid_configuration''"
| "category_as_str CatSchema = ''schema''"
| "category_as_str CatDataMapping = ''data_mapping''"
| "category_as_str CatCrs = ''crs''"
| "category_as_str CatUnsupported = ''unsupported''"
| "category_as_str CatNotFound = ''not_found''"
| "category_as_str CatConflict = ''conflict''"
| "category_as_str CatConcurrentModification = ''concurrent_modification''"
| "category_as_str CatAuthentication = ''authentication''"
| "category_as_str CatAuthorization = ''authorization''"
| "category_as_str CatTimeout = ''timeout''"
| "category_as_str CatCancelled = ''cancelled''"
| "category_as_str CatResourceLimit = ''resource_limit''"
| "category_as_str CatIo = ''io''"
| "category_as_str CatProtocol = ''protocol''"
| "category_as_str CatTransient = ''transient''"
| "category_as_str CatExecution = ''execution''"
| "category_as_str CatInternal = ''internal''"

text \<open>The match of \<open>from_stable_name\<close>: the first category of the list with that name.\<close>

definition from_stable_name :: "string \<Rightarrow> error_category option" where
  "from_stable_name nome = find (\<lambda>c. category_as_str c = nome) category_all"

text \<open>\<open>index\<close>: one comparison per variant, counting those that fail.\<close>

fun position_from :: "error_category list \<Rightarrow> error_category \<Rightarrow> nat" where
  "position_from [] c = 0"
| "position_from (v # vs) c = (if v = c then 0 else Suc (position_from vs c))"

definition category_index :: "error_category \<Rightarrow> nat" where
  "category_index c = position_from category_all c"

fun phase_as_str :: "error_phase \<Rightarrow> string" where
  "phase_as_str Validate = ''validate''"
| "phase_as_str Connect = ''connect''"
| "phase_as_str Probe = ''probe''"
| "phase_as_str Prepare = ''prepare''"
| "phase_as_str PhRead = ''read''"
| "phase_as_str PhWrite = ''write''"
| "phase_as_str Finalize = ''finalize''"
| "phase_as_str Commit = ''commit''"
| "phase_as_str Rollback = ''rollback''"
| "phase_as_str Cleanup = ''cleanup''"

fun effect_as_str :: "remote_effect \<Rightarrow> string" where
  "effect_as_str NoEffect = ''none''"
| "effect_as_str RolledBack = ''rolled_back''"
| "effect_as_str PartialEffect = ''partial''"
| "effect_as_str Committed = ''committed''"
| "effect_as_str EffUnknown = ''unknown''"

fun retry_as_str :: "retry_disposition \<Rightarrow> string" where
  "retry_as_str Never = ''never''"
| "retry_as_str Quarantine = ''quarantine''"
| "retry_as_str Safe = ''safe''"
| "retry_as_str RequiresIdempotencyKey = ''requires_idempotency_key''"
| "retry_as_str RequiresRecovery = ''requires_recovery''"
| "retry_as_str (After _) = ''after''"

fun retry_delay :: "retry_disposition \<Rightarrow> nat option" where
  "retry_delay (After duration) = Some duration"
| "retry_delay _ = None"

section \<open>I/O errors\<close>

text \<open>
  \<open>std::io::ErrorKind\<close> is non-exhaustive: the kinds the workspace names have a constructor, every
  other one is \<open>KOther\<close>.
\<close>

datatype io_error_kind =
  KTimedOut | KInterrupted | KWouldBlock | KResourceBusy | KNotFound | KPermissionDenied
| KAlreadyExists | KStorageFull | KQuotaExceeded | KFileTooLarge | KOutOfMemory | KUnsupported
| KIsADirectory | KOther nat

definition assi_io :: "io_error_kind \<Rightarrow> error_category \<times> retry_disposition" where
  "assi_io kind = (case kind of
     KTimedOut \<Rightarrow> (CatTimeout, Safe)
   | KInterrupted \<Rightarrow> (CatTransient, Safe)
   | KWouldBlock \<Rightarrow> (CatTransient, Safe)
   | KResourceBusy \<Rightarrow> (CatTransient, Safe)
   | KNotFound \<Rightarrow> (CatNotFound, Never)
   | KPermissionDenied \<Rightarrow> (CatAuthorization, Never)
   | KAlreadyExists \<Rightarrow> (CatConflict, Never)
   | KStorageFull \<Rightarrow> (CatResourceLimit, Never)
   | KQuotaExceeded \<Rightarrow> (CatResourceLimit, Never)
   | KFileTooLarge \<Rightarrow> (CatResourceLimit, Never)
   | KOutOfMemory \<Rightarrow> (CatResourceLimit, Never)
   | KUnsupported \<Rightarrow> (CatUnsupported, Never)
   | _ \<Rightarrow> (CatIo, Never))"

section \<open>The error\<close>

datatype plenora_error =
  InvalidPlan string
| Unsupported string
| Schema string
| DataMapping string
| Execution string string string string \<comment> \<open>node, operation, execution_id, reason\<close>
| Crs string
| CrsCoded string string \<comment> \<open>code, message\<close>
| Cancelled string
| ResourceLimit string
| Io "string list" io_error_kind \<comment> \<open>contexts, outermost first\<close>
| Protocol string
| Timeout string
| Conflict string
| InvalidConfiguration string
| Internal string
| RowDiagnostics plenora_error row_diagnostics
| WithRemoteEffect remote_effect plenora_error
| Tagged error_phase plenora_error

type_synonym 'a result = "plenora_error + 'a"

fun con_contesto :: "string \<Rightarrow> plenora_error \<Rightarrow> plenora_error" where
  "con_contesto c (InvalidPlan m) = InvalidPlan (con_prefisso c m)"
| "con_contesto c (Unsupported m) = Unsupported (con_prefisso c m)"
| "con_contesto c (Schema m) = Schema (con_prefisso c m)"
| "con_contesto c (Crs m) = Crs (con_prefisso c m)"
| "con_contesto c (CrsCoded code m) = CrsCoded code (con_prefisso c m)"
| "con_contesto c (WithRemoteEffect eff src) = WithRemoteEffect eff (con_contesto c src)"
| "con_contesto c altro = altro"

fun category :: "plenora_error \<Rightarrow> error_category" where
  "category (InvalidPlan _) = CatInvalidPlan"
| "category (Unsupported _) = CatUnsupported"
| "category (Schema _) = CatSchema"
| "category (DataMapping _) = CatDataMapping"
| "category (Execution _ _ _ _) = CatExecution"
| "category (Crs _) = CatCrs"
| "category (CrsCoded _ _) = CatCrs"
| "category (Cancelled _) = CatCancelled"
| "category (ResourceLimit _) = CatResourceLimit"
| "category (Io _ kind) = fst (assi_io kind)"
| "category (Protocol _) = CatProtocol"
| "category (Timeout _) = CatTimeout"
| "category (Conflict _) = CatConflict"
| "category (InvalidConfiguration _) = CatInvalidConfiguration"
| "category (Internal _) = CatInternal"
| "category (Tagged _ src) = category src"
| "category (RowDiagnostics src _) = category src"
| "category (WithRemoteEffect _ src) = category src"

fun phase :: "plenora_error \<Rightarrow> error_phase" where
  "phase (InvalidPlan _) = Validate"
| "phase (Unsupported _) = Validate"
| "phase (Schema _) = Validate"
| "phase (Crs _) = Validate"
| "phase (CrsCoded _ _) = Validate"
| "phase (Execution _ _ _ _) = PhWrite"
| "phase (Cancelled _) = PhWrite"
| "phase (DataMapping _) = PhWrite"
| "phase (Io _ _) = PhWrite"
| "phase (ResourceLimit _) = PhWrite"
| "phase (Protocol _) = PhWrite"
| "phase (Timeout _) = PhWrite"
| "phase (Internal _) = PhWrite"
| "phase (InvalidConfiguration _) = Prepare"
| "phase (Conflict _) = Commit"
| "phase (Tagged ph _) = ph"
| "phase (RowDiagnostics src _) = phase src"
| "phase (WithRemoteEffect _ src) = phase src"

text \<open>The arms of the match on an effect and the retry of the source, in the order of the code.\<close>

definition retry_con_effetto ::
  "remote_effect \<Rightarrow> retry_disposition \<Rightarrow> error_phase \<Rightarrow> retry_disposition" where
  "retry_con_effetto eff r ph =
     (if eff = NoEffect \<or> eff = RolledBack then r
      else if r = Never \<or> r = Quarantine then r
      else if eff = Committed \<and> ph = Cleanup then Never
      else RequiresRecovery)"

fun retry_of :: "plenora_error \<Rightarrow> retry_disposition" where
  "retry_of (Io _ kind) = snd (assi_io kind)"
| "retry_of (Timeout _) = Safe"
| "retry_of (Cancelled _) = Safe"
| "retry_of (Tagged _ src) = retry_of src"
| "retry_of (RowDiagnostics src _) = retry_of src"
| "retry_of (WithRemoteEffect eff src) = retry_con_effetto eff (retry_of src) (phase src)"
| "retry_of _ = Never"

fun remote_effect_of :: "plenora_error \<Rightarrow> remote_effect" where
  "remote_effect_of (WithRemoteEffect eff _) = eff"
| "remote_effect_of (Tagged _ src) = remote_effect_of src"
| "remote_effect_of (RowDiagnostics src _) = remote_effect_of src"
| "remote_effect_of _ = NoEffect"

section \<open>Operations on the wrappers\<close>

fun with_phase :: "error_phase \<Rightarrow> plenora_error \<Rightarrow> plenora_error" where
  "with_phase ph (Tagged q src) = Tagged q src"
| "with_phase ph (RowDiagnostics src d) = RowDiagnostics (with_phase ph src) d"
| "with_phase ph (WithRemoteEffect eff src) = WithRemoteEffect eff (with_phase ph src)"
| "with_phase ph e = Tagged ph e"

fun ha_effetto_dichiarato :: "plenora_error \<Rightarrow> bool" where
  "ha_effetto_dichiarato (WithRemoteEffect _ _) = True"
| "ha_effetto_dichiarato (Tagged _ src) = ha_effetto_dichiarato src"
| "ha_effetto_dichiarato (RowDiagnostics src _) = ha_effetto_dichiarato src"
| "ha_effetto_dichiarato _ = False"

definition with_remote_effect :: "remote_effect \<Rightarrow> plenora_error \<Rightarrow> plenora_error" where
  "with_remote_effect eff e =
     (if eff = NoEffect \<or> ha_effetto_dichiarato e then e else WithRemoteEffect eff e)"

fun senza_effetto :: "plenora_error \<Rightarrow> plenora_error" where
  "senza_effetto (WithRemoteEffect _ src) = senza_effetto src"
| "senza_effetto (Tagged ph src) = Tagged ph (senza_effetto src)"
| "senza_effetto (RowDiagnostics src d) = RowDiagnostics (senza_effetto src) d"
| "senza_effetto altro = altro"

definition override_remote_effect :: "remote_effect \<Rightarrow> plenora_error \<Rightarrow> plenora_error" where
  "override_remote_effect eff e =
     (let causa = senza_effetto e
      in if eff = NoEffect then causa else WithRemoteEffect eff causa)"

definition with_row_diagnostics :: "row_diagnostics \<Rightarrow> plenora_error \<Rightarrow> plenora_error" where
  "with_row_diagnostics d e =
     (case validate_for_emission d of
        Inl _ \<Rightarrow> Internal ''row diagnostics interne non valide''
      | Inr _ \<Rightarrow> RowDiagnostics e d)"

fun row_diagnostics_of :: "plenora_error \<Rightarrow> row_diagnostics option" where
  "row_diagnostics_of (RowDiagnostics _ d) = Some d"
| "row_diagnostics_of (Tagged _ src) = row_diagnostics_of src"
| "row_diagnostics_of (WithRemoteEffect _ src) = row_diagnostics_of src"
| "row_diagnostics_of _ = None"

definition is_cancelled :: "plenora_error \<Rightarrow> bool" where
  "is_cancelled e \<longleftrightarrow> category e = CatCancelled"

fun execution_location :: "plenora_error \<Rightarrow> (string \<times> string \<times> string option) option" where
  "execution_location (Execution node operation eid _) =
     Some (node, operation, if eid \<noteq> [] then Some eid else None)"
| "execution_location (Tagged _ src) = execution_location src"
| "execution_location (RowDiagnostics src _) = execution_location src"
| "execution_location (WithRemoteEffect _ src) = execution_location src"
| "execution_location _ = None"

definition execution_context :: "plenora_error \<Rightarrow> (string \<times> string \<times> string) option" where
  "execution_context e = (case execution_location e of
     None \<Rightarrow> None
   | Some (node, operation, eid) \<Rightarrow> map_option (\<lambda>i. (node, operation, i)) eid)"

fun execution_reason :: "plenora_error \<Rightarrow> string option" where
  "execution_reason (Execution _ _ _ reason) = Some reason"
| "execution_reason (Tagged _ src) = execution_reason src"
| "execution_reason (RowDiagnostics src _) = execution_reason src"
| "execution_reason (WithRemoteEffect _ src) = execution_reason src"
| "execution_reason _ = None"

fun with_execution_id :: "string \<Rightarrow> plenora_error \<Rightarrow> plenora_error" where
  "with_execution_id i (Execution node operation current reason) =
     Execution node operation (if current = [] then i else current) reason"
| "with_execution_id i (Tagged ph src) = Tagged ph (with_execution_id i src)"
| "with_execution_id i (RowDiagnostics src d) = RowDiagnostics (with_execution_id i src) d"
| "with_execution_id i (WithRemoteEffect eff src) = WithRemoteEffect eff (with_execution_id i src)"
| "with_execution_id i altro = altro"

fun phase_tag :: "plenora_error \<Rightarrow> error_phase option" where
  "phase_tag (Tagged ph _) = Some ph"
| "phase_tag (RowDiagnostics src _) = phase_tag src"
| "phase_tag (WithRemoteEffect _ src) = phase_tag src"
| "phase_tag _ = None"

fun untag :: "plenora_error \<Rightarrow> plenora_error" where
  "untag (Tagged _ src) = untag src"
| "untag (RowDiagnostics src d) = RowDiagnostics (untag src) d"
| "untag (WithRemoteEffect eff src) = WithRemoteEffect eff (untag src)"
| "untag e = e"

definition io_con_contesto :: "string \<Rightarrow> string list \<times> io_error_kind \<Rightarrow> plenora_error" where
  "io_con_contesto contesto causa = (case causa of (cs, kind) \<Rightarrow> Io (contesto # cs) kind)"

section \<open>Public axes\<close>

definition CODE_DEADLINE_EXCEEDED :: string where
  "CODE_DEADLINE_EXCEEDED = ''EXECUTION_DEADLINE_EXCEEDED''"

definition CODE_CANCELLED :: string where
  "CODE_CANCELLED = ''EXECUTION_CANCELLED''"

definition MAX_RETRY_DELAY_MS :: nat where
  "MAX_RETRY_DELAY_MS = 86400000"

fun code_of :: "plenora_error \<Rightarrow> string option" where
  "code_of (Timeout _) = Some CODE_DEADLINE_EXCEEDED"
| "code_of (Cancelled _) = Some CODE_CANCELLED"
| "code_of (CrsCoded code _) = Some code"
| "code_of (Tagged _ src) = code_of src"
| "code_of (RowDiagnostics src _) = code_of src"
| "code_of (WithRemoteEffect _ src) = code_of src"
| "code_of _ = None"

definition retry_pubblico :: "remote_effect \<Rightarrow> retry_disposition \<Rightarrow> retry_disposition" where
  "retry_pubblico effetto retry = (case (effetto, retry) of
     (EffUnknown, Safe) \<Rightarrow> RequiresRecovery
   | (EffUnknown, After _) \<Rightarrow> RequiresRecovery
   | (EffUnknown, RequiresIdempotencyKey) \<Rightarrow> RequiresRecovery
   | (_, After delay) \<Rightarrow>
       (if nat_div_ceil delay 1000000 > MAX_RETRY_DELAY_MS then Never else After delay)
   | (_, r) \<Rightarrow> r)"

section \<open>Layers of context\<close>

text \<open>
  The contract of an operation that adds to an error what its caller knows: category, effect and
  public code stay (\<open>axis_layer\<close>), and for one that adds text only also phase and retry
  (\<open>context_layer\<close>).
\<close>

locale axis_layer =
  fixes layer :: "plenora_error \<Rightarrow> plenora_error"
  assumes layer_category: "category (layer e) = category e"
    and layer_effect: "remote_effect_of (layer e) = remote_effect_of e"
    and layer_code: "code_of (layer e) = code_of e"
begin

lemma layer_cancelled: "is_cancelled (layer e) = is_cancelled e"
  by (simp add: is_cancelled_def layer_category)

lemma layers_category: "category ((layer ^^ n) e) = category e"
  by (induction n) (simp_all add: layer_category)

lemma map_err_category:
  "map_err layer r = Inl e' \<Longrightarrow> \<exists>e. r = Inl e \<and> category e' = category e"
  by (cases r) (auto simp: layer_category)

lemma map_err_ok: "is_ok (map_err layer r) = is_ok r"
  by (cases r) simp_all

end

locale context_layer = axis_layer +
  assumes layer_phase: "phase (layer e) = phase e"
    and layer_retry: "retry_of (layer e) = retry_of e"
begin

lemma layer_public:
  "retry_pubblico (remote_effect_of (layer e)) (retry_of (layer e)) =
     retry_pubblico (remote_effect_of e) (retry_of e)"
  by (simp add: layer_effect layer_retry)

lemma layer_axes:
  "(category (layer e), phase (layer e), remote_effect_of (layer e), retry_of (layer e)) =
     (category e, phase e, remote_effect_of e, retry_of e)"
  by (simp add: layer_category layer_phase layer_effect layer_retry)

end

lemma con_contesto_phase [simp]: "phase (con_contesto c e) = phase e"
  by (induction c e rule: con_contesto.induct) simp_all

lemma with_execution_id_phase [simp]: "phase (with_execution_id i e) = phase e"
  by (induction i e rule: with_execution_id.induct) simp_all

interpretation contesto: context_layer "con_contesto c"
proof unfold_locales
  fix e
  show "category (con_contesto c e) = category e"
    by (induction c e rule: con_contesto.induct) simp_all
  show "remote_effect_of (con_contesto c e) = remote_effect_of e"
    by (induction c e rule: con_contesto.induct) simp_all
  show "code_of (con_contesto c e) = code_of e"
    by (induction c e rule: con_contesto.induct) simp_all
  show "retry_of (con_contesto c e) = retry_of e"
    by (induction c e rule: con_contesto.induct) simp_all
qed simp

interpretation exec_id: context_layer "with_execution_id i"
proof unfold_locales
  fix e
  show "category (with_execution_id i e) = category e"
    by (induction i e rule: with_execution_id.induct) simp_all
  show "remote_effect_of (with_execution_id i e) = remote_effect_of e"
    by (induction i e rule: with_execution_id.induct) simp_all
  show "code_of (with_execution_id i e) = code_of e"
    by (induction i e rule: with_execution_id.induct) simp_all
  show "retry_of (with_execution_id i e) = retry_of e"
    by (induction i e rule: with_execution_id.induct) simp_all
qed simp

interpretation fase: axis_layer "with_phase ph"
proof unfold_locales
  fix e
  show "category (with_phase ph e) = category e"
    by (induction ph e rule: with_phase.induct) simp_all
  show "remote_effect_of (with_phase ph e) = remote_effect_of e"
    by (induction ph e rule: with_phase.induct) simp_all
  show "code_of (with_phase ph e) = code_of e"
    by (induction ph e rule: with_phase.induct) simp_all
qed

interpretation senza_tag: axis_layer untag
proof unfold_locales
  fix e
  show "category (untag e) = category e"
    by (induction e rule: untag.induct) simp_all
  show "remote_effect_of (untag e) = remote_effect_of e"
    by (induction e rule: untag.induct) simp_all
  show "code_of (untag e) = code_of e"
    by (induction e rule: untag.induct) simp_all
qed

section \<open>Lemmas on the wrappers\<close>

lemma phase_with_phase:
  "phase (with_phase ph e) = (case phase_tag e of None \<Rightarrow> ph | Some q \<Rightarrow> q)"
  by (induction ph e rule: with_phase.induct) simp_all

lemma phase_tag_with_phase:
  "phase_tag (with_phase ph e) = Some (case phase_tag e of None \<Rightarrow> ph | Some q \<Rightarrow> q)"
  by (induction ph e rule: with_phase.induct) simp_all

lemma with_phase_tagged: "phase_tag e \<noteq> None \<Longrightarrow> with_phase ph e = e"
  by (induction ph e rule: with_phase.induct) auto

lemma row_diagnostics_with_phase: "row_diagnostics_of (with_phase ph e) = row_diagnostics_of e"
  by (induction ph e rule: with_phase.induct) simp_all

lemma untag_with_phase: "untag (with_phase ph e) = untag e"
  by (induction ph e rule: with_phase.induct) simp_all

lemma untag_untagged: "phase_tag (untag e) = None"
  by (induction e rule: untag.induct) simp_all

lemma senza_effetto_dichiarato: "\<not> ha_effetto_dichiarato (senza_effetto e)"
  by (induction e rule: senza_effetto.induct) simp_all

lemma senza_effetto_none: "\<not> ha_effetto_dichiarato e \<Longrightarrow> remote_effect_of e = NoEffect"
  by (induction e rule: remote_effect_of.induct) simp_all

lemma senza_effetto_category: "category (senza_effetto e) = category e"
  by (induction e rule: senza_effetto.induct) simp_all

lemma senza_effetto_row_diagnostics: "row_diagnostics_of (senza_effetto e) = row_diagnostics_of e"
  by (induction e rule: senza_effetto.induct) simp_all

lemma senza_effetto_id: "\<not> ha_effetto_dichiarato e \<Longrightarrow> senza_effetto e = e"
  by (induction e rule: senza_effetto.induct) simp_all

lemma assi_io_retry: "snd (assi_io k) \<in> {Safe, Never}"
  by (cases k) (simp_all add: assi_io_def)

lemma retry_prodotti: "retry_of e \<in> {Never, Safe, RequiresRecovery}"
  by (induction e rule: retry_of.induct) (use assi_io_retry in \<open>auto simp: retry_con_effetto_def\<close>)

lemma retry_con_effetto_visibile:
  "eff \<notin> {NoEffect, RolledBack} \<Longrightarrow> r \<in> {Never, Safe, RequiresRecovery} \<Longrightarrow>
     retry_con_effetto eff r ph \<in> {Never, RequiresRecovery}"
  by (auto simp: retry_con_effetto_def)

text \<open>The payloads of a chain, and that the operations never attach an invalid one.\<close>

fun payload_validi :: "plenora_error \<Rightarrow> bool" where
  "payload_validi (RowDiagnostics src d) = (is_ok (validate_for_emission d) \<and> payload_validi src)"
| "payload_validi (Tagged _ src) = payload_validi src"
| "payload_validi (WithRemoteEffect _ src) = payload_validi src"
| "payload_validi _ = True"

lemma payload_validi_diagnostica:
  "payload_validi e \<Longrightarrow> row_diagnostics_of e = Some d \<Longrightarrow> validate_for_emission d = Inr ()"
  by (induction e rule: payload_validi.induct) (auto simp: is_ok_iff)

lemma payload_validi_with_phase: "payload_validi e \<Longrightarrow> payload_validi (with_phase ph e)"
  by (induction ph e rule: with_phase.induct) simp_all

lemma payload_validi_con_contesto: "payload_validi e \<Longrightarrow> payload_validi (con_contesto c e)"
  by (induction c e rule: con_contesto.induct) simp_all

lemma payload_validi_senza_effetto: "payload_validi e \<Longrightarrow> payload_validi (senza_effetto e)"
  by (induction e rule: senza_effetto.induct) simp_all

lemma payload_validi_with_row_diagnostics:
  "payload_validi e \<Longrightarrow> payload_validi (with_row_diagnostics d e)"
  by (auto simp: with_row_diagnostics_def split: sum.splits)

lemma category_all_complete: "set category_all = UNIV"
  by (auto simp: category_all_def) (metis error_category.exhaust)

lemma category_all_distinct: "distinct category_all"
  by (simp add: category_all_def)

lemma position_from_nth: "c \<in> set vs \<Longrightarrow> position_from vs c < length vs \<and> vs ! position_from vs c = c"
  by (induction vs c rule: position_from.induct) auto

section \<open>Properties\<close>

text \<open>C2. The retry axis never offers an automatic retry over a visible effect: an error whose effect
  is partial, committed or unknown has retry \<open>never\<close> or \<open>requires_recovery\<close>, whatever the wrappers and
  their order; and no error at all is \<open>quarantine\<close>, \<open>after\<close> or \<open>requires_idempotency_key\<close>.  Hence the two
  corrections of the public projection (ERR-006, ERR-007) never change a retry.\<close>

theorem no_automatic_retry_over_visible_effect:
  "(remote_effect_of e \<in> {PartialEffect, Committed, EffUnknown} \<longrightarrow>
      retry_of e \<in> {Never, RequiresRecovery})
   \<and> retry_of e \<in> {Never, Safe, RequiresRecovery}
   \<and> retry_pubblico (remote_effect_of e) (retry_of e) = retry_of e"
proof -
  have vis: "retry_of e \<in> {Never, RequiresRecovery}"
    if "remote_effect_of e \<notin> {NoEffect, RolledBack}"
    using that
    by (induction e rule: retry_of.induct)
       (use retry_con_effetto_visibile retry_prodotti in auto)
  have "retry_pubblico (remote_effect_of e) (retry_of e) = retry_of e"
    using vis retry_prodotti [of e]
    by (cases "remote_effect_of e") (auto simp: retry_pubblico_def)
  with vis retry_prodotti [of e] show ?thesis by auto
qed

theorem no_automatic_retry_over_visible_effect_witness:
  "retry_of (Tagged PhWrite (WithRemoteEffect EffUnknown (Io [] KInterrupted))) = RequiresRecovery
   \<and> retry_of (Io [] KInterrupted) = Safe
   \<and> retry_of (Tagged PhWrite (WithRemoteEffect EffUnknown (Io [] KInterrupted)))
       \<in> {Never, RequiresRecovery}"
  using no_automatic_retry_over_visible_effect
    [of "Tagged PhWrite (WithRemoteEffect EffUnknown (Io [] KInterrupted))"]
  by (simp add: retry_con_effetto_def assi_io_def)

text \<open>The first phase tag wins and tags never nest: after \<open>with_phase\<close> the phase is the one of an
  existing tag, or else the one given, a second \<open>with_phase\<close> changes nothing, the tag lies under the
  transparent wrappers (category, effect, public code and row diagnostics are those of the error), and
  \<open>untag\<close> gives the same error as before.\<close>

theorem first_phase_tag_wins:
  "phase (with_phase p e) = (case phase_tag e of None \<Rightarrow> p | Some q \<Rightarrow> q)
   \<and> with_phase q (with_phase p e) = with_phase p e
   \<and> category (with_phase p e) = category e
   \<and> remote_effect_of (with_phase p e) = remote_effect_of e
   \<and> code_of (with_phase p e) = code_of e
   \<and> row_diagnostics_of (with_phase p e) = row_diagnostics_of e
   \<and> untag (with_phase p e) = untag e"
  by (simp add: phase_with_phase with_phase_tagged phase_tag_with_phase fase.layer_category
      fase.layer_effect fase.layer_code row_diagnostics_with_phase untag_with_phase)

text \<open>Declaring an effect: \<open>with_remote_effect\<close> keeps the first declared effect and gives the new one
  only to an error without one, while \<open>override_remote_effect\<close> always imposes its effect, leaving
  no other declaration in the chain; both keep category and row diagnostics.\<close>

theorem declared_effect_first_or_overridden:
  "remote_effect_of (with_remote_effect eff e) =
     (if ha_effetto_dichiarato e then remote_effect_of e else eff)
   \<and> remote_effect_of (override_remote_effect eff e) = eff
   \<and> override_remote_effect eff' (override_remote_effect eff e) = override_remote_effect eff' e
   \<and> category (with_remote_effect eff e) = category e
   \<and> category (override_remote_effect eff e) = category e
   \<and> row_diagnostics_of (override_remote_effect eff e) = row_diagnostics_of e"
  using senza_effetto_none [OF senza_effetto_dichiarato, of e] senza_effetto_none [of e]
    senza_effetto_id [OF senza_effetto_dichiarato, of e]
  by (auto simp: with_remote_effect_def override_remote_effect_def Let_def senza_effetto_category
      senza_effetto_row_diagnostics)

text \<open>The stable names of the categories: \<open>from_stable_name\<close> inverts \<open>as_str\<close> on every category and
  accepts nothing else, and \<open>index\<close> is the position of the category in \<open>ALL\<close>, which lists every
  category once.\<close>

theorem category_names_roundtrip:
  "from_stable_name (category_as_str c) = Some c
   \<and> (from_stable_name n = Some c \<longleftrightarrow> n = category_as_str c)
   \<and> category_index c < length category_all \<and> category_all ! category_index c = c
   \<and> distinct category_all \<and> set category_all = UNIV"
proof -
  have rt: "from_stable_name (category_as_str c) = Some c"
    by (cases c) (simp_all add: from_stable_name_def category_all_def)
  have "from_stable_name n = Some c \<Longrightarrow> n = category_as_str c"
    by (auto simp: from_stable_name_def find_Some_iff)
  with rt show ?thesis
    using position_from_nth [of c category_all] category_all_complete category_all_distinct
    by (auto simp: category_index_def)
qed

end
