(* ===== verification/RunLimits.thy ===== *)
theory RunLimits
  imports Errors
begin

unbundle bit_operations_syntax

text \<open>
  The limits of \<open>crates/plenora-core/src/limits.rs\<close>: the records with their defaults, the validation,
  and the decision of the expansion factor, \<open>expansion_exceeded\<close>.

  A \<open>u64\<close> is a 64-bit word and a \<open>usize\<close> a natural number (no modelled operation on one can
  overflow).  An \<open>f64\<close> is the word of its IEEE 754 bits, the value of \<open>to_bits\<close>; \<open>f64_value\<close> is the
  real number it stands for.  The code never rounds a count: it compares
  \<open>output_rows > base_rows * mantissa * 2^exponent\<close> between integers, with checks on the width of
  every product and shift, and the lemmas show that this decides the comparison of the real numbers.
\<close>

section \<open>Floating point numbers by their bits\<close>

type_synonym f64 = "64 word"

definition f64_raw_exponent :: "f64 \<Rightarrow> 64 word" where
  "f64_raw_exponent f = drop_bit 52 f AND 0x7ff"

definition f64_fraction :: "f64 \<Rightarrow> 64 word" where
  "f64_fraction f = f AND (push_bit 52 1 - 1)"

definition f64_negative :: "f64 \<Rightarrow> bool" where
  "f64_negative f = bit f 63"

definition f64_is_finite :: "f64 \<Rightarrow> bool" where
  "f64_is_finite f \<longleftrightarrow> f64_raw_exponent f \<noteq> 0x7ff"

definition f64_is_nan :: "f64 \<Rightarrow> bool" where
  "f64_is_nan f \<longleftrightarrow> f64_raw_exponent f = 0x7ff \<and> f64_fraction f \<noteq> 0"

definition f64_is_zero :: "f64 \<Rightarrow> bool" where
  "f64_is_zero f \<longleftrightarrow> f64_raw_exponent f = 0 \<and> f64_fraction f = 0"

text \<open>\<open>factor <= 0.0\<close>: false on a NaN.\<close>

definition f64_le_zero :: "f64 \<Rightarrow> bool" where
  "f64_le_zero f \<longleftrightarrow> \<not> f64_is_nan f \<and> (f64_negative f \<or> f64_is_zero f)"

definition f64_decode :: "f64 \<Rightarrow> 64 word \<times> int" where
  "f64_decode f =
     (if f64_raw_exponent f = 0 then (f64_fraction f, -1074)
      else (f64_fraction f OR push_bit 52 1, uint (f64_raw_exponent f) - 1075))"

definition f64_value :: "f64 \<Rightarrow> real" where
  "f64_value f = (if f64_negative f then -1 else 1)
     * real (unat (fst (f64_decode f))) * 2 powi (snd (f64_decode f))"

section \<open>The limits\<close>

record row_limits =
  max_input_rows :: u64
  max_output_rows :: u64
  max_rows_per_edge :: u64
  max_expansion_factor :: f64

record plan_limits =
  max_plan_json_bytes :: nat
  max_plan_nodes :: nat
  max_plan_edges :: nat
  max_plan_depth :: nat
  max_fan_out :: nat
  max_inputs :: nat
  max_config_bytes_per_node :: nat
  max_identifier_bytes :: nat

record limits =
  rows :: row_limits
  plan :: plan_limits
  max_governed_memory_bytes :: u64
  max_parallelism :: "32 word"
  max_wkb_cell_bytes :: u64
  max_payload_bytes :: u64
  max_batches :: u64
  max_geometry_depth :: "32 word"
  max_string_bytes :: nat
  max_regex_bytes :: nat

definition DEFAULT_MAX_GOVERNED_MEMORY_BYTES_USIZE :: nat where
  "DEFAULT_MAX_GOVERNED_MEMORY_BYTES_USIZE = 512 * 1024 * 1024"

definition DEFAULT_MAX_GOVERNED_MEMORY_BYTES :: u64 where
  "DEFAULT_MAX_GOVERNED_MEMORY_BYTES = of_nat DEFAULT_MAX_GOVERNED_MEMORY_BYTES_USIZE"

definition DEFAULT_MAX_STRING_BYTES :: nat where
  "DEFAULT_MAX_STRING_BYTES = 16 * 1024 * 1024"

definition DEFAULT_MAX_REGEX_BYTES :: nat where
  "DEFAULT_MAX_REGEX_BYTES = 64 * 1024"

text \<open>\<open>100.0\<close> has the bits \<open>0x4059000000000000\<close>.\<close>

definition row_limits_default :: row_limits where
  "row_limits_default =
     \<lparr>max_input_rows = 10000000, max_output_rows = 10000000, max_rows_per_edge = 10000000,
      max_expansion_factor = 0x4059000000000000\<rparr>"

definition plan_limits_default :: plan_limits where
  "plan_limits_default =
     \<lparr>max_plan_json_bytes = 16 * 1024 * 1024, max_plan_nodes = 1024, max_plan_edges = 4096,
      max_plan_depth = 256, max_fan_out = 64, max_inputs = 16,
      max_config_bytes_per_node = 1024 * 1024, max_identifier_bytes = 256\<rparr>"

definition limits_default :: limits where
  "limits_default =
     \<lparr>rows = row_limits_default, plan = plan_limits_default,
      max_governed_memory_bytes = DEFAULT_MAX_GOVERNED_MEMORY_BYTES, max_parallelism = 0,
      max_wkb_cell_bytes = 64 * 1024 * 1024, max_payload_bytes = 16 * 1024 * 1024 * 1024,
      max_batches = 65536, max_geometry_depth = 64,
      max_string_bytes = DEFAULT_MAX_STRING_BYTES, max_regex_bytes = DEFAULT_MAX_REGEX_BYTES\<rparr>"

definition nullo :: "string \<Rightarrow> plenora_error" where
  "nullo nome = InvalidPlan (nome @ '' a zero: nessuna esecuzione sarebbe possibile'')"

definition limits_validate :: "limits \<Rightarrow> unit result" where
  "limits_validate l =
     (if max_input_rows (rows l) = 0 then Inl (nullo ''max_input_rows'')
      else if max_output_rows (rows l) = 0 then Inl (nullo ''max_output_rows'')
      else if max_rows_per_edge (rows l) = 0 then Inl (nullo ''max_rows_per_edge'')
      else if \<not> f64_is_finite (max_expansion_factor (rows l))
              \<or> f64_le_zero (max_expansion_factor (rows l)) then
        Inl (InvalidPlan (''max_expansion_factor deve essere finito e positivo: un valore non '' @
          ''ordinabile renderebbe vero ogni confronto di espansione''))
      else if max_governed_memory_bytes l = 0 then Inl (nullo ''max_governed_memory_bytes'')
      else if max_payload_bytes l = 0 then Inl (nullo ''max_payload_bytes'')
      else if max_batches l = 0 then Inl (nullo ''max_batches'')
      else if max_wkb_cell_bytes l = 0 then Inl (nullo ''max_wkb_cell_bytes'')
      else if max_geometry_depth l = 0 then Inl (nullo ''max_geometry_depth'')
      else if max_string_bytes l = 0 then Inl (nullo ''max_string_bytes'')
      else if max_regex_bytes l = 0 then Inl (nullo ''max_regex_bytes'')
      else if max_plan_json_bytes (plan l) = 0 then Inl (nullo ''plan.max_plan_json_bytes'')
      else if max_inputs (plan l) = 0 then Inl (nullo ''plan.max_inputs'')
      else if max_identifier_bytes (plan l) = 0 then Inl (nullo ''plan.max_identifier_bytes'')
      else Inr ())"

section \<open>The expansion factor\<close>

fun bit_length :: "nat \<Rightarrow> nat" where
  "bit_length n = (if n = 0 then 0 else Suc (bit_length (n div 2)))"

declare bit_length.simps [simp del]

definition leading_zeros :: "'a::len word \<Rightarrow> nat" where
  "leading_zeros w = LENGTH('a) - bit_length (unat w)"

definition checked_shl :: "'a::len word \<Rightarrow> nat \<Rightarrow> 'a word option" where
  "checked_shl w n = (if n < LENGTH('a) then Some (push_bit n w) else None)"

text \<open>\<open>checked_shl(shift).filter(|_| shift < 128 && x.leading_zeros() >= shift)\<close>.\<close>

definition exact_shl :: "u128 \<Rightarrow> nat \<Rightarrow> u128 option" where
  "exact_shl x shift = (case checked_shl x shift of None \<Rightarrow> None
     | Some y \<Rightarrow> if shift < 128 \<and> shift \<le> leading_zeros x then Some y else None)"

definition expansion_exceeded_wide :: "u64 \<Rightarrow> u128 \<Rightarrow> f64 \<Rightarrow> bool" where
  "expansion_exceeded_wide output_rows base_rows factor =
     (if \<not> f64_is_finite factor \<or> f64_le_zero factor then output_rows > 0
      else case f64_decode factor of (mantissa, exponent) \<Rightarrow>
        (case checked_mul base_rows (ucast mantissa) of
           None \<Rightarrow> True
         | Some scaled \<Rightarrow>
             let output = (ucast output_rows :: u128) in
             if scaled = 0 then output_rows > 0
             else if exponent \<ge> 0 then
               (case exact_shl scaled (nat exponent) of
                  None \<Rightarrow> False | Some threshold \<Rightarrow> output > threshold)
             else
               (case exact_shl output (nat (- exponent)) of
                  None \<Rightarrow> output \<noteq> 0 | Some shifted \<Rightarrow> shifted > scaled)))"

definition expansion_exceeded :: "u64 \<Rightarrow> u64 \<Rightarrow> f64 \<Rightarrow> bool" where
  "expansion_exceeded output_rows base_rows factor =
     expansion_exceeded_wide output_rows (ucast base_rows) factor"

section \<open>Lemmas\<close>

lemma bit_length_le_iff: "bit_length n \<le> k \<longleftrightarrow> n < 2 ^ k"
proof (induction k arbitrary: n)
  case 0
  then show ?case by (subst bit_length.simps) auto
next
  case (Suc k)
  show ?case
  proof (cases "n = 0")
    case True
    then show ?thesis by (subst bit_length.simps) simp
  next
    case False
    then have "bit_length n \<le> Suc k \<longleftrightarrow> bit_length (n div 2) \<le> k"
      by (subst bit_length.simps) simp
    also have "\<dots> \<longleftrightarrow> n < 2 ^ Suc k" using Suc [of "n div 2"] by auto
    finally show ?thesis .
  qed
qed

lemma unat_ucast_u128 [simp]: "unat (ucast (x :: u64) :: u128) = unat x"
  by (simp add: unsigned_ucast_eq take_bit_nat_eq_self unat_lt [THEN less_trans])

lemma exact_shl_Some_iff:
  "exact_shl x n = Some y \<longleftrightarrow> n < 128 \<and> unat y = unat x * 2 ^ n"
proof
  assume "exact_shl x n = Some y"
  then have n: "n < 128" "n \<le> leading_zeros x" "y = push_bit n x"
    by (auto simp: exact_shl_def checked_shl_def split: option.splits if_splits)
  then have "bit_length (unat x) \<le> 128 - n"
    using bit_length_le_iff [of "unat x" 128] unat_lt [of x]
    by (simp add: leading_zeros_def)
  then have "unat x < 2 ^ (128 - n)" by (simp add: bit_length_le_iff)
  then have "unat x * 2 ^ n < 2 ^ (128 - n) * 2 ^ n" by simp
  also have "\<dots> = 2 ^ 128" using n(1) by (simp flip: power_add)
  finally have "unat x * 2 ^ n < 2 ^ 128" .
  with n show "n < 128 \<and> unat y = unat x * 2 ^ n"
    by (simp only: unsigned_push_bit_eq) (simp add: push_bit_eq_mult take_bit_eq_mod)
next
  assume r: "n < 128 \<and> unat y = unat x * 2 ^ n"
  then have lt: "unat x * 2 ^ n < 2 ^ 128" using unat_lt [of y] by simp
  also have "(2 :: nat) ^ 128 = 2 ^ (128 - n) * 2 ^ n" using r by (simp flip: power_add)
  finally have "unat x < 2 ^ (128 - n)" by simp
  then have "bit_length (unat x) \<le> 128 - n" by (simp add: bit_length_le_iff)
  moreover have "n < 128" using r by simp
  ultimately have "bit_length (unat x) + n \<le> 128" by linarith
  then have "n \<le> leading_zeros x" by (simp add: leading_zeros_def)
  moreover have "push_bit n x = y"
    using lt r
    by (simp only: word_unat_eq_iff unsigned_push_bit_eq) (simp add: push_bit_eq_mult take_bit_eq_mod)
  ultimately show "exact_shl x n = Some y"
    using r by (simp add: exact_shl_def checked_shl_def)
qed

lemma exact_shl_None_iff: "exact_shl x n = None \<longleftrightarrow> 128 \<le> n \<or> 2 ^ 128 \<le> unat x * 2 ^ n"
proof -
  have "(\<exists>y. exact_shl x n = Some y) \<longleftrightarrow> n < 128 \<and> unat x * 2 ^ n < 2 ^ 128"
  proof -
    have "unat (of_nat m :: u128) = m" if "m < 2 ^ 128" for m
      using that by (simp add: unat_of_nat)
    then have "(\<exists>y :: u128. unat y = m) \<longleftrightarrow> m < 2 ^ 128" for m
      using unat_lt [where 'a = 128] by force
    then show ?thesis by (auto simp: exact_shl_Some_iff)
  qed
  then show ?thesis by (metis not_None_eq not_less option.distinct(1))
qed

text \<open>The decoded mantissa and exponent.\<close>

lemma f64_fraction_take_bit: "f64_fraction f = take_bit 52 f"
  by (simp add: f64_fraction_def take_bit_eq_mask mask_eq_exp_minus_1 push_bit_eq_mult)

lemma f64_fraction_lt: "unat (f64_fraction f) < 2 ^ 52"
  unfolding f64_fraction_take_bit by (simp only: unsigned_take_bit_eq take_bit_nat_less_exp)

lemma f64_raw_exponent_lt: "unat (f64_raw_exponent f) < 2 ^ 11"
proof -
  have "f64_raw_exponent f = take_bit 11 (drop_bit 52 f)"
    by (simp add: f64_raw_exponent_def take_bit_eq_mask mask_eq_exp_minus_1)
  then show ?thesis by (simp only: unsigned_take_bit_eq take_bit_nat_less_exp)
qed

lemma f64_mantissa_lt: "f64_decode f = (m, e) \<Longrightarrow> unat m < 2 ^ 53"
proof -
  have "unat (f64_fraction f OR push_bit 52 1) < 2 ^ 53"
  proof -
    have "f64_fraction f OR push_bit 52 1 = take_bit 53 (f64_fraction f OR push_bit 52 1)"
    proof (rule bit_word_eqI)
      fix n assume "n < LENGTH(64)"
      have "bit (f64_fraction f) n \<Longrightarrow> n < 53"
        by (simp add: f64_fraction_take_bit bit_simps)
      then show "bit (f64_fraction f OR push_bit 52 1) n =
          bit (take_bit 53 (f64_fraction f OR push_bit 52 1)) n"
        by (auto simp: bit_simps)
    qed
    then have "unat (f64_fraction f OR push_bit 52 1) =
        take_bit 53 (unat (f64_fraction f OR push_bit 52 1))"
      by (metis unsigned_take_bit_eq)
    then show ?thesis by (metis take_bit_nat_less_exp)
  qed
  moreover assume "f64_decode f = (m, e)"
  ultimately show ?thesis
    using f64_fraction_lt [of f] by (auto simp: f64_decode_def split: if_splits)
qed

lemma f64_mantissa_pos:
  "\<not> f64_is_zero f \<Longrightarrow> f64_decode f = (m, e) \<Longrightarrow> 0 < unat m"
proof -
  have "f64_fraction f OR push_bit 52 1 \<noteq> 0"
  proof
    assume "f64_fraction f OR push_bit 52 1 = 0"
    then have "bit (f64_fraction f OR push_bit 52 1) 52 = False" by simp
    then show False by (simp add: bit_simps)
  qed
  moreover assume "\<not> f64_is_zero f" "f64_decode f = (m, e)"
  ultimately show ?thesis
    by (auto simp: f64_decode_def f64_is_zero_def unat_gt_0 split: if_splits)
qed

lemma f64_positive_value:
  assumes "f64_is_finite f" "\<not> f64_le_zero f" "f64_decode f = (m, e)"
  shows "f64_value f = real (unat m) * 2 powi e" and "0 < unat m" and "0 < f64_value f"
proof -
  have "\<not> f64_negative f" "\<not> f64_is_zero f"
    using assms(1,2) by (auto simp: f64_le_zero_def f64_is_nan_def f64_is_finite_def)
  then show "f64_value f = real (unat m) * 2 powi e" "0 < unat m"
    using assms(3) f64_mantissa_pos by (auto simp: f64_value_def)
  then show "0 < f64_value f" by (metis mult_pos_pos of_nat_0_less_iff zero_less_numeral
        zero_less_power_int)
qed

text \<open>A shift out of the 128 bits is decided by the width alone.\<close>

lemma u64_less_exp: "unat (x :: u64) < 2 ^ 128"
  by (rule less_trans [OF unat_lt]) simp

lemma expansion_shift_left:
  assumes "0 < unat (s :: u128)" and "unat out < 2 ^ 64"
  shows "(case exact_shl s n of None \<Rightarrow> False | Some t \<Rightarrow> out > t) \<longleftrightarrow>
     unat s * 2 ^ n < unat out"
proof (cases "exact_shl s n")
  case None
  then have "128 \<le> n \<or> 2 ^ 128 \<le> unat s * 2 ^ n" by (simp add: exact_shl_None_iff)
  then have "2 ^ 128 \<le> unat s * 2 ^ n"
  proof
    assume "128 \<le> n"
    then have "(2 :: nat) ^ 128 \<le> 2 ^ n" by (intro power_increasing) simp_all
    also have "\<dots> \<le> unat s * 2 ^ n" using assms(1) by simp
    finally show ?thesis .
  qed
  with assms(2) None show ?thesis by simp
next
  case (Some t)
  then have "unat t = unat s * 2 ^ n" by (simp add: exact_shl_Some_iff)
  with Some show ?thesis by (simp add: word_less_nat_alt)
qed

lemma expansion_shift_right:
  "(case exact_shl out n of None \<Rightarrow> out \<noteq> 0 | Some t \<Rightarrow> t > s) \<longleftrightarrow> unat s < unat out * 2 ^ n"
proof (cases "exact_shl out n")
  case None
  then have none: "128 \<le> n \<or> 2 ^ 128 \<le> unat out * 2 ^ n" by (simp add: exact_shl_None_iff)
  show ?thesis
  proof (cases "out = 0")
    case False
    then have pos: "0 < unat out" by (simp add: unat_gt_0)
    from none have "2 ^ 128 \<le> unat out * 2 ^ n"
    proof
      assume "128 \<le> n"
      then have "(2 :: nat) ^ 128 \<le> 2 ^ n" by (intro power_increasing) simp_all
      also have "\<dots> \<le> unat out * 2 ^ n" using pos by simp
      finally show ?thesis .
    qed
    with unat_u128_lt [of s] None False show ?thesis by simp
  qed (use None in simp)
next
  case (Some t)
  then have "unat t = unat out * 2 ^ n" by (simp add: exact_shl_Some_iff)
  with Some show ?thesis by (simp add: word_less_nat_alt)
qed

text \<open>The comparison of integers decides the comparison of reals.\<close>

lemma real_shift_left:
  "unat s * 2 ^ nat e < k \<longleftrightarrow> real (unat s) * 2 powi e < real k" if "0 \<le> e"
proof -
  have "real (unat s) * 2 powi e = real (unat s * 2 ^ nat e)"
    using that by (simp add: power_int_def)
  then show ?thesis by (simp only: of_nat_less_iff)
qed

lemma real_shift_right:
  "unat s < k * 2 ^ nat (- e) \<longleftrightarrow> real (unat s) * 2 powi e < real k" if "e < 0"
proof -
  have "real (unat s) * 2 powi e < real k \<longleftrightarrow> real (unat s) < real k * 2 ^ nat (- e)"
    using that by (simp add: power_int_def inverse_eq_divide field_simps)
  also have "\<dots> \<longleftrightarrow> real (unat s) < real (k * 2 ^ nat (- e))" by simp
  finally show ?thesis by (simp only: of_nat_less_iff)
qed

lemma expansion_exceeded_wide_exact:
  assumes fin: "f64_is_finite f" and pos: "\<not> f64_le_zero f" and base: "unat base < 2 ^ 66"
  shows "expansion_exceeded_wide out base f \<longleftrightarrow>
     real (unat base) * f64_value f < real (unat out)"
proof -
  obtain m e where dec: "f64_decode f = (m, e)" by (cases "f64_decode f")
  note val = f64_positive_value [OF fin pos dec]
  have "unat base * unat m \<le> 2 ^ 66 * 2 ^ 53"
    using base f64_mantissa_lt [OF dec] by (intro mult_le_mono) simp_all
  also have "\<dots> < (2 :: nat) ^ 128" by simp
  finally have "unat base * unat (ucast m :: u128) < 2 ^ 128" by simp
  then have "checked_mul base (ucast m) \<noteq> None" by (simp add: checked_mul_None)
  then obtain s where s: "checked_mul base (ucast m) = Some s" by auto
  have us: "unat s = unat base * unat m" using checked_mul_Some [OF s] by simp
  have goal: "real (unat base) * f64_value f = real (unat s) * 2 powi e"
    by (simp add: val(1) us)
  have out: "unat (ucast out :: u128) = unat out" "unat out < 2 ^ 64"
    by (simp, rule unat_u64_lt)
  show ?thesis
  proof (cases "s = 0")
    case True
    then have "unat base * unat m = 0" using us by simp
    with val(2) have "unat base = 0" by simp
    moreover have "out > 0 \<longleftrightarrow> 0 < real (unat out)" by (simp only: word_less_nat_alt
          unsigned_0 of_nat_0_less_iff)
    ultimately show ?thesis
      using True fin pos dec s by (simp add: expansion_exceeded_wide_def Let_def)
  next
    case False
    then have spos: "0 < unat s" by (simp add: unat_gt_0)
    show ?thesis
    proof (cases "0 \<le> e")
      case True
      then have "expansion_exceeded_wide out base f \<longleftrightarrow> unat s * 2 ^ nat e < unat out"
        using fin pos dec s False expansion_shift_left [OF spos, of "ucast out" "nat e"] out
        by (simp add: expansion_exceeded_wide_def Let_def)
      with True goal show ?thesis by (simp add: real_shift_left)
    next
      case neg: False
      then have "expansion_exceeded_wide out base f \<longleftrightarrow> unat s < unat out * 2 ^ nat (- e)"
        using fin pos dec s False expansion_shift_right [of "ucast out" s "nat (- e)"]
          out
        by (simp add: expansion_exceeded_wide_def Let_def)
      with neg goal show ?thesis by (simp add: real_shift_right)
    qed
  qed
qed

lemma expansion_exceeded_exact:
  assumes "f64_is_finite f" and "\<not> f64_le_zero f"
  shows "expansion_exceeded out base f \<longleftrightarrow>
     real (unat base) * f64_value f < real (unat out)"
proof -
  have "unat base < 2 ^ 66" by (rule less_trans [OF unat_lt]) simp
  then show ?thesis
    using expansion_exceeded_wide_exact [OF assms, of "ucast base" out]
    by (simp add: expansion_exceeded_def)
qed

lemma expansion_fail_closed:
  "\<not> f64_is_finite f \<or> f64_le_zero f \<Longrightarrow> expansion_exceeded_wide out base f \<longleftrightarrow> 0 < out"
  by (auto simp: expansion_exceeded_wide_def)

lemma limits_validate_ok:
  "limits_validate l = Inr () \<Longrightarrow>
     f64_is_finite (max_expansion_factor (rows l)) \<and> \<not> f64_le_zero (max_expansion_factor (rows l))"
  by (auto simp: limits_validate_def split: if_splits)

lemma f64_le_zero_iff: "f64_is_finite f \<Longrightarrow> f64_le_zero f \<longleftrightarrow> f64_value f \<le> 0"
proof -
  assume fin: "f64_is_finite f"
  obtain m e where dec: "f64_decode f = (m, e)" by (cases "f64_decode f")
  show ?thesis
  proof (cases "f64_le_zero f")
    case False
    then show ?thesis using f64_positive_value(3) [OF fin False dec] by simp
  next
    case True
    then have "f64_negative f \<or> f64_is_zero f" by (simp add: f64_le_zero_def)
    moreover have "unat m = 0" if "f64_is_zero f"
      using that dec by (auto simp: f64_is_zero_def f64_decode_def)
    moreover have "0 \<le> real k * 2 powi e" for k :: nat by (intro mult_nonneg_nonneg) simp_all
    note this [of "unat m"]
    moreover have "f64_value f = (if f64_negative f then -1 else 1) * (real (unat m) * 2 powi e)"
      using dec by (simp add: f64_value_def)
    ultimately have "f64_value f \<le> 0"
      by (cases "f64_negative f") (simp_all only: if_True if_False mult_minus1 neg_le_0_iff_le
          of_nat_0 mult_zero_left mult_zero_right order_refl simp_thms)
    with True show ?thesis by simp
  qed
qed

lemma limits_default_valid: "limits_validate limits_default = Inr ()"
  by (simp add: limits_validate_def limits_default_def row_limits_default_def
      plan_limits_default_def DEFAULT_MAX_GOVERNED_MEMORY_BYTES_def
      DEFAULT_MAX_GOVERNED_MEMORY_BYTES_USIZE_def DEFAULT_MAX_STRING_BYTES_def
      DEFAULT_MAX_REGEX_BYTES_def f64_is_finite_def f64_le_zero_def f64_is_zero_def
      f64_negative_def f64_raw_exponent_def bit_simps)

section \<open>Properties\<close>

text \<open>C3. The expansion guard is exact: for every base the binary constraints can build (the sum of two
  64-bit counts, below \<open>2^66\<close>) and every bit pattern of the factor, \<open>expansion_exceeded_wide\<close> answers
  whether \<open>output_rows > base_rows * factor\<close> over the real numbers when the factor is finite and
  positive (subnormal and huge factors included, no rounding and no overflow on the way), and it
  fails closed, refusing every non-empty output, when the factor is not.\<close>

theorem expansion_guard_exact:
  assumes "unat base < 2 ^ 66"
  shows "expansion_exceeded_wide out base f \<longleftrightarrow>
     (if f64_is_finite f \<and> 0 < f64_value f
      then real (unat base) * f64_value f < real (unat out) else 0 < out)"
proof (cases "f64_is_finite f \<and> \<not> f64_le_zero f")
  case True
  then show ?thesis
    using expansion_exceeded_wide_exact [OF _ _ assms] f64_le_zero_iff [of f] by auto
next
  case False
  then show ?thesis using expansion_fail_closed [of f out base] f64_le_zero_iff [of f] by auto
qed

theorem expansion_guard_exact_witness:
  "expansion_exceeded_wide 1001 10 0x4059000000000000 \<longleftrightarrow>
     (if f64_is_finite 0x4059000000000000 \<and> 0 < f64_value 0x4059000000000000
      then real (unat (10 :: u128)) * f64_value 0x4059000000000000 < real (unat (1001 :: u64))
      else (0 :: u64) < 1001)"
  by (rule expansion_guard_exact) simp

text \<open>\<open>Limits::validate\<close> accepts exactly the limits under which something can run: every row, memory
  and size limit and the three plan limits without which no document passes are positive, and the
  expansion factor is a finite positive number (a NaN or an infinity is refused).  The defaults are
  accepted.\<close>

theorem limits_validate_iff:
  "(limits_validate l = Inr () \<longleftrightarrow>
     max_input_rows (rows l) \<noteq> 0 \<and> max_output_rows (rows l) \<noteq> 0
     \<and> max_rows_per_edge (rows l) \<noteq> 0
     \<and> f64_is_finite (max_expansion_factor (rows l))
     \<and> 0 < f64_value (max_expansion_factor (rows l))
     \<and> max_governed_memory_bytes l \<noteq> 0 \<and> max_payload_bytes l \<noteq> 0 \<and> max_batches l \<noteq> 0
     \<and> max_wkb_cell_bytes l \<noteq> 0 \<and> max_geometry_depth l \<noteq> 0
     \<and> max_string_bytes l \<noteq> 0 \<and> max_regex_bytes l \<noteq> 0
     \<and> max_plan_json_bytes (plan l) \<noteq> 0 \<and> max_inputs (plan l) \<noteq> 0
     \<and> max_identifier_bytes (plan l) \<noteq> 0)
   \<and> limits_validate limits_default = Inr ()"
proof -
  have "f64_is_finite f \<Longrightarrow> \<not> f64_le_zero f \<longleftrightarrow> 0 < f64_value f" for f
    using f64_le_zero_iff [of f] by auto
  then show ?thesis using limits_default_valid by (auto simp: limits_validate_def)
qed

end
