(* ===== verification/Catalog.thy ===== *)
theory Catalog
  imports RunLimits
begin

text \<open>
  The operation catalogue: \<open>crates/plenora-core/src/catalog.rs\<close>, the types, the decisions taken on a
  descriptor, and the lookups. The entries themselves are in the theory CatalogData.

  A descriptor is a \<open>record\<close> with the fields of \<open>OperationDescriptor\<close>; the macro \<open>op!\<close> of
  \<open>catalog_op.rs\<close> is the function \<open>op\<close> (the mandatory arguments, the defaults for the optional keys),
  and an optional key of an entry is a record update on its result. The macro rejects a repeated or
  unknown key at compile time, so that an entry has each key at most once.

  \<open>JoinExpansion\<close> (three \<open>f64\<close> quotients that are only reported) is not modelled; the bound itself is
  decided by \<open>exceeded\<close>, which is. The configuration of a step enters \<open>emits_row_diagnostics\<close> only as
  the lookup of a string parameter (\<open>config.get(k).and_then(Value::as_str)\<close>), an argument here.
\<close>

section \<open>Descriptors\<close>

datatype op_family = Table | Geo

datatype op_origin = ManipolaCompat | Extension

datatype op_arity = Unary | BinaryOrdered | NAry

datatype execution_class = Streaming | Blocking | BinaryBlocking

datatype cancellation_behavior = Cooperative | BoundaryOnly | NonInterruptible

datatype geo_fusion_kind = NotFusible | TransformInPlace | TerminalMeasure

datatype result_shape_kind =
  OneToOne | OneToMany | ManyToOne | Collective | WholeToMany | FromCoords | Diagnostic

datatype source_row_provenance_kind = Preserved | Unavailable

datatype crs_requirement_kind = CrsKnown | Projected | Geographic | SameProjected | Reprojection

datatype determinism_policy = DefinedOrder | InputOrder | StableKeyOrder | CanonicalOrder

datatype expansion_constraint_kind =
  SumRelative | LeftRelative | RightRelative | MaxRelative | Custom f64

datatype maturity_level = Planned | BackendPending | KernelValidated | PublicProtocol

fun geo_fusion_as_str :: "geo_fusion_kind \<Rightarrow> string" where
  "geo_fusion_as_str NotFusible = ''not_fusible''"
| "geo_fusion_as_str TransformInPlace = ''transform_in_place''"
| "geo_fusion_as_str TerminalMeasure = ''terminal_measure''"

text \<open>The hand-written \<open>PartialEq\<close>: the factor of \<open>Custom\<close> is compared by bits.\<close>

fun constraint_eq :: "expansion_constraint_kind \<Rightarrow> expansion_constraint_kind \<Rightarrow> bool" where
  "constraint_eq SumRelative SumRelative = True"
| "constraint_eq LeftRelative LeftRelative = True"
| "constraint_eq RightRelative RightRelative = True"
| "constraint_eq MaxRelative MaxRelative = True"
| "constraint_eq (Custom a) (Custom b) = (a = b)"
| "constraint_eq _ _ = False"

text \<open>The bytes and words the hand-written \<open>Hash\<close> feeds to the hasher.\<close>

fun constraint_hash :: "expansion_constraint_kind \<Rightarrow> nat \<times> u64 option" where
  "constraint_hash SumRelative = (0, None)"
| "constraint_hash LeftRelative = (1, None)"
| "constraint_hash RightRelative = (2, None)"
| "constraint_hash MaxRelative = (3, None)"
| "constraint_hash (Custom factor) = (4, Some factor)"

record operation_descriptor =
  op_id :: string
  family :: op_family
  origin :: op_origin
  arity :: op_arity
  execution_class_of :: execution_class
  cancellation :: cancellation_behavior
  geo_fusion :: geo_fusion_kind
  result_shape :: "result_shape_kind option"
  crs_requirement :: "crs_requirement_kind option"
  required_capabilities :: "string list"
  determinism :: determinism_policy
  expansion_constraint :: expansion_constraint_kind
  expansion_factor_exempt :: bool
  maturity :: maturity_level
  semantic_version :: nat
  config_schema_version :: nat
  contract_analysis_version :: nat
  kernel_version :: nat

definition op :: "string \<Rightarrow> op_family \<Rightarrow> op_origin \<Rightarrow> op_arity \<Rightarrow> execution_class \<Rightarrow>
    cancellation_behavior \<Rightarrow> result_shape_kind option \<Rightarrow> crs_requirement_kind option \<Rightarrow>
    string list \<Rightarrow> determinism_policy \<Rightarrow> maturity_level \<Rightarrow> operation_descriptor" where
  "op ident fam orig ar exec cancel shape crs caps det mat =
     \<lparr>op_id = ident, family = fam, origin = orig, arity = ar, execution_class_of = exec,
      cancellation = cancel, geo_fusion = NotFusible, result_shape = shape,
      crs_requirement = crs, required_capabilities = caps, determinism = det,
      expansion_constraint = SumRelative, expansion_factor_exempt = False, maturity = mat,
      semantic_version = 1, config_schema_version = 1, contract_analysis_version = 1,
      kernel_version = 1\<rparr>"

section \<open>Decisions on a descriptor\<close>

definition binding_threshold :: "expansion_constraint_kind \<Rightarrow> f64 \<Rightarrow> f64" where
  "binding_threshold c factor = (case c of Custom own \<Rightarrow> own | _ \<Rightarrow> factor)"

definition exceeded :: "expansion_constraint_kind \<Rightarrow> u64 \<Rightarrow> u64 \<Rightarrow> u64 \<Rightarrow> f64 \<Rightarrow> bool" where
  "exceeded c output_rows left_rows right_rows factor =
     (let threshold = binding_threshold c factor;
          left = ucast left_rows;
          right = ucast right_rows;
          over = (\<lambda>base. expansion_exceeded_wide output_rows base threshold)
      in case c of
           SumRelative \<Rightarrow> over (left + right)
         | Custom _ \<Rightarrow> over (left + right)
         | LeftRelative \<Rightarrow> over left
         | RightRelative \<Rightarrow> over right
         | MaxRelative \<Rightarrow> over left \<or> over right)"

definition supports_multiple_geometries :: "operation_descriptor \<Rightarrow> bool" where
  "supports_multiple_geometries d = (case family d of Table \<Rightarrow> True | Geo \<Rightarrow> True)"

text \<open>Operations of the two lists of \<open>source_row_provenance\<close>.\<close>

definition preserving_ids :: "string list" where
  "preserving_ids = [''table.bin'', ''table.add_row_number'', ''table.assert_unique'',
     ''table.assert_foreign_key'']"

definition reshaping_ids :: "string list" where
  "reshaping_ids = [''table.aggregate'', ''table.dedup_advanced'', ''table.distinct'',
     ''table.filter'', ''table.limit'', ''table.melt'', ''table.pivot'', ''table.sample'',
     ''table.sort'', ''table.statistics'', ''table.top_n'', ''table.transpose'',
     ''table.validate_rules'', ''table.window_function'', ''table.rolling_window'',
     ''table.explode'', ''table.unnest'']"

definition source_row_provenance :: "operation_descriptor \<Rightarrow> source_row_provenance_kind" where
  "source_row_provenance d =
     (case family d of
        Table \<Rightarrow>
          if op_id d \<in> set preserving_ids \<or> (arity d = Unary \<and> op_id d \<notin> set reshaping_ids)
          then Preserved else Unavailable
      | Geo \<Rightarrow>
          if arity d \<in> {Unary, BinaryOrdered} \<and>
             result_shape d \<in> {Some OneToOne, Some FromCoords}
          then Preserved else Unavailable)"

definition always_diagnosing_ids :: "string list" where
  "always_diagnosing_ids = [''table.flatten_json'', ''table.date_extract'',
     ''table.date_format'', ''table.date_add'', ''table.date_diff'', ''table.timezone_convert'',
     ''table.expression'', ''table.assert_not_null'', ''table.assert_unique'',
     ''table.assert_range'', ''table.assert_regex'', ''table.assert_foreign_key'']"

definition fallible_cast_targets :: "string list" where
  "fallible_cast_targets = [''int'', ''float'', ''bool'', ''uint64'', ''date'', ''datetime'',
     ''date32'', ''timestamp_millis'', ''decimal128'']"

definition diagnosing_geo_ids :: "string list" where
  "diagnosing_geo_ids = [''geo.from_wkt'', ''geo.centroid'', ''geo.convex_hull'',
     ''geo.envelope'', ''geo.buffer'', ''geo.simplify'', ''geo.boundary'',
     ''geo.point_on_surface'', ''geo.make_valid'', ''geo.reproject'', ''geo.affine_transform'',
     ''geo.translate'', ''geo.scale'', ''geo.rotate'', ''geo.concave_hull'', ''geo.densify'',
     ''geo.snap_to_grid'', ''geo.line_substring'', ''geo.line_interpolate_point'', ''geo.area'',
     ''geo.length'', ''geo.perimeter'', ''geo.vertex_count'', ''geo.to_wkt'']"

definition emits_row_diagnostics ::
    "operation_descriptor \<Rightarrow> (string \<Rightarrow> string option) \<Rightarrow> bool" where
  "emits_row_diagnostics d config_str =
     (case family d of
        Table \<Rightarrow>
          if op_id d \<in> set always_diagnosing_ids then True
          else if op_id d = ''table.type_cast'' then
            config_str ''target_type'' \<in> Some ` set fallible_cast_targets \<and>
            config_str ''errors'' \<in> {None, Some ''coerce'', Some ''raise''}
          else if op_id d = ''table.formula'' then
            config_str ''on_division_by_zero'' = Some ''error''
          else if op_id d \<in> {''table.md5_hash'', ''table.sha256_hash''} then
            config_str ''null_policy'' = Some ''error''
          else False
      | Geo \<Rightarrow> op_id d \<in> set diagnosing_geo_ids)"

section \<open>Lookups\<close>

text \<open>The lookups are stated over the two tables, which CatalogData gives.\<close>

type_synonym alias_table = "(nat \<times> string \<times> string) list"

definition resolve_in :: "alias_table \<Rightarrow> nat \<Rightarrow> string \<Rightarrow> string option" where
  "resolve_in aliases schema_version alias =
     map_option (\<lambda>(_, _, canonical). canonical)
       (List.find (\<lambda>(version, a, _). version = schema_version \<and> a = alias) aliases)"

definition find_in ::
    "operation_descriptor list \<Rightarrow> alias_table \<Rightarrow> string \<Rightarrow> operation_descriptor option" where
  "find_in catalog aliases ident =
     (case List.find (\<lambda>d. op_id d = ident) catalog of
        Some d \<Rightarrow> Some d
      | None \<Rightarrow>
          (case List.find (\<lambda>(_, alias, _). alias = ident) aliases of
             None \<Rightarrow> None
           | Some (_, _, canonical) \<Rightarrow> List.find (\<lambda>d. op_id d = canonical) catalog))"

section \<open>Lemmas\<close>

lemma constraint_eq_iff: "constraint_eq c d \<longleftrightarrow> c = d"
  by (cases "(c, d)" rule: constraint_eq.cases) auto

lemma constraint_hash_inj: "constraint_hash c = constraint_hash d \<longleftrightarrow> c = d"
  by (cases c; cases d) auto

lemma unat_sum_u128 [unats]: "unat ((ucast l :: u128) + ucast r) = unat (l :: u64) + unat (r :: u64)"
proof -
  have "unat l + unat r < 2 ^ 128"
    using unat_u64_lt [of l] unat_u64_lt [of r] by simp
  then show ?thesis by (simp add: unat_word_ariths)
qed

text \<open>The number of rows an operation with two inputs is measured against.\<close>

fun expansion_base :: "expansion_constraint_kind \<Rightarrow> nat \<Rightarrow> nat \<Rightarrow> nat" where
  "expansion_base LeftRelative l r = l"
| "expansion_base RightRelative l r = r"
| "expansion_base MaxRelative l r = min l r"
| "expansion_base _ l r = l + r"

lemma find_SomeD: "List.find P xs = Some x \<Longrightarrow> x \<in> set xs \<and> P x"
  by (induction xs) (auto split: if_splits)

lemma find_distinct_iff:
  "distinct (map f xs) \<Longrightarrow> List.find (\<lambda>x. f x = k) xs = Some x \<longleftrightarrow> x \<in> set xs \<and> f x = k"
  by (induction xs) auto

lemma find_in_canonical:
  "distinct (map op_id catalog) \<Longrightarrow> d \<in> set catalog \<Longrightarrow> find_in catalog aliases (op_id d) = Some d"
  by (simp add: find_in_def find_distinct_iff [THEN iffD2])

lemma find_in_sound: "find_in catalog aliases ident = Some d \<Longrightarrow> d \<in> set catalog"
  by (auto simp: find_in_def dest: find_SomeD split: option.splits)

lemma scaled_min: "0 < v \<Longrightarrow> real (min a b) * v < w \<longleftrightarrow> real a * v < w \<or> real b * v < w"
proof -
  assume v: "0 < v"
  have "real (min a b) * v = min (real a * v) (real b * v)"
    using v by (simp add: of_nat_min min_mult_distrib_right)
  then show ?thesis by (simp add: min_less_iff_disj)
qed

section \<open>Properties\<close>

text \<open>The expansion limit of a binary operation is the documented comparison over exact numbers:
  with a positive finite threshold (the operation's own factor for \<open>Custom\<close>, the limit otherwise) the
  output exceeds it exactly when it has more rows than the threshold times the rows of the base the
  constraint names, \<open>MaxRelative\<close> measuring against the smaller side; the sum of two 64-bit counts
  neither wraps nor saturates.\<close>

theorem exceeded_exact:
  assumes "f64_is_finite (binding_threshold c factor)" and "0 < f64_value (binding_threshold c factor)"
  shows "exceeded c out l r factor \<longleftrightarrow>
     real (expansion_base c (unat l) (unat r)) * f64_value (binding_threshold c factor)
       < real (unat out)"
proof -
  obtain t where t: "t = binding_threshold c factor" by simp
  have fin: "f64_is_finite t" and pos: "0 < f64_value t" and nz: "\<not> f64_le_zero t"
    using assms f64_le_zero_iff [of t] by (simp_all add: t)
  have small: "unat (ucast (x :: u64) :: u128) < 2 ^ 66" for x
    using unat_u64_lt [of x] by simp
  have sum: "unat ((ucast l :: u128) + ucast r) < 2 ^ 66"
    using unat_u64_lt [of l] unat_u64_lt [of r] by (simp add: unat_sum_u128)
  note wide = expansion_exceeded_wide_exact [OF fin nz]
  have "exceeded c out l r factor \<longleftrightarrow> real (expansion_base c (unat l) (unat r)) * f64_value t < real (unat out)"
    unfolding exceeded_def Let_def t [symmetric]
    by (cases c) (simp_all only: expansion_constraint_kind.case wide [OF small] wide [OF sum]
        unat_sum_u128 unat_ucast_u128 expansion_base.simps scaled_min [OF pos])
  then show ?thesis by (simp only: t)
qed

theorem exceeded_exact_witness:
  "exceeded SumRelative 31 10 20 0x3FF0000000000000 \<longleftrightarrow>
     real (expansion_base SumRelative (unat (10 :: u64)) (unat (20 :: u64)))
       * f64_value (binding_threshold SumRelative 0x3FF0000000000000) < real (unat (31 :: u64))"
proof (rule exceeded_exact)
  have fin: "f64_is_finite 0x3FF0000000000000" and nz: "\<not> f64_le_zero 0x3FF0000000000000"
    by (simp_all add: f64_is_finite_def f64_raw_exponent_def f64_le_zero_def f64_negative_def
        f64_is_zero_def)
  show "f64_is_finite (binding_threshold SumRelative 0x3FF0000000000000)"
    using fin by (simp only: binding_threshold_def expansion_constraint_kind.case)
  show "0 < f64_value (binding_threshold SumRelative 0x3FF0000000000000)"
    using fin nz f64_le_zero_iff [OF fin]
    by (simp only: binding_threshold_def expansion_constraint_kind.case not_le)
qed

end
