(* ===== verification/Ordering.thy ===== *)
theory Ordering
  imports Prelude
begin

text \<open>
  The three-way comparisons of Rust, \<open>std::cmp::Ordering\<close>: the type with its order (the standard
  library derives \<open>Ord\<close> with \<open>Less < Equal < Greater\<close>), \<open>cmp\<close> on a linear order, \<open>reverse\<close> and \<open>then\<close>.
\<close>

datatype ordering = Less | Equal | Greater

instantiation ordering :: linorder
begin

definition rank_ordering :: "ordering \<Rightarrow> nat" where
  "rank_ordering o1 = (case o1 of Less \<Rightarrow> 0 | Equal \<Rightarrow> 1 | Greater \<Rightarrow> 2)"

definition less_eq_ordering :: "ordering \<Rightarrow> ordering \<Rightarrow> bool" where
  "less_eq_ordering a b \<longleftrightarrow> rank_ordering a \<le> rank_ordering b"

definition less_ordering :: "ordering \<Rightarrow> ordering \<Rightarrow> bool" where
  "less_ordering a b \<longleftrightarrow> rank_ordering a < rank_ordering b"

instance
  by standard (auto simp: less_eq_ordering_def less_ordering_def rank_ordering_def split: ordering.splits)

end

definition cmp :: "'a::linorder \<Rightarrow> 'a \<Rightarrow> ordering" where
  "cmp a b = (if a < b then Less else if a = b then Equal else Greater)"

fun reverse :: "ordering \<Rightarrow> ordering" where
  "reverse Less = Greater"
| "reverse Equal = Equal"
| "reverse Greater = Less"

definition and_then :: "ordering \<Rightarrow> ordering \<Rightarrow> ordering" where
  "and_then a b = (if a = Equal then b else a)"

lemma cmp_simps [simp]:
  "cmp a b = Less \<longleftrightarrow> a < b" "cmp a b = Equal \<longleftrightarrow> a = b" "cmp a b = Greater \<longleftrightarrow> b < a"
  by (auto simp: cmp_def)

lemma cmp_refl [simp]: "cmp a a = Equal"
  by (simp add: cmp_def)

lemma cmp_swap: "cmp b a = reverse (cmp a b)"
  by (auto simp: cmp_def)

lemma reverse_reverse [simp]: "reverse (reverse a) = a"
  by (cases a) auto

lemma cmp_mono: "strict_mono f \<Longrightarrow> cmp (f a) (f b) = cmp a b"
  by (auto simp: cmp_def strict_mono_less dest: strict_mono_eq)

lemma cmp_uminus: "cmp (- a) (- b) = reverse (cmp a (b :: 'a::linordered_idom))"
  by (auto simp: cmp_def)

lemma cmp_mult_pos: "0 < c \<Longrightarrow> cmp (a * c) (b * c) = cmp a (b :: 'a::linordered_field)"
  by (auto simp: cmp_def)

lemma cmp_of_nat: "cmp (real a) (real b) = cmp a b"
  by (auto simp: cmp_def)

lemma cmp_of_int: "cmp (real_of_int a) (real_of_int b) = cmp a b"
  by (auto simp: cmp_def)

lemma cmp_unat: "cmp (unat a) (unat b) = cmp a (b :: 'a::len word)"
  by (auto simp: cmp_def word_less_nat_alt word_unat_eq_iff)

end
