(* ===== verification/Budget.thy ===== *)
theory Budget
  imports Catalog Ordering
begin

text \<open>
  The memory budget: \<open>crates/plenora-pipeline/src/budget.rs\<close>. The cost model of an operation is linear in
  the rows, bytes, cells and pairs of its input, with integer coefficients in thousandths; every
  quotient is rounded up, and a value that does not fit 64 bits saturates, so that it fits no budget.

  The second part is the lookup by id. \<open>cerca_binaria\<close> is the loop of \<open>slice::binary_search_by\<close> with
  the comparison of an entry with the key as its argument.
\<close>

section \<open>The cost model\<close>

record costo =
  c_a :: u64
  r_millesimi :: u64
  c_millesimi :: u64
  r_stretta_millesimi :: u64
  c_larga_millesimi :: u64
  k_millesimi :: u64
  p_millesimi :: u64

record costo_operazione =
  voce_op :: string
  in_memoria :: costo
  dipende_dai_dati :: bool
  profili :: "string list"
  esclusi :: "string list"

record ingresso =
  i_righe :: u64
  i_byte :: u64
  coppie :: u64
  celle :: u64

definition FATTORE_SICUREZZA :: "u64 \<times> u64" where
  "FATTORE_SICUREZZA = (3, 2)"

definition per_unita :: "u64 \<Rightarrow> u64 \<Rightarrow> u128" where
  "per_unita millesimi unita = div_ceil (ucast millesimi * ucast unita) 1000"

definition costo_base :: "costo \<Rightarrow> ingresso \<Rightarrow> u128" where
  "costo_base c i =
     (let piano = per_unita (r_millesimi c) (i_righe i) + per_unita (c_millesimi c) (i_byte i);
          variabile = max (max piano (per_unita (r_stretta_millesimi c) (i_righe i)))
                        (per_unita (c_larga_millesimi c) (i_byte i))
      in ucast (c_a c) + variabile + per_unita (k_millesimi c) (celle i)
           + per_unita (p_millesimi c) (coppie i))"

definition picco :: "costo \<Rightarrow> ingresso \<Rightarrow> u64" where
  "picco c i =
     (let (numeratore, denominatore) = FATTORE_SICUREZZA;
          scalato = div_ceil (saturating_mul (costo_base c i) (ucast numeratore)) (ucast denominatore)
      in case u64_try_from scalato of Some x \<Rightarrow> x | None \<Rightarrow> max_u)"

section \<open>The lookup\<close>

definition str_cmp :: "string \<Rightarrow> string \<Rightarrow> ordering" where
  "str_cmp s t = cmp s t"

function cerca_da :: "(nat \<Rightarrow> ordering) \<Rightarrow> nat \<Rightarrow> nat \<Rightarrow> nat" where
  "cerca_da conf start n =
     (if n \<le> 1 then start
      else let half = n div 2; mid = start + half
           in cerca_da conf (if conf mid = Greater then start else mid) (n - half))"
  by auto
termination by (relation "measure (\<lambda>(_, _, n). n)") auto

declare cerca_da.simps [simp del]

definition cerca_binaria :: "('a \<Rightarrow> ordering) \<Rightarrow> 'a list \<Rightarrow> nat option" where
  "cerca_binaria conf xs =
     (if xs = [] then None
      else let i = cerca_da (\<lambda>j. conf (xs ! j)) 0 (length xs)
           in if conf (xs ! i) = Equal then Some i else None)"

definition cerca_voce :: "costo_operazione list \<Rightarrow> string \<Rightarrow> costo_operazione option" where
  "cerca_voce tabella ident =
     (case cerca_binaria (\<lambda>voce. str_cmp (voce_op voce) ident) tabella of
        None \<Rightarrow> None
      | Some i \<Rightarrow> if i < length tabella then Some (tabella ! i) else None)"

section \<open>Exactness of the arithmetic\<close>

definition nat_per_unita :: "nat \<Rightarrow> nat \<Rightarrow> nat" where
  "nat_per_unita m u = nat_div_ceil (m * u) 1000"

text \<open>The documented formula \<open>a + max(r*R + c*B, r_s*R, c_l*B) + k*K + p*P\<close> over the naturals, each
  term rounded up.\<close>

definition formula_base :: "costo \<Rightarrow> ingresso \<Rightarrow> nat" where
  "formula_base c i =
     unat (c_a c)
     + max (max (nat_per_unita (unat (r_millesimi c)) (unat (i_righe i))
                 + nat_per_unita (unat (c_millesimi c)) (unat (i_byte i)))
              (nat_per_unita (unat (r_stretta_millesimi c)) (unat (i_righe i))))
         (nat_per_unita (unat (c_larga_millesimi c)) (unat (i_byte i)))
     + nat_per_unita (unat (k_millesimi c)) (unat (celle i))
     + nat_per_unita (unat (p_millesimi c)) (unat (coppie i))"

lemma unat_prodotto_u128 [unats]:
  "unat ((ucast m :: u128) * ucast u) = unat (m :: u64) * unat (u :: u64)"
proof -
  have "unat m * unat u < 2 ^ 64 * 2 ^ 64"
    using unat_u64_lt [of m] unat_u64_lt [of u] by (intro mult_strict_mono) simp_all
  also have "\<dots> = (2 :: nat) ^ 128" by simp
  finally show ?thesis by (simp add: unat_word_ariths)
qed

lemma unat_per_unita [unats]: "unat (per_unita m u) = nat_per_unita (unat m) (unat u)"
  by (simp add: per_unita_def nat_per_unita_def unat_div_ceil unat_prodotto_u128)

lemma nat_per_unita_bound:
  assumes "m < 2 ^ 64" and "u < 2 ^ 64"
  shows "nat_per_unita m u \<le> 2 ^ 119"
proof -
  have "m * u \<le> 2 ^ 64 * 2 ^ 64" using assms by (intro mult_mono) simp_all
  also have "\<dots> \<le> (2 :: nat) ^ 119 * 1000" by simp
  finally show ?thesis unfolding nat_per_unita_def by (subst nat_div_ceil_le_iff) simp_all
qed

lemma unat_per_unita_bound: "unat (per_unita m u) \<le> 2 ^ 119"
  unfolding unat_per_unita by (rule nat_per_unita_bound) (rule unat_u64_lt)+

lemma unat_add_small: "unat (a :: u128) + unat b < 2 ^ 128 \<Longrightarrow> unat (a + b) = unat a + unat b"
  by (simp add: unat_word_ariths)

lemma unat_max: "unat (max a b) = max (unat a) (unat (b :: 'a::len word))"
  by (simp add: max_def word_le_nat_alt)

lemma unat_costo_base: "unat (costo_base c i) = formula_base c i"
  and costo_base_bound: "unat (costo_base c i) \<le> 2 ^ 64 + 4 * 2 ^ 119"
proof -
  let ?r = "per_unita (r_millesimi c) (i_righe i)" and ?b = "per_unita (c_millesimi c) (i_byte i)"
  let ?rs = "per_unita (r_stretta_millesimi c) (i_righe i)"
    and ?cl = "per_unita (c_larga_millesimi c) (i_byte i)"
    and ?k = "per_unita (k_millesimi c) (celle i)" and ?p = "per_unita (p_millesimi c) (coppie i)"
  note bounds = unat_per_unita_bound [of "r_millesimi c" "i_righe i"]
    unat_per_unita_bound [of "c_millesimi c" "i_byte i"]
    unat_per_unita_bound [of "r_stretta_millesimi c" "i_righe i"]
    unat_per_unita_bound [of "c_larga_millesimi c" "i_byte i"]
    unat_per_unita_bound [of "k_millesimi c" "celle i"]
    unat_per_unita_bound [of "p_millesimi c" "coppie i"]
  have scale: "(2 :: nat) ^ 128 = 512 * 2 ^ 119" "(2 :: nat) ^ 64 \<le> 2 ^ 119" "(0 :: nat) < 2 ^ 119" by simp_all
  have a: "unat (ucast (c_a c) :: u128) < 2 ^ 64" using unat_u64_lt by simp
  define v where "v = max (max (?r + ?b) ?rs) ?cl"
  have rb: "unat (?r + ?b) = unat ?r + unat ?b"
    using bounds(1,2) scale by (intro unat_add_small) linarith
  have v: "unat v = max (max (unat ?r + unat ?b) (unat ?rs)) (unat ?cl)"
    by (simp add: v_def unat_max rb)
  have vb: "unat v \<le> 2 * 2 ^ 119" unfolding v using bounds by simp
  have s1: "unat (ucast (c_a c) + v) = unat (ucast (c_a c) :: u128) + unat v"
    using a vb scale by (intro unat_add_small) linarith
  have s2: "unat (ucast (c_a c) + v + ?k) = unat (ucast (c_a c) :: u128) + unat v + unat ?k"
  proof -
    have "unat (ucast (c_a c) + v) + unat ?k < 2 ^ 128"
      unfolding s1 using a vb bounds(5) scale by linarith
    then show ?thesis by (simp only: unat_add_small s1)
  qed
  have s3: "unat (ucast (c_a c) + v + ?k + ?p) = unat (ucast (c_a c) :: u128) + unat v + unat ?k + unat ?p"
  proof -
    have "unat (ucast (c_a c) + v + ?k) + unat ?p < 2 ^ 128"
      unfolding s2 using a vb bounds(5,6) scale by linarith
    then show ?thesis by (simp only: unat_add_small s2)
  qed
  have eq: "costo_base c i = ucast (c_a c) + v + ?k + ?p"
    by (simp add: costo_base_def v_def Let_def)
  show "unat (costo_base c i) = formula_base c i"
    unfolding eq s3 v by (simp add: formula_base_def unat_per_unita)
  show "unat (costo_base c i) \<le> 2 ^ 64 + 4 * 2 ^ 119"
    unfolding eq s3 using a vb bounds(5,6) by linarith
qed

lemma unat_u64_try_from:
  "unat (case u64_try_from x of Some y \<Rightarrow> y | None \<Rightarrow> max_u) = min (unat x) (2 ^ 64 - 1)"
proof (cases "unat x < 2 ^ 64")
  case True
  then have "unat (ucast x :: u64) = unat x"
    by (simp add: unsigned_ucast_eq take_bit_nat_eq_self)
  with True show ?thesis by (simp add: u64_try_from_def min_def)
next
  case False
  then show ?thesis by (simp add: u64_try_from_def min_def unat_max_u)
qed

lemma unat_picco: "unat (picco c i) = min (nat_div_ceil (3 * formula_base c i) 2) (2 ^ 64 - 1)"
proof -
  have "unat (costo_base c i) * unat (3 :: u128) \<le> 2 ^ 128 - 1"
    using costo_base_bound [of c i] by simp
  then have "unat (saturating_mul (costo_base c i) 3) = 3 * formula_base c i"
    by (simp add: unat_saturating_mul unat_costo_base min_def mult.commute)
  then show ?thesis
    by (simp add: picco_def FATTORE_SICUREZZA_def unat_u64_try_from unat_div_ceil)
qed

section \<open>Monotonicity and coverage\<close>

definition ingresso_le :: "ingresso \<Rightarrow> ingresso \<Rightarrow> bool" where
  "ingresso_le i j \<longleftrightarrow> i_righe i \<le> i_righe j \<and> i_byte i \<le> i_byte j \<and> coppie i \<le> coppie j \<and> celle i \<le> celle j"

lemma nat_per_unita_mono: "u \<le> u' \<Longrightarrow> nat_per_unita m u \<le> nat_per_unita m u'"
  unfolding nat_per_unita_def by (intro nat_div_ceil_mono mult_le_mono) simp_all

lemma formula_base_mono: "ingresso_le i j \<Longrightarrow> formula_base c i \<le> formula_base c j"
  unfolding formula_base_def ingresso_le_def word_le_nat_alt
  by (intro add_mono max.mono nat_per_unita_mono order_refl) simp_all

text \<open>The model without rounding, in thousandths of a byte.\<close>

definition modello_millesimi :: "costo \<Rightarrow> ingresso \<Rightarrow> nat" where
  "modello_millesimi c i =
     1000 * unat (c_a c)
     + max (max (unat (r_millesimi c) * unat (i_righe i) + unat (c_millesimi c) * unat (i_byte i))
              (unat (r_stretta_millesimi c) * unat (i_righe i)))
         (unat (c_larga_millesimi c) * unat (i_byte i))
     + unat (k_millesimi c) * unat (celle i)
     + unat (p_millesimi c) * unat (coppie i)"

lemma nat_per_unita_covers: "m * u \<le> 1000 * nat_per_unita m u"
  using nat_div_ceil_le_iff [of 1000 "m * u" "nat_per_unita m u"]
  by (simp add: nat_per_unita_def mult.commute)

lemma modello_le_base: "modello_millesimi c i \<le> 1000 * formula_base c i"
proof -
  have m: "max a b \<le> 1000 * max x y" if "a \<le> 1000 * x" "b \<le> 1000 * y" for a b x y :: nat
    using that by (simp add: max_def)
  have piano: "m * u + m' * u' \<le> 1000 * (nat_per_unita m u + nat_per_unita m' u')" for m u m' u'
    unfolding add_mult_distrib2 by (intro add_mono nat_per_unita_covers)
  show ?thesis
    unfolding modello_millesimi_def formula_base_def add_mult_distrib2 [of 1000]
    by (intro add_mono m piano nat_per_unita_covers order_refl)
qed

section \<open>The binary search\<close>

lemma cerca_da_range: "0 < n \<Longrightarrow> start \<le> cerca_da conf start n \<and> cerca_da conf start n < start + n"
proof (induction conf start n rule: cerca_da.induct)
  case (1 conf start n)
  show ?case
  proof (cases "n \<le> 1")
    case True
    with 1(2) show ?thesis by (simp add: cerca_da.simps)
  next
    case False
    let ?s = "if conf (start + n div 2) = Greater then start else start + n div 2"
    have "?s \<le> cerca_da conf ?s (n - n div 2) \<and> cerca_da conf ?s (n - n div 2) < ?s + (n - n div 2)"
      using False by (intro "1.IH") auto
    then show ?thesis
      using False by (subst (1 2) cerca_da.simps) (auto simp: Let_def split: if_splits)
  qed
qed

lemma cerca_da_hit:
  assumes "start \<le> k" and "k < start + n"
    and "\<And>j. start \<le> j \<Longrightarrow> j < start + n \<Longrightarrow> conf j = Greater \<longleftrightarrow> k < j"
  shows "cerca_da conf start n = k"
  using assms
proof (induction conf start n rule: cerca_da.induct)
  case (1 conf start n)
  show ?case
  proof (cases "n \<le> 1")
    case True
    with 1(2,3) show ?thesis by (simp add: cerca_da.simps)
  next
    case False
    let ?s = "if conf (start + n div 2) = Greater then start else start + n div 2"
    have mid: "conf (start + n div 2) = Greater \<longleftrightarrow> k < start + n div 2"
      using False by (intro "1.prems"(3)) auto
    have "cerca_da conf ?s (n - n div 2) = k"
    proof (rule "1.IH" [OF False refl refl])
      show "?s \<le> k" using mid "1.prems"(1) by simp
      show "k < ?s + (n - n div 2)" using mid "1.prems"(2) by auto
      show "conf j = Greater \<longleftrightarrow> k < j" if "?s \<le> j" "j < ?s + (n - n div 2)" for j
        using that by (intro "1.prems"(3)) (auto split: if_splits)
    qed
    then show ?thesis using False by (subst cerca_da.simps) (simp add: Let_def)
  qed
qed

lemma cerca_binaria_sorted:
  assumes "sorted_wrt (<) (map f xs)"
  shows "cerca_binaria (\<lambda>x. str_cmp (f x) key) xs = Some i \<longleftrightarrow> i < length xs \<and> f (xs ! i) = key"
proof
  assume found: "cerca_binaria (\<lambda>x. str_cmp (f x) key) xs = Some i"
  then have "xs \<noteq> []" "i = cerca_da (\<lambda>j. str_cmp (f (xs ! j)) key) 0 (length xs)"
    "str_cmp (f (xs ! i)) key = Equal"
    by (auto simp: cerca_binaria_def Let_def split: if_splits)
  with cerca_da_range [of "length xs" 0 "\<lambda>j. str_cmp (f (xs ! j)) key"]
  show "i < length xs \<and> f (xs ! i) = key"
    by (auto simp: str_cmp_def cmp_def split: if_splits)
next
  assume i: "i < length xs \<and> f (xs ! i) = key"
  have "cerca_da (\<lambda>j. str_cmp (f (xs ! j)) key) 0 (length xs) = i"
  proof (rule cerca_da_hit)
    fix j
    assume "j < 0 + length xs"
    then have j: "j < length xs" by simp
    have less: "f (xs ! a) < f (xs ! b)" if "a < b" "b < length xs" for a b
      using sorted_wrt_nth_less [OF assms, of a b] that by simp
    consider "j < i" | "j = i" | "i < j" by linarith
    then show "str_cmp (f (xs ! j)) key = Greater \<longleftrightarrow> i < j"
      using less [of j i] less [of i j] i j
      by cases (auto simp: str_cmp_def cmp_def)
  qed (use i in auto)
  with i show "cerca_binaria (\<lambda>x. str_cmp (f x) key) xs = Some i"
    by (auto simp: cerca_binaria_def Let_def str_cmp_def cmp_def)
qed

lemma cerca_voce_sorted:
  assumes "sorted_wrt (<) (map voce_op t)"
  shows "cerca_voce t key = Some v \<longleftrightarrow> v \<in> set t \<and> voce_op v = key"
proof -
  let ?found = "cerca_binaria (\<lambda>voce. str_cmp (voce_op voce) key) t"
  note hit = cerca_binaria_sorted [OF assms, of key]
  show ?thesis
  proof
    assume "cerca_voce t key = Some v"
    then obtain i where "?found = Some i" and "v = t ! i"
      by (auto simp: cerca_voce_def split: option.splits if_splits)
    with hit [of i] show "v \<in> set t \<and> voce_op v = key" by simp
  next
    assume v: "v \<in> set t \<and> voce_op v = key"
    then obtain i where "i < length t" "t ! i = v" by (auto simp: in_set_conv_nth)
    with v hit [of i] show "cerca_voce t key = Some v" by (simp add: cerca_voce_def)
  qed
qed

section \<open>Properties\<close>

text \<open>C4. The prediction of a step is exact arithmetic: for every coefficient and every size of the input
  the 128-bit computation neither wraps nor saturates on the way, the result is the documented formula
  with each term rounded up, times the safety factor 3/2 rounded up, and the only value it can be lowered
  to is the greatest 64-bit number; and it grows with the rows, bytes, pairs and cells of the input.\<close>

theorem picco_exact:
  "unat (costo_base c i) = formula_base c i
   \<and> unat (picco c i) = min (nat_div_ceil (3 * formula_base c i) 2) (2 ^ 64 - 1)
   \<and> (ingresso_le i j \<longrightarrow> picco c i \<le> picco c j)"
proof (intro conjI impI)
  assume "ingresso_le i j"
  then have "nat_div_ceil (3 * formula_base c i) 2 \<le> nat_div_ceil (3 * formula_base c j) 2"
    by (intro nat_div_ceil_mono mult_le_mono2 formula_base_mono) simp_all
  then show "picco c i \<le> picco c j"
    unfolding word_le_nat_alt unat_picco by (rule min.mono) simp
qed (rule unat_costo_base unat_picco)+

theorem picco_exact_witness:
  "picco \<lparr>c_a = 1, r_millesimi = 1, c_millesimi = 0, r_stretta_millesimi = 0,
      c_larga_millesimi = 0, k_millesimi = 0, p_millesimi = 0\<rparr>
     \<lparr>i_righe = 1, i_byte = 0, coppie = 0, celle = 0\<rparr>
   \<le> picco \<lparr>c_a = 1, r_millesimi = 1, c_millesimi = 0, r_stretta_millesimi = 0,
      c_larga_millesimi = 0, k_millesimi = 0, p_millesimi = 0\<rparr>
     \<lparr>i_righe = 2000, i_byte = 0, coppie = 0, celle = 0\<rparr>"
  using picco_exact by (simp add: ingresso_le_def)

text \<open>The prediction never falls below the model: unless it is the saturated value, which no budget
  admits, it is at least three halves of \<open>a + max(r*R + c*B, r_s*R, c_l*B) + k*K + p*P\<close> taken over the
  exact fractions.\<close>

theorem picco_covers_model:
  assumes "picco c i \<noteq> max_u"
  shows "3 * modello_millesimi c i \<le> 2000 * unat (picco c i)"
proof -
  have "unat (picco c i) \<noteq> 2 ^ 64 - 1"
    using assms unat_max_u [where 'a = 64] by (auto simp: word_unat_eq_iff)
  then have "nat_div_ceil (3 * formula_base c i) 2 \<le> unat (picco c i)"
    unfolding unat_picco by (simp add: min_def split: if_splits)
  then have "3 * formula_base c i \<le> unat (picco c i) * 2"
    by (simp only: nat_div_ceil_le_iff zero_less_numeral)
  with modello_le_base [of c i] show ?thesis by linarith
qed

theorem picco_covers_model_witness:
  "3 * modello_millesimi \<lparr>c_a = 7, r_millesimi = 1500, c_millesimi = 0, r_stretta_millesimi = 0,
      c_larga_millesimi = 0, k_millesimi = 0, p_millesimi = 0\<rparr>
     \<lparr>i_righe = 3, i_byte = 0, coppie = 0, celle = 0\<rparr>
   \<le> 2000 * unat (picco \<lparr>c_a = 7, r_millesimi = 1500, c_millesimi = 0, r_stretta_millesimi = 0,
      c_larga_millesimi = 0, k_millesimi = 0, p_millesimi = 0\<rparr>
     \<lparr>i_righe = 3, i_byte = 0, coppie = 0, celle = 0\<rparr>)"
proof (rule picco_covers_model)
  let ?c = "\<lparr>c_a = 7, r_millesimi = 1500, c_millesimi = 0, r_stretta_millesimi = 0,
      c_larga_millesimi = 0, k_millesimi = 0, p_millesimi = 0\<rparr>"
  let ?i = "\<lparr>i_righe = 3, i_byte = 0, coppie = 0, celle = 0\<rparr>"
  have "unat (picco ?c ?i) = 18"
    unfolding unat_picco by (simp add: formula_base_def nat_per_unita_def nat_div_ceil_def)
  moreover have "unat (max_u :: u64) \<noteq> 18" by (simp add: unat_max_u)
  ultimately show "picco ?c ?i \<noteq> max_u" by metis
qed

end
