(* ===== verification/CatalogData.thy ===== *)
theory CatalogData
  imports Catalog "HOL-Library.Sublist"
begin

text \<open>
  The entries of \<open>CATALOG\<close> and \<open>ALIASES\<close> (\<open>crates/plenora-core/src/catalog.rs\<close>), in the order of the
  source and grouped by its separators, and what the tables guarantee to their users: unique ids that
  agree with the family, aliases that resolve, provenance that never claims a row identity an
  operation can change, exemptions only where the result does not follow the rows.
\<close>

section \<open>The tables\<close>

definition catalog_table_compat_1 :: "operation_descriptor list" where
  "catalog_table_compat_1 =
    [(op ''table.add_row_number'' Table ManipolaCompat Unary Blocking BoundaryOnly None None []
        DefinedOrder PublicProtocol)\<lparr>semantic_version := 3, kernel_version := 3,
        contract_analysis_version := 2\<rparr>,
     (op ''table.aggregate'' Table ManipolaCompat Unary Blocking BoundaryOnly None None []
        CanonicalOrder PublicProtocol)\<lparr>semantic_version := 3, config_schema_version := 2,
        contract_analysis_version := 4, kernel_version := 5\<rparr>,
     (op ''table.bin'' Table ManipolaCompat Unary Blocking BoundaryOnly None None [] DefinedOrder
        PublicProtocol)\<lparr>semantic_version := 3, contract_analysis_version := 4,
        kernel_version := 4\<rparr>,
     (op ''table.concat'' Table ManipolaCompat NAry Blocking BoundaryOnly None None [] InputOrder
        PublicProtocol)\<lparr>config_schema_version := 2, contract_analysis_version := 3,
        kernel_version := 3, semantic_version := 1\<rparr>,
     (op ''table.concat_columns'' Table ManipolaCompat Unary Streaming Cooperative None None []
        DefinedOrder PublicProtocol)\<lparr>config_schema_version := 2, contract_analysis_version
        := 2, kernel_version := 2\<rparr>,
     (op ''table.conditional'' Table ManipolaCompat Unary Streaming Cooperative None None []
        DefinedOrder PublicProtocol)\<lparr>semantic_version := 3, config_schema_version := 2,
        contract_analysis_version := 4, kernel_version := 4\<rparr>,
     (op ''table.cross_join'' Table ManipolaCompat BinaryOrdered BinaryBlocking BoundaryOnly None
        None [] DefinedOrder PublicProtocol)\<lparr>expansion_constraint := SumRelative,
        semantic_version := 2\<rparr>,
     (op ''table.date_extract'' Table ManipolaCompat Unary Streaming Cooperative None None []
        DefinedOrder PublicProtocol)\<lparr>semantic_version := 4, config_schema_version := 2,
        contract_analysis_version := 4, kernel_version := 6\<rparr>,
     (op ''table.dedup_advanced'' Table ManipolaCompat Unary Blocking BoundaryOnly None None []
        CanonicalOrder PublicProtocol)\<lparr>config_schema_version := 2, kernel_version := 3,
        semantic_version := 2, contract_analysis_version := 2\<rparr>]"

definition catalog_table_compat_2 :: "operation_descriptor list" where
  "catalog_table_compat_2 =
    [(op ''table.distinct'' Table ManipolaCompat Unary Blocking BoundaryOnly None None []
        CanonicalOrder PublicProtocol)\<lparr>kernel_version := 3, semantic_version := 2,
        contract_analysis_version := 2\<rparr>,
     (op ''table.drop_columns'' Table ManipolaCompat Unary Streaming Cooperative None None []
        DefinedOrder PublicProtocol)\<lparr>config_schema_version := 2, contract_analysis_version
        := 2, kernel_version := 2\<rparr>,
     (op ''table.fill_na'' Table ManipolaCompat Unary Streaming Cooperative None None []
        DefinedOrder PublicProtocol)\<lparr>semantic_version := 2, contract_analysis_version := 2,
        kernel_version := 3\<rparr>,
     (op ''table.filter'' Table ManipolaCompat Unary Streaming Cooperative None None []
        DefinedOrder PublicProtocol)\<lparr>semantic_version := 3, config_schema_version := 2,
        contract_analysis_version := 4, kernel_version := 5\<rparr>,
     (op ''table.flatten_json'' Table ManipolaCompat Unary Streaming Cooperative None None []
        DefinedOrder PublicProtocol)\<lparr>semantic_version := 3, kernel_version := 6,
        contract_analysis_version := 2\<rparr>,
     (op ''table.formula'' Table ManipolaCompat Unary Streaming Cooperative None None []
        DefinedOrder PublicProtocol)\<lparr>semantic_version := 4, config_schema_version := 2,
        contract_analysis_version := 3, kernel_version := 5\<rparr>,
     (op ''table.join'' Table ManipolaCompat BinaryOrdered BinaryBlocking BoundaryOnly None None
        [] DefinedOrder PublicProtocol)\<lparr>expansion_constraint := SumRelative,
        semantic_version := 3, kernel_version := 3, contract_analysis_version := 2\<rparr>,
     (op ''table.lookup'' Table ManipolaCompat Unary Streaming Cooperative None None []
        DefinedOrder PublicProtocol)\<lparr>contract_analysis_version := 3, semantic_version := 2,
        kernel_version := 2\<rparr>]"

definition catalog_table_compat_3 :: "operation_descriptor list" where
  "catalog_table_compat_3 =
    [(op ''table.melt'' Table ManipolaCompat Unary Blocking BoundaryOnly None None [] DefinedOrder
        PublicProtocol)\<lparr>semantic_version := 3, config_schema_version := 2, kernel_version
        := 5, contract_analysis_version := 3\<rparr>,
     (op ''table.pivot'' Table ManipolaCompat Unary Blocking BoundaryOnly None None []
        DefinedOrder PublicProtocol)\<lparr>semantic_version := 3, config_schema_version := 2,
        contract_analysis_version := 5, kernel_version := 6\<rparr>,
     (op ''table.rename'' Table ManipolaCompat Unary Streaming Cooperative None None []
        DefinedOrder PublicProtocol)\<lparr>config_schema_version := 2, contract_analysis_version
        := 3, kernel_version := 2\<rparr>,
     (op ''table.reorder_columns'' Table ManipolaCompat Unary Streaming Cooperative None None []
        DefinedOrder PublicProtocol)\<lparr>config_schema_version := 2, contract_analysis_version
        := 2, kernel_version := 2\<rparr>,
     (op ''table.replace'' Table ManipolaCompat Unary Streaming Cooperative None None []
        DefinedOrder PublicProtocol)\<lparr>config_schema_version := 2, contract_analysis_version
        := 2, kernel_version := 2\<rparr>,
     (op ''table.sample'' Table ManipolaCompat Unary Blocking BoundaryOnly None None []
        DefinedOrder PublicProtocol)\<lparr>config_schema_version := 2, contract_analysis_version
        := 3, kernel_version := 3, semantic_version := 2\<rparr>,
     (op ''table.sort'' Table ManipolaCompat Unary Blocking BoundaryOnly None None [] DefinedOrder
        PublicProtocol)\<lparr>kernel_version := 3, semantic_version := 2,
        contract_analysis_version := 2\<rparr>,
     (op ''table.split_column'' Table ManipolaCompat Unary Streaming Cooperative None None []
        DefinedOrder PublicProtocol)\<lparr>config_schema_version := 2, contract_analysis_version
        := 2, kernel_version := 2\<rparr>,
     (op ''table.statistics'' Table ManipolaCompat Unary Blocking BoundaryOnly None None []
        DefinedOrder PublicProtocol)\<lparr>semantic_version := 3, config_schema_version := 2,
        contract_analysis_version := 4, kernel_version := 5\<rparr>]"

definition catalog_table_compat_4 :: "operation_descriptor list" where
  "catalog_table_compat_4 =
    [(op ''table.string_extract'' Table ManipolaCompat Unary Streaming Cooperative None None []
        DefinedOrder PublicProtocol)\<lparr>kernel_version := 3\<rparr>,
     op ''table.string_length'' Table ManipolaCompat Unary Streaming Cooperative None None []
        DefinedOrder PublicProtocol,
     (op ''table.string_pad'' Table ManipolaCompat Unary Streaming Cooperative None None []
        DefinedOrder PublicProtocol)\<lparr>config_schema_version := 2, contract_analysis_version
        := 2, kernel_version := 2\<rparr>,
     (op ''table.table_diff'' Table ManipolaCompat BinaryOrdered BinaryBlocking BoundaryOnly None
        None [] DefinedOrder PublicProtocol)\<lparr>expansion_constraint := SumRelative,
        config_schema_version := 2, contract_analysis_version := 3, kernel_version := 4,
        semantic_version := 2\<rparr>,
     (op ''table.text_normalize'' Table ManipolaCompat Unary Streaming Cooperative None None []
        DefinedOrder PublicProtocol)\<lparr>kernel_version := 2\<rparr>,
     (op ''table.transpose'' Table ManipolaCompat Unary Blocking BoundaryOnly None None []
        DefinedOrder PublicProtocol)\<lparr>semantic_version := 3, config_schema_version := 2,
        contract_analysis_version := 3, kernel_version := 5\<rparr>,
     (op ''table.type_cast'' Table ManipolaCompat Unary Streaming Cooperative None None []
        DefinedOrder PublicProtocol)\<lparr>semantic_version := 4, config_schema_version := 2,
        contract_analysis_version := 4, kernel_version := 6\<rparr>,
     op ''table.uuid_generator'' Table ManipolaCompat Unary Streaming Cooperative None None []
        DefinedOrder PublicProtocol,
     (op ''table.window_function'' Table ManipolaCompat Unary Blocking BoundaryOnly None None []
        DefinedOrder PublicProtocol)\<lparr>semantic_version := 3, config_schema_version := 2,
        contract_analysis_version := 4, kernel_version := 5\<rparr>]"

definition catalog_table_compat_5 :: "operation_descriptor list" where
  "catalog_table_compat_5 =
    [(op ''table.mask_data'' Table ManipolaCompat Unary Streaming Cooperative None None []
        DefinedOrder PublicProtocol)\<lparr>config_schema_version := 2, contract_analysis_version
        := 3, kernel_version := 4, semantic_version := 2\<rparr>,
     (op ''table.md5_hash'' Table ManipolaCompat Unary Streaming Cooperative None None []
        DefinedOrder PublicProtocol)\<lparr>semantic_version := 3, config_schema_version := 2,
        contract_analysis_version := 3, kernel_version := 4\<rparr>]"

definition catalog_table_ext_1 :: "operation_descriptor list" where
  "catalog_table_ext_1 =
    [(op ''table.anti_join'' Table Extension BinaryOrdered BinaryBlocking BoundaryOnly None None
        [] DefinedOrder PublicProtocol)\<lparr>kernel_version := 3, expansion_constraint :=
        LeftRelative, semantic_version := 2, contract_analysis_version := 2\<rparr>,
     (op ''table.asof_join'' Table Extension BinaryOrdered BinaryBlocking BoundaryOnly None None
        [] DefinedOrder PublicProtocol)\<lparr>expansion_constraint := LeftRelative,
        semantic_version := 3, config_schema_version := 2, contract_analysis_version := 4,
        kernel_version := 4\<rparr>,
     (op ''table.assert_not_null'' Table Extension Unary Streaming Cooperative None None []
        DefinedOrder PublicProtocol)\<lparr>semantic_version := 2, kernel_version := 2\<rparr>,
     (op ''table.assert_range'' Table Extension Unary Streaming Cooperative None None []
        DefinedOrder PublicProtocol)\<lparr>semantic_version := 4, config_schema_version := 2,
        contract_analysis_version := 3, kernel_version := 5\<rparr>,
     (op ''table.assert_regex'' Table Extension Unary Streaming Cooperative None None []
        DefinedOrder PublicProtocol)\<lparr>semantic_version := 2, kernel_version := 2\<rparr>,
     (op ''table.assert_schema'' Table Extension Unary Streaming Cooperative None None []
        DefinedOrder PublicProtocol)\<lparr>semantic_version := 2, config_schema_version := 2,
        contract_analysis_version := 2, kernel_version := 2\<rparr>,
     (op ''table.assert_unique'' Table Extension Unary Blocking BoundaryOnly None None []
        DefinedOrder PublicProtocol)\<lparr>semantic_version := 3, kernel_version := 4,
        contract_analysis_version := 2\<rparr>,
     (op ''table.coalesce'' Table Extension Unary Streaming Cooperative None None [] DefinedOrder
        PublicProtocol)\<lparr>kernel_version := 3, semantic_version := 1,
        contract_analysis_version := 2\<rparr>,
     (op ''table.date_add'' Table Extension Unary Streaming Cooperative None None [] DefinedOrder
        PublicProtocol)\<lparr>semantic_version := 4, config_schema_version := 3,
        contract_analysis_version := 4, kernel_version := 6\<rparr>]"

definition catalog_table_ext_2 :: "operation_descriptor list" where
  "catalog_table_ext_2 =
    [(op ''table.date_diff'' Table Extension Unary Streaming Cooperative None None [] DefinedOrder
        PublicProtocol)\<lparr>semantic_version := 4, config_schema_version := 3,
        contract_analysis_version := 4, kernel_version := 6\<rparr>,
     (op ''table.date_format'' Table Extension Unary Streaming Cooperative None None []
        DefinedOrder PublicProtocol)\<lparr>semantic_version := 4, config_schema_version := 3,
        contract_analysis_version := 4, kernel_version := 6\<rparr>,
     (op ''table.except'' Table Extension BinaryOrdered BinaryBlocking BoundaryOnly None None []
        CanonicalOrder PublicProtocol)\<lparr>kernel_version := 3, expansion_constraint :=
        LeftRelative, semantic_version := 2, contract_analysis_version := 2\<rparr>,
     (op ''table.explode'' Table Extension Unary Blocking BoundaryOnly None None [] DefinedOrder
        PublicProtocol)\<lparr>semantic_version := 2, kernel_version := 2\<rparr>,
     (op ''table.intersect'' Table Extension BinaryOrdered BinaryBlocking BoundaryOnly None None
        [] CanonicalOrder PublicProtocol)\<lparr>kernel_version := 3, expansion_constraint :=
        LeftRelative, semantic_version := 2, contract_analysis_version := 2\<rparr>,
     (op ''table.rolling_window'' Table Extension Unary Blocking BoundaryOnly None None []
        DefinedOrder PublicProtocol)\<lparr>semantic_version := 3, config_schema_version := 2,
        contract_analysis_version := 4, kernel_version := 5\<rparr>,
     (op ''table.semi_join'' Table Extension BinaryOrdered BinaryBlocking BoundaryOnly None None
        [] DefinedOrder PublicProtocol)\<lparr>kernel_version := 3, expansion_constraint :=
        LeftRelative, semantic_version := 2, contract_analysis_version := 2\<rparr>,
     (op ''table.sha256_hash'' Table Extension Unary Streaming Cooperative None None []
        DefinedOrder PublicProtocol)\<lparr>semantic_version := 3, config_schema_version := 2,
        contract_analysis_version := 3, kernel_version := 4\<rparr>]"

definition catalog_table_ext_3 :: "operation_descriptor list" where
  "catalog_table_ext_3 =
    [(op ''table.timezone_convert'' Table Extension Unary Streaming Cooperative None None []
        DefinedOrder PublicProtocol)\<lparr>semantic_version := 4, config_schema_version := 3,
        contract_analysis_version := 4, kernel_version := 6\<rparr>,
     (op ''table.union_distinct'' Table Extension BinaryOrdered BinaryBlocking BoundaryOnly None
        None [] CanonicalOrder PublicProtocol)\<lparr>kernel_version := 4, expansion_constraint :=
        SumRelative, semantic_version := 2, contract_analysis_version := 3\<rparr>,
     op ''table.unnest'' Table Extension Unary Streaming Cooperative None None [] DefinedOrder
        PublicProtocol,
     (op ''table.expression'' Table Extension Unary Streaming Cooperative None None []
        DefinedOrder PublicProtocol)\<lparr>semantic_version := 6, config_schema_version := 3,
        contract_analysis_version := 5, kernel_version := 7\<rparr>,
     (op ''table.assert_cardinality'' Table Extension Unary Streaming Cooperative None None []
        DefinedOrder PublicProtocol)\<lparr>config_schema_version := 2, contract_analysis_version
        := 2, kernel_version := 2\<rparr>,
     op ''table.assert_metadata'' Table Extension Unary Streaming Cooperative None None []
        DefinedOrder PublicProtocol,
     (op ''table.assert_foreign_key'' Table Extension BinaryOrdered BinaryBlocking BoundaryOnly
        None None [] DefinedOrder PublicProtocol)\<lparr>semantic_version := 3, kernel_version :=
        4, expansion_constraint := LeftRelative, contract_analysis_version := 2\<rparr>,
     (op ''table.reconcile'' Table Extension BinaryOrdered BinaryBlocking BoundaryOnly None None
        [] DefinedOrder PublicProtocol)\<lparr>expansion_factor_exempt := True, semantic_version
        := 3, contract_analysis_version := 3, kernel_version := 3\<rparr>]"

definition catalog_geo_compat_1 :: "operation_descriptor list" where
  "catalog_geo_compat_1 =
    [(op ''geo.centroid'' Geo ManipolaCompat Unary Streaming Cooperative (Some OneToOne) (Some
        Projected) [] DefinedOrder PublicProtocol)\<lparr>geo_fusion := TransformInPlace,
        semantic_version := 2, config_schema_version := 2, contract_analysis_version := 4\<rparr>,
     (op ''geo.convex_hull'' Geo ManipolaCompat Unary Streaming Cooperative (Some OneToOne) (Some
        Projected) [] DefinedOrder PublicProtocol)\<lparr>geo_fusion := TransformInPlace,
        semantic_version := 2, config_schema_version := 2, contract_analysis_version := 4\<rparr>,
     (op ''geo.envelope'' Geo ManipolaCompat Unary Streaming Cooperative (Some OneToOne) (Some
        Projected) [] DefinedOrder PublicProtocol)\<lparr>geo_fusion := TransformInPlace,
        semantic_version := 2, config_schema_version := 2, contract_analysis_version := 4\<rparr>,
     (op ''geo.sjoin'' Geo ManipolaCompat BinaryOrdered BinaryBlocking BoundaryOnly (Some
        OneToMany) (Some SameProjected) [] DefinedOrder
        PublicProtocol)\<lparr>expansion_constraint := SumRelative, semantic_version := 3,
        config_schema_version := 2, contract_analysis_version := 5\<rparr>,
     (op ''geo.area'' Geo ManipolaCompat Unary Streaming Cooperative (Some OneToOne) (Some
        Projected) [] DefinedOrder KernelValidated)\<lparr>geo_fusion := TerminalMeasure,
        semantic_version := 2, config_schema_version := 2, contract_analysis_version := 5\<rparr>,
     (op ''geo.boundary'' Geo ManipolaCompat Unary Streaming Cooperative (Some OneToOne) (Some
        Projected) [] DefinedOrder KernelValidated)\<lparr>geo_fusion := TransformInPlace,
        semantic_version := 2, config_schema_version := 2, contract_analysis_version := 4\<rparr>,
     (op ''geo.bounds_extractor'' Geo ManipolaCompat Unary Streaming Cooperative (Some OneToOne)
        (Some Projected) [] DefinedOrder KernelValidated)\<lparr>semantic_version := 2,
        config_schema_version := 2, contract_analysis_version := 4\<rparr>,
     (op ''geo.buffer'' Geo ManipolaCompat Unary Streaming Cooperative (Some OneToOne) (Some
        Projected) [] DefinedOrder KernelValidated)\<lparr>geo_fusion := TransformInPlace,
        semantic_version := 2, config_schema_version := 2, contract_analysis_version := 4\<rparr>]"

definition catalog_geo_compat_2 :: "operation_descriptor list" where
  "catalog_geo_compat_2 =
    [(op ''geo.clean_topology'' Geo ManipolaCompat Unary Blocking BoundaryOnly (Some OneToOne)
        (Some SameProjected) [] DefinedOrder KernelValidated)\<lparr>semantic_version := 2,
        config_schema_version := 3, contract_analysis_version := 6\<rparr>,
     (op ''geo.clip'' Geo ManipolaCompat BinaryOrdered BinaryBlocking BoundaryOnly (Some OneToOne)
        (Some SameProjected) [] DefinedOrder KernelValidated)\<lparr>semantic_version := 2,
        config_schema_version := 2, contract_analysis_version := 5, expansion_constraint :=
        LeftRelative\<rparr>,
     (op ''geo.count_points_in_polygons'' Geo ManipolaCompat BinaryOrdered BinaryBlocking
        BoundaryOnly (Some OneToOne) (Some SameProjected) [] DefinedOrder
        KernelValidated)\<lparr>expansion_constraint := LeftRelative, semantic_version := 2,
        config_schema_version := 2, contract_analysis_version := 6\<rparr>,
     (op ''geo.difference'' Geo ManipolaCompat BinaryOrdered BinaryBlocking BoundaryOnly (Some
        OneToOne) (Some SameProjected) [] DefinedOrder
        KernelValidated)\<lparr>config_schema_version := 2, contract_analysis_version := 5,
        expansion_constraint := LeftRelative\<rparr>,
     (op ''geo.dissolve'' Geo ManipolaCompat Unary Blocking BoundaryOnly (Some ManyToOne) (Some
        Projected) [] CanonicalOrder KernelValidated)\<lparr>expansion_factor_exempt := True,
        semantic_version := 2, config_schema_version := 2, contract_analysis_version := 5\<rparr>,
     (op ''geo.distance'' Geo ManipolaCompat Unary Streaming Cooperative (Some OneToOne) (Some
        SameProjected) [] DefinedOrder KernelValidated)\<lparr>config_schema_version := 2,
        contract_analysis_version := 4\<rparr>,
     (op ''geo.explode'' Geo ManipolaCompat Unary Streaming Cooperative (Some OneToMany) (Some
        CrsKnown) [] DefinedOrder KernelValidated)\<lparr>config_schema_version := 2,
        contract_analysis_version := 5\<rparr>,
     (op ''geo.from_coords'' Geo ManipolaCompat Unary Streaming Cooperative (Some FromCoords)
        (Some Projected) [] DefinedOrder KernelValidated)\<lparr>semantic_version := 2,
        contract_analysis_version := 4\<rparr>]"

definition catalog_geo_compat_3 :: "operation_descriptor list" where
  "catalog_geo_compat_3 =
    [(op ''geo.intersection'' Geo ManipolaCompat BinaryOrdered BinaryBlocking BoundaryOnly (Some
        OneToOne) (Some SameProjected) [] DefinedOrder
        KernelValidated)\<lparr>config_schema_version := 2, contract_analysis_version := 5,
        expansion_constraint := LeftRelative\<rparr>,
     (op ''geo.length'' Geo ManipolaCompat Unary Streaming Cooperative (Some OneToOne) (Some
        Projected) [] DefinedOrder KernelValidated)\<lparr>geo_fusion := TerminalMeasure,
        semantic_version := 2, config_schema_version := 2, contract_analysis_version := 5\<rparr>,
     (op ''geo.line_builder'' Geo ManipolaCompat Unary Blocking BoundaryOnly (Some ManyToOne)
        (Some Projected) [] DefinedOrder KernelValidated)\<lparr>expansion_factor_exempt := True,
        semantic_version := 2, config_schema_version := 2, contract_analysis_version := 5\<rparr>,
     (op ''geo.nearest'' Geo ManipolaCompat BinaryOrdered BinaryBlocking BoundaryOnly (Some
        OneToMany) (Some SameProjected) [] DefinedOrder
        KernelValidated)\<lparr>expansion_constraint := LeftRelative, semantic_version := 2,
        config_schema_version := 2, contract_analysis_version := 5\<rparr>,
     (op ''geo.overlay'' Geo ManipolaCompat BinaryOrdered BinaryBlocking BoundaryOnly (Some
        OneToMany) (Some SameProjected) [] DefinedOrder
        KernelValidated)\<lparr>expansion_constraint := SumRelative, semantic_version := 3,
        config_schema_version := 2, contract_analysis_version := 5, kernel_version := 2\<rparr>,
     (op ''geo.perimeter'' Geo ManipolaCompat Unary Streaming Cooperative (Some OneToOne) (Some
        Projected) [] DefinedOrder KernelValidated)\<lparr>geo_fusion := TerminalMeasure,
        semantic_version := 2, config_schema_version := 2, contract_analysis_version := 5\<rparr>,
     (op ''geo.point_on_surface'' Geo ManipolaCompat Unary Streaming Cooperative (Some OneToOne)
        (Some Projected) [] DefinedOrder KernelValidated)\<lparr>geo_fusion := TransformInPlace,
        semantic_version := 2, config_schema_version := 2, contract_analysis_version := 4\<rparr>,
     (op ''geo.polygon_builder'' Geo ManipolaCompat Unary Blocking BoundaryOnly (Some ManyToOne)
        (Some Projected) [] DefinedOrder KernelValidated)\<lparr>expansion_factor_exempt := True,
        semantic_version := 2, config_schema_version := 2, contract_analysis_version := 5\<rparr>]"

definition catalog_geo_compat_4 :: "operation_descriptor list" where
  "catalog_geo_compat_4 =
    [(op ''geo.simplify'' Geo ManipolaCompat Unary Streaming Cooperative (Some OneToOne) (Some
        Projected) [] DefinedOrder KernelValidated)\<lparr>geo_fusion := TransformInPlace,
        semantic_version := 3, config_schema_version := 3, contract_analysis_version := 5,
        kernel_version := 2\<rparr>,
     (op ''geo.symmetric_difference'' Geo ManipolaCompat BinaryOrdered BinaryBlocking BoundaryOnly
        (Some OneToOne) (Some SameProjected) [] DefinedOrder
        KernelValidated)\<lparr>config_schema_version := 2, contract_analysis_version := 5,
        expansion_constraint := LeftRelative\<rparr>,
     (op ''geo.to_wkt'' Geo ManipolaCompat Unary Streaming Cooperative (Some OneToOne) (Some
        CrsKnown) [] DefinedOrder KernelValidated)\<lparr>geo_fusion := TerminalMeasure,
        semantic_version := 2, config_schema_version := 2, contract_analysis_version := 5\<rparr>,
     (op ''geo.union'' Geo ManipolaCompat BinaryOrdered BinaryBlocking BoundaryOnly (Some
        OneToOne) (Some SameProjected) [] DefinedOrder KernelValidated)\<lparr>semantic_version :=
        2, config_schema_version := 2, contract_analysis_version := 5, expansion_constraint :=
        LeftRelative\<rparr>,
     (op ''geo.vertex_count'' Geo ManipolaCompat Unary Streaming Cooperative (Some OneToOne) (Some
        CrsKnown) [] DefinedOrder KernelValidated)\<lparr>geo_fusion := TerminalMeasure,
        semantic_version := 2, config_schema_version := 2, contract_analysis_version := 5\<rparr>,
     (op ''geo.voronoi'' Geo ManipolaCompat Unary Blocking BoundaryOnly (Some OneToOne) (Some
        Projected) [] DefinedOrder KernelValidated)\<lparr>semantic_version := 3,
        config_schema_version := 2, contract_analysis_version := 5, kernel_version := 2\<rparr>,
     (op ''geo.within'' Geo ManipolaCompat BinaryOrdered BinaryBlocking BoundaryOnly (Some
        OneToOne) (Some SameProjected) [] DefinedOrder
        KernelValidated)\<lparr>expansion_constraint := LeftRelative, semantic_version := 2,
        config_schema_version := 2, contract_analysis_version := 6\<rparr>]"

definition catalog_geo_compat_5 :: "operation_descriptor list" where
  "catalog_geo_compat_5 =
    [(op ''geo.make_valid'' Geo ManipolaCompat Unary Streaming NonInterruptible (Some OneToOne)
        (Some CrsKnown) [] DefinedOrder KernelValidated)\<lparr>geo_fusion := TransformInPlace,
        semantic_version := 3, config_schema_version := 2, contract_analysis_version := 4,
        kernel_version := 2\<rparr>,
     (op ''geo.reproject'' Geo ManipolaCompat Unary Streaming NonInterruptible (Some OneToOne)
        (Some Reprojection) [] DefinedOrder KernelValidated)\<lparr>geo_fusion :=
        TransformInPlace, semantic_version := 2, config_schema_version := 3,
        contract_analysis_version := 5, kernel_version := 2\<rparr>]"

definition catalog_geo_predicates_1 :: "operation_descriptor list" where
  "catalog_geo_predicates_1 =
    [(op ''geo.predicate_intersects'' Geo Extension Unary Streaming Cooperative (Some OneToOne)
        (Some SameProjected) [] DefinedOrder KernelValidated)\<lparr>config_schema_version := 2,
        contract_analysis_version := 5\<rparr>,
     (op ''geo.predicate_disjoint'' Geo Extension Unary Streaming Cooperative (Some OneToOne)
        (Some SameProjected) [] DefinedOrder KernelValidated)\<lparr>config_schema_version := 2,
        contract_analysis_version := 5\<rparr>,
     (op ''geo.predicate_contains'' Geo Extension Unary Streaming Cooperative (Some OneToOne)
        (Some SameProjected) [] DefinedOrder KernelValidated)\<lparr>config_schema_version := 2,
        contract_analysis_version := 5\<rparr>,
     (op ''geo.predicate_within'' Geo Extension Unary Streaming Cooperative (Some OneToOne) (Some
        SameProjected) [] DefinedOrder KernelValidated)\<lparr>config_schema_version := 2,
        contract_analysis_version := 5\<rparr>,
     (op ''geo.predicate_equals_topo'' Geo Extension Unary Streaming Cooperative (Some OneToOne)
        (Some SameProjected) [] DefinedOrder KernelValidated)\<lparr>config_schema_version := 2,
        contract_analysis_version := 5\<rparr>,
     (op ''geo.predicate_covers'' Geo Extension Unary Streaming Cooperative (Some OneToOne) (Some
        SameProjected) [] DefinedOrder KernelValidated)\<lparr>config_schema_version := 2,
        contract_analysis_version := 5\<rparr>,
     (op ''geo.predicate_covered_by'' Geo Extension Unary Streaming Cooperative (Some OneToOne)
        (Some SameProjected) [] DefinedOrder KernelValidated)\<lparr>config_schema_version := 2,
        contract_analysis_version := 5\<rparr>,
     (op ''geo.predicate_contains_properly'' Geo Extension Unary Streaming Cooperative (Some
        OneToOne) (Some SameProjected) [] DefinedOrder
        KernelValidated)\<lparr>config_schema_version := 2, contract_analysis_version := 5\<rparr>,
     (op ''geo.predicate_touches'' Geo Extension Unary Streaming Cooperative (Some OneToOne) (Some
        SameProjected) [] DefinedOrder KernelValidated)\<lparr>config_schema_version := 2,
        contract_analysis_version := 5\<rparr>,
     (op ''geo.predicate_crosses'' Geo Extension Unary Streaming Cooperative (Some OneToOne) (Some
        SameProjected) [] DefinedOrder KernelValidated)\<lparr>config_schema_version := 2,
        contract_analysis_version := 5\<rparr>]"

definition catalog_geo_predicates_2 :: "operation_descriptor list" where
  "catalog_geo_predicates_2 =
    [(op ''geo.predicate_overlaps'' Geo Extension Unary Streaming Cooperative (Some OneToOne)
        (Some SameProjected) [] DefinedOrder KernelValidated)\<lparr>config_schema_version := 2,
        contract_analysis_version := 5\<rparr>]"

definition catalog_geo_ext_1 :: "operation_descriptor list" where
  "catalog_geo_ext_1 =
    [(op ''geo.affine_transform'' Geo Extension Unary Streaming Cooperative (Some OneToOne) (Some
        Projected) [] DefinedOrder KernelValidated)\<lparr>geo_fusion := TransformInPlace,
        semantic_version := 2, config_schema_version := 2, contract_analysis_version := 4\<rparr>,
     (op ''geo.translate'' Geo Extension Unary Streaming Cooperative (Some OneToOne) (Some
        Projected) [] DefinedOrder KernelValidated)\<lparr>geo_fusion := TransformInPlace,
        semantic_version := 2, config_schema_version := 2, contract_analysis_version := 4\<rparr>,
     (op ''geo.scale'' Geo Extension Unary Streaming Cooperative (Some OneToOne) (Some Projected)
        [] DefinedOrder KernelValidated)\<lparr>geo_fusion := TransformInPlace, semantic_version
        := 2, config_schema_version := 2, contract_analysis_version := 4\<rparr>,
     (op ''geo.rotate'' Geo Extension Unary Streaming Cooperative (Some OneToOne) (Some Projected)
        [] DefinedOrder KernelValidated)\<lparr>geo_fusion := TransformInPlace, semantic_version
        := 2, config_schema_version := 2, contract_analysis_version := 4\<rparr>,
     (op ''geo.concave_hull'' Geo Extension Unary Streaming Cooperative (Some OneToOne) (Some
        Projected) [] DefinedOrder KernelValidated)\<lparr>geo_fusion := TransformInPlace,
        semantic_version := 3, config_schema_version := 2, contract_analysis_version := 4,
        kernel_version := 2\<rparr>,
     (op ''geo.hausdorff_distance'' Geo Extension Unary Streaming Cooperative (Some OneToOne)
        (Some SameProjected) [] DefinedOrder KernelValidated)\<lparr>semantic_version := 2,
        config_schema_version := 2, contract_analysis_version := 4\<rparr>,
     (op ''geo.haversine_distance'' Geo Extension Unary Streaming Cooperative (Some OneToOne)
        (Some Geographic) [] DefinedOrder KernelValidated)\<lparr>semantic_version := 2,
        config_schema_version := 2, contract_analysis_version := 5, kernel_version := 2\<rparr>,
     (op ''geo.geodesic_distance'' Geo Extension Unary Streaming Cooperative (Some OneToOne) (Some
        Geographic) [] DefinedOrder KernelValidated)\<lparr>semantic_version := 2,
        config_schema_version := 2, contract_analysis_version := 5, kernel_version := 2\<rparr>]"

definition catalog_geo_ext_2 :: "operation_descriptor list" where
  "catalog_geo_ext_2 =
    [(op ''geo.geodesic_line_length'' Geo Extension Unary Streaming Cooperative (Some OneToOne)
        (Some Geographic) [] DefinedOrder KernelValidated)\<lparr>semantic_version := 3,
        config_schema_version := 2, contract_analysis_version := 5, kernel_version := 2\<rparr>,
     (op ''geo.densify'' Geo Extension Unary Streaming Cooperative (Some OneToOne) (Some
        Projected) [] DefinedOrder KernelValidated)\<lparr>geo_fusion := TransformInPlace,
        semantic_version := 3, config_schema_version := 2, contract_analysis_version := 4\<rparr>,
     (op ''geo.snap_to_grid'' Geo Extension Unary Streaming Cooperative (Some OneToOne) (Some
        Projected) [] DefinedOrder KernelValidated)\<lparr>geo_fusion := TransformInPlace,
        semantic_version := 2, config_schema_version := 2, contract_analysis_version := 4\<rparr>,
     (op ''geo.delaunay'' Geo Extension Unary Blocking BoundaryOnly (Some OneToMany) (Some
        Projected) [] DefinedOrder KernelValidated)\<lparr>semantic_version := 3,
        config_schema_version := 2, contract_analysis_version := 5, kernel_version := 2\<rparr>,
     (op ''geo.polygonize'' Geo Extension Unary Blocking NonInterruptible (Some WholeToMany) (Some
        Projected) [] DefinedOrder KernelValidated)\<lparr>expansion_factor_exempt := True,
        semantic_version := 3, config_schema_version := 2, contract_analysis_version := 6,
        kernel_version := 3\<rparr>,
     (op ''geo.line_merge'' Geo Extension Unary Blocking BoundaryOnly (Some WholeToMany) (Some
        Projected) [] DefinedOrder KernelValidated)\<lparr>expansion_factor_exempt := True,
        semantic_version := 3, config_schema_version := 2, contract_analysis_version := 6\<rparr>,
     (op ''geo.split'' Geo Extension Unary Streaming NonInterruptible (Some OneToMany) (Some
        SameProjected) [] DefinedOrder KernelValidated)\<lparr>semantic_version := 2,
        config_schema_version := 2, contract_analysis_version := 5, kernel_version := 3\<rparr>,
     (op ''geo.line_substring'' Geo Extension Unary Streaming Cooperative (Some OneToOne) (Some
        Projected) [] DefinedOrder KernelValidated)\<lparr>semantic_version := 2,
        config_schema_version := 2, contract_analysis_version := 4\<rparr>]"

definition catalog_geo_ext_3 :: "operation_descriptor list" where
  "catalog_geo_ext_3 =
    [(op ''geo.line_interpolate_point'' Geo Extension Unary Streaming Cooperative (Some OneToOne)
        (Some Projected) [] DefinedOrder KernelValidated)\<lparr>semantic_version := 2,
        config_schema_version := 2, contract_analysis_version := 4\<rparr>,
     (op ''geo.frechet_distance'' Geo Extension Unary Streaming Cooperative (Some OneToOne) (Some
        SameProjected) [] DefinedOrder KernelValidated)\<lparr>semantic_version := 2,
        config_schema_version := 2, contract_analysis_version := 4\<rparr>,
     (op ''geo.bearing'' Geo Extension Unary Streaming Cooperative (Some OneToOne) (Some
        Geographic) [] DefinedOrder KernelValidated)\<lparr>semantic_version := 2,
        config_schema_version := 2, contract_analysis_version := 5, kernel_version := 2\<rparr>,
     (op ''geo.geodesic_area'' Geo Extension Unary Streaming Cooperative (Some OneToOne) (Some
        Geographic) [] DefinedOrder KernelValidated)\<lparr>semantic_version := 3,
        config_schema_version := 2, contract_analysis_version := 5, kernel_version := 2\<rparr>,
     (op ''geo.geometry_diagnostics'' Geo Extension Unary Streaming Cooperative (Some Diagnostic)
        (Some CrsKnown) [] DefinedOrder KernelValidated)\<lparr>config_schema_version := 2,
        contract_analysis_version := 5\<rparr>]"

definition catalog_geo_ext_v1_1 :: "operation_descriptor list" where
  "catalog_geo_ext_v1_1 =
    [(op ''geo.from_wkt'' Geo Extension Unary Streaming Cooperative (Some FromCoords) (Some
        CrsKnown) [] DefinedOrder KernelValidated)\<lparr>semantic_version := 3,
        contract_analysis_version := 6, kernel_version := 2\<rparr>,
     (op ''geo.geometry_accessors'' Geo Extension Unary Streaming Cooperative (Some OneToOne)
        (Some CrsKnown) [] DefinedOrder KernelValidated)\<lparr>config_schema_version := 2,
        contract_analysis_version := 5\<rparr>,
     (op ''geo.collect'' Geo Extension Unary Blocking BoundaryOnly (Some ManyToOne) (Some
        CrsKnown) [] CanonicalOrder KernelValidated)\<lparr>semantic_version := 3,
        config_schema_version := 2, contract_analysis_version := 6, kernel_version := 3\<rparr>,
     (op ''geo.line_locate_point'' Geo Extension Unary Streaming Cooperative (Some OneToOne) (Some
        CrsKnown) [] DefinedOrder KernelValidated)\<lparr>config_schema_version := 2,
        contract_analysis_version := 4\<rparr>]"

definition catalog_geo_ext_v1_2 :: "operation_descriptor list" where
  "catalog_geo_ext_v1_2 =
    [(op ''geo.generate_grid'' Geo Extension Unary Blocking BoundaryOnly (Some WholeToMany) (Some
        CrsKnown) [] DefinedOrder KernelValidated)\<lparr>expansion_factor_exempt := True,
        semantic_version := 2, contract_analysis_version := 5\<rparr>,
     (op ''geo.subdivide'' Geo Extension Unary Streaming Cooperative (Some OneToMany) (Some
        CrsKnown) [] DefinedOrder KernelValidated)\<lparr>config_schema_version := 2,
        contract_analysis_version := 4\<rparr>,
     (op ''geo.snap'' Geo Extension Unary Streaming Cooperative (Some OneToOne) (Some
        SameProjected) [] DefinedOrder KernelValidated)\<lparr>config_schema_version := 2,
        contract_analysis_version := 4\<rparr>]"

definition catalog_geo_ext_v1_3 :: "operation_descriptor list" where
  "catalog_geo_ext_v1_3 =
    [(op ''geo.coverage_validate'' Geo Extension Unary Blocking BoundaryOnly (Some WholeToMany)
        (Some SameProjected) [] DefinedOrder KernelValidated)\<lparr>expansion_factor_exempt :=
        True, semantic_version := 2, config_schema_version := 2, contract_analysis_version :=
        4\<rparr>,
     (op ''geo.shared_paths'' Geo Extension Unary Blocking BoundaryOnly (Some WholeToMany) (Some
        SameProjected) [] DefinedOrder KernelValidated)\<lparr>expansion_factor_exempt := True,
        config_schema_version := 2, contract_analysis_version := 4\<rparr>,
     (op ''geo.cluster_dbscan'' Geo Extension Unary Blocking BoundaryOnly (Some OneToOne) (Some
        Projected) [] DefinedOrder KernelValidated)\<lparr>config_schema_version := 2,
        contract_analysis_version := 4\<rparr>]"

definition catalog_table_ext_v1_1 :: "operation_descriptor list" where
  "catalog_table_ext_v1_1 =
    [(op ''table.limit'' Table Extension Unary Streaming Cooperative None None [] InputOrder
        KernelValidated)\<lparr>config_schema_version := 2, contract_analysis_version := 2,
        kernel_version := 2\<rparr>,
     op ''table.select_columns'' Table Extension Unary Streaming Cooperative None None []
        DefinedOrder KernelValidated,
     (op ''table.stable_fingerprint'' Table Extension Unary Streaming Cooperative None None []
        DefinedOrder KernelValidated)\<lparr>kernel_version := 3, semantic_version := 2,
        contract_analysis_version := 2\<rparr>,
     (op ''table.top_n'' Table Extension Unary Blocking BoundaryOnly None None [] DefinedOrder
        KernelValidated)\<lparr>config_schema_version := 2, contract_analysis_version := 3,
        kernel_version := 3, semantic_version := 2\<rparr>]"

definition catalog_table_ext_v1_2 :: "operation_descriptor list" where
  "catalog_table_ext_v1_2 =
    [(op ''table.align_schema'' Table Extension Unary Streaming Cooperative None None []
        DefinedOrder KernelValidated)\<lparr>semantic_version := 3, config_schema_version := 2,
        contract_analysis_version := 3, kernel_version := 3\<rparr>,
     (op ''table.concat_by_name'' Table Extension NAry Blocking BoundaryOnly None None []
        InputOrder KernelValidated)\<lparr>semantic_version := 1, contract_analysis_version := 3,
        kernel_version := 2\<rparr>,
     (op ''table.hmac_sha256'' Table Extension Unary Streaming Cooperative None None []
        DefinedOrder KernelValidated)\<lparr>kernel_version := 4, semantic_version := 2,
        contract_analysis_version := 2\<rparr>,
     (op ''table.validate_rules'' Table Extension Unary Streaming Cooperative None None []
        DefinedOrder KernelValidated)\<lparr>expansion_factor_exempt := True, semantic_version :=
        4, contract_analysis_version := 4, kernel_version := 3\<rparr>]"

definition catalog_table_ext_v1_3 :: "operation_descriptor list" where
  "catalog_table_ext_v1_3 =
    [(op ''table.fuzzy_join'' Table Extension BinaryOrdered BinaryBlocking BoundaryOnly None None
        [] DefinedOrder KernelValidated)\<lparr>expansion_constraint := SumRelative,
        semantic_version := 2\<rparr>]"

definition CATALOG :: "operation_descriptor list" where
  "CATALOG =
     catalog_table_compat_1 @
     catalog_table_compat_2 @
     catalog_table_compat_3 @
     catalog_table_compat_4 @
     catalog_table_compat_5 @
     catalog_table_ext_1 @
     catalog_table_ext_2 @
     catalog_table_ext_3 @
     catalog_geo_compat_1 @
     catalog_geo_compat_2 @
     catalog_geo_compat_3 @
     catalog_geo_compat_4 @
     catalog_geo_compat_5 @
     catalog_geo_predicates_1 @
     catalog_geo_predicates_2 @
     catalog_geo_ext_1 @
     catalog_geo_ext_2 @
     catalog_geo_ext_3 @
     catalog_geo_ext_v1_1 @
     catalog_geo_ext_v1_2 @
     catalog_geo_ext_v1_3 @
     catalog_table_ext_v1_1 @
     catalog_table_ext_v1_2 @
     catalog_table_ext_v1_3"

definition ALIASES :: alias_table where
  "ALIASES =
    [(3, ''add_row_number'', ''table.add_row_number''),
     (3, ''aggregate'', ''table.aggregate''),
     (3, ''bin'', ''table.bin''),
     (3, ''concat'', ''table.concat''),
     (3, ''concat_columns'', ''table.concat_columns''),
     (3, ''conditional'', ''table.conditional''),
     (3, ''cross_join'', ''table.cross_join''),
     (3, ''date_extract'', ''table.date_extract''),
     (3, ''dedup_advanced'', ''table.dedup_advanced''),
     (3, ''distinct'', ''table.distinct''),
     (3, ''drop_columns'', ''table.drop_columns''),
     (3, ''fill_na'', ''table.fill_na''),
     (3, ''filter'', ''table.filter''),
     (3, ''flatten_json'', ''table.flatten_json''),
     (3, ''formula'', ''table.formula''),
     (3, ''join'', ''table.join''),
     (3, ''lookup'', ''table.lookup''),
     (3, ''melt'', ''table.melt''),
     (3, ''pivot'', ''table.pivot''),
     (3, ''rename'', ''table.rename''),
     (3, ''reorder_columns'', ''table.reorder_columns''),
     (3, ''replace'', ''table.replace''),
     (3, ''sample'', ''table.sample''),
     (3, ''sort'', ''table.sort''),
     (3, ''split_column'', ''table.split_column''),
     (3, ''statistics'', ''table.statistics''),
     (3, ''string_extract'', ''table.string_extract''),
     (3, ''string_length'', ''table.string_length''),
     (3, ''string_pad'', ''table.string_pad''),
     (3, ''table_diff'', ''table.table_diff''),
     (3, ''text_normalize'', ''table.text_normalize''),
     (3, ''transpose'', ''table.transpose''),
     (3, ''type_cast'', ''table.type_cast''),
     (3, ''uuid_generator'', ''table.uuid_generator''),
     (3, ''window_function'', ''table.window_function''),
     (3, ''mask_data'', ''table.mask_data''),
     (3, ''md5_hash'', ''table.md5_hash''),
     (3, ''anti_join'', ''table.anti_join''),
     (3, ''asof_join'', ''table.asof_join''),
     (3, ''assert_not_null'', ''table.assert_not_null''),
     (3, ''assert_range'', ''table.assert_range''),
     (3, ''assert_regex'', ''table.assert_regex''),
     (3, ''assert_schema'', ''table.assert_schema''),
     (3, ''assert_unique'', ''table.assert_unique''),
     (3, ''coalesce'', ''table.coalesce''),
     (3, ''date_add'', ''table.date_add''),
     (3, ''date_diff'', ''table.date_diff''),
     (3, ''date_format'', ''table.date_format''),
     (3, ''except'', ''table.except''),
     (3, ''explode'', ''table.explode''),
     (3, ''intersect'', ''table.intersect''),
     (3, ''rolling_window'', ''table.rolling_window''),
     (3, ''semi_join'', ''table.semi_join''),
     (3, ''sha256_hash'', ''table.sha256_hash''),
     (3, ''timezone_convert'', ''table.timezone_convert''),
     (3, ''union_distinct'', ''table.union_distinct''),
     (3, ''unnest'', ''table.unnest''),
     (3, ''expression'', ''table.expression''),
     (3, ''assert_cardinality'', ''table.assert_cardinality''),
     (3, ''assert_metadata'', ''table.assert_metadata''),
     (3, ''assert_foreign_key'', ''table.assert_foreign_key''),
     (3, ''reconcile'', ''table.reconcile''),
     (3, ''geo_centroid'', ''geo.centroid''),
     (3, ''geo_convex_hull'', ''geo.convex_hull''),
     (3, ''geo_envelope'', ''geo.envelope''),
     (3, ''geo_area'', ''geo.area''),
     (3, ''geo_boundary'', ''geo.boundary''),
     (3, ''geo_bounds_extractor'', ''geo.bounds_extractor''),
     (3, ''geo_buffer'', ''geo.buffer''),
     (3, ''geo_clean_topology'', ''geo.clean_topology''),
     (3, ''geo_clip'', ''geo.clip''),
     (3, ''geo_count_points_in_polygons'', ''geo.count_points_in_polygons''),
     (3, ''geo_difference'', ''geo.difference''),
     (3, ''geo_dissolve'', ''geo.dissolve''),
     (3, ''geo_distance'', ''geo.distance''),
     (3, ''geo_explode'', ''geo.explode''),
     (3, ''geo_from_coords'', ''geo.from_coords''),
     (3, ''geo_intersection'', ''geo.intersection''),
     (3, ''geo_length'', ''geo.length''),
     (3, ''geo_line_builder'', ''geo.line_builder''),
     (3, ''geo_nearest'', ''geo.nearest''),
     (3, ''geo_overlay'', ''geo.overlay''),
     (3, ''geo_perimeter'', ''geo.perimeter''),
     (3, ''geo_point_on_surface'', ''geo.point_on_surface''),
     (3, ''geo_polygon_builder'', ''geo.polygon_builder''),
     (3, ''geo_simplify'', ''geo.simplify''),
     (3, ''geo_symmetric_difference'', ''geo.symmetric_difference''),
     (3, ''geo_to_wkt'', ''geo.to_wkt''),
     (3, ''geo_union'', ''geo.union''),
     (3, ''geo_vertex_count'', ''geo.vertex_count''),
     (3, ''geo_voronoi'', ''geo.voronoi''),
     (3, ''geo_within'', ''geo.within''),
     (3, ''geo_make_valid'', ''geo.make_valid''),
     (3, ''geo_reproject'', ''geo.reproject''),
     (3, ''predicate_intersects'', ''geo.predicate_intersects''),
     (3, ''predicate_disjoint'', ''geo.predicate_disjoint''),
     (3, ''predicate_contains'', ''geo.predicate_contains''),
     (3, ''predicate_within'', ''geo.predicate_within''),
     (3, ''predicate_equals_topo'', ''geo.predicate_equals_topo''),
     (3, ''predicate_covers'', ''geo.predicate_covers''),
     (3, ''predicate_covered_by'', ''geo.predicate_covered_by''),
     (3, ''predicate_contains_properly'', ''geo.predicate_contains_properly''),
     (3, ''predicate_touches'', ''geo.predicate_touches''),
     (3, ''predicate_crosses'', ''geo.predicate_crosses''),
     (3, ''predicate_overlaps'', ''geo.predicate_overlaps''),
     (3, ''sjoin'', ''geo.sjoin''),
     (3, ''affine_transform'', ''geo.affine_transform''),
     (3, ''translate'', ''geo.translate''),
     (3, ''scale'', ''geo.scale''),
     (3, ''rotate'', ''geo.rotate''),
     (3, ''concave_hull'', ''geo.concave_hull''),
     (3, ''hausdorff_distance'', ''geo.hausdorff_distance''),
     (3, ''haversine_distance'', ''geo.haversine_distance''),
     (3, ''geodesic_distance'', ''geo.geodesic_distance''),
     (3, ''geodesic_line_length'', ''geo.geodesic_line_length''),
     (3, ''densify'', ''geo.densify''),
     (3, ''snap_to_grid'', ''geo.snap_to_grid''),
     (3, ''delaunay'', ''geo.delaunay''),
     (3, ''polygonize'', ''geo.polygonize''),
     (3, ''line_merge'', ''geo.line_merge''),
     (3, ''split'', ''geo.split''),
     (3, ''line_substring'', ''geo.line_substring''),
     (3, ''line_interpolate_point'', ''geo.line_interpolate_point''),
     (3, ''frechet_distance'', ''geo.frechet_distance''),
     (3, ''bearing'', ''geo.bearing''),
     (3, ''geodesic_area'', ''geo.geodesic_area''),
     (3, ''geometry_diagnostics'', ''geo.geometry_diagnostics'')]"

lemmas catalog_defs = CATALOG_def
  catalog_table_compat_1_def
  catalog_table_compat_2_def
  catalog_table_compat_3_def
  catalog_table_compat_4_def
  catalog_table_compat_5_def
  catalog_table_ext_1_def
  catalog_table_ext_2_def
  catalog_table_ext_3_def
  catalog_geo_compat_1_def
  catalog_geo_compat_2_def
  catalog_geo_compat_3_def
  catalog_geo_compat_4_def
  catalog_geo_compat_5_def
  catalog_geo_predicates_1_def
  catalog_geo_predicates_2_def
  catalog_geo_ext_1_def
  catalog_geo_ext_2_def
  catalog_geo_ext_3_def
  catalog_geo_ext_v1_1_def
  catalog_geo_ext_v1_2_def
  catalog_geo_ext_v1_3_def
  catalog_table_ext_v1_1_def
  catalog_table_ext_v1_2_def
  catalog_table_ext_v1_3_def

definition resolve_alias :: "nat \<Rightarrow> string \<Rightarrow> string option" where
  "resolve_alias = resolve_in ALIASES"

definition find_operation :: "string \<Rightarrow> operation_descriptor option" where
  "find_operation = find_in CATALOG ALIASES"

section \<open>The ids\<close>

text \<open>The names after the prefix, by family: unique ids follow from unique names.\<close>

definition table_names :: "string list" where
  "table_names =
    [''add_row_number'', ''aggregate'', ''bin'', ''concat'', ''concat_columns'', ''conditional'',
     ''cross_join'', ''date_extract'', ''dedup_advanced'', ''distinct'', ''drop_columns'',
     ''fill_na'', ''filter'', ''flatten_json'', ''formula'', ''join'', ''lookup'', ''melt'',
     ''pivot'', ''rename'', ''reorder_columns'', ''replace'', ''sample'', ''sort'',
     ''split_column'', ''statistics'', ''string_extract'', ''string_length'', ''string_pad'',
     ''table_diff'', ''text_normalize'', ''transpose'', ''type_cast'', ''uuid_generator'',
     ''window_function'', ''mask_data'', ''md5_hash'', ''anti_join'', ''asof_join'',
     ''assert_not_null'', ''assert_range'', ''assert_regex'', ''assert_schema'',
     ''assert_unique'', ''coalesce'', ''date_add'', ''date_diff'', ''date_format'', ''except'',
     ''explode'', ''intersect'', ''rolling_window'', ''semi_join'', ''sha256_hash'',
     ''timezone_convert'', ''union_distinct'', ''unnest'', ''expression'',
     ''assert_cardinality'', ''assert_metadata'', ''assert_foreign_key'', ''reconcile'',
     ''limit'', ''select_columns'', ''stable_fingerprint'', ''top_n'', ''align_schema'',
     ''concat_by_name'', ''hmac_sha256'', ''validate_rules'', ''fuzzy_join'']"

definition geo_names :: "string list" where
  "geo_names =
    [''centroid'', ''convex_hull'', ''envelope'', ''sjoin'', ''area'', ''boundary'',
     ''bounds_extractor'', ''buffer'', ''clean_topology'', ''clip'',
     ''count_points_in_polygons'', ''difference'', ''dissolve'', ''distance'', ''explode'',
     ''from_coords'', ''intersection'', ''length'', ''line_builder'', ''nearest'', ''overlay'',
     ''perimeter'', ''point_on_surface'', ''polygon_builder'', ''simplify'',
     ''symmetric_difference'', ''to_wkt'', ''union'', ''vertex_count'', ''voronoi'', ''within'',
     ''make_valid'', ''reproject'', ''predicate_intersects'', ''predicate_disjoint'',
     ''predicate_contains'', ''predicate_within'', ''predicate_equals_topo'',
     ''predicate_covers'', ''predicate_covered_by'', ''predicate_contains_properly'',
     ''predicate_touches'', ''predicate_crosses'', ''predicate_overlaps'', ''affine_transform'',
     ''translate'', ''scale'', ''rotate'', ''concave_hull'', ''hausdorff_distance'',
     ''haversine_distance'', ''geodesic_distance'', ''geodesic_line_length'', ''densify'',
     ''snap_to_grid'', ''delaunay'', ''polygonize'', ''line_merge'', ''split'',
     ''line_substring'', ''line_interpolate_point'', ''frechet_distance'', ''bearing'',
     ''geodesic_area'', ''geometry_diagnostics'', ''from_wkt'', ''geometry_accessors'',
     ''collect'', ''line_locate_point'', ''generate_grid'', ''subdivide'', ''snap'',
     ''coverage_validate'', ''shared_paths'', ''cluster_dbscan'']"

fun family_prefix :: "op_family \<Rightarrow> string" where
  "family_prefix Table = ''table.''"
| "family_prefix Geo = ''geo.''"

lemma table_ids:
  "map op_id (filter (\<lambda>d. family d = Table) CATALOG) = map ((@) (family_prefix Table)) table_names"
  by (simp add: catalog_defs op_def table_names_def)

lemma geo_ids:
  "map op_id (filter (\<lambda>d. family d \<noteq> Table) CATALOG) = map ((@) (family_prefix Geo)) geo_names"
  by (simp add: catalog_defs op_def geo_names_def)

lemma distinct_table_names: "distinct table_names"
  by (simp add: table_names_def)

lemma distinct_geo_names: "distinct geo_names"
  by (simp add: geo_names_def)

lemma catalog_length: "length CATALOG = 146"
  by (simp add: catalog_defs)

lemma set_table_ids: "op_id ` {d \<in> set CATALOG. family d = Table} = (@) (family_prefix Table) ` set table_names"
  using arg_cong [OF table_ids, of set] by simp

lemma set_geo_ids: "op_id ` {d \<in> set CATALOG. family d \<noteq> Table} = (@) (family_prefix Geo) ` set geo_names"
  using arg_cong [OF geo_ids, of set] by simp

lemma id_has_family_prefix:
  assumes "d \<in> set CATALOG"
  shows "starts_with (op_id d) (family_prefix (family d))"
proof (cases "family d")
  case Table
  then have "op_id d \<in> op_id ` {d \<in> set CATALOG. family d = Table}" using assms by simp
  then obtain n where "op_id d = family_prefix Table @ n" by (simp only: set_table_ids) (elim imageE)
  with Table show ?thesis by (simp only: starts_with_append)
next
  case Geo
  then have "op_id d \<in> op_id ` {d \<in> set CATALOG. family d \<noteq> Table}" using assms by simp
  then obtain n where "op_id d = family_prefix Geo @ n" by (simp only: set_geo_ids) (elim imageE)
  with Geo show ?thesis by (simp only: starts_with_append)
qed

lemma distinct_map_partition:
  assumes "distinct (map f (filter P xs))" and "distinct (map f (filter (\<lambda>x. \<not> P x) xs))"
    and "\<And>x y. x \<in> set xs \<Longrightarrow> y \<in> set xs \<Longrightarrow> P x \<Longrightarrow> \<not> P y \<Longrightarrow> f x \<noteq> f y"
  shows "distinct (map f xs)"
  using assms
proof (induction xs)
  case (Cons a xs)
  have IH: "distinct (map f xs)"
    using Cons.prems by (intro Cons.IH) (simp_all split: if_splits)
  have "f a \<noteq> f x" if x: "x \<in> set xs" for x
  proof (cases "P a = P x")
    case True
    then show ?thesis using Cons.prems(1,2) x by (cases "P a") (auto simp: image_iff)
  next
    case False
    then show ?thesis
      using Cons.prems(3) [of a x] Cons.prems(3) [of x a] x by (cases "P a") force+
  qed
  with IH show ?case by auto
qed simp

lemma distinct_ids: "distinct (map op_id CATALOG)"
proof (rule distinct_map_partition [where P = "\<lambda>d. family d = Table"])
  show "distinct (map op_id (filter (\<lambda>d. family d = Table) CATALOG))"
    unfolding table_ids distinct_map using distinct_table_names by (simp add: inj_on_def)
  show "distinct (map op_id (filter (\<lambda>d. family d \<noteq> Table) CATALOG))"
    unfolding geo_ids distinct_map using distinct_geo_names by (simp add: inj_on_def)
next
  fix x y
  assume "x \<in> set CATALOG" "y \<in> set CATALOG" "family x = Table" "family y \<noteq> Table"
  then have "starts_with (op_id x) ''table.''" "starts_with (op_id y) ''geo.''"
    using id_has_family_prefix [of x] id_has_family_prefix [of y]
    by (simp, cases "family y") simp_all
  then show "op_id x \<noteq> op_id y" by (auto simp: starts_with_iff)
qed

section \<open>The aliases\<close>

definition alias_name :: "nat \<times> string \<times> string \<Rightarrow> string" where
  "alias_name a = fst (snd a)"

definition canonical_name :: "nat \<times> string \<times> string \<Rightarrow> string" where
  "canonical_name a = snd (snd a)"

text \<open>The aliases of a family follow the order of the catalogue (\<open>geo.sjoin\<close> apart), so that one pass
  over both lists shows that each of them names an entry.\<close>

lemma subseq_table:
  "subseq (map (\<lambda>a. drop 6 (canonical_name a))
     (filter (\<lambda>a. starts_with (canonical_name a) ''table.'') ALIASES)) table_names"
  by (simp add: ALIASES_def canonical_name_def table_names_def list_emb_code)

lemma subseq_geo:
  "subseq (filter (\<lambda>n. n \<noteq> ''sjoin'') (map (\<lambda>a. drop 4 (canonical_name a))
     (filter (\<lambda>a. \<not> starts_with (canonical_name a) ''table.'') ALIASES))) geo_names"
  by (simp add: ALIASES_def canonical_name_def geo_names_def list_emb_code)

lemma canonical_prefixes:
  "list_all (\<lambda>a. starts_with (canonical_name a) ''table.'' \<or> starts_with (canonical_name a) ''geo.'') ALIASES"
  by (simp add: ALIASES_def canonical_name_def)

lemma subseq_mem: "subseq xs ys \<Longrightarrow> x \<in> set xs \<Longrightarrow> x \<in> set ys"
  by (auto elim: list_emb_set)

lemma canonical_is_an_id:
  assumes "a \<in> set ALIASES"
  shows "canonical_name a \<in> op_id ` set CATALOG"
proof (cases "starts_with (canonical_name a) ''table.''")
  case True
  then obtain n where n: "canonical_name a = ''table.'' @ n" by (auto simp: starts_with_iff)
  then have "n = drop 6 (canonical_name a)" by simp
  then have "n \<in> set table_names"
    using True assms by (intro subseq_mem [OF subseq_table]) auto
  then have "''table.'' @ n \<in> op_id ` {d \<in> set CATALOG. family d = Table}"
    unfolding set_table_ids by auto
  with n show ?thesis by auto
next
  case False
  then have "starts_with (canonical_name a) ''geo.''"
    using canonical_prefixes assms by (auto simp: list_all_iff)
  then obtain n where n: "canonical_name a = ''geo.'' @ n" by (auto simp: starts_with_iff)
  then have "n = drop 4 (canonical_name a)" by simp
  then have "n \<in> set geo_names" if "n \<noteq> ''sjoin''"
    using False assms that by (intro subseq_mem [OF subseq_geo]) auto
  moreover have "''sjoin'' \<in> set geo_names" by (simp add: geo_names_def)
  ultimately have "n \<in> set geo_names" by metis
  then have "''geo.'' @ n \<in> op_id ` {d \<in> set CATALOG. family d \<noteq> Table}"
    unfolding set_geo_ids by auto
  with n show ?thesis by auto
qed

lemma distinct_aliases: "distinct (map alias_name ALIASES)"
  by (simp add: ALIASES_def alias_name_def)

lemma aliases_checked:
  "list_all (\<lambda>(v, a, c). v = 3 \<and> \<not> starts_with a ''table.'' \<and> \<not> starts_with a ''geo.'') ALIASES"
  by (simp add: ALIASES_def)

lemma alias_not_an_id:
  assumes "(v, a, c) \<in> set ALIASES"
  shows "a \<notin> op_id ` set CATALOG"
proof
  assume "a \<in> op_id ` set CATALOG"
  then obtain d where d: "d \<in> set CATALOG" "op_id d = a" by auto
  have "\<not> starts_with a ''table.''" "\<not> starts_with a ''geo.''"
    using aliases_checked assms by (auto simp: list_all_iff)
  with id_has_family_prefix [OF d(1)] d(2) show False by (cases "family d") auto
qed

lemma find_alias:
  assumes "(v, a, c) \<in> set ALIASES" and "P v"
  shows "List.find (\<lambda>(version, alias, _). P version \<and> alias = a) ALIASES = Some (v, a, c)"
proof -
  have "y = x" if "x \<in> set ALIASES" "y \<in> set ALIASES" "alias_name x = alias_name y" for x y
    using distinct_aliases that by (simp add: distinct_map inj_on_def)
  then have unique: "y = (v, a, c)" if "y \<in> set ALIASES" "alias_name y = a" for y
    using assms(1) that by (metis alias_name_def fst_conv snd_conv)
  obtain y where y: "List.find (\<lambda>(version, alias, _). P version \<and> alias = a) ALIASES = Some y"
    using assms by (cases "List.find (\<lambda>(version, alias, _). P version \<and> alias = a) ALIASES")
      (auto simp: find_None_iff)
  then have "y \<in> set ALIASES \<and> alias_name y = a"
    using find_SomeD by (fastforce simp: alias_name_def)
  with unique y show ?thesis by simp
qed

section \<open>Metadata\<close>

text \<open>What the fields of one entry owe to each other: the criteria in the comments of \<open>catalog.rs\<close>.\<close>

definition descriptor_coerente :: "operation_descriptor \<Rightarrow> bool" where
  "descriptor_coerente d \<longleftrightarrow>
     starts_with (op_id d) (family_prefix (family d))
     \<and> (family d = Table \<longleftrightarrow> result_shape d = None)
     \<and> (family d = Table \<longleftrightarrow> crs_requirement d = None)
     \<and> required_capabilities d = []
     \<and> (arity d = BinaryOrdered \<longleftrightarrow> execution_class_of d = BinaryBlocking)
     \<and> (execution_class_of d = Streaming \<longrightarrow> cancellation d \<noteq> BoundaryOnly)
     \<and> (execution_class_of d \<noteq> Streaming \<longrightarrow> cancellation d \<noteq> Cooperative)
     \<and> (geo_fusion d \<noteq> NotFusible \<longrightarrow>
          result_shape d = Some OneToOne \<and> execution_class_of d = Streaming \<and> arity d = Unary)
     \<and> expansion_constraint d \<in> {SumRelative, LeftRelative}
     \<and> (expansion_constraint d = LeftRelative \<longrightarrow> arity d = BinaryOrdered)
     \<and> (result_shape d = Some WholeToMany \<longrightarrow> expansion_factor_exempt d)
     \<and> (expansion_factor_exempt d \<longrightarrow> source_row_provenance d = Unavailable)
     \<and> (arity d = NAry \<longrightarrow> source_row_provenance d = Unavailable \<and> determinism d = InputOrder)
     \<and> (execution_class_of d = BinaryBlocking \<and> expansion_constraint d \<noteq> LeftRelative \<longrightarrow>
          source_row_provenance d = Unavailable)"

lemmas descriptor_eval = op_def descriptor_coerente_def source_row_provenance_def
  preserving_ids_def reshaping_ids_def

lemma catalog_all_coherent: "list_all descriptor_coerente CATALOG"
  by (simp add: catalog_defs descriptor_eval)

lemma canonical_lookup: "d \<in> set CATALOG \<Longrightarrow> find_operation (op_id d) = Some d"
  by (simp add: find_operation_def find_in_canonical distinct_ids)

lemma find_canonical:
  assumes "d \<in> set CATALOG"
  shows "List.find (\<lambda>x. op_id x = op_id d) CATALOG = Some d"
  using assms find_distinct_iff [OF distinct_ids] by blast

lemma find_operation_id_or_alias:
  assumes "find_operation ident = Some d"
  shows "d \<in> set CATALOG \<and> (op_id d = ident \<or> (\<exists>v. (v, ident, op_id d) \<in> set ALIASES))"
proof (cases "List.find (\<lambda>d. op_id d = ident) CATALOG")
  case (Some x)
  with assms have "x = d" by (simp add: find_operation_def find_in_def)
  with find_SomeD [OF Some] show ?thesis by simp
next
  case None
  with assms obtain row where
    a: "List.find (\<lambda>(_, alias, _). alias = ident) ALIASES = Some row"
    and d: "List.find (\<lambda>d. op_id d = canonical_name row) CATALOG = Some d"
    by (auto simp: find_operation_def find_in_def canonical_name_def split: option.splits)
  obtain v a' c where row: "row = (v, a', c)" by (cases row)
  show ?thesis
    using find_SomeD [OF a] find_SomeD [OF d] by (auto simp: row canonical_name_def)
qed

section \<open>Properties\<close>

text \<open>Every entry of the catalogue is found under its own id, so that no two entries share one; every
  alias resolves, under the version of its row, to the canonical id of that row, and \<open>find_operation\<close>
  gives the same entry for the alias and for the id it stands for, no alias being hidden by an entry or
  by another alias. What \<open>find_operation\<close> finds is always an entry whose id is the text asked for, or the
  target of an alias with that text.\<close>

theorem catalog_lookup_exact:
  "(\<forall>d \<in> set CATALOG. find_operation (op_id d) = Some d)
   \<and> (\<forall>(v, a, c) \<in> set ALIASES. resolve_alias v a = Some c
        \<and> find_operation a = find_operation c \<and> map_option op_id (find_operation a) = Some c)
   \<and> (\<forall>ident d. find_operation ident = Some d \<longrightarrow>
        d \<in> set CATALOG \<and> (op_id d = ident \<or> (\<exists>v. (v, ident, op_id d) \<in> set ALIASES)))"
proof (intro conjI ballI allI impI)
  fix row
  assume row: "row \<in> set ALIASES"
  obtain v a c where vac: "row = (v, a, c)" by (cases row)
  with row canonical_is_an_id [OF row] obtain d where d: "d \<in> set CATALOG" "op_id d = c"
    by (auto simp: canonical_name_def)
  have "List.find (\<lambda>d. op_id d = a) CATALOG = None"
    using alias_not_an_id row vac by (fastforce simp: find_None_iff)
  then have "find_operation a = Some d"
    using find_alias [of v a c "\<lambda>_. True"] row vac find_canonical [OF d(1)] d(2)
    by (simp add: find_operation_def find_in_def)
  then show "case row of (v, a, c) \<Rightarrow> resolve_alias v a = Some c
        \<and> find_operation a = find_operation c \<and> map_option op_id (find_operation a) = Some c"
    using canonical_lookup [OF d(1)] find_alias [of v a c "\<lambda>version. version = v"] row vac d(2)
    by (simp add: resolve_alias_def resolve_in_def)
qed (auto simp: canonical_lookup dest: find_operation_id_or_alias)

theorem catalog_lookup_exact_witness:
  "resolve_alias 3 ''geo_buffer'' = Some ''geo.buffer''
   \<and> find_operation ''geo_buffer'' = find_operation ''geo.buffer''"
proof -
  have "(3, ''geo_buffer'', ''geo.buffer'') \<in> set ALIASES" by (simp add: ALIASES_def)
  then show ?thesis using catalog_lookup_exact by fastforce
qed

text \<open>The metadata of all 146 entries are coherent: the prefix of the id is that of the family, only the
  geographic operations declare a result shape and a requirement on the reference system, none needs an
  external capability; two ordered inputs go with the execution class of the binaries, and the
  cancellation and fusion fields with their classes; the expansion base is the sum or, for the binaries
  driven by the left side, the left input. An operation exempt from the expansion factor, one with any
  number of inputs, and a matching of two sides never claim to preserve the row indices of the source.\<close>

theorem catalog_metadata_coherent:
  "length CATALOG = 146 \<and> (\<forall>d \<in> set CATALOG. descriptor_coerente d)"
  using catalog_all_coherent catalog_length by (simp add: list_all_iff)

theorem catalog_metadata_coherent_witness:
  "\<exists>d \<in> set CATALOG. op_id d = ''table.join'' \<and> descriptor_coerente d"
proof -
  have "''table.join'' \<in> op_id ` {d \<in> set CATALOG. family d = Table}"
    unfolding set_table_ids by (simp add: table_names_def image_iff)
  then show ?thesis using catalog_metadata_coherent by auto
qed

end
