(* ===== verification/CostData.thy ===== *)
theory CostData
  imports Budget CatalogData
begin

text \<open>
  The measured cost tables \<open>COSTI\<close> (\<open>crates/plenora-pipeline/src/costi_operazioni.rs\<close>) and \<open>COSTI_GEO\<close>
  (\<open>costi_geo.rs\<close>), and what the lookup of \<open>budget.rs\<close> needs of them: they are strictly sorted by id,
  so that the binary search finds exactly the entry of an id, and together they have one model for
  every operation of the catalogue and no other.
\<close>

section \<open>The tables\<close>

definition costi_tabellari_1 :: "costo_operazione list" where
  "costi_tabellari_1 =
    [\<lparr>voce_op = ''table.add_row_number'', in_memoria = \<lparr>c_a = 207531, r_millesimi =
       24426, c_millesimi = 0, r_stretta_millesimi = 39732, c_larga_millesimi = 297, k_millesimi = 0,
       p_millesimi = 0\<rparr>, dipende_dai_dati = False, profili = [''narrow'', ''wide''], esclusi =
       []\<rparr>,
     \<lparr>voce_op = ''table.aggregate'', in_memoria = \<lparr>c_a = 561152, r_millesimi = 0,
       c_millesimi = 1251, r_stretta_millesimi = 56116, c_larga_millesimi = 1331, k_millesimi = 0,
       p_millesimi = 0\<rparr>, dipende_dai_dati = True, profili = [''distinct'', ''wide''], esclusi
       = []\<rparr>,
     \<lparr>voce_op = ''table.align_schema'', in_memoria = \<lparr>c_a = 138644, r_millesimi =
       41023, c_millesimi = 0, r_stretta_millesimi = 51610, c_larga_millesimi = 585, k_millesimi = 0,
       p_millesimi = 0\<rparr>, dipende_dai_dati = False, profili = [''narrow'', ''wide''], esclusi =
       []\<rparr>,
     \<lparr>voce_op = ''table.anti_join'', in_memoria = \<lparr>c_a = 0, r_millesimi = 22940,
       c_millesimi = 1000, r_stretta_millesimi = 39717, c_larga_millesimi = 504, k_millesimi = 0,
       p_millesimi = 0\<rparr>, dipende_dai_dati = True, profili = [''distinct'', ''narrow'',
       ''wide''], esclusi = []\<rparr>,
     \<lparr>voce_op = ''table.asof_join'', in_memoria = \<lparr>c_a = 56373, r_millesimi = 12971,
       c_millesimi = 1000, r_stretta_millesimi = 41780, c_larga_millesimi = 1252, k_millesimi = 0,
       p_millesimi = 0\<rparr>, dipende_dai_dati = True, profili = [''narrow'', ''wide''], esclusi =
       []\<rparr>,
     \<lparr>voce_op = ''table.assert_cardinality'', in_memoria = \<lparr>c_a = 4096, r_millesimi =
       164, c_millesimi = 0, r_stretta_millesimi = 410, c_larga_millesimi = 5, k_millesimi = 0,
       p_millesimi = 0\<rparr>, dipende_dai_dati = False, profili = [''narrow'', ''wide''], esclusi =
       []\<rparr>,
     \<lparr>voce_op = ''table.assert_foreign_key'', in_memoria = \<lparr>c_a = 311143, r_millesimi
       = 13219, c_millesimi = 268, r_stretta_millesimi = 18637, c_larga_millesimi = 577, k_millesimi
       = 0, p_millesimi = 0\<rparr>, dipende_dai_dati = False, profili = [''distinct'', ''narrow'',
       ''wide''], esclusi = []\<rparr>,
     \<lparr>voce_op = ''table.assert_metadata'', in_memoria = \<lparr>c_a = 8192, r_millesimi = 0,
       c_millesimi = 68, r_stretta_millesimi = 820, c_larga_millesimi = 69, k_millesimi = 0,
       p_millesimi = 0\<rparr>, dipende_dai_dati = False, profili = [''narrow'', ''wide''], esclusi =
       []\<rparr>,
     \<lparr>voce_op = ''table.assert_not_null'', in_memoria = \<lparr>c_a = 24576, r_millesimi =
       0, c_millesimi = 64, r_stretta_millesimi = 2868, c_larga_millesimi = 67, k_millesimi = 0,
       p_millesimi = 0\<rparr>, dipende_dai_dati = False, profili = [''narrow'', ''wide''], esclusi =
       []\<rparr>,
     \<lparr>voce_op = ''table.assert_range'', in_memoria = \<lparr>c_a = 28672, r_millesimi = 661,
       c_millesimi = 7, r_stretta_millesimi = 3687, c_larga_millesimi = 44, k_millesimi = 0,
       p_millesimi = 0\<rparr>, dipende_dai_dati = False, profili = [''narrow'', ''wide''], esclusi =
       []\<rparr>]"

definition costi_tabellari_2 :: "costo_operazione list" where
  "costi_tabellari_2 =
    [\<lparr>voce_op = ''table.assert_regex'', in_memoria = \<lparr>c_a = 438272, r_millesimi =
       410, c_millesimi = 0, r_stretta_millesimi = 44237, c_larga_millesimi = 472, k_millesimi = 0,
       p_millesimi = 0\<rparr>, dipende_dai_dati = False, profili = [''wide''], esclusi = []\<rparr>,
     \<lparr>voce_op = ''table.assert_schema'', in_memoria = \<lparr>c_a = 28672, r_millesimi =
       410, c_millesimi = 0, r_stretta_millesimi = 3277, c_larga_millesimi = 31, k_millesimi = 0,
       p_millesimi = 0\<rparr>, dipende_dai_dati = False, profili = [''narrow'', ''wide''], esclusi =
       []\<rparr>,
     \<lparr>voce_op = ''table.assert_unique'', in_memoria = \<lparr>c_a = 0, r_millesimi = 45409,
       c_millesimi = 946, r_stretta_millesimi = 61264, c_larga_millesimi = 1224, k_millesimi = 0,
       p_millesimi = 0\<rparr>, dipende_dai_dati = False, profili = [''distinct'', ''narrow'',
       ''wide''], esclusi = []\<rparr>,
     \<lparr>voce_op = ''table.bin'', in_memoria = \<lparr>c_a = 232562, r_millesimi = 84879,
       c_millesimi = 0, r_stretta_millesimi = 108135, c_larga_millesimi = 956, k_millesimi = 0,
       p_millesimi = 0\<rparr>, dipende_dai_dati = False, profili = [''narrow'', ''wide''], esclusi =
       []\<rparr>,
     \<lparr>voce_op = ''table.coalesce'', in_memoria = \<lparr>c_a = 134010, r_millesimi = 5032,
       c_millesimi = 0, r_stretta_millesimi = 18432, c_larga_millesimi = 197, k_millesimi = 0,
       p_millesimi = 0\<rparr>, dipende_dai_dati = False, profili = [''wide''], esclusi = []\<rparr>,
     \<lparr>voce_op = ''table.concat'', in_memoria = \<lparr>c_a = 0, r_millesimi = 1514,
       c_millesimi = 1735, r_stretta_millesimi = 22119, c_larga_millesimi = 1773, k_millesimi = 0,
       p_millesimi = 0\<rparr>, dipende_dai_dati = False, profili = [''narrow'', ''wide''], esclusi =
       []\<rparr>,
     \<lparr>voce_op = ''table.concat_by_name'', in_memoria = \<lparr>c_a = 1541, r_millesimi =
       1484, c_millesimi = 1741, r_stretta_millesimi = 24372, c_larga_millesimi = 1779, k_millesimi =
       0, p_millesimi = 0\<rparr>, dipende_dai_dati = False, profili = [''narrow'', ''wide''],
       esclusi = []\<rparr>,
     \<lparr>voce_op = ''table.concat_columns'', in_memoria = \<lparr>c_a = 271831, r_millesimi =
       0, c_millesimi = 571, r_stretta_millesimi = 80692, c_larga_millesimi = 860, k_millesimi = 0,
       p_millesimi = 0\<rparr>, dipende_dai_dati = False, profili = [''wide''], esclusi = []\<rparr>,
     \<lparr>voce_op = ''table.conditional'', in_memoria = \<lparr>c_a = 240302, r_millesimi =
       48470, c_millesimi = 0, r_stretta_millesimi = 68813, c_larga_millesimi = 773, k_millesimi = 0,
       p_millesimi = 0\<rparr>, dipende_dai_dati = False, profili = [''narrow'', ''wide''], esclusi =
       []\<rparr>,
     \<lparr>voce_op = ''table.cross_join'', in_memoria = \<lparr>c_a = 253952, r_millesimi = 0,
       c_millesimi = 0, r_stretta_millesimi = 0, c_larga_millesimi = 0, k_millesimi = 0, p_millesimi
       = 159289\<rparr>, dipende_dai_dati = True, profili = [''narrow'', ''wide''], esclusi =
       []\<rparr>]"

definition costi_tabellari_3 :: "costo_operazione list" where
  "costi_tabellari_3 =
    [\<lparr>voce_op = ''table.date_add'', in_memoria = \<lparr>c_a = 558997, r_millesimi = 0,
       c_millesimi = 631, r_stretta_millesimi = 115098, c_larga_millesimi = 1227, k_millesimi = 0,
       p_millesimi = 0\<rparr>, dipende_dai_dati = False, profili = [''wide''], esclusi = []\<rparr>,
     \<lparr>voce_op = ''table.date_diff'', in_memoria = \<lparr>c_a = 96753, r_millesimi = 0,
       c_millesimi = 185, r_stretta_millesimi = 27034, c_larga_millesimi = 289, k_millesimi = 0,
       p_millesimi = 0\<rparr>, dipende_dai_dati = False, profili = [''wide''], esclusi = []\<rparr>,
     \<lparr>voce_op = ''table.date_extract'', in_memoria = \<lparr>c_a = 208411, r_millesimi = 0,
       c_millesimi = 407, r_stretta_millesimi = 58983, c_larga_millesimi = 629, k_millesimi = 0,
       p_millesimi = 0\<rparr>, dipende_dai_dati = False, profili = [''wide''], esclusi = []\<rparr>,
     \<lparr>voce_op = ''table.date_format'', in_memoria = \<lparr>c_a = 578877, r_millesimi = 0,
       c_millesimi = 601, r_stretta_millesimi = 114279, c_larga_millesimi = 1218, k_millesimi = 0,
       p_millesimi = 0\<rparr>, dipende_dai_dati = False, profili = [''wide''], esclusi = []\<rparr>,
     \<lparr>voce_op = ''table.dedup_advanced'', in_memoria = \<lparr>c_a = 50967, r_millesimi =
       58612, c_millesimi = 1000, r_stretta_millesimi = 77824, c_larga_millesimi = 1424, k_millesimi
       = 0, p_millesimi = 0\<rparr>, dipende_dai_dati = True, profili = [''distinct'', ''narrow'',
       ''wide''], esclusi = []\<rparr>,
     \<lparr>voce_op = ''table.distinct'', in_memoria = \<lparr>c_a = 61647, r_millesimi = 58553,
       c_millesimi = 1000, r_stretta_millesimi = 90932, c_larga_millesimi = 1427, k_millesimi = 0,
       p_millesimi = 0\<rparr>, dipende_dai_dati = False, profili = [''distinct'', ''narrow'',
       ''wide''], esclusi = []\<rparr>,
     \<lparr>voce_op = ''table.drop_columns'', in_memoria = \<lparr>c_a = 57344, r_millesimi = 0,
       c_millesimi = 68, r_stretta_millesimi = 5735, c_larga_millesimi = 75, k_millesimi = 0,
       p_millesimi = 0\<rparr>, dipende_dai_dati = False, profili = [''narrow'', ''wide''], esclusi =
       []\<rparr>,
     \<lparr>voce_op = ''table.except'', in_memoria = \<lparr>c_a = 905216, r_millesimi = 22832,
       c_millesimi = 1561, r_stretta_millesimi = 45261, c_larga_millesimi = 1602, k_millesimi = 0,
       p_millesimi = 0\<rparr>, dipende_dai_dati = False, profili = [''distinct'', ''narrow'',
       ''wide''], esclusi = []\<rparr>,
     \<lparr>voce_op = ''table.explode'', in_memoria = \<lparr>c_a = 484239, r_millesimi = 84287,
       c_millesimi = 0, r_stretta_millesimi = 132711, c_larga_millesimi = 2138, k_millesimi = 0,
       p_millesimi = 0\<rparr>, dipende_dai_dati = True, profili = [''wide''], esclusi = []\<rparr>,
     \<lparr>voce_op = ''table.expression'', in_memoria = \<lparr>c_a = 197974, r_millesimi =
       73592, c_millesimi = 0, r_stretta_millesimi = 93389, c_larga_millesimi = 917, k_millesimi = 0,
       p_millesimi = 0\<rparr>, dipende_dai_dati = False, profili = [''narrow'', ''wide''], esclusi =
       []\<rparr>]"

definition costi_tabellari_4 :: "costo_operazione list" where
  "costi_tabellari_4 =
    [\<lparr>voce_op = ''table.fill_na'', in_memoria = \<lparr>c_a = 111916, r_millesimi = 5603,
       c_millesimi = 0, r_stretta_millesimi = 16794, c_larga_millesimi = 179, k_millesimi = 0,
       p_millesimi = 0\<rparr>, dipende_dai_dati = False, profili = [''wide''], esclusi = []\<rparr>,
     \<lparr>voce_op = ''table.filter'', in_memoria = \<lparr>c_a = 36864, r_millesimi = 0,
       c_millesimi = 1000, r_stretta_millesimi = 29901, c_larga_millesimi = 738, k_millesimi = 0,
       p_millesimi = 0\<rparr>, dipende_dai_dati = False, profili = [''narrow'', ''wide''], esclusi =
       []\<rparr>,
     \<lparr>voce_op = ''table.flatten_json'', in_memoria = \<lparr>c_a = 216923, r_millesimi = 0,
       c_millesimi = 603, r_stretta_millesimi = 78234, c_larga_millesimi = 834, k_millesimi = 0,
       p_millesimi = 0\<rparr>, dipende_dai_dati = True, profili = [''wide''], esclusi = []\<rparr>,
     \<lparr>voce_op = ''table.formula'', in_memoria = \<lparr>c_a = 0, r_millesimi = 23880,
       c_millesimi = 0, r_stretta_millesimi = 23880, c_larga_millesimi = 249, k_millesimi = 0,
       p_millesimi = 0\<rparr>, dipende_dai_dati = False, profili = [''narrow'', ''wide''], esclusi =
       []\<rparr>,
     \<lparr>voce_op = ''table.fuzzy_join'', in_memoria = \<lparr>c_a = 421888, r_millesimi = 0,
       c_millesimi = 0, r_stretta_millesimi = 0, c_larga_millesimi = 0, k_millesimi = 0, p_millesimi
       = 286720\<rparr>, dipende_dai_dati = True, profili = [''distinct'', ''wide''], esclusi =
       []\<rparr>,
     \<lparr>voce_op = ''table.hmac_sha256'', in_memoria = \<lparr>c_a = 818290, r_millesimi =
       72591, c_millesimi = 0, r_stretta_millesimi = 154420, c_larga_millesimi = 1646, k_millesimi =
       0, p_millesimi = 0\<rparr>, dipende_dai_dati = False, profili = [''wide''], esclusi =
       []\<rparr>,
     \<lparr>voce_op = ''table.intersect'', in_memoria = \<lparr>c_a = 668811, r_millesimi = 61354,
       c_millesimi = 1000, r_stretta_millesimi = 54477, c_larga_millesimi = 968, k_millesimi = 0,
       p_millesimi = 0\<rparr>, dipende_dai_dati = False, profili = [''distinct'', ''narrow'',
       ''wide''], esclusi = []\<rparr>,
     \<lparr>voce_op = ''table.join'', in_memoria = \<lparr>c_a = 0, r_millesimi = 82115,
       c_millesimi = 1000, r_stretta_millesimi = 98892, c_larga_millesimi = 1028, k_millesimi = 0,
       p_millesimi = 0\<rparr>, dipende_dai_dati = True, profili = [''distinct'', ''narrow'',
       ''wide''], esclusi = []\<rparr>,
     \<lparr>voce_op = ''table.limit'', in_memoria = \<lparr>c_a = 8192, r_millesimi = 0,
       c_millesimi = 75, r_stretta_millesimi = 1639, c_larga_millesimi = 76, k_millesimi = 0,
       p_millesimi = 0\<rparr>, dipende_dai_dati = False, profili = [''narrow'', ''wide''], esclusi =
       []\<rparr>,
     \<lparr>voce_op = ''table.lookup'', in_memoria = \<lparr>c_a = 200704, r_millesimi = 13435,
       c_millesimi = 0, r_stretta_millesimi = 20071, c_larga_millesimi = 214, k_millesimi = 0,
       p_millesimi = 0\<rparr>, dipende_dai_dati = False, profili = [''wide''], esclusi = []\<rparr>]"

definition costi_tabellari_5 :: "costo_operazione list" where
  "costi_tabellari_5 =
    [\<lparr>voce_op = ''table.mask_data'', in_memoria = \<lparr>c_a = 73333, r_millesimi = 5577,
       c_millesimi = 72, r_stretta_millesimi = 19661, c_larga_millesimi = 210, k_millesimi = 0,
       p_millesimi = 0\<rparr>, dipende_dai_dati = False, profili = [''wide''], esclusi = []\<rparr>,
     \<lparr>voce_op = ''table.md5_hash'', in_memoria = \<lparr>c_a = 255318, r_millesimi = 45739,
       c_millesimi = 0, r_stretta_millesimi = 71271, c_larga_millesimi = 760, k_millesimi = 0,
       p_millesimi = 0\<rparr>, dipende_dai_dati = False, profili = [''wide''], esclusi = []\<rparr>,
     \<lparr>voce_op = ''table.melt'', in_memoria = \<lparr>c_a = 215144, r_millesimi = 40745,
       c_millesimi = 0, r_stretta_millesimi = 61031, c_larga_millesimi = 664, k_millesimi = 0,
       p_millesimi = 0\<rparr>, dipende_dai_dati = True, profili = [''narrow'', ''wide''], esclusi =
       []\<rparr>,
     \<lparr>voce_op = ''table.pivot'', in_memoria = \<lparr>c_a = 364607, r_millesimi = 22868,
       c_millesimi = 1000, r_stretta_millesimi = 0, c_larga_millesimi = 0, k_millesimi = 7649,
       p_millesimi = 0\<rparr>, dipende_dai_dati = True, profili = [''distinct'', ''wide''], esclusi
       = []\<rparr>,
     \<lparr>voce_op = ''table.reconcile'', in_memoria = \<lparr>c_a = 243077, r_millesimi = 22453,
       c_millesimi = 218, r_stretta_millesimi = 30106, c_larga_millesimi = 590, k_millesimi = 0,
       p_millesimi = 0\<rparr>, dipende_dai_dati = False, profili = [''distinct'', ''narrow'',
       ''wide''], esclusi = []\<rparr>,
     \<lparr>voce_op = ''table.rename'', in_memoria = \<lparr>c_a = 65536, r_millesimi = 820,
       c_millesimi = 0, r_stretta_millesimi = 7373, c_larga_millesimi = 70, k_millesimi = 0,
       p_millesimi = 0\<rparr>, dipende_dai_dati = False, profili = [''narrow'', ''wide''], esclusi =
       []\<rparr>,
     \<lparr>voce_op = ''table.reorder_columns'', in_memoria = \<lparr>c_a = 57344, r_millesimi =
       0, c_millesimi = 0, r_stretta_millesimi = 5735, c_larga_millesimi = 62, k_millesimi = 0,
       p_millesimi = 0\<rparr>, dipende_dai_dati = False, profili = [''wide''], esclusi = []\<rparr>,
     \<lparr>voce_op = ''table.replace'', in_memoria = \<lparr>c_a = 97643, r_millesimi = 5801,
       c_millesimi = 0, r_stretta_millesimi = 15565, c_larga_millesimi = 166, k_millesimi = 0,
       p_millesimi = 0\<rparr>, dipende_dai_dati = False, profili = [''wide''], esclusi = []\<rparr>,
     \<lparr>voce_op = ''table.rolling_window'', in_memoria = \<lparr>c_a = 0, r_millesimi = 20942,
       c_millesimi = 2133, r_stretta_millesimi = 71271, c_larga_millesimi = 2286, k_millesimi = 0,
       p_millesimi = 0\<rparr>, dipende_dai_dati = True, profili = [''distinct'', ''narrow'',
       ''wide''], esclusi = []\<rparr>,
     \<lparr>voce_op = ''table.sample'', in_memoria = \<lparr>c_a = 155648, r_millesimi = 8070,
       c_millesimi = 0, r_stretta_millesimi = 15565, c_larga_millesimi = 249, k_millesimi = 0,
       p_millesimi = 0\<rparr>, dipende_dai_dati = False, profili = [''narrow'', ''wide''], esclusi =
       []\<rparr>]"

definition costi_tabellari_6 :: "costo_operazione list" where
  "costi_tabellari_6 =
    [\<lparr>voce_op = ''table.select_columns'', in_memoria = \<lparr>c_a = 57344, r_millesimi = 0,
       c_millesimi = 64, r_stretta_millesimi = 6144, c_larga_millesimi = 71, k_millesimi = 0,
       p_millesimi = 0\<rparr>, dipende_dai_dati = False, profili = [''narrow'', ''wide''], esclusi =
       []\<rparr>,
     \<lparr>voce_op = ''table.semi_join'', in_memoria = \<lparr>c_a = 0, r_millesimi = 24316,
       c_millesimi = 1000, r_stretta_millesimi = 44032, c_larga_millesimi = 973, k_millesimi = 0,
       p_millesimi = 0\<rparr>, dipende_dai_dati = True, profili = [''distinct'', ''narrow'',
       ''wide''], esclusi = []\<rparr>,
     \<lparr>voce_op = ''table.sha256_hash'', in_memoria = \<lparr>c_a = 808278, r_millesimi =
       72773, c_millesimi = 0, r_stretta_millesimi = 153600, c_larga_millesimi = 1637, k_millesimi =
       0, p_millesimi = 0\<rparr>, dipende_dai_dati = False, profili = [''wide''], esclusi =
       []\<rparr>,
     \<lparr>voce_op = ''table.sort'', in_memoria = \<lparr>c_a = 0, r_millesimi = 18596,
       c_millesimi = 1000, r_stretta_millesimi = 43008, c_larga_millesimi = 967, k_millesimi = 0,
       p_millesimi = 0\<rparr>, dipende_dai_dati = False, profili = [''distinct'', ''narrow'',
       ''wide''], esclusi = []\<rparr>,
     \<lparr>voce_op = ''table.split_column'', in_memoria = \<lparr>c_a = 176813, r_millesimi = 0,
       c_millesimi = 266, r_stretta_millesimi = 42599, c_larga_millesimi = 454, k_millesimi = 0,
       p_millesimi = 0\<rparr>, dipende_dai_dati = False, profili = [''wide''], esclusi = []\<rparr>,
     \<lparr>voce_op = ''table.stable_fingerprint'', in_memoria = \<lparr>c_a = 821476, r_millesimi
       = 72682, c_millesimi = 0, r_stretta_millesimi = 154829, c_larga_millesimi = 1650, k_millesimi
       = 0, p_millesimi = 0\<rparr>, dipende_dai_dati = False, profili = [''wide''], esclusi =
       []\<rparr>,
     \<lparr>voce_op = ''table.statistics'', in_memoria = \<lparr>c_a = 0, r_millesimi = 0,
       c_millesimi = 1335, r_stretta_millesimi = 54477, c_larga_millesimi = 1335, k_millesimi = 0,
       p_millesimi = 0\<rparr>, dipende_dai_dati = False, profili = [''distinct'', ''wide''], esclusi
       = []\<rparr>,
     \<lparr>voce_op = ''table.string_extract'', in_memoria = \<lparr>c_a = 642324, r_millesimi =
       4562, c_millesimi = 5, r_stretta_millesimi = 69223, c_larga_millesimi = 738, k_millesimi = 0,
       p_millesimi = 0\<rparr>, dipende_dai_dati = False, profili = [''wide''], esclusi = []\<rparr>,
     \<lparr>voce_op = ''table.string_length'', in_memoria = \<lparr>c_a = 107223, r_millesimi = 0,
       c_millesimi = 200, r_stretta_millesimi = 29492, c_larga_millesimi = 315, k_millesimi = 0,
       p_millesimi = 0\<rparr>, dipende_dai_dati = False, profili = [''wide''], esclusi = []\<rparr>,
     \<lparr>voce_op = ''table.string_pad'', in_memoria = \<lparr>c_a = 219433, r_millesimi = 0,
       c_millesimi = 434, r_stretta_millesimi = 62669, c_larga_millesimi = 668, k_millesimi = 0,
       p_millesimi = 0\<rparr>, dipende_dai_dati = False, profili = [''wide''], esclusi = []\<rparr>]"

definition costi_tabellari_7 :: "costo_operazione list" where
  "costi_tabellari_7 =
    [\<lparr>voce_op = ''table.table_diff'', in_memoria = \<lparr>c_a = 461841, r_millesimi =
       49788, c_millesimi = 383, r_stretta_millesimi = 60826, c_larga_millesimi = 867, k_millesimi =
       0, p_millesimi = 0\<rparr>, dipende_dai_dati = False, profili = [''distinct'', ''narrow'',
       ''wide''], esclusi = []\<rparr>,
     \<lparr>voce_op = ''table.text_normalize'', in_memoria = \<lparr>c_a = 41758, r_millesimi = 0,
       c_millesimi = 419, r_stretta_millesimi = 43418, c_larga_millesimi = 463, k_millesimi = 0,
       p_millesimi = 0\<rparr>, dipende_dai_dati = False, profili = [''wide''], esclusi = []\<rparr>,
     \<lparr>voce_op = ''table.timezone_convert'', in_memoria = \<lparr>c_a = 583358, r_millesimi =
       0, c_millesimi = 640, r_stretta_millesimi = 118375, c_larga_millesimi = 1262, k_millesimi = 0,
       p_millesimi = 0\<rparr>, dipende_dai_dati = False, profili = [''wide''], esclusi = []\<rparr>,
     \<lparr>voce_op = ''table.top_n'', in_memoria = \<lparr>c_a = 0, r_millesimi = 0, c_millesimi
       = 1000, r_stretta_millesimi = 23757, c_larga_millesimi = 332, k_millesimi = 0, p_millesimi =
       0\<rparr>, dipende_dai_dati = False, profili = [''narrow'', ''wide''], esclusi = []\<rparr>,
     \<lparr>voce_op = ''table.transpose'', in_memoria = \<lparr>c_a = 161947, r_millesimi =
       1626737, c_millesimi = 1669, r_stretta_millesimi = 7372800, c_larga_millesimi = 36950,
       k_millesimi = 0, p_millesimi = 0\<rparr>, dipende_dai_dati = True, profili = [''wide''],
       esclusi = []\<rparr>,
     \<lparr>voce_op = ''table.type_cast'', in_memoria = \<lparr>c_a = 97283, r_millesimi = 11981,
       c_millesimi = 0, r_stretta_millesimi = 18432, c_larga_millesimi = 232, k_millesimi = 0,
       p_millesimi = 0\<rparr>, dipende_dai_dati = False, profili = [''narrow'', ''wide''], esclusi =
       []\<rparr>,
     \<lparr>voce_op = ''table.union_distinct'', in_memoria = \<lparr>c_a = 118315, r_millesimi =
       49876, c_millesimi = 2731, r_stretta_millesimi = 88064, c_larga_millesimi = 3100, k_millesimi
       = 0, p_millesimi = 0\<rparr>, dipende_dai_dati = False, profili = [''distinct'', ''narrow'',
       ''wide''], esclusi = []\<rparr>,
     \<lparr>voce_op = ''table.unnest'', in_memoria = \<lparr>c_a = 51883, r_millesimi = 16931,
       c_millesimi = 0, r_stretta_millesimi = 22119, c_larga_millesimi = 399, k_millesimi = 0,
       p_millesimi = 0\<rparr>, dipende_dai_dati = True, profili = [''wide''], esclusi = []\<rparr>,
     \<lparr>voce_op = ''table.uuid_generator'', in_memoria = \<lparr>c_a = 291396, r_millesimi =
       98247, c_millesimi = 0, r_stretta_millesimi = 111412, c_larga_millesimi = 1358, k_millesimi =
       0, p_millesimi = 0\<rparr>, dipende_dai_dati = False, profili = [''narrow'', ''wide''],
       esclusi = []\<rparr>,
     \<lparr>voce_op = ''table.validate_rules'', in_memoria = \<lparr>c_a = 213779, r_millesimi =
       8933, c_millesimi = 0, r_stretta_millesimi = 26624, c_larga_millesimi = 323, k_millesimi = 0,
       p_millesimi = 0\<rparr>, dipende_dai_dati = False, profili = [''narrow'', ''wide''], esclusi =
       []\<rparr>]"

definition costi_tabellari_8 :: "costo_operazione list" where
  "costi_tabellari_8 =
    [\<lparr>voce_op = ''table.window_function'', in_memoria = \<lparr>c_a = 0, r_millesimi =
       13932, c_millesimi = 2176, r_stretta_millesimi = 63079, c_larga_millesimi = 2278, k_millesimi
       = 0, p_millesimi = 0\<rparr>, dipende_dai_dati = True, profili = [''distinct'', ''narrow'',
       ''wide''], esclusi = []\<rparr>]"

definition COSTI :: "costo_operazione list" where
  "COSTI = costi_tabellari_1 @ costi_tabellari_2 @ costi_tabellari_3 @ costi_tabellari_4 @ costi_tabellari_5 @ costi_tabellari_6 @ costi_tabellari_7 @ costi_tabellari_8"

lemmas costi_tabellari_defs = COSTI_def
  costi_tabellari_1_def costi_tabellari_2_def costi_tabellari_3_def costi_tabellari_4_def costi_tabellari_5_def costi_tabellari_6_def costi_tabellari_7_def costi_tabellari_8_def

definition costi_geo_1 :: "costo_operazione list" where
  "costi_geo_1 =
    [\<lparr>voce_op = ''geo.affine_transform'', in_memoria = \<lparr>c_a = 925696, r_millesimi =
       0, c_millesimi = 2569, r_stretta_millesimi = 925696, c_larga_millesimi = 1907, k_millesimi =
       0, p_millesimi = 0\<rparr>, dipende_dai_dati = False, profili = [''default''], esclusi =
       []\<rparr>,
     \<lparr>voce_op = ''geo.area'', in_memoria = \<lparr>c_a = 643072, r_millesimi = 876438,
       c_millesimi = 214, r_stretta_millesimi = 643072, c_larga_millesimi = 309, k_millesimi = 0,
       p_millesimi = 0\<rparr>, dipende_dai_dati = False, profili = [''default''], esclusi =
       []\<rparr>,
     \<lparr>voce_op = ''geo.bearing'', in_memoria = \<lparr>c_a = 507904, r_millesimi = 0,
       c_millesimi = 495, r_stretta_millesimi = 507904, c_larga_millesimi = 8756, k_millesimi = 0,
       p_millesimi = 0\<rparr>, dipende_dai_dati = False, profili = [''default''], esclusi =
       []\<rparr>,
     \<lparr>voce_op = ''geo.boundary'', in_memoria = \<lparr>c_a = 962560, r_millesimi = 0,
       c_millesimi = 2426, r_stretta_millesimi = 962560, c_larga_millesimi = 1706, k_millesimi = 0,
       p_millesimi = 0\<rparr>, dipende_dai_dati = False, profili = [''default''], esclusi =
       []\<rparr>,
     \<lparr>voce_op = ''geo.bounds_extractor'', in_memoria = \<lparr>c_a = 651264, r_millesimi =
       49564, c_millesimi = 831, r_stretta_millesimi = 651264, c_larga_millesimi = 366, k_millesimi =
       0, p_millesimi = 0\<rparr>, dipende_dai_dati = False, profili = [''default''], esclusi =
       []\<rparr>,
     \<lparr>voce_op = ''geo.buffer'', in_memoria = \<lparr>c_a = 10407936, r_millesimi = 711759,
       c_millesimi = 24125, r_stretta_millesimi = 10407936, c_larga_millesimi = 16085, k_millesimi =
       0, p_millesimi = 0\<rparr>, dipende_dai_dati = True, profili = [''adversarial_zigzag'',
       ''default''], esclusi = [''adversarial_zigzag'']\<rparr>,
     \<lparr>voce_op = ''geo.centroid'', in_memoria = \<lparr>c_a = 720896, r_millesimi = 28803,
       c_millesimi = 912, r_stretta_millesimi = 720896, c_larga_millesimi = 239, k_millesimi = 0,
       p_millesimi = 0\<rparr>, dipende_dai_dati = False, profili = [''default''], esclusi =
       []\<rparr>,
     \<lparr>voce_op = ''geo.clean_topology'', in_memoria = \<lparr>c_a = 1748992, r_millesimi =
       782257, c_millesimi = 4916, r_stretta_millesimi = 3047424, c_larga_millesimi = 4411,
       k_millesimi = 0, p_millesimi = 0\<rparr>, dipende_dai_dati = True, profili =
       [''adversarial_overlaps'', ''default''], esclusi = []\<rparr>,
     \<lparr>voce_op = ''geo.clip'', in_memoria = \<lparr>c_a = 1658880, r_millesimi = 143743,
       c_millesimi = 3389, r_stretta_millesimi = 1657223, c_larga_millesimi = 3056, k_millesimi = 0,
       p_millesimi = 0\<rparr>, dipende_dai_dati = True, profili = [''default''], esclusi =
       []\<rparr>,
     \<lparr>voce_op = ''geo.cluster_dbscan'', in_memoria = \<lparr>c_a = 582177, r_millesimi = 0,
       c_millesimi = 10214, r_stretta_millesimi = 790528, c_larga_millesimi = 25318, k_millesimi = 0,
       p_millesimi = 0\<rparr>, dipende_dai_dati = False, profili = [''adversarial_dense'',
       ''default''], esclusi = []\<rparr>]"

definition costi_geo_2 :: "costo_operazione list" where
  "costi_geo_2 =
    [\<lparr>voce_op = ''geo.collect'', in_memoria = \<lparr>c_a = 471040, r_millesimi = 0,
       c_millesimi = 5288, r_stretta_millesimi = 471040, c_larga_millesimi = 14273, k_millesimi = 0,
       p_millesimi = 0\<rparr>, dipende_dai_dati = False, profili = [''default''], esclusi =
       []\<rparr>,
     \<lparr>voce_op = ''geo.concave_hull'', in_memoria = \<lparr>c_a = 1249280, r_millesimi = 0,
       c_millesimi = 4813, r_stretta_millesimi = 1249280, c_larga_millesimi = 1534, k_millesimi = 0,
       p_millesimi = 0\<rparr>, dipende_dai_dati = False, profili = [''default''], esclusi =
       []\<rparr>,
     \<lparr>voce_op = ''geo.convex_hull'', in_memoria = \<lparr>c_a = 1093632, r_millesimi = 443,
       c_millesimi = 2075, r_stretta_millesimi = 1093632, c_larga_millesimi = 501, k_millesimi = 0,
       p_millesimi = 0\<rparr>, dipende_dai_dati = False, profili = [''default''], esclusi =
       []\<rparr>,
     \<lparr>voce_op = ''geo.count_points_in_polygons'', in_memoria = \<lparr>c_a = 1103181,
       r_millesimi = 191593, c_millesimi = 1072, r_stretta_millesimi = 817152, c_larga_millesimi =
       1103, k_millesimi = 0, p_millesimi = 0\<rparr>, dipende_dai_dati = True, profili =
       [''adversarial_all_candidates'', ''default''], esclusi =
       [''adversarial_all_candidates'']\<rparr>,
     \<lparr>voce_op = ''geo.coverage_validate'', in_memoria = \<lparr>c_a = 1425408, r_millesimi =
       338909, c_millesimi = 2409, r_stretta_millesimi = 1425408, c_larga_millesimi = 2303,
       k_millesimi = 0, p_millesimi = 0\<rparr>, dipende_dai_dati = True, profili =
       [''adversarial_overlaps'', ''default''], esclusi = [''adversarial_overlaps'']\<rparr>,
     \<lparr>voce_op = ''geo.delaunay'', in_memoria = \<lparr>c_a = 0, r_millesimi = 0, c_millesimi
       = 31915, r_stretta_millesimi = 2301952, c_larga_millesimi = 31915, k_millesimi = 0,
       p_millesimi = 0\<rparr>, dipende_dai_dati = True, profili = [''default''], esclusi =
       []\<rparr>,
     \<lparr>voce_op = ''geo.densify'', in_memoria = \<lparr>c_a = 10137113, r_millesimi =
       13873236, c_millesimi = 8196, r_stretta_millesimi = 24870912, c_larga_millesimi = 9128,
       k_millesimi = 0, p_millesimi = 0\<rparr>, dipende_dai_dati = True, profili = [''default''],
       esclusi = []\<rparr>,
     \<lparr>voce_op = ''geo.difference'', in_memoria = \<lparr>c_a = 2187264, r_millesimi = 0,
       c_millesimi = 4103, r_stretta_millesimi = 1093632, c_larga_millesimi = 1880, k_millesimi = 0,
       p_millesimi = 0\<rparr>, dipende_dai_dati = True, profili = [''default''], esclusi =
       []\<rparr>,
     \<lparr>voce_op = ''geo.dissolve'', in_memoria = \<lparr>c_a = 0, r_millesimi = 16555571,
       c_millesimi = 22810, r_stretta_millesimi = 18950554, c_larga_millesimi = 14070, k_millesimi =
       0, p_millesimi = 0\<rparr>, dipende_dai_dati = True, profili = [''adversarial_overlaps'',
       ''default''], esclusi = []\<rparr>,
     \<lparr>voce_op = ''geo.distance'', in_memoria = \<lparr>c_a = 618496, r_millesimi = 10318,
       c_millesimi = 239, r_stretta_millesimi = 618496, c_larga_millesimi = 202, k_millesimi = 0,
       p_millesimi = 0\<rparr>, dipende_dai_dati = False, profili = [''default''], esclusi =
       []\<rparr>]"

definition costi_geo_3 :: "costo_operazione list" where
  "costi_geo_3 =
    [\<lparr>voce_op = ''geo.envelope'', in_memoria = \<lparr>c_a = 958464, r_millesimi = 1152787,
       c_millesimi = 119, r_stretta_millesimi = 958464, c_larga_millesimi = 251, k_millesimi = 0,
       p_millesimi = 0\<rparr>, dipende_dai_dati = False, profili = [''default''], esclusi =
       []\<rparr>,
     \<lparr>voce_op = ''geo.explode'', in_memoria = \<lparr>c_a = 817371, r_millesimi = 108430,
       c_millesimi = 2306, r_stretta_millesimi = 1163264, c_larga_millesimi = 1987, k_millesimi = 0,
       p_millesimi = 0\<rparr>, dipende_dai_dati = True, profili = [''default''], esclusi =
       []\<rparr>,
     \<lparr>voce_op = ''geo.frechet_distance'', in_memoria = \<lparr>c_a = 274432, r_millesimi =
       174795, c_millesimi = 113, r_stretta_millesimi = 471040, c_larga_millesimi = 127, k_millesimi
       = 0, p_millesimi = 0\<rparr>, dipende_dai_dati = False, profili = [''default''], esclusi =
       []\<rparr>,
     \<lparr>voce_op = ''geo.from_coords'', in_memoria = \<lparr>c_a = 462848, r_millesimi = 0,
       c_millesimi = 4796, r_stretta_millesimi = 462848, c_larga_millesimi = 19286, k_millesimi = 0,
       p_millesimi = 0\<rparr>, dipende_dai_dati = False, profili = [''default''], esclusi =
       []\<rparr>,
     \<lparr>voce_op = ''geo.from_wkt'', in_memoria = \<lparr>c_a = 1097728, r_millesimi = 62444,
       c_millesimi = 1685, r_stretta_millesimi = 1097728, c_larga_millesimi = 881, k_millesimi = 0,
       p_millesimi = 0\<rparr>, dipende_dai_dati = False, profili = [''default''], esclusi =
       []\<rparr>,
     \<lparr>voce_op = ''geo.generate_grid'', in_memoria = \<lparr>c_a = 23883, r_millesimi =
       452678, c_millesimi = 0, r_stretta_millesimi = 0, c_larga_millesimi = 0, k_millesimi = 0,
       p_millesimi = 0\<rparr>, dipende_dai_dati = False, profili = [''default''], esclusi =
       []\<rparr>,
     \<lparr>voce_op = ''geo.geodesic_area'', in_memoria = \<lparr>c_a = 811008, r_millesimi =
       18989, c_millesimi = 822, r_stretta_millesimi = 811008, c_larga_millesimi = 343, k_millesimi =
       0, p_millesimi = 0\<rparr>, dipende_dai_dati = False, profili = [''default''], esclusi =
       []\<rparr>,
     \<lparr>voce_op = ''geo.geodesic_distance'', in_memoria = \<lparr>c_a = 450560, r_millesimi =
       0, c_millesimi = 467, r_stretta_millesimi = 450560, c_larga_millesimi = 7768, k_millesimi = 0,
       p_millesimi = 0\<rparr>, dipende_dai_dati = False, profili = [''default''], esclusi =
       []\<rparr>,
     \<lparr>voce_op = ''geo.geodesic_line_length'', in_memoria = \<lparr>c_a = 569344, r_millesimi
       = 104196, c_millesimi = 157, r_stretta_millesimi = 569344, c_larga_millesimi = 199,
       k_millesimi = 0, p_millesimi = 0\<rparr>, dipende_dai_dati = False, profili = [''default''],
       esclusi = []\<rparr>,
     \<lparr>voce_op = ''geo.geometry_accessors'', in_memoria = \<lparr>c_a = 745472, r_millesimi =
       51316, c_millesimi = 807, r_stretta_millesimi = 745472, c_larga_millesimi = 386, k_millesimi =
       0, p_millesimi = 0\<rparr>, dipende_dai_dati = False, profili = [''default''], esclusi =
       []\<rparr>]"

definition costi_geo_4 :: "costo_operazione list" where
  "costi_geo_4 =
    [\<lparr>voce_op = ''geo.geometry_diagnostics'', in_memoria = \<lparr>c_a = 737280, r_millesimi
       = 80672, c_millesimi = 477, r_stretta_millesimi = 737280, c_larga_millesimi = 366, k_millesimi
       = 0, p_millesimi = 0\<rparr>, dipende_dai_dati = False, profili = [''default''], esclusi =
       []\<rparr>,
     \<lparr>voce_op = ''geo.hausdorff_distance'', in_memoria = \<lparr>c_a = 565248, r_millesimi =
       0, c_millesimi = 435, r_stretta_millesimi = 565248, c_larga_millesimi = 134, k_millesimi = 0,
       p_millesimi = 0\<rparr>, dipende_dai_dati = False, profili = [''default''], esclusi =
       []\<rparr>,
     \<lparr>voce_op = ''geo.haversine_distance'', in_memoria = \<lparr>c_a = 356352, r_millesimi =
       0, c_millesimi = 481, r_stretta_millesimi = 356352, c_larga_millesimi = 6144, k_millesimi = 0,
       p_millesimi = 0\<rparr>, dipende_dai_dati = False, profili = [''default''], esclusi =
       []\<rparr>,
     \<lparr>voce_op = ''geo.intersection'', in_memoria = \<lparr>c_a = 1609728, r_millesimi = 0,
       c_millesimi = 3903, r_stretta_millesimi = 804864, c_larga_millesimi = 1451, k_millesimi = 0,
       p_millesimi = 0\<rparr>, dipende_dai_dati = True, profili = [''default''], esclusi =
       []\<rparr>,
     \<lparr>voce_op = ''geo.length'', in_memoria = \<lparr>c_a = 446464, r_millesimi = 97485,
       c_millesimi = 142, r_stretta_millesimi = 446464, c_larga_millesimi = 176, k_millesimi = 0,
       p_millesimi = 0\<rparr>, dipende_dai_dati = False, profili = [''default''], esclusi =
       []\<rparr>,
     \<lparr>voce_op = ''geo.line_builder'', in_memoria = \<lparr>c_a = 409600, r_millesimi = 0,
       c_millesimi = 4940, r_stretta_millesimi = 409600, c_larga_millesimi = 12411, k_millesimi = 0,
       p_millesimi = 0\<rparr>, dipende_dai_dati = False, profili = [''default''], esclusi =
       []\<rparr>,
     \<lparr>voce_op = ''geo.line_interpolate_point'', in_memoria = \<lparr>c_a = 565248,
       r_millesimi = 96469, c_millesimi = 185, r_stretta_millesimi = 565248, c_larga_millesimi = 226,
       k_millesimi = 0, p_millesimi = 0\<rparr>, dipende_dai_dati = False, profili = [''default''],
       esclusi = []\<rparr>,
     \<lparr>voce_op = ''geo.line_locate_point'', in_memoria = \<lparr>c_a = 507904, r_millesimi =
       96026, c_millesimi = 161, r_stretta_millesimi = 507904, c_larga_millesimi = 199, k_millesimi =
       0, p_millesimi = 0\<rparr>, dipende_dai_dati = False, profili = [''default''], esclusi =
       []\<rparr>,
     \<lparr>voce_op = ''geo.line_merge'', in_memoria = \<lparr>c_a = 596185, r_millesimi = 103780,
       c_millesimi = 2803, r_stretta_millesimi = 983040, c_larga_millesimi = 2847, k_millesimi = 0,
       p_millesimi = 0\<rparr>, dipende_dai_dati = True, profili = [''default''], esclusi =
       []\<rparr>,
     \<lparr>voce_op = ''geo.line_substring'', in_memoria = \<lparr>c_a = 642155, r_millesimi =
       74148, c_millesimi = 1790, r_stretta_millesimi = 897024, c_larga_millesimi = 1549, k_millesimi
       = 0, p_millesimi = 0\<rparr>, dipende_dai_dati = False, profili = [''default''], esclusi =
       []\<rparr>]"

definition costi_geo_5 :: "costo_operazione list" where
  "costi_geo_5 =
    [\<lparr>voce_op = ''geo.make_valid'', in_memoria = \<lparr>c_a = 1015808, r_millesimi =
       3176866, c_millesimi = 14840, r_stretta_millesimi = 1015808, c_larga_millesimi = 14023,
       k_millesimi = 0, p_millesimi = 0\<rparr>, dipende_dai_dati = True, profili =
       [''adversarial_invalid'', ''default''], esclusi = []\<rparr>,
     \<lparr>voce_op = ''geo.nearest'', in_memoria = \<lparr>c_a = 1028489, r_millesimi = 0,
       c_millesimi = 7875, r_stretta_millesimi = 774144, c_larga_millesimi = 23457, k_millesimi = 0,
       p_millesimi = 0\<rparr>, dipende_dai_dati = True, profili = [''adversarial_ties'',
       ''default''], esclusi = [''adversarial_ties'']\<rparr>,
     \<lparr>voce_op = ''geo.overlay'', in_memoria = \<lparr>c_a = 1611930, r_millesimi = 1002903,
       c_millesimi = 9202, r_stretta_millesimi = 2775040, c_larga_millesimi = 9270, k_millesimi = 0,
       p_millesimi = 0\<rparr>, dipende_dai_dati = True, profili = [''adversarial_overlaps'',
       ''default''], esclusi = [''adversarial_overlaps'']\<rparr>,
     \<lparr>voce_op = ''geo.perimeter'', in_memoria = \<lparr>c_a = 610304, r_millesimi = 22655,
       c_millesimi = 885, r_stretta_millesimi = 610304, c_larga_millesimi = 356, k_millesimi = 0,
       p_millesimi = 0\<rparr>, dipende_dai_dati = False, profili = [''default''], esclusi =
       []\<rparr>,
     \<lparr>voce_op = ''geo.point_on_surface'', in_memoria = \<lparr>c_a = 1900544, r_millesimi =
       0, c_millesimi = 3297, r_stretta_millesimi = 1900544, c_larga_millesimi = 753, k_millesimi =
       0, p_millesimi = 0\<rparr>, dipende_dai_dati = False, profili = [''default''], esclusi =
       []\<rparr>,
     \<lparr>voce_op = ''geo.polygon_builder'', in_memoria = \<lparr>c_a = 589824, r_millesimi = 0,
       c_millesimi = 7633, r_stretta_millesimi = 589824, c_larga_millesimi = 17854, k_millesimi = 0,
       p_millesimi = 0\<rparr>, dipende_dai_dati = False, profili = [''default''], esclusi =
       []\<rparr>,
     \<lparr>voce_op = ''geo.polygonize'', in_memoria = \<lparr>c_a = 2072576, r_millesimi =
       72717684, c_millesimi = 20004, r_stretta_millesimi = 2072576, c_larga_millesimi = 69126,
       k_millesimi = 0, p_millesimi = 0\<rparr>, dipende_dai_dati = True, profili =
       [''adversarial_grid'', ''default''], esclusi = []\<rparr>,
     \<lparr>voce_op = ''geo.predicate_contains'', in_memoria = \<lparr>c_a = 1642496, r_millesimi
       = 0, c_millesimi = 997, r_stretta_millesimi = 1642496, c_larga_millesimi = 456, k_millesimi =
       0, p_millesimi = 0\<rparr>, dipende_dai_dati = False, profili = [''default''], esclusi =
       []\<rparr>,
     \<lparr>voce_op = ''geo.predicate_contains_properly'', in_memoria = \<lparr>c_a = 1568768,
       r_millesimi = 0, c_millesimi = 1123, r_stretta_millesimi = 1568768, c_larga_millesimi = 451,
       k_millesimi = 0, p_millesimi = 0\<rparr>, dipende_dai_dati = False, profili = [''default''],
       esclusi = []\<rparr>,
     \<lparr>voce_op = ''geo.predicate_covered_by'', in_memoria = \<lparr>c_a = 1671168,
       r_millesimi = 0, c_millesimi = 998, r_stretta_millesimi = 1671168, c_larga_millesimi = 464,
       k_millesimi = 0, p_millesimi = 0\<rparr>, dipende_dai_dati = False, profili = [''default''],
       esclusi = []\<rparr>]"

definition costi_geo_6 :: "costo_operazione list" where
  "costi_geo_6 =
    [\<lparr>voce_op = ''geo.predicate_covers'', in_memoria = \<lparr>c_a = 1622016, r_millesimi =
       0, c_millesimi = 974, r_stretta_millesimi = 1622016, c_larga_millesimi = 435, k_millesimi = 0,
       p_millesimi = 0\<rparr>, dipende_dai_dati = False, profili = [''default''], esclusi =
       []\<rparr>,
     \<lparr>voce_op = ''geo.predicate_crosses'', in_memoria = \<lparr>c_a = 1642496, r_millesimi =
       0, c_millesimi = 981, r_stretta_millesimi = 1642496, c_larga_millesimi = 446, k_millesimi = 0,
       p_millesimi = 0\<rparr>, dipende_dai_dati = False, profili = [''default''], esclusi =
       []\<rparr>,
     \<lparr>voce_op = ''geo.predicate_disjoint'', in_memoria = \<lparr>c_a = 1662976, r_millesimi
       = 0, c_millesimi = 987, r_stretta_millesimi = 1662976, c_larga_millesimi = 454, k_millesimi =
       0, p_millesimi = 0\<rparr>, dipende_dai_dati = False, profili = [''default''], esclusi =
       []\<rparr>,
     \<lparr>voce_op = ''geo.predicate_equals_topo'', in_memoria = \<lparr>c_a = 1646592,
       r_millesimi = 0, c_millesimi = 1137, r_stretta_millesimi = 1646592, c_larga_millesimi = 447,
       k_millesimi = 0, p_millesimi = 0\<rparr>, dipende_dai_dati = False, profili = [''default''],
       esclusi = []\<rparr>,
     \<lparr>voce_op = ''geo.predicate_intersects'', in_memoria = \<lparr>c_a = 1646592,
       r_millesimi = 0, c_millesimi = 976, r_stretta_millesimi = 1646592, c_larga_millesimi = 466,
       k_millesimi = 0, p_millesimi = 0\<rparr>, dipende_dai_dati = False, profili = [''default''],
       esclusi = []\<rparr>,
     \<lparr>voce_op = ''geo.predicate_overlaps'', in_memoria = \<lparr>c_a = 1658880, r_millesimi
       = 0, c_millesimi = 1045, r_stretta_millesimi = 1658880, c_larga_millesimi = 436, k_millesimi =
       0, p_millesimi = 0\<rparr>, dipende_dai_dati = False, profili = [''default''], esclusi =
       []\<rparr>,
     \<lparr>voce_op = ''geo.predicate_touches'', in_memoria = \<lparr>c_a = 1646592, r_millesimi =
       0, c_millesimi = 926, r_stretta_millesimi = 1646592, c_larga_millesimi = 436, k_millesimi = 0,
       p_millesimi = 0\<rparr>, dipende_dai_dati = False, profili = [''default''], esclusi =
       []\<rparr>,
     \<lparr>voce_op = ''geo.predicate_within'', in_memoria = \<lparr>c_a = 1679360, r_millesimi =
       0, c_millesimi = 990, r_stretta_millesimi = 1679360, c_larga_millesimi = 447, k_millesimi = 0,
       p_millesimi = 0\<rparr>, dipende_dai_dati = False, profili = [''default''], esclusi =
       []\<rparr>,
     \<lparr>voce_op = ''geo.reproject'', in_memoria = \<lparr>c_a = 1867776, r_millesimi = 131859,
       c_millesimi = 2439, r_stretta_millesimi = 1867776, c_larga_millesimi = 2416, k_millesimi = 0,
       p_millesimi = 0\<rparr>, dipende_dai_dati = True, profili = [''default''], esclusi =
       []\<rparr>,
     \<lparr>voce_op = ''geo.rotate'', in_memoria = \<lparr>c_a = 966656, r_millesimi = 0,
       c_millesimi = 2413, r_stretta_millesimi = 966656, c_larga_millesimi = 1993, k_millesimi = 0,
       p_millesimi = 0\<rparr>, dipende_dai_dati = False, profili = [''default''], esclusi =
       []\<rparr>]"

definition costi_geo_7 :: "costo_operazione list" where
  "costi_geo_7 =
    [\<lparr>voce_op = ''geo.scale'', in_memoria = \<lparr>c_a = 917504, r_millesimi = 0,
       c_millesimi = 2463, r_stretta_millesimi = 917504, c_larga_millesimi = 1929, k_millesimi = 0,
       p_millesimi = 0\<rparr>, dipende_dai_dati = False, profili = [''default''], esclusi =
       []\<rparr>,
     \<lparr>voce_op = ''geo.shared_paths'', in_memoria = \<lparr>c_a = 792329, r_millesimi =
       284298, c_millesimi = 5003, r_stretta_millesimi = 1548288, c_larga_millesimi = 4904,
       k_millesimi = 0, p_millesimi = 0\<rparr>, dipende_dai_dati = True, profili = [''default''],
       esclusi = []\<rparr>,
     \<lparr>voce_op = ''geo.simplify'', in_memoria = \<lparr>c_a = 1187840, r_millesimi = 0,
       c_millesimi = 5296, r_stretta_millesimi = 1187840, c_larga_millesimi = 2309, k_millesimi = 0,
       p_millesimi = 0\<rparr>, dipende_dai_dati = False, profili = [''default''], esclusi =
       []\<rparr>,
     \<lparr>voce_op = ''geo.sjoin'', in_memoria = \<lparr>c_a = 1129483, r_millesimi = 0,
       c_millesimi = 3747, r_stretta_millesimi = 823296, c_larga_millesimi = 11932, k_millesimi = 0,
       p_millesimi = 0\<rparr>, dipende_dai_dati = True, profili = [''adversarial_all_candidates'',
       ''default''], esclusi = [''adversarial_all_candidates'']\<rparr>,
     \<lparr>voce_op = ''geo.snap'', in_memoria = \<lparr>c_a = 1380352, r_millesimi = 0,
       c_millesimi = 2377, r_stretta_millesimi = 1380352, c_larga_millesimi = 1963, k_millesimi = 0,
       p_millesimi = 0\<rparr>, dipende_dai_dati = False, profili = [''default''], esclusi =
       []\<rparr>,
     \<lparr>voce_op = ''geo.snap_to_grid'', in_memoria = \<lparr>c_a = 995328, r_millesimi = 0,
       c_millesimi = 2535, r_stretta_millesimi = 995328, c_larga_millesimi = 2019, k_millesimi = 0,
       p_millesimi = 0\<rparr>, dipende_dai_dati = False, profili = [''default''], esclusi =
       []\<rparr>,
     \<lparr>voce_op = ''geo.split'', in_memoria = \<lparr>c_a = 589364, r_millesimi = 0,
       c_millesimi = 12052, r_stretta_millesimi = 876544, c_larga_millesimi = 10045, k_millesimi = 0,
       p_millesimi = 0\<rparr>, dipende_dai_dati = True, profili = [''adversarial_zigzag'',
       ''default''], esclusi = []\<rparr>,
     \<lparr>voce_op = ''geo.subdivide'', in_memoria = \<lparr>c_a = 1155072, r_millesimi = 0,
       c_millesimi = 6995, r_stretta_millesimi = 1155072, c_larga_millesimi = 4538, k_millesimi = 0,
       p_millesimi = 0\<rparr>, dipende_dai_dati = True, profili = [''default''], esclusi =
       []\<rparr>,
     \<lparr>voce_op = ''geo.symmetric_difference'', in_memoria = \<lparr>c_a = 3653632,
       r_millesimi = 0, c_millesimi = 5117, r_stretta_millesimi = 1826816, c_larga_millesimi = 3701,
       k_millesimi = 0, p_millesimi = 0\<rparr>, dipende_dai_dati = True, profili = [''default''],
       esclusi = []\<rparr>,
     \<lparr>voce_op = ''geo.to_wkt'', in_memoria = \<lparr>c_a = 1134592, r_millesimi = 0,
       c_millesimi = 4907, r_stretta_millesimi = 1134592, c_larga_millesimi = 3756, k_millesimi = 0,
       p_millesimi = 0\<rparr>, dipende_dai_dati = False, profili = [''default''], esclusi =
       []\<rparr>]"

definition costi_geo_8 :: "costo_operazione list" where
  "costi_geo_8 =
    [\<lparr>voce_op = ''geo.translate'', in_memoria = \<lparr>c_a = 921600, r_millesimi = 0,
       c_millesimi = 2473, r_stretta_millesimi = 921600, c_larga_millesimi = 1941, k_millesimi = 0,
       p_millesimi = 0\<rparr>, dipende_dai_dati = False, profili = [''default''], esclusi =
       []\<rparr>,
     \<lparr>voce_op = ''geo.union'', in_memoria = \<lparr>c_a = 2052096, r_millesimi = 0,
       c_millesimi = 4564, r_stretta_millesimi = 1026048, c_larga_millesimi = 1941, k_millesimi = 0,
       p_millesimi = 0\<rparr>, dipende_dai_dati = True, profili = [''default''], esclusi =
       []\<rparr>,
     \<lparr>voce_op = ''geo.vertex_count'', in_memoria = \<lparr>c_a = 565248, r_millesimi =
       11543, c_millesimi = 928, r_stretta_millesimi = 565248, c_larga_millesimi = 391, k_millesimi =
       0, p_millesimi = 0\<rparr>, dipende_dai_dati = False, profili = [''default''], esclusi =
       []\<rparr>,
     \<lparr>voce_op = ''geo.voronoi'', in_memoria = \<lparr>c_a = 1034373, r_millesimi = 0,
       c_millesimi = 23763, r_stretta_millesimi = 1769472, c_larga_millesimi = 55104, k_millesimi =
       0, p_millesimi = 0\<rparr>, dipende_dai_dati = True, profili = [''adversarial_lattice'',
       ''default''], esclusi = []\<rparr>,
     \<lparr>voce_op = ''geo.within'', in_memoria = \<lparr>c_a = 1036434, r_millesimi = 0,
       c_millesimi = 3858, r_stretta_millesimi = 784384, c_larga_millesimi = 11368, k_millesimi = 0,
       p_millesimi = 0\<rparr>, dipende_dai_dati = True, profili = [''adversarial_all_candidates'',
       ''default''], esclusi = [''adversarial_all_candidates'']\<rparr>]"

definition COSTI_GEO :: "costo_operazione list" where
  "COSTI_GEO = costi_geo_1 @ costi_geo_2 @ costi_geo_3 @ costi_geo_4 @ costi_geo_5 @ costi_geo_6 @ costi_geo_7 @ costi_geo_8"

lemmas costi_geo_defs = COSTI_GEO_def
  costi_geo_1_def costi_geo_2_def costi_geo_3_def costi_geo_4_def costi_geo_5_def costi_geo_6_def costi_geo_7_def costi_geo_8_def

definition costo_di :: "string \<Rightarrow> costo_operazione option" where
  "costo_di ident = cerca_voce (if starts_with ident ''geo.'' then COSTI_GEO else COSTI) ident"

section \<open>The ids of the tables\<close>

definition costi_table_names :: "string list" where
  "costi_table_names =
    [''add_row_number'', ''aggregate'', ''align_schema'', ''anti_join'', ''asof_join'',
     ''assert_cardinality'', ''assert_foreign_key'', ''assert_metadata'', ''assert_not_null'',
     ''assert_range'', ''assert_regex'', ''assert_schema'', ''assert_unique'', ''bin'',
     ''coalesce'', ''concat'', ''concat_by_name'', ''concat_columns'', ''conditional'',
     ''cross_join'', ''date_add'', ''date_diff'', ''date_extract'', ''date_format'',
     ''dedup_advanced'', ''distinct'', ''drop_columns'', ''except'', ''explode'', ''expression'',
     ''fill_na'', ''filter'', ''flatten_json'', ''formula'', ''fuzzy_join'', ''hmac_sha256'',
     ''intersect'', ''join'', ''limit'', ''lookup'', ''mask_data'', ''md5_hash'', ''melt'',
     ''pivot'', ''reconcile'', ''rename'', ''reorder_columns'', ''replace'', ''rolling_window'',
     ''sample'', ''select_columns'', ''semi_join'', ''sha256_hash'', ''sort'', ''split_column'',
     ''stable_fingerprint'', ''statistics'', ''string_extract'', ''string_length'',
     ''string_pad'', ''table_diff'', ''text_normalize'', ''timezone_convert'', ''top_n'',
     ''transpose'', ''type_cast'', ''union_distinct'', ''unnest'', ''uuid_generator'',
     ''validate_rules'', ''window_function'']"

definition costi_geo_names :: "string list" where
  "costi_geo_names =
    [''affine_transform'', ''area'', ''bearing'', ''boundary'', ''bounds_extractor'', ''buffer'',
     ''centroid'', ''clean_topology'', ''clip'', ''cluster_dbscan'', ''collect'',
     ''concave_hull'', ''convex_hull'', ''count_points_in_polygons'', ''coverage_validate'',
     ''delaunay'', ''densify'', ''difference'', ''dissolve'', ''distance'', ''envelope'',
     ''explode'', ''frechet_distance'', ''from_coords'', ''from_wkt'', ''generate_grid'',
     ''geodesic_area'', ''geodesic_distance'', ''geodesic_line_length'', ''geometry_accessors'',
     ''geometry_diagnostics'', ''hausdorff_distance'', ''haversine_distance'', ''intersection'',
     ''length'', ''line_builder'', ''line_interpolate_point'', ''line_locate_point'',
     ''line_merge'', ''line_substring'', ''make_valid'', ''nearest'', ''overlay'', ''perimeter'',
     ''point_on_surface'', ''polygon_builder'', ''polygonize'', ''predicate_contains'',
     ''predicate_contains_properly'', ''predicate_covered_by'', ''predicate_covers'',
     ''predicate_crosses'', ''predicate_disjoint'', ''predicate_equals_topo'',
     ''predicate_intersects'', ''predicate_overlaps'', ''predicate_touches'',
     ''predicate_within'', ''reproject'', ''rotate'', ''scale'', ''shared_paths'', ''simplify'',
     ''sjoin'', ''snap'', ''snap_to_grid'', ''split'', ''subdivide'', ''symmetric_difference'',
     ''to_wkt'', ''translate'', ''union'', ''vertex_count'', ''voronoi'', ''within'']"

lemma costi_ids: "map voce_op COSTI = map ((@) ''table.'') costi_table_names"
  by (simp add: costi_tabellari_defs costi_table_names_def)

lemma costi_geo_ids: "map voce_op COSTI_GEO = map ((@) ''geo.'') costi_geo_names"
  by (simp add: costi_geo_defs costi_geo_names_def)

lemmas adjacent = sorted_wrt2 [of "(<) :: string \<Rightarrow> string \<Rightarrow> bool", OF transp_on_less]

lemma costi_names_sorted: "sorted_wrt (<) costi_table_names"
  by (simp add: costi_table_names_def adjacent sorted_wrt1 less_char_def del: sorted_wrt.simps(2))

lemma costi_geo_names_sorted: "sorted_wrt (<) costi_geo_names"
  by (simp add: costi_geo_names_def adjacent sorted_wrt1 less_char_def del: sorted_wrt.simps(2))

text \<open>The same names as the catalogue: a predicate that holds of one list holds of the other.\<close>

lemma costi_names_covered: "list_all P table_names \<Longrightarrow> list_all P costi_table_names"
  by (simp add: table_names_def costi_table_names_def)

lemma table_names_covered: "list_all P costi_table_names \<Longrightarrow> list_all P table_names"
  by (simp add: table_names_def costi_table_names_def)

lemma costi_geo_names_covered: "list_all P geo_names \<Longrightarrow> list_all P costi_geo_names"
  by (simp add: geo_names_def costi_geo_names_def)

lemma geo_names_covered: "list_all P costi_geo_names \<Longrightarrow> list_all P geo_names"
  by (simp add: geo_names_def costi_geo_names_def)

lemma costi_names_set: "set costi_table_names = set table_names"
  using costi_names_covered [of "\<lambda>n. n \<in> set table_names"]
    table_names_covered [of "\<lambda>n. n \<in> set costi_table_names"] by (auto simp: list_all_iff)

lemma costi_geo_names_set: "set costi_geo_names = set geo_names"
  using costi_geo_names_covered [of "\<lambda>n. n \<in> set geo_names"]
    geo_names_covered [of "\<lambda>n. n \<in> set costi_geo_names"] by (auto simp: list_all_iff)

lemma costi_sorted: "sorted_wrt (<) (map voce_op COSTI)"
  unfolding costi_ids using costi_names_sorted by (simp add: sorted_wrt_map)

lemma costi_geo_sorted: "sorted_wrt (<) (map voce_op COSTI_GEO)"
  unfolding costi_geo_ids using costi_geo_names_sorted by (simp add: sorted_wrt_map)

lemma costi_id_set: "voce_op ` set COSTI = op_id ` {d \<in> set CATALOG. family d = Table}"
  using arg_cong [OF costi_ids, of set] set_table_ids
  by (simp only: list.set_map costi_names_set family_prefix.simps)

lemma costi_geo_id_set: "voce_op ` set COSTI_GEO = op_id ` {d \<in> set CATALOG. family d \<noteq> Table}"
  using arg_cong [OF costi_geo_ids, of set] set_geo_ids
  by (simp only: list.set_map costi_geo_names_set family_prefix.simps)

lemma costo_di_table:
  assumes "\<not> starts_with ident ''geo.''"
  shows "costo_di ident = Some v \<longleftrightarrow> v \<in> set COSTI \<and> voce_op v = ident"
  using assms cerca_voce_sorted [OF costi_sorted] by (simp only: costo_di_def if_False)

lemma costo_di_geo:
  assumes "starts_with ident ''geo.''"
  shows "costo_di ident = Some v \<longleftrightarrow> v \<in> set COSTI_GEO \<and> voce_op v = ident"
  using assms cerca_voce_sorted [OF costi_geo_sorted] by (simp only: costo_di_def if_True)

lemma table_id_not_geo: "starts_with ident ''table.'' \<Longrightarrow> \<not> starts_with ident ''geo.''"
  by (auto simp: starts_with_iff)

lemma costo_di_ids:
  "(\<exists>v. costo_di ident = Some v) \<longleftrightarrow> ident \<in> op_id ` set CATALOG"
proof (cases "starts_with ident ''geo.''")
  case True
  then have "ident \<in> op_id ` set CATALOG \<longleftrightarrow> ident \<in> op_id ` {d \<in> set CATALOG. family d \<noteq> Table}"
    using id_has_family_prefix table_id_not_geo by fastforce
  also have "\<dots> \<longleftrightarrow> ident \<in> voce_op ` set COSTI_GEO" by (simp only: costi_geo_id_set)
  finally show ?thesis using costo_di_geo [OF True] by auto
next
  case False
  then have "ident \<in> op_id ` set CATALOG \<longleftrightarrow> ident \<in> op_id ` {d \<in> set CATALOG. family d = Table}"
    using id_has_family_prefix by (auto simp: image_iff) (metis (full_types) family_prefix.simps(2) op_family.exhaust)
  also have "\<dots> \<longleftrightarrow> ident \<in> voce_op ` set COSTI" by (simp only: costi_id_set)
  finally show ?thesis using costo_di_table [OF False] by auto
qed

section \<open>Properties\<close>

text \<open>The binary search of the cost model is a lookup: \<open>costo_di\<close> finds an entry exactly when the table of
  the id's family has one with that id, that entry and no other, and there is one for every operation of
  the catalogue, and for nothing else. A catalogued operation is never run without a prediction.\<close>

theorem costo_di_exact:
  "(costo_di ident = Some v \<longleftrightarrow>
      voce_op v = ident \<and> v \<in> set (if starts_with ident ''geo.'' then COSTI_GEO else COSTI))
   \<and> ((\<exists>w. costo_di ident = Some w) \<longleftrightarrow> (\<exists>d \<in> set CATALOG. op_id d = ident))"
  using costo_di_ids [of ident] costo_di_geo [of ident v] costo_di_table [of ident v]
  by (auto simp: image_iff)

end
