(* ===== verification/Memory.thy ===== *)
theory Memory
  imports Errors
begin

text \<open>
  The live bytes of tables: \<open>crates/plenora-core/src/memoria.rs\<close>.

  An Arrow array (\<open>ArrayData\<close>) is a tree; each node has its length, the buffers it views, an optional
  validity buffer and its children. A buffer is what the code reads of it: the address of the
  allocation, its capacity and the length of the view. \<open>usize\<close> is \<open>nat\<close>; where the code saturates at
  \<open>usize::MAX\<close> that bound is the argument \<open>um\<close>. \<open>get_array_memory_size\<close> is Arrow's own figure for a
  column, a field of the column here.

  The locale \<open>contatore\<close> is what the runner needs of a memory measure (a subset of the tables measures
  no more, and is measured whenever the whole is); it is interpreted on \<open>byte_vivi\<close>.
\<close>

section \<open>Types and arrays\<close>

text \<open>Arrow's \<open>DataType\<close>: the constructors the code names, and \<open>Leaf\<close> for every other type without
  children.\<close>

datatype data_type =
    Utf8 | LargeUtf8 | Binary | LargeBinary
  | Leaf string
  | Struct "field list"
  | Union "(int \<times> field) list"
  | ListOf field
  | LargeListOf field
  | ListView field
  | LargeListView field
  | FixedSizeList field int
  | MapOf field bool
  | Dictionary data_type data_type
  | RunEndEncoded field field
and field = Field (campo_nome: string) (campo_tipo: data_type) (campo_nullable: bool)
    (campo_metadati: "(string \<times> string) list")

record buffer =
  allocazione :: nat
  capacita :: nat
  lunghezza :: nat

datatype array_data = ArrayData
  (dati_len: nat) (dati_buffers: "buffer list") (dati_nulls: "buffer option")
  (child_data: "array_data list")

record colonna =
  to_data :: array_data
  memory_size :: nat

record arrow_schema =
  s_campi :: "field list"
  s_metadati :: "(string, string) btree"

record tabella =
  t_schema :: arrow_schema
  t_colonne :: "colonna list"
  t_righe :: nat

section \<open>The visit\<close>

text \<open>\<open>buffers().iter().chain(validita)\<close>.\<close>

definition buffer_propri :: "array_data \<Rightarrow> buffer list" where
  "buffer_propri d = dati_buffers d @ (case dati_nulls d of None \<Rightarrow> [] | Some b \<Rightarrow> [b])"

text \<open>The stack \<open>da_visitare\<close>, its top first: \<open>pop\<close> takes the last pushed child.\<close>

function visita :: "(buffer \<Rightarrow> 's \<Rightarrow> 's) \<Rightarrow> array_data list \<Rightarrow> 's \<Rightarrow> 's" where
  "visita su_buffer [] s = s"
| "visita su_buffer (dati # resto) s =
     visita su_buffer (rev (child_data dati) @ resto) (fold su_buffer (buffer_propri dati) s)"
  by pat_completeness auto

lemma size_figli: "size_list size (child_data d) < size d"
  by (cases d) simp

termination visita
proof (relation "measure (\<lambda>(_, da_visitare, _). size_list size da_visitare)")
  fix su_buffer :: "buffer \<Rightarrow> 's \<Rightarrow> 's" and dati :: array_data and resto s
  have "size_list size (rev (child_data dati) @ resto) = size_list size (child_data dati) + size_list size resto"
    by (simp add: size_list_conv_sum_list rev_map [symmetric])
  then show "((su_buffer, rev (child_data dati) @ resto, fold su_buffer (buffer_propri dati) s),
      su_buffer, dati # resto, s) \<in> measure (\<lambda>(_, da_visitare, _). size_list size da_visitare)"
    using size_figli [of dati] by simp
qed simp

definition per_ogni_buffer :: "colonna \<Rightarrow> (buffer \<Rightarrow> 's \<Rightarrow> 's) \<Rightarrow> 's \<Rightarrow> 's" where
  "per_ogni_buffer c su_buffer s = visita su_buffer [to_data c] s"

section \<open>Live bytes\<close>

type_synonym allocazioni = "(nat, nat) btree"

definition registra :: "nat \<Rightarrow> nat \<Rightarrow> allocazioni \<Rightarrow> allocazioni" where
  "registra inizio cap m =
     (if cap = 0 then m
      else let voce = (case bt_get m inizio of None \<Rightarrow> 0 | Some v \<Rightarrow> v)
           in bt_insert inizio (max voce cap) m)"

definition aggiungi_colonna :: "colonna \<Rightarrow> allocazioni \<Rightarrow> allocazioni" where
  "aggiungi_colonna c = per_ogni_buffer c (\<lambda>b. registra (allocazione b) (capacita b))"

definition aggiungi_tabella :: "tabella \<Rightarrow> allocazioni \<Rightarrow> allocazioni" where
  "aggiungi_tabella t = fold aggiungi_colonna (t_colonne t)"

definition u64_from_usize :: "nat \<Rightarrow> u64 option" where
  "u64_from_usize n = (if n < 2 ^ 64 then Some (of_nat n) else None)"

definition totale :: "allocazioni \<Rightarrow> u64 result" where
  "totale m =
     try_fold (\<lambda>tot cap.
         ok_or (Internal ''somma dei byte vivi non rappresentabile'')
           (case u64_from_usize cap of None \<Rightarrow> None | Some c \<Rightarrow> checked_add tot c))
       0 (bt_values m)"

definition byte_vivi :: "tabella list \<Rightarrow> u64 result" where
  "byte_vivi tabelle = totale (fold aggiungi_tabella tabelle [])"

section \<open>Bytes of a copy\<close>

definition usize_sat_add :: "nat \<Rightarrow> nat \<Rightarrow> nat \<Rightarrow> nat" where
  "usize_sat_add um a b = min um (a + b)"

definition byte_viste :: "nat \<Rightarrow> colonna \<Rightarrow> nat" where
  "byte_viste um c = per_ogni_buffer c (\<lambda>b tot. usize_sat_add um tot (lunghezza b)) 0"

definition byte_dati :: "nat \<Rightarrow> tabella \<Rightarrow> nat" where
  "byte_dati um t = fold (\<lambda>c tot. usize_sat_add um tot (byte_viste um c)) (t_colonne t) 0"

section \<open>The peak of a union of blocks\<close>

definition ARROTONDAMENTO :: u64 where "ARROTONDAMENTO = 64"

definition BUFFER_PER_NODO :: u64 where "BUFFER_PER_NODO = 4"

definition LARGHEZZA_PREALLOCATA :: u64 where "LARGHEZZA_PREALLOCATA = 16"

definition in_u64 :: "nat \<Rightarrow> u64" where
  "in_u64 byte = (case u64_from_usize byte of Some x \<Rightarrow> x | None \<Rightarrow> max_u)"

text \<open>The children of a type that its nodes are counted through.\<close>

function nodi :: "data_type \<Rightarrow> u64" where
  "nodi tipo =
     (let figli =
        (case tipo of
           Struct campi \<Rightarrow> fold (\<lambda>c tot. saturating_add tot (nodi (campo_tipo c))) campi 0
         | Union campi \<Rightarrow> fold (\<lambda>c tot. saturating_add tot (nodi (campo_tipo (snd c)))) campi 0
         | ListOf c \<Rightarrow> nodi (campo_tipo c)
         | LargeListOf c \<Rightarrow> nodi (campo_tipo c)
         | ListView c \<Rightarrow> nodi (campo_tipo c)
         | LargeListView c \<Rightarrow> nodi (campo_tipo c)
         | FixedSizeList c _ \<Rightarrow> nodi (campo_tipo c)
         | MapOf c _ \<Rightarrow> nodi (campo_tipo c)
         | Dictionary _ valori \<Rightarrow> nodi valori
         | RunEndEncoded estremi valori \<Rightarrow>
             saturating_add (nodi (campo_tipo estremi)) (nodi (campo_tipo valori))
         | _ \<Rightarrow> 0)
      in saturating_add figli 1)"
  by auto

lemma size_campo_tipo: "size (campo_tipo c) < size c"
  by (cases c) simp

lemma size_campo_lista: "c \<in> set campi \<Longrightarrow> size (campo_tipo c) \<le> size_list size campi"
  using size_campo_tipo [of c] size_list_estimation' [of c campi "size c" size] by simp

lemma size_campo_union:
  "c \<in> set campi \<Longrightarrow> size (campo_tipo (snd c)) \<le> size_list (size_prod (\<lambda>_. 0) size) campi"
  using size_campo_tipo [of "snd c"]
    size_list_estimation' [of c campi "size (snd c)" "size_prod (\<lambda>_. 0) size"]
  by (cases c) simp

lemma size_campo_tipo_le: "size (campo_tipo c) \<le> size c" "size (campo_tipo c) < Suc (size c + n)"
  using size_campo_tipo [of c] by simp_all

lemmas size_campi = size_campo_tipo_le size_campo_lista size_campo_union [of "(a, b)" for a b, simplified]
  trans_le_add2 [OF size_campo_tipo_le(1)] trans_le_add1 [OF size_campo_tipo_le(1)]

termination nodi
  by (relation "measure size") (auto simp: less_Suc_eq_le intro: size_campi)

declare nodi.simps [simp del]

fun validita_piena :: "array_data \<Rightarrow> u64" where
  "validita_piena (ArrayData len bs nulls figli) =
     fold (\<lambda>figlio tot. saturating_add tot (validita_piena figlio)) figli (div_ceil (in_u64 len) 8)"

definition proprio_preallocato :: "u64 \<Rightarrow> bool \<Rightarrow> u64" where
  "proprio_preallocato righe generico =
     (if generico then saturating_mul righe LARGHEZZA_PREALLOCATA else 0)"

definition u64_from_i32 :: "int \<Rightarrow> u64" where
  "u64_from_i32 d = (if 0 \<le> d \<and> d < 2 ^ 64 then of_int d else max_u)"

text \<open>The closure \<open>figlio\<close> is \<open>saturating_add (proprio_preallocato r g) (preallocati t r g)\<close>.\<close>

function preallocati :: "data_type \<Rightarrow> u64 \<Rightarrow> bool \<Rightarrow> u64" where
  "preallocati tipo righe generico =
     (case tipo of
        FixedSizeList c dimensione \<Rightarrow>
          (let r = saturating_mul righe (u64_from_i32 dimensione)
           in saturating_add (proprio_preallocato r True) (preallocati (campo_tipo c) r True))
      | Union campi \<Rightarrow>
          fold (\<lambda>c somma. saturating_add somma
              (saturating_add (proprio_preallocato righe True) (preallocati (campo_tipo (snd c)) righe True)))
            campi 0
      | ListOf c \<Rightarrow>
          saturating_add (proprio_preallocato righe generico) (preallocati (campo_tipo c) righe generico)
      | LargeListOf c \<Rightarrow>
          saturating_add (proprio_preallocato righe generico) (preallocati (campo_tipo c) righe generico)
      | ListView c \<Rightarrow>
          saturating_add (proprio_preallocato righe generico) (preallocati (campo_tipo c) righe generico)
      | LargeListView c \<Rightarrow>
          saturating_add (proprio_preallocato righe generico) (preallocati (campo_tipo c) righe generico)
      | MapOf c _ \<Rightarrow>
          saturating_add (proprio_preallocato righe generico) (preallocati (campo_tipo c) righe generico)
      | Struct campi \<Rightarrow>
          fold (\<lambda>c somma. saturating_add somma
              (saturating_add (proprio_preallocato righe generico) (preallocati (campo_tipo c) righe generico)))
            campi 0
      | _ \<Rightarrow> 0)"
  by auto

termination preallocati
  by (relation "measure (\<lambda>(tipo, _, _). size tipo)") (auto simp: less_Suc_eq_le intro: size_campi)

declare preallocati.simps [simp del]

definition picco_unione :: "nat \<Rightarrow> tabella list \<Rightarrow> u64" where
  "picco_unione um blocchi =
     (let (originali, copia) =
        fold (\<lambda>blocco (originali, copia).
            fold (\<lambda>c (originali, copia).
                (saturating_add originali (in_u64 (memory_size c)),
                 saturating_add copia (validita_piena (to_data c))))
              (t_colonne blocco)
              (originali, saturating_add copia (in_u64 (byte_dati um blocco))))
          blocchi (0, 0);
        tot = saturating_add originali (saturating_mul copia 2);
        campi = (case blocchi of [] \<Rightarrow> [] | blocco # _ \<Rightarrow> s_campi (t_schema blocco));
        nodi_dello_schema = fold (\<lambda>c somma. saturating_add somma (nodi (campo_tipo c))) campi 0;
        righe = fold (\<lambda>blocco somma. saturating_add somma (in_u64 (t_righe blocco))) blocchi 0;
        generici = fold (\<lambda>c somma. saturating_add somma (preallocati (campo_tipo c) righe False)) campi 0
      in saturating_add (saturating_add tot generici)
           (saturating_mul nodi_dello_schema (saturating_mul (BUFFER_PER_NODO + 1) ARROTONDAMENTO)))"

section \<open>The visit reaches every buffer once\<close>

text \<open>The buffers of an array, the node's own first, then those of the children from the last to the
  first: the order of the stack.\<close>

fun tutti_buffer :: "array_data \<Rightarrow> buffer list" where
  "tutti_buffer (ArrayData len bs nulls figli) =
     buffer_propri (ArrayData len bs nulls figli) @ concat (rev (map tutti_buffer figli))"

lemma tutti_buffer_eq:
  "tutti_buffer d = buffer_propri d @ concat (map tutti_buffer (rev (child_data d)))"
  by (cases d) (simp add: rev_map)

lemma visita_eq: "visita f ds s = fold f (concat (map tutti_buffer ds)) s"
proof (induction f ds s rule: visita.induct)
  case (2 f d ds s)
  then show ?case by (simp add: tutti_buffer_eq [of d])
qed simp

lemma per_ogni_buffer_eq: "per_ogni_buffer c f s = fold f (tutti_buffer (to_data c)) s"
  by (simp add: per_ogni_buffer_def visita_eq)

definition buffer_colonne :: "colonna list \<Rightarrow> buffer list" where
  "buffer_colonne cs = concat (map (\<lambda>c. tutti_buffer (to_data c)) cs)"

definition buffer_tabelle :: "tabella list \<Rightarrow> buffer list" where
  "buffer_tabelle ts = concat (map (\<lambda>t. buffer_colonne (t_colonne t)) ts)"

abbreviation registra_buffer :: "buffer \<Rightarrow> allocazioni \<Rightarrow> allocazioni" where
  "registra_buffer b \<equiv> registra (allocazione b) (capacita b)"

lemma fold_concat_map: "fold (\<lambda>x. fold f (g x)) xs s = fold f (concat (map g xs)) s"
  by (induction xs arbitrary: s) auto

lemma aggiungi_tabella_eq:
  "aggiungi_tabella t m = fold registra_buffer (buffer_colonne (t_colonne t)) m"
  unfolding aggiungi_tabella_def aggiungi_colonna_def per_ogni_buffer_eq buffer_colonne_def
  by (simp add: fold_concat_map)

lemma byte_vivi_eq: "byte_vivi ts = totale (fold registra_buffer (buffer_tabelle ts) [])"
  unfolding byte_vivi_def buffer_tabelle_def aggiungi_tabella_eq [abs_def]
  by (simp add: fold_concat_map)

section \<open>The specification: each allocation once, at its greatest capacity\<close>

definition vivo :: "buffer set \<Rightarrow> nat \<Rightarrow> nat" where
  "vivo B a = Max (insert 0 (capacita ` {b \<in> B. allocazione b = a}))"

definition residenti :: "buffer set \<Rightarrow> nat" where
  "residenti B = (\<Sum>a \<in> allocazione ` B. vivo B a)"

lemma vivo_empty [simp]: "vivo {} a = 0"
  by (simp add: vivo_def)

lemma vivo_insert:
  "finite B \<Longrightarrow> vivo (insert b B) a = (if allocazione b = a then max (capacita b) (vivo B a) else vivo B a)"
proof -
  assume fin: "finite B"
  let ?C = "capacita ` {b \<in> B. allocazione b = a}"
  have "{x \<in> insert b B. allocazione x = a} =
      (if allocazione b = a then insert b {x \<in> B. allocazione x = a} else {x \<in> B. allocazione x = a})"
    by auto
  then show ?thesis
    using fin by (simp add: vivo_def insert_commute [of 0] max.left_commute max.commute)
qed

lemma vivo_mono: "finite B' \<Longrightarrow> B \<subseteq> B' \<Longrightarrow> vivo B a \<le> vivo B' a"
  unfolding vivo_def by (rule Max_mono) auto

lemma vivo_outside: "a \<notin> allocazione ` B \<Longrightarrow> vivo B a = 0"
proof -
  assume "a \<notin> allocazione ` B"
  then have "{b \<in> B. allocazione b = a} = {}" by auto
  then show ?thesis by (simp only: vivo_def image_empty Max_singleton)
qed

lemma residenti_superset:
  "finite A \<Longrightarrow> allocazione ` B \<subseteq> A \<Longrightarrow> residenti B = (\<Sum>a \<in> A. vivo B a)"
  unfolding residenti_def by (rule sum.mono_neutral_left) (auto simp: vivo_outside)

lemma residenti_mono:
  assumes "finite B'" and "B \<subseteq> B'"
  shows "residenti B \<le> residenti B'"
proof -
  have "residenti B = (\<Sum>a \<in> allocazione ` B'. vivo B a)"
    using assms by (intro residenti_superset) auto
  also have "\<dots> \<le> residenti B'"
    unfolding residenti_def using assms by (intro sum_mono vivo_mono)
  finally show ?thesis .
qed

lemma vivo_union: "finite B \<Longrightarrow> finite C \<Longrightarrow> vivo (B \<union> C) a = max (vivo B a) (vivo C a)"
  by (induction B rule: finite_induct) (simp_all add: vivo_insert max.assoc max.left_commute)

lemma residenti_union_le:
  assumes "finite B" and "finite C"
  shows "residenti (B \<union> C) \<le> residenti B + residenti C"
proof -
  let ?A = "allocazione ` (B \<union> C)"
  have "residenti (B \<union> C) = (\<Sum>a \<in> ?A. max (vivo B a) (vivo C a))"
    unfolding residenti_def using assms by (simp add: vivo_union)
  also have "\<dots> \<le> (\<Sum>a \<in> ?A. vivo B a + vivo C a)" by (intro sum_mono) simp
  also have "\<dots> = residenti B + residenti C"
    using assms residenti_superset [of ?A B] residenti_superset [of ?A C]
    by (simp add: sum.distrib image_Un)
  finally show ?thesis .
qed

section \<open>The computation meets it\<close>

lemma registra_step:
  assumes wf: "bt_wf m" and get: "\<And>a. bt_get m a = (if vivo B a = 0 then None else Some (vivo B a))"
    and fin: "finite B"
  shows "bt_wf (registra_buffer b m) \<and>
     bt_get (registra_buffer b m) a =
       (if vivo (insert b B) a = 0 then None else Some (vivo (insert b B) a))"
  using assms
  by (auto simp: registra_def Let_def vivo_insert bt_simps bt_wf_insert max.commute
      split: option.splits)

lemma registra_all:
  "bt_wf (fold registra_buffer bs []) \<and>
   (\<forall>a. bt_get (fold registra_buffer bs []) a =
      (if vivo (set bs) a = 0 then None else Some (vivo (set bs) a)))"
proof (induction bs rule: rev_induct)
  case Nil
  then show ?case by (simp add: bt_simps bt.wf_empty)
next
  case (snoc b bs)
  then show ?case using registra_step [of "fold registra_buffer bs []" "set bs" b] by simp
qed

lemma sum_bt_values: "bt_wf m \<Longrightarrow> sum_list (bt_values m) = (\<Sum>k \<in> set (bt_keys m). the (bt_get m k))"
proof (induction m)
  case (Cons kv m)
  obtain k v where kv: "kv = (k, v)" by (cases kv)
  with Cons.prems have wf: "bt_wf m" and fresh: "k \<notin> set (bt_keys m)"
    by (auto simp: bt_wf_def bt_keys_def)
  have "(\<Sum>x \<in> set (bt_keys m). the (bt_get (kv # m) x)) = (\<Sum>x \<in> set (bt_keys m). the (bt_get m x))"
    using fresh by (intro sum.cong) (auto simp: bt_get_def kv)
  then show ?case
    using Cons.IH [OF wf] fresh by (simp add: bt_values_def bt_keys_def bt_get_def kv)
qed (simp add: bt_values_def bt_keys_def)

lemma sum_registra: "sum_list (bt_values (fold registra_buffer bs [])) = residenti (set bs)"
proof -
  let ?m = "fold registra_buffer bs []"
  have get: "bt_get ?m a = (if vivo (set bs) a = 0 then None else Some (vivo (set bs) a))" for a
    using registra_all by blast
  have wf: "bt_wf ?m" using registra_all by blast
  have keys: "set (bt_keys ?m) = {a. vivo (set bs) a \<noteq> 0}"
    unfolding set_eq_iff mem_Collect_eq bt.keys_get get by simp
  have sub: "set (bt_keys ?m) \<subseteq> allocazione ` set bs"
  proof
    fix a
    assume "a \<in> set (bt_keys ?m)"
    then have "vivo (set bs) a \<noteq> 0" unfolding keys by simp
    then show "a \<in> allocazione ` set bs" by (rule contrapos_np) (rule vivo_outside)
  qed
  have "sum_list (bt_values ?m) = (\<Sum>a \<in> set (bt_keys ?m). the (bt_get ?m a))"
    by (rule sum_bt_values [OF wf])
  also have "\<dots> = (\<Sum>a \<in> set (bt_keys ?m). vivo (set bs) a)"
    unfolding keys get by (intro sum.cong) simp_all
  also have "\<dots> = residenti (set bs)"
    unfolding residenti_def using sub keys by (intro sum.mono_neutral_left) auto
  finally show ?thesis .
qed

lemma totale_fold:
  "try_fold (\<lambda>tot cap. ok_or e (case u64_from_usize cap of None \<Rightarrow> None | Some c \<Rightarrow> checked_add tot c)) a vs
     = Inr t \<longleftrightarrow> unat t = unat a + sum_list vs"
proof (induction vs arbitrary: a)
  case Nil
  then show ?case by (auto simp: word_unat_eq_iff)
next
  case (Cons v vs)
  show ?case
  proof (cases "unat a + v < 2 ^ 64")
    case True
    then have v: "v < 2 ^ 64" by linarith
    then have uv: "unat (of_nat v :: u64) = v" by (simp add: unat_of_nat take_bit_nat_eq_self)
    then have "checked_add a (of_nat v) = Some (a + of_nat v)"
      using True by (simp add: checked_add_def)
    then show ?thesis
      using Cons v uv by (simp add: u64_from_usize_def checked_add_Some add.assoc)
  next
    case False
    have "checked_add a (of_nat v) = None" if "v < 2 ^ 64"
      using False that by (simp add: checked_add_None unat_of_nat take_bit_nat_eq_self)
    moreover have "unat t \<noteq> unat a + sum_list (v # vs)"
      using False unat_u64_lt [of t] by (simp only: sum_list.Cons)
    ultimately show ?thesis by (simp add: u64_from_usize_def)
  qed
qed

lemma byte_vivi_Inr_iff [results]:
  "byte_vivi ts = Inr n \<longleftrightarrow> unat n = residenti (set (buffer_tabelle ts))"
  unfolding byte_vivi_eq totale_def totale_fold sum_registra by simp

lemma set_buffer_tabelle: "set (buffer_tabelle ts) = (\<Union>t \<in> set ts. set (buffer_colonne (t_colonne t)))"
  by (auto simp: buffer_tabelle_def)

section \<open>The interface of the runner\<close>

text \<open>
  A measure of a collection of tables: defined exactly when the weight of the set has 64 bits, and a
  part weighs no more than the whole. The consequences are what the accounting of the runner uses.
\<close>

locale contatore =
  fixes misura :: "'t list \<Rightarrow> 'e + u64"
    and peso :: "'t set \<Rightarrow> nat"
  assumes misura_iff: "misura ts = Inr n \<longleftrightarrow> unat n = peso (set ts)"
    and peso_mono: "finite B \<Longrightarrow> A \<subseteq> B \<Longrightarrow> peso A \<le> peso B"
    and peso_empty: "peso {} = 0"
begin

lemma misura_empty: "misura [] = Inr 0"
  by (simp add: misura_iff peso_empty)

lemma misura_same_set: "set ts = set us \<Longrightarrow> misura ts = Inr n \<longleftrightarrow> misura us = Inr n"
  by (simp add: misura_iff)

lemma misura_part:
  assumes "misura ts = Inr n" and "set us \<subseteq> set ts"
  obtains k where "misura us = Inr k" and "k \<le> n"
proof -
  have le: "peso (set us) \<le> unat n"
    using assms peso_mono [of "set ts" "set us"] by (simp add: misura_iff)
  then have "unat (of_nat (peso (set us)) :: u64) = peso (set us)"
    using unat_u64_lt [of n] by (simp add: unat_of_nat take_bit_nat_eq_self)
  then show ?thesis using le that [of "of_nat (peso (set us))"]
    by (simp add: misura_iff word_le_nat_alt)
qed

lemma misura_mono:
  "misura ts = Inr n \<Longrightarrow> misura us = Inr k \<Longrightarrow> set us \<subseteq> set ts \<Longrightarrow> k \<le> n"
  using peso_mono [of "set ts" "set us"] by (simp add: misura_iff word_le_nat_alt)

lemma misura_difference:
  "misura ts = Inr n \<Longrightarrow> misura us = Inr k \<Longrightarrow> set us \<subseteq> set ts \<Longrightarrow> checked_sub n k = Some (n - k)"
  using misura_mono by (simp add: checked_sub_def)

end

definition buffer_insieme :: "tabella set \<Rightarrow> buffer set" where
  "buffer_insieme T = (\<Union>t \<in> T. set (buffer_colonne (t_colonne t)))"

lemma buffer_insieme_set: "buffer_insieme (set ts) = set (buffer_tabelle ts)"
  by (simp add: buffer_insieme_def set_buffer_tabelle)

interpretation vivi: contatore byte_vivi "\<lambda>T. residenti (buffer_insieme T)"
proof unfold_locales
  show "byte_vivi ts = Inr n \<longleftrightarrow> unat n = residenti (buffer_insieme (set ts))" for ts n
    by (simp add: byte_vivi_Inr_iff buffer_insieme_set)
  show "residenti (buffer_insieme A) \<le> residenti (buffer_insieme B)" if "finite B" "A \<subseteq> B" for A B
    using that by (intro residenti_mono) (auto simp: buffer_insieme_def)
  show "residenti (buffer_insieme {}) = 0" by (simp add: buffer_insieme_def residenti_def)
qed

section \<open>The estimates over the naturals\<close>

lemma unat_in_u64: "unat (in_u64 n) = sat64 n"
  by (simp add: in_u64_def u64_from_usize_def sat64_def unat_of_nat take_bit_nat_eq_self unat_max_u)

lemma fold_usize_sat_add:
  "a \<le> um \<Longrightarrow> fold (\<lambda>x tot. usize_sat_add um tot (f x)) xs a = min um (a + (\<Sum>x \<leftarrow> xs. f x))"
  by (induction xs arbitrary: a) (simp_all add: usize_sat_add_def min_def)

lemma byte_viste_eq: "byte_viste um c = min um (\<Sum>b \<leftarrow> tutti_buffer (to_data c). lunghezza b)"
  by (simp add: byte_viste_def per_ogni_buffer_eq fold_usize_sat_add)

lemma min_sum_list: "min um (a + (\<Sum>x \<leftarrow> xs. min um (f x))) = min um (a + (\<Sum>x \<leftarrow> xs. f x :: nat))"
proof (induction xs arbitrary: a)
  case (Cons x xs)
  from Cons [of "a + min um (f x)"] Cons [of "a + f x"] show ?case
    by (simp add: add.assoc min_def split: if_splits)
qed simp

lemma byte_dati_eq: "byte_dati um t = min um (\<Sum>b \<leftarrow> buffer_colonne (t_colonne t). lunghezza b)"
proof -
  have "byte_dati um t = min um (\<Sum>c \<leftarrow> t_colonne t. min um (\<Sum>b \<leftarrow> tutti_buffer (to_data c). lunghezza b))"
    by (simp add: byte_dati_def fold_usize_sat_add byte_viste_eq)
  also have "\<dots> = min um (\<Sum>c \<leftarrow> t_colonne t. \<Sum>b \<leftarrow> tutti_buffer (to_data c). lunghezza b)"
    using min_sum_list [of um 0] by simp
  also have "(\<Sum>c \<leftarrow> cs. \<Sum>b \<leftarrow> tutti_buffer (to_data c). lunghezza b) = (\<Sum>b \<leftarrow> buffer_colonne cs. lunghezza b)"
    for cs by (induction cs) (simp_all add: buffer_colonne_def)
  finally show ?thesis .
qed

text \<open>The same recursions over the naturals: the nodes of a type, the bytes of the validity bitmaps of an
  array, and the preallocated bytes per row of the parent.\<close>

fun figli_contati :: "data_type \<Rightarrow> data_type list" where
  "figli_contati (Struct campi) = map campo_tipo campi"
| "figli_contati (Union campi) = map (\<lambda>c. campo_tipo (snd c)) campi"
| "figli_contati (ListOf c) = [campo_tipo c]"
| "figli_contati (LargeListOf c) = [campo_tipo c]"
| "figli_contati (ListView c) = [campo_tipo c]"
| "figli_contati (LargeListView c) = [campo_tipo c]"
| "figli_contati (FixedSizeList c _) = [campo_tipo c]"
| "figli_contati (MapOf c _) = [campo_tipo c]"
| "figli_contati (Dictionary _ valori) = [valori]"
| "figli_contati (RunEndEncoded estremi valori) = [campo_tipo estremi, campo_tipo valori]"
| "figli_contati _ = []"

lemma size_figli_contati: "f \<in> set (figli_contati t) \<Longrightarrow> size f < size t"
  by (cases t) (auto simp: less_Suc_eq_le intro: size_campi)

function conta_nodi :: "data_type \<Rightarrow> nat" where
  "conta_nodi t = 1 + (\<Sum>f \<leftarrow> figli_contati t. conta_nodi f)"
  by auto
termination by (relation "measure size") (auto simp: size_figli_contati)

declare conta_nodi.simps [simp del]

lemma nodi_figli:
  "nodi t = saturating_add (fold (\<lambda>f tot. saturating_add tot (nodi f)) (figli_contati t) 0) 1"
proof -
  have zero: "saturating_add 0 x = x" for x :: u64
    by (simp add: word_unat_eq_iff unat_saturating_add64)
  show ?thesis by (subst nodi.simps) (cases t; simp add: Let_def fold_map o_def zero)
qed

lemma unat_nodi [unats]: "unat (nodi t) = sat64 (conta_nodi t)"
proof (induction t rule: measure_induct_rule [of size])
  case (less t)
  then have "unat (fold (\<lambda>f tot. saturating_add tot (nodi f)) (figli_contati t) 0)
      = sat64 (unat (0 :: u64) + (\<Sum>f \<leftarrow> figli_contati t. conta_nodi f))"
    by (intro unat_fold_sat64) (simp add: size_figli_contati)
  then show ?case
    by (subst nodi_figli, subst conta_nodi.simps) (simp add: unat_saturating_add64)
qed

fun bitmap_piene :: "array_data \<Rightarrow> nat" where
  "bitmap_piene (ArrayData len bs nulls figli) =
     nat_div_ceil (sat64 len) 8 + (\<Sum>f \<leftarrow> figli. bitmap_piene f)"

lemma unat_validita_piena [unats]: "unat (validita_piena d) = sat64 (bitmap_piene d)"
proof (induction d rule: bitmap_piene.induct)
  case (1 len bs nulls figli)
  then show ?case
    by (simp add: unat_fold_sat64 unat_div_ceil unat_in_u64)
qed

function byte_per_riga :: "data_type \<Rightarrow> bool \<Rightarrow> nat" where
  "byte_per_riga t generico =
     (case t of
        FixedSizeList c d \<Rightarrow> unat (u64_from_i32 d) * (16 + byte_per_riga (campo_tipo c) True)
      | Union campi \<Rightarrow> (\<Sum>c \<leftarrow> campi. 16 + byte_per_riga (campo_tipo (snd c)) True)
      | ListOf c \<Rightarrow> of_bool generico * 16 + byte_per_riga (campo_tipo c) generico
      | LargeListOf c \<Rightarrow> of_bool generico * 16 + byte_per_riga (campo_tipo c) generico
      | ListView c \<Rightarrow> of_bool generico * 16 + byte_per_riga (campo_tipo c) generico
      | LargeListView c \<Rightarrow> of_bool generico * 16 + byte_per_riga (campo_tipo c) generico
      | MapOf c _ \<Rightarrow> of_bool generico * 16 + byte_per_riga (campo_tipo c) generico
      | Struct campi \<Rightarrow> (\<Sum>c \<leftarrow> campi. of_bool generico * 16 + byte_per_riga (campo_tipo c) generico)
      | _ \<Rightarrow> 0)"
  by auto
termination byte_per_riga
  by (relation "measure (\<lambda>(t, _). size t)") (auto simp: less_Suc_eq_le intro: size_campi)

declare byte_per_riga.simps [simp del]

lemma unat_proprio: "unat (proprio_preallocato r g) = sat64 (unat r * (of_bool g * 16))"
  by (simp add: proprio_preallocato_def LARGHEZZA_PREALLOCATA_def unat_saturating_mul64 sat64_def)

lemma sum_list_scaled: "(\<Sum>x \<leftarrow> xs. k * f x) = k * (\<Sum>x \<leftarrow> xs. f x :: nat)"
  by (induction xs) (simp_all add: algebra_simps)

lemma unat_preallocati [unats]: "unat (preallocati t r g) = sat64 (unat r * byte_per_riga t g)"
proof (induction t arbitrary: r g rule: measure_induct_rule [of size])
  case (less t)
  have figlio: "unat (saturating_add (proprio_preallocato s h) (preallocati f s h))
      = sat64 (unat s * (of_bool h * 16 + byte_per_riga f h))" if "size f < size t" for f s h
    using less [OF that, of s h]
    by (simp add: unat_saturating_add64 unat_proprio add_mult_distrib2)
  have somma: "unat (fold (\<lambda>x tot. saturating_add tot (h x)) xs 0) = sat64 (unat r * (\<Sum>x \<leftarrow> xs. k x))"
    if "\<And>x. x \<in> set xs \<Longrightarrow> unat (h x :: u64) = sat64 (unat r * k x)" for h k and xs :: "'x list"
    using unat_fold_sat64 [of xs h "\<lambda>x. unat r * k x" 0] that by (simp add: sum_list_scaled)
  show ?case
  proof (cases t)
    case (Struct campi)
    show ?thesis
      unfolding Struct preallocati.simps [of "Struct campi"] byte_per_riga.simps [of "Struct campi"] data_type.case
      by (rule somma, rule figlio) (simp add: Struct less_Suc_eq_le size_campi)
  next
    case (Union campi)
    have small: "size (campo_tipo (snd c)) < size t" if "c \<in> set campi" for c
      using that Union size_campo_union [of c campi] by simp
    show ?thesis
      unfolding Union preallocati.simps [of "Union campi"] byte_per_riga.simps [of "Union campi"] data_type.case
    proof (rule somma)
      fix c
      assume "c \<in> set campi"
      from figlio [OF small [OF this], of r True]
      show "unat (saturating_add (proprio_preallocato r True) (preallocati (campo_tipo (snd c)) r True))
          = sat64 (unat r * (16 + byte_per_riga (campo_tipo (snd c)) True))" by simp
    qed
  next
    case (FixedSizeList c d)
    have "size (campo_tipo c) < size t" using FixedSizeList size_campo_tipo [of c] by simp
    from figlio [OF this, of "saturating_mul r (u64_from_i32 d)" True] show ?thesis
      unfolding FixedSizeList
      by (subst preallocati.simps, subst byte_per_riga.simps)
        (simp add: Let_def unat_saturating_mul64 mult.assoc)
  qed (insert less, (subst preallocati.simps, subst byte_per_riga.simps,
        simp add: figlio size_campo_tipo_le less_Suc_eq_le sat64_def)+)
qed

definition somma_tabelle :: "(tabella \<Rightarrow> nat) \<Rightarrow> tabella list \<Rightarrow> nat" where
  "somma_tabelle f blocchi = (\<Sum>b \<leftarrow> blocchi. f b)"

text \<open>The documented estimate: the blocks, twice the copy with its validity bitmaps, the preallocated
  children, and \<open>5 * 64\<close> bytes per node of the schema.\<close>

definition picco_formula :: "nat \<Rightarrow> tabella list \<Rightarrow> nat" where
  "picco_formula um blocchi =
     (let campi = (case blocchi of [] \<Rightarrow> [] | b # _ \<Rightarrow> s_campi (t_schema b))
      in somma_tabelle (\<lambda>b. \<Sum>c \<leftarrow> t_colonne b. memory_size c) blocchi
         + 2 * somma_tabelle (\<lambda>b. byte_dati um b + (\<Sum>c \<leftarrow> t_colonne b. bitmap_piene (to_data c))) blocchi
         + somma_tabelle t_righe blocchi * (\<Sum>c \<leftarrow> campi. byte_per_riga (campo_tipo c) False)
         + 320 * (\<Sum>c \<leftarrow> campi. conta_nodi (campo_tipo c)))"

lemma fold_coppie:
  "fold (\<lambda>x (a, b). (f x a, g x b)) xs (a, b) = (fold f xs a, fold g xs b)"
  by (induction xs arbitrary: a b) auto

lemma unat_picco_unione: "unat (picco_unione um blocchi) = sat64 (picco_formula um blocchi)"
proof -
  let ?orig = "\<lambda>b :: tabella. \<Sum>c \<leftarrow> t_colonne b. memory_size c"
  let ?copia = "\<lambda>b :: tabella. byte_dati um b + (\<Sum>c \<leftarrow> t_colonne b. bitmap_piene (to_data c))"
  define campi where "campi = (case blocchi of [] \<Rightarrow> [] | b # _ \<Rightarrow> s_campi (t_schema b))"
  define fo where "fo b a = fold (\<lambda>c s. saturating_add s (in_u64 (memory_size c))) (t_colonne b) a" for b :: tabella and a
  define fc where "fc b a = fold (\<lambda>c s. saturating_add s (validita_piena (to_data c))) (t_colonne b)
      (saturating_add a (in_u64 (byte_dati um b)))" for b :: tabella and a
  have fo: "unat (fo b a) = sat64 (unat a + ?orig b)" for b a
    unfolding fo_def by (rule unat_fold_sat64) (rule unat_in_u64)
  have fc: "unat (fc b a) = sat64 (unat a + ?copia b)" for b a
    unfolding fc_def
    by (subst unat_fold_sat64 [OF unat_validita_piena])
      (simp add: unat_saturating_add64 unat_in_u64 add.assoc)
  have rip: "unat (fold h bl a) = sat64 (unat a + somma_tabelle k bl)"
    if "\<And>b a. unat (h b a :: u64) = sat64 (unat a + k b)" for h k bl a
    by (induction bl arbitrary: a) (simp_all add: that somma_tabelle_def add.assoc)
  have coppia: "fold (\<lambda>b (a, c). fold (\<lambda>x (a, c). (saturating_add a (in_u64 (memory_size x)),
          saturating_add c (validita_piena (to_data x)))) (t_colonne b)
        (a, saturating_add c (in_u64 (byte_dati um b)))) blocchi (0, 0)
      = (fold fo blocchi 0, fold fc blocchi 0)"
    by (simp add: fold_coppie fo_def [abs_def] fc_def [abs_def])
  have n: "unat (fold (\<lambda>c s. saturating_add s (nodi (campo_tipo c))) campi 0)
      = sat64 (\<Sum>c \<leftarrow> campi. conta_nodi (campo_tipo c))"
    by (subst unat_fold_sat64 [OF unat_nodi]) simp
  have r: "unat (fold (\<lambda>b s. saturating_add s (in_u64 (t_righe b))) blocchi 0) = sat64 (somma_tabelle t_righe blocchi)"
    by (subst unat_fold_sat64 [OF unat_in_u64]) (simp add: somma_tabelle_def)
  have g: "unat (fold (\<lambda>c s. saturating_add s (preallocati (campo_tipo c) w False)) campi 0)
      = sat64 (unat w * (\<Sum>c \<leftarrow> campi. byte_per_riga (campo_tipo c) False))" for w
    by (subst unat_fold_sat64 [OF unat_preallocati]) (simp add: sum_list_scaled)
  have per_nodo: "unat (BUFFER_PER_NODO + 1) * unat ARROTONDAMENTO = 320"
    by (simp add: BUFFER_PER_NODO_def ARROTONDAMENTO_def)
  have due: "unat (2 :: u64) = 2" "unat (0 :: u64) = 0" by simp_all
  have "unat (picco_unione um blocchi) =
      sat64 (somma_tabelle ?orig blocchi + somma_tabelle ?copia blocchi * 2
        + somma_tabelle t_righe blocchi * (\<Sum>c \<leftarrow> campi. byte_per_riga (campo_tipo c) False)
        + (\<Sum>c \<leftarrow> campi. conta_nodi (campo_tipo c)) * 320)"
    unfolding picco_unione_def coppia Let_def campi_def [symmetric] prod.case
    by (simp only: unat_saturating_add64 unat_saturating_mul64 n r g rip [OF fo] rip [OF fc]
        per_nodo due add_0 sat64_add sat64_mult_left sat64_mult_right)
  then show ?thesis
    unfolding picco_formula_def campi_def [symmetric] Let_def by (simp only: mult.commute)
qed

section \<open>Properties\<close>

text \<open>C5. The live bytes of tables count each allocation once, at the greatest capacity any of their buffers
  declares for it: \<open>byte_vivi\<close> succeeds exactly when that sum has 64 bits and then gives it. Tables whose
  buffers are already reached (a slice, a renaming, a selection of columns) add nothing, in any order,
  and the figure of a collection never exceeds the sum of its parts.\<close>

theorem byte_vivi_counts_allocations_once:
  "(byte_vivi ts = Inr n \<longleftrightarrow> unat n = residenti (buffer_insieme (set ts)))
   \<and> (buffer_insieme (set us) \<subseteq> buffer_insieme (set ts) \<longrightarrow>
        (byte_vivi (us @ ts) = Inr n \<longleftrightarrow> byte_vivi ts = Inr n))
   \<and> residenti (buffer_insieme (set (us @ ts)))
       \<le> residenti (buffer_insieme (set us)) + residenti (buffer_insieme (set ts))"
proof (intro conjI impI)
  have union: "buffer_insieme (set (us @ ts)) = buffer_insieme (set us) \<union> buffer_insieme (set ts)"
    by (auto simp: buffer_insieme_def)
  show "byte_vivi ts = Inr n \<longleftrightarrow> unat n = residenti (buffer_insieme (set ts))"
    by (rule vivi.misura_iff)
  show "byte_vivi (us @ ts) = Inr n \<longleftrightarrow> byte_vivi ts = Inr n"
    if "buffer_insieme (set us) \<subseteq> buffer_insieme (set ts)"
    using that unfolding vivi.misura_iff union by (simp add: Un_absorb1)
  show "residenti (buffer_insieme (set (us @ ts)))
       \<le> residenti (buffer_insieme (set us)) + residenti (buffer_insieme (set ts))"
    unfolding union by (rule residenti_union_le) (simp_all add: buffer_insieme_set)
qed

definition tabella_di_prova :: "string \<Rightarrow> tabella" where
  "tabella_di_prova nome =
     \<lparr>t_schema = \<lparr>s_campi = [Field nome Utf8 False []], s_metadati = []\<rparr>,
      t_colonne = [\<lparr>to_data = ArrayData 3 [\<lparr>allocazione = 4096, capacita = 64, lunghezza = 24\<rparr>] None [],
        memory_size = 64\<rparr>],
      t_righe = 3\<rparr>"

theorem byte_vivi_counts_allocations_once_witness:
  "byte_vivi ([tabella_di_prova ''rinominata''] @ [tabella_di_prova ''originale'']) = Inr 64
     \<longleftrightarrow> byte_vivi [tabella_di_prova ''originale''] = Inr 64"
  using byte_vivi_counts_allocations_once [of "[tabella_di_prova ''originale'']" 64
      "[tabella_di_prova ''rinominata'']"]
  by (simp add: buffer_insieme_def tabella_di_prova_def)

text \<open>The estimate of the peak of a union of blocks is the documented formula over the naturals, cut at
  the greatest 64-bit number: the blocks, plus twice the copy with a full validity bitmap on every node,
  plus the children the generic path preallocates (16 bytes per row and node, times the fixed sizes on
  the way), plus 320 bytes for every node of the schema. No intermediate saturation changes it.\<close>

theorem picco_unione_formula:
  "unat (picco_unione um blocchi) = min (picco_formula um blocchi) (2 ^ 64 - 1)"
  using unat_picco_unione [of um blocchi] by (simp only: sat64_def)

end
