(* ===== verification/Plan.thy ===== *)
theory Plan
  imports RunLimits
begin

text \<open>
  The plan: \<open>crates/plenora-pipeline/src/piano.rs\<close>.

  The configuration of a step is a JSON value, the type variable \<open>'c\<close> here: the runner only measures
  it and hands it to the analysis. The reading from the text is not part of the model: \<open>from_json\<close>
  is serde's, after the checks of \<open>json.rs\<close>.
\<close>

definition VERSIONE_PIANO :: nat where
  "VERSIONE_PIANO = 1"

record limiti_parziali =
  lp_max_input_rows :: "u64 option"
  lp_max_output_rows :: "u64 option"
  lp_max_rows_per_edge :: "u64 option"
  lp_max_expansion_factor :: "f64 option"
  lp_max_governed_memory_bytes :: "u64 option"
  lp_max_string_bytes :: "nat option"
  lp_max_regex_bytes :: "nat option"

definition limiti_parziali_default :: limiti_parziali where
  "limiti_parziali_default =
     \<lparr>lp_max_input_rows = None, lp_max_output_rows = None, lp_max_rows_per_edge = None,
      lp_max_expansion_factor = None, lp_max_governed_memory_bytes = None,
      lp_max_string_bytes = None, lp_max_regex_bytes = None\<rparr>"

record 'c passo =
  p_out :: string
  p_op :: string
  p_inputs :: "string list"
  p_config :: 'c

record 'c pipeline =
  pl_version :: nat
  pl_inputs :: "string list"
  pl_crs :: "string option"
  pl_limits :: "limiti_parziali option"
  pl_steps :: "'c passo list"
  pl_outputs :: "string list"

text \<open>One \<open>if let Some(valore) = self.campo { ... }\<close>.\<close>

definition sostituisci :: "('v \<Rightarrow> 'l \<Rightarrow> 'l) \<Rightarrow> 'v option \<Rightarrow> 'l \<Rightarrow> 'l" where
  "sostituisci scrivi x l = (case x of None \<Rightarrow> l | Some valore \<Rightarrow> scrivi valore l)"

definition applica_campi :: "limiti_parziali \<Rightarrow> limits \<Rightarrow> limits" where
  "applica_campi lp l =
     (let l = sostituisci (\<lambda>v l. l\<lparr>rows := rows l\<lparr>max_input_rows := v\<rparr>\<rparr>) (lp_max_input_rows lp) l;
          l = sostituisci (\<lambda>v l. l\<lparr>rows := rows l\<lparr>max_output_rows := v\<rparr>\<rparr>) (lp_max_output_rows lp) l;
          l = sostituisci (\<lambda>v l. l\<lparr>rows := rows l\<lparr>max_rows_per_edge := v\<rparr>\<rparr>) (lp_max_rows_per_edge lp) l;
          l = sostituisci (\<lambda>v l. l\<lparr>rows := rows l\<lparr>max_expansion_factor := v\<rparr>\<rparr>)
                (lp_max_expansion_factor lp) l;
          l = sostituisci (\<lambda>v l. l\<lparr>max_governed_memory_bytes := v\<rparr>) (lp_max_governed_memory_bytes lp) l;
          l = sostituisci (\<lambda>v l. l\<lparr>max_string_bytes := v\<rparr>) (lp_max_string_bytes lp) l
      in sostituisci (\<lambda>v l. l\<lparr>max_regex_bytes := v\<rparr>) (lp_max_regex_bytes lp) l)"

definition applica :: "limiti_parziali \<Rightarrow> limits result" where
  "applica lp =
     (let limiti = applica_campi lp limits_default
      in try_bind (limits_validate limiti) (\<lambda>_. Inr limiti))"

section \<open>Lemmas\<close>

definition valore_o :: "'v option \<Rightarrow> 'v \<Rightarrow> 'v" where
  "valore_o x d = (case x of None \<Rightarrow> d | Some v \<Rightarrow> v)"

text \<open>Every field on its own: the declared value, or the one that was there.\<close>

lemma applica_campi_eq:
  "applica_campi lp l =
     l\<lparr>rows :=
         \<lparr>max_input_rows = valore_o (lp_max_input_rows lp) (max_input_rows (rows l)),
          max_output_rows = valore_o (lp_max_output_rows lp) (max_output_rows (rows l)),
          max_rows_per_edge = valore_o (lp_max_rows_per_edge lp) (max_rows_per_edge (rows l)),
          max_expansion_factor = valore_o (lp_max_expansion_factor lp) (max_expansion_factor (rows l))\<rparr>,
       max_governed_memory_bytes :=
         valore_o (lp_max_governed_memory_bytes lp) (max_governed_memory_bytes l),
       max_string_bytes := valore_o (lp_max_string_bytes lp) (max_string_bytes l),
       max_regex_bytes := valore_o (lp_max_regex_bytes lp) (max_regex_bytes l)\<rparr>"
  by (cases l; cases lp) (auto simp: applica_campi_def sostituisci_def valore_o_def Let_def split: option.splits)

lemma applica_Inr [results]:
  "applica lp = Inr l \<longleftrightarrow> l = applica_campi lp limits_default \<and> limits_validate l = Inr ()"
  by (auto simp: applica_def Let_def results)

lemma applica_default: "applica limiti_parziali_default = Inr limits_default"
proof -
  have "applica_campi limiti_parziali_default limits_default = limits_default"
    by (simp add: applica_campi_eq limiti_parziali_default_def valore_o_def)
  moreover have "limits_validate limits_default = Inr ()"
    by (rule limits_default_valid)
  ultimately show ?thesis by (simp add: results)
qed

end
