(* ===== verification/Validation.thy ===== *)
theory Validation
  imports Plan Memory CostData
begin

text \<open>
  The validation of a plan: \<open>crates/plenora-pipeline/src/validazione.rs\<close>.

  What the model keeps whole: the naming rules, the limits of the plan, the schemas given for the
  inputs, the normalisation of schemas, and per step the operation, the arity, the cost model, the
  base of the row indices and the provenance. What a step means to a kernel is decided by code outside
  this development: the reading of the contracts, the analyses, the preparation of the configuration.
  These are the functions of the record \<open>analisi\<close>, over contracts \<open>'k\<close>, configurations \<open>'c\<close>, prepared
  kernels \<open>'g\<close>, resolved reference systems \<open>'r\<close> and the state \<open>'s\<close> of the analysis (the allocator of
  field ids and the identities seen so far), which is threaded through the calls in the order of the
  code.
\<close>

section \<open>Errors of a step\<close>

fun nel_passo_o_input :: "string \<Rightarrow> plenora_error \<Rightarrow> plenora_error" where
  "nel_passo_o_input contesto (ResourceLimit m) = ResourceLimit (con_prefisso contesto m)"
| "nel_passo_o_input contesto (Internal m) = Internal (con_prefisso contesto m)"
| "nel_passo_o_input contesto (DataMapping m) = DataMapping (con_prefisso contesto m)"
| "nel_passo_o_input contesto altro = con_contesto contesto altro"

definition nel_passo :: "string \<Rightarrow> plenora_error \<Rightarrow> plenora_error" where
  "nel_passo out = nel_passo_o_input (''passo `'' @ out @ ''`'')"

definition input_contesto :: "string \<Rightarrow> string" where
  "input_contesto nome = ''input `'' @ nome @ ''`''"

interpretation passo: context_layer "nel_passo_o_input c"
proof unfold_locales
  fix e
  show "category (nel_passo_o_input c e) = category e"
    by (cases "(c, e)" rule: nel_passo_o_input.cases) (simp_all add: contesto.layer_category del: con_contesto.simps)
  show "remote_effect_of (nel_passo_o_input c e) = remote_effect_of e"
    by (cases "(c, e)" rule: nel_passo_o_input.cases) (simp_all add: contesto.layer_effect del: con_contesto.simps)
  show "code_of (nel_passo_o_input c e) = code_of e"
    by (cases "(c, e)" rule: nel_passo_o_input.cases) (simp_all add: contesto.layer_code del: con_contesto.simps)
  show "phase (nel_passo_o_input c e) = phase e"
    by (cases "(c, e)" rule: nel_passo_o_input.cases) (simp_all add: contesto.layer_phase del: con_contesto.simps)
  show "retry_of (nel_passo_o_input c e) = retry_of e"
    by (cases "(c, e)" rule: nel_passo_o_input.cases) (simp_all add: contesto.layer_retry del: con_contesto.simps)
qed

section \<open>Schemas\<close>

definition METADATI_PANDAS :: string where
  "METADATI_PANDAS = ''pandas''"

definition ha_chiave :: "string \<Rightarrow> (string, string) btree \<Rightarrow> bool" where
  "ha_chiave k m \<longleftrightarrow> bt_get m k \<noteq> None"

definition geometria_large_binary :: "field \<Rightarrow> bool" where
  "geometria_large_binary c \<longleftrightarrow>
     campo_tipo c = LargeBinary \<and>
     bt_get (campo_metadati c) ''ARROW:extension:name'' = Some ''geoarrow.wkb''"

definition normalizza_metadati :: "(string, string) btree \<Rightarrow> (string, string) btree" where
  "normalizza_metadati m =
     (if bt_get m ''ARROW:extension:name'' = Some ''geoarrow.wkb'' \<and>
         (ha_chiave ''plenora.geometry.crs_id'' m \<or> ha_chiave ''plenora.geometry.crs_definition'' m)
      then if ha_chiave ''plenora.geometry.axis_order'' m then m
           else bt_insert ''plenora.geometry.axis_order'' ''unknown'' m
      else m)"

definition normalizza_campo :: "field \<Rightarrow> field" where
  "normalizza_campo c =
     (let campo = Field (campo_nome c) (campo_tipo c) (campo_nullable c)
                    (normalizza_metadati (campo_metadati c))
      in if campo_tipo campo = LargeUtf8 then
           Field (campo_nome campo) Utf8 (campo_nullable campo) (campo_metadati campo)
         else if geometria_large_binary campo then
           Field (campo_nome campo) Binary (campo_nullable campo) (campo_metadati campo)
         else campo)"

definition normalizza_schema :: "arrow_schema \<Rightarrow> arrow_schema" where
  "normalizza_schema s =
     \<lparr>s_campi = map normalizza_campo (s_campi s),
      s_metadati = bt_remove METADATI_PANDAS (s_metadati s)\<rparr>"

section \<open>Limits of the kernels, arity and names\<close>

record kernel_limits =
  kl_max_rows :: nat
  kl_max_columns :: nat
  kl_max_split_columns :: nat
  kl_max_string_bytes :: nat
  kl_max_regex_bytes :: nat
  kl_max_governed_memory_bytes :: nat

definition MAX_COLUMNS :: nat where "MAX_COLUMNS = 4096"

definition MAX_SPLIT_COLUMNS :: nat where "MAX_SPLIT_COLUMNS = 256"

text \<open>\<open>usize::try_from\<close> of a 64-bit value; \<open>um\<close> is \<open>usize::MAX\<close>.\<close>

definition usize_try_from :: "nat \<Rightarrow> u64 \<Rightarrow> nat option" where
  "usize_try_from um x = (if unat x \<le> um then Some (unat x) else None)"

definition stretto :: "nat \<Rightarrow> u64 \<Rightarrow> string \<Rightarrow> nat result" where
  "stretto um valore nome =
     ok_or (ResourceLimit (nome @ '' dichiarato oltre quanto questa piattaforma sa rappresentare''))
       (usize_try_from um valore)"

definition limiti_dei_kernel_tabellari :: "nat \<Rightarrow> limits \<Rightarrow> kernel_limits result" where
  "limiti_dei_kernel_tabellari um l =
     try_bind (stretto um (max_input_rows (rows l)) ''max_input_rows'') (\<lambda>r.
     try_bind (stretto um (max_governed_memory_bytes l) ''max_governed_memory_bytes'') (\<lambda>g.
     Inr \<lparr>kl_max_rows = r, kl_max_columns = MAX_COLUMNS, kl_max_split_columns = MAX_SPLIT_COLUMNS,
          kl_max_string_bytes = max_string_bytes l, kl_max_regex_bytes = max_regex_bytes l,
          kl_max_governed_memory_bytes = g\<rparr>))"

definition verifica_arieta :: "operation_descriptor \<Rightarrow> nat \<Rightarrow> unit result" where
  "verifica_arieta d ricevuti =
     (case arity d of
        Unary \<Rightarrow>
          if ricevuti \<noteq> 1 then
            Inl (InvalidPlan (op_id d @ '': atteso 1 input, ricevuti '' @ show_nat ricevuti))
          else Inr ()
      | BinaryOrdered \<Rightarrow>
          if ricevuti \<noteq> 2 then
            Inl (InvalidPlan (op_id d @ '': attesi 2 input (left, right), ricevuti '' @ show_nat ricevuti))
          else Inr ()
      | NAry \<Rightarrow>
          if ricevuti < 2 then
            Inl (InvalidPlan (op_id d @ '': attesi almeno 2 input, ricevuti '' @ show_nat ricevuti))
          else if ricevuti > 2 then
            Inl (Unsupported (op_id d @ '' con '' @ show_nat ricevuti @
              '' input: sono supportati al massimo 2 input, l'esecuzione N-aria non e' implementata''))
          else Inr ())"

definition verifica_nome :: "string \<Rightarrow> string \<Rightarrow> plan_limits \<Rightarrow> unit result" where
  "verifica_nome nome ruolo l =
     (if nome = [] then Inl (InvalidPlan (ruolo @ '': nome vuoto''))
      else if length nome > max_identifier_bytes l then
        Inl (InvalidPlan (ruolo @ '': nome di '' @ show_nat (length nome) @
          '' byte oltre max_identifier_bytes '' @ show_nat (max_identifier_bytes l)))
      else Inr ())"

definition oltre :: "string \<Rightarrow> nat \<Rightarrow> nat \<Rightarrow> unit result" where
  "oltre nome valore massimo =
     (if valore > massimo then
        Inl (InvalidPlan (nome @ '': '' @ show_nat valore @ '' oltre il limite '' @ show_nat massimo))
      else Inr ())"

section \<open>The limits of the plan\<close>

definition backtick :: "string \<Rightarrow> string" where
  "backtick s = ''`'' @ s @ ''`''"

definition visita_sorgente ::
    "plan_limits \<Rightarrow> (string, nat) btree \<Rightarrow> (string, nat) btree \<times> nat \<Rightarrow> string \<Rightarrow>
     ((string, nat) btree \<times> nat) result" where
  "visita_sorgente l profondita s sorgente =
     (case s of (consumatori, livello) \<Rightarrow>
       let uso = (case bt_get consumatori sorgente of None \<Rightarrow> 0 | Some n \<Rightarrow> n) + 1;
           consumatori = bt_insert sorgente uso consumatori
       in try_bind (oltre (backtick sorgente @ '': max_fan_out'') uso (max_fan_out l)) (\<lambda>_.
          Inr (consumatori,
               max livello (case bt_get profondita sorgente of None \<Rightarrow> 0 | Some n \<Rightarrow> n))))"

definition visita_passo ::
    "('c \<Rightarrow> nat option) \<Rightarrow> plan_limits \<Rightarrow> (string, nat) btree \<times> (string, nat) btree \<Rightarrow> 'c passo \<Rightarrow>
     ((string, nat) btree \<times> (string, nat) btree) result" where
  "visita_passo byte_config l s p =
     (case s of (consumatori, profondita) \<Rightarrow>
       try_bind (ok_or (InvalidPlan ''config non serializzabile'') (byte_config (p_config p))) (\<lambda>n.
       try_bind (oltre (''passo '' @ backtick (p_out p) @ '': max_config_bytes_per_node'') n
         (max_config_bytes_per_node l)) (\<lambda>_.
       try_bind (try_fold (visita_sorgente l profondita) (consumatori, 0) (p_inputs p))
         (\<lambda>(consumatori, livello).
       let livello = livello + 1 in
       try_bind (oltre (''passo '' @ backtick (p_out p) @ '': max_plan_depth'') livello
         (max_plan_depth l)) (\<lambda>_.
       Inr (consumatori, bt_insert (p_out p) livello profondita))))))"

definition verifica_limiti_del_piano ::
    "('c \<Rightarrow> nat option) \<Rightarrow> 'c pipeline \<Rightarrow> plan_limits \<Rightarrow> unit result" where
  "verifica_limiti_del_piano byte_config piano l =
     try_bind (oltre ''max_inputs'' (length (pl_inputs piano)) (max_inputs l)) (\<lambda>_.
     try_bind (oltre ''max_plan_nodes'' (length (pl_steps piano)) (max_plan_nodes l)) (\<lambda>_.
     try_bind (oltre ''max_plan_edges'' (\<Sum>p \<leftarrow> pl_steps piano. length (p_inputs p)) (max_plan_edges l)) (\<lambda>_.
     map_ok (\<lambda>_. ()) (try_fold (visita_passo byte_config l) ([], []) (pl_steps piano)))))"

section \<open>The names of a plan\<close>

definition dichiara_input :: "plan_limits \<Rightarrow> string set \<Rightarrow> string \<Rightarrow> string set result" where
  "dichiara_input l definiti nome =
     try_bind (verifica_nome nome ''input'' l) (\<lambda>_.
     if nome \<in> definiti then
       Inl (InvalidPlan (''input '' @ backtick nome @ '' dichiarato due volte''))
     else Inr (insert nome definiti))"

definition dichiara_passo :: "plan_limits \<Rightarrow> string set \<Rightarrow> 'c passo \<Rightarrow> string set result" where
  "dichiara_passo l definiti p =
     try_bind (verifica_nome (p_out p) ''passo'' l) (\<lambda>_.
     try_bind (try_fold (\<lambda>_ sorgente.
         if sorgente \<notin> definiti then
           Inl (InvalidPlan (''passo '' @ backtick (p_out p) @ '': '' @ backtick sorgente @
             '' non e' definito prima del passo''))
         else Inr ()) () (p_inputs p)) (\<lambda>_.
     if p_out p \<in> definiti then
       Inl (InvalidPlan (backtick (p_out p) @
         '' e' gia' definito: ogni nome si definisce una volta sola''))
     else Inr (insert (p_out p) definiti)))"

definition dichiara_output :: "string set \<Rightarrow> string set \<Rightarrow> string \<Rightarrow> string set result" where
  "dichiara_output definiti dichiarati nome =
     (if nome \<notin> definiti then
        Inl (InvalidPlan (''output '' @ backtick nome @ '' non definito dal piano''))
      else if nome \<in> dichiarati then
        Inl (InvalidPlan (''output '' @ backtick nome @ '' dichiarato due volte''))
      else Inr (insert nome dichiarati))"

definition verifica_nomi :: "plan_limits \<Rightarrow> 'c pipeline \<Rightarrow> unit result" where
  "verifica_nomi l p =
     try_bind (try_fold (dichiara_input l) {} (pl_inputs p)) (\<lambda>definiti.
     try_bind (try_fold (dichiara_passo l) definiti (pl_steps p)) (\<lambda>definiti.
     try_bind (ensure (pl_outputs p \<noteq> []) (InvalidPlan ''il piano non dichiara output'')) (\<lambda>_.
     map_ok (\<lambda>_. ()) (try_fold (dichiara_output definiti) {} (pl_outputs p)))))"

section \<open>The schemas of the inputs\<close>

definition fornisci ::
    "(string, arrow_schema) btree \<Rightarrow> string \<times> arrow_schema \<Rightarrow> (string, arrow_schema) btree result" where
  "fornisci forniti ns =
     (case ns of (nome, schema) \<Rightarrow>
       if bt_get forniti nome \<noteq> None then
         Inl (InvalidPlan (''schema di input duplicato per '' @ backtick nome))
       else Inr (bt_insert nome schema forniti))"

definition schemi_forniti ::
    "string list \<Rightarrow> (string \<times> arrow_schema) list \<Rightarrow> (string, arrow_schema) btree result" where
  "schemi_forniti inputs schemas =
     try_bind (try_fold fornisci [] schemas) (\<lambda>forniti.
     case List.find (\<lambda>dichiarato. bt_get forniti dichiarato = None) inputs of
       Some dichiarato \<Rightarrow> Inl (InvalidPlan (''manca lo schema dell'input '' @ backtick dichiarato))
     | None \<Rightarrow>
         (case List.find (\<lambda>nome. nome \<notin> set inputs) (bt_keys forniti) of
            Some extra \<Rightarrow>
              Inl (InvalidPlan (''schema fornito per '' @ backtick extra @
                '', non dichiarato tra gli input del piano''))
          | None \<Rightarrow> Inr forniti))"

section \<open>The validated plan\<close>

datatype base_indici = Sorgente | SenzaAttribuzione

datatype 'g kernel_passo = Tabellare 'g | PassoDiGeo 'g

record 'g passo_validato =
  pv_out :: string
  pv_descrittore :: operation_descriptor
  pv_inputs :: "string list"
  pv_kernel :: "'g kernel_passo"
  pv_costo :: costo_operazione
  pv_righe_previste :: u64
  pv_base_indici :: base_indici
  pv_colonne_uscita :: u64
  pv_moltiplicatore :: "u64 option"

record ('k, 'g, 'r) pipeline_validata =
  vd_inputs :: "string list"
  vd_schemi_input :: "(string, arrow_schema) btree"
  vd_passi :: "'g passo_validato list"
  vd_outputs :: "string list"
  vd_contratti :: "(string, 'k) btree"
  vd_schemi_uscita :: "(string, arrow_schema) btree"
  vd_limiti :: limits
  vd_limiti_kernel :: kernel_limits
  vd_crs_piano :: "'r option"

definition base_indici_di :: "('k, 'g, 'r) pipeline_validata \<Rightarrow> string \<Rightarrow> base_indici option" where
  "base_indici_di v out =
     map_option pv_base_indici (List.find (\<lambda>p. pv_out p = out) (vd_passi v))"

text \<open>
  What the validation calls outside this development. \<open>an_contratto_input\<close> is the whole reading of an
  input contract (from its name and normalised schema), before the count of its columns;
  \<open>an_contratto_valido\<close> is \<open>DataContract::validate\<close>; \<open>an_primaria\<close> finds the column of the active
  geometry and \<open>an_pubblica\<close> decides the schema an output carries.
\<close>

record ('c, 'k, 'g, 'r, 's) analisi =
  an_byte_config :: "'c \<Rightarrow> nat option"
  an_risolvi_crs :: "string \<Rightarrow> 'r result"
  an_stato_iniziale :: "'s"
  an_contratto_input :: "string \<Rightarrow> arrow_schema \<Rightarrow> 's \<Rightarrow> ('k \<times> 's) result"
  an_contratto_valido :: "'k \<Rightarrow> unit result"
  an_canonico :: "'k \<Rightarrow> 's \<Rightarrow> ('k \<times> 's) result"
  an_schema :: "'k \<Rightarrow> arrow_schema"
  an_prepara :: "string \<Rightarrow> 'c \<Rightarrow> 'g result"
  an_moltiplicatore :: "'g \<Rightarrow> arrow_schema \<Rightarrow> u64 option"
  an_tabella :: "string \<Rightarrow> 'k list \<Rightarrow> 'c \<Rightarrow> 's \<Rightarrow> kernel_limits \<Rightarrow> ('k \<times> 's) result"
  an_ambiente :: "'g \<Rightarrow> unit result"
  an_geo :: "string \<Rightarrow> 'k list \<Rightarrow> 'c \<Rightarrow> 'r option \<Rightarrow> 's \<Rightarrow> ('k \<times> 's) result"
  an_prepara_geo :: "operation_descriptor \<Rightarrow> 'c \<Rightarrow> 'k list \<Rightarrow> 'k \<Rightarrow> limits \<Rightarrow> bool \<Rightarrow> 'g result"
  an_righe_previste :: "'k \<Rightarrow> u64"
  an_primaria :: "'k \<Rightarrow> nat option result"
  an_pubblica :: "'k \<Rightarrow> nat option \<Rightarrow> 's \<Rightarrow> (arrow_schema \<times> 's) result"

definition verifica_colonne :: "('c, 'k, 'g, 'r, 's) analisi \<Rightarrow> 'k \<Rightarrow> nat \<Rightarrow> unit result" where
  "verifica_colonne an k massimo =
     (let colonne = length (s_campi (an_schema an k))
      in if colonne > massimo then
           Inl (ResourceLimit (''schema con '' @ show_nat colonne @ '' colonne oltre il limite '' @
             show_nat massimo))
         else an_contratto_valido an k)"

section \<open>The inputs\<close>

record ('k, 's) stato_validazione =
  sv_analisi :: "'s"
  sv_schemi :: "(string, arrow_schema) btree"
  sv_contratti :: "(string, 'k) btree"
  sv_provenance :: "(string, bool) btree"

definition valida_input ::
    "('c, 'k, 'g, 'r, 's) analisi \<Rightarrow> kernel_limits \<Rightarrow> (string, arrow_schema) btree \<Rightarrow>
     ('k, 's) stato_validazione \<Rightarrow> string \<Rightarrow> ('k, 's) stato_validazione result" where
  "valida_input an kl forniti st nome =
     try_bind (ok_or (Internal ''schema di input non risolto dopo il controllo'') (bt_get forniti nome))
       (\<lambda>schema.
     let normalizzato = normalizza_schema schema in
     try_bind (an_contratto_input an nome normalizzato (sv_analisi st)) (\<lambda>(letto, s).
     try_bind (map_err (nel_passo_o_input (input_contesto nome))
         (verifica_colonne an letto (kl_max_columns kl))) (\<lambda>_.
     try_bind (map_err (nel_passo_o_input (input_contesto nome)) (an_canonico an letto s)) (\<lambda>(letto, s).
     Inr \<lparr>sv_analisi = s,
          sv_schemi = bt_insert nome normalizzato (sv_schemi st),
          sv_contratti = bt_insert nome letto (sv_contratti st),
          sv_provenance = bt_insert nome True (sv_provenance st)\<rparr>))))"

section \<open>The steps\<close>

text \<open>The first checks of a step: the operation, its canonical id, the number of inputs.\<close>

definition operazione_del_passo :: "'c passo \<Rightarrow> operation_descriptor result" where
  "operazione_del_passo p =
     try_bind (ok_or (nel_passo (p_out p) (Unsupported (p_op p @ '': operazione sconosciuta'')))
       (find_operation (p_op p))) (\<lambda>d.
     try_bind (ensure (op_id d = p_op p) (nel_passo (p_out p)
       (InvalidPlan (backtick (p_op p) @ '' e' un alias legacy: il piano usa l'id canonico '' @
         backtick (op_id d))))) (\<lambda>_.
     try_bind (map_err (nel_passo (p_out p)) (verifica_arieta d (length (p_inputs p)))) (\<lambda>_.
     Inr d)))"

definition righe_della_sorgente :: "(string, bool) btree \<Rightarrow> string list \<Rightarrow> bool" where
  "righe_della_sorgente provenance inputs =
     (case inputs of [] \<Rightarrow> False
      | sorgente # _ \<Rightarrow> (case bt_get provenance sorgente of None \<Rightarrow> False | Some b \<Rightarrow> b))"

definition contratti_in_ingresso :: "(string, 'k) btree \<Rightarrow> string list \<Rightarrow> 'k list result" where
  "contratti_in_ingresso contratti inputs =
     try_map (\<lambda>sorgente. ok_or (Internal (''contratto di '' @ backtick sorgente @
         '' non risolto dalla validazione'')) (bt_get contratti sorgente)) inputs"

text \<open>The output contract, the kernel and the rows known in advance, for the two families.\<close>

definition analizza_passo ::
    "('c, 'k, 'g, 'r, 's) analisi \<Rightarrow> limits \<Rightarrow> kernel_limits \<Rightarrow> 'r option \<Rightarrow> string list \<Rightarrow>
     operation_descriptor \<Rightarrow> 'g option \<Rightarrow> 'k list \<Rightarrow> 'c passo \<Rightarrow> 's \<Rightarrow>
     ('k \<times> 'g kernel_passo \<times> u64 \<times> 's) result" where
  "analizza_passo an l kl crs outputs d preparato ingressi p s =
     (case preparato of
        Some preparato \<Rightarrow>
          try_bind (map_err (nel_passo (p_out p)) (an_tabella an (op_id d) ingressi (p_config p) s kl))
            (\<lambda>(uscita, s).
          try_bind (map_err (nel_passo (p_out p)) (an_ambiente an preparato)) (\<lambda>_.
          Inr (uscita, Tabellare preparato, 0, s)))
      | None \<Rightarrow>
          try_bind (map_err (nel_passo (p_out p)) (an_geo an (op_id d) ingressi (p_config p) crs s))
            (\<lambda>(uscita, s).
          try_bind (map_err (nel_passo (p_out p))
              (an_prepara_geo an d (p_config p) ingressi uscita l (p_out p \<in> set outputs))) (\<lambda>geo.
          Inr (uscita, PassoDiGeo geo, an_righe_previste an uscita, s))))"

definition valida_passo ::
    "('c, 'k, 'g, 'r, 's) analisi \<Rightarrow> limits \<Rightarrow> kernel_limits \<Rightarrow> 'r option \<Rightarrow> string list \<Rightarrow>
     ('k, 's) stato_validazione \<times> 'g passo_validato list \<Rightarrow> 'c passo \<Rightarrow>
     (('k, 's) stato_validazione \<times> 'g passo_validato list) result" where
  "valida_passo an l kl crs outputs stp p =
     (case stp of (st, passi) \<Rightarrow>
       try_bind (operazione_del_passo p) (\<lambda>d.
       try_bind (if family d = Geo then Inr None
                 else map_ok Some (map_err (nel_passo (p_out p)) (an_prepara an (op_id d) (p_config p))))
         (\<lambda>preparato.
       try_bind (ok_or (nel_passo (p_out p) (Unsupported (op_id d @
           '': operazione senza modello di costo per il budget di memoria''))) (costo_di (op_id d)))
         (\<lambda>costo.
       let sorgente = righe_della_sorgente (sv_provenance st) (p_inputs p) in
       try_bind (contratti_in_ingresso (sv_contratti st) (p_inputs p)) (\<lambda>ingressi.
       let moltiplicatore = (case (preparato, ingressi) of
             (Some g, primo # _) \<Rightarrow> an_moltiplicatore an g (an_schema an primo)
           | _ \<Rightarrow> None) in
       try_bind (analizza_passo an l kl crs outputs d preparato ingressi p (sv_analisi st))
         (\<lambda>(uscita, kernel, righe_previste, s).
       try_bind (map_err (nel_passo (p_out p)) (verifica_colonne an uscita (kl_max_columns kl))) (\<lambda>_.
       try_bind (map_err (nel_passo (p_out p)) (an_canonico an uscita s)) (\<lambda>(uscita, s).
       Inr (st\<lparr>sv_analisi := s,
               sv_contratti := bt_insert (p_out p) uscita (sv_contratti st),
               sv_provenance := bt_insert (p_out p)
                 (sorgente \<and> source_row_provenance d = Preserved) (sv_provenance st)\<rparr>,
            passi @ [\<lparr>pv_out = p_out p, pv_descrittore = d, pv_inputs = p_inputs p,
              pv_kernel = kernel, pv_costo = costo, pv_righe_previste = righe_previste,
              pv_base_indici = (if sorgente then Sorgente else SenzaAttribuzione),
              pv_colonne_uscita = in_u64 (length (s_campi (an_schema an uscita))),
              pv_moltiplicatore = moltiplicatore\<rparr>])))))))))"

section \<open>The outputs, and the whole\<close>

definition pubblica_output ::
    "('c, 'k, 'g, 'r, 's) analisi \<Rightarrow> (string, 'k) btree \<Rightarrow> (string, arrow_schema) btree \<times> 's \<Rightarrow> string \<Rightarrow>
     ((string, arrow_schema) btree \<times> 's) result" where
  "pubblica_output an contratti us nome =
     (case us of (uscite, s) \<Rightarrow>
       try_bind (ok_or (Internal (''contratto dell'output '' @ backtick nome @ '' assente''))
         (bt_get contratti nome)) (\<lambda>interno.
       try_bind (an_primaria an interno) (\<lambda>primary.
       try_bind (map_err (nel_passo_o_input (''output '' @ backtick nome)) (an_pubblica an interno primary s))
         (\<lambda>(schema, s). Inr (bt_insert nome schema uscite, s)))))"

definition validate ::
    "nat \<Rightarrow> ('c, 'k, 'g, 'r, 's) analisi \<Rightarrow> 'c pipeline \<Rightarrow> (string \<times> arrow_schema) list \<Rightarrow>
     ('k, 'g, 'r) pipeline_validata result" where
  "validate um an p schemas =
     try_bind (ensure (pl_version p = VERSIONE_PIANO)
       (InvalidPlan (''versione del piano non supportata: attesa '' @ show_nat VERSIONE_PIANO))) (\<lambda>_.
     try_bind (applica (case pl_limits p of None \<Rightarrow> limiti_parziali_default | Some lp \<Rightarrow> lp)) (\<lambda>limiti.
     try_bind (limiti_dei_kernel_tabellari um limiti) (\<lambda>kl.
     try_bind (verifica_nomi plan_limits_default p) (\<lambda>_.
     try_bind (verifica_limiti_del_piano (an_byte_config an) p plan_limits_default) (\<lambda>_.
     try_bind (schemi_forniti (pl_inputs p) schemas) (\<lambda>forniti.
     try_bind (case pl_crs p of None \<Rightarrow> Inr None
               | Some definizione \<Rightarrow> map_ok Some (an_risolvi_crs an definizione)) (\<lambda>crs.
     try_bind (try_fold (valida_input an kl forniti)
         \<lparr>sv_analisi = an_stato_iniziale an, sv_schemi = [], sv_contratti = [], sv_provenance = []\<rparr>
         (pl_inputs p)) (\<lambda>st.
     try_bind (try_fold (valida_passo an limiti kl crs (pl_outputs p)) (st, []) (pl_steps p))
       (\<lambda>(st, passi).
     try_bind (try_fold (pubblica_output an (sv_contratti st)) ([], sv_analisi st) (pl_outputs p))
       (\<lambda>(uscite, _).
     Inr \<lparr>vd_inputs = pl_inputs p, vd_schemi_input = sv_schemi st, vd_passi = passi,
          vd_outputs = pl_outputs p, vd_contratti = sv_contratti st, vd_schemi_uscita = uscite,
          vd_limiti = limiti, vd_limiti_kernel = kl, vd_crs_piano = crs\<rparr>))))))))))"

section \<open>The naming rules\<close>

definition nome_valido :: "plan_limits \<Rightarrow> string \<Rightarrow> bool" where
  "nome_valido l nome \<longleftrightarrow> nome \<noteq> [] \<and> length nome \<le> max_identifier_bytes l"

text \<open>Static single assignment, stated of the plan: unique valid names, sources defined by the inputs or
  by an earlier step, outputs defined and unique.\<close>

definition sorgenti_definite :: "string list \<Rightarrow> string list list \<Rightarrow> string list \<Rightarrow> bool" where
  "sorgenti_definite inputs sorgenti outs \<longleftrightarrow>
     (\<forall>i < length sorgenti. set (sorgenti ! i) \<subseteq> set inputs \<union> set (take i outs))"

definition piano_ssa :: "plan_limits \<Rightarrow> 'c pipeline \<Rightarrow> bool" where
  "piano_ssa l p \<longleftrightarrow>
     (let nomi = pl_inputs p @ map p_out (pl_steps p)
      in distinct nomi \<and> (\<forall>n \<in> set nomi. nome_valido l n)
         \<and> sorgenti_definite (pl_inputs p) (map p_inputs (pl_steps p)) (map p_out (pl_steps p))
         \<and> pl_outputs p \<noteq> [] \<and> distinct (pl_outputs p) \<and> set (pl_outputs p) \<subseteq> set nomi)"

lemma verifica_nome_Inr [results]: "verifica_nome nome ruolo l = Inr u \<longleftrightarrow> nome_valido l nome"
  by (auto simp: verifica_nome_def nome_valido_def)

lemma try_fold_refuse:
  "try_fold (\<lambda>_ x. if P x then Inl (e x) else Inr ()) () xs = Inr () \<longleftrightarrow> (\<forall>x \<in> set xs. \<not> P x)"
  by (induction xs) auto

lemma try_fold_insert:
  assumes "\<And>D x D'. f D x = Inr D' \<longleftrightarrow> Q D x \<and> g x \<notin> D \<and> D' = insert (g x) D"
  shows "try_fold f D xs = Inr D' \<longleftrightarrow>
     distinct (map g xs) \<and> D \<inter> g ` set xs = {} \<and> D' = D \<union> g ` set xs
     \<and> (\<forall>i < length xs. Q (D \<union> g ` set (take i xs)) (xs ! i))"
proof (induction xs arbitrary: D)
  case Nil
  then show ?case by auto
next
  case (Cons x xs)
  have step: "try_fold f D (x # xs) = Inr D' \<longleftrightarrow>
      Q D x \<and> g x \<notin> D \<and> try_fold f (insert (g x) D) xs = Inr D'"
    unfolding try_fold_Cons_Inr assms by blast
  have all: "(\<forall>i < length (x # xs). Q (D \<union> g ` set (take i (x # xs))) ((x # xs) ! i)) \<longleftrightarrow>
      Q D x \<and> (\<forall>i < length xs. Q (insert (g x) D \<union> g ` set (take i xs)) (xs ! i))"
    by (simp only: length_Cons All_less_Suc2) simp
  show ?case unfolding step Cons.IH all by auto
qed

lemma dichiara_input_Inr:
  "dichiara_input l D n = Inr D' \<longleftrightarrow> nome_valido l n \<and> n \<notin> D \<and> D' = insert n D"
  by (auto simp: dichiara_input_def results)

lemma dichiara_passo_Inr:
  "dichiara_passo l D p = Inr D' \<longleftrightarrow>
     (nome_valido l (p_out p) \<and> set (p_inputs p) \<subseteq> D) \<and> p_out p \<notin> D \<and> D' = insert (p_out p) D"
  by (auto simp: dichiara_passo_def results try_fold_refuse)

lemma dichiara_output_Inr:
  "dichiara_output D E n = Inr E' \<longleftrightarrow> n \<in> D \<and> n \<notin> E \<and> E' = insert n E"
  by (auto simp: dichiara_output_def)

lemma verifica_nomi_iff: "verifica_nomi l p = Inr () \<longleftrightarrow> piano_ssa l p"
proof -
  let ?I = "set (pl_inputs p)" and ?O = "p_out ` set (pl_steps p)"
  have inputs: "try_fold (dichiara_input l) {} (pl_inputs p) = Inr D \<longleftrightarrow>
      distinct (pl_inputs p) \<and> D = ?I \<and> (\<forall>n \<in> ?I. nome_valido l n)" for D
    using try_fold_insert [of "dichiara_input l" "\<lambda>_. nome_valido l" "\<lambda>n. n" "{}" "pl_inputs p" D]
      dichiara_input_Inr by (simp add: all_set_conv_all_nth)
  have passi: "try_fold (dichiara_passo l) ?I (pl_steps p) = Inr D \<longleftrightarrow>
      distinct (map p_out (pl_steps p)) \<and> ?I \<inter> ?O = {} \<and> D = ?I \<union> ?O
      \<and> (\<forall>q \<in> set (pl_steps p). nome_valido l (p_out q))
      \<and> sorgenti_definite (pl_inputs p) (map p_inputs (pl_steps p)) (map p_out (pl_steps p))" for D
    using try_fold_insert [of "dichiara_passo l" "\<lambda>D p. nome_valido l (p_out p) \<and> set (p_inputs p) \<subseteq> D"
        p_out ?I "pl_steps p" D, OF dichiara_passo_Inr]
    by (auto simp: sorgenti_definite_def all_set_conv_all_nth take_map)
  have outputs: "try_fold (dichiara_output D) {} (pl_outputs p) = Inr E \<longleftrightarrow>
      distinct (pl_outputs p) \<and> set (pl_outputs p) \<subseteq> D \<and> E = set (pl_outputs p)" for D E
    using try_fold_insert [of "dichiara_output D" "\<lambda>_ n. n \<in> D" "\<lambda>n. n" "{}" "pl_outputs p" E,
        OF dichiara_output_Inr] by (simp add: subset_code(1) all_set_conv_all_nth) blast
  show ?thesis
    unfolding verifica_nomi_def piano_ssa_def Let_def
    by (auto simp: results inputs passi outputs)
qed

section \<open>The limits of the plan\<close>

lemma oltre_Inr [results]: "oltre nome v m = Inr u \<longleftrightarrow> v \<le> m"
  by (auto simp: oltre_def)

text \<open>Uses of a name by the steps, and the chains of steps that end at a name.\<close>

definition usi :: "'c passo list \<Rightarrow> string \<Rightarrow> nat" where
  "usi passi nome = count_list (concat (map p_inputs passi)) nome"

inductive catena :: "'c passo list \<Rightarrow> string \<Rightarrow> nat \<Rightarrow> bool" for passi where
  catena_0: "catena passi nome 0"
| catena_passo: "p \<in> set passi \<Longrightarrow> catena passi (p_out p) 1"
| catena_Suc: "p \<in> set passi \<Longrightarrow> sorgente \<in> set (p_inputs p) \<Longrightarrow> catena passi sorgente k \<Longrightarrow>
    catena passi (p_out p) (Suc k)"

definition letto :: "(string, nat) btree \<Rightarrow> string \<Rightarrow> nat" where
  "letto m n = (case bt_get m n of None \<Rightarrow> 0 | Some k \<Rightarrow> k)"

lemma letto_simps [simp]:
  "letto [] n = 0"
  "letto (bt_insert k v m) n = (if n = k then v else letto m n)"
  by (simp_all add: letto_def bt_simps)

lemma visita_sorgente_Inr:
  "visita_sorgente l prof (cons, livello) x = Inr s \<longleftrightarrow>
     letto cons x + 1 \<le> max_fan_out l \<and>
     s = (bt_insert x (letto cons x + 1) cons, max livello (letto prof x))"
  by (auto simp: visita_sorgente_def Let_def results letto_def)

lemma visita_sorgenti:
  "try_fold (visita_sorgente l prof) (cons, livello) xs = Inr (cons', livello') \<Longrightarrow>
     (\<forall>n. letto cons' n = letto cons n + count_list xs n)
     \<and> (\<forall>n \<in> set xs. letto cons' n \<le> max_fan_out l)
     \<and> livello \<le> livello' \<and> (\<forall>n \<in> set xs. letto prof n \<le> livello')"
proof (induction xs arbitrary: cons livello)
  case (Cons x xs)
  let ?cons = "bt_insert x (letto cons x + 1) cons"
  from Cons.prems have fit: "letto cons x + 1 \<le> max_fan_out l"
    and rest: "try_fold (visita_sorgente l prof) (?cons, max livello (letto prof x)) xs = Inr (cons', livello')"
    unfolding try_fold_Cons_Inr visita_sorgente_Inr by auto
  from Cons.IH [OF rest] have IH: "\<forall>n. letto cons' n = letto ?cons n + count_list xs n"
    "\<forall>n \<in> set xs. letto cons' n \<le> max_fan_out l" "max livello (letto prof x) \<le> livello'"
    "\<forall>n \<in> set xs. letto prof n \<le> livello'" by auto
  have "letto cons' x \<le> max_fan_out l"
    using fit IH(1,2) by (cases "x \<in> set xs") (auto simp: count_notin)
  then show ?case using IH by auto
qed simp

text \<open>The shape of a plan as the loops use it, over the sources and the name of each step.\<close>

definition forma_ssa :: "string list \<Rightarrow> string list list \<Rightarrow> string list \<Rightarrow> bool" where
  "forma_ssa inputs sorgenti outs \<longleftrightarrow>
     length sorgenti = length outs \<and> distinct (inputs @ outs) \<and> sorgenti_definite inputs sorgenti outs"

lemma piano_ssa_forma:
  "piano_ssa l p \<Longrightarrow> forma_ssa (pl_inputs p) (map p_inputs (pl_steps p)) (map p_out (pl_steps p))"
  by (simp add: piano_ssa_def forma_ssa_def Let_def)

lemma forma_ssa_snoc:
  assumes "length ss = length outs"
  shows "forma_ssa inputs (ss @ [s]) (outs @ [out]) \<longleftrightarrow>
     forma_ssa inputs ss outs \<and> set s \<subseteq> set inputs \<union> set outs \<and> out \<notin> set inputs \<union> set outs"
proof -
  have "sorgenti_definite inputs (ss @ [s]) (outs @ [out]) \<longleftrightarrow>
      sorgenti_definite inputs ss outs \<and> set s \<subseteq> set inputs \<union> set outs"
    using assms by (simp add: sorgenti_definite_def All_less_Suc nth_append conj_commute cong: conj_cong)
  then show ?thesis using assms by (auto simp: forma_ssa_def)
qed

lemma forma_ssa_sources:
  assumes "forma_ssa inputs ss outs" and "s \<in> set ss"
  shows "set s \<subseteq> set inputs \<union> set outs"
proof -
  from assms(2) obtain i where i: "i < length ss" "ss ! i = s" by (auto simp: in_set_conv_nth)
  with assms(1) have "set s \<subseteq> set inputs \<union> set (take i outs)"
    by (auto simp: forma_ssa_def sorgenti_definite_def)
  then show ?thesis using set_take_subset [of i outs] by auto
qed

lemma visita_passo_Inr:
  assumes "visita_passo bc l (cons, prof) p = Inr (cons', prof')"
  obtains livello where
    "\<exists>b. bc (p_config p) = Some b \<and> b \<le> max_config_bytes_per_node l"
    and "\<And>n. letto cons' n = letto cons n + count_list (p_inputs p) n"
    and "\<And>n. n \<in> set (p_inputs p) \<Longrightarrow> letto cons' n \<le> max_fan_out l"
    and "\<And>n. n \<in> set (p_inputs p) \<Longrightarrow> letto prof n \<le> livello"
    and "livello + 1 \<le> max_plan_depth l" and "prof' = bt_insert (p_out p) (livello + 1) prof"
proof -
  from assms obtain livello where
    "\<exists>b. bc (p_config p) = Some b \<and> b \<le> max_config_bytes_per_node l"
    and fold: "try_fold (visita_sorgente l prof) (cons, 0) (p_inputs p) = Inr (cons', livello)"
    and "livello + 1 \<le> max_plan_depth l" and "prof' = bt_insert (p_out p) (livello + 1) prof"
    by (auto simp: visita_passo_def results Let_def)
  with visita_sorgenti [OF fold] that show ?thesis by blast
qed

lemma limiti_del_piano_invariante:
  assumes "try_fold (visita_passo bc l) ([], []) ps = Inr (cons, prof)"
    and "forma_ssa inputs (map p_inputs ps) (map p_out ps)"
  shows "(\<forall>n. letto cons n = usi ps n) \<and> (\<forall>n. usi ps n \<le> max_fan_out l)
     \<and> (\<forall>p \<in> set ps. \<exists>b. bc (p_config p) = Some b \<and> b \<le> max_config_bytes_per_node l)
     \<and> (\<forall>p \<in> set ps. 1 \<le> letto prof (p_out p) \<and>
          (\<forall>n \<in> set (p_inputs p). letto prof n + 1 \<le> letto prof (p_out p)))
     \<and> (\<forall>n. letto prof n \<le> max_plan_depth l)"
  using assms
proof (induction ps arbitrary: cons prof rule: rev_induct)
  case Nil
  then show ?case by (simp add: usi_def)
next
  case (snoc p ps)
  from snoc.prems(1) obtain cons0 prof0 where
    before: "try_fold (visita_passo bc l) ([], []) ps = Inr (cons0, prof0)"
    and step: "visita_passo bc l (cons0, prof0) p = Inr (cons, prof)"
    unfolding try_fold_snoc_Inr by auto
  from snoc.prems(2) have ssa: "forma_ssa inputs (map p_inputs ps) (map p_out ps)"
    and sources: "set (p_inputs p) \<subseteq> set inputs \<union> set (map p_out ps)"
    and fresh: "p_out p \<notin> set inputs \<union> set (map p_out ps)"
    by (simp_all add: forma_ssa_snoc)
  have old: "p_out p \<notin> set (p_inputs q) \<and> p_out q \<noteq> p_out p" if "q \<in> set ps" for q
    using forma_ssa_sources [OF ssa, of "p_inputs q"] that fresh by (auto simp: image_iff)
  from visita_passo_Inr [OF step] obtain livello where
    size: "\<exists>b. bc (p_config p) = Some b \<and> b \<le> max_config_bytes_per_node l"
    and count: "\<And>n. letto cons n = letto cons0 n + count_list (p_inputs p) n"
    and fan: "\<And>n. n \<in> set (p_inputs p) \<Longrightarrow> letto cons n \<le> max_fan_out l"
    and level: "\<And>n. n \<in> set (p_inputs p) \<Longrightarrow> letto prof0 n \<le> livello"
    and depth: "livello + 1 \<le> max_plan_depth l"
    and prof: "prof = bt_insert (p_out p) (livello + 1) prof0" by metis
  note IH = snoc.IH [OF before ssa]
  have uses: "letto cons n = usi (ps @ [p]) n" for n
    using IH count by (simp add: usi_def)
  moreover have "usi (ps @ [p]) n \<le> max_fan_out l" for n
  proof (cases "n \<in> set (p_inputs p)")
    case True
    with fan [of n] uses [of n] show ?thesis by simp
  next
    case False
    then have "usi (ps @ [p]) n = usi ps n" by (simp add: usi_def count_notin)
    with IH show ?thesis by simp
  qed
  moreover have "n \<noteq> p_out p" if "n \<in> set (p_inputs p)" for n
    using that sources fresh by auto
  ultimately show ?case
    using IH size level depth old by (auto simp: prof)
qed

lemma catena_bound:
  assumes "\<And>p. p \<in> set ps \<Longrightarrow> 1 \<le> f (p_out p) \<and> (\<forall>n \<in> set (p_inputs p). f n + 1 \<le> (f (p_out p) :: nat))"
    and "catena ps n k"
  shows "k \<le> f n"
  using assms(2)
proof (induction rule: catena.induct)
  case (catena_Suc p sorgente k)
  with assms(1) [OF catena_Suc.hyps(1)] show ?case by fastforce
qed (use assms(1) in auto)

end
