(* ===== verification/Provenance.thy ===== *)
theory Provenance
  imports Validation
begin

text \<open>
  What a validated plan is: the properties of \<open>validate\<close> of \<open>validazione.rs\<close>. The base of the row indices of
  a step, decided by the validation one step at a time with a map from names to booleans, is stated of
  the whole plan as an inductive predicate: a name keeps the rows of an input when a chain of
  row-preserving steps leads to it.
\<close>

section \<open>Row provenance\<close>

text \<open>A name keeps the rows of an input when it is one, or the output of a step that preserves rows and
  whose first input keeps them.\<close>

inductive conserva_righe :: "string list \<Rightarrow> 'g passo_validato list \<Rightarrow> string \<Rightarrow> bool"
  for inputs passi where
  conserva_input: "n \<in> set inputs \<Longrightarrow> conserva_righe inputs passi n"
| conserva_passo: "p \<in> set passi \<Longrightarrow> source_row_provenance (pv_descrittore p) = Preserved \<Longrightarrow>
    pv_inputs p = sorgente # altri \<Longrightarrow> conserva_righe inputs passi sorgente \<Longrightarrow>
    conserva_righe inputs passi (pv_out p)"

inductive_simps conserva_righe_iff: "conserva_righe inputs passi n"

lemma conserva_righe_snoc_old:
  assumes sources: "\<And>p. p \<in> set passi \<Longrightarrow> q_out \<notin> set (pv_inputs p)"
    and "q_out = pv_out q" and "n \<noteq> q_out"
  shows "conserva_righe inputs (passi @ [q]) n \<longleftrightarrow> conserva_righe inputs passi n"
proof
  assume "conserva_righe inputs (passi @ [q]) n"
  then show "conserva_righe inputs passi n"
    using assms(3)
  proof (induction rule: conserva_righe.induct)
    case (conserva_passo p sorgente altri)
    then have p: "p \<in> set passi" using assms(2) by auto
    then have "sorgente \<noteq> q_out" using sources [OF p] conserva_passo.hyps(3) by auto
    then show ?case using p conserva_passo by (blast intro: conserva_righe.conserva_passo)
  qed (rule conserva_righe.conserva_input)
next
  assume "conserva_righe inputs passi n"
  then show "conserva_righe inputs (passi @ [q]) n"
    by (induction rule: conserva_righe.induct) (auto intro: conserva_righe.intros)
qed

definition sorgente_conservata :: "string list \<Rightarrow> 'g passo_validato list \<Rightarrow> string list \<Rightarrow> bool" where
  "sorgente_conservata inputs passi sorgenti =
     (case sorgenti of [] \<Rightarrow> False | s # _ \<Rightarrow> conserva_righe inputs passi s)"

section \<open>What a validated plan is\<close>

text \<open>The validated step of a step of the plan: the same names, the entry of the catalogue with the very id
  of the step, a number of inputs it accepts, and the cost model of that id.\<close>

definition corrisponde :: "'c passo \<Rightarrow> 'g passo_validato \<Rightarrow> bool" where
  "corrisponde p q \<longleftrightarrow>
     pv_out q = p_out p \<and> pv_inputs q = p_inputs p
     \<and> find_operation (p_op p) = Some (pv_descrittore q) \<and> op_id (pv_descrittore q) = p_op p
     \<and> verifica_arieta (pv_descrittore q) (length (p_inputs p)) = Inr ()
     \<and> costo_di (p_op p) = Some (pv_costo q)"

lemma operazione_del_passo_Inr [results]:
  "operazione_del_passo p = Inr d \<longleftrightarrow>
     find_operation (p_op p) = Some d \<and> op_id d = p_op p \<and> verifica_arieta d (length (p_inputs p)) = Inr ()"
  by (auto simp: operazione_del_passo_def results)

lemma contratti_in_ingresso_Inr:
  "contratti_in_ingresso m xs = Inr ks \<Longrightarrow> n \<in> set xs \<Longrightarrow> bt_get m n \<noteq> None"
  by (auto simp: contratti_in_ingresso_def results list_all2_conv_all_nth in_set_conv_nth)

lemma contratti_in_ingresso_total:
  "(\<And>n. n \<in> set xs \<Longrightarrow> bt_get m n \<noteq> None) \<Longrightarrow> contratti_in_ingresso m xs = Inr (map (\<lambda>n. the (bt_get m n)) xs)"
  unfolding contratti_in_ingresso_def by (rule try_map_ok) fastforce

lemma valida_passo_Inr:
  assumes "valida_passo an l kl crs outputs (st, passi) p = Inr (st', passi')"
  shows "\<exists>q k s. passi' = passi @ [q] \<and> corrisponde p q
     \<and> pv_base_indici q =
         (if righe_della_sorgente (sv_provenance st) (p_inputs p) then Sorgente else SenzaAttribuzione)
     \<and> st' = st\<lparr>sv_analisi := s, sv_contratti := bt_insert (p_out p) k (sv_contratti st),
         sv_provenance := bt_insert (p_out p)
           (righe_della_sorgente (sv_provenance st) (p_inputs p) \<and>
            source_row_provenance (pv_descrittore q) = Preserved) (sv_provenance st)\<rparr>"
  using assms unfolding valida_passo_def
  apply (clarsimp simp: results Let_def)
  apply (rule conjI)
   apply (intro impI conjI)
    apply (simp add: corrisponde_def)
   apply (intro exI)
   apply (rule refl)
  apply (intro impI conjI)
   apply (simp add: corrisponde_def)
  apply (intro exI)
  apply (rule refl)
  done

lemma valida_input_Inr:
  assumes "valida_input an kl forniti st n = Inr st'"
  obtains k s schema where "bt_get forniti n = Some schema"
    and "st' = \<lparr>sv_analisi = s, sv_schemi = bt_insert n (normalizza_schema schema) (sv_schemi st),
      sv_contratti = bt_insert n k (sv_contratti st), sv_provenance = bt_insert n True (sv_provenance st)\<rparr>"
  using assms unfolding valida_input_def by (auto simp: results Let_def)

lemma valida_inputs_invariante:
  assumes "try_fold (valida_input an kl forniti)
      \<lparr>sv_analisi = s0, sv_schemi = [], sv_contratti = [], sv_provenance = []\<rparr> ns = Inr st"
  shows "(\<forall>n. bt_get (sv_provenance st) n = (if n \<in> set ns then Some True else None))
     \<and> (\<forall>n. bt_get (sv_contratti st) n \<noteq> None \<longleftrightarrow> n \<in> set ns)
     \<and> (\<forall>n. bt_get (sv_schemi st) n = (if n \<in> set ns then map_option normalizza_schema (bt_get forniti n) else None))"
  using assms
proof (induction ns arbitrary: st rule: rev_induct)
  case Nil
  then show ?case by (auto simp: bt_simps)
next
  case (snoc n ns)
  from snoc.prems obtain st0 where
    before: "try_fold (valida_input an kl forniti)
      \<lparr>sv_analisi = s0, sv_schemi = [], sv_contratti = [], sv_provenance = []\<rparr> ns = Inr st0"
    and step: "valida_input an kl forniti st0 n = Inr st"
    unfolding try_fold_snoc_Inr by auto
  from valida_input_Inr [OF step] obtain k s schema where
    schema: "bt_get forniti n = Some schema"
    and st: "st = \<lparr>sv_analisi = s, sv_schemi = bt_insert n (normalizza_schema schema) (sv_schemi st0),
      sv_contratti = bt_insert n k (sv_contratti st0), sv_provenance = bt_insert n True (sv_provenance st0)\<rparr>" .
  show ?case
    unfolding st using snoc.IH [OF before] schema by (simp add: bt_simps)
qed

lemma righe_della_sorgente_eq:
  assumes "\<And>n. bt_get prov n = (if n \<in> D then Some (c n) else None)" and "set xs \<subseteq> D"
  shows "righe_della_sorgente prov xs \<longleftrightarrow> (case xs of [] \<Rightarrow> False | n # _ \<Rightarrow> c n)"
  using assms by (cases xs) (auto simp: righe_della_sorgente_def)

lemma corrisponde_all2:
  "list_all2 corrisponde ps passi \<Longrightarrow> q \<in> set passi \<Longrightarrow> \<exists>p \<in> set ps. corrisponde p q"
  by (induction rule: list_all2_induct) auto

lemma valida_passi_invariante:
  assumes "try_fold (valida_passo an l kl crs outputs) (st0, []) ps = Inr (st, passi)"
    and "forma_ssa inputs (map p_inputs ps) (map p_out ps)"
    and "\<And>n. bt_get (sv_provenance st0) n = (if n \<in> set inputs then Some True else None)"
    and "\<And>n. bt_get (sv_contratti st0) n \<noteq> None \<longleftrightarrow> n \<in> set inputs"
  shows "list_all2 corrisponde ps passi \<and> sv_schemi st = sv_schemi st0
     \<and> (\<forall>n. bt_get (sv_provenance st) n =
          (if n \<in> set inputs \<union> p_out ` set ps then Some (conserva_righe inputs passi n) else None))
     \<and> (\<forall>n. bt_get (sv_contratti st) n \<noteq> None \<longleftrightarrow> n \<in> set inputs \<union> p_out ` set ps)
     \<and> (\<forall>q \<in> set passi. pv_base_indici q = Sorgente \<longleftrightarrow> sorgente_conservata inputs passi (pv_inputs q))"
  using assms(1,2)
proof (induction ps arbitrary: st passi rule: rev_induct)
  case Nil
  then have "st = st0" "passi = []" by simp_all
  moreover have "conserva_righe inputs passi n \<longleftrightarrow> n \<in> set inputs" for n
    unfolding \<open>passi = []\<close> by (subst conserva_righe_iff) simp
  ultimately show ?case using assms(3,4) by simp
next
  case (snoc p ps)
  let ?D = "set inputs \<union> p_out ` set ps"
  from snoc.prems(1) obtain st1 passi1 where
    before: "try_fold (valida_passo an l kl crs outputs) (st0, []) ps = Inr (st1, passi1)"
    and step: "valida_passo an l kl crs outputs (st1, passi1) p = Inr (st, passi)"
    unfolding try_fold_snoc_Inr by auto
  from snoc.prems(2) have ssa: "forma_ssa inputs (map p_inputs ps) (map p_out ps)"
    and sources: "set (p_inputs p) \<subseteq> ?D" and fresh: "p_out p \<notin> ?D"
    by (simp_all add: forma_ssa_snoc)
  note IH = snoc.IH [OF before ssa]
  then have zip: "list_all2 corrisponde ps passi1" by blast
  from valida_passo_Inr [OF step] obtain q k s where passi: "passi = passi1 @ [q]"
    and q: "corrisponde p q"
    and base: "pv_base_indici q =
      (if righe_della_sorgente (sv_provenance st1) (p_inputs p) then Sorgente else SenzaAttribuzione)"
    and st: "st = st1\<lparr>sv_analisi := s, sv_contratti := bt_insert (p_out p) k (sv_contratti st1),
      sv_provenance := bt_insert (p_out p)
        (righe_della_sorgente (sv_provenance st1) (p_inputs p) \<and>
         source_row_provenance (pv_descrittore q) = Preserved) (sv_provenance st1)\<rparr>" by blast
  have out: "pv_out q = p_out p" "pv_inputs q = p_inputs p" using q by (simp_all add: corrisponde_def)
  have old_sources: "set (pv_inputs r) \<subseteq> ?D" if "r \<in> set passi1" for r
  proof -
    from corrisponde_all2 [OF zip that] obtain p' where "p' \<in> set ps" "corrisponde p' r" by blast
    then show ?thesis using forma_ssa_sources [OF ssa, of "p_inputs p'"] by (simp add: corrisponde_def)
  qed
  have old: "conserva_righe inputs passi n \<longleftrightarrow> conserva_righe inputs passi1 n" if "n \<in> ?D" for n
    unfolding passi using old_sources fresh that out
    by (intro conserva_righe_snoc_old [where q_out = "p_out p"]) auto
  have same: "sorgente_conservata inputs passi xs \<longleftrightarrow> sorgente_conservata inputs passi1 xs"
    if "set xs \<subseteq> ?D" for xs
    using that old by (cases xs) (simp_all add: sorgente_conservata_def)
  have source: "righe_della_sorgente (sv_provenance st1) (p_inputs p) \<longleftrightarrow>
      sorgente_conservata inputs passi (p_inputs p)"
    using righe_della_sorgente_eq [OF _ sources, of "sv_provenance st1" "conserva_righe inputs passi1"]
      IH same [OF sources] by (simp add: sorgente_conservata_def)
  have produced: "r = q" if "r \<in> set passi" "pv_out r = p_out p" for r
  proof (rule ccontr)
    assume "r \<noteq> q"
    then have "r \<in> set passi1" using that passi by auto
    then have "pv_out r \<in> p_out ` set ps"
      using corrisponde_all2 [OF zip] by (auto simp: corrisponde_def)
    with fresh that(2) show False by auto
  qed
  have new: "conserva_righe inputs passi (p_out p) \<longleftrightarrow>
      sorgente_conservata inputs passi (p_inputs p) \<and> source_row_provenance (pv_descrittore q) = Preserved"
  proof
    assume "conserva_righe inputs passi (p_out p)"
    then obtain r sorgente altri where "r \<in> set passi" "pv_out r = p_out p"
      "source_row_provenance (pv_descrittore r) = Preserved" "pv_inputs r = sorgente # altri"
      "conserva_righe inputs passi sorgente"
      using fresh by (auto simp: conserva_righe_iff [of inputs passi "p_out p"])
    with produced out(2) show "sorgente_conservata inputs passi (p_inputs p) \<and>
        source_row_provenance (pv_descrittore q) = Preserved"
      by (auto simp: sorgente_conservata_def split: list.splits)
  next
    assume pres: "sorgente_conservata inputs passi (p_inputs p) \<and>
      source_row_provenance (pv_descrittore q) = Preserved"
    then obtain sorgente altri where "p_inputs p = sorgente # altri" "conserva_righe inputs passi sorgente"
      by (auto simp: sorgente_conservata_def split: list.splits)
    then have "conserva_righe inputs passi (pv_out q)"
      using pres out passi by (intro conserva_passo [of q]) simp_all
    then show "conserva_righe inputs passi (p_out p)" by (simp add: out)
  qed
  show ?case
  proof (intro conjI allI ballI)
    show "list_all2 corrisponde (ps @ [p]) passi" using zip q passi by (simp add: list_all2_appendI)
    show "sv_schemi st = sv_schemi st0" using IH st by simp
    show "bt_get (sv_provenance st) n =
        (if n \<in> set inputs \<union> p_out ` set (ps @ [p]) then Some (conserva_righe inputs passi n) else None)" for n
      using IH fresh old [of n] new source by (auto simp: st bt_simps)
    show "bt_get (sv_contratti st) n \<noteq> None \<longleftrightarrow> n \<in> set inputs \<union> p_out ` set (ps @ [p])" for n
      using IH by (auto simp: st bt_simps)
    show "pv_base_indici r = Sorgente \<longleftrightarrow> sorgente_conservata inputs passi (pv_inputs r)"
      if "r \<in> set passi" for r
    proof (cases "r = q")
      case True
      then show ?thesis using base source out by simp
    next
      case False
      then have "r \<in> set passi1" using that passi by auto
      then show ?thesis using IH same [OF old_sources] by blast
    qed
  qed
qed

section \<open>The theorems\<close>

text \<open>The naming rules of a plan: the checks of the validation accept a plan exactly when every name is
  given once and is valid, every step reads only inputs and outputs of earlier steps, and the outputs are
  at least one, distinct and defined by the plan.\<close>

theorem verifica_nomi_ssa: "verifica_nomi l p = Inr () \<longleftrightarrow> piano_ssa l p"
  by (rule verifica_nomi_iff)

text \<open>A plan that passes the naming rules and the limits is within them: inputs, steps and edges are
  counted, every configuration fits, no name is read more often than \<open>max_fan_out\<close>, and no chain of
  steps that read one another is longer than \<open>max_plan_depth\<close>.\<close>

theorem plan_within_limits:
  assumes "verifica_nomi l p = Inr ()" and "verifica_limiti_del_piano byte_config p l = Inr ()"
  shows "length (pl_inputs p) \<le> max_inputs l \<and> length (pl_steps p) \<le> max_plan_nodes l
     \<and> (\<Sum>q \<leftarrow> pl_steps p. length (p_inputs q)) \<le> max_plan_edges l
     \<and> (\<forall>q \<in> set (pl_steps p). \<exists>b. byte_config (p_config q) = Some b \<and> b \<le> max_config_bytes_per_node l)
     \<and> (\<forall>n. usi (pl_steps p) n \<le> max_fan_out l)
     \<and> (\<forall>n k. catena (pl_steps p) n k \<longrightarrow> k \<le> max_plan_depth l)"
proof -
  from assms(1) have ssa: "forma_ssa (pl_inputs p) (map p_inputs (pl_steps p)) (map p_out (pl_steps p))"
    by (simp add: verifica_nomi_iff piano_ssa_forma)
  from assms(2) obtain cons prof where counts: "length (pl_inputs p) \<le> max_inputs l"
    "length (pl_steps p) \<le> max_plan_nodes l" "(\<Sum>q \<leftarrow> pl_steps p. length (p_inputs q)) \<le> max_plan_edges l"
    and fold: "try_fold (visita_passo byte_config l) ([], []) (pl_steps p) = Inr (cons, prof)"
    by (auto simp: verifica_limiti_del_piano_def results)
  note inv = limiti_del_piano_invariante [OF fold ssa]
  have "k \<le> max_plan_depth l" if "catena (pl_steps p) n k" for n k
    using catena_bound [OF _ that, of "letto prof"] inv by (meson le_trans)
  with counts inv show ?thesis by blast
qed

definition piano_prova :: "nat pipeline" where
  "piano_prova = \<lparr>pl_version = 1, pl_inputs = [''a''], pl_crs = None, pl_limits = None,
     pl_steps = [\<lparr>p_out = ''b'', p_op = ''table.sort'', p_inputs = [''a''], p_config = 2\<rparr>,
       \<lparr>p_out = ''c'', p_op = ''table.fill_na'', p_inputs = [''b''], p_config = 2\<rparr>],
     pl_outputs = [''c'']\<rparr>"

lemma piano_prova_accettato:
  "verifica_nomi plan_limits_default piano_prova = Inr ()"
  "verifica_limiti_del_piano Some piano_prova plan_limits_default = Inr ()"
proof -
  show "verifica_nomi plan_limits_default piano_prova = Inr ()"
    unfolding verifica_nomi_iff
    by (simp add: piano_ssa_def piano_prova_def nome_valido_def plan_limits_default_def sorgenti_definite_def
        All_less_Suc Let_def)
  show "verifica_limiti_del_piano Some piano_prova plan_limits_default = Inr ()"
    by (simp add: verifica_limiti_del_piano_def piano_prova_def plan_limits_default_def oltre_def
        visita_passo_def visita_sorgente_def Let_def bt_get_def)
qed

lemma piano_prova_sel:
  "pl_version piano_prova = VERSIONE_PIANO" "pl_inputs piano_prova = [''a'']" "pl_crs piano_prova = None"
  "pl_limits piano_prova = None" "pl_outputs piano_prova = [''c'']"
  "pl_steps piano_prova = [\<lparr>p_out = ''b'', p_op = ''table.sort'', p_inputs = [''a''], p_config = 2\<rparr>,
       \<lparr>p_out = ''c'', p_op = ''table.fill_na'', p_inputs = [''b''], p_config = 2\<rparr>]"
  by (simp_all add: piano_prova_def VERSIONE_PIANO_def)

lemma plan_within_limits_witness:
  "usi (pl_steps piano_prova) ''a'' \<le> max_fan_out plan_limits_default
   \<and> catena (pl_steps piano_prova) ''c'' 2 \<and> 2 \<le> max_plan_depth plan_limits_default"
proof -
  have "catena (pl_steps piano_prova) ''b'' 1"
    using catena_passo [of "pl_steps piano_prova ! 0" "pl_steps piano_prova"] by (simp add: piano_prova_sel)
  then have "catena (pl_steps piano_prova) ''c'' 2"
    using catena_Suc [of "pl_steps piano_prova ! 1" "pl_steps piano_prova" "''b''" 1]
    by (simp add: piano_prova_sel numeral_2_eq_2)
  then show ?thesis using plan_within_limits [OF piano_prova_accettato] by blast
qed

text \<open>The normal form of a schema is its own: a second reading changes nothing.\<close>

lemma normalizza_metadati_idem: "normalizza_metadati (normalizza_metadati m) = normalizza_metadati m"
  by (auto simp: normalizza_metadati_def ha_chiave_def bt_simps)

lemma normalizza_campo_idem: "normalizza_campo (normalizza_campo c) = normalizza_campo c"
  by (cases c) (auto simp: normalizza_campo_def Let_def geometria_large_binary_def normalizza_metadati_idem)

text \<open>The normalisation of the schemas is idempotent, so that the schema kept for an input is the one the
  runner will find on the normalised table; it keeps the number and the names of the columns and leaves
  no entry of pandas and no wide text column.\<close>

theorem normalizza_schema_normal_form:
  "normalizza_schema (normalizza_schema s) = normalizza_schema s
   \<and> map campo_nome (s_campi (normalizza_schema s)) = map campo_nome (s_campi s)
   \<and> bt_get (s_metadati (normalizza_schema s)) METADATI_PANDAS = None
   \<and> filter (\<lambda>c. campo_tipo c = LargeUtf8) (s_campi (normalizza_schema s)) = []
   \<and> filter geometria_large_binary (s_campi (normalizza_schema s)) = []"
proof (intro conjI)
  show "normalizza_schema (normalizza_schema s) = normalizza_schema s"
    by (simp add: normalizza_schema_def normalizza_campo_idem comp_def bt_remove_def)
  show "map campo_nome (s_campi (normalizza_schema s)) = map campo_nome (s_campi s)"
    by (simp add: normalizza_schema_def normalizza_campo_def Let_def)
  show "bt_get (s_metadati (normalizza_schema s)) METADATI_PANDAS = None"
    by (simp add: normalizza_schema_def bt_simps)
  show "filter (\<lambda>c. campo_tipo c = LargeUtf8) (s_campi (normalizza_schema s)) = []"
    by (auto simp: normalizza_schema_def normalizza_campo_def Let_def geometria_large_binary_def filter_empty_conv)
  show "filter geometria_large_binary (s_campi (normalizza_schema s)) = []"
    by (auto simp: normalizza_schema_def normalizza_campo_def Let_def geometria_large_binary_def filter_empty_conv)
qed

section \<open>The whole validation\<close>

lemma fornisci_Inr:
  "fornisci m ns = Inr m' \<longleftrightarrow> bt_get m (fst ns) = None \<and> m' = bt_insert (fst ns) (snd ns) m"
  by (cases ns) (auto simp: fornisci_def)

lemma fornisci_fold:
  "try_fold fornisci [] schemas = Inr m \<Longrightarrow>
     distinct (map fst schemas) \<and> (\<forall>n. bt_get m n = map_of schemas n)"
proof (induction schemas arbitrary: m rule: rev_induct)
  case (snoc x xs)
  then obtain m0 where before: "try_fold fornisci [] xs = Inr m0" and "fornisci m0 x = Inr m"
    unfolding try_fold_snoc_Inr by blast
  then have "bt_get m0 (fst x) = None" "m = bt_insert (fst x) (snd x) m0" by (simp_all add: fornisci_Inr)
  moreover from snoc.IH [OF before] this(1) have "map_of xs (fst x) = None" by simp
  moreover have "map_of (xs @ [x]) n = (if n = fst x then Some (snd x) else map_of xs n)" for n
    using \<open>map_of xs (fst x) = None\<close> by (cases x) (simp add: map_add_def split: option.splits)
  ultimately show ?case using snoc.IH [OF before]
    by (simp add: bt_simps map_of_eq_None_iff)
qed (simp add: bt_simps)

lemma fornisci_fold_ok: "distinct (map fst schemas) \<Longrightarrow> \<exists>m. try_fold fornisci [] schemas = Inr m"
proof (induction schemas rule: rev_induct)
  case (snoc x xs)
  then obtain m where m: "try_fold fornisci [] xs = Inr m" by auto
  from fornisci_fold [OF m] snoc.prems have "bt_get m (fst x) = None" by (auto simp: map_of_eq_None_iff)
  with m show ?case unfolding try_fold_snoc_Inr fornisci_Inr by blast
qed simp

lemma bt_get_keys:
  assumes "\<And>n. bt_get m n = map_of xs n"
  shows "set (bt_keys m) = fst ` set xs"
proof -
  have "k \<in> set (bt_keys m) \<longleftrightarrow> k \<in> fst ` set xs" for k
    unfolding bt.keys_get assms by (simp add: map_of_eq_None_iff)
  then show ?thesis by blast
qed

lemma schemi_forniti_Inr:
  "schemi_forniti inputs schemas = Inr m \<longleftrightarrow>
     try_fold fornisci [] schemas = Inr m \<and> fst ` set schemas = set inputs"
proof -
  have found: "List.find (\<lambda>n. bt_get m' n = None) inputs = None \<and> List.find (\<lambda>n. n \<notin> set inputs) (bt_keys m') = None
      \<longleftrightarrow> fst ` set schemas = set inputs" if "try_fold fornisci [] schemas = Inr m'" for m'
    using fornisci_fold [OF that] bt_get_keys [of m' schemas]
    by (auto simp: find_None_all map_of_eq_None_iff)
  show ?thesis
  proof (cases "try_fold fornisci [] schemas")
    case (Inr m')
    let ?A = "List.find (\<lambda>n. bt_get m' n = None) inputs"
    let ?B = "List.find (\<lambda>n. n \<notin> set inputs) (bt_keys m')"
    have "schemi_forniti inputs schemas = Inr m \<longleftrightarrow> (?A = None \<and> ?B = None) \<and> m' = m"
      by (cases ?A; cases ?B; simp add: schemi_forniti_def Inr)
    then show ?thesis unfolding found [OF Inr] Inr by blast
  qed (simp add: schemi_forniti_def)
qed

lemma schemi_forniti_lookup: "schemi_forniti inputs schemas = Inr m \<Longrightarrow> bt_get m n = map_of schemas n"
  using fornisci_fold [of schemas m] by (simp add: schemi_forniti_Inr)

text \<open>The schemas of the inputs are accepted exactly when every declared input has one, none is given
  twice and none is given for another name; then each input reads the schema it was given.\<close>

theorem schemi_forniti_exact:
  "((\<exists>m. schemi_forniti inputs schemas = Inr m) \<longleftrightarrow>
     distinct (map fst schemas) \<and> fst ` set schemas = set inputs)
   \<and> (\<forall>m n. schemi_forniti inputs schemas = Inr m \<longrightarrow> bt_get m n = map_of schemas n)"
proof -
  have given: "(\<exists>m. try_fold fornisci [] schemas = Inr m) \<longleftrightarrow> distinct (map fst schemas)"
    using fornisci_fold [of schemas] fornisci_fold_ok [of schemas] by metis
  show ?thesis
  proof (intro conjI allI impI)
    show "(\<exists>m. schemi_forniti inputs schemas = Inr m) \<longleftrightarrow>
        distinct (map fst schemas) \<and> fst ` set schemas = set inputs"
      unfolding schemi_forniti_Inr by (simp add: given [symmetric])
    show "bt_get m n = map_of schemas n" if "schemi_forniti inputs schemas = Inr m" for m n
      using that by (rule schemi_forniti_lookup)
  qed
qed

lemma schemi_forniti_exact_witness:
  "\<exists>m. schemi_forniti [''a''] [(''a'', \<lparr>s_campi = [], s_metadati = []\<rparr>)] = Inr m
     \<and> bt_get m ''a'' = Some \<lparr>s_campi = [], s_metadati = []\<rparr>"
  using schemi_forniti_exact [of "[''a'']" "[(''a'', \<lparr>s_campi = [], s_metadati = []\<rparr>)]"] by auto

text \<open>What \<open>validate\<close> has computed when it returns: the stages in the order of the code.\<close>

lemma validate_stages:
  assumes "validate um an p schemas = Inr v"
  shows "\<exists>forniti kl st0 st. pl_version p = VERSIONE_PIANO
     \<and> applica (valore_o (pl_limits p) limiti_parziali_default) = Inr (vd_limiti v)
     \<and> limiti_dei_kernel_tabellari um (vd_limiti v) = Inr kl \<and> vd_limiti_kernel v = kl
     \<and> verifica_nomi plan_limits_default p = Inr ()
     \<and> verifica_limiti_del_piano (an_byte_config an) p plan_limits_default = Inr ()
     \<and> schemi_forniti (pl_inputs p) schemas = Inr forniti
     \<and> try_fold (valida_input an kl forniti)
         \<lparr>sv_analisi = an_stato_iniziale an, sv_schemi = [], sv_contratti = [], sv_provenance = []\<rparr> (pl_inputs p) = Inr st0
     \<and> try_fold (valida_passo an (vd_limiti v) kl (vd_crs_piano v) (pl_outputs p)) (st0, []) (pl_steps p)
         = Inr (st, vd_passi v)
     \<and> vd_inputs v = pl_inputs p \<and> vd_outputs v = pl_outputs p
     \<and> vd_schemi_input v = sv_schemi st \<and> vd_contratti v = sv_contratti st
     \<and> (\<exists>s. try_fold (pubblica_output an (sv_contratti st)) ([], sv_analisi st) (pl_outputs p)
          = Inr (vd_schemi_uscita v, s))"
  using assms unfolding validate_def valore_o_def
  by (auto simp: results simp del: applica_Inr split: option.splits)

text \<open>Every output has a published schema.\<close>

lemma pubblica_outputs:
  "try_fold (pubblica_output an k) (u, s) ns = Inr (u', s') \<Longrightarrow>
     (\<forall>n. bt_get u' n \<noteq> None \<longleftrightarrow> n \<in> set ns \<or> bt_get u n \<noteq> None)"
proof (induction ns arbitrary: u s)
  case (Cons n ns)
  from Cons.prems obtain schema s1 where
    "try_fold (pubblica_output an k) (bt_insert n schema u, s1) ns = Inr (u', s')"
    unfolding try_fold_Cons_Inr by (auto simp: pubblica_output_def results)
  from Cons.IH [OF this] show ?case by (auto simp: bt_simps)
qed simp

lemma validate_invariant:
  assumes "validate um an p schemas = Inr v"
  shows "(piano_ssa plan_limits_default p
     \<and> vd_inputs v = pl_inputs p \<and> vd_outputs v = pl_outputs p
     \<and> list_all2 corrisponde (pl_steps p) (vd_passi v)
     \<and> limits_validate (vd_limiti v) = Inr ()
     \<and> (\<forall>n. bt_get (vd_contratti v) n \<noteq> None \<longleftrightarrow> n \<in> set (pl_inputs p) \<union> p_out ` set (pl_steps p))
     \<and> (\<forall>n. bt_get (vd_schemi_input v) n =
          (if n \<in> set (pl_inputs p) then map_option normalizza_schema (map_of schemas n) else None))
     \<and> (\<forall>n. bt_get (vd_schemi_uscita v) n \<noteq> None \<longleftrightarrow> n \<in> set (pl_outputs p)))
     \<and> (\<forall>q \<in> set (vd_passi v). pv_base_indici q = Sorgente \<longleftrightarrow>
           sorgente_conservata (vd_inputs v) (vd_passi v) (pv_inputs q))"
proof -
  from validate_stages [OF assms] obtain forniti kl st0 st s where
    limiti: "applica (valore_o (pl_limits p) limiti_parziali_default) = Inr (vd_limiti v)"
    and nomi: "verifica_nomi plan_limits_default p = Inr ()"
    and forniti: "schemi_forniti (pl_inputs p) schemas = Inr forniti"
    and inputs: "try_fold (valida_input an kl forniti)
        \<lparr>sv_analisi = an_stato_iniziale an, sv_schemi = [], sv_contratti = [], sv_provenance = []\<rparr> (pl_inputs p) = Inr st0"
    and passi: "try_fold (valida_passo an (vd_limiti v) kl (vd_crs_piano v) (pl_outputs p)) (st0, []) (pl_steps p)
        = Inr (st, vd_passi v)"
    and v: "vd_inputs v = pl_inputs p" "vd_outputs v = pl_outputs p"
      "vd_schemi_input v = sv_schemi st" "vd_contratti v = sv_contratti st"
    and uscite: "try_fold (pubblica_output an (sv_contratti st)) ([], sv_analisi st) (pl_outputs p)
        = Inr (vd_schemi_uscita v, s)"
    by blast
  note before = valida_inputs_invariante [OF inputs]
  from nomi have ssa: "piano_ssa plan_limits_default p" by (simp add: verifica_nomi_iff)
  have given: "bt_get forniti n = map_of schemas n" for n
    using schemi_forniti_lookup [OF forniti] .
  have after: "list_all2 corrisponde (pl_steps p) (vd_passi v) \<and> sv_schemi st = sv_schemi st0
     \<and> (\<forall>n. bt_get (sv_contratti st) n \<noteq> None \<longleftrightarrow> n \<in> set (pl_inputs p) \<union> p_out ` set (pl_steps p))
     \<and> (\<forall>q \<in> set (vd_passi v). pv_base_indici q = Sorgente \<longleftrightarrow>
          sorgente_conservata (pl_inputs p) (vd_passi v) (pv_inputs q))"
    using valida_passi_invariante [OF passi piano_ssa_forma [OF ssa]] before by blast
  have "bt_get (vd_schemi_uscita v) n \<noteq> None \<longleftrightarrow> n \<in> set (pl_outputs p)" for n
    using pubblica_outputs [OF uscite] by (simp add: bt_simps)
  moreover have "limits_validate (vd_limiti v) = Inr ()"
    using limiti unfolding applica_Inr by (rule conjunct2)
  ultimately show ?thesis
    using after before ssa v given by simp
qed

text \<open>C12. What the runner may rely on once a plan is validated: the names are in single assignment, every
  step of the plan has its validated step in the same place, with the entry of the catalogue of its very
  id, an accepted number of inputs and the cost model of that id; the limits are valid; the contracts are
  those of the inputs and of the steps, every input has its normalised schema and every output its
  published one.\<close>

theorem validated_plan_form:
  assumes "validate um an p schemas = Inr v"
  shows "piano_ssa plan_limits_default p
     \<and> vd_inputs v = pl_inputs p \<and> vd_outputs v = pl_outputs p
     \<and> list_all2 corrisponde (pl_steps p) (vd_passi v)
     \<and> limits_validate (vd_limiti v) = Inr ()
     \<and> (\<forall>n. bt_get (vd_contratti v) n \<noteq> None \<longleftrightarrow> n \<in> set (pl_inputs p) \<union> p_out ` set (pl_steps p))
     \<and> (\<forall>n. bt_get (vd_schemi_input v) n =
          (if n \<in> set (pl_inputs p) then map_option normalizza_schema (map_of schemas n) else None))
     \<and> (\<forall>n. bt_get (vd_schemi_uscita v) n \<noteq> None \<longleftrightarrow> n \<in> set (pl_outputs p))"
  using validate_invariant [OF assms] by blast

text \<open>C13. In a plan that \<open>validate\<close> accepts, the base of the row indices of a step is the source exactly when its first
  input keeps the rows of an input of the plan: it is one, or a chain of row-preserving steps leads from one to it.\<close>

theorem row_base_exact:
  assumes "validate um an p schemas = Inr v" and "q \<in> set (vd_passi v)"
  shows "pv_base_indici q = Sorgente \<longleftrightarrow> sorgente_conservata (vd_inputs v) (vd_passi v) (pv_inputs q)"
  using validate_invariant [OF assms(1)] assms(2) by blast

text \<open>A concrete environment: a contract is its number of columns, a step adds one.\<close>

definition analisi_prova :: "(nat, nat, nat, unit, nat) analisi" where
  "analisi_prova = \<lparr>an_byte_config = Some, an_risolvi_crs = (\<lambda>_. Inr ()), an_stato_iniziale = 0,
     an_contratto_input = (\<lambda>_ schema s. Inr (length (s_campi schema), s)),
     an_contratto_valido = (\<lambda>_. Inr ()), an_canonico = (\<lambda>k s. Inr (k, s)),
     an_schema = (\<lambda>k. \<lparr>s_campi = replicate k (Field ''c'' Utf8 True []), s_metadati = []\<rparr>),
     an_prepara = (\<lambda>_. Inr), an_moltiplicatore = (\<lambda>_ _. None),
     an_tabella = (\<lambda>_ ks _ s _. Inr (hd ks + 1, s + 1)), an_ambiente = (\<lambda>_. Inr ()),
     an_geo = (\<lambda>_ ks _ _ s. Inr (hd ks, s)), an_prepara_geo = (\<lambda>_ c _ _ _ _. Inr c),
     an_righe_previste = (\<lambda>_. 0),
     an_primaria = (\<lambda>_. Inr None), an_pubblica = (\<lambda>k _ s. Inr (\<lparr>s_campi = [], s_metadati = []\<rparr>, s))\<rparr>"

text \<open>\<open>usize::MAX\<close> where pointers have 64 bits.\<close>

definition um64 :: nat where
  "um64 = 2 ^ 64 - 1"

definition dati_voce :: "string \<Rightarrow> (op_family \<times> op_arity \<times> source_row_provenance_kind) option" where
  "dati_voce ident = (case (find_operation ident, costo_di ident) of
     (Some d, Some _) \<Rightarrow>
       if op_id d = ident then Some (family d, arity d, source_row_provenance d) else None
   | _ \<Rightarrow> None)"

lemma dati_voce_Some:
  assumes "dati_voce ident = Some (f, a, s)"
  obtains d c where "find_operation ident = Some d" "costo_di ident = Some c" "op_id d = ident"
    "family d = f" "arity d = a" "source_row_provenance d = s"
  using assms by (auto simp: dati_voce_def split: option.splits if_splits)

lemma dati_prova:
  "dati_voce ''table.sort'' = Some (Table, Unary, Unavailable)"
  "dati_voce ''table.fill_na'' = Some (Table, Unary, Preserved)"
  by code_simp+

lemma piano_prova_valido:
  "map_ok (\<lambda>v. map (\<lambda>q. (pv_out q, pv_base_indici q)) (vd_passi v))
     (validate um64 analisi_prova piano_prova [(''a'', \<lparr>s_campi = [], s_metadati = []\<rparr>)])
   = Inr [(''b'', Sorgente), (''c'', SenzaAttribuzione)]"
proof -
  obtain d c where sort: "find_operation ''table.sort'' = Some d" "costo_di ''table.sort'' = Some c"
    "op_id d = ''table.sort''" "family d = Table" "arity d = Unary" "source_row_provenance d = Unavailable"
    by (rule dati_voce_Some [OF dati_prova(1)])
  obtain d' c' where fill: "find_operation ''table.fill_na'' = Some d'"
    "costo_di ''table.fill_na'' = Some c'" "op_id d' = ''table.fill_na''" "family d' = Table"
    "arity d' = Unary" "source_row_provenance d' = Preserved"
    by (rule dati_voce_Some [OF dati_prova(2)])
  obtain kl where kl: "limiti_dei_kernel_tabellari um64 limits_default = Inr kl"
    "kl_max_columns kl = 4096"
    by (simp add: um64_def limiti_dei_kernel_tabellari_def stretto_def usize_try_from_def limits_default_def
        row_limits_default_def DEFAULT_MAX_GOVERNED_MEMORY_BYTES_def
        DEFAULT_MAX_GOVERNED_MEMORY_BYTES_USIZE_def MAX_COLUMNS_def)
  show ?thesis
    unfolding validate_def
    by (simp add: piano_prova_sel piano_prova_accettato kl applica_default analisi_prova_def
        schemi_forniti_def fornisci_def bt_get_def bt_keys_def valida_input_def verifica_colonne_def
        normalizza_schema_def bt_remove_def Let_def sort fill valida_passo_def operazione_del_passo_def
        verifica_arieta_def contratti_in_ingresso_def analizza_passo_def righe_della_sorgente_def
        pubblica_output_def)
qed

lemma validated_plan_form_witness:
  "\<exists>v. validate um64 analisi_prova piano_prova [(''a'', \<lparr>s_campi = [], s_metadati = []\<rparr>)] = Inr v
     \<and> list_all2 corrisponde (pl_steps piano_prova) (vd_passi v)"
proof -
  from piano_prova_valido obtain v where
    "validate um64 analisi_prova piano_prova [(''a'', \<lparr>s_campi = [], s_metadati = []\<rparr>)] = Inr v"
    unfolding map_ok_Inr_iff by blast
  with validated_plan_form [OF this] show ?thesis by blast
qed

lemma row_base_exact_witness:
  "\<exists>v. validate um64 analisi_prova piano_prova [(''a'', \<lparr>s_campi = [], s_metadati = []\<rparr>)] = Inr v
     \<and> (\<exists>q \<in> set (vd_passi v). sorgente_conservata (vd_inputs v) (vd_passi v) (pv_inputs q))
     \<and> (\<exists>q \<in> set (vd_passi v). \<not> sorgente_conservata (vd_inputs v) (vd_passi v) (pv_inputs q))"
proof -
  from piano_prova_valido obtain v where
    v: "validate um64 analisi_prova piano_prova [(''a'', \<lparr>s_campi = [], s_metadati = []\<rparr>)] = Inr v"
    and "map (\<lambda>q. (pv_out q, pv_base_indici q)) (vd_passi v) = [(''b'', Sorgente), (''c'', SenzaAttribuzione)]"
    unfolding map_ok_Inr_iff by metis
  then have "Sorgente \<in> pv_base_indici ` set (vd_passi v)" "SenzaAttribuzione \<in> pv_base_indici ` set (vd_passi v)"
    by (auto simp: map_eq_Cons_conv)
  then obtain q r where "q \<in> set (vd_passi v)" "r \<in> set (vd_passi v)"
    "pv_base_indici q = Sorgente" "pv_base_indici r = SenzaAttribuzione" by (metis imageE)
  with v row_base_exact [OF v] show ?thesis by (metis base_indici.distinct(1))
qed

end
