(* ===== verification/Execution.thy ===== *)
theory Execution
  imports Validation
begin

text \<open>
  The runner: \<open>crates/plenora-pipeline/src/esecuzione.rs\<close>, and \<open>batch_with_rows\<close> of
  \<open>crates/plenora-core/src/lib.rs\<close>.

  Whole tables live in a map from names to tables. Before each step the runner checks the interruption
  and the memory: live bytes plus the predicted peak of the kernel must fit the budget. After it, the
  output is checked, takes the schema of its contract and joins the map; the tables whose last consumer
  has run leave it.

  Kernels, Arrow's array constructors and the contracts are outside this development: they are the
  fields of the record \<open>ambiente\<close>. A call of a kernel may panic, and the barrier of the runner turns the
  panic into an error. The clock and the cancellation signal are read at every check: a run is given
  what each of its checks observes, as a function of the position of the check.
\<close>

section \<open>What the runner calls\<close>

datatype 'a chiamata = Ritorno "'a result" | Panico string

fun poi :: "'a chiamata \<Rightarrow> ('a \<Rightarrow> 'b chiamata) \<Rightarrow> 'b chiamata" where
  "poi (Ritorno (Inr a)) f = f a"
| "poi (Ritorno (Inl e)) f = Ritorno (Inl e)"
| "poi (Panico forma) f = Panico forma"

text \<open>
  \<open>ae_arrow\<close> is the refusal of \<open>RecordBatch::try_new_with_options\<close>, already converted; the fields for
  text and binary columns are the downcast with its iterator, and the constructor from an iterator;
  \<open>ae_mostra_f64\<close> is the text of a float.
\<close>

record ('k, 'g) ambiente =
  ae_um :: nat
  ae_arrow :: "arrow_schema \<Rightarrow> colonna list \<Rightarrow> nat \<Rightarrow> plenora_error option"
  ae_large_string :: "colonna \<Rightarrow> string option list option"
  ae_string_array :: "string option list \<Rightarrow> colonna"
  ae_large_binary :: "colonna \<Rightarrow> string option list option"
  ae_binary_array :: "string option list \<Rightarrow> colonna"
  ae_schema :: "'k \<Rightarrow> arrow_schema"
  ae_schema_from_contract :: "'k \<Rightarrow> arrow_schema result"
  ae_verifica_tabella :: "tabella \<Rightarrow> unit chiamata"
  ae_geo :: "'g \<Rightarrow> tabella list \<Rightarrow> 'k \<Rightarrow> nat \<Rightarrow> tabella chiamata"
  ae_unario :: "'g \<Rightarrow> tabella \<Rightarrow> kernel_limits \<Rightarrow> (tabella \<times> u64) chiamata"
  ae_binario :: "'g \<Rightarrow> tabella \<Rightarrow> tabella \<Rightarrow> kernel_limits \<Rightarrow> tabella chiamata"
  ae_schema_effect :: "arrow_schema \<Rightarrow> arrow_schema list \<Rightarrow> operation_descriptor \<Rightarrow> arrow_schema result"
  ae_mostra_f64 :: "f64 \<Rightarrow> string"

definition batch_with_rows ::
    "('k, 'g) ambiente \<Rightarrow> arrow_schema \<Rightarrow> colonna list \<Rightarrow> nat \<Rightarrow> tabella result" where
  "batch_with_rows A schema columns rows_if_empty =
     (let rows = (case columns of [] \<Rightarrow> rows_if_empty | c # _ \<Rightarrow> dati_len (to_data c))
      in case ae_arrow A schema columns rows of
           Some e \<Rightarrow> Inl e
         | None \<Rightarrow> Inr \<lparr>t_schema = schema, t_colonne = columns, t_righe = rows\<rparr>)"

section \<open>Interruption\<close>

text \<open>The deadline is an instant; \<open>annullamento\<close> says whether a signal was given. A check reads the signal
  and the clock.\<close>

record interruzione =
  scadenza :: "nat option"
  annullamento :: bool

type_synonym osservazione = "bool \<times> nat"

definition interruzione_default :: interruzione where
  "interruzione_default = \<lparr>scadenza = None, annullamento = False\<rparr>"

definition verifica :: "interruzione \<Rightarrow> osservazione \<Rightarrow> string \<Rightarrow> unit result" where
  "verifica i oss dove =
     (case oss of (segnale, ora) \<Rightarrow>
       if annullamento i \<and> segnale then Inl (Cancelled (''esecuzione annullata '' @ dove))
       else if (case scadenza i of None \<Rightarrow> False | Some s \<Rightarrow> ora \<ge> s) then
         Inl (Timeout (''scadenza dell'esecuzione superata '' @ dove))
       else Inr ())"

section \<open>Checks on a table\<close>

definition righe :: "tabella \<Rightarrow> u64 result" where
  "righe t = ok_or (Internal ''numero di righe non rappresentabile'') (u64_from_usize (t_righe t))"

definition nome_nuovo :: "string set \<Rightarrow> field \<Rightarrow> string set result" where
  "nome_nuovo names c =
     (if campo_nome c \<in> names then Inl (Schema (''nome colonna duplicato: '' @ campo_nome c))
      else Inr (insert (campo_nome c) names))"

definition validate_batch :: "tabella \<Rightarrow> kernel_limits \<Rightarrow> unit result" where
  "validate_batch t l =
     (if t_righe t > kl_max_rows l then
        Inl (ResourceLimit (''batch con '' @ show_nat (t_righe t) @ '' righe oltre il limite '' @
          show_nat (kl_max_rows l)))
      else if length (t_colonne t) > kl_max_columns l then
        Inl (ResourceLimit (''schema con '' @ show_nat (length (t_colonne t)) @
          '' colonne oltre il limite '' @ show_nat (kl_max_columns l)))
      else map_ok (\<lambda>_. ()) (try_fold nome_nuovo {} (s_campi (t_schema t))))"

definition I32_MAX :: nat where "I32_MAX = 2147483647"

definition somma_lunghezze :: "nat \<Rightarrow> string \<Rightarrow> string option list \<Rightarrow> nat result" where
  "somma_lunghezze um messaggio cs =
     try_fold (\<lambda>total value. if total + length value \<le> um then Inr (total + length value)
       else Inl (ResourceLimit messaggio)) 0 (List.map_filter id cs)"

definition colonna_normalizzata :: "('k, 'g) ambiente \<Rightarrow> field \<times> colonna \<Rightarrow> colonna result" where
  "colonna_normalizzata A fc =
     (case fc of (c, colonna) \<Rightarrow>
       if campo_tipo c = LargeUtf8 then
         try_bind (ok_or (Schema ''downcast LargeUtf8 fallito'') (ae_large_string A colonna)) (\<lambda>strings.
         try_bind (somma_lunghezze (ae_um A) ''overflow dimensione colonna LargeUtf8'' strings) (\<lambda>bytes.
         if bytes > I32_MAX then
           Inl (ResourceLimit ''colonna LargeUtf8 oltre il limite sicuro Utf8 di Arrow'')
         else Inr (ae_string_array A strings)))
       else if geometria_large_binary c then
         try_bind (ok_or (Schema ''downcast LargeBinary fallito'') (ae_large_binary A colonna)) (\<lambda>cs.
         try_bind (somma_lunghezze (ae_um A) ''overflow dimensione colonna LargeBinary'' cs) (\<lambda>bytes.
         if bytes > I32_MAX then
           Inl (ResourceLimit ''colonna geometria LargeBinary oltre il limite sicuro Binary di Arrow'')
         else Inr (ae_binary_array A cs)))
       else Inr colonna)"

definition normalize_large_utf8 :: "('k, 'g) ambiente \<Rightarrow> tabella \<Rightarrow> tabella result" where
  "normalize_large_utf8 A batch =
     (let schema = normalizza_schema (t_schema batch)
      in if schema = t_schema batch then Inr batch
         else try_bind (try_map (colonna_normalizzata A) (zip (s_campi (t_schema batch)) (t_colonne batch)))
           (\<lambda>columns. batch_with_rows A schema columns (t_righe batch)))"

definition conforma :: "('k, 'g) ambiente \<Rightarrow> tabella \<Rightarrow> 'k \<Rightarrow> tabella result" where
  "conforma A batch contratto =
     (let attesi = s_campi (ae_schema A contratto);
          ottenuti = s_campi (t_schema batch);
          divergente = length attesi \<noteq> length ottenuti \<or>
            list_ex (\<lambda>(atteso, ottenuto). campo_nome atteso \<noteq> campo_nome ottenuto \<or>
              campo_tipo atteso \<noteq> campo_tipo ottenuto) (zip attesi ottenuti)
      in if divergente then
           Inl (Internal (''l'output del kernel diverge dal contratto inferito in validazione '' @
             ''(nomi o tipi delle colonne)''))
         else if s_metadati (ae_schema A contratto) \<noteq> s_metadati (t_schema batch) \<or>
            list_ex (\<lambda>(atteso, ottenuto). campo_metadati atteso \<noteq> campo_metadati ottenuto)
              (zip attesi ottenuti) then
           Inl (Internal (''l'output del kernel diverge dal contratto inferito in validazione '' @
             ''(metadati di campo o di schema)''))
         else try_bind (ae_schema_from_contract A contratto) (\<lambda>schema.
           map_err (\<lambda>_. Internal (''l'output del kernel non rispetta lo schema del contratto '' @
               ''(nullabilita' o metadati)''))
             (batch_with_rows A schema (t_colonne batch) (t_righe batch))))"

section \<open>Checks on the rows of a step\<close>

definition check_edge_counts :: "limits \<Rightarrow> u64 \<Rightarrow> unit result" where
  "check_edge_counts l n =
     (if n > max_rows_per_edge (rows l) then
        Inl (ResourceLimit (''max_rows_per_edge superato: '' @ show_nat (unat n) @ '' righe > '' @
          show_nat (unat (max_rows_per_edge (rows l)))))
      else Inr ())"

definition mostra_vincolo :: "(f64 \<Rightarrow> string) \<Rightarrow> expansion_constraint_kind \<Rightarrow> string" where
  "mostra_vincolo f64_text c =
     (case c of SumRelative \<Rightarrow> ''SumRelative'' | LeftRelative \<Rightarrow> ''LeftRelative''
      | RightRelative \<Rightarrow> ''RightRelative'' | MaxRelative \<Rightarrow> ''MaxRelative''
      | Custom own \<Rightarrow> ''Custom('' @ f64_text own @ '')'')"

fun mostra_elementi :: "u64 list \<Rightarrow> string" where
  "mostra_elementi [] = ''''"
| "mostra_elementi [x] = show_nat (unat x)"
| "mostra_elementi (x # xs) = show_nat (unat x) @ '', '' @ mostra_elementi xs"

definition espansione_superata ::
    "operation_descriptor \<Rightarrow> f64 \<Rightarrow> u64 list \<Rightarrow> u64 \<Rightarrow> bool result" where
  "espansione_superata d fattore righe_in righe_out =
     (case (arity d, righe_in) of
        (Unary, [base]) \<Rightarrow> Inr (expansion_exceeded righe_out base fattore)
      | (BinaryOrdered, [sinistra, destra]) \<Rightarrow>
          Inr (exceeded (expansion_constraint d) righe_out sinistra destra fattore)
      | (NAry, [sinistra, destra]) \<Rightarrow>
          Inr (exceeded (expansion_constraint d) righe_out sinistra destra fattore)
      | _ \<Rightarrow> Inl (Internal ''arieta' del passo diversa da quella validata''))"

definition check_expansion ::
    "(f64 \<Rightarrow> string) \<Rightarrow> 'g passo_validato \<Rightarrow> limits \<Rightarrow> u64 list \<Rightarrow> u64 \<Rightarrow> unit result" where
  "check_expansion f64_text passo l righe_in righe_out =
     (let d = pv_descrittore passo in
      case pv_moltiplicatore passo of
        Some fattore \<Rightarrow>
          (let attese = (case righe_in of [n] \<Rightarrow> checked_mul n fattore | _ \<Rightarrow> None)
           in if attese = Some righe_out then Inr ()
              else Inl (Internal ''righe d'uscita diverse da quelle fissate dalla config''))
      | None \<Rightarrow>
          if expansion_factor_exempt d then Inr ()
          else
            let fattore = max_expansion_factor (rows l) in
            try_bind (espansione_superata d fattore righe_in righe_out) (\<lambda>superato.
            if superato then
              Inl (ResourceLimit (''max_expansion_factor superato (vincolo '' @
                mostra_vincolo f64_text (expansion_constraint d) @ ''): soglia '' @
                f64_text (binding_threshold (expansion_constraint d) fattore) @ '', output='' @
                show_nat (unat righe_out) @ '', input=['' @ mostra_elementi righe_in @ '']''))
            else Inr ()))"

section \<open>The kernel\<close>

definition nessuno :: "tabella \<Rightarrow> (tabella \<times> u64) chiamata" where
  "nessuno uscita = Ritorno (Inr (uscita, 0))"

fun verifica_tabelle :: "('k, 'g) ambiente \<Rightarrow> tabella list \<Rightarrow> unit chiamata" where
  "verifica_tabelle A [] = Ritorno (Inr ())"
| "verifica_tabelle A (t # ts) = poi (ae_verifica_tabella A t) (\<lambda>_. verifica_tabelle A ts)"

definition chiamata_kernel ::
    "('k, 'g) ambiente \<Rightarrow> 'g passo_validato \<Rightarrow> tabella list \<Rightarrow> kernel_limits \<Rightarrow> 'k \<Rightarrow>
     (tabella \<times> u64) chiamata" where
  "chiamata_kernel A passo ingressi l contratto =
     (case (pv_kernel passo, ingressi) of
        (PassoDiGeo geo, _) \<Rightarrow>
          poi (verifica_tabelle A ingressi) (\<lambda>_.
          poi (ae_geo A geo ingressi contratto (kl_max_governed_memory_bytes l)) nessuno)
      | (Tabellare preparato, [unico]) \<Rightarrow> ae_unario A preparato unico l
      | (Tabellare preparato, [sinistra, destra]) \<Rightarrow>
          poi (ae_binario A preparato sinistra destra l) nessuno
      | (Tabellare _, _) \<Rightarrow> Ritorno (Inl (Internal ''numero di input diverso da quello validato'')))"

definition esegui_kernel ::
    "('k, 'g) ambiente \<Rightarrow> 'g passo_validato \<Rightarrow> tabella list \<Rightarrow> kernel_limits \<Rightarrow> 'k \<Rightarrow>
     (tabella \<times> u64) result" where
  "esegui_kernel A passo ingressi l contratto =
     try_bind (case chiamata_kernel A passo ingressi l contratto of
         Ritorno r \<Rightarrow> r
       | Panico forma \<Rightarrow> Inl (Internal (''panico nel kernel '' @ op_id (pv_descrittore passo) @ '': '' @ forma)))
       (\<lambda>(output, effects).
     case pv_kernel passo of
       Tabellare _ \<Rightarrow>
         try_bind (ae_schema_effect A (t_schema output) (map t_schema ingressi) (pv_descrittore passo))
           (\<lambda>schema.
         try_bind (batch_with_rows A schema (t_colonne output) (t_righe output)) (\<lambda>output.
         Inr (output, effects)))
     | PassoDiGeo _ \<Rightarrow> Inr (output, effects))"

section \<open>Diagnostics of a step\<close>

fun con_contesto_sotto_la_fase :: "string \<Rightarrow> plenora_error \<Rightarrow> plenora_error" where
  "con_contesto_sotto_la_fase contesto (Tagged ph source) =
     Tagged ph (con_contesto_sotto_la_fase contesto source)"
| "con_contesto_sotto_la_fase contesto altro = nel_passo_o_input contesto altro"

definition righe_rifiutate :: "'g passo_validato \<Rightarrow> string" where
  "righe_rifiutate passo =
     ''passo `'' @ pv_out passo @ ''`: righe rifiutate nell'ingresso `'' @
     (case pv_inputs passo of [] \<Rightarrow> '''' | n # _ \<Rightarrow> n) @
     ''` del passo, non riconducibili alla sorgente (diagnostica senza esempi)''"

fun diagnostica_nella_base :: "'g passo_validato \<Rightarrow> plenora_error \<Rightarrow> plenora_error" where
  "diagnostica_nella_base passo (RowDiagnostics source d) =
     (if pv_base_indici passo = Sorgente then RowDiagnostics source d
      else case senza_attribuzione d of
        Inl _ \<Rightarrow> Internal (''passo `'' @ pv_out passo @
          ''`: diagnostica per riga non valida senza gli esempi'')
      | Inr d' \<Rightarrow> RowDiagnostics (con_contesto_sotto_la_fase (righe_rifiutate passo) source) d')"
| "diagnostica_nella_base passo (Tagged ph source) =
     (if pv_base_indici passo = Sorgente then Tagged ph source
      else Tagged ph (diagnostica_nella_base passo source))"
| "diagnostica_nella_base passo altro = altro"

section \<open>The quantities of the cost model\<close>

definition byte_ingresso :: "nat \<Rightarrow> tabella list \<Rightarrow> u64 result" where
  "byte_ingresso um ingressi =
     (let copia = fold (\<lambda>t totale. saturating_add totale (in_u64 (byte_dati um t))) ingressi 0
      in map_ok (\<lambda>vivi. max vivi copia) (byte_vivi ingressi))"

definition coppie_di :: "u64 list \<Rightarrow> u64" where
  "coppie_di righe_in =
     (case righe_in of [sinistra, destra] \<Rightarrow> saturating_mul sinistra destra | _ \<Rightarrow> 0)"

definition somma :: "u64 list \<Rightarrow> u64" where
  "somma valori = fold (\<lambda>valore totale. saturating_add totale valore) valori 0"

definition ingresso_del_passo :: "'g passo_validato \<Rightarrow> u64 list \<Rightarrow> u64 \<Rightarrow> ingresso" where
  "ingresso_del_passo passo righe_in byte =
     (let r = max (somma righe_in) (pv_righe_previste passo)
      in \<lparr>i_righe = r, i_byte = byte, coppie = coppie_di righe_in,
          celle = saturating_mul r (pv_colonne_uscita passo)\<rparr>)"

section \<open>Loading the inputs\<close>

definition carica_tabella ::
    "('k, 'g) ambiente \<Rightarrow> ('k, 'g, 'r) pipeline_validata \<Rightarrow> (string, tabella) btree \<Rightarrow>
     string \<times> tabella \<Rightarrow> (string, tabella) btree result" where
  "carica_tabella A v vivi nt =
     (case nt of (nome, tab) \<Rightarrow>
       case bt_get (vd_schemi_input v) nome of
         None \<Rightarrow> Inl (InvalidPlan (''tabella '' @ backtick nome @ '' non dichiarata tra gli input del piano''))
       | Some atteso \<Rightarrow>
           try_bind (map_err (con_contesto (input_contesto nome)) (normalize_large_utf8 A tab)) (\<lambda>tab.
           try_bind (ensure (t_schema tab = atteso) (Schema (input_contesto nome @
             '': schema diverso da quello dato in validazione''))) (\<lambda>_.
           try_bind (ok_or (Internal (''contratto dell'input '' @ backtick nome @ '' assente''))
             (bt_get (vd_contratti v) nome)) (\<lambda>canonico.
           try_bind (map_err (con_contesto (input_contesto nome))
             (batch_with_rows A (ae_schema A canonico) (t_colonne tab) (t_righe tab))) (\<lambda>tab.
           try_bind (map_err (con_contesto (input_contesto nome)) (validate_batch tab (vd_limiti_kernel v))) (\<lambda>_.
           try_bind (righe tab) (\<lambda>righe_input.
           if righe_input > max_input_rows (rows (vd_limiti v)) then
             Inl (ResourceLimit (input_contesto nome @ '': '' @ show_nat (unat righe_input) @
               '' righe oltre max_input_rows '' @ show_nat (unat (max_input_rows (rows (vd_limiti v))))))
           else if bt_get vivi nome \<noteq> None then
             Inl (InvalidPlan (''tabella '' @ backtick nome @ '' fornita due volte''))
           else Inr (bt_insert nome tab vivi))))))))"

definition carica_tabelle ::
    "('k, 'g) ambiente \<Rightarrow> ('k, 'g, 'r) pipeline_validata \<Rightarrow> (string \<times> tabella) list \<Rightarrow>
     (string, tabella) btree result" where
  "carica_tabelle A v tables =
     try_bind (try_fold (carica_tabella A v) [] tables) (\<lambda>vivi.
     case List.find (\<lambda>nome. bt_get vivi nome = None) (vd_inputs v) of
       Some mancante \<Rightarrow> Inl (InvalidPlan (''manca la tabella dell'input '' @ backtick mancante))
     | None \<Rightarrow> Inr vivi)"

section \<open>Last use\<close>

text \<open>\<open>USO_SENZA_FINE\<close> is \<open>usize::MAX\<close>; the loop visits the steps from the last.\<close>

definition uso_del_passo :: "nat \<times> 'g passo_validato \<Rightarrow> (string, nat) btree \<Rightarrow> (string, nat) btree" where
  "uso_del_passo ip m =
     (case ip of (indice, passo) \<Rightarrow>
       bt_or_insert (pv_out passo) indice
         (fold (\<lambda>sorgente. bt_or_insert sorgente indice) (pv_inputs passo) m))"

definition ultimo_uso :: "nat \<Rightarrow> string list \<Rightarrow> 'g passo_validato list \<Rightarrow> (string, nat) btree" where
  "ultimo_uso um outputs passi =
     fold uso_del_passo (rev (enumerate 0 passi)) (fold (\<lambda>nome. bt_insert nome um) outputs [])"

definition liberati_al_passo :: "(string, nat) btree \<Rightarrow> nat \<Rightarrow> string list" where
  "liberati_al_passo uso indice = map fst (filter (\<lambda>(_, ultimo). ultimo = indice) uso)"

section \<open>A step\<close>

record report_passo =
  rp_out :: string
  rp_op :: string
  rp_righe_in :: "u64 list"
  rp_righe_out :: u64
  rp_byte_previsti :: u64
  rp_margine_kernel :: u64
  rp_byte_output_esclusivi :: u64
  rp_byte_vivi_con_uscita :: u64
  rp_liberati :: "string list"
  rp_byte_vivi :: u64
  rp_righe_divisione_per_zero :: u64

record esito_passo =
  ep_uscita :: tabella
  ep_righe_in :: "u64 list"
  ep_righe_out :: u64
  ep_previsti :: u64
  ep_margine :: u64
  ep_esclusivi :: u64
  ep_con_uscita :: u64
  ep_divisioni :: u64

definition leggi_ingressi :: "(string, tabella) btree \<Rightarrow> string list \<Rightarrow> tabella list result" where
  "leggi_ingressi vivi inputs =
     try_map (\<lambda>sorgente. ok_or (Internal (backtick sorgente @ '' non residente al passo che lo usa''))
       (bt_get vivi sorgente)) inputs"

text \<open>The checks on the output of the kernel, inside the error context of the step.\<close>

definition controlla_uscita ::
    "('k, 'g) ambiente \<Rightarrow> ('k, 'g, 'r) pipeline_validata \<Rightarrow> 'g passo_validato \<Rightarrow> 'k \<Rightarrow> u64 list \<Rightarrow>
     tabella \<times> u64 \<Rightarrow> (tabella \<times> u64) result" where
  "controlla_uscita A v passo contratto righe_in ue =
     (case ue of (uscita, effetti) \<Rightarrow>
       try_bind (validate_batch uscita (vd_limiti_kernel v)) (\<lambda>_.
       try_bind (righe uscita) (\<lambda>righe_out.
       try_bind (if pv_out passo \<in> set (vd_outputs v) then Inr ()
                 else check_edge_counts (vd_limiti v) righe_out) (\<lambda>_.
       try_bind (check_expansion (ae_mostra_f64 A) passo (vd_limiti v) righe_in righe_out) (\<lambda>_.
       map_ok (\<lambda>uscita. (uscita, effetti)) (conforma A uscita contratto))))))"

text \<open>From the tables read to the output accepted: the budget before the kernel, the kernel with the whole
  margin, the checks, the budget after it. \<open>valori\<close> are the resident tables.\<close>

definition corpo_passo ::
    "('k, 'g) ambiente \<Rightarrow> ('k, 'g, 'r) pipeline_validata \<Rightarrow> 'g passo_validato \<Rightarrow> tabella list \<Rightarrow>
     tabella list \<Rightarrow> u64 list \<Rightarrow> 'k \<Rightarrow> esito_passo result" where
  "corpo_passo A v passo valori ingressi righe_in contratto =
     (let budget = max_governed_memory_bytes (vd_limiti v);
          op = op_id (pv_descrittore passo);
          nel = nel_passo (pv_out passo) in
      try_bind (map_err nel (byte_vivi valori)) (\<lambda>res.
      try_bind (map_err nel (byte_ingresso (ae_um A) ingressi)) (\<lambda>byte.
      let previsti = picco (in_memoria (pv_costo passo)) (ingresso_del_passo passo righe_in byte) in
      if (case checked_add res previsti of None \<Rightarrow> True | Some tot \<Rightarrow> tot > budget) then
        Inl (nel (ResourceLimit (op @ '': previsti '' @ show_nat (unat previsti) @ '' byte oltre i '' @
          show_nat (unat res) @ '' residenti, oltre il budget '' @ show_nat (unat budget) @
          '' (max_governed_memory_bytes)'')))
      else
        let margine = budget - res;
            l = vd_limiti_kernel v\<lparr>kl_max_governed_memory_bytes :=
              (case usize_try_from (ae_um A) margine of None \<Rightarrow> ae_um A | Some x \<Rightarrow> x)\<rparr> in
        try_bind (map_err nel
            (try_bind (map_err (diagnostica_nella_base passo) (esegui_kernel A passo ingressi l contratto))
              (controlla_uscita A v passo contratto righe_in))) (\<lambda>(uscita, effetti).
        try_bind (righe uscita) (\<lambda>righe_out.
        try_bind (byte_vivi (valori @ [uscita])) (\<lambda>con_uscita.
        try_bind (ok_or (Internal ''byte vivi diminuiti aggiungendo una tabella'')
          (checked_sub con_uscita res)) (\<lambda>esclusivi.
        if con_uscita > budget then
          Inl (nel (ResourceLimit (op @ '': byte vivi con l'output '' @ show_nat (unat con_uscita) @
            '' oltre il budget '' @ show_nat (unat budget) @ '' (max_governed_memory_bytes)'')))
        else Inr \<lparr>ep_uscita = uscita, ep_righe_in = righe_in, ep_righe_out = righe_out,
          ep_previsti = previsti, ep_margine = margine, ep_esclusivi = esclusivi,
          ep_con_uscita = con_uscita, ep_divisioni = effetti\<rparr>)))))))"

definition resoconto :: "'g passo_validato \<Rightarrow> esito_passo \<Rightarrow> string list \<Rightarrow> u64 \<Rightarrow> report_passo" where
  "resoconto passo e lib vivi =
     \<lparr>rp_out = pv_out passo, rp_op = op_id (pv_descrittore passo), rp_righe_in = ep_righe_in e,
      rp_righe_out = ep_righe_out e, rp_byte_previsti = ep_previsti e, rp_margine_kernel = ep_margine e,
      rp_byte_output_esclusivi = ep_esclusivi e, rp_byte_vivi_con_uscita = ep_con_uscita e,
      rp_liberati = lib, rp_byte_vivi = vivi, rp_righe_divisione_per_zero = ep_divisioni e\<rparr>"

definition prima_del_passo :: "'g passo_validato \<Rightarrow> string" where
  "prima_del_passo passo =
     ''prima del passo '' @ backtick (pv_out passo) @ '' ('' @ op_id (pv_descrittore passo) @ '')''"

type_synonym stato_esecuzione = "(string, tabella) btree \<times> report_passo list"

definition esegui_passo ::
    "('k, 'g) ambiente \<Rightarrow> ('k, 'g, 'r) pipeline_validata \<Rightarrow> interruzione \<Rightarrow> (nat \<Rightarrow> osservazione) \<Rightarrow>
     (string, nat) btree \<Rightarrow> stato_esecuzione \<Rightarrow> nat \<times> 'g passo_validato \<Rightarrow> stato_esecuzione result" where
  "esegui_passo A v i oss uso st ip =
     (case (st, ip) of ((vivi, passi), (indice, passo)) \<Rightarrow>
       try_bind (verifica i (oss indice) (prima_del_passo passo)) (\<lambda>_.
       try_bind (leggi_ingressi vivi (pv_inputs passo)) (\<lambda>ingressi.
       try_bind (try_map righe ingressi) (\<lambda>righe_in.
       try_bind (ok_or (Internal (''contratto di '' @ backtick (pv_out passo) @ '' assente''))
         (bt_get (vd_contratti v) (pv_out passo))) (\<lambda>contratto.
       try_bind (corpo_passo A v passo (bt_values vivi) ingressi righe_in contratto) (\<lambda>e.
       let vivi = bt_insert (pv_out passo) (ep_uscita e) vivi;
           lib = liberati_al_passo uso indice;
           vivi = fold bt_remove lib vivi in
       try_bind (byte_vivi (bt_values vivi)) (\<lambda>b.
       Inr (vivi, passi @ [resoconto passo e lib b]))))))))"

section \<open>The run\<close>

record report =
  re_budget :: u64
  re_liberati_all_avvio :: "string list"
  re_byte_vivi_iniziali :: u64
  re_passi :: "report_passo list"

record esito =
  es_outputs :: "(string \<times> tabella) list"
  es_report :: report

definition consegna_output ::
    "('k, 'g) ambiente \<Rightarrow> ('k, 'g, 'r) pipeline_validata \<Rightarrow>
     (string, tabella) btree \<times> (string \<times> tabella) list \<Rightarrow> string \<Rightarrow>
     ((string, tabella) btree \<times> (string \<times> tabella) list) result" where
  "consegna_output A v s nome =
     (case s of (vivi, outputs) \<Rightarrow>
       try_bind (ok_or (Internal (''output '' @ backtick nome @ '' non residente a fine piano''))
         (bt_get vivi nome)) (\<lambda>tab.
       let vivi = bt_remove nome vivi in
       try_bind (righe tab) (\<lambda>righe_output.
       if righe_output > max_output_rows (rows (vd_limiti v)) then
         Inl (ResourceLimit (''output '' @ backtick nome @ '': '' @ show_nat (unat righe_output) @
           '' righe oltre max_output_rows '' @ show_nat (unat (max_output_rows (rows (vd_limiti v))))))
       else
         try_bind (ok_or (Internal (''schema pubblicato dell'output '' @ backtick nome @ '' assente''))
           (bt_get (vd_schemi_uscita v) nome)) (\<lambda>pubblicato.
         try_bind (map_err (\<lambda>_. Internal (''output '' @ backtick nome @
             '': la tabella non rispetta lo schema pubblicato''))
           (batch_with_rows A pubblicato (t_colonne tab) (t_righe tab))) (\<lambda>tab.
         Inr (vivi, outputs @ [(nome, tab)]))))))"

definition avvio ::
    "('k, 'g, 'r) pipeline_validata \<Rightarrow> (string, nat) btree \<Rightarrow> (string, tabella) btree \<Rightarrow>
     ((string, tabella) btree \<times> string list \<times> u64) result" where
  "avvio v uso vivi =
     (let budget = max_governed_memory_bytes (vd_limiti v);
          lib = filter (\<lambda>nome. bt_get uso nome = None) (vd_inputs v);
          vivi = fold bt_remove lib vivi
      in try_bind (byte_vivi (bt_values vivi)) (\<lambda>iniziali.
         if iniziali > budget then
           Inl (ResourceLimit (''input: byte vivi iniziali '' @ show_nat (unat iniziali) @
             '' oltre il budget '' @ show_nat (unat budget) @ '' (max_governed_memory_bytes)''))
         else Inr (vivi, lib, iniziali)))"

definition chiusura ::
    "('k, 'g) ambiente \<Rightarrow> ('k, 'g, 'r) pipeline_validata \<Rightarrow> (string, tabella) btree \<Rightarrow>
     (string \<times> tabella) list result" where
  "chiusura A v vivi =
     (let budget = max_governed_memory_bytes (vd_limiti v) in
      try_bind (byte_vivi (bt_values vivi)) (\<lambda>finali.
      if finali > budget then
        Inl (ResourceLimit (''output: byte vivi finali '' @ show_nat (unat finali) @
          '' oltre il budget '' @ show_nat (unat budget) @ '' (max_governed_memory_bytes)''))
      else map_ok snd (try_fold (consegna_output A v) (vivi, []) (vd_outputs v))))"

text \<open>The check before the delivery is the one after those of all the steps.\<close>

definition run_interrompibile ::
    "('k, 'g) ambiente \<Rightarrow> ('k, 'g, 'r) pipeline_validata \<Rightarrow> (string \<times> tabella) list \<Rightarrow>
     interruzione \<Rightarrow> (nat \<Rightarrow> osservazione) \<Rightarrow> esito result" where
  "run_interrompibile A v tables i oss =
     try_bind (carica_tabelle A v tables) (\<lambda>vivi.
     let uso = ultimo_uso (ae_um A) (vd_outputs v) (vd_passi v) in
     try_bind (avvio v uso vivi) (\<lambda>(vivi, lib, iniziali).
     try_bind (try_fold (esegui_passo A v i oss uso) (vivi, []) (enumerate 0 (vd_passi v)))
       (\<lambda>(vivi, passi).
     try_bind (chiusura A v vivi) (\<lambda>outputs.
     try_bind (map_err (with_phase Finalize)
       (verifica i (oss (length (vd_passi v))) ''prima di consegnare gli output'')) (\<lambda>_.
     Inr \<lparr>es_outputs = outputs,
          es_report = \<lparr>re_budget = max_governed_memory_bytes (vd_limiti v),
            re_liberati_all_avvio = lib, re_byte_vivi_iniziali = iniziali, re_passi = passi\<rparr>\<rparr>)))))"

definition run ::
    "('k, 'g) ambiente \<Rightarrow> ('k, 'g, 'r) pipeline_validata \<Rightarrow> (string \<times> tabella) list \<Rightarrow>
     (nat \<Rightarrow> osservazione) \<Rightarrow> esito result" where
  "run A v tables oss = run_interrompibile A v tables interruzione_default oss"

end
