(* ===== verification/Residency.thy ===== *)
theory Residency
  imports Provenance Execution
begin

text \<open>
  Which tables are resident. The runner keeps a map and frees tables by a backward analysis of the last
  uses; the abstract runner of this theory keeps every table forever and counts, at each step, only the
  tables still needed. The two give the same result for every validated plan.
\<close>

section \<open>Uses\<close>

definition usa :: "'g passo_validato \<Rightarrow> string \<Rightarrow> bool" where
  "usa passo n \<longleftrightarrow> n = pv_out passo \<or> n \<in> set (pv_inputs passo)"

text \<open>\<open>n\<close> is needed at or after step \<open>k\<close>.\<close>

definition serve :: "string list \<Rightarrow> 'g passo_validato list \<Rightarrow> nat \<Rightarrow> string \<Rightarrow> bool" where
  "serve outputs passi k n \<longleftrightarrow> n \<in> set outputs \<or> list_ex (\<lambda>p. usa p n) (drop k passi)"

lemma serve_step:
  "k < length passi \<Longrightarrow> serve outputs passi k n \<longleftrightarrow> usa (passi ! k) n \<or> serve outputs passi (Suc k) n"
  by (auto simp: serve_def Cons_nth_drop_Suc [symmetric])

lemma serve_end: "length passi \<le> k \<Longrightarrow> serve outputs passi k n \<longleftrightarrow> n \<in> set outputs"
  by (simp add: serve_def)

lemma fold_or_insert:
  "bt_get (fold (\<lambda>s. bt_or_insert s i) xs m) n =
     (case bt_get m n of Some x \<Rightarrow> Some x | None \<Rightarrow> if n \<in> set xs then Some i else None)"
  by (induction xs arbitrary: m) (auto simp: bt_get_or_insert split: option.splits)

lemma uso_del_passo_get:
  "bt_get (uso_del_passo (i, p) m) n =
     (case bt_get m n of Some x \<Rightarrow> Some x | None \<Rightarrow> if usa p n then Some i else None)"
  by (auto simp: uso_del_passo_def bt_get_or_insert fold_or_insert usa_def split: option.splits)

fun ultimo_da :: "nat \<Rightarrow> 'g passo_validato list \<Rightarrow> string \<Rightarrow> nat option" where
  "ultimo_da j [] n = None"
| "ultimo_da j (p # ps) n =
     (case ultimo_da (Suc j) ps n of Some x \<Rightarrow> Some x | None \<Rightarrow> if usa p n then Some j else None)"

lemma uso_dei_passi_get:
  "bt_get (foldr uso_del_passo (enumerate j ps) m) n =
     (case bt_get m n of Some x \<Rightarrow> Some x | None \<Rightarrow> ultimo_da j ps n)"
  by (induction ps arbitrary: j) (auto simp: uso_del_passo_get split: option.splits)

lemma uso_degli_output_get:
  "bt_get (fold (\<lambda>nome. bt_insert nome um) outputs m) n = (if n \<in> set outputs then Some um else bt_get m n)"
  by (induction outputs arbitrary: m) (auto simp: bt_simps)

lemma ultimo_uso_get:
  "bt_get (ultimo_uso um outputs passi) n =
     (if n \<in> set outputs then Some um else ultimo_da 0 passi n)"
  by (simp add: ultimo_uso_def foldr_conv_fold [symmetric] uso_dei_passi_get uso_degli_output_get bt_simps)

lemma ultimo_da_None: "ultimo_da j ps n = None \<longleftrightarrow> \<not> list_ex (\<lambda>p. usa p n) ps"
proof (induction ps arbitrary: j)
  case (Cons p ps)
  from Cons.IH [of "Suc j"] show ?case by (cases "ultimo_da (Suc j) ps n") auto
qed simp

lemma ultimo_da_ge: "ultimo_da j ps n = Some x \<Longrightarrow> j \<le> x \<and> x < j + length ps"
  by (induction ps arbitrary: j) (fastforce split: option.splits if_splits)+

lemma ultimo_da_Some:
  "k < length ps \<Longrightarrow> ultimo_da j ps n = Some (j + k) \<longleftrightarrow>
     usa (ps ! k) n \<and> \<not> list_ex (\<lambda>p. usa p n) (drop (Suc k) ps)"
proof (induction ps arbitrary: j k)
  case (Cons p ps)
  show ?case
  proof (cases k)
    case 0
    then show ?thesis
      using ultimo_da_ge [of "Suc j" ps n] ultimo_da_None [of "Suc j" ps n]
      by (auto split: option.splits)
  next
    case (Suc k')
    with Cons.prems have "ultimo_da (Suc j) ps n = Some (j + k) \<longleftrightarrow>
        usa (ps ! k') n \<and> \<not> list_ex (\<lambda>p. usa p n) (drop (Suc k') ps)"
      using Cons.IH [of k' "Suc j"] by simp
    then show ?thesis using Suc by (auto split: option.splits)
  qed
qed simp

text \<open>The map of the last uses, read as liveness: no entry means never needed, and the entry \<open>k\<close> means
  needed for the last time at step \<open>k\<close>.\<close>

lemma ultimo_uso_None: "bt_get (ultimo_uso um outputs passi) n = None \<longleftrightarrow> \<not> serve outputs passi 0 n"
  by (simp add: ultimo_uso_get serve_def ultimo_da_None)

lemma ultimo_uso_Some:
  assumes "k < length passi" and "length passi \<le> um"
  shows "bt_get (ultimo_uso um outputs passi) n = Some k \<longleftrightarrow>
     serve outputs passi k n \<and> \<not> serve outputs passi (Suc k) n"
proof (cases "n \<in> set outputs")
  case False
  then show ?thesis
    using ultimo_da_Some [of k passi 0 n] assms serve_step [of k passi outputs n]
    by (auto simp: ultimo_uso_get serve_def)
qed (use assms in \<open>simp add: ultimo_uso_get serve_def\<close>)

lemma bt_wf_ultimo_uso: "bt_wf (ultimo_uso um outputs passi)"
proof -
  have inputs: "bt_wf (fold (\<lambda>s. bt_or_insert s i) xs m)" if "bt_wf m" for i :: nat and xs m
    using that by (rule fold_preserves [where P = bt_wf]) (rule bt_wf_or_insert)
  have step: "bt_wf (uso_del_passo ip m)" if "bt_wf m" for ip :: "nat \<times> 'a passo_validato" and m
    using that by (cases ip) (simp add: uso_del_passo_def bt_wf_or_insert inputs)
  have "bt_wf (fold (\<lambda>nome. bt_insert nome um) outputs [])"
    by (rule fold_preserves [where P = bt_wf]) (simp_all add: bt_wf_insert bt.wf_empty)
  then show ?thesis
    unfolding ultimo_uso_def by (rule fold_preserves [where P = bt_wf]) (rule step)
qed

text \<open>The names that die at a step, in order.\<close>

definition muoiono :: "string list \<Rightarrow> 'g passo_validato list \<Rightarrow> nat \<Rightarrow> string list" where
  "muoiono outputs passi k =
     sorted_list_of_set {n \<in> set (pv_out (passi ! k) # pv_inputs (passi ! k)). \<not> serve outputs passi (Suc k) n}"

lemma liberati_al_passo_eq:
  assumes "k < length passi" and "length passi \<le> um"
  shows "liberati_al_passo (ultimo_uso um outputs passi) k = muoiono outputs passi k"
proof -
  let ?uso = "ultimo_uso um outputs passi"
  have wf: "sorted_wrt (<) (map fst ?uso)" using bt_wf_ultimo_uso by (simp add: bt_wf_def)
  have "sorted_wrt (<) (liberati_al_passo ?uso k)"
    using wf by (simp add: liberati_al_passo_def sorted_wrt_map sorted_wrt_filter)
  moreover have "set (liberati_al_passo ?uso k) = {n. bt_get ?uso n = Some k}"
    using wf by (force simp: liberati_al_passo_def bt_get_def strict_sorted_iff)
  moreover have "\<dots> = {n \<in> set (pv_out (passi ! k) # pv_inputs (passi ! k)). \<not> serve outputs passi (Suc k) n}"
    using ultimo_uso_Some [OF assms, of outputs] serve_step [OF assms(1), of outputs]
    by (auto simp: usa_def)
  ultimately show ?thesis
    unfolding muoiono_def
    by (metis sorted_list_of_set_unique finite_set strict_sorted_iff distinct_card)
qed

section \<open>What the runner needs of a plan\<close>

definition nomi_prima :: "('k, 'g, 'r) pipeline_validata \<Rightarrow> nat \<Rightarrow> string set" where
  "nomi_prima v k = set (vd_inputs v) \<union> set (take k (map pv_out (vd_passi v)))"

definition eseguibile :: "('k, 'g, 'r) pipeline_validata \<Rightarrow> bool" where
  "eseguibile v \<longleftrightarrow>
     forma_ssa (vd_inputs v) (map pv_inputs (vd_passi v)) (map pv_out (vd_passi v))
     \<and> distinct (vd_outputs v) \<and> set (vd_outputs v) \<subseteq> nomi_prima v (length (vd_passi v))
     \<and> (\<forall>n \<in> nomi_prima v (length (vd_passi v)). bt_get (vd_contratti v) n \<noteq> None)
     \<and> (\<forall>n \<in> set (vd_outputs v). bt_get (vd_schemi_uscita v) n \<noteq> None)
     \<and> (\<forall>n. bt_get (vd_schemi_input v) n \<noteq> None \<longleftrightarrow> n \<in> set (vd_inputs v))"

lemma corrisponde_maps:
  "list_all2 corrisponde ps passi \<Longrightarrow>
     map pv_out passi = map p_out ps \<and> map pv_inputs passi = map p_inputs ps"
  by (induction rule: list_all2_induct) (auto simp: corrisponde_def)

lemma validate_eseguibile:
  assumes "validate um an p schemas = Inr v"
  shows "eseguibile v \<and> length (vd_passi v) \<le> 1024"
proof -
  have form: "piano_ssa plan_limits_default p" "vd_inputs v = pl_inputs p" "vd_outputs v = pl_outputs p"
    "list_all2 corrisponde (pl_steps p) (vd_passi v)"
    "\<And>n. bt_get (vd_contratti v) n \<noteq> None \<longleftrightarrow> n \<in> set (pl_inputs p) \<union> p_out ` set (pl_steps p)"
    "\<And>n. bt_get (vd_schemi_input v) n =
          (if n \<in> set (pl_inputs p) then map_option normalizza_schema (map_of schemas n) else None)"
    "\<And>n. bt_get (vd_schemi_uscita v) n \<noteq> None \<longleftrightarrow> n \<in> set (pl_outputs p)"
    using validate_invariant [OF assms] by auto
  from validate_stages [OF assms] obtain forniti where
    given: "schemi_forniti (pl_inputs p) schemas = Inr forniti"
    and limits: "verifica_limiti_del_piano (an_byte_config an) p plan_limits_default = Inr ()" by blast
  note maps = corrisponde_maps [OF form(4)]
  have names: "nomi_prima v (length (vd_passi v)) = set (pl_inputs p) \<union> p_out ` set (pl_steps p)"
    using maps list_all2_lengthD [OF form(4)] by (simp add: nomi_prima_def form(2))
  have "length (vd_passi v) = length (pl_steps p)"
    using form(4) by (simp add: list_all2_lengthD)
  moreover have "length (pl_steps p) \<le> 1024"
    using limits by (auto simp: verifica_limiti_del_piano_def results plan_limits_default_def)
  moreover have "map_of schemas n \<noteq> None" if "n \<in> set (pl_inputs p)" for n
    using given that by (auto simp: schemi_forniti_Inr map_of_eq_None_iff)
  ultimately show ?thesis
    using form(1,3,5,7) maps piano_ssa_forma [OF form(1)] names
    by (auto simp: eseguibile_def form(2) form(6) piano_ssa_def Let_def)
qed

lemma sorgenti_prima:
  assumes "eseguibile v" and "k < length (vd_passi v)"
  shows "set (pv_inputs (vd_passi v ! k)) \<subseteq> nomi_prima v k"
  using assms by (auto simp: eseguibile_def forma_ssa_def sorgenti_definite_def nomi_prima_def)

lemma nomi_prima_Suc:
  "k < length (vd_passi v) \<Longrightarrow> nomi_prima v (Suc k) = insert (pv_out (vd_passi v ! k)) (nomi_prima v k)"
  by (auto simp: nomi_prima_def take_Suc_conv_app_nth)

lemma nomi_prima_mono: "j \<le> k \<Longrightarrow> nomi_prima v j \<subseteq> nomi_prima v k"
  using set_take_subset_set_take [of j k "map pv_out (vd_passi v)"] by (auto simp: nomi_prima_def)

section \<open>The abstract runner\<close>

abbreviation serve_a :: "('k, 'g, 'r) pipeline_validata \<Rightarrow> nat \<Rightarrow> string \<Rightarrow> bool" where
  "serve_a v k n \<equiv> serve (vd_outputs v) (vd_passi v) k n"

definition vive :: "('k, 'g, 'r) pipeline_validata \<Rightarrow> nat \<Rightarrow> (string, tabella) btree \<Rightarrow> (string, tabella) btree" where
  "vive v k E = filter (\<lambda>nt. serve_a v k (fst nt)) E"

text \<open>Every table of every step stays in \<open>E\<close>: no lookup can miss and nothing is freed.\<close>

definition passo_astratto ::
    "('k, 'g) ambiente \<Rightarrow> ('k, 'g, 'r) pipeline_validata \<Rightarrow> interruzione \<Rightarrow> (nat \<Rightarrow> osservazione) \<Rightarrow>
     stato_esecuzione \<Rightarrow> nat \<times> 'g passo_validato \<Rightarrow> stato_esecuzione result" where
  "passo_astratto A v i oss st ip =
     (case (st, ip) of ((E, rs), (k, passo)) \<Rightarrow>
       try_bind (verifica i (oss k) (prima_del_passo passo)) (\<lambda>_.
       let ingressi = map (\<lambda>n. the (bt_get E n)) (pv_inputs passo);
           contratto = the (bt_get (vd_contratti v) (pv_out passo)) in
       try_bind (try_map righe ingressi) (\<lambda>righe_in.
       try_bind (corpo_passo A v passo (bt_values (vive v k E)) ingressi righe_in contratto) (\<lambda>e.
       let E = bt_insert (pv_out passo) (ep_uscita e) E in
       try_bind (byte_vivi (bt_values (vive v (Suc k) E))) (\<lambda>b.
       Inr (E, rs @ [resoconto passo e (muoiono (vd_outputs v) (vd_passi v) k) b]))))))"

definition consegna_astratta ::
    "('k, 'g) ambiente \<Rightarrow> ('k, 'g, 'r) pipeline_validata \<Rightarrow> (string, tabella) btree \<Rightarrow> string \<Rightarrow>
     (string \<times> tabella) result" where
  "consegna_astratta A v E nome =
     (let tab = the (bt_get E nome) in
      try_bind (righe tab) (\<lambda>righe_output.
      if righe_output > max_output_rows (rows (vd_limiti v)) then
        Inl (ResourceLimit (''output '' @ backtick nome @ '': '' @ show_nat (unat righe_output) @
          '' righe oltre max_output_rows '' @ show_nat (unat (max_output_rows (rows (vd_limiti v))))))
      else
        try_bind (map_err (\<lambda>_. Internal (''output '' @ backtick nome @
            '': la tabella non rispetta lo schema pubblicato''))
          (batch_with_rows A (the (bt_get (vd_schemi_uscita v) nome)) (t_colonne tab) (t_righe tab))) (\<lambda>tab.
        Inr (nome, tab))))"

definition run_astratto ::
    "('k, 'g) ambiente \<Rightarrow> ('k, 'g, 'r) pipeline_validata \<Rightarrow> (string \<times> tabella) list \<Rightarrow>
     interruzione \<Rightarrow> (nat \<Rightarrow> osservazione) \<Rightarrow> esito result" where
  "run_astratto A v tables i oss =
     (let budget = max_governed_memory_bytes (vd_limiti v) in
      try_bind (carica_tabelle A v tables) (\<lambda>E.
      try_bind (byte_vivi (bt_values (vive v 0 E))) (\<lambda>iniziali.
      if iniziali > budget then
        Inl (ResourceLimit (''input: byte vivi iniziali '' @ show_nat (unat iniziali) @
          '' oltre il budget '' @ show_nat (unat budget) @ '' (max_governed_memory_bytes)''))
      else
      try_bind (try_fold (passo_astratto A v i oss) (E, []) (enumerate 0 (vd_passi v))) (\<lambda>(E, rs).
      try_bind (try_map (consegna_astratta A v E) (vd_outputs v)) (\<lambda>outputs.
      try_bind (map_err (with_phase Finalize)
        (verifica i (oss (length (vd_passi v))) ''prima di consegnare gli output'')) (\<lambda>_.
      Inr \<lparr>es_outputs = outputs,
           es_report = \<lparr>re_budget = budget,
             re_liberati_all_avvio = filter (\<lambda>n. \<not> serve_a v 0 n) (vd_inputs v),
             re_byte_vivi_iniziali = iniziali, re_passi = rs\<rparr>\<rparr>))))))"

section \<open>Refinement\<close>

lemma bt_get_vive: "bt_get (vive v k E) n = (if serve_a v k n then bt_get E n else None)"
  by (induction E) (auto simp: vive_def bt_get_def)

lemma bt_wf_vive: "bt_wf E \<Longrightarrow> bt_wf (vive v k E)"
  by (simp add: bt_wf_def vive_def sorted_wrt_map sorted_wrt_filter)

lemma bt_wf_remove_list: "bt_wf m \<Longrightarrow> bt_wf (fold bt_remove ns m)"
  by (rule bt.wf_remove_all)

text \<open>The release of the names that die at a step leaves the tables alive after it.\<close>

lemma rilascio:
  assumes "bt_wf E" and "k < length (vd_passi v)"
  shows "fold bt_remove (muoiono (vd_outputs v) (vd_passi v) k)
      (bt_insert (pv_out (vd_passi v ! k)) t (vive v k E))
    = vive v (Suc k) (bt_insert (pv_out (vd_passi v ! k)) t E)"
proof (rule bt_ext)
  fix n
  show "bt_get (fold bt_remove (muoiono (vd_outputs v) (vd_passi v) k)
      (bt_insert (pv_out (vd_passi v ! k)) t (vive v k E))) n
    = bt_get (vive v (Suc k) (bt_insert (pv_out (vd_passi v ! k)) t E)) n"
    using serve_step [OF assms(2), of "vd_outputs v" n]
    by (auto simp: bt_simps bt_get_vive muoiono_def usa_def)
qed (simp_all add: assms(1) bt_wf_insert bt_wf_vive bt_wf_remove_list)

lemma avvio_vive:
  assumes "bt_wf E" and "\<And>n. bt_get E n \<noteq> None \<longleftrightarrow> n \<in> set (vd_inputs v)"
  shows "fold bt_remove (filter (\<lambda>n. \<not> serve_a v 0 n) (vd_inputs v)) E = vive v 0 E"
proof (rule bt_ext)
  fix n
  show "bt_get (fold bt_remove (filter (\<lambda>n. \<not> serve_a v 0 n) (vd_inputs v)) E) n = bt_get (vive v 0 E) n"
    using assms(2) [of n] by (auto simp: bt_simps bt_get_vive)
qed (simp_all add: assms(1) bt_wf_vive bt_wf_remove_list)

lemma values_vive_insert:
  assumes "k < length (vd_passi v)" and "bt_wf E"
  shows "set (bt_values (vive v (Suc k) (bt_insert n t E))) \<subseteq> insert t (set (bt_values (vive v k E)))"
proof
  fix u assume "u \<in> set (bt_values (vive v (Suc k) (bt_insert n t E)))"
  then obtain m where "bt_get (vive v (Suc k) (bt_insert n t E)) m = Some u"
    using bt_values_iff [OF bt_wf_vive [OF bt_wf_insert [OF assms(2)]]] by blast
  then have "u = t \<or> bt_get (vive v k E) m = Some u"
    using serve_step [OF assms(1), of "vd_outputs v" m]
    by (auto simp: bt_get_vive bt_simps split: if_splits)
  then show "u \<in> insert t (set (bt_values (vive v k E)))"
    using bt_values_iff [OF bt_wf_vive [OF assms(2)]] by blast
qed

text \<open>The invariant of the abstract run before step \<open>k\<close>.\<close>

definition entro_il_budget :: "('k, 'g, 'r) pipeline_validata \<Rightarrow> tabella list \<Rightarrow> bool" where
  "entro_il_budget v ts \<longleftrightarrow> (\<exists>b. byte_vivi ts = Inr b \<and> b \<le> max_governed_memory_bytes (vd_limiti v))"

definition invariante :: "('k, 'g, 'r) pipeline_validata \<Rightarrow> nat \<Rightarrow> (string, tabella) btree \<Rightarrow> bool" where
  "invariante v k E \<longleftrightarrow> bt_wf E \<and> (\<forall>n. bt_get E n \<noteq> None \<longleftrightarrow> n \<in> nomi_prima v k)
     \<and> entro_il_budget v (bt_values (vive v k E))"

lemma corpo_passo_Inr:
  assumes "corpo_passo A v passo valori ingressi righe_in contratto = Inr e"
  shows "\<exists>res. byte_vivi valori = Inr res \<and> ep_righe_in e = righe_in
     \<and> righe (ep_uscita e) = Inr (ep_righe_out e)
     \<and> unat res + unat (ep_previsti e) \<le> unat (max_governed_memory_bytes (vd_limiti v))
     \<and> ep_margine e = max_governed_memory_bytes (vd_limiti v) - res
     \<and> byte_vivi (valori @ [ep_uscita e]) = Inr (ep_con_uscita e)
     \<and> checked_sub (ep_con_uscita e) res = Some (ep_esclusivi e)
     \<and> ep_con_uscita e \<le> max_governed_memory_bytes (vd_limiti v)"
  using assms unfolding corpo_passo_def Let_def
  by (auto simp: results checked_add_Some word_le_nat_alt not_less split: if_splits option.splits)

lemma passo_astratto_invariante:
  assumes "passo_astratto A v i oss (E, rs) (k, vd_passi v ! k) = Inr (E', rs')"
    and "k < length (vd_passi v)" and "invariante v k E"
  shows "invariante v (Suc k) E'"
proof -
  let ?p = "vd_passi v ! k"
  from assms(1) obtain ingressi righe_in contratto e b where
    e: "corpo_passo A v ?p (bt_values (vive v k E)) ingressi righe_in contratto = Inr e"
    and E': "E' = bt_insert (pv_out ?p) (ep_uscita e) E"
    and b: "byte_vivi (bt_values (vive v (Suc k) E')) = Inr b"
    unfolding passo_astratto_def by (auto simp: results Let_def)
  from corpo_passo_Inr [OF e] have
    after: "byte_vivi (bt_values (vive v k E) @ [ep_uscita e]) = Inr (ep_con_uscita e)"
    "ep_con_uscita e \<le> max_governed_memory_bytes (vd_limiti v)" by auto
  have "b \<le> ep_con_uscita e"
    using vivi.misura_mono [OF after(1) b] values_vive_insert [of k v E] assms(2,3)
    by (simp add: E' invariante_def)
  then have "entro_il_budget v (bt_values (vive v (Suc k) E'))"
    using b after(2) by (auto simp: entro_il_budget_def)
  then show ?thesis
    using assms(3) by (auto simp: invariante_def E' bt_wf_insert bt_simps nomi_prima_Suc [OF assms(2)])
qed

lemma esegui_passo_astratto:
  assumes "eseguibile v" and "k < length (vd_passi v)" and "length (vd_passi v) \<le> um"
    and "invariante v k E"
  shows "esegui_passo A v i oss (ultimo_uso um (vd_outputs v) (vd_passi v)) (vive v k E, rs)
        (k, vd_passi v ! k)
    = map_ok (\<lambda>(E, rs). (vive v (Suc k) E, rs)) (passo_astratto A v i oss (E, rs) (k, vd_passi v ! k))"
proof -
  let ?p = "vd_passi v ! k"
  have wf: "bt_wf E" and dom: "\<And>n. bt_get E n \<noteq> None \<longleftrightarrow> n \<in> nomi_prima v k"
    using assms(4) by (simp_all add: invariante_def)
  have used: "serve_a v k n" if "n \<in> set (pv_inputs ?p)" for n
    using serve_step [OF assms(2)] that by (simp add: usa_def)
  have there: "bt_get E n \<noteq> None" if "n \<in> set (pv_inputs ?p)" for n
    using sorgenti_prima [OF assms(1,2)] that dom by blast
  have "leggi_ingressi (vive v k E) (pv_inputs ?p) = Inr (map (\<lambda>n. the (bt_get E n)) (pv_inputs ?p))"
    unfolding leggi_ingressi_def
    by (rule try_map_ok) (use used there in \<open>force simp: bt_get_vive\<close>)
  moreover have "pv_out ?p \<in> nomi_prima v (length (vd_passi v))"
    using assms(2) by (auto simp: nomi_prima_def)
  then obtain c where "bt_get (vd_contratti v) (pv_out ?p) = Some c"
    using assms(1) by (auto simp: eseguibile_def)
  ultimately show ?thesis
    unfolding esegui_passo_def passo_astratto_def Let_def prod.case
    by (simp add: liberati_al_passo_eq assms(2,3) rilascio [OF wf assms(2)] map_ok_try_bind)
qed

lemma passi_astratti:
  assumes "eseguibile v" and "length (vd_passi v) \<le> um"
  shows "k \<le> length (vd_passi v) \<Longrightarrow> invariante v k E \<Longrightarrow>
     try_fold (esegui_passo A v i oss (ultimo_uso um (vd_outputs v) (vd_passi v))) (vive v k E, rs)
       (enumerate k (drop k (vd_passi v)))
     = map_ok (\<lambda>(E, rs). (vive v (length (vd_passi v)) E, rs))
         (try_fold (passo_astratto A v i oss) (E, rs) (enumerate k (drop k (vd_passi v))))"
proof (induction "length (vd_passi v) - k" arbitrary: k E rs)
  case 0
  then show ?case by simp
next
  case (Suc d)
  then have k: "k < length (vd_passi v)" by simp
  have enum: "enumerate k (drop k (vd_passi v)) =
      (k, vd_passi v ! k) # enumerate (Suc k) (drop (Suc k) (vd_passi v))"
    by (simp add: Cons_nth_drop_Suc [OF k, symmetric])
  show ?case
  proof (cases "passo_astratto A v i oss (E, rs) (k, vd_passi v ! k)")
    case (Inr s)
    obtain E' rs' where s: "s = (E', rs')" by (cases s)
    have "invariante v (Suc k) E'"
      using passo_astratto_invariante k Inr Suc.prems(2) unfolding s by blast
    then show ?thesis
      unfolding enum using Suc.hyps(1) [of "Suc k" E' rs'] Suc.hyps(2) k
      by (simp add: esegui_passo_astratto [OF assms(1) k assms(2) Suc.prems(2)] Inr s)
  qed (simp add: enum esegui_passo_astratto [OF assms(1) k assms(2) Suc.prems(2)])
qed

section \<open>Loading and delivery\<close>

lemma carica_tabella_Inr:
  "carica_tabella A v vivi (n, t) = Inr vivi' \<Longrightarrow>
     bt_get (vd_schemi_input v) n \<noteq> None \<and> bt_get vivi n = None \<and>
     (\<exists>t'. vivi' = bt_insert n t' vivi \<and> validate_batch t' (vd_limiti_kernel v) = Inr ()
        \<and> unat (max_input_rows (rows (vd_limiti v))) \<ge> t_righe t')"
  by (auto simp: carica_tabella_def results righe_def u64_from_usize_def word_le_nat_alt unat_of_nat
      take_bit_nat_eq_self not_less split: option.splits if_splits)

lemma carica_fold:
  "try_fold (carica_tabella A v) [] tables = Inr vivi \<Longrightarrow>
     bt_wf vivi \<and> distinct (map fst tables) \<and>
     (\<forall>n. bt_get vivi n \<noteq> None \<longleftrightarrow> n \<in> fst ` set tables) \<and>
     (\<forall>n \<in> fst ` set tables. bt_get (vd_schemi_input v) n \<noteq> None)"
proof (induction tables arbitrary: vivi rule: rev_induct)
  case (snoc nt tables)
  obtain n t where nt: "nt = (n, t)" by (cases nt)
  from snoc.prems obtain vivi0 where before: "try_fold (carica_tabella A v) [] tables = Inr vivi0"
    and "carica_tabella A v vivi0 (n, t) = Inr vivi"
    unfolding try_fold_snoc_Inr nt by blast
  from carica_tabella_Inr [OF this(2)] obtain t' where declared: "bt_get (vd_schemi_input v) n \<noteq> None"
    and "bt_get vivi0 n = None" and vivi: "vivi = bt_insert n t' vivi0" by blast
  with snoc.IH [OF before] have "n \<notin> fst ` set tables" by blast
  then show ?case
    using snoc.IH [OF before] declared unfolding nt vivi by (simp add: bt_wf_insert bt.get_insert)
qed (simp add: bt_simps bt.wf_empty)

lemma carica_tabelle_Inr:
  assumes "carica_tabelle A v tables = Inr E" and "eseguibile v"
  shows "bt_wf E \<and> (\<forall>n. bt_get E n \<noteq> None \<longleftrightarrow> n \<in> set (vd_inputs v))
     \<and> distinct (map fst tables) \<and> fst ` set tables = set (vd_inputs v)"
proof -
  from assms(1) have fold: "try_fold (carica_tabella A v) [] tables = Inr E"
    and all: "\<forall>n \<in> set (vd_inputs v). bt_get E n \<noteq> None"
    by (auto simp: carica_tabelle_def results find_None_all split: option.splits)
  from carica_fold [OF fold] all assms(2) show ?thesis
    by (auto simp: eseguibile_def)
qed

lemma consegna_fold:
  assumes "\<And>n. n \<in> set ns \<Longrightarrow> bt_get vivi n = bt_get E n \<and> bt_get E n \<noteq> None"
    and "\<And>n. n \<in> set ns \<Longrightarrow> bt_get (vd_schemi_uscita v) n \<noteq> None" and "distinct ns"
  shows "map_ok snd (try_fold (consegna_output A v) (vivi, acc) ns)
    = map_ok (\<lambda>ys. acc @ ys) (try_map (consegna_astratta A v E) ns)"
  using assms
proof (induction ns arbitrary: vivi acc)
  case (Cons n ns)
  from Cons.prems obtain t s where "bt_get vivi n = Some t" "bt_get E n = Some t"
    "bt_get (vd_schemi_uscita v) n = Some s" by fastforce
  then have step: "consegna_output A v (vivi, acc) n =
      map_ok (\<lambda>y. (bt_remove n vivi, acc @ [y])) (consegna_astratta A v E n)"
    by (simp add: consegna_output_def consegna_astratta_def Let_def map_ok_try_bind
        if_distrib [of "map_ok f" for f] cong: if_cong)
  have "map_ok snd (try_fold (consegna_output A v) (bt_remove n vivi, acc @ [y]) ns)
      = map_ok (\<lambda>ys. (acc @ [y]) @ ys) (try_map (consegna_astratta A v E) ns)" for y
    using Cons.prems by (intro Cons.IH) (auto simp: bt_simps)
  then show ?case
    by (cases "consegna_astratta A v E n"; cases "try_map (consegna_astratta A v E) ns") (simp_all add: step)
qed simp

lemma invariante_finale:
  assumes "eseguibile v"
  shows "k \<le> length (vd_passi v) \<Longrightarrow> invariante v k E \<Longrightarrow>
     try_fold (passo_astratto A v i oss) (E, rs) (enumerate k (drop k (vd_passi v))) = Inr (E', rs') \<Longrightarrow>
     invariante v (length (vd_passi v)) E'"
proof (induction "length (vd_passi v) - k" arbitrary: k E rs)
  case 0
  then show ?case by simp
next
  case (Suc d)
  then have k: "k < length (vd_passi v)" by simp
  have enum: "enumerate k (drop k (vd_passi v)) =
      (k, vd_passi v ! k) # enumerate (Suc k) (drop (Suc k) (vd_passi v))"
    by (simp add: Cons_nth_drop_Suc [OF k, symmetric])
  from Suc.prems(3) obtain E1 rs1 where
    first: "passo_astratto A v i oss (E, rs) (k, vd_passi v ! k) = Inr (E1, rs1)"
    and rest: "try_fold (passo_astratto A v i oss) (E1, rs1)
      (enumerate (Suc k) (drop (Suc k) (vd_passi v))) = Inr (E', rs')"
    unfolding enum try_fold_Cons_Inr by auto
  show ?case
    using Suc.hyps(1) [of "Suc k" E1 rs1] Suc.hyps(2) k rest
      passo_astratto_invariante [OF first k Suc.prems(2)] by simp
qed

text \<open>At the end exactly the outputs are resident, and they are within the budget: the last refusal of the
  runner is never reached, and no output is missing.\<close>

lemma chiusura_astratta:
  assumes "eseguibile v" and "invariante v (length (vd_passi v)) E"
  shows "chiusura A v (vive v (length (vd_passi v)) E) = try_map (consegna_astratta A v E) (vd_outputs v)"
proof -
  let ?V = "vive v (length (vd_passi v)) E"
  have there: "bt_get ?V n = bt_get E n \<and> bt_get E n \<noteq> None" if "n \<in> set (vd_outputs v)" for n
    using assms that unfolding eseguibile_def invariante_def by (auto simp: bt_get_vive serve_end)
  have "map_ok snd (try_fold (consegna_output A v) (?V, []) (vd_outputs v))
      = map_ok (\<lambda>ys. [] @ ys) (try_map (consegna_astratta A v E) (vd_outputs v))"
    using assms(1) there by (intro consegna_fold) (auto simp: eseguibile_def)
  moreover from assms(2) obtain b where "byte_vivi (bt_values ?V) = Inr b"
    "b \<le> max_governed_memory_bytes (vd_limiti v)"
    by (auto simp: invariante_def entro_il_budget_def)
  ultimately show ?thesis by (simp add: chiusura_def Let_def not_less [symmetric] map_ok_id)
qed

text \<open>C14. The runner is the abstract runner. For a validated plan, whatever the tables given, the kernels and
  the observations of the clock and of the signal, the runner that keeps only the tables its backward
  analysis says are still needed returns what the abstract runner returns, which keeps all of them:
  the same outputs and report, or the same error. No lookup of a table, a contract or a published schema
  fails, and the budget check after the last step never refuses.\<close>

theorem runner_refines_abstract:
  assumes "validate um an p schemas = Inr v" and "1024 \<le> ae_um A"
  shows "run_interrompibile A v tables i oss = run_astratto A v tables i oss"
proof (cases "carica_tabelle A v tables")
  case (Inr E)
  have v: "eseguibile v" "length (vd_passi v) \<le> ae_um A"
    using validate_eseguibile [OF assms(1)] assms(2) by auto
  let ?uso = "ultimo_uso (ae_um A) (vd_outputs v) (vd_passi v)"
  from carica_tabelle_Inr [OF Inr v(1)] have wf: "bt_wf E"
    and dom: "\<And>n. bt_get E n \<noteq> None \<longleftrightarrow> n \<in> set (vd_inputs v)" by auto
  have start: "avvio v ?uso E = try_bind (byte_vivi (bt_values (vive v 0 E))) (\<lambda>iniziali.
      if iniziali > max_governed_memory_bytes (vd_limiti v) then
        Inl (ResourceLimit (''input: byte vivi iniziali '' @ show_nat (unat iniziali) @
          '' oltre il budget '' @ show_nat (unat (max_governed_memory_bytes (vd_limiti v))) @
          '' (max_governed_memory_bytes)''))
      else Inr (vive v 0 E, filter (\<lambda>n. \<not> serve_a v 0 n) (vd_inputs v), iniziali))"
    by (simp add: avvio_def Let_def ultimo_uso_None avvio_vive [OF wf dom] cong: if_cong)
  show ?thesis
  proof (cases "entro_il_budget v (bt_values (vive v 0 E))")
    case True
    then obtain b where b: "byte_vivi (bt_values (vive v 0 E)) = Inr b"
      "\<not> b > max_governed_memory_bytes (vd_limiti v)" by (auto simp: entro_il_budget_def not_less)
    have inv: "invariante v 0 E" using wf dom True by (simp add: invariante_def nomi_prima_def)
    have steps: "try_fold (esegui_passo A v i oss ?uso) (vive v 0 E, []) (enumerate 0 (vd_passi v)) =
        map_ok (\<lambda>(E, rs). (vive v (length (vd_passi v)) E, rs))
          (try_fold (passo_astratto A v i oss) (E, []) (enumerate 0 (vd_passi v)))"
      using passi_astratti [OF v, of 0 E] inv by simp
    have final: "chiusura A v (vive v (length (vd_passi v)) E') = try_map (consegna_astratta A v E') (vd_outputs v)"
      if "try_fold (passo_astratto A v i oss) (E, []) (enumerate 0 (vd_passi v)) = Inr (E', rs)" for E' rs
      using that inv by (intro chiusura_astratta [OF v(1)] invariante_finale [OF v(1), of 0 E]) auto
    show ?thesis
      unfolding run_interrompibile_def run_astratto_def Let_def Inr try_bind_simps start b(1)
      using b(2) final
      by (cases "try_fold (passo_astratto A v i oss) (E, []) (enumerate 0 (vd_passi v))") (auto simp: steps)
  next
    case False
    then show ?thesis
      unfolding run_interrompibile_def run_astratto_def Let_def Inr try_bind_simps start
      by (cases "byte_vivi (bt_values (vive v 0 E))") (auto simp: entro_il_budget_def not_less)
  qed
qed (simp add: run_interrompibile_def run_astratto_def Let_def)

section \<open>A concrete run\<close>

text \<open>One step over an empty table of three rows, with a kernel that returns its input.\<close>

definition limiti_kernel_prova :: kernel_limits where
  "limiti_kernel_prova = \<lparr>kl_max_rows = 100, kl_max_columns = 10, kl_max_split_columns = 10,
     kl_max_string_bytes = 100, kl_max_regex_bytes = 100, kl_max_governed_memory_bytes = 1000\<rparr>"

definition descrittore_prova :: operation_descriptor where
  "descrittore_prova = the (find_operation ''table.sort'')"

definition costo_prova :: costo_operazione where
  "costo_prova = \<lparr>voce_op = ''table.sort'', in_memoria = \<lparr>c_a = 10, r_millesimi = 0, c_millesimi = 0,
     r_stretta_millesimi = 0, c_larga_millesimi = 0, k_millesimi = 0, p_millesimi = 0\<rparr>,
     dipende_dai_dati = False, profili = [], esclusi = []\<rparr>"

definition schema_prova :: arrow_schema where
  "schema_prova = \<lparr>s_campi = [], s_metadati = []\<rparr>"

definition passo_prova :: "nat passo_validato" where
  "passo_prova = \<lparr>pv_out = ''b'', pv_descrittore = descrittore_prova, pv_inputs = [''a''],
     pv_kernel = Tabellare 0, pv_costo = costo_prova, pv_righe_previste = 0,
     pv_base_indici = Sorgente, pv_colonne_uscita = 1, pv_moltiplicatore = Some 1\<rparr>"

definition validata_prova :: "(nat, nat, unit) pipeline_validata" where
  "validata_prova = \<lparr>vd_inputs = [''a''], vd_schemi_input = [(''a'', schema_prova)],
     vd_passi = [passo_prova],
     vd_outputs = [''b''], vd_contratti = [(''a'', 0), (''b'', 0)],
     vd_schemi_uscita = [(''b'', schema_prova)],
     vd_limiti = limits_default\<lparr>max_governed_memory_bytes := max_u\<rparr>, vd_limiti_kernel = limiti_kernel_prova, vd_crs_piano = None\<rparr>"

definition ambiente_prova :: "(nat, nat) ambiente" where
  "ambiente_prova = \<lparr>ae_um = um64, ae_arrow = (\<lambda>_ _ _. None), ae_large_string = (\<lambda>_. None),
     ae_string_array = (\<lambda>_. undefined), ae_large_binary = (\<lambda>_. None), ae_binary_array = (\<lambda>_. undefined),
     ae_schema = (\<lambda>_. schema_prova), ae_schema_from_contract = (\<lambda>_. Inr schema_prova),
     ae_verifica_tabella = (\<lambda>_. Ritorno (Inr ())), ae_geo = (\<lambda>_ ts _ _. Ritorno (Inr (hd ts))),
     ae_unario = (\<lambda>_ t _. Ritorno (Inr (t, 0))), ae_binario = (\<lambda>_ t _ _. Ritorno (Inr t)),
     ae_schema_effect = (\<lambda>s _ _. Inr s), ae_mostra_f64 = (\<lambda>_. ''1'')\<rparr>"

definition tabella_vuota :: tabella where
  "tabella_vuota = \<lparr>t_schema = schema_prova, t_colonne = [], t_righe = 3\<rparr>"

lemma validata_prova_sel:
  "vd_inputs validata_prova = [''a'']" "vd_schemi_input validata_prova = [(''a'', schema_prova)]"
  "vd_passi validata_prova = [passo_prova]" "vd_outputs validata_prova = [''b'']"
  "vd_contratti validata_prova = [(''a'', 0), (''b'', 0)]"
  "vd_schemi_uscita validata_prova = [(''b'', schema_prova)]"
  "max_governed_memory_bytes (vd_limiti validata_prova) = max_u"
  "max_input_rows (rows (vd_limiti validata_prova)) = 10000000"
  "max_output_rows (rows (vd_limiti validata_prova)) = 10000000"
  "vd_limiti_kernel validata_prova = limiti_kernel_prova"
  by (simp_all add: validata_prova_def limits_default_def row_limits_default_def)

lemma passo_prova_sel:
  "pv_out passo_prova = ''b''" "pv_inputs passo_prova = [''a'']" "pv_kernel passo_prova = Tabellare 0"
  "pv_base_indici passo_prova = Sorgente" "pv_moltiplicatore passo_prova = Some 1"
  by (simp_all add: passo_prova_def)

lemma ambiente_prova_sel:
  "ae_um ambiente_prova = um64" "ae_schema ambiente_prova k = schema_prova"
  "ae_arrow ambiente_prova s c n = None"
  "ae_schema_from_contract ambiente_prova k = Inr schema_prova"
  "ae_unario ambiente_prova g t l = Ritorno (Inr (t, 0))"
  "ae_schema_effect ambiente_prova s ss d = Inr s"
  by (simp_all add: ambiente_prova_def)

theorem runner_refines_abstract_witness:
  "\<exists>v. validate um64 analisi_prova piano_prova [(''a'', schema_prova)] = Inr v
     \<and> run_interrompibile ambiente_prova v [(''a'', tabella_vuota)] interruzione_default (\<lambda>_. (False, 0))
       = run_astratto ambiente_prova v [(''a'', tabella_vuota)] interruzione_default (\<lambda>_. (False, 0))"
proof -
  from piano_prova_valido obtain v where v: "validate um64 analisi_prova piano_prova [(''a'', schema_prova)] = Inr v"
    unfolding map_ok_Inr_iff schema_prova_def by blast
  have "1024 \<le> ae_um ambiente_prova" by (simp add: ambiente_prova_sel um64_def)
  from runner_refines_abstract [OF v this] v show ?thesis by blast
qed

end
