(* ===== verification/Runner.thy ===== *)
theory Runner
  imports Residency
begin

text \<open>
  What a run promises: the order of the outputs and of the report, the accounting of the memory step by
  step, the refusal of a step before its kernel, the interruption, the base of the diagnostics, and the
  check on the expansion of a step.
\<close>

section \<open>The accounting\<close>

text \<open>One step of the report after \<open>prima\<close> live bytes.\<close>

definition passo_contabile :: "u64 \<Rightarrow> u64 \<Rightarrow> report_passo \<Rightarrow> bool" where
  "passo_contabile budget prima r \<longleftrightarrow>
     unat prima + unat (rp_margine_kernel r) = unat budget
     \<and> rp_byte_previsti r \<le> rp_margine_kernel r
     \<and> unat (rp_byte_vivi_con_uscita r) = unat prima + unat (rp_byte_output_esclusivi r)
     \<and> rp_byte_vivi_con_uscita r \<le> budget
     \<and> rp_byte_vivi r \<le> rp_byte_vivi_con_uscita r"

fun contabili :: "u64 \<Rightarrow> u64 \<Rightarrow> report_passo list \<Rightarrow> bool" where
  "contabili budget prima [] = True"
| "contabili budget prima (r # rs) = (passo_contabile budget prima r \<and> contabili budget (rp_byte_vivi r) rs)"

definition vivi_dopo :: "u64 \<Rightarrow> report_passo list \<Rightarrow> u64" where
  "vivi_dopo prima rs = (if rs = [] then prima else rp_byte_vivi (last rs))"

lemma contabili_snoc:
  "contabili budget prima (rs @ [r]) \<longleftrightarrow>
     contabili budget prima rs \<and> passo_contabile budget (vivi_dopo prima rs) r"
  by (induction rs arbitrary: prima) (auto simp: vivi_dopo_def)

lemma esegui_passo_Inr:
  assumes "esegui_passo A v i oss uso (vivi, rs) (k, p) = Inr (vivi', rs')"
  shows "\<exists>e ingressi contratto b. verifica i (oss k) (prima_del_passo p) = Inr ()
     \<and> leggi_ingressi vivi (pv_inputs p) = Inr ingressi
     \<and> corpo_passo A v p (bt_values vivi) ingressi (ep_righe_in e) contratto = Inr e
     \<and> try_map righe ingressi = Inr (ep_righe_in e)
     \<and> vivi' = fold bt_remove (liberati_al_passo uso k) (bt_insert (pv_out p) (ep_uscita e) vivi)
     \<and> byte_vivi (bt_values vivi') = Inr b
     \<and> rs' = rs @ [resoconto p e (liberati_al_passo uso k) b]"
proof -
  from assms obtain ingressi righe_in contratto e b where
    "verifica i (oss k) (prima_del_passo p) = Inr ()" "leggi_ingressi vivi (pv_inputs p) = Inr ingressi"
    "try_map righe ingressi = Inr righe_in"
    and e: "corpo_passo A v p (bt_values vivi) ingressi righe_in contratto = Inr e"
    and "byte_vivi (bt_values vivi') = Inr b" "rs' = rs @ [resoconto p e (liberati_al_passo uso k) b]"
    "vivi' = fold bt_remove (liberati_al_passo uso k) (bt_insert (pv_out p) (ep_uscita e) vivi)"
    unfolding esegui_passo_def by (auto simp: results Let_def simp del: fold_simps)
  moreover from corpo_passo_Inr [OF e] have "ep_righe_in e = righe_in" by blast
  ultimately show ?thesis by blast
qed

lemma bt_values_fold_remove: "set (bt_values (fold bt_remove ns m)) \<subseteq> set (bt_values m)"
proof (induction ns arbitrary: m)
  case (Cons n ns)
  show ?case using Cons.IH [of "bt_remove n m"] bt_values_remove [of n m] by auto
qed simp

lemma bt_values_insert: "set (bt_values (bt_insert k v m)) \<subseteq> insert v (set (bt_values m))"
  by (induction k v m rule: bt_insert.induct) (auto simp: bt_values_def)

lemma passo_contabile_resoconto:
  assumes "corpo_passo A v p valori ingressi righe_in contratto = Inr e" and "byte_vivi valori = Inr prima"
    and "byte_vivi dopo = Inr b" and "set dopo \<subseteq> insert (ep_uscita e) (set valori)"
  shows "passo_contabile (max_governed_memory_bytes (vd_limiti v)) prima (resoconto p e lib b)"
proof -
  let ?B = "max_governed_memory_bytes (vd_limiti v)"
  from corpo_passo_Inr [OF assms(1)] assms(2) have
    fit: "unat prima + unat (ep_previsti e) \<le> unat ?B" and margin: "ep_margine e = ?B - prima"
    and whole: "byte_vivi (valori @ [ep_uscita e]) = Inr (ep_con_uscita e)"
    and excl: "checked_sub (ep_con_uscita e) prima = Some (ep_esclusivi e)"
    and top: "ep_con_uscita e \<le> ?B" by auto
  have "prima \<le> ep_con_uscita e"
    by (rule vivi.misura_mono [OF whole assms(2)]) auto
  moreover from this top have "prima \<le> ?B" by (rule order_trans)
  moreover have "b \<le> ep_con_uscita e"
    using vivi.misura_mono [OF whole assms(3)] assms(4) by auto
  ultimately show ?thesis
    using fit margin checked_sub_Some [OF excl] top
    by (simp add: passo_contabile_def resoconto_def unat_sub word_le_nat_alt)
qed

lemma passi_contabili:
  assumes "byte_vivi (bt_values vivi) = Inr prima"
    and "try_fold (esegui_passo A v i oss uso) (vivi, []) (enumerate 0 ps) = Inr (vivi', rs)"
  shows "contabili (max_governed_memory_bytes (vd_limiti v)) prima rs
     \<and> byte_vivi (bt_values vivi') = Inr (vivi_dopo prima rs)
     \<and> map rp_out rs = map pv_out ps \<and> map rp_op rs = map (\<lambda>p. op_id (pv_descrittore p)) ps
     \<and> (\<forall>k < length ps. verifica i (oss k) (prima_del_passo (ps ! k)) = Inr ())"
  using assms(2)
proof (induction ps arbitrary: vivi' rs rule: rev_induct)
  case (snoc p ps)
  from snoc.prems obtain vivi1 rs1 where
    before: "try_fold (esegui_passo A v i oss uso) (vivi, []) (enumerate 0 ps) = Inr (vivi1, rs1)"
    and step: "esegui_passo A v i oss uso (vivi1, rs1) (length ps, p) = Inr (vivi', rs)"
    by (auto simp: enumerate_append_eq try_fold_snoc_Inr)
  note IH = snoc.IH [OF before]
  from esegui_passo_Inr [OF step] obtain e ingressi contratto b where
    ok: "verifica i (oss (length ps)) (prima_del_passo p) = Inr ()"
    and e: "corpo_passo A v p (bt_values vivi1) ingressi (ep_righe_in e) contratto = Inr e"
    and vivi': "vivi' = fold bt_remove (liberati_al_passo uso (length ps)) (bt_insert (pv_out p) (ep_uscita e) vivi1)"
    and b: "byte_vivi (bt_values vivi') = Inr b"
    and rs: "rs = rs1 @ [resoconto p e (liberati_al_passo uso (length ps)) b]" by blast
  have "set (bt_values vivi') \<subseteq> insert (ep_uscita e) (set (bt_values vivi1))"
    unfolding vivi' using bt_values_fold_remove bt_values_insert by (rule subset_trans)
  with e b IH have "passo_contabile (max_governed_memory_bytes (vd_limiti v)) (vivi_dopo prima rs1)
      (resoconto p e (liberati_al_passo uso (length ps)) b)"
    by (intro passo_contabile_resoconto) auto
  then show ?case
    using IH ok b rs by (auto simp: contabili_snoc vivi_dopo_def resoconto_def nth_append less_Suc_eq)
qed (simp add: assms(1) vivi_dopo_def)

lemma run_Inr:
  assumes "run_interrompibile A v tables i oss = Inr es"
  shows "\<exists>E vivi iniziali vivi' lib rs. carica_tabelle A v tables = Inr E
     \<and> vivi = fold bt_remove lib E
     \<and> byte_vivi (bt_values vivi) = Inr iniziali \<and> iniziali \<le> max_governed_memory_bytes (vd_limiti v)
     \<and> try_fold (esegui_passo A v i oss (ultimo_uso (ae_um A) (vd_outputs v) (vd_passi v))) (vivi, [])
         (enumerate 0 (vd_passi v)) = Inr (vivi', rs)
     \<and> chiusura A v vivi' = Inr (es_outputs es)
     \<and> verifica i (oss (length (vd_passi v))) ''prima di consegnare gli output'' = Inr ()
     \<and> es_report es = \<lparr>re_budget = max_governed_memory_bytes (vd_limiti v), re_liberati_all_avvio = lib,
           re_byte_vivi_iniziali = iniziali, re_passi = rs\<rparr>"
  using assms unfolding run_interrompibile_def avvio_def
  by (auto simp: results Let_def not_less split: if_splits)

lemma consegna_output_Inr:
  assumes "consegna_output A v (vivi, acc) n = Inr s"
  obtains t u p where "s = (bt_remove n vivi, acc @ [(n, u)])"
    and "bt_get (vd_schemi_uscita v) n = Some p"
    and "batch_with_rows A p (t_colonne (t :: tabella)) (t_righe t) = Inr u"
  using assms unfolding consegna_output_def
  by (auto simp: results Let_def split: if_splits)

lemma batch_with_rows_Inr:
  "batch_with_rows A schema cs n = Inr u \<Longrightarrow> t_schema u = schema \<and> t_colonne u = cs"
  by (auto simp: batch_with_rows_def Let_def split: option.splits)

lemma consegna_nomi:
  "try_fold (consegna_output A v) (vivi, acc) ns = Inr (vivi', outs) \<Longrightarrow>
     map fst outs = map fst acc @ ns
     \<and> (\<forall>nt \<in> set outs. nt \<in> set acc \<or> Some (t_schema (snd nt)) = bt_get (vd_schemi_uscita v) (fst nt))"
proof (induction ns arbitrary: vivi acc)
  case (Cons n ns)
  from Cons.prems obtain s where step: "consegna_output A v (vivi, acc) n = Inr s"
    and rest: "try_fold (consegna_output A v) s ns = Inr (vivi', outs)"
    unfolding try_fold_Cons_Inr by blast
  from step obtain t u p where s: "s = (bt_remove n vivi, acc @ [(n, u)])"
    and pub: "bt_get (vd_schemi_uscita v) n = Some p" and u: "batch_with_rows A p (t_colonne (t :: tabella)) (t_righe t) = Inr u"
    by (rule consegna_output_Inr)
  have published: "Some (t_schema u) = bt_get (vd_schemi_uscita v) n"
    using batch_with_rows_Inr [OF u] pub by simp
  note IH = Cons.IH [OF rest [unfolded s]]
  show ?case
  proof (intro conjI ballI)
    show "map fst outs = map fst acc @ n # ns" using IH by simp
    show "nt \<in> set acc \<or> Some (t_schema (snd nt)) = bt_get (vd_schemi_uscita v) (fst nt)"
      if "nt \<in> set outs" for nt
      using IH that published by (cases "nt = (n, u)") (simp, force)
  qed
qed simp

section \<open>A concrete run\<close>

lemma byte_vivi_vuote: "\<forall>t \<in> set ts. t_colonne t = [] \<Longrightarrow> byte_vivi ts = Inr 0"
proof -
  assume "\<forall>t \<in> set ts. t_colonne t = []"
  then have "fold aggiungi_tabella ts m = m" for m
    by (induction ts) (simp_all add: aggiungi_tabella_def)
  then show ?thesis by (simp add: byte_vivi_def totale_def bt_values_def)
qed

lemma run_prova_interrompibile:
  assumes check: "\<And>k w. verifica i (oss k) w = Inr ()"
  shows "\<exists>es. run_interrompibile ambiente_prova validata_prova [(''a'', tabella_vuota)] i oss = Inr es"
proof -
  have righe: "righe tabella_vuota = Inr 3"
    by (simp add: righe_def tabella_vuota_def u64_from_usize_def)
  have cols: "t_colonne tabella_vuota = []" "t_schema tabella_vuota = schema_prova" "t_righe tabella_vuota = 3"
    by (simp_all add: tabella_vuota_def)
  have valid: "validate_batch tabella_vuota limiti_kernel_prova = Inr ()"
    by (simp add: validate_batch_def limiti_kernel_prova_def tabella_vuota_def schema_prova_def)
  have mb: "batch_with_rows ambiente_prova schema_prova [] 3 = Inr tabella_vuota"
    by (simp add: batch_with_rows_def ambiente_prova_def tabella_vuota_def)
  have norm: "normalize_large_utf8 ambiente_prova tabella_vuota = Inr tabella_vuota"
    by (simp add: normalize_large_utf8_def tabella_vuota_def schema_prova_def normalizza_schema_def bt_remove_def)
  have load: "carica_tabelle ambiente_prova validata_prova [(''a'', tabella_vuota)] = Inr [(''a'', tabella_vuota)]"
    by (simp add: carica_tabelle_def carica_tabella_def validata_prova_sel bt_get_def norm cols righe valid mb
        ambiente_prova_sel)
  let ?u = "ultimo_uso um64 [''b''] [passo_prova]"
  have uso: "?u = [(''a'', 0), (''b'', um64)]"
    by (simp add: ultimo_uso_def passo_prova_sel uso_del_passo_def bt_or_insert_def bt_get_def)
  have start: "avvio validata_prova ?u [(''a'', tabella_vuota)] = Inr ([(''a'', tabella_vuota)], [], 0)"
    by (simp add: avvio_def uso validata_prova_sel bt_get_def byte_vivi_vuote bt_values_def cols)
  have kernel: "esegui_kernel ambiente_prova passo_prova [tabella_vuota] l 0 = Inr (tabella_vuota, 0)" for l
    by (simp add: esegui_kernel_def chiamata_kernel_def passo_prova_sel ambiente_prova_sel cols mb)
  have conf: "conforma ambiente_prova tabella_vuota 0 = Inr tabella_vuota"
    by (simp add: conforma_def ambiente_prova_sel cols mb Let_def) (simp add: schema_prova_def)
  have out: "controlla_uscita ambiente_prova validata_prova passo_prova 0 [3] (tabella_vuota, 0) = Inr (tabella_vuota, 0)"
    by (simp add: controlla_uscita_def valid righe validata_prova_sel passo_prova_sel check_expansion_def Let_def
        conf checked_mul_def)
  have um: "um64 \<noteq> 0" by (simp add: um64_def)
  have fits: "checked_add 0 x = Some x" "\<not> x > (max_u :: u64)" for x :: u64
    by (simp_all add: checked_add_Some_iff max_u_def)
  obtain e where body: "corpo_passo ambiente_prova validata_prova passo_prova [tabella_vuota] [tabella_vuota] [3] 0 = Inr e"
     and "ep_uscita e = tabella_vuota"
    by (simp add: corpo_passo_def byte_vivi_vuote cols byte_ingresso_def Let_def fits kernel out righe
       validata_prova_sel checked_sub_def)
  show ?thesis
    by (simp add: run_interrompibile_def load ambiente_prova_sel validata_prova_sel start [unfolded uso] esegui_passo_def
       check leggi_ingressi_def righe body passo_prova_sel bt_get_def \<open>ep_uscita e = tabella_vuota\<close>
       liberati_al_passo_def uso bt_remove_def um byte_vivi_vuote bt_values_def cols chiusura_def
       consegna_output_def mb Let_def resoconto_def fits)
qed

lemma run_prova:
  "\<exists>es. run_interrompibile ambiente_prova validata_prova [(''a'', tabella_vuota)] interruzione_default
     (\<lambda>_. (False, 0)) = Inr es"
  by (rule run_prova_interrompibile) (simp add: verifica_def interruzione_default_def)

section \<open>The theorems\<close>

text \<open>C15. A run that returns has kept the account: its budget is the one of the limits, the live bytes at the
  start are within it, and for every step of the report the margin given to the kernel is the budget less
  the live bytes before it, the predicted peak is within that margin, the live bytes with the output are
  those before plus the bytes only the output holds and are within the budget, and what stays after the
  releases is no more. The report has the steps of the plan in its order.\<close>

theorem budget_accounting:
  assumes "run_interrompibile A v tables i oss = Inr es"
  shows "re_budget (es_report es) = max_governed_memory_bytes (vd_limiti v)
     \<and> re_byte_vivi_iniziali (es_report es) \<le> re_budget (es_report es)
     \<and> contabili (re_budget (es_report es)) (re_byte_vivi_iniziali (es_report es)) (re_passi (es_report es))
     \<and> map rp_out (re_passi (es_report es)) = map pv_out (vd_passi v)
     \<and> map rp_op (re_passi (es_report es)) = map (\<lambda>p. op_id (pv_descrittore p)) (vd_passi v)"
proof -
  from run_Inr [OF assms] obtain E vivi iniziali vivi' lib rs where
    start: "byte_vivi (bt_values vivi) = Inr iniziali" "iniziali \<le> max_governed_memory_bytes (vd_limiti v)"
    and steps: "try_fold (esegui_passo A v i oss (ultimo_uso (ae_um A) (vd_outputs v) (vd_passi v))) (vivi, [])
         (enumerate 0 (vd_passi v)) = Inr (vivi', rs)"
    and report: "es_report es = \<lparr>re_budget = max_governed_memory_bytes (vd_limiti v), re_liberati_all_avvio = lib,
           re_byte_vivi_iniziali = iniziali, re_passi = rs\<rparr>" by blast
  from passi_contabili [OF start(1) steps] start(2) report show ?thesis by simp
qed

theorem budget_accounting_witness:
  "\<exists>es. run_interrompibile ambiente_prova validata_prova [(''a'', tabella_vuota)] interruzione_default
     (\<lambda>_. (False, 0)) = Inr es
     \<and> contabili max_u (re_byte_vivi_iniziali (es_report es)) (re_passi (es_report es))
     \<and> map rp_out (re_passi (es_report es)) = [''b'']"
proof -
  from run_prova obtain es where es: "run_interrompibile ambiente_prova validata_prova [(''a'', tabella_vuota)]
      interruzione_default (\<lambda>_. (False, 0)) = Inr es" by blast
  with budget_accounting [OF es] show ?thesis by (auto simp: validata_prova_sel passo_prova_sel)
qed

text \<open>A run that returns gives the outputs of the plan in their order, each under its published
  schema.\<close>

theorem outputs_in_order:
  assumes "run_interrompibile A v tables i oss = Inr es"
  shows "map fst (es_outputs es) = vd_outputs v
     \<and> (\<forall>nt \<in> set (es_outputs es). Some (t_schema (snd nt)) = bt_get (vd_schemi_uscita v) (fst nt))"
proof -
  from run_Inr [OF assms] obtain vivi' where "chiusura A v vivi' = Inr (es_outputs es)" by blast
  then obtain vivi'' where "try_fold (consegna_output A v) (vivi', []) (vd_outputs v) = Inr (vivi'', es_outputs es)"
    by (auto simp: chiusura_def results Let_def split: if_splits)
  from consegna_nomi [OF this] show ?thesis by simp
qed

theorem outputs_in_order_witness:
  "\<exists>es. run_interrompibile ambiente_prova validata_prova [(''a'', tabella_vuota)] interruzione_default
     (\<lambda>_. (False, 0)) = Inr es \<and> map fst (es_outputs es) = [''b'']"
proof -
  from run_prova obtain es where es: "run_interrompibile ambiente_prova validata_prova [(''a'', tabella_vuota)]
      interruzione_default (\<lambda>_. (False, 0)) = Inr es" by blast
  with outputs_in_order [OF es] show ?thesis by (simp add: validata_prova_sel)
qed

text \<open>C16. A step whose predicted peak does not fit next to the resident tables is refused with the name of the
  step and of the operation, and the refusal does not depend on any kernel: nothing has run.\<close>

theorem refused_before_kernel:
  assumes "byte_vivi valori = Inr res" and "byte_ingresso (ae_um A) ingressi = Inr byte"
    and "unat (max_governed_memory_bytes (vd_limiti v)) <
      unat res + unat (picco (in_memoria (pv_costo p)) (ingresso_del_passo p righe_in byte))"
  shows "corpo_passo A v p valori ingressi righe_in contratto =
    Inl (ResourceLimit (con_prefisso (''passo `'' @ pv_out p @ ''`'')
      (op_id (pv_descrittore p) @ '': previsti '' @
       show_nat (unat (picco (in_memoria (pv_costo p)) (ingresso_del_passo p righe_in byte))) @
       '' byte oltre i '' @ show_nat (unat res) @ '' residenti, oltre il budget '' @
       show_nat (unat (max_governed_memory_bytes (vd_limiti v))) @ '' (max_governed_memory_bytes)'')))"
proof -
  let ?p = "picco (in_memoria (pv_costo p)) (ingresso_del_passo p righe_in byte)"
  have over: "case checked_add res ?p of None \<Rightarrow> True
      | Some tot \<Rightarrow> tot > max_governed_memory_bytes (vd_limiti v)"
    using assms(3) by (auto simp: checked_add_Some_iff word_less_nat_alt split: option.splits)
  then show ?thesis
    unfolding corpo_passo_def Let_def assms(1,2) map_err_simps try_bind_simps
    by (simp only: if_True nel_passo_def nel_passo_o_input.simps)
qed

theorem refused_before_kernel_witness:
  "\<exists>m. corpo_passo ambiente_prova (validata_prova\<lparr>vd_limiti := limits_default\<lparr>max_governed_memory_bytes := 0\<rparr>\<rparr>)
     passo_prova [] [] [] 0 = Inl (ResourceLimit m)"
proof -
  let ?v = "validata_prova\<lparr>vd_limiti := limits_default\<lparr>max_governed_memory_bytes := 0\<rparr>\<rparr>"
  have "byte_vivi [] = Inr 0" "byte_ingresso (ae_um ambiente_prova) [] = Inr 0"
    by (simp_all add: byte_ingresso_def byte_vivi_vuote)
  moreover have "0 < unat (picco (in_memoria (pv_costo passo_prova)) (ingresso_del_passo passo_prova [] 0))"
    unfolding unat_picco
    by (simp add: formula_base_def passo_prova_def costo_prova_def nat_div_ceil_def)
  ultimately show ?thesis
    using refused_before_kernel [of "[]" 0 ambiente_prova "[]" 0 ?v passo_prova "[]" 0] by auto
qed

section \<open>Interruption\<close>

definition interrotto :: "interruzione \<Rightarrow> osservazione \<Rightarrow> bool" where
  "interrotto i oss \<longleftrightarrow>
     (annullamento i \<and> fst oss) \<or> (case scadenza i of None \<Rightarrow> False | Some s \<Rightarrow> s \<le> snd oss)"

lemma verifica_Inr: "verifica i oss dove = Inr () \<longleftrightarrow> \<not> interrotto i oss"
  by (cases oss) (auto simp: verifica_def interrotto_def split: option.splits)

text \<open>C17. A run that returns outputs was interrupted at none of its checks: one before every step and one
  before the delivery.\<close>

theorem no_outputs_after_interruption:
  assumes "run_interrompibile A v tables i oss = Inr es"
  shows "\<forall>k \<le> length (vd_passi v). \<not> interrotto i (oss k)"
proof -
  from run_Inr [OF assms] obtain vivi iniziali vivi' rs where
    start: "byte_vivi (bt_values vivi) = Inr iniziali"
    and steps: "try_fold (esegui_passo A v i oss (ultimo_uso (ae_um A) (vd_outputs v) (vd_passi v))) (vivi, [])
         (enumerate 0 (vd_passi v)) = Inr (vivi', rs)"
    and last: "verifica i (oss (length (vd_passi v))) ''prima di consegnare gli output'' = Inr ()" by blast
  from passi_contabili [OF start steps] last show ?thesis
    by (auto simp: verifica_Inr le_less)
qed

text \<open>A run of one step that may be cancelled and has a deadline at 5: it returns when its checks, at 3 and at 4, come in
  time, and it does not when the one before the delivery sees the signal or the deadline.\<close>

definition interruzione_viva :: interruzione where
  "interruzione_viva = \<lparr>scadenza = Some 5, annullamento = True\<rparr>"

theorem no_outputs_after_interruption_witness:
  "(\<exists>es. run_interrompibile ambiente_prova validata_prova [(''a'', tabella_vuota)] interruzione_viva
        (\<lambda>k. (False, if k = 0 then 3 else 4)) = Inr es
      \<and> \<not> interrotto interruzione_viva (False, 3) \<and> \<not> interrotto interruzione_viva (False, 4))
   \<and> (\<forall>es. run_interrompibile ambiente_prova validata_prova [(''a'', tabella_vuota)] interruzione_viva
        (\<lambda>k. (k = 1, 3)) \<noteq> Inr es)
   \<and> (\<forall>es. run_interrompibile ambiente_prova validata_prova [(''a'', tabella_vuota)] interruzione_viva
        (\<lambda>k. (False, if k = 0 then 3 else 5)) \<noteq> Inr es)"
proof (intro conjI allI notI)
  have passi: "length (vd_passi validata_prova) = 1" by (simp add: validata_prova_sel)
  have check: "verifica interruzione_viva (False, if k = 0 then 3 else 4) w = Inr ()" for k :: nat and w
    by (simp add: verifica_def interruzione_viva_def)
  obtain es where es: "run_interrompibile ambiente_prova validata_prova [(''a'', tabella_vuota)] interruzione_viva
      (\<lambda>k. (False, if k = 0 then 3 else 4)) = Inr es"
    using run_prova_interrompibile [of interruzione_viva "\<lambda>k. (False, if k = 0 then 3 else 4)"] check by blast
  have "\<not> interrotto interruzione_viva (False, 3)" "\<not> interrotto interruzione_viva (False, 4)"
    using no_outputs_after_interruption [OF es, rule_format, of 0] no_outputs_after_interruption [OF es, rule_format, of 1]
    by (simp_all add: passi)
  with es show "\<exists>es. run_interrompibile ambiente_prova validata_prova [(''a'', tabella_vuota)] interruzione_viva
        (\<lambda>k. (False, if k = 0 then 3 else 4)) = Inr es
      \<and> \<not> interrotto interruzione_viva (False, 3) \<and> \<not> interrotto interruzione_viva (False, 4)" by blast
  show False if "run_interrompibile ambiente_prova validata_prova [(''a'', tabella_vuota)] interruzione_viva
        (\<lambda>k. (k = 1, 3)) = Inr es" for es
    using no_outputs_after_interruption [OF that, rule_format, of 1]
    by (simp add: passi interrotto_def interruzione_viva_def)
  show False if "run_interrompibile ambiente_prova validata_prova [(''a'', tabella_vuota)] interruzione_viva
        (\<lambda>k. (False, if k = 0 then 3 else 5)) = Inr es" for es
    using no_outputs_after_interruption [OF that, rule_format, of 1]
    by (simp add: passi interrotto_def interruzione_viva_def)
qed

text \<open>The error of an interrupted check: the cancellation wins over the deadline, the public code follows
  the cause, no remote effect is declared and the operation may be retried; with the phase of the delivery
  as without it.\<close>

theorem interruption_axes:
  assumes "verifica i oss dove = Inl e" and "f = with_phase ph \<or> f = (\<lambda>e. e)"
  shows "interrotto i oss
     \<and> category (f e) = (if annullamento i \<and> fst oss then CatCancelled else CatTimeout)
     \<and> code_of (f e) = Some (if annullamento i \<and> fst oss then CODE_CANCELLED else CODE_DEADLINE_EXCEEDED)
     \<and> remote_effect_of (f e) = NoEffect \<and> retry_of (f e) = Safe"
proof -
  obtain segnale ora where oss: "oss = (segnale, ora)" by (cases oss)
  from assms(1) have e: "e = (if annullamento i \<and> segnale then Cancelled (''esecuzione annullata '' @ dove)
      else Timeout (''scadenza dell'esecuzione superata '' @ dove))" and "interrotto i oss"
    by (auto simp: verifica_def interrotto_def oss split: if_splits option.splits)
  with assms(2) show ?thesis by (auto simp: oss)
qed

theorem interruption_axes_witness:
  "\<exists>e. verifica \<lparr>scadenza = Some 5, annullamento = True\<rparr> (True, 7) ''ora'' = Inl e
     \<and> category (with_phase Finalize e) = CatCancelled"
proof -
  let ?e = "Cancelled (''esecuzione annullata '' @ ''ora'')"
  have "verifica \<lparr>scadenza = Some 5, annullamento = True\<rparr> (True, 7) ''ora'' = Inl ?e"
    by (simp add: verifica_def)
  with interruption_axes [OF this, of "with_phase Finalize" Finalize] show ?thesis by auto
qed

section \<open>The base of the diagnostics\<close>

lemma nel_passo_sotto_la_fase:
  "category (con_contesto_sotto_la_fase c e) = category e" "phase (con_contesto_sotto_la_fase c e) = phase e"
  by (induction c e rule: con_contesto_sotto_la_fase.induct)
     (simp_all add: passo.layer_category passo.layer_phase del: nel_passo_o_input.simps)

text \<open>C18. With the source as the base of its indices a step leaves the error of its kernel alone. Otherwise an
  error with a valid row payload, and no declared remote effect, keeps category, phase and counters, but no
  row example: its payload is still valid and says the attribution is not available. An error without
  payload stays as it is.\<close>

theorem diagnostics_base:
  assumes "payload_validi e" and "\<not> ha_effetto_dichiarato e"
  shows "(pv_base_indici p = Sorgente \<longrightarrow> diagnostica_nella_base p e = e)
     \<and> category (diagnostica_nella_base p e) = category e \<and> phase (diagnostica_nella_base p e) = phase e
     \<and> (row_diagnostics_of e = None \<longrightarrow> diagnostica_nella_base p e = e)
     \<and> (\<forall>d. row_diagnostics_of e = Some d \<longrightarrow> pv_base_indici p = SenzaAttribuzione \<longrightarrow>
          (\<exists>d'. row_diagnostics_of (diagnostica_nella_base p e) = Some d'
             \<and> senza_attribuzione d = Inr d' \<and> examples d' = [] \<and> counts d' = counts d
             \<and> validate_for_emission d' = Inr ()))"
  using assms
proof (induction p e rule: diagnostica_nella_base.induct)
  case (1 p source d)
  then have "validate_for_emission d = Inr ()" by (auto simp: is_ok_iff)
  from validate_senza_esempi [OF this] senza_attribuzione_eq [of d] show ?case
    by (auto simp: nel_passo_sotto_la_fase senza_esempi_def)
qed auto

theorem diagnostics_base_witness:
  "\<exists>d'. row_diagnostics_of (diagnostica_nella_base (passo_prova\<lparr>pv_base_indici := SenzaAttribuzione\<rparr>)
      (RowDiagnostics (DataMapping ''celle'') esempio_minimo)) = Some d' \<and> examples d' = []"
proof -
  have "payload_validi (RowDiagnostics (DataMapping ''celle'') esempio_minimo)"
    by (simp add: esempio_minimo_valido is_ok_iff)
  from diagnostics_base [OF this, of "passo_prova\<lparr>pv_base_indici := SenzaAttribuzione\<rparr>"]
  show ?thesis by auto
qed

section \<open>The expansion of a step\<close>

text \<open>The check on the rows of a step: an expansion fixed by the configuration must be met exactly, over
  the naturals, with no wrap-around; an exempt operation is never refused; every other operation is refused
  when the constraint of the catalogue is exceeded, the input of a unary one and both inputs of the others
  being the base.\<close>

theorem check_expansion_exact:
  "check_expansion f64_text p l righe_in righe_out = Inr () \<longleftrightarrow>
     (case pv_moltiplicatore p of
        Some fattore \<Rightarrow> length righe_in = 1 \<and> unat righe_out = unat (hd righe_in) * unat fattore
      | None \<Rightarrow> expansion_factor_exempt (pv_descrittore p)
          \<or> (arity (pv_descrittore p) = Unary \<and> length righe_in = 1
             \<and> \<not> expansion_exceeded righe_out (hd righe_in) (max_expansion_factor (rows l)))
          \<or> (arity (pv_descrittore p) \<noteq> Unary \<and> length righe_in = 2
             \<and> \<not> exceeded (expansion_constraint (pv_descrittore p)) righe_out (righe_in ! 0) (righe_in ! 1)
                  (max_expansion_factor (rows l))))"
proof (cases "pv_moltiplicatore p")
  case None
  consider "righe_in = []" | x where "righe_in = [x]" | x y where "righe_in = [x, y]"
    | x y z zs where "righe_in = x # y # z # zs"
    by (metis list.exhaust)
  then show ?thesis
    using None
    by cases (auto simp: check_expansion_def espansione_superata_def Let_def results
        split: op_arity.splits if_splits)
next
  case (Some fattore)
  consider "righe_in = []" | x where "righe_in = [x]" | x y zs where "righe_in = x # y # zs"
    by (metis list.exhaust)
  then show ?thesis
    using Some by cases (auto simp: check_expansion_def Let_def checked_mul_Some_iff)
qed

end
