(* ===== verification/ExactCompare.thy ===== *)
theory ExactCompare
  imports RunLimits Ordering
begin

unbundle bit_operations_syntax

text \<open>
  \<open>crates/plenora-kernels-table/src/exact_compare.rs\<close>: the exact comparison of a decimal
  \<open>unscaled * 10^-scale\<close> with an \<open>f64\<close>, on unsigned integers of 512 bits.

  A \<open>Big\<close> is the list of its eight limbs, least significant first.  \<open>big_nat\<close> is the number it stands
  for: each operation on limbs refines the operation on numbers, and \<open>compare_decimal_with_f64\<close> the
  comparison of two real numbers.
\<close>

type_synonym i128 = "128 word"
type_synonym i8 = "8 word"

section \<open>Integers of 512 bits\<close>

definition LIMBS :: nat where
  "LIMBS = 8"

record big =
  limbs :: "u64 list"

definition big_ZERO :: big where
  "big_ZERO = \<lparr>limbs = replicate LIMBS 0\<rparr>"

definition big_from_u128 :: "u128 \<Rightarrow> big" where
  "big_from_u128 v = \<lparr>limbs = ((replicate LIMBS 0)[0 := ucast v])[1 := ucast (drop_bit 64 v)]\<rparr>"

fun mul_limbs :: "u64 \<Rightarrow> u128 \<Rightarrow> u64 list \<Rightarrow> u64 list \<times> u128" where
  "mul_limbs factor riporto [] = ([], riporto)"
| "mul_limbs factor riporto (limb # rest) =
     (let prodotto = ucast limb * ucast factor + riporto;
          limb' = (case u64_try_from (prodotto AND ucast (max_u :: u64)) of Some l \<Rightarrow> l | None \<Rightarrow> max_u);
          (rest', riporto') = mul_limbs factor (drop_bit 64 prodotto) rest
      in (limb' # rest', riporto'))"

definition checked_mul_small :: "big \<Rightarrow> u64 \<Rightarrow> big option" where
  "checked_mul_small b factor =
     (case mul_limbs factor 0 (limbs b) of (ls, riporto) \<Rightarrow>
        if riporto = 0 then Some \<lparr>limbs = ls\<rparr> else None)"

text \<open>The loop from the most significant limb; \<open>u32::try_from(indice).unwrap_or(0)\<close> never falls back.\<close>

fun bit_len_da :: "nat list \<Rightarrow> u64 list \<Rightarrow> 32 word" where
  "bit_len_da [] ls = 0"
| "bit_len_da (indice # resto) ls =
     (if ls ! indice \<noteq> 0 then
        (let posizione = (if indice < 2 ^ 32 then of_nat indice else 0)
         in posizione * 64 + (64 - of_nat (leading_zeros (ls ! indice))))
      else bit_len_da resto ls)"

definition bit_len :: "big \<Rightarrow> 32 word" where
  "bit_len b = bit_len_da (rev [0..<length (limbs b)]) (limbs b)"

definition valore_spostato :: "u64 list \<Rightarrow> nat \<Rightarrow> nat \<Rightarrow> u64" where
  "valore_spostato ls resto indice =
     (let valore = push_bit resto (ls ! indice)
      in if resto > 0 \<and> indice > 0 then valore OR drop_bit (64 - resto) (ls ! (indice - 1)) else valore)"

definition sposta_limbo :: "u64 list \<Rightarrow> nat \<Rightarrow> nat \<Rightarrow> nat \<Rightarrow> u64 list \<Rightarrow> u64 list" where
  "sposta_limbo ls salto resto indice risultato =
     (let destinazione = indice + salto
      in if destinazione \<ge> LIMBS then risultato
         else risultato[destinazione := risultato ! destinazione OR valore_spostato ls resto indice])"

definition big_checked_shl :: "big \<Rightarrow> 32 word \<Rightarrow> big option" where
  "big_checked_shl b shift =
     (if b = big_ZERO then Some b
      else case checked_add (bit_len b) shift of
        None \<Rightarrow> None
      | Some n \<Rightarrow>
          if n > 512 then None
          else
            (let salto = unat (shift div 64); resto = unat (shift mod 64)
             in Some \<lparr>limbs = fold (sposta_limbo (limbs b) salto resto) (rev [0..<LIMBS]) (replicate LIMBS 0)\<rparr>))"

fun cmp_limbs :: "nat list \<Rightarrow> u64 list \<Rightarrow> u64 list \<Rightarrow> ordering" where
  "cmp_limbs [] xs ys = Equal"
| "cmp_limbs (indice # resto) xs ys =
     (let ordine = cmp (xs ! indice) (ys ! indice)
      in if ordine \<noteq> Equal then ordine else cmp_limbs resto xs ys)"

definition big_cmp :: "big \<Rightarrow> big \<Rightarrow> ordering" where
  "big_cmp a b = cmp_limbs (rev [0..<LIMBS]) (limbs a) (limbs b)"

fun mul_pow5 :: "nat \<Rightarrow> big \<Rightarrow> big option" where
  "mul_pow5 0 valore = Some valore"
| "mul_pow5 (Suc n) valore =
     (case checked_mul_small valore 5 of None \<Rightarrow> None | Some valore' \<Rightarrow> mul_pow5 n valore')"

definition scale_by_pow5 :: "u128 \<Rightarrow> 32 word \<Rightarrow> big option" where
  "scale_by_pow5 base exponent = mul_pow5 (unat exponent) (big_from_u128 base)"

section \<open>The comparison\<close>

definition decompose :: "f64 \<Rightarrow> u64 \<times> int" where
  "decompose bits =
     (let raw_exponent = uint (drop_bit 52 bits AND 0x7ff);
          mantissa = bits AND (push_bit 52 1 - 1)
      in if raw_exponent = 0 then (mantissa, -1074)
         else (mantissa OR push_bit 52 1, raw_exponent - 1075))"

definition F64_INFINITY :: f64 where
  "F64_INFINITY = 0x7ff0000000000000"

definition F64_NEG_INFINITY :: f64 where
  "F64_NEG_INFINITY = 0xfff0000000000000"

definition f64_abs :: "f64 \<Rightarrow> f64" where
  "f64_abs f = f AND 0x7fffffffffffffff"

text \<open>\<open>signum\<close> and \<open>unsigned_abs\<close> of the signed machine integers.\<close>

definition signum :: "'a::len word \<Rightarrow> int" where
  "signum w = sgn (sint w)"

definition unsigned_abs :: "'a::len word \<Rightarrow> 'a word" where
  "unsigned_abs w = (if sint w < 0 then - w else w)"

definition double_sign :: "f64 \<Rightarrow> int" where
  "double_sign f = (if f64_is_zero f then 0 else if \<not> f64_negative f then 1 else -1)"

definition confronta_grandezze :: "big \<Rightarrow> big \<Rightarrow> int \<Rightarrow> ordering option" where
  "confronta_grandezze left right shift =
     (if shift \<ge> 0 then
        (if shift < 2 ^ 32 then
           Some (case big_checked_shl right (of_int shift) of None \<Rightarrow> Less | Some right' \<Rightarrow> big_cmp left right')
         else None)
      else
        (if - shift < 2 ^ 32 then
           Some (case big_checked_shl left (of_int (- shift)) of None \<Rightarrow> Greater | Some left' \<Rightarrow> big_cmp left' right)
         else None))"

definition compare_decimal_with_f64 :: "i128 \<Rightarrow> i8 \<Rightarrow> f64 \<Rightarrow> ordering option" where
  "compare_decimal_with_f64 unscaled scale expected =
     (if f64_is_nan expected then None
      else if expected = F64_INFINITY then Some Less
      else if expected = F64_NEG_INFINITY then Some Greater
      else if signum unscaled \<noteq> double_sign expected then
        Some (cmp (signum unscaled) (double_sign expected))
      else if signum unscaled = 0 then Some Equal
      else
        (case decompose (f64_abs expected) of (mantissa, exponent) \<Rightarrow>
          let cinque_sinistra = ucast (unsigned_abs scale) * (if sint scale < 0 then 1 else 0);
              cinque_destra = ucast (unsigned_abs scale) * (if sint scale > 0 then 1 else 0)
          in (case scale_by_pow5 (unsigned_abs unscaled) cinque_sinistra of
                None \<Rightarrow> None
              | Some left \<Rightarrow>
                  (case scale_by_pow5 (ucast mantissa) cinque_destra of
                     None \<Rightarrow> None
                   | Some right \<Rightarrow>
                       (case confronta_grandezze left right (exponent + sint scale) of
                          None \<Rightarrow> None
                        | Some magnitudes \<Rightarrow>
                            Some (if signum unscaled < 0 then reverse magnitudes else magnitudes))))))"

section \<open>The number of a Big\<close>

definition limbs_nat :: "u64 list \<Rightarrow> nat" where
  "limbs_nat ls = horner_sum unat (2 ^ 64) ls"

definition big_nat :: "big \<Rightarrow> nat" where
  "big_nat b = limbs_nat (limbs b)"

definition big_ok :: "big \<Rightarrow> bool" where
  "big_ok b \<longleftrightarrow> length (limbs b) = LIMBS"

lemma limbs_nat_simps [simp]:
  "limbs_nat [] = 0" "limbs_nat (l # ls) = unat l + 2 ^ 64 * limbs_nat ls"
  by (simp_all add: limbs_nat_def)

lemma limbs_nat_snoc: "limbs_nat (ls @ [l]) = limbs_nat ls + 2 ^ (64 * length ls) * unat l"
  by (induction ls) (simp_all add: algebra_simps power_add flip: power_mult)

lemma limbs_nat_lt: "limbs_nat ls < 2 ^ (64 * length ls)"
proof (induction ls)
  case (Cons l ls)
  have "unat l + 2 ^ 64 * limbs_nat ls < 2 ^ 64 + 2 ^ 64 * limbs_nat ls"
    using unat_u64_lt [of l] by simp
  also have "\<dots> = 2 ^ 64 * Suc (limbs_nat ls)" by simp
  also have "\<dots> \<le> 2 ^ 64 * 2 ^ (64 * length ls)"
    using Cons by (intro mult_left_mono) simp_all
  finally show ?case by (simp add: power_add)
qed simp

lemma limbs_nat_replicate [simp]: "limbs_nat (replicate n 0) = 0"
  by (induction n) simp_all

lemma big_nat_lt: "big_ok b \<Longrightarrow> big_nat b < 2 ^ 512"
  using limbs_nat_lt [of "limbs b"] by (simp add: big_nat_def big_ok_def LIMBS_def)

lemma limbs_of_u128: "limbs (big_from_u128 v) = ucast v # ucast (drop_bit 64 v) # replicate 6 0"
  by (simp add: big_from_u128_def LIMBS_def eval_nat_numeral)

lemma halves_of_u128:
  "unat (ucast v :: u64) = unat v mod 2 ^ 64"
  "unat (ucast (drop_bit 64 v) :: u64) = unat v div 2 ^ 64" for v :: u128
  using unat_u128_lt [of v]
  by (simp_all add: unsigned_ucast_eq drop_bit_eq_div unat_div_distrib take_bit_eq_mod less_mult_imp_div_less)

lemma big_from_u128_nat [simp]: "big_ok (big_from_u128 v)" "big_nat (big_from_u128 v) = unat v"
proof -
  show "big_nat (big_from_u128 v) = unat v"
    unfolding big_nat_def limbs_of_u128 limbs_nat_simps limbs_nat_replicate
    unfolding halves_of_u128(2) unfolding halves_of_u128(1) by simp
  show "big_ok (big_from_u128 v)"
    by (simp add: big_ok_def limbs_of_u128 LIMBS_def)
qed

text \<open>One step of the multiplication: the product and the carry fit in 128 bits.\<close>

lemma mul_step_bound:
  assumes "l < 2 ^ 64" and "f < 2 ^ 64" and "r < 2 ^ 64"
  shows "l * f + r < (2 :: nat) ^ 128"
proof -
  have "l * f + r \<le> (2 ^ 64 - 1) * (2 ^ 64 - 1) + (2 ^ 64 - 1)"
    using assms by (intro add_mono mult_mono) simp_all
  then show ?thesis by simp
qed

lemma low_half: "unat (p AND ucast (max_u :: u64) :: u128) = unat p mod 2 ^ 64"
  by (simp add: max_u_def unsigned_minus_1_eq_mask unat_mod_distrib take_bit_eq_mod flip: take_bit_eq_mask)


lemma mul_limbs_nat:
  "mul_limbs factor riporto ls = (ls', riporto') \<Longrightarrow> unat riporto < 2 ^ 64 \<Longrightarrow>
     length ls' = length ls \<and> unat riporto' < 2 ^ 64
     \<and> limbs_nat ls' + 2 ^ (64 * length ls) * unat riporto' = limbs_nat ls * unat factor + unat riporto"
proof (induction factor riporto ls arbitrary: ls' riporto' rule: mul_limbs.induct)
  case (2 factor riporto limb rest)
  define prodotto :: u128 where "prodotto = ucast limb * ucast factor + riporto"
  obtain rest' where rec: "mul_limbs factor (drop_bit 64 prodotto) rest = (rest', riporto')"
    using 2(2) by (auto simp: prodotto_def Let_def split: prod.splits)
  have p: "unat prodotto = unat limb * unat factor + unat riporto"
    using mul_step_bound [OF unat_u64_lt unat_u64_lt 2(3), of limb factor]
    by (simp add: prodotto_def unat_word_ariths)
  have ls': "ls' = ucast (prodotto AND ucast (max_u :: u64)) # rest'"
    using 2(2) rec by (auto simp: prodotto_def Let_def u64_try_from_le word_and_le1 split: prod.splits)
  have high: "unat (drop_bit 64 prodotto) = unat prodotto div 2 ^ 64"
    by (simp add: drop_bit_eq_div unat_div_distrib)
  then have "unat (drop_bit 64 prodotto) < 2 ^ 64"
    using unat_u128_lt [of prodotto] by (simp add: less_mult_imp_div_less)
  note IH = 2(1) [OF prodotto_def refl rec this]
  have "unat (ucast (prodotto AND ucast (max_u :: u64)) :: u64) = unat prodotto mod 2 ^ 64"
    by (simp add: unsigned_ucast_eq low_half take_bit_eq_mod)
  then have "limbs_nat ls' + 2 ^ (64 * length (limb # rest)) * unat riporto'
      = unat prodotto mod 2 ^ 64 + 2 ^ 64 * (limbs_nat rest' + 2 ^ (64 * length rest) * unat riporto')"
    by (simp add: ls' power_add algebra_simps)
  also have "limbs_nat rest' + 2 ^ (64 * length rest) * unat riporto'
      = limbs_nat rest * unat factor + unat prodotto div 2 ^ 64"
    using IH high by simp
  also have "unat prodotto mod 2 ^ 64 + 2 ^ 64 * (limbs_nat rest * unat factor + unat prodotto div 2 ^ 64)
      = unat prodotto mod 2 ^ 64 + 2 ^ 64 * (unat prodotto div 2 ^ 64) + 2 ^ 64 * (limbs_nat rest * unat factor)"
    by (simp only: distrib_left ac_simps)
  also have "\<dots> = unat prodotto + 2 ^ 64 * limbs_nat rest * unat factor"
    by (simp only: mod_mult_div_eq ac_simps)
  finally show ?case using IH by (simp add: ls' p algebra_simps)
qed simp

lemma checked_mul_small_nat:
  assumes "big_ok b"
  shows "checked_mul_small b f = Some b' \<Longrightarrow> big_ok b' \<and> big_nat b' = big_nat b * unat f"
    and "checked_mul_small b f = None \<Longrightarrow> 2 ^ 512 \<le> big_nat b * unat f"
proof -
  obtain ls r where mul: "mul_limbs f 0 (limbs b) = (ls, r)" by (cases "mul_limbs f 0 (limbs b)")
  from mul_limbs_nat [OF mul] assms
  have *: "length ls = LIMBS" "limbs_nat ls + 2 ^ 512 * unat r = big_nat b * unat f"
    by (simp_all add: big_ok_def big_nat_def LIMBS_def)
  show "checked_mul_small b f = Some b' \<Longrightarrow> big_ok b' \<and> big_nat b' = big_nat b * unat f"
    using * by (auto simp: checked_mul_small_def mul big_ok_def big_nat_def split: if_splits)
  assume "checked_mul_small b f = None"
  then have "r \<noteq> 0" by (simp add: checked_mul_small_def mul split: if_splits)
  then have "1 \<le> unat r" by (simp add: unat_gt_0 Suc_le_eq)
  then have "2 ^ 512 * 1 \<le> (2 ^ 512 * unat r :: nat)" by (intro mult_left_mono) simp_all
  then show "2 ^ 512 \<le> big_nat b * unat f" using * by simp
qed

lemma unat_5: "unat (5 :: u64) = 5"
  by simp

lemma mul_pow5_nat:
  "big_ok b \<Longrightarrow> big_nat b * 5 ^ n < 2 ^ 512 \<Longrightarrow>
     \<exists>b'. mul_pow5 n b = Some b' \<and> big_ok b' \<and> big_nat b' = big_nat b * 5 ^ n"
proof (induction n arbitrary: b)
  case (Suc n)
  have "big_nat b * 5 \<le> big_nat b * 5 ^ Suc n" by simp
  then have "\<not> 2 ^ 512 \<le> big_nat b * unat (5 :: u64)" using Suc.prems(2) unfolding unat_5 by (simp only: not_le le_less_trans)
  then have "checked_mul_small b 5 \<noteq> None"
    using checked_mul_small_nat(2) [OF Suc.prems(1)] by blast
  then obtain b1 where b1: "checked_mul_small b 5 = Some b1" by blast
  with checked_mul_small_nat(1) [OF Suc.prems(1)] have "big_ok b1" "big_nat b1 = big_nat b * 5"
    unfolding unat_5 [symmetric] by blast+
  with Suc.IH [of b1] Suc.prems(2) b1 show ?case by (simp add: ac_simps)
qed simp

lemma cmp_limbs_upto:
  "n \<le> length xs \<Longrightarrow> n \<le> length ys \<Longrightarrow>
     cmp_limbs (rev [0..<n]) xs ys = cmp (limbs_nat (take n xs)) (limbs_nat (take n ys))"
proof (induction n)
  case (Suc n)
  have less: "limbs_nat (take n zs) < 2 ^ (64 * n)" if "n \<le> length zs" for zs
    using limbs_nat_lt [of "take n zs"] that by (simp add: min_absorb2)
  show ?case
  proof (cases "xs ! n = ys ! n")
    case True
    with Suc show ?thesis by (simp add: take_Suc_conv_app_nth limbs_nat_snoc min_absorb2 cmp_def)
  next
    case False
    have *: "a + 2 ^ (64 * n) * unat x < b + 2 ^ (64 * n) * unat y"
      if "x < y" and "a < 2 ^ (64 * n)" for a b and x y :: u64
    proof -
      have "a + 2 ^ (64 * n) * unat x < 2 ^ (64 * n) * Suc (unat x)" using that by simp
      also have "\<dots> \<le> 2 ^ (64 * n) * unat y"
        using that(1) by (intro mult_left_mono) (simp_all add: word_less_nat_alt)
      finally show ?thesis by simp
    qed
    have "xs ! n < ys ! n \<or> ys ! n < xs ! n" using False by auto
    then show ?thesis
      using Suc.prems * [OF _ less, of "xs ! n" "ys ! n" xs "limbs_nat (take n ys)"]
        * [OF _ less, of "ys ! n" "xs ! n" ys "limbs_nat (take n xs)"]
      by (auto simp: take_Suc_conv_app_nth limbs_nat_snoc min_absorb2 cmp_def)
  qed
qed simp

lemma big_cmp_nat: "big_ok a \<Longrightarrow> big_ok b \<Longrightarrow> big_cmp a b = cmp (big_nat a) (big_nat b)"
  using cmp_limbs_upto [of LIMBS "limbs a" "limbs b"]
  by (simp add: big_cmp_def big_ok_def big_nat_def)

section \<open>Length in bits\<close>

lemma bit_length_eqI: "(\<And>k. a < 2 ^ k \<longleftrightarrow> b \<le> k) \<Longrightarrow> bit_length a = b"
  by (metis bit_length_le_iff le_antisym order_refl)

lemma bit_length_high:
  assumes "a < 2 ^ j" and "0 < x"
  shows "bit_length (a + 2 ^ j * x) = j + bit_length x"
proof (rule bit_length_eqI)
  fix k
  show "a + 2 ^ j * x < 2 ^ k \<longleftrightarrow> j + bit_length x \<le> k"
  proof (cases "j \<le> k")
    case True
    then have k: "(2 :: nat) ^ k = 2 ^ j * 2 ^ (k - j)" by (simp flip: power_add)
    have "a + 2 ^ j * x < 2 ^ k \<longleftrightarrow> x < 2 ^ (k - j)"
    proof
      assume "x < 2 ^ (k - j)"
      then have "2 ^ j * Suc x \<le> 2 ^ j * 2 ^ (k - j)" by (intro mult_left_mono) simp_all
      then show "a + 2 ^ j * x < 2 ^ k" using assms(1) k by simp
    next
      assume "a + 2 ^ j * x < 2 ^ k"
      then have "2 ^ j * x < 2 ^ j * 2 ^ (k - j)" unfolding k by linarith
      then show "x < 2 ^ (k - j)" by simp
    qed
    then show ?thesis using bit_length_le_iff [of x "k - j"] True by (simp add: le_diff_conv2 add.commute)
  next
    case False
    then have "(2 :: nat) ^ k \<le> 2 ^ j" by (intro power_increasing) simp_all
    also have "\<dots> \<le> 2 ^ j * x" using assms(2) by simp
    finally show ?thesis using False by simp
  qed
qed

lemma bit_length_u64: "bit_length (unat (x :: u64)) \<le> 64"
  using unat_u64_lt [of x] by (simp add: bit_length_le_iff)

lemma bit_length_pos: "0 < n \<Longrightarrow> 0 < bit_length n"
  using bit_length_le_iff [of n 0] by simp

lemma bit_len_parte:
  assumes "i < 8"
  shows "unat (of_nat i * 64 + (64 - of_nat (leading_zeros (x :: u64))) :: 32 word) = 64 * i + bit_length (unat x)"
proof -
  have lz: "leading_zeros x \<le> 64" "64 - leading_zeros x = bit_length (unat x)"
    using bit_length_u64 [of x] by (simp_all add: leading_zeros_def)
  have "(of_nat (64 - leading_zeros x) :: 32 word) = 64 - of_nat (leading_zeros x)"
    using of_nat_diff [OF lz(1)] by simp
  then have "of_nat i * 64 + (64 - of_nat (leading_zeros x)) = (of_nat (i * 64 + (64 - leading_zeros x)) :: 32 word)"
    by simp
  moreover have "unat (of_nat (i * 64 + (64 - leading_zeros x)) :: 32 word) = i * 64 + (64 - leading_zeros x)"
    unfolding unat_of_nat by (rule mod_less) (use assms in simp)
  ultimately show ?thesis using lz by simp
qed

lemma bit_len_da_nat:
  "n \<le> length ls \<Longrightarrow> n \<le> 8 \<Longrightarrow> unat (bit_len_da (rev [0..<n]) ls) = bit_length (limbs_nat (take n ls))"
proof (induction n)
  case 0
  then show ?case by (simp add: bit_length.simps)
next
  case (Suc n)
  have "limbs_nat (take n ls) < 2 ^ (64 * n)"
    using limbs_nat_lt [of "take n ls"] Suc.prems by (simp add: min_absorb2)
  from bit_length_high [OF this] Suc show ?case
    by (auto simp: take_Suc_conv_app_nth limbs_nat_snoc min_absorb2 bit_len_parte unat_gt_0)
qed

lemma bit_len_nat: "big_ok b \<Longrightarrow> unat (bit_len b) = bit_length (big_nat b)"
  using bit_len_da_nat [of LIMBS "limbs b"] by (simp add: bit_len_def big_ok_def big_nat_def LIMBS_def)

section \<open>The shift\<close>

lemma bit_limbs_nat:
  "bit (limbs_nat ls) n \<longleftrightarrow> n div 64 < length ls \<and> bit (ls ! (n div 64)) (n mod 64)"
proof (induction ls arbitrary: n)
  case (Cons l ls)
  show ?case
  proof (cases "n < 64")
    case True
    have "take_bit 64 (limbs_nat (l # ls)) = unat l"
      using unat_u64_lt [of l] by (simp add: take_bit_eq_mod)
    then have "bit (limbs_nat (l # ls)) n \<longleftrightarrow> bit (unat l) n"
      using True by (metis bit_take_bit_iff)
    then show ?thesis using True by (simp add: bit_unsigned_iff)
  next
    case False
    then obtain k where n: "n = 64 + k" using le_Suc_ex not_less by blast
    have "drop_bit 64 (limbs_nat (l # ls)) = limbs_nat ls"
      using unat_u64_lt [of l] by (simp add: drop_bit_eq_div)
    then have "bit (limbs_nat (l # ls)) n \<longleftrightarrow> bit (limbs_nat ls) k"
      using n by (metis bit_drop_bit_eq comp_apply)
    then show ?thesis using Cons.IH [of k] n by simp
  qed
qed simp

lemma fold_sposta_length [simp]:
  "length (fold (sposta_limbo ls salto resto) is r) = length r"
  by (induction "is" arbitrary: r) (simp_all add: sposta_limbo_def Let_def)

lemma fold_sposta_nth:
  "distinct is \<Longrightarrow> length r = LIMBS \<Longrightarrow> k < LIMBS \<Longrightarrow>
     fold (sposta_limbo ls salto resto) is r ! k =
       (if salto \<le> k \<and> k - salto \<in> set is then r ! k OR valore_spostato ls resto (k - salto) else r ! k)"
proof (induction "is" arbitrary: r)
  case (Cons i "is")
  then show ?case
    by (auto simp: sposta_limbo_def Let_def nth_list_update)
qed simp

lemma bit_valore_spostato:
  assumes "j < 64" and "resto < 64"
  shows "bit (valore_spostato ls resto i) j \<longleftrightarrow>
     (if resto \<le> j then bit (ls ! i) (j - resto) else 0 < i \<and> bit (ls ! (i - 1)) (64 + j - resto))"
  using assms
  by (auto simp: valore_spostato_def Let_def bit_or_iff bit_push_bit_iff bit_drop_bit_eq
      dest: bit_imp_le_length)

lemma shift_limbs:
  assumes ls: "length ls = LIMBS" and fits: "limbs_nat ls * 2 ^ s < 2 ^ 512"
  shows "limbs_nat (fold (sposta_limbo ls (s div 64) (s mod 64)) (rev [0..<LIMBS]) (replicate LIMBS 0))
     = limbs_nat ls * 2 ^ s" (is "limbs_nat ?r = ?v")
proof (rule bit_eqI)
  fix n :: nat
  define k j q t where "k = n div 64" and "j = n mod 64" and "q = s div 64" and "t = s mod 64"
  then have n: "n = 64 * k + j" "j < 64" and s: "s = 64 * q + t" "t < 64" by simp_all
  have v: "bit ?v n \<longleftrightarrow> s \<le> n \<and> bit (limbs_nat ls) (n - s)"
    using bit_push_bit_iff [of s "limbs_nat ls" n] by (simp add: push_bit_eq_mult possible_bit_def)
  show "bit (limbs_nat ?r) n \<longleftrightarrow> bit ?v n"
  proof (cases "k < LIMBS")
    case False
    then have "512 \<le> n" using n by (simp add: LIMBS_def)
    then have "(2 :: nat) ^ 512 \<le> 2 ^ n" by (intro power_increasing) simp_all
    with fits have "?v < 2 ^ n" by (rule less_le_trans)
    then have "\<not> bit ?v n" by (simp add: bit_iff_odd)
    then show ?thesis using False by (simp add: bit_limbs_nat k_def)
  next
    case True
    have "?r ! k = (if q \<le> k then valore_spostato ls t (k - q) else 0)"
      using True less_imp_diff_less [OF True, of q] fold_sposta_nth [of "rev [0..<LIMBS]" "replicate LIMBS 0" k ls q t]
      by (simp flip: q_def t_def)
    then have r: "bit (limbs_nat ?r) n \<longleftrightarrow> q \<le> k \<and>
        (if t \<le> j then bit (ls ! (k - q)) (j - t) else q < k \<and> bit (ls ! (k - q - 1)) (64 + j - t))"
      using True bit_valore_spostato [OF n(2) s(2), of ls "k - q"]
      by (auto simp: bit_limbs_nat simp flip: k_def j_def)
    show ?thesis
    proof (cases "t \<le> j")
      case True
      then have "s \<le> n \<longleftrightarrow> q \<le> k" using n s by auto
      moreover have "(n - s) div 64 = k - q" "(n - s) mod 64 = j - t" if "q \<le> k"
      proof -
        have "n - s = 64 * (k - q) + (j - t)" using n s True that by (simp add: diff_mult_distrib2)
        then show "(n - s) div 64 = k - q" "(n - s) mod 64 = j - t" using n(2) by simp_all
      qed
      ultimately show ?thesis using True \<open>k < LIMBS\<close> ls unfolding r v bit_limbs_nat [of ls] by auto
    next
      case False
      then have "s \<le> n \<longleftrightarrow> q < k" using n s by auto
      moreover have "(n - s) div 64 = k - q - 1" "(n - s) mod 64 = 64 + j - t" if qk: "q < k"
      proof -
        obtain d where "k = q + Suc d" using qk less_imp_Suc_add by auto
        then have "n - s = 64 * (k - q - 1) + (64 + j - t)" using n s False by simp
        then show "(n - s) div 64 = k - q - 1" "(n - s) mod 64 = 64 + j - t" using n(2) False by simp_all
      qed
      ultimately show ?thesis using False \<open>k < LIMBS\<close> ls unfolding r v bit_limbs_nat [of ls] by auto
    qed
  qed
qed

lemma limbs_nat_0_iff: "limbs_nat ls = 0 \<longleftrightarrow> ls = replicate (length ls) 0"
  by (induction ls) (auto simp: unat_eq_zero)

lemma big_checked_shl_nat:
  assumes "big_ok b"
  shows "big_checked_shl b s = Some b' \<Longrightarrow> big_ok b' \<and> big_nat b' = big_nat b * 2 ^ unat s"
    and "big_checked_shl b s = None \<Longrightarrow> 2 ^ 512 \<le> big_nat b * 2 ^ unat s"
proof -
  have zero: "b = big_ZERO \<longleftrightarrow> big_nat b = 0"
    using assms by (cases b) (auto simp: big_ZERO_def big_nat_def big_ok_def limbs_nat_0_iff)
  have len: "bit_length (big_nat b * 2 ^ unat s) = bit_length (big_nat b) + unat s" if "b \<noteq> big_ZERO"
    using bit_length_high [of 0 "unat s" "big_nat b"] that zero by (simp add: ac_simps)
  have sd: "unat (s div 64) = unat s div 64" "unat (s mod 64) = unat s mod 64"
    by (simp_all add: unat_div_distrib unat_mod_distrib)
  show "2 ^ 512 \<le> big_nat b * 2 ^ unat s" if none: "big_checked_shl b s = None"
  proof -
    have nz: "b \<noteq> big_ZERO" using none by (auto simp: big_checked_shl_def)
    have "512 < bit_length (big_nat b) + unat s"
    proof (cases "checked_add (bit_len b) s")
      case None
      then show ?thesis using None bit_len_nat [OF assms] by (simp add: checked_add_None)
    next
      case (Some n)
      then show ?thesis
        using none nz checked_add_Some [OF Some] bit_len_nat [OF assms]
        by (simp add: big_checked_shl_def word_less_nat_alt Let_def split: if_splits)
    qed
    then have "\<not> bit_length (big_nat b * 2 ^ unat s) \<le> 512" using len [OF nz] by simp
    then show ?thesis unfolding bit_length_le_iff by simp
  qed
  assume some: "big_checked_shl b s = Some b'"
  show "big_ok b' \<and> big_nat b' = big_nat b * 2 ^ unat s"
  proof (cases "b = big_ZERO")
    case True
    then show ?thesis using some zero assms by (simp add: big_checked_shl_def)
  next
    case False
    then obtain n where n: "checked_add (bit_len b) s = Some n" "n \<le> 512"
      and b': "b' = \<lparr>limbs = fold (sposta_limbo (limbs b) (unat s div 64) (unat s mod 64)) (rev [0..<LIMBS]) (replicate LIMBS 0)\<rparr>"
      using some by (auto simp: big_checked_shl_def Let_def sd not_less split: option.splits if_splits)
    have "bit_length (big_nat b * 2 ^ unat s) \<le> 512"
      using len [OF False] checked_add_Some [OF n(1)] bit_len_nat [OF assms] n(2) by (simp add: word_le_nat_alt)
    then have "limbs_nat (limbs b) * 2 ^ unat s < 2 ^ 512" unfolding bit_length_le_iff big_nat_def .
    from shift_limbs [OF _ this] assms show ?thesis
      by (simp add: b' big_ok_def big_nat_def)
  qed
qed

section \<open>The parts of the comparison\<close>

lemma uint_of_int_id: "0 \<le> i \<Longrightarrow> i < 2 ^ LENGTH('a) \<Longrightarrow> uint (word_of_int i :: 'a::len word) = i"
  by (simp only: uint_word_of_int_eq take_bit_int_eq_self)

lemma unat_unsigned_abs: "unat (unsigned_abs w) = nat \<bar>sint (w :: 'a::len word)\<bar>"
proof -
  have "\<bar>sint w\<bar> \<le> 2 ^ (LENGTH('a) - 1)"
    using sint_greater_eq [of w] sint_less [of w] by (simp add: abs_le_iff)
  also have "\<dots> < (2 :: int) ^ LENGTH('a)" by simp
  finally have "uint (word_of_int \<bar>sint w\<bar> :: 'a word) = \<bar>sint w\<bar>"
    by (intro uint_of_int_id) simp_all
  moreover have "(word_of_int \<bar>sint w\<bar> :: 'a word) = unsigned_abs w"
    by (simp add: unsigned_abs_def abs_if)
  ultimately show ?thesis by (simp add: unat_eq_nat_uint)
qed

lemma decompose_eq: "decompose f = f64_decode f"
  by (auto simp: decompose_def f64_decode_def f64_raw_exponent_def f64_fraction_def Let_def uint_0_iff)

lemma f64_abs_take_bit: "f64_abs f = take_bit 63 f"
  by (simp add: f64_abs_def take_bit_eq_mask mask_eq_exp_minus_1)

lemma decode_abs: "f64_decode (f64_abs f) = f64_decode f"
proof -
  have "f64_fraction (f64_abs f) = f64_fraction f"
    by (simp add: f64_fraction_take_bit f64_abs_take_bit)
  moreover have "f64_raw_exponent g = take_bit 11 (drop_bit 52 g)" for g
    by (simp add: f64_raw_exponent_def take_bit_eq_mask mask_eq_exp_minus_1)
  then have "f64_raw_exponent (f64_abs f) = f64_raw_exponent f"
    by (simp add: f64_abs_take_bit drop_bit_take_bit)
  ultimately show ?thesis by (simp add: f64_decode_def)
qed

lemma not_finite_cases:
  assumes "\<not> f64_is_finite f" and "\<not> f64_is_nan f"
  shows "f = F64_INFINITY \<or> f = F64_NEG_INFINITY"
proof -
  have "f64_raw_exponent f = 0x7ff" "f64_fraction f = 0"
    using assms by (simp_all add: f64_is_finite_def f64_is_nan_def)
  then have "take_bit 11 (drop_bit 52 f) = 0x7ff" "take_bit 52 f = 0"
    by (simp_all add: f64_raw_exponent_def f64_fraction_take_bit take_bit_eq_mask mask_eq_exp_minus_1)
  then have "unat (take_bit 11 (drop_bit 52 f)) = 2047" "unat (take_bit 52 f) = 0" by simp_all
  then have "unat f div 2 ^ 52 mod 2 ^ 11 = 2047" "unat f mod 2 ^ 52 = 0"
    by (simp_all add: take_bit_eq_mod drop_bit_eq_div unat_mod_distrib unat_div_distrib)
  moreover have "unat f div 2 ^ 52 < 2 ^ 12" using unat_u64_lt [of f] by (simp add: less_mult_imp_div_less)
  moreover have "q = 2047 \<or> q = 4095" if "q mod 2 ^ 11 = 2047" "q < 2 ^ 12" for q :: nat
  proof -
    have "q div 2048 < 2" using that(2) by (simp add: less_mult_imp_div_less)
    then have "q div 2048 = 0 \<or> q div 2048 = 1" by linarith
    then show ?thesis using that(1) div_mult_mod_eq [of q 2048] by auto
  qed
  ultimately have "unat f div 2 ^ 52 = 2047 \<or> unat f div 2 ^ 52 = 4095" by blast
  then have "unat f = 2047 * 2 ^ 52 \<or> unat f = 4095 * 2 ^ 52"
    using div_mult_mod_eq [of "unat f" "2 ^ 52"] \<open>unat f mod 2 ^ 52 = 0\<close> by auto
  then show ?thesis by (auto simp: F64_INFINITY_def F64_NEG_INFINITY_def word_unat_eq_iff)
qed

lemma infinities:
  "\<not> f64_is_finite F64_INFINITY" "\<not> f64_negative F64_INFINITY"
  "\<not> f64_is_finite F64_NEG_INFINITY" "f64_negative F64_NEG_INFINITY"
  by (simp_all add: f64_is_finite_def f64_raw_exponent_def f64_negative_def F64_INFINITY_def F64_NEG_INFINITY_def)

lemma sgn_f64_value: "sgn (f64_value f) = of_int (double_sign f)"
proof (cases "f64_is_zero f")
  case True
  then show ?thesis by (simp add: f64_value_def f64_decode_def f64_is_zero_def double_sign_def)
next
  case False
  then have "0 < unat (fst (f64_decode f))" using f64_mantissa_pos [OF False] by (metis prod.collapse)
  then have "sgn (real (unat (fst (f64_decode f)))) = 1" by (simp add: sgn_1_pos del: of_nat_unat)
  then show ?thesis using False by (simp add: f64_value_def double_sign_def sgn_mult)
qed

lemma scale_by_pow5_nat:
  assumes "unat exponent \<le> 128"
  obtains b where "scale_by_pow5 base exponent = Some b" "big_ok b"
    "big_nat b = unat base * 5 ^ unat exponent"
proof -
  have "unat base * 5 ^ unat exponent \<le> 2 ^ 128 * 5 ^ 128"
    using assms unat_u128_lt [of base] by (intro mult_mono power_increasing) simp_all
  also have "\<dots> < 2 ^ 512" by simp
  finally show ?thesis
    using mul_pow5_nat [of "big_from_u128 base" "unat exponent"] that by (auto simp: scale_by_pow5_def)
qed

lemma confronta_grandezze_nat:
  assumes l: "big_ok l" and r: "big_ok r" and shift: "\<bar>shift\<bar> < 2 ^ 32"
  shows "confronta_grandezze l r shift = Some (if 0 \<le> shift then cmp (big_nat l) (big_nat r * 2 ^ nat shift)
      else cmp (big_nat l * 2 ^ nat (- shift)) (big_nat r))"
proof -
  have unat: "unat (of_int i :: 32 word) = nat i" if "0 \<le> i" "i < 2 ^ 32" for i
    using that uint_of_int_id [where 'a = 32] by (simp only: unat_eq_nat_uint) simp
  show ?thesis
  proof (cases "0 \<le> shift")
    case True
    then have n: "unat (of_int shift :: 32 word) = nat shift" using shift unat by simp
    have "(case big_checked_shl r (of_int shift) of None \<Rightarrow> Less | Some r' \<Rightarrow> big_cmp l r')
        = cmp (big_nat l) (big_nat r * 2 ^ nat shift)"
    proof (cases "big_checked_shl r (of_int shift)")
      case None
      then have "big_nat l < big_nat r * 2 ^ nat shift"
        using big_checked_shl_nat(2) [OF r None] big_nat_lt [OF l] unfolding n by linarith
      then show ?thesis using None by (simp add: cmp_def)
    next
      case (Some r')
      then show ?thesis using big_checked_shl_nat(1) [OF r Some] big_cmp_nat [OF l] n by simp
    qed
    then show ?thesis using True shift by (simp add: confronta_grandezze_def)
  next
    case False
    then have n: "unat (of_int (- shift) :: 32 word) = nat (- shift)" using shift unat [of "- shift"] by simp
    have "(case big_checked_shl l (of_int (- shift)) of None \<Rightarrow> Greater | Some l' \<Rightarrow> big_cmp l' r)
        = cmp (big_nat l * 2 ^ nat (- shift)) (big_nat r)"
    proof (cases "big_checked_shl l (of_int (- shift))")
      case None
      then have "big_nat r < big_nat l * 2 ^ nat (- shift)"
        using big_checked_shl_nat(2) [OF l None] big_nat_lt [OF r] unfolding n by linarith
      then show ?thesis using None by (simp add: cmp_def)
    next
      case (Some l')
      then show ?thesis using big_checked_shl_nat(1) [OF l Some] big_cmp_nat [OF _ r] n by simp
    qed
    then show ?thesis using False shift by (simp add: confronta_grandezze_def)
  qed
qed

section \<open>The comparison is exact\<close>

definition decimal_value :: "i128 \<Rightarrow> i8 \<Rightarrow> real" where
  "decimal_value unscaled scale = of_int (sint unscaled) * 10 powi (- sint scale)"

lemma sgn_scaled: "0 < c \<Longrightarrow> sgn (of_int i * (c :: real)) = of_int (sgn i)"
  by (cases i "0 :: int" rule: linorder_cases) (simp_all add: sgn_mult)

lemma sgn_magnitude: "of_int i * c = of_int (sgn i) * (real (nat \<bar>i\<bar>) * c)"
  by (simp add: sgn_if)

lemma sgn_decimal_value: "sgn (decimal_value u s) = of_int (signum u)"
  unfolding decimal_value_def signum_def by (rule sgn_scaled) simp

lemma decimal_magnitude:
  fixes e s :: int
  shows "cmp (real U * 10 powi (- s)) (real M * 2 powi e)
     = (if 0 \<le> e + s then cmp (U * 5 ^ nat (- s)) (M * 5 ^ nat s * 2 ^ nat (e + s))
        else cmp (U * 5 ^ nat (- s) * 2 ^ nat (- (e + s))) (M * 5 ^ nat s))"
proof -
  define c :: real where "c = 2 powi (- s) / 5 ^ nat s"
  have c: "0 < c" by (simp add: c_def)
  have "(5 :: real) powi (- s) = 5 ^ nat (- s) / 5 ^ nat s"
    by (cases "0 \<le> s") (simp_all add: power_int_def divide_simps)
  then have "(10 :: real) powi (- s) = 5 ^ nat (- s) * c"
    using power_int_mult_distrib [of 2 "5 :: real" "- s"] by (simp add: c_def)
  then have u: "real U * 10 powi (- s) = real (U * 5 ^ nat (- s)) * c" by simp
  have "(2 :: real) powi e = 2 powi (e + s) * 2 powi (- s)" by (simp flip: power_int_add)
  then have m: "real M * 2 powi e = (real (M * 5 ^ nat s) * 2 powi (e + s)) * c" by (simp add: c_def)
  have "cmp (real U * 10 powi (- s)) (real M * 2 powi e)
      = cmp (real (U * 5 ^ nat (- s))) (real (M * 5 ^ nat s) * 2 powi (e + s))"
    unfolding u m by (rule cmp_mult_pos [OF c])
  also have "\<dots> = (if 0 \<le> e + s then cmp (U * 5 ^ nat (- s)) (M * 5 ^ nat s * 2 ^ nat (e + s))
        else cmp (U * 5 ^ nat (- s) * 2 ^ nat (- (e + s))) (M * 5 ^ nat s))"
  proof (cases "0 \<le> e + s")
    case True
    then have "real (M * 5 ^ nat s) * 2 powi (e + s) = real (M * 5 ^ nat s * 2 ^ nat (e + s))"
      by (simp add: power_int_def)
    then show ?thesis using True by (simp only: cmp_of_nat if_True)
  next
    case False
    define k where "k = nat (- (e + s))"
    have k: "(2 :: real) powi (e + s) * 2 ^ k = 1" using False by (simp add: k_def power_int_def divide_simps)
    have "cmp (real (U * 5 ^ nat (- s))) (real (M * 5 ^ nat s) * 2 powi (e + s))
        = cmp (real (U * 5 ^ nat (- s)) * 2 ^ k) (real (M * 5 ^ nat s) * 2 powi (e + s) * 2 ^ k)"
      by (rule cmp_mult_pos [symmetric]) simp
    also have "\<dots> = cmp (real (U * 5 ^ nat (- s) * 2 ^ k)) (real (M * 5 ^ nat s))"
      using k by (simp add: mult.assoc)
    finally show ?thesis using False by (simp only: cmp_of_nat k_def if_False)
  qed
  finally show ?thesis .
qed

lemma cmp_sgn: "sgn a \<noteq> sgn b \<Longrightarrow> cmp a b = cmp (sgn a) (sgn (b :: real))"
  by (auto simp: cmp_def sgn_if split: if_splits)

lemma scale_exponents:
  fixes scale :: i8
  shows "unat (ucast (unsigned_abs scale) * (if sint scale < 0 then 1 else 0) :: 32 word) = nat (- sint scale)"
    and "unat (ucast (unsigned_abs scale) * (if sint scale > 0 then 1 else 0) :: 32 word) = nat (sint scale)"
    and "nat (- sint scale) \<le> 128" "nat (sint scale) \<le> 128"
proof -
  have "unat (ucast (unsigned_abs scale) :: 32 word) = nat \<bar>sint scale\<bar>"
    using unat_lt [of "unsigned_abs scale"]
    by (simp add: unsigned_ucast_eq take_bit_nat_eq_self flip: unat_unsigned_abs)
  then show "unat (ucast (unsigned_abs scale) * (if sint scale < 0 then 1 else 0) :: 32 word) = nat (- sint scale)"
    "unat (ucast (unsigned_abs scale) * (if sint scale > 0 then 1 else 0) :: 32 word) = nat (sint scale)"
    by auto
  show "nat (- sint scale) \<le> 128" "nat (sint scale) \<le> 128"
    using sint_greater_eq [of scale] sint_less [of scale] by simp_all
qed

lemma f64_exponent_bounds:
  assumes "f64_decode f = (m, e)"
  shows "\<bar>e\<bar> \<le> 1074"
proof -
  have "uint (f64_raw_exponent f) < 2048"
    using f64_raw_exponent_lt [of f] unfolding unat_eq_nat_uint
    by (simp only: nat_less_iff [OF uint_ge_0]) simp
  moreover have "0 < uint (f64_raw_exponent f)" if "f64_raw_exponent f \<noteq> 0"
    by (metis that uint_ge_0 uint_0_iff order_le_less)
  ultimately have "\<bar>uint (f64_raw_exponent f) - 1075\<bar> \<le> 1074" if "f64_raw_exponent f \<noteq> 0"
    using that by linarith
  moreover have "e = -1074 \<or> f64_raw_exponent f \<noteq> 0 \<and> e = uint (f64_raw_exponent f) - 1075"
    using assms by (auto simp only: f64_decode_def prod.inject split: if_splits)
  ultimately show ?thesis by auto
qed

lemma compare_same_sign:
  assumes finite: "f64_is_finite f" and sign: "signum u = double_sign f" and nz: "signum u \<noteq> 0"
    and dec: "f64_decode f = (m, e)"
  shows "cmp (decimal_value u s) (f64_value f)
     = (if signum u < 0 then reverse else id)
         (cmp (real (unat (unsigned_abs u)) * 10 powi (- sint s)) (real (unat m) * 2 powi e))"
proof -
  have u: "decimal_value u s = of_int (signum u) * (real (unat (unsigned_abs u)) * 10 powi (- sint s))"
    unfolding decimal_value_def signum_def unat_unsigned_abs by (rule sgn_magnitude)
  have "double_sign f = (if f64_negative f then -1 else 1)"
    using nz sign by (auto simp: double_sign_def split: if_splits)
  then have f: "f64_value f = of_int (signum u) * (real (unat m) * 2 powi e)"
    using sign by (simp add: f64_value_def dec)
  have "signum u = -1 \<or> signum u = 1" using nz by (auto simp: signum_def sgn_if split: if_splits)
  then show ?thesis unfolding u f by (auto simp: cmp_uminus)
qed

text \<open>C6. The comparison of a decimal with a double is exact and decides every pair but a NaN: with an
  infinite double the answer is its sign, and with a finite one the order of the two real numbers.\<close>

theorem compare_decimal_with_f64_exact:
  "compare_decimal_with_f64 unscaled scale expected =
     (if f64_is_nan expected then None
      else if \<not> f64_is_finite expected then Some (if f64_negative expected then Greater else Less)
      else Some (cmp (decimal_value unscaled scale) (f64_value expected)))"
proof (cases "f64_is_finite expected \<and> signum unscaled = double_sign expected \<and> signum unscaled \<noteq> 0")
  case False
  then show ?thesis
    using not_finite_cases [of expected] infinities sgn_decimal_value [of unscaled scale] sgn_f64_value [of expected]
      cmp_sgn [of "decimal_value unscaled scale" "f64_value expected"] cmp_of_int
    by (auto simp: compare_decimal_with_f64_def f64_is_nan_def f64_is_finite_def sgn_0_0)
next
  case True
  then have finite: "f64_is_finite expected" and sign: "signum unscaled = double_sign expected"
    and nz: "signum unscaled \<noteq> 0" by simp_all
  then have plain: "\<not> f64_is_nan expected" "expected \<noteq> F64_INFINITY" "expected \<noteq> F64_NEG_INFINITY"
    using infinities by (auto simp: f64_is_nan_def f64_is_finite_def)
  obtain m e where dec: "f64_decode expected = (m, e)" by (cases "f64_decode expected")
  let ?u = "unsigned_abs unscaled"
  obtain l where l: "scale_by_pow5 ?u (ucast (unsigned_abs scale) * (if sint scale < 0 then 1 else 0)) = Some l"
      "big_ok l" "big_nat l = unat ?u * 5 ^ nat (- sint scale)"
    using scale_exponents(1,3) scale_by_pow5_nat by metis
  obtain r where r: "scale_by_pow5 (ucast m) (ucast (unsigned_abs scale) * (if sint scale > 0 then 1 else 0)) = Some r"
      "big_ok r" "big_nat r = unat m * 5 ^ nat (sint scale)"
    using scale_exponents(2,4) scale_by_pow5_nat unat_ucast_u128 by metis
  have "\<bar>e + sint scale\<bar> < 2 ^ 32"
    using f64_exponent_bounds [OF dec] scale_exponents(3,4) [of scale] unfolding nat_le_iff by simp
  from confronta_grandezze_nat [OF l(2) r(2) this]
  have "confronta_grandezze l r (e + sint scale)
      = Some (cmp (real (unat ?u) * 10 powi (- sint scale)) (real (unat m) * 2 powi e))"
    unfolding l(3) r(3) decimal_magnitude .
  then show ?thesis
    using plain finite sign nz l(1) r(1) compare_same_sign [OF finite sign nz dec, of scale]
    by (simp add: compare_decimal_with_f64_def decompose_eq decode_abs dec Let_def)
qed

end
