(* ===== verification/Strings.thy ===== *)
theory Strings
  imports Prelude
begin

text \<open>
  Text, as the program uses \<open>str\<close>: a string is its UTF-8 bytes.  Splitting and stripping, comparison without
  ASCII case, trimming of Unicode white space, and the reading of decimal integers.
\<close>

section \<open>Splitting and stripping\<close>

text \<open>\<open>str::split\<close> on one character: always at least one token.\<close>

fun split_char :: "char \<Rightarrow> string \<Rightarrow> string list" where
  "split_char c [] = [[]]"
| "split_char c (x # xs) =
     (if x = c then [] # split_char c xs
      else (case split_char c xs of [] \<Rightarrow> [[x]] | t # ts \<Rightarrow> (x # t) # ts))"

definition strip_suffix :: "string \<Rightarrow> string \<Rightarrow> string option" where
  "strip_suffix s suffix =
     (if length suffix \<le> length s \<and> drop (length s - length suffix) s = suffix
      then Some (take (length s - length suffix) s) else None)"

lemma strip_suffix_append: "strip_suffix (b @ s) s = Some b"
  by (simp add: strip_suffix_def)

definition ends_with :: "string \<Rightarrow> string \<Rightarrow> bool" where
  "ends_with s suffix = (strip_suffix s suffix \<noteq> None)"

definition strip_prefix :: "string \<Rightarrow> string \<Rightarrow> string option" where
  "strip_prefix s prefix = (if starts_with s prefix then Some (drop (length prefix) s) else None)"

text \<open>\<open>split_once\<close> and \<open>rsplit_once\<close> on one of some ASCII characters.\<close>

definition split_once :: "string \<Rightarrow> string \<Rightarrow> (string \<times> string) option" where
  "split_once chars s =
     (let a = takeWhile (\<lambda>c. c \<notin> set chars) s
      in if length a < length s then Some (a, drop (Suc (length a)) s) else None)"

definition rsplit_once :: "string \<Rightarrow> string \<Rightarrow> (string \<times> string) option" where
  "rsplit_once chars s = map_option (\<lambda>(a, b). (rev b, rev a)) (split_once chars (rev s))"

text \<open>The text joined by a separator, \<open>join\<close> of a slice.\<close>

fun join :: "string \<Rightarrow> string list \<Rightarrow> string" where
  "join sep [] = []"
| "join sep [s] = s"
| "join sep (s # t # ts) = s @ sep @ join sep (t # ts)"

section \<open>ASCII case\<close>

definition is_ascii_uppercase :: "char \<Rightarrow> bool" where
  "is_ascii_uppercase c \<longleftrightarrow> 65 \<le> byte_of c \<and> byte_of c \<le> 90"

definition is_ascii_alphanumeric :: "char \<Rightarrow> bool" where
  "is_ascii_alphanumeric c \<longleftrightarrow> is_ascii_digit c \<or> is_ascii_uppercase c \<or> is_ascii_lowercase c"

definition to_ascii_lowercase :: "char \<Rightarrow> char" where
  "to_ascii_lowercase c = (if is_ascii_uppercase c then char_of (byte_of c + 32) else c)"

definition to_ascii_uppercase :: "char \<Rightarrow> char" where
  "to_ascii_uppercase c = (if is_ascii_lowercase c then char_of (byte_of c - 32) else c)"

definition eq_ignore_ascii_case :: "string \<Rightarrow> string \<Rightarrow> bool" where
  "eq_ignore_ascii_case a b \<longleftrightarrow> map to_ascii_lowercase a = map to_ascii_lowercase b"

section \<open>White space\<close>

text \<open>The UTF-8 forms of the characters with the property \<open>White_Space\<close>.\<close>

definition white_space :: "string list" where
  "white_space =
     map (\<lambda>n. [char_of n]) [9, 10, 11, 12, 13, 32 :: nat]
     @ [[CHR 0xC2, CHR 0x85], [CHR 0xC2, CHR 0xA0], [CHR 0xE1, CHR 0x9A, CHR 0x80]]
     @ map (\<lambda>n. [CHR 0xE2, CHR 0x80, char_of n]) ([128..<139] @ [168, 169, 175 :: nat])
     @ [[CHR 0xE2, CHR 0x81, CHR 0x9F], [CHR 0xE3, CHR 0x80, CHR 0x80]]"

definition leading_white_space :: "string \<Rightarrow> nat" where
  "leading_white_space s = (case List.find (starts_with s) white_space of None \<Rightarrow> 0 | Some w \<Rightarrow> length w)"

definition trailing_white_space :: "string \<Rightarrow> nat" where
  "trailing_white_space s = (case List.find (ends_with s) white_space of None \<Rightarrow> 0 | Some w \<Rightarrow> length w)"

function trim_start :: "string \<Rightarrow> string" where
  "trim_start s =
     (let n = leading_white_space s in if n = 0 \<or> s = [] then s else trim_start (drop n s))"
  by pat_completeness auto
termination by (relation "measure length") auto

function trim_end :: "string \<Rightarrow> string" where
  "trim_end s =
     (let n = trailing_white_space s in if n = 0 \<or> s = [] then s else trim_end (take (length s - n) s))"
  by pat_completeness auto
termination by (relation "measure length") auto

declare trim_start.simps [simp del] trim_end.simps [simp del]

definition trim :: "string \<Rightarrow> string" where
  "trim s = trim_end (trim_start s)"

fun contains_white_space :: "string \<Rightarrow> bool" where
  "contains_white_space [] = False"
| "contains_white_space (c # s) = (leading_white_space (c # s) \<noteq> 0 \<or> contains_white_space s)"

section \<open>Decimal integers\<close>

text \<open>The value of a text of ASCII digits.\<close>

definition cifra_decimale :: "char \<Rightarrow> nat" where
  "cifra_decimale c = byte_of c - 48"

definition valore_decimale :: "string \<Rightarrow> nat" where
  "valore_decimale s = fold (\<lambda>c n. 10 * n + cifra_decimale c) s 0"

text \<open>\<open>str::parse\<close> of an unsigned integer below \<open>limit\<close>: digits, after an optional plus sign.\<close>

definition parse_unsigned :: "nat \<Rightarrow> string \<Rightarrow> nat option" where
  "parse_unsigned limit s =
     (let d = (case strip_prefix s ''+'' of None \<Rightarrow> s | Some r \<Rightarrow> r)
      in if d = [] \<or> \<not> list_all is_ascii_digit d \<or> valore_decimale d \<ge> limit then None
         else Some (valore_decimale d))"

text \<open>\<open>str::parse::<i64>\<close>.\<close>

definition parse_i64 :: "string \<Rightarrow> int option" where
  "parse_i64 s =
     (case strip_prefix s ''-'' of
        Some d \<Rightarrow>
          (if d = [] \<or> \<not> list_all is_ascii_digit d \<or> valore_decimale d > 2 ^ 63 then None
           else Some (- int (valore_decimale d)))
      | None \<Rightarrow> map_option int (parse_unsigned (2 ^ 63) s))"

lemma digit_char_digit: "d < 10 \<Longrightarrow> is_ascii_digit (digit_char d) \<and> cifra_decimale (digit_char d) = d"
  by (simp add: is_ascii_digit_def cifra_decimale_def byte_of_def digit_char_def)

lemma show_nat_digits: "list_all is_ascii_digit (show_nat n)"
proof (induction n rule: show_nat.induct)
  case (1 n)
  then show ?case
    by (subst show_nat.simps) (simp add: digit_char_digit list_all_iff)
qed

lemma valore_decimale_snoc: "valore_decimale (s @ [c]) = 10 * valore_decimale s + cifra_decimale c"
  by (simp add: valore_decimale_def)

lemma valore_decimale_show_nat [simp]: "valore_decimale (show_nat n) = n"
proof (induction n rule: show_nat.induct)
  case (1 n)
  then show ?case
    by (subst show_nat.simps, simp add: digit_char_digit valore_decimale_snoc)
      (simp add: valore_decimale_def digit_char_digit)
qed

section \<open>Splitting and joining\<close>

lemma split_char_single: "c \<notin> set t \<Longrightarrow> split_char c t = [t]"
  by (induction c t rule: split_char.induct) auto

lemma split_char_cons: "c \<notin> set t \<Longrightarrow> split_char c (t @ c # r) = t # split_char c r"
  by (induction t) auto

lemma split_char_nonempty [simp]: "split_char c s \<noteq> []"
  by (induction c s rule: split_char.induct) (auto split: list.splits)

text \<open>The tokens, joined by the separator, are the text.\<close>

lemma split_char_join:
  "split_char c s = t # ts \<Longrightarrow> s = t @ concat (map ((#) c) ts)"
proof (induction c s arbitrary: t ts rule: split_char.induct)
  case (2 c x xs)
  show ?case
  proof (cases "x = c")
    case True
    obtain t' ts' where "split_char c xs = t' # ts'" by (cases "split_char c xs") auto
    then show ?thesis using 2 True by auto
  next
    case False
    obtain t' ts' where "split_char c xs = t' # ts'" by (cases "split_char c xs") auto
    then show ?thesis using 2 False by auto
  qed
qed simp

lemma split_char_of_join:
  "(\<And>u. u \<in> set (t # ts) \<Longrightarrow> c \<notin> set u) \<Longrightarrow> split_char c (t @ concat (map ((#) c) ts)) = t # ts"
proof (induction ts arbitrary: t)
  case (Cons u us)
  then show ?case by (simp add: split_char_cons)
qed (simp add: split_char_single)

lemma digits_no_char: "list_all is_ascii_digit s \<Longrightarrow> \<not> is_ascii_digit c \<Longrightarrow> c \<notin> set s"
  by (auto simp: list_all_iff)

lemma digit_char_zero: "d < 10 \<Longrightarrow> digit_char d = CHR ''0'' \<longleftrightarrow> d = 0"
proof
  assume "d < 10" "digit_char d = CHR ''0''"
  then show "d = 0" using digit_char_digit [of d] by (simp add: cifra_decimale_def byte_of_def)
qed (simp add: digit_char_def char_of_def bit_0)

lemma show_nat_valore_decimale:
  assumes "s \<noteq> []" and "list_all is_ascii_digit s" and "length s > 1 \<Longrightarrow> hd s \<noteq> CHR ''0''"
  shows "show_nat (valore_decimale s) = s"
  using assms
proof (induction s rule: rev_induct)
  case (snoc c s)
  have c: "is_ascii_digit c" using snoc.prems(2) by simp
  then have d: "digit_char (cifra_decimale c) = c" "cifra_decimale c < 10"
    by (auto simp: is_ascii_digit_def cifra_decimale_def byte_of_def digit_char_def)
  show ?case
  proof (cases "s = []")
    case True
    then show ?thesis using d by (simp add: valore_decimale_def show_nat.simps [of "cifra_decimale c"])
  next
    case False
    have hd: "hd s \<noteq> CHR ''0''" using snoc.prems(3) False by simp
    then have IH: "show_nat (valore_decimale s) = s" using snoc False by simp
    have "valore_decimale s \<noteq> 0"
    proof
      assume "valore_decimale s = 0"
      then have "s = show_nat 0" using IH by simp
      then have "s = ''0''" using digit_char_zero [of 0] by (simp add: show_nat.simps [of 0])
      then show False using hd by simp
    qed
    then have "10 \<le> valore_decimale (s @ [c])" by (simp add: valore_decimale_snoc)
    then show ?thesis
      using IH d by (subst show_nat.simps) (simp add: valore_decimale_snoc)
  qed
qed simp

lemma show_nat_canonico: "show_nat n \<noteq> []" "length (show_nat n) > 1 \<Longrightarrow> hd (show_nat n) \<noteq> CHR ''0''"
proof -
  show "show_nat n \<noteq> []" by (subst show_nat.simps) simp
  show "length (show_nat n) > 1 \<Longrightarrow> hd (show_nat n) \<noteq> CHR ''0''"
  proof (induction n rule: show_nat.induct)
    case (1 n)
    show ?case
    proof (cases "n < 10")
      case True
      then show ?thesis using 1(2) by (simp add: show_nat.simps [of n])
    next
      case False
      have e: "show_nat n = show_nat (n div 10) @ [digit_char (n mod 10)]"
        using False by (subst show_nat.simps) simp
      have ne: "show_nat (n div 10) \<noteq> []" by (subst show_nat.simps) simp
      have "hd (show_nat (n div 10)) \<noteq> CHR ''0''"
      proof (cases "length (show_nat (n div 10)) > 1")
        case True
        then show ?thesis using 1(1) False by simp
      next
        case short: False
        have "n div 10 < 10"
          using short by (cases "n div 10 < 10") (simp_all add: show_nat.simps [of "n div 10"])
        then show ?thesis using False
          using digit_char_zero [of "n div 10"] by (auto simp: show_nat.simps [of "n div 10"])
      qed
      then show ?thesis using e ne by simp
    qed
  qed
qed

lemma parse_unsigned_show_nat: "n < limit \<Longrightarrow> parse_unsigned limit (show_nat n) = Some n"
proof -
  assume n: "n < limit"
  have "starts_with (show_nat n) ''+'' \<Longrightarrow> False"
    using show_nat_digits [of n] by (auto simp: starts_with_iff list_all_iff is_ascii_digit_def byte_of_def)
  with n show ?thesis
    using show_nat_digits [of n] by (auto simp: parse_unsigned_def strip_prefix_def)
qed

end
