(* ===== verification/ContractTypes.thy ===== *)
theory ContractTypes
  imports Errors Strings
begin

text \<open>
  The closed vocabularies of the data contracts, \<open>crates/plenora-core/src/contract.rs\<close>: the enums that
  the macro \<open>enum_icd!\<close> declares with their textual forms, and the pair of a declaration and a
  canonical list of geometry types.

  For every enum the macro generates \<open>ALL\<close>, \<open>as_str\<close> and \<open>from_str\<close>; \<open>forme_di\<close> and \<open>da_forma\<close> are the
  generated functions, the rest is the table of each enum.  The order on \<open>geometry_type\<close> is the
  derived \<open>Ord\<close>: the order of declaration.
\<close>

section \<open>Enums with a closed textual form\<close>

definition da_forma :: "('a \<Rightarrow> string) \<Rightarrow> 'a list \<Rightarrow> string \<Rightarrow> 'a option" where
  "da_forma forma tutte testo = List.find (\<lambda>v. forma v = testo) tutte"

fun elenco_forme :: "string list \<Rightarrow> string" where
  "elenco_forme [] = []"
| "elenco_forme [f] = f"
| "elenco_forme (f # fs) = f @ '', '' @ elenco_forme fs"

text \<open>\<open>"<descrizione> (<ammessi>: <forme>)"\<close>: the message never repeats the input.\<close>

definition messaggio_icd :: "string \<Rightarrow> string \<Rightarrow> string list \<Rightarrow> string" where
  "messaggio_icd descrizione ammessi forme = descrizione @ '' ('' @ ammessi @ '': '' @ elenco_forme forme @ '')''"

lemma da_forma_iff:
  assumes "inj_on forma (set tutte)"
  shows "da_forma forma tutte testo = Some v \<longleftrightarrow> v \<in> set tutte \<and> forma v = testo"
  using assms
proof (induction tutte)
  case (Cons t ts)
  then show ?case by (auto simp: da_forma_def inj_on_def)
qed (simp add: da_forma_def)

subsection \<open>Dimensions and framing\<close>

datatype geometry_dimensions = Xy | Xyz | Xym | Xyzm | DimUnknown

definition dimensions_all :: "geometry_dimensions list" where
  "dimensions_all = [Xy, Xyz, Xym, Xyzm, DimUnknown]"

fun dimensions_as_str :: "geometry_dimensions \<Rightarrow> string" where
  "dimensions_as_str Xy = ''xy''"
| "dimensions_as_str Xyz = ''xyz''"
| "dimensions_as_str Xym = ''xym''"
| "dimensions_as_str Xyzm = ''xyzm''"
| "dimensions_as_str DimUnknown = ''unknown''"

definition dimensions_from_str :: "string \<Rightarrow> geometry_dimensions option" where
  "dimensions_from_str = da_forma dimensions_as_str dimensions_all"

fun coordinate_stride :: "geometry_dimensions \<Rightarrow> nat option" where
  "coordinate_stride Xy = Some 16"
| "coordinate_stride Xyz = Some 24"
| "coordinate_stride Xym = Some 24"
| "coordinate_stride Xyzm = Some 32"
| "coordinate_stride DimUnknown = None"

datatype geometry_encoding = Wkb | Ewkb

definition encoding_all :: "geometry_encoding list" where
  "encoding_all = [Wkb, Ewkb]"

fun encoding_as_str :: "geometry_encoding \<Rightarrow> string" where
  "encoding_as_str Wkb = ''wkb''"
| "encoding_as_str Ewkb = ''ewkb''"

definition encoding_from_str :: "string \<Rightarrow> geometry_encoding option" where
  "encoding_from_str = da_forma encoding_as_str encoding_all"

subsection \<open>Geometry types\<close>

datatype geometry_type =
    GtPoint | GtLineString | GtPolygon | GtMultiPoint | GtMultiLineString | GtMultiPolygon
  | GtGeometryCollection | GtCircularString | GtCompoundCurve | GtCurvePolygon | GtMultiCurve
  | GtMultiSurface | GtPolyhedralSurface | GtTin | GtTriangle | GtUnknown

definition geometry_type_all :: "geometry_type list" where
  "geometry_type_all =
     [GtPoint, GtLineString, GtPolygon, GtMultiPoint, GtMultiLineString, GtMultiPolygon,
      GtGeometryCollection, GtCircularString, GtCompoundCurve, GtCurvePolygon, GtMultiCurve,
      GtMultiSurface, GtPolyhedralSurface, GtTin, GtTriangle, GtUnknown]"

fun geometry_type_as_str :: "geometry_type \<Rightarrow> string" where
  "geometry_type_as_str GtPoint = ''point''"
| "geometry_type_as_str GtLineString = ''linestring''"
| "geometry_type_as_str GtPolygon = ''polygon''"
| "geometry_type_as_str GtMultiPoint = ''multipoint''"
| "geometry_type_as_str GtMultiLineString = ''multilinestring''"
| "geometry_type_as_str GtMultiPolygon = ''multipolygon''"
| "geometry_type_as_str GtGeometryCollection = ''geometrycollection''"
| "geometry_type_as_str GtCircularString = ''circularstring''"
| "geometry_type_as_str GtCompoundCurve = ''compoundcurve''"
| "geometry_type_as_str GtCurvePolygon = ''curvepolygon''"
| "geometry_type_as_str GtMultiCurve = ''multicurve''"
| "geometry_type_as_str GtMultiSurface = ''multisurface''"
| "geometry_type_as_str GtPolyhedralSurface = ''polyhedralsurface''"
| "geometry_type_as_str GtTin = ''tin''"
| "geometry_type_as_str GtTriangle = ''triangle''"
| "geometry_type_as_str GtUnknown = ''unknown''"

definition geometry_type_from_str :: "string \<Rightarrow> geometry_type option" where
  "geometry_type_from_str = da_forma geometry_type_as_str geometry_type_all"

text \<open>Codes 13 and 14 are abstract types that no cell carries.\<close>

definition from_wkb_base_type :: "32 word \<Rightarrow> geometry_type option" where
  "from_wkb_base_type code =
     (if code = 1 then Some GtPoint else if code = 2 then Some GtLineString
      else if code = 3 then Some GtPolygon else if code = 4 then Some GtMultiPoint
      else if code = 5 then Some GtMultiLineString else if code = 6 then Some GtMultiPolygon
      else if code = 7 then Some GtGeometryCollection else if code = 8 then Some GtCircularString
      else if code = 9 then Some GtCompoundCurve else if code = 10 then Some GtCurvePolygon
      else if code = 11 then Some GtMultiCurve else if code = 12 then Some GtMultiSurface
      else if code = 15 then Some GtPolyhedralSurface else if code = 16 then Some GtTin
      else if code = 17 then Some GtTriangle else None)"

text \<open>The derived order: the position of the variant in the declaration.\<close>

instantiation geometry_type :: linorder
begin

definition rank_geometry_type :: "geometry_type \<Rightarrow> nat" where
  "rank_geometry_type t = length (takeWhile (\<lambda>u. u \<noteq> t) geometry_type_all)"

definition less_eq_geometry_type :: "geometry_type \<Rightarrow> geometry_type \<Rightarrow> bool" where
  "less_eq_geometry_type a b \<longleftrightarrow> rank_geometry_type a \<le> rank_geometry_type b"

definition less_geometry_type :: "geometry_type \<Rightarrow> geometry_type \<Rightarrow> bool" where
  "less_geometry_type a b \<longleftrightarrow> rank_geometry_type a < rank_geometry_type b"

instance
proof
  fix a b :: geometry_type
  assume "a \<le> b" "b \<le> a"
  then show "a = b"
    by (cases a; cases b) (simp_all add: less_eq_geometry_type_def rank_geometry_type_def geometry_type_all_def)
qed (auto simp: less_eq_geometry_type_def less_geometry_type_def)

end

subsection \<open>Declarations and attributes of a column\<close>

datatype types_declaration = Exact | Mixed | Unresolved

definition declaration_all :: "types_declaration list" where
  "declaration_all = [Exact, Mixed, Unresolved]"

fun declaration_as_str :: "types_declaration \<Rightarrow> string" where
  "declaration_as_str Exact = ''exact''"
| "declaration_as_str Mixed = ''mixed''"
| "declaration_as_str Unresolved = ''unresolved''"

definition declaration_from_str :: "string \<Rightarrow> types_declaration option" where
  "declaration_from_str = da_forma declaration_as_str declaration_all"

datatype axis_order = LonLat | LatLon | EastingNorthing | NorthingEasting | AxisOther | AxisUnknown

definition axis_order_all :: "axis_order list" where
  "axis_order_all = [LonLat, LatLon, EastingNorthing, NorthingEasting, AxisOther, AxisUnknown]"

fun axis_order_as_str :: "axis_order \<Rightarrow> string" where
  "axis_order_as_str LonLat = ''lon_lat''"
| "axis_order_as_str LatLon = ''lat_lon''"
| "axis_order_as_str EastingNorthing = ''easting_northing''"
| "axis_order_as_str NorthingEasting = ''northing_easting''"
| "axis_order_as_str AxisOther = ''other''"
| "axis_order_as_str AxisUnknown = ''unknown''"

definition axis_order_from_str :: "string \<Rightarrow> axis_order option" where
  "axis_order_from_str = da_forma axis_order_as_str axis_order_all"

datatype crs_resolution = CrResolved | CrDeclaredUnresolved | CrMissing

definition crs_resolution_all :: "crs_resolution list" where
  "crs_resolution_all = [CrResolved, CrDeclaredUnresolved, CrMissing]"

fun crs_resolution_as_str :: "crs_resolution \<Rightarrow> string" where
  "crs_resolution_as_str CrResolved = ''resolved''"
| "crs_resolution_as_str CrDeclaredUnresolved = ''declared_unresolved''"
| "crs_resolution_as_str CrMissing = ''missing''"

definition crs_resolution_from_str :: "string \<Rightarrow> crs_resolution option" where
  "crs_resolution_from_str = da_forma crs_resolution_as_str crs_resolution_all"

datatype crs_definition_format = FmtWkt | FmtWkt2 | FmtProjjson

definition crs_format_all :: "crs_definition_format list" where
  "crs_format_all = [FmtWkt, FmtWkt2, FmtProjjson]"

fun crs_format_as_str :: "crs_definition_format \<Rightarrow> string" where
  "crs_format_as_str FmtWkt = ''wkt''"
| "crs_format_as_str FmtWkt2 = ''wkt2''"
| "crs_format_as_str FmtProjjson = ''projjson''"

definition crs_format_from_str :: "string \<Rightarrow> crs_definition_format option" where
  "crs_format_from_str = da_forma crs_format_as_str crs_format_all"

datatype spatial_semantics = SemGeometry | SemGeography

definition semantics_all :: "spatial_semantics list" where
  "semantics_all = [SemGeometry, SemGeography]"

fun semantics_as_str :: "spatial_semantics \<Rightarrow> string" where
  "semantics_as_str SemGeometry = ''geometry''"
| "semantics_as_str SemGeography = ''geography''"

definition semantics_from_str :: "string \<Rightarrow> spatial_semantics option" where
  "semantics_from_str = da_forma semantics_as_str semantics_all"

datatype geometry_precision = PFloat64 | PFloat32 | PNative

definition precision_all :: "geometry_precision list" where
  "precision_all = [PFloat64, PFloat32, PNative]"

fun precision_as_str :: "geometry_precision \<Rightarrow> string" where
  "precision_as_str PFloat64 = ''float64''"
| "precision_as_str PFloat32 = ''float32''"
| "precision_as_str PNative = ''native''"

definition precision_from_str :: "string \<Rightarrow> geometry_precision option" where
  "precision_from_str = da_forma precision_as_str precision_all"

section \<open>The canonical list of geometry types\<close>

datatype geometry_types_property_error =
  ExactWithoutTypes | UnresolvedWithTypes | UnknownTypeInList | DuplicateTypeInList | NonCanonicalOrder

fun types_error_message :: "geometry_types_property_error \<Rightarrow> string" where
  "types_error_message ExactWithoutTypes =
     ''types_declaration `exact` richiede un elenco di tipi presente e non vuoto''"
| "types_error_message UnresolvedWithTypes =
     ''types_declaration `unresolved` non ammette un elenco di tipi''"
| "types_error_message UnknownTypeInList =
     ''elenco tipi con valore non canonico (ammessi i 16 tipi di `GeometryType`, minuscoli senza '' @
     ''separatore, separati da `,` senza spazi)''"
| "types_error_message DuplicateTypeInList =
     ''elenco tipi con duplicati: la forma canonica richiede valori unici''"
| "types_error_message NonCanonicalOrder =
     ''elenco tipi fuori ordine canonico (l'ordine di `GeometryType`)''"

record geometry_types_property =
  gp_declaration :: types_declaration
  gp_types :: "geometry_type list"

fun check_coherence :: "types_declaration \<Rightarrow> nat \<Rightarrow> geometry_types_property_error + unit" where
  "check_coherence Exact len = (if len = 0 then Inl ExactWithoutTypes else Inr ())"
| "check_coherence Unresolved len = (if len > 0 then Inl UnresolvedWithTypes else Inr ())"
| "check_coherence Mixed len = Inr ()"

text \<open>\<open>sort_unstable\<close> and \<open>dedup\<close>.\<close>

definition types_new ::
    "types_declaration \<Rightarrow> geometry_type list \<Rightarrow> geometry_types_property_error + geometry_types_property" where
  "types_new declaration types =
     (let types = remdups_adj (sort types)
      in try_bind (check_coherence declaration (length types))
           (\<lambda>_. Inr \<lparr>gp_declaration = declaration, gp_types = types\<rparr>))"

definition aggiungi_token ::
    "geometry_type list \<Rightarrow> string \<Rightarrow> geometry_types_property_error + geometry_type list" where
  "aggiungi_token parsed token =
     (case geometry_type_from_str token of
        None \<Rightarrow> Inl UnknownTypeInList
      | Some t \<Rightarrow>
          if parsed \<noteq> [] \<and> last parsed = t then Inl DuplicateTypeInList
          else if parsed \<noteq> [] \<and> last parsed > t then Inl NonCanonicalOrder
          else Inr (parsed @ [t]))"

definition from_canonical_list ::
    "types_declaration \<Rightarrow> string \<Rightarrow> geometry_types_property_error + geometry_types_property" where
  "from_canonical_list declaration list =
     (if list = [] then
        try_bind (check_coherence declaration 0) (\<lambda>_. Inr \<lparr>gp_declaration = declaration, gp_types = []\<rparr>)
      else
        try_bind (try_fold aggiungi_token [] (split_char (CHR '','') list)) (\<lambda>parsed.
          try_bind (check_coherence declaration (length parsed)) (\<lambda>_.
            Inr \<lparr>gp_declaration = declaration, gp_types = parsed\<rparr>)))"

fun unisci :: "nat \<Rightarrow> geometry_type list \<Rightarrow> string \<Rightarrow> string" where
  "unisci index [] acc = acc"
| "unisci index (t # ts) acc =
     unisci (Suc index) ts ((if index > 0 then acc @ '','' else acc) @ geometry_type_as_str t)"

definition to_canonical_list :: "geometry_types_property \<Rightarrow> string" where
  "to_canonical_list p = unisci 0 (gp_types p) []"

section \<open>The textual forms\<close>

lemma da_forma_as_str:
  assumes "set tutte = UNIV" and "distinct (map forma tutte)"
  shows "da_forma forma tutte testo = Some v \<longleftrightarrow> forma v = testo"
  using assms da_forma_iff [of forma tutte testo v] by (simp add: distinct_map)

text \<open>Each table is injective and \<open>ALL\<close> is complete, so parsing inverts printing and accepts nothing else.\<close>

lemma tutte_complete:
  "set dimensions_all = UNIV" "set encoding_all = UNIV" "set geometry_type_all = UNIV"
  "set declaration_all = UNIV" "set axis_order_all = UNIV" "set crs_resolution_all = UNIV"
  "set crs_format_all = UNIV" "set semantics_all = UNIV" "set precision_all = UNIV"
  by (auto simp: dimensions_all_def encoding_all_def geometry_type_all_def declaration_all_def
      axis_order_all_def crs_resolution_all_def crs_format_all_def semantics_all_def precision_all_def
      intro: geometry_dimensions.exhaust geometry_encoding.exhaust geometry_type.exhaust
        types_declaration.exhaust axis_order.exhaust crs_resolution.exhaust crs_definition_format.exhaust
        spatial_semantics.exhaust geometry_precision.exhaust)

lemma from_str_iff:
  "dimensions_from_str s = Some d \<longleftrightarrow> dimensions_as_str d = s"
  "encoding_from_str s = Some e \<longleftrightarrow> encoding_as_str e = s"
  "geometry_type_from_str s = Some t \<longleftrightarrow> geometry_type_as_str t = s"
  "declaration_from_str s = Some td \<longleftrightarrow> declaration_as_str td = s"
  "axis_order_from_str s = Some ao \<longleftrightarrow> axis_order_as_str ao = s"
  "crs_resolution_from_str s = Some cr \<longleftrightarrow> crs_resolution_as_str cr = s"
  "crs_format_from_str s = Some cf \<longleftrightarrow> crs_format_as_str cf = s"
  "semantics_from_str s = Some ss \<longleftrightarrow> semantics_as_str ss = s"
  "precision_from_str s = Some gp \<longleftrightarrow> precision_as_str gp = s"
  unfolding dimensions_from_str_def encoding_from_str_def geometry_type_from_str_def declaration_from_str_def
    axis_order_from_str_def crs_resolution_from_str_def crs_format_from_str_def semantics_from_str_def
    precision_from_str_def
  by - (rule da_forma_as_str, simp add: tutte_complete,
      simp add: dimensions_all_def encoding_all_def geometry_type_all_def declaration_all_def
        axis_order_all_def crs_resolution_all_def crs_format_all_def semantics_all_def precision_all_def)+

section \<open>Parsing the canonical list\<close>

abbreviation strict :: "geometry_type list \<Rightarrow> bool" where
  "strict \<equiv> sorted_wrt (<)"

lemma as_str_no_comma: "CHR '','' \<notin> set (geometry_type_as_str t)"
  by (cases t) simp_all

lemma as_str_nonempty [simp]: "geometry_type_as_str t \<noteq> []"
  by (cases t) simp_all

lemma unisci_Suc: "unisci (Suc i) ts acc = acc @ concat (map ((#) (CHR '','')) (map geometry_type_as_str ts))"
  by (induction ts arbitrary: i acc) simp_all

lemma to_canonical_list_eq:
  "to_canonical_list p =
     (case map geometry_type_as_str (gp_types p) of [] \<Rightarrow> [] | t # ts \<Rightarrow> t @ concat (map ((#) (CHR '','')) ts))"
  by (cases "gp_types p") (simp_all add: to_canonical_list_def unisci_Suc)

lemma to_canonical_list_tokens:
  "gp_types p \<noteq> [] \<Longrightarrow> split_char (CHR '','') (to_canonical_list p) = map geometry_type_as_str (gp_types p)"
proof (cases "gp_types p")
  case (Cons t ts)
  have "CHR '','' \<notin> set u" if "u \<in> set (geometry_type_as_str t # map geometry_type_as_str ts)" for u
    using that as_str_no_comma by auto
  then have "split_char (CHR '','') (geometry_type_as_str t @ concat (map ((#) (CHR '','')) (map geometry_type_as_str ts)))
      = geometry_type_as_str t # map geometry_type_as_str ts"
    by (rule split_char_of_join)
  with Cons show ?thesis by (simp add: to_canonical_list_eq)
qed simp

lemma to_canonical_list_Nil: "to_canonical_list p = [] \<longleftrightarrow> gp_types p = []"
  by (cases "gp_types p") (simp_all add: to_canonical_list_eq)

lemma tokens_parsed:
  "strict acc \<Longrightarrow> try_fold aggiungi_token acc tokens = Inr parsed \<longleftrightarrow>
     (\<exists>ts. tokens = map geometry_type_as_str ts \<and> parsed = acc @ ts \<and> strict parsed)"
proof (induction tokens arbitrary: acc)
  case (Cons tok toks)
  have step: "aggiungi_token acc tok = Inr acc' \<longleftrightarrow> (\<exists>t. tok = geometry_type_as_str t \<and> acc' = acc @ [t] \<and> strict acc')"
    for acc'
  proof -
    have "strict (acc @ [t]) \<longleftrightarrow> acc = [] \<or> last acc < t" for t
      using Cons.prems by (cases acc rule: rev_cases) (auto simp: sorted_wrt_append)
    moreover have "tok = geometry_type_as_str t \<longleftrightarrow> geometry_type_from_str tok = Some t" for t
      using from_str_iff(3) [of tok t] by auto
    ultimately show ?thesis
      by (cases "geometry_type_from_str tok") (auto simp: aggiungi_token_def)
  qed
  show ?case
  proof
    assume "try_fold aggiungi_token acc (tok # toks) = Inr parsed"
    then obtain acc' where a: "aggiungi_token acc tok = Inr acc'" "try_fold aggiungi_token acc' toks = Inr parsed"
      unfolding try_fold_Cons_Inr by blast
    then show "\<exists>ts. tok # toks = map geometry_type_as_str ts \<and> parsed = acc @ ts \<and> strict parsed"
      using Cons.IH [of acc'] step [of acc'] by (metis append.assoc append_Cons append_Nil list.simps(9))
  next
    assume "\<exists>ts. tok # toks = map geometry_type_as_str ts \<and> parsed = acc @ ts \<and> strict parsed"
    then obtain t ts where t: "tok = geometry_type_as_str t" "toks = map geometry_type_as_str ts"
      "parsed = (acc @ [t]) @ ts" "strict parsed" by auto
    then have "strict (acc @ [t])" by (simp add: sorted_wrt_append)
    then show "try_fold aggiungi_token acc (tok # toks) = Inr parsed"
      unfolding try_fold_Cons_Inr using t step [of "acc @ [t]"] Cons.IH [of "acc @ [t]"] by blast
  qed
qed auto

lemma strict_remdups_adj: "sorted xs \<Longrightarrow> strict (remdups_adj xs)"
  by (induction xs rule: remdups_adj.induct) (auto simp: less_le)

lemma strict_iff: "strict ts \<longleftrightarrow> remdups_adj (sort ts) = ts"
proof
  assume "strict ts"
  then have "sorted ts" "distinct ts" by (simp_all add: strict_sorted_iff)
  then show "remdups_adj (sort ts) = ts" by (simp add: sorted_sort_id remdups_adj_distinct)
next
  assume "remdups_adj (sort ts) = ts"
  then show "strict ts" using strict_remdups_adj [of "sort ts"] by simp
qed

text \<open>The canonical list of the geometry types has one textual form: the parser accepts exactly the
  text that \<open>to_canonical_list\<close> writes for a property that \<open>new\<close> leaves as it is (coherent, in canonical
  order, without repetitions); and \<open>new\<close> depends on the set of the types alone.\<close>

theorem canonical_list_roundtrip:
  "(from_canonical_list d list = Inr p \<longleftrightarrow> types_new d (gp_types p) = Inr p \<and> to_canonical_list p = list)
   \<and> types_new d ts = types_new d (sorted_list_of_set (set ts))"
proof
  have new: "types_new d (gp_types p) = Inr p \<longleftrightarrow>
      check_coherence d (length (gp_types p)) = Inr () \<and> gp_declaration p = d \<and> strict (gp_types p)"
    by (cases p) (auto simp: types_new_def Let_def results strict_iff)
  show "from_canonical_list d list = Inr p \<longleftrightarrow> types_new d (gp_types p) = Inr p \<and> to_canonical_list p = list"
  proof (cases "list = []")
    case True
    then show ?thesis
      unfolding new by (cases p) (auto simp: from_canonical_list_def results to_canonical_list_Nil)
  next
    case False
    have "from_canonical_list d list = Inr p \<longleftrightarrow> check_coherence d (length (gp_types p)) = Inr ()
        \<and> gp_declaration p = d \<and> try_fold aggiungi_token [] (split_char (CHR '','') list) = Inr (gp_types p)"
      using False by (cases p) (auto simp: from_canonical_list_def results)
    also have "try_fold aggiungi_token [] (split_char (CHR '','') list) = Inr (gp_types p) \<longleftrightarrow>
        strict (gp_types p) \<and> to_canonical_list p = list"
    proof -
      obtain t ts where split: "split_char (CHR '','') list = t # ts"
        by (cases "split_char (CHR '','') list") auto
      have "split_char (CHR '','') list = map geometry_type_as_str (gp_types p) \<longleftrightarrow> to_canonical_list p = list"
      proof
        assume "split_char (CHR '','') list = map geometry_type_as_str (gp_types p)"
        then show "to_canonical_list p = list"
          using split split_char_join [OF split] by (auto simp: to_canonical_list_eq)
      next
        assume "to_canonical_list p = list"
        then show "split_char (CHR '','') list = map geometry_type_as_str (gp_types p)"
          using False to_canonical_list_tokens [of p] to_canonical_list_Nil [of p] by auto
      qed
      then show ?thesis using tokens_parsed [of "[]"] by auto
    qed
    finally show ?thesis unfolding new by auto
  qed
  have "remdups_adj (sort ts) = sorted_list_of_set (set ts)"
    using strict_remdups_adj [of "sort ts"] by (intro sorted_distinct_set_unique) (simp_all add: strict_sorted_iff)
  then show "types_new d ts = types_new d (sorted_list_of_set (set ts))"
    by (simp add: types_new_def sorted_sort_id remdups_adj_distinct)
qed

end
