(* ===== verification/FieldIds.thy ===== *)
theory FieldIds
  imports ContractTypes BTree
begin

text \<open>
  \<open>FieldAllocator\<close> of \<open>crates/plenora-core/src/contract.rs\<close>: the identities of the columns of a plan.

  The cursor is a \<open>u64\<close> so that it can stand one past the last \<open>u32\<close>; \<open>by_name\<close> is a \<open>HashMap\<close> that is
  only looked up, so a finite map.  The locale \<open>fresh_source\<close> states what the analyses rely on (an
  identity handed out is new), for any source of identities with a cursor; it is interpreted on
  \<open>alloc\<close> and \<open>observe\<close>.  The section on the life of an allocator is a step relation over all its
  operations.
\<close>

type_synonym field_id = "32 word"

record field_allocator =
  al_next :: u64
  al_by_name :: "string \<Rightarrow> field_id option"
  al_public_rewrites :: "(field_id, string option) btree"

definition allocator_new :: "32 word \<Rightarrow> field_allocator" where
  "allocator_new start = \<lparr>al_next = ucast start, al_by_name = Map.empty, al_public_rewrites = []\<rparr>"

definition record_public_identity :: "field_id \<Rightarrow> string option \<Rightarrow> field_allocator \<Rightarrow> field_allocator" where
  "record_public_identity field original a =
     a\<lparr>al_public_rewrites := bt_insert field original (al_public_rewrites a)\<rparr>"

definition public_identity :: "field_allocator \<Rightarrow> field_id \<Rightarrow> string option option" where
  "public_identity a field = bt_get (al_public_rewrites a) field"

definition inherit_public_identity :: "field_id \<Rightarrow> field_id \<Rightarrow> field_allocator \<Rightarrow> field_allocator" where
  "inherit_public_identity src output a =
     (case bt_get (al_public_rewrites a) src of
        None \<Rightarrow> a
      | Some original \<Rightarrow> a\<lparr>al_public_rewrites := bt_insert output original (al_public_rewrites a)\<rparr>)"

definition u32_try_from :: "u64 \<Rightarrow> 32 word option" where
  "u32_try_from v = (if v \<le> ucast (max_u :: 32 word) then Some (ucast v) else None)"

definition alloc :: "field_allocator \<Rightarrow> (field_id \<times> field_allocator) result" where
  "alloc a =
     (case u32_try_from (al_next a) of
        None \<Rightarrow> Inl (InvalidPlan ''spazio dei FieldId esaurito: nessun identificatore fresco disponibile'')
      | Some fid \<Rightarrow> Inr (fid, a\<lparr>al_next := ucast fid + 1\<rparr>))"

definition peek :: "field_allocator \<Rightarrow> field_id" where
  "peek a = (case u32_try_from (al_next a) of Some fid \<Rightarrow> fid | None \<Rightarrow> max_u)"

definition observe :: "field_id \<Rightarrow> field_allocator \<Rightarrow> field_allocator" where
  "observe fid a = a\<lparr>al_next := max (al_next a) (ucast fid + 1)\<rparr>"

definition intern :: "string \<Rightarrow> field_allocator \<Rightarrow> (field_id \<times> field_allocator) result" where
  "intern name a =
     (case al_by_name a name of
        Some fid \<Rightarrow> Inr (fid, a)
      | None \<Rightarrow> map_ok (\<lambda>(fid, a). (fid, a\<lparr>al_by_name := (al_by_name a)(name \<mapsto> fid)\<rparr>)) (alloc a))"

definition lega_campo :: "string \<times> field_id \<Rightarrow> field_allocator \<Rightarrow> field_allocator" where
  "lega_campo campo a =
     (let a = observe (snd campo) a in a\<lparr>al_by_name := (al_by_name a)(fst campo \<mapsto> snd campo)\<rparr>)"

definition bind_fields :: "(string, field_id) btree \<Rightarrow> field_allocator \<Rightarrow> field_allocator" where
  "bind_fields campi a = fold lega_campo campi (a\<lparr>al_by_name := Map.empty\<rparr>)"

definition rename :: "string \<Rightarrow> string \<Rightarrow> field_allocator \<Rightarrow> field_allocator" where
  "rename old new a =
     (case al_by_name a old of
        None \<Rightarrow> a
      | Some fid \<Rightarrow> a\<lparr>al_by_name := ((al_by_name a)(old := None))(new \<mapsto> fid)\<rparr>)"

definition coppia_nuova :: "string set \<times> string set \<Rightarrow> string \<times> string \<Rightarrow> (string set \<times> string set) result" where
  "coppia_nuova st coppia =
     (if fst coppia \<in> fst st \<or> snd coppia \<in> snd st then Inl (Schema (''rinomina ambigua delle identita'' @ [CHR 0x27]))
      else Inr (insert (fst coppia) (fst st), insert (snd coppia) (snd st)))"

definition scollega :: "(string \<times> string) \<times> (string \<times> field_id option) \<Rightarrow>
    (string \<Rightarrow> field_id option) \<Rightarrow> string \<Rightarrow> field_id option" where
  "scollega voce m =
     (if snd (snd voce) \<noteq> None then (m(fst (fst voce) := None))(snd (fst voce) := None) else m)"

definition collega :: "string \<times> field_id option \<Rightarrow> (string \<Rightarrow> field_id option) \<Rightarrow> string \<Rightarrow> field_id option" where
  "collega voce m = (case snd voce of None \<Rightarrow> m | Some fid \<Rightarrow> m(fst voce \<mapsto> fid))"

definition rename_many :: "(string \<times> string) list \<Rightarrow> field_allocator \<Rightarrow> field_allocator result" where
  "rename_many pairs a =
     try_bind (try_fold coppia_nuova ({}, {}) pairs) (\<lambda>_.
       let original = map (\<lambda>p. (snd p, al_by_name a (fst p))) pairs;
           svuotata = fold scollega (zip pairs original) (al_by_name a)
       in Inr (a\<lparr>al_by_name := fold collega original svuotata\<rparr>))"

definition derive :: "string \<Rightarrow> field_allocator \<Rightarrow> (field_id \<times> field_allocator) result" where
  "derive name a = map_ok (\<lambda>(fid, a). (fid, a\<lparr>al_by_name := (al_by_name a)(name \<mapsto> fid)\<rparr>)) (alloc a)"

section \<open>A source of fresh identities\<close>

text \<open>What a client needs of the cursor: it bounds every identity handed out or observed, \<open>prendi\<close>
  returns the identity at the cursor and moves past it, \<open>osserva\<close> moves past the identity it is given.\<close>

locale fresh_source =
  fixes numero :: "'i \<Rightarrow> nat"
    and cursore :: "'s \<Rightarrow> nat"
    and prendi :: "'s \<Rightarrow> 'e + ('i \<times> 's)"
    and osserva :: "'i \<Rightarrow> 's \<Rightarrow> 's"
  assumes prendi_cursore: "prendi s = Inr (i, s') \<Longrightarrow> numero i = cursore s \<and> cursore s' = Suc (cursore s)"
    and osserva_cursore: "cursore (osserva i s) = max (cursore s) (Suc (numero i))"
begin

text \<open>A run: identities are taken (\<open>None\<close>) or observed (\<open>Some i\<close>); the result lists the taken ones.\<close>

fun corsa :: "'i option list \<Rightarrow> 's \<Rightarrow> 'e + ('i list \<times> 's)" where
  "corsa [] s = Inr ([], s)"
| "corsa (None # cs) s = try_bind (prendi s) (\<lambda>(i, s'). map_ok (\<lambda>(is, t). (i # is, t)) (corsa cs s'))"
| "corsa (Some i # cs) s = corsa cs (osserva i s)"

lemma corsa_bounds:
  "corsa cs s = Inr (is, t) \<Longrightarrow> cursore s \<le> cursore t
     \<and> (\<forall>i \<in> set is. cursore s \<le> numero i \<and> numero i < cursore t) \<and> sorted_wrt (<) (map numero is)"
proof (induction cs s arbitrary: "is" t rule: corsa.induct)
  case (2 cs s)
  then obtain i s' is' where p: "prendi s = Inr (i, s')" "corsa cs s' = Inr (is', t)" "is = i # is'"
    by (force simp: results)
  from "2.IH" [OF p(2)] prendi_cursore [OF p(1)] show ?case
    by (auto simp: p(3))
next
  case (3 i cs s)
  then show ?case using osserva_cursore [of i s] by (auto simp: max_def split: if_splits)
qed simp

lemma corsa_length: "corsa (replicate n None) s = Inr (is, t) \<Longrightarrow> length is = n"
  by (induction n arbitrary: s "is") (auto simp: results split: prod.splits)

lemma osserva_tutti:
  "cursore s \<le> cursore (fold osserva js s) \<and> (\<forall>j \<in> set js. numero j < cursore (fold osserva js s))"
proof (induction js arbitrary: s)
  case (Cons j js)
  from Cons [of "osserva j s"] show ?case by (auto simp: osserva_cursore)
qed simp

text \<open>Identities taken after an observation differ from the observed ones and from each other.\<close>

lemma fresh_after:
  assumes "corsa cs (fold osserva js s) = Inr (is, t)"
  shows "distinct is" and "set is \<inter> set js = {}"
proof -
  from corsa_bounds [OF assms]
  have *: "sorted_wrt (<) (map numero is)" "\<And>i. i \<in> set is \<Longrightarrow> cursore (fold osserva js s) \<le> numero i"
    by auto
  from *(1) have "distinct (map numero is)" by (simp add: strict_sorted_iff)
  then show "distinct is" by (simp add: distinct_map)
  show "set is \<inter> set js = {}" using *(2) osserva_tutti [of s js] by fastforce
qed

end

section \<open>The allocator is such a source\<close>

lemma u32_try_from_Some: "u32_try_from v = Some fid \<longleftrightarrow> unat v = unat fid"
proof -
  have m: "unat (ucast (max_u :: 32 word) :: u64) = 2 ^ 32 - 1"
    by (simp add: max_u_def unsigned_ucast_eq unsigned_minus_1_eq_mask mask_eq_exp_minus_1)
  have le: "v \<le> ucast (max_u :: 32 word) \<longleftrightarrow> unat v < 2 ^ 32"
    unfolding word_le_nat_alt m by auto
  have lt: "unat fid < 2 ^ 32" using unat_lt [of fid] by simp
  show ?thesis
  proof (cases "unat v < 2 ^ 32")
    case True
    then have "unat (ucast v :: 32 word) = unat v"
      by (simp add: unsigned_ucast_eq take_bit_nat_eq_self)
    then show ?thesis using True by (auto simp: u32_try_from_def le word_unat_eq_iff)
  next
    case False
    then show ?thesis using lt by (simp add: u32_try_from_def le)
  qed
qed

lemma unat_succ_id: "unat (ucast (fid :: field_id) + 1 :: u64) = Suc (unat fid)"
proof -
  have "unat fid < 2 ^ 32" using unat_lt [of fid] by simp
  then show ?thesis by (simp add: unat_word_ariths unsigned_ucast_eq take_bit_nat_eq_self)
qed

lemma alloc_Inr:
  "alloc a = Inr (fid, a') \<longleftrightarrow> unat fid = unat (al_next a) \<and> a' = a\<lparr>al_next := ucast fid + 1\<rparr>"
  using u32_try_from_Some [of "al_next a" fid]
  by (auto simp: alloc_def split: option.splits)

lemma observe_next: "unat (al_next (observe fid a)) = max (unat (al_next a)) (Suc (unat fid))"
  by (auto simp: observe_def max_def word_le_nat_alt unat_succ_id)

definition al_cursor :: "field_allocator \<Rightarrow> nat" where
  "al_cursor a = unat (al_next a)"

interpretation fa: fresh_source unat al_cursor alloc observe
proof
  fix s fid s'
  assume "alloc s = Inr (fid, s')"
  then show "unat fid = al_cursor s \<and> al_cursor s' = Suc (al_cursor s)"
    by (simp add: alloc_Inr al_cursor_def unat_succ_id)
qed (simp add: al_cursor_def observe_next)

section \<open>Renaming at once\<close>

lemma coppia_nuova_fold:
  "try_fold coppia_nuova (S, T) pairs = Inr r \<longleftrightarrow>
     distinct (map fst pairs) \<and> distinct (map snd pairs)
     \<and> fst ` set pairs \<inter> S = {} \<and> snd ` set pairs \<inter> T = {}
     \<and> r = (S \<union> fst ` set pairs, T \<union> snd ` set pairs)"
proof (induction pairs arbitrary: S T)
  case (Cons p ps)
  then show ?case
    by (cases p) (auto simp: coppia_nuova_def simp del: try_fold.simps(2) simp add: try_fold_Cons_Inr)
qed auto

lemma scollega_fold:
  "fold scollega (zip pairs (map (\<lambda>p. (snd p, g (fst p))) pairs)) m n =
     (if \<exists>p \<in> set pairs. g (fst p) \<noteq> None \<and> (n = fst p \<or> n = snd p) then None else m n)"
  by (induction pairs arbitrary: m) (auto simp: scollega_def)

abbreviation identita_lette :: "(string \<Rightarrow> field_id option) \<Rightarrow> (string \<times> string) list \<Rightarrow> (string \<times> field_id option) list" where
  "identita_lette g \<equiv> map (\<lambda>p. (snd p, g (fst p)))"

lemma collega_fold_other: "n \<notin> snd ` set pairs \<Longrightarrow> fold collega (identita_lette g pairs) m n = m n"
  by (induction pairs arbitrary: m) (auto simp: collega_def split: option.splits)

lemma collega_fold_in:
  assumes "(old, n) \<in> set pairs" and "distinct (map snd pairs)"
  shows "fold collega (identita_lette g pairs) m n = (case g old of None \<Rightarrow> m n | Some fid \<Rightarrow> Some fid)"
proof -
  from assms(1) obtain xs ys where pairs: "pairs = xs @ (old, n) # ys" by (meson split_list)
  with assms(2) have "n \<notin> snd ` set xs" "n \<notin> snd ` set ys" by auto
  then show ?thesis
    by (simp add: pairs collega_fold_other) (simp add: collega_def collega_fold_other split: option.splits)
qed

lemma rename_many_Inr:
  "rename_many pairs a = Inr a' \<longleftrightarrow> distinct (map fst pairs) \<and> distinct (map snd pairs)
     \<and> a' = a\<lparr>al_by_name := fold collega (identita_lette (al_by_name a) pairs)
           (fold scollega (zip pairs (identita_lette (al_by_name a) pairs)) (al_by_name a))\<rparr>"
  by (auto simp: rename_many_def results coppia_nuova_fold Let_def)

lemma coppia_nuova_error:
  "try_fold coppia_nuova st pairs = Inl e \<Longrightarrow> e = Schema (''rinomina ambigua delle identita'' @ [CHR 0x27])"
  by (induction pairs arbitrary: st) (auto simp: coppia_nuova_def split: if_splits)

text \<open>The reference: every name is read before any is written.\<close>

definition rinomina_simultanea ::
    "(string \<times> string) list \<Rightarrow> (string \<Rightarrow> field_id option) \<Rightarrow> string \<Rightarrow> field_id option" where
  "rinomina_simultanea pairs m n =
     (case List.find (\<lambda>p. snd p = n \<and> m (fst p) \<noteq> None) pairs of
        Some p \<Rightarrow> m (fst p)
      | None \<Rightarrow> if List.find (\<lambda>p. fst p = n) pairs \<noteq> None then None else m n)"

lemma rename_many_map:
  assumes "distinct (map snd pairs)"
  shows "fold collega (identita_lette m pairs) (fold scollega (zip pairs (identita_lette m pairs)) m) = rinomina_simultanea pairs m"
proof
  fix n
  show "fold collega (identita_lette m pairs) (fold scollega (zip pairs (identita_lette m pairs)) m) n = rinomina_simultanea pairs m n"
  proof (cases "List.find (\<lambda>p. snd p = n \<and> m (fst p) \<noteq> None) pairs")
    case (Some p)
    then have "(fst p, n) \<in> set pairs" "m (fst p) \<noteq> None" by (auto simp: find_Some_iff)
    with collega_fold_in [OF this(1) assms] Some show ?thesis
      by (auto simp: rinomina_simultanea_def)
  next
    case None
    then have none: "m (fst p) = None" if "p \<in> set pairs" "snd p = n" for p
      using that by (auto simp: find_None_all)
    have "fold collega (identita_lette m pairs) (fold scollega (zip pairs (identita_lette m pairs)) m) n
        = fold scollega (zip pairs (identita_lette m pairs)) m n"
    proof (cases "n \<in> snd ` set pairs")
      case True
      then obtain old where "(old, n) \<in> set pairs" by auto
      with collega_fold_in [OF this assms] none [OF this] show ?thesis by simp
    qed (rule collega_fold_other)
    also have "\<dots> = (if List.find (\<lambda>p. fst p = n) pairs \<noteq> None then None else m n)"
      unfolding scollega_fold find_None_all using none by auto
    finally show ?thesis using None by (simp add: rinomina_simultanea_def)
  qed
qed

text \<open>C7. Renaming many columns at once is the simultaneous renaming: chains and cycles read the original
  identities, and a pair whose source has no identity leaves its target alone; it is refused exactly when
  a source or a target is repeated.\<close>

theorem rename_many_simultaneous:
  "rename_many pairs a =
     (if distinct (map fst pairs) \<and> distinct (map snd pairs)
      then Inr (a\<lparr>al_by_name := rinomina_simultanea pairs (al_by_name a)\<rparr>)
      else Inl (Schema (''rinomina ambigua delle identita'' @ [CHR 0x27])))"
proof (cases "try_fold coppia_nuova ({}, {}) pairs")
  case (Inl e)
  then have "\<not> (distinct (map fst pairs) \<and> distinct (map snd pairs))"
    using coppia_nuova_fold [of "{}" "{}" pairs "({} \<union> fst ` set pairs, {} \<union> snd ` set pairs)"] by auto
  then show ?thesis using Inl coppia_nuova_error [OF Inl] by (auto simp: rename_many_def)
next
  case (Inr r)
  then have "distinct (map fst pairs) \<and> distinct (map snd pairs)" by (simp add: coppia_nuova_fold)
  then show ?thesis using rename_many_Inr [of pairs a] rename_many_map by simp
qed

section \<open>The life of an allocator\<close>

text \<open>\<open>vita start fs os a\<close>: an allocator that began at \<open>start\<close> has handed out the fresh identities \<open>fs\<close>, in
  order, has been shown the identities \<open>os\<close>, and is now \<open>a\<close>.  A refused operation leaves it as it is.\<close>

inductive vita :: "32 word \<Rightarrow> field_id list \<Rightarrow> field_id set \<Rightarrow> field_allocator \<Rightarrow> bool" for start where
  nuovo: "vita start [] {} (allocator_new start)"
| alloca: "vita start fs os a \<Longrightarrow> alloc a = Inr (f, a') \<Longrightarrow> vita start (fs @ [f]) os a'"
| deriva: "vita start fs os a \<Longrightarrow> derive n a = Inr (f, a') \<Longrightarrow> vita start (fs @ [f]) os a'"
| interna_nuovo: "vita start fs os a \<Longrightarrow> al_by_name a n = None \<Longrightarrow> intern n a = Inr (f, a') \<Longrightarrow>
    vita start (fs @ [f]) os a'"
| interna_noto: "vita start fs os a \<Longrightarrow> al_by_name a n = Some g \<Longrightarrow> intern n a = Inr (f, a') \<Longrightarrow> vita start fs os a'"
| osserva: "vita start fs os a \<Longrightarrow> vita start fs (insert f os) (observe f a)"
| lega: "vita start fs os a \<Longrightarrow> vita start fs (os \<union> snd ` set campi) (bind_fields campi a)"
| rinomina: "vita start fs os a \<Longrightarrow> vita start fs os (rename old new a)"
| rinomina_tutti: "vita start fs os a \<Longrightarrow> rename_many pairs a = Inr a' \<Longrightarrow> vita start fs os a'"
| registra: "vita start fs os a \<Longrightarrow> vita start fs os (record_public_identity f original a)"
| eredita: "vita start fs os a \<Longrightarrow> vita start fs os (inherit_public_identity f g a)"

inductive_cases vita_startE: "vita start fs os (allocator_new start)"

definition vita_inv :: "32 word \<Rightarrow> field_id list \<Rightarrow> field_id set \<Rightarrow> field_allocator \<Rightarrow> bool" where
  "vita_inv start fs os a \<longleftrightarrow>
     sorted_wrt (\<lambda>f g. unat f < unat g) fs \<and> unat start \<le> al_cursor a
     \<and> (\<forall>f \<in> set fs \<union> os \<union> ran (al_by_name a). unat f < al_cursor a)
     \<and> (al_cursor a = unat start \<or> (\<exists>f \<in> set fs \<union> os. al_cursor a = Suc (unat f)))"

lemma al_cursor_simps [simp]:
  "al_cursor (a\<lparr>al_by_name := m\<rparr>) = al_cursor a"
  "al_cursor (a\<lparr>al_public_rewrites := r\<rparr>) = al_cursor a"
  "al_cursor (observe f a) = max (al_cursor a) (Suc (unat f))"
  "al_cursor (a\<lparr>al_next := ucast f + 1\<rparr>) = Suc (unat (f :: field_id))"
  "al_cursor (allocator_new start) = unat start"
  using unat_lt [of start]
  by (simp_all add: al_cursor_def observe_next unat_succ_id allocator_new_def unsigned_ucast_eq take_bit_nat_eq_self)

lemma observe_by_name [simp]: "al_by_name (observe f a) = al_by_name a"
  by (simp add: observe_def)

lemma vita_inv_fresh:
  assumes "vita_inv start fs os a" and "alloc a = Inr (f, a')"
  shows "vita_inv start (fs @ [f]) os (a'\<lparr>al_by_name := (al_by_name a)(n \<mapsto> f)\<rparr>)"
    and "vita_inv start (fs @ [f]) os a'"
proof -
  from assms(2) have a': "a' = a\<lparr>al_next := ucast f + 1\<rparr>" and f: "unat f = al_cursor a"
    by (auto simp: alloc_Inr al_cursor_def)
  show "vita_inv start (fs @ [f]) os (a'\<lparr>al_by_name := (al_by_name a)(n \<mapsto> f)\<rparr>)"
    "vita_inv start (fs @ [f]) os a'"
    using assms(1) f by (auto simp: vita_inv_def a' sorted_wrt_append ran_def less_Suc_eq split: if_splits)
qed

lemma vita_inv_observe:
  assumes "vita_inv start fs os a"
  shows "vita_inv start fs (insert f os) (observe f a)"
proof (cases "al_cursor a \<le> Suc (unat f)")
  case True
  then have c: "al_cursor (observe f a) = Suc (unat f)" by simp
  have "unat g < Suc (unat f)" if "g \<in> set fs \<union> os \<union> ran (al_by_name a)" for g
    using assms that True unfolding vita_inv_def by (meson less_le_trans)
  then show ?thesis using assms True unfolding vita_inv_def c by auto
next
  case False
  then have "al_cursor (observe f a) = al_cursor a" by simp
  then show ?thesis using assms False unfolding vita_inv_def by auto
qed

lemma vita_inv_by_name:
  "vita_inv start fs os a \<Longrightarrow> ran m \<subseteq> ran (al_by_name a) \<union> os \<Longrightarrow> vita_inv start fs os (a\<lparr>al_by_name := m\<rparr>)"
  unfolding vita_inv_def by fastforce

lemma lega_campo_inv:
  assumes "vita_inv start fs os a"
  shows "vita_inv start fs (insert (snd campo) os) (lega_campo campo a)"
  unfolding lega_campo_def Let_def
  by (rule vita_inv_by_name [OF vita_inv_observe [OF assms]]) (auto simp: ran_def split: if_splits)

lemma bind_fields_inv:
  "vita_inv start fs os a \<Longrightarrow> vita_inv start fs (os \<union> snd ` set campi) (bind_fields campi a)"
proof -
  have "vita_inv start fs os a \<Longrightarrow> vita_inv start fs (os \<union> snd ` set campi) (fold lega_campo campi a)" for os a
  proof (induction campi arbitrary: os a)
    case (Cons c cs)
    from Cons.IH [OF lega_campo_inv [OF Cons.prems, of c]] show ?case by simp
  qed simp
  then show "vita_inv start fs os a \<Longrightarrow> ?thesis"
    unfolding bind_fields_def by (simp add: vita_inv_by_name)
qed

lemma rinomina_simultanea_ran: "ran (rinomina_simultanea pairs m) \<subseteq> ran m"
  by (auto simp: rinomina_simultanea_def ran_def split: option.splits if_splits)

lemma vita_invariant: "vita start fs os a \<Longrightarrow> vita_inv start fs os a"
proof (induction rule: vita.induct)
  case nuovo
  then show ?case by (simp add: vita_inv_def) (simp add: allocator_new_def)
next
  case (deriva fs os a n f a')
  then obtain b where b: "alloc a = Inr (f, b)" "a' = b\<lparr>al_by_name := (al_by_name b)(n \<mapsto> f)\<rparr>"
    by (auto simp: derive_def results)
  then have "al_by_name b = al_by_name a" by (simp add: alloc_Inr)
  then show ?case using vita_inv_fresh(1) [OF deriva.IH b(1)] b(2) by simp
next
  case (interna_nuovo fs os a n f a')
  then obtain b where b: "alloc a = Inr (f, b)" "a' = b\<lparr>al_by_name := (al_by_name b)(n \<mapsto> f)\<rparr>"
    by (auto simp: intern_def results)
  then have "al_by_name b = al_by_name a" by (simp add: alloc_Inr)
  then show ?case using vita_inv_fresh(1) [OF interna_nuovo.IH b(1)] b(2) by simp
next
  case (rinomina fs os a old new)
  then show ?case
    by (auto simp: rename_def intro!: vita_inv_by_name split: option.splits) (auto simp: ran_def split: if_splits)
next
  case (rinomina_tutti fs os a pairs a')
  then show ?case
    using rinomina_simultanea_ran [of pairs "al_by_name a"]
    by (auto simp: rename_many_simultaneous intro!: vita_inv_by_name split: if_splits)
next
  case (registra fs os a f original)
  then show ?case by (simp add: vita_inv_def record_public_identity_def)
next
  case (eredita fs os a f g)
  then show ?case by (simp add: vita_inv_def inherit_public_identity_def split: option.splits)
qed (auto simp: intern_def intro: vita_inv_fresh(2) vita_inv_observe bind_fields_inv)

text \<open>C8. An identity is handed out once.  Whatever sequence of operations an allocator has gone through, the
  fresh identities are pairwise different; the next one is none of those handed out, observed or bound to
  a name, and not below the start; and \<open>alloc\<close> refuses only when the last \<open>u32\<close> itself has been handed
  out or observed.\<close>

theorem identities_never_reused:
  assumes "vita start fs os a"
  shows "distinct fs \<and>
    (case alloc a of
       Inr (f, a') \<Rightarrow> f \<notin> set fs \<union> os \<union> ran (al_by_name a) \<and> start \<le> f
     | Inl e \<Rightarrow> (max_u :: field_id) \<in> set fs \<union> os)"
proof
  have inv: "vita_inv start fs os a" using assms by (rule vita_invariant)
  then have "sorted_wrt (<) (map unat fs)" by (simp add: vita_inv_def sorted_wrt_map)
  then show "distinct fs" by (simp add: strict_sorted_iff distinct_map)
  show "case alloc a of Inr (f, a') \<Rightarrow> f \<notin> set fs \<union> os \<union> ran (al_by_name a) \<and> start \<le> f
      | Inl e \<Rightarrow> max_u \<in> set fs \<union> os"
  proof (cases "alloc a")
    case (Inl e)
    have "\<not> al_cursor a < 2 ^ 32"
    proof
      assume lt: "al_cursor a < 2 ^ 32"
      then have "unat (of_nat (al_cursor a) :: field_id) = al_cursor a"
        by (simp add: unat_of_nat)
      then have "alloc a = Inr (of_nat (al_cursor a), a\<lparr>al_next := ucast (of_nat (al_cursor a) :: field_id) + 1\<rparr>)"
        by (simp add: alloc_Inr al_cursor_def)
      with Inl show False by simp
    qed
    moreover have "unat start < 2 ^ 32" using unat_lt [of start] by simp
    ultimately have "al_cursor a \<noteq> unat start" by linarith
    then obtain f where f: "f \<in> set fs \<union> os" "al_cursor a = Suc (unat f)"
      using inv unfolding vita_inv_def by blast
    with \<open>\<not> al_cursor a < 2 ^ 32\<close> have "2 ^ 32 \<le> Suc (unat f)" by simp
    then have "unat f = unat (max_u :: field_id)" using unat_lt [of f] by (simp add: unat_max_u)
    then show ?thesis using Inl f(1) by (simp add: word_unat_eq_iff [symmetric])
  next
    case (Inr r)
    then obtain f a' where r: "alloc a = Inr (f, a')" by (cases r) simp
    then have "unat f = al_cursor a" by (simp add: alloc_Inr al_cursor_def)
    then have "f \<notin> set fs \<union> os \<union> ran (al_by_name a)" and "start \<le> f"
      using inv unfolding vita_inv_def word_le_nat_alt by (metis less_irrefl, metis)
    then show ?thesis using r by simp
  qed
qed

definition allocatore_prova :: field_allocator where
  "allocatore_prova = observe 50 ((allocator_new 41)\<lparr>al_next := 42\<rparr>)"

lemma vita_prova: "vita 41 [41] {50} allocatore_prova"
proof -
  have "alloc (allocator_new 41) = Inr (41, (allocator_new 41)\<lparr>al_next := 42\<rparr>)"
    by (simp add: alloc_Inr) (simp add: allocator_new_def)
  from vita.osserva [OF vita.alloca [OF vita.nuovo this], of 50]
  show ?thesis by (simp add: allocatore_prova_def)
qed

theorem identities_never_reused_witness:
  "distinct [41 :: field_id] \<and>
    (case alloc allocatore_prova of
       Inr (f, a') \<Rightarrow> f \<notin> set [41] \<union> {50} \<union> ran (al_by_name allocatore_prova) \<and> 41 \<le> f
     | Inl e \<Rightarrow> (max_u :: field_id) \<in> set [41] \<union> {50})"
  by (rule identities_never_reused [OF vita_prova])

end
