(* ===== verification/Contract.thy ===== *)
theory Contract
  imports FieldIds Memory
begin

text \<open>
  The data contract of a table, \<open>DataContract\<close> of \<open>crates/plenora-core/src/contract.rs\<close>: its types, the
  structural validation, the constructors that give every field its identity, and the selection of a
  geometry; with the readers of the canonical metadata they call, from \<open>contract/arrow_metadata.rs\<close>
  and \<open>contract/arrow_schema.rs\<close>.

  A resolved reference system is a parameter \<open>'c\<close>: nothing here looks into it.  An Arrow field is the
  \<open>field\<close> of theory Memory; \<open>index_of\<close> and \<open>field_with_name\<close> find the first field of that name.
  A \<open>HashSet\<close> that only remembers what was seen is a set.
\<close>

section \<open>Types\<close>

datatype 'c contract_crs =
    CResolved 'c
  | CResolvedByDecision 'c
  | CDeclaredUnresolved (crs_id: "string option") (crs_definition: "string option")
      (definition_format: "crs_definition_format option")
  | CMissing

fun as_resolved :: "'c contract_crs \<Rightarrow> 'c option" where
  "as_resolved (CResolved crs) = Some crs"
| "as_resolved (CResolvedByDecision crs) = Some crs"
| "as_resolved (CDeclaredUnresolved i d f) = None"
| "as_resolved CMissing = None"

fun resolution :: "'c contract_crs \<Rightarrow> crs_resolution" where
  "resolution (CResolved crs) = CrResolved"
| "resolution (CResolvedByDecision crs) = CrResolved"
| "resolution (CDeclaredUnresolved i d f) = CrDeclaredUnresolved"
| "resolution CMissing = CrMissing"

datatype 'a property_confidence = Declared 'a | Proven 'a | Estimated 'a | ConfUnknown

fun confidence_value :: "'a property_confidence \<Rightarrow> 'a option" where
  "confidence_value (Declared v) = Some v"
| "confidence_value (Proven v) = Some v"
| "confidence_value (Estimated v) = Some v"
| "confidence_value ConfUnknown = None"

fun proven_value :: "'a property_confidence \<Rightarrow> 'a option" where
  "proven_value (Proven v) = Some v"
| "proven_value _ = None"

fun confidence_is_proven :: "'a property_confidence \<Rightarrow> bool" where
  "confidence_is_proven (Proven v) \<longleftrightarrow> True"
| "confidence_is_proven _ \<longleftrightarrow> False"

datatype property_scope = ScSchema | ScBatch | ScStream | ScDataset

record 'a contract_property =
  cp_confidence :: "'a property_confidence"
  cp_scope :: property_scope

definition property_value :: "'a contract_property \<Rightarrow> 'a option" where
  "property_value p = confidence_value (cp_confidence p)"

definition property_is_proven :: "'a contract_property \<Rightarrow> bool" where
  "property_is_proven p = confidence_is_proven (cp_confidence p)"

datatype sort_direction = Ascending | Descending
datatype null_placement = NullsFirst | NullsLast

record sort_order =
  so_keys :: "field_id list"
  so_direction :: sort_direction
  so_nulls :: null_placement

record contract_properties =
  sorted_by :: "sort_order contract_property option"
  row_count :: "u64 contract_property option"

definition properties_default :: contract_properties where
  "properties_default = \<lparr>sorted_by = None, row_count = None\<rparr>"

record 'c geometry_column =
  gc_field_id :: field_id
  gc_name :: string
  gc_crs :: "'c contract_crs"
  gc_dimensions :: geometry_dimensions
  gc_encoding :: "geometry_encoding option"
  gc_nullable :: bool
  gc_types :: "geometry_types_property contract_property"

definition undeclared_types :: "geometry_types_property contract_property" where
  "undeclared_types = \<lparr>cp_confidence = ConfUnknown, cp_scope = ScSchema\<rparr>"

datatype field_origin = OPreserved field_id | ONew

record 'c data_contract =
  dc_schema :: arrow_schema
  dc_field_ids :: "(string, field_id) btree"
  dc_geometries :: "'c geometry_column list"
  dc_active_geometry :: "field_id option"
  dc_properties :: contract_properties

definition tabular :: "arrow_schema \<Rightarrow> 'c data_contract" where
  "tabular schema =
     \<lparr>dc_schema = schema, dc_field_ids = [], dc_geometries = [], dc_active_geometry = None,
      dc_properties = properties_default\<rparr>"

section \<open>Metadata of a field\<close>

definition GEOARROW_EXTENSION_KEY :: string where
  "GEOARROW_EXTENSION_KEY = ''ARROW:extension:name''"

definition GEOARROW_WKB_EXTENSION :: string where
  "GEOARROW_WKB_EXTENSION = ''geoarrow.wkb''"

definition PLENORA_GEOMETRY_TYPES_KEY :: string where
  "PLENORA_GEOMETRY_TYPES_KEY = ''plenora.geometry.types''"

definition PLENORA_GEOMETRY_TYPES_DECLARATION_KEY :: string where
  "PLENORA_GEOMETRY_TYPES_DECLARATION_KEY = ''plenora.geometry.types_declaration''"

definition PLENORA_GEOMETRY_DIMENSIONS_KEY :: string where
  "PLENORA_GEOMETRY_DIMENSIONS_KEY = ''plenora.geometry.dimensions''"

definition PLENORA_GEOMETRY_ENCODING_KEY :: string where
  "PLENORA_GEOMETRY_ENCODING_KEY = ''plenora.geometry.encoding''"

definition PLENORA_GEOMETRY_CRS_RESOLUTION_KEY :: string where
  "PLENORA_GEOMETRY_CRS_RESOLUTION_KEY = ''plenora.geometry.crs_resolution''"

definition PLENORA_FIELD_ID_KEY :: string where
  "PLENORA_FIELD_ID_KEY = ''plenora.field_id''"

definition show_int :: "int \<Rightarrow> string" where
  "show_int i = (if i < 0 then ''-'' @ show_nat (nat (- i)) else show_nat (nat i))"

definition mostra_id :: "field_id \<Rightarrow> string" where
  "mostra_id fid = ''field#'' @ show_nat (unat fid)"

lemma campo_tipo_size [termination_simp]: "size (campo_tipo c) < size c"
  by (cases c) simp

lemma campo_tipo_size_Suc [termination_simp]:
  "size (campo_tipo c) < Suc (size c)" "size (campo_tipo c) < Suc (size c + k)" "size (campo_tipo c) < Suc (k + size c)"
  using campo_tipo_size [of c] by linarith+

text \<open>A type in a message: its variants, never the names or the metadata of its children.\<close>

fun descrivi_tipo :: "data_type \<Rightarrow> string" where
  "descrivi_tipo (ListOf figlio) = ''List<'' @ descrivi_tipo (campo_tipo figlio) @ ''>''"
| "descrivi_tipo (LargeListOf figlio) = ''LargeList<'' @ descrivi_tipo (campo_tipo figlio) @ ''>''"
| "descrivi_tipo (ListView figlio) = ''ListView<'' @ descrivi_tipo (campo_tipo figlio) @ ''>''"
| "descrivi_tipo (LargeListView figlio) = ''LargeListView<'' @ descrivi_tipo (campo_tipo figlio) @ ''>''"
| "descrivi_tipo (FixedSizeList figlio quanti) =
     ''FixedSizeList<'' @ descrivi_tipo (campo_tipo figlio) @ ''; '' @ show_int quanti @ ''>''"
| "descrivi_tipo (MapOf voci ordinate) = ''Map<'' @ descrivi_tipo (campo_tipo voci) @ ''>''"
| "descrivi_tipo (Struct figli) = ''Struct<'' @ show_nat (length figli) @ '' campi>''"
| "descrivi_tipo (Union figli) = ''Union<'' @ show_nat (length figli) @ '' campi>''"
| "descrivi_tipo (Dictionary chiave valore) =
     ''Dictionary<'' @ descrivi_tipo chiave @ '', '' @ descrivi_tipo valore @ ''>''"
| "descrivi_tipo (RunEndEncoded fini valori) =
     ''RunEndEncoded<'' @ descrivi_tipo (campo_tipo fini) @ '', '' @ descrivi_tipo (campo_tipo valori) @ ''>''"
| "descrivi_tipo Utf8 = ''Utf8''"
| "descrivi_tipo LargeUtf8 = ''LargeUtf8''"
| "descrivi_tipo Binary = ''Binary''"
| "descrivi_tipo LargeBinary = ''LargeBinary''"
| "descrivi_tipo (Leaf testo) = testo"

text \<open>Is there a key satisfying \<open>chiave\<close> on a field, or on a child at any depth?\<close>

fun figlio_con_chiave :: "(string \<Rightarrow> bool) \<Rightarrow> data_type \<Rightarrow> bool"
  and campo_con_chiave :: "(string \<Rightarrow> bool) \<Rightarrow> field \<Rightarrow> bool" where
  "figlio_con_chiave chiave (ListOf figlio) = campo_con_chiave chiave figlio"
| "figlio_con_chiave chiave (LargeListOf figlio) = campo_con_chiave chiave figlio"
| "figlio_con_chiave chiave (ListView figlio) = campo_con_chiave chiave figlio"
| "figlio_con_chiave chiave (LargeListView figlio) = campo_con_chiave chiave figlio"
| "figlio_con_chiave chiave (FixedSizeList figlio n) = campo_con_chiave chiave figlio"
| "figlio_con_chiave chiave (MapOf figlio b) = campo_con_chiave chiave figlio"
| "figlio_con_chiave chiave (Struct figli) = list_ex (campo_con_chiave chiave) figli"
| "figlio_con_chiave chiave (Union figli) = list_ex (\<lambda>f. campo_con_chiave chiave (snd f)) figli"
| "figlio_con_chiave chiave (RunEndEncoded fini valori) =
     (campo_con_chiave chiave fini \<or> campo_con_chiave chiave valori)"
| "figlio_con_chiave chiave (Dictionary k valore) = figlio_con_chiave chiave valore"
| "figlio_con_chiave chiave Utf8 = False"
| "figlio_con_chiave chiave LargeUtf8 = False"
| "figlio_con_chiave chiave Binary = False"
| "figlio_con_chiave chiave LargeBinary = False"
| "figlio_con_chiave chiave (Leaf t) = False"
| "campo_con_chiave chiave (Field nome tipo nullable metadati) =
     (list_ex (\<lambda>kv. chiave (fst kv)) metadati \<or> figlio_con_chiave chiave tipo)"

section \<open>Reading the canonical metadata\<close>

text \<open>\<open>Ok(None)\<close> for a form that is not decimal, \<open>Err(())\<close> for a number over \<open>u32\<close>.\<close>

definition parse_unsigned_decimal :: "string \<Rightarrow> unit + 32 word option" where
  "parse_unsigned_decimal s =
     (if s = [] \<or> \<not> list_all is_ascii_digit s then Inr None
      else if valore_decimale s < 2 ^ 32 then Inr (Some (of_nat (valore_decimale s))) else Inl ())"

definition chiave_messaggio :: "string \<Rightarrow> string" where
  "chiave_messaggio k = ''chiave `'' @ k @ ''`''"

definition canonical_field_id :: "field \<Rightarrow> field_id option result" where
  "canonical_field_id c =
     (case bt_get (campo_metadati c) PLENORA_FIELD_ID_KEY of
        None \<Rightarrow> Inr None
      | Some raw \<Rightarrow>
          (case parse_unsigned_decimal raw of
             Inr (Some n) \<Rightarrow> Inr (Some n)
           | Inr None \<Rightarrow> Inl (Schema (chiave_messaggio PLENORA_FIELD_ID_KEY @
               '': atteso un intero decimale non negativo''))
           | Inl _ \<Rightarrow> Inl (Unsupported (chiave_messaggio PLENORA_FIELD_ID_KEY @
               '': identificatore oltre 4294967295 (limite di questo componente)''))))"

definition declaration_error_message :: string where
  "declaration_error_message =
     messaggio_icd ''types_declaration non riconosciuta'' ''ammesse'' (map declaration_as_str declaration_all)"

definition canonical_geometry_types_from_metadata ::
    "(string, string) btree \<Rightarrow> geometry_types_property option result" where
  "canonical_geometry_types_from_metadata metadati =
     try_bind
       (case bt_get metadati PLENORA_GEOMETRY_TYPES_DECLARATION_KEY of
          None \<Rightarrow> Inr None
        | Some raw \<Rightarrow>
            (case declaration_from_str raw of
               Some d \<Rightarrow> Inr (Some d)
             | None \<Rightarrow> Inl (Schema (chiave_messaggio PLENORA_GEOMETRY_TYPES_DECLARATION_KEY @ '': '' @
                 declaration_error_message))))
       (\<lambda>declaration.
         let types = bt_get metadati PLENORA_GEOMETRY_TYPES_KEY in
         if types = Some [] then Inl (Schema ''elenco dei tipi geometrici presente ma vuoto'')
         else
           (case declaration of
              None \<Rightarrow>
                (case types of
                   None \<Rightarrow> Inr None
                 | Some _ \<Rightarrow> Inl (Schema (chiave_messaggio PLENORA_GEOMETRY_TYPES_KEY @ '' senza `'' @
                     PLENORA_GEOMETRY_TYPES_DECLARATION_KEY @ ''`'')))
            | Some d \<Rightarrow>
                map_err (\<lambda>e. Schema (''chiavi `'' @ PLENORA_GEOMETRY_TYPES_DECLARATION_KEY @ ''`/`'' @
                    PLENORA_GEOMETRY_TYPES_KEY @ ''`: '' @ types_error_message e))
                  (map_ok Some (from_canonical_list d (case types of None \<Rightarrow> [] | Some l \<Rightarrow> l)))))"

section \<open>Validation\<close>

fun index_of :: "field list \<Rightarrow> string \<Rightarrow> nat option" where
  "index_of [] nome = None"
| "index_of (c # cs) nome = (if campo_nome c = nome then Some 0 else map_option Suc (index_of cs nome))"

definition field_with_name :: "field list \<Rightarrow> string \<Rightarrow> field option" where
  "field_with_name cs nome = List.find (\<lambda>c. campo_nome c = nome) cs"

definition colonna_messaggio :: "string \<Rightarrow> string" where
  "colonna_messaggio nome = ''colonna geometrica `'' @ nome @ ''`''"

definition nome_campo_nuovo :: "string set \<Rightarrow> field \<Rightarrow> string set result" where
  "nome_campo_nuovo seen c =
     (if campo_nome c \<in> seen then
        Inl (Schema (''schema con nome di campo ripetuto `'' @ campo_nome c @
          ''`: l'identita' delle colonne del contratto non sarebbe univoca''))
      else Inr (insert (campo_nome c) seen))"

definition identita_geometrica ::
    "field list \<Rightarrow> (field_id set \<times> string set \<times> nat option) \<Rightarrow> 'c geometry_column \<Rightarrow>
     (field_id set \<times> string set \<times> nat option) result" where
  "identita_geometrica campi st g =
     (case st of (ids, nomi, previous) \<Rightarrow>
       (case index_of campi (gc_name g) of
          None \<Rightarrow> Inl (Schema ''geometria assente dallo schema'')
        | Some position \<Rightarrow>
            if (case previous of None \<Rightarrow> False | Some p \<Rightarrow> p \<ge> position) then
              Inl (Schema ''ordine geometrico incoerente con lo schema'')
            else if gc_field_id g \<in> ids \<or> gc_name g \<in> nomi then
              Inl (Schema (''geometrie con identita' o nomi ripetuti''))
            else Inr (insert (gc_field_id g) ids, insert (gc_name g) nomi, Some position)))"

definition campo_con_contratto :: "string set \<Rightarrow> field \<Rightarrow> unit result" where
  "campo_con_contratto nomi c =
     (if bt_get (campo_metadati c) GEOARROW_EXTENSION_KEY = Some GEOARROW_WKB_EXTENSION
         \<and> campo_nome c \<notin> nomi
      then Inl (Schema ''campo geometrico senza contratto'') else Inr ())"

definition validate_geometry_identities :: "'c data_contract \<Rightarrow> unit result" where
  "validate_geometry_identities c =
     (let campi = s_campi (dc_schema c) in
      try_bind (try_fold (identita_geometrica campi) ({}, {}, None) (dc_geometries c)) (\<lambda>(ids, nomi, _).
        try_fold (\<lambda>_. campo_con_contratto nomi) () campi))"

definition identita_registrata ::
    "field list \<Rightarrow> field_id set \<Rightarrow> string \<times> field_id \<Rightarrow> field_id set result" where
  "identita_registrata campi ids voce =
     (if field_with_name campi (fst voce) = None \<or> snd voce \<in> ids then
        Inl (Schema (''registro delle identita' assente o ambiguo''))
      else Inr (insert (snd voce) ids))"

definition validate_declared_types :: "'c geometry_column \<Rightarrow> (string, string) btree \<Rightarrow> unit result" where
  "validate_declared_types g metadati =
     try_bind
       (case bt_get metadati PLENORA_GEOMETRY_DIMENSIONS_KEY of
          None \<Rightarrow> Inr ()
        | Some declared \<Rightarrow>
            (case dimensions_from_str declared of
               None \<Rightarrow> Inl (Schema (colonna_messaggio (gc_name g) @ '': dimensions canonica non riconosciuta''))
             | Some parsed \<Rightarrow>
                 ensure (parsed = gc_dimensions g)
                   (Schema (colonna_messaggio (gc_name g) @
                     '': dimensions del contratto diversa dai metadati canonici''))))
     (\<lambda>_. try_bind
       (case bt_get metadati PLENORA_GEOMETRY_ENCODING_KEY of
          None \<Rightarrow> Inr ()
        | Some declared \<Rightarrow>
            (case encoding_from_str declared of
               None \<Rightarrow> Inl (Schema (colonna_messaggio (gc_name g) @ '': encoding canonico non riconosciuto''))
             | Some parsed \<Rightarrow>
                 ensure (case gc_encoding g of None \<Rightarrow> True | Some e \<Rightarrow> e = parsed)
                   (Schema (colonna_messaggio (gc_name g) @
                     '': encoding del contratto diverso dai metadati canonici''))))
     (\<lambda>_. try_bind
       (case bt_get metadati PLENORA_GEOMETRY_CRS_RESOLUTION_KEY of
          None \<Rightarrow> Inr ()
        | Some declared \<Rightarrow>
            ensure (crs_resolution_from_str declared \<noteq> None)
              (Schema (colonna_messaggio (gc_name g) @ '': crs_resolution canonica non riconosciuta'')))
     (\<lambda>_. try_bind (canonical_geometry_types_from_metadata metadati) (\<lambda>letti.
       case letti of
         None \<Rightarrow> Inr ()
       | Some parsed \<Rightarrow>
           (case property_value (gc_types g) of
              None \<Rightarrow> Inr ()
            | Some declared \<Rightarrow>
                if gp_declaration parsed = Unresolved then Inr ()
                else if gp_declaration parsed \<noteq> gp_declaration declared then
                  Inl (Schema (colonna_messaggio (gc_name g) @
                    '': types_declaration del contratto diversa dai metadati canonici''))
                else ensure (to_canonical_list parsed = to_canonical_list declared)
                  (Schema (colonna_messaggio (gc_name g) @
                    '': elenco dei tipi del contratto diverso dai metadati canonici'')))))))"

definition mostra_bool :: "bool \<Rightarrow> string" where
  "mostra_bool b = (if b then ''true'' else ''false'')"

definition valida_colonna_geometrica :: "'c data_contract \<Rightarrow> 'c geometry_column \<Rightarrow> unit result" where
  "valida_colonna_geometrica c g =
     (if bt_get (dc_field_ids c) (gc_name g) \<noteq> Some (gc_field_id g) then
        Inl (Schema (''identita' geometrica incoerente con il registro''))
      else
        (case field_with_name (s_campi (dc_schema c)) (gc_name g) of
           None \<Rightarrow> Inl (Schema (colonna_messaggio (gc_name g) @ '' ('' @ mostra_id (gc_field_id g) @
             '') assente dallo schema''))
         | Some campo \<Rightarrow>
             if (case bt_get (campo_metadati campo) GEOARROW_EXTENSION_KEY of
                   None \<Rightarrow> False | Some v \<Rightarrow> v \<noteq> GEOARROW_WKB_EXTENSION) then
               Inl (Schema ''estensione incompatibile con il contratto geometrico'')
             else if campo_nullable campo \<noteq> gc_nullable g then
               Inl (Schema (colonna_messaggio (gc_name g) @ '': nullability del contratto ('' @
                 mostra_bool (gc_nullable g) @ '') diversa dallo schema ('' @ mostra_bool (campo_nullable campo) @ '')''))
             else if campo_tipo campo \<noteq> Binary then
               Inl (Schema (colonna_messaggio (gc_name g) @ '': tipo fisico '' @ descrivi_tipo (campo_tipo campo) @
                 '', atteso Binary (framing WKB/EWKB)''))
             else validate_declared_types g (campo_metadati campo)))"

definition chiave_ordinamento :: "'c data_contract \<Rightarrow> field_id set \<Rightarrow> field_id \<Rightarrow> field_id set result" where
  "chiave_ordinamento c ids fid =
     (if fid \<in> ids \<or> fid \<notin> set (bt_values (dc_field_ids c)) then
        Inl (Schema ''riferimento di sorted_by assente o incoerente'')
      else Inr (insert fid ids))"

definition valida_ordinamento :: "'c data_contract \<Rightarrow> unit result" where
  "valida_ordinamento c =
     (case Option.bind (sorted_by (dc_properties c)) property_value of
        None \<Rightarrow> Inr ()
      | Some ordine \<Rightarrow>
          if so_keys ordine = [] then Inl (Schema ''riferimenti di sorted_by incompleti'')
          else map_ok (\<lambda>_. ()) (try_fold (chiave_ordinamento c) {} (so_keys ordine)))"

definition valida_primaria :: "'c data_contract \<Rightarrow> unit result" where
  "valida_primaria c =
     (case dc_active_geometry c of
        None \<Rightarrow> Inr ()
      | Some active \<Rightarrow>
          ensure (list_ex (\<lambda>g. gc_field_id g = active) (dc_geometries c))
            (Schema (''active_geometry '' @ mostra_id active @
              '' non e' tra le colonne geometriche dichiarate'')))"

definition contract_validate :: "'c data_contract \<Rightarrow> unit result" where
  "contract_validate c =
     try_bind (try_fold nome_campo_nuovo {} (s_campi (dc_schema c))) (\<lambda>_.
     try_bind (validate_geometry_identities c) (\<lambda>_.
     try_bind (try_fold (identita_registrata (s_campi (dc_schema c))) {} (dc_field_ids c)) (\<lambda>_.
     try_bind (try_fold (\<lambda>_. valida_colonna_geometrica c) () (dc_geometries c)) (\<lambda>_.
     try_bind (valida_ordinamento c) (\<lambda>_.
     valida_primaria c)))))"

section \<open>Construction\<close>

definition valida_e_rendi :: "'c data_contract \<Rightarrow> 'c data_contract result" where
  "valida_e_rendi c = map_ok (\<lambda>_. c) (contract_validate c)"

definition from_source ::
    "arrow_schema \<Rightarrow> 'c geometry_column list \<Rightarrow> field_id option \<Rightarrow> contract_properties \<Rightarrow>
     'c data_contract result" where
  "from_source schema geometries active properties =
     valida_e_rendi
       \<lparr>dc_schema = schema,
        dc_field_ids = fold (\<lambda>g. bt_insert (gc_name g) (gc_field_id g)) geometries [],
        dc_geometries = geometries, dc_active_geometry = active, dc_properties = properties\<rparr>"

definition osserva_origine :: "field_origin \<Rightarrow> field_allocator \<Rightarrow> field_allocator" where
  "osserva_origine origine a = (case origine of OPreserved fid \<Rightarrow> observe fid a | ONew \<Rightarrow> a)"

definition mappa_geometria ::
    "(field_id, field_id) btree \<Rightarrow> 'c geometry_column \<Rightarrow> (field_id, field_id) btree result" where
  "mappa_geometria m g =
     (if bt_get m (gc_field_id g) \<noteq> None then Inl (Schema (''identita' geometriche ripetute''))
      else Inr (bt_insert (gc_field_id g) (gc_field_id g) m))"

definition geometria_di_nome :: "'c geometry_column list \<Rightarrow> string \<Rightarrow> 'c geometry_column option" where
  "geometria_di_nome gs nome = List.find (\<lambda>g. gc_name g = nome) gs"

text \<open>One field with its origin: the identity, and the geometry that follows it.\<close>

definition assegna_identita ::
    "'c geometry_column list \<Rightarrow>
     field_allocator \<times> (field_id, field_id) btree \<times> (string, field_id) btree \<Rightarrow> field \<times> field_origin \<Rightarrow>
     (field_allocator \<times> (field_id, field_id) btree \<times> (string, field_id) btree) result" where
  "assegna_identita geometries st voce =
     (case st of (a, mapping, field_ids) \<Rightarrow>
       (let nome = campo_nome (fst voce);
            geometry_id = map_option gc_field_id (geometria_di_nome geometries nome)
        in case snd voce of
             OPreserved fid \<Rightarrow>
               (if (case geometry_id of None \<Rightarrow> False | Some gid \<Rightarrow> gid \<noteq> fid) then
                  Inl (Schema ''provenienza geometrica incoerente'')
                else Inr (a, mapping, bt_insert nome fid field_ids))
           | ONew \<Rightarrow>
               try_bind (alloc a) (\<lambda>(fid, a').
                 Inr (a',
                   (case geometry_id of None \<Rightarrow> mapping | Some gid \<Rightarrow> bt_insert gid fid mapping),
                   bt_insert nome fid field_ids))))"

definition rimappa_geometria ::
    "(string, field_id) btree \<Rightarrow> 'c geometry_column \<Rightarrow> 'c geometry_column result" where
  "rimappa_geometria field_ids g =
     (case bt_get field_ids (gc_name g) of
        None \<Rightarrow> Inl (Schema ''geometria assente dallo schema'')
      | Some fid \<Rightarrow> Inr (g\<lparr>gc_field_id := fid\<rparr>))"

definition rimappa_primaria :: "(field_id, field_id) btree \<Rightarrow> field_id option \<Rightarrow> field_id option result" where
  "rimappa_primaria mapping active =
     (case active of
        None \<Rightarrow> Inr None
      | Some fid \<Rightarrow> map_ok Some (ok_or (Schema ''primaria assente dalle geometrie'') (bt_get mapping fid)))"

text \<open>An error drops the allocator: a plan whose analysis fails is refused.\<close>

definition contract_new ::
    "arrow_schema \<Rightarrow> field_origin list \<Rightarrow> 'c geometry_column list \<Rightarrow> field_id option \<Rightarrow>
     contract_properties \<Rightarrow> field_allocator \<Rightarrow> ('c data_contract \<times> field_allocator) result" where
  "contract_new schema origins geometries active properties a =
     (if length origins \<noteq> length (s_campi schema) then Inl (Schema ''provenienza dei campi incompleta'')
      else
        (let a = fold osserva_origine origins a in
         try_bind (try_fold mappa_geometria [] geometries) (\<lambda>mapping.
         try_bind (try_fold (assegna_identita geometries) (a, mapping, []) (zip (s_campi schema) origins))
           (\<lambda>(a, mapping, field_ids).
         try_bind (rimappa_primaria mapping active) (\<lambda>active.
         try_bind (try_map (rimappa_geometria field_ids) geometries) (\<lambda>geometries.
         map_ok (\<lambda>c. (c, a))
           (valida_e_rendi
             \<lparr>dc_schema = schema, dc_field_ids = field_ids, dc_geometries = geometries,
              dc_active_geometry = active, dc_properties = properties\<rparr>)))))))"

definition contract_rebuild ::
    "'c data_contract \<Rightarrow> arrow_schema \<Rightarrow> field_origin list \<Rightarrow> 'c geometry_column list \<Rightarrow> field_id option \<Rightarrow>
     contract_properties \<Rightarrow> field_allocator \<Rightarrow> ('c data_contract \<times> field_allocator) result" where
  "contract_rebuild c schema origins geometries active properties a =
     try_bind (contract_validate c) (\<lambda>_.
       contract_new schema origins geometries active properties
         (fold (\<lambda>voce. observe (snd voce)) (dc_field_ids c) a))"

definition field_origins :: "'c data_contract \<Rightarrow> field_origin list" where
  "field_origins c =
     map (\<lambda>campo. case bt_get (dc_field_ids c) (campo_nome campo) of
             None \<Rightarrow> ONew | Some fid \<Rightarrow> OPreserved fid) (s_campi (dc_schema c))"

definition bind_contract :: "'c data_contract \<Rightarrow> field_allocator \<Rightarrow> field_allocator" where
  "bind_contract c a = bind_fields (dc_field_ids c) a"

section \<open>The operand of a geometry operation\<close>

definition active_geometry_column :: "'c data_contract \<Rightarrow> 'c geometry_column option" where
  "active_geometry_column c =
     Option.bind (dc_active_geometry c) (\<lambda>active. List.find (\<lambda>g. gc_field_id g = active) (dc_geometries c))"

definition identita_campo :: "32 word set \<Rightarrow> field \<Rightarrow> 32 word set result" where
  "identita_campo identita campo =
     try_bind (canonical_field_id campo) (\<lambda>letto.
     try_bind
       (case letto of
          None \<Rightarrow> Inr identita
        | Some fid \<Rightarrow>
            if fid \<in> identita then
              Inl (Schema (''colonna `'' @ campo_nome campo @ ''`: `'' @ PLENORA_FIELD_ID_KEY @
                ''` ripetuto nello schema (l'identita' dei campi e' unica)''))
            else Inr (insert fid identita))
       (\<lambda>identita.
         if figlio_con_chiave (\<lambda>k. k = PLENORA_FIELD_ID_KEY) (campo_tipo campo) then
           Inl (Unsupported (''colonna `'' @ campo_nome campo @ ''`: `'' @ PLENORA_FIELD_ID_KEY @
             ''` su un campo annidato non e' interpretata (l'identita' e' dei campi di primo livello)''))
         else Inr identita))"

definition verifica_identita_campi :: "field list \<Rightarrow> 32 word set result" where
  "verifica_identita_campi campi = try_fold identita_campo {} campi"

definition cerca_selezione ::
    "'c data_contract \<Rightarrow> field_id \<Rightarrow> string set \<times> 'c geometry_column option \<Rightarrow> field \<Rightarrow>
     (string set \<times> 'c geometry_column option) result" where
  "cerca_selezione c fid st campo =
     (if campo_nome campo \<in> fst st then Inl (Schema ''nomi ricevuti ripetuti'')
      else
        try_bind (canonical_field_id campo) (\<lambda>letto.
          if letto = Some fid then
            (if bt_get (campo_metadati campo) GEOARROW_EXTENSION_KEY \<noteq> Some GEOARROW_WKB_EXTENSION then
               Inl (Schema ''selettore riferito a un campo non geometrico'')
             else Inr (insert (campo_nome campo) (fst st), geometria_di_nome (dc_geometries c) (campo_nome campo)))
          else Inr (insert (campo_nome campo) (fst st), snd st)))"

definition select_geometry ::
    "'c data_contract \<Rightarrow> (field list \<times> field_id) option \<Rightarrow> 'c geometry_column result" where
  "select_geometry c selector =
     try_bind (contract_validate c) (\<lambda>_.
     try_bind
       (case selector of
          None \<Rightarrow> Inr (active_geometry_column c)
        | Some (received, fid) \<Rightarrow>
            try_bind (verifica_identita_campi received) (\<lambda>_.
              map_ok snd (try_fold (cerca_selezione c fid) ({}, None) received)))
       (\<lambda>selected. ok_or (Schema (''operando geometrico assente: selezionare una geometria o '' @
          ''dichiarare la primaria'')) selected))"

definition require_single_geometry_support :: "'c data_contract \<Rightarrow> unit result" where
  "require_single_geometry_support c =
     (if length (dc_geometries c) > 1 then
        Inl (Unsupported (''operazione non ancora adattata a piu' geometrie'')) else Inr ())"

section \<open>What a valid contract is\<close>

definition metadati_coerenti :: "'c geometry_column \<Rightarrow> (string, string) btree \<Rightarrow> bool" where
  "metadati_coerenti g m \<longleftrightarrow>
     bt_get m PLENORA_GEOMETRY_DIMENSIONS_KEY \<in> {None, Some (dimensions_as_str (gc_dimensions g))}
     \<and> (case bt_get m PLENORA_GEOMETRY_ENCODING_KEY of
          None \<Rightarrow> True
        | Some s \<Rightarrow> \<exists>e. encoding_as_str e = s \<and> gc_encoding g \<in> {None, Some e})
     \<and> (case bt_get m PLENORA_GEOMETRY_CRS_RESOLUTION_KEY of
          None \<Rightarrow> True | Some s \<Rightarrow> s \<in> crs_resolution_as_str ` UNIV)
     \<and> (case canonical_geometry_types_from_metadata m of
          Inl e \<Rightarrow> False
        | Inr None \<Rightarrow> True
        | Inr (Some letti) \<Rightarrow>
            gp_declaration letti = Unresolved \<or> property_value (gc_types g) \<in> {None, Some letti})"

definition geometria_coerente :: "'c data_contract \<Rightarrow> 'c geometry_column \<Rightarrow> bool" where
  "geometria_coerente c g \<longleftrightarrow>
     bt_get (dc_field_ids c) (gc_name g) = Some (gc_field_id g)
     \<and> (case field_with_name (s_campi (dc_schema c)) (gc_name g) of
          None \<Rightarrow> False
        | Some campo \<Rightarrow>
            bt_get (campo_metadati campo) GEOARROW_EXTENSION_KEY \<in> {None, Some GEOARROW_WKB_EXTENSION}
            \<and> campo_nullable campo = gc_nullable g \<and> campo_tipo campo = Binary
            \<and> metadati_coerenti g (campo_metadati campo))"

definition contratto_coerente :: "'c data_contract \<Rightarrow> bool" where
  "contratto_coerente c \<longleftrightarrow>
     (let campi = s_campi (dc_schema c); gs = dc_geometries c; registro = dc_field_ids c in
       distinct (map campo_nome campi)
       \<and> (\<forall>g \<in> set gs. gc_name g \<in> campo_nome ` set campi \<and> geometria_coerente c g)
       \<and> sorted_wrt (<) (map (\<lambda>g. the (index_of campi (gc_name g))) gs)
       \<and> distinct (map gc_field_id gs)
       \<and> (\<forall>campo \<in> set campi.
            bt_get (campo_metadati campo) GEOARROW_EXTENSION_KEY = Some GEOARROW_WKB_EXTENSION \<longrightarrow>
            campo_nome campo \<in> gc_name ` set gs)
       \<and> fst ` set registro \<subseteq> campo_nome ` set campi \<and> distinct (map snd registro)
       \<and> (case Option.bind (sorted_by (dc_properties c)) property_value of
            None \<Rightarrow> True
          | Some ordine \<Rightarrow> so_keys ordine \<noteq> [] \<and> distinct (so_keys ordine)
              \<and> set (so_keys ordine) \<subseteq> snd ` set registro)
       \<and> (case dc_active_geometry c of None \<Rightarrow> True | Some fid \<Rightarrow> fid \<in> gc_field_id ` set gs))"

lemma try_bind_unit: "try_bind (r :: 'e + unit) g = Inr b \<longleftrightarrow> r = Inr () \<and> g () = Inr b"
  by (cases r) simp_all

lemma index_of_None: "index_of cs n = None \<longleftrightarrow> n \<notin> campo_nome ` set cs"
  by (induction cs) auto

lemma index_of_Some:
  "index_of cs n = Some i \<Longrightarrow> i < length cs \<and> campo_nome (cs ! i) = n"
  by (induction cs arbitrary: i) (auto split: if_splits)

lemma index_of_inj: "index_of cs n = Some i \<Longrightarrow> index_of cs m = Some i \<Longrightarrow> n = m"
  using index_of_Some [of cs n i] index_of_Some [of cs m i] by auto

lemma field_with_name_None: "field_with_name cs n = None \<longleftrightarrow> n \<notin> campo_nome ` set cs"
  by (auto simp: field_with_name_def find_None_iff)

lemma identita_geometrica_Inr:
  "identita_geometrica campi (ids, nomi, prev) g = Inr st' \<longleftrightarrow>
     (\<exists>q. index_of campi (gc_name g) = Some q \<and> (case prev of None \<Rightarrow> True | Some p \<Rightarrow> p < q)
        \<and> gc_field_id g \<notin> ids \<and> gc_name g \<notin> nomi
        \<and> st' = (insert (gc_field_id g) ids, insert (gc_name g) nomi, Some q))"
  by (auto simp: identita_geometrica_def split: option.splits)

lemma identita_geometrica_fold:
  "try_fold (identita_geometrica campi) (ids, nomi, prev) gs = Inr (ids', nomi', prev') \<Longrightarrow>
     (\<forall>g \<in> set gs. gc_name g \<in> campo_nome ` set campi)
     \<and> sorted_wrt (<) ((case prev of None \<Rightarrow> [] | Some p \<Rightarrow> [p]) @ map (\<lambda>g. the (index_of campi (gc_name g))) gs)
     \<and> distinct (map gc_field_id gs) \<and> gc_field_id ` set gs \<inter> ids = {}
     \<and> nomi' = nomi \<union> gc_name ` set gs"
proof (induction gs arbitrary: ids nomi prev)
  case (Cons g gs)
  from Cons.prems obtain st where st: "identita_geometrica campi (ids, nomi, prev) g = Inr st"
    and rest: "try_fold (identita_geometrica campi) st gs = Inr (ids', nomi', prev')"
    unfolding try_fold_Cons_Inr by blast
  from st obtain q where q: "index_of campi (gc_name g) = Some q" "case prev of None \<Rightarrow> True | Some p \<Rightarrow> p < q"
      "gc_field_id g \<notin> ids" "gc_name g \<notin> nomi"
      "st = (insert (gc_field_id g) ids, insert (gc_name g) nomi, Some q)"
    unfolding identita_geometrica_Inr by blast
  have "gc_name g \<in> campo_nome ` set campi" using q(1) index_of_None [of campi "gc_name g"] by auto
  moreover note Cons.IH [OF rest [unfolded q(5)]]
  ultimately show ?case using q(1-4) by (cases prev) (auto intro: less_trans)
qed (auto split: option.splits)

lemma identita_geometrica_fold_ok:
  assumes "\<forall>g \<in> set gs. gc_name g \<in> campo_nome ` set campi"
    and "sorted_wrt (<) ((case prev of None \<Rightarrow> [] | Some p \<Rightarrow> [p]) @ map (\<lambda>g. the (index_of campi (gc_name g))) gs)"
    and "distinct (map gc_field_id gs)" "gc_field_id ` set gs \<inter> ids = {}"
    and "distinct (map gc_name gs)" "gc_name ` set gs \<inter> nomi = {}"
  shows "\<exists>ids' prev'. try_fold (identita_geometrica campi) (ids, nomi, prev) gs = Inr (ids', nomi \<union> gc_name ` set gs, prev')"
  using assms
proof (induction gs arbitrary: ids nomi prev)
  case (Cons g gs)
  obtain q where q: "index_of campi (gc_name g) = Some q"
    using Cons.prems(1) index_of_None [of campi "gc_name g"] by auto
  have "identita_geometrica campi (ids, nomi, prev) g
      = Inr (insert (gc_field_id g) ids, insert (gc_name g) nomi, Some q)"
    using Cons.prems q by (auto simp: identita_geometrica_Inr split: option.splits)
  moreover have "\<exists>ids' prev'. try_fold (identita_geometrica campi)
      (insert (gc_field_id g) ids, insert (gc_name g) nomi, Some q) gs
      = Inr (ids', insert (gc_name g) nomi \<union> gc_name ` set gs, prev')"
    using Cons.prems q by (intro Cons.IH) (auto split: option.splits)
  ultimately show ?case by simp
qed simp

lemma validate_geometry_identities_iff:
  assumes "distinct (map campo_nome (s_campi (dc_schema c)))"
  shows "validate_geometry_identities c = Inr () \<longleftrightarrow>
     (\<forall>g \<in> set (dc_geometries c). gc_name g \<in> campo_nome ` set (s_campi (dc_schema c)))
     \<and> sorted_wrt (<) (map (\<lambda>g. the (index_of (s_campi (dc_schema c)) (gc_name g))) (dc_geometries c))
     \<and> distinct (map gc_field_id (dc_geometries c))
     \<and> (\<forall>campo \<in> set (s_campi (dc_schema c)).
          bt_get (campo_metadati campo) GEOARROW_EXTENSION_KEY = Some GEOARROW_WKB_EXTENSION \<longrightarrow>
          campo_nome campo \<in> gc_name ` set (dc_geometries c))"
    (is "?l \<longleftrightarrow> ?names \<and> ?sorted \<and> ?ids \<and> ?fields")
proof
  have check: "campo_con_contratto nomi campo = Inr () \<longleftrightarrow>
      (bt_get (campo_metadati campo) GEOARROW_EXTENSION_KEY = Some GEOARROW_WKB_EXTENSION \<longrightarrow> campo_nome campo \<in> nomi)"
    for nomi campo by (auto simp: campo_con_contratto_def)
  {
    assume ?l
    then obtain ids nomi prev where
      fold: "try_fold (identita_geometrica (s_campi (dc_schema c))) ({}, {}, None) (dc_geometries c) = Inr (ids, nomi, prev)"
      and "try_fold (\<lambda>_. campo_con_contratto nomi) () (s_campi (dc_schema c)) = Inr ()"
      by (auto simp: validate_geometry_identities_def Let_def results)
    then show "?names \<and> ?sorted \<and> ?ids \<and> ?fields"
      using identita_geometrica_fold [OF fold] by (auto simp: try_fold_check check)
  next
    assume r: "?names \<and> ?sorted \<and> ?ids \<and> ?fields"
    then have "distinct (map (\<lambda>g. the (index_of (s_campi (dc_schema c)) (gc_name g))) (dc_geometries c))"
      by (simp add: strict_sorted_iff)
    then have "distinct (map gc_name (dc_geometries c))"
      by (auto simp: distinct_map inj_on_def)
    with r identita_geometrica_fold_ok [of "dc_geometries c" "s_campi (dc_schema c)" None "{}" "{}"]
    obtain ids prev where "try_fold (identita_geometrica (s_campi (dc_schema c))) ({}, {}, None) (dc_geometries c)
        = Inr (ids, gc_name ` set (dc_geometries c), prev)" by auto
    with r show ?l by (auto simp: validate_geometry_identities_def Let_def try_fold_check check)
  }
qed

lemma types_inj: "to_canonical_list p = to_canonical_list q \<longleftrightarrow> gp_types p = gp_types q"
proof
  assume eq: "to_canonical_list p = to_canonical_list q"
  have inj: "inj geometry_type_as_str" by (rule injI) (metis from_str_iff(3) option.inject)
  show "gp_types p = gp_types q"
  proof (cases "gp_types p = [] \<or> gp_types q = []")
    case True
    then show ?thesis using eq to_canonical_list_Nil [of p] to_canonical_list_Nil [of q] by auto
  next
    case False
    then have "map geometry_type_as_str (gp_types p) = map geometry_type_as_str (gp_types q)"
      using eq to_canonical_list_tokens by metis
    then show ?thesis using inj by (simp add: inj_map_eq_map)
  qed
qed (simp add: to_canonical_list_eq)

lemma from_as_str [simp]:
  "dimensions_from_str (dimensions_as_str d) = Some d"
  "encoding_from_str (encoding_as_str e) = Some e"
  "crs_resolution_from_str (crs_resolution_as_str r) = Some r"
  by (simp_all add: from_str_iff)

lemma dimensions_as_str_inj [simp]: "dimensions_as_str a = dimensions_as_str b \<longleftrightarrow> a = b"
  by (metis from_as_str(1) option.inject)

lemma encoding_as_str_inj [simp]: "encoding_as_str a = encoding_as_str b \<longleftrightarrow> a = b"
  by (metis from_as_str(2) option.inject)

lemma validate_declared_types_iff: "validate_declared_types g m = Inr () \<longleftrightarrow> metadati_coerenti g m"
proof -
  have dim: "(case bt_get m PLENORA_GEOMETRY_DIMENSIONS_KEY of None \<Rightarrow> Inr ()
        | Some d \<Rightarrow> (case dimensions_from_str d of None \<Rightarrow> Inl (e1 :: plenora_error)
            | Some parsed \<Rightarrow> ensure (parsed = gc_dimensions g) e2)) = Inr ()
      \<longleftrightarrow> bt_get m PLENORA_GEOMETRY_DIMENSIONS_KEY \<in> {None, Some (dimensions_as_str (gc_dimensions g))}" for e1 e2
    by (auto simp: results from_str_iff split: option.splits)
  have enc: "(case bt_get m PLENORA_GEOMETRY_ENCODING_KEY of None \<Rightarrow> Inr ()
        | Some d \<Rightarrow> (case encoding_from_str d of None \<Rightarrow> Inl (e1 :: plenora_error)
            | Some parsed \<Rightarrow> ensure (case gc_encoding g of None \<Rightarrow> True | Some e \<Rightarrow> e = parsed) e2)) = Inr ()
      \<longleftrightarrow> (case bt_get m PLENORA_GEOMETRY_ENCODING_KEY of None \<Rightarrow> True
        | Some s \<Rightarrow> \<exists>e. encoding_as_str e = s \<and> gc_encoding g \<in> {None, Some e})" for e1 e2
    by (auto simp: results from_str_iff split: option.splits)
  have crs: "(case bt_get m PLENORA_GEOMETRY_CRS_RESOLUTION_KEY of None \<Rightarrow> Inr ()
        | Some d \<Rightarrow> ensure (crs_resolution_from_str d \<noteq> None) (e1 :: plenora_error)) = Inr ()
      \<longleftrightarrow> (case bt_get m PLENORA_GEOMETRY_CRS_RESOLUTION_KEY of None \<Rightarrow> True
        | Some s \<Rightarrow> s \<in> crs_resolution_as_str ` UNIV)" for e1
    by (auto simp: results from_str_iff split: option.splits)
  have eq: "gp_declaration p = gp_declaration q \<and> gp_types p = gp_types q \<longleftrightarrow> p = q"
    for p q :: geometry_types_property by (cases p; cases q) auto
  have types: "(case letti of None \<Rightarrow> Inr ()
       | Some parsed \<Rightarrow>
           (case property_value (gc_types g) of
              None \<Rightarrow> Inr ()
            | Some declared \<Rightarrow>
                if gp_declaration parsed = Unresolved then Inr ()
                else if gp_declaration parsed \<noteq> gp_declaration declared then Inl (e1 :: plenora_error)
                else ensure (to_canonical_list parsed = to_canonical_list declared) e2)) = Inr ()
      \<longleftrightarrow> (case letti of None \<Rightarrow> True | Some letti \<Rightarrow>
            gp_declaration letti = Unresolved \<or> property_value (gc_types g) \<in> {None, Some letti})" for letti e1 e2
    using eq by (auto simp: types_inj results split: option.splits)
  show ?thesis
    unfolding validate_declared_types_def metadati_coerenti_def try_bind_unit try_bind_Inr_iff dim enc crs types
    by (cases "canonical_geometry_types_from_metadata m") (simp_all split: option.split)
qed

lemma valida_colonna_iff: "valida_colonna_geometrica c g = Inr () \<longleftrightarrow> geometria_coerente c g"
  by (auto simp: valida_colonna_geometrica_def geometria_coerente_def validate_declared_types_iff
      split: option.split)

lemma valida_ordinamento_iff:
  "valida_ordinamento c = Inr () \<longleftrightarrow>
     (case Option.bind (sorted_by (dc_properties c)) property_value of
        None \<Rightarrow> True
      | Some ordine \<Rightarrow> so_keys ordine \<noteq> [] \<and> distinct (so_keys ordine)
          \<and> set (so_keys ordine) \<subseteq> snd ` set (dc_field_ids c))"
proof -
  have step: "chiave_ordinamento c ids fid = Inr ids' \<longleftrightarrow>
      fid \<in> snd ` set (dc_field_ids c) \<and> fid \<notin> ids \<and> ids' = insert fid ids" for ids fid ids'
    by (auto simp: chiave_ordinamento_def bt_values_def)
  have "(\<exists>ids. try_fold (chiave_ordinamento c) {} keys = Inr ids) \<longleftrightarrow>
      distinct keys \<and> set keys \<subseteq> snd ` set (dc_field_ids c)" for keys
    unfolding try_fold_distinct [where k = "\<lambda>x. x" and P = "\<lambda>fid. fid \<in> snd ` set (dc_field_ids c)", OF step]
    by auto
  then show ?thesis by (auto simp: valida_ordinamento_def results split: option.split)
qed

lemma contract_validate_eq: "contract_validate c = Inr () \<longleftrightarrow> contratto_coerente c"
proof -
  have nomi: "nome_campo_nuovo S campo = Inr S' \<longleftrightarrow> True \<and> campo_nome campo \<notin> S \<and> S' = insert (campo_nome campo) S"
    for S S' campo by (auto simp: nome_campo_nuovo_def)
  have registro: "identita_registrata campi S voce = Inr S' \<longleftrightarrow>
      fst voce \<in> campo_nome ` set campi \<and> snd voce \<notin> S \<and> S' = insert (snd voce) S" for campi S S' voce
    using field_with_name_None [of campi "fst voce"] by (auto simp: identita_registrata_def)
  have primaria: "valida_primaria c = Inr () \<longleftrightarrow>
      (case dc_active_geometry c of None \<Rightarrow> True | Some fid \<Rightarrow> fid \<in> gc_field_id ` set (dc_geometries c))"
    by (auto simp: valida_primaria_def results list_ex_iff split: option.split)
  show ?thesis
    unfolding contract_validate_def contratto_coerente_def Let_def try_bind_unit try_bind_Inr_iff try_fold_check
      valida_colonna_iff valida_ordinamento_iff primaria
      try_fold_distinct [where k = campo_nome and P = "\<lambda>_. True", OF nomi]
      try_fold_distinct [where k = snd and P = "\<lambda>v. fst v \<in> campo_nome ` set (s_campi (dc_schema c))", OF registro]
    by (auto simp: validate_geometry_identities_iff simp del: option.case_eq_if)
qed

text \<open>C9. A contract passes the validation exactly when it is coherent: field names are unique; every geometry
  names a field of the same nullability, of type Binary, with compatible metadata, in the order of the
  schema and with an identity of its own that the registry knows; every field marked as geometry has its
  contract; the registry is injective on existing fields; the sort keys and the primary geometry refer to
  known identities.\<close>

theorem contract_validate_iff: "contract_validate c = Inr () \<longleftrightarrow> contratto_coerente c"
  by (rule contract_validate_eq)

section \<open>The identities of a new contract\<close>

text \<open>The identities of the fields: kept, or taken in order from the fresh ones.\<close>

fun identita_dei_campi :: "field_origin list \<Rightarrow> field_id list \<Rightarrow> field_id list" where
  "identita_dei_campi [] nuove = []"
| "identita_dei_campi (OPreserved fid # origini) nuove = fid # identita_dei_campi origini nuove"
| "identita_dei_campi (ONew # origini) [] = []"
| "identita_dei_campi (ONew # origini) (n # nuove) = n # identita_dei_campi origini nuove"

definition conservate :: "field_origin list \<Rightarrow> field_id list" where
  "conservate origini = concat (map (\<lambda>u. case u of OPreserved fid \<Rightarrow> [fid] | ONew \<Rightarrow> []) origini)"

definition quante_nuove :: "field_origin list \<Rightarrow> nat" where
  "quante_nuove origini = length (filter (\<lambda>u. u = ONew) origini)"

lemma conteggi_simps [simp]:
  "conservate [] = []" "conservate (OPreserved fid # og) = fid # conservate og" "conservate (ONew # og) = conservate og"
  "quante_nuove [] = 0" "quante_nuove (OPreserved fid # og) = quante_nuove og" "quante_nuove (ONew # og) = Suc (quante_nuove og)"
  by (simp_all add: conservate_def quante_nuove_def)

lemma osserva_origine_fold: "fold osserva_origine og a = fold observe (conservate og) a"
proof (induction og arbitrary: a)
  case (Cons o1 og)
  then show ?case by (cases o1) (simp_all add: osserva_origine_def)
qed simp

lemma assegna_identita_Inr:
  "assegna_identita gs (a, mp, fi) (campo, OPreserved fid) = Inr st \<longleftrightarrow>
     (\<forall>g. geometria_di_nome gs (campo_nome campo) = Some g \<longrightarrow> gc_field_id g = fid)
     \<and> st = (a, mp, bt_insert (campo_nome campo) fid fi)"
  "assegna_identita gs (a, mp, fi) (campo, ONew) = Inr st \<longleftrightarrow>
     (\<exists>f a'. alloc a = Inr (f, a') \<and>
       st = (a', (case geometria_di_nome gs (campo_nome campo) of None \<Rightarrow> mp | Some g \<Rightarrow> bt_insert (gc_field_id g) f mp),
             bt_insert (campo_nome campo) f fi))"
  by (auto simp: assegna_identita_def Let_def results split: option.split option.split_asm)

abbreviation inserisci_tutte :: "string list \<Rightarrow> field_id list \<Rightarrow> (string, field_id) btree \<Rightarrow> (string, field_id) btree" where
  "inserisci_tutte nomi ids \<equiv> fold (\<lambda>(n, f). bt_insert n f) (zip nomi ids)"

lemma assegna_identita_fold:
  "length og = length cs \<Longrightarrow>
   try_fold (assegna_identita gs) (a, mp, fi) (zip cs og) = Inr (a', mp', fi') \<Longrightarrow>
     \<exists>nuove. fa.corsa (replicate (quante_nuove og) None) a = Inr (nuove, a')
       \<and> length (identita_dei_campi og nuove) = length cs
       \<and> fi' = inserisci_tutte (map campo_nome cs) (identita_dei_campi og nuove) fi"
proof (induction og cs arbitrary: a mp fi rule: list_induct2)
  case (Cons o1 og c cs)
  from Cons.prems obtain a1 mp1 fi1 where st: "assegna_identita gs (a, mp, fi) (c, o1) = Inr (a1, mp1, fi1)"
    and rest: "try_fold (assegna_identita gs) (a1, mp1, fi1) (zip cs og) = Inr (a', mp', fi')"
    by (cases "assegna_identita gs (a, mp, fi) (c, o1)") auto
  from Cons.IH [OF rest] obtain nuove where nuove:
    "fa.corsa (replicate (quante_nuove og) None) a1 = Inr (nuove, a')"
    "length (identita_dei_campi og nuove) = length cs"
    "fi' = inserisci_tutte (map campo_nome cs) (identita_dei_campi og nuove) fi1" by blast
  show ?case
  proof (cases o1)
    case (OPreserved fid)
    with st nuove show ?thesis by (auto simp: assegna_identita_Inr)
  next
    case ONew
    with st obtain f where f: "alloc a = Inr (f, a1)" "fi1 = bt_insert (campo_nome c) f fi"
      by (auto simp: assegna_identita_Inr)
    from ONew nuove f show ?thesis by (intro exI [of _ "f # nuove"]) auto
  qed
qed simp

lemma inserisci_tutte_get:
  "distinct nomi \<Longrightarrow> length ids = length nomi \<Longrightarrow>
     map (bt_get (inserisci_tutte nomi ids m)) nomi = map Some ids
     \<and> (\<forall>n. n \<notin> set nomi \<longrightarrow> bt_get (inserisci_tutte nomi ids m) n = bt_get m n)"
proof (induction nomi arbitrary: ids m)
  case (Cons n nomi)
  then obtain f fs where ids: "ids = f # fs" by (cases ids) auto
  from Cons.IH [of fs "bt_insert n f m"] Cons.prems show ?case by (auto simp: ids bt_simps)
qed simp

text \<open>The geometries follow their fields: the mapping sends the old identity to the identity of the field.\<close>

lemma geometria_di_nome_Some:
  "distinct (map gc_name gs) \<Longrightarrow> geometria_di_nome gs n = Some g \<longleftrightarrow> g \<in> set gs \<and> gc_name g = n"
proof (induction gs)
  case (Cons g' gs)
  then show ?case by (auto simp: geometria_di_nome_def)
qed (simp add: geometria_di_nome_def)

lemma geometria_di_nome_in: "geometria_di_nome gs n = Some g \<Longrightarrow> g \<in> set gs"
  by (auto simp: geometria_di_nome_def find_Some_iff)

lemma geometria_di_nome_None: "geometria_di_nome gs n = None \<longleftrightarrow> n \<notin> gc_name ` set gs"
  by (auto simp: geometria_di_nome_def find_None_iff)

lemma assegna_identita_mapping:
  assumes gs: "distinct (map gc_name gs)" "distinct (map gc_field_id gs)"
  shows "length og = length cs \<Longrightarrow> distinct (map campo_nome cs) \<Longrightarrow>
   try_fold (assegna_identita gs) (a, mp, fi) (zip cs og) = Inr (a', mp', fi') \<Longrightarrow>
   (\<And>g. g \<in> set gs \<Longrightarrow> gc_name g \<in> campo_nome ` set cs \<Longrightarrow> bt_get mp (gc_field_id g) = Some (gc_field_id g)) \<Longrightarrow>
     (\<forall>g \<in> set gs. bt_get mp' (gc_field_id g) =
        (if gc_name g \<in> campo_nome ` set cs then bt_get fi' (gc_name g) else bt_get mp (gc_field_id g)))
     \<and> (\<forall>n. n \<notin> campo_nome ` set cs \<longrightarrow> bt_get fi' n = bt_get fi n)"
proof (induction og cs arbitrary: a mp fi rule: list_induct2)
  case (Cons o1 og c cs)
  from Cons.prems(2) obtain a1 mp1 fi1 where st: "assegna_identita gs (a, mp, fi) (c, o1) = Inr (a1, mp1, fi1)"
    and rest: "try_fold (assegna_identita gs) (a1, mp1, fi1) (zip cs og) = Inr (a', mp', fi')"
    by (cases "assegna_identita gs (a, mp, fi) (c, o1)") auto
  have same: "gc_field_id g = gc_field_id g' \<longleftrightarrow> g = g'" if "g \<in> set gs" "g' \<in> set gs" for g g'
    using gs(2) that by (auto simp: distinct_map inj_on_def)
  have name: "gc_name g = gc_name g' \<longleftrightarrow> g = g'" if "g \<in> set gs" "g' \<in> set gs" for g g'
    using gs(1) that by (auto simp: distinct_map inj_on_def)
  have step: "(\<forall>g \<in> set gs. bt_get mp1 (gc_field_id g) =
        (if gc_name g = campo_nome c then bt_get fi1 (campo_nome c) else bt_get mp (gc_field_id g)))
      \<and> (\<forall>n. n \<noteq> campo_nome c \<longrightarrow> bt_get fi1 n = bt_get fi n)"
  proof (cases o1)
    case (OPreserved fid)
    with st Cons.prems(3) show ?thesis
      by (auto simp: assegna_identita_Inr bt_simps geometria_di_nome_Some [OF gs(1)])
  next
    case ONew
    with st show ?thesis
      by (cases "geometria_di_nome gs (campo_nome c)")
        (auto simp: assegna_identita_Inr bt_simps geometria_di_nome_Some [OF gs(1)] geometria_di_nome_None same,
          (metis image_eqI name)+)
  qed
  have fresh: "campo_nome c \<notin> campo_nome ` set cs" using Cons.prems(1) by auto
  have "bt_get mp1 (gc_field_id g) = Some (gc_field_id g)" if "g \<in> set gs" "gc_name g \<in> campo_nome ` set cs" for g
    using step Cons.prems(3) [OF that(1)] that fresh by auto
  from Cons.IH [OF _ rest this] Cons.prems(1) have
    "(\<forall>g \<in> set gs. bt_get mp' (gc_field_id g) =
        (if gc_name g \<in> campo_nome ` set cs then bt_get fi' (gc_name g) else bt_get mp1 (gc_field_id g)))
     \<and> (\<forall>n. n \<notin> campo_nome ` set cs \<longrightarrow> bt_get fi' n = bt_get fi1 n)" by simp
  then show ?case using step fresh by auto
qed simp

lemma mappa_geometria_fold:
  "try_fold mappa_geometria [] gs = Inr mp \<Longrightarrow>
     distinct (map gc_field_id gs) \<and> (\<forall>g \<in> set gs. bt_get mp (gc_field_id g) = Some (gc_field_id g))
     \<and> (\<forall>f. bt_get mp f \<noteq> None \<longrightarrow> f \<in> gc_field_id ` set gs)"
proof (induction gs arbitrary: mp rule: rev_induct)
  case (snoc g gs)
  then obtain m0 where m0: "try_fold mappa_geometria [] gs = Inr m0" "mappa_geometria m0 g = Inr mp"
    unfolding try_fold_snoc_Inr by blast
  then have "bt_get m0 (gc_field_id g) = None" "mp = bt_insert (gc_field_id g) (gc_field_id g) m0"
    by (auto simp: mappa_geometria_def split: if_splits)
  with snoc.IH [OF m0(1)] show ?case by (auto simp: bt_simps split: if_splits)
qed (simp add: bt_simps)

lemma rimappa_geometrie:
  assumes "try_map (rimappa_geometria fi) gs = Inr gs'"
  shows "map gc_name gs' = map gc_name gs \<and> map (\<lambda>g. Some (gc_field_id g)) gs' = map (\<lambda>g. bt_get fi (gc_name g)) gs"
  using assms unfolding try_map_Inr_iff
  by (induction rule: list_all2_induct) (auto simp: rimappa_geometria_def split: option.splits)

lemma contract_new_parts:
  assumes "contract_new schema origins geometries active properties a = Inr (c, a')"
  obtains mapping mapping' field_ids where
    "length origins = length (s_campi schema)"
    "try_fold mappa_geometria [] geometries = Inr mapping"
    "try_fold (assegna_identita geometries) (fold observe (conservate origins) a, mapping, [])
       (zip (s_campi schema) origins) = Inr (a', mapping', field_ids)"
    "rimappa_primaria mapping' active = Inr (dc_active_geometry c)"
    "try_map (rimappa_geometria field_ids) geometries = Inr (dc_geometries c)"
    "dc_field_ids c = field_ids" "dc_schema c = schema" "contratto_coerente c"
  using assms
  by (auto simp: contract_new_def Let_def results valida_e_rendi_def osserva_origine_fold contract_validate_eq
      split: if_splits)

lemma assegna_identita_keys:
  assumes "try_fold (assegna_identita gs) st vs = Inr st'"
    and "\<And>f. bt_get (fst (snd st)) f \<noteq> None \<Longrightarrow> f \<in> gc_field_id ` set gs"
    and "bt_get (fst (snd st')) f \<noteq> None"
  shows "f \<in> gc_field_id ` set gs"
  using assms
proof (induction vs arbitrary: st)
  case (Cons v vs)
  obtain a mp fi where st: "st = (a, mp, fi)" by (cases st)
  obtain c o1 where v: "v = (c, o1)" by (cases v)
  from Cons.prems(1) obtain st1 where s1: "assegna_identita gs (a, mp, fi) (c, o1) = Inr st1"
    and rest: "try_fold (assegna_identita gs) st1 vs = Inr st'"
    unfolding st v try_fold_Cons_Inr by blast
  have "f \<in> gc_field_id ` set gs" if "bt_get (fst (snd st1)) f \<noteq> None" for f
    using s1 that Cons.prems(2) [of f] geometria_di_nome_in [of gs "campo_nome c"] unfolding st
    by (cases o1) (auto simp: assegna_identita_Inr bt_simps split: option.splits if_splits)
  from Cons.IH [OF rest this Cons.prems(3)] show ?case .
qed simp

lemma rimappa_primaria_segue:
  assumes active: "rimappa_primaria mapping active = Inr r"
    and keys: "\<And>f. bt_get mapping f \<noteq> None \<Longrightarrow> f \<in> gc_field_id ` set geometries"
    and primary: "\<And>g. g \<in> set geometries \<Longrightarrow> bt_get mapping (gc_field_id g) = bt_get field_ids (gc_name g)"
  shows "r = Option.bind active (\<lambda>f. Option.bind (List.find (\<lambda>g. gc_field_id g = f) geometries)
      (\<lambda>g. bt_get field_ids (gc_name g)))"
proof (cases active)
  case (Some f)
  then obtain f' where f': "bt_get mapping f = Some f'" "r = Some f'"
    using active by (auto simp: rimappa_primaria_def results)
  have "f \<in> gc_field_id ` set geometries" using keys [of f] f'(1) by simp
  then obtain g where "List.find (\<lambda>g. gc_field_id g = f) geometries = Some g"
    using find_None_all [of "\<lambda>g. gc_field_id g = f" geometries]
    by (cases "List.find (\<lambda>g. gc_field_id g = f) geometries") auto
  moreover from this have "g \<in> set geometries" "gc_field_id g = f" by (auto simp: find_Some_iff)
  ultimately show ?thesis using primary [of g] f' Some by simp
qed (use active in \<open>simp add: rimappa_primaria_def\<close>)

text \<open>C10. The contract of an output gives every column its identity by its origin: a kept column keeps the
  identity of its source, the new columns get identities pairwise different, different from every kept one
  and at or past the cursor of the plan; the geometries keep their names and the primary geometry follows
  its column to the new identity.  The contract built is coherent.\<close>

theorem contract_new_identities:
  assumes "contract_new schema origins geometries active properties a = Inr (c, a')"
  shows "contratto_coerente c
    \<and> (\<exists>nuove. map (bt_get (dc_field_ids c)) (map campo_nome (s_campi schema)) = map Some (identita_dei_campi origins nuove)
         \<and> length nuove = quante_nuove origins \<and> distinct nuove \<and> set nuove \<inter> set (conservate origins) = {}
         \<and> (\<forall>f \<in> set nuove. al_cursor a \<le> unat f \<and> unat f < al_cursor a'))
    \<and> map gc_name (dc_geometries c) = map gc_name geometries
    \<and> dc_active_geometry c =
        Option.bind active (\<lambda>f. Option.bind (List.find (\<lambda>g. gc_field_id g = f) geometries)
          (\<lambda>g. bt_get (dc_field_ids c) (gc_name g)))"
  using assms
proof (rule contract_new_parts)
  fix mapping mapping' field_ids
  assume len: "length origins = length (s_campi schema)"
    and m: "try_fold mappa_geometria [] geometries = Inr mapping"
    and fold: "try_fold (assegna_identita geometries) (fold observe (conservate origins) a, mapping, [])
       (zip (s_campi schema) origins) = Inr (a', mapping', field_ids)"
    and active: "rimappa_primaria mapping' active = Inr (dc_active_geometry c)"
    and geo: "try_map (rimappa_geometria field_ids) geometries = Inr (dc_geometries c)"
    and parts: "dc_field_ids c = field_ids" "dc_schema c = schema" and ok: "contratto_coerente c"
  have names: "map gc_name (dc_geometries c) = map gc_name geometries"
    using rimappa_geometrie [OF geo] by simp
  have fields: "distinct (map campo_nome (s_campi schema))"
    and in_schema: "gc_name ` set (dc_geometries c) \<subseteq> campo_nome ` set (s_campi schema)"
    and "sorted_wrt (<) (map (\<lambda>g. the (index_of (s_campi schema) (gc_name g))) (dc_geometries c))"
    using ok by (auto simp: contratto_coerente_def Let_def parts)
  then have "distinct (map (\<lambda>n. the (index_of (s_campi schema) n)) (map gc_name (dc_geometries c)))"
    by (simp add: strict_sorted_iff comp_def)
  then have distinct_names: "distinct (map gc_name geometries)"
    unfolding names by (simp only: distinct_map)
  from assegna_identita_fold [OF len fold] obtain nuove where
    run: "fa.corsa (replicate (quante_nuove origins) None) (fold observe (conservate origins) a) = Inr (nuove, a')"
    and ids: "length (identita_dei_campi origins nuove) = length (s_campi schema)"
      "field_ids = inserisci_tutte (map campo_nome (s_campi schema)) (identita_dei_campi origins nuove) []" by blast
  have bounds: "al_cursor a \<le> unat f \<and> unat f < al_cursor a'" if "f \<in> set nuove" for f
    using fa.corsa_bounds [OF run] fa.osserva_tutti [of a "conservate origins"] that by fastforce
  have primary: "bt_get mapping' (gc_field_id g) = bt_get field_ids (gc_name g)" if "g \<in> set geometries" for g
  proof -
    have "gc_name g \<in> gc_name ` set (dc_geometries c)"
      using that names by (metis imageI list.set_map)
    then show ?thesis
      using assegna_identita_mapping [OF distinct_names _ len fields fold] mappa_geometria_fold [OF m] in_schema that
      by auto
  qed
  have "dc_active_geometry c = Option.bind active (\<lambda>f. Option.bind (List.find (\<lambda>g. gc_field_id g = f) geometries)
      (\<lambda>g. bt_get field_ids (gc_name g)))"
    using active _ primary by (rule rimappa_primaria_segue)
      (use assegna_identita_keys [OF fold] mappa_geometria_fold [OF m] in auto)
  then show ?thesis
    using ok names ids inserisci_tutte_get [OF fields, of "identita_dei_campi origins nuove" "[]"] fa.fresh_after [OF run]
      fa.corsa_length [OF run] bounds parts(1)
    by (intro conjI exI [of _ nuove]) auto
qed

text \<open>A table with a kept column and a rebuilt geometry, which is the primary.\<close>

definition schema_contratto :: arrow_schema where
  "schema_contratto =
     \<lparr>s_campi = [Field ''chiave'' (Leaf ''Int64'') False [],
        Field ''geom'' Binary True [(GEOARROW_EXTENSION_KEY, GEOARROW_WKB_EXTENSION)]],
      s_metadati = []\<rparr>"

definition geometria_prova :: "unit geometry_column" where
  "geometria_prova =
     \<lparr>gc_field_id = 3, gc_name = ''geom'', gc_crs = CMissing, gc_dimensions = Xy, gc_encoding = None,
      gc_nullable = True, gc_types = undeclared_types\<rparr>"

definition contratto_prova :: "unit data_contract" where
  "contratto_prova =
     \<lparr>dc_schema = schema_contratto, dc_field_ids = [(''chiave'', 7), (''geom'', 8)],
      dc_geometries = [geometria_prova\<lparr>gc_field_id := 8\<rparr>], dc_active_geometry = Some 8,
      dc_properties = properties_default\<rparr>"

lemma contratto_prova_coerente: "contract_validate contratto_prova = Inr ()"
  by (simp add: contract_validate_def contratto_prova_def schema_contratto_def geometria_prova_def properties_default_def
      nome_campo_nuovo_def validate_geometry_identities_def identita_geometrica_def campo_con_contratto_def
      identita_registrata_def valida_colonna_geometrica_def field_with_name_def bt_get_def validate_declared_types_def
      canonical_geometry_types_from_metadata_def valida_ordinamento_def valida_primaria_def
      GEOARROW_EXTENSION_KEY_def GEOARROW_WKB_EXTENSION_def PLENORA_GEOMETRY_DIMENSIONS_KEY_def
      PLENORA_GEOMETRY_ENCODING_KEY_def PLENORA_GEOMETRY_CRS_RESOLUTION_KEY_def PLENORA_GEOMETRY_TYPES_KEY_def
      PLENORA_GEOMETRY_TYPES_DECLARATION_KEY_def)

lemma contratto_prova_nuovo:
  "\<exists>a'. contract_new schema_contratto [OPreserved 7, ONew] [geometria_prova] (Some 3) properties_default (allocator_new 0)
     = Inr (contratto_prova, a')"
proof -
  let ?a = "observe 7 (allocator_new 0)"
  have alloc: "alloc ?a = Inr (8, ?a\<lparr>al_next := ucast (8 :: field_id) + 1\<rparr>)"
    by (simp add: alloc_Inr) (simp add: observe_def allocator_new_def)
  have "valida_e_rendi contratto_prova = Inr contratto_prova"
    by (simp add: valida_e_rendi_def contratto_prova_coerente)
  then show ?thesis
    by (simp add: contract_new_def osserva_origine_def mappa_geometria_def assegna_identita_def alloc
        rimappa_primaria_def rimappa_geometria_def geometria_di_nome_def bt_get_def Let_def
        contratto_prova_def schema_contratto_def geometria_prova_def)
qed

theorem contract_new_identities_witness:
  "contratto_coerente contratto_prova \<and> dc_active_geometry contratto_prova = Some 8
   \<and> map (bt_get (dc_field_ids contratto_prova)) [''chiave'', ''geom''] = [Some 7, Some 8]"
proof -
  obtain a' where "contract_new schema_contratto [OPreserved 7, ONew] [geometria_prova] (Some 3) properties_default
      (allocator_new 0) = Inr (contratto_prova, a')" using contratto_prova_nuovo by blast
  from contract_new_identities [OF this] show ?thesis
    by (simp add: contratto_prova_def bt_get_def)
qed

end
