(* ===== verification/Publication.thy ===== *)
theory Publication
  imports Contract
begin

text \<open>
  The schema at the boundary of the component, from \<open>crates/plenora-core/src/contract/arrow_schema.rs\<close>
  and \<open>contract/arrow_metadata.rs\<close>: the version of the contract that a received schema declares, and the
  assignment of the field identities of a published one (\<open>pubblica_schema_con_cursore\<close>, its loop over
  the fields).  The lemmas show that a published identity is read back as it was written.
\<close>

section \<open>The version of the contract\<close>

definition PLENORA_CONTRACT_VERSION_KEY :: string where
  "PLENORA_CONTRACT_VERSION_KEY = ''plenora.contract.version''"

definition PLENORA_CONTRACT_VERSION :: nat where
  "PLENORA_CONTRACT_VERSION = 1"

definition PLENORA_NAMESPACE_PREFIX :: string where
  "PLENORA_NAMESPACE_PREFIX = ''plenora.''"

definition canonica :: "string \<Rightarrow> bool" where
  "canonica key = starts_with key PLENORA_NAMESPACE_PREFIX"

definition schema_has_canonical_keys :: "arrow_schema \<Rightarrow> bool" where
  "schema_has_canonical_keys schema \<longleftrightarrow>
     list_ex canonica (bt_keys (s_metadati schema)) \<or> list_ex (campo_con_chiave canonica) (s_campi schema)"

text \<open>The order of \<open>str\<close>, by bytes.\<close>

fun str_less :: "string \<Rightarrow> string \<Rightarrow> bool" where
  "str_less _ [] \<longleftrightarrow> False"
| "str_less [] (y # ys) \<longleftrightarrow> True"
| "str_less (x # xs) (y # ys) \<longleftrightarrow> byte_of x < byte_of y \<or> (x = y \<and> str_less xs ys)"

definition read_contract_version :: "arrow_schema \<Rightarrow> nat option result" where
  "read_contract_version schema =
     (let supportata = show_nat PLENORA_CONTRACT_VERSION in
      case bt_get (s_metadati schema) PLENORA_CONTRACT_VERSION_KEY of
        None \<Rightarrow>
          if schema_has_canonical_keys schema then
            Inl (Schema (''chiavi canoniche `'' @ PLENORA_NAMESPACE_PREFIX @ ''*` senza `'' @
              PLENORA_CONTRACT_VERSION_KEY @ ''` nei metadati dello schema''))
          else Inr None
      | Some raw \<Rightarrow>
          if raw = supportata then Inr (Some PLENORA_CONTRACT_VERSION)
          else
            (let decimale = raw \<noteq> [] \<and> (length raw = 1 \<or> \<not> starts_with raw ''0'') \<and> list_all is_ascii_digit raw;
                 significative = dropWhile (\<lambda>c. c = CHR ''0'') raw;
                 successiva = decimale \<and>
                   (length significative > length supportata
                    \<or> (length significative = length supportata \<and> str_less supportata significative))
             in if successiva then
                  Inl (Unsupported (''`'' @ PLENORA_CONTRACT_VERSION_KEY @ ''` successiva a '' @ supportata @
                    '': fallimento esplicito, mai un'interpretazione parziale''))
                else
                  Inl (Schema (''chiave `'' @ PLENORA_CONTRACT_VERSION_KEY @
                    ''`: versione sconosciuta (ammessa solo `'' @ supportata @ ''`)''))))"

section \<open>The identities of a published schema\<close>

definition conta :: "field_id \<Rightarrow> (field_id, nat) btree \<Rightarrow> (field_id, nat) btree" where
  "conta fid conteggi = bt_insert fid (case bt_get conteggi fid of None \<Rightarrow> 1 | Some n \<Rightarrow> n + 1) conteggi"

definition porta ::
    "field_id option list \<times> (field_id, nat) btree \<Rightarrow> field \<Rightarrow> (field_id option list \<times> (field_id, nat) btree) result" where
  "porta st campo =
     try_bind (canonical_field_id campo) (\<lambda>letta.
       Inr (fst st @ [letta], (case letta of None \<Rightarrow> snd st | Some fid \<Rightarrow> conta fid (snd st))))"

text \<open>\<open>osservate.iter().chain(conteggi.keys()).max()\<close>.\<close>

definition massimo :: "field_id list \<Rightarrow> field_id option" where
  "massimo xs = (case xs of [] \<Rightarrow> None | y # ys \<Rightarrow> Some (fold max ys y))"

definition pubblica_campo ::
    "(field_id, nat) btree \<Rightarrow> field_id set \<Rightarrow> field list \<times> u64 \<Rightarrow> field \<times> field_id option \<Rightarrow> (field list \<times> u64) result" where
  "pubblica_campo conteggi ambigue st voce =
     (case voce of (campo, letta) \<Rightarrow>
       if (case letta of None \<Rightarrow> False | Some fid \<Rightarrow> bt_get conteggi fid = Some 1 \<and> fid \<notin> ambigue) then
         Inr (fst st @ [campo], snd st)
       else
         (case u32_try_from (snd st) of
            None \<Rightarrow> Inl (Unsupported (''`'' @ PLENORA_FIELD_ID_KEY @
              ''`: identita' nuove oltre 4294967295 (limite di questo componente)''))
          | Some nuova \<Rightarrow>
              Inr (fst st @ [Field (campo_nome campo) (campo_tipo campo) (campo_nullable campo)
                     (bt_insert PLENORA_FIELD_ID_KEY (show_nat (unat nuova)) (campo_metadati campo))],
                   snd st + 1)))"

definition pubblica_identita ::
    "field list \<Rightarrow> field_id list \<Rightarrow> field_id set \<Rightarrow> u64 \<Rightarrow> (field list \<times> u64) result" where
  "pubblica_identita campi osservate ambigue prossima =
     try_bind (try_fold porta ([], []) campi) (\<lambda>(portate, conteggi).
       let m = massimo (osservate @ bt_keys conteggi);
           prossima = max prossima (case m of None \<Rightarrow> 0 | Some fid \<Rightarrow> ucast fid + 1)
       in try_fold (pubblica_campo conteggi ambigue) ([], prossima) (zip campi portate))"

lemma identity_roundtrip:
  "parse_unsigned_decimal (show_nat (unat fid)) = Inr (Some fid)"
  using show_nat_digits [of "unat fid"] unat_lt [of fid] by (simp add: parse_unsigned_decimal_def)

lemma canonical_field_id_written [simp]:
  "canonical_field_id (Field n t b (bt_insert PLENORA_FIELD_ID_KEY (show_nat (unat fid)) m)) = Inr (Some fid)"
  by (simp add: canonical_field_id_def bt_simps identity_roundtrip)

section \<open>Publication\<close>

lemma porta_fold:
  "try_fold porta ([], []) campi = Inr (portate, conteggi) \<Longrightarrow>
     map canonical_field_id campi = map Inr portate
     \<and> (\<forall>f. bt_get conteggi f = (if count_list portate (Some f) = 0 then None else Some (count_list portate (Some f))))"
proof (induction campi arbitrary: portate conteggi rule: rev_induct)
  case (snoc c cs)
  then obtain st where "try_fold porta ([], []) cs = Inr st" and c: "porta st c = Inr (portate, conteggi)"
    unfolding try_fold_snoc_Inr by blast
  moreover obtain ps m where st: "st = (ps, m)" by (cases st)
  ultimately have IH: "map canonical_field_id cs = map Inr ps"
    "\<And>f. bt_get m f = (if count_list ps (Some f) = 0 then None else Some (count_list ps (Some f)))"
    using snoc.IH by auto
  from c obtain letta where letta: "canonical_field_id c = Inr letta" "portate = ps @ [letta]"
    "conteggi = (case letta of None \<Rightarrow> m | Some f \<Rightarrow> conta f m)"
    unfolding porta_def st by (cases "canonical_field_id c") (auto cong: option.case_cong)
  then show ?case using IH by (cases letta) (auto simp: conta_def bt_simps)
qed (simp add: bt_simps)

lemma bt_get_in_keys: "bt_get m k \<noteq> None \<Longrightarrow> k \<in> set (bt_keys m)"
  by (auto simp: bt_get_def bt_keys_def dest!: map_of_SomeD intro: rev_image_eqI)

lemma fold_max_ge: "(m :: 'a::linorder) \<le> fold max ys m \<and> (\<forall>y \<in> set ys. y \<le> fold max ys m)"
proof (induction ys arbitrary: m)
  case (Cons y ys)
  from Cons [of "max y m"] show ?case by (auto intro: order_trans [OF max.cobounded1] order_trans [OF max.cobounded2])
qed simp

lemma massimo_bound: "f \<in> set xs \<Longrightarrow> \<exists>m. massimo xs = Some m \<and> f \<le> m"
  using fold_max_ge by (cases xs) (auto simp: massimo_def)

definition tenuta :: "(field_id, nat) btree \<Rightarrow> field_id set \<Rightarrow> field_id option \<Rightarrow> bool" where
  "tenuta conteggi ambigue letta \<longleftrightarrow>
     (case letta of None \<Rightarrow> False | Some fid \<Rightarrow> bt_get conteggi fid = Some 1 \<and> fid \<notin> ambigue)"

lemma pubblica_campo_Inr:
  "pubblica_campo conteggi ambigue (out, p) (campo, letta) = Inr st \<longleftrightarrow>
     (if tenuta conteggi ambigue letta then st = (out @ [campo], p)
      else \<exists>nuova. u32_try_from p = Some nuova \<and>
        st = (out @ [Field (campo_nome campo) (campo_tipo campo) (campo_nullable campo)
                 (bt_insert PLENORA_FIELD_ID_KEY (show_nat (unat nuova)) (campo_metadati campo))], p + 1))"
  by (cases "u32_try_from p") (auto simp: pubblica_campo_def tenuta_def)

lemma pubblica_fold:
  "try_fold (pubblica_campo conteggi ambigue) (out, p) (zip cs ls) = Inr (out', p') \<Longrightarrow>
   length ls = length cs \<Longrightarrow> map canonical_field_id cs = map Inr ls \<Longrightarrow>
   \<exists>ids nuovi. out' = out @ nuovi \<and> length nuovi = length cs \<and> map canonical_field_id nuovi = map (\<lambda>f. Inr (Some f)) ids
     \<and> unat p \<le> unat p'
     \<and> (\<forall>i < length cs. if tenuta conteggi ambigue (ls ! i) then nuovi ! i = cs ! i
          else unat p \<le> unat (ids ! i) \<and> unat (ids ! i) < unat p')
     \<and> (\<forall>i < length cs. \<forall>j < i. \<not> tenuta conteggi ambigue (ls ! i) \<longrightarrow> \<not> tenuta conteggi ambigue (ls ! j) \<longrightarrow>
          unat (ids ! j) < unat (ids ! i))
     \<and> map (\<lambda>c. (campo_nome c, campo_tipo c, campo_nullable c)) nuovi = map (\<lambda>c. (campo_nome c, campo_tipo c, campo_nullable c)) cs"
proof (induction cs arbitrary: ls out p)
  case (Cons c cs)
  then obtain l ls' where ls: "ls = l # ls'" by (cases ls) auto
  from Cons.prems(1) obtain out1 p1 where st: "pubblica_campo conteggi ambigue (out, p) (c, l) = Inr (out1, p1)"
    and rest: "try_fold (pubblica_campo conteggi ambigue) (out1, p1) (zip cs ls') = Inr (out', p')"
    unfolding ls by (cases "pubblica_campo conteggi ambigue (out, p) (c, l)") auto
  from Cons.IH [OF rest] Cons.prems(2,3) obtain ids nuovi where IH:
    "out' = out1 @ nuovi" "length nuovi = length cs" "map canonical_field_id nuovi = map (\<lambda>f. Inr (Some f)) ids"
    "unat p1 \<le> unat p'"
    "\<forall>i < length cs. if tenuta conteggi ambigue (ls' ! i) then nuovi ! i = cs ! i
          else unat p1 \<le> unat (ids ! i) \<and> unat (ids ! i) < unat p'"
    "\<forall>i < length cs. \<forall>j < i. \<not> tenuta conteggi ambigue (ls' ! i) \<longrightarrow> \<not> tenuta conteggi ambigue (ls' ! j) \<longrightarrow>
          unat (ids ! j) < unat (ids ! i)"
    "map (\<lambda>c. (campo_nome c, campo_tipo c, campo_nullable c)) nuovi = map (\<lambda>c. (campo_nome c, campo_tipo c, campo_nullable c)) cs"
    unfolding ls by auto
  show ?case
  proof (cases "tenuta conteggi ambigue l")
    case True
    then obtain f where "l = Some f" by (auto simp: tenuta_def split: option.splits)
    moreover have "out1 = out @ [c]" "p1 = p" using st True unfolding pubblica_campo_Inr by simp_all
    ultimately show ?thesis
      using True IH Cons.prems(3) unfolding ls
      by (intro exI [of _ "f # ids"] exI [of _ "c # nuovi"]) (auto simp: All_less_Suc2)
  next
    case False
    with st obtain nuova where "u32_try_from p = Some nuova" and nuova: "p1 = p + 1"
      "out1 = out @ [Field (campo_nome c) (campo_tipo c) (campo_nullable c)
                 (bt_insert PLENORA_FIELD_ID_KEY (show_nat (unat nuova)) (campo_metadati c))]"
      unfolding pubblica_campo_Inr by auto
    then have same: "unat nuova = unat p" by (simp add: u32_try_from_Some)
    have written: "canonical_field_id (Field n t b (bt_insert PLENORA_FIELD_ID_KEY (show_nat (unat p)) m)) = Inr (Some nuova)"
      for n t b m using same canonical_field_id_written [of n t b nuova m] by simp
    have p1: "unat p1 = Suc (unat p)"
      using nuova(1) same unat_lt [of nuova] by (simp add: unat_word_ariths)
    have later: "unat p < unat (ids ! i)" if "i < length cs" "\<not> tenuta conteggi ambigue (ls' ! i)" for i
      using IH(5) that p1 by (auto dest!: spec [of _ i])
    show ?thesis
      using False nuova same written IH p1 later unfolding ls
      by (intro exI [of _ "nuova # ids"]
          exI [of _ "Field (campo_nome c) (campo_tipo c) (campo_nullable c)
                 (bt_insert PLENORA_FIELD_ID_KEY (show_nat (unat nuova)) (campo_metadati c)) # nuovi"])
        (auto simp: All_less_Suc2)
  qed
qed simp

definition tiene :: "field_id option list \<Rightarrow> field_id set \<Rightarrow> nat \<Rightarrow> bool" where
  "tiene lette ambigue i \<longleftrightarrow>
     (case lette ! i of None \<Rightarrow> False | Some f \<Rightarrow> count_list lette (Some f) = 1 \<and> f \<notin> ambigue)"

lemma count_list_unique:
  "count_list xs x = 1 \<Longrightarrow> i < length xs \<Longrightarrow> j < length xs \<Longrightarrow> xs ! i = x \<Longrightarrow> xs ! j = x \<Longrightarrow> i = j"
proof (induction xs arbitrary: i j)
  case (Cons y ys)
  have zero: "count_list ys x = 0 \<Longrightarrow> k < length ys \<Longrightarrow> ys ! k \<noteq> x" for k
    by (metis count_list_0_iff nth_mem)
  show ?case using Cons zero by (cases i; cases j) (auto split: if_splits)
qed simp

lemma publication_start:
  assumes "f \<in> set osservate \<or> bt_get conteggi f \<noteq> None"
  shows "unat f < unat (max prossima (case massimo (osservate @ bt_keys conteggi) of
           None \<Rightarrow> 0 | Some fid \<Rightarrow> (ucast fid + 1 :: u64)))"
proof -
  have "f \<in> set (osservate @ bt_keys conteggi)" using assms bt_get_in_keys [of conteggi f] by auto
  then obtain m where m: "massimo (osservate @ bt_keys conteggi) = Some m" "f \<le> m" using massimo_bound by blast
  then have "unat f < unat (ucast m + 1 :: u64)" by (simp add: unat_succ_id word_le_nat_alt)
  also have "\<dots> \<le> unat (max prossima (ucast m + 1))" by (simp add: max_def word_le_nat_alt)
  finally show ?thesis using m(1) by simp
qed

lemma identita_distinte:
  assumes len: "length lette = n" "length ids = n"
    and keeps: "\<And>i. i < n \<Longrightarrow> tiene lette ambigue i \<Longrightarrow> lette ! i = Some (ids ! i)"
    and new: "\<And>i. i < n \<Longrightarrow> \<not> tiene lette ambigue i \<Longrightarrow> Some (ids ! i) \<notin> set lette"
    and mono: "\<And>i j. i < n \<Longrightarrow> j < i \<Longrightarrow> \<not> tiene lette ambigue i \<Longrightarrow> \<not> tiene lette ambigue j
      \<Longrightarrow> unat (ids ! j) < unat (ids ! i)"
  shows "distinct ids"
proof -
  have "ids ! i \<noteq> ids ! j" if "j < i" "i < n" for i j
  proof
    assume eq: "ids ! i = ids ! j"
    have mem: "lette ! k \<in> set lette" if "k < n" for k using that len by simp
    consider "tiene lette ambigue i" "tiene lette ambigue j" | "\<not> tiene lette ambigue i" "tiene lette ambigue j"
      | "tiene lette ambigue i" "\<not> tiene lette ambigue j" | "\<not> tiene lette ambigue i" "\<not> tiene lette ambigue j" by blast
    then show False
    proof cases
      case 1
      then have i: "lette ! i = Some (ids ! i)" and j: "lette ! j = Some (ids ! i)"
        using keeps [of i] keeps [of j] eq that by simp_all
      have "count_list lette (Some (ids ! i)) = 1" using 1(1) i by (simp add: tiene_def)
      then have "i = j" using count_list_unique [OF _ _ _ i j] that len by simp
      then show False using that(1) by simp
    next
      case 2
      then show False using keeps [of j] new [of i] mem [of j] eq that by auto
    next
      case 3
      then show False using keeps [of i] new [of j] mem [of i] eq that by auto
    next
      case 4
      then show False using mono [of i j] that eq by simp
    qed
  qed
  then show ?thesis unfolding distinct_conv_nth len by (metis linorder_neqE_nat)
qed

text \<open>C11. Publication: every field of the published schema carries an identity, no two the same; a field keeps
  its own exactly when no other field of the schema carries it and it is not ambiguous among the inputs; every other field gets
  one that no input used, that no field of the schema carried and that this plan has not yet published,
  and the cursor moves past it.  Nothing but the metadata of those fields changes.\<close>

theorem published_identities:
  assumes "pubblica_identita campi osservate ambigue prossima = Inr (campi', prossima')"
  shows "\<exists>lette ids. map canonical_field_id campi = map Inr lette
    \<and> map canonical_field_id campi' = map (\<lambda>f. Inr (Some f)) ids \<and> length ids = length campi \<and> distinct ids
    \<and> (\<forall>i < length campi.
         if tiene lette ambigue i then campi' ! i = campi ! i
         else ids ! i \<notin> set osservate \<and> Some (ids ! i) \<notin> set lette
           \<and> unat prossima \<le> unat (ids ! i) \<and> unat (ids ! i) < unat prossima')
    \<and> map (\<lambda>c. (campo_nome c, campo_tipo c, campo_nullable c)) campi' =
        map (\<lambda>c. (campo_nome c, campo_tipo c, campo_nullable c)) campi"
proof -
  from assms obtain lette conteggi where porta: "try_fold porta ([], []) campi = Inr (lette, conteggi)"
    by (auto simp: pubblica_identita_def results)
  define start where "start = max prossima (case massimo (osservate @ bt_keys conteggi) of
      None \<Rightarrow> 0 | Some fid \<Rightarrow> (ucast fid + 1 :: u64))"
  have run: "try_fold (pubblica_campo conteggi ambigue) ([], start) (zip campi lette) = Inr (campi', prossima')"
    using assms by (simp add: pubblica_identita_def porta Let_def start_def)
  have read: "map canonical_field_id campi = map Inr lette"
    and count: "bt_get conteggi f = (if count_list lette (Some f) = 0 then None else Some (count_list lette (Some f)))" for f
    using porta_fold [OF porta] by auto
  then have len: "length lette = length campi" by (metis length_map)
  have kept: "tenuta conteggi ambigue (lette ! i) \<longleftrightarrow> tiene lette ambigue i" for i
    by (auto simp: tenuta_def tiene_def count split: option.splits)
  have start: "unat f < unat start" if "f \<in> set osservate \<or> Some f \<in> set lette" for f
    unfolding start_def using that count [of f] by (intro publication_start) (auto simp: count_list_0_iff)
  have prossima: "unat prossima \<le> unat start" by (simp add: start_def max_def word_le_nat_alt)
  from pubblica_fold [OF run len read] obtain ids where ids:
    "length campi' = length campi" "map canonical_field_id campi' = map (\<lambda>f. Inr (Some f)) ids"
    "\<forall>i < length campi. if tiene lette ambigue i then campi' ! i = campi ! i
       else unat start \<le> unat (ids ! i) \<and> unat (ids ! i) < unat prossima'"
    "\<forall>i < length campi. \<forall>j < i. \<not> tiene lette ambigue i \<longrightarrow> \<not> tiene lette ambigue j \<longrightarrow> unat (ids ! j) < unat (ids ! i)"
    "map (\<lambda>c. (campo_nome c, campo_tipo c, campo_nullable c)) campi' =
       map (\<lambda>c. (campo_nome c, campo_tipo c, campo_nullable c)) campi"
    unfolding kept by auto
  from ids(1,2) have len_ids: "length ids = length campi" by (metis length_map)
  have keeps: "lette ! i = Some (ids ! i)" if "i < length campi" "tiene lette ambigue i" for i
  proof -
    have "canonical_field_id (campi' ! i) = Inr (Some (ids ! i))"
      using arg_cong [OF ids(2), of "\<lambda>xs. xs ! i"] that(1) ids(1) len_ids by simp
    moreover have "canonical_field_id (campi ! i) = Inr (lette ! i)"
      using arg_cong [OF read, of "\<lambda>xs. xs ! i"] that(1) len by simp
    ultimately show ?thesis using ids(3) that by auto
  qed
  have new: "ids ! i \<notin> set osservate" "Some (ids ! i) \<notin> set lette" "unat start \<le> unat (ids ! i)"
    if "i < length campi" "\<not> tiene lette ambigue i" for i
  proof -
    show le: "unat start \<le> unat (ids ! i)" using ids(3) that by simp
    show "ids ! i \<notin> set osservate" "Some (ids ! i) \<notin> set lette"
      using start [of "ids ! i"] le by auto
  qed
  have "distinct ids" using identita_distinte [OF len len_ids keeps new(2)] ids(4) by blast
  moreover have "\<forall>i < length campi. if tiene lette ambigue i then campi' ! i = campi ! i
      else ids ! i \<notin> set osservate \<and> Some (ids ! i) \<notin> set lette
        \<and> unat prossima \<le> unat (ids ! i) \<and> unat (ids ! i) < unat prossima'"
    using ids(3) new le_trans [OF prossima] by simp
  ultimately show ?thesis using read ids(2,5) len_ids by blast
qed

text \<open>Two columns that share an identity (a self-join) and one that keeps its own.\<close>

definition campi_prova :: "field list" where
  "campi_prova =
     [Field ''a'' Utf8 True [(PLENORA_FIELD_ID_KEY, ''4'')], Field ''b'' Utf8 True [(PLENORA_FIELD_ID_KEY, ''4'')],
      Field ''c'' Utf8 True [(PLENORA_FIELD_ID_KEY, ''7'')]]"

definition campi_pubblicati :: "field list" where
  "campi_pubblicati =
     [Field ''a'' Utf8 True [(PLENORA_FIELD_ID_KEY, ''10'')], Field ''b'' Utf8 True [(PLENORA_FIELD_ID_KEY, ''11'')],
      Field ''c'' Utf8 True [(PLENORA_FIELD_ID_KEY, ''7'')]]"

lemma pubblica_prova: "pubblica_identita campi_prova [4, 9] {} 0 = Inr (campi_pubblicati, 12)"
proof -
  have read: "canonical_field_id (Field n t b [(PLENORA_FIELD_ID_KEY, ''4'')]) = Inr (Some 4)"
    "canonical_field_id (Field n t b [(PLENORA_FIELD_ID_KEY, ''7'')]) = Inr (Some 7)" for n t b
    by (simp_all add: canonical_field_id_def bt_get_def parse_unsigned_decimal_def valore_decimale_def
        cifra_decimale_def is_ascii_digit_def byte_of_def)
  have porta: "try_fold porta ([], []) campi_prova = Inr ([Some 4, Some 4, Some 7], [(4, 2), (7, 1)])"
    by (simp add: campi_prova_def porta_def read conta_def bt_get_def)
  have max: "massimo [4, 9, 4, 7] = Some (9 :: field_id)"
    by (simp add: massimo_def max_def)
  have tent: "u32_try_from 10 = Some 10" "u32_try_from 11 = Some 11"
    by (simp_all add: u32_try_from_Some)
  have cifre: "show_nat 10 = ''10''" "show_nat 11 = ''11''"
    by (simp_all add: show_nat.simps digit_char_def char_of_def bit_0)
  show ?thesis
    by (simp add: pubblica_identita_def porta bt_keys_def max pubblica_campo_def)
      (simp add: campi_prova_def campi_pubblicati_def pubblica_campo_def bt_get_def tent cifre)
qed

theorem published_identities_witness:
  "pubblica_identita campi_prova [4, 9] {} 0 = Inr (campi_pubblicati, 12)
   \<and> (\<exists>ids. map canonical_field_id campi_pubblicati = map (\<lambda>f. Inr (Some f)) ids \<and> length ids = 3 \<and> distinct ids)"
  using published_identities [OF pubblica_prova] pubblica_prova
  by (auto simp: campi_prova_def)

end
