(* ===== verification/Loops.thy ===== *)
theory Loops
  imports Prelude
begin

text \<open>
  Counted loops whose body may return early: \<open>for _ in 0..n { ... ? ... }\<close> is \<open>ripeti n\<close> of the body on
  the variables the body changes.  The lemmas relate two loops by a function between their states: a loop
  that keeps less is the image of one that keeps more.
\<close>

fun ripeti :: "nat \<Rightarrow> ('s \<Rightarrow> 'e + 's) \<Rightarrow> 's \<Rightarrow> 'e + 's" where
  "ripeti 0 f s = Inr s"
| "ripeti (Suc n) f s = try_bind (f s) (ripeti n f)"

lemma ripeti_Suc_Inr: "ripeti (Suc n) f s = Inr t \<longleftrightarrow> (\<exists>s'. f s = Inr s' \<and> ripeti n f s' = Inr t)"
  by (simp add: try_bind_Inr_iff)

lemma map_ok_Inl_iff [simp]: "map_ok h r = Inl e \<longleftrightarrow> r = Inl e"
  by (cases r) auto

lemma map_ok_map_ok: "map_ok f (map_ok g r) = map_ok (\<lambda>a. f (g a)) r"
  by (cases r) auto

lemma map_ok_as_bind: "map_ok f r = try_bind r (\<lambda>a. Inr (f a))"
  by (cases r) auto

lemma try_bind_map_ok: "try_bind (map_ok h r) k = try_bind r (\<lambda>a. k (h a))"
  by (cases r) auto

lemma try_bind_assoc: "try_bind (try_bind r f) g = try_bind r (\<lambda>a. try_bind (f a) g)"
  by (cases r) auto

lemma try_bind_cong: "r = r' \<Longrightarrow> (\<And>a. r' = Inr a \<Longrightarrow> f a = g a) \<Longrightarrow> try_bind r f = try_bind r' g"
  by (cases r') auto

lemma try_bind_cong2:
  "r = r' \<Longrightarrow> (\<And>a b. r' = Inr (a, b) \<Longrightarrow> f (a, b) = g (a, b)) \<Longrightarrow> try_bind r f = try_bind r' g"
  by (cases r') auto

lemma map_ok_cong: "r = r' \<Longrightarrow> (\<And>a. r' = Inr a \<Longrightarrow> f a = g a) \<Longrightarrow> map_ok f r = map_ok g r'"
  by (cases r') auto

text \<open>The body of the smaller loop is the image of the body of the larger one.\<close>

lemma ripeti_image:
  assumes "\<And>s. map_ok h (f s) = g (h s)"
  shows "map_ok h (ripeti n f s) = ripeti n g (h s)"
proof (induction n arbitrary: s)
  case (Suc n)
  have "map_ok h (ripeti (Suc n) f s) = try_bind (f s) (\<lambda>s. ripeti n g (h s))"
    by (simp add: map_ok_try_bind Suc)
  also have "\<dots> = try_bind (map_ok h (f s)) (ripeti n g)"
    by (simp add: try_bind_map_ok)
  finally show ?case by (simp add: assms)
qed simp

lemma ripeti_invariant:
  assumes "P s" and "\<And>s s'. P s \<Longrightarrow> f s = Inr s' \<Longrightarrow> P s'"
    and "ripeti n f s = Inr t"
  shows "P t"
  using assms(1,3) by (induction n arbitrary: s) (auto simp: try_bind_Inr_iff dest: assms(2))

text \<open>A loop over a count is the loop over a list of that length, when the body at step \<open>k\<close> does what
  \<open>g\<close> does to element \<open>k\<close>.\<close>

lemma ripeti_list:
  assumes "P xs s"
    and "\<And>x xs s. P (x # xs) s \<Longrightarrow> f s = map_ok snd (g x s) \<and> (\<forall>u s'. g x s = Inr (u, s') \<longrightarrow> P xs s')"
  shows "ripeti (length xs) f s = try_fold (\<lambda>s x. map_ok snd (g x s)) s xs"
  using assms(1)
proof (induction xs arbitrary: s)
  case (Cons x xs)
  then show ?case
    using assms(2) [OF Cons.prems] by (cases "g x s") (auto simp: Cons.IH split: prod.splits)
qed simp

text \<open>\<open>yields P r\<close>: if the operation succeeds, its result satisfies \<open>P\<close>; the rules follow the program.\<close>

definition yields :: "('a \<Rightarrow> bool) \<Rightarrow> 'e + 'a \<Rightarrow> bool" where
  "yields P r \<longleftrightarrow> (\<forall>a. r = Inr a \<longrightarrow> P a)"

lemma yields_Inl [simp, intro]: "yields P (Inl e)"
  by (simp add: yields_def)

lemma yields_Inr [simp]: "yields P (Inr a) \<longleftrightarrow> P a"
  by (simp add: yields_def)

lemma yieldsD: "yields P r \<Longrightarrow> r = Inr a \<Longrightarrow> P a"
  by (simp add: yields_def)

lemma yields_bind: "(\<And>a. r = Inr a \<Longrightarrow> yields P (f a)) \<Longrightarrow> yields P (try_bind r f)"
  by (cases r) auto

lemma yields_bind2: "(\<And>a b. r = Inr (a, b) \<Longrightarrow> yields P (f (a, b))) \<Longrightarrow> yields P (try_bind r f)"
  by (cases r) auto

lemma yields_map_ok: "(\<And>a. r = Inr a \<Longrightarrow> P (h a)) \<Longrightarrow> yields P (map_ok h r)"
  by (cases r) auto

lemma yields_if: "(b \<Longrightarrow> yields P r) \<Longrightarrow> (\<not> b \<Longrightarrow> yields P s) \<Longrightarrow> yields P (if b then r else s)"
  by simp

lemma yields_ripeti:
  assumes "P s" and "\<And>s. P s \<Longrightarrow> yields P (f s)"
  shows "yields P (ripeti n f s)"
  using assms(1) by (induction n arbitrary: s) (auto intro!: yields_bind dest: yieldsD [OF assms(2)])

lemma yields_mono: "yields P r \<Longrightarrow> (\<And>a. P a \<Longrightarrow> Q a) \<Longrightarrow> yields Q r"
  by (auto simp: yields_def)

end
