(* ===== verification/WkbBytes.thy ===== *)
theory WkbBytes
  imports ContractTypes RunLimits Loops
begin

unbundle bit_operations_syntax

text \<open>
  The bytes of a WKB cell, from \<open>crates/plenora-kernels-geo/src/lib.rs\<close>: the constants and the errors,
  the cursor (\<open>WkbCursor\<close>) with its reads, \<open>checked_count\<close>, the reading of a type code
  (\<open>parse_wkb_type_code\<close>) and of an embedded SRID.  The lemmas read the cursor through the bytes it has
  left (\<open>resto\<close>): a read takes them from the front or fails.
\<close>


section \<open>Limits, flags and errors\<close>

definition MAX_WKB_BYTES :: nat where
  "MAX_WKB_BYTES = 64 * 1024 * 1024"

definition MAX_WKB_COMPONENTS :: u64 where
  "MAX_WKB_COMPONENTS = 100000"

definition MAX_WKB_DEPTH :: nat where
  "MAX_WKB_DEPTH = 64"

definition EWKB_Z_FLAG :: u32 where
  "EWKB_Z_FLAG = 0x80000000"

definition EWKB_M_FLAG :: u32 where
  "EWKB_M_FLAG = 0x40000000"

definition EWKB_SRID_FLAG :: u32 where
  "EWKB_SRID_FLAG = 0x20000000"

definition EWKB_TYPE_MASK :: u32 where
  "EWKB_TYPE_MASK = 0x0000FFFF"

definition EWKB_RESERVED_MASK :: u32 where
  "EWKB_RESERVED_MASK = 0x1FFF0000"

lemmas ewkb_flags = EWKB_Z_FLAG_def EWKB_M_FLAG_def EWKB_SRID_FLAG_def EWKB_TYPE_MASK_def EWKB_RESERVED_MASK_def

definition unsupported_wkb_dimension :: plenora_error where
  "unsupported_wkb_dimension =
     Unsupported ''WKB contiene dimensioni Z/M o SRID non preservabili nel protocollo 2D''"

definition wkb_dimension_mismatch :: plenora_error where
  "wkb_dimension_mismatch =
     InvalidPlan (''dimensionalita'' @ [CHR 0x27] @
       '' WKB incoerente con la dimensionalita'' @ [CHR 0x27] @ '' attesa dal contratto'')"

definition non_finite_coordinate :: plenora_error where
  "non_finite_coordinate = InvalidPlan ''WKB contiene coordinate NaN o infinite''"

definition invalid_wkb_structure :: "string \<Rightarrow> plenora_error" where
  "invalid_wkb_structure reason = InvalidPlan (''struttura WKB non valida: '' @ reason)"

section \<open>Integers and their bytes\<close>

text \<open>\<open>from_le_bytes\<close>, \<open>from_be_bytes\<close> and \<open>to_le_bytes\<close> of the fixed-width types.\<close>

fun from_le_bytes :: "u8 list \<Rightarrow> 'a::len word" where
  "from_le_bytes [] = 0"
| "from_le_bytes (b # bs) = ucast b OR push_bit 8 (from_le_bytes bs)"

definition from_be_bytes :: "u8 list \<Rightarrow> 'a::len word" where
  "from_be_bytes bs = from_le_bytes (rev bs)"

definition to_le_bytes :: "'a::len word \<Rightarrow> u8 list" where
  "to_le_bytes w = map (\<lambda>i. ucast (drop_bit (8 * i) w)) [0..<LENGTH('a) div 8]"

section \<open>The cursor\<close>

record wkb_cursor =
  payload :: "u8 list"
  offset :: nat

definition cursor_new :: "u8 list \<Rightarrow> wkb_cursor" where
  "cursor_new p = \<lparr>payload = p, offset = 0\<rparr>"

definition remaining :: "wkb_cursor \<Rightarrow> nat" where
  "remaining c = length (payload c) - offset c"

text \<open>\<open>payload.get(offset..).and_then(first_chunk::<N>)\<close>.\<close>

definition first_chunk :: "nat \<Rightarrow> wkb_cursor \<Rightarrow> u8 list option" where
  "first_chunk n c =
     (if offset c \<le> length (payload c) \<and> n \<le> length (drop (offset c) (payload c))
      then Some (take n (drop (offset c) (payload c))) else None)"

definition read_u8 :: "wkb_cursor \<Rightarrow> (u8 \<times> wkb_cursor) result" where
  "read_u8 c =
     (if offset c < length (payload c) then Inr (payload c ! offset c, c\<lparr>offset := offset c + 1\<rparr>)
      else Inl (invalid_wkb_structure ''byte mancante''))"

definition read_u32 :: "bool \<Rightarrow> wkb_cursor \<Rightarrow> (u32 \<times> wkb_cursor) result" where
  "read_u32 little_endian c =
     (case first_chunk 4 c of
        None \<Rightarrow> Inl (invalid_wkb_structure ''uint32 troncato'')
      | Some bytes \<Rightarrow>
          Inr (if little_endian then from_le_bytes bytes else from_be_bytes bytes, c\<lparr>offset := offset c + 4\<rparr>))"

definition read_f64 :: "bool \<Rightarrow> wkb_cursor \<Rightarrow> (f64 \<times> wkb_cursor) result" where
  "read_f64 little_endian c =
     (case first_chunk 8 c of
        None \<Rightarrow> Inl (invalid_wkb_structure ''float64 troncato'')
      | Some bytes \<Rightarrow>
          Inr (if little_endian then from_le_bytes bytes else from_be_bytes bytes, c\<lparr>offset := offset c + 8\<rparr>))"

definition skip :: "nat \<Rightarrow> wkb_cursor \<Rightarrow> wkb_cursor result" where
  "skip bytes c =
     (if remaining c < bytes then Inl (invalid_wkb_structure ''coordinata troncata'')
      else Inr (c\<lparr>offset := offset c + bytes\<rparr>))"

type_synonym coord = "f64 \<times> f64"

definition read_coordinate :: "bool \<Rightarrow> nat \<Rightarrow> wkb_cursor \<Rightarrow> (coord \<times> wkb_cursor) result" where
  "read_coordinate little_endian stride c =
     try_bind (read_f64 little_endian c) (\<lambda>(x, c).
     try_bind (read_f64 little_endian c) (\<lambda>(y, c).
       if \<not> f64_is_finite x \<or> \<not> f64_is_finite y then Inl non_finite_coordinate
       else map_ok (\<lambda>c. ((x, y), c)) (skip (stride - 16) c)))"

definition checked_count :: "u32 \<Rightarrow> nat \<Rightarrow> nat \<Rightarrow> nat result" where
  "checked_count v rimasti minimum_item_bytes =
     (if unat v > rimasti div max minimum_item_bytes 1 then
        Inl (invalid_wkb_structure ''conteggio elementi oltre i byte disponibili'')
      else Inr (unat v))"

text \<open>\<open>PartialEq\<close> of \<open>f64\<close> and of a pair of them: a NaN differs from itself, the two zeros are equal.\<close>

definition f64_eq :: "f64 \<Rightarrow> f64 \<Rightarrow> bool" where
  "f64_eq a b \<longleftrightarrow> \<not> f64_is_nan a \<and> \<not> f64_is_nan b \<and> (a = b \<or> f64_is_zero a \<and> f64_is_zero b)"

definition coord_eq :: "coord \<Rightarrow> coord \<Rightarrow> bool" where
  "coord_eq p q \<longleftrightarrow> f64_eq (fst p) (fst q) \<and> f64_eq (snd p) (snd q)"

section \<open>The type code\<close>

definition parse_wkb_type_code :: "u32 \<Rightarrow> geometry_dimensions \<Rightarrow> (u32 \<times> nat) result" where
  "parse_wkb_type_code raw_type expected =
     (if raw_type AND EWKB_SRID_FLAG \<noteq> 0 then Inl unsupported_wkb_dimension
      else
        try_bind
          (if raw_type AND (EWKB_Z_FLAG OR EWKB_M_FLAG) \<noteq> 0 then
             (if raw_type AND EWKB_RESERVED_MASK \<noteq> 0 then
                Inl (invalid_wkb_structure ''tipo geometria non supportato'')
              else
                (let has_z = raw_type AND EWKB_Z_FLAG \<noteq> 0;
                     has_m = raw_type AND EWKB_M_FLAG \<noteq> 0;
                     dimensions =
                       (case (has_z, has_m) of
                          (True, False) \<Rightarrow> Xyz | (False, True) \<Rightarrow> Xym | (True, True) \<Rightarrow> Xyzm | (False, False) \<Rightarrow> Xy)
                 in Inr (raw_type AND EWKB_TYPE_MASK, dimensions)))
           else
             map_ok (\<lambda>dimensions. (raw_type mod 1000, dimensions))
               (if raw_type div 1000 = 0 then Inr Xy
                else if raw_type div 1000 = 1 then Inr Xyz
                else if raw_type div 1000 = 2 then Inr Xym
                else if raw_type div 1000 = 3 then Inr Xyzm
                else Inl unsupported_wkb_dimension))
          (\<lambda>(geometry_type, actual).
             try_bind
               (if expected = DimUnknown then Inr actual
                else if expected = Xy \<and> actual \<noteq> Xy then Inl unsupported_wkb_dimension
                else if expected = actual then Inr actual
                else Inl wkb_dimension_mismatch)
               (\<lambda>coherent.
                  map_ok (\<lambda>stride. (geometry_type, stride))
                    (ok_or (invalid_wkb_structure ''tipo geometria non supportato'') (coordinate_stride coherent)))))"

datatype embedded_srid_policy = Reject | Match "u32 option"

definition type_code_without_embedded_srid ::
    "wkb_cursor \<Rightarrow> bool \<Rightarrow> u32 \<Rightarrow> embedded_srid_policy \<Rightarrow> (u32 \<times> wkb_cursor) result" where
  "type_code_without_embedded_srid c little_endian raw_type policy =
     (if raw_type AND EWKB_SRID_FLAG = 0 then Inr (raw_type, c)
      else
        (case policy of
           Reject \<Rightarrow> Inl unsupported_wkb_dimension
         | Match expected_srid \<Rightarrow>
             try_bind (read_u32 little_endian c) (\<lambda>(embedded_srid, c).
               case expected_srid of
                 None \<Rightarrow> Inl (Crs (''SRID EWKB embedded senza autorita'' @ [CHR 0x27] @ '' CRS governata''))
               | Some expected_srid \<Rightarrow>
                   if embedded_srid \<noteq> expected_srid then
                     Inl (Crs ''SRID EWKB embedded incoerente con lo SRID dichiarato'')
                   else Inr (raw_type AND NOT EWKB_SRID_FLAG, c))))"

text \<open>The byte order mark and the type, as every walk over a cell reads them.\<close>

definition read_byte_order :: "wkb_cursor \<Rightarrow> (bool \<times> wkb_cursor) result" where
  "read_byte_order c =
     try_bind (read_u8 c) (\<lambda>(byte_order, c).
       if byte_order = 0 then Inr (False, c)
       else if byte_order = 1 then Inr (True, c)
       else Inl (invalid_wkb_structure ''byte order non valido''))"

text \<open>One more component: the count stays within a limit.\<close>

definition count_component :: "u64 \<Rightarrow> u64 \<Rightarrow> u64 result" where
  "count_component max_components components =
     try_bind (ok_or (invalid_wkb_structure ''conteggio componenti oltre il limite'') (checked_add components 1))
       (\<lambda>components.
          if components > max_components then Inl (invalid_wkb_structure ''conteggio componenti oltre il limite'')
          else Inr components)"

section \<open>The cursor through the bytes it has left\<close>

definition resto :: "wkb_cursor \<Rightarrow> u8 list" where
  "resto c = drop (offset c) (payload c)"

definition avanza :: "nat \<Rightarrow> wkb_cursor \<Rightarrow> wkb_cursor" where
  "avanza n c = c\<lparr>offset := offset c + n\<rparr>"

lemma resto_cursor_new [simp]: "resto (cursor_new p) = p"
  by (simp add: resto_def cursor_new_def)

lemma resto_avanza [simp]: "resto (avanza n c) = drop n (resto c)"
  by (simp add: resto_def avanza_def add.commute)

lemma avanza_avanza [simp]: "avanza n (avanza m c) = avanza (m + n) c"
  by (simp add: avanza_def)

lemma avanza_0 [simp]: "avanza 0 c = c"
  by (simp add: avanza_def)

lemma remaining_resto: "remaining c = length (resto c)"
  by (simp add: remaining_def resto_def)

lemma first_chunk_resto: "0 < n \<Longrightarrow> first_chunk n c = (if n \<le> length (resto c) then Some (take n (resto c)) else None)"
  by (auto simp: first_chunk_def resto_def)

lemma read_u8_resto:
  "read_u8 c = (case resto c of [] \<Rightarrow> Inl (invalid_wkb_structure ''byte mancante'') | b # _ \<Rightarrow> Inr (b, avanza 1 c))"
  by (auto simp: read_u8_def resto_def avanza_def hd_drop_conv_nth [symmetric] split: list.splits)

lemma read_u32_resto:
  "read_u32 le c =
     (if 4 \<le> length (resto c)
      then Inr (if le then from_le_bytes (take 4 (resto c)) else from_be_bytes (take 4 (resto c)), avanza 4 c)
      else Inl (invalid_wkb_structure ''uint32 troncato''))"
  by (simp add: read_u32_def first_chunk_resto avanza_def)

lemma read_f64_resto:
  "read_f64 le c =
     (if 8 \<le> length (resto c)
      then Inr (if le then from_le_bytes (take 8 (resto c)) else from_be_bytes (take 8 (resto c)), avanza 8 c)
      else Inl (invalid_wkb_structure ''float64 troncato''))"
  by (simp add: read_f64_def first_chunk_resto avanza_def)

lemma skip_resto:
  "skip n c = (if n \<le> length (resto c) then Inr (avanza n c) else Inl (invalid_wkb_structure ''coordinata troncata''))"
  by (auto simp: skip_def remaining_resto avanza_def)

text \<open>Writing and reading a fixed-width integer.\<close>

lemma length_to_le_bytes: "length (to_le_bytes (w :: 'a::len word)) = LENGTH('a) div 8"
  by (simp add: to_le_bytes_def)

lemma bit_from_le_bytes:
  "bit (from_le_bytes bs :: 'a::len word) k \<longleftrightarrow> k < LENGTH('a) \<and> k div 8 < length bs \<and> bit (bs ! (k div 8)) (k mod 8)"
proof (induction bs arbitrary: k)
  case (Cons b bs)
  show ?case
  proof (cases "k < 8")
    case True
    then show ?thesis by (auto simp: bit_simps)
  next
    case False
    then have "k div 8 = Suc ((k - 8) div 8)" "k mod 8 = (k - 8) mod 8"
      by (simp_all add: le_div_geq le_mod_geq)
    moreover have "\<not> bit b k" using False by (auto dest: bit_imp_le_length)
    ultimately show ?thesis using False by (auto simp: bit_simps Cons.IH)
  qed
qed simp

lemma from_le_to_le_bytes:
  assumes "8 dvd LENGTH('a::len)"
  shows "from_le_bytes (to_le_bytes (w :: 'a word)) = w"
proof (rule bit_word_eqI)
  fix k
  assume k: "k < LENGTH('a)"
  with assms have "k div 8 < LENGTH('a) div 8" by (auto elim!: dvdE simp: less_mult_imp_div_less mult.commute)
  with k show "bit (from_le_bytes (to_le_bytes w) :: 'a word) k = bit w k"
    by (simp add: bit_from_le_bytes to_le_bytes_def bit_simps mult.commute)
qed

lemma to_le_bytes_u32 [simp]:
  "length (to_le_bytes (w :: u32)) = 4" "from_le_bytes (to_le_bytes w) = w"
  by (simp_all add: length_to_le_bytes from_le_to_le_bytes)

lemma to_le_bytes_f64 [simp]:
  "length (to_le_bytes (w :: f64)) = 8" "from_le_bytes (to_le_bytes w) = w"
  by (simp_all add: length_to_le_bytes from_le_to_le_bytes)

lemma read_u32_written:
  "resto c = to_le_bytes n @ rest \<Longrightarrow> read_u32 True c = Inr (n, avanza 4 c)"
  by (simp add: read_u32_resto)

lemma read_f64_written:
  "resto c = to_le_bytes x @ rest \<Longrightarrow> read_f64 True c = Inr (x, avanza 8 c)"
  by (simp add: read_f64_resto)

end
