(* ===== verification/WkbDecode.thy ===== *)
theory WkbDecode
  imports WkbBytes
begin

text \<open>
  The two walks over a WKB cell that the kernels trust: the structural validator of
  \<open>crates/plenora-kernels-geo/src/lib.rs\<close> (\<open>validate_wkb_geometry_with_dimensions\<close> and its entry points)
  and the validating decoder of \<open>wkb_decoder.rs\<close>.  The loops over coordinates, rings and children are
  \<open>ripeti\<close> on the variables they change; the recursion ends because it stops at the depth limit.

  A geometry is the enum of the \<open>geo\<close> crate by the parts the code reads.  \<open>Polygon::new\<close> belongs to that
  crate: it is the parameter \<open>polygon_new\<close>.

  The lemmas show that the decoder is the validator that keeps what it reads: same verdict, same error.
\<close>

section \<open>Geometries\<close>

record polygon =
  exterior :: "coord list"
  interiors :: "coord list list"

datatype geometry =
  Point coord
| Line coord coord
| LineString "coord list"
| Polygon polygon
| MultiPoint "coord list"
| MultiLineString "coord list list"
| MultiPolygon "polygon list"
| GeometryCollection "geometry list"
| Rect coord coord
| Triangle coord coord coord

type_synonym polygon_new = "coord list \<Rightarrow> coord list list \<Rightarrow> polygon"

section \<open>The structural validator\<close>

text \<open>One ring: the first coordinate, then the others, of which the last one is kept.\<close>

definition validate_ring :: "bool \<Rightarrow> nat \<Rightarrow> wkb_cursor \<Rightarrow> wkb_cursor result" where
  "validate_ring little_endian stride c =
     try_bind (read_u32 little_endian c) (\<lambda>(count, c).
     try_bind (checked_count count (remaining c) stride) (\<lambda>count.
       if count < 4 then Inl (invalid_wkb_structure ''anello poligonale con meno di quattro coordinate'')
       else
         try_bind (read_coordinate little_endian stride c) (\<lambda>(first, c).
         try_bind
           (ripeti (count - 1) (\<lambda>(ultima, c). read_coordinate little_endian stride c) (first, c))
           (\<lambda>(ultima, c).
              if \<not> coord_eq first ultima then Inl (invalid_wkb_structure ''anello poligonale non chiuso'')
              else Inr c))))"

definition compatible_child :: "u32 \<Rightarrow> u32 \<Rightarrow> bool" where
  "compatible_child geometry_type child_type =
     (if geometry_type = 4 then child_type = 1
      else if geometry_type = 5 then child_type = 2
      else if geometry_type = 6 then child_type = 3
      else True)"

text \<open>The state of a walk: the cursor and the components counted so far.\<close>

type_synonym walk = "wkb_cursor \<times> u64"

function validate_wkb_geometry_with_dimensions ::
    "nat \<Rightarrow> nat \<Rightarrow> geometry_dimensions \<Rightarrow> embedded_srid_policy \<Rightarrow> walk \<Rightarrow> (u32 \<times> walk) result" where
  "validate_wkb_geometry_with_dimensions depth max_depth expected srid_policy st =
     (if depth > max_depth then Inl (invalid_wkb_structure ''annidamento geometrie oltre il limite'')
      else
        try_bind (count_component MAX_WKB_COMPONENTS (snd st)) (\<lambda>components.
        try_bind (read_byte_order (fst st)) (\<lambda>(little_endian, c).
        try_bind (read_u32 little_endian c) (\<lambda>(raw_type, c).
        try_bind (type_code_without_embedded_srid c little_endian raw_type srid_policy) (\<lambda>(raw_type, c).
        try_bind (parse_wkb_type_code raw_type expected) (\<lambda>(geometry_type, stride).
          if geometry_type = 1 then
            map_ok (\<lambda>(_, c). (geometry_type, c, components)) (read_coordinate little_endian stride c)
          else if geometry_type = 2 then
            try_bind (read_u32 little_endian c) (\<lambda>(count, c).
            try_bind (checked_count count (remaining c) stride) (\<lambda>count.
              if count = 1 then
                Inl (invalid_wkb_structure ''LineString deve essere vuota o avere almeno due coordinate'')
              else
                map_ok (\<lambda>c. (geometry_type, c, components))
                  (ripeti count (\<lambda>c. map_ok snd (read_coordinate little_endian stride c)) c)))
          else if geometry_type = 3 then
            try_bind (read_u32 little_endian c) (\<lambda>(rings, c).
            try_bind (checked_count rings (remaining c) 4) (\<lambda>rings.
              map_ok (\<lambda>c. (geometry_type, c, components)) (ripeti rings (validate_ring little_endian stride) c)))
          else if 4 \<le> geometry_type \<and> geometry_type \<le> 7 then
            try_bind (read_u32 little_endian c) (\<lambda>(children, c).
            try_bind (checked_count children (remaining c) 5) (\<lambda>children.
              map_ok (\<lambda>st. (geometry_type, st))
                (ripeti children
                   (\<lambda>st.
                      try_bind
                        (validate_wkb_geometry_with_dimensions (Suc depth) max_depth expected srid_policy st)
                        (\<lambda>(child_type, st).
                           if \<not> compatible_child geometry_type child_type then
                             Inl (invalid_wkb_structure ''tipo figlio incompatibile con multi-geometria'')
                           else Inr st))
                   (c, components))))
          else Inl (invalid_wkb_structure ''tipo geometria non supportato'')))))))"
  by pat_completeness auto
termination by (relation "measure (\<lambda>(depth, max_depth, _). Suc max_depth - depth)") auto

declare validate_wkb_geometry_with_dimensions.simps [simp del]

text \<open>The bytes of a cell, walked from the first to the last.\<close>

definition validate_cell ::
    "u8 list \<Rightarrow> geometry_dimensions \<Rightarrow> embedded_srid_policy \<Rightarrow> nat \<Rightarrow> unit result" where
  "validate_cell cella dimensions srid_policy max_depth =
     (if length cella > MAX_WKB_BYTES then Inl (invalid_wkb_structure ''WKB oltre il limite di 64 MiB'')
      else
        try_bind (validate_wkb_geometry_with_dimensions 0 max_depth dimensions srid_policy (cursor_new cella, 0))
          (\<lambda>(_, c, _).
             if remaining c \<noteq> 0 then Inl (invalid_wkb_structure ''byte residui dopo la geometria'') else Inr ()))"

definition validate_wkb_contract_for_dimensions_with_depth ::
    "u8 list \<Rightarrow> geometry_dimensions \<Rightarrow> nat \<Rightarrow> unit result" where
  "validate_wkb_contract_for_dimensions_with_depth cella dimensions max_depth =
     validate_cell cella dimensions Reject max_depth"

definition validate_wkb_contract_for_dimensions :: "u8 list \<Rightarrow> geometry_dimensions \<Rightarrow> unit result" where
  "validate_wkb_contract_for_dimensions cella dimensions =
     validate_wkb_contract_for_dimensions_with_depth cella dimensions MAX_WKB_DEPTH"

definition validate_wkb_contract_with_depth :: "u8 list \<Rightarrow> nat \<Rightarrow> unit result" where
  "validate_wkb_contract_with_depth cella max_depth =
     validate_wkb_contract_for_dimensions_with_depth cella Xy max_depth"

definition validate_wkb_contract :: "u8 list \<Rightarrow> unit result" where
  "validate_wkb_contract cella = validate_wkb_contract_with_depth cella MAX_WKB_DEPTH"

definition validate_wkb_transport_for_dimensions_with_depth ::
    "u8 list \<Rightarrow> geometry_dimensions \<Rightarrow> geometry_encoding \<Rightarrow> u32 option \<Rightarrow> nat \<Rightarrow> unit result" where
  "validate_wkb_transport_for_dimensions_with_depth cella dimensions encoding expected_srid max_depth =
     validate_cell cella dimensions
       (case encoding of Wkb \<Rightarrow> Reject | Ewkb \<Rightarrow> Match expected_srid) max_depth"

section \<open>The validating decoder\<close>

definition push_coordinate ::
    "bool \<Rightarrow> nat \<Rightarrow> coord list \<times> wkb_cursor \<Rightarrow> (coord list \<times> wkb_cursor) result" where
  "push_coordinate little_endian stride st =
     map_ok (\<lambda>(p, c). (fst st @ [p], c)) (read_coordinate little_endian stride (snd st))"

definition push_last ::
    "bool \<Rightarrow> nat \<Rightarrow> coord list \<times> coord \<times> wkb_cursor \<Rightarrow> (coord list \<times> coord \<times> wkb_cursor) result" where
  "push_last little_endian stride st =
     (case st of (ring, ultima, c) \<Rightarrow>
       map_ok (\<lambda>(p, c). (ring @ [p], p, c)) (read_coordinate little_endian stride c))"

definition decode_ring :: "bool \<Rightarrow> nat \<Rightarrow> wkb_cursor \<Rightarrow> (coord list \<times> wkb_cursor) result" where
  "decode_ring little_endian stride c =
     try_bind (read_u32 little_endian c) (\<lambda>(count, c).
     try_bind (checked_count count (remaining c) stride) (\<lambda>count.
       if count < 4 then Inl (invalid_wkb_structure ''anello poligonale con meno di quattro coordinate'')
       else
         try_bind (read_coordinate little_endian stride c) (\<lambda>(first, c).
         try_bind (ripeti (count - 1) (push_last little_endian stride) ([first], first, c)) (\<lambda>(ring, ultima, c).
           if \<not> coord_eq first ultima then Inl (invalid_wkb_structure ''anello poligonale non chiuso'')
           else Inr (ring, c)))))"

text \<open>The first ring is the exterior, the others are interiors.\<close>

definition add_ring ::
    "bool \<Rightarrow> nat \<Rightarrow> coord list option \<times> coord list list \<times> wkb_cursor \<Rightarrow>
     (coord list option \<times> coord list list \<times> wkb_cursor) result" where
  "add_ring little_endian stride st =
     (case st of (esterno, interni, c) \<Rightarrow>
       map_ok
         (\<lambda>(ring, c).
            case esterno of None \<Rightarrow> (Some ring, interni, c) | Some _ \<Rightarrow> (esterno, interni @ [ring], c))
         (decode_ring little_endian stride c))"

fun as_point :: "geometry \<Rightarrow> coord option" where
  "as_point (Point p) = Some p"
| "as_point _ = None"

fun as_line :: "geometry \<Rightarrow> coord list option" where
  "as_line (LineString l) = Some l"
| "as_line _ = None"

fun as_polygon :: "geometry \<Rightarrow> polygon option" where
  "as_polygon (Polygon p) = Some p"
| "as_polygon _ = None"

definition incompatible :: plenora_error where
  "incompatible = invalid_wkb_structure ''tipo figlio incompatibile con multi-geometria''"

text \<open>The children, put together; the branch of an incompatible child is a defence, never taken.\<close>

definition assemble :: "u32 \<Rightarrow> (u32 \<times> geometry) list \<Rightarrow> (u32 \<times> geometry) result" where
  "assemble geometry_type decoded =
     (if geometry_type = 4 then
        map_ok (\<lambda>points. (4, MultiPoint points)) (try_map (\<lambda>d. ok_or incompatible (as_point (snd d))) decoded)
      else if geometry_type = 5 then
        map_ok (\<lambda>lines. (5, MultiLineString lines)) (try_map (\<lambda>d. ok_or incompatible (as_line (snd d))) decoded)
      else if geometry_type = 6 then
        map_ok (\<lambda>polygons. (6, MultiPolygon polygons))
          (try_map (\<lambda>d. ok_or incompatible (as_polygon (snd d))) decoded)
      else Inr (7, GeometryCollection (map snd decoded)))"

function decode_geometry ::
    "polygon_new \<Rightarrow> nat \<Rightarrow> nat \<Rightarrow> walk \<Rightarrow> ((u32 \<times> geometry) \<times> walk) result" where
  "decode_geometry polygon_new depth max_depth st =
     (if depth > max_depth then Inl (invalid_wkb_structure ''annidamento geometrie oltre il limite'')
      else
        try_bind (count_component MAX_WKB_COMPONENTS (snd st)) (\<lambda>components.
        try_bind (read_byte_order (fst st)) (\<lambda>(little_endian, c).
        try_bind (read_u32 little_endian c) (\<lambda>(raw_type, c).
        try_bind (parse_wkb_type_code raw_type Xy) (\<lambda>(geometry_type, stride).
          if geometry_type = 1 then
            map_ok (\<lambda>(p, c). ((1, Point p), c, components)) (read_coordinate little_endian stride c)
          else if geometry_type = 2 then
            try_bind (read_u32 little_endian c) (\<lambda>(count, c).
            try_bind (checked_count count (remaining c) stride) (\<lambda>count.
              if count = 1 then
                Inl (invalid_wkb_structure ''LineString deve essere vuota o avere almeno due coordinate'')
              else
                map_ok (\<lambda>(coordinates, c). ((2, LineString coordinates), c, components))
                  (ripeti count (push_coordinate little_endian stride) ([], c))))
          else if geometry_type = 3 then
            try_bind (read_u32 little_endian c) (\<lambda>(rings, c).
            try_bind (checked_count rings (remaining c) 4) (\<lambda>rings.
              map_ok
                (\<lambda>(esterno, interni, c).
                   ((3, Polygon (polygon_new (case esterno of None \<Rightarrow> [] | Some r \<Rightarrow> r) interni)), c, components))
                (ripeti rings (add_ring little_endian stride) (None, [], c))))
          else if 4 \<le> geometry_type \<and> geometry_type \<le> 7 then
            try_bind (read_u32 little_endian c) (\<lambda>(children, c).
            try_bind (checked_count children (remaining c) 5) (\<lambda>children.
            try_bind
              (ripeti children
                 (\<lambda>(decoded, st).
                    try_bind (decode_geometry polygon_new (Suc depth) max_depth st) (\<lambda>(child, st).
                      if \<not> compatible_child geometry_type (fst child) then
                        Inl (invalid_wkb_structure ''tipo figlio incompatibile con multi-geometria'')
                      else Inr (decoded @ [child], st)))
                 ([], c, components))
              (\<lambda>(decoded, st). map_ok (\<lambda>g. (g, st)) (assemble geometry_type decoded))))
          else Inl (invalid_wkb_structure ''tipo geometria non supportato''))))))"
  by pat_completeness auto
termination by (relation "measure (\<lambda>(_, depth, max_depth, _). Suc max_depth - depth)") auto

declare decode_geometry.simps [simp del]

definition decode_validated_with_depth :: "polygon_new \<Rightarrow> u8 list \<Rightarrow> nat \<Rightarrow> geometry result" where
  "decode_validated_with_depth polygon_new cella max_depth =
     (if length cella > MAX_WKB_BYTES then Inl (invalid_wkb_structure ''WKB oltre il limite di 64 MiB'')
      else
        try_bind (decode_geometry polygon_new 0 max_depth (cursor_new cella, 0)) (\<lambda>(d, c, _).
          if remaining c \<noteq> 0 then Inl (invalid_wkb_structure ''byte residui dopo la geometria'')
          else Inr (snd d)))"

definition decode_validated :: "polygon_new \<Rightarrow> u8 list \<Rightarrow> geometry result" where
  "decode_validated polygon_new cella = decode_validated_with_depth polygon_new cella MAX_WKB_DEPTH"

section \<open>The decoder is the validator that keeps what it reads\<close>

text \<open>The type code a decoded geometry has on the wire.\<close>

fun wkb_code :: "geometry \<Rightarrow> u32" where
  "wkb_code (Point _) = 1"
| "wkb_code (LineString _) = 2"
| "wkb_code (Polygon _) = 3"
| "wkb_code (MultiPoint _) = 4"
| "wkb_code (MultiLineString _) = 5"
| "wkb_code (MultiPolygon _) = 6"
| "wkb_code (GeometryCollection _) = 7"
| "wkb_code _ = 0"

lemma code_range: "4 \<le> (t :: u32) \<Longrightarrow> t \<le> 7 \<Longrightarrow> t = 4 \<or> t = 5 \<or> t = 6 \<or> t = 7"
  by unat_arith

lemma wkb_code_inv:
  "wkb_code g = 1 \<longleftrightarrow> as_point g \<noteq> None" "wkb_code g = 2 \<longleftrightarrow> as_line g \<noteq> None"
  "wkb_code g = 3 \<longleftrightarrow> as_polygon g \<noteq> None"
  by (cases g; simp)+

definition children_ok :: "u32 \<Rightarrow> (u32 \<times> geometry) list \<Rightarrow> bool" where
  "children_ok t ds \<longleftrightarrow> list_all (\<lambda>(k, g). k = wkb_code g \<and> compatible_child t k) ds"

lemma try_map_ok_or:
  "\<forall>x \<in> set xs. f x \<noteq> None \<Longrightarrow> try_map (\<lambda>x. ok_or e (f x)) xs = Inr (map (\<lambda>x. the (f x)) xs)"
  by (induction xs) auto

lemma assemble_ok:
  assumes ds: "children_ok t ds" and "4 \<le> t" "t \<le> 7"
  shows "\<exists>g. assemble t ds = Inr (t, g) \<and> wkb_code g = t"
proof -
  have part: "as_point (snd d) \<noteq> None" if "t = 4" "d \<in> set ds" for d
    using that ds unfolding children_ok_def compatible_child_def wkb_code_inv [symmetric] list_all_iff by auto
  have part': "as_line (snd d) \<noteq> None" if "t = 5" "d \<in> set ds" for d
    using that ds unfolding children_ok_def compatible_child_def wkb_code_inv [symmetric] list_all_iff by auto
  have part'': "as_polygon (snd d) \<noteq> None" if "t = 6" "d \<in> set ds" for d
    using that ds unfolding children_ok_def compatible_child_def wkb_code_inv [symmetric] list_all_iff by auto
  show ?thesis
    using code_range [OF assms(2,3)]
    by (auto simp: assemble_def try_map_ok_or part part' part'')
qed

lemma decode_code:
  "yields (\<lambda>((t, g), w). t = wkb_code g) (decode_geometry pn d md st)"
proof (induction pn d md st rule: decode_geometry.induct)
  case (1 pn d md st)
  have IH: "yields (\<lambda>((t, g), w). t = wkb_code g) (decode_geometry pn (Suc d) md w)" if "\<not> d > md" for w
    using 1 [OF that, of 4] by simp
  have loop: "yields (\<lambda>(ds, w). children_ok k ds)
      (ripeti n (\<lambda>(decoded, st).
         try_bind (decode_geometry pn (Suc d) md st) (\<lambda>(child, st).
           if \<not> compatible_child k (fst child) then Inl e else Inr (decoded @ [child], st))) ([], w))"
    if "\<not> d > md" for n k w e
    by (rule yields_ripeti)
      (auto intro!: yields_bind simp: children_ok_def dest!: yieldsD [OF IH [OF that]])
  have children: "t = wkb_code g"
    if "assemble k ds = Inr (t, g)" "ripeti n (\<lambda>(decoded, st).
         try_bind (decode_geometry pn (Suc d) md st) (\<lambda>(child, st).
           if \<not> compatible_child k (fst child) then Inl e else Inr (decoded @ [child], st))) ([], w) = Inr (ds, w')"
      "\<not> md < d" "4 \<le> k" "k \<le> 7" for n k w e ds w' t g
    using yieldsD [OF loop that(2)] that assemble_ok [of k ds] by auto
  show ?case
    unfolding decode_geometry.simps [of pn d md st]
    by (intro yields_if yields_bind) (auto intro!: yields_if yields_bind yields_map_ok dest: children split: prod.splits)
qed

text \<open>Forgetting the geometry.\<close>

definition forget :: "(u32 \<times> geometry) \<times> walk \<Rightarrow> u32 \<times> walk" where
  "forget = (\<lambda>((t, g), w). (t, w))"

lemma push_coordinate_snd:
  "map_ok snd (push_coordinate le n st) = map_ok snd (read_coordinate le n (snd st))"
  by (simp add: push_coordinate_def map_ok_map_ok case_prod_beta)

lemma push_last_snd:
  "map_ok snd (push_last le n st) = read_coordinate le n (snd (snd st))"
  by (simp add: push_last_def map_ok_map_ok case_prod_beta map_ok_id)

lemma ring_loop:
  "ripeti k (\<lambda>(u, c). read_coordinate le n c) (p, c) = map_ok snd (ripeti k (push_last le n) ([p], p, c))"
  by (subst ripeti_image [where g = "\<lambda>(u, c). read_coordinate le n c"]) (simp_all add: push_last_snd split_def)

lemma decode_ring_snd: "map_ok snd (decode_ring le n c) = validate_ring le n c"
  unfolding decode_ring_def validate_ring_def map_ok_try_bind ring_loop try_bind_map_ok
  by (intro try_bind_cong2 [OF refl] try_bind_cong [OF refl])
    (auto simp: map_ok_try_bind intro!: try_bind_cong2 [OF refl] try_bind_cong [OF refl])

lemma add_ring_cursor: "map_ok (\<lambda>(e, i, c). c) (add_ring le n st) = validate_ring le n ((\<lambda>(e, i, c). c) st)"
  by (cases st) (auto simp: add_ring_def map_ok_map_ok decode_ring_snd [symmetric] intro!: map_ok_cong split: option.splits)

lemma type_code_reject:
  "try_bind (type_code_without_embedded_srid c le raw Reject) (\<lambda>(raw, c). try_bind (parse_wkb_type_code raw e) (F c))
   = try_bind (parse_wkb_type_code raw e) (F c)"
  by (simp add: type_code_without_embedded_srid_def parse_wkb_type_code_def)

lemma coordinate_loop:
  "ripeti k (\<lambda>c. map_ok snd (read_coordinate le n c)) c = map_ok snd (ripeti k (push_coordinate le n) ([], c))"
  by (subst ripeti_image [where g = "\<lambda>c. map_ok snd (read_coordinate le n c)"]) (simp_all add: push_coordinate_snd)

lemma rings_loop:
  "ripeti k (validate_ring le n) c = map_ok (\<lambda>(e, i, c). c) (ripeti k (add_ring le n) (None, [], c))"
  by (subst ripeti_image [where g = "validate_ring le n"]) (simp_all add: add_ring_cursor)

lemma decode_forget:
  "map_ok forget (decode_geometry pn d md st) = validate_wkb_geometry_with_dimensions d md Xy Reject st"
proof (induction pn d md st rule: decode_geometry.induct)
  case (1 pn d md st)
  have IH: "map_ok forget (decode_geometry pn (Suc d) md w) = validate_wkb_geometry_with_dimensions (Suc d) md Xy Reject w"
    if "\<not> md < d" for w
    using 1 [of 4] that by simp
  have loop: "map_ok (\<lambda>st. (k, st)) (ripeti n (\<lambda>st.
        try_bind (validate_wkb_geometry_with_dimensions (Suc d) md Xy Reject st) (\<lambda>(child_type, st).
          if \<not> compatible_child k child_type then Inl e else Inr st)) w)
      = try_bind (ripeti n (\<lambda>(decoded, st).
          try_bind (decode_geometry pn (Suc d) md st) (\<lambda>(child, st).
            if \<not> compatible_child k (fst child) then Inl e else Inr (decoded @ [child], st))) ([], w))
          (\<lambda>(decoded, st). map_ok (\<lambda>g. forget (g, st)) (assemble k decoded))"
      (is "map_ok _ (ripeti n ?V w) = try_bind (ripeti n ?D ([], w)) _")
    if "\<not> md < d" "4 \<le> k" "k \<le> 7" for k n w e
  proof -
    have body: "map_ok snd (?D s) = ?V (snd s)" for s
      by (cases s) (auto simp: IH [OF that(1), symmetric] map_ok_try_bind try_bind_map_ok forget_def intro!: try_bind_cong)
    have ok: "yields (\<lambda>(ds, w). children_ok k ds) (ripeti n ?D ([], w))"
      by (rule yields_ripeti)
        (auto intro!: yields_bind simp: children_ok_def dest!: yieldsD [OF decode_code])
    have V: "ripeti n ?V w = map_ok snd (ripeti n ?D ([], w))"
      by (subst ripeti_image [where g = ?V]) (simp_all add: body)
    show ?thesis
    proof (cases "ripeti n ?D ([], w)")
      case (Inr r)
      obtain ds w' where r: "r = (ds, w')" by (cases r)
      with yieldsD [OF ok Inr] that(2,3) obtain g where "assemble k ds = Inr (k, g)"
        using assemble_ok by blast
      then show ?thesis unfolding V Inr r by (simp add: forget_def)
    qed (simp add: V)
  qed
  show ?case
    unfolding decode_geometry.simps [of pn d md st] validate_wkb_geometry_with_dimensions.simps [of d md Xy Reject st]
      type_code_reject if_distrib [of "map_ok forget"] map_ok_try_bind
    apply (intro if_cong refl)
     apply simp
    apply (rule try_bind_cong [OF refl])
    apply (rule try_bind_cong2 [OF refl], unfold prod.case map_ok_try_bind)+
    apply (unfold if_distrib [of "map_ok forget"] map_ok_try_bind map_ok_map_ok coordinate_loop rings_loop)
    apply (intro if_cong refl)
    by (auto simp: forget_def loop if_distrib [of "map_ok forget"] map_ok_try_bind map_ok_map_ok intro!: try_bind_cong2 [OF refl] try_bind_cong [OF refl] map_ok_cong [OF refl])
qed

text \<open>C19. The decoder and the structural validator agree on every payload, polygon constructor and depth
  limit: the validator accepts exactly the cells that decode, and where it refuses it gives the decoder's
  error, the first one in the order of the bytes.\<close>

theorem decoder_agrees_with_validator:
  "validate_wkb_contract_with_depth cella max_depth = map_ok (\<lambda>_. ()) (decode_validated_with_depth polygon_new cella max_depth)"
proof (cases "decode_geometry polygon_new 0 max_depth (cursor_new cella, 0)")
  case (Inl e)
  then show ?thesis
    using decode_forget [of polygon_new 0 max_depth "(cursor_new cella, 0)", symmetric]
    by (simp add: validate_wkb_contract_with_depth_def validate_wkb_contract_for_dimensions_with_depth_def
        validate_cell_def decode_validated_with_depth_def)
next
  case (Inr r)
  then show ?thesis
    using decode_forget [of polygon_new 0 max_depth "(cursor_new cella, 0)", symmetric]
    by (cases r) (auto simp: validate_wkb_contract_with_depth_def validate_wkb_contract_for_dimensions_with_depth_def
        validate_cell_def decode_validated_with_depth_def forget_def)
qed

end
