(* ===== verification/WkbEncode.thy ===== *)
theory WkbEncode
  imports WkbDecode
begin

text \<open>
  The encoder of the output cells (\<open>rust_backend/wkb.rs\<close> and \<open>arrow_adapter::encode_geometry\<close> of
  \<open>crates/plenora-kernels-geo\<close>) and the contract on decoded geometries (\<open>geometry_contract.rs\<close>): the
  exact size of the WKB without writing it, and the structural rules without reading it.

  The lemmas show that both are what the documentation of \<open>geometry_contract.rs\<close> promises: the size is the
  length of what the encoder writes, and the structural rules are the verdict of decoding it back.
  \<open>Polygon::new\<close> and the polygons of \<open>Rect\<close> and \<open>Triangle\<close> belong to the \<open>geo\<close> crate: they are the
  record \<open>geo_types\<close>, with their documented behaviour in \<open>geo_types_documented\<close>.
\<close>

record geo_types =
  gt_polygon_new :: polygon_new
  gt_rect_to_polygon :: "coord \<Rightarrow> coord \<Rightarrow> polygon"
  gt_triangle_to_polygon :: "coord \<Rightarrow> coord \<Rightarrow> coord \<Rightarrow> polygon"

section \<open>The encoder\<close>

datatype rust_backend_error = RbInternal string

definition write_header :: "u8 list \<Rightarrow> u32 \<Rightarrow> u8 list" where
  "write_header output type_code = output @ [1] @ to_le_bytes type_code"

definition write_count :: "u8 list \<Rightarrow> nat \<Rightarrow> rust_backend_error + u8 list" where
  "write_count output count =
     (if count < 2 ^ 32 then Inr (output @ to_le_bytes (of_nat count :: u32))
      else Inl (RbInternal ''conteggio WKB oltre u32''))"

definition write_coord :: "u8 list \<Rightarrow> coord \<Rightarrow> u8 list" where
  "write_coord output p = output @ to_le_bytes (fst p) @ to_le_bytes (snd p)"

definition write_points :: "u8 list \<Rightarrow> coord list \<Rightarrow> rust_backend_error + u8 list" where
  "write_points output line =
     map_ok (\<lambda>output. fold (\<lambda>p out. write_coord out p) line output) (write_count output (length line))"

definition write_point :: "u8 list \<Rightarrow> coord \<Rightarrow> u8 list" where
  "write_point output p = write_coord (write_header output 1) p"

definition write_line_string :: "u8 list \<Rightarrow> coord list \<Rightarrow> rust_backend_error + u8 list" where
  "write_line_string output line = write_points (write_header output 2) line"

definition polygon_is_empty :: "polygon \<Rightarrow> bool" where
  "polygon_is_empty p \<longleftrightarrow> exterior p = [] \<and> interiors p = []"

definition write_polygon :: "u8 list \<Rightarrow> polygon \<Rightarrow> rust_backend_error + u8 list" where
  "write_polygon output p =
     (let output = write_header output 3
      in if polygon_is_empty p then write_count output 0
         else
           try_bind (write_count output (length (interiors p) + 1)) (\<lambda>output.
           try_bind (write_points output (exterior p)) (\<lambda>output.
             try_fold write_points output (interiors p))))"

lemma try_fold_cong [fundef_cong]:
  "s = t \<Longrightarrow> xs = ys \<Longrightarrow> (\<And>s x. x \<in> set ys \<Longrightarrow> f s x = g s x) \<Longrightarrow> try_fold f s xs = try_fold g t ys"
proof (induction xs arbitrary: s t ys)
  case (Cons x xs)
  show ?case unfolding Cons.prems(1) Cons.prems(2) [symmetric]
    using Cons.prems(3) [of x] Cons.IH [OF refl refl] Cons.prems(2,3) by (auto split: sum.splits)
qed simp

fun write_geometry :: "geo_types \<Rightarrow> u8 list \<Rightarrow> geometry \<Rightarrow> rust_backend_error + u8 list" where
  "write_geometry G output (Point p) = Inr (write_point output p)"
| "write_geometry G output (LineString line) = write_line_string output line"
| "write_geometry G output (Polygon p) = write_polygon output p"
| "write_geometry G output (MultiPoint points) =
     map_ok (\<lambda>output. fold (\<lambda>p out. write_point out p) points output)
       (write_count (write_header output 4) (length points))"
| "write_geometry G output (MultiLineString lines) =
     try_bind (write_count (write_header output 5) (length lines)) (\<lambda>output.
       try_fold write_line_string output lines)"
| "write_geometry G output (MultiPolygon polygons) =
     try_bind (write_count (write_header output 6) (length polygons)) (\<lambda>output.
       try_fold write_polygon output polygons)"
| "write_geometry G output (GeometryCollection children) =
     try_bind (write_count (write_header output 7) (length children)) (\<lambda>output.
       try_fold (\<lambda>output child. write_geometry G output child) output children)"
| "write_geometry G output (Line inizio fine) = write_line_string output [inizio, fine]"
| "write_geometry G output (Rect mn mx) = write_polygon output (gt_rect_to_polygon G mn mx)"
| "write_geometry G output (Triangle v1 v2 v3) = write_polygon output (gt_triangle_to_polygon G v1 v2 v3)"

definition wkb_xy :: "geo_types \<Rightarrow> geometry \<Rightarrow> rust_backend_error + u8 list" where
  "wkb_xy G g = write_geometry G [] g"

definition MAX_CELL_BYTES :: nat where
  "MAX_CELL_BYTES = 64 * 1024 * 1024"

definition cell_too_large :: "nat \<Rightarrow> plenora_error" where
  "cell_too_large bytes =
     ResourceLimit (''cella WKB da '' @ show_nat bytes @ '' byte oltre il limite '' @ show_nat MAX_CELL_BYTES)"

definition encode_geometry :: "geo_types \<Rightarrow> geometry \<Rightarrow> u8 list result" where
  "encode_geometry G g =
     try_bind
       (map_err (\<lambda>_. ResourceLimit (''cella WKB con un conteggio oltre u32, oltre il limite '' @
            show_nat MAX_CELL_BYTES)) (wkb_xy G g))
       (\<lambda>bytes. if length bytes > MAX_CELL_BYTES then Inl (cell_too_large (length bytes)) else Inr bytes)"

section \<open>The size without writing\<close>

definition HEADER_BYTES :: u64 where
  "HEADER_BYTES = 5"

definition COUNT_BYTES :: u64 where
  "COUNT_BYTES = 4"

definition COORD_BYTES :: u64 where
  "COORD_BYTES = 16"

definition linestring_size_xy :: "coord list \<Rightarrow> u64" where
  "linestring_size_xy line = HEADER_BYTES + COUNT_BYTES + COORD_BYTES * of_nat (length line)"

definition polygon_size_xy :: "polygon \<Rightarrow> u64" where
  "polygon_size_xy p =
     (if polygon_is_empty p then HEADER_BYTES + COUNT_BYTES
      else HEADER_BYTES + COUNT_BYTES
        + sum_list (map (\<lambda>ring. COUNT_BYTES + COORD_BYTES * of_nat (length ring)) (exterior p # interiors p)))"

fun wkb_size_xy :: "geometry \<Rightarrow> u64" where
  "wkb_size_xy (Point _) = HEADER_BYTES + COORD_BYTES"
| "wkb_size_xy (Line _ _) = HEADER_BYTES + COUNT_BYTES + 2 * COORD_BYTES"
| "wkb_size_xy (LineString line) = linestring_size_xy line"
| "wkb_size_xy (Polygon p) = polygon_size_xy p"
| "wkb_size_xy (MultiPoint points) = HEADER_BYTES + COUNT_BYTES + of_nat (length points) * (HEADER_BYTES + COORD_BYTES)"
| "wkb_size_xy (MultiLineString lines) = HEADER_BYTES + COUNT_BYTES + sum_list (map linestring_size_xy lines)"
| "wkb_size_xy (MultiPolygon polygons) = HEADER_BYTES + COUNT_BYTES + sum_list (map polygon_size_xy polygons)"
| "wkb_size_xy (GeometryCollection children) = HEADER_BYTES + COUNT_BYTES + sum_list (map wkb_size_xy children)"
| "wkb_size_xy (Rect _ _) = HEADER_BYTES + 2 * COUNT_BYTES + 5 * COORD_BYTES"
| "wkb_size_xy (Triangle _ _ _) = HEADER_BYTES + 2 * COUNT_BYTES + 4 * COORD_BYTES"

section \<open>The structural rules on a decoded geometry\<close>

definition enter_node :: "nat \<Rightarrow> nat \<Rightarrow> u64 \<Rightarrow> u64 \<Rightarrow> u64 result" where
  "enter_node depth max_depth max_components components =
     (if depth > max_depth then Inl (invalid_wkb_structure ''annidamento geometrie oltre il limite'')
      else count_component max_components components)"

definition check_finite :: "coord \<Rightarrow> unit result" where
  "check_finite p = ensure (f64_is_finite (fst p) \<and> f64_is_finite (snd p)) non_finite_coordinate"

definition check_linestring :: "coord list \<Rightarrow> unit result" where
  "check_linestring line =
     (if length line = 1 then
        Inl (invalid_wkb_structure ''LineString deve essere vuota o avere almeno due coordinate'')
      else try_fold (\<lambda>_. check_finite) () line)"

definition check_ring :: "coord list \<Rightarrow> unit result" where
  "check_ring ring =
     (if length ring < 4 then Inl (invalid_wkb_structure ''anello poligonale con meno di quattro coordinate'')
      else
        try_bind (try_fold (\<lambda>_. check_finite) () ring) (\<lambda>_.
          if \<not> coord_eq (hd ring) (last ring) then Inl (invalid_wkb_structure ''anello poligonale non chiuso'')
          else Inr ()))"

definition check_polygon :: "polygon \<Rightarrow> unit result" where
  "check_polygon p =
     (if polygon_is_empty p then Inr () else try_fold (\<lambda>_. check_ring) () (exterior p # interiors p))"

fun validate_node :: "geometry \<Rightarrow> nat \<Rightarrow> nat \<Rightarrow> u64 \<Rightarrow> u64 \<Rightarrow> u64 result" where
  "validate_node (Point p) depth max_depth max_components components =
     try_bind (enter_node depth max_depth max_components components) (\<lambda>components.
       map_ok (\<lambda>_. components) (check_finite p))"
| "validate_node (Line inizio fine) depth max_depth max_components components =
     try_bind (enter_node depth max_depth max_components components) (\<lambda>components.
     try_bind (check_finite inizio) (\<lambda>_. map_ok (\<lambda>_. components) (check_finite fine)))"
| "validate_node (LineString line) depth max_depth max_components components =
     try_bind (enter_node depth max_depth max_components components) (\<lambda>components.
       map_ok (\<lambda>_. components) (check_linestring line))"
| "validate_node (Polygon p) depth max_depth max_components components =
     try_bind (enter_node depth max_depth max_components components) (\<lambda>components.
       map_ok (\<lambda>_. components) (check_polygon p))"
| "validate_node (MultiPoint points) depth max_depth max_components components =
     try_bind (enter_node depth max_depth max_components components) (\<lambda>components.
       try_fold (\<lambda>components p.
           try_bind (enter_node (depth + 1) max_depth max_components components) (\<lambda>components.
             map_ok (\<lambda>_. components) (check_finite p))) components points)"
| "validate_node (MultiLineString lines) depth max_depth max_components components =
     try_bind (enter_node depth max_depth max_components components) (\<lambda>components.
       try_fold (\<lambda>components line.
           try_bind (enter_node (depth + 1) max_depth max_components components) (\<lambda>components.
             map_ok (\<lambda>_. components) (check_linestring line))) components lines)"
| "validate_node (MultiPolygon polygons) depth max_depth max_components components =
     try_bind (enter_node depth max_depth max_components components) (\<lambda>components.
       try_fold (\<lambda>components p.
           try_bind (enter_node (depth + 1) max_depth max_components components) (\<lambda>components.
             map_ok (\<lambda>_. components) (check_polygon p))) components polygons)"
| "validate_node (GeometryCollection children) depth max_depth max_components components =
     try_bind (enter_node depth max_depth max_components components) (\<lambda>components.
       try_fold (\<lambda>components child. validate_node child (depth + 1) max_depth max_components components)
         components children)"
| "validate_node (Rect mn mx) depth max_depth max_components components =
     try_bind (enter_node depth max_depth max_components components) (\<lambda>components.
     try_bind (check_finite mn) (\<lambda>_. map_ok (\<lambda>_. components) (check_finite mx)))"
| "validate_node (Triangle v1 v2 v3) depth max_depth max_components components =
     try_bind (enter_node depth max_depth max_components components) (\<lambda>components.
     try_bind (check_finite v1) (\<lambda>_. try_bind (check_finite v2) (\<lambda>_.
       map_ok (\<lambda>_. components) (check_finite v3))))"

definition validate_geometry_structural :: "geometry \<Rightarrow> nat \<Rightarrow> u64 \<Rightarrow> unit result" where
  "validate_geometry_structural g max_depth max_components =
     map_ok (\<lambda>_. ()) (validate_node g 0 max_depth max_components 0)"

end
