(* ===== verification/WkbRoundtrip.thy ===== *)
theory WkbRoundtrip
  imports WkbEncode
begin

text \<open>
  Encoding and decoding meet: what the encoder of \<open>WkbEncode\<close> writes, as one expression per geometry
  (\<open>byte_wkb\<close>), and what the decoder of \<open>WkbDecode\<close> makes of those bytes.  The lemmas follow the decoder
  over written bytes, piece by piece; the properties are the exact size and the round trip.
\<close>

section \<open>What the encoder writes\<close>

definition byte_coord :: "coord \<Rightarrow> u8 list" where
  "byte_coord p = to_le_bytes (fst p) @ to_le_bytes (snd p)"

definition byte_count :: "nat \<Rightarrow> u8 list" where
  "byte_count n = to_le_bytes (of_nat n :: u32)"

definition byte_header :: "u32 \<Rightarrow> u8 list" where
  "byte_header code = 1 # to_le_bytes code"

definition byte_points :: "coord list \<Rightarrow> u8 list" where
  "byte_points ps = byte_count (length ps) @ concat (map byte_coord ps)"

definition rings_of :: "polygon \<Rightarrow> coord list list" where
  "rings_of p = (if polygon_is_empty p then [] else exterior p # interiors p)"

definition byte_polygon :: "polygon \<Rightarrow> u8 list" where
  "byte_polygon p = byte_header 3 @ byte_count (length (rings_of p)) @ concat (map byte_points (rings_of p))"

fun byte_wkb :: "geo_types \<Rightarrow> geometry \<Rightarrow> u8 list" where
  "byte_wkb G (Point p) = byte_header 1 @ byte_coord p"
| "byte_wkb G (LineString l) = byte_header 2 @ byte_points l"
| "byte_wkb G (Polygon p) = byte_polygon p"
| "byte_wkb G (MultiPoint ps) = byte_header 4 @ byte_count (length ps) @ concat (map (\<lambda>p. byte_header 1 @ byte_coord p) ps)"
| "byte_wkb G (MultiLineString ls) = byte_header 5 @ byte_count (length ls) @ concat (map (\<lambda>l. byte_header 2 @ byte_points l) ls)"
| "byte_wkb G (MultiPolygon ps) = byte_header 6 @ byte_count (length ps) @ concat (map byte_polygon ps)"
| "byte_wkb G (GeometryCollection gs) = byte_header 7 @ byte_count (length gs) @ concat (map (byte_wkb G) gs)"
| "byte_wkb G (Line a b) = byte_header 2 @ byte_points [a, b]"
| "byte_wkb G (Rect a b) = byte_polygon (gt_rect_to_polygon G a b)"
| "byte_wkb G (Triangle a b c) = byte_polygon (gt_triangle_to_polygon G a b c)"

text \<open>Every count fits in 32 bits.\<close>

definition line_fits :: "coord list \<Rightarrow> bool" where
  "line_fits l \<longleftrightarrow> length l < 2 ^ 32"

definition polygon_fits :: "polygon \<Rightarrow> bool" where
  "polygon_fits p \<longleftrightarrow> length (rings_of p) < 2 ^ 32 \<and> list_all line_fits (rings_of p)"

fun fits :: "geo_types \<Rightarrow> geometry \<Rightarrow> bool" where
  "fits G (Point p) = True"
| "fits G (LineString l) = line_fits l"
| "fits G (Polygon p) = polygon_fits p"
| "fits G (MultiPoint ps) = (length ps < 2 ^ 32)"
| "fits G (MultiLineString ls) = (length ls < 2 ^ 32 \<and> list_all line_fits ls)"
| "fits G (MultiPolygon ps) = (length ps < 2 ^ 32 \<and> list_all polygon_fits ps)"
| "fits G (GeometryCollection gs) = (length gs < 2 ^ 32 \<and> list_all (fits G) gs)"
| "fits G (Line a b) = True"
| "fits G (Rect a b) = polygon_fits (gt_rect_to_polygon G a b)"
| "fits G (Triangle a b c) = polygon_fits (gt_triangle_to_polygon G a b c)"

lemma write_count_Inr [results]: "write_count out n = Inr out' \<longleftrightarrow> n < 2 ^ 32 \<and> out' = out @ byte_count n"
  by (auto simp: write_count_def byte_count_def)

lemma fold_write_coord: "fold (\<lambda>p out. write_coord out p) ps out = out @ concat (map byte_coord ps)"
  by (induction ps arbitrary: out) (simp_all add: write_coord_def byte_coord_def)

lemma write_points_Inr [results]:
  "write_points out ps = Inr out' \<longleftrightarrow> line_fits ps \<and> out' = out @ byte_points ps"
  by (auto simp: write_points_def results line_fits_def byte_points_def fold_write_coord)

lemma write_line_string_Inr [results]:
  "write_line_string out ps = Inr out' \<longleftrightarrow> line_fits ps \<and> out' = out @ byte_header 2 @ byte_points ps"
  by (auto simp: write_line_string_def results write_header_def byte_header_def)

text \<open>A loop of writers, each appending what it writes.\<close>

lemma try_fold_writes:
  assumes "\<And>x out out'. x \<in> set xs \<Longrightarrow> w out x = Inr out' \<longleftrightarrow> P x \<and> out' = out @ b x"
  shows "try_fold w out xs = Inr out' \<longleftrightarrow> list_all P xs \<and> out' = out @ concat (map b xs)"
  using assms
proof (induction xs arbitrary: out)
  case (Cons x xs)
  show ?case
    unfolding try_fold_Cons_Inr by (auto simp: Cons.prems Cons.IH)
qed auto

lemma write_polygon_Inr [results]:
  "write_polygon out p = Inr out' \<longleftrightarrow> polygon_fits p \<and> out' = out @ byte_polygon p"
proof -
  have "try_fold write_points out rs = Inr out' \<longleftrightarrow> list_all line_fits rs \<and> out' = out @ concat (map byte_points rs)"
    for out out' rs
    by (rule try_fold_writes) (simp add: results)
  then show ?thesis
    by (auto simp: write_polygon_def Let_def results write_header_def byte_polygon_def byte_header_def
        polygon_fits_def rings_of_def)
qed

lemma write_point_eq: "write_point out p = out @ byte_header 1 @ byte_coord p"
  by (simp add: write_point_def write_header_def write_coord_def byte_header_def byte_coord_def)

lemma write_geometry_Inr: "write_geometry G out g = Inr out' \<longleftrightarrow> fits G g \<and> out' = out @ byte_wkb G g"
proof (induction g arbitrary: out out')
  case (MultiPoint ps)
  have "fold (\<lambda>p out. write_point out p) ps out = out @ concat (map (\<lambda>p. byte_header 1 @ byte_coord p) ps)" for out
    by (induction ps arbitrary: out) (simp_all add: write_point_eq)
  then show ?case by (auto simp: results write_header_def byte_header_def)
next
  case (MultiLineString ls)
  have "try_fold write_line_string out ls = Inr out' \<longleftrightarrow>
      list_all line_fits ls \<and> out' = out @ concat (map (\<lambda>l. byte_header 2 @ byte_points l) ls)" for out out'
    by (rule try_fold_writes) (simp add: results)
  then show ?case by (auto simp: results write_header_def byte_header_def)
next
  case (MultiPolygon ps)
  have "try_fold write_polygon out ps = Inr out' \<longleftrightarrow> list_all polygon_fits ps \<and> out' = out @ concat (map byte_polygon ps)"
    for out out'
    by (rule try_fold_writes) (simp add: results)
  then show ?case by (auto simp: results write_header_def byte_header_def)
next
  case (GeometryCollection gs)
  have "try_fold (\<lambda>out g. write_geometry G out g) out gs = Inr out' \<longleftrightarrow>
      list_all (fits G) gs \<and> out' = out @ concat (map (byte_wkb G) gs)" for out out'
    by (rule try_fold_writes) (rule GeometryCollection)
  then show ?case by (auto simp: results write_header_def byte_header_def)
qed (auto simp: results write_point_eq line_fits_def)

lemma wkb_xy_Inr [results]: "wkb_xy G g = Inr bytes \<longleftrightarrow> fits G g \<and> bytes = byte_wkb G g"
  by (simp add: wkb_xy_def write_geometry_Inr)

section \<open>The geometries of the geo crate, as documented\<close>

text \<open>
  \<open>Polygon::new\<close> closes the rings that are not closed, by pushing their first point again, and leaves the others
  alone; \<open>Rect::to_polygon\<close> passes it a ring over the four corners, \<open>Triangle::to_polygon\<close> the ring of its
  vertices.  A ring that starts and ends at a point with a \<open>NaN\<close> is not closed, since \<open>NaN\<close> differs from itself.
\<close>

definition closed_ring :: "coord list \<Rightarrow> bool" where
  "closed_ring r \<longleftrightarrow> r = [] \<or> coord_eq (hd r) (last r)"

definition close_ring :: "coord list \<Rightarrow> coord list" where
  "close_ring r = (if closed_ring r then r else r @ [hd r])"

definition anello_rettangolo :: "coord \<Rightarrow> coord \<Rightarrow> coord list \<Rightarrow> bool" where
  "anello_rettangolo a b r \<longleftrightarrow> length r = 5 \<and> hd r = last r \<and> set r = {fst a, fst b} \<times> {snd a, snd b}"

definition geo_types_documented :: "geo_types \<Rightarrow> bool" where
  "geo_types_documented G \<longleftrightarrow>
     (\<forall>e ints. closed_ring e \<longrightarrow> list_all closed_ring ints \<longrightarrow>
        gt_polygon_new G e ints = \<lparr>exterior = e, interiors = ints\<rparr>)
     \<and> (\<forall>a b. \<exists>r. anello_rettangolo a b r \<and> gt_rect_to_polygon G a b = \<lparr>exterior = close_ring r, interiors = []\<rparr>)
     \<and> (\<forall>a b c. gt_triangle_to_polygon G a b c = \<lparr>exterior = close_ring [a, b, c, a], interiors = []\<rparr>)"

lemma documented_polygon:
  "geo_types_documented G \<Longrightarrow> closed_ring e \<Longrightarrow> list_all closed_ring ints \<Longrightarrow>
     gt_polygon_new G e ints = \<lparr>exterior = e, interiors = ints\<rparr>"
  by (auto simp: geo_types_documented_def)

lemma close_ring_ends:
  assumes "r \<noteq> []" and "hd r = last r"
  shows "set (close_ring r) = set r" "hd (close_ring r) = last (close_ring r)" "length r \<le> length (close_ring r)"
  using assms by (auto simp: close_ring_def)

lemma close_ring_closed: "hd r = last r \<Longrightarrow> coord_eq (hd r) (hd r) \<Longrightarrow> close_ring r = r"
  by (simp add: close_ring_def closed_ring_def)

lemma documented_rect:
  assumes "geo_types_documented G"
  obtains r where "gt_rect_to_polygon G a b = \<lparr>exterior = close_ring r, interiors = []\<rparr>" "length r = 5" "hd r = last r"
    "set r = {fst a, fst b} \<times> {snd a, snd b}"
proof -
  have "\<exists>r. anello_rettangolo a b r \<and> gt_rect_to_polygon G a b = \<lparr>exterior = close_ring r, interiors = []\<rparr>"
    using assms unfolding geo_types_documented_def by blast
  then show ?thesis using that by (auto simp: anello_rettangolo_def)
qed

lemma documented_triangle:
  "geo_types_documented G \<Longrightarrow> gt_triangle_to_polygon G a b c = \<lparr>exterior = close_ring [a, b, c, a], interiors = []\<rparr>"
  unfolding geo_types_documented_def by blast

section \<open>The exact size\<close>

lemma length_byte_coord [simp]: "length (byte_coord p) = 16"
  by (simp add: byte_coord_def)

lemma length_byte_count [simp]: "length (byte_count n) = 4"
  by (simp add: byte_count_def)

lemma length_byte_header [simp]: "length (byte_header k) = 5"
  by (simp add: byte_header_def)

lemma length_concat_const: "(\<And>x. x \<in> set xs \<Longrightarrow> length (f x) = k) \<Longrightarrow> length (concat (map f xs)) = length xs * k"
  by (induction xs) auto

lemma length_byte_points [simp]: "length (byte_points ps) = 4 + 16 * length ps"
  by (simp add: byte_points_def length_concat_const)

lemmas wkb_sizes = HEADER_BYTES_def COUNT_BYTES_def COORD_BYTES_def

lemma of_nat_length_concat:
  "(of_nat (length (concat (map f xs))) :: u64) = sum_list (map (\<lambda>x. of_nat (length (f x))) xs)"
  by (induction xs) auto

lemma linestring_size: "linestring_size_xy l = of_nat (length (byte_header 2 @ byte_points l))"
  by (simp add: linestring_size_xy_def wkb_sizes)

lemma polygon_size: "polygon_size_xy p = of_nat (length (byte_polygon p))"
  by (simp add: polygon_size_xy_def byte_polygon_def rings_of_def wkb_sizes of_nat_length_concat
     )

text \<open>The geometries whose \<open>Rect\<close> and \<open>Triangle\<close> have no \<open>NaN\<close> where their ring starts: the others are written with
  one point more than \<open>wkb_size_xy\<close> counts.\<close>

fun anelli_chiusi :: "geometry \<Rightarrow> bool" where
  "anelli_chiusi (Rect a b) \<longleftrightarrow> coord_eq a a \<and> coord_eq b b"
| "anelli_chiusi (Triangle a b c) \<longleftrightarrow> coord_eq a a"
| "anelli_chiusi (GeometryCollection gs) \<longleftrightarrow> list_all anelli_chiusi gs"
| "anelli_chiusi _ \<longleftrightarrow> True"

lemma coord_eq_self: "coord_eq p p \<longleftrightarrow> \<not> f64_is_nan (fst p) \<and> \<not> f64_is_nan (snd p)"
  by (auto simp: coord_eq_def f64_eq_def)

lemma wkb_size: "geo_types_documented G \<Longrightarrow> anelli_chiusi g \<Longrightarrow> wkb_size_xy g = of_nat (length (byte_wkb G g))"
proof (induction g)
  case (MultiPoint ps)
  then show ?case by (simp add: length_concat_const wkb_sizes algebra_simps)
next
  case (MultiLineString ls)
  then show ?case
    by (simp add: of_nat_length_concat linestring_size wkb_sizes cong: map_cong)
next
  case (MultiPolygon ps)
  then show ?case
    by (simp add: of_nat_length_concat polygon_size wkb_sizes cong: map_cong)
next
  case (GeometryCollection gs)
  then show ?case
    by (simp add: of_nat_length_concat wkb_sizes list_all_iff cong: map_cong)
next
  case (Rect a b)
  from Rect(1) obtain r where r: "gt_rect_to_polygon G a b = \<lparr>exterior = close_ring r, interiors = []\<rparr>" "length r = 5"
      "hd r = last r" "set r = {fst a, fst b} \<times> {snd a, snd b}"
    by (rule documented_rect)
  then have "r \<noteq> []" by auto
  then have "hd r \<in> set r" by simp
  then have "coord_eq (hd r) (hd r)" using Rect(2) r(4) by (auto simp: coord_eq_self)
  then have "close_ring r = r" using r(3) by (rule close_ring_closed [rotated])
  then show ?case using r by (auto simp: byte_polygon_def rings_of_def polygon_is_empty_def wkb_sizes)
next
  case (Triangle a b c)
  then have "close_ring [a, b, c, a] = [a, b, c, a]" by (intro close_ring_closed) simp_all
  then show ?case using Triangle(1)
    by (simp add: documented_triangle byte_polygon_def rings_of_def polygon_is_empty_def wkb_sizes)
qed (simp_all add: wkb_sizes linestring_size polygon_size)

section \<open>The decoder over written bytes\<close>

lemma checked_count_written:
  assumes "n < 2 ^ 32" and "n * m \<le> rimasti" and "0 < m"
  shows "checked_count (of_nat n) rimasti m = Inr n"
proof -
  have "unat (of_nat n :: u32) = n" using assms(1) by (simp add: unat_of_nat)
  moreover have "n \<le> rimasti div m" using assms(2,3) by (simp add: less_eq_div_iff_mult_less_eq)
  moreover have "max m 1 = m" using assms(3) by simp
  ultimately show ?thesis by (simp add: checked_count_def)
qed

lemma read_count_written:
  "resto c = byte_count n @ rest \<Longrightarrow> n < 2 ^ 32 \<Longrightarrow> n * m \<le> length rest \<Longrightarrow> 0 < m \<Longrightarrow>
     try_bind (read_u32 True c) (\<lambda>(count, c). try_bind (checked_count count (remaining c) m) (F c)) = F (avanza 4 c) n"
  by (simp add: byte_count_def read_u32_written checked_count_written remaining_resto)

lemma read_coordinate_written:
  assumes "resto c = byte_coord p @ rest"
  shows "read_coordinate True 16 c = map_ok (\<lambda>_. (p, avanza 16 c)) (check_finite p)"
proof -
  have x: "read_f64 True c = Inr (fst p, avanza 8 c)"
    using assms by (intro read_f64_written) (simp add: byte_coord_def)
  have y: "read_f64 True (avanza 8 c) = Inr (snd p, avanza 8 (avanza 8 c))"
    using assms by (intro read_f64_written) (simp add: byte_coord_def)
  show ?thesis
    by (simp add: read_coordinate_def x y skip_resto check_finite_def ensure_def)
qed

text \<open>A loop over written pieces: each step consumes one piece, extends the accumulator, and may be refused.\<close>

lemma ripeti_written:
  assumes body: "\<And>x c acc k rest. x \<in> set xs \<Longrightarrow> resto c = b x @ rest \<Longrightarrow>
      f (mk acc c k) = map_ok (mk (step acc x) (avanza (length (b x)) c)) (chk k x)"
    and "resto c = concat (map b xs) @ rest"
  shows "ripeti (length xs) f (mk acc c k)
    = map_ok (mk (foldl step acc xs) (avanza (length (concat (map b xs))) c)) (try_fold chk k xs)"
  using assms
proof (induction xs arbitrary: acc c k)
  case (Cons x xs)
  have "f (mk acc c k) = map_ok (mk (step acc x) (avanza (length (b x)) c)) (chk k x)"
    using Cons.prems(2) by (intro Cons.prems(1)) simp_all
  moreover have "ripeti (length xs) f (mk (step acc x) (avanza (length (b x)) c) k')
      = map_ok (mk (foldl step acc (x # xs)) (avanza (length (concat (map b (x # xs)))) c)) (try_fold chk k' xs)" for k'
    using Cons.IH [of "avanza (length (b x)) c" "step acc x" k'] Cons.prems
    by (simp add: add.commute)
  ultimately show ?case by (cases "chk k x") simp_all
qed simp

lemma foldl_snoc: "foldl (\<lambda>acc p. acc @ [h p]) acc ps = acc @ map h ps"
  by (induction ps arbitrary: acc) simp_all

lemma coordinates_written:
  assumes "resto c = concat (map byte_coord ps) @ rest"
  shows "ripeti (length ps) (push_coordinate True 16) (acc, c)
    = map_ok (\<lambda>_. (acc @ ps, avanza (16 * length ps) c)) (try_fold (\<lambda>_. check_finite) () ps)"
  using ripeti_written [where mk = "\<lambda>acc c (k :: unit). (acc, c)" and b = byte_coord and xs = ps and c = c
      and f = "push_coordinate True 16" and step = "\<lambda>acc p. acc @ [p]" and chk = "\<lambda>_. check_finite", OF _ assms, of acc]
  by (simp add: push_coordinate_def read_coordinate_written map_ok_map_ok length_concat_const foldl_snoc [where h = "\<lambda>p. p"] mult.commute)

lemma check_finite_Inr [results]:
  "check_finite p = Inr u \<longleftrightarrow> f64_is_finite (fst p) \<and> f64_is_finite (snd p)"
  by (simp add: check_finite_def results)

lemma last_written:
  assumes "resto c = concat (map byte_coord ps) @ rest"
  shows "ripeti (length ps) (push_last True 16) ([p], p, c)
    = map_ok (\<lambda>_. (p # ps, last (p # ps), avanza (16 * length ps) c)) (try_fold (\<lambda>_. check_finite) () ps)"
proof -
  have fold: "foldl (\<lambda>(r, l) p. (r @ [p], p)) (r, l) ps = (r @ ps, last (l # ps))" for r l
    by (induction ps arbitrary: r l) simp_all
  show ?thesis
    using ripeti_written [where mk = "\<lambda>(r, l) c (k :: unit). (r, l, c)" and b = byte_coord and xs = ps and c = c
        and f = "push_last True 16" and step = "\<lambda>(r, l) p. (r @ [p], p)" and chk = "\<lambda>_. check_finite",
        OF _ assms, of "([p], p)"]
    by (simp add: push_last_def read_coordinate_written map_ok_map_ok length_concat_const fold mult.commute split: prod.splits)
qed

lemma ring_written:
  assumes "resto c = byte_points r @ rest" and "line_fits r"
  shows "decode_ring True 16 c = map_ok (\<lambda>_. (r, avanza (length (byte_points r)) c)) (check_ring r)"
proof (cases r)
  case Nil
  then show ?thesis
    using assms read_count_written [of c 0 rest 16 "\<lambda>c n. if n < 4 then Inl _ else _ c n"]
    by (simp add: decode_ring_def check_ring_def byte_points_def read_u32_written byte_count_def checked_count_def)
next
  case (Cons p ps)
  have c: "resto c = byte_count (length r) @ concat (map byte_coord r) @ rest"
    using assms by (simp add: byte_points_def)
  have p: "resto (avanza 4 c) = byte_coord p @ concat (map byte_coord ps) @ rest"
    using c Cons by simp
  have ps: "resto (avanza 20 c) = concat (map byte_coord ps) @ rest"
    using c Cons by simp
  have "decode_ring True 16 c =
      (if length r < 4 then Inl (invalid_wkb_structure ''anello poligonale con meno di quattro coordinate'')
       else
         try_bind (read_coordinate True 16 (avanza 4 c)) (\<lambda>(first, c).
         try_bind (ripeti (length r - 1) (push_last True 16) ([first], first, c)) (\<lambda>(ring, ultima, c).
           if \<not> coord_eq first ultima then Inl (invalid_wkb_structure ''anello poligonale non chiuso'')
           else Inr (ring, c))))"
    unfolding decode_ring_def
    by (rule read_count_written [OF c]) (use assms(2) in \<open>simp_all add: line_fits_def length_concat_const\<close>)
  then show ?thesis
    using read_coordinate_written [OF p] last_written [OF ps, of p] Cons
    by (cases "check_finite p"; cases "try_fold (\<lambda>_. check_finite) () ps")
      (simp_all add: check_ring_def)
qed

lemma check_ring_closed: "check_ring r = Inr () \<Longrightarrow> closed_ring r"
  by (simp add: check_ring_def closed_ring_def results split: if_splits)

text \<open>The rings of a polygon: the first is the exterior.\<close>

definition put_ring :: "coord list option \<times> coord list list \<Rightarrow> coord list \<Rightarrow> coord list option \<times> coord list list" where
  "put_ring acc r = (case acc of (None, i) \<Rightarrow> (Some r, i) | (Some e, i) \<Rightarrow> (Some e, i @ [r]))"

lemma foldl_put_ring: "foldl put_ring (Some e, i) rs = (Some e, i @ rs)"
  by (induction rs arbitrary: i) (simp_all add: put_ring_def)

lemma rings_written:
  assumes "resto c = concat (map byte_points rs) @ rest" and "list_all line_fits rs"
  shows "ripeti (length rs) (add_ring True 16) (None, [], c)
    = map_ok (\<lambda>_. (fst (foldl put_ring (None, []) rs), snd (foldl put_ring (None, []) rs),
          avanza (length (concat (map byte_points rs))) c)) (try_fold (\<lambda>_. check_ring) () rs)"
proof -
  have "add_ring True 16 (fst acc, snd acc, c)
      = map_ok (\<lambda>k. (fst (put_ring acc r), snd (put_ring acc r), avanza (length (byte_points r)) c)) (check_ring r)"
    if "r \<in> set rs" "resto c = byte_points r @ rest" for r acc c rest
    using that assms(2)
    by (auto simp: add_ring_def ring_written list_all_iff map_ok_map_ok put_ring_def split: option.splits prod.splits
        intro!: map_ok_cong)
  from ripeti_written [where mk = "\<lambda>acc c (k :: unit). (fst acc, snd acc, c)" and b = byte_points and xs = rs and c = c
      and f = "add_ring True 16" and step = put_ring and chk = "\<lambda>_. check_ring"
        and acc = "(None, [])", OF this assms(1)]
  show ?thesis by simp
qed

lemma polygon_written:
  assumes "geo_types_documented G"
    and "resto c = byte_count (length (rings_of p)) @ concat (map byte_points (rings_of p)) @ rest" and "polygon_fits p"
  shows "try_bind (read_u32 True c) (\<lambda>(rings, c). try_bind (checked_count rings (remaining c) 4) (\<lambda>rings.
          map_ok (\<lambda>(e, i, c). ((3, Polygon (gt_polygon_new G (case e of None \<Rightarrow> [] | Some r \<Rightarrow> r) i)), c, k))
            (ripeti rings (add_ring True 16) (None, [], c))))
    = map_ok (\<lambda>_. ((3, Polygon p), avanza (4 + length (concat (map byte_points (rings_of p)))) c, k)) (check_polygon p)"
proof -
  have "try_bind (read_u32 True c) (\<lambda>(rings, c). try_bind (checked_count rings (remaining c) 4) (\<lambda>rings.
          map_ok (\<lambda>(e, i, c). ((3, Polygon (gt_polygon_new G (case e of None \<Rightarrow> [] | Some r \<Rightarrow> r) i)), c, k))
            (ripeti rings (add_ring True 16) (None, [], c))))
      = map_ok (\<lambda>(e, i, c). ((3, Polygon (gt_polygon_new G (case e of None \<Rightarrow> [] | Some r \<Rightarrow> r) i)), c, k))
            (ripeti (length (rings_of p)) (add_ring True 16) (None, [], avanza 4 c))"
  proof (rule read_count_written [OF assms(2)])
    have "length rs * 4 \<le> length (concat (map byte_points rs))" for rs
      by (induction rs) auto
    from this [of "rings_of p"] show "length (rings_of p) * 4 \<le> length (concat (map byte_points (rings_of p)) @ rest)"
      by simp
  qed (use assms(3) in \<open>simp_all add: polygon_fits_def\<close>)
  also have "\<dots> = map_ok (\<lambda>_. ((3, Polygon p), avanza (4 + length (concat (map byte_points (rings_of p)))) c, k)) (check_polygon p)"
  proof (cases "polygon_is_empty p")
    case True
    then have "p = \<lparr>exterior = [], interiors = []\<rparr>" by (cases p) (simp add: polygon_is_empty_def)
    with True show ?thesis
      by (simp add: rings_of_def check_polygon_def documented_polygon [OF assms(1)] closed_ring_def)
  next
    case False
    have rings: "resto (avanza 4 c) = concat (map byte_points (exterior p # interiors p)) @ rest"
      using assms(2) False by (simp add: rings_of_def)
    have eq: "Polygon (gt_polygon_new G (exterior p) (interiors p)) = Polygon p"
      if "try_fold (\<lambda>_. check_ring) () (exterior p # interiors p) = Inr ()"
    proof -
      have "\<forall>r \<in> set (exterior p # interiors p). check_ring r = Inr ()"
        using that unfolding try_fold_check .
      then show ?thesis
        by (subst documented_polygon [OF assms(1)]) (auto simp: list_all_iff intro: check_ring_closed)
    qed
    show ?thesis
      using False assms(3) rings_written [OF rings] eq
      by (auto simp: rings_of_def check_polygon_def map_ok_map_ok polygon_fits_def foldl_put_ring put_ring_def
          simp del: try_fold.simps concat.simps intro!: map_ok_cong)
  qed
  finally show ?thesis .
qed

text \<open>A header, and what the decoder goes on with.\<close>

lemma header_written:
  assumes "resto c = byte_header code @ rest"
  shows "read_byte_order c = Inr (True, avanza (Suc 0) c)" and "read_u32 True (avanza (Suc 0) c) = Inr (code, avanza 5 c)"
proof -
  show "read_byte_order c = Inr (True, avanza (Suc 0) c)"
    using assms by (simp add: read_byte_order_def read_u8_resto byte_header_def)
  have "read_u32 True (avanza (Suc 0) c) = Inr (code, avanza 4 (avanza (Suc 0) c))"
    using assms by (intro read_u32_written) (simp add: byte_header_def)
  then show "read_u32 True (avanza (Suc 0) c) = Inr (code, avanza 5 c)" by simp
qed

lemma parse_simple:
  "parse_wkb_type_code 1 Xy = Inr (1, 16)" "parse_wkb_type_code 2 Xy = Inr (2, 16)"
  "parse_wkb_type_code 3 Xy = Inr (3, 16)" "parse_wkb_type_code 4 Xy = Inr (4, 16)"
  "parse_wkb_type_code 5 Xy = Inr (5, 16)" "parse_wkb_type_code 6 Xy = Inr (6, 16)"
  "parse_wkb_type_code 7 Xy = Inr (7, 16)"
  by (simp_all add: parse_wkb_type_code_def ewkb_flags)

lemma decode_point_header:
  "resto c = byte_header 1 @ rest \<Longrightarrow> decode_geometry pn d md (c, k) =
     try_bind (enter_node d md MAX_WKB_COMPONENTS k) (\<lambda>k.
       map_ok (\<lambda>(p, c). ((1, Point p), c, k)) (read_coordinate True 16 (avanza 5 c)))"
  by (subst decode_geometry.simps) (simp add: enter_node_def header_written parse_simple)

lemma decode_line_header:
  "resto c = byte_header 2 @ rest \<Longrightarrow> decode_geometry pn d md (c, k) =
     try_bind (enter_node d md MAX_WKB_COMPONENTS k) (\<lambda>k.
       try_bind (read_u32 True (avanza 5 c)) (\<lambda>(count, c).
       try_bind (checked_count count (remaining c) 16) (\<lambda>count.
         if count = 1 then
           Inl (invalid_wkb_structure ''LineString deve essere vuota o avere almeno due coordinate'')
         else
           map_ok (\<lambda>(coordinates, c). ((2, LineString coordinates), c, k))
             (ripeti count (push_coordinate True 16) ([], c)))))"
  by (subst decode_geometry.simps) (simp add: enter_node_def header_written parse_simple)

lemma decode_polygon_header:
  "resto c = byte_header 3 @ rest \<Longrightarrow> decode_geometry pn d md (c, k) =
     try_bind (enter_node d md MAX_WKB_COMPONENTS k) (\<lambda>k.
       try_bind (read_u32 True (avanza 5 c)) (\<lambda>(rings, c).
       try_bind (checked_count rings (remaining c) 4) (\<lambda>rings.
         map_ok (\<lambda>(e, i, c). ((3, Polygon (pn (case e of None \<Rightarrow> [] | Some r \<Rightarrow> r) i)), c, k))
           (ripeti rings (add_ring True 16) (None, [], c)))))"
  by (subst decode_geometry.simps) (simp add: enter_node_def header_written parse_simple)

definition add_child ::
    "polygon_new \<Rightarrow> nat \<Rightarrow> nat \<Rightarrow> u32 \<Rightarrow> (u32 \<times> geometry) list \<times> walk \<Rightarrow> ((u32 \<times> geometry) list \<times> walk) result" where
  "add_child pn d md geometry_type = (\<lambda>(decoded, st).
     try_bind (decode_geometry pn (Suc d) md st) (\<lambda>(child, st).
       if \<not> compatible_child geometry_type (fst child) then
         Inl (invalid_wkb_structure ''tipo figlio incompatibile con multi-geometria'')
       else Inr (decoded @ [child], st)))"

lemma decode_children_header:
  assumes "resto c = byte_header code @ rest" and "code = 4 \<or> code = 5 \<or> code = 6 \<or> code = 7"
  shows "decode_geometry pn d md (c, k) =
     try_bind (enter_node d md MAX_WKB_COMPONENTS k) (\<lambda>k.
       try_bind (read_u32 True (avanza 5 c)) (\<lambda>(children, c).
       try_bind (checked_count children (remaining c) 5) (\<lambda>children.
       try_bind (ripeti children (add_child pn d md code) ([], c, k)) (\<lambda>(decoded, st).
         map_ok (\<lambda>g. (g, st)) (assemble code decoded)))))"
  using assms(2)
  by (elim disjE; subst decode_geometry.simps)
    (use assms(1) in \<open>simp_all add: enter_node_def header_written parse_simple add_child_def [abs_def]\<close>)

section \<open>Decoding what was encoded\<close>

text \<open>A geometry comes back as it was, except the three kinds that WKB has no code for.\<close>

fun normal :: "geo_types \<Rightarrow> geometry \<Rightarrow> geometry" where
  "normal G (Line a b) = LineString [a, b]"
| "normal G (Rect a b) = Polygon (gt_rect_to_polygon G a b)"
| "normal G (Triangle a b c) = Polygon (gt_triangle_to_polygon G a b c)"
| "normal G (GeometryCollection gs) = GeometryCollection (map (normal G) gs)"
| "normal G g = g"

text \<open>\<open>written G g d md\<close>: the decoder over the bytes of \<open>g\<close>, at depth \<open>d\<close>, does what the structural rules do.\<close>

definition written :: "geo_types \<Rightarrow> geometry \<Rightarrow> nat \<Rightarrow> nat \<Rightarrow> bool" where
  "written G g d md \<longleftrightarrow> (\<forall>c k rest. resto c = byte_wkb G g @ rest \<longrightarrow>
     decode_geometry (gt_polygon_new G) d md (c, k) =
       map_ok (\<lambda>k. ((wkb_code (normal G g), normal G g), avanza (length (byte_wkb G g)) c, k))
         (validate_node g d md MAX_WKB_COMPONENTS k))"

lemma written_point: "written G (Point p) d md"
  unfolding written_def
proof (intro allI impI)
  fix c k rest
  assume c: "resto c = byte_wkb G (Point p) @ rest"
  then have h: "resto c = byte_header 1 @ byte_coord p @ rest" by simp
  then have "resto (avanza 5 c) = byte_coord p @ rest" by simp
  from read_coordinate_written [OF this] show "decode_geometry (gt_polygon_new G) d md (c, k) =
       map_ok (\<lambda>k. ((wkb_code (normal G (Point p)), normal G (Point p)), avanza (length (byte_wkb G (Point p))) c, k))
         (validate_node (Point p) d md MAX_WKB_COMPONENTS k)"
    by (simp add: decode_point_header [OF h] map_ok_try_bind map_ok_map_ok)
qed

lemma written_line:
  assumes "line_fits l"
  shows "written G (LineString l) d md"
  unfolding written_def
proof (intro allI impI)
  fix c k rest
  assume c: "resto c = byte_wkb G (LineString l) @ rest"
  then have h: "resto c = byte_header 2 @ byte_points l @ rest" by simp
  then have l: "resto (avanza 5 c) = byte_count (length l) @ concat (map byte_coord l) @ rest"
    by (simp add: byte_points_def)
  then have ps: "resto (avanza 9 c) = concat (map byte_coord l) @ rest"
    using h by (simp add: byte_points_def)
  show "decode_geometry (gt_polygon_new G) d md (c, k) =
       map_ok (\<lambda>k. ((wkb_code (normal G (LineString l)), normal G (LineString l)), avanza (length (byte_wkb G (LineString l))) c, k))
         (validate_node (LineString l) d md MAX_WKB_COMPONENTS k)"
    using assms coordinates_written [OF ps, of "[]"]
    by (simp add: decode_line_header [OF h] read_count_written [OF l] line_fits_def length_concat_const
        map_ok_try_bind map_ok_map_ok check_linestring_def if_distrib [of "map_ok _"] cong: if_cong)
qed

lemma written_polygon:
  assumes "geo_types_documented G" and "polygon_fits p"
  shows "written G (Polygon p) d md"
  unfolding written_def
proof (intro allI impI)
  fix c k rest
  assume c: "resto c = byte_wkb G (Polygon p) @ rest"
  then have h: "resto c = byte_header 3 @ byte_count (length (rings_of p)) @ concat (map byte_points (rings_of p)) @ rest"
    by (simp add: byte_polygon_def)
  then have l: "resto (avanza 5 c) = byte_count (length (rings_of p)) @ concat (map byte_points (rings_of p)) @ rest" by simp
  show "decode_geometry (gt_polygon_new G) d md (c, k) =
       map_ok (\<lambda>k. ((wkb_code (normal G (Polygon p)), normal G (Polygon p)), avanza (length (byte_wkb G (Polygon p))) c, k))
         (validate_node (Polygon p) d md MAX_WKB_COMPONENTS k)"
    by (simp add: decode_polygon_header [OF h] polygon_written [OF assms(1) l assms(2)]
        map_ok_try_bind map_ok_map_ok byte_polygon_def)
qed

lemma children_written:
  assumes "\<And>g. g \<in> set gs \<Longrightarrow> written G g (Suc d) md"
    and "\<And>g. g \<in> set gs \<Longrightarrow> compatible_child code (wkb_code (normal G g))"
    and "resto c = concat (map (byte_wkb G) gs) @ rest"
  shows "ripeti (length gs) (add_child (gt_polygon_new G) d md code) (ds, c, k)
    = map_ok (\<lambda>k. (ds @ map (\<lambda>g. (wkb_code (normal G g), normal G g)) gs,
          avanza (length (concat (map (byte_wkb G) gs))) c, k))
        (try_fold (\<lambda>k g. validate_node g (Suc d) md MAX_WKB_COMPONENTS k) k gs)"
proof -
  have body: "add_child (gt_polygon_new G) d md code (ds, c, k)
      = map_ok (\<lambda>k. (ds @ [(wkb_code (normal G g), normal G g)], avanza (length (byte_wkb G g)) c, k))
          (validate_node g (Suc d) md MAX_WKB_COMPONENTS k)"
    if "g \<in> set gs" "resto c = byte_wkb G g @ rest" for g c ds k rest
    using assms(1) [OF that(1)] that assms(2) [OF that(1)]
    by (simp add: add_child_def written_def map_ok_as_bind try_bind_assoc)
  from ripeti_written [where mk = "\<lambda>acc c k. (acc, c, k)" and b = "byte_wkb G" and xs = gs and c = c
      and f = "add_child (gt_polygon_new G) d md code" and acc = ds
      and step = "\<lambda>ds g. ds @ [(wkb_code (normal G g), normal G g)]"
      and chk = "\<lambda>k g. validate_node g (Suc d) md MAX_WKB_COMPONENTS k", OF body assms(3)]
  show ?thesis by (simp add: foldl_snoc)
qed

lemma length_byte_wkb: "5 \<le> length (byte_wkb G g)"
  by (cases g) (simp_all add: byte_polygon_def)

lemma written_children:
  assumes gs: "\<And>g. g \<in> set gs \<Longrightarrow> written G g (Suc d) md"
    and compatible: "\<And>g. g \<in> set gs \<Longrightarrow> compatible_child code (wkb_code (normal G g))"
    and code: "code = 4 \<or> code = 5 \<or> code = 6 \<or> code = 7"
    and "length gs < 2 ^ 32"
    and whole: "assemble code (map (\<lambda>g. (wkb_code (normal G g), normal G g)) gs) = Inr (code, w)"
    and c: "resto c = byte_header code @ byte_count (length gs) @ concat (map (byte_wkb G) gs) @ rest"
  shows "decode_geometry (gt_polygon_new G) d md (c, k) =
    map_ok (\<lambda>k. ((code, w), avanza (9 + length (concat (map (byte_wkb G) gs))) c, k))
      (try_bind (enter_node d md MAX_WKB_COMPONENTS k)
        (\<lambda>k. try_fold (\<lambda>k g. validate_node g (Suc d) md MAX_WKB_COMPONENTS k) k gs))"
proof -
  have n: "resto (avanza 5 c) = byte_count (length gs) @ concat (map (byte_wkb G) gs) @ rest"
    using c by simp
  have gs': "resto (avanza 9 c) = concat (map (byte_wkb G) gs) @ rest"
    using c by simp
  have "length gs * 5 \<le> length (concat (map (byte_wkb G) gs))"
    by (induction gs) (use length_byte_wkb [of G] in \<open>auto simp: add_mono\<close>)
  then have "try_bind (read_u32 True (avanza 5 c)) (\<lambda>(children, c).
       try_bind (checked_count children (remaining c) 5) (\<lambda>children.
       try_bind (ripeti children (add_child (gt_polygon_new G) d md code) ([], c, k)) (\<lambda>(decoded, st).
         map_ok (\<lambda>g. (g, st)) (assemble code decoded))))
     = try_bind (ripeti (length gs) (add_child (gt_polygon_new G) d md code) ([], avanza 9 c, k)) (\<lambda>(decoded, st).
         map_ok (\<lambda>g. (g, st)) (assemble code decoded))" for k
    using assms(4) by (subst read_count_written [OF n]) simp_all
  then show ?thesis
    by (simp add: decode_children_header [OF c code] children_written [OF gs compatible gs']
        whole map_ok_as_bind try_bind_assoc del: length_concat)
qed

lemma try_fold_map: "try_fold f s (map h xs) = try_fold (\<lambda>s x. f s (h x)) s xs"
  by (induction xs arbitrary: s) (auto split: sum.splits)

text \<open>The three kinds without a code, as the geometries they are written as.\<close>

lemma check_all_finite:
  "try_fold (\<lambda>_. check_finite) () ps = ensure (\<forall>p \<in> set ps. f64_is_finite (fst p) \<and> f64_is_finite (snd p)) non_finite_coordinate"
  by (induction ps) (auto simp: check_finite_def ensure_def)

lemma coord_eq_refl: "f64_is_finite (fst p) \<Longrightarrow> f64_is_finite (snd p) \<Longrightarrow> coord_eq p p"
  by (simp add: coord_eq_def f64_eq_def f64_is_nan_def f64_is_finite_def)

lemma check_closed_ring:
  assumes "4 \<le> length r" and "hd r = last r"
  shows "check_polygon \<lparr>exterior = r, interiors = []\<rparr> = try_fold (\<lambda>_. check_finite) () r"
proof -
  have "r \<noteq> []" using assms(1) by auto
  then have "last r \<in> set r" by simp
  with assms show ?thesis
    by (auto simp: check_polygon_def polygon_is_empty_def check_ring_def check_all_finite ensure_def coord_eq_refl)
qed

lemma validate_line: "validate_node (Line a b) d md m k = validate_node (LineString [a, b]) d md m k"
  by (simp add: check_linestring_def check_finite_def ensure_def try_bind_def map_ok_def split: sum.splits)

lemma validate_rect:
  assumes "geo_types_documented G"
  shows "validate_node (Rect a b) d md m k = validate_node (Polygon (gt_rect_to_polygon G a b)) d md m k"
proof -
  obtain r where r: "gt_rect_to_polygon G a b = \<lparr>exterior = close_ring r, interiors = []\<rparr>" "length r = 5" "hd r = last r"
    "set r = {fst a, fst b} \<times> {snd a, snd b}"
    using assms by (rule documented_rect)
  have "r \<noteq> []" using r(2) by auto
  note anello = close_ring_ends [OF this r(3)]
  have "check_polygon (gt_rect_to_polygon G a b)
      = ensure (\<forall>p \<in> {fst a, fst b} \<times> {snd a, snd b}. f64_is_finite (fst p) \<and> f64_is_finite (snd p)) non_finite_coordinate"
    using r anello by (simp add: check_closed_ring check_all_finite)
  also have "\<dots> = try_bind (check_finite a) (\<lambda>_. check_finite b)"
    by (auto simp: check_finite_def ensure_def try_bind_def)
  finally show ?thesis by (simp add: map_ok_try_bind)
qed

lemma validate_triangle:
  assumes "geo_types_documented G"
  shows "validate_node (Triangle a b c) d md m k = validate_node (Polygon (gt_triangle_to_polygon G a b c)) d md m k"
proof -
  have "check_polygon (gt_triangle_to_polygon G a b c)
      = try_bind (check_finite a) (\<lambda>_. try_bind (check_finite b) (\<lambda>_. check_finite c))"
    using close_ring_ends [of "[a, b, c, a]"]
    by (simp add: documented_triangle [OF assms] check_closed_ring check_all_finite)
      (auto simp: check_finite_def ensure_def try_bind_def)
  then show ?thesis by (simp add: map_ok_try_bind)
qed

lemma decode_written:
  assumes "geo_types_documented G" and "fits G g"
  shows "written G g d md"
  using assms(2)
proof (induction g arbitrary: d)
  case (Point p)
  show ?case by (rule written_point)
next
  case (LineString l)
  then show ?case by (intro written_line) simp
next
  case (Polygon p)
  then show ?case by (intro written_polygon [OF assms(1)]) simp
next
  case (MultiPoint ps)
  have "decode_geometry (gt_polygon_new G) d md (c, k) = map_ok (\<lambda>k. ((4, MultiPoint ps),
        avanza (9 + length (concat (map (byte_wkb G) (map Point ps)))) c, k))
      (try_bind (enter_node d md MAX_WKB_COMPONENTS k)
        (\<lambda>k. try_fold (\<lambda>k g. validate_node g (Suc d) md MAX_WKB_COMPONENTS k) k (map Point ps)))"
    if "resto c = byte_wkb G (MultiPoint ps) @ rest" for c k rest
    using MultiPoint that
    by (intro written_children) (auto simp: compatible_child_def assemble_def written_point try_map_ok_or comp_def)
  then show ?case
    by (auto simp: written_def try_fold_map comp_def)
next
  case (MultiLineString ls)
  have "decode_geometry (gt_polygon_new G) d md (c, k) = map_ok (\<lambda>k. ((5, MultiLineString ls),
        avanza (9 + length (concat (map (byte_wkb G) (map LineString ls)))) c, k))
      (try_bind (enter_node d md MAX_WKB_COMPONENTS k)
        (\<lambda>k. try_fold (\<lambda>k g. validate_node g (Suc d) md MAX_WKB_COMPONENTS k) k (map LineString ls)))"
    if "resto c = byte_wkb G (MultiLineString ls) @ rest" for c k rest
    using MultiLineString that
    by (intro written_children) (auto simp: compatible_child_def assemble_def list_all_iff intro!: written_line simp: try_map_ok_or comp_def)
  then show ?case
    by (auto simp: written_def try_fold_map comp_def)
next
  case (MultiPolygon ps)
  have "decode_geometry (gt_polygon_new G) d md (c, k) = map_ok (\<lambda>k. ((6, MultiPolygon ps),
        avanza (9 + length (concat (map (byte_wkb G) (map Polygon ps)))) c, k))
      (try_bind (enter_node d md MAX_WKB_COMPONENTS k)
        (\<lambda>k. try_fold (\<lambda>k g. validate_node g (Suc d) md MAX_WKB_COMPONENTS k) k (map Polygon ps)))"
    if "resto c = byte_wkb G (MultiPolygon ps) @ rest" for c k rest
    using MultiPolygon that
    by (intro written_children) (auto simp: compatible_child_def assemble_def list_all_iff intro!: written_polygon [OF assms(1)] simp: try_map_ok_or comp_def)
  then show ?case
    by (auto simp: written_def try_fold_map comp_def)
next
  case (GeometryCollection gs)
  have "decode_geometry (gt_polygon_new G) d md (c, k) = map_ok (\<lambda>k. ((7, GeometryCollection (map (normal G) gs)),
        avanza (9 + length (concat (map (byte_wkb G) gs))) c, k))
      (try_bind (enter_node d md MAX_WKB_COMPONENTS k)
        (\<lambda>k. try_fold (\<lambda>k g. validate_node g (Suc d) md MAX_WKB_COMPONENTS k) k gs))"
    if "resto c = byte_wkb G (GeometryCollection gs) @ rest" for c k rest
    using GeometryCollection that
    by (intro written_children) (auto simp: compatible_child_def assemble_def list_all_iff comp_def)
  then show ?case
    by (auto simp: written_def)
next
  case (Line a b)
  from written_line [of "[a, b]" G d md] show ?case
    by (simp add: written_def validate_line line_fits_def del: validate_node.simps)
next
  case (Rect a b)
  with written_polygon [OF assms(1), of "gt_rect_to_polygon G a b" d md] show ?case
    by (simp add: written_def validate_rect [OF assms(1)] del: validate_node.simps)
next
  case (Triangle a b c)
  with written_polygon [OF assms(1), of "gt_triangle_to_polygon G a b c" d md] show ?case
    by (simp add: written_def validate_triangle [OF assms(1)] del: validate_node.simps)
qed

text \<open>The size that a caller reserves before encoding is exact: whenever the encoder of the output cells
  succeeds, \<open>wkb_size_xy\<close> is the number of bytes it wrote, for every kind of geometry, nested and empty
  ones included, but for a rectangle or a triangle whose ring starts at a \<open>NaN\<close>.\<close>

theorem encoded_size_exact:
  assumes "geo_types_documented G" and "anelli_chiusi g" and "wkb_xy G g = Inr bytes"
  shows "wkb_size_xy g = of_nat (length bytes)"
  using assms wkb_size by (simp add: results)

lemma encode_geometry_Inr [results]:
  "encode_geometry G g = Inr bytes \<longleftrightarrow> fits G g \<and> bytes = byte_wkb G g \<and> length bytes \<le> MAX_CELL_BYTES"
  by (auto simp: encode_geometry_def results split: if_splits)

lemma decode_encoded:
  assumes "geo_types_documented G" and "encode_geometry G g = Inr bytes"
  shows "decode_validated_with_depth (gt_polygon_new G) bytes max_depth
    = map_ok (\<lambda>_. normal G g) (validate_geometry_structural g max_depth MAX_WKB_COMPONENTS)"
proof -
  have bytes: "fits G g" "bytes = byte_wkb G g" "length bytes \<le> MAX_WKB_BYTES"
    using assms(2) by (auto simp add: results MAX_WKB_BYTES_def MAX_CELL_BYTES_def)
  have "resto (cursor_new bytes) = byte_wkb G g @ []" using bytes(2) by simp
  with decode_written [OF assms(1) bytes(1)]
  have "decode_geometry (gt_polygon_new G) 0 max_depth (cursor_new bytes, 0) =
      map_ok (\<lambda>k. ((wkb_code (normal G g), normal G g), avanza (length bytes) (cursor_new bytes), k))
        (validate_node g 0 max_depth MAX_WKB_COMPONENTS 0)"
    unfolding written_def bytes(2) by blast
  then show ?thesis
    using bytes(3)
    by (simp add: decode_validated_with_depth_def validate_geometry_structural_def map_ok_as_bind try_bind_assoc remaining_resto)
qed

text \<open>C20. Decoding an encoded cell gives the geometry back, a \<open>Line\<close> as a line string and a \<open>Rect\<close> or a
  \<open>Triangle\<close> as its polygon, exactly when the structural rules of the decoded form accept it; otherwise the
  decoder fails with the very error of those rules. The rules on the decoded form are the round trip.\<close>

theorem encode_decode_roundtrip:
  assumes "geo_types_documented G" and "encode_geometry G g = Inr bytes"
  shows "decode_validated_with_depth (gt_polygon_new G) bytes max_depth
    = map_ok (\<lambda>_. normal G g) (validate_geometry_structural g max_depth MAX_WKB_COMPONENTS)"
  using assms by (rule decode_encoded)

section \<open>Instances\<close>

definition geo_prova :: geo_types where
  "geo_prova =
     \<lparr>gt_polygon_new = (\<lambda>e ints. \<lparr>exterior = close_ring e, interiors = map close_ring ints\<rparr>),
      gt_rect_to_polygon = (\<lambda>a b. \<lparr>exterior = close_ring [a, (fst a, snd b), b, (fst b, snd a), a], interiors = []\<rparr>),
      gt_triangle_to_polygon = (\<lambda>a b c. \<lparr>exterior = close_ring [a, b, c, a], interiors = []\<rparr>)\<rparr>"

lemma geo_prova_documented: "geo_types_documented geo_prova"
  unfolding geo_types_documented_def
proof (intro conjI allI impI)
  show "gt_polygon_new geo_prova e ints = \<lparr>exterior = e, interiors = ints\<rparr>"
    if "closed_ring e" "list_all closed_ring ints" for e ints
    using that by (auto simp: geo_prova_def list_all_iff close_ring_def intro: map_idI)
  show "\<exists>r. anello_rettangolo a b r \<and> gt_rect_to_polygon geo_prova a b = \<lparr>exterior = close_ring r, interiors = []\<rparr>" for a b
    by (intro exI [of _ "[a, (fst a, snd b), b, (fst b, snd a), a]"]) (auto simp: geo_prova_def anello_rettangolo_def)
  show "gt_triangle_to_polygon geo_prova a b c = \<lparr>exterior = close_ring [a, b, c, a], interiors = []\<rparr>" for a b c
    by (simp add: geo_prova_def)
qed

text \<open>The ring of the rectangle from \<open>(0, 0)\<close>.\<close>

lemma rettangolo_chiuso: "close_ring ((0, 0) # r @ [(0, 0)]) = (0, 0) # r @ [(0, 0)]"
  by (rule close_ring_closed) (simp_all add: coord_eq_self f64_is_nan_def f64_raw_exponent_def)

lemmas rettangolo_di_prova = rettangolo_chiuso [of "[p, q, t]" for p q t, simplified]

text \<open>A collection with the rectangle from \<open>(0, 0)\<close> to \<open>(1, 1)\<close> and the point \<open>(1, 0)\<close>.\<close>

definition geometria_wkb :: geometry where
  "geometria_wkb =
     GeometryCollection [Rect (0, 0) (0x3ff0000000000000, 0x3ff0000000000000), Point (0x3ff0000000000000, 0)]"

lemma geometria_wkb_encoded:
  "wkb_xy geo_prova geometria_wkb = Inr (byte_wkb geo_prova geometria_wkb)"
  "encode_geometry geo_prova geometria_wkb = Inr (byte_wkb geo_prova geometria_wkb)"
  by (simp_all add: results geometria_wkb_def geo_prova_def rettangolo_di_prova polygon_fits_def rings_of_def line_fits_def polygon_is_empty_def
      byte_polygon_def MAX_CELL_BYTES_def)

theorem encoded_size_exact_witness: "wkb_size_xy geometria_wkb = of_nat (length (byte_wkb geo_prova geometria_wkb))"
proof -
  have "anelli_chiusi geometria_wkb"
    by (simp add: geometria_wkb_def coord_eq_self f64_is_nan_def f64_raw_exponent_def)
  then show ?thesis using encoded_size_exact [OF geo_prova_documented _ geometria_wkb_encoded(1)] by blast
qed

lemma geometria_wkb_valid:
  "1 \<le> md \<Longrightarrow> validate_geometry_structural geometria_wkb md MAX_WKB_COMPONENTS = Inr ()"
  by (simp add: geometria_wkb_def validate_geometry_structural_def enter_node_def count_component_def checked_add_def
      check_finite_def ensure_def f64_is_finite_def f64_raw_exponent_def MAX_WKB_COMPONENTS_def)

theorem encode_decode_roundtrip_witness:
  "decode_validated_with_depth (gt_polygon_new geo_prova) (byte_wkb geo_prova geometria_wkb) 1
    = Inr (GeometryCollection
        [Polygon (gt_rect_to_polygon geo_prova (0, 0) (0x3ff0000000000000, 0x3ff0000000000000)),
         Point (0x3ff0000000000000, 0)])"
  unfolding encode_decode_roundtrip [OF geo_prova_documented geometria_wkb_encoded(2)]
  by (simp add: geometria_wkb_valid) (simp add: geometria_wkb_def)

end
