(* ===== verification/WkbPreflight.thy ===== *)
theory WkbPreflight
  imports WkbRoundtrip
begin

text \<open>
  The preflight of a decoding, \<open>decoded_size.rs\<close> of \<open>crates/plenora-kernels-geo\<close>: the heap of the geometry
  that the decoder would build, from the structure of the cell alone.  The constants are the \<open>size_of\<close> of the
  layout, as the test of the file pins them.

  The lemmas run the preflight in lockstep with the decoder: where the decoder succeeds the preflight
  succeeds, on the same bytes, and its total is the heap of the decoded geometry.
\<close>

section \<open>The walk\<close>

definition DECODED_COORD_BYTES :: u64 where
  "DECODED_COORD_BYTES = 16"

definition POINT_BYTES :: u64 where
  "POINT_BYTES = 16"

definition LINESTRING_BYTES :: u64 where
  "LINESTRING_BYTES = 24"

definition POLYGON_BYTES :: u64 where
  "POLYGON_BYTES = 48"

definition GEOMETRY_BYTES :: u64 where
  "GEOMETRY_BYTES = 56"

lemmas layout = DECODED_COORD_BYTES_def POINT_BYTES_def LINESTRING_BYTES_def POLYGON_BYTES_def GEOMETRY_BYTES_def

text \<open>The state: the cursor, the components counted so far, the total.\<close>

type_synonym size_walk = "wkb_cursor \<times> u64 \<times> u64"

definition add_coordinates :: "u64 \<Rightarrow> nat \<Rightarrow> u64" where
  "add_coordinates tot count = saturating_add tot (saturating_mul DECODED_COORD_BYTES (of_nat count))"

text \<open>One ring: \<open>ring_index\<close> tells the exterior, which is inline, from an interior.\<close>

definition size_ring :: "bool \<Rightarrow> nat \<Rightarrow> nat \<times> wkb_cursor \<times> u64 \<Rightarrow> (nat \<times> wkb_cursor \<times> u64) result" where
  "size_ring little_endian stride st =
     (case st of (ring_index, c, tot) \<Rightarrow>
       try_bind (read_u32 little_endian c) (\<lambda>(count, c).
       try_bind (checked_count count (remaining c) stride) (\<lambda>count.
       map_ok
         (\<lambda>c. let tot = add_coordinates tot count
              in (Suc ring_index, c, if ring_index > 0 then saturating_add tot LINESTRING_BYTES else tot))
         (skip (count * stride) c))))"

definition slot_of :: "u32 \<Rightarrow> u64" where
  "slot_of geometry_type =
     (if geometry_type = 4 then POINT_BYTES
      else if geometry_type = 5 then LINESTRING_BYTES
      else if geometry_type = 6 then POLYGON_BYTES
      else GEOMETRY_BYTES)"

function decoded_size_geometry :: "nat \<Rightarrow> nat \<Rightarrow> size_walk \<Rightarrow> (u32 \<times> size_walk) result" where
  "decoded_size_geometry depth max_depth st =
     (if depth > max_depth then Inl (invalid_wkb_structure ''annidamento geometrie oltre il limite'')
      else
        try_bind (count_component MAX_WKB_COMPONENTS (fst (snd st))) (\<lambda>components.
        try_bind (read_byte_order (fst st)) (\<lambda>(little_endian, c).
        try_bind (read_u32 little_endian c) (\<lambda>(raw_type, c).
        try_bind (parse_wkb_type_code raw_type Xy) (\<lambda>(geometry_type, stride).
          if geometry_type = 1 then
            map_ok (\<lambda>c. (1, c, components, snd (snd st))) (skip stride c)
          else if geometry_type = 2 then
            try_bind (read_u32 little_endian c) (\<lambda>(count, c).
            try_bind (checked_count count (remaining c) stride) (\<lambda>count.
              if count = 1 then
                Inl (invalid_wkb_structure ''LineString deve essere vuota o avere almeno due coordinate'')
              else
                map_ok (\<lambda>c. (2, c, components, add_coordinates (snd (snd st)) count)) (skip (count * stride) c)))
          else if geometry_type = 3 then
            try_bind (read_u32 little_endian c) (\<lambda>(rings, c).
            try_bind (checked_count rings (remaining c) 4) (\<lambda>rings.
              map_ok (\<lambda>(_, c, tot). (3, c, components, tot))
                (ripeti rings (size_ring little_endian stride) (0, c, snd (snd st)))))
          else if 4 \<le> geometry_type \<and> geometry_type \<le> 7 then
            try_bind (read_u32 little_endian c) (\<lambda>(children, c).
            try_bind (checked_count children (remaining c) 5) (\<lambda>children.
              map_ok (\<lambda>st. (geometry_type, st))
                (ripeti children
                   (\<lambda>st.
                      try_bind (decoded_size_geometry (Suc depth) max_depth st) (\<lambda>(child_type, c, components, tot).
                        if \<not> compatible_child geometry_type child_type then
                          Inl (invalid_wkb_structure ''tipo figlio incompatibile con multi-geometria'')
                        else Inr (c, components, saturating_add tot (slot_of geometry_type))))
                   (c, components, snd (snd st)))))
          else Inl (invalid_wkb_structure ''tipo geometria non supportato''))))))"
  by pat_completeness auto
termination by (relation "measure (\<lambda>(depth, max_depth, _). Suc max_depth - depth)") auto

declare decoded_size_geometry.simps [simp del]

definition decoded_size_xy :: "u8 list \<Rightarrow> u64 result" where
  "decoded_size_xy cella =
     (if length cella > MAX_WKB_BYTES then Inl (invalid_wkb_structure ''WKB oltre il limite di 64 MiB'')
      else
        try_bind (decoded_size_geometry 0 MAX_WKB_DEPTH (cursor_new cella, 0, 0)) (\<lambda>(_, c, _, tot).
          if remaining c \<noteq> 0 then Inl (invalid_wkb_structure ''byte residui dopo la geometria'') else Inr tot))"

section \<open>The heap of a decoded geometry\<close>

text \<open>Vectors of exact capacity: the coordinates of every sequence, the header of every interior ring, the slot
  of every child in the buffer of its container.\<close>

definition heap_polygon :: "polygon \<Rightarrow> nat" where
  "heap_polygon p = 16 * length (exterior p) + (\<Sum>r \<leftarrow> interiors p. 24 + 16 * length r)"

fun heap :: "geometry \<Rightarrow> nat" where
  "heap (LineString l) = 16 * length l"
| "heap (Polygon p) = heap_polygon p"
| "heap (MultiPoint ps) = 16 * length ps"
| "heap (MultiLineString ls) = (\<Sum>l \<leftarrow> ls. 24 + 16 * length l)"
| "heap (MultiPolygon ps) = (\<Sum>p \<leftarrow> ps. 48 + heap_polygon p)"
| "heap (GeometryCollection gs) = (\<Sum>g \<leftarrow> gs. 56 + heap g)"
| "heap _ = 0"

section \<open>In lockstep with the decoder\<close>

lemma ripeti_track:
  assumes "\<And>s s' u. R s u \<Longrightarrow> f s = Inr s' \<Longrightarrow> \<exists>u'. g u = Inr u' \<and> R s' u'"
    and "R s u" and "ripeti n f s = Inr s'"
  shows "\<exists>u'. ripeti n g u = Inr u' \<and> R s' u'"
  using assms(2,3)
proof (induction n arbitrary: s u)
  case (Suc n)
  from Suc.prems(2) obtain t where t: "f s = Inr t" "ripeti n f t = Inr s'"
    by (auto simp: try_bind_Inr_iff)
  from assms(1) [OF Suc.prems(1) t(1)] obtain u' where "g u = Inr u'" "R t u'" by blast
  with Suc.IH [OF _ t(2)] show ?case by simp
qed auto

lemma saturating_small:
  assumes "unat a + unat b < 2 ^ 64"
  shows "unat (saturating_add a b :: u64) = unat a + unat b"
  using assms by (simp add: unat_saturating_add)

lemma add_coordinates_small:
  assumes "unat tot + 16 * n < 2 ^ 64"
  shows "unat (add_coordinates tot n) = unat tot + 16 * n"
proof -
  have n: "unat (of_nat n :: u64) = n" using assms by (simp add: unat_of_nat)
  have "unat (saturating_mul DECODED_COORD_BYTES (of_nat n :: u64)) = 16 * n"
    using assms by (simp add: unat_saturating_mul n layout)
  with assms show ?thesis by (simp add: add_coordinates_def unat_saturating_add)
qed

text \<open>A measured cursor: inside a payload of bounded size, and the total is paid for by the bytes read.\<close>

definition misura :: "u8 list \<Rightarrow> u64 \<Rightarrow> wkb_cursor \<Rightarrow> bool" where
  "misura P tot c \<longleftrightarrow>
     payload c = P \<and> offset c \<le> length P \<and> length P \<le> MAX_WKB_BYTES \<and> unat tot \<le> 12 * offset c"

lemma resto_bound: "n \<le> length (resto c) \<longleftrightarrow> n = 0 \<or> offset c + n \<le> length (payload c)"
  by (auto simp: resto_def)

lemma avanza_sel [simp]: "payload (avanza n c) = payload c" "offset (avanza n c) = offset c + n"
  by (simp_all add: avanza_def)

lemma misura_avanza:
  "misura P tot c \<Longrightarrow> n \<le> length (resto c) \<Longrightarrow> unat tot' \<le> unat tot + 12 * n \<Longrightarrow> misura P tot' (avanza n c)"
  by (auto simp: misura_def resto_bound)

lemma misura_small:
  assumes "misura P tot c" and "n \<le> length (resto c)" and "x \<le> 12 * n + 1000"
  shows "unat tot + x < 2 ^ 64"
  using assms by (auto simp: misura_def resto_bound MAX_WKB_BYTES_def)

lemma read_coordinate_Inr:
  "read_coordinate le 16 c = Inr (p, c') \<Longrightarrow> c' = avanza 16 c \<and> 16 \<le> length (resto c)"
  by (auto simp: read_coordinate_def results read_f64_resto skip_resto split: if_splits)

lemma push_coordinate_Inr:
  "push_coordinate le 16 (acc, c) = Inr s \<Longrightarrow> \<exists>p. s = (acc @ [p], avanza 16 c) \<and> 16 \<le> length (resto c)"
  by (auto simp: push_coordinate_def results dest!: read_coordinate_Inr)

lemma push_last_Inr:
  "push_last le 16 (ring, p, c) = Inr s \<Longrightarrow> \<exists>q. s = (ring @ [q], q, avanza 16 c) \<and> 16 \<le> length (resto c)"
  by (auto simp: push_last_def results dest!: read_coordinate_Inr)

lemma push_coordinate_loop:
  "ripeti n (push_coordinate le 16) (acc, c) = Inr (acc', c') \<Longrightarrow>
     c' = avanza (16 * n) c \<and> 16 * n \<le> length (resto c) \<and> length acc' = length acc + n"
proof (induction n arbitrary: acc c)
  case (Suc n)
  from Suc.prems obtain p where p: "16 \<le> length (resto c)"
    "ripeti n (push_coordinate le 16) (acc @ [p], avanza 16 c) = Inr (acc', c')"
    by (auto simp: try_bind_Inr_iff dest!: push_coordinate_Inr)
  with Suc.IH [OF p(2)] show ?case by auto
qed auto

lemma push_last_loop:
  "ripeti n (push_last le 16) (ring, p, c) = Inr (ring', p', c') \<Longrightarrow>
     c' = avanza (16 * n) c \<and> 16 * n \<le> length (resto c) \<and> (\<exists>ps. length ps = n \<and> ring' = ring @ ps \<and> p' = last (p # ps))"
proof (induction n arbitrary: ring p c)
  case (Suc n)
  from Suc.prems obtain q where q: "16 \<le> length (resto c)"
    "ripeti n (push_last le 16) (ring @ [q], q, avanza 16 c) = Inr (ring', p', c')"
    by (simp only: ripeti.simps try_bind_Inr_iff) (blast dest: push_last_Inr)
  from Suc.IH [OF q(2)] obtain ps where "length ps = n" "ring' = ring @ q # ps" "p' = last (q # ps)"
    "c' = avanza (16 * n) (avanza 16 c)" "16 * n \<le> length (resto (avanza 16 c))" by auto
  with q(1) show ?case by (intro conjI exI [of _ "q # ps"]) auto
qed auto

lemma decode_ring_Inr:
  assumes "decode_ring le 16 c = Inr (r, c')"
  shows "c' = avanza (4 + 16 * length r) c \<and> 4 + 16 * length r \<le> length (resto c) \<and> closed_ring r
    \<and> (\<exists>v. read_u32 le c = Inr (v, avanza 4 c) \<and> checked_count v (remaining (avanza 4 c)) 16 = Inr (length r))"
proof -
  obtain v n p ring u c'' where v: "read_u32 le c = Inr (v, avanza 4 c)" "4 \<le> length (resto c)"
    and n: "checked_count v (remaining (avanza 4 c)) 16 = Inr n" "\<not> n < 4"
    and p: "16 \<le> length (resto (avanza 4 c))"
    and loop: "ripeti (n - 1) (push_last le 16) ([p], p, avanza 20 c) = Inr (r, u, c')" and closed: "coord_eq p u"
    using assms
    by (auto simp: decode_ring_def results read_u32_resto split: if_splits dest!: read_coordinate_Inr)
  from push_last_loop [OF loop] obtain ps where ps: "length ps = n - 1" "r = p # ps" "u = last (p # ps)"
    "c' = avanza (16 * (n - 1)) (avanza 20 c)" "16 * (n - 1) \<le> length (resto (avanza 20 c))" by auto
  have len: "length r = n" using ps n(2) by simp
  then have "20 + 16 * (n - 1) = 4 + 16 * length r" using n(2) by simp
  with ps v n p closed len show ?thesis
    by (auto simp: closed_ring_def)
qed

text \<open>The heap of the rings read so far.\<close>

definition heap_rings :: "coord list option \<Rightarrow> coord list list \<Rightarrow> nat" where
  "heap_rings e ints = (case e of None \<Rightarrow> 0 | Some r \<Rightarrow> 16 * length r) + (\<Sum>r \<leftarrow> ints. 24 + 16 * length r)"

definition rings_tracked ::
    "u8 list \<Rightarrow> nat \<Rightarrow> nat \<Rightarrow> coord list option \<times> coord list list \<times> wkb_cursor \<Rightarrow> nat \<times> wkb_cursor \<times> u64 \<Rightarrow> bool" where
  "rings_tracked P start o0 s u =
     (case (s, u) of ((e, ints, c), (i, c', tot)) \<Rightarrow>
       c' = c \<and> i = (case e of None \<Rightarrow> 0 | Some _ \<Rightarrow> Suc (length ints)) \<and> (e = None \<longrightarrow> ints = [])
       \<and> unat tot = start + heap_rings e ints \<and> misura P tot c
       \<and> heap_rings e ints + 12 * o0 \<le> 12 * offset c
       \<and> list_all closed_ring (case e of None \<Rightarrow> [] | Some r \<Rightarrow> r # ints))"

lemma add_ring_tracked:
  assumes "rings_tracked P start o0 s u" and "add_ring le 16 s = Inr s'"
  shows "\<exists>u'. size_ring le 16 u = Inr u' \<and> rings_tracked P start o0 s' u'"
proof -
  obtain e ints c i tot where s: "s = (e, ints, c)" and u: "u = (i, c, tot)"
    and R: "i = (case e of None \<Rightarrow> 0 | Some _ \<Rightarrow> Suc (length ints))" "e = None \<longrightarrow> ints = []"
      "unat tot = start + heap_rings e ints" "misura P tot c" "heap_rings e ints + 12 * o0 \<le> 12 * offset c"
      "list_all closed_ring (case e of None \<Rightarrow> [] | Some r \<Rightarrow> r # ints)"
    using assms(1) by (cases s; cases u) (auto simp: rings_tracked_def)
  from assms(2) obtain r c' where r: "decode_ring le 16 c = Inr (r, c')"
    and s': "s' = (case e of None \<Rightarrow> (Some r, ints, c') | Some _ \<Rightarrow> (e, ints @ [r], c'))"
    by (auto simp: s add_ring_def results)
  from decode_ring_Inr [OF r] obtain v where c': "c' = avanza (4 + 16 * length r) c"
    and room: "4 + 16 * length r \<le> length (resto c)" and closed: "closed_ring r"
    and v: "read_u32 le c = Inr (v, avanza 4 c)" "checked_count v (remaining (avanza 4 c)) 16 = Inr (length r)" by blast
  have skip: "skip (length r * 16) (avanza 4 c) = Inr c'"
    using room by (simp add: skip_resto c' mult.commute)
  have off: "offset c' = offset c + (4 + 16 * length r)" by (simp add: c')
  define tot' where "tot' = add_coordinates tot (length r)"
  have "unat tot' = unat tot + 16 * length r"
    unfolding tot'_def using misura_small [OF R(4) room, of "16 * length r"] by (intro add_coordinates_small) simp
  moreover have "unat tot' + unat LINESTRING_BYTES < 2 ^ 64"
    using misura_small [OF R(4) room, of "16 * length r + 24"] calculation by (simp add: layout)
  then have "unat (saturating_add tot' LINESTRING_BYTES) = unat tot' + 24"
    by (subst saturating_small) (simp_all add: layout)
  ultimately show ?thesis
    using R closed misura_avanza [OF R(4) room] off
    by (auto simp: u size_ring_def v skip s' c' [symmetric] tot'_def [symmetric] rings_tracked_def heap_rings_def
        split: option.splits)
qed

lemma parse_Xy_stride: "parse_wkb_type_code raw Xy = Inr (t, n) \<Longrightarrow> n = 16"
  by (auto simp: parse_wkb_type_code_def results split: if_splits)

lemma read_byte_order_Inr: "read_byte_order c = Inr (le, c') \<Longrightarrow> c' = avanza 1 c \<and> 1 \<le> length (resto c)"
  by (auto simp: read_byte_order_def results read_u8_resto split: if_splits list.splits)

lemma read_u32_Inr: "read_u32 le c = Inr (v, c') \<Longrightarrow> c' = avanza 4 c \<and> 4 \<le> length (resto c)"
  by (auto simp: read_u32_resto split: if_splits)

lemma slot_of_le: "unat (slot_of t) \<le> 56"
  by (simp add: slot_of_def layout)

lemma heap_slots:
  "try_map (\<lambda>d. ok_or e (as_point (snd d))) ds = Inr ps \<Longrightarrow> (\<Sum>d \<leftarrow> ds. 16 + heap (snd d)) = 16 * length ps"
  "try_map (\<lambda>d. ok_or e (as_line (snd d))) ds = Inr ls \<Longrightarrow> (\<Sum>d \<leftarrow> ds. 24 + heap (snd d)) = (\<Sum>l \<leftarrow> ls. 24 + 16 * length l)"
  "try_map (\<lambda>d. ok_or e (as_polygon (snd d))) ds = Inr qs \<Longrightarrow> (\<Sum>d \<leftarrow> ds. 48 + heap (snd d)) = (\<Sum>p \<leftarrow> qs. 48 + heap_polygon p)"
proof -
  show "try_map (\<lambda>d. ok_or e (as_point (snd d))) ds = Inr ps \<Longrightarrow> (\<Sum>d \<leftarrow> ds. 16 + heap (snd d)) = 16 * length ps"
    by (induction ds arbitrary: ps) (auto simp: ok_or_Inr_iff elim!: as_point.elims split: sum.splits)
  show "try_map (\<lambda>d. ok_or e (as_line (snd d))) ds = Inr ls \<Longrightarrow> (\<Sum>d \<leftarrow> ds. 24 + heap (snd d)) = (\<Sum>l \<leftarrow> ls. 24 + 16 * length l)"
    by (induction ds arbitrary: ls) (auto simp: ok_or_Inr_iff elim!: as_line.elims split: sum.splits)
  show "try_map (\<lambda>d. ok_or e (as_polygon (snd d))) ds = Inr qs \<Longrightarrow> (\<Sum>d \<leftarrow> ds. 48 + heap (snd d)) = (\<Sum>p \<leftarrow> qs. 48 + heap_polygon p)"
    by (induction ds arbitrary: qs) (auto simp: ok_or_Inr_iff elim!: as_polygon.elims split: sum.splits)
qed

lemma heap_assemble:
  assumes "assemble t ds = Inr (t', g)" and "4 \<le> t" "t \<le> 7"
  shows "heap g = (\<Sum>d \<leftarrow> ds. unat (slot_of t) + heap (snd d)) \<and> t' = t"
  using code_range [OF assms(2,3)] assms(1)
  by (elim disjE) (auto simp: assemble_def results slot_of_def layout heap_slots comp_def)

definition size_child :: "nat \<Rightarrow> nat \<Rightarrow> u32 \<Rightarrow> size_walk \<Rightarrow> size_walk result" where
  "size_child d md geometry_type = (\<lambda>st.
     try_bind (decoded_size_geometry (Suc d) md st) (\<lambda>(child_type, c, components, tot).
       if \<not> compatible_child geometry_type child_type then
         Inl (invalid_wkb_structure ''tipo figlio incompatibile con multi-geometria'')
       else Inr (c, components, saturating_add tot (slot_of geometry_type))))"

text \<open>What the preflight has to show of a geometry the decoder has read.\<close>

definition sized :: "u8 list \<Rightarrow> u64 \<Rightarrow> nat \<Rightarrow> (u32 \<times> geometry) \<times> walk \<Rightarrow> (u32 \<times> size_walk) result \<Rightarrow> bool" where
  "sized P tot o0 r z \<longleftrightarrow>
     (case r of ((t, g), (c, k)) \<Rightarrow>
       \<exists>tot'. z = Inr (t, c, k, tot') \<and> unat tot' = unat tot + heap g \<and> heap g + 56 + 12 * o0 \<le> 12 * offset c \<and> misura P tot' c)"

definition children_tracked ::
    "u8 list \<Rightarrow> u32 \<Rightarrow> nat \<Rightarrow> nat \<Rightarrow> (u32 \<times> geometry) list \<times> walk \<Rightarrow> size_walk \<Rightarrow> bool" where
  "children_tracked P t start o0 s u =
     (case (s, u) of ((ds, c, k), (c', k', tot)) \<Rightarrow>
       c' = c \<and> k' = k \<and> misura P tot c \<and> unat tot = start + (\<Sum>d \<leftarrow> ds. unat (slot_of t) + heap (snd d))
       \<and> (\<Sum>d \<leftarrow> ds. unat (slot_of t) + heap (snd d)) + 12 * o0 \<le> 12 * offset c)"

lemma add_child_tracked:
  assumes "\<And>c k r tot. decode_geometry pn (Suc d) md (c, k) = Inr r \<Longrightarrow> misura P tot c \<Longrightarrow>
      sized P tot (offset c) r (decoded_size_geometry (Suc d) md (c, k, tot))"
    and "children_tracked P t start o0 s u" and "add_child pn d md t s = Inr s'"
  shows "\<exists>u'. size_child d md t u = Inr u' \<and> children_tracked P t start o0 s' u'"
proof -
  obtain ds c k tot where s: "s = (ds, c, k)" "u = (c, k, tot)" "misura P tot c"
    "unat tot = start + (\<Sum>d \<leftarrow> ds. unat (slot_of t) + heap (snd d))"
    "(\<Sum>d \<leftarrow> ds. unat (slot_of t) + heap (snd d)) + 12 * o0 \<le> 12 * offset c"
    using assms(2) by (cases s; cases u) (auto simp: children_tracked_def)
  obtain ct g c' k' where dec: "decode_geometry pn (Suc d) md (c, k) = Inr ((ct, g), (c', k'))"
    and ct: "compatible_child t ct" and s': "s' = (ds @ [(ct, g)], c', k')"
    using assms(3) by (auto simp: s add_child_def results split: if_splits)
  from assms(1) [OF dec s(3)] obtain tot' where tot': "decoded_size_geometry (Suc d) md (c, k, tot) = Inr (ct, c', k', tot')"
    "unat tot' = unat tot + heap g" "heap g + 56 + 12 * offset c \<le> 12 * offset c'" "misura P tot' c'"
    by (auto simp: sized_def)
  have "unat tot' + unat (slot_of t) < 2 ^ 64"
    using misura_small [OF tot'(4), of 0 56] slot_of_le [of t] by simp
  then have "unat (saturating_add tot' (slot_of t)) = unat tot' + unat (slot_of t)"
    by (rule saturating_small)
  with tot' ct s slot_of_le [of t] show ?thesis
    by (auto simp: size_child_def s' children_tracked_def misura_def)
qed

text \<open>The decoder after the header of a node, and the header it has read.\<close>

definition decode_body ::
    "polygon_new \<Rightarrow> nat \<Rightarrow> nat \<Rightarrow> bool \<Rightarrow> u32 \<Rightarrow> wkb_cursor \<Rightarrow> u64 \<Rightarrow> ((u32 \<times> geometry) \<times> walk) result" where
  "decode_body pn d md le t c k' =
     (if t = 1 then
            map_ok (\<lambda>(p, c). ((1, Point p), c, k')) (read_coordinate le 16 c)
          else if t = 2 then
            try_bind (read_u32 le c) (\<lambda>(count, c).
            try_bind (checked_count count (remaining c) 16) (\<lambda>count.
              if count = 1 then
                Inl (invalid_wkb_structure ''LineString deve essere vuota o avere almeno due coordinate'')
              else
                map_ok (\<lambda>(coordinates, c). ((2, LineString coordinates), c, k'))
                  (ripeti count (push_coordinate le 16) ([], c))))
          else if t = 3 then
            try_bind (read_u32 le c) (\<lambda>(rings, c).
            try_bind (checked_count rings (remaining c) 4) (\<lambda>rings.
              map_ok
                (\<lambda>(e, ints, c).
                   ((3, Polygon (pn (case e of None \<Rightarrow> [] | Some r \<Rightarrow> r) ints)), c, k'))
                (ripeti rings (add_ring le 16) (None, [], c))))
          else if 4 \<le> t \<and> t \<le> 7 then
            try_bind (read_u32 le c) (\<lambda>(children, c).
            try_bind (checked_count children (remaining c) 5) (\<lambda>children.
            try_bind (ripeti children (add_child pn d md t) ([], c, k'))
              (\<lambda>(decoded, st). map_ok (\<lambda>g. (g, st)) (assemble t decoded))))
          else Inl (invalid_wkb_structure ''tipo geometria non supportato''))"

lemma decode_head:
  assumes "decode_geometry pn d md (c, k) = Inr r"
  obtains le k' raw t where "\<not> d > md" "count_component MAX_WKB_COMPONENTS k = Inr k'"
    "read_byte_order c = Inr (le, avanza 1 c)" "read_u32 le (avanza 1 c) = Inr (raw, avanza 4 (avanza 1 c))"
    "parse_wkb_type_code raw Xy = Inr (t, 16)"
    "1 \<le> length (resto c)" "4 \<le> length (resto (avanza 1 c))"
    "decode_body pn d md le t (avanza 5 c) k' = Inr r"
proof -
  have d: "\<not> md < d"
    using assms by (subst (asm) decode_geometry.simps) (simp split: if_splits)
  have "\<exists>le k' raw t. count_component MAX_WKB_COMPONENTS k = Inr k'
      \<and> read_byte_order c = Inr (le, avanza 1 c) \<and> read_u32 le (avanza 1 c) = Inr (raw, avanza 4 (avanza 1 c))
      \<and> parse_wkb_type_code raw Xy = Inr (t, 16) \<and> 1 \<le> length (resto c) \<and> 4 \<le> length (resto (avanza 1 c))
      \<and> decode_body pn d md le t (avanza 5 c) k' = Inr r"
    using assms d
    apply (subst (asm) decode_geometry.simps)
    apply (fold add_child_def)
    apply (clarsimp simp: try_bind_Inr_iff)
    apply (frule read_byte_order_Inr, frule read_u32_Inr, frule parse_Xy_stride)
    apply clarsimp
    apply (unfold decode_body_def)
    apply assumption
    done
  with d that show ?thesis by auto
qed

lemma decode_body_cases:
  assumes "decode_body pn d md le t c k = Inr r"
  obtains "t = 1" | "t = 2" | "t = 3" | "4 \<le> t" "t \<le> 7" "t \<noteq> 1" "t \<noteq> 2" "t \<noteq> 3"
  using assms by (auto simp: decode_body_def split: if_splits)

lemma decode_polygon_rings:
  assumes "geo_types_documented G" and "rings_tracked P start o0 (e, ints, c) (i, c', tot)"
  shows "heap (Polygon (gt_polygon_new G (case e of None \<Rightarrow> [] | Some r \<Rightarrow> r) ints)) = heap_rings e ints"
proof -
  have "list_all closed_ring (case e of None \<Rightarrow> [] | Some r \<Rightarrow> r # ints)" "e = None \<longrightarrow> ints = []"
    using assms(2) by (auto simp: rings_tracked_def)
  then have "gt_polygon_new G (case e of None \<Rightarrow> [] | Some r \<Rightarrow> r) ints
      = \<lparr>exterior = (case e of None \<Rightarrow> [] | Some r \<Rightarrow> r), interiors = ints\<rparr>"
    by (intro documented_polygon [OF assms(1)]) (auto simp: closed_ring_def split: option.splits)
  then show ?thesis by (auto simp: heap_polygon_def heap_rings_def split: option.splits)
qed

lemma size_lockstep:
  assumes "geo_types_documented G"
  shows "decode_geometry (gt_polygon_new G) d md (c, k) = Inr r \<Longrightarrow> misura P tot c \<Longrightarrow>
    sized P tot (offset c) r (decoded_size_geometry d md (c, k, tot))"
proof (induction "Suc md - d" arbitrary: d c k r tot)
  case 0
  then show ?case by (subst (asm) decode_geometry.simps) simp
next
  case (Suc m)
  have IH: "sized P tot (offset c) r (decoded_size_geometry (Suc d) md (c, k, tot))"
    if "decode_geometry (gt_polygon_new G) (Suc d) md (c, k) = Inr r" "misura P tot c" for c k r tot
    using Suc.hyps(1) [of "Suc d", OF _ that] Suc.hyps(2) by simp
  obtain le k' raw t where d: "\<not> d > md" and head: "count_component MAX_WKB_COMPONENTS k = Inr k'"
      "read_byte_order c = Inr (le, avanza 1 c)" "read_u32 le (avanza 1 c) = Inr (raw, avanza 4 (avanza 1 c))"
      "parse_wkb_type_code raw Xy = Inr (t, 16)" "1 \<le> length (resto c)" "4 \<le> length (resto (avanza 1 c))"
    and body0: "decode_body (gt_polygon_new G) d md le t (avanza 5 c) k' = Inr r"
    using Suc.prems(1) by (rule decode_head)
  note body = body0 [unfolded decode_body_def]
  have size: "decoded_size_geometry d md (c, k, tot) =
      (if t = 1 then map_ok (\<lambda>c. (1, c, k', tot)) (skip 16 (avanza 5 c))
       else if t = 2 then
         try_bind (read_u32 le (avanza 5 c)) (\<lambda>(count, c).
         try_bind (checked_count count (remaining c) 16) (\<lambda>count.
           if count = 1 then
             Inl (invalid_wkb_structure ''LineString deve essere vuota o avere almeno due coordinate'')
           else map_ok (\<lambda>c. (2, c, k', add_coordinates tot count)) (skip (count * 16) c)))
       else if t = 3 then
         try_bind (read_u32 le (avanza 5 c)) (\<lambda>(rings, c).
         try_bind (checked_count rings (remaining c) 4) (\<lambda>rings.
           map_ok (\<lambda>(_, c, tot). (3, c, k', tot)) (ripeti rings (size_ring le 16) (0, c, tot))))
       else if 4 \<le> t \<and> t \<le> 7 then
         try_bind (read_u32 le (avanza 5 c)) (\<lambda>(children, c).
         try_bind (checked_count children (remaining c) 5) (\<lambda>children.
           map_ok (\<lambda>st. (t, st)) (ripeti children (size_child d md t) (c, k', tot))))
       else Inl (invalid_wkb_structure ''tipo geometria non supportato''))"
    using d head by (subst decoded_size_geometry.simps) (simp add: size_child_def cong: if_cong)
  have room: "5 \<le> length (resto c)" using head(5,6) by simp
  have m5: "misura P tot (avanza 5 c)"
    using misura_avanza [OF Suc.prems(2) room, of tot] by simp
  consider (point) "t = 1" | (line) "t = 2" | (poly) "t = 3" | (multi) "4 \<le> t" "t \<le> 7" "t \<noteq> 1" "t \<noteq> 2" "t \<noteq> 3"
    using body0 by (rule decode_body_cases) blast+
  then show ?case
  proof cases
    case point
    with body obtain p where "r = ((1, Point p), avanza 16 (avanza 5 c), k')" "16 \<le> length (resto (avanza 5 c))"
      by (auto simp: results dest!: read_coordinate_Inr)
    with point m5  misura_avanza [OF m5, of 16 tot] show ?thesis
      by (simp add: size sized_def skip_resto)
  next
    case line
    with body obtain v n l c' where v: "read_u32 le (avanza 5 c) = Inr (v, avanza 4 (avanza 5 c))"
        "4 \<le> length (resto (avanza 5 c))" "checked_count v (remaining (avanza 9 c)) 16 = Inr n" "n \<noteq> 1"
      and l: "ripeti n (push_coordinate le 16) ([], avanza 9 c) = Inr (l, c')" and r: "r = ((2, LineString l), c', k')"
      by (auto simp: results split: if_splits dest: read_u32_Inr)
    from push_coordinate_loop [OF l] have c': "c' = avanza (16 * n) (avanza 9 c)" and n: "16 * n \<le> length (resto (avanza 9 c))"
      and len: "length l = n" by auto
    have m9: "misura P tot (avanza 9 c)" using misura_avanza [OF m5 v(2), of tot] by simp
    have "unat (add_coordinates tot n) = unat tot + 16 * n"
      using misura_small [OF m9 n, of "16 * n"] by (intro add_coordinates_small) simp
    with line v len misura_avanza [OF m9 n, of "add_coordinates tot n"]  n show ?thesis
      by (simp add: size sized_def skip_resto r c' mult.commute)
  next
    case poly
    with body obtain v c1 n e ints c' where v0: "read_u32 le (avanza 5 c) = Inr (v, c1)" "checked_count v (remaining c1) 4 = Inr n"
      and l0: "ripeti n (add_ring le 16) (None, [], c1) = Inr (e, ints, c')"
      and r: "r = ((3, Polygon (gt_polygon_new G (case e of None \<Rightarrow> [] | Some r \<Rightarrow> r) ints)), c', k')"
      by (auto simp: results)
    from read_u32_Inr [OF v0(1)] have c1: "c1 = avanza 9 c" and room4: "4 \<le> length (resto (avanza 5 c))" by simp_all
    note v = v0 [unfolded c1] and l = l0 [unfolded c1]
    have m9: "misura P tot (avanza 9 c)" using misura_avanza [OF m5 room4, of tot] by simp
    have "rings_tracked P (unat tot) (offset c + 9) (None, [], avanza 9 c) (0, avanza 9 c, tot)"
      using m9 by (simp add: rings_tracked_def heap_rings_def)
    then have "\<exists>u. ripeti n (size_ring le 16) (0, avanza 9 c, tot) = Inr u \<and> rings_tracked P (unat tot) (offset c + 9) (e, ints, c') u"
      using l by (rule ripeti_track [where f = "add_ring le 16" and R = "rings_tracked P (unat tot) (offset c + 9)", rotated]) (rule add_ring_tracked)
    then obtain i tot' where u: "ripeti n (size_ring le 16) (0, avanza 9 c, tot) = Inr (i, c', tot')"
      and R: "rings_tracked P (unat tot) (offset c + 9) (e, ints, c') (i, c', tot')"
      by (auto simp: rings_tracked_def)
    show ?thesis
      using poly v u R decode_polygon_rings [OF assms R]
      by (auto simp: size sized_def r rings_tracked_def)
  next
    case multi
    with body obtain v c1 n ds st t' g where v0: "read_u32 le (avanza 5 c) = Inr (v, c1)" "checked_count v (remaining c1) 5 = Inr n"
      and l0: "ripeti n (add_child (gt_polygon_new G) d md t) ([], c1, k') = Inr (ds, st)"
      and r: "assemble t ds = Inr (t', g)" "r = ((t', g), st)"
      by (auto simp: results)
    from read_u32_Inr [OF v0(1)] have c1: "c1 = avanza 9 c" and room4: "4 \<le> length (resto (avanza 5 c))" by simp_all
    note v = v0 [unfolded c1] and l = l0 [unfolded c1]
    have m9: "misura P tot (avanza 9 c)" using misura_avanza [OF m5 room4, of tot] by simp
    have "children_tracked P t (unat tot) (offset c + 9) ([], avanza 9 c, k') (avanza 9 c, k', tot)"
      using m9 by (simp add: children_tracked_def)
    then have "\<exists>u. ripeti n (size_child d md t) (avanza 9 c, k', tot) = Inr u
        \<and> children_tracked P t (unat tot) (offset c + 9) (ds, st) u"
      using l by (rule ripeti_track [where f = "add_child (gt_polygon_new G) d md t"
            and R = "children_tracked P t (unat tot) (offset c + 9)", rotated]) (rule add_child_tracked [OF IH])
    then obtain u where u: "ripeti n (size_child d md t) (avanza 9 c, k', tot) = Inr u"
      and R: "children_tracked P t (unat tot) (offset c + 9) (ds, st) u"
      by blast
    from heap_assemble [OF r(1) multi(1,2)]
    have "heap g = (\<Sum>d \<leftarrow> ds. unat (slot_of t) + heap (snd d))" "t' = t" by simp_all
    with multi v u R show ?thesis
      by (cases st; cases u) (auto simp: size sized_def r(2) children_tracked_def)
  qed
qed
text \<open>C21. On every cell that decodes, the preflight succeeds and its total is exactly the heap of the decoded
  geometry, with no saturation; it is below twelve bytes per byte of the cell. So a cell that the preflight
  refuses does not decode, and the memory reserved is the memory used.\<close>

theorem preflight_exact:
  assumes "geo_types_documented G" and "decode_validated (gt_polygon_new G) cella = Inr g"
  shows "\<exists>s. decoded_size_xy cella = Inr s \<and> unat s = heap g \<and> heap g + 56 \<le> 12 * length cella"
proof -
  obtain t c k where size: "length cella \<le> MAX_WKB_BYTES"
    and dec: "decode_geometry (gt_polygon_new G) 0 MAX_WKB_DEPTH (cursor_new cella, 0) = Inr ((t, g), (c, k))"
    and all: "remaining c = 0"
    using assms(2) by (auto simp: decode_validated_def decode_validated_with_depth_def results split: if_splits)
  have "misura cella 0 (cursor_new cella)"
    using size by (simp add: misura_def cursor_new_def)
  from size_lockstep [OF assms(1) dec this] obtain s where
    s: "decoded_size_geometry 0 MAX_WKB_DEPTH (cursor_new cella, 0, 0) = Inr (t, c, k, s)" "unat s = heap g"
      "heap g + 56 \<le> 12 * offset c" "offset c \<le> length cella"
    by (auto simp: sized_def misura_def cursor_new_def)
  have "decoded_size_xy cella = Inr s"
    using size s(1) all by (simp add: decoded_size_xy_def)
  with s show ?thesis by auto
qed

theorem preflight_exact_witness:
  "\<exists>s. decoded_size_xy (byte_wkb geo_prova geometria_wkb) = Inr s \<and> unat s = 192"
proof -
  have "decode_validated (gt_polygon_new geo_prova) (byte_wkb geo_prova geometria_wkb) = Inr (normal geo_prova geometria_wkb)"
    by (simp add: decode_validated_def decode_encoded [OF geo_prova_documented geometria_wkb_encoded(2)]
        geometria_wkb_valid MAX_WKB_DEPTH_def)
  from preflight_exact [OF geo_prova_documented this]
  show ?thesis by (auto simp: geometria_wkb_def geo_prova_def rettangolo_di_prova heap_polygon_def)
qed

end
