(* ===== verification/Floats.thy ===== *)
theory Floats
  imports RunLimits Ordering
begin

text \<open>
  The arithmetic of \<open>f64\<close> that the program uses, on the bit patterns: literals, sums, products, comparisons and
  the total order.  A finite double is an integer multiple of \<open>2 ^ -1074\<close>, so sums and products are exact
  rationals rounded once, to the nearest double with ties to even.

  The result of an invalid operation is a NaN; its bits are not specified by the language and nothing below
  reads them.
\<close>

section \<open>Comparisons\<close>

text \<open>\<open>PartialOrd\<close> of \<open>f64\<close>: false on a NaN, and the two zeros are equal.\<close>

definition f64_key :: "f64 \<Rightarrow> int" where
  "f64_key f = (if f64_negative f then - uint (f AND 0x7fffffffffffffff) else uint (f AND 0x7fffffffffffffff))"

definition f64_lt :: "f64 \<Rightarrow> f64 \<Rightarrow> bool" where
  "f64_lt a b \<longleftrightarrow> \<not> f64_is_nan a \<and> \<not> f64_is_nan b \<and> f64_key a < f64_key b"

definition f64_le :: "f64 \<Rightarrow> f64 \<Rightarrow> bool" where
  "f64_le a b \<longleftrightarrow> \<not> f64_is_nan a \<and> \<not> f64_is_nan b \<and> f64_key a \<le> f64_key b"

text \<open>\<open>(a..=b).contains(&x)\<close>.\<close>

definition f64_in :: "f64 \<Rightarrow> f64 \<Rightarrow> f64 \<Rightarrow> bool" where
  "f64_in a b x \<longleftrightarrow> f64_le a x \<and> f64_le x b"

text \<open>\<open>f64::total_cmp\<close>: the bits as a signed integer, the negative ones reversed.\<close>

definition f64_total_key :: "f64 \<Rightarrow> int" where
  "f64_total_key f = sint (if f64_negative f then f XOR 0x7fffffffffffffff else f)"

definition f64_total_cmp :: "f64 \<Rightarrow> f64 \<Rightarrow> ordering" where
  "f64_total_cmp a b = cmp (f64_total_key a) (f64_total_key b)"

text \<open>\<open>f64::min\<close> and \<open>f64::max\<close>: the other operand when one is a NaN.\<close>

definition f64_min :: "f64 \<Rightarrow> f64 \<Rightarrow> f64" where
  "f64_min a b = (if f64_is_nan a then b else if f64_is_nan b then a else if f64_lt b a then b else a)"

definition f64_max :: "f64 \<Rightarrow> f64 \<Rightarrow> f64" where
  "f64_max a b = (if f64_is_nan a then b else if f64_is_nan b then a else if f64_lt a b then b else a)"

lemma f64_lt_trans: "f64_lt a b \<Longrightarrow> f64_lt b c \<Longrightarrow> f64_lt a c"
  by (auto simp: f64_lt_def)

lemma f64_lt_irrefl [simp]: "\<not> f64_lt a a"
  by (simp add: f64_lt_def)

lemma f64_le_trans: "f64_le a b \<Longrightarrow> f64_le b c \<Longrightarrow> f64_le a c"
  by (auto simp: f64_le_def)

section \<open>Rounding\<close>

definition scala_f64 :: rat where
  "scala_f64 = 2 ^ 1074"

definition round_half_even :: "rat \<Rightarrow> int" where
  "round_half_even y =
     (let q = \<lfloor>y\<rfloor>; r = y - of_int q
      in if r > 1 / 2 \<or> r = 1 / 2 \<and> odd q then q + 1 else q)"

definition f64_INFINITY :: f64 where
  "f64_INFINITY = 0x7ff0000000000000"

definition f64_NAN :: f64 where
  "f64_NAN = 0x7ff8000000000000"

text \<open>The double of a rational: \<open>s\<close> is the biased exponent less one, so that adding the rounded significand with
  its leading bit gives the bits of the result, carries included.\<close>

definition f64_round :: "rat \<Rightarrow> f64" where
  "f64_round r =
     (let y = \<bar>r\<bar> * scala_f64;
          s = bit_length (nat \<lfloor>y\<rfloor>) - 53;
          bits = int s * 2 ^ 52 + round_half_even (y / 2 ^ s);
          w = (if bits \<ge> 0x7ff0000000000000 then f64_INFINITY else word_of_int bits)
      in if r < 0 then w OR 0x8000000000000000 else w)"

text \<open>The magnitude of a finite double in units of \<open>2 ^ -1074\<close>, and its value.\<close>

definition f64_unita :: "f64 \<Rightarrow> nat" where
  "f64_unita f =
     (if f64_raw_exponent f = 0 then unat (f64_fraction f)
      else (2 ^ 52 + unat (f64_fraction f)) * 2 ^ (unat (f64_raw_exponent f) - 1))"

definition f64_rat :: "f64 \<Rightarrow> rat" where
  "f64_rat f = (if f64_negative f then - 1 else 1) * of_nat (f64_unita f) / scala_f64"

section \<open>Arithmetic\<close>

definition f64_is_infinite :: "f64 \<Rightarrow> bool" where
  "f64_is_infinite f \<longleftrightarrow> f64_raw_exponent f = 0x7ff \<and> f64_fraction f = 0"

definition f64_neg :: "f64 \<Rightarrow> f64" where
  "f64_neg f = f XOR 0x8000000000000000"

definition con_segno :: "bool \<Rightarrow> f64 \<Rightarrow> f64" where
  "con_segno negativo f = (if negativo then f OR 0x8000000000000000 else f)"

definition f64_add :: "f64 \<Rightarrow> f64 \<Rightarrow> f64" where
  "f64_add a b =
     (if f64_is_nan a \<or> f64_is_nan b then f64_NAN
      else if f64_is_infinite a then (if f64_is_infinite b \<and> f64_negative a \<noteq> f64_negative b then f64_NAN else a)
      else if f64_is_infinite b then b
      else if f64_rat a + f64_rat b = 0 then con_segno (f64_negative a \<and> f64_negative b) 0
      else f64_round (f64_rat a + f64_rat b))"

definition f64_sub :: "f64 \<Rightarrow> f64 \<Rightarrow> f64" where
  "f64_sub a b = f64_add a (f64_neg b)"

definition f64_mul :: "f64 \<Rightarrow> f64 \<Rightarrow> f64" where
  "f64_mul a b =
     (let negativo = f64_negative a \<noteq> f64_negative b
      in if f64_is_nan a \<or> f64_is_nan b then f64_NAN
         else if f64_is_infinite a \<or> f64_is_infinite b then
           (if f64_is_zero a \<or> f64_is_zero b then f64_NAN else con_segno negativo f64_INFINITY)
         else con_segno negativo (f64_round \<bar>f64_rat a * f64_rat b\<bar>))"

definition f64_div :: "f64 \<Rightarrow> f64 \<Rightarrow> f64" where
  "f64_div a b =
     (let negativo = f64_negative a \<noteq> f64_negative b
      in if f64_is_nan a \<or> f64_is_nan b then f64_NAN
         else if f64_is_infinite a then (if f64_is_infinite b then f64_NAN else con_segno negativo f64_INFINITY)
         else if f64_is_infinite b then con_segno negativo 0
         else if f64_is_zero b then (if f64_is_zero a then f64_NAN else con_segno negativo f64_INFINITY)
         else con_segno negativo (f64_round \<bar>f64_rat a / f64_rat b\<bar>))"

definition f64_eq :: "f64 \<Rightarrow> f64 \<Rightarrow> bool" where
  "f64_eq a b \<longleftrightarrow> \<not> f64_is_nan a \<and> \<not> f64_is_nan b \<and> f64_key a = f64_key b"

definition f64_is_normal :: "f64 \<Rightarrow> bool" where
  "f64_is_normal f \<longleftrightarrow> f64_raw_exponent f \<noteq> 0 \<and> f64_raw_exponent f \<noteq> 0x7ff"

text \<open>\<open>consts::PI\<close> and \<open>f64::to_radians\<close>, the product with the quotient of the constants.\<close>

definition f64_PI :: f64 where
  "f64_PI = f64_round 3.14159265358979323846264338327950288"

definition f64_to_radians :: "f64 \<Rightarrow> f64" where
  "f64_to_radians x = f64_mul x (f64_div f64_PI (f64_round 180))"

text \<open>\<open>Iterator::sum\<close> starts from \<open>-0.0\<close>, the neutral element of the addition.\<close>

definition f64_sum :: "f64 list \<Rightarrow> f64" where
  "f64_sum xs = foldl f64_add 0x8000000000000000 xs"

section \<open>The rounding of what is a double already\<close>

lemma floor_of_nat_quotient: "\<lfloor>(of_nat (m * 2 ^ s) :: rat) / 2 ^ s\<rfloor> = int m"
  by simp

lemma bit_length_unique:
  assumes "2 ^ k \<le> n" and "n < 2 ^ Suc k"
  shows "bit_length n = Suc k"
  using bit_length_le_iff [of n k] bit_length_le_iff [of n "Suc k"] assms by auto

lemma round_half_even_of_int [simp]: "round_half_even (of_int z) = z"
  by (simp add: round_half_even_def)

lemma scala_f64_pos [simp]: "0 < scala_f64" "scala_f64 \<noteq> 0" "\<not> scala_f64 < 0"
  by (simp_all add: scala_f64_def)

lemma f64_exponent_field: "unat (f64_raw_exponent f) * 2 ^ 52 + unat (f64_fraction f) = unat (f AND 0x7fffffffffffffff)"
proof -
  have "unat (f AND 0x7fffffffffffffff) = take_bit 63 (unat f)"
    by (simp add: take_bit_eq_mask mask_eq_exp_minus_1 unsigned_and_eq)
  also have "\<dots> = push_bit 52 (take_bit 11 (drop_bit 52 (unat f))) + take_bit 52 (unat f)"
    by (simp add: take_bit_eq_mod drop_bit_eq_div push_bit_eq_mult mod_mult2_eq [of _ "2 ^ 52" "2 ^ 11", simplified])
  also have "take_bit 11 (drop_bit 52 (unat f)) = unat (f64_raw_exponent f)"
    by (simp add: f64_raw_exponent_def unat_drop_bit_eq unsigned_and_eq take_bit_eq_mask mask_eq_exp_minus_1)
  also have "take_bit 52 (unat f) = unat (f64_fraction f)"
    by (simp add: f64_fraction_take_bit unsigned_take_bit_eq)
  finally show ?thesis by (simp add: push_bit_eq_mult)
qed

text \<open>A finite double is a fixed point of the rounding: the definition reads its bits back.\<close>

lemma f64_unita_round:
  assumes "unat (f64_raw_exponent f) < 0x7ff"
  defines "s \<equiv> bit_length (f64_unita f) - 53"
  shows "int s * 2 ^ 52 + round_half_even (of_nat (f64_unita f) / 2 ^ s) = uint (f AND 0x7fffffffffffffff)"
proof -
  have field: "uint (f64_raw_exponent f) * 2 ^ 52 + uint (f64_fraction f) = uint (f AND 0x7fffffffffffffff)"
    using arg_cong [OF f64_exponent_field [of f], of int] by simp
  show ?thesis
  proof (cases "f64_raw_exponent f = 0")
    case True
    then have "f64_unita f < 2 ^ 52" using f64_fraction_lt [of f] by (simp add: f64_unita_def)
    then have "bit_length (f64_unita f) \<le> 52" by (simp add: bit_length_le_iff)
    then have "s = 0" by (simp add: s_def)
    moreover have "round_half_even (of_nat (f64_unita f)) = int (f64_unita f)"
      using round_half_even_of_int [of "int (f64_unita f)"] by simp
    ultimately show ?thesis
      using field True by (simp add: f64_unita_def)
  next
    case False
    define m e where "m = 2 ^ 52 + unat (f64_fraction f)" and "e = unat (f64_raw_exponent f) - 1"
    have u: "f64_unita f = m * 2 ^ e" using False by (simp add: f64_unita_def m_def e_def)
    have m: "2 ^ 52 \<le> m" "m < 2 ^ 53" using f64_fraction_lt [of f] by (simp_all add: m_def)
    have "bit_length (f64_unita f) = Suc (52 + e)"
      unfolding u using m by (intro bit_length_unique) (simp_all add: power_add)
    then have "s = e" by (simp add: s_def)
    then have "round_half_even (of_nat (f64_unita f) / 2 ^ s) = int m"
      using round_half_even_of_int [of "int m"] by (simp add: u)
    moreover have "int e = uint (f64_raw_exponent f) - 1"
    proof -
      have "1 \<le> unat (f64_raw_exponent f)" using False by (simp add: Suc_le_eq unat_gt_0)
      then show ?thesis by (simp add: e_def of_nat_diff)
    qed
    moreover have "int m = 2 ^ 52 + uint (f64_fraction f)" by (simp add: m_def)
    ultimately show ?thesis
      using field \<open>s = e\<close> by (simp add: algebra_simps)
  qed
qed

section \<open>The order of the values\<close>

text \<open>The magnitude read from its bits grows strictly with them, so comparing keys compares values.\<close>

definition grandezza :: "nat \<Rightarrow> nat" where
  "grandezza m = (if m div 2 ^ 52 = 0 then m mod 2 ^ 52 else (2 ^ 52 + m mod 2 ^ 52) * 2 ^ (m div 2 ^ 52 - 1))"

lemma grandezza_Suc: "grandezza m < grandezza (Suc m)"
proof -
  let ?d = "m div 2 ^ 52" and ?r = "m mod 2 ^ 52"
  have r: "?r < 2 ^ 52" by simp
  show ?thesis
  proof (cases "Suc ?r = 2 ^ 52")
    case True
    then have s: "Suc m mod 2 ^ 52 = 0" "Suc m div 2 ^ 52 = Suc ?d"
      by (simp_all add: mod_Suc div_Suc)
    show ?thesis
    proof (cases ?d)
      case 0
      with r show ?thesis unfolding grandezza_def s by simp
    next
      case (Suc e)
      have "(2 ^ 52 + ?r) * 2 ^ e < (2 ^ 52 * 2) * (2 :: nat) ^ e" using r by simp
      with Suc show ?thesis unfolding grandezza_def s by simp
    qed
  next
    case False
    then have "Suc m mod 2 ^ 52 = Suc ?r" "Suc m div 2 ^ 52 = ?d"
      by (simp_all add: mod_Suc div_Suc)
    then show ?thesis by (simp add: grandezza_def)
  qed
qed

lemma grandezza_less_iff: "grandezza m < grandezza n \<longleftrightarrow> m < n"
proof -
  have "strict_mono grandezza" by (simp add: strict_mono_Suc_iff grandezza_Suc)
  then show ?thesis by (simp add: strict_mono_less)
qed

lemma grandezza_eq_iff: "grandezza m = grandezza n \<longleftrightarrow> m = n"
  using grandezza_less_iff [of m n] grandezza_less_iff [of n m] by auto

lemma grandezza_0 [simp]: "grandezza 0 = 0"
  by (simp add: grandezza_def)

lemma f64_unita_grandezza: "f64_unita f = grandezza (unat (f AND 0x7fffffffffffffff))"
proof -
  have lt: "unat (f64_fraction f) < 2 ^ 52" using f64_fraction_lt [of f] by simp
  have "unat (f AND 0x7fffffffffffffff) div 2 ^ 52 = unat (f64_raw_exponent f)"
    "unat (f AND 0x7fffffffffffffff) mod 2 ^ 52 = unat (f64_fraction f)"
    unfolding f64_exponent_field [symmetric] using lt by simp_all
  then show ?thesis by (simp add: f64_unita_def grandezza_def unat_eq_zero)
qed

lemma grandezza_segno_less_iff:
  "(if p then - int (grandezza m) else int (grandezza m)) < (if q then - int (grandezza n) else int (grandezza n))
     \<longleftrightarrow> (if p then - int m else int m) < (if q then - int n else int n)"
  using grandezza_less_iff [of m n] grandezza_less_iff [of n m] grandezza_less_iff [of 0 m]
    grandezza_less_iff [of 0 n] by (cases p; cases q) auto

lemma f64_rat_less_iff: "f64_rat a < f64_rat b \<longleftrightarrow> f64_key a < f64_key b"
proof -
  let ?m = "unat (a AND 0x7fffffffffffffff)" and ?n = "unat (b AND 0x7fffffffffffffff)"
  have key: "f64_key a = (if f64_negative a then - int ?m else int ?m)"
    "f64_key b = (if f64_negative b then - int ?n else int ?n)" by (simp_all add: f64_key_def)
  have "f64_rat a = of_int (if f64_negative a then - int (grandezza ?m) else int (grandezza ?m)) / scala_f64"
    "f64_rat b = of_int (if f64_negative b then - int (grandezza ?n) else int (grandezza ?n)) / scala_f64"
    by (simp_all add: f64_rat_def f64_unita_grandezza)
  then have "f64_rat a < f64_rat b \<longleftrightarrow>
      (if f64_negative a then - int (grandezza ?m) else int (grandezza ?m))
      < (if f64_negative b then - int (grandezza ?n) else int (grandezza ?n))"
    by (simp only: divide_less_cancel of_int_less_iff) simp
  also have "\<dots> \<longleftrightarrow> f64_key a < f64_key b"
    unfolding key by (rule grandezza_segno_less_iff)
  finally show ?thesis .
qed

lemma f64_lt_rat: "f64_is_finite a \<Longrightarrow> f64_is_finite b \<Longrightarrow> f64_lt a b \<longleftrightarrow> f64_rat a < f64_rat b"
  by (simp add: f64_lt_def f64_rat_less_iff f64_is_nan_def f64_is_finite_def)

lemma f64_le_rat: "f64_is_finite a \<Longrightarrow> f64_is_finite b \<Longrightarrow> f64_le a b \<longleftrightarrow> f64_rat a \<le> f64_rat b"
  using f64_rat_less_iff [of b a] by (auto simp: f64_le_def f64_is_nan_def f64_is_finite_def not_less)

text \<open>A value that a double holds is rounded to that double.\<close>

lemma f64_round_exact:
  assumes "2 ^ 52 \<le> m" and "m < 2 ^ 53" and "s < 2046"
  shows "f64_round (of_nat (m * 2 ^ s) / scala_f64) = word_of_nat (s * 2 ^ 52 + m)"
proof -
  define r :: rat where "r = of_nat (m * 2 ^ s) / scala_f64"
  have r: "0 \<le> r" unfolding r_def by (rule divide_nonneg_pos) simp_all
  then have "\<bar>r\<bar> = r" by (rule abs_of_nonneg)
  moreover have "r * scala_f64 = of_nat (m * 2 ^ s)" unfolding r_def by simp
  ultimately have y: "\<bar>r\<bar> * scala_f64 = of_nat (m * 2 ^ s)" by (rule ssubst)
  have "bit_length (m * 2 ^ s) = Suc (52 + s)"
    using assms(1,2) by (intro bit_length_unique) (simp_all add: power_add)
  then have len: "bit_length (nat \<lfloor>(of_nat (m * 2 ^ s) :: rat)\<rfloor>) - 53 = s"
    by (simp only: floor_of_nat nat_int)
  have q: "(of_nat (m * 2 ^ s) :: rat) / 2 ^ s = of_int (int m)" by simp
  have bits: "int s * 2 ^ 52 + int m = int (s * 2 ^ 52 + m)" by simp
  have "s * 2 ^ 52 + m < 0x7ff0000000000000" using assms(2,3) by simp
  then have "\<not> int (s * 2 ^ 52 + m) \<ge> 0x7ff0000000000000" by linarith
  then show ?thesis
    using r unfolding r_def [symmetric] f64_round_def Let_def y len q round_half_even_of_int bits by simp
qed

lemma f64_round_uminus: "0 < r \<Longrightarrow> f64_round (- r) = f64_round r OR 0x8000000000000000"
  by (simp add: f64_round_def Let_def)

text \<open>The bounds of longitude and latitude.\<close>

lemma f64_round_gradi:
  "f64_round 180 = 0x4066800000000000" "f64_round 90 = 0x4056800000000000"
  using f64_round_exact [of "180 * 2 ^ 45" 1029] f64_round_exact [of "180 * 2 ^ 45" 1028]
  by (simp_all add: scala_f64_def)

lemma f64_round_meno_gradi:
  "f64_round (- 180) = 0xC066800000000000" "f64_round (- 90) = 0xC056800000000000"
  by (simp_all add: f64_round_uminus f64_round_gradi)

lemma f64_gradi:
  "f64_is_finite (f64_round 180)" "f64_rat (f64_round 180) = 180"
  "f64_is_finite (f64_round 90)" "f64_rat (f64_round 90) = 90"
  "f64_is_finite (f64_round (- 180))" "f64_rat (f64_round (- 180)) = - 180"
  "f64_is_finite (f64_round (- 90))" "f64_rat (f64_round (- 90)) = - 90"
  unfolding f64_round_gradi f64_round_meno_gradi
  by (simp_all add: f64_is_finite_def f64_rat_def f64_unita_def f64_raw_exponent_def f64_fraction_def
      f64_negative_def scala_f64_def drop_bit_eq_div)

end
