(* ===== verification/GeoParquetScan.thy ===== *)
theory GeoParquetScan
  imports WkbPreflight Floats
begin

text \<open>
  The reading of the WKB cells of a GeoParquet column, \<open>crates/plenora-io/src/wkb.rs\<close>: a walk that builds no
  geometry and collects the types and the bounding box, which the writer publishes and the reader checks.

  The lemmas run the walk in lockstep with the decoder of the kernels, a second reader of the same format in
  another crate: every cell that the kernels produce is a cell that GeoParquet admits.
\<close>

section \<open>The summary of a column\<close>

record riquadro =
  xmin :: f64
  ymin :: f64
  xmax :: f64
  ymax :: f64

record sommario =
  sm_tipi :: "(geometry_type \<times> bool) set"
  sm_riquadro :: "riquadro option"

definition sommario_default :: sommario where
  "sommario_default = \<lparr>sm_tipi = {}, sm_riquadro = None\<rparr>"

definition allarga :: "f64 \<Rightarrow> f64 \<Rightarrow> riquadro \<Rightarrow> riquadro" where
  "allarga x y r =
     \<lparr>xmin = (if f64_lt x (xmin r) then x else xmin r), ymin = (if f64_lt y (ymin r) then y else ymin r),
      xmax = (if f64_lt (xmax r) x then x else xmax r), ymax = (if f64_lt (ymax r) y then y else ymax r)\<rparr>"

definition aggiungi_punto :: "coord \<Rightarrow> sommario \<Rightarrow> sommario" where
  "aggiungi_punto p s =
     (case sm_riquadro s of
        None \<Rightarrow> s\<lparr>sm_riquadro := Some \<lparr>xmin = fst p, ymin = snd p, xmax = fst p, ymax = snd p\<rparr>\<rparr>
      | Some r \<Rightarrow> s\<lparr>sm_riquadro := Some (allarga (fst p) (snd p) r)\<rparr>)"

section \<open>The reader\<close>

definition PROFONDITA_MASSIMA :: nat where
  "PROFONDITA_MASSIMA = 64"

definition non_valido :: "string \<Rightarrow> plenora_error" where
  "non_valido motivo = DataMapping (''WKB non ammesso da GeoParquet 1.1: '' @ motivo)"

definition tipo_da_base :: "u32 \<Rightarrow> geometry_type option" where
  "tipo_da_base base =
     (if base = 1 then Some GtPoint else if base = 2 then Some GtLineString
      else if base = 3 then Some GtPolygon else if base = 4 then Some GtMultiPoint
      else if base = 5 then Some GtMultiLineString else if base = 6 then Some GtMultiPolygon
      else if base = 7 then Some GtGeometryCollection else None)"

record lettore =
  lt_byte :: "u8 list"
  lt_pos :: nat

definition rimasti :: "lettore \<Rightarrow> nat" where
  "rimasti l = length (lt_byte l) - lt_pos l"

definition prendi :: "nat \<Rightarrow> lettore \<Rightarrow> (u8 list \<times> lettore) result" where
  "prendi n l =
     (if lt_pos l + n \<le> length (lt_byte l) then
        Inr (take n (drop (lt_pos l) (lt_byte l)), l\<lparr>lt_pos := lt_pos l + n\<rparr>)
      else Inl (non_valido ''cella troncata''))"

definition lettore_u32 :: "bool \<Rightarrow> lettore \<Rightarrow> (u32 \<times> lettore) result" where
  "lettore_u32 little l =
     map_ok (\<lambda>(b, l). (if little then from_le_bytes b else from_be_bytes b, l)) (prendi 4 l)"

definition lettore_f64 :: "bool \<Rightarrow> lettore \<Rightarrow> (f64 \<times> lettore) result" where
  "lettore_f64 little l =
     map_ok (\<lambda>(b, l). (if little then from_le_bytes b else from_be_bytes b, l)) (prendi 8 l)"

definition conteggio :: "bool \<Rightarrow> nat \<Rightarrow> lettore \<Rightarrow> (nat \<times> lettore) result" where
  "conteggio little minimo l =
     try_bind (lettore_u32 little l) (\<lambda>(v, l).
       if unat v * minimo > rimasti l then Inl (non_valido ''conteggio oltre i byte della cella'')
       else Inr (unat v, l))"

text \<open>A coordinate: X, Y and whether it is the empty point, all of whose ordinates are NaN.\<close>

definition coordinata :: "bool \<Rightarrow> bool \<Rightarrow> lettore \<Rightarrow> ((f64 \<times> f64 \<times> bool) \<times> lettore) result" where
  "coordinata little z l =
     try_bind (lettore_f64 little l) (\<lambda>(x, l).
     try_bind (lettore_f64 little l) (\<lambda>(y, l).
     try_bind (if z then map_ok (\<lambda>(v, l). (Some v, l)) (lettore_f64 little l) else Inr (None, l)) (\<lambda>(terza, l).
       if f64_is_nan x \<and> f64_is_nan y \<and> (case terza of None \<Rightarrow> True | Some v \<Rightarrow> f64_is_nan v) then
         Inr ((x, y, True), l)
       else if \<not> f64_is_finite x \<or> \<not> f64_is_finite y
               \<or> (case terza of None \<Rightarrow> False | Some v \<Rightarrow> \<not> f64_is_finite v) then
         Inl (non_valido ''coordinata non finita'')
       else Inr ((x, y, False), l))))"

definition passo_sequenza :: "bool \<Rightarrow> bool \<Rightarrow> lettore \<times> sommario \<Rightarrow> (lettore \<times> sommario) result" where
  "passo_sequenza little z st =
     try_bind (coordinata little z (fst st)) (\<lambda>((x, y, vuota), l).
       if vuota then Inl (non_valido ''coordinata non finita'')
       else Inr (l, aggiungi_punto (x, y) (snd st)))"

definition sequenza :: "bool \<Rightarrow> bool \<Rightarrow> lettore \<times> sommario \<Rightarrow> (nat \<times> lettore \<times> sommario) result" where
  "sequenza little z st =
     try_bind (conteggio little (if z then 24 else 16) (fst st)) (\<lambda>(n, l).
       map_ok (\<lambda>st. (n, st)) (ripeti n (passo_sequenza little z) (l, snd st)))"

definition passo_anello :: "bool \<Rightarrow> bool \<Rightarrow> lettore \<times> sommario \<Rightarrow> (lettore \<times> sommario) result" where
  "passo_anello little z st =
     try_bind (sequenza little z st) (\<lambda>(n, st).
       if n > 0 \<and> n < 4 then Inl (non_valido ''anello con meno di quattro coordinate'') else Inr st)"

text \<open>The parent that constrains a child: the expected base type, for a multi, and Z.\<close>

record vincolo =
  vn_base :: "u32 option"
  vn_z :: bool

function scan_geometria ::
    "nat \<Rightarrow> vincolo option \<Rightarrow> lettore \<times> sommario \<Rightarrow> ((u32 \<times> bool) \<times> lettore \<times> sommario) result" where
  "scan_geometria profondita limite st =
     (if profondita > PROFONDITA_MASSIMA then Inl (non_valido ''annidamento oltre il limite'')
      else
        try_bind (prendi 1 (fst st)) (\<lambda>(b, l).
        try_bind
          (if hd b = 0 then Inr False else if hd b = 1 then Inr True else Inl (non_valido ''byte order non valido''))
          (\<lambda>little.
        try_bind (lettore_u32 little l) (\<lambda>(codice, l).
          if codice AND 0xE0000000 \<noteq> 0 then Inl (non_valido ''EWKB (flag SRID, Z o M nel codice di tipo)'')
          else
            try_bind
              (if codice div 1000 = 0 then Inr False
               else if codice div 1000 = 1 then Inr True
               else if codice div 1000 = 2 \<or> codice div 1000 = 3 then Inl (non_valido ''coordinate M'')
               else Inl (non_valido ''codice di tipo sconosciuto''))
              (\<lambda>z.
                let base = codice mod 1000 in
                if tipo_da_base base = None then
                  Inl (non_valido ''tipo geometrico fuori dai sette tipi lineari'')
                else if (case limite of None \<Rightarrow> False
                         | Some v \<Rightarrow> vn_z v \<noteq> z \<or> (case vn_base v of None \<Rightarrow> False | Some atteso \<Rightarrow> atteso \<noteq> base)) then
                  Inl (non_valido ''figlio incoerente con la multi-geometria'')
                else
                  map_ok (\<lambda>st. ((base, z), st))
                    (if base = 1 then
                       map_ok (\<lambda>((x, y, vuoto), l). (l, if vuoto then snd st else aggiungi_punto (x, y) (snd st)))
                         (coordinata little z l)
                     else if base = 2 then
                       try_bind (sequenza little z (l, snd st)) (\<lambda>(n, st).
                         if n = 1 then Inl (non_valido ''LineString con una sola coordinata'') else Inr st)
                     else if base = 3 then
                       try_bind (conteggio little 4 l) (\<lambda>(anelli, l).
                         ripeti anelli (passo_anello little z) (l, snd st))
                     else if 4 \<le> base \<and> base \<le> 6 then
                       try_bind (conteggio little 5 l) (\<lambda>(n, l).
                         ripeti n
                           (\<lambda>st. map_ok snd
                              (scan_geometria (Suc profondita) (Some \<lparr>vn_base = Some (base - 3), vn_z = z\<rparr>) st))
                           (l, snd st))
                     else
                       try_bind (conteggio little 5 l) (\<lambda>(n, l).
                         ripeti n
                           (\<lambda>st. map_ok snd (scan_geometria (Suc profondita) (Some \<lparr>vn_base = None, vn_z = z\<rparr>) st))
                           (l, snd st))))))))"
  by pat_completeness auto
termination by (relation "measure (\<lambda>(profondita, _). Suc PROFONDITA_MASSIMA - profondita)") auto

declare scan_geometria.simps [simp del]

definition scansiona_cella :: "u8 list \<Rightarrow> sommario \<Rightarrow> sommario result" where
  "scansiona_cella cella s =
     try_bind (scan_geometria 0 None (\<lparr>lt_byte = cella, lt_pos = 0\<rparr>, s)) (\<lambda>((base, z), l, s).
       if rimasti l \<noteq> 0 then Inl (non_valido ''byte in eccesso dopo la geometria'')
       else
         map_ok (\<lambda>tipo. s\<lparr>sm_tipi := insert (tipo, z) (sm_tipi s)\<rparr>)
           (ok_or (non_valido ''tipo geometrico sconosciuto'') (tipo_da_base base)))"

section \<open>The names of the types\<close>

fun nome_base :: "geometry_type \<Rightarrow> string option" where
  "nome_base GtPoint = Some ''Point''"
| "nome_base GtLineString = Some ''LineString''"
| "nome_base GtPolygon = Some ''Polygon''"
| "nome_base GtMultiPoint = Some ''MultiPoint''"
| "nome_base GtMultiLineString = Some ''MultiLineString''"
| "nome_base GtMultiPolygon = Some ''MultiPolygon''"
| "nome_base GtGeometryCollection = Some ''GeometryCollection''"
| "nome_base _ = None"

definition nome_geoparquet :: "geometry_type \<Rightarrow> bool \<Rightarrow> string option" where
  "nome_geoparquet tipo z = map_option (\<lambda>base. if z then base @ '' Z'' else base) (nome_base tipo)"

definition tipo_da_nome :: "string \<Rightarrow> (geometry_type \<times> bool) option" where
  "tipo_da_nome nome =
     (let (base, z) = (case strip_suffix nome '' Z'' of None \<Rightarrow> (nome, False) | Some base \<Rightarrow> (base, True))
      in map_option (\<lambda>tipo. (tipo, z))
           (if base = ''Point'' then Some GtPoint
            else if base = ''LineString'' then Some GtLineString
            else if base = ''Polygon'' then Some GtPolygon
            else if base = ''MultiPoint'' then Some GtMultiPoint
            else if base = ''MultiLineString'' then Some GtMultiLineString
            else if base = ''MultiPolygon'' then Some GtMultiPolygon
            else if base = ''GeometryCollection'' then Some GtGeometryCollection
            else None))"

lemma strip_suffix_names:
  "strip_suffix ''Point'' '' Z'' = None" "strip_suffix ''LineString'' '' Z'' = None"
  "strip_suffix ''Polygon'' '' Z'' = None" "strip_suffix ''MultiPoint'' '' Z'' = None"
  "strip_suffix ''MultiLineString'' '' Z'' = None" "strip_suffix ''MultiPolygon'' '' Z'' = None"
  "strip_suffix ''GeometryCollection'' '' Z'' = None"
  by (simp_all add: strip_suffix_def)

lemma nome_base_cases:
  assumes "nome_base tipo = Some b"
  shows "(tipo, b) \<in> {(GtPoint, ''Point''), (GtLineString, ''LineString''), (GtPolygon, ''Polygon''),
     (GtMultiPoint, ''MultiPoint''), (GtMultiLineString, ''MultiLineString''), (GtMultiPolygon, ''MultiPolygon''),
     (GtGeometryCollection, ''GeometryCollection'')}"
  using assms by (cases tipo) simp_all

lemma nome_geoparquet_roundtrip:
  assumes "nome_geoparquet tipo z = Some nome"
  shows "tipo_da_nome nome = Some (tipo, z)"
proof -
  obtain b where b: "nome_base tipo = Some b" and nome: "nome = (if z then b @ '' Z'' else b)"
    using assms by (auto simp: nome_geoparquet_def)
  have "strip_suffix nome '' Z'' = (if z then Some b else None)"
    using nome_base_cases [OF b] strip_suffix_names by (auto simp: nome strip_suffix_append)
  then show ?thesis
    using nome_base_cases [OF b] by (cases z) (auto simp: tipo_da_nome_def nome)
qed

section \<open>In lockstep with the decoder\<close>

text \<open>The coordinates of a geometry, in the order of the cell.\<close>

definition coords_polygon :: "polygon \<Rightarrow> coord list" where
  "coords_polygon p = exterior p @ concat (interiors p)"

fun coords :: "geometry \<Rightarrow> coord list" where
  "coords (Point p) = [p]"
| "coords (LineString l) = l"
| "coords (Polygon p) = coords_polygon p"
| "coords (MultiPoint ps) = ps"
| "coords (MultiLineString ls) = concat ls"
| "coords (MultiPolygon ps) = concat (map coords_polygon ps)"
| "coords (GeometryCollection gs) = concat (map coords gs)"
| "coords _ = []"

definition aggiungi_tutti :: "coord list \<Rightarrow> sommario \<Rightarrow> sommario" where
  "aggiungi_tutti ps s = fold aggiungi_punto ps s"

lemma aggiungi_tutti_simps [simp]:
  "aggiungi_tutti [] s = s" "aggiungi_tutti (ps @ qs) s = aggiungi_tutti qs (aggiungi_tutti ps s)"
  "aggiungi_tutti [p] s = aggiungi_punto p s"
  by (simp_all add: aggiungi_tutti_def)

definition al_lettore :: "wkb_cursor \<Rightarrow> lettore" where
  "al_lettore c = \<lparr>lt_byte = payload c, lt_pos = offset c\<rparr>"

lemma prendi_al:
  "0 < n \<Longrightarrow> n \<le> length (resto c) \<Longrightarrow> prendi n (al_lettore c) = Inr (take n (resto c), al_lettore (avanza n c))"
  by (auto simp: prendi_def al_lettore_def resto_def avanza_def)

lemma rimasti_al: "rimasti (al_lettore c) = remaining c"
  by (simp add: rimasti_def al_lettore_def remaining_def)

lemma lettore_u32_al: "read_u32 le c = Inr (v, c') \<Longrightarrow> lettore_u32 le (al_lettore c) = Inr (v, al_lettore c')"
  by (auto simp: lettore_u32_def read_u32_resto prendi_al split: if_splits)

lemma lettore_f64_al: "read_f64 le c = Inr (v, c') \<Longrightarrow> lettore_f64 le (al_lettore c) = Inr (v, al_lettore c')"
  by (auto simp: lettore_f64_def read_f64_resto prendi_al split: if_splits)

lemma byte_al:
  assumes "read_byte_order c = Inr (le, c')"
  shows "prendi (Suc 0) (al_lettore c) = Inr ([if le then 1 else 0], al_lettore c')"
  using assms read_byte_order_Inr [OF assms]
  by (cases "resto c") (auto simp: read_byte_order_def results read_u8_resto prendi_al split: if_splits)

lemma conteggio_al:
  assumes "read_u32 le c = Inr (v, c')" and "checked_count v (remaining c') m = Inr n" and "0 < m"
  shows "conteggio le m (al_lettore c) = Inr (n, al_lettore c')"
proof -
  have "unat v \<le> remaining c' div m" "n = unat v"
    using assms(2,3) by (auto simp: checked_count_def max_absorb1 Suc_le_eq not_less split: if_splits)
  then have "unat v * m \<le> remaining c'"
    using assms(3) by (simp add: less_eq_div_iff_mult_less_eq)
  with \<open>n = unat v\<close> show ?thesis
    by (simp add: conteggio_def lettore_u32_al [OF assms(1)] rimasti_al)
qed

lemma coordinata_al:
  assumes "read_coordinate le 16 c = Inr (p, c')"
  shows "coordinata le False (al_lettore c) = Inr ((fst p, snd p, False), al_lettore c')"
proof -
  obtain x y c1 where x: "read_f64 le c = Inr (x, c1)" and y: "read_f64 le c1 = Inr (y, c')"
    and p: "p = (x, y)" "f64_is_finite x" "f64_is_finite y"
    using assms by (auto simp: read_coordinate_def results skip_resto split: if_splits)
  from p(2,3) have "\<not> f64_is_nan x" by (auto simp: f64_is_finite_def f64_is_nan_def)
  with p show ?thesis
    by (simp add: coordinata_def lettore_f64_al [OF x] lettore_f64_al [OF y])
qed

lemma passo_sequenza_al:
  assumes "read_coordinate le 16 c = Inr (p, c')"
  shows "passo_sequenza le False (al_lettore c, s) = Inr (al_lettore c', aggiungi_punto p s)"
  by (simp add: passo_sequenza_def coordinata_al [OF assms])

lemma sequenza_al:
  assumes "ripeti n (push_coordinate le 16) ([], c) = Inr (l, c')"
  shows "ripeti n (passo_sequenza le False) (al_lettore c, s) = Inr (al_lettore c', aggiungi_tutti l s)"
proof -
  let ?R = "\<lambda>(acc, c) u. u = (al_lettore c, aggiungi_tutti acc s)"
  have "\<exists>u'. ripeti n (passo_sequenza le False) (al_lettore c, s) = Inr u' \<and> ?R (l, c') u'"
    using assms
    by (rule ripeti_track [where R = ?R, rotated -1])
      (auto simp: push_coordinate_def results passo_sequenza_al)
  then show ?thesis by simp
qed

lemma anello_al:
  assumes "decode_ring le 16 c = Inr (r, c')"
  shows "passo_anello le False (al_lettore c, s) = Inr (al_lettore c', aggiungi_tutti r s)"
proof -
  obtain v c1 n p c2 u where v: "read_u32 le c = Inr (v, c1)" "checked_count v (remaining c1) 16 = Inr n" "\<not> n < 4"
    and p: "read_coordinate le 16 c1 = Inr (p, c2)"
    and loop: "ripeti (n - 1) (push_last le 16) ([p], p, c2) = Inr (r, u, c')"
    using assms by (auto simp: decode_ring_def results split: if_splits)
  let ?R = "\<lambda>(acc, p, c) u. u = (al_lettore c, aggiungi_tutti acc s)"
  have "\<exists>u'. ripeti (n - 1) (passo_sequenza le False) (al_lettore c2, aggiungi_punto p s) = Inr u' \<and> ?R (r, u, c') u'"
    using loop
    by (rule ripeti_track [where R = ?R, rotated -1])
      (auto simp: push_last_def results passo_sequenza_al)
  then have "ripeti (Suc (n - 1)) (passo_sequenza le False) (al_lettore c1, s) = Inr (al_lettore c', aggiungi_tutti r s)"
    by (simp add: passo_sequenza_al [OF p])
  with v(3) have "ripeti n (passo_sequenza le False) (al_lettore c1, s) = Inr (al_lettore c', aggiungi_tutti r s)"
    by (cases n) simp_all
  with v(3) show ?thesis
    by (simp add: passo_anello_def sequenza_def conteggio_al [OF v(1,2)])
qed

text \<open>The rings read so far, and their coordinates.\<close>

definition anelli_seguiti :: "sommario \<Rightarrow> coord list option \<times> coord list list \<times> wkb_cursor \<Rightarrow> lettore \<times> sommario \<Rightarrow> bool" where
  "anelli_seguiti s0 st u =
     (case st of (e, ints, c) \<Rightarrow>
       u = (al_lettore c, aggiungi_tutti ((case e of None \<Rightarrow> [] | Some r \<Rightarrow> r) @ concat ints) s0)
       \<and> (e = None \<longrightarrow> ints = []) \<and> list_all closed_ring (case e of None \<Rightarrow> [] | Some r \<Rightarrow> r # ints))"

lemma add_ring_seguiti:
  assumes "anelli_seguiti s0 st u" and "add_ring le 16 st = Inr st'"
  shows "\<exists>u'. passo_anello le False u = Inr u' \<and> anelli_seguiti s0 st' u'"
proof -
  obtain e ints c where st: "st = (e, ints, c)" by (cases st)
  from assms(2) obtain r c' where r: "decode_ring le 16 c = Inr (r, c')"
    and st': "st' = (case e of None \<Rightarrow> (Some r, ints, c') | Some _ \<Rightarrow> (e, ints @ [r], c'))"
    by (auto simp: st add_ring_def results)
  have "closed_ring r" using decode_ring_Inr [OF r] by blast
  with assms(1) anello_al [OF r] show ?thesis
    by (auto simp: st st' anelli_seguiti_def split: option.splits)
qed

text \<open>A type code without dimensions is one that GeoParquet admits as it is.\<close>

lemma codice_Xy:
  assumes "parse_wkb_type_code raw Xy = Inr (t, n)"
  shows "raw AND 0xE0000000 = 0" and "raw div 1000 = 0" and "raw mod 1000 = t"
proof -
  have srid: "raw AND EWKB_SRID_FLAG = 0"
    using assms by (auto simp: parse_wkb_type_code_def split: if_splits)
  have zm: "raw AND (EWKB_Z_FLAG OR EWKB_M_FLAG) = 0"
  proof (rule ccontr)
    assume "raw AND (EWKB_Z_FLAG OR EWKB_M_FLAG) \<noteq> 0"
    moreover from this have "raw AND EWKB_Z_FLAG \<noteq> 0 \<or> raw AND EWKB_M_FLAG \<noteq> 0"
      by (auto simp: bit.conj_disj_distrib)
    ultimately show False
      using assms srid by (auto simp: parse_wkb_type_code_def Let_def results split: if_splits bool.splits)
  qed
  have "(0xE0000000 :: u32) = EWKB_SRID_FLAG OR (EWKB_Z_FLAG OR EWKB_M_FLAG)"
    by (simp add: ewkb_flags)
  with srid zm show "raw AND 0xE0000000 = 0"
    by (simp only: bit.conj_disj_distrib bit.disj_zero_right)
  show "raw div 1000 = 0" "raw mod 1000 = t"
    using assms srid zm by (auto simp: parse_wkb_type_code_def results split: if_splits)
qed

definition ammesso :: "vincolo option \<Rightarrow> u32 \<Rightarrow> bool" where
  "ammesso limite t =
     (case limite of None \<Rightarrow> True
      | Some v \<Rightarrow> \<not> vn_z v \<and> (case vn_base v of None \<Rightarrow> True | Some atteso \<Rightarrow> atteso = t))"

definition passo_figlio :: "nat \<Rightarrow> u32 option \<Rightarrow> lettore \<times> sommario \<Rightarrow> (lettore \<times> sommario) result" where
  "passo_figlio d base = (\<lambda>st. map_ok snd (scan_geometria (Suc d) (Some \<lparr>vn_base = base, vn_z = False\<rparr>) st))"

lemma scan_testa:
  assumes "d \<le> PROFONDITA_MASSIMA" and "read_byte_order c = Inr (le, c1)" and "read_u32 le c1 = Inr (raw, c2)"
    and "parse_wkb_type_code raw Xy = Inr (t, n)" and "tipo_da_base t \<noteq> None" and "ammesso limite t"
  shows "scan_geometria d limite (al_lettore c, s) =
    map_ok (\<lambda>st. ((t, False), st))
      (if t = 1 then
         map_ok (\<lambda>((x, y, vuoto), l). (l, if vuoto then s else aggiungi_punto (x, y) s))
           (coordinata le False (al_lettore c2))
       else if t = 2 then
         try_bind (sequenza le False (al_lettore c2, s)) (\<lambda>(n, st).
           if n = 1 then Inl (non_valido ''LineString con una sola coordinata'') else Inr st)
       else if t = 3 then
         try_bind (conteggio le 4 (al_lettore c2)) (\<lambda>(anelli, l). ripeti anelli (passo_anello le False) (l, s))
       else if 4 \<le> t \<and> t \<le> 6 then
         try_bind (conteggio le 5 (al_lettore c2)) (\<lambda>(n, l). ripeti n (passo_figlio d (Some (t - 3))) (l, s))
       else
         try_bind (conteggio le 5 (al_lettore c2)) (\<lambda>(n, l). ripeti n (passo_figlio d None) (l, s)))"
proof -
  have lim: "(case limite of None \<Rightarrow> False
      | Some v \<Rightarrow> vn_z v \<noteq> False \<or> (case vn_base v of None \<Rightarrow> False | Some atteso \<Rightarrow> atteso \<noteq> raw mod 1000)) = False"
    using assms(6) codice_Xy(3) [OF assms(4)] by (auto simp: ammesso_def split: option.splits)
  have tipo: "(tipo_da_base t = None) = False" using assms(5) by simp
  have mark: "(if (if le then 1 else 0 :: u8) = 0 then Inr False else if (if le then 1 else 0 :: u8) = 1 then Inr True
      else Inl (non_valido ''byte order non valido'')) = Inr le"
    by simp
  show ?thesis
    using assms(1) codice_Xy [OF assms(4)]
    by (subst scan_geometria.simps)
      (simp add: byte_al [OF assms(2)] lettore_u32_al [OF assms(3)] lim tipo mark passo_figlio_def Let_def
        split del: if_split cong: if_cong)
qed

lemma coords_assemble:
  assumes "assemble t ds = Inr (t', g)" and "4 \<le> t" "t \<le> 7"
  shows "coords g = concat (map (\<lambda>d. coords (snd d)) ds) \<and> t' = t"
proof -
  have p: "try_map (\<lambda>d. ok_or e (as_point (snd d))) ds = Inr ps \<Longrightarrow> concat (map (\<lambda>d. coords (snd d)) ds) = ps" for e ps
    by (induction ds arbitrary: ps) (auto simp: ok_or_Inr_iff elim!: as_point.elims split: sum.splits)
  have l: "try_map (\<lambda>d. ok_or e (as_line (snd d))) ds = Inr ls \<Longrightarrow> concat (map (\<lambda>d. coords (snd d)) ds) = concat ls" for e ls
    by (induction ds arbitrary: ls) (auto simp: ok_or_Inr_iff elim!: as_line.elims split: sum.splits)
  have q: "try_map (\<lambda>d. ok_or e (as_polygon (snd d))) ds = Inr qs \<Longrightarrow>
      concat (map (\<lambda>d. coords (snd d)) ds) = concat (map coords_polygon qs)" for e qs
    by (induction ds arbitrary: qs) (auto simp: ok_or_Inr_iff elim!: as_polygon.elims split: sum.splits)
  show ?thesis
    using code_range [OF assms(2,3)] assms(1)
    by (elim disjE) (auto simp: assemble_def results p l q comp_def)
qed

definition figli_seguiti :: "sommario \<Rightarrow> (u32 \<times> geometry) list \<times> walk \<Rightarrow> lettore \<times> sommario \<Rightarrow> bool" where
  "figli_seguiti s0 st u =
     (case st of (ds, c, k) \<Rightarrow> u = (al_lettore c, aggiungi_tutti (concat (map (\<lambda>d. coords (snd d)) ds)) s0))"

lemma add_child_seguiti:
  assumes IH: "\<And>c k r s limite. decode_geometry pn (Suc d) md (c, k) = Inr r \<Longrightarrow> ammesso limite (fst (fst r)) \<Longrightarrow>
      scan_geometria (Suc d) limite (al_lettore c, s)
        = Inr ((fst (fst r), False), al_lettore (fst (snd r)), aggiungi_tutti (coords (snd (fst r))) s)"
    and base: "\<And>ct. compatible_child t ct \<Longrightarrow> ammesso (Some \<lparr>vn_base = b, vn_z = False\<rparr>) ct"
    and "figli_seguiti s0 st u" and "add_child pn d md t st = Inr st'"
  shows "\<exists>u'. passo_figlio d b u = Inr u' \<and> figli_seguiti s0 st' u'"
proof -
  obtain ds c k where st: "st = (ds, c, k)" by (cases st)
  obtain ct g c' k' where dec: "decode_geometry pn (Suc d) md (c, k) = Inr ((ct, g), (c', k'))"
    and ct: "compatible_child t ct" and st': "st' = (ds @ [(ct, g)], c', k')"
    using assms(4) by (auto simp: st add_child_def results split: if_splits)
  show ?thesis
    using assms(3) IH [OF dec] base [OF ct] by (simp add: st st' figli_seguiti_def passo_figlio_def)
qed

lemma compatibile_ammesso:
  assumes "compatible_child t ct" and "4 \<le> t" "t \<le> 7"
  shows "ammesso (Some \<lparr>vn_base = (if t \<le> 6 then Some (t - 3) else None), vn_z = False\<rparr>) ct"
  using code_range [OF assms(2,3)] assms(1) by (elim disjE) (simp_all add: compatible_child_def ammesso_def)

lemma scan_lockstep:
  assumes "geo_types_documented G"
  shows "decode_geometry (gt_polygon_new G) d PROFONDITA_MASSIMA (c, k) = Inr r \<Longrightarrow> ammesso limite (fst (fst r)) \<Longrightarrow>
    scan_geometria d limite (al_lettore c, s)
      = Inr ((fst (fst r), False), al_lettore (fst (snd r)), aggiungi_tutti (coords (snd (fst r))) s)"
proof (induction "Suc PROFONDITA_MASSIMA - d" arbitrary: d c k r s limite)
  case 0
  then show ?case by (subst (asm) decode_geometry.simps) simp
next
  case (Suc m)
  have IH: "scan_geometria (Suc d) limite (al_lettore c, s)
      = Inr ((fst (fst r), False), al_lettore (fst (snd r)), aggiungi_tutti (coords (snd (fst r))) s)"
    if "decode_geometry (gt_polygon_new G) (Suc d) PROFONDITA_MASSIMA (c, k) = Inr r" "ammesso limite (fst (fst r))"
    for c k r s limite
    using Suc.hyps(1) [of "Suc d", OF _ that] Suc.hyps(2) by simp
  obtain le k' raw t where d: "\<not> d > PROFONDITA_MASSIMA" and head: "read_byte_order c = Inr (le, avanza 1 c)"
      "read_u32 le (avanza 1 c) = Inr (raw, avanza 4 (avanza 1 c))" "parse_wkb_type_code raw Xy = Inr (t, 16)"
    and body0: "decode_body (gt_polygon_new G) d PROFONDITA_MASSIMA le t (avanza 5 c) k' = Inr r"
    using Suc.prems(1) by (rule decode_head)
  note body = body0 [unfolded decode_body_def]
  note testa = scan_testa [OF _ head, of d limite s, simplified avanza_avanza]
  show ?case
    using body0
  proof (cases rule: decode_body_cases)
    case 1
    with body obtain p c' where p: "read_coordinate le 16 (avanza 5 c) = Inr (p, c')" "r = ((1, Point p), c', k')"
      by (auto simp: results)
    with 1 d Suc.prems(2) testa show ?thesis
      by (simp add: coordinata_al [OF p(1)] tipo_da_base_def)
  next
    case 2
    with body obtain v c1 n l c' where v: "read_u32 le (avanza 5 c) = Inr (v, c1)"
        "checked_count v (remaining c1) 16 = Inr n" "n \<noteq> 1"
      and l: "ripeti n (push_coordinate le 16) ([], c1) = Inr (l, c')" and r: "r = ((2, LineString l), c', k')"
      by (auto simp: results split: if_splits)
    with 2 d Suc.prems(2) testa show ?thesis
      by (simp add: sequenza_def conteggio_al [OF v(1,2)] sequenza_al [OF l] tipo_da_base_def)
  next
    case 3
    with body obtain v c1 n e ints c' where v: "read_u32 le (avanza 5 c) = Inr (v, c1)" "checked_count v (remaining c1) 4 = Inr n"
      and l: "ripeti n (add_ring le 16) (None, [], c1) = Inr (e, ints, c')"
      and r: "r = ((3, Polygon (gt_polygon_new G (case e of None \<Rightarrow> [] | Some r \<Rightarrow> r) ints)), c', k')"
      by (auto simp: results)
    have "anelli_seguiti s (None, [], c1) (al_lettore c1, s)" by (simp add: anelli_seguiti_def)
    then have "\<exists>u. ripeti n (passo_anello le False) (al_lettore c1, s) = Inr u \<and> anelli_seguiti s (e, ints, c') u"
      using l by (rule ripeti_track [where f = "add_ring le 16" and R = "anelli_seguiti s", rotated]) (rule add_ring_seguiti)
    then have rings: "ripeti n (passo_anello le False) (al_lettore c1, s)
        = Inr (al_lettore c', aggiungi_tutti ((case e of None \<Rightarrow> [] | Some r \<Rightarrow> r) @ concat ints) s)"
      and closed: "list_all closed_ring (case e of None \<Rightarrow> [] | Some r \<Rightarrow> r # ints)" "e = None \<longrightarrow> ints = []"
      by (auto simp: anelli_seguiti_def)
    have "gt_polygon_new G (case e of None \<Rightarrow> [] | Some r \<Rightarrow> r) ints
        = \<lparr>exterior = (case e of None \<Rightarrow> [] | Some r \<Rightarrow> r), interiors = ints\<rparr>"
      using closed by (intro documented_polygon [OF assms]) (auto simp: closed_ring_def split: option.splits)
    with 3 d Suc.prems(2) testa r rings show ?thesis
      by (simp add: conteggio_al [OF v] coords_polygon_def tipo_da_base_def)
  next
    case 4
    with body obtain v c1 n ds c' k2 t' g where v: "read_u32 le (avanza 5 c) = Inr (v, c1)" "checked_count v (remaining c1) 5 = Inr n"
      and l: "ripeti n (add_child (gt_polygon_new G) d PROFONDITA_MASSIMA t) ([], c1, k') = Inr (ds, c', k2)"
      and r: "assemble t ds = Inr (t', g)" "r = ((t', g), c', k2)"
      by (auto simp: results)
    let ?b = "if t \<le> 6 then Some (t - 3) else None"
    have "figli_seguiti s ([], c1, k') (al_lettore c1, s)" by (simp add: figli_seguiti_def)
    then have "\<exists>u. ripeti n (passo_figlio d ?b) (al_lettore c1, s) = Inr u \<and> figli_seguiti s (ds, c', k2) u"
      using l
      by (rule ripeti_track [where f = "add_child (gt_polygon_new G) d PROFONDITA_MASSIMA t" and R = "figli_seguiti s", rotated])
        (rule add_child_seguiti [OF IH compatibile_ammesso [OF _ 4(1,2)]])
    then have "ripeti n (passo_figlio d ?b) (al_lettore c1, s)
        = Inr (al_lettore c', aggiungi_tutti (concat (map (\<lambda>d. coords (snd d)) ds)) s)"
      by (auto simp: figli_seguiti_def)
    moreover have "tipo_da_base t \<noteq> None"
      using code_range [OF 4(1,2)] by (auto simp: tipo_da_base_def)
    ultimately show ?thesis
      using 4 d Suc.prems(2) testa r coords_assemble [OF r(1) 4(1,2)]
      by (cases "t \<le> 6") (simp_all add: conteggio_al [OF v])
  qed
qed

text \<open>The box: a point is inside it when no side excludes the point.\<close>

definition dentro :: "coord \<Rightarrow> sommario \<Rightarrow> bool" where
  "dentro p s =
     (case sm_riquadro s of
        None \<Rightarrow> False
      | Some r \<Rightarrow> \<not> f64_lt (fst p) (xmin r) \<and> \<not> f64_lt (snd p) (ymin r)
          \<and> \<not> f64_lt (xmax r) (fst p) \<and> \<not> f64_lt (ymax r) (snd p))"

lemma dentro_aggiungi: "dentro p (aggiungi_punto p s)"
  by (auto simp: dentro_def aggiungi_punto_def allarga_def split: option.splits)

lemma dentro_resta: "dentro q s \<Longrightarrow> dentro q (aggiungi_punto p s)"
  by (auto simp: dentro_def aggiungi_punto_def allarga_def split: option.splits dest: f64_lt_trans)

lemma dentro_mantiene: "dentro q s \<Longrightarrow> dentro q (aggiungi_tutti ps s)"
  unfolding aggiungi_tutti_def by (induction ps arbitrary: s) (auto intro: dentro_resta)

lemma dentro_tutti: "q \<in> set ps \<Longrightarrow> dentro q (aggiungi_tutti ps s)"
proof (induction ps arbitrary: s)
  case (Cons p ps)
  have step: "aggiungi_tutti (p # ps) s = aggiungi_tutti ps (aggiungi_punto p s)"
    by (simp add: aggiungi_tutti_def)
  show ?case
  proof (cases "q = p")
    case True
    then show ?thesis unfolding step by (intro dentro_mantiene) (simp only: dentro_aggiungi)
  next
    case False
    with Cons show ?thesis by (simp add: step)
  qed
qed simp

lemma aggiungi_tutti_tipi [simp]: "sm_tipi (aggiungi_tutti ps s) = sm_tipi s"
  unfolding aggiungi_tutti_def
  by (induction ps arbitrary: s) (auto simp: aggiungi_punto_def split: option.splits)

lemma dentro_tipi [simp]: "dentro p (s\<lparr>sm_tipi := T\<rparr>) = dentro p s"
  by (simp add: dentro_def)

text \<open>C22. Two readers of one format, in two crates, agree where it matters: every cell that the kernels decode is a
  cell GeoParquet admits, the summary gains exactly its type, without Z, and the box contains all its
  coordinates and whatever it contained before.\<close>

theorem scan_accepts_decoded:
  assumes "geo_types_documented G" and "decode_validated (gt_polygon_new G) cella = Inr g"
  shows "\<exists>s' tipo. scansiona_cella cella s = Inr s' \<and> tipo_da_base (wkb_code g) = Some tipo
    \<and> sm_tipi s' = insert (tipo, False) (sm_tipi s) \<and> (\<forall>p. p \<in> set (coords g) \<or> dentro p s \<longrightarrow> dentro p s')"
proof -
  obtain t c k where dec: "decode_geometry (gt_polygon_new G) 0 PROFONDITA_MASSIMA (cursor_new cella, 0) = Inr ((t, g), (c, k))"
    and all: "remaining c = 0"
    using assms(2)
    by (auto simp: decode_validated_def decode_validated_with_depth_def MAX_WKB_DEPTH_def PROFONDITA_MASSIMA_def results
        split: if_splits)
  have t: "t = wkb_code g"
    using yieldsD [OF decode_code dec] by simp
  have "tipo_da_base t \<noteq> None"
    using dec by (rule decode_head) (auto simp: decode_body_def tipo_da_base_def results assemble_def split: if_splits)
  then obtain tipo where tipo: "tipo_da_base (wkb_code g) = Some tipo" by (auto simp: t)
  have start: "al_lettore (cursor_new cella) = \<lparr>lt_byte = cella, lt_pos = 0\<rparr>"
    by (simp add: al_lettore_def cursor_new_def)
  have "scan_geometria 0 None (\<lparr>lt_byte = cella, lt_pos = 0\<rparr>, s) = Inr ((t, False), al_lettore c, aggiungi_tutti (coords g) s)"
    using scan_lockstep [OF assms(1) dec, of None s] by (simp add: ammesso_def start)
  then have "scansiona_cella cella s
      = Inr ((aggiungi_tutti (coords g) s)\<lparr>sm_tipi := insert (tipo, False) (sm_tipi s)\<rparr>)"
    using all tipo t by (simp add: scansiona_cella_def rimasti_al)
  with tipo dentro_tutti dentro_mantiene show ?thesis by auto
qed

theorem scan_accepts_decoded_witness:
  "\<exists>s'. scansiona_cella (byte_wkb geo_prova geometria_wkb) sommario_default = Inr s'
    \<and> sm_tipi s' = {(GtGeometryCollection, False)} \<and> dentro (0x3ff0000000000000, 0) s'"
proof -
  have "decode_validated (gt_polygon_new geo_prova) (byte_wkb geo_prova geometria_wkb) = Inr (normal geo_prova geometria_wkb)"
    by (simp add: decode_validated_def decode_encoded [OF geo_prova_documented geometria_wkb_encoded(2)]
        geometria_wkb_valid MAX_WKB_DEPTH_def)
  from scan_accepts_decoded [OF geo_prova_documented this, of sommario_default]
  show ?thesis
    by (auto simp: geometria_wkb_def geo_prova_def rettangolo_di_prova tipo_da_base_def sommario_default_def)
qed

end
