(* ===== verification/CrsTypes.thy ===== *)
theory CrsTypes
  imports Floats Errors Catalog ContractTypes
begin

text \<open>
  The types of the reference systems: bounds, axes and rows of the built-in table (\<open>crs.rs\<close>,
  \<open>crs/integrati.rs\<close> of \<open>crates/plenora-core\<close>), and the datums, methods and transformations of the
  reprojection table (\<open>crs/riproiezione/tabella.rs\<close>).  \<open>num\<close> is a literal of \<open>f64\<close>: the nearest double of the
  decimal written.
\<close>

abbreviation num :: "rat \<Rightarrow> f64" where
  "num r \<equiv> f64_round r"

section \<open>Bounds\<close>

record geographic_bounds =
  west_longitude :: f64
  south_latitude :: f64
  east_longitude :: f64
  north_latitude :: f64

definition geo_bounds :: "f64 \<Rightarrow> f64 \<Rightarrow> f64 \<Rightarrow> f64 \<Rightarrow> geographic_bounds" where
  "geo_bounds w s e n = \<lparr>west_longitude = w, south_latitude = s, east_longitude = e, north_latitude = n\<rparr>"

definition crosses_antimeridian :: "geographic_bounds \<Rightarrow> bool" where
  "crosses_antimeridian b \<longleftrightarrow> f64_lt (east_longitude b) (west_longitude b)"

definition geo_contains :: "geographic_bounds \<Rightarrow> f64 \<Rightarrow> f64 \<Rightarrow> bool" where
  "geo_contains b longitude latitude =
     (if \<not> f64_in (south_latitude b) (north_latitude b) latitude then False
      else if crosses_antimeridian b then
        f64_in (west_longitude b) (num 180) longitude \<or> f64_in (num (- 180)) (east_longitude b) longitude
      else f64_in (west_longitude b) (east_longitude b) longitude)"

record projected_bounds =
  min_easting :: f64
  min_northing :: f64
  max_easting :: f64
  max_northing :: f64

definition proj_bounds :: "f64 \<Rightarrow> f64 \<Rightarrow> f64 \<Rightarrow> f64 \<Rightarrow> projected_bounds" where
  "proj_bounds e n e' n' = \<lparr>min_easting = e, min_northing = n, max_easting = e', max_northing = n'\<rparr>"

definition proj_contains :: "projected_bounds \<Rightarrow> f64 \<Rightarrow> f64 \<Rightarrow> bool" where
  "proj_contains b easting northing \<longleftrightarrow>
     f64_in (min_easting b) (max_easting b) easting \<and> f64_in (min_northing b) (max_northing b) northing"

record area_of_use =
  au_geographic :: geographic_bounds
  au_projected :: "projected_bounds option"

record ellipsoid =
  semi_major_axis_metre :: f64
  inverse_flattening :: f64

datatype crs_kind = KGeographic | KProjected

section \<open>The rows of the built-in table\<close>

datatype identificativo = Epsg u32 | OgcCrs84

datatype direzione = North | East

fun direzione_projjson :: "direzione \<Rightarrow> string" where
  "direzione_projjson North = ''north''"
| "direzione_projjson East = ''east''"

record asse =
  as_nome :: string
  as_abbreviazione :: string
  as_direzione :: direzione

record crs_integrato =
  ci_identificativo :: identificativo
  ci_nome :: string
  ci_kind :: crs_kind
  ci_assi :: "asse list" \<comment> \<open>two, in the order of the authority\<close>
  ci_ellissoide :: ellipsoid
  ci_area :: area_of_use
  ci_dominio :: "projected_bounds option"

definition geografico ::
    "identificativo \<Rightarrow> string \<Rightarrow> asse list \<Rightarrow> ellipsoid \<Rightarrow> geographic_bounds \<Rightarrow> crs_integrato" where
  "geografico i nome assi ell area =
     \<lparr>ci_identificativo = i, ci_nome = nome, ci_kind = KGeographic, ci_assi = assi, ci_ellissoide = ell,
      ci_area = \<lparr>au_geographic = area, au_projected = None\<rparr>, ci_dominio = None\<rparr>"

definition proiettato ::
    "identificativo \<Rightarrow> string \<Rightarrow> asse list \<Rightarrow> ellipsoid \<Rightarrow> geographic_bounds \<Rightarrow> projected_bounds \<Rightarrow>
     projected_bounds \<Rightarrow> crs_integrato" where
  "proiettato i nome assi ell area area_proiettata dominio =
     \<lparr>ci_identificativo = i, ci_nome = nome, ci_kind = KProjected, ci_assi = assi, ci_ellissoide = ell,
      ci_area = \<lparr>au_geographic = area, au_projected = Some area_proiettata\<rparr>, ci_dominio = Some dominio\<rparr>"

lemma riga_sel [simp]:
  "ci_identificativo (geografico i nome assi ell area) = i"
  "ci_identificativo (proiettato i nome assi ell area ap d) = i"
  "ci_kind (geografico i nome assi ell area) = KGeographic"
  "ci_kind (proiettato i nome assi ell area ap d) = KProjected"
  "ci_assi (geografico i nome assi ell area) = assi"
  "ci_assi (proiettato i nome assi ell area ap d) = assi"
  "ci_dominio (geografico i nome assi ell area) = None"
  "ci_dominio (proiettato i nome assi ell area ap d) = Some d"
  by (simp_all add: geografico_def proiettato_def)

section \<open>The rows of the reprojection table\<close>

record datum =
  dt_codice :: u32
  dt_nome :: string
  dt_ellissoide :: ellipsoid

datatype metodo_proiezione =
  MpGeografico
| TrasversaDiMercatore f64 f64 f64 f64 f64 \<comment> \<open>\<open>lat0\<close>, \<open>lon0\<close>, \<open>k0\<close>, \<open>falsa_est\<close>, \<open>falsa_nord\<close>\<close>
| MercatoreA f64 f64 f64 f64 f64
| PseudoMercatore f64 f64 f64 f64 \<comment> \<open>\<open>lat0\<close>, \<open>lon0\<close>, \<open>falsa_est\<close>, \<open>falsa_nord\<close>\<close>
| LambertConicaConforme2Sp f64 f64 f64 f64 f64 f64
    \<comment> \<open>\<open>lat_origine\<close>, \<open>lon_origine\<close>, \<open>lat1\<close>, \<open>lat2\<close>, \<open>est_origine\<close>, \<open>nord_origine\<close>\<close>
| LambertAzimutaleEquivalente f64 f64 f64 f64
| StereograficaObliqua f64 f64 f64 f64 f64
| HotineObliquaB f64 f64 f64 f64 f64 f64 f64
    \<comment> \<open>\<open>lat_centro\<close>, \<open>lon_centro\<close>, \<open>azimut\<close>, \<open>angolo_reticolo\<close>, \<open>k_centro\<close>, \<open>est_centro\<close>, \<open>nord_centro\<close>\<close>

record definizione_crs =
  df_crs :: identificativo
  df_datum :: u32
  df_metodo :: metodo_proiezione
  df_regione :: "geographic_bounds option"

datatype metodo_trasformazione =
  Traslazioni f64 f64 f64
| VettorePosizione f64 f64 f64 f64 f64 f64 f64 \<comment> \<open>\<open>tx\<close>, \<open>ty\<close>, \<open>tz\<close>, \<open>rx\<close>, \<open>ry\<close>, \<open>rz\<close>, \<open>ds\<close>\<close>
| TelaioCoordinate f64 f64 f64 f64 f64 f64 f64
| MtGrigliaNtv2 string

record trasformazione =
  tr_codice :: u32
  tr_nome :: string
  tr_da :: u32
  tr_a :: u32
  tr_accuratezza_m :: f64
  tr_metodo :: metodo_trasformazione
  tr_area :: geographic_bounds

definition a_griglia :: "trasformazione \<Rightarrow> bool" where
  "a_griglia t = (case tr_metodo t of MtGrigliaNtv2 _ \<Rightarrow> True | _ \<Rightarrow> False)"

end
