(* ===== verification/DatumTable.thy ===== *)
theory DatumTable
  imports CrsTypes
begin

text \<open>
  The reprojection table, \<open>crs/riproiezione/epsg.rs\<close> of \<open>crates/plenora-core\<close>: the datums, the definition of
  every reference system and the transformations between datums.  The lists of codes are what the lookups and
  the coherence of the tables depend on.
\<close>

section \<open>Ellipsoids\<close>

definition ELLISSOIDE_BESSEL_1841_R :: ellipsoid where
  "ELLISSOIDE_BESSEL_1841_R = \<lparr>semi_major_axis_metre = num 6377397.155, inverse_flattening = num 299.1528128\<rparr>"

definition ELLISSOIDE_GRS_1980_R :: ellipsoid where
  "ELLISSOIDE_GRS_1980_R = \<lparr>semi_major_axis_metre = num 6378137.0, inverse_flattening = num 298.257222101\<rparr>"

definition ELLISSOIDE_INTERNATIONAL_1924_R :: ellipsoid where
  "ELLISSOIDE_INTERNATIONAL_1924_R = \<lparr>semi_major_axis_metre = num 6378388.0, inverse_flattening = num 297.0\<rparr>"

definition ELLISSOIDE_CLARKE_1866_R :: ellipsoid where
  "ELLISSOIDE_CLARKE_1866_R = \<lparr>semi_major_axis_metre = num 6378206.4, inverse_flattening = num 294.9786982138982\<rparr>"

definition ELLISSOIDE_AIRY_1830_R :: ellipsoid where
  "ELLISSOIDE_AIRY_1830_R = \<lparr>semi_major_axis_metre = num 6377563.396, inverse_flattening = num 299.3249646\<rparr>"

definition ELLISSOIDE_WGS_84_R :: ellipsoid where
  "ELLISSOIDE_WGS_84_R = \<lparr>semi_major_axis_metre = num 6378137.0, inverse_flattening = num 298.257223563\<rparr>"

definition ELLISSOIDE_CGCS2000_R :: ellipsoid where
  "ELLISSOIDE_CGCS2000_R = \<lparr>semi_major_axis_metre = num 6378137.0, inverse_flattening = num 298.257222101\<rparr>"

definition VERSIONE_EPSG_R :: string where
  "VERSIONE_EPSG_R = ''v11.022''"

definition VERSIONE_PROJ_R :: string where
  "VERSIONE_PROJ_R = ''9.5.1''"

section \<open>The rows\<close>

definition DATUM_1 :: "datum list" where
  "DATUM_1 =
     [\<lparr>dt_codice = 4150, dt_nome = ''CH1903+'', dt_ellissoide = ELLISSOIDE_BESSEL_1841_R\<rparr>,
      \<lparr>dt_codice = 4167, dt_nome = ''New Zealand Geodetic Datum 2000'', dt_ellissoide = ELLISSOIDE_GRS_1980_R\<rparr>,
      \<lparr>dt_codice = 4171, dt_nome = ''Reseau Geodesique Francais 1993 v1'', dt_ellissoide = ELLISSOIDE_GRS_1980_R\<rparr>,
      \<lparr>dt_codice = 4230, dt_nome = ''European Datum 1950'', dt_ellissoide = ELLISSOIDE_INTERNATIONAL_1924_R\<rparr>,
      \<lparr>dt_codice = 4258, dt_nome = ''European Terrestrial Reference System 1989 ensemble'', dt_ellissoide = ELLISSOIDE_GRS_1980_R\<rparr>,
      \<lparr>dt_codice = 4265, dt_nome = ''Monte Mario'', dt_ellissoide = ELLISSOIDE_INTERNATIONAL_1924_R\<rparr>,
      \<lparr>dt_codice = 4267, dt_nome = ''North American Datum 1927'', dt_ellissoide = ELLISSOIDE_CLARKE_1866_R\<rparr>,
      \<lparr>dt_codice = 4269, dt_nome = ''North American Datum 1983'', dt_ellissoide = ELLISSOIDE_GRS_1980_R\<rparr>,
      \<lparr>dt_codice = 4277, dt_nome = ''Ordnance Survey of Great Britain 1936'', dt_ellissoide = ELLISSOIDE_AIRY_1830_R\<rparr>,
      \<lparr>dt_codice = 4283, dt_nome = ''Geocentric Datum of Australia 1994'', dt_ellissoide = ELLISSOIDE_GRS_1980_R\<rparr>,
      \<lparr>dt_codice = 4289, dt_nome = ''Amersfoort'', dt_ellissoide = ELLISSOIDE_BESSEL_1841_R\<rparr>,
      \<lparr>dt_codice = 4314, dt_nome = ''Deutsches Hauptdreiecksnetz'', dt_ellissoide = ELLISSOIDE_BESSEL_1841_R\<rparr>,
      \<lparr>dt_codice = 4326, dt_nome = ''World Geodetic System 1984 ensemble'', dt_ellissoide = ELLISSOIDE_WGS_84_R\<rparr>,
      \<lparr>dt_codice = 4490, dt_nome = ''China 2000'', dt_ellissoide = ELLISSOIDE_CGCS2000_R\<rparr>,
      \<lparr>dt_codice = 4670, dt_nome = ''Istituto Geografico Militaire 1995'', dt_ellissoide = ELLISSOIDE_GRS_1980_R\<rparr>,
      \<lparr>dt_codice = 4674, dt_nome = ''Sistema de Referencia Geocentrico para las AmericaS 2000'', dt_ellissoide = ELLISSOIDE_GRS_1980_R\<rparr>,
      \<lparr>dt_codice = 6706, dt_nome = ''Rete Dinamica Nazionale 2008'', dt_ellissoide = ELLISSOIDE_GRS_1980_R\<rparr>,
      \<lparr>dt_codice = 7844, dt_nome = ''Geocentric Datum of Australia 2020'', dt_ellissoide = ELLISSOIDE_GRS_1980_R\<rparr>]"

definition DATUM :: "datum list" where
  "DATUM = DATUM_1"

definition DEFINIZIONI_1 :: "definizione_crs list" where
  "DEFINIZIONI_1 =
     [\<lparr>df_crs = OgcCrs84, df_datum = 4326,
        df_metodo = MpGeografico,
        df_regione = None\<rparr>,
      \<lparr>df_crs = Epsg 2056, df_datum = 4150,
        df_metodo = HotineObliquaB (num 46.95240555555556) (num 7.439583333333333) (num 90.0) (num 90.0) (num 1.0) (num 2600000.0) (num 1200000.0),
        df_regione = None\<rparr>,
      \<lparr>df_crs = Epsg 2154, df_datum = 4171,
        df_metodo = LambertConicaConforme2Sp (num 46.5) (num 3.0) (num 49.0) (num 44.0) (num 700000.0) (num 6600000.0),
        df_regione = None\<rparr>,
      \<lparr>df_crs = Epsg 2193, df_datum = 4167,
        df_metodo = TrasversaDiMercatore (num 0.0) (num 173.0) (num 0.9996) (num 1600000.0) (num 10000000.0),
        df_regione = Some (geo_bounds (num 158.0) (num (- 53.94499999999999)) (num 188.0) (num (- 27.485000000000003)))\<rparr>,
      \<lparr>df_crs = Epsg 3003, df_datum = 4265,
        df_metodo = TrasversaDiMercatore (num 0.0) (num 9.0) (num 0.9996) (num 1500000.0) (num 0.0),
        df_regione = Some (geo_bounds (num (- 6.0)) (num 31.275000000000002) (num 24.0) (num 52.295))\<rparr>,
      \<lparr>df_crs = Epsg 3004, df_datum = 4265,
        df_metodo = TrasversaDiMercatore (num 0.0) (num 15.0) (num 0.9996) (num 2520000.0) (num 0.0),
        df_regione = Some (geo_bounds (num 0.0) (num 28.589999999999996) (num 30.0) (num 53.27))\<rparr>,
      \<lparr>df_crs = Epsg 3035, df_datum = 4258,
        df_metodo = LambertAzimutaleEquivalente (num 52.0) (num 10.0) (num 4321000.0) (num 3210000.0),
        df_regione = None\<rparr>,
      \<lparr>df_crs = Epsg 3064, df_datum = 4670,
        df_metodo = TrasversaDiMercatore (num 0.0) (num 9.0) (num 0.9996) (num 500000.0) (num 0.0),
        df_regione = Some (geo_bounds (num (- 6.0)) (num 0.0) (num 24.0) (num 84.0))\<rparr>,
      \<lparr>df_crs = Epsg 3065, df_datum = 4670,
        df_metodo = TrasversaDiMercatore (num 0.0) (num 15.0) (num 0.9996) (num 500000.0) (num 0.0),
        df_regione = Some (geo_bounds (num 0.0) (num 0.0) (num 30.0) (num 84.0))\<rparr>,
      \<lparr>df_crs = Epsg 3395, df_datum = 4326,
        df_metodo = MercatoreA (num 0.0) (num 0.0) (num 1.0) (num 0.0) (num 0.0),
        df_regione = Some (geo_bounds (num (- 180.0)) (num (- 85.06)) (num 180.0) (num 85.06))\<rparr>,
      \<lparr>df_crs = Epsg 3857, df_datum = 4326,
        df_metodo = PseudoMercatore (num 0.0) (num 0.0) (num 0.0) (num 0.0),
        df_regione = Some (geo_bounds (num (- 180.0)) (num (- 85.06)) (num 180.0) (num 85.06))\<rparr>]"

definition DEFINIZIONI_2 :: "definizione_crs list" where
  "DEFINIZIONI_2 =
     [\<lparr>df_crs = Epsg 4171, df_datum = 4171,
        df_metodo = MpGeografico,
        df_regione = None\<rparr>,
      \<lparr>df_crs = Epsg 4230, df_datum = 4230,
        df_metodo = MpGeografico,
        df_regione = None\<rparr>,
      \<lparr>df_crs = Epsg 4258, df_datum = 4258,
        df_metodo = MpGeografico,
        df_regione = None\<rparr>,
      \<lparr>df_crs = Epsg 4265, df_datum = 4265,
        df_metodo = MpGeografico,
        df_regione = None\<rparr>,
      \<lparr>df_crs = Epsg 4267, df_datum = 4267,
        df_metodo = MpGeografico,
        df_regione = None\<rparr>,
      \<lparr>df_crs = Epsg 4269, df_datum = 4269,
        df_metodo = MpGeografico,
        df_regione = None\<rparr>,
      \<lparr>df_crs = Epsg 4277, df_datum = 4277,
        df_metodo = MpGeografico,
        df_regione = None\<rparr>,
      \<lparr>df_crs = Epsg 4283, df_datum = 4283,
        df_metodo = MpGeografico,
        df_regione = None\<rparr>,
      \<lparr>df_crs = Epsg 4326, df_datum = 4326,
        df_metodo = MpGeografico,
        df_regione = None\<rparr>,
      \<lparr>df_crs = Epsg 4490, df_datum = 4490,
        df_metodo = MpGeografico,
        df_regione = None\<rparr>,
      \<lparr>df_crs = Epsg 4670, df_datum = 4670,
        df_metodo = MpGeografico,
        df_regione = None\<rparr>,
      \<lparr>df_crs = Epsg 4674, df_datum = 4674,
        df_metodo = MpGeografico,
        df_regione = None\<rparr>,
      \<lparr>df_crs = Epsg 6706, df_datum = 6706,
        df_metodo = MpGeografico,
        df_regione = None\<rparr>,
      \<lparr>df_crs = Epsg 6707, df_datum = 6706,
        df_metodo = TrasversaDiMercatore (num 0.0) (num 9.0) (num 0.9996) (num 500000.0) (num 0.0),
        df_regione = Some (geo_bounds (num (- 6.0)) (num 0.0) (num 24.0) (num 84.0))\<rparr>,
      \<lparr>df_crs = Epsg 6708, df_datum = 6706,
        df_metodo = TrasversaDiMercatore (num 0.0) (num 15.0) (num 0.9996) (num 500000.0) (num 0.0),
        df_regione = Some (geo_bounds (num 0.0) (num 0.0) (num 30.0) (num 84.0))\<rparr>,
      \<lparr>df_crs = Epsg 6709, df_datum = 6706,
        df_metodo = TrasversaDiMercatore (num 0.0) (num 21.0) (num 0.9996) (num 500000.0) (num 0.0),
        df_regione = Some (geo_bounds (num 6.0) (num 0.0) (num 36.0) (num 84.0))\<rparr>,
      \<lparr>df_crs = Epsg 6875, df_datum = 6706,
        df_metodo = TrasversaDiMercatore (num 0.0) (num 12.0) (num 0.9985) (num 7000000.0) (num 0.0),
        df_regione = Some (geo_bounds (num (- 3.0)) (num 28.589999999999996) (num 27.0) (num 53.27))\<rparr>,
      \<lparr>df_crs = Epsg 7791, df_datum = 6706,
        df_metodo = TrasversaDiMercatore (num 0.0) (num 9.0) (num 0.9996) (num 500000.0) (num 0.0),
        df_regione = Some (geo_bounds (num (- 6.0)) (num 0.0) (num 24.0) (num 84.0))\<rparr>]"

definition DEFINIZIONI_3 :: "definizione_crs list" where
  "DEFINIZIONI_3 =
     [\<lparr>df_crs = Epsg 7792, df_datum = 6706,
        df_metodo = TrasversaDiMercatore (num 0.0) (num 15.0) (num 0.9996) (num 500000.0) (num 0.0),
        df_regione = Some (geo_bounds (num 0.0) (num 0.0) (num 30.0) (num 84.0))\<rparr>,
      \<lparr>df_crs = Epsg 7793, df_datum = 6706,
        df_metodo = TrasversaDiMercatore (num 0.0) (num 21.0) (num 0.9996) (num 500000.0) (num 0.0),
        df_regione = Some (geo_bounds (num 6.0) (num 0.0) (num 36.0) (num 84.0))\<rparr>,
      \<lparr>df_crs = Epsg 7794, df_datum = 6706,
        df_metodo = TrasversaDiMercatore (num 0.0) (num 12.0) (num 0.9985) (num 7000000.0) (num 0.0),
        df_regione = Some (geo_bounds (num (- 3.0)) (num 28.589999999999996) (num 27.0) (num 53.27))\<rparr>,
      \<lparr>df_crs = Epsg 7844, df_datum = 7844,
        df_metodo = MpGeografico,
        df_regione = None\<rparr>,
      \<lparr>df_crs = Epsg 23032, df_datum = 4230,
        df_metodo = TrasversaDiMercatore (num 0.0) (num 9.0) (num 0.9996) (num 500000.0) (num 0.0),
        df_regione = Some (geo_bounds (num (- 6.0)) (num 0.0) (num 24.0) (num 84.33))\<rparr>,
      \<lparr>df_crs = Epsg 23033, df_datum = 4230,
        df_metodo = TrasversaDiMercatore (num 0.0) (num 15.0) (num 0.9996) (num 500000.0) (num 0.0),
        df_regione = Some (geo_bounds (num 0.0) (num 0.0) (num 30.0) (num 84.42))\<rparr>,
      \<lparr>df_crs = Epsg 23034, df_datum = 4230,
        df_metodo = TrasversaDiMercatore (num 0.0) (num 21.0) (num 0.9996) (num 500000.0) (num 0.0),
        df_regione = Some (geo_bounds (num 6.0) (num 0.0) (num 36.0) (num 84.54))\<rparr>,
      \<lparr>df_crs = Epsg 25828, df_datum = 4258,
        df_metodo = TrasversaDiMercatore (num 0.0) (num (- 15.0)) (num 0.9996) (num 500000.0) (num 0.0),
        df_regione = Some (geo_bounds (num (- 30.0)) (num 0.0) (num 0.0) (num 84.0))\<rparr>,
      \<lparr>df_crs = Epsg 25829, df_datum = 4258,
        df_metodo = TrasversaDiMercatore (num 0.0) (num (- 9.0)) (num 0.9996) (num 500000.0) (num 0.0),
        df_regione = Some (geo_bounds (num (- 24.0)) (num 0.0) (num 6.0) (num 84.0))\<rparr>,
      \<lparr>df_crs = Epsg 25830, df_datum = 4258,
        df_metodo = TrasversaDiMercatore (num 0.0) (num (- 3.0)) (num 0.9996) (num 500000.0) (num 0.0),
        df_regione = Some (geo_bounds (num (- 18.0)) (num 0.0) (num 12.0) (num 84.0))\<rparr>,
      \<lparr>df_crs = Epsg 25831, df_datum = 4258,
        df_metodo = TrasversaDiMercatore (num 0.0) (num 3.0) (num 0.9996) (num 500000.0) (num 0.0),
        df_regione = Some (geo_bounds (num (- 12.0)) (num 0.0) (num 18.0) (num 84.0))\<rparr>,
      \<lparr>df_crs = Epsg 25832, df_datum = 4258,
        df_metodo = TrasversaDiMercatore (num 0.0) (num 9.0) (num 0.9996) (num 500000.0) (num 0.0),
        df_regione = Some (geo_bounds (num (- 6.0)) (num 0.0) (num 24.0) (num 84.01))\<rparr>]"

definition DEFINIZIONI_4 :: "definizione_crs list" where
  "DEFINIZIONI_4 =
     [\<lparr>df_crs = Epsg 25833, df_datum = 4258,
        df_metodo = TrasversaDiMercatore (num 0.0) (num 15.0) (num 0.9996) (num 500000.0) (num 0.0),
        df_regione = Some (geo_bounds (num 0.0) (num 0.0) (num 30.0) (num 84.01))\<rparr>,
      \<lparr>df_crs = Epsg 25834, df_datum = 4258,
        df_metodo = TrasversaDiMercatore (num 0.0) (num 21.0) (num 0.9996) (num 500000.0) (num 0.0),
        df_regione = Some (geo_bounds (num 6.0) (num 0.0) (num 36.0) (num 84.01))\<rparr>,
      \<lparr>df_crs = Epsg 25835, df_datum = 4258,
        df_metodo = TrasversaDiMercatore (num 0.0) (num 27.0) (num 0.9996) (num 500000.0) (num 0.0),
        df_regione = Some (geo_bounds (num 12.0) (num 0.0) (num 42.0) (num 84.01))\<rparr>,
      \<lparr>df_crs = Epsg 25836, df_datum = 4258,
        df_metodo = TrasversaDiMercatore (num 0.0) (num 33.0) (num 0.9996) (num 500000.0) (num 0.0),
        df_regione = Some (geo_bounds (num 18.0) (num 0.0) (num 48.0) (num 84.01))\<rparr>,
      \<lparr>df_crs = Epsg 25837, df_datum = 4258,
        df_metodo = TrasversaDiMercatore (num 0.0) (num 39.0) (num 0.9996) (num 500000.0) (num 0.0),
        df_regione = Some (geo_bounds (num 24.0) (num 0.0) (num 54.0) (num 84.0))\<rparr>,
      \<lparr>df_crs = Epsg 27700, df_datum = 4277,
        df_metodo = TrasversaDiMercatore (num 49.0) (num (- 2.0)) (num 0.9996012717) (num 400000.0) (num (- 100000.0)),
        df_regione = Some (geo_bounds (num (- 17.0)) (num 44.120000000000005) (num 13.0) (num 66.64))\<rparr>,
      \<lparr>df_crs = Epsg 28992, df_datum = 4289,
        df_metodo = StereograficaObliqua (num 52.15616055555555) (num 5.3876388888888895) (num 0.9999079) (num 155000.0) (num 463000.0),
        df_regione = None\<rparr>,
      \<lparr>df_crs = Epsg 31467, df_datum = 4314,
        df_metodo = TrasversaDiMercatore (num 0.0) (num 9.0) (num 1.0) (num 3500000.0) (num 0.0),
        df_regione = Some (geo_bounds (num (- 6.0)) (num 43.36) (num 24.0) (num 59.0))\<rparr>,
      \<lparr>df_crs = Epsg 32601, df_datum = 4326,
        df_metodo = TrasversaDiMercatore (num 0.0) (num (- 177.0)) (num 0.9996) (num 500000.0) (num 0.0),
        df_regione = Some (geo_bounds (num (- 192.0)) (num 0.0) (num (- 162.0)) (num 84.0))\<rparr>,
      \<lparr>df_crs = Epsg 32602, df_datum = 4326,
        df_metodo = TrasversaDiMercatore (num 0.0) (num (- 171.0)) (num 0.9996) (num 500000.0) (num 0.0),
        df_regione = Some (geo_bounds (num (- 186.0)) (num 0.0) (num (- 156.0)) (num 84.0))\<rparr>,
      \<lparr>df_crs = Epsg 32603, df_datum = 4326,
        df_metodo = TrasversaDiMercatore (num 0.0) (num (- 165.0)) (num 0.9996) (num 500000.0) (num 0.0),
        df_regione = Some (geo_bounds (num (- 180.0)) (num 0.0) (num (- 150.0)) (num 84.0))\<rparr>]"

definition DEFINIZIONI_5 :: "definizione_crs list" where
  "DEFINIZIONI_5 =
     [\<lparr>df_crs = Epsg 32604, df_datum = 4326,
        df_metodo = TrasversaDiMercatore (num 0.0) (num (- 159.0)) (num 0.9996) (num 500000.0) (num 0.0),
        df_regione = Some (geo_bounds (num (- 174.0)) (num 0.0) (num (- 144.0)) (num 84.0))\<rparr>,
      \<lparr>df_crs = Epsg 32605, df_datum = 4326,
        df_metodo = TrasversaDiMercatore (num 0.0) (num (- 153.0)) (num 0.9996) (num 500000.0) (num 0.0),
        df_regione = Some (geo_bounds (num (- 168.0)) (num 0.0) (num (- 138.0)) (num 84.0))\<rparr>,
      \<lparr>df_crs = Epsg 32606, df_datum = 4326,
        df_metodo = TrasversaDiMercatore (num 0.0) (num (- 147.0)) (num 0.9996) (num 500000.0) (num 0.0),
        df_regione = Some (geo_bounds (num (- 162.0)) (num 0.0) (num (- 132.0)) (num 84.0))\<rparr>,
      \<lparr>df_crs = Epsg 32607, df_datum = 4326,
        df_metodo = TrasversaDiMercatore (num 0.0) (num (- 141.0)) (num 0.9996) (num 500000.0) (num 0.0),
        df_regione = Some (geo_bounds (num (- 156.0)) (num 0.0) (num (- 126.0)) (num 84.0))\<rparr>,
      \<lparr>df_crs = Epsg 32608, df_datum = 4326,
        df_metodo = TrasversaDiMercatore (num 0.0) (num (- 135.0)) (num 0.9996) (num 500000.0) (num 0.0),
        df_regione = Some (geo_bounds (num (- 150.0)) (num 0.0) (num (- 120.0)) (num 84.0))\<rparr>,
      \<lparr>df_crs = Epsg 32609, df_datum = 4326,
        df_metodo = TrasversaDiMercatore (num 0.0) (num (- 129.0)) (num 0.9996) (num 500000.0) (num 0.0),
        df_regione = Some (geo_bounds (num (- 144.0)) (num 0.0) (num (- 114.0)) (num 84.0))\<rparr>,
      \<lparr>df_crs = Epsg 32610, df_datum = 4326,
        df_metodo = TrasversaDiMercatore (num 0.0) (num (- 123.0)) (num 0.9996) (num 500000.0) (num 0.0),
        df_regione = Some (geo_bounds (num (- 138.0)) (num 0.0) (num (- 108.0)) (num 84.0))\<rparr>,
      \<lparr>df_crs = Epsg 32611, df_datum = 4326,
        df_metodo = TrasversaDiMercatore (num 0.0) (num (- 117.0)) (num 0.9996) (num 500000.0) (num 0.0),
        df_regione = Some (geo_bounds (num (- 132.0)) (num 0.0) (num (- 102.0)) (num 84.0))\<rparr>,
      \<lparr>df_crs = Epsg 32612, df_datum = 4326,
        df_metodo = TrasversaDiMercatore (num 0.0) (num (- 111.0)) (num 0.9996) (num 500000.0) (num 0.0),
        df_regione = Some (geo_bounds (num (- 126.0)) (num 0.0) (num (- 96.0)) (num 84.0))\<rparr>,
      \<lparr>df_crs = Epsg 32613, df_datum = 4326,
        df_metodo = TrasversaDiMercatore (num 0.0) (num (- 105.0)) (num 0.9996) (num 500000.0) (num 0.0),
        df_regione = Some (geo_bounds (num (- 120.0)) (num 0.0) (num (- 90.0)) (num 84.0))\<rparr>,
      \<lparr>df_crs = Epsg 32614, df_datum = 4326,
        df_metodo = TrasversaDiMercatore (num 0.0) (num (- 99.0)) (num 0.9996) (num 500000.0) (num 0.0),
        df_regione = Some (geo_bounds (num (- 114.0)) (num 0.0) (num (- 84.0)) (num 84.0))\<rparr>]"

definition DEFINIZIONI_6 :: "definizione_crs list" where
  "DEFINIZIONI_6 =
     [\<lparr>df_crs = Epsg 32615, df_datum = 4326,
        df_metodo = TrasversaDiMercatore (num 0.0) (num (- 93.0)) (num 0.9996) (num 500000.0) (num 0.0),
        df_regione = Some (geo_bounds (num (- 108.0)) (num 0.0) (num (- 78.0)) (num 84.0))\<rparr>,
      \<lparr>df_crs = Epsg 32616, df_datum = 4326,
        df_metodo = TrasversaDiMercatore (num 0.0) (num (- 87.0)) (num 0.9996) (num 500000.0) (num 0.0),
        df_regione = Some (geo_bounds (num (- 102.0)) (num 0.0) (num (- 72.0)) (num 84.0))\<rparr>,
      \<lparr>df_crs = Epsg 32617, df_datum = 4326,
        df_metodo = TrasversaDiMercatore (num 0.0) (num (- 81.0)) (num 0.9996) (num 500000.0) (num 0.0),
        df_regione = Some (geo_bounds (num (- 96.0)) (num 0.0) (num (- 66.0)) (num 84.0))\<rparr>,
      \<lparr>df_crs = Epsg 32618, df_datum = 4326,
        df_metodo = TrasversaDiMercatore (num 0.0) (num (- 75.0)) (num 0.9996) (num 500000.0) (num 0.0),
        df_regione = Some (geo_bounds (num (- 90.0)) (num 0.0) (num (- 60.0)) (num 84.0))\<rparr>,
      \<lparr>df_crs = Epsg 32619, df_datum = 4326,
        df_metodo = TrasversaDiMercatore (num 0.0) (num (- 69.0)) (num 0.9996) (num 500000.0) (num 0.0),
        df_regione = Some (geo_bounds (num (- 84.0)) (num 0.0) (num (- 54.0)) (num 84.0))\<rparr>,
      \<lparr>df_crs = Epsg 32620, df_datum = 4326,
        df_metodo = TrasversaDiMercatore (num 0.0) (num (- 63.0)) (num 0.9996) (num 500000.0) (num 0.0),
        df_regione = Some (geo_bounds (num (- 78.0)) (num 0.0) (num (- 48.0)) (num 84.0))\<rparr>,
      \<lparr>df_crs = Epsg 32621, df_datum = 4326,
        df_metodo = TrasversaDiMercatore (num 0.0) (num (- 57.0)) (num 0.9996) (num 500000.0) (num 0.0),
        df_regione = Some (geo_bounds (num (- 72.0)) (num 0.0) (num (- 42.0)) (num 84.0))\<rparr>,
      \<lparr>df_crs = Epsg 32622, df_datum = 4326,
        df_metodo = TrasversaDiMercatore (num 0.0) (num (- 51.0)) (num 0.9996) (num 500000.0) (num 0.0),
        df_regione = Some (geo_bounds (num (- 66.0)) (num 0.0) (num (- 36.0)) (num 84.0))\<rparr>,
      \<lparr>df_crs = Epsg 32623, df_datum = 4326,
        df_metodo = TrasversaDiMercatore (num 0.0) (num (- 45.0)) (num 0.9996) (num 500000.0) (num 0.0),
        df_regione = Some (geo_bounds (num (- 60.0)) (num 0.0) (num (- 30.0)) (num 84.0))\<rparr>,
      \<lparr>df_crs = Epsg 32624, df_datum = 4326,
        df_metodo = TrasversaDiMercatore (num 0.0) (num (- 39.0)) (num 0.9996) (num 500000.0) (num 0.0),
        df_regione = Some (geo_bounds (num (- 54.0)) (num 0.0) (num (- 24.0)) (num 84.0))\<rparr>,
      \<lparr>df_crs = Epsg 32625, df_datum = 4326,
        df_metodo = TrasversaDiMercatore (num 0.0) (num (- 33.0)) (num 0.9996) (num 500000.0) (num 0.0),
        df_regione = Some (geo_bounds (num (- 48.0)) (num 0.0) (num (- 18.0)) (num 84.0))\<rparr>]"

definition DEFINIZIONI_7 :: "definizione_crs list" where
  "DEFINIZIONI_7 =
     [\<lparr>df_crs = Epsg 32626, df_datum = 4326,
        df_metodo = TrasversaDiMercatore (num 0.0) (num (- 27.0)) (num 0.9996) (num 500000.0) (num 0.0),
        df_regione = Some (geo_bounds (num (- 42.0)) (num 0.0) (num (- 12.0)) (num 84.0))\<rparr>,
      \<lparr>df_crs = Epsg 32627, df_datum = 4326,
        df_metodo = TrasversaDiMercatore (num 0.0) (num (- 21.0)) (num 0.9996) (num 500000.0) (num 0.0),
        df_regione = Some (geo_bounds (num (- 36.0)) (num 0.0) (num (- 6.0)) (num 84.0))\<rparr>,
      \<lparr>df_crs = Epsg 32628, df_datum = 4326,
        df_metodo = TrasversaDiMercatore (num 0.0) (num (- 15.0)) (num 0.9996) (num 500000.0) (num 0.0),
        df_regione = Some (geo_bounds (num (- 30.0)) (num 0.0) (num 0.0) (num 84.0))\<rparr>,
      \<lparr>df_crs = Epsg 32629, df_datum = 4326,
        df_metodo = TrasversaDiMercatore (num 0.0) (num (- 9.0)) (num 0.9996) (num 500000.0) (num 0.0),
        df_regione = Some (geo_bounds (num (- 24.0)) (num 0.0) (num 6.0) (num 84.01))\<rparr>,
      \<lparr>df_crs = Epsg 32630, df_datum = 4326,
        df_metodo = TrasversaDiMercatore (num 0.0) (num (- 3.0)) (num 0.9996) (num 500000.0) (num 0.0),
        df_regione = Some (geo_bounds (num (- 18.0)) (num 0.0) (num 12.0) (num 84.0))\<rparr>,
      \<lparr>df_crs = Epsg 32631, df_datum = 4326,
        df_metodo = TrasversaDiMercatore (num 0.0) (num 3.0) (num 0.9996) (num 500000.0) (num 0.0),
        df_regione = Some (geo_bounds (num (- 12.0)) (num 0.0) (num 18.0) (num 84.0))\<rparr>,
      \<lparr>df_crs = Epsg 32632, df_datum = 4326,
        df_metodo = TrasversaDiMercatore (num 0.0) (num 9.0) (num 0.9996) (num 500000.0) (num 0.0),
        df_regione = Some (geo_bounds (num (- 6.0)) (num 0.0) (num 24.0) (num 84.0))\<rparr>,
      \<lparr>df_crs = Epsg 32633, df_datum = 4326,
        df_metodo = TrasversaDiMercatore (num 0.0) (num 15.0) (num 0.9996) (num 500000.0) (num 0.0),
        df_regione = Some (geo_bounds (num 0.0) (num 0.0) (num 30.0) (num 84.0))\<rparr>,
      \<lparr>df_crs = Epsg 32634, df_datum = 4326,
        df_metodo = TrasversaDiMercatore (num 0.0) (num 21.0) (num 0.9996) (num 500000.0) (num 0.0),
        df_regione = Some (geo_bounds (num 6.0) (num 0.0) (num 36.0) (num 84.0))\<rparr>,
      \<lparr>df_crs = Epsg 32635, df_datum = 4326,
        df_metodo = TrasversaDiMercatore (num 0.0) (num 27.0) (num 0.9996) (num 500000.0) (num 0.0),
        df_regione = Some (geo_bounds (num 12.0) (num 0.0) (num 42.0) (num 84.0))\<rparr>,
      \<lparr>df_crs = Epsg 32636, df_datum = 4326,
        df_metodo = TrasversaDiMercatore (num 0.0) (num 33.0) (num 0.9996) (num 500000.0) (num 0.0),
        df_regione = Some (geo_bounds (num 18.0) (num 0.0) (num 48.0) (num 84.0))\<rparr>]"

definition DEFINIZIONI_8 :: "definizione_crs list" where
  "DEFINIZIONI_8 =
     [\<lparr>df_crs = Epsg 32637, df_datum = 4326,
        df_metodo = TrasversaDiMercatore (num 0.0) (num 39.0) (num 0.9996) (num 500000.0) (num 0.0),
        df_regione = Some (geo_bounds (num 24.0) (num 0.0) (num 54.0) (num 84.0))\<rparr>,
      \<lparr>df_crs = Epsg 32638, df_datum = 4326,
        df_metodo = TrasversaDiMercatore (num 0.0) (num 45.0) (num 0.9996) (num 500000.0) (num 0.0),
        df_regione = Some (geo_bounds (num 30.0) (num 0.0) (num 60.0) (num 84.0))\<rparr>,
      \<lparr>df_crs = Epsg 32639, df_datum = 4326,
        df_metodo = TrasversaDiMercatore (num 0.0) (num 51.0) (num 0.9996) (num 500000.0) (num 0.0),
        df_regione = Some (geo_bounds (num 36.0) (num 0.0) (num 66.0) (num 84.0))\<rparr>,
      \<lparr>df_crs = Epsg 32640, df_datum = 4326,
        df_metodo = TrasversaDiMercatore (num 0.0) (num 57.0) (num 0.9996) (num 500000.0) (num 0.0),
        df_regione = Some (geo_bounds (num 42.0) (num 0.0) (num 72.0) (num 84.0))\<rparr>,
      \<lparr>df_crs = Epsg 32641, df_datum = 4326,
        df_metodo = TrasversaDiMercatore (num 0.0) (num 63.0) (num 0.9996) (num 500000.0) (num 0.0),
        df_regione = Some (geo_bounds (num 48.0) (num 0.0) (num 78.0) (num 84.0))\<rparr>,
      \<lparr>df_crs = Epsg 32642, df_datum = 4326,
        df_metodo = TrasversaDiMercatore (num 0.0) (num 69.0) (num 0.9996) (num 500000.0) (num 0.0),
        df_regione = Some (geo_bounds (num 54.0) (num 0.0) (num 84.0) (num 84.0))\<rparr>,
      \<lparr>df_crs = Epsg 32643, df_datum = 4326,
        df_metodo = TrasversaDiMercatore (num 0.0) (num 75.0) (num 0.9996) (num 500000.0) (num 0.0),
        df_regione = Some (geo_bounds (num 60.0) (num 0.0) (num 90.0) (num 84.0))\<rparr>,
      \<lparr>df_crs = Epsg 32644, df_datum = 4326,
        df_metodo = TrasversaDiMercatore (num 0.0) (num 81.0) (num 0.9996) (num 500000.0) (num 0.0),
        df_regione = Some (geo_bounds (num 66.0) (num 0.0) (num 96.0) (num 84.0))\<rparr>,
      \<lparr>df_crs = Epsg 32645, df_datum = 4326,
        df_metodo = TrasversaDiMercatore (num 0.0) (num 87.0) (num 0.9996) (num 500000.0) (num 0.0),
        df_regione = Some (geo_bounds (num 72.0) (num 0.0) (num 102.0) (num 84.0))\<rparr>,
      \<lparr>df_crs = Epsg 32646, df_datum = 4326,
        df_metodo = TrasversaDiMercatore (num 0.0) (num 93.0) (num 0.9996) (num 500000.0) (num 0.0),
        df_regione = Some (geo_bounds (num 78.0) (num 0.0) (num 108.0) (num 84.0))\<rparr>,
      \<lparr>df_crs = Epsg 32647, df_datum = 4326,
        df_metodo = TrasversaDiMercatore (num 0.0) (num 99.0) (num 0.9996) (num 500000.0) (num 0.0),
        df_regione = Some (geo_bounds (num 84.0) (num 0.0) (num 114.0) (num 84.0))\<rparr>]"

definition DEFINIZIONI_9 :: "definizione_crs list" where
  "DEFINIZIONI_9 =
     [\<lparr>df_crs = Epsg 32648, df_datum = 4326,
        df_metodo = TrasversaDiMercatore (num 0.0) (num 105.0) (num 0.9996) (num 500000.0) (num 0.0),
        df_regione = Some (geo_bounds (num 90.0) (num 0.0) (num 120.0) (num 84.0))\<rparr>,
      \<lparr>df_crs = Epsg 32649, df_datum = 4326,
        df_metodo = TrasversaDiMercatore (num 0.0) (num 111.0) (num 0.9996) (num 500000.0) (num 0.0),
        df_regione = Some (geo_bounds (num 96.0) (num 0.0) (num 126.0) (num 84.0))\<rparr>,
      \<lparr>df_crs = Epsg 32650, df_datum = 4326,
        df_metodo = TrasversaDiMercatore (num 0.0) (num 117.0) (num 0.9996) (num 500000.0) (num 0.0),
        df_regione = Some (geo_bounds (num 102.0) (num 0.0) (num 132.0) (num 84.0))\<rparr>,
      \<lparr>df_crs = Epsg 32651, df_datum = 4326,
        df_metodo = TrasversaDiMercatore (num 0.0) (num 123.0) (num 0.9996) (num 500000.0) (num 0.0),
        df_regione = Some (geo_bounds (num 108.0) (num 0.0) (num 138.0) (num 84.0))\<rparr>,
      \<lparr>df_crs = Epsg 32652, df_datum = 4326,
        df_metodo = TrasversaDiMercatore (num 0.0) (num 129.0) (num 0.9996) (num 500000.0) (num 0.0),
        df_regione = Some (geo_bounds (num 114.0) (num 0.0) (num 144.0) (num 84.0))\<rparr>,
      \<lparr>df_crs = Epsg 32653, df_datum = 4326,
        df_metodo = TrasversaDiMercatore (num 0.0) (num 135.0) (num 0.9996) (num 500000.0) (num 0.0),
        df_regione = Some (geo_bounds (num 120.0) (num 0.0) (num 150.0) (num 84.0))\<rparr>,
      \<lparr>df_crs = Epsg 32654, df_datum = 4326,
        df_metodo = TrasversaDiMercatore (num 0.0) (num 141.0) (num 0.9996) (num 500000.0) (num 0.0),
        df_regione = Some (geo_bounds (num 126.0) (num 0.0) (num 156.0) (num 84.0))\<rparr>,
      \<lparr>df_crs = Epsg 32655, df_datum = 4326,
        df_metodo = TrasversaDiMercatore (num 0.0) (num 147.0) (num 0.9996) (num 500000.0) (num 0.0),
        df_regione = Some (geo_bounds (num 132.0) (num 0.0) (num 162.0) (num 84.0))\<rparr>,
      \<lparr>df_crs = Epsg 32656, df_datum = 4326,
        df_metodo = TrasversaDiMercatore (num 0.0) (num 153.0) (num 0.9996) (num 500000.0) (num 0.0),
        df_regione = Some (geo_bounds (num 138.0) (num 0.0) (num 168.0) (num 84.0))\<rparr>,
      \<lparr>df_crs = Epsg 32657, df_datum = 4326,
        df_metodo = TrasversaDiMercatore (num 0.0) (num 159.0) (num 0.9996) (num 500000.0) (num 0.0),
        df_regione = Some (geo_bounds (num 144.0) (num 0.0) (num 174.0) (num 84.0))\<rparr>,
      \<lparr>df_crs = Epsg 32658, df_datum = 4326,
        df_metodo = TrasversaDiMercatore (num 0.0) (num 165.0) (num 0.9996) (num 500000.0) (num 0.0),
        df_regione = Some (geo_bounds (num 150.0) (num 0.0) (num 180.0) (num 84.0))\<rparr>]"

definition DEFINIZIONI_10 :: "definizione_crs list" where
  "DEFINIZIONI_10 =
     [\<lparr>df_crs = Epsg 32659, df_datum = 4326,
        df_metodo = TrasversaDiMercatore (num 0.0) (num 171.0) (num 0.9996) (num 500000.0) (num 0.0),
        df_regione = Some (geo_bounds (num 156.0) (num 0.0) (num 186.0) (num 84.0))\<rparr>,
      \<lparr>df_crs = Epsg 32660, df_datum = 4326,
        df_metodo = TrasversaDiMercatore (num 0.0) (num 177.0) (num 0.9996) (num 500000.0) (num 0.0),
        df_regione = Some (geo_bounds (num 162.0) (num 0.0) (num 192.0) (num 84.0))\<rparr>,
      \<lparr>df_crs = Epsg 32701, df_datum = 4326,
        df_metodo = TrasversaDiMercatore (num 0.0) (num (- 177.0)) (num 0.9996) (num 500000.0) (num 10000000.0),
        df_regione = Some (geo_bounds (num (- 192.0)) (num (- 80.0)) (num (- 162.0)) (num 0.0))\<rparr>,
      \<lparr>df_crs = Epsg 32702, df_datum = 4326,
        df_metodo = TrasversaDiMercatore (num 0.0) (num (- 171.0)) (num 0.9996) (num 500000.0) (num 10000000.0),
        df_regione = Some (geo_bounds (num (- 186.0)) (num (- 80.0)) (num (- 156.0)) (num 0.0))\<rparr>,
      \<lparr>df_crs = Epsg 32703, df_datum = 4326,
        df_metodo = TrasversaDiMercatore (num 0.0) (num (- 165.0)) (num 0.9996) (num 500000.0) (num 10000000.0),
        df_regione = Some (geo_bounds (num (- 180.0)) (num (- 80.0)) (num (- 150.0)) (num 0.0))\<rparr>,
      \<lparr>df_crs = Epsg 32704, df_datum = 4326,
        df_metodo = TrasversaDiMercatore (num 0.0) (num (- 159.0)) (num 0.9996) (num 500000.0) (num 10000000.0),
        df_regione = Some (geo_bounds (num (- 174.0)) (num (- 80.0)) (num (- 144.0)) (num 0.0))\<rparr>,
      \<lparr>df_crs = Epsg 32705, df_datum = 4326,
        df_metodo = TrasversaDiMercatore (num 0.0) (num (- 153.0)) (num 0.9996) (num 500000.0) (num 10000000.0),
        df_regione = Some (geo_bounds (num (- 168.0)) (num (- 80.0)) (num (- 138.0)) (num 0.0))\<rparr>,
      \<lparr>df_crs = Epsg 32706, df_datum = 4326,
        df_metodo = TrasversaDiMercatore (num 0.0) (num (- 147.0)) (num 0.9996) (num 500000.0) (num 10000000.0),
        df_regione = Some (geo_bounds (num (- 162.0)) (num (- 80.0)) (num (- 132.0)) (num 0.0))\<rparr>,
      \<lparr>df_crs = Epsg 32707, df_datum = 4326,
        df_metodo = TrasversaDiMercatore (num 0.0) (num (- 141.0)) (num 0.9996) (num 500000.0) (num 10000000.0),
        df_regione = Some (geo_bounds (num (- 156.0)) (num (- 80.0)) (num (- 126.0)) (num 0.0))\<rparr>,
      \<lparr>df_crs = Epsg 32708, df_datum = 4326,
        df_metodo = TrasversaDiMercatore (num 0.0) (num (- 135.0)) (num 0.9996) (num 500000.0) (num 10000000.0),
        df_regione = Some (geo_bounds (num (- 150.0)) (num (- 80.0)) (num (- 120.0)) (num 0.0))\<rparr>,
      \<lparr>df_crs = Epsg 32709, df_datum = 4326,
        df_metodo = TrasversaDiMercatore (num 0.0) (num (- 129.0)) (num 0.9996) (num 500000.0) (num 10000000.0),
        df_regione = Some (geo_bounds (num (- 144.0)) (num (- 80.0)) (num (- 114.0)) (num 0.0))\<rparr>]"

definition DEFINIZIONI_11 :: "definizione_crs list" where
  "DEFINIZIONI_11 =
     [\<lparr>df_crs = Epsg 32710, df_datum = 4326,
        df_metodo = TrasversaDiMercatore (num 0.0) (num (- 123.0)) (num 0.9996) (num 500000.0) (num 10000000.0),
        df_regione = Some (geo_bounds (num (- 138.0)) (num (- 80.0)) (num (- 108.0)) (num 0.0))\<rparr>,
      \<lparr>df_crs = Epsg 32711, df_datum = 4326,
        df_metodo = TrasversaDiMercatore (num 0.0) (num (- 117.0)) (num 0.9996) (num 500000.0) (num 10000000.0),
        df_regione = Some (geo_bounds (num (- 132.0)) (num (- 80.0)) (num (- 102.0)) (num 0.0))\<rparr>,
      \<lparr>df_crs = Epsg 32712, df_datum = 4326,
        df_metodo = TrasversaDiMercatore (num 0.0) (num (- 111.0)) (num 0.9996) (num 500000.0) (num 10000000.0),
        df_regione = Some (geo_bounds (num (- 126.0)) (num (- 80.0)) (num (- 96.0)) (num 0.0))\<rparr>,
      \<lparr>df_crs = Epsg 32713, df_datum = 4326,
        df_metodo = TrasversaDiMercatore (num 0.0) (num (- 105.0)) (num 0.9996) (num 500000.0) (num 10000000.0),
        df_regione = Some (geo_bounds (num (- 120.0)) (num (- 80.0)) (num (- 90.0)) (num 0.0))\<rparr>,
      \<lparr>df_crs = Epsg 32714, df_datum = 4326,
        df_metodo = TrasversaDiMercatore (num 0.0) (num (- 99.0)) (num 0.9996) (num 500000.0) (num 10000000.0),
        df_regione = Some (geo_bounds (num (- 114.0)) (num (- 80.0)) (num (- 84.0)) (num 0.0))\<rparr>,
      \<lparr>df_crs = Epsg 32715, df_datum = 4326,
        df_metodo = TrasversaDiMercatore (num 0.0) (num (- 93.0)) (num 0.9996) (num 500000.0) (num 10000000.0),
        df_regione = Some (geo_bounds (num (- 108.0)) (num (- 80.0)) (num (- 78.0)) (num 0.0))\<rparr>,
      \<lparr>df_crs = Epsg 32716, df_datum = 4326,
        df_metodo = TrasversaDiMercatore (num 0.0) (num (- 87.0)) (num 0.9996) (num 500000.0) (num 10000000.0),
        df_regione = Some (geo_bounds (num (- 102.0)) (num (- 80.0)) (num (- 72.0)) (num 0.0))\<rparr>,
      \<lparr>df_crs = Epsg 32717, df_datum = 4326,
        df_metodo = TrasversaDiMercatore (num 0.0) (num (- 81.0)) (num 0.9996) (num 500000.0) (num 10000000.0),
        df_regione = Some (geo_bounds (num (- 96.0)) (num (- 80.0)) (num (- 66.0)) (num 0.0))\<rparr>,
      \<lparr>df_crs = Epsg 32718, df_datum = 4326,
        df_metodo = TrasversaDiMercatore (num 0.0) (num (- 75.0)) (num 0.9996) (num 500000.0) (num 10000000.0),
        df_regione = Some (geo_bounds (num (- 90.0)) (num (- 80.0)) (num (- 60.0)) (num 0.0))\<rparr>,
      \<lparr>df_crs = Epsg 32719, df_datum = 4326,
        df_metodo = TrasversaDiMercatore (num 0.0) (num (- 69.0)) (num 0.9996) (num 500000.0) (num 10000000.0),
        df_regione = Some (geo_bounds (num (- 84.0)) (num (- 80.0)) (num (- 54.0)) (num 0.0))\<rparr>,
      \<lparr>df_crs = Epsg 32720, df_datum = 4326,
        df_metodo = TrasversaDiMercatore (num 0.0) (num (- 63.0)) (num 0.9996) (num 500000.0) (num 10000000.0),
        df_regione = Some (geo_bounds (num (- 78.0)) (num (- 80.0)) (num (- 48.0)) (num 0.0))\<rparr>]"

definition DEFINIZIONI_12 :: "definizione_crs list" where
  "DEFINIZIONI_12 =
     [\<lparr>df_crs = Epsg 32721, df_datum = 4326,
        df_metodo = TrasversaDiMercatore (num 0.0) (num (- 57.0)) (num 0.9996) (num 500000.0) (num 10000000.0),
        df_regione = Some (geo_bounds (num (- 72.0)) (num (- 80.0)) (num (- 42.0)) (num 0.0))\<rparr>,
      \<lparr>df_crs = Epsg 32722, df_datum = 4326,
        df_metodo = TrasversaDiMercatore (num 0.0) (num (- 51.0)) (num 0.9996) (num 500000.0) (num 10000000.0),
        df_regione = Some (geo_bounds (num (- 66.0)) (num (- 80.0)) (num (- 36.0)) (num 0.0))\<rparr>,
      \<lparr>df_crs = Epsg 32723, df_datum = 4326,
        df_metodo = TrasversaDiMercatore (num 0.0) (num (- 45.0)) (num 0.9996) (num 500000.0) (num 10000000.0),
        df_regione = Some (geo_bounds (num (- 60.0)) (num (- 80.0)) (num (- 30.0)) (num 0.0))\<rparr>,
      \<lparr>df_crs = Epsg 32724, df_datum = 4326,
        df_metodo = TrasversaDiMercatore (num 0.0) (num (- 39.0)) (num 0.9996) (num 500000.0) (num 10000000.0),
        df_regione = Some (geo_bounds (num (- 54.0)) (num (- 80.0)) (num (- 24.0)) (num 0.0))\<rparr>,
      \<lparr>df_crs = Epsg 32725, df_datum = 4326,
        df_metodo = TrasversaDiMercatore (num 0.0) (num (- 33.0)) (num 0.9996) (num 500000.0) (num 10000000.0),
        df_regione = Some (geo_bounds (num (- 48.0)) (num (- 80.0)) (num (- 18.0)) (num 0.0))\<rparr>,
      \<lparr>df_crs = Epsg 32726, df_datum = 4326,
        df_metodo = TrasversaDiMercatore (num 0.0) (num (- 27.0)) (num 0.9996) (num 500000.0) (num 10000000.0),
        df_regione = Some (geo_bounds (num (- 42.0)) (num (- 80.0)) (num (- 12.0)) (num 0.0))\<rparr>,
      \<lparr>df_crs = Epsg 32727, df_datum = 4326,
        df_metodo = TrasversaDiMercatore (num 0.0) (num (- 21.0)) (num 0.9996) (num 500000.0) (num 10000000.0),
        df_regione = Some (geo_bounds (num (- 36.0)) (num (- 80.0)) (num (- 6.0)) (num 0.0))\<rparr>,
      \<lparr>df_crs = Epsg 32728, df_datum = 4326,
        df_metodo = TrasversaDiMercatore (num 0.0) (num (- 15.0)) (num 0.9996) (num 500000.0) (num 10000000.0),
        df_regione = Some (geo_bounds (num (- 30.0)) (num (- 80.0)) (num 0.0) (num 0.0))\<rparr>,
      \<lparr>df_crs = Epsg 32729, df_datum = 4326,
        df_metodo = TrasversaDiMercatore (num 0.0) (num (- 9.0)) (num 0.9996) (num 500000.0) (num 10000000.0),
        df_regione = Some (geo_bounds (num (- 24.0)) (num (- 80.0)) (num 6.0) (num 0.0))\<rparr>,
      \<lparr>df_crs = Epsg 32730, df_datum = 4326,
        df_metodo = TrasversaDiMercatore (num 0.0) (num (- 3.0)) (num 0.9996) (num 500000.0) (num 10000000.0),
        df_regione = Some (geo_bounds (num (- 18.0)) (num (- 80.0)) (num 12.0) (num 0.0))\<rparr>,
      \<lparr>df_crs = Epsg 32731, df_datum = 4326,
        df_metodo = TrasversaDiMercatore (num 0.0) (num 3.0) (num 0.9996) (num 500000.0) (num 10000000.0),
        df_regione = Some (geo_bounds (num (- 12.0)) (num (- 80.0)) (num 18.0) (num 0.0))\<rparr>]"

definition DEFINIZIONI_13 :: "definizione_crs list" where
  "DEFINIZIONI_13 =
     [\<lparr>df_crs = Epsg 32732, df_datum = 4326,
        df_metodo = TrasversaDiMercatore (num 0.0) (num 9.0) (num 0.9996) (num 500000.0) (num 10000000.0),
        df_regione = Some (geo_bounds (num (- 6.0)) (num (- 80.0)) (num 24.0) (num 0.0))\<rparr>,
      \<lparr>df_crs = Epsg 32733, df_datum = 4326,
        df_metodo = TrasversaDiMercatore (num 0.0) (num 15.0) (num 0.9996) (num 500000.0) (num 10000000.0),
        df_regione = Some (geo_bounds (num 0.0) (num (- 80.0)) (num 30.0) (num 0.0))\<rparr>,
      \<lparr>df_crs = Epsg 32734, df_datum = 4326,
        df_metodo = TrasversaDiMercatore (num 0.0) (num 21.0) (num 0.9996) (num 500000.0) (num 10000000.0),
        df_regione = Some (geo_bounds (num 6.0) (num (- 80.0)) (num 36.0) (num 0.0))\<rparr>,
      \<lparr>df_crs = Epsg 32735, df_datum = 4326,
        df_metodo = TrasversaDiMercatore (num 0.0) (num 27.0) (num 0.9996) (num 500000.0) (num 10000000.0),
        df_regione = Some (geo_bounds (num 12.0) (num (- 80.0)) (num 42.0) (num 0.0))\<rparr>,
      \<lparr>df_crs = Epsg 32736, df_datum = 4326,
        df_metodo = TrasversaDiMercatore (num 0.0) (num 33.0) (num 0.9996) (num 500000.0) (num 10000000.0),
        df_regione = Some (geo_bounds (num 18.0) (num (- 80.0)) (num 48.0) (num 0.0))\<rparr>,
      \<lparr>df_crs = Epsg 32737, df_datum = 4326,
        df_metodo = TrasversaDiMercatore (num 0.0) (num 39.0) (num 0.9996) (num 500000.0) (num 10000000.0),
        df_regione = Some (geo_bounds (num 24.0) (num (- 80.0)) (num 54.0) (num 0.0))\<rparr>,
      \<lparr>df_crs = Epsg 32738, df_datum = 4326,
        df_metodo = TrasversaDiMercatore (num 0.0) (num 45.0) (num 0.9996) (num 500000.0) (num 10000000.0),
        df_regione = Some (geo_bounds (num 30.0) (num (- 80.0)) (num 60.0) (num 0.0))\<rparr>,
      \<lparr>df_crs = Epsg 32739, df_datum = 4326,
        df_metodo = TrasversaDiMercatore (num 0.0) (num 51.0) (num 0.9996) (num 500000.0) (num 10000000.0),
        df_regione = Some (geo_bounds (num 36.0) (num (- 80.0)) (num 66.0) (num 0.0))\<rparr>,
      \<lparr>df_crs = Epsg 32740, df_datum = 4326,
        df_metodo = TrasversaDiMercatore (num 0.0) (num 57.0) (num 0.9996) (num 500000.0) (num 10000000.0),
        df_regione = Some (geo_bounds (num 42.0) (num (- 80.0)) (num 72.0) (num 0.0))\<rparr>,
      \<lparr>df_crs = Epsg 32741, df_datum = 4326,
        df_metodo = TrasversaDiMercatore (num 0.0) (num 63.0) (num 0.9996) (num 500000.0) (num 10000000.0),
        df_regione = Some (geo_bounds (num 48.0) (num (- 80.0)) (num 78.0) (num 0.0))\<rparr>,
      \<lparr>df_crs = Epsg 32742, df_datum = 4326,
        df_metodo = TrasversaDiMercatore (num 0.0) (num 69.0) (num 0.9996) (num 500000.0) (num 10000000.0),
        df_regione = Some (geo_bounds (num 54.0) (num (- 80.0)) (num 84.0) (num 0.0))\<rparr>]"

definition DEFINIZIONI_14 :: "definizione_crs list" where
  "DEFINIZIONI_14 =
     [\<lparr>df_crs = Epsg 32743, df_datum = 4326,
        df_metodo = TrasversaDiMercatore (num 0.0) (num 75.0) (num 0.9996) (num 500000.0) (num 10000000.0),
        df_regione = Some (geo_bounds (num 60.0) (num (- 80.0)) (num 90.0) (num 0.0))\<rparr>,
      \<lparr>df_crs = Epsg 32744, df_datum = 4326,
        df_metodo = TrasversaDiMercatore (num 0.0) (num 81.0) (num 0.9996) (num 500000.0) (num 10000000.0),
        df_regione = Some (geo_bounds (num 66.0) (num (- 80.0)) (num 96.0) (num 0.0))\<rparr>,
      \<lparr>df_crs = Epsg 32745, df_datum = 4326,
        df_metodo = TrasversaDiMercatore (num 0.0) (num 87.0) (num 0.9996) (num 500000.0) (num 10000000.0),
        df_regione = Some (geo_bounds (num 72.0) (num (- 80.0)) (num 102.0) (num 0.0))\<rparr>,
      \<lparr>df_crs = Epsg 32746, df_datum = 4326,
        df_metodo = TrasversaDiMercatore (num 0.0) (num 93.0) (num 0.9996) (num 500000.0) (num 10000000.0),
        df_regione = Some (geo_bounds (num 78.0) (num (- 80.0)) (num 108.0) (num 0.0))\<rparr>,
      \<lparr>df_crs = Epsg 32747, df_datum = 4326,
        df_metodo = TrasversaDiMercatore (num 0.0) (num 99.0) (num 0.9996) (num 500000.0) (num 10000000.0),
        df_regione = Some (geo_bounds (num 84.0) (num (- 80.0)) (num 114.0) (num 0.0))\<rparr>,
      \<lparr>df_crs = Epsg 32748, df_datum = 4326,
        df_metodo = TrasversaDiMercatore (num 0.0) (num 105.0) (num 0.9996) (num 500000.0) (num 10000000.0),
        df_regione = Some (geo_bounds (num 90.0) (num (- 80.0)) (num 120.0) (num 0.0))\<rparr>,
      \<lparr>df_crs = Epsg 32749, df_datum = 4326,
        df_metodo = TrasversaDiMercatore (num 0.0) (num 111.0) (num 0.9996) (num 500000.0) (num 10000000.0),
        df_regione = Some (geo_bounds (num 96.0) (num (- 80.0)) (num 126.0) (num 0.0))\<rparr>,
      \<lparr>df_crs = Epsg 32750, df_datum = 4326,
        df_metodo = TrasversaDiMercatore (num 0.0) (num 117.0) (num 0.9996) (num 500000.0) (num 10000000.0),
        df_regione = Some (geo_bounds (num 102.0) (num (- 80.0)) (num 132.0) (num 0.0))\<rparr>,
      \<lparr>df_crs = Epsg 32751, df_datum = 4326,
        df_metodo = TrasversaDiMercatore (num 0.0) (num 123.0) (num 0.9996) (num 500000.0) (num 10000000.0),
        df_regione = Some (geo_bounds (num 108.0) (num (- 80.0)) (num 138.0) (num 0.0))\<rparr>,
      \<lparr>df_crs = Epsg 32752, df_datum = 4326,
        df_metodo = TrasversaDiMercatore (num 0.0) (num 129.0) (num 0.9996) (num 500000.0) (num 10000000.0),
        df_regione = Some (geo_bounds (num 114.0) (num (- 80.0)) (num 144.0) (num 0.0))\<rparr>,
      \<lparr>df_crs = Epsg 32753, df_datum = 4326,
        df_metodo = TrasversaDiMercatore (num 0.0) (num 135.0) (num 0.9996) (num 500000.0) (num 10000000.0),
        df_regione = Some (geo_bounds (num 120.0) (num (- 80.0)) (num 150.0) (num 0.0))\<rparr>]"

definition DEFINIZIONI_15 :: "definizione_crs list" where
  "DEFINIZIONI_15 =
     [\<lparr>df_crs = Epsg 32754, df_datum = 4326,
        df_metodo = TrasversaDiMercatore (num 0.0) (num 141.0) (num 0.9996) (num 500000.0) (num 10000000.0),
        df_regione = Some (geo_bounds (num 126.0) (num (- 80.0)) (num 156.0) (num 0.0))\<rparr>,
      \<lparr>df_crs = Epsg 32755, df_datum = 4326,
        df_metodo = TrasversaDiMercatore (num 0.0) (num 147.0) (num 0.9996) (num 500000.0) (num 10000000.0),
        df_regione = Some (geo_bounds (num 132.0) (num (- 80.0)) (num 162.0) (num 0.0))\<rparr>,
      \<lparr>df_crs = Epsg 32756, df_datum = 4326,
        df_metodo = TrasversaDiMercatore (num 0.0) (num 153.0) (num 0.9996) (num 500000.0) (num 10000000.0),
        df_regione = Some (geo_bounds (num 138.0) (num (- 80.0)) (num 168.0) (num 0.0))\<rparr>,
      \<lparr>df_crs = Epsg 32757, df_datum = 4326,
        df_metodo = TrasversaDiMercatore (num 0.0) (num 159.0) (num 0.9996) (num 500000.0) (num 10000000.0),
        df_regione = Some (geo_bounds (num 144.0) (num (- 80.0)) (num 174.0) (num 0.0))\<rparr>,
      \<lparr>df_crs = Epsg 32758, df_datum = 4326,
        df_metodo = TrasversaDiMercatore (num 0.0) (num 165.0) (num 0.9996) (num 500000.0) (num 10000000.0),
        df_regione = Some (geo_bounds (num 150.0) (num (- 80.0)) (num 180.0) (num 0.0))\<rparr>,
      \<lparr>df_crs = Epsg 32759, df_datum = 4326,
        df_metodo = TrasversaDiMercatore (num 0.0) (num 171.0) (num 0.9996) (num 500000.0) (num 10000000.0),
        df_regione = Some (geo_bounds (num 156.0) (num (- 80.0)) (num 186.0) (num 0.0))\<rparr>,
      \<lparr>df_crs = Epsg 32760, df_datum = 4326,
        df_metodo = TrasversaDiMercatore (num 0.0) (num 177.0) (num 0.9996) (num 500000.0) (num 10000000.0),
        df_regione = Some (geo_bounds (num 162.0) (num (- 80.0)) (num 192.0) (num 0.0))\<rparr>]"

definition DEFINIZIONI :: "definizione_crs list" where
  "DEFINIZIONI = DEFINIZIONI_1 @ DEFINIZIONI_2 @ DEFINIZIONI_3 @ DEFINIZIONI_4 @ DEFINIZIONI_5 @ DEFINIZIONI_6 @ DEFINIZIONI_7 @ DEFINIZIONI_8 @ DEFINIZIONI_9 @ DEFINIZIONI_10 @ DEFINIZIONI_11 @ DEFINIZIONI_12 @ DEFINIZIONI_13 @ DEFINIZIONI_14 @ DEFINIZIONI_15"

definition TRASFORMAZIONI_1 :: "trasformazione list" where
  "TRASFORMAZIONI_1 =
     [\<lparr>tr_codice = 1075, tr_nome = ''ED50 to WGS 84 (38)'', tr_da = 4230, tr_a = 4326, tr_accuratezza_m = num 10.0,
        tr_metodo = Traslazioni (num (- 89.05)) (num (- 87.03)) (num (- 124.56)),
        tr_area = (geo_bounds (num 28.03) (num 31.35) (num 41.47) (num 43.45))\<rparr>,
      \<lparr>tr_codice = 1087, tr_nome = ''ED50 to WGS 84 (37)'', tr_da = 4230, tr_a = 4326, tr_accuratezza_m = num 2.5,
        tr_metodo = Traslazioni (num (- 112.0)) (num (- 110.3)) (num (- 140.2)),
        tr_area = (geo_bounds (num 34.88) (num 29.18) (num 39.31) (num 33.38))\<rparr>,
      \<lparr>tr_codice = 1088, tr_nome = ''Monte Mario to WGS 84 (5)'', tr_da = 4265, tr_a = 4326, tr_accuratezza_m = num 10.0,
        tr_metodo = Traslazioni (num (- 223.7)) (num (- 67.38)) (num 1.34),
        tr_area = (geo_bounds (num 12.22) (num 43.62) (num 13.96) (num 45.73))\<rparr>,
      \<lparr>tr_codice = 1089, tr_nome = ''Monte Mario to WGS 84 (6)'', tr_da = 4265, tr_a = 4326, tr_accuratezza_m = num 10.0,
        tr_metodo = Traslazioni (num (- 225.4)) (num (- 67.7)) (num 7.85),
        tr_area = (geo_bounds (num 13.61) (num 41.95) (num 16.14) (num 44.04))\<rparr>,
      \<lparr>tr_codice = 1090, tr_nome = ''Monte Mario to WGS 84 (7)'', tr_da = 4265, tr_a = 4326, tr_accuratezza_m = num 10.0,
        tr_metodo = Traslazioni (num (- 227.1)) (num (- 68.1)) (num 14.4),
        tr_area = (geo_bounds (num 15.95) (num 40.72) (num 18.63) (num 42.28))\<rparr>,
      \<lparr>tr_codice = 1091, tr_nome = ''Monte Mario to WGS 84 (8)'', tr_da = 4265, tr_a = 4326, tr_accuratezza_m = num 10.0,
        tr_metodo = Traslazioni (num (- 231.61)) (num (- 68.21)) (num 13.93),
        tr_area = (geo_bounds (num 17.95) (num 39.77) (num 18.99) (num 41.03))\<rparr>,
      \<lparr>tr_codice = 1092, tr_nome = ''Monte Mario to WGS 84 (9)'', tr_da = 4265, tr_a = 4326, tr_accuratezza_m = num 10.0,
        tr_metodo = Traslazioni (num (- 225.06)) (num (- 67.37)) (num 14.61),
        tr_area = (geo_bounds (num 16.55) (num 37.67) (num 18.93) (num 40.47))\<rparr>,
      \<lparr>tr_codice = 1093, tr_nome = ''Monte Mario to WGS 84 (10)'', tr_da = 4265, tr_a = 4326, tr_accuratezza_m = num 10.0,
        tr_metodo = Traslazioni (num (- 229.08)) (num (- 65.73)) (num 20.21),
        tr_area = (geo_bounds (num 13.0) (num 35.22) (num 15.16) (num 37.48))\<rparr>,
      \<lparr>tr_codice = 1094, tr_nome = ''Monte Mario to WGS 84 (11)'', tr_da = 4265, tr_a = 4326, tr_accuratezza_m = num 10.0,
        tr_metodo = Traslazioni (num (- 230.47)) (num (- 56.08)) (num 22.43),
        tr_area = (geo_bounds (num 10.68) (num 35.28) (num 13.01) (num 38.45))\<rparr>,
      \<lparr>tr_codice = 1098, tr_nome = ''IGM95 to ETRS89 (1)'', tr_da = 4670, tr_a = 4258, tr_accuratezza_m = num 0.5,
        tr_metodo = Traslazioni (num 0.0) (num 0.0) (num 0.0),
        tr_area = (geo_bounds (num 5.93) (num 34.76) (num 18.99) (num 47.1))\<rparr>]"

definition TRASFORMAZIONI_2 :: "trasformazione list" where
  "TRASFORMAZIONI_2 =
     [\<lparr>tr_codice = 1099, tr_nome = ''IGM95 to WGS 84 (1)'', tr_da = 4670, tr_a = 4326, tr_accuratezza_m = num 1.0,
        tr_metodo = Traslazioni (num 0.0) (num 0.0) (num 0.0),
        tr_area = (geo_bounds (num 5.93) (num 34.76) (num 18.99) (num 47.1))\<rparr>,
      \<lparr>tr_codice = 1133, tr_nome = ''ED50 to WGS 84 (1)'', tr_da = 4230, tr_a = 4326, tr_accuratezza_m = num 10.0,
        tr_metodo = Traslazioni (num (- 87.0)) (num (- 98.0)) (num (- 121.0)),
        tr_area = (geo_bounds (num (- 9.56)) (num 34.88) (num 31.59) (num 71.24))\<rparr>,
      \<lparr>tr_codice = 1134, tr_nome = ''ED50 to WGS 84 (2)'', tr_da = 4230, tr_a = 4326, tr_accuratezza_m = num 6.0,
        tr_metodo = Traslazioni (num (- 87.0)) (num (- 96.0)) (num (- 120.0)),
        tr_area = (geo_bounds (num (- 4.87)) (num 42.33) (num 17.17) (num 57.8))\<rparr>,
      \<lparr>tr_codice = 1135, tr_nome = ''ED50 to WGS 84 (3)'', tr_da = 4230, tr_a = 4326, tr_accuratezza_m = num 999.0,
        tr_metodo = Traslazioni (num (- 103.0)) (num (- 106.0)) (num (- 141.0)),
        tr_area = (geo_bounds (num 34.17) (num 16.37) (num 55.67) (num 37.39))\<rparr>,
      \<lparr>tr_codice = 1136, tr_nome = ''ED50 to WGS 84 (4)'', tr_da = 4230, tr_a = 4326, tr_accuratezza_m = num 26.0,
        tr_metodo = Traslazioni (num (- 104.0)) (num (- 101.0)) (num (- 140.0)),
        tr_area = (geo_bounds (num 29.95) (num 32.88) (num 35.2) (num 36.21))\<rparr>,
      \<lparr>tr_codice = 1137, tr_nome = ''ED50 to WGS 84 (5)'', tr_da = 4230, tr_a = 4326, tr_accuratezza_m = num 13.0,
        tr_metodo = Traslazioni (num (- 130.0)) (num (- 117.0)) (num (- 151.0)),
        tr_area = (geo_bounds (num 24.7) (num 25.71) (num 30.0) (num 31.68))\<rparr>,
      \<lparr>tr_codice = 1138, tr_nome = ''ED50 to WGS 84 (6)'', tr_da = 4230, tr_a = 4326, tr_accuratezza_m = num 6.0,
        tr_metodo = Traslazioni (num (- 86.0)) (num (- 96.0)) (num (- 120.0)),
        tr_area = (geo_bounds (num (- 10.56)) (num 49.11) (num 1.84) (num 60.9))\<rparr>,
      \<lparr>tr_codice = 1139, tr_nome = ''ED50 to WGS 84 (7)'', tr_da = 4230, tr_a = 4326, tr_accuratezza_m = num 7.0,
        tr_metodo = Traslazioni (num (- 87.0)) (num (- 95.0)) (num (- 120.0)),
        tr_area = (geo_bounds (num 4.39) (num 57.9) (num 31.59) (num 71.24))\<rparr>,
      \<lparr>tr_codice = 1140, tr_nome = ''ED50 to WGS 84 (8)'', tr_da = 4230, tr_a = 4326, tr_accuratezza_m = num 44.0,
        tr_metodo = Traslazioni (num (- 84.0)) (num (- 95.0)) (num (- 130.0)),
        tr_area = (geo_bounds (num 19.57) (num 34.88) (num 28.3) (num 41.75))\<rparr>,
      \<lparr>tr_codice = 1142, tr_nome = ''ED50 to WGS 84 (10)'', tr_da = 4230, tr_a = 4326, tr_accuratezza_m = num 44.0,
        tr_metodo = Traslazioni (num (- 97.0)) (num (- 103.0)) (num (- 120.0)),
        tr_area = (geo_bounds (num 8.08) (num 38.82) (num 9.89) (num 41.31))\<rparr>]"

definition TRASFORMAZIONI_3 :: "trasformazione list" where
  "TRASFORMAZIONI_3 =
     [\<lparr>tr_codice = 1143, tr_nome = ''ED50 to WGS 84 (11)'', tr_da = 4230, tr_a = 4326, tr_accuratezza_m = num 35.0,
        tr_metodo = Traslazioni (num (- 97.0)) (num (- 88.0)) (num (- 135.0)),
        tr_area = (geo_bounds (num 12.36) (num 36.59) (num 15.71) (num 38.35))\<rparr>,
      \<lparr>tr_codice = 1144, tr_nome = ''ED50 to WGS 84 (12)'', tr_da = 4230, tr_a = 4326, tr_accuratezza_m = num 44.0,
        tr_metodo = Traslazioni (num (- 107.0)) (num (- 88.0)) (num (- 149.0)),
        tr_area = (geo_bounds (num 14.27) (num 35.74) (num 14.63) (num 36.05))\<rparr>,
      \<lparr>tr_codice = 1145, tr_nome = ''ED50 to WGS 84 (13)'', tr_da = 4230, tr_a = 4326, tr_accuratezza_m = num 9.0,
        tr_metodo = Traslazioni (num (- 84.0)) (num (- 107.0)) (num (- 120.0)),
        tr_area = (geo_bounds (num (- 9.56)) (num 35.26) (num 3.39) (num 43.82))\<rparr>,
      \<lparr>tr_codice = 1149, tr_nome = ''ETRS89 to WGS 84 (1)'', tr_da = 4258, tr_a = 4326, tr_accuratezza_m = num 1.0,
        tr_metodo = Traslazioni (num 0.0) (num 0.0) (num 0.0),
        tr_area = (geo_bounds (num (- 16.1)) (num 33.26) (num 38.01) (num 84.73))\<rparr>,
      \<lparr>tr_codice = 1150, tr_nome = ''GDA94 to WGS 84 (1)'', tr_da = 4283, tr_a = 4326, tr_accuratezza_m = num 3.0,
        tr_metodo = Traslazioni (num 0.0) (num 0.0) (num 0.0),
        tr_area = (geo_bounds (num 93.41) (num (- 60.55)) (num 173.34) (num (- 8.47)))\<rparr>,
      \<lparr>tr_codice = 1169, tr_nome = ''Monte Mario to WGS 84 (1)'', tr_da = 4265, tr_a = 4326, tr_accuratezza_m = num 44.0,
        tr_metodo = Traslazioni (num (- 225.0)) (num (- 65.0)) (num 9.0),
        tr_area = (geo_bounds (num 8.08) (num 38.82) (num 9.89) (num 41.31))\<rparr>,
      \<lparr>tr_codice = 1170, tr_nome = ''NAD27 to WGS 84 (1)'', tr_da = 4267, tr_a = 4326, tr_accuratezza_m = num 16.0,
        tr_metodo = Traslazioni (num (- 3.0)) (num 142.0) (num 183.0),
        tr_area = (geo_bounds (num (- 85.01)) (num 13.0) (num (- 59.37)) (num 23.25))\<rparr>,
      \<lparr>tr_codice = 1171, tr_nome = ''NAD27 to WGS 84 (2)'', tr_da = 4267, tr_a = 4326, tr_accuratezza_m = num 10.0,
        tr_metodo = Traslazioni (num 0.0) (num 125.0) (num 194.0),
        tr_area = (geo_bounds (num (- 92.29)) (num 7.98) (num (- 82.53)) (num 18.49))\<rparr>,
      \<lparr>tr_codice = 1172, tr_nome = ''NAD27 to WGS 84 (3)'', tr_da = 4267, tr_a = 4326, tr_accuratezza_m = num 20.0,
        tr_metodo = Traslazioni (num (- 10.0)) (num 158.0) (num 187.0),
        tr_area = (geo_bounds (num (- 141.01)) (num 40.0) (num (- 44.0)) (num 83.17))\<rparr>,
      \<lparr>tr_codice = 1173, tr_nome = ''NAD27 to WGS 84 (4)'', tr_da = 4267, tr_a = 4326, tr_accuratezza_m = num 10.0,
        tr_metodo = Traslazioni (num (- 8.0)) (num 160.0) (num 176.0),
        tr_area = (geo_bounds (num (- 124.79)) (num 24.41) (num (- 66.91)) (num 49.38))\<rparr>]"

definition TRASFORMAZIONI_4 :: "trasformazione list" where
  "TRASFORMAZIONI_4 =
     [\<lparr>tr_codice = 1174, tr_nome = ''NAD27 to WGS 84 (5)'', tr_da = 4267, tr_a = 4326, tr_accuratezza_m = num 11.0,
        tr_metodo = Traslazioni (num (- 9.0)) (num 161.0) (num 179.0),
        tr_area = (geo_bounds (num (- 97.22)) (num 24.41) (num (- 66.91)) (num 49.38))\<rparr>,
      \<lparr>tr_codice = 1175, tr_nome = ''NAD27 to WGS 84 (6)'', tr_da = 4267, tr_a = 4326, tr_accuratezza_m = num 7.0,
        tr_metodo = Traslazioni (num (- 8.0)) (num 159.0) (num 175.0),
        tr_area = (geo_bounds (num (- 124.79)) (num 25.83) (num (- 89.64)) (num 49.05))\<rparr>,
      \<lparr>tr_codice = 1176, tr_nome = ''NAD27 to WGS 84 (7)'', tr_da = 4267, tr_a = 4326, tr_accuratezza_m = num 12.0,
        tr_metodo = Traslazioni (num (- 5.0)) (num 135.0) (num 172.0),
        tr_area = (geo_bounds (num (- 168.26)) (num 54.34) (num (- 129.99)) (num 71.4))\<rparr>,
      \<lparr>tr_codice = 1177, tr_nome = ''NAD27 to WGS 84 (8)'', tr_da = 4267, tr_a = 4326, tr_accuratezza_m = num 8.0,
        tr_metodo = Traslazioni (num (- 4.0)) (num 154.0) (num 178.0),
        tr_area = (geo_bounds (num (- 79.04)) (num 20.86) (num (- 72.68)) (num 27.29))\<rparr>,
      \<lparr>tr_codice = 1178, tr_nome = ''NAD27 to WGS 84 (9)'', tr_da = 4267, tr_a = 4326, tr_accuratezza_m = num 44.0,
        tr_metodo = Traslazioni (num 1.0) (num 140.0) (num 165.0),
        tr_area = (geo_bounds (num (- 74.6)) (num 23.9) (num (- 74.37)) (num 24.19))\<rparr>,
      \<lparr>tr_codice = 1179, tr_nome = ''NAD27 to WGS 84 (10)'', tr_da = 4267, tr_a = 4326, tr_accuratezza_m = num 13.0,
        tr_metodo = Traslazioni (num (- 7.0)) (num 162.0) (num 188.0),
        tr_area = (geo_bounds (num (- 139.04)) (num 48.25) (num (- 109.98)) (num 60.01))\<rparr>,
      \<lparr>tr_codice = 1180, tr_nome = ''NAD27 to WGS 84 (11)'', tr_da = 4267, tr_a = 4326, tr_accuratezza_m = num 12.0,
        tr_metodo = Traslazioni (num (- 9.0)) (num 157.0) (num 184.0),
        tr_area = (geo_bounds (num (- 102.0)) (num 41.67) (num (- 74.35)) (num 60.01))\<rparr>,
      \<lparr>tr_codice = 1181, tr_nome = ''NAD27 to WGS 84 (12)'', tr_da = 4267, tr_a = 4326, tr_accuratezza_m = num 9.0,
        tr_metodo = Traslazioni (num (- 22.0)) (num 160.0) (num 190.0),
        tr_area = (geo_bounds (num (- 79.85)) (num 43.41) (num (- 52.54)) (num 62.62))\<rparr>,
      \<lparr>tr_codice = 1182, tr_nome = ''NAD27 to WGS 84 (13)'', tr_da = 4267, tr_a = 4326, tr_accuratezza_m = num 8.0,
        tr_metodo = Traslazioni (num 4.0) (num 159.0) (num 188.0),
        tr_area = (geo_bounds (num (- 136.46)) (num 49.0) (num (- 60.72)) (num 83.17))\<rparr>,
      \<lparr>tr_codice = 1183, tr_nome = ''NAD27 to WGS 84 (14)'', tr_da = 4267, tr_a = 4326, tr_accuratezza_m = num 10.0,
        tr_metodo = Traslazioni (num (- 7.0)) (num 139.0) (num 181.0),
        tr_area = (geo_bounds (num (- 141.01)) (num 59.99) (num (- 123.91)) (num 69.7))\<rparr>]"

definition TRASFORMAZIONI_5 :: "trasformazione list" where
  "TRASFORMAZIONI_5 =
     [\<lparr>tr_codice = 1184, tr_nome = ''NAD27 to WGS 84 (15)'', tr_da = 4267, tr_a = 4326, tr_accuratezza_m = num 35.0,
        tr_metodo = Traslazioni (num 0.0) (num 125.0) (num 201.0),
        tr_area = (geo_bounds (num (- 80.07)) (num 8.82) (num (- 79.46)) (num 9.45))\<rparr>,
      \<lparr>tr_codice = 1185, tr_nome = ''NAD27 to WGS 84 (16)'', tr_da = 4267, tr_a = 4326, tr_accuratezza_m = num 44.0,
        tr_metodo = Traslazioni (num (- 9.0)) (num 152.0) (num 178.0),
        tr_area = (geo_bounds (num (- 85.01)) (num 19.77) (num (- 74.07)) (num 23.25))\<rparr>,
      \<lparr>tr_codice = 1186, tr_nome = ''NAD27 to WGS 84 (17)'', tr_da = 4267, tr_a = 4326, tr_accuratezza_m = num 44.0,
        tr_metodo = Traslazioni (num 11.0) (num 114.0) (num 195.0),
        tr_area = (geo_bounds (num (- 73.29)) (num 75.86) (num (- 60.98)) (num 79.2))\<rparr>,
      \<lparr>tr_codice = 1187, tr_nome = ''NAD27 to WGS 84 (18)'', tr_da = 4267, tr_a = 4326, tr_accuratezza_m = num 12.0,
        tr_metodo = Traslazioni (num (- 12.0)) (num 130.0) (num 190.0),
        tr_area = (geo_bounds (num (- 118.47)) (num 14.51) (num (- 86.68)) (num 32.72))\<rparr>,
      \<lparr>tr_codice = 1188, tr_nome = ''NAD83 to WGS 84 (1)'', tr_da = 4269, tr_a = 4326, tr_accuratezza_m = num 4.0,
        tr_metodo = Traslazioni (num 0.0) (num 0.0) (num 0.0),
        tr_area = (geo_bounds (num (- 172.54)) (num 23.81) (num (- 47.74)) (num 86.46))\<rparr>,
      \<lparr>tr_codice = 1195, tr_nome = ''OSGB36 to WGS 84 (1)'', tr_da = 4277, tr_a = 4326, tr_accuratezza_m = num 21.0,
        tr_metodo = Traslazioni (num 375.0) (num (- 111.0)) (num 431.0),
        tr_area = (geo_bounds (num (- 8.82)) (num 49.79) (num 1.92) (num 60.94))\<rparr>,
      \<lparr>tr_codice = 1196, tr_nome = ''OSGB36 to WGS 84 (2)'', tr_da = 4277, tr_a = 4326, tr_accuratezza_m = num 10.0,
        tr_metodo = Traslazioni (num 371.0) (num (- 112.0)) (num 434.0),
        tr_area = (geo_bounds (num (- 6.5)) (num 49.81) (num 1.84) (num 55.85))\<rparr>,
      \<lparr>tr_codice = 1197, tr_nome = ''OSGB36 to WGS 84 (3)'', tr_da = 4277, tr_a = 4326, tr_accuratezza_m = num 21.0,
        tr_metodo = Traslazioni (num 371.0) (num (- 111.0)) (num 434.0),
        tr_area = (geo_bounds (num (- 6.5)) (num 49.81) (num 1.84) (num 55.85))\<rparr>,
      \<lparr>tr_codice = 1198, tr_nome = ''OSGB36 to WGS 84 (4)'', tr_da = 4277, tr_a = 4326, tr_accuratezza_m = num 18.0,
        tr_metodo = Traslazioni (num 384.0) (num (- 111.0)) (num 425.0),
        tr_area = (geo_bounds (num (- 8.74)) (num 54.57) (num (- 0.65)) (num 60.9))\<rparr>,
      \<lparr>tr_codice = 1199, tr_nome = ''OSGB36 to WGS 84 (5)'', tr_da = 4277, tr_a = 4326, tr_accuratezza_m = num 35.0,
        tr_metodo = Traslazioni (num 370.0) (num (- 108.0)) (num 434.0),
        tr_area = (geo_bounds (num (- 5.34)) (num 51.28) (num (- 2.65)) (num 53.48))\<rparr>]"

definition TRASFORMAZIONI_6 :: "trasformazione list" where
  "TRASFORMAZIONI_6 =
     [\<lparr>tr_codice = 1245, tr_nome = ''ED50 to WGS 84 (16)'', tr_da = 4230, tr_a = 4326, tr_accuratezza_m = num 44.0,
        tr_metodo = Traslazioni (num (- 112.0)) (num (- 77.0)) (num (- 145.0)),
        tr_area = (geo_bounds (num 7.49) (num 30.23) (num 13.67) (num 38.41))\<rparr>,
      \<lparr>tr_codice = 1249, tr_nome = ''NAD27 to WGS 84 (21)'', tr_da = 4267, tr_a = 4326, tr_accuratezza_m = num 15.0,
        tr_metodo = Traslazioni (num (- 2.0)) (num 152.0) (num 149.0),
        tr_area = (geo_bounds (num (- 178.3)) (num 51.54) (num (- 164.84)) (num 54.34))\<rparr>,
      \<lparr>tr_codice = 1250, tr_nome = ''NAD27 to WGS 84 (22)'', tr_da = 4267, tr_a = 4326, tr_accuratezza_m = num 18.0,
        tr_metodo = Traslazioni (num 2.0) (num 204.0) (num 105.0),
        tr_area = (geo_bounds (num 172.42) (num 51.3) (num 179.86) (num 53.07))\<rparr>,
      \<lparr>tr_codice = 1251, tr_nome = ''NAD83 to WGS 84 (2)'', tr_da = 4269, tr_a = 4326, tr_accuratezza_m = num 8.0,
        tr_metodo = Traslazioni (num (- 2.0)) (num 0.0) (num 4.0),
        tr_area = (geo_bounds (num 172.42) (num 51.3) (num (- 164.84)) (num 54.34))\<rparr>,
      \<lparr>tr_codice = 1252, tr_nome = ''NAD83 to WGS 84 (3)'', tr_da = 4269, tr_a = 4326, tr_accuratezza_m = num 4.0,
        tr_metodo = Traslazioni (num 1.0) (num 1.0) (num (- 1.0)),
        tr_area = (geo_bounds (num (- 163.74)) (num 15.56) (num (- 151.27)) (num 25.58))\<rparr>,
      \<lparr>tr_codice = 1275, tr_nome = ''ED50 to WGS 84 (17)'', tr_da = 4230, tr_a = 4326, tr_accuratezza_m = num 2.0,
        tr_metodo = Traslazioni (num (- 84.0)) (num (- 97.0)) (num (- 117.0)),
        tr_area = (geo_bounds (num (- 9.86)) (num 41.15) (num 10.38) (num 51.56))\<rparr>,
      \<lparr>tr_codice = 1311, tr_nome = ''ED50 to WGS 84 (18)'', tr_da = 4230, tr_a = 4326, tr_accuratezza_m = num 1.0,
        tr_metodo = VettorePosizione (num (- 89.5)) (num (- 93.8)) (num (- 123.1)) (num 0.0) (num 0.0) (num (- 0.15599999999999983)) (num 1.2),
        tr_area = (geo_bounds (num (- 16.1)) (num 47.42) (num 10.86) (num 63.89))\<rparr>,
      \<lparr>tr_codice = 1313, tr_nome = ''NAD27 to NAD83 (4)'', tr_da = 4267, tr_a = 4269, tr_accuratezza_m = num 1.5,
        tr_metodo = MtGrigliaNtv2 ''NTv2_0.gsb'',
        tr_area = (geo_bounds (num (- 141.01)) (num 40.0) (num (- 44.0)) (num 83.17))\<rparr>,
      \<lparr>tr_codice = 1314, tr_nome = ''OSGB36 to WGS 84 (6)'', tr_da = 4277, tr_a = 4326, tr_accuratezza_m = num 2.0,
        tr_metodo = VettorePosizione (num 446.448) (num (- 125.157)) (num 542.06) (num 0.14999999999999983) (num 0.24699999999999972) (num 0.8419999999999991) (num (- 20.489)),
        tr_area = (geo_bounds (num (- 8.82)) (num 49.79) (num 1.92) (num 60.94))\<rparr>]"

definition TRASFORMAZIONI_7 :: "trasformazione list" where
  "TRASFORMAZIONI_7 =
     [\<lparr>tr_codice = 1315, tr_nome = ''OSGB36 to ED50 (1)'', tr_da = 4277, tr_a = 4230, tr_accuratezza_m = num 2.0,
        tr_metodo = VettorePosizione (num 535.948) (num (- 31.357)) (num 665.16) (num 0.14999999999999983) (num 0.24699999999999972) (num 0.9979999999999989) (num (- 21.689)),
        tr_area = (geo_bounds (num (- 8.82)) (num 49.79) (num 1.92) (num 60.94))\<rparr>,
      \<lparr>tr_codice = 1440, tr_nome = ''ED50 to WGS 84 (19)'', tr_da = 4230, tr_a = 4326, tr_accuratezza_m = num 999.0,
        tr_metodo = Traslazioni (num (- 86.0)) (num (- 92.2)) (num (- 127.5)),
        tr_area = (geo_bounds (num 19.57) (num 34.88) (num 28.3) (num 41.75))\<rparr>,
      \<lparr>tr_codice = 1530, tr_nome = ''NAD27 to WGS 84 (30)'', tr_da = 4267, tr_a = 4326, tr_accuratezza_m = num 3.0,
        tr_metodo = Traslazioni (num (- 4.2)) (num 135.4) (num 181.9),
        tr_area = (geo_bounds (num (- 87.01)) (num 18.83) (num (- 73.57)) (num 25.51))\<rparr>,
      \<lparr>tr_codice = 1565, tr_nome = ''NZGD2000 to WGS 84 (1)'', tr_da = 4167, tr_a = 4326, tr_accuratezza_m = num 1.0,
        tr_metodo = Traslazioni (num 0.0) (num 0.0) (num 0.0),
        tr_area = (geo_bounds (num 160.6) (num (- 55.95)) (num (- 171.2)) (num (- 25.88)))\<rparr>,
      \<lparr>tr_codice = 1573, tr_nome = ''NAD27 to NAD83 (6)'', tr_da = 4267, tr_a = 4269, tr_accuratezza_m = num 1.5,
        tr_metodo = MtGrigliaNtv2 ''NA27NA83.GSB'',
        tr_area = (geo_bounds (num (- 79.85)) (num 44.99) (num (- 57.1)) (num 62.62))\<rparr>,
      \<lparr>tr_codice = 1588, tr_nome = ''ED50 to ETRS89 (1)'', tr_da = 4230, tr_a = 4258, tr_accuratezza_m = num 1.0,
        tr_metodo = VettorePosizione (num (- 116.641)) (num (- 56.931)) (num (- 110.559)) (num 0.8925078166311858) (num 0.9207660950870381) (num (- 0.9166407989620963)) (num (- 3.5199999999999996)),
        tr_area = (geo_bounds (num (- 3.35)) (num 65.0) (num 38.01) (num 84.73))\<rparr>,
      \<lparr>tr_codice = 1591, tr_nome = ''RGF93 v1 to ETRS89 (1)'', tr_da = 4171, tr_a = 4258, tr_accuratezza_m = num 0.1,
        tr_metodo = Traslazioni (num 0.0) (num 0.0) (num 0.0),
        tr_area = (geo_bounds (num (- 9.86)) (num 41.15) (num 10.38) (num 51.56))\<rparr>,
      \<lparr>tr_codice = 1612, tr_nome = ''ED50 to WGS 84 (23)'', tr_da = 4230, tr_a = 4326, tr_accuratezza_m = num 1.0,
        tr_metodo = VettorePosizione (num (- 116.641)) (num (- 56.931)) (num (- 110.559)) (num 0.8929999999999991) (num 0.920999999999999) (num (- 0.916999999999999)) (num (- 3.5199999999999996)),
        tr_area = (geo_bounds (num (- 3.35)) (num 62.0) (num 38.01) (num 84.73))\<rparr>,
      \<lparr>tr_codice = 1613, tr_nome = ''ED50 to WGS 84 (24)'', tr_da = 4230, tr_a = 4326, tr_accuratezza_m = num 1.0,
        tr_metodo = VettorePosizione (num (- 90.365)) (num (- 101.13)) (num (- 123.384)) (num 0.33299999999999963) (num 0.07699999999999992) (num 0.8939999999999991) (num 1.9939999999999998),
        tr_area = (geo_bounds (num 1.37) (num 56.08) (num 10.81) (num 62.01))\<rparr>]"

definition TRASFORMAZIONI_8 :: "trasformazione list" where
  "TRASFORMAZIONI_8 =
     [\<lparr>tr_codice = 1626, tr_nome = ''ED50 to ETRS89 (4)'', tr_da = 4230, tr_a = 4258, tr_accuratezza_m = num 1.0,
        tr_metodo = VettorePosizione (num (- 81.1)) (num (- 89.4)) (num (- 115.8)) (num 0.4849999999999995) (num 0.023999999999999976) (num 0.41299999999999953) (num (- 0.54)),
        tr_area = (geo_bounds (num 7.98) (num 54.5) (num 15.28) (num 57.81))\<rparr>,
      \<lparr>tr_codice = 1627, tr_nome = ''ED50 to WGS 84 (25)'', tr_da = 4230, tr_a = 4326, tr_accuratezza_m = num 1.0,
        tr_metodo = VettorePosizione (num (- 81.1)) (num (- 89.4)) (num (- 115.8)) (num 0.4849999999999995) (num 0.023999999999999976) (num 0.41299999999999953) (num (- 0.54)),
        tr_area = (geo_bounds (num 7.98) (num 54.5) (num 15.28) (num 57.81))\<rparr>,
      \<lparr>tr_codice = 1628, tr_nome = ''ED50 to ETRS89 (5)'', tr_da = 4230, tr_a = 4258, tr_accuratezza_m = num 1.0,
        tr_metodo = Traslazioni (num (- 116.8)) (num (- 106.4)) (num (- 154.4)),
        tr_area = (geo_bounds (num (- 5.42)) (num 36.0) (num (- 4.89)) (num 36.16))\<rparr>,
      \<lparr>tr_codice = 1629, tr_nome = ''ED50 to WGS 84 (26)'', tr_da = 4230, tr_a = 4326, tr_accuratezza_m = num 1.0,
        tr_metodo = Traslazioni (num (- 116.8)) (num (- 106.4)) (num (- 154.4)),
        tr_area = (geo_bounds (num (- 5.42)) (num 36.0) (num (- 4.89)) (num 36.16))\<rparr>,
      \<lparr>tr_codice = 1630, tr_nome = ''ED50 to ETRS89 (6)'', tr_da = 4230, tr_a = 4258, tr_accuratezza_m = num 1.5,
        tr_metodo = VettorePosizione (num (- 181.5)) (num (- 90.3)) (num (- 187.2)) (num 0.14399999999999982) (num 0.4919999999999995) (num (- 0.3939999999999996)) (num 17.57),
        tr_area = (geo_bounds (num 1.12) (num 38.59) (num 4.39) (num 40.15))\<rparr>,
      \<lparr>tr_codice = 1631, tr_nome = ''ED50 to WGS 84 (27)'', tr_da = 4230, tr_a = 4326, tr_accuratezza_m = num 1.5,
        tr_metodo = VettorePosizione (num (- 181.5)) (num (- 90.3)) (num (- 187.2)) (num 0.14399999999999982) (num 0.4919999999999995) (num (- 0.3939999999999996)) (num 17.57),
        tr_area = (geo_bounds (num 1.12) (num 38.59) (num 4.39) (num 40.15))\<rparr>,
      \<lparr>tr_codice = 1632, tr_nome = ''ED50 to ETRS89 (7)'', tr_da = 4230, tr_a = 4258, tr_accuratezza_m = num 1.5,
        tr_metodo = VettorePosizione (num (- 131.0)) (num (- 100.3)) (num (- 163.4)) (num (- 1.2439999999999987)) (num (- 0.01999999999999998)) (num (- 1.1439999999999988)) (num 9.39),
        tr_area = (geo_bounds (num (- 7.54)) (num 35.26) (num 3.39) (num 43.56))\<rparr>,
      \<lparr>tr_codice = 1633, tr_nome = ''ED50 to WGS 84 (28)'', tr_da = 4230, tr_a = 4326, tr_accuratezza_m = num 1.5,
        tr_metodo = VettorePosizione (num (- 131.0)) (num (- 100.3)) (num (- 163.4)) (num (- 1.2439999999999987)) (num (- 0.01999999999999998)) (num (- 1.1439999999999988)) (num 9.39),
        tr_area = (geo_bounds (num (- 7.54)) (num 35.26) (num 3.39) (num 43.56))\<rparr>]"

definition TRASFORMAZIONI_9 :: "trasformazione list" where
  "TRASFORMAZIONI_9 =
     [\<lparr>tr_codice = 1634, tr_nome = ''ED50 to ETRS89 (8)'', tr_da = 4230, tr_a = 4258, tr_accuratezza_m = num 1.5,
        tr_metodo = VettorePosizione (num (- 178.4)) (num (- 83.2)) (num (- 221.3)) (num 0.5399999999999995) (num (- 0.5319999999999995)) (num (- 0.12599999999999986)) (num 21.199999999999996),
        tr_area = (geo_bounds (num (- 9.37)) (num 41.5) (num (- 4.5)) (num 43.82))\<rparr>,
      \<lparr>tr_codice = 1635, tr_nome = ''ED50 to WGS 84 (29)'', tr_da = 4230, tr_a = 4326, tr_accuratezza_m = num 1.5,
        tr_metodo = VettorePosizione (num (- 178.4)) (num (- 83.2)) (num (- 221.3)) (num 0.5399999999999995) (num (- 0.5319999999999995)) (num (- 0.12599999999999986)) (num 21.199999999999996),
        tr_area = (geo_bounds (num (- 9.37)) (num 41.5) (num (- 4.5)) (num 43.82))\<rparr>,
      \<lparr>tr_codice = 1647, tr_nome = ''CH1903+ to ETRS89 (1)'', tr_da = 4150, tr_a = 4258, tr_accuratezza_m = num 0.1,
        tr_metodo = Traslazioni (num 674.374) (num 15.056) (num 405.346),
        tr_area = (geo_bounds (num 5.96) (num 45.82) (num 10.49) (num 47.81))\<rparr>,
      \<lparr>tr_codice = 1650, tr_nome = ''ED50 to ETRS89 (10)'', tr_da = 4230, tr_a = 4258, tr_accuratezza_m = num 2.0,
        tr_metodo = Traslazioni (num (- 84.0)) (num (- 97.0)) (num (- 117.0)),
        tr_area = (geo_bounds (num (- 9.86)) (num 41.15) (num 10.38) (num 51.56))\<rparr>,
      \<lparr>tr_codice = 1659, tr_nome = ''Monte Mario to ETRS89 (1)'', tr_da = 4265, tr_a = 4258, tr_accuratezza_m = num 4.0,
        tr_metodo = VettorePosizione (num (- 104.1)) (num (- 49.1)) (num (- 9.9)) (num 0.9709999999999989) (num (- 2.9169999999999967)) (num 0.7139999999999992) (num (- 11.68)),
        tr_area = (geo_bounds (num 6.62) (num 37.86) (num 18.58) (num 47.1))\<rparr>,
      \<lparr>tr_codice = 1660, tr_nome = ''Monte Mario to WGS 84 (4)'', tr_da = 4265, tr_a = 4326, tr_accuratezza_m = num 4.0,
        tr_metodo = VettorePosizione (num (- 104.1)) (num (- 49.1)) (num (- 9.9)) (num 0.9709999999999989) (num (- 2.9169999999999967)) (num 0.7139999999999992) (num (- 11.68)),
        tr_area = (geo_bounds (num 6.62) (num 37.86) (num 18.58) (num 47.1))\<rparr>,
      \<lparr>tr_codice = 1661, tr_nome = ''Monte Mario to ETRS89 (2)'', tr_da = 4265, tr_a = 4258, tr_accuratezza_m = num 4.0,
        tr_metodo = VettorePosizione (num (- 168.6)) (num (- 34.0)) (num 38.6) (num (- 0.3739999999999996)) (num (- 0.6789999999999993)) (num (- 1.3789999999999987)) (num (- 9.48)),
        tr_area = (geo_bounds (num 8.08) (num 38.82) (num 9.89) (num 41.31))\<rparr>,
      \<lparr>tr_codice = 1662, tr_nome = ''Monte Mario to WGS 84 (2)'', tr_da = 4265, tr_a = 4326, tr_accuratezza_m = num 4.0,
        tr_metodo = VettorePosizione (num (- 168.6)) (num (- 34.0)) (num 38.6) (num (- 0.3739999999999996)) (num (- 0.6789999999999993)) (num (- 1.3789999999999987)) (num (- 9.48)),
        tr_area = (geo_bounds (num 8.08) (num 38.82) (num 9.89) (num 41.31))\<rparr>]"

definition TRASFORMAZIONI_10 :: "trasformazione list" where
  "TRASFORMAZIONI_10 =
     [\<lparr>tr_codice = 1663, tr_nome = ''Monte Mario to ETRS89 (3)'', tr_da = 4265, tr_a = 4258, tr_accuratezza_m = num 4.0,
        tr_metodo = VettorePosizione (num (- 50.2)) (num (- 50.4)) (num 84.8) (num (- 0.6899999999999992)) (num (- 2.011999999999998)) (num 0.4589999999999995) (num (- 28.079999999999995)),
        tr_area = (geo_bounds (num 12.36) (num 36.59) (num 15.71) (num 38.35))\<rparr>,
      \<lparr>tr_codice = 1664, tr_nome = ''Monte Mario to WGS 84 (3)'', tr_da = 4265, tr_a = 4326, tr_accuratezza_m = num 4.0,
        tr_metodo = VettorePosizione (num (- 50.2)) (num (- 50.4)) (num 84.8) (num (- 0.6899999999999992)) (num (- 2.011999999999998)) (num 0.4589999999999995) (num (- 28.079999999999995)),
        tr_area = (geo_bounds (num 12.36) (num 36.59) (num 15.71) (num 38.35))\<rparr>,
      \<lparr>tr_codice = 1671, tr_nome = ''RGF93 v1 to WGS 84 (1)'', tr_da = 4171, tr_a = 4326, tr_accuratezza_m = num 1.0,
        tr_metodo = Traslazioni (num 0.0) (num 0.0) (num 0.0),
        tr_area = (geo_bounds (num (- 9.86)) (num 41.15) (num 10.38) (num 51.56))\<rparr>,
      \<lparr>tr_codice = 1676, tr_nome = ''CH1903+ to WGS 84 (1)'', tr_da = 4150, tr_a = 4326, tr_accuratezza_m = num 1.0,
        tr_metodo = Traslazioni (num 674.374) (num 15.056) (num 405.346),
        tr_area = (geo_bounds (num 5.96) (num 45.82) (num 10.49) (num 47.81))\<rparr>,
      \<lparr>tr_codice = 1692, tr_nome = ''NAD27 to WGS 84 (34)'', tr_da = 4267, tr_a = 4326, tr_accuratezza_m = num 1.5,
        tr_metodo = MtGrigliaNtv2 ''NA27SCRS.GSB'',
        tr_area = (geo_bounds (num (- 79.85)) (num 44.99) (num (- 57.1)) (num 62.62))\<rparr>,
      \<lparr>tr_codice = 1693, tr_nome = ''NAD27 to WGS 84 (33)'', tr_da = 4267, tr_a = 4326, tr_accuratezza_m = num 2.0,
        tr_metodo = MtGrigliaNtv2 ''NTv2_0.gsb'',
        tr_area = (geo_bounds (num (- 141.01)) (num 40.0) (num (- 44.0)) (num 83.17))\<rparr>,
      \<lparr>tr_codice = 1696, tr_nome = ''NAD83 to WGS 84 (6)'', tr_da = 4269, tr_a = 4326, tr_accuratezza_m = num 1.5,
        tr_metodo = MtGrigliaNtv2 ''NA83SCRS.GSB'',
        tr_area = (geo_bounds (num (- 79.85)) (num 44.99) (num (- 57.1)) (num 62.62))\<rparr>,
      \<lparr>tr_codice = 1697, tr_nome = ''NAD83 to WGS 84 (7)'', tr_da = 4269, tr_a = 4326, tr_accuratezza_m = num 1.5,
        tr_metodo = MtGrigliaNtv2 ''SK83-98.gsb'',
        tr_area = (geo_bounds (num (- 110.0)) (num 49.0) (num (- 101.34)) (num 60.01))\<rparr>,
      \<lparr>tr_codice = 1702, tr_nome = ''NAD83 to WGS 84 (8)'', tr_da = 4269, tr_a = 4326, tr_accuratezza_m = num 1.5,
        tr_metodo = MtGrigliaNtv2 ''AB_CSRS.DAC'',
        tr_area = (geo_bounds (num (- 120.0)) (num 48.99) (num (- 109.98)) (num 60.0))\<rparr>,
      \<lparr>tr_codice = 1703, tr_nome = ''NAD27 to WGS 84 (32)'', tr_da = 4267, tr_a = 4326, tr_accuratezza_m = num 1.5,
        tr_metodo = MtGrigliaNtv2 ''SK27-98.gsb'',
        tr_area = (geo_bounds (num (- 110.0)) (num 49.0) (num (- 101.34)) (num 60.01))\<rparr>]"

definition TRASFORMAZIONI_11 :: "trasformazione list" where
  "TRASFORMAZIONI_11 =
     [\<lparr>tr_codice = 1776, tr_nome = ''DHDN to ETRS89 (2)'', tr_da = 4314, tr_a = 4258, tr_accuratezza_m = num 3.0,
        tr_metodo = VettorePosizione (num 598.1) (num 73.7) (num 418.2) (num 0.2019999999999998) (num 0.04499999999999995) (num (- 2.4549999999999974)) (num 6.7),
        tr_area = (geo_bounds (num 5.86) (num 47.27) (num 13.84) (num 55.09))\<rparr>,
      \<lparr>tr_codice = 1777, tr_nome = ''DHDN to WGS 84 (2)'', tr_da = 4314, tr_a = 4326, tr_accuratezza_m = num 3.0,
        tr_metodo = VettorePosizione (num 598.1) (num 73.7) (num 418.2) (num 0.2019999999999998) (num 0.04499999999999995) (num (- 2.4549999999999974)) (num 6.7),
        tr_area = (geo_bounds (num 5.86) (num 47.27) (num 13.84) (num 55.09))\<rparr>,
      \<lparr>tr_codice = 1778, tr_nome = ''DHDN to ETRS89 (3)'', tr_da = 4314, tr_a = 4258, tr_accuratezza_m = num 1.0,
        tr_metodo = VettorePosizione (num 597.1) (num 71.4) (num 412.1) (num 0.8939999999999991) (num 0.06799999999999992) (num (- 1.5629999999999984)) (num 7.579999999999999),
        tr_area = (geo_bounds (num 6.11) (num 47.27) (num 13.84) (num 50.34))\<rparr>,
      \<lparr>tr_codice = 1779, tr_nome = ''DHDN to ETRS89 (4)'', tr_da = 4314, tr_a = 4258, tr_accuratezza_m = num 1.0,
        tr_metodo = VettorePosizione (num 584.8) (num 67.0) (num 400.3) (num 0.1049999999999999) (num 0.012999999999999986) (num (- 2.377999999999998)) (num 10.289999999999997),
        tr_area = (geo_bounds (num 5.86) (num 50.33) (num 12.03) (num 52.34))\<rparr>,
      \<lparr>tr_codice = 1780, tr_nome = ''DHDN to ETRS89 (5)'', tr_da = 4314, tr_a = 4258, tr_accuratezza_m = num 1.0,
        tr_metodo = VettorePosizione (num 590.5) (num 69.5) (num 411.6) (num (- 0.7959999999999993)) (num (- 0.05199999999999994)) (num (- 3.6009999999999964)) (num 8.3),
        tr_area = (geo_bounds (num 6.56) (num 52.33) (num 11.59) (num 55.09))\<rparr>,
      \<lparr>tr_codice = 1783, tr_nome = ''ED50 to ETRS89 (9)'', tr_da = 4230, tr_a = 4258, tr_accuratezza_m = num 2.0,
        tr_metodo = VettorePosizione (num (- 84.1)) (num (- 101.8)) (num (- 129.7)) (num 0.0) (num 0.0) (num 0.4679999999999996) (num 1.0499999999999998),
        tr_area = (geo_bounds (num 25.62) (num 34.42) (num 44.83) (num 43.45))\<rparr>,
      \<lparr>tr_codice = 1784, tr_nome = ''ED50 to WGS 84 (30)'', tr_da = 4230, tr_a = 4326, tr_accuratezza_m = num 2.0,
        tr_metodo = VettorePosizione (num (- 84.1)) (num (- 101.8)) (num (- 129.7)) (num 0.0) (num 0.0) (num 0.4679999999999996) (num 1.0499999999999998),
        tr_area = (geo_bounds (num 25.62) (num 34.42) (num 44.83) (num 43.45))\<rparr>]"

definition TRASFORMAZIONI_12 :: "trasformazione list" where
  "TRASFORMAZIONI_12 =
     [\<lparr>tr_codice = 1810, tr_nome = ''ED50 to WGS 84 (31)'', tr_da = 4230, tr_a = 4326, tr_accuratezza_m = num 15.0,
        tr_metodo = VettorePosizione (num (- 84.0)) (num (- 103.0)) (num (- 122.5)) (num 0.0) (num 0.0) (num 0.5539999999999995) (num 0.22629999999999997),
        tr_area = (geo_bounds (num 24.7) (num 25.71) (num 30.0) (num 31.68))\<rparr>,
      \<lparr>tr_codice = 1853, tr_nome = ''ED50 to WGS 84 (39)'', tr_da = 4230, tr_a = 4326, tr_accuratezza_m = num 5.0,
        tr_metodo = Traslazioni (num (- 82.31)) (num (- 95.23)) (num (- 114.96)),
        tr_area = (geo_bounds (num (- 12.5)) (num 53.75) (num (- 9.49)) (num 55.76))\<rparr>,
      \<lparr>tr_codice = 1985, tr_nome = ''ED50 to WGS 84 (33)'', tr_da = 4230, tr_a = 4326, tr_accuratezza_m = num 5.0,
        tr_metodo = Traslazioni (num (- 87.987)) (num (- 108.639)) (num (- 121.593)),
        tr_area = (geo_bounds (num (- 9.56)) (num 36.95) (num (- 6.19)) (num 42.16))\<rparr>,
      \<lparr>tr_codice = 1989, tr_nome = ''ED50 to WGS 84 (34)'', tr_da = 4230, tr_a = 4326, tr_accuratezza_m = num 1.0,
        tr_metodo = TelaioCoordinate (num (- 74.292)) (num (- 135.889)) (num (- 104.967)) (num 0.5239999999999995) (num 0.13599999999999984) (num (- 0.6099999999999993)) (num (- 3.761)),
        tr_area = (geo_bounds (num (- 9.56)) (num 36.95) (num (- 6.19)) (num 42.16))\<rparr>,
      \<lparr>tr_codice = 1998, tr_nome = ''ED50 to WGS 84 (36)'', tr_da = 4230, tr_a = 4326, tr_accuratezza_m = num 1.0,
        tr_metodo = VettorePosizione (num (- 157.89)) (num (- 17.16)) (num (- 78.41)) (num 2.1179999999999977) (num 2.696999999999997) (num (- 1.4339999999999984)) (num (- 5.379999999999999)),
        tr_area = (geo_bounds (num 3.34) (num 53.58) (num 8.88) (num 55.92))\<rparr>,
      \<lparr>tr_codice = 3904, tr_nome = ''ED50 to WGS 84 (32)'', tr_da = 4230, tr_a = 4326, tr_accuratezza_m = num 5.0,
        tr_metodo = VettorePosizione (num (- 83.11)) (num (- 97.38)) (num (- 117.22)) (num 0.0056929086524198595) (num (- 0.04469758351374578)) (num 0.044285053901251585) (num 0.12179999999999999),
        tr_area = (geo_bounds (num 2.53) (num 51.44) (num 6.37) (num 55.77))\<rparr>,
      \<lparr>tr_codice = 4833, tr_nome = ''Amersfoort to WGS 84 (4)'', tr_da = 4289, tr_a = 4326, tr_accuratezza_m = num 1.0,
        tr_metodo = TelaioCoordinate (num 565.4171) (num 50.3319) (num 465.5524) (num 0.3989573882431337) (num (- 0.3439878173782826)) (num 1.8774016399804463) (num 4.0725),
        tr_area = (geo_bounds (num 3.2) (num 50.75) (num 7.22) (num 53.7))\<rparr>,
      \<lparr>tr_codice = 5040, tr_nome = ''ED50 to ETRS89 (13)'', tr_da = 4230, tr_a = 4258, tr_accuratezza_m = num 5.0,
        tr_metodo = Traslazioni (num (- 87.987)) (num (- 108.639)) (num (- 121.593)),
        tr_area = (geo_bounds (num (- 9.56)) (num 36.95) (num (- 6.19)) (num 42.16))\<rparr>]"

definition TRASFORMAZIONI_13 :: "trasformazione list" where
  "TRASFORMAZIONI_13 =
     [\<lparr>tr_codice = 5622, tr_nome = ''OSGB36 to WGS 84 (8)'', tr_da = 4277, tr_a = 4326, tr_accuratezza_m = num 3.0,
        tr_metodo = Traslazioni (num 370.936) (num (- 108.938)) (num 435.682),
        tr_area = (geo_bounds (num (- 2.2)) (num 50.53) (num (- 1.68)) (num 50.8))\<rparr>,
      \<lparr>tr_codice = 5661, tr_nome = ''ED50 to ETRS89 (14)'', tr_da = 4230, tr_a = 4258, tr_accuratezza_m = num 0.05,
        tr_metodo = MtGrigliaNtv2 ''100800401.gsb'',
        tr_area = (geo_bounds (num 0.16) (num 40.49) (num 3.39) (num 42.86))\<rparr>,
      \<lparr>tr_codice = 6710, tr_nome = ''RDN2008 to ETRS89 (1)'', tr_da = 6706, tr_a = 4258, tr_accuratezza_m = num 0.0,
        tr_metodo = Traslazioni (num 0.0) (num 0.0) (num 0.0),
        tr_area = (geo_bounds (num 5.93) (num 34.76) (num 18.99) (num 47.1))\<rparr>,
      \<lparr>tr_codice = 6711, tr_nome = ''RDN2008 to WGS 84 (1)'', tr_da = 6706, tr_a = 4326, tr_accuratezza_m = num 1.0,
        tr_metodo = Traslazioni (num 0.0) (num 0.0) (num 0.0),
        tr_area = (geo_bounds (num 5.93) (num 34.76) (num 18.99) (num 47.1))\<rparr>,
      \<lparr>tr_codice = 7698, tr_nome = ''NAD27 to WGS 84 (89)'', tr_da = 4267, tr_a = 4326, tr_accuratezza_m = num 1.0,
        tr_metodo = TelaioCoordinate (num (- 32.3841359)) (num 180.4090461) (num 120.8442577) (num 2.154585399999998) (num 0.14987819999999982) (num (- 0.5742914999999994)) (num 8.104916399999999),
        tr_area = (geo_bounds (num (- 83.04)) (num 7.15) (num (- 77.19)) (num 9.68))\<rparr>,
      \<lparr>tr_codice = 7709, tr_nome = ''OSGB36 to ETRS89 (2)'', tr_da = 4277, tr_a = 4258, tr_accuratezza_m = num 0.03,
        tr_metodo = MtGrigliaNtv2 ''OSTN15_NTv2_OSGBtoETRS.gsb'',
        tr_area = (geo_bounds (num (- 9.01)) (num 49.75) (num 2.01) (num 61.01))\<rparr>,
      \<lparr>tr_codice = 7710, tr_nome = ''OSGB36 to WGS 84 (9)'', tr_da = 4277, tr_a = 4326, tr_accuratezza_m = num 1.0,
        tr_metodo = MtGrigliaNtv2 ''OSTN15_NTv2_OSGBtoETRS.gsb'',
        tr_area = (geo_bounds (num (- 9.01)) (num 49.75) (num 2.01) (num 61.01))\<rparr>,
      \<lparr>tr_codice = 8048, tr_nome = ''GDA94 to GDA2020 (1)'', tr_da = 4283, tr_a = 7844, tr_accuratezza_m = num 0.01,
        tr_metodo = TelaioCoordinate (num 0.06155) (num (- 0.01087)) (num (- 0.04019)) (num (- 0.03949239999999997)) (num (- 0.03272209999999997)) (num (- 0.032897899999999966)) (num (- 0.009994)),
        tr_area = (geo_bounds (num 93.41) (num (- 60.55)) (num 173.34) (num (- 8.47)))\<rparr>,
      \<lparr>tr_codice = 8444, tr_nome = ''GDA94 to GDA2020 (4)'', tr_da = 4283, tr_a = 7844, tr_accuratezza_m = num 0.05,
        tr_metodo = MtGrigliaNtv2 ''GDA94_GDA2020_conformal_christmas_island.gsb'',
        tr_area = (geo_bounds (num 105.48) (num (- 10.63)) (num 105.77) (num (- 10.36)))\<rparr>,
      \<lparr>tr_codice = 8445, tr_nome = ''GDA94 to GDA2020 (5)'', tr_da = 4283, tr_a = 7844, tr_accuratezza_m = num 0.05,
        tr_metodo = MtGrigliaNtv2 ''GDA94_GDA2020_conformal_cocos_island.gsb'',
        tr_area = (geo_bounds (num 96.76) (num (- 12.27)) (num 96.99) (num (- 11.76)))\<rparr>]"

definition TRASFORMAZIONI_14 :: "trasformazione list" where
  "TRASFORMAZIONI_14 =
     [\<lparr>tr_codice = 8446, tr_nome = ''GDA94 to GDA2020 (3)'', tr_da = 4283, tr_a = 7844, tr_accuratezza_m = num 0.05,
        tr_metodo = MtGrigliaNtv2 ''GDA94_GDA2020_conformal.gsb'',
        tr_area = (geo_bounds (num 112.85) (num (- 43.7)) (num 153.69) (num (- 9.86)))\<rparr>,
      \<lparr>tr_codice = 8447, tr_nome = ''GDA94 to GDA2020 (2)'', tr_da = 4283, tr_a = 7844, tr_accuratezza_m = num 0.05,
        tr_metodo = MtGrigliaNtv2 ''GDA94_GDA2020_conformal_and_distortion.gsb'',
        tr_area = (geo_bounds (num 112.85) (num (- 43.7)) (num 153.69) (num (- 9.86)))\<rparr>,
      \<lparr>tr_codice = 8450, tr_nome = ''GDA2020 to WGS 84 (2)'', tr_da = 7844, tr_a = 4326, tr_accuratezza_m = num 3.0,
        tr_metodo = Traslazioni (num 0.0) (num 0.0) (num 0.0),
        tr_area = (geo_bounds (num 93.41) (num (- 60.55)) (num 173.34) (num (- 8.47)))\<rparr>,
      \<lparr>tr_codice = 9111, tr_nome = ''NAD27 to NAD83 (9)'', tr_da = 4267, tr_a = 4269, tr_accuratezza_m = num 1.5,
        tr_metodo = MtGrigliaNtv2 ''SK27-83.gsb'',
        tr_area = (geo_bounds (num (- 110.0)) (num 49.0) (num (- 101.34)) (num 60.01))\<rparr>,
      \<lparr>tr_codice = 9224, tr_nome = ''ED50 to ETRS89 (15)'', tr_da = 4230, tr_a = 4258, tr_accuratezza_m = num 1.0,
        tr_metodo = VettorePosizione (num (- 157.89)) (num (- 17.16)) (num (- 78.41)) (num 2.1179999999999977) (num 2.696999999999997) (num (- 1.4339999999999984)) (num (- 5.379999999999999)),
        tr_area = (geo_bounds (num 3.34) (num 53.49) (num 8.88) (num 55.92))\<rparr>,
      \<lparr>tr_codice = 9281, tr_nome = ''Amersfoort to ETRS89 (8)'', tr_da = 4289, tr_a = 4258, tr_accuratezza_m = num 0.25,
        tr_metodo = TelaioCoordinate (num 565.7381) (num 50.4018) (num 465.2904) (num 0.3950259810360641) (num (- 0.33077243124203115)) (num 1.8760732946282148) (num 4.07244),
        tr_area = (geo_bounds (num 3.2) (num 50.75) (num 7.22) (num 53.7))\<rparr>,
      \<lparr>tr_codice = 9282, tr_nome = ''Amersfoort to ETRS89 (9)'', tr_da = 4289, tr_a = 4258, tr_accuratezza_m = num 0.0,
        tr_metodo = MtGrigliaNtv2 ''rdtrans2018.gsb'',
        tr_area = (geo_bounds (num 3.2) (num 50.75) (num 7.22) (num 53.7))\<rparr>,
      \<lparr>tr_codice = 9310, tr_nome = ''DHDN to ETRS89 (10)'', tr_da = 4314, tr_a = 4258, tr_accuratezza_m = num 0.01,
        tr_metodo = MtGrigliaNtv2 ''SeTa2016.gsb'',
        tr_area = (geo_bounds (num 6.35) (num 49.11) (num 7.41) (num 49.64))\<rparr>,
      \<lparr>tr_codice = 9338, tr_nome = ''DHDN to ETRS89 (9)'', tr_da = 4314, tr_a = 4258, tr_accuratezza_m = num 0.1,
        tr_metodo = MtGrigliaNtv2 ''BWTA2017.gsb'',
        tr_area = (geo_bounds (num 7.51) (num 47.54) (num 10.5) (num 49.8))\<rparr>,
      \<lparr>tr_codice = 9408, tr_nome = ''ED50 to ETRS89 (16)'', tr_da = 4230, tr_a = 4258, tr_accuratezza_m = num 0.2,
        tr_metodo = MtGrigliaNtv2 ''PENR2009.gsb'',
        tr_area = (geo_bounds (num (- 9.37)) (num 35.82) (num 3.39) (num 43.82))\<rparr>]"

definition TRASFORMAZIONI_15 :: "trasformazione list" where
  "TRASFORMAZIONI_15 =
     [\<lparr>tr_codice = 9409, tr_nome = ''ED50 to ETRS89 (17)'', tr_da = 4230, tr_a = 4258, tr_accuratezza_m = num 0.2,
        tr_metodo = MtGrigliaNtv2 ''BALR2009.gsb'',
        tr_area = (geo_bounds (num 1.12) (num 38.59) (num 4.39) (num 40.15))\<rparr>,
      \<lparr>tr_codice = 9688, tr_nome = ''GDA94 to WGS 84 (2)'', tr_da = 4283, tr_a = 4326, tr_accuratezza_m = num 3.0,
        tr_metodo = TelaioCoordinate (num 0.06155) (num (- 0.01087)) (num (- 0.04019)) (num (- 0.03949239999999997)) (num (- 0.03272209999999997)) (num (- 0.032897899999999966)) (num (- 0.009994)),
        tr_area = (geo_bounds (num 93.41) (num (- 60.55)) (num 173.34) (num (- 8.47)))\<rparr>,
      \<lparr>tr_codice = 9689, tr_nome = ''GDA94 to WGS 84 (3)'', tr_da = 4283, tr_a = 4326, tr_accuratezza_m = num 3.0,
        tr_metodo = MtGrigliaNtv2 ''GDA94_GDA2020_conformal_and_distortion.gsb'',
        tr_area = (geo_bounds (num 112.85) (num (- 43.7)) (num 153.69) (num (- 9.86)))\<rparr>,
      \<lparr>tr_codice = 9690, tr_nome = ''WGS 84 to GDA2020 (3)'', tr_da = 4326, tr_a = 7844, tr_accuratezza_m = num 3.0,
        tr_metodo = TelaioCoordinate (num 0.06155) (num (- 0.01087)) (num (- 0.04019)) (num (- 0.03949239999999997)) (num (- 0.03272209999999997)) (num (- 0.032897899999999966)) (num (- 0.009994)),
        tr_area = (geo_bounds (num 93.41) (num (- 60.55)) (num 173.34) (num (- 8.47)))\<rparr>,
      \<lparr>tr_codice = 9691, tr_nome = ''WGS 84 to GDA2020 (4)'', tr_da = 4326, tr_a = 7844, tr_accuratezza_m = num 3.0,
        tr_metodo = MtGrigliaNtv2 ''GDA94_GDA2020_conformal_and_distortion.gsb'',
        tr_area = (geo_bounds (num 112.85) (num (- 43.7)) (num 153.69) (num (- 9.86)))\<rparr>,
      \<lparr>tr_codice = 9732, tr_nome = ''Monte Mario to ED50 (1)'', tr_da = 4265, tr_a = 4230, tr_accuratezza_m = num 0.1,
        tr_metodo = MtGrigliaNtv2 ''35160622_47161840_R40_E50.gsb'',
        tr_area = (geo_bounds (num 6.36) (num 35.26) (num 18.67) (num 47.1))\<rparr>,
      \<lparr>tr_codice = 9733, tr_nome = ''Monte Mario to IGM95 (4)'', tr_da = 4265, tr_a = 4670, tr_accuratezza_m = num 0.1,
        tr_metodo = MtGrigliaNtv2 ''35160622_47161840_R40_F89.gsb'',
        tr_area = (geo_bounds (num 6.36) (num 35.26) (num 18.67) (num 47.1))\<rparr>,
      \<lparr>tr_codice = 9734, tr_nome = ''Monte Mario to RDN2008 (5)'', tr_da = 4265, tr_a = 6706, tr_accuratezza_m = num 0.1,
        tr_metodo = MtGrigliaNtv2 ''35160622_47161840_R40_F00.gsb'',
        tr_area = (geo_bounds (num 6.36) (num 35.26) (num 18.67) (num 47.1))\<rparr>,
      \<lparr>tr_codice = 9735, tr_nome = ''ED50 to IGM95 (1)'', tr_da = 4230, tr_a = 4670, tr_accuratezza_m = num 0.2,
        tr_metodo = MtGrigliaNtv2 ''35160622_47161840_E50_F89.gsb'',
        tr_area = (geo_bounds (num 6.36) (num 35.26) (num 18.67) (num 47.1))\<rparr>,
      \<lparr>tr_codice = 9736, tr_nome = ''ED50 to RDN2008 (1)'', tr_da = 4230, tr_a = 6706, tr_accuratezza_m = num 0.2,
        tr_metodo = MtGrigliaNtv2 ''35160622_47161840_E50_F00.gsb'',
        tr_area = (geo_bounds (num 6.36) (num 35.26) (num 18.67) (num 47.1))\<rparr>]"

definition TRASFORMAZIONI_16 :: "trasformazione list" where
  "TRASFORMAZIONI_16 =
     [\<lparr>tr_codice = 9737, tr_nome = ''IGM95 to RDN2008 (1)'', tr_da = 4670, tr_a = 6706, tr_accuratezza_m = num 0.01,
        tr_metodo = MtGrigliaNtv2 ''35160622_47161840_F89_F00.gsb'',
        tr_area = (geo_bounds (num 6.36) (num 35.26) (num 18.67) (num 47.1))\<rparr>,
      \<lparr>tr_codice = 9940, tr_nome = ''DHDN to ETRS89 (11)'', tr_da = 4314, tr_a = 4258, tr_accuratezza_m = num 0.1,
        tr_metodo = MtGrigliaNtv2 ''HeTa2010.gsb'',
        tr_area = (geo_bounds (num 7.77) (num 49.39) (num 10.24) (num 51.66))\<rparr>,
      \<lparr>tr_codice = 15699, tr_nome = ''NAD27 to WGS 84 (87)'', tr_da = 4267, tr_a = 4326, tr_accuratezza_m = num 5.0,
        tr_metodo = Traslazioni (num (- 2.0)) (num 124.7) (num 196.0),
        tr_area = (geo_bounds (num (- 94.79)) (num 17.85) (num (- 89.75)) (num 20.89))\<rparr>,
      \<lparr>tr_codice = 15852, tr_nome = ''NAD27 to WGS 84 (80)'', tr_da = 4267, tr_a = 4326, tr_accuratezza_m = num 5.0,
        tr_metodo = Traslazioni (num (- 3.0)) (num 154.0) (num 177.0),
        tr_area = (geo_bounds (num (- 87.25)) (num 23.82) (num (- 81.17)) (num 30.25))\<rparr>,
      \<lparr>tr_codice = 15853, tr_nome = ''NAD27 to WGS 84 (81)'', tr_da = 4267, tr_a = 4326, tr_accuratezza_m = num 5.0,
        tr_metodo = Traslazioni (num (- 7.0)) (num 151.0) (num 175.0),
        tr_area = (geo_bounds (num (- 95.0)) (num 25.61) (num (- 87.25)) (num 30.23))\<rparr>,
      \<lparr>tr_codice = 15854, tr_nome = ''NAD27 to WGS 84 (82)'', tr_da = 4267, tr_a = 4326, tr_accuratezza_m = num 5.0,
        tr_metodo = Traslazioni (num (- 7.0)) (num 151.0) (num 178.0),
        tr_area = (geo_bounds (num (- 97.22)) (num 25.97) (num (- 95.0)) (num 28.97))\<rparr>,
      \<lparr>tr_codice = 15855, tr_nome = ''NAD27 to WGS 84 (83)'', tr_da = 4267, tr_a = 4326, tr_accuratezza_m = num 5.0,
        tr_metodo = Traslazioni (num (- 8.0)) (num 125.0) (num 190.0),
        tr_area = (geo_bounds (num (- 98.1)) (num 21.51) (num (- 96.89)) (num 22.75))\<rparr>,
      \<lparr>tr_codice = 15856, tr_nome = ''NAD27 to WGS 84 (84)'', tr_da = 4267, tr_a = 4326, tr_accuratezza_m = num 8.0,
        tr_metodo = Traslazioni (num (- 7.0)) (num 158.0) (num 172.0),
        tr_area = (geo_bounds (num (- 97.22)) (num 23.82) (num (- 81.17)) (num 30.25))\<rparr>,
      \<lparr>tr_codice = 15869, tr_nome = ''DHDN to WGS 84 (3)'', tr_da = 4314, tr_a = 4326, tr_accuratezza_m = num 2.0,
        tr_metodo = VettorePosizione (num 612.4) (num 77.0) (num 440.2) (num (- 0.053999999999999944)) (num 0.05699999999999994) (num (- 2.796999999999997)) (num 2.55),
        tr_area = (geo_bounds (num 9.92) (num 50.2) (num 15.04) (num 54.74))\<rparr>,
      \<lparr>tr_codice = 15894, tr_nome = ''SIRGAS 2000 to WGS 84 (1)'', tr_da = 4674, tr_a = 4326, tr_accuratezza_m = num 1.0,
        tr_metodo = Traslazioni (num 0.0) (num 0.0) (num 0.0),
        tr_area = (geo_bounds (num (- 122.19)) (num (- 59.87)) (num (- 25.28)) (num 32.72))\<rparr>]"

definition TRASFORMAZIONI_17 :: "trasformazione list" where
  "TRASFORMAZIONI_17 =
     [\<lparr>tr_codice = 15913, tr_nome = ''NAD27 to WGS 84 (86)'', tr_da = 4267, tr_a = 4326, tr_accuratezza_m = num 5.0,
        tr_metodo = Traslazioni (num 0.0) (num 125.0) (num 196.0),
        tr_area = (geo_bounds (num (- 94.33)) (num 20.87) (num (- 88.67)) (num 23.01))\<rparr>,
      \<lparr>tr_codice = 15933, tr_nome = ''ED50 to WGS 84 (41)'', tr_da = 4230, tr_a = 4326, tr_accuratezza_m = num 1.0,
        tr_metodo = MtGrigliaNtv2 ''SPED2ETV2.gsb'',
        tr_area = (geo_bounds (num (- 9.37)) (num 35.26) (num 4.39) (num 43.82))\<rparr>,
      \<lparr>tr_codice = 15934, tr_nome = ''Amersfoort to WGS 84 (3)'', tr_da = 4289, tr_a = 4326, tr_accuratezza_m = num 1.0,
        tr_metodo = TelaioCoordinate (num 565.2369) (num 50.0087) (num 465.658) (num 0.4068573303223975) (num (- 0.3507326765425626)) (num 1.8703473836067956) (num 4.0812),
        tr_area = (geo_bounds (num 3.2) (num 50.75) (num 7.22) (num 53.7))\<rparr>,
      \<lparr>tr_codice = 15948, tr_nome = ''DHDN to ETRS89 (8)'', tr_da = 4314, tr_a = 4258, tr_accuratezza_m = num 0.9,
        tr_metodo = MtGrigliaNtv2 ''BETA2007.gsb'',
        tr_area = (geo_bounds (num 5.86) (num 47.27) (num 15.04) (num 55.09))\<rparr>,
      \<lparr>tr_codice = 15949, tr_nome = ''DHDN to WGS 84 (4)'', tr_da = 4314, tr_a = 4326, tr_accuratezza_m = num 1.0,
        tr_metodo = MtGrigliaNtv2 ''BETA2007.gsb'',
        tr_area = (geo_bounds (num 5.86) (num 47.27) (num 15.04) (num 55.09))\<rparr>,
      \<lparr>tr_codice = 15964, tr_nome = ''ED50 to WGS 84 (42)'', tr_da = 4230, tr_a = 4326, tr_accuratezza_m = num 5.0,
        tr_metodo = Traslazioni (num (- 86.277)) (num (- 108.879)) (num (- 120.181)),
        tr_area = (geo_bounds (num (- 13.87)) (num 34.91) (num (- 7.24)) (num 41.88))\<rparr>,
      \<lparr>tr_codice = 15978, tr_nome = ''NAD27 to WGS 84 (88)'', tr_da = 4267, tr_a = 4326, tr_accuratezza_m = num 1.0,
        tr_metodo = TelaioCoordinate (num 2.478) (num 149.752) (num 197.726) (num (- 0.5259999999999995)) (num (- 0.4979999999999995)) (num 0.5009999999999996) (num 0.685),
        tr_area = (geo_bounds (num (- 87.01)) (num 18.83) (num (- 73.57)) (num 25.51))\<rparr>]"

definition TRASFORMAZIONI :: "trasformazione list" where
  "TRASFORMAZIONI = TRASFORMAZIONI_1 @ TRASFORMAZIONI_2 @ TRASFORMAZIONI_3 @ TRASFORMAZIONI_4 @ TRASFORMAZIONI_5 @ TRASFORMAZIONI_6 @ TRASFORMAZIONI_7 @ TRASFORMAZIONI_8 @ TRASFORMAZIONI_9 @ TRASFORMAZIONI_10 @ TRASFORMAZIONI_11 @ TRASFORMAZIONI_12 @ TRASFORMAZIONI_13 @ TRASFORMAZIONI_14 @ TRASFORMAZIONI_15 @ TRASFORMAZIONI_16 @ TRASFORMAZIONI_17"

section \<open>The codes\<close>

lemma chiavi_DATUM_1: "map dt_codice DATUM_1 = [4150, 4167, 4171, 4230, 4258, 4265, 4267, 4269, 4277, 4283, 4289, 4314, 4326, 4490, 4670, 4674, 6706, 7844]"
  by (simp add: DATUM_1_def)

lemmas chiavi_DATUM_parti = chiavi_DATUM_1

lemma chiavi_DATUM:
  "map dt_codice DATUM =
     [4150, 4167, 4171, 4230, 4258, 4265, 4267, 4269, 4277, 4283, 4289, 4314, 4326, 4490, 4670, 4674, 6706, 7844]"
  by (simp add: DATUM_def chiavi_DATUM_parti)

lemma chiavi_DEFINIZIONI_1: "map (\<lambda>d. (df_crs d, df_datum d)) DEFINIZIONI_1 = [(OgcCrs84, 4326), (Epsg 2056, 4150), (Epsg 2154, 4171), (Epsg 2193, 4167), (Epsg 3003, 4265), (Epsg 3004, 4265), (Epsg 3035, 4258), (Epsg 3064, 4670), (Epsg 3065, 4670), (Epsg 3395, 4326), (Epsg 3857, 4326)]"
  by (simp add: DEFINIZIONI_1_def)

lemma chiavi_DEFINIZIONI_2: "map (\<lambda>d. (df_crs d, df_datum d)) DEFINIZIONI_2 = [(Epsg 4171, 4171), (Epsg 4230, 4230), (Epsg 4258, 4258), (Epsg 4265, 4265), (Epsg 4267, 4267), (Epsg 4269, 4269), (Epsg 4277, 4277), (Epsg 4283, 4283), (Epsg 4326, 4326), (Epsg 4490, 4490), (Epsg 4670, 4670), (Epsg 4674, 4674), (Epsg 6706, 6706), (Epsg 6707, 6706), (Epsg 6708, 6706), (Epsg 6709, 6706), (Epsg 6875, 6706), (Epsg 7791, 6706)]"
  by (simp add: DEFINIZIONI_2_def)

lemma chiavi_DEFINIZIONI_3: "map (\<lambda>d. (df_crs d, df_datum d)) DEFINIZIONI_3 = [(Epsg 7792, 6706), (Epsg 7793, 6706), (Epsg 7794, 6706), (Epsg 7844, 7844), (Epsg 23032, 4230), (Epsg 23033, 4230), (Epsg 23034, 4230), (Epsg 25828, 4258), (Epsg 25829, 4258), (Epsg 25830, 4258), (Epsg 25831, 4258), (Epsg 25832, 4258)]"
  by (simp add: DEFINIZIONI_3_def)

lemma chiavi_DEFINIZIONI_4: "map (\<lambda>d. (df_crs d, df_datum d)) DEFINIZIONI_4 = [(Epsg 25833, 4258), (Epsg 25834, 4258), (Epsg 25835, 4258), (Epsg 25836, 4258), (Epsg 25837, 4258), (Epsg 27700, 4277), (Epsg 28992, 4289), (Epsg 31467, 4314), (Epsg 32601, 4326), (Epsg 32602, 4326), (Epsg 32603, 4326)]"
  by (simp add: DEFINIZIONI_4_def)

lemma chiavi_DEFINIZIONI_5: "map (\<lambda>d. (df_crs d, df_datum d)) DEFINIZIONI_5 = [(Epsg 32604, 4326), (Epsg 32605, 4326), (Epsg 32606, 4326), (Epsg 32607, 4326), (Epsg 32608, 4326), (Epsg 32609, 4326), (Epsg 32610, 4326), (Epsg 32611, 4326), (Epsg 32612, 4326), (Epsg 32613, 4326), (Epsg 32614, 4326)]"
  by (simp add: DEFINIZIONI_5_def)

lemma chiavi_DEFINIZIONI_6: "map (\<lambda>d. (df_crs d, df_datum d)) DEFINIZIONI_6 = [(Epsg 32615, 4326), (Epsg 32616, 4326), (Epsg 32617, 4326), (Epsg 32618, 4326), (Epsg 32619, 4326), (Epsg 32620, 4326), (Epsg 32621, 4326), (Epsg 32622, 4326), (Epsg 32623, 4326), (Epsg 32624, 4326), (Epsg 32625, 4326)]"
  by (simp add: DEFINIZIONI_6_def)

lemma chiavi_DEFINIZIONI_7: "map (\<lambda>d. (df_crs d, df_datum d)) DEFINIZIONI_7 = [(Epsg 32626, 4326), (Epsg 32627, 4326), (Epsg 32628, 4326), (Epsg 32629, 4326), (Epsg 32630, 4326), (Epsg 32631, 4326), (Epsg 32632, 4326), (Epsg 32633, 4326), (Epsg 32634, 4326), (Epsg 32635, 4326), (Epsg 32636, 4326)]"
  by (simp add: DEFINIZIONI_7_def)

lemma chiavi_DEFINIZIONI_8: "map (\<lambda>d. (df_crs d, df_datum d)) DEFINIZIONI_8 = [(Epsg 32637, 4326), (Epsg 32638, 4326), (Epsg 32639, 4326), (Epsg 32640, 4326), (Epsg 32641, 4326), (Epsg 32642, 4326), (Epsg 32643, 4326), (Epsg 32644, 4326), (Epsg 32645, 4326), (Epsg 32646, 4326), (Epsg 32647, 4326)]"
  by (simp add: DEFINIZIONI_8_def)

lemma chiavi_DEFINIZIONI_9: "map (\<lambda>d. (df_crs d, df_datum d)) DEFINIZIONI_9 = [(Epsg 32648, 4326), (Epsg 32649, 4326), (Epsg 32650, 4326), (Epsg 32651, 4326), (Epsg 32652, 4326), (Epsg 32653, 4326), (Epsg 32654, 4326), (Epsg 32655, 4326), (Epsg 32656, 4326), (Epsg 32657, 4326), (Epsg 32658, 4326)]"
  by (simp add: DEFINIZIONI_9_def)

lemma chiavi_DEFINIZIONI_10: "map (\<lambda>d. (df_crs d, df_datum d)) DEFINIZIONI_10 = [(Epsg 32659, 4326), (Epsg 32660, 4326), (Epsg 32701, 4326), (Epsg 32702, 4326), (Epsg 32703, 4326), (Epsg 32704, 4326), (Epsg 32705, 4326), (Epsg 32706, 4326), (Epsg 32707, 4326), (Epsg 32708, 4326), (Epsg 32709, 4326)]"
  by (simp add: DEFINIZIONI_10_def)

lemma chiavi_DEFINIZIONI_11: "map (\<lambda>d. (df_crs d, df_datum d)) DEFINIZIONI_11 = [(Epsg 32710, 4326), (Epsg 32711, 4326), (Epsg 32712, 4326), (Epsg 32713, 4326), (Epsg 32714, 4326), (Epsg 32715, 4326), (Epsg 32716, 4326), (Epsg 32717, 4326), (Epsg 32718, 4326), (Epsg 32719, 4326), (Epsg 32720, 4326)]"
  by (simp add: DEFINIZIONI_11_def)

lemma chiavi_DEFINIZIONI_12: "map (\<lambda>d. (df_crs d, df_datum d)) DEFINIZIONI_12 = [(Epsg 32721, 4326), (Epsg 32722, 4326), (Epsg 32723, 4326), (Epsg 32724, 4326), (Epsg 32725, 4326), (Epsg 32726, 4326), (Epsg 32727, 4326), (Epsg 32728, 4326), (Epsg 32729, 4326), (Epsg 32730, 4326), (Epsg 32731, 4326)]"
  by (simp add: DEFINIZIONI_12_def)

lemma chiavi_DEFINIZIONI_13: "map (\<lambda>d. (df_crs d, df_datum d)) DEFINIZIONI_13 = [(Epsg 32732, 4326), (Epsg 32733, 4326), (Epsg 32734, 4326), (Epsg 32735, 4326), (Epsg 32736, 4326), (Epsg 32737, 4326), (Epsg 32738, 4326), (Epsg 32739, 4326), (Epsg 32740, 4326), (Epsg 32741, 4326), (Epsg 32742, 4326)]"
  by (simp add: DEFINIZIONI_13_def)

lemma chiavi_DEFINIZIONI_14: "map (\<lambda>d. (df_crs d, df_datum d)) DEFINIZIONI_14 = [(Epsg 32743, 4326), (Epsg 32744, 4326), (Epsg 32745, 4326), (Epsg 32746, 4326), (Epsg 32747, 4326), (Epsg 32748, 4326), (Epsg 32749, 4326), (Epsg 32750, 4326), (Epsg 32751, 4326), (Epsg 32752, 4326), (Epsg 32753, 4326)]"
  by (simp add: DEFINIZIONI_14_def)

lemma chiavi_DEFINIZIONI_15: "map (\<lambda>d. (df_crs d, df_datum d)) DEFINIZIONI_15 = [(Epsg 32754, 4326), (Epsg 32755, 4326), (Epsg 32756, 4326), (Epsg 32757, 4326), (Epsg 32758, 4326), (Epsg 32759, 4326), (Epsg 32760, 4326)]"
  by (simp add: DEFINIZIONI_15_def)

lemmas chiavi_DEFINIZIONI_parti = chiavi_DEFINIZIONI_1 chiavi_DEFINIZIONI_2 chiavi_DEFINIZIONI_3 chiavi_DEFINIZIONI_4 chiavi_DEFINIZIONI_5 chiavi_DEFINIZIONI_6 chiavi_DEFINIZIONI_7 chiavi_DEFINIZIONI_8 chiavi_DEFINIZIONI_9 chiavi_DEFINIZIONI_10 chiavi_DEFINIZIONI_11 chiavi_DEFINIZIONI_12 chiavi_DEFINIZIONI_13 chiavi_DEFINIZIONI_14 chiavi_DEFINIZIONI_15

lemma chiavi_DEFINIZIONI:
  "map (\<lambda>d. (df_crs d, df_datum d)) DEFINIZIONI =
     [(OgcCrs84, 4326), (Epsg 2056, 4150), (Epsg 2154, 4171), (Epsg 2193, 4167), (Epsg 3003, 4265), (Epsg 3004, 4265), (Epsg 3035, 4258), (Epsg 3064, 4670), (Epsg 3065, 4670), (Epsg 3395, 4326), (Epsg 3857, 4326), (Epsg 4171, 4171), (Epsg 4230, 4230), (Epsg 4258, 4258), (Epsg 4265, 4265), (Epsg 4267, 4267), (Epsg 4269, 4269), (Epsg 4277, 4277), (Epsg 4283, 4283), (Epsg 4326, 4326), (Epsg 4490, 4490), (Epsg 4670, 4670), (Epsg 4674, 4674), (Epsg 6706, 6706), (Epsg 6707, 6706), (Epsg 6708, 6706), (Epsg 6709, 6706), (Epsg 6875, 6706), (Epsg 7791, 6706), (Epsg 7792, 6706), (Epsg 7793, 6706), (Epsg 7794, 6706), (Epsg 7844, 7844), (Epsg 23032, 4230), (Epsg 23033, 4230), (Epsg 23034, 4230), (Epsg 25828, 4258), (Epsg 25829, 4258), (Epsg 25830, 4258), (Epsg 25831, 4258), (Epsg 25832, 4258), (Epsg 25833, 4258), (Epsg 25834, 4258), (Epsg 25835, 4258), (Epsg 25836, 4258), (Epsg 25837, 4258), (Epsg 27700, 4277), (Epsg 28992, 4289), (Epsg 31467, 4314), (Epsg 32601, 4326), (Epsg 32602, 4326), (Epsg 32603, 4326), (Epsg 32604, 4326), (Epsg 32605, 4326), (Epsg 32606, 4326), (Epsg 32607, 4326), (Epsg 32608, 4326), (Epsg 32609, 4326), (Epsg 32610, 4326), (Epsg 32611, 4326), (Epsg 32612, 4326), (Epsg 32613, 4326), (Epsg 32614, 4326), (Epsg 32615, 4326), (Epsg 32616, 4326), (Epsg 32617, 4326), (Epsg 32618, 4326), (Epsg 32619, 4326), (Epsg 32620, 4326), (Epsg 32621, 4326), (Epsg 32622, 4326), (Epsg 32623, 4326), (Epsg 32624, 4326), (Epsg 32625, 4326), (Epsg 32626, 4326), (Epsg 32627, 4326), (Epsg 32628, 4326), (Epsg 32629, 4326), (Epsg 32630, 4326), (Epsg 32631, 4326), (Epsg 32632, 4326), (Epsg 32633, 4326), (Epsg 32634, 4326), (Epsg 32635, 4326), (Epsg 32636, 4326), (Epsg 32637, 4326), (Epsg 32638, 4326), (Epsg 32639, 4326), (Epsg 32640, 4326), (Epsg 32641, 4326), (Epsg 32642, 4326), (Epsg 32643, 4326), (Epsg 32644, 4326), (Epsg 32645, 4326), (Epsg 32646, 4326), (Epsg 32647, 4326), (Epsg 32648, 4326), (Epsg 32649, 4326), (Epsg 32650, 4326), (Epsg 32651, 4326), (Epsg 32652, 4326), (Epsg 32653, 4326), (Epsg 32654, 4326), (Epsg 32655, 4326), (Epsg 32656, 4326), (Epsg 32657, 4326), (Epsg 32658, 4326), (Epsg 32659, 4326), (Epsg 32660, 4326), (Epsg 32701, 4326), (Epsg 32702, 4326), (Epsg 32703, 4326), (Epsg 32704, 4326), (Epsg 32705, 4326), (Epsg 32706, 4326), (Epsg 32707, 4326), (Epsg 32708, 4326), (Epsg 32709, 4326), (Epsg 32710, 4326), (Epsg 32711, 4326), (Epsg 32712, 4326), (Epsg 32713, 4326), (Epsg 32714, 4326), (Epsg 32715, 4326), (Epsg 32716, 4326), (Epsg 32717, 4326), (Epsg 32718, 4326), (Epsg 32719, 4326), (Epsg 32720, 4326), (Epsg 32721, 4326), (Epsg 32722, 4326), (Epsg 32723, 4326), (Epsg 32724, 4326), (Epsg 32725, 4326), (Epsg 32726, 4326), (Epsg 32727, 4326), (Epsg 32728, 4326), (Epsg 32729, 4326), (Epsg 32730, 4326), (Epsg 32731, 4326), (Epsg 32732, 4326), (Epsg 32733, 4326), (Epsg 32734, 4326), (Epsg 32735, 4326), (Epsg 32736, 4326), (Epsg 32737, 4326), (Epsg 32738, 4326), (Epsg 32739, 4326), (Epsg 32740, 4326), (Epsg 32741, 4326), (Epsg 32742, 4326), (Epsg 32743, 4326), (Epsg 32744, 4326), (Epsg 32745, 4326), (Epsg 32746, 4326), (Epsg 32747, 4326), (Epsg 32748, 4326), (Epsg 32749, 4326), (Epsg 32750, 4326), (Epsg 32751, 4326), (Epsg 32752, 4326), (Epsg 32753, 4326), (Epsg 32754, 4326), (Epsg 32755, 4326), (Epsg 32756, 4326), (Epsg 32757, 4326), (Epsg 32758, 4326), (Epsg 32759, 4326), (Epsg 32760, 4326)]"
  by (simp add: DEFINIZIONI_def chiavi_DEFINIZIONI_parti)

lemma chiavi_TRASFORMAZIONI_1: "map (\<lambda>t. (tr_codice t, tr_da t, tr_a t, a_griglia t)) TRASFORMAZIONI_1 = [(1075, 4230, 4326, False), (1087, 4230, 4326, False), (1088, 4265, 4326, False), (1089, 4265, 4326, False), (1090, 4265, 4326, False), (1091, 4265, 4326, False), (1092, 4265, 4326, False), (1093, 4265, 4326, False), (1094, 4265, 4326, False), (1098, 4670, 4258, False)]"
  by (simp add: TRASFORMAZIONI_1_def a_griglia_def)

lemma chiavi_TRASFORMAZIONI_2: "map (\<lambda>t. (tr_codice t, tr_da t, tr_a t, a_griglia t)) TRASFORMAZIONI_2 = [(1099, 4670, 4326, False), (1133, 4230, 4326, False), (1134, 4230, 4326, False), (1135, 4230, 4326, False), (1136, 4230, 4326, False), (1137, 4230, 4326, False), (1138, 4230, 4326, False), (1139, 4230, 4326, False), (1140, 4230, 4326, False), (1142, 4230, 4326, False)]"
  by (simp add: TRASFORMAZIONI_2_def a_griglia_def)

lemma chiavi_TRASFORMAZIONI_3: "map (\<lambda>t. (tr_codice t, tr_da t, tr_a t, a_griglia t)) TRASFORMAZIONI_3 = [(1143, 4230, 4326, False), (1144, 4230, 4326, False), (1145, 4230, 4326, False), (1149, 4258, 4326, False), (1150, 4283, 4326, False), (1169, 4265, 4326, False), (1170, 4267, 4326, False), (1171, 4267, 4326, False), (1172, 4267, 4326, False), (1173, 4267, 4326, False)]"
  by (simp add: TRASFORMAZIONI_3_def a_griglia_def)

lemma chiavi_TRASFORMAZIONI_4: "map (\<lambda>t. (tr_codice t, tr_da t, tr_a t, a_griglia t)) TRASFORMAZIONI_4 = [(1174, 4267, 4326, False), (1175, 4267, 4326, False), (1176, 4267, 4326, False), (1177, 4267, 4326, False), (1178, 4267, 4326, False), (1179, 4267, 4326, False), (1180, 4267, 4326, False), (1181, 4267, 4326, False), (1182, 4267, 4326, False), (1183, 4267, 4326, False)]"
  by (simp add: TRASFORMAZIONI_4_def a_griglia_def)

lemma chiavi_TRASFORMAZIONI_5: "map (\<lambda>t. (tr_codice t, tr_da t, tr_a t, a_griglia t)) TRASFORMAZIONI_5 = [(1184, 4267, 4326, False), (1185, 4267, 4326, False), (1186, 4267, 4326, False), (1187, 4267, 4326, False), (1188, 4269, 4326, False), (1195, 4277, 4326, False), (1196, 4277, 4326, False), (1197, 4277, 4326, False), (1198, 4277, 4326, False), (1199, 4277, 4326, False)]"
  by (simp add: TRASFORMAZIONI_5_def a_griglia_def)

lemma chiavi_TRASFORMAZIONI_6: "map (\<lambda>t. (tr_codice t, tr_da t, tr_a t, a_griglia t)) TRASFORMAZIONI_6 = [(1245, 4230, 4326, False), (1249, 4267, 4326, False), (1250, 4267, 4326, False), (1251, 4269, 4326, False), (1252, 4269, 4326, False), (1275, 4230, 4326, False), (1311, 4230, 4326, False), (1313, 4267, 4269, True), (1314, 4277, 4326, False)]"
  by (simp add: TRASFORMAZIONI_6_def a_griglia_def)

lemma chiavi_TRASFORMAZIONI_7: "map (\<lambda>t. (tr_codice t, tr_da t, tr_a t, a_griglia t)) TRASFORMAZIONI_7 = [(1315, 4277, 4230, False), (1440, 4230, 4326, False), (1530, 4267, 4326, False), (1565, 4167, 4326, False), (1573, 4267, 4269, True), (1588, 4230, 4258, False), (1591, 4171, 4258, False), (1612, 4230, 4326, False), (1613, 4230, 4326, False)]"
  by (simp add: TRASFORMAZIONI_7_def a_griglia_def)

lemma chiavi_TRASFORMAZIONI_8: "map (\<lambda>t. (tr_codice t, tr_da t, tr_a t, a_griglia t)) TRASFORMAZIONI_8 = [(1626, 4230, 4258, False), (1627, 4230, 4326, False), (1628, 4230, 4258, False), (1629, 4230, 4326, False), (1630, 4230, 4258, False), (1631, 4230, 4326, False), (1632, 4230, 4258, False), (1633, 4230, 4326, False)]"
  by (simp add: TRASFORMAZIONI_8_def a_griglia_def)

lemma chiavi_TRASFORMAZIONI_9: "map (\<lambda>t. (tr_codice t, tr_da t, tr_a t, a_griglia t)) TRASFORMAZIONI_9 = [(1634, 4230, 4258, False), (1635, 4230, 4326, False), (1647, 4150, 4258, False), (1650, 4230, 4258, False), (1659, 4265, 4258, False), (1660, 4265, 4326, False), (1661, 4265, 4258, False), (1662, 4265, 4326, False)]"
  by (simp add: TRASFORMAZIONI_9_def a_griglia_def)

lemma chiavi_TRASFORMAZIONI_10: "map (\<lambda>t. (tr_codice t, tr_da t, tr_a t, a_griglia t)) TRASFORMAZIONI_10 = [(1663, 4265, 4258, False), (1664, 4265, 4326, False), (1671, 4171, 4326, False), (1676, 4150, 4326, False), (1692, 4267, 4326, True), (1693, 4267, 4326, True), (1696, 4269, 4326, True), (1697, 4269, 4326, True), (1702, 4269, 4326, True), (1703, 4267, 4326, True)]"
  by (simp add: TRASFORMAZIONI_10_def a_griglia_def)

lemma chiavi_TRASFORMAZIONI_11: "map (\<lambda>t. (tr_codice t, tr_da t, tr_a t, a_griglia t)) TRASFORMAZIONI_11 = [(1776, 4314, 4258, False), (1777, 4314, 4326, False), (1778, 4314, 4258, False), (1779, 4314, 4258, False), (1780, 4314, 4258, False), (1783, 4230, 4258, False), (1784, 4230, 4326, False)]"
  by (simp add: TRASFORMAZIONI_11_def a_griglia_def)

lemma chiavi_TRASFORMAZIONI_12: "map (\<lambda>t. (tr_codice t, tr_da t, tr_a t, a_griglia t)) TRASFORMAZIONI_12 = [(1810, 4230, 4326, False), (1853, 4230, 4326, False), (1985, 4230, 4326, False), (1989, 4230, 4326, False), (1998, 4230, 4326, False), (3904, 4230, 4326, False), (4833, 4289, 4326, False), (5040, 4230, 4258, False)]"
  by (simp add: TRASFORMAZIONI_12_def a_griglia_def)

lemma chiavi_TRASFORMAZIONI_13: "map (\<lambda>t. (tr_codice t, tr_da t, tr_a t, a_griglia t)) TRASFORMAZIONI_13 = [(5622, 4277, 4326, False), (5661, 4230, 4258, True), (6710, 6706, 4258, False), (6711, 6706, 4326, False), (7698, 4267, 4326, False), (7709, 4277, 4258, True), (7710, 4277, 4326, True), (8048, 4283, 7844, False), (8444, 4283, 7844, True), (8445, 4283, 7844, True)]"
  by (simp add: TRASFORMAZIONI_13_def a_griglia_def)

lemma chiavi_TRASFORMAZIONI_14: "map (\<lambda>t. (tr_codice t, tr_da t, tr_a t, a_griglia t)) TRASFORMAZIONI_14 = [(8446, 4283, 7844, True), (8447, 4283, 7844, True), (8450, 7844, 4326, False), (9111, 4267, 4269, True), (9224, 4230, 4258, False), (9281, 4289, 4258, False), (9282, 4289, 4258, True), (9310, 4314, 4258, True), (9338, 4314, 4258, True), (9408, 4230, 4258, True)]"
  by (simp add: TRASFORMAZIONI_14_def a_griglia_def)

lemma chiavi_TRASFORMAZIONI_15: "map (\<lambda>t. (tr_codice t, tr_da t, tr_a t, a_griglia t)) TRASFORMAZIONI_15 = [(9409, 4230, 4258, True), (9688, 4283, 4326, False), (9689, 4283, 4326, True), (9690, 4326, 7844, False), (9691, 4326, 7844, True), (9732, 4265, 4230, True), (9733, 4265, 4670, True), (9734, 4265, 6706, True), (9735, 4230, 4670, True), (9736, 4230, 6706, True)]"
  by (simp add: TRASFORMAZIONI_15_def a_griglia_def)

lemma chiavi_TRASFORMAZIONI_16: "map (\<lambda>t. (tr_codice t, tr_da t, tr_a t, a_griglia t)) TRASFORMAZIONI_16 = [(9737, 4670, 6706, True), (9940, 4314, 4258, True), (15699, 4267, 4326, False), (15852, 4267, 4326, False), (15853, 4267, 4326, False), (15854, 4267, 4326, False), (15855, 4267, 4326, False), (15856, 4267, 4326, False), (15869, 4314, 4326, False), (15894, 4674, 4326, False)]"
  by (simp add: TRASFORMAZIONI_16_def a_griglia_def)

lemma chiavi_TRASFORMAZIONI_17: "map (\<lambda>t. (tr_codice t, tr_da t, tr_a t, a_griglia t)) TRASFORMAZIONI_17 = [(15913, 4267, 4326, False), (15933, 4230, 4326, True), (15934, 4289, 4326, False), (15948, 4314, 4258, True), (15949, 4314, 4326, True), (15964, 4230, 4326, False), (15978, 4267, 4326, False)]"
  by (simp add: TRASFORMAZIONI_17_def a_griglia_def)

lemmas chiavi_TRASFORMAZIONI_parti = chiavi_TRASFORMAZIONI_1 chiavi_TRASFORMAZIONI_2 chiavi_TRASFORMAZIONI_3 chiavi_TRASFORMAZIONI_4 chiavi_TRASFORMAZIONI_5 chiavi_TRASFORMAZIONI_6 chiavi_TRASFORMAZIONI_7 chiavi_TRASFORMAZIONI_8 chiavi_TRASFORMAZIONI_9 chiavi_TRASFORMAZIONI_10 chiavi_TRASFORMAZIONI_11 chiavi_TRASFORMAZIONI_12 chiavi_TRASFORMAZIONI_13 chiavi_TRASFORMAZIONI_14 chiavi_TRASFORMAZIONI_15 chiavi_TRASFORMAZIONI_16 chiavi_TRASFORMAZIONI_17

lemma chiavi_TRASFORMAZIONI:
  "map (\<lambda>t. (tr_codice t, tr_da t, tr_a t, a_griglia t)) TRASFORMAZIONI =
     [(1075, 4230, 4326, False), (1087, 4230, 4326, False), (1088, 4265, 4326, False), (1089, 4265, 4326, False), (1090, 4265, 4326, False), (1091, 4265, 4326, False), (1092, 4265, 4326, False), (1093, 4265, 4326, False), (1094, 4265, 4326, False), (1098, 4670, 4258, False), (1099, 4670, 4326, False), (1133, 4230, 4326, False), (1134, 4230, 4326, False), (1135, 4230, 4326, False), (1136, 4230, 4326, False), (1137, 4230, 4326, False), (1138, 4230, 4326, False), (1139, 4230, 4326, False), (1140, 4230, 4326, False), (1142, 4230, 4326, False), (1143, 4230, 4326, False), (1144, 4230, 4326, False), (1145, 4230, 4326, False), (1149, 4258, 4326, False), (1150, 4283, 4326, False), (1169, 4265, 4326, False), (1170, 4267, 4326, False), (1171, 4267, 4326, False), (1172, 4267, 4326, False), (1173, 4267, 4326, False), (1174, 4267, 4326, False), (1175, 4267, 4326, False), (1176, 4267, 4326, False), (1177, 4267, 4326, False), (1178, 4267, 4326, False), (1179, 4267, 4326, False), (1180, 4267, 4326, False), (1181, 4267, 4326, False), (1182, 4267, 4326, False), (1183, 4267, 4326, False), (1184, 4267, 4326, False), (1185, 4267, 4326, False), (1186, 4267, 4326, False), (1187, 4267, 4326, False), (1188, 4269, 4326, False), (1195, 4277, 4326, False), (1196, 4277, 4326, False), (1197, 4277, 4326, False), (1198, 4277, 4326, False), (1199, 4277, 4326, False), (1245, 4230, 4326, False), (1249, 4267, 4326, False), (1250, 4267, 4326, False), (1251, 4269, 4326, False), (1252, 4269, 4326, False), (1275, 4230, 4326, False), (1311, 4230, 4326, False), (1313, 4267, 4269, True), (1314, 4277, 4326, False), (1315, 4277, 4230, False), (1440, 4230, 4326, False), (1530, 4267, 4326, False), (1565, 4167, 4326, False), (1573, 4267, 4269, True), (1588, 4230, 4258, False), (1591, 4171, 4258, False), (1612, 4230, 4326, False), (1613, 4230, 4326, False), (1626, 4230, 4258, False), (1627, 4230, 4326, False), (1628, 4230, 4258, False), (1629, 4230, 4326, False), (1630, 4230, 4258, False), (1631, 4230, 4326, False), (1632, 4230, 4258, False), (1633, 4230, 4326, False), (1634, 4230, 4258, False), (1635, 4230, 4326, False), (1647, 4150, 4258, False), (1650, 4230, 4258, False), (1659, 4265, 4258, False), (1660, 4265, 4326, False), (1661, 4265, 4258, False), (1662, 4265, 4326, False), (1663, 4265, 4258, False), (1664, 4265, 4326, False), (1671, 4171, 4326, False), (1676, 4150, 4326, False), (1692, 4267, 4326, True), (1693, 4267, 4326, True), (1696, 4269, 4326, True), (1697, 4269, 4326, True), (1702, 4269, 4326, True), (1703, 4267, 4326, True), (1776, 4314, 4258, False), (1777, 4314, 4326, False), (1778, 4314, 4258, False), (1779, 4314, 4258, False), (1780, 4314, 4258, False), (1783, 4230, 4258, False), (1784, 4230, 4326, False), (1810, 4230, 4326, False), (1853, 4230, 4326, False), (1985, 4230, 4326, False), (1989, 4230, 4326, False), (1998, 4230, 4326, False), (3904, 4230, 4326, False), (4833, 4289, 4326, False), (5040, 4230, 4258, False), (5622, 4277, 4326, False), (5661, 4230, 4258, True), (6710, 6706, 4258, False), (6711, 6706, 4326, False), (7698, 4267, 4326, False), (7709, 4277, 4258, True), (7710, 4277, 4326, True), (8048, 4283, 7844, False), (8444, 4283, 7844, True), (8445, 4283, 7844, True), (8446, 4283, 7844, True), (8447, 4283, 7844, True), (8450, 7844, 4326, False), (9111, 4267, 4269, True), (9224, 4230, 4258, False), (9281, 4289, 4258, False), (9282, 4289, 4258, True), (9310, 4314, 4258, True), (9338, 4314, 4258, True), (9408, 4230, 4258, True), (9409, 4230, 4258, True), (9688, 4283, 4326, False), (9689, 4283, 4326, True), (9690, 4326, 7844, False), (9691, 4326, 7844, True), (9732, 4265, 4230, True), (9733, 4265, 4670, True), (9734, 4265, 6706, True), (9735, 4230, 4670, True), (9736, 4230, 6706, True), (9737, 4670, 6706, True), (9940, 4314, 4258, True), (15699, 4267, 4326, False), (15852, 4267, 4326, False), (15853, 4267, 4326, False), (15854, 4267, 4326, False), (15855, 4267, 4326, False), (15856, 4267, 4326, False), (15869, 4314, 4326, False), (15894, 4674, 4326, False), (15913, 4267, 4326, False), (15933, 4230, 4326, True), (15934, 4289, 4326, False), (15948, 4314, 4258, True), (15949, 4314, 4326, True), (15964, 4230, 4326, False), (15978, 4267, 4326, False)]"
  by (simp add: TRASFORMAZIONI_def chiavi_TRASFORMAZIONI_parti)

end
