(* ===== verification/CrsTable.thy ===== *)
theory CrsTable
  imports CrsTypes
begin

text \<open>
  The table of the built-in reference systems, \<open>crs/epsg_integrati.rs\<close> of \<open>crates/plenora-core\<close>, row by row.
  \<open>codici_EPSG\<close> lists its codes: they increase, so the binary search of \<open>cerca\<close> finds each of them.
\<close>

section \<open>Ellipsoids and axes\<close>

definition ELLISSOIDE_WGS_84 :: ellipsoid where
  "ELLISSOIDE_WGS_84 = \<lparr>semi_major_axis_metre = num 6378137.0, inverse_flattening = num 298.257223563\<rparr>"

definition ELLISSOIDE_BESSEL_1841 :: ellipsoid where
  "ELLISSOIDE_BESSEL_1841 = \<lparr>semi_major_axis_metre = num 6377397.155, inverse_flattening = num 299.1528128\<rparr>"

definition ELLISSOIDE_GRS_1980 :: ellipsoid where
  "ELLISSOIDE_GRS_1980 = \<lparr>semi_major_axis_metre = num 6378137.0, inverse_flattening = num 298.257222101\<rparr>"

definition ELLISSOIDE_INTERNATIONAL_1924 :: ellipsoid where
  "ELLISSOIDE_INTERNATIONAL_1924 = \<lparr>semi_major_axis_metre = num 6378388.0, inverse_flattening = num 297.0\<rparr>"

definition ELLISSOIDE_CLARKE_1866 :: ellipsoid where
  "ELLISSOIDE_CLARKE_1866 = \<lparr>semi_major_axis_metre = num 6378206.4, inverse_flattening = num 294.9786982138982\<rparr>"

definition ELLISSOIDE_AIRY_1830 :: ellipsoid where
  "ELLISSOIDE_AIRY_1830 = \<lparr>semi_major_axis_metre = num 6377563.396, inverse_flattening = num 299.3249646\<rparr>"

definition ELLISSOIDE_CGCS2000 :: ellipsoid where
  "ELLISSOIDE_CGCS2000 = \<lparr>semi_major_axis_metre = num 6378137.0, inverse_flattening = num 298.257222101\<rparr>"

definition ASSI_LON_EAST_LAT_NORTH :: "asse list" where
  "ASSI_LON_EAST_LAT_NORTH =
     [\<lparr>as_nome = ''Geodetic longitude'', as_abbreviazione = ''Lon'', as_direzione = East\<rparr>,
      \<lparr>as_nome = ''Geodetic latitude'', as_abbreviazione = ''Lat'', as_direzione = North\<rparr>]"

definition ASSI_E_EAST_N_NORTH :: "asse list" where
  "ASSI_E_EAST_N_NORTH =
     [\<lparr>as_nome = ''Easting'', as_abbreviazione = ''E'', as_direzione = East\<rparr>,
      \<lparr>as_nome = ''Northing'', as_abbreviazione = ''N'', as_direzione = North\<rparr>]"

definition ASSI_X_EAST_Y_NORTH :: "asse list" where
  "ASSI_X_EAST_Y_NORTH =
     [\<lparr>as_nome = ''Easting'', as_abbreviazione = ''X'', as_direzione = East\<rparr>,
      \<lparr>as_nome = ''Northing'', as_abbreviazione = ''Y'', as_direzione = North\<rparr>]"

definition ASSI_N_NORTH_E_EAST :: "asse list" where
  "ASSI_N_NORTH_E_EAST =
     [\<lparr>as_nome = ''Northing'', as_abbreviazione = ''N'', as_direzione = North\<rparr>,
      \<lparr>as_nome = ''Easting'', as_abbreviazione = ''E'', as_direzione = East\<rparr>]"

definition ASSI_Y_NORTH_X_EAST :: "asse list" where
  "ASSI_Y_NORTH_X_EAST =
     [\<lparr>as_nome = ''Northing'', as_abbreviazione = ''Y'', as_direzione = North\<rparr>,
      \<lparr>as_nome = ''Easting'', as_abbreviazione = ''X'', as_direzione = East\<rparr>]"

definition ASSI_LAT_NORTH_LON_EAST :: "asse list" where
  "ASSI_LAT_NORTH_LON_EAST =
     [\<lparr>as_nome = ''Geodetic latitude'', as_abbreviazione = ''Lat'', as_direzione = North\<rparr>,
      \<lparr>as_nome = ''Geodetic longitude'', as_abbreviazione = ''Lon'', as_direzione = East\<rparr>]"

definition ASSI_X_NORTH_Y_EAST :: "asse list" where
  "ASSI_X_NORTH_Y_EAST =
     [\<lparr>as_nome = ''Northing'', as_abbreviazione = ''X'', as_direzione = North\<rparr>,
      \<lparr>as_nome = ''Easting'', as_abbreviazione = ''Y'', as_direzione = East\<rparr>]"

definition VERSIONE_EPSG :: string where
  "VERSIONE_EPSG = ''v11.022''"

definition DATA_EPSG :: string where
  "DATA_EPSG = ''2024-11-05''"

definition VERSIONE_PROJ :: string where
  "VERSIONE_PROJ = ''9.5.1''"

section \<open>The rows\<close>

definition CRS84 :: crs_integrato where
  "CRS84 =
     geografico OgcCrs84 ''WGS 84 (CRS84)'' ASSI_LON_EAST_LAT_NORTH ELLISSOIDE_WGS_84
        (geo_bounds (num (- 180.0)) (num (- 90.0)) (num 180.0) (num 90.0))"

definition EPSG_1 :: "crs_integrato list" where
  "EPSG_1 =
     [proiettato (Epsg 2056) ''CH1903+ / LV95'' ASSI_E_EAST_N_NORTH ELLISSOIDE_BESSEL_1841
        (geo_bounds (num 5.96) (num 45.82) (num 10.49) (num 47.81))
        (proj_bounds (num 2485014.011) (num 1074128.973) (num 2837016.893) (num 1299782.768))
        (proj_bounds (num 2309012.571) (num 961302.077) (num 3013018.333) (num 1412609.664)),
      proiettato (Epsg 2154) ''RGF93 v1 / Lambert-93'' ASSI_X_EAST_Y_NORTH ELLISSOIDE_GRS_1980
        (geo_bounds (num (- 9.86)) (num 41.15) (num 10.38) (num 51.56))
        (proj_bounds (num (- 378305.81)) (num 6005280.99) (num 1320649.572) (num 7235612.725))
        (proj_bounds (num (- 1227783.501)) (num 5390115.122) (num 2170127.262) (num 7850778.593)),
      proiettato (Epsg 2193) ''NZGD2000 / New Zealand Transverse Mercator 2000'' ASSI_N_NORTH_E_EAST ELLISSOIDE_GRS_1980
        (geo_bounds (num 166.37) (num (- 47.33)) (num 178.63) (num (- 34.1)))
        (proj_bounds (num 987942.452) (num 4736810.692) (num 2119620.662) (num 6226756.131))
        (proj_bounds (num 108419.17) (num 3917769.208) (num 3091580.83) (num 6959844.689)),
      proiettato (Epsg 3003) ''Monte Mario / Italy zone 1'' ASSI_X_EAST_Y_NORTH ELLISSOIDE_INTERNATIONAL_1924
        (geo_bounds (num 5.93) (num 36.53) (num 12.0) (num 47.04))
        (proj_bounds (num 1225120.587) (num 4042801.237) (num 1768610.103) (num 5214284.215))
        (proj_bounds (num 64544.714) (num 3460130.87) (num 2935455.286) (num 5900670.603)),
      proiettato (Epsg 3004) ''Monte Mario / Italy zone 2'' ASSI_X_EAST_Y_NORTH ELLISSOIDE_INTERNATIONAL_1924
        (geo_bounds (num 12.0) (num 34.76) (num 18.99) (num 47.1))
        (proj_bounds (num 2245391.807) (num 3846488.962) (num 2885274.102) (num 5224106.004))
        (proj_bounds (num 1044074.124) (num 3162607.506) (num 3995925.876) (num 6008070.422)),
      proiettato (Epsg 3035) ''ETRS89-extended / LAEA Europe'' ASSI_Y_NORTH_X_EAST ELLISSOIDE_GRS_1980
        (geo_bounds (num (- 35.58)) (num 24.6) (num 44.83) (num 84.73))
        (proj_bounds (num (- 146473.114)) (num 196462.568) (num 7824928.565) (num 6971477.485))
        (proj_bounds (num (- 4132173.953)) (num (- 3191044.891)) (num 11810629.404) (num 10358984.943)),
      proiettato (Epsg 3064) ''IGM95 / UTM zone 32N'' ASSI_E_EAST_N_NORTH ELLISSOIDE_GRS_1980
        (geo_bounds (num 5.93) (num 36.53) (num 12.0) (num 47.04))
        (proj_bounds (num 225132.787) (num 4042735.808) (num 768598.182) (num 5214183.816))
        (proj_bounds (num (- 1188659.414)) (num (- 0.001)) (num 2188659.414) (num 9350760.976)),
      proiettato (Epsg 3065) ''IGM95 / UTM zone 33N'' ASSI_E_EAST_N_NORTH ELLISSOIDE_GRS_1980
        (geo_bounds (num 12.0) (num 34.79) (num 18.0) (num 47.1))
        (proj_bounds (num 225503.37) (num 3849755.266) (num 774496.63) (num 5220644.505))
        (proj_bounds (num (- 1188659.414)) (num (- 0.001)) (num 2188659.414) (num 9350760.976)),
      proiettato (Epsg 3395) ''WGS 84 / World Mercator'' ASSI_E_EAST_N_NORTH ELLISSOIDE_WGS_84
        (geo_bounds (num (- 180.0)) (num (- 80.0)) (num 180.0) (num 84.0))
        (proj_bounds (num (- 20037508.343)) (num (- 15496570.74)) (num 20037508.343) (num 18764656.232))
        (proj_bounds (num (- 20037508.343)) (num (- 20006332.438)) (num 20037508.343) (num 20006332.438)),
      proiettato (Epsg 3857) ''WGS 84 / Pseudo-Mercator'' ASSI_X_EAST_Y_NORTH ELLISSOIDE_WGS_84
        (geo_bounds (num (- 180.0)) (num (- 85.06)) (num 180.0) (num 85.06))
        (proj_bounds (num (- 20037508.343)) (num (- 20048966.105)) (num 20037508.343) (num 20048966.105))
        (proj_bounds (num (- 20037508.343)) (num (- 20048966.105)) (num 20037508.343) (num 20048966.105)),
      geografico (Epsg 4171) ''RGF93 v1'' ASSI_LAT_NORTH_LON_EAST ELLISSOIDE_GRS_1980
        (geo_bounds (num (- 9.86)) (num 41.15) (num 10.38) (num 51.56)),
      geografico (Epsg 4230) ''ED50'' ASSI_LAT_NORTH_LON_EAST ELLISSOIDE_INTERNATIONAL_1924
        (geo_bounds (num (- 16.1)) (num 25.71) (num 48.61) (num 84.73)),
      geografico (Epsg 4258) ''ETRS89'' ASSI_LAT_NORTH_LON_EAST ELLISSOIDE_GRS_1980
        (geo_bounds (num (- 16.1)) (num 33.26) (num 38.01) (num 84.73)),
      geografico (Epsg 4265) ''Monte Mario'' ASSI_LAT_NORTH_LON_EAST ELLISSOIDE_INTERNATIONAL_1924
        (geo_bounds (num 5.93) (num 34.76) (num 18.99) (num 47.1)),
      geografico (Epsg 4267) ''NAD27'' ASSI_LAT_NORTH_LON_EAST ELLISSOIDE_CLARKE_1866
        (geo_bounds (num 167.65) (num 7.15) (num (- 47.74)) (num 83.17))]"

definition EPSG_2 :: "crs_integrato list" where
  "EPSG_2 =
     [geografico (Epsg 4269) ''NAD83'' ASSI_LAT_NORTH_LON_EAST ELLISSOIDE_GRS_1980
        (geo_bounds (num 167.65) (num 14.92) (num (- 40.73)) (num 86.45)),
      geografico (Epsg 4277) ''OSGB36'' ASSI_LAT_NORTH_LON_EAST ELLISSOIDE_AIRY_1830
        (geo_bounds (num (- 9.01)) (num 49.75) (num 2.01) (num 61.01)),
      geografico (Epsg 4283) ''GDA94'' ASSI_LAT_NORTH_LON_EAST ELLISSOIDE_GRS_1980
        (geo_bounds (num 93.41) (num (- 60.55)) (num 173.34) (num (- 8.47))),
      geografico (Epsg 4326) ''WGS 84'' ASSI_LAT_NORTH_LON_EAST ELLISSOIDE_WGS_84
        (geo_bounds (num (- 180.0)) (num (- 90.0)) (num 180.0) (num 90.0)),
      geografico (Epsg 4490) ''China Geodetic Coordinate System 2000'' ASSI_LAT_NORTH_LON_EAST ELLISSOIDE_CGCS2000
        (geo_bounds (num 73.62) (num 16.7) (num 134.77) (num 53.56)),
      geografico (Epsg 4670) ''IGM95'' ASSI_LAT_NORTH_LON_EAST ELLISSOIDE_GRS_1980
        (geo_bounds (num 5.93) (num 34.76) (num 18.99) (num 47.1)),
      geografico (Epsg 4674) ''SIRGAS 2000'' ASSI_LAT_NORTH_LON_EAST ELLISSOIDE_GRS_1980
        (geo_bounds (num (- 122.19)) (num (- 59.87)) (num (- 25.28)) (num 32.72)),
      geografico (Epsg 6706) ''RDN2008'' ASSI_LAT_NORTH_LON_EAST ELLISSOIDE_GRS_1980
        (geo_bounds (num 5.93) (num 34.76) (num 18.99) (num 47.1)),
      proiettato (Epsg 6707) ''RDN2008 / UTM zone 32N (N-E)'' ASSI_N_NORTH_E_EAST ELLISSOIDE_GRS_1980
        (geo_bounds (num 5.93) (num 36.53) (num 12.0) (num 47.04))
        (proj_bounds (num 225132.787) (num 4042735.808) (num 768598.182) (num 5214183.816))
        (proj_bounds (num (- 1188659.414)) (num (- 0.001)) (num 2188659.414) (num 9350760.976)),
      proiettato (Epsg 6708) ''RDN2008 / UTM zone 33N (N-E)'' ASSI_N_NORTH_E_EAST ELLISSOIDE_GRS_1980
        (geo_bounds (num 12.0) (num 34.79) (num 18.0) (num 47.1))
        (proj_bounds (num 225503.37) (num 3849755.266) (num 774496.63) (num 5220644.505))
        (proj_bounds (num (- 1188659.414)) (num (- 0.001)) (num 2188659.414) (num 9350760.976)),
      proiettato (Epsg 6709) ''RDN2008 / UTM zone 34N (N-E)'' ASSI_N_NORTH_E_EAST ELLISSOIDE_GRS_1980
        (geo_bounds (num 17.99) (num 34.76) (num 18.99) (num 41.64))
        (proj_bounds (num 224488.264) (num 3848268.687) (num 332597.548) (num 4614184.667))
        (proj_bounds (num (- 1188659.414)) (num (- 0.001)) (num 2188659.414) (num 9350760.976)),
      proiettato (Epsg 6875) ''RDN2008 / Italy zone (N-E)'' ASSI_N_NORTH_E_EAST ELLISSOIDE_GRS_1980
        (geo_bounds (num 5.93) (num 34.76) (num 18.99) (num 47.1))
        (proj_bounds (num 6444735.932) (num 3842195.738) (num 7639559.465) (num 5234265.086))
        (proj_bounds (num 5525761.373) (num 3159082.3) (num 8474238.627) (num 6001328.797)),
      proiettato (Epsg 7791) ''RDN2008 / UTM zone 32N'' ASSI_E_EAST_N_NORTH ELLISSOIDE_GRS_1980
        (geo_bounds (num 5.93) (num 36.53) (num 12.0) (num 47.04))
        (proj_bounds (num 225132.787) (num 4042735.808) (num 768598.182) (num 5214183.816))
        (proj_bounds (num (- 1188659.414)) (num (- 0.001)) (num 2188659.414) (num 9350760.976)),
      proiettato (Epsg 7792) ''RDN2008 / UTM zone 33N'' ASSI_E_EAST_N_NORTH ELLISSOIDE_GRS_1980
        (geo_bounds (num 12.0) (num 34.79) (num 18.0) (num 47.1))
        (proj_bounds (num 225503.37) (num 3849755.266) (num 774496.63) (num 5220644.505))
        (proj_bounds (num (- 1188659.414)) (num (- 0.001)) (num 2188659.414) (num 9350760.976)),
      proiettato (Epsg 7793) ''RDN2008 / UTM zone 34N'' ASSI_E_EAST_N_NORTH ELLISSOIDE_GRS_1980
        (geo_bounds (num 17.99) (num 34.76) (num 18.99) (num 41.64))
        (proj_bounds (num 224488.264) (num 3848268.687) (num 332597.548) (num 4614184.667))
        (proj_bounds (num (- 1188659.414)) (num (- 0.001)) (num 2188659.414) (num 9350760.976))]"

definition EPSG_3 :: "crs_integrato list" where
  "EPSG_3 =
     [proiettato (Epsg 7794) ''RDN2008 / Italy zone (E-N)'' ASSI_E_EAST_N_NORTH ELLISSOIDE_GRS_1980
        (geo_bounds (num 5.93) (num 34.76) (num 18.99) (num 47.1))
        (proj_bounds (num 6444735.932) (num 3842195.738) (num 7639559.465) (num 5234265.086))
        (proj_bounds (num 5525761.373) (num 3159082.3) (num 8474238.627) (num 6001328.797)),
      geografico (Epsg 7844) ''GDA2020'' ASSI_LAT_NORTH_LON_EAST ELLISSOIDE_GRS_1980
        (geo_bounds (num 93.41) (num (- 60.55)) (num 173.34) (num (- 8.47))),
      proiettato (Epsg 23032) ''ED50 / UTM zone 32N'' ASSI_E_EAST_N_NORTH ELLISSOIDE_INTERNATIONAL_1924
        (geo_bounds (num 6.0) (num 36.53) (num 12.0) (num 84.33))
        (proj_bounds (num 231389.897) (num 4042801.237) (num 768610.103) (num 9366084.804))
        (proj_bounds (num (- 1188726.442)) (num (- 0.001)) (num 2188726.442) (num 9386660.498)),
      proiettato (Epsg 23033) ''ED50 / UTM zone 33N'' ASSI_E_EAST_N_NORTH ELLISSOIDE_INTERNATIONAL_1924
        (geo_bounds (num 12.0) (num 34.49) (num 18.01) (num 84.42))
        (proj_bounds (num 224499.778) (num 3816548.1) (num 776418.861) (num 9376124.958))
        (proj_bounds (num (- 1188726.442)) (num (- 0.001)) (num 2188726.442) (num 9396372.367)),
      proiettato (Epsg 23034) ''ED50 / UTM zone 34N'' ASSI_E_EAST_N_NORTH ELLISSOIDE_INTERNATIONAL_1924
        (geo_bounds (num 17.99) (num 33.59) (num 24.01) (num 84.54))
        (proj_bounds (num 220642.267) (num 3716754.812) (num 779357.733) (num 9389504.192))
        (proj_bounds (num (- 1188726.442)) (num (- 0.001)) (num 2188726.442) (num 9409321.265)),
      proiettato (Epsg 25828) ''ETRS89 / UTM zone 28N'' ASSI_E_EAST_N_NORTH ELLISSOIDE_GRS_1980
        (geo_bounds (num (- 16.1)) (num 34.93) (num (- 11.99)) (num 72.44))
        (proj_bounds (num 399535.629) (num 3865280.375) (num 774945.08) (num 8040550.061))
        (proj_bounds (num (- 1188659.414)) (num (- 0.001)) (num 2188659.414) (num 9350760.976)),
      proiettato (Epsg 25829) ''ETRS89 / UTM zone 29N'' ASSI_E_EAST_N_NORTH ELLISSOIDE_GRS_1980
        (geo_bounds (num (- 12.0)) (num 34.91) (num (- 6.0)) (num 74.13))
        (proj_bounds (num 225902.08) (num 3863062.48) (num 774097.92) (num 8228847.091))
        (proj_bounds (num (- 1188659.414)) (num (- 0.001)) (num 2188659.414) (num 9350760.976)),
      proiettato (Epsg 25830) ''ETRS89 / UTM zone 30N'' ASSI_E_EAST_N_NORTH ELLISSOIDE_GRS_1980
        (geo_bounds (num (- 6.0)) (num 35.26) (num 0.01) (num 80.49))
        (proj_bounds (num 227071.857) (num 3901876.695) (num 773838.184) (num 8937716.117))
        (proj_bounds (num (- 1188659.414)) (num (- 0.001)) (num 2188659.414) (num 9350760.976)),
      proiettato (Epsg 25831) ''ETRS89 / UTM zone 31N'' ASSI_E_EAST_N_NORTH ELLISSOIDE_GRS_1980
        (geo_bounds (num 0.0) (num 37.0) (num 6.01) (num 82.45))
        (proj_bounds (num 233037.879) (num 4094872.37) (num 767852.221) (num 9156211.356))
        (proj_bounds (num (- 1188659.414)) (num (- 0.001)) (num 2188659.414) (num 9350760.976)),
      proiettato (Epsg 25832) ''ETRS89 / UTM zone 32N'' ASSI_E_EAST_N_NORTH ELLISSOIDE_GRS_1980
        (geo_bounds (num 6.0) (num 36.53) (num 12.01) (num 84.01))
        (proj_bounds (num 231401.818) (num 4042735.808) (num 769493.75) (num 9330126.131))
        (proj_bounds (num (- 1188659.414)) (num (- 0.001)) (num 2188659.414) (num 9351840.095)),
      proiettato (Epsg 25833) ''ETRS89 / UTM zone 33N'' ASSI_E_EAST_N_NORTH ELLISSOIDE_GRS_1980
        (geo_bounds (num 12.0) (num 34.79) (num 18.01) (num 84.01))
        (proj_bounds (num 225503.37) (num 3849755.266) (num 775411.914) (num 9330126.131))
        (proj_bounds (num (- 1188659.414)) (num (- 0.001)) (num 2188659.414) (num 9351840.095)),
      proiettato (Epsg 25834) ''ETRS89 / UTM zone 34N'' ASSI_E_EAST_N_NORTH ELLISSOIDE_GRS_1980
        (geo_bounds (num 18.0) (num 34.76) (num 24.01) (num 84.01))
        (proj_bounds (num 225403.88) (num 3846428.503) (num 775511.736) (num 9330126.131))
        (proj_bounds (num (- 1188659.414)) (num (- 0.001)) (num 2188659.414) (num 9351840.095)),
      proiettato (Epsg 25835) ''ETRS89 / UTM zone 35N'' ASSI_E_EAST_N_NORTH ELLISSOIDE_GRS_1980
        (geo_bounds (num 24.0) (num 41.24) (num 30.01) (num 84.01))
        (proj_bounds (num 248597.583) (num 4565399.895) (num 752240.527) (num 9330126.131))
        (proj_bounds (num (- 1188659.414)) (num (- 0.001)) (num 2188659.414) (num 9351840.095)),
      proiettato (Epsg 25836) ''ETRS89 / UTM zone 36N'' ASSI_E_EAST_N_NORTH ELLISSOIDE_GRS_1980
        (geo_bounds (num 30.0) (num 42.56) (num 36.01) (num 84.01))
        (proj_bounds (num 253727.658) (num 4711955.428) (num 747093.315) (num 9330126.131))
        (proj_bounds (num (- 1188659.414)) (num (- 0.001)) (num 2188659.414) (num 9351840.095))]"

definition EPSG_4 :: "crs_integrato list" where
  "EPSG_4 =
     [proiettato (Epsg 25837) ''ETRS89 / UTM zone 37N'' ASSI_E_EAST_N_NORTH ELLISSOIDE_GRS_1980
        (geo_bounds (num 36.0) (num 72.99) (num 38.01) (num 79.07))
        (proj_bounds (num 402080.15) (num 8099631.324) (num 479045.429) (num 8779418.626))
        (proj_bounds (num (- 1188659.414)) (num (- 0.001)) (num 2188659.414) (num 9350760.976)),
      proiettato (Epsg 27700) ''OSGB36 / British National Grid'' ASSI_E_EAST_N_NORTH ELLISSOIDE_AIRY_1830
        (geo_bounds (num (- 9.01)) (num 49.75) (num 2.01) (num 61.01))
        (proj_bounds (num (- 104728.765)) (num (- 16627.735)) (num 688806.008) (num 1256616.321))
        (proj_bounds (num (- 800375.227)) (num (- 642209.343)) (num 1600375.227) (num 1943333.626)),
      proiettato (Epsg 28992) ''Amersfoort / RD New'' ASSI_X_EAST_Y_NORTH ELLISSOIDE_BESSEL_1841
        (geo_bounds (num 3.2) (num 50.75) (num 7.22) (num 53.7))
        (proj_bounds (num 634.573) (num 306579.354) (num 284300.026) (num 636981.77))
        (proj_bounds (num (- 141198.153)) (num 141378.146) (num 426132.752) (num 802182.978)),
      proiettato (Epsg 31467) ''DHDN / 3-degree Gauss-Kruger zone 3'' ASSI_X_NORTH_Y_EAST ELLISSOIDE_BESSEL_1841
        (geo_bounds (num 7.5) (num 47.27) (num 10.51) (num 55.09))
        (proj_bounds (num 3386506.78) (num 5236730.598) (num 3614249.828) (num 6107658.749))
        (proj_bounds (num 2283517.332) (num 4802229.552) (num 4716482.668) (num 6639027.89)),
      proiettato (Epsg 32601) ''WGS 84 / UTM zone 1N'' ASSI_E_EAST_N_NORTH ELLISSOIDE_WGS_84
        (geo_bounds (num (- 180.0)) (num 0.0) (num (- 174.0)) (num 84.0))
        (proj_bounds (num 166021.443) (num (- 0.001)) (num 833978.557) (num 9329005.183))
        (proj_bounds (num (- 1188659.414)) (num (- 0.001)) (num 2188659.414) (num 9350760.976)),
      proiettato (Epsg 32602) ''WGS 84 / UTM zone 2N'' ASSI_E_EAST_N_NORTH ELLISSOIDE_WGS_84
        (geo_bounds (num (- 174.0)) (num 0.0) (num (- 168.0)) (num 84.0))
        (proj_bounds (num 166021.443) (num (- 0.001)) (num 833978.557) (num 9329005.183))
        (proj_bounds (num (- 1188659.414)) (num (- 0.001)) (num 2188659.414) (num 9350760.976)),
      proiettato (Epsg 32603) ''WGS 84 / UTM zone 3N'' ASSI_E_EAST_N_NORTH ELLISSOIDE_WGS_84
        (geo_bounds (num (- 168.0)) (num 0.0) (num (- 162.0)) (num 84.0))
        (proj_bounds (num 166021.443) (num (- 0.001)) (num 833978.557) (num 9329005.183))
        (proj_bounds (num (- 1188659.414)) (num (- 0.001)) (num 2188659.414) (num 9350760.976)),
      proiettato (Epsg 32604) ''WGS 84 / UTM zone 4N'' ASSI_E_EAST_N_NORTH ELLISSOIDE_WGS_84
        (geo_bounds (num (- 162.0)) (num 0.0) (num (- 156.0)) (num 84.0))
        (proj_bounds (num 166021.443) (num (- 0.001)) (num 833978.557) (num 9329005.183))
        (proj_bounds (num (- 1188659.414)) (num (- 0.001)) (num 2188659.414) (num 9350760.976)),
      proiettato (Epsg 32605) ''WGS 84 / UTM zone 5N'' ASSI_E_EAST_N_NORTH ELLISSOIDE_WGS_84
        (geo_bounds (num (- 156.0)) (num 0.0) (num (- 150.0)) (num 84.0))
        (proj_bounds (num 166021.443) (num (- 0.001)) (num 833978.557) (num 9329005.183))
        (proj_bounds (num (- 1188659.414)) (num (- 0.001)) (num 2188659.414) (num 9350760.976)),
      proiettato (Epsg 32606) ''WGS 84 / UTM zone 6N'' ASSI_E_EAST_N_NORTH ELLISSOIDE_WGS_84
        (geo_bounds (num (- 150.0)) (num 0.0) (num (- 144.0)) (num 84.0))
        (proj_bounds (num 166021.443) (num (- 0.001)) (num 833978.557) (num 9329005.183))
        (proj_bounds (num (- 1188659.414)) (num (- 0.001)) (num 2188659.414) (num 9350760.976)),
      proiettato (Epsg 32607) ''WGS 84 / UTM zone 7N'' ASSI_E_EAST_N_NORTH ELLISSOIDE_WGS_84
        (geo_bounds (num (- 144.0)) (num 0.0) (num (- 138.0)) (num 84.0))
        (proj_bounds (num 166021.443) (num (- 0.001)) (num 833978.557) (num 9329005.183))
        (proj_bounds (num (- 1188659.414)) (num (- 0.001)) (num 2188659.414) (num 9350760.976)),
      proiettato (Epsg 32608) ''WGS 84 / UTM zone 8N'' ASSI_E_EAST_N_NORTH ELLISSOIDE_WGS_84
        (geo_bounds (num (- 138.0)) (num 0.0) (num (- 132.0)) (num 84.0))
        (proj_bounds (num 166021.443) (num (- 0.001)) (num 833978.557) (num 9329005.183))
        (proj_bounds (num (- 1188659.414)) (num (- 0.001)) (num 2188659.414) (num 9350760.976)),
      proiettato (Epsg 32609) ''WGS 84 / UTM zone 9N'' ASSI_E_EAST_N_NORTH ELLISSOIDE_WGS_84
        (geo_bounds (num (- 132.0)) (num 0.0) (num (- 126.0)) (num 84.0))
        (proj_bounds (num 166021.443) (num (- 0.001)) (num 833978.557) (num 9329005.183))
        (proj_bounds (num (- 1188659.414)) (num (- 0.001)) (num 2188659.414) (num 9350760.976)),
      proiettato (Epsg 32610) ''WGS 84 / UTM zone 10N'' ASSI_E_EAST_N_NORTH ELLISSOIDE_WGS_84
        (geo_bounds (num (- 126.0)) (num 0.0) (num (- 120.0)) (num 84.0))
        (proj_bounds (num 166021.443) (num (- 0.001)) (num 833978.557) (num 9329005.183))
        (proj_bounds (num (- 1188659.414)) (num (- 0.001)) (num 2188659.414) (num 9350760.976))]"

definition EPSG_5 :: "crs_integrato list" where
  "EPSG_5 =
     [proiettato (Epsg 32611) ''WGS 84 / UTM zone 11N'' ASSI_E_EAST_N_NORTH ELLISSOIDE_WGS_84
        (geo_bounds (num (- 120.0)) (num 0.0) (num (- 114.0)) (num 84.0))
        (proj_bounds (num 166021.443) (num (- 0.001)) (num 833978.557) (num 9329005.183))
        (proj_bounds (num (- 1188659.414)) (num (- 0.001)) (num 2188659.414) (num 9350760.976)),
      proiettato (Epsg 32612) ''WGS 84 / UTM zone 12N'' ASSI_E_EAST_N_NORTH ELLISSOIDE_WGS_84
        (geo_bounds (num (- 114.0)) (num 0.0) (num (- 108.0)) (num 84.0))
        (proj_bounds (num 166021.443) (num (- 0.001)) (num 833978.557) (num 9329005.183))
        (proj_bounds (num (- 1188659.414)) (num (- 0.001)) (num 2188659.414) (num 9350760.976)),
      proiettato (Epsg 32613) ''WGS 84 / UTM zone 13N'' ASSI_E_EAST_N_NORTH ELLISSOIDE_WGS_84
        (geo_bounds (num (- 108.0)) (num 0.0) (num (- 102.0)) (num 84.0))
        (proj_bounds (num 166021.443) (num (- 0.001)) (num 833978.557) (num 9329005.183))
        (proj_bounds (num (- 1188659.414)) (num (- 0.001)) (num 2188659.414) (num 9350760.976)),
      proiettato (Epsg 32614) ''WGS 84 / UTM zone 14N'' ASSI_E_EAST_N_NORTH ELLISSOIDE_WGS_84
        (geo_bounds (num (- 102.0)) (num 0.0) (num (- 96.0)) (num 84.0))
        (proj_bounds (num 166021.443) (num (- 0.001)) (num 833978.557) (num 9329005.183))
        (proj_bounds (num (- 1188659.414)) (num (- 0.001)) (num 2188659.414) (num 9350760.976)),
      proiettato (Epsg 32615) ''WGS 84 / UTM zone 15N'' ASSI_E_EAST_N_NORTH ELLISSOIDE_WGS_84
        (geo_bounds (num (- 96.0)) (num 0.0) (num (- 90.0)) (num 84.0))
        (proj_bounds (num 166021.443) (num (- 0.001)) (num 833978.557) (num 9329005.183))
        (proj_bounds (num (- 1188659.414)) (num (- 0.001)) (num 2188659.414) (num 9350760.976)),
      proiettato (Epsg 32616) ''WGS 84 / UTM zone 16N'' ASSI_E_EAST_N_NORTH ELLISSOIDE_WGS_84
        (geo_bounds (num (- 90.0)) (num 0.0) (num (- 84.0)) (num 84.0))
        (proj_bounds (num 166021.443) (num (- 0.001)) (num 833978.557) (num 9329005.183))
        (proj_bounds (num (- 1188659.414)) (num (- 0.001)) (num 2188659.414) (num 9350760.976)),
      proiettato (Epsg 32617) ''WGS 84 / UTM zone 17N'' ASSI_E_EAST_N_NORTH ELLISSOIDE_WGS_84
        (geo_bounds (num (- 84.0)) (num 0.0) (num (- 78.0)) (num 84.0))
        (proj_bounds (num 166021.443) (num (- 0.001)) (num 833978.557) (num 9329005.183))
        (proj_bounds (num (- 1188659.414)) (num (- 0.001)) (num 2188659.414) (num 9350760.976)),
      proiettato (Epsg 32618) ''WGS 84 / UTM zone 18N'' ASSI_E_EAST_N_NORTH ELLISSOIDE_WGS_84
        (geo_bounds (num (- 78.0)) (num 0.0) (num (- 72.0)) (num 84.0))
        (proj_bounds (num 166021.443) (num (- 0.001)) (num 833978.557) (num 9329005.183))
        (proj_bounds (num (- 1188659.414)) (num (- 0.001)) (num 2188659.414) (num 9350760.976)),
      proiettato (Epsg 32619) ''WGS 84 / UTM zone 19N'' ASSI_E_EAST_N_NORTH ELLISSOIDE_WGS_84
        (geo_bounds (num (- 72.0)) (num 0.0) (num (- 66.0)) (num 84.0))
        (proj_bounds (num 166021.443) (num (- 0.001)) (num 833978.557) (num 9329005.183))
        (proj_bounds (num (- 1188659.414)) (num (- 0.001)) (num 2188659.414) (num 9350760.976)),
      proiettato (Epsg 32620) ''WGS 84 / UTM zone 20N'' ASSI_E_EAST_N_NORTH ELLISSOIDE_WGS_84
        (geo_bounds (num (- 66.0)) (num 0.0) (num (- 60.0)) (num 84.0))
        (proj_bounds (num 166021.443) (num (- 0.001)) (num 833978.557) (num 9329005.183))
        (proj_bounds (num (- 1188659.414)) (num (- 0.001)) (num 2188659.414) (num 9350760.976)),
      proiettato (Epsg 32621) ''WGS 84 / UTM zone 21N'' ASSI_E_EAST_N_NORTH ELLISSOIDE_WGS_84
        (geo_bounds (num (- 60.0)) (num 0.0) (num (- 54.0)) (num 84.0))
        (proj_bounds (num 166021.443) (num (- 0.001)) (num 833978.557) (num 9329005.183))
        (proj_bounds (num (- 1188659.414)) (num (- 0.001)) (num 2188659.414) (num 9350760.976)),
      proiettato (Epsg 32622) ''WGS 84 / UTM zone 22N'' ASSI_E_EAST_N_NORTH ELLISSOIDE_WGS_84
        (geo_bounds (num (- 54.0)) (num 0.0) (num (- 48.0)) (num 84.0))
        (proj_bounds (num 166021.443) (num (- 0.001)) (num 833978.557) (num 9329005.183))
        (proj_bounds (num (- 1188659.414)) (num (- 0.001)) (num 2188659.414) (num 9350760.976)),
      proiettato (Epsg 32623) ''WGS 84 / UTM zone 23N'' ASSI_E_EAST_N_NORTH ELLISSOIDE_WGS_84
        (geo_bounds (num (- 48.0)) (num 0.0) (num (- 42.0)) (num 84.0))
        (proj_bounds (num 166021.443) (num (- 0.001)) (num 833978.557) (num 9329005.183))
        (proj_bounds (num (- 1188659.414)) (num (- 0.001)) (num 2188659.414) (num 9350760.976)),
      proiettato (Epsg 32624) ''WGS 84 / UTM zone 24N'' ASSI_E_EAST_N_NORTH ELLISSOIDE_WGS_84
        (geo_bounds (num (- 42.0)) (num 0.0) (num (- 36.0)) (num 84.0))
        (proj_bounds (num 166021.443) (num (- 0.001)) (num 833978.557) (num 9329005.183))
        (proj_bounds (num (- 1188659.414)) (num (- 0.001)) (num 2188659.414) (num 9350760.976))]"

definition EPSG_6 :: "crs_integrato list" where
  "EPSG_6 =
     [proiettato (Epsg 32625) ''WGS 84 / UTM zone 25N'' ASSI_E_EAST_N_NORTH ELLISSOIDE_WGS_84
        (geo_bounds (num (- 36.0)) (num 0.0) (num (- 30.0)) (num 84.0))
        (proj_bounds (num 166021.443) (num (- 0.001)) (num 833978.557) (num 9329005.183))
        (proj_bounds (num (- 1188659.414)) (num (- 0.001)) (num 2188659.414) (num 9350760.976)),
      proiettato (Epsg 32626) ''WGS 84 / UTM zone 26N'' ASSI_E_EAST_N_NORTH ELLISSOIDE_WGS_84
        (geo_bounds (num (- 30.0)) (num 0.0) (num (- 24.0)) (num 84.0))
        (proj_bounds (num 166021.443) (num (- 0.001)) (num 833978.557) (num 9329005.183))
        (proj_bounds (num (- 1188659.414)) (num (- 0.001)) (num 2188659.414) (num 9350760.976)),
      proiettato (Epsg 32627) ''WGS 84 / UTM zone 27N'' ASSI_E_EAST_N_NORTH ELLISSOIDE_WGS_84
        (geo_bounds (num (- 24.0)) (num 0.0) (num (- 18.0)) (num 84.0))
        (proj_bounds (num 166021.443) (num (- 0.001)) (num 833978.557) (num 9329005.183))
        (proj_bounds (num (- 1188659.414)) (num (- 0.001)) (num 2188659.414) (num 9350760.976)),
      proiettato (Epsg 32628) ''WGS 84 / UTM zone 28N'' ASSI_E_EAST_N_NORTH ELLISSOIDE_WGS_84
        (geo_bounds (num (- 18.0)) (num 0.0) (num (- 12.0)) (num 84.0))
        (proj_bounds (num 166021.443) (num (- 0.001)) (num 833978.557) (num 9329005.183))
        (proj_bounds (num (- 1188659.414)) (num (- 0.001)) (num 2188659.414) (num 9350760.976)),
      proiettato (Epsg 32629) ''WGS 84 / UTM zone 29N'' ASSI_E_EAST_N_NORTH ELLISSOIDE_WGS_84
        (geo_bounds (num (- 12.01)) (num 0.0) (num (- 6.0)) (num 84.01))
        (proj_bounds (num 164907.15) (num (- 0.001)) (num 833978.557) (num 9330126.131))
        (proj_bounds (num (- 1188659.414)) (num (- 0.001)) (num 2188659.414) (num 9351840.095)),
      proiettato (Epsg 32630) ''WGS 84 / UTM zone 30N'' ASSI_E_EAST_N_NORTH ELLISSOIDE_WGS_84
        (geo_bounds (num (- 6.0)) (num 0.0) (num 0.0) (num 84.0))
        (proj_bounds (num 166021.443) (num (- 0.001)) (num 833978.557) (num 9329005.183))
        (proj_bounds (num (- 1188659.414)) (num (- 0.001)) (num 2188659.414) (num 9350760.976)),
      proiettato (Epsg 32631) ''WGS 84 / UTM zone 31N'' ASSI_E_EAST_N_NORTH ELLISSOIDE_WGS_84
        (geo_bounds (num 0.0) (num 0.0) (num 6.0) (num 84.0))
        (proj_bounds (num 166021.443) (num (- 0.001)) (num 833978.557) (num 9329005.183))
        (proj_bounds (num (- 1188659.414)) (num (- 0.001)) (num 2188659.414) (num 9350760.976)),
      proiettato (Epsg 32632) ''WGS 84 / UTM zone 32N'' ASSI_E_EAST_N_NORTH ELLISSOIDE_WGS_84
        (geo_bounds (num 6.0) (num 0.0) (num 12.0) (num 84.0))
        (proj_bounds (num 166021.443) (num (- 0.001)) (num 833978.557) (num 9329005.183))
        (proj_bounds (num (- 1188659.414)) (num (- 0.001)) (num 2188659.414) (num 9350760.976)),
      proiettato (Epsg 32633) ''WGS 84 / UTM zone 33N'' ASSI_E_EAST_N_NORTH ELLISSOIDE_WGS_84
        (geo_bounds (num 12.0) (num 0.0) (num 18.0) (num 84.0))
        (proj_bounds (num 166021.443) (num (- 0.001)) (num 833978.557) (num 9329005.183))
        (proj_bounds (num (- 1188659.414)) (num (- 0.001)) (num 2188659.414) (num 9350760.976)),
      proiettato (Epsg 32634) ''WGS 84 / UTM zone 34N'' ASSI_E_EAST_N_NORTH ELLISSOIDE_WGS_84
        (geo_bounds (num 18.0) (num 0.0) (num 24.0) (num 84.0))
        (proj_bounds (num 166021.443) (num (- 0.001)) (num 833978.557) (num 9329005.183))
        (proj_bounds (num (- 1188659.414)) (num (- 0.001)) (num 2188659.414) (num 9350760.976)),
      proiettato (Epsg 32635) ''WGS 84 / UTM zone 35N'' ASSI_E_EAST_N_NORTH ELLISSOIDE_WGS_84
        (geo_bounds (num 24.0) (num 0.0) (num 30.0) (num 84.0))
        (proj_bounds (num 166021.443) (num (- 0.001)) (num 833978.557) (num 9329005.183))
        (proj_bounds (num (- 1188659.414)) (num (- 0.001)) (num 2188659.414) (num 9350760.976)),
      proiettato (Epsg 32636) ''WGS 84 / UTM zone 36N'' ASSI_E_EAST_N_NORTH ELLISSOIDE_WGS_84
        (geo_bounds (num 30.0) (num 0.0) (num 36.0) (num 84.0))
        (proj_bounds (num 166021.443) (num (- 0.001)) (num 833978.557) (num 9329005.183))
        (proj_bounds (num (- 1188659.414)) (num (- 0.001)) (num 2188659.414) (num 9350760.976)),
      proiettato (Epsg 32637) ''WGS 84 / UTM zone 37N'' ASSI_E_EAST_N_NORTH ELLISSOIDE_WGS_84
        (geo_bounds (num 36.0) (num 0.0) (num 42.0) (num 84.0))
        (proj_bounds (num 166021.443) (num (- 0.001)) (num 833978.557) (num 9329005.183))
        (proj_bounds (num (- 1188659.414)) (num (- 0.001)) (num 2188659.414) (num 9350760.976)),
      proiettato (Epsg 32638) ''WGS 84 / UTM zone 38N'' ASSI_E_EAST_N_NORTH ELLISSOIDE_WGS_84
        (geo_bounds (num 42.0) (num 0.0) (num 48.0) (num 84.0))
        (proj_bounds (num 166021.443) (num (- 0.001)) (num 833978.557) (num 9329005.183))
        (proj_bounds (num (- 1188659.414)) (num (- 0.001)) (num 2188659.414) (num 9350760.976))]"

definition EPSG_7 :: "crs_integrato list" where
  "EPSG_7 =
     [proiettato (Epsg 32639) ''WGS 84 / UTM zone 39N'' ASSI_E_EAST_N_NORTH ELLISSOIDE_WGS_84
        (geo_bounds (num 48.0) (num 0.0) (num 54.0) (num 84.0))
        (proj_bounds (num 166021.443) (num (- 0.001)) (num 833978.557) (num 9329005.183))
        (proj_bounds (num (- 1188659.414)) (num (- 0.001)) (num 2188659.414) (num 9350760.976)),
      proiettato (Epsg 32640) ''WGS 84 / UTM zone 40N'' ASSI_E_EAST_N_NORTH ELLISSOIDE_WGS_84
        (geo_bounds (num 54.0) (num 0.0) (num 60.0) (num 84.0))
        (proj_bounds (num 166021.443) (num (- 0.001)) (num 833978.557) (num 9329005.183))
        (proj_bounds (num (- 1188659.414)) (num (- 0.001)) (num 2188659.414) (num 9350760.976)),
      proiettato (Epsg 32641) ''WGS 84 / UTM zone 41N'' ASSI_E_EAST_N_NORTH ELLISSOIDE_WGS_84
        (geo_bounds (num 60.0) (num 0.0) (num 66.0) (num 84.0))
        (proj_bounds (num 166021.443) (num (- 0.001)) (num 833978.557) (num 9329005.183))
        (proj_bounds (num (- 1188659.414)) (num (- 0.001)) (num 2188659.414) (num 9350760.976)),
      proiettato (Epsg 32642) ''WGS 84 / UTM zone 42N'' ASSI_E_EAST_N_NORTH ELLISSOIDE_WGS_84
        (geo_bounds (num 66.0) (num 0.0) (num 72.0) (num 84.0))
        (proj_bounds (num 166021.443) (num (- 0.001)) (num 833978.557) (num 9329005.183))
        (proj_bounds (num (- 1188659.414)) (num (- 0.001)) (num 2188659.414) (num 9350760.976)),
      proiettato (Epsg 32643) ''WGS 84 / UTM zone 43N'' ASSI_E_EAST_N_NORTH ELLISSOIDE_WGS_84
        (geo_bounds (num 72.0) (num 0.0) (num 78.0) (num 84.0))
        (proj_bounds (num 166021.443) (num (- 0.001)) (num 833978.557) (num 9329005.183))
        (proj_bounds (num (- 1188659.414)) (num (- 0.001)) (num 2188659.414) (num 9350760.976)),
      proiettato (Epsg 32644) ''WGS 84 / UTM zone 44N'' ASSI_E_EAST_N_NORTH ELLISSOIDE_WGS_84
        (geo_bounds (num 78.0) (num 0.0) (num 84.0) (num 84.0))
        (proj_bounds (num 166021.443) (num (- 0.001)) (num 833978.557) (num 9329005.183))
        (proj_bounds (num (- 1188659.414)) (num (- 0.001)) (num 2188659.414) (num 9350760.976)),
      proiettato (Epsg 32645) ''WGS 84 / UTM zone 45N'' ASSI_E_EAST_N_NORTH ELLISSOIDE_WGS_84
        (geo_bounds (num 84.0) (num 0.0) (num 90.0) (num 84.0))
        (proj_bounds (num 166021.443) (num (- 0.001)) (num 833978.557) (num 9329005.183))
        (proj_bounds (num (- 1188659.414)) (num (- 0.001)) (num 2188659.414) (num 9350760.976)),
      proiettato (Epsg 32646) ''WGS 84 / UTM zone 46N'' ASSI_E_EAST_N_NORTH ELLISSOIDE_WGS_84
        (geo_bounds (num 90.0) (num 0.0) (num 96.0) (num 84.0))
        (proj_bounds (num 166021.443) (num (- 0.001)) (num 833978.557) (num 9329005.183))
        (proj_bounds (num (- 1188659.414)) (num (- 0.001)) (num 2188659.414) (num 9350760.976)),
      proiettato (Epsg 32647) ''WGS 84 / UTM zone 47N'' ASSI_E_EAST_N_NORTH ELLISSOIDE_WGS_84
        (geo_bounds (num 96.0) (num 0.0) (num 102.0) (num 84.0))
        (proj_bounds (num 166021.443) (num (- 0.001)) (num 833978.557) (num 9329005.183))
        (proj_bounds (num (- 1188659.414)) (num (- 0.001)) (num 2188659.414) (num 9350760.976)),
      proiettato (Epsg 32648) ''WGS 84 / UTM zone 48N'' ASSI_E_EAST_N_NORTH ELLISSOIDE_WGS_84
        (geo_bounds (num 102.0) (num 0.0) (num 108.0) (num 84.0))
        (proj_bounds (num 166021.443) (num (- 0.001)) (num 833978.557) (num 9329005.183))
        (proj_bounds (num (- 1188659.414)) (num (- 0.001)) (num 2188659.414) (num 9350760.976)),
      proiettato (Epsg 32649) ''WGS 84 / UTM zone 49N'' ASSI_E_EAST_N_NORTH ELLISSOIDE_WGS_84
        (geo_bounds (num 108.0) (num 0.0) (num 114.0) (num 84.0))
        (proj_bounds (num 166021.443) (num (- 0.001)) (num 833978.557) (num 9329005.183))
        (proj_bounds (num (- 1188659.414)) (num (- 0.001)) (num 2188659.414) (num 9350760.976)),
      proiettato (Epsg 32650) ''WGS 84 / UTM zone 50N'' ASSI_E_EAST_N_NORTH ELLISSOIDE_WGS_84
        (geo_bounds (num 114.0) (num 0.0) (num 120.0) (num 84.0))
        (proj_bounds (num 166021.443) (num (- 0.001)) (num 833978.557) (num 9329005.183))
        (proj_bounds (num (- 1188659.414)) (num (- 0.001)) (num 2188659.414) (num 9350760.976)),
      proiettato (Epsg 32651) ''WGS 84 / UTM zone 51N'' ASSI_E_EAST_N_NORTH ELLISSOIDE_WGS_84
        (geo_bounds (num 120.0) (num 0.0) (num 126.0) (num 84.0))
        (proj_bounds (num 166021.443) (num (- 0.001)) (num 833978.557) (num 9329005.183))
        (proj_bounds (num (- 1188659.414)) (num (- 0.001)) (num 2188659.414) (num 9350760.976)),
      proiettato (Epsg 32652) ''WGS 84 / UTM zone 52N'' ASSI_E_EAST_N_NORTH ELLISSOIDE_WGS_84
        (geo_bounds (num 126.0) (num 0.0) (num 132.0) (num 84.0))
        (proj_bounds (num 166021.443) (num (- 0.001)) (num 833978.557) (num 9329005.183))
        (proj_bounds (num (- 1188659.414)) (num (- 0.001)) (num 2188659.414) (num 9350760.976))]"

definition EPSG_8 :: "crs_integrato list" where
  "EPSG_8 =
     [proiettato (Epsg 32653) ''WGS 84 / UTM zone 53N'' ASSI_E_EAST_N_NORTH ELLISSOIDE_WGS_84
        (geo_bounds (num 132.0) (num 0.0) (num 138.0) (num 84.0))
        (proj_bounds (num 166021.443) (num (- 0.001)) (num 833978.557) (num 9329005.183))
        (proj_bounds (num (- 1188659.414)) (num (- 0.001)) (num 2188659.414) (num 9350760.976)),
      proiettato (Epsg 32654) ''WGS 84 / UTM zone 54N'' ASSI_E_EAST_N_NORTH ELLISSOIDE_WGS_84
        (geo_bounds (num 138.0) (num 0.0) (num 144.0) (num 84.0))
        (proj_bounds (num 166021.443) (num (- 0.001)) (num 833978.557) (num 9329005.183))
        (proj_bounds (num (- 1188659.414)) (num (- 0.001)) (num 2188659.414) (num 9350760.976)),
      proiettato (Epsg 32655) ''WGS 84 / UTM zone 55N'' ASSI_E_EAST_N_NORTH ELLISSOIDE_WGS_84
        (geo_bounds (num 144.0) (num 0.0) (num 150.0) (num 84.0))
        (proj_bounds (num 166021.443) (num (- 0.001)) (num 833978.557) (num 9329005.183))
        (proj_bounds (num (- 1188659.414)) (num (- 0.001)) (num 2188659.414) (num 9350760.976)),
      proiettato (Epsg 32656) ''WGS 84 / UTM zone 56N'' ASSI_E_EAST_N_NORTH ELLISSOIDE_WGS_84
        (geo_bounds (num 150.0) (num 0.0) (num 156.0) (num 84.0))
        (proj_bounds (num 166021.443) (num (- 0.001)) (num 833978.557) (num 9329005.183))
        (proj_bounds (num (- 1188659.414)) (num (- 0.001)) (num 2188659.414) (num 9350760.976)),
      proiettato (Epsg 32657) ''WGS 84 / UTM zone 57N'' ASSI_E_EAST_N_NORTH ELLISSOIDE_WGS_84
        (geo_bounds (num 156.0) (num 0.0) (num 162.0) (num 84.0))
        (proj_bounds (num 166021.443) (num (- 0.001)) (num 833978.557) (num 9329005.183))
        (proj_bounds (num (- 1188659.414)) (num (- 0.001)) (num 2188659.414) (num 9350760.976)),
      proiettato (Epsg 32658) ''WGS 84 / UTM zone 58N'' ASSI_E_EAST_N_NORTH ELLISSOIDE_WGS_84
        (geo_bounds (num 162.0) (num 0.0) (num 168.0) (num 84.0))
        (proj_bounds (num 166021.443) (num (- 0.001)) (num 833978.557) (num 9329005.183))
        (proj_bounds (num (- 1188659.414)) (num (- 0.001)) (num 2188659.414) (num 9350760.976)),
      proiettato (Epsg 32659) ''WGS 84 / UTM zone 59N'' ASSI_E_EAST_N_NORTH ELLISSOIDE_WGS_84
        (geo_bounds (num 168.0) (num 0.0) (num 174.0) (num 84.0))
        (proj_bounds (num 166021.443) (num (- 0.001)) (num 833978.557) (num 9329005.183))
        (proj_bounds (num (- 1188659.414)) (num (- 0.001)) (num 2188659.414) (num 9350760.976)),
      proiettato (Epsg 32660) ''WGS 84 / UTM zone 60N'' ASSI_E_EAST_N_NORTH ELLISSOIDE_WGS_84
        (geo_bounds (num 174.0) (num 0.0) (num 180.0) (num 84.0))
        (proj_bounds (num 166021.443) (num (- 0.001)) (num 833978.557) (num 9329005.183))
        (proj_bounds (num (- 1188659.414)) (num (- 0.001)) (num 2188659.414) (num 9350760.976)),
      proiettato (Epsg 32701) ''WGS 84 / UTM zone 1S'' ASSI_E_EAST_N_NORTH ELLISSOIDE_WGS_84
        (geo_bounds (num (- 180.0)) (num (- 80.0)) (num (- 174.0)) (num 0.0))
        (proj_bounds (num 166021.443) (num 1116915.044) (num 833978.557) (num 10000000.001))
        (proj_bounds (num (- 1188659.414)) (num 1081104.36) (num 2188659.414) (num 10000000.001)),
      proiettato (Epsg 32702) ''WGS 84 / UTM zone 2S'' ASSI_E_EAST_N_NORTH ELLISSOIDE_WGS_84
        (geo_bounds (num (- 174.0)) (num (- 80.0)) (num (- 168.0)) (num 0.0))
        (proj_bounds (num 166021.443) (num 1116915.044) (num 833978.557) (num 10000000.001))
        (proj_bounds (num (- 1188659.414)) (num 1081104.36) (num 2188659.414) (num 10000000.001)),
      proiettato (Epsg 32703) ''WGS 84 / UTM zone 3S'' ASSI_E_EAST_N_NORTH ELLISSOIDE_WGS_84
        (geo_bounds (num (- 168.0)) (num (- 80.0)) (num (- 162.0)) (num 0.0))
        (proj_bounds (num 166021.443) (num 1116915.044) (num 833978.557) (num 10000000.001))
        (proj_bounds (num (- 1188659.414)) (num 1081104.36) (num 2188659.414) (num 10000000.001)),
      proiettato (Epsg 32704) ''WGS 84 / UTM zone 4S'' ASSI_E_EAST_N_NORTH ELLISSOIDE_WGS_84
        (geo_bounds (num (- 162.0)) (num (- 80.0)) (num (- 156.0)) (num 0.0))
        (proj_bounds (num 166021.443) (num 1116915.044) (num 833978.557) (num 10000000.001))
        (proj_bounds (num (- 1188659.414)) (num 1081104.36) (num 2188659.414) (num 10000000.001)),
      proiettato (Epsg 32705) ''WGS 84 / UTM zone 5S'' ASSI_E_EAST_N_NORTH ELLISSOIDE_WGS_84
        (geo_bounds (num (- 156.0)) (num (- 80.0)) (num (- 150.0)) (num 0.0))
        (proj_bounds (num 166021.443) (num 1116915.044) (num 833978.557) (num 10000000.001))
        (proj_bounds (num (- 1188659.414)) (num 1081104.36) (num 2188659.414) (num 10000000.001)),
      proiettato (Epsg 32706) ''WGS 84 / UTM zone 6S'' ASSI_E_EAST_N_NORTH ELLISSOIDE_WGS_84
        (geo_bounds (num (- 150.0)) (num (- 80.0)) (num (- 144.0)) (num 0.0))
        (proj_bounds (num 166021.443) (num 1116915.044) (num 833978.557) (num 10000000.001))
        (proj_bounds (num (- 1188659.414)) (num 1081104.36) (num 2188659.414) (num 10000000.001))]"

definition EPSG_9 :: "crs_integrato list" where
  "EPSG_9 =
     [proiettato (Epsg 32707) ''WGS 84 / UTM zone 7S'' ASSI_E_EAST_N_NORTH ELLISSOIDE_WGS_84
        (geo_bounds (num (- 144.0)) (num (- 80.0)) (num (- 138.0)) (num 0.0))
        (proj_bounds (num 166021.443) (num 1116915.044) (num 833978.557) (num 10000000.001))
        (proj_bounds (num (- 1188659.414)) (num 1081104.36) (num 2188659.414) (num 10000000.001)),
      proiettato (Epsg 32708) ''WGS 84 / UTM zone 8S'' ASSI_E_EAST_N_NORTH ELLISSOIDE_WGS_84
        (geo_bounds (num (- 138.0)) (num (- 80.0)) (num (- 132.0)) (num 0.0))
        (proj_bounds (num 166021.443) (num 1116915.044) (num 833978.557) (num 10000000.001))
        (proj_bounds (num (- 1188659.414)) (num 1081104.36) (num 2188659.414) (num 10000000.001)),
      proiettato (Epsg 32709) ''WGS 84 / UTM zone 9S'' ASSI_E_EAST_N_NORTH ELLISSOIDE_WGS_84
        (geo_bounds (num (- 132.0)) (num (- 80.0)) (num (- 126.0)) (num 0.0))
        (proj_bounds (num 166021.443) (num 1116915.044) (num 833978.557) (num 10000000.001))
        (proj_bounds (num (- 1188659.414)) (num 1081104.36) (num 2188659.414) (num 10000000.001)),
      proiettato (Epsg 32710) ''WGS 84 / UTM zone 10S'' ASSI_E_EAST_N_NORTH ELLISSOIDE_WGS_84
        (geo_bounds (num (- 126.0)) (num (- 80.0)) (num (- 120.0)) (num 0.0))
        (proj_bounds (num 166021.443) (num 1116915.044) (num 833978.557) (num 10000000.001))
        (proj_bounds (num (- 1188659.414)) (num 1081104.36) (num 2188659.414) (num 10000000.001)),
      proiettato (Epsg 32711) ''WGS 84 / UTM zone 11S'' ASSI_E_EAST_N_NORTH ELLISSOIDE_WGS_84
        (geo_bounds (num (- 120.0)) (num (- 80.0)) (num (- 114.0)) (num 0.0))
        (proj_bounds (num 166021.443) (num 1116915.044) (num 833978.557) (num 10000000.001))
        (proj_bounds (num (- 1188659.414)) (num 1081104.36) (num 2188659.414) (num 10000000.001)),
      proiettato (Epsg 32712) ''WGS 84 / UTM zone 12S'' ASSI_E_EAST_N_NORTH ELLISSOIDE_WGS_84
        (geo_bounds (num (- 114.0)) (num (- 80.0)) (num (- 108.0)) (num 0.0))
        (proj_bounds (num 166021.443) (num 1116915.044) (num 833978.557) (num 10000000.001))
        (proj_bounds (num (- 1188659.414)) (num 1081104.36) (num 2188659.414) (num 10000000.001)),
      proiettato (Epsg 32713) ''WGS 84 / UTM zone 13S'' ASSI_E_EAST_N_NORTH ELLISSOIDE_WGS_84
        (geo_bounds (num (- 108.0)) (num (- 80.0)) (num (- 102.0)) (num 0.0))
        (proj_bounds (num 166021.443) (num 1116915.044) (num 833978.557) (num 10000000.001))
        (proj_bounds (num (- 1188659.414)) (num 1081104.36) (num 2188659.414) (num 10000000.001)),
      proiettato (Epsg 32714) ''WGS 84 / UTM zone 14S'' ASSI_E_EAST_N_NORTH ELLISSOIDE_WGS_84
        (geo_bounds (num (- 102.0)) (num (- 80.0)) (num (- 96.0)) (num 0.0))
        (proj_bounds (num 166021.443) (num 1116915.044) (num 833978.557) (num 10000000.001))
        (proj_bounds (num (- 1188659.414)) (num 1081104.36) (num 2188659.414) (num 10000000.001)),
      proiettato (Epsg 32715) ''WGS 84 / UTM zone 15S'' ASSI_E_EAST_N_NORTH ELLISSOIDE_WGS_84
        (geo_bounds (num (- 96.0)) (num (- 80.0)) (num (- 90.0)) (num 0.0))
        (proj_bounds (num 166021.443) (num 1116915.044) (num 833978.557) (num 10000000.001))
        (proj_bounds (num (- 1188659.414)) (num 1081104.36) (num 2188659.414) (num 10000000.001)),
      proiettato (Epsg 32716) ''WGS 84 / UTM zone 16S'' ASSI_E_EAST_N_NORTH ELLISSOIDE_WGS_84
        (geo_bounds (num (- 90.0)) (num (- 80.0)) (num (- 84.0)) (num 0.0))
        (proj_bounds (num 166021.443) (num 1116915.044) (num 833978.557) (num 10000000.001))
        (proj_bounds (num (- 1188659.414)) (num 1081104.36) (num 2188659.414) (num 10000000.001)),
      proiettato (Epsg 32717) ''WGS 84 / UTM zone 17S'' ASSI_E_EAST_N_NORTH ELLISSOIDE_WGS_84
        (geo_bounds (num (- 84.0)) (num (- 80.0)) (num (- 78.0)) (num 0.0))
        (proj_bounds (num 166021.443) (num 1116915.044) (num 833978.557) (num 10000000.001))
        (proj_bounds (num (- 1188659.414)) (num 1081104.36) (num 2188659.414) (num 10000000.001)),
      proiettato (Epsg 32718) ''WGS 84 / UTM zone 18S'' ASSI_E_EAST_N_NORTH ELLISSOIDE_WGS_84
        (geo_bounds (num (- 78.0)) (num (- 80.0)) (num (- 72.0)) (num 0.0))
        (proj_bounds (num 166021.443) (num 1116915.044) (num 833978.557) (num 10000000.001))
        (proj_bounds (num (- 1188659.414)) (num 1081104.36) (num 2188659.414) (num 10000000.001)),
      proiettato (Epsg 32719) ''WGS 84 / UTM zone 19S'' ASSI_E_EAST_N_NORTH ELLISSOIDE_WGS_84
        (geo_bounds (num (- 72.0)) (num (- 80.0)) (num (- 66.0)) (num 0.0))
        (proj_bounds (num 166021.443) (num 1116915.044) (num 833978.557) (num 10000000.001))
        (proj_bounds (num (- 1188659.414)) (num 1081104.36) (num 2188659.414) (num 10000000.001)),
      proiettato (Epsg 32720) ''WGS 84 / UTM zone 20S'' ASSI_E_EAST_N_NORTH ELLISSOIDE_WGS_84
        (geo_bounds (num (- 66.0)) (num (- 80.0)) (num (- 60.0)) (num 0.0))
        (proj_bounds (num 166021.443) (num 1116915.044) (num 833978.557) (num 10000000.001))
        (proj_bounds (num (- 1188659.414)) (num 1081104.36) (num 2188659.414) (num 10000000.001))]"

definition EPSG_10 :: "crs_integrato list" where
  "EPSG_10 =
     [proiettato (Epsg 32721) ''WGS 84 / UTM zone 21S'' ASSI_E_EAST_N_NORTH ELLISSOIDE_WGS_84
        (geo_bounds (num (- 60.0)) (num (- 80.0)) (num (- 54.0)) (num 0.0))
        (proj_bounds (num 166021.443) (num 1116915.044) (num 833978.557) (num 10000000.001))
        (proj_bounds (num (- 1188659.414)) (num 1081104.36) (num 2188659.414) (num 10000000.001)),
      proiettato (Epsg 32722) ''WGS 84 / UTM zone 22S'' ASSI_E_EAST_N_NORTH ELLISSOIDE_WGS_84
        (geo_bounds (num (- 54.0)) (num (- 80.0)) (num (- 48.0)) (num 0.0))
        (proj_bounds (num 166021.443) (num 1116915.044) (num 833978.557) (num 10000000.001))
        (proj_bounds (num (- 1188659.414)) (num 1081104.36) (num 2188659.414) (num 10000000.001)),
      proiettato (Epsg 32723) ''WGS 84 / UTM zone 23S'' ASSI_E_EAST_N_NORTH ELLISSOIDE_WGS_84
        (geo_bounds (num (- 48.0)) (num (- 80.0)) (num (- 42.0)) (num 0.0))
        (proj_bounds (num 166021.443) (num 1116915.044) (num 833978.557) (num 10000000.001))
        (proj_bounds (num (- 1188659.414)) (num 1081104.36) (num 2188659.414) (num 10000000.001)),
      proiettato (Epsg 32724) ''WGS 84 / UTM zone 24S'' ASSI_E_EAST_N_NORTH ELLISSOIDE_WGS_84
        (geo_bounds (num (- 42.0)) (num (- 80.0)) (num (- 36.0)) (num 0.0))
        (proj_bounds (num 166021.443) (num 1116915.044) (num 833978.557) (num 10000000.001))
        (proj_bounds (num (- 1188659.414)) (num 1081104.36) (num 2188659.414) (num 10000000.001)),
      proiettato (Epsg 32725) ''WGS 84 / UTM zone 25S'' ASSI_E_EAST_N_NORTH ELLISSOIDE_WGS_84
        (geo_bounds (num (- 36.0)) (num (- 80.0)) (num (- 30.0)) (num 0.0))
        (proj_bounds (num 166021.443) (num 1116915.044) (num 833978.557) (num 10000000.001))
        (proj_bounds (num (- 1188659.414)) (num 1081104.36) (num 2188659.414) (num 10000000.001)),
      proiettato (Epsg 32726) ''WGS 84 / UTM zone 26S'' ASSI_E_EAST_N_NORTH ELLISSOIDE_WGS_84
        (geo_bounds (num (- 30.0)) (num (- 80.0)) (num (- 24.0)) (num 0.0))
        (proj_bounds (num 166021.443) (num 1116915.044) (num 833978.557) (num 10000000.001))
        (proj_bounds (num (- 1188659.414)) (num 1081104.36) (num 2188659.414) (num 10000000.001)),
      proiettato (Epsg 32727) ''WGS 84 / UTM zone 27S'' ASSI_E_EAST_N_NORTH ELLISSOIDE_WGS_84
        (geo_bounds (num (- 24.0)) (num (- 80.0)) (num (- 18.0)) (num 0.0))
        (proj_bounds (num 166021.443) (num 1116915.044) (num 833978.557) (num 10000000.001))
        (proj_bounds (num (- 1188659.414)) (num 1081104.36) (num 2188659.414) (num 10000000.001)),
      proiettato (Epsg 32728) ''WGS 84 / UTM zone 28S'' ASSI_E_EAST_N_NORTH ELLISSOIDE_WGS_84
        (geo_bounds (num (- 18.0)) (num (- 80.0)) (num (- 12.0)) (num 0.0))
        (proj_bounds (num 166021.443) (num 1116915.044) (num 833978.557) (num 10000000.001))
        (proj_bounds (num (- 1188659.414)) (num 1081104.36) (num 2188659.414) (num 10000000.001)),
      proiettato (Epsg 32729) ''WGS 84 / UTM zone 29S'' ASSI_E_EAST_N_NORTH ELLISSOIDE_WGS_84
        (geo_bounds (num (- 12.0)) (num (- 80.0)) (num (- 6.0)) (num 0.0))
        (proj_bounds (num 166021.443) (num 1116915.044) (num 833978.557) (num 10000000.001))
        (proj_bounds (num (- 1188659.414)) (num 1081104.36) (num 2188659.414) (num 10000000.001)),
      proiettato (Epsg 32730) ''WGS 84 / UTM zone 30S'' ASSI_E_EAST_N_NORTH ELLISSOIDE_WGS_84
        (geo_bounds (num (- 6.0)) (num (- 80.0)) (num 0.0) (num 0.0))
        (proj_bounds (num 166021.443) (num 1116915.044) (num 833978.557) (num 10000000.001))
        (proj_bounds (num (- 1188659.414)) (num 1081104.36) (num 2188659.414) (num 10000000.001)),
      proiettato (Epsg 32731) ''WGS 84 / UTM zone 31S'' ASSI_E_EAST_N_NORTH ELLISSOIDE_WGS_84
        (geo_bounds (num 0.0) (num (- 80.0)) (num 6.0) (num 0.0))
        (proj_bounds (num 166021.443) (num 1116915.044) (num 833978.557) (num 10000000.001))
        (proj_bounds (num (- 1188659.414)) (num 1081104.36) (num 2188659.414) (num 10000000.001)),
      proiettato (Epsg 32732) ''WGS 84 / UTM zone 32S'' ASSI_E_EAST_N_NORTH ELLISSOIDE_WGS_84
        (geo_bounds (num 6.0) (num (- 80.0)) (num 12.0) (num 0.0))
        (proj_bounds (num 166021.443) (num 1116915.044) (num 833978.557) (num 10000000.001))
        (proj_bounds (num (- 1188659.414)) (num 1081104.36) (num 2188659.414) (num 10000000.001)),
      proiettato (Epsg 32733) ''WGS 84 / UTM zone 33S'' ASSI_E_EAST_N_NORTH ELLISSOIDE_WGS_84
        (geo_bounds (num 12.0) (num (- 80.0)) (num 18.0) (num 0.0))
        (proj_bounds (num 166021.443) (num 1116915.044) (num 833978.557) (num 10000000.001))
        (proj_bounds (num (- 1188659.414)) (num 1081104.36) (num 2188659.414) (num 10000000.001)),
      proiettato (Epsg 32734) ''WGS 84 / UTM zone 34S'' ASSI_E_EAST_N_NORTH ELLISSOIDE_WGS_84
        (geo_bounds (num 18.0) (num (- 80.0)) (num 24.0) (num 0.0))
        (proj_bounds (num 166021.443) (num 1116915.044) (num 833978.557) (num 10000000.001))
        (proj_bounds (num (- 1188659.414)) (num 1081104.36) (num 2188659.414) (num 10000000.001))]"

definition EPSG_11 :: "crs_integrato list" where
  "EPSG_11 =
     [proiettato (Epsg 32735) ''WGS 84 / UTM zone 35S'' ASSI_E_EAST_N_NORTH ELLISSOIDE_WGS_84
        (geo_bounds (num 24.0) (num (- 80.0)) (num 30.0) (num 0.0))
        (proj_bounds (num 166021.443) (num 1116915.044) (num 833978.557) (num 10000000.001))
        (proj_bounds (num (- 1188659.414)) (num 1081104.36) (num 2188659.414) (num 10000000.001)),
      proiettato (Epsg 32736) ''WGS 84 / UTM zone 36S'' ASSI_E_EAST_N_NORTH ELLISSOIDE_WGS_84
        (geo_bounds (num 30.0) (num (- 80.0)) (num 36.0) (num 0.0))
        (proj_bounds (num 166021.443) (num 1116915.044) (num 833978.557) (num 10000000.001))
        (proj_bounds (num (- 1188659.414)) (num 1081104.36) (num 2188659.414) (num 10000000.001)),
      proiettato (Epsg 32737) ''WGS 84 / UTM zone 37S'' ASSI_E_EAST_N_NORTH ELLISSOIDE_WGS_84
        (geo_bounds (num 36.0) (num (- 80.0)) (num 42.0) (num 0.0))
        (proj_bounds (num 166021.443) (num 1116915.044) (num 833978.557) (num 10000000.001))
        (proj_bounds (num (- 1188659.414)) (num 1081104.36) (num 2188659.414) (num 10000000.001)),
      proiettato (Epsg 32738) ''WGS 84 / UTM zone 38S'' ASSI_E_EAST_N_NORTH ELLISSOIDE_WGS_84
        (geo_bounds (num 42.0) (num (- 80.0)) (num 48.0) (num 0.0))
        (proj_bounds (num 166021.443) (num 1116915.044) (num 833978.557) (num 10000000.001))
        (proj_bounds (num (- 1188659.414)) (num 1081104.36) (num 2188659.414) (num 10000000.001)),
      proiettato (Epsg 32739) ''WGS 84 / UTM zone 39S'' ASSI_E_EAST_N_NORTH ELLISSOIDE_WGS_84
        (geo_bounds (num 48.0) (num (- 80.0)) (num 54.0) (num 0.0))
        (proj_bounds (num 166021.443) (num 1116915.044) (num 833978.557) (num 10000000.001))
        (proj_bounds (num (- 1188659.414)) (num 1081104.36) (num 2188659.414) (num 10000000.001)),
      proiettato (Epsg 32740) ''WGS 84 / UTM zone 40S'' ASSI_E_EAST_N_NORTH ELLISSOIDE_WGS_84
        (geo_bounds (num 54.0) (num (- 80.0)) (num 60.0) (num 0.0))
        (proj_bounds (num 166021.443) (num 1116915.044) (num 833978.557) (num 10000000.001))
        (proj_bounds (num (- 1188659.414)) (num 1081104.36) (num 2188659.414) (num 10000000.001)),
      proiettato (Epsg 32741) ''WGS 84 / UTM zone 41S'' ASSI_E_EAST_N_NORTH ELLISSOIDE_WGS_84
        (geo_bounds (num 60.0) (num (- 80.0)) (num 66.0) (num 0.0))
        (proj_bounds (num 166021.443) (num 1116915.044) (num 833978.557) (num 10000000.001))
        (proj_bounds (num (- 1188659.414)) (num 1081104.36) (num 2188659.414) (num 10000000.001)),
      proiettato (Epsg 32742) ''WGS 84 / UTM zone 42S'' ASSI_E_EAST_N_NORTH ELLISSOIDE_WGS_84
        (geo_bounds (num 66.0) (num (- 80.0)) (num 72.0) (num 0.0))
        (proj_bounds (num 166021.443) (num 1116915.044) (num 833978.557) (num 10000000.001))
        (proj_bounds (num (- 1188659.414)) (num 1081104.36) (num 2188659.414) (num 10000000.001)),
      proiettato (Epsg 32743) ''WGS 84 / UTM zone 43S'' ASSI_E_EAST_N_NORTH ELLISSOIDE_WGS_84
        (geo_bounds (num 72.0) (num (- 80.0)) (num 78.0) (num 0.0))
        (proj_bounds (num 166021.443) (num 1116915.044) (num 833978.557) (num 10000000.001))
        (proj_bounds (num (- 1188659.414)) (num 1081104.36) (num 2188659.414) (num 10000000.001)),
      proiettato (Epsg 32744) ''WGS 84 / UTM zone 44S'' ASSI_E_EAST_N_NORTH ELLISSOIDE_WGS_84
        (geo_bounds (num 78.0) (num (- 80.0)) (num 84.0) (num 0.0))
        (proj_bounds (num 166021.443) (num 1116915.044) (num 833978.557) (num 10000000.001))
        (proj_bounds (num (- 1188659.414)) (num 1081104.36) (num 2188659.414) (num 10000000.001)),
      proiettato (Epsg 32745) ''WGS 84 / UTM zone 45S'' ASSI_E_EAST_N_NORTH ELLISSOIDE_WGS_84
        (geo_bounds (num 84.0) (num (- 80.0)) (num 90.0) (num 0.0))
        (proj_bounds (num 166021.443) (num 1116915.044) (num 833978.557) (num 10000000.001))
        (proj_bounds (num (- 1188659.414)) (num 1081104.36) (num 2188659.414) (num 10000000.001)),
      proiettato (Epsg 32746) ''WGS 84 / UTM zone 46S'' ASSI_E_EAST_N_NORTH ELLISSOIDE_WGS_84
        (geo_bounds (num 90.0) (num (- 80.0)) (num 96.0) (num 0.0))
        (proj_bounds (num 166021.443) (num 1116915.044) (num 833978.557) (num 10000000.001))
        (proj_bounds (num (- 1188659.414)) (num 1081104.36) (num 2188659.414) (num 10000000.001)),
      proiettato (Epsg 32747) ''WGS 84 / UTM zone 47S'' ASSI_E_EAST_N_NORTH ELLISSOIDE_WGS_84
        (geo_bounds (num 96.0) (num (- 80.0)) (num 102.0) (num 0.0))
        (proj_bounds (num 166021.443) (num 1116915.044) (num 833978.557) (num 10000000.001))
        (proj_bounds (num (- 1188659.414)) (num 1081104.36) (num 2188659.414) (num 10000000.001)),
      proiettato (Epsg 32748) ''WGS 84 / UTM zone 48S'' ASSI_E_EAST_N_NORTH ELLISSOIDE_WGS_84
        (geo_bounds (num 102.0) (num (- 80.0)) (num 108.0) (num 0.0))
        (proj_bounds (num 166021.443) (num 1116915.044) (num 833978.557) (num 10000000.001))
        (proj_bounds (num (- 1188659.414)) (num 1081104.36) (num 2188659.414) (num 10000000.001))]"

definition EPSG_12 :: "crs_integrato list" where
  "EPSG_12 =
     [proiettato (Epsg 32749) ''WGS 84 / UTM zone 49S'' ASSI_E_EAST_N_NORTH ELLISSOIDE_WGS_84
        (geo_bounds (num 108.0) (num (- 80.0)) (num 114.0) (num 0.0))
        (proj_bounds (num 166021.443) (num 1116915.044) (num 833978.557) (num 10000000.001))
        (proj_bounds (num (- 1188659.414)) (num 1081104.36) (num 2188659.414) (num 10000000.001)),
      proiettato (Epsg 32750) ''WGS 84 / UTM zone 50S'' ASSI_E_EAST_N_NORTH ELLISSOIDE_WGS_84
        (geo_bounds (num 114.0) (num (- 80.0)) (num 120.0) (num 0.0))
        (proj_bounds (num 166021.443) (num 1116915.044) (num 833978.557) (num 10000000.001))
        (proj_bounds (num (- 1188659.414)) (num 1081104.36) (num 2188659.414) (num 10000000.001)),
      proiettato (Epsg 32751) ''WGS 84 / UTM zone 51S'' ASSI_E_EAST_N_NORTH ELLISSOIDE_WGS_84
        (geo_bounds (num 120.0) (num (- 80.0)) (num 126.0) (num 0.0))
        (proj_bounds (num 166021.443) (num 1116915.044) (num 833978.557) (num 10000000.001))
        (proj_bounds (num (- 1188659.414)) (num 1081104.36) (num 2188659.414) (num 10000000.001)),
      proiettato (Epsg 32752) ''WGS 84 / UTM zone 52S'' ASSI_E_EAST_N_NORTH ELLISSOIDE_WGS_84
        (geo_bounds (num 126.0) (num (- 80.0)) (num 132.0) (num 0.0))
        (proj_bounds (num 166021.443) (num 1116915.044) (num 833978.557) (num 10000000.001))
        (proj_bounds (num (- 1188659.414)) (num 1081104.36) (num 2188659.414) (num 10000000.001)),
      proiettato (Epsg 32753) ''WGS 84 / UTM zone 53S'' ASSI_E_EAST_N_NORTH ELLISSOIDE_WGS_84
        (geo_bounds (num 132.0) (num (- 80.0)) (num 138.0) (num 0.0))
        (proj_bounds (num 166021.443) (num 1116915.044) (num 833978.557) (num 10000000.001))
        (proj_bounds (num (- 1188659.414)) (num 1081104.36) (num 2188659.414) (num 10000000.001)),
      proiettato (Epsg 32754) ''WGS 84 / UTM zone 54S'' ASSI_E_EAST_N_NORTH ELLISSOIDE_WGS_84
        (geo_bounds (num 138.0) (num (- 80.0)) (num 144.0) (num 0.0))
        (proj_bounds (num 166021.443) (num 1116915.044) (num 833978.557) (num 10000000.001))
        (proj_bounds (num (- 1188659.414)) (num 1081104.36) (num 2188659.414) (num 10000000.001)),
      proiettato (Epsg 32755) ''WGS 84 / UTM zone 55S'' ASSI_E_EAST_N_NORTH ELLISSOIDE_WGS_84
        (geo_bounds (num 144.0) (num (- 80.0)) (num 150.0) (num 0.0))
        (proj_bounds (num 166021.443) (num 1116915.044) (num 833978.557) (num 10000000.001))
        (proj_bounds (num (- 1188659.414)) (num 1081104.36) (num 2188659.414) (num 10000000.001)),
      proiettato (Epsg 32756) ''WGS 84 / UTM zone 56S'' ASSI_E_EAST_N_NORTH ELLISSOIDE_WGS_84
        (geo_bounds (num 150.0) (num (- 80.0)) (num 156.0) (num 0.0))
        (proj_bounds (num 166021.443) (num 1116915.044) (num 833978.557) (num 10000000.001))
        (proj_bounds (num (- 1188659.414)) (num 1081104.36) (num 2188659.414) (num 10000000.001)),
      proiettato (Epsg 32757) ''WGS 84 / UTM zone 57S'' ASSI_E_EAST_N_NORTH ELLISSOIDE_WGS_84
        (geo_bounds (num 156.0) (num (- 80.0)) (num 162.0) (num 0.0))
        (proj_bounds (num 166021.443) (num 1116915.044) (num 833978.557) (num 10000000.001))
        (proj_bounds (num (- 1188659.414)) (num 1081104.36) (num 2188659.414) (num 10000000.001)),
      proiettato (Epsg 32758) ''WGS 84 / UTM zone 58S'' ASSI_E_EAST_N_NORTH ELLISSOIDE_WGS_84
        (geo_bounds (num 162.0) (num (- 80.0)) (num 168.0) (num 0.0))
        (proj_bounds (num 166021.443) (num 1116915.044) (num 833978.557) (num 10000000.001))
        (proj_bounds (num (- 1188659.414)) (num 1081104.36) (num 2188659.414) (num 10000000.001)),
      proiettato (Epsg 32759) ''WGS 84 / UTM zone 59S'' ASSI_E_EAST_N_NORTH ELLISSOIDE_WGS_84
        (geo_bounds (num 168.0) (num (- 80.0)) (num 174.0) (num 0.0))
        (proj_bounds (num 166021.443) (num 1116915.044) (num 833978.557) (num 10000000.001))
        (proj_bounds (num (- 1188659.414)) (num 1081104.36) (num 2188659.414) (num 10000000.001)),
      proiettato (Epsg 32760) ''WGS 84 / UTM zone 60S'' ASSI_E_EAST_N_NORTH ELLISSOIDE_WGS_84
        (geo_bounds (num 174.0) (num (- 80.0)) (num 180.0) (num 0.0))
        (proj_bounds (num 166021.443) (num 1116915.044) (num 833978.557) (num 10000000.001))
        (proj_bounds (num (- 1188659.414)) (num 1081104.36) (num 2188659.414) (num 10000000.001))]"

definition EPSG :: "crs_integrato list" where
  "EPSG = EPSG_1 @ EPSG_2 @ EPSG_3 @ EPSG_4 @ EPSG_5 @ EPSG_6 @ EPSG_7 @ EPSG_8 @ EPSG_9 @ EPSG_10 @ EPSG_11 @ EPSG_12"

section \<open>The codes\<close>

lemma assi: "length ASSI_LON_EAST_LAT_NORTH = 2" "length ASSI_E_EAST_N_NORTH = 2" "length ASSI_X_EAST_Y_NORTH = 2" "length ASSI_N_NORTH_E_EAST = 2" "length ASSI_Y_NORTH_X_EAST = 2" "length ASSI_LAT_NORTH_LON_EAST = 2" "length ASSI_X_NORTH_Y_EAST = 2"
  by (simp_all add: ASSI_LON_EAST_LAT_NORTH_def ASSI_E_EAST_N_NORTH_def ASSI_X_EAST_Y_NORTH_def ASSI_N_NORTH_E_EAST_def ASSI_Y_NORTH_X_EAST_def ASSI_LAT_NORTH_LON_EAST_def ASSI_X_NORTH_Y_EAST_def)

text \<open>The code of a row: the rows of \<open>EPSG\<close> have only EPSG identifiers.\<close>

definition codice_voce :: "crs_integrato \<Rightarrow> u32" where
  "codice_voce voce = (case ci_identificativo voce of Epsg codice \<Rightarrow> codice | OgcCrs84 \<Rightarrow> 0)"

lemma codici_EPSG_1: "map ci_identificativo EPSG_1 = map Epsg [2056, 2154, 2193, 3003, 3004, 3035, 3064, 3065, 3395, 3857, 4171, 4230, 4258, 4265, 4267]"
  by (simp add: EPSG_1_def)

lemma forma_EPSG_1: "list_all (\<lambda>v. (ci_dominio v = None) = (ci_kind v = KGeographic) \<and> length (ci_assi v) = 2) EPSG_1"
  by (simp add: EPSG_1_def assi)

lemma codici_EPSG_2: "map ci_identificativo EPSG_2 = map Epsg [4269, 4277, 4283, 4326, 4490, 4670, 4674, 6706, 6707, 6708, 6709, 6875, 7791, 7792, 7793]"
  by (simp add: EPSG_2_def)

lemma forma_EPSG_2: "list_all (\<lambda>v. (ci_dominio v = None) = (ci_kind v = KGeographic) \<and> length (ci_assi v) = 2) EPSG_2"
  by (simp add: EPSG_2_def assi)

lemma codici_EPSG_3: "map ci_identificativo EPSG_3 = map Epsg [7794, 7844, 23032, 23033, 23034, 25828, 25829, 25830, 25831, 25832, 25833, 25834, 25835, 25836]"
  by (simp add: EPSG_3_def)

lemma forma_EPSG_3: "list_all (\<lambda>v. (ci_dominio v = None) = (ci_kind v = KGeographic) \<and> length (ci_assi v) = 2) EPSG_3"
  by (simp add: EPSG_3_def assi)

lemma codici_EPSG_4: "map ci_identificativo EPSG_4 = map Epsg [25837, 27700, 28992, 31467, 32601, 32602, 32603, 32604, 32605, 32606, 32607, 32608, 32609, 32610]"
  by (simp add: EPSG_4_def)

lemma forma_EPSG_4: "list_all (\<lambda>v. (ci_dominio v = None) = (ci_kind v = KGeographic) \<and> length (ci_assi v) = 2) EPSG_4"
  by (simp add: EPSG_4_def assi)

lemma codici_EPSG_5: "map ci_identificativo EPSG_5 = map Epsg [32611, 32612, 32613, 32614, 32615, 32616, 32617, 32618, 32619, 32620, 32621, 32622, 32623, 32624]"
  by (simp add: EPSG_5_def)

lemma forma_EPSG_5: "list_all (\<lambda>v. (ci_dominio v = None) = (ci_kind v = KGeographic) \<and> length (ci_assi v) = 2) EPSG_5"
  by (simp add: EPSG_5_def assi)

lemma codici_EPSG_6: "map ci_identificativo EPSG_6 = map Epsg [32625, 32626, 32627, 32628, 32629, 32630, 32631, 32632, 32633, 32634, 32635, 32636, 32637, 32638]"
  by (simp add: EPSG_6_def)

lemma forma_EPSG_6: "list_all (\<lambda>v. (ci_dominio v = None) = (ci_kind v = KGeographic) \<and> length (ci_assi v) = 2) EPSG_6"
  by (simp add: EPSG_6_def assi)

lemma codici_EPSG_7: "map ci_identificativo EPSG_7 = map Epsg [32639, 32640, 32641, 32642, 32643, 32644, 32645, 32646, 32647, 32648, 32649, 32650, 32651, 32652]"
  by (simp add: EPSG_7_def)

lemma forma_EPSG_7: "list_all (\<lambda>v. (ci_dominio v = None) = (ci_kind v = KGeographic) \<and> length (ci_assi v) = 2) EPSG_7"
  by (simp add: EPSG_7_def assi)

lemma codici_EPSG_8: "map ci_identificativo EPSG_8 = map Epsg [32653, 32654, 32655, 32656, 32657, 32658, 32659, 32660, 32701, 32702, 32703, 32704, 32705, 32706]"
  by (simp add: EPSG_8_def)

lemma forma_EPSG_8: "list_all (\<lambda>v. (ci_dominio v = None) = (ci_kind v = KGeographic) \<and> length (ci_assi v) = 2) EPSG_8"
  by (simp add: EPSG_8_def assi)

lemma codici_EPSG_9: "map ci_identificativo EPSG_9 = map Epsg [32707, 32708, 32709, 32710, 32711, 32712, 32713, 32714, 32715, 32716, 32717, 32718, 32719, 32720]"
  by (simp add: EPSG_9_def)

lemma forma_EPSG_9: "list_all (\<lambda>v. (ci_dominio v = None) = (ci_kind v = KGeographic) \<and> length (ci_assi v) = 2) EPSG_9"
  by (simp add: EPSG_9_def assi)

lemma codici_EPSG_10: "map ci_identificativo EPSG_10 = map Epsg [32721, 32722, 32723, 32724, 32725, 32726, 32727, 32728, 32729, 32730, 32731, 32732, 32733, 32734]"
  by (simp add: EPSG_10_def)

lemma forma_EPSG_10: "list_all (\<lambda>v. (ci_dominio v = None) = (ci_kind v = KGeographic) \<and> length (ci_assi v) = 2) EPSG_10"
  by (simp add: EPSG_10_def assi)

lemma codici_EPSG_11: "map ci_identificativo EPSG_11 = map Epsg [32735, 32736, 32737, 32738, 32739, 32740, 32741, 32742, 32743, 32744, 32745, 32746, 32747, 32748]"
  by (simp add: EPSG_11_def)

lemma forma_EPSG_11: "list_all (\<lambda>v. (ci_dominio v = None) = (ci_kind v = KGeographic) \<and> length (ci_assi v) = 2) EPSG_11"
  by (simp add: EPSG_11_def assi)

lemma codici_EPSG_12: "map ci_identificativo EPSG_12 = map Epsg [32749, 32750, 32751, 32752, 32753, 32754, 32755, 32756, 32757, 32758, 32759, 32760]"
  by (simp add: EPSG_12_def)

lemma forma_EPSG_12: "list_all (\<lambda>v. (ci_dominio v = None) = (ci_kind v = KGeographic) \<and> length (ci_assi v) = 2) EPSG_12"
  by (simp add: EPSG_12_def assi)

lemmas codici_parti = codici_EPSG_1 codici_EPSG_2 codici_EPSG_3 codici_EPSG_4 codici_EPSG_5 codici_EPSG_6 codici_EPSG_7 codici_EPSG_8 codici_EPSG_9 codici_EPSG_10 codici_EPSG_11 codici_EPSG_12

lemmas forma_parti = forma_EPSG_1 forma_EPSG_2 forma_EPSG_3 forma_EPSG_4 forma_EPSG_5 forma_EPSG_6 forma_EPSG_7 forma_EPSG_8 forma_EPSG_9 forma_EPSG_10 forma_EPSG_11 forma_EPSG_12

definition codici_EPSG :: "u32 list" where
  "codici_EPSG =
     [2056, 2154, 2193, 3003, 3004, 3035, 3064, 3065, 3395, 3857, 4171, 4230, 4258, 4265, 4267, 4269, 4277, 4283, 4326, 4490, 4670, 4674, 6706, 6707, 6708, 6709, 6875, 7791, 7792, 7793, 7794, 7844, 23032, 23033, 23034, 25828, 25829, 25830, 25831, 25832, 25833, 25834, 25835, 25836, 25837, 27700, 28992, 31467, 32601, 32602, 32603, 32604, 32605, 32606, 32607, 32608, 32609, 32610, 32611, 32612, 32613, 32614, 32615, 32616, 32617, 32618, 32619, 32620, 32621, 32622, 32623, 32624, 32625, 32626, 32627, 32628, 32629, 32630, 32631, 32632, 32633, 32634, 32635, 32636, 32637, 32638, 32639, 32640, 32641, 32642, 32643, 32644, 32645, 32646, 32647, 32648, 32649, 32650, 32651, 32652, 32653, 32654, 32655, 32656, 32657, 32658, 32659, 32660, 32701, 32702, 32703, 32704, 32705, 32706, 32707, 32708, 32709, 32710, 32711, 32712, 32713, 32714, 32715, 32716, 32717, 32718, 32719, 32720, 32721, 32722, 32723, 32724, 32725, 32726, 32727, 32728, 32729, 32730, 32731, 32732, 32733, 32734, 32735, 32736, 32737, 32738, 32739, 32740, 32741, 32742, 32743, 32744, 32745, 32746, 32747, 32748, 32749, 32750, 32751, 32752, 32753, 32754, 32755, 32756, 32757, 32758, 32759, 32760]"

lemma EPSG_identificativi: "map ci_identificativo EPSG = map Epsg codici_EPSG"
  by (simp add: EPSG_def codici_parti codici_EPSG_def)

lemma codici_crescenti: "sorted_wrt (<) codici_EPSG"
  by (simp only: codici_EPSG_def sorted_wrt2 [OF transp_on_less] sorted_wrt1) simp

lemma EPSG_forma:
  "voce \<in> set EPSG \<Longrightarrow> (ci_dominio voce = None) = (ci_kind voce = KGeographic) \<and> length (ci_assi voce) = 2"
  using forma_parti unfolding EPSG_def list_all_iff by auto

end
