(* ===== verification/Json.thy ===== *)
theory Json
  imports Strings Errors BTree RunLimits
begin

text \<open>
  The guards on the JSON of control, \<open>json.rs\<close> of \<open>crates/plenora-core\<close>, and the exact comparison of decimal
  texts, \<open>crs/definizioni/numeri.rs\<close>.

  The parser is \<open>serde_json\<close>, outside the repository.  What the guards rely on is a parameter: the tree of a
  document with its keys in order and repeated, up to the first syntax error (\<open>albero\<close>), the position of an
  error, the reading and writing of one number.  The texts of the errors are the forms that the code matches.
\<close>

section \<open>Values\<close>

datatype json_number = PosInt u64 | NegInt int | JFloat f64

datatype json =
  JNull
| JBool bool
| JNumber json_number
| JString string
| JArray "json list"
| JObject "(string, json) btree"

definition json_object :: "(string \<times> json) list \<Rightarrow> json" where
  "json_object kvs = JObject (fold (\<lambda>(k, v). bt_insert k v) kvs [])"

fun json_get :: "json \<Rightarrow> string \<Rightarrow> json option" where
  "json_get (JObject m) k = bt_get m k"
| "json_get _ k = None"

fun json_as_str :: "json \<Rightarrow> string option" where
  "json_as_str (JString s) = Some s"
| "json_as_str _ = None"

fun json_as_array :: "json \<Rightarrow> json list option" where
  "json_as_array (JArray xs) = Some xs"
| "json_as_array _ = None"

fun number_as_u64 :: "json_number \<Rightarrow> u64 option" where
  "number_as_u64 (PosInt n) = Some n"
| "number_as_u64 _ = None"

section \<open>Repeated keys\<close>

text \<open>A document as the parser visits it; \<open>Interrotto\<close> is where a syntax error stops it.\<close>

datatype albero =
  Scalare
| Interrotto
| Elenco "albero list"
| Oggetto "(string \<times> albero) list" bool \<comment> \<open>the entries, and whether the parser stops after them\<close>

definition CHIAVE_RISERVATA_SERDE_JSON :: string where
  "CHIAVE_RISERVATA_SERDE_JSON = ''$serde_json::private::RawValue''"

definition MESSAGGIO_CHIAVE_DUPLICATA :: string where
  "MESSAGGIO_CHIAVE_DUPLICATA =
     ''chiave JSON duplicata nello stesso oggetto: il documento e'' @ [CHR 0x27] @
     '' ambiguo e non viene risolto con '' @ [CHR 0xC2, CHR 0xAB] @ ''vince l'' @ [CHR 0x27] @ ''ultima'' @ [CHR 0xC2, CHR 0xBB]"

definition MESSAGGIO_CHIAVE_RISERVATA :: string where
  "MESSAGGIO_CHIAVE_RISERVATA =
     ''chiave JSON riservata `$serde_json::private::RawValue`: `serde_json` la usa per trasportare JSON grezzo e '' @
     ''non la legge come una chiave, quindi il documento non e'' @ [CHR 0x27] @ '' quello che dichiara di essere''"

text \<open>Why a visit stops: a key (\<open>Category::Data\<close>, with its message) or the syntax.\<close>

datatype esito_visita = ChiaveRiservata | ChiaveDuplicata | ErroreSintassi

fun visita_albero :: "albero \<Rightarrow> esito_visita + unit"
  and visita_elenco :: "albero list \<Rightarrow> esito_visita + unit"
  and visita_oggetto :: "string set \<Rightarrow> (string \<times> albero) list \<Rightarrow> esito_visita + unit" where
  "visita_albero Scalare = Inr ()"
| "visita_albero Interrotto = Inl ErroreSintassi"
| "visita_albero (Elenco xs) = visita_elenco xs"
| "visita_albero (Oggetto kvs interrotto) =
     try_bind (visita_oggetto {} kvs) (\<lambda>_. if interrotto then Inl ErroreSintassi else Inr ())"
| "visita_elenco [] = Inr ()"
| "visita_elenco (x # xs) = try_bind (visita_albero x) (\<lambda>_. visita_elenco xs)"
| "visita_oggetto seen [] = Inr ()"
| "visita_oggetto seen ((key, x) # kvs) =
     try_bind (visita_albero x) (\<lambda>_.
       if key = CHIAVE_RISERVATA_SERDE_JSON then Inl ChiaveRiservata
       else if key \<in> seen then Inl ChiaveDuplicata
       else visita_oggetto (insert key seen) kvs)"

text \<open>\<open>posizione\<close> is the line and column of the error in the document.\<close>

definition ensure_no_duplicate_keys :: "(string \<Rightarrow> albero) \<Rightarrow> (string \<Rightarrow> nat \<times> nat) \<Rightarrow> string \<Rightarrow> unit result" where
  "ensure_no_duplicate_keys leggi posizione testo =
     (case visita_albero (leggi testo) of
        Inl ErroreSintassi \<Rightarrow> Inr ()
      | Inl e \<Rightarrow>
          Inl (InvalidPlan
            ((if e = ChiaveRiservata then MESSAGGIO_CHIAVE_RISERVATA else MESSAGGIO_CHIAVE_DUPLICATA)
             @ '' (riga '' @ show_nat (fst (posizione testo)) @ '' colonna '' @ show_nat (snd (posizione testo)) @ '')''))
      | Inr () \<Rightarrow> Inr ())"

section \<open>Decimal texts\<close>

definition i64_checked :: "int \<Rightarrow> int option" where
  "i64_checked z = (if - (2 ^ 63) \<le> z \<and> z < 2 ^ 63 then Some z else None)"

function togli_zeri :: "string \<Rightarrow> int \<Rightarrow> (string \<times> int) option" where
  "togli_zeri cifre esponente =
     (if cifre \<noteq> [] \<and> last cifre = CHR ''0'' then
        (case i64_checked (esponente + 1) of None \<Rightarrow> None | Some e \<Rightarrow> togli_zeri (butlast cifre) e)
      else Some (cifre, esponente))"
  by pat_completeness auto
termination by (relation "measure (\<lambda>(s, _). length s)") auto

declare togli_zeri.simps [simp del]

definition decimale_canonico :: "string \<Rightarrow> (bool \<times> string \<times> int) option" where
  "decimale_canonico testo =
     (let (negativo, resto) = (case strip_prefix testo ''-'' of None \<Rightarrow> (False, testo) | Some r \<Rightarrow> (True, r))
      in case (case split_once ''eE'' resto of
                 Some (m, e) \<Rightarrow> map_option (\<lambda>e. (m, e)) (parse_i64 e)
               | None \<Rightarrow> Some (resto, 0)) of
           None \<Rightarrow> None
         | Some (mantissa, esponente) \<Rightarrow>
             (let (intera, frazione) = (case split_once ''.'' mantissa of None \<Rightarrow> (mantissa, []) | Some p \<Rightarrow> p)
              in case i64_checked (int (length frazione)) of
                   None \<Rightarrow> None
                 | Some n \<Rightarrow>
                     (case i64_checked (esponente - n) of
                        None \<Rightarrow> None
                      | Some e \<Rightarrow>
                          (case togli_zeri (dropWhile (\<lambda>c. c = CHR ''0'') (intera @ frazione)) e of
                             None \<Rightarrow> None
                           | Some (cifre, e) \<Rightarrow> Some (if cifre = [] then (False, [], 0) else (negativo, cifre, e))))))"

text \<open>\<open>numeri.rs\<close>: the lexical profile common to WKT and JSON.\<close>

datatype rifiuto = NonIntegrato | NumeroInvalido | TabellaInvalida

definition MAX_CRS_DEFINITION_BYTES :: nat where
  "MAX_CRS_DEFINITION_BYTES = 64 * 1024"

definition normalizza_numero :: "string \<Rightarrow> rifiuto + bool \<times> string \<times> int" where
  "normalizza_numero token =
     (if token = [] \<or> length token > MAX_CRS_DEFINITION_BYTES then Inl NumeroInvalido
      else if starts_with token ''+-'' then Inl NumeroInvalido
      else
        (let token = (case strip_prefix token ''+'' of None \<Rightarrow> token | Some r \<Rightarrow> r);
             unsigned = (case strip_prefix token ''-'' of None \<Rightarrow> token | Some r \<Rightarrow> r);
             (mantissa, esponente) = (case split_once ''eE'' unsigned of None \<Rightarrow> (unsigned, ''0'') | Some p \<Rightarrow> p);
             esponente =
               (if starts_with esponente ''+'' \<or> starts_with esponente ''-'' then drop 1 esponente else esponente);
             (intera, frazione) = (case split_once ''.'' mantissa of None \<Rightarrow> (mantissa, ''0'') | Some p \<Rightarrow> p)
         in if list_ex (\<lambda>parte. parte = [] \<or> \<not> list_all is_ascii_digit parte) [intera, frazione, esponente]
            then Inl NumeroInvalido
            else ok_or NumeroInvalido (decimale_canonico token)))"

definition numeri_uguali :: "string \<Rightarrow> string \<Rightarrow> rifiuto + bool" where
  "numeri_uguali a b =
     try_bind (normalizza_numero a) (\<lambda>x. map_ok (\<lambda>y. x = y) (normalizza_numero b))"

section \<open>Numbers of a document\<close>

text \<open>\<open>leggi_numero\<close> is \<open>serde_json::from_str::<Number>\<close>; \<open>scrivi_f64\<close> the text of a finite double.\<close>

definition numero_esatto :: "(string \<Rightarrow> json_number option) \<Rightarrow> (f64 \<Rightarrow> string) \<Rightarrow> string \<Rightarrow> bool" where
  "numero_esatto leggi_numero scrivi_f64 token =
     (if set token \<inter> set ''.eE'' = {} \<and> (parse_i64 token \<noteq> None \<or> parse_unsigned (2 ^ 64) token \<noteq> None) then True
      else
        (case leggi_numero token of
           None \<Rightarrow> True
         | Some (PosInt _) \<Rightarrow> True
         | Some (NegInt _) \<Rightarrow> True
         | Some (JFloat f) \<Rightarrow>
             (if \<not> f64_is_finite f then True
              else
                (let breve = scrivi_f64 f;
                     senza_piu = (\<lambda>e. case strip_prefix e ''+'' of None \<Rightarrow> e | Some r \<Rightarrow> r)
                 in case (split_once ''eE'' token, split_once ''eE'' breve) of
                      (Some (m, e), Some (m', e')) \<Rightarrow> m = m' \<and> senza_piu e = senza_piu e'
                    | _ \<Rightarrow>
                        (case (decimale_canonico token, decimale_canonico breve) of
                           (Some scritto, Some letto) \<Rightarrow> scritto = letto
                         | _ \<Rightarrow> False)))))"

definition MESSAGGIO_NUMERO_DOCUMENTO :: string where
  "MESSAGGIO_NUMERO_DOCUMENTO =
     ''un numero del documento non e'' @ [CHR 0x27] @ '' rappresentabile esattamente come viene letto (intero oltre '' @
     ''i64/u64, o decimale oltre la precisione del double): scriverlo come il double che lo rappresenta, o come '' @
     ''stringa dove ammessa''"

fun salta_stringa :: "string \<Rightarrow> string" where
  "salta_stringa [] = []"
| "salta_stringa (c # s) =
     (if c = CHR 0x22 then s
      else if c = CHR 0x5C then salta_stringa (drop 1 s)
      else salta_stringa s)"

definition carattere_numero :: "char \<Rightarrow> bool" where
  "carattere_numero c \<longleftrightarrow> c \<in> set ''-+.eE'' \<or> is_ascii_digit c"

lemma length_salta_stringa: "length (salta_stringa s) \<le> length s"
  by (induction s rule: salta_stringa.induct) auto

function ensure_numbers_exact :: "(string \<Rightarrow> bool) \<Rightarrow> string \<Rightarrow> unit result" where
  "ensure_numbers_exact esatto [] = Inr ()"
| "ensure_numbers_exact esatto (c # s) =
     (if c = CHR 0x22 then ensure_numbers_exact esatto (salta_stringa s)
      else if c = CHR ''-'' \<or> is_ascii_digit c then
        (if \<not> esatto (takeWhile carattere_numero (c # s)) then Inl (InvalidPlan MESSAGGIO_NUMERO_DOCUMENTO)
         else ensure_numbers_exact esatto (dropWhile carattere_numero s))
      else ensure_numbers_exact esatto s)"
  by pat_completeness auto
termination
  by (relation "measure (\<lambda>(_, s). length s)")
    (auto simp: le_imp_less_Suc length_salta_stringa length_dropWhile_le)

section \<open>The description of a configuration error\<close>

definition MESSAGGIO_NULL_NON_AMMESSO :: string where
  "MESSAGGIO_NULL_NON_AMMESSO = ''null non ammesso: un parametro facoltativo si omette''"

definition MESSAGGIO_NUMERO_NON_ESATTO :: string where
  "MESSAGGIO_NUMERO_NON_ESATTO =
     ''numero non rappresentabile esattamente (oltre 38 cifre significative o scala)''"

definition MESSAGGIO_INCLUDE_UNCHANGED :: string where
  "MESSAGGIO_INCLUDE_UNCHANGED =
     ''include_unchanged ammette solo '' @ [CHR 0x22] @ ''yes'' @ [CHR 0x22] @ '' o '' @ [CHR 0x22] @ ''no'' @ [CHR 0x22]"

definition MESSAGGI_STATICI :: "string list" where
  "MESSAGGI_STATICI = [MESSAGGIO_NULL_NON_AMMESSO, MESSAGGIO_NUMERO_NON_ESATTO, MESSAGGIO_INCLUDE_UNCHANGED]"

definition identificatore :: "string \<Rightarrow> bool" where
  "identificatore nome \<longleftrightarrow>
     nome \<noteq> [] \<and> list_all (\<lambda>c. is_ascii_alphanumeric c \<or> c \<in> set ''_$-=<>!'') nome"

definition quotato :: "string \<Rightarrow> string" where
  "quotato nome = ''`'' @ nome @ ''`''"

lemma rsplit_once_length: "rsplit_once cs s = Some (a, b) \<Longrightarrow> length a < length s"
  by (auto simp: rsplit_once_def split_once_def Let_def split: if_splits)

text \<open>The names in the list at the end of a message, read from the end.\<close>

function nomi_attesi_da :: "string \<Rightarrow> string list \<Rightarrow> string list \<Rightarrow> string list option" where
  "nomi_attesi_da resto elenco giunzioni =
     (case strip_suffix resto ''`'' of
        None \<Rightarrow> None
      | Some senza_chiusa \<Rightarrow>
          (case rsplit_once ''`'' senza_chiusa of
             None \<Rightarrow> None
           | Some (prima, nome) \<Rightarrow>
               if \<not> identificatore nome then None
               else
                 (let elenco = elenco @ [quotato nome]
                  in if ends_with prima '', expected one of '' then
                       (if length elenco < 3 \<or> list_ex (\<lambda>separatore. separatore \<noteq> '', '') giunzioni then None
                        else Some (rev elenco))
                     else if ends_with prima '', expected '' then
                       (if length elenco = 1 \<or> length elenco = 2 \<and> giunzioni = ['' or ''] then Some (rev elenco)
                        else None)
                     else
                       (case List.find (ends_with prima) ['', '', '' or ''] of
                          None \<Rightarrow> None
                        | Some separatore \<Rightarrow>
                            nomi_attesi_da (take (length prima - length separatore) prima) elenco
                              (giunzioni @ [separatore])))))"
  by pat_completeness auto

termination
  by (relation "measure (\<lambda>(resto, _). length resto)")
    (auto simp: strip_suffix_def dest!: rsplit_once_length split: if_splits)

declare nomi_attesi_da.simps [simp del]

definition nomi_attesi :: "string \<Rightarrow> string list option" where
  "nomi_attesi messaggio = nomi_attesi_da messaggio [] []"

definition nome_singolo :: "string \<Rightarrow> string \<Rightarrow> string option" where
  "nome_singolo messaggio prefisso =
     (case strip_prefix messaggio prefisso of
        None \<Rightarrow> None
      | Some resto \<Rightarrow>
          (case strip_suffix resto ''`'' of
             None \<Rightarrow> None
           | Some nome \<Rightarrow> if identificatore nome then Some nome else None))"

definition forma_elenco :: "string \<Rightarrow> string \<Rightarrow> string \<Rightarrow> string \<Rightarrow> string" where
  "forma_elenco messaggio sconosciuto nessuno ammessi =
     (if ends_with messaggio nessuno then sconosciuto @ '': nessuno ammesso''
      else
        (case nomi_attesi messaggio of
           None \<Rightarrow> sconosciuto
         | Some nomi \<Rightarrow> sconosciuto @ ''; '' @ ammessi @ '': '' @ join '', '' nomi))"

definition descrivi_forma_nota :: "string \<Rightarrow> string option" where
  "descrivi_forma_nota messaggio =
     (if messaggio \<in> set MESSAGGI_STATICI then Some messaggio
      else
        (case nome_singolo messaggio ''missing field `'' of
           Some nome \<Rightarrow> Some (''campo obbligatorio assente: '' @ quotato nome)
         | None \<Rightarrow>
             (case nome_singolo messaggio ''duplicate field `'' of
                Some nome \<Rightarrow> Some (''campo ripetuto: '' @ quotato nome)
              | None \<Rightarrow>
                  if starts_with messaggio ''unknown field `'' then
                    Some (forma_elenco messaggio ''campo sconosciuto'' '', there are no fields'' ''campi ammessi'')
                  else if starts_with messaggio ''unknown variant `'' then
                    Some (forma_elenco messaggio ''valore sconosciuto'' '', there are no variants'' ''valori ammessi'')
                  else None)))"

datatype categoria_serde = SerdeIo | SerdeSyntax | SerdeData | SerdeEof

record errore_serde =
  es_testo :: string
  es_riga :: nat
  es_colonna :: nat
  es_categoria :: categoria_serde

definition descrivi_errore_config :: "errore_serde \<Rightarrow> string" where
  "descrivi_errore_config errore =
     (let testo = es_testo errore;
          coda = '' at line '' @ show_nat (es_riga errore) @ '' column '' @ show_nat (es_colonna errore);
          messaggio =
            (if es_riga errore = 0 then testo
             else (case strip_suffix testo coda of None \<Rightarrow> testo | Some m \<Rightarrow> m));
          genere =
            (case es_categoria errore of
               SerdeIo \<Rightarrow> ''lettura non riuscita''
             | SerdeSyntax \<Rightarrow> ''sintassi JSON non valida''
             | SerdeData \<Rightarrow> ''tipo, valore o forma di un campo non validi''
             | SerdeEof \<Rightarrow> ''documento JSON incompleto'')
      in case (if es_categoria errore = SerdeData then descrivi_forma_nota messaggio else None) of
           Some descrizione \<Rightarrow> descrizione
         | None \<Rightarrow>
             (if es_riga errore = 0 then genere
              else genere @ '' alla riga '' @ show_nat (es_riga errore) @ '' colonna '' @ show_nat (es_colonna errore)))"

section \<open>No written name in a description\<close>

text \<open>The list as \<open>serde\<close> writes it.\<close>

fun attesi :: "string list \<Rightarrow> string" where
  "attesi [] = '', there are no fields''"
| "attesi [a] = '', expected '' @ quotato a"
| "attesi [a, b] = '', expected '' @ quotato a @ '' or '' @ quotato b"
| "attesi nomi = '', expected one of '' @ join '', '' (map quotato nomi)"

lemma ends_with_iff: "ends_with s t \<longleftrightarrow> (\<exists>r. s = r @ t)"
proof
  assume "ends_with s t"
  then have "drop (length s - length t) s = t" by (auto simp: ends_with_def strip_suffix_def split: if_splits)
  then show "\<exists>r. s = r @ t" by (metis append_take_drop_id)
qed (auto simp: ends_with_def strip_suffix_append)

lemma not_ends_with:
  assumes "length t \<le> length u" and "drop (length u - length t) u \<noteq> t"
  shows "\<not> ends_with (x @ t) u"
proof
  assume "ends_with (x @ t) u"
  then obtain r where "x @ t = r @ u" by (auto simp: ends_with_iff)
  then have "rev t @ rev x = rev u @ rev r" by (metis rev_append)
  then have "rev t = take (length t) (rev u)"
    using assms(1) by (metis append_eq_append_conv_if length_rev take_append append_Nil2 take_all_iff
        diff_is_0_eq' take0 order_refl append_eq_conv_conj)
  then have "t = drop (length u - length t) u" by (simp add: take_rev)
  with assms(2) show False by simp
qed

lemma rsplit_once_last:
  assumes "set b \<inter> set cs = {}" and "c \<in> set cs"
  shows "rsplit_once cs (a @ c # b) = Some (a, b)"
proof -
  have "takeWhile (\<lambda>c. c \<notin> set cs) (rev b @ c # rev a) = rev b"
    using assms by (subst takeWhile_append2) auto
  then show ?thesis by (simp add: rsplit_once_def split_once_def Let_def)
qed

lemma identificatore_backtick: "identificatore nome \<Longrightarrow> CHR ''`'' \<notin> set nome"
  by (auto simp: identificatore_def list_all_iff is_ascii_alphanumeric_def is_ascii_digit_def is_ascii_uppercase_def
      is_ascii_lowercase_def byte_of_def)

lemma strip_backtick: "strip_suffix (a @ quotato b) ''`'' = Some (a @ CHR ''`'' # b)"
  using strip_suffix_append [of "a @ CHR ''`'' # b" "''`''"] by (simp add: quotato_def)

lemma join_snoc: "xs \<noteq> [] \<Longrightarrow> join sep (xs @ [x]) = join sep xs @ sep @ x"
  by (induction sep xs rule: join.induct) auto

text \<open>One step of the reading: a name at the end, after \<open>prima\<close>.\<close>

lemma nomi_attesi_step:
  assumes "identificatore nome"
  shows "nomi_attesi_da (prima @ quotato nome) elenco giunzioni =
    (let elenco = elenco @ [quotato nome]
     in if ends_with prima '', expected one of '' then
          (if length elenco < 3 \<or> list_ex (\<lambda>separatore. separatore \<noteq> '', '') giunzioni then None else Some (rev elenco))
        else if ends_with prima '', expected '' then
          (if length elenco = 1 \<or> length elenco = 2 \<and> giunzioni = ['' or ''] then Some (rev elenco) else None)
        else
          (case List.find (ends_with prima) ['', '', '' or ''] of
             None \<Rightarrow> None
           | Some separatore \<Rightarrow>
               nomi_attesi_da (take (length prima - length separatore) prima) elenco (giunzioni @ [separatore])))"
proof -
  have "rsplit_once ''`'' (prima @ CHR ''`'' # nome) = Some (prima, nome)"
    using identificatore_backtick [OF assms] by (intro rsplit_once_last) auto
  with assms show ?thesis
    by (subst nomi_attesi_da.simps) (simp add: strip_backtick Let_def)
qed

lemma nomi_attesi_separatore:
  assumes "identificatore nome" and "\<not> ends_with (q @ sep) '', expected one of ''" "\<not> ends_with (q @ sep) '', expected ''"
    and "List.find (ends_with (q @ sep)) ['', '', '' or ''] = Some sep"
  shows "nomi_attesi_da ((q @ sep) @ quotato nome) elenco giunzioni =
    nomi_attesi_da q (elenco @ [quotato nome]) (giunzioni @ [sep])"
  using nomi_attesi_step [OF assms(1), of "q @ sep" elenco giunzioni] assms(2-4) by (simp add: Let_def)

lemma nomi_attesi_elenco:
  assumes "nomi \<noteq> []" and "list_all identificatore nomi"
  shows "nomi_attesi_da (p @ '', expected one of '' @ join '', '' (map quotato nomi)) elenco giunzioni =
    (if length elenco + length nomi < 3 \<or> list_ex (\<lambda>separatore. separatore \<noteq> '', '') giunzioni then None
     else Some (map quotato nomi @ rev elenco))"
  using assms
proof (induction nomi arbitrary: elenco giunzioni rule: rev_induct)
  case (snoc x xs)
  show ?case
  proof (cases "xs = []")
    case True
    have "ends_with (p @ '', expected one of '') '', expected one of ''" by (auto simp: ends_with_iff)
    with snoc.prems True nomi_attesi_step [of x "p @ '', expected one of ''" elenco giunzioni] show ?thesis
      by (simp add: Let_def)
  next
    case False
    let ?q = "p @ '', expected one of '' @ join '', '' (map quotato xs)"
    have no: "\<not> ends_with (?q @ '', '') '', expected one of ''" "\<not> ends_with (?q @ '', '') '', expected ''"
      by (rule not_ends_with; simp)+
    have yes: "ends_with (?q @ '', '') '', ''" by (auto simp: ends_with_iff)
    have "nomi_attesi_da ((?q @ '', '') @ quotato x) elenco giunzioni =
        nomi_attesi_da ?q (elenco @ [quotato x]) (giunzioni @ ['', ''])"
      using snoc.prems(2) no yes by (intro nomi_attesi_separatore) simp_all
    moreover have "p @ '', expected one of '' @ join '', '' (map quotato (xs @ [x])) = (?q @ '', '') @ quotato x"
      using False by (simp add: join_snoc)
    ultimately show ?thesis
      using snoc.IH [OF False, of "elenco @ [quotato x]" "giunzioni @ ['', '']"] snoc.prems(2) by auto
  qed
qed simp

lemma nomi_attesi_uno: "identificatore a \<Longrightarrow> nomi_attesi (p @ attesi [a]) = Some [quotato a]"
proof -
  assume a: "identificatore a"
  have "\<not> ends_with (p @ '', expected '') '', expected one of ''" by (rule not_ends_with; simp)
  moreover have "ends_with (p @ '', expected '') '', expected ''" by (auto simp: ends_with_iff)
  ultimately show ?thesis
    using nomi_attesi_step [OF a, of "p @ '', expected ''" "[]" "[]"] by (simp add: nomi_attesi_def Let_def)
qed

lemma nomi_attesi_due:
  assumes "identificatore a" and "identificatore b"
  shows "nomi_attesi (p @ attesi [a, b]) = Some [quotato a, quotato b]"
proof -
  let ?q = "p @ '', expected '' @ quotato a"
  have no: "\<not> ends_with (?q @ '' or '') '', expected one of ''" "\<not> ends_with (?q @ '' or '') '', expected ''"
    by (rule not_ends_with; simp)+
  have no': "\<not> ends_with ((?q @ '' o'') @ ''r '') '', ''" by (rule not_ends_with; simp)
  have yes: "ends_with (?q @ '' or '') '' or ''" by (auto simp: ends_with_iff)
  have "nomi_attesi_da ((?q @ '' or '') @ quotato b) [] [] = nomi_attesi_da ((p @ '', expected '') @ quotato a) [quotato b] ['' or '']"
    using nomi_attesi_separatore [OF assms(2) no, of "[]" "[]"] no' yes by simp
  also have "\<dots> = Some [quotato a, quotato b]"
  proof -
    have "\<not> ends_with (p @ '', expected '') '', expected one of ''" by (rule not_ends_with; simp)
    moreover have "ends_with (p @ '', expected '') '', expected ''" by (auto simp: ends_with_iff)
    ultimately show ?thesis
      using nomi_attesi_step [OF assms(1), of "p @ '', expected ''" "[quotato b]" "['' or '']"] by (simp add: Let_def)
  qed
  finally show ?thesis by (simp add: nomi_attesi_def)
qed

lemma nomi_attesi_scritti:
  assumes "nomi \<noteq> []" and "list_all identificatore nomi"
  shows "nomi_attesi (p @ attesi nomi) = Some (map quotato nomi)"
proof -
  consider a where "nomi = [a]" | a b where "nomi = [a, b]" | a b c cs where "nomi = a # b # c # cs"
    using assms(1) by (cases nomi rule: attesi.cases) auto
  then show ?thesis
  proof cases
    case 1 with assms nomi_attesi_uno [of a p] show ?thesis by simp
  next
    case 2 with assms nomi_attesi_due [of a b p] show ?thesis by simp
  next
    case 3
    with assms nomi_attesi_elenco [of nomi p "[]" "[]"] show ?thesis by (simp add: nomi_attesi_def)
  qed
qed

lemma join_backtick: "nomi \<noteq> [] \<Longrightarrow> \<exists>q. join sep (map quotato nomi) = q @ ''`''"
proof (induction nomi rule: rev_induct)
  case (snoc x xs)
  show ?case
  proof (cases "xs = []")
    case True
    then show ?thesis by (intro exI [of _ "''`'' @ x"]) (simp add: quotato_def)
  next
    case False
    then show ?thesis
      by (intro exI [of _ "join sep (map quotato xs) @ sep @ ''`'' @ x"]) (simp add: join_snoc quotato_def [of x])
  qed
qed simp

lemma attesi_backtick: "nomi \<noteq> [] \<Longrightarrow> \<exists>q. attesi nomi = q @ ''`''"
proof (induction nomi rule: attesi.induct)
  case (2 a)
  show ?case by (rule exI [of _ "'', expected '' @ ''`'' @ a"]) (simp add: quotato_def)
next
  case (3 a b)
  show ?case by (rule exI [of _ "'', expected '' @ quotato a @ '' or '' @ ''`'' @ b"]) (simp add: quotato_def)
next
  case (4 a b c cs)
  obtain q where "join '', '' (map quotato (a # b # c # cs)) = q @ ''`''"
    using join_backtick by blast
  then show ?case by (intro exI [of _ "'', expected one of '' @ q"]) (simp only: attesi.simps append_assoc)
qed simp

text \<open>The two forms of \<open>serde\<close> that quote what is written, for any written text.\<close>

lemma forma_sconosciuta:
  assumes "nomi \<noteq> []" and "list_all identificatore nomi"
  shows "forma_elenco (p @ attesi nomi) sconosciuto '', there are no fields'' ammessi
      = sconosciuto @ ''; '' @ ammessi @ '': '' @ join '', '' (map quotato nomi)"
    and "forma_elenco (p @ attesi nomi) sconosciuto '', there are no variants'' ammessi
      = sconosciuto @ ''; '' @ ammessi @ '': '' @ join '', '' (map quotato nomi)"
proof -
  obtain q' where "attesi nomi = q' @ ''`''"
    using attesi_backtick [OF assms(1)] by blast
  then obtain q where q: "p @ attesi nomi = q @ ''`''"
    by (metis append_assoc)
  have "\<not> ends_with (q @ ''`'') '', there are no fields''" "\<not> ends_with (q @ ''`'') '', there are no variants''"
    by (rule not_ends_with; simp)+
  then show "forma_elenco (p @ attesi nomi) sconosciuto '', there are no fields'' ammessi
      = sconosciuto @ ''; '' @ ammessi @ '': '' @ join '', '' (map quotato nomi)"
    and "forma_elenco (p @ attesi nomi) sconosciuto '', there are no variants'' ammessi
      = sconosciuto @ ''; '' @ ammessi @ '': '' @ join '', '' (map quotato nomi)"
    by (simp_all add: forma_elenco_def nomi_attesi_scritti [OF assms] flip: q)
qed

text \<open>The description of an unknown field or variant names the admitted names and nothing else, whatever the
  document wrote: a written name that imitates the list of \<open>serde\<close>, quotes included, does not reach the message.\<close>

theorem written_name_never_described:
  assumes "nomi \<noteq> []" and "list_all identificatore nomi"
  shows "descrivi_forma_nota (''unknown field `'' @ scritto @ ''`'' @ attesi nomi)
      = Some (''campo sconosciuto; campi ammessi: '' @ join '', '' (map quotato nomi))
    \<and> descrivi_forma_nota (''unknown variant `'' @ scritto @ ''`'' @ attesi nomi)
      = Some (''valore sconosciuto; valori ammessi: '' @ join '', '' (map quotato nomi))"
  using forma_sconosciuta(1) [OF assms, of "''unknown field `'' @ scritto @ ''`''" "''campo sconosciuto''" "''campi ammessi''"]
    forma_sconosciuta(2) [OF assms, of "''unknown variant `'' @ scritto @ ''`''" "''valore sconosciuto''" "''valori ammessi''"]
  by (simp add: descrivi_forma_nota_def nome_singolo_def strip_prefix_def MESSAGGI_STATICI_def
      MESSAGGIO_NULL_NON_AMMESSO_def MESSAGGIO_NUMERO_NON_ESATTO_def MESSAGGIO_INCLUDE_UNCHANGED_def)

theorem written_name_never_described_witness:
  "descrivi_forma_nota (''unknown field `x`, expected `segreto`, expected `a` or `b`'')
    = Some (''campo sconosciuto; campi ammessi: `a`, `b`'')"
  using written_name_never_described [of "[''a'', ''b'']" "''x`, expected `segreto''"]
  by (simp add: identificatore_def is_ascii_alphanumeric_def is_ascii_lowercase_def byte_of_def quotato_def)

section \<open>The canonical form of a decimal\<close>

definition valore_canonico :: "bool \<times> string \<times> int \<Rightarrow> rat" where
  "valore_canonico x = (case x of (negativo, cifre, e) \<Rightarrow>
     (if negativo then - 1 else 1) * of_nat (valore_decimale cifre) * 10 powi e)"

definition canonico :: "bool \<times> string \<times> int \<Rightarrow> bool" where
  "canonico x \<longleftrightarrow> (case x of (negativo, cifre, e) \<Rightarrow>
     list_all is_ascii_digit cifre
     \<and> (if cifre = [] then \<not> negativo \<and> e = 0 else hd cifre \<noteq> CHR ''0'' \<and> last cifre \<noteq> CHR ''0''))"

lemma digit_char_cifra: "is_ascii_digit c \<Longrightarrow> digit_char (cifra_decimale c) = c"
  by (simp add: is_ascii_digit_def digit_char_def cifra_decimale_def byte_of_def)

lemma cifra_lt: "is_ascii_digit c \<Longrightarrow> cifra_decimale c < 10"
  by (auto simp: is_ascii_digit_def cifra_decimale_def)

lemma cifra_zero: "is_ascii_digit c \<Longrightarrow> cifra_decimale c = 0 \<longleftrightarrow> c = CHR ''0''"
proof -
  assume c: "is_ascii_digit c"
  have "digit_char 0 = CHR ''0''"
    using digit_char_cifra [of "CHR ''0''"] by (simp add: is_ascii_digit_def cifra_decimale_def byte_of_def)
  with digit_char_cifra [OF c] show ?thesis
    by (auto simp: cifra_decimale_def byte_of_def)
qed

lemma valore_decimale_Nil [simp]: "valore_decimale [] = 0"
  by (simp add: valore_decimale_def)

lemma valore_decimale_zeri: "valore_decimale (dropWhile (\<lambda>c. c = CHR ''0'') s) = valore_decimale s"
proof (induction s)
  case (Cons c s)
  have "valore_decimale (CHR ''0'' # s) = valore_decimale s"
    by (simp add: valore_decimale_def cifra_decimale_def byte_of_def)
  with Cons show ?case by auto
qed simp

lemma show_nat_valore:
  "list_all is_ascii_digit s \<Longrightarrow> s \<noteq> [] \<Longrightarrow> hd s \<noteq> CHR ''0'' \<Longrightarrow>
     show_nat (valore_decimale s) = s \<and> 0 < valore_decimale s"
proof (induction s rule: rev_induct)
  case (snoc d xs)
  then have d: "is_ascii_digit d" by simp
  show ?case
  proof (cases "xs = []")
    case True
    with snoc.prems d show ?thesis
      using cifra_lt [OF d] cifra_zero [OF d]
      by (subst show_nat.simps) (simp add: valore_decimale_snoc [of "[]", simplified] digit_char_cifra)
  next
    case False
    with snoc have "show_nat (valore_decimale xs) = xs" "0 < valore_decimale xs" by auto
    with cifra_lt [OF d] digit_char_cifra [OF d] show ?thesis
      by (subst show_nat.simps) (simp add: valore_decimale_snoc)
  qed
qed simp

lemma valore_not_div10:
  assumes "list_all is_ascii_digit s" "s \<noteq> []" "last s \<noteq> CHR ''0''"
  shows "\<not> 10 dvd valore_decimale s"
proof -
  obtain xs d where s: "s = xs @ [d]" using assms(2) by (cases s rule: rev_cases) auto
  then have d: "is_ascii_digit d" "cifra_decimale d \<noteq> 0" "cifra_decimale d < 10"
    using assms cifra_zero [of d] cifra_lt [of d] by auto
  have "valore_decimale s mod 10 = cifra_decimale d"
    using d(3) by (simp add: s valore_decimale_snoc mod_Suc mod_mult_self4)
  with d(2) show ?thesis by (simp add: dvd_eq_mod_eq_0)
qed

lemma not_div10_le:
  fixes n m :: nat
  assumes "(of_nat n :: rat) * 10 powi e = of_nat m * 10 powi f" and "\<not> 10 dvd n"
  shows "f \<le> e"
proof (rule ccontr)
  assume "\<not> f \<le> e"
  then obtain k where k: "f = e + int (Suc k)" by (metis add_Suc_right not_le zless_iff_Suc_zadd)
  have "(of_nat n :: rat) * 10 powi e = of_nat (m * 10 ^ Suc k) * 10 powi e"
    using assms(1) by (simp add: k power_int_add)
  then have "(of_nat n :: rat) = of_nat (m * 10 ^ Suc k)" by simp
  then have "n = m * 10 ^ Suc k" by (simp only: of_nat_eq_iff)
  then show False using assms(2) by simp
qed

text \<open>A value has one canonical form.\<close>

lemma canonico_unique:
  assumes "canonico x" and "canonico y" and "valore_canonico x = valore_canonico y"
  shows "x = y"
proof -
  obtain n c e m d f where x: "x = (n, c, e)" and y: "y = (m, d, f)" by (cases x; cases y)
  have digits: "list_all is_ascii_digit c" "list_all is_ascii_digit d"
    using assms(1,2) by (auto simp: x y canonico_def)
  have pos: "0 < valore_decimale c \<longleftrightarrow> c \<noteq> []" "0 < valore_decimale d \<longleftrightarrow> d \<noteq> []"
    using assms(1,2) show_nat_valore [of c] show_nat_valore [of d] by (auto simp: x y canonico_def)
  show ?thesis
  proof (cases "c = []")
    case True
    then have "valore_decimale d = 0" using assms(3) by (auto simp: x y valore_canonico_def split: if_splits)
    with pos have "d = []" by auto
    with True assms(1,2) show ?thesis by (simp add: x y canonico_def)
  next
    case False
    with pos have c: "0 < valore_decimale c" by simp
    then have d: "d \<noteq> []" using assms(3) by (cases n) (auto simp: x y valore_canonico_def)
    with pos have d0: "0 < valore_decimale d" by simp
    have p: "(0 :: rat) < of_nat (valore_decimale c) * 10 powi e" "(0 :: rat) < of_nat (valore_decimale d) * 10 powi f"
      using c d0 by simp_all
    with assms(3) have eq: "(of_nat (valore_decimale c) :: rat) * 10 powi e = of_nat (valore_decimale d) * 10 powi f"
      and nm: "n = m"
      by (auto simp: x y valore_canonico_def split: if_splits)
    have "\<not> 10 dvd valore_decimale c" "\<not> 10 dvd valore_decimale d"
      using assms(1,2) False d valore_not_div10 [of c] valore_not_div10 [of d] by (simp_all add: x y canonico_def)
    with not_div10_le [OF eq] not_div10_le [OF eq [symmetric]] have "e = f" by simp
    with eq have "valore_decimale c = valore_decimale d" by simp
    moreover have "show_nat (valore_decimale c) = c" "show_nat (valore_decimale d) = d"
      using show_nat_valore [of c] show_nat_valore [of d] assms(1,2) False d by (simp_all add: x y canonico_def)
    ultimately have "c = d" by metis
    with nm \<open>e = f\<close> show ?thesis by (simp add: x y)
  qed
qed

lemma togli_zeri_spec:
  "togli_zeri s e = Some (c, f) \<Longrightarrow> list_all is_ascii_digit s \<Longrightarrow>
     (of_nat (valore_decimale s) :: rat) * 10 powi e = of_nat (valore_decimale c) * 10 powi f
     \<and> list_all is_ascii_digit c \<and> (c \<noteq> [] \<longrightarrow> hd c = hd s \<and> last c \<noteq> CHR ''0'')"
proof (induction s e arbitrary: c f rule: togli_zeri.induct)
  case (1 s e)
  show ?case
  proof (cases "s \<noteq> [] \<and> last s = CHR ''0''")
    case False
    with 1 show ?thesis by (auto simp: togli_zeri.simps [of s e])
  next
    case True
    then obtain xs where s: "s = xs @ [CHR ''0'']" by (metis append_butlast_last_id)
    from True 1 obtain e' where e': "i64_checked (e + 1) = Some e'" "togli_zeri xs e' = Some (c, f)"
      by (auto simp: togli_zeri.simps [of "xs @ ''0''" e] s split: option.splits)
    then have f1: "e' = e + 1" by (simp add: i64_checked_def split: if_splits)
    have v: "valore_decimale s = 10 * valore_decimale xs"
      by (simp add: s valore_decimale_snoc cifra_decimale_def byte_of_def)
    have ih: "(of_nat (valore_decimale xs) :: rat) * 10 powi e' = of_nat (valore_decimale c) * 10 powi f
        \<and> list_all is_ascii_digit c \<and> (c \<noteq> [] \<longrightarrow> hd c = hd xs \<and> last c \<noteq> CHR ''0'')"
      using "1.IH" [OF True e'(1)] "1.prems"(2) e'(2) by (simp add: s)
    have "c \<noteq> [] \<Longrightarrow> xs \<noteq> []"
      using e'(2) by (auto simp: togli_zeri.simps [of "[]"])
    moreover have "(of_nat (valore_decimale s) :: rat) * 10 powi e = of_nat (valore_decimale xs) * 10 powi e'"
      by (simp add: v f1 power_int_add mult_ac)
    ultimately show ?thesis using ih by (simp add: s)
  qed
qed

section \<open>The comparison of two texts is the comparison of their values\<close>

definition cifre :: "string \<Rightarrow> bool" where
  "cifre s \<longleftrightarrow> s \<noteq> [] \<and> list_all is_ascii_digit s"

text \<open>The grammar of a decimal and its value: the parts of the text, and the exponent they denote.\<close>

definition esponente_scritto :: "string \<Rightarrow> int \<Rightarrow> bool" where
  "esponente_scritto esp e \<longleftrightarrow>
     esp = [] \<and> e = 0
     \<or> (\<exists>c s d. esp = c # s @ d \<and> c \<in> set ''eE'' \<and> s \<in> {[], ''+'', ''-''} \<and> cifre d
          \<and> e = (if s = ''-'' then - int (valore_decimale d) else int (valore_decimale d)))"

definition frazione_scritta :: "string \<Rightarrow> string \<Rightarrow> bool" where
  "frazione_scritta punto frazione \<longleftrightarrow>
     punto = [] \<and> frazione = [] \<or> punto = CHR ''.'' # frazione \<and> cifre frazione"

definition scrittura :: "string \<Rightarrow> rat \<Rightarrow> bool" where
  "scrittura token x \<longleftrightarrow>
     (\<exists>segno intera punto frazione esp e.
        token = segno @ intera @ punto @ esp \<and> segno \<in> {[], ''+'', ''-''} \<and> cifre intera
        \<and> frazione_scritta punto frazione \<and> esponente_scritto esp e
        \<and> x = (if segno = ''-'' then - 1 else 1) * of_nat (valore_decimale (intera @ frazione))
               * 10 powi (e - int (length frazione)))"

lemma split_once_found: "set a \<inter> set cs = {} \<Longrightarrow> c \<in> set cs \<Longrightarrow> split_once cs (a @ c # b) = Some (a, b)"
proof -
  assume "set a \<inter> set cs = {}" "c \<in> set cs"
  then have "takeWhile (\<lambda>c. c \<notin> set cs) (a @ c # b) = a" by (subst takeWhile_append2) auto
  then show ?thesis by (simp add: split_once_def Let_def)
qed

lemma split_once_none: "set s \<inter> set cs = {} \<Longrightarrow> split_once cs s = None"
proof -
  assume "set s \<inter> set cs = {}"
  then have "takeWhile (\<lambda>c. c \<notin> set cs) s = s" by (subst takeWhile_eq_all_conv) auto
  then show ?thesis by (simp add: split_once_def Let_def del: takeWhile_eq_all_conv)
qed

lemma cifre_no: "cifre s \<Longrightarrow> \<not> is_ascii_digit c \<Longrightarrow> c \<notin> set s"
  by (auto simp: cifre_def list_all_iff)

lemma cifre_set: "cifre s \<Longrightarrow> set s \<inter> set ''eE'' = {} \<and> set s \<inter> set ''.'' = {}"
  using cifre_no [of s "CHR ''e''"] cifre_no [of s "CHR ''E''"] cifre_no [of s "CHR ''.''"]
  by (auto simp: is_ascii_digit_def byte_of_def)

lemma cifre_hd: "cifre s \<Longrightarrow> \<not> starts_with (s @ r) ''+'' \<and> \<not> starts_with (s @ r) ''-''"
  by (cases s) (auto simp: cifre_def is_ascii_digit_def byte_of_def)

lemma strip_prefix_cifre:
  assumes "cifre d"
  shows "strip_prefix (d @ r) ''+'' = None" "strip_prefix (d @ r) ''-'' = None"
  using cifre_hd [OF assms, of r] by (simp_all add: strip_prefix_def)

lemma parse_i64_scritto:
  assumes "cifre d" and "s \<in> {[], ''+'', ''-''}" and "parse_i64 (s @ d) = Some e"
  shows "e = (if s = ''-'' then - int (valore_decimale d) else int (valore_decimale d))"
proof -
  note no = strip_prefix_cifre [OF assms(1), of "[]", simplified]
  have plus: "strip_prefix (''+'' @ d) ''-'' = None" "strip_prefix (''+'' @ d) ''+'' = Some d"
    "strip_prefix (''-'' @ d) ''-'' = Some d"
    by (simp_all add: strip_prefix_def)
  from assms(2,3) show ?thesis
    by (auto simp: parse_i64_def parse_unsigned_def no plus [simplified] split: if_splits)
qed

lemma decimale_canonico_scritto:
  assumes "decimale_canonico (segno @ intera @ punto @ esp) = Some n" and "segno \<in> {[], ''-''}" and "cifre intera"
    and "frazione_scritta punto frazione" and "esponente_scritto esp e"
  shows "canonico n \<and> valore_canonico n =
    (if segno = ''-'' then - 1 else 1) * of_nat (valore_decimale (intera @ frazione)) * 10 powi (e - int (length frazione))"
proof -
  let ?resto = "intera @ punto @ esp"
  have segno: "(case strip_prefix (segno @ ?resto) ''-'' of None \<Rightarrow> (False, segno @ ?resto) | Some r \<Rightarrow> (True, r))
      = (segno = ''-'', ?resto)"
    using assms(2) strip_prefix_cifre(2) [OF assms(3), of "punto @ esp"] by (auto simp: strip_prefix_def)
  have nessuna: "set (intera @ punto) \<inter> set ''eE'' = {}"
    using cifre_set [OF assms(3)] cifre_set [of frazione] assms(4) by (auto simp: frazione_scritta_def)
  have parti: "(case split_once ''.'' (intera @ punto) of None \<Rightarrow> (intera @ punto, []) | Some p \<Rightarrow> p) = (intera, frazione)"
    using cifre_set [OF assms(3)] assms(4)
    by (auto simp: frazione_scritta_def split_once_none split_once_found)
  have frazione: "list_all is_ascii_digit (intera @ frazione)"
    using assms(3,4) by (auto simp: frazione_scritta_def cifre_def)
  have spezza: "m = intera @ punto \<and> z = e"
    if "(case split_once ''eE'' ?resto of Some (m, e) \<Rightarrow> map_option (\<lambda>e. (m, e)) (parse_i64 e)
      | None \<Rightarrow> Some (?resto, 0)) = Some (m, z)" for m z
    using assms(5) unfolding esponente_scritto_def
  proof (elim disjE exE conjE)
    assume "esp = []" "e = 0"
    with that split_once_none [OF nessuna] show ?thesis by simp
  next
    fix c s d
    assume esp: "esp = c # s @ d" "c \<in> set ''eE''" "s \<in> {[], ''+'', ''-''}" "cifre d"
      and e: "e = (if s = ''-'' then - int (valore_decimale d) else int (valore_decimale d))"
    have "split_once ''eE'' ?resto = Some (intera @ punto, s @ d)"
      using split_once_found [OF nessuna esp(2), of "s @ d"] by (simp add: esp(1))
    with that obtain z' where "parse_i64 (s @ d) = Some z'" "m = intera @ punto" "z = z'" by auto
    with parse_i64_scritto [OF esp(4,3)] e show ?thesis by simp
  qed
  have "(case split_once ''eE'' ?resto of Some (m, e) \<Rightarrow> map_option (\<lambda>e. (m, e)) (parse_i64 e)
      | None \<Rightarrow> Some (?resto, 0)) \<noteq> None"
    using assms(1) unfolding decimale_canonico_def Let_def segno prod.case by (metis option.case(1) option.distinct(1))
  with spezza have S: "(case split_once ''eE'' ?resto of Some (m, e) \<Rightarrow> map_option (\<lambda>e. (m, e)) (parse_i64 e)
      | None \<Rightarrow> Some (?resto, 0)) = Some (intera @ punto, e)" by (metis not_None_eq surj_pair)
  from assms(1) obtain c f where
    zeri: "togli_zeri (dropWhile (\<lambda>c. c = CHR ''0'') (intera @ frazione)) (e - int (length frazione)) = Some (c, f)"
    and n: "n = (if c = [] then (False, [], 0) else (segno = ''-'', c, f))"
    unfolding decimale_canonico_def Let_def segno prod.case S option.case parti
    by (auto simp: i64_checked_def simp del: dropWhile_append split: option.splits if_splits)
  have "list_all is_ascii_digit (dropWhile (\<lambda>c. c = CHR ''0'') (intera @ frazione))"
    using frazione by (auto simp: list_all_iff dest: set_dropWhileD)
  from togli_zeri_spec [OF zeri this]
  have spec: "of_nat (valore_decimale (intera @ frazione)) * 10 powi (e - int (length frazione))
        = (of_nat (valore_decimale c) :: rat) * 10 powi f"
      "list_all is_ascii_digit c" "c \<noteq> [] \<Longrightarrow> hd c = hd (dropWhile (\<lambda>c. c = CHR ''0'') (intera @ frazione))"
      "c \<noteq> [] \<Longrightarrow> last c \<noteq> CHR ''0''"
    by (auto simp: valore_decimale_zeri)
  have "c \<noteq> [] \<Longrightarrow> hd c \<noteq> CHR ''0''"
  proof -
    assume c: "c \<noteq> []"
    have "dropWhile (\<lambda>c. c = CHR ''0'') (intera @ frazione) \<noteq> []"
    proof
      assume "dropWhile (\<lambda>c. c = CHR ''0'') (intera @ frazione) = []"
      with zeri have "togli_zeri [] (e - int (length frazione)) = Some (c, f)" by (simp only:)
      with c show False by (simp add: togli_zeri.simps [of "[]"])
    qed
    from hd_dropWhile [OF this] show ?thesis by (simp only: spec(3) [OF c] not_False_eq_True)
  qed
  with spec(2,4) have "canonico n" by (simp add: n canonico_def)
  moreover have "valore_canonico n = (if segno = ''-'' then - 1 else 1) * (of_nat (valore_decimale c) * 10 powi f)"
    by (cases "c = []") (simp_all add: n valore_canonico_def)
  ultimately show ?thesis by (simp only: mult.assoc spec(1))
qed

lemma normalizza_scritto:
  assumes "scrittura token x" and "normalizza_numero token = Inr n"
  shows "canonico n \<and> valore_canonico n = x"
proof -
  obtain segno intera punto frazione esp e where token: "token = segno @ intera @ punto @ esp" "segno \<in> {[], ''+'', ''-''}"
    "cifre intera" "frazione_scritta punto frazione" "esponente_scritto esp e"
    and x: "x = (if segno = ''-'' then - 1 else 1) * of_nat (valore_decimale (intera @ frazione))
               * 10 powi (e - int (length frazione))"
    using assms(1) unfolding scrittura_def by blast
  let ?segno = "if segno = ''+'' then [] else segno"
  have "(case strip_prefix token ''+'' of None \<Rightarrow> token | Some r \<Rightarrow> r) = ?segno @ intera @ punto @ esp"
    using token(1,2) strip_prefix_cifre(1) [OF token(3), of "punto @ esp"] by (auto simp: strip_prefix_def)
  then have "decimale_canonico (?segno @ intera @ punto @ esp) = Some n"
    using assms(2) by (auto simp: normalizza_numero_def Let_def ok_or_Inr_iff split: if_splits prod.splits)
  from decimale_canonico_scritto [OF this _ token(3-5)] token(2) show ?thesis
    by (auto simp: x)
qed

text \<open>C24. Two numbers of two definitions of a reference system are equal for the comparison exactly when the decimals
  written have the same value, whatever their form: no conversion to a double takes part.\<close>

theorem numeri_uguali_exact:
  assumes "scrittura a x" and "scrittura b y" and "numeri_uguali a b = Inr r"
  shows "r \<longleftrightarrow> x = y"
proof -
  obtain n m where n: "normalizza_numero a = Inr n" "normalizza_numero b = Inr m" and r: "r \<longleftrightarrow> n = m"
    using assms(3) unfolding numeri_uguali_def try_bind_Inr_iff map_ok_Inr_iff by blast
  from normalizza_scritto [OF assms(1) n(1)] normalizza_scritto [OF assms(2) n(2)] canonico_unique [of n m] r
  show ?thesis by auto
qed

theorem numeri_uguali_exact_witness: "numeri_uguali ''0.0150'' ''+15e-3'' = Inr True"
proof -
  have a: "scrittura ''0.0150'' (15 / 1000)"
    unfolding scrittura_def
    by (rule exI [of _ "[]"], rule exI [of _ "''0''"], rule exI [of _ "''.0150''"], rule exI [of _ "''0150''"],
        rule exI [of _ "[]"], rule exI [of _ 0])
      (simp add: cifre_def is_ascii_digit_def byte_of_def frazione_scritta_def esponente_scritto_def valore_decimale_def
        cifra_decimale_def power_int_def power_divide)
  have b: "scrittura ''+15e-3'' (15 / 1000)"
    unfolding scrittura_def
    by (rule exI [of _ "''+''"], rule exI [of _ "''15''"], rule exI [of _ "[]"], rule exI [of _ "[]"],
        rule exI [of _ "''e-3''"], rule exI [of _ "- 3"])
      (simp add: cifre_def is_ascii_digit_def byte_of_def frazione_scritta_def esponente_scritto_def valore_decimale_def
        cifra_decimale_def power_int_def power_divide)
  have "\<exists>r. numeri_uguali ''0.0150'' ''+15e-3'' = Inr r"
    by (simp add: numeri_uguali_def normalizza_numero_def MAX_CRS_DEFINITION_BYTES_def strip_prefix_def split_once_def
        is_ascii_digit_def byte_of_def decimale_canonico_def parse_i64_def parse_unsigned_def valore_decimale_def
        cifra_decimale_def i64_checked_def togli_zeri.simps Let_def) blast
  with numeri_uguali_exact [OF a b] show ?thesis by auto
qed

section \<open>What a document without repeated keys is\<close>

fun chiavi_uniche :: "albero \<Rightarrow> bool"
  and chiavi_uniche_elenco :: "albero list \<Rightarrow> bool"
  and chiavi_uniche_voci :: "(string \<times> albero) list \<Rightarrow> bool" where
  "chiavi_uniche Scalare = True"
| "chiavi_uniche Interrotto = True"
| "chiavi_uniche (Elenco xs) = chiavi_uniche_elenco xs"
| "chiavi_uniche (Oggetto kvs _) =
     (distinct (map fst kvs) \<and> CHIAVE_RISERVATA_SERDE_JSON \<notin> fst ` set kvs \<and> chiavi_uniche_voci kvs)"
| "chiavi_uniche_elenco [] = True"
| "chiavi_uniche_elenco (x # xs) = (chiavi_uniche x \<and> chiavi_uniche_elenco xs)"
| "chiavi_uniche_voci [] = True"
| "chiavi_uniche_voci ((_, x) # kvs) = (chiavi_uniche x \<and> chiavi_uniche_voci kvs)"

fun completo :: "albero \<Rightarrow> bool"
  and completo_elenco :: "albero list \<Rightarrow> bool"
  and completo_voci :: "(string \<times> albero) list \<Rightarrow> bool" where
  "completo Scalare = True"
| "completo Interrotto = False"
| "completo (Elenco xs) = completo_elenco xs"
| "completo (Oggetto kvs interrotto) = (\<not> interrotto \<and> completo_voci kvs)"
| "completo_elenco [] = True"
| "completo_elenco (x # xs) = (completo x \<and> completo_elenco xs)"
| "completo_voci [] = True"
| "completo_voci ((_, x) # kvs) = (completo x \<and> completo_voci kvs)"

lemma visita_completa:
  "completo a \<Longrightarrow> visita_albero a \<noteq> Inl ErroreSintassi \<and> (visita_albero a = Inr () \<longleftrightarrow> chiavi_uniche a)"
  "completo_elenco xs \<Longrightarrow> visita_elenco xs \<noteq> Inl ErroreSintassi \<and> (visita_elenco xs = Inr () \<longleftrightarrow> chiavi_uniche_elenco xs)"
  "completo_voci kvs \<Longrightarrow> visita_oggetto seen kvs \<noteq> Inl ErroreSintassi
     \<and> (visita_oggetto seen kvs = Inr () \<longleftrightarrow>
          distinct (map fst kvs) \<and> fst ` set kvs \<inter> seen = {} \<and> CHIAVE_RISERVATA_SERDE_JSON \<notin> fst ` set kvs
          \<and> chiavi_uniche_voci kvs)"
proof (induction a and xs and seen kvs rule: visita_albero_visita_elenco_visita_oggetto.induct)
  case (4 kvs interrotto)
  then show ?case by (cases "visita_oggetto {} kvs") (simp_all add: try_bind_def)
next
  case (6 x xs)
  then show ?case by (cases "visita_albero x") (simp_all add: try_bind_def)
next
  case (8 seen key x kvs)
  have x: "visita_albero x \<noteq> Inl ErroreSintassi" "visita_albero x = Inr () \<longleftrightarrow> chiavi_uniche x"
    using 8(1) 8(3) by simp_all
  show ?case
  proof (cases "visita_albero x = Inr () \<and> key \<noteq> CHIAVE_RISERVATA_SERDE_JSON \<and> key \<notin> seen")
    case True
    moreover have "completo_voci kvs" using 8(3) by simp
    ultimately show ?thesis using 8(2) x(2) by (auto simp: try_bind_def)
  next
    case False
    then show ?thesis using x by (cases "visita_albero x") (auto simp: try_bind_def)
  qed
qed simp_all

text \<open>C23. The guard on the JSON of control accepts a document that the parser reads to the end exactly when, at every
  depth, no object repeats a key and none uses the key that \<open>serde_json\<close> reserves.\<close>

theorem duplicate_keys_refused:
  assumes "completo (leggi testo)"
  shows "ensure_no_duplicate_keys leggi posizione testo = Inr () \<longleftrightarrow> chiavi_uniche (leggi testo)"
proof (cases "visita_albero (leggi testo)")
  case (Inl e)
  then have "e \<noteq> ErroreSintassi" and "\<not> chiavi_uniche (leggi testo)"
    using visita_completa(1) [OF assms] by simp_all
  with Inl show ?thesis by (cases e) (simp_all add: ensure_no_duplicate_keys_def)
next
  case (Inr u)
  then have "chiavi_uniche (leggi testo)" using visita_completa(1) [OF assms] by simp
  with Inr show ?thesis unfolding ensure_no_duplicate_keys_def by (simp split: unit.split)
qed

theorem duplicate_keys_refused_witness:
  "ensure_no_duplicate_keys (\<lambda>_. Oggetto [(''a'', Scalare), (''b'', Elenco [Oggetto [(''c'', Scalare), (''c'', Scalare)] False])] False)
     (\<lambda>_. (1, 2)) ''{}'' \<noteq> Inr ()"
  using duplicate_keys_refused [of "\<lambda>_. Oggetto [(''a'', Scalare), (''b'', Elenco [Oggetto [(''c'', Scalare), (''c'', Scalare)] False])] False" "''{}''"]
  by (simp add: CHIAVE_RISERVATA_SERDE_JSON_def)

end
