(* ===== verification/Crs.thy ===== *)
theory Crs
  imports CrsTable Json
begin

text \<open>
  Resolved reference systems, \<open>crs.rs\<close> and \<open>crs/integrati.rs\<close> of \<open>crates/plenora-core\<close>: the errors with their
  stable codes, the identifiers of an authority, the search of the built-in table and its canonical documents, the
  form of a definition, the requirements of an operation and the domain of the coordinates.

  A double is written in a message by the standard library; \<open>mostra\<close> is that writing.  The JSON parser is the
  parameter \<open>lettore\<close>: the tree with repeated keys, the position of an error, the value.
\<close>

section \<open>Errors\<close>

datatype coordinate_domain_violation =
  NonFinite
| LongitudeOutOfRange
| LatitudeOutOfRange
| EastingOutOfValidityDomain
| NorthingOutOfValidityDomain
| OutsideProjectionRegion

fun violation_testo :: "coordinate_domain_violation \<Rightarrow> string" where
  "violation_testo NonFinite = ''coordinata non finita''"
| "violation_testo LongitudeOutOfRange = ''longitudine fuori da -180..=180''"
| "violation_testo LatitudeOutOfRange = ''latitudine fuori da -90..=90''"
| "violation_testo EastingOutOfValidityDomain =
     ''easting fuori dal dominio di validita'' @ [CHR 0x27] @ '' del CRS proiettato''"
| "violation_testo NorthingOutOfValidityDomain =
     ''northing fuori dal dominio di validita'' @ [CHR 0x27] @ '' del CRS proiettato''"
| "violation_testo OutsideProjectionRegion =
     ''coordinata fuori dalla regione lon/lat del dominio della proiezione''"

datatype crs_error =
  CrsRequired string
| CrsInvalidDefinition string string \<comment> \<open>\<open>name\<close>, \<open>reason\<close>\<close>
| CrsBackendUnavailable
| CrsNotBuiltin
| CrsUnsupportedType string
| CrsMissingLinearUnit
| CrsProjectedRequired crs_kind
| CrsGeographicRequired crs_kind
| CrsEllipsoidRequired
| CrsMismatch
| CrsCoordinateOutOfDomain coordinate_domain_violation
| CrsInvalidContract string
| ReprojectionPathUnavailable
| ReprojectionAccuracyNotAccepted f64
| ReprojectionConfig string
| ReprojectionOutsideTransformationArea
| ReprojectionMixedTransformationAreas
| ReprojectionNotConverged
| ReprojectionEdgeNotConverged
| GridUnreadable
| GridInvalid string

fun crs_code :: "crs_error \<Rightarrow> string" where
  "crs_code (CrsRequired _) = ''CRS_REQUIRED''"
| "crs_code (CrsInvalidDefinition _ _) = ''CRS_INVALID''"
| "crs_code CrsBackendUnavailable = ''CRS_BACKEND_UNAVAILABLE''"
| "crs_code CrsNotBuiltin = ''CRS_NOT_BUILTIN''"
| "crs_code (CrsUnsupportedType _) = ''CRS_TYPE_UNSUPPORTED''"
| "crs_code CrsMissingLinearUnit = ''LINEAR_UNIT_REQUIRED''"
| "crs_code (CrsProjectedRequired _) = ''PROJECTED_CRS_REQUIRED''"
| "crs_code (CrsGeographicRequired _) = ''GEOGRAPHIC_CRS_REQUIRED''"
| "crs_code CrsEllipsoidRequired = ''ELLIPSOID_REQUIRED''"
| "crs_code CrsMismatch = ''CRS_MISMATCH''"
| "crs_code (CrsCoordinateOutOfDomain _) = ''COORDINATE_OUT_OF_CRS_DOMAIN''"
| "crs_code (CrsInvalidContract _) = ''CRS_CONTRACT_INVALID''"
| "crs_code ReprojectionPathUnavailable = ''REPROJECTION_PATH_UNAVAILABLE''"
| "crs_code (ReprojectionAccuracyNotAccepted _) = ''REPROJECTION_ACCURACY_NOT_ACCEPTED''"
| "crs_code (ReprojectionConfig _) = ''REPROJECTION_CONFIG_INVALID''"
| "crs_code ReprojectionOutsideTransformationArea = ''REPROJECTION_OUTSIDE_TRANSFORMATION_AREA''"
| "crs_code ReprojectionMixedTransformationAreas = ''REPROJECTION_MIXED_TRANSFORMATION_AREAS''"
| "crs_code ReprojectionNotConverged = ''REPROJECTION_NOT_CONVERGED''"
| "crs_code ReprojectionEdgeNotConverged = ''REPROJECTION_EDGE_NOT_CONVERGED''"
| "crs_code GridUnreadable = ''NTV2_GRID_UNREADABLE''"
| "crs_code (GridInvalid _) = ''NTV2_GRID_INVALID''"

fun crs_kind_debug :: "crs_kind \<Rightarrow> string" where
  "crs_kind_debug KGeographic = ''Geographic''"
| "crs_kind_debug KProjected = ''Projected''"

fun crs_message :: "(f64 \<Rightarrow> string) \<Rightarrow> crs_error \<Rightarrow> string" where
  "crs_message mostra (CrsRequired name) = ''CRS_REQUIRED: '' @ name @ '' e'' @ [CHR 0x27] @ '' obbligatorio''"
| "crs_message mostra (CrsInvalidDefinition name reason) = ''CRS_INVALID: '' @ name @ '': '' @ reason"
| "crs_message mostra CrsBackendUnavailable =
     ''CRS_BACKEND_UNAVAILABLE: formato di definizione CRS non implementato''"
| "crs_message mostra CrsNotBuiltin =
     ''CRS_NOT_BUILTIN: definizione non equivalente a un CRS della tabella integrata''"
| "crs_message mostra (CrsUnsupportedType _) = ''CRS_TYPE_UNSUPPORTED: tipo PROJJSON non supportato''"
| "crs_message mostra CrsMissingLinearUnit =
     ''LINEAR_UNIT_REQUIRED: il CRS proiettato non dichiara un'' @ [CHR 0x27] @ ''unita'' @ [CHR 0x27] @
     '' lineare orizzontale valida''"
| "crs_message mostra (CrsProjectedRequired actual) =
     ''PROJECTED_CRS_REQUIRED: ricevuto CRS '' @ crs_kind_debug actual"
| "crs_message mostra (CrsGeographicRequired actual) =
     ''GEOGRAPHIC_CRS_REQUIRED: ricevuto CRS '' @ crs_kind_debug actual"
| "crs_message mostra CrsEllipsoidRequired =
     ''ELLIPSOID_REQUIRED: le misure geodetiche richiedono l'' @ [CHR 0x27] @
     ''ellissoide del datum del CRS (un CRS della tabella integrata)''"
| "crs_message mostra CrsMismatch = ''CRS_MISMATCH: gli input non usano lo stesso CRS''"
| "crs_message mostra (CrsCoordinateOutOfDomain violation) =
     ''COORDINATE_OUT_OF_CRS_DOMAIN: '' @ violation_testo violation"
| "crs_message mostra (CrsInvalidContract s) = ''CRS_CONTRACT_INVALID: '' @ s"
| "crs_message mostra ReprojectionPathUnavailable =
     ''REPROJECTION_PATH_UNAVAILABLE: nessun percorso di trasformazioni EPSG collega i due datum (senza griglie, o con le sole griglie NTv2 fornite)''"
| "crs_message mostra (ReprojectionAccuracyNotAccepted accuracy_m) =
     ''REPROJECTION_ACCURACY_NOT_ACCEPTED: il percorso migliore fra i due datum ha accuratezza EPSG di '' @ mostra accuracy_m @
     '' m, oltre la precisione di 0.01 m: dichiarare `accuratezza_accettata_m` almeno pari, e il risultato vale solo entro quella accuratezza''"
| "crs_message mostra (ReprojectionConfig s) = ''REPROJECTION_CONFIG_INVALID: '' @ s"
| "crs_message mostra ReprojectionOutsideTransformationArea =
     ''REPROJECTION_OUTSIDE_TRANSFORMATION_AREA: la geometria esce dall'' @ [CHR 0x27] @
     ''area d'' @ [CHR 0x27] @ ''uso di ogni percorso ammesso fra i due datum (o dalle griglie fornite)''"
| "crs_message mostra ReprojectionMixedTransformationAreas =
     ''REPROJECTION_MIXED_TRANSFORMATION_AREAS: i vertici della geometria preferiscono percorsi diversi fra i due datum (aree d'' @
     [CHR 0x27] @ ''uso diverse): una sola trasformazione per tutti darebbe ad alcuni vertici parametri di un'' @ [CHR 0x27] @
     ''altra area, oltre l'' @ [CHR 0x27] @
     ''accuratezza dichiarata; dividere la geometria o fissare `trasformazioni`''"
| "crs_message mostra ReprojectionNotConverged =
     ''REPROJECTION_NOT_CONVERGED: un'' @ [CHR 0x27] @ ''inversa iterativa non ha raggiunto la precisione''"
| "crs_message mostra ReprojectionEdgeNotConverged =
     ''REPROJECTION_EDGE_NOT_CONVERGED: un lato non si approssima entro la precisione con la densificazione ammessa (discontinuita'' @
     [CHR 0x27] @ '' della proiezione, per esempio l'' @ [CHR 0x27] @ ''antimeridiano, o limite di vertici)''"
| "crs_message mostra GridUnreadable = ''NTV2_GRID_UNREADABLE: il file della griglia non si legge''"
| "crs_message mostra (GridInvalid reason) = ''NTV2_GRID_INVALID: '' @ reason"

definition crs_into :: "(f64 \<Rightarrow> string) \<Rightarrow> crs_error \<Rightarrow> plenora_error" where
  "crs_into mostra e = CrsCoded (crs_code e) (crs_message mostra e)"

section \<open>Resolved systems\<close>

record resolved_crs =
  rc_definition :: string
  rc_canonical :: json
  rc_kind :: crs_kind
  rc_horizontal_unit_to_metre :: "f64 option"
  rc_area_of_use :: "area_of_use option"
  rc_validity_domain :: "projected_bounds option"
  rc_ellipsoid :: "ellipsoid option"
  rc_integrato :: "identificativo option"

definition from_resolved_parts :: "string \<Rightarrow> json \<Rightarrow> crs_kind \<Rightarrow> f64 option \<Rightarrow> resolved_crs" where
  "from_resolved_parts def canonical kind u =
     \<lparr>rc_definition = def, rc_canonical = canonical, rc_kind = kind, rc_horizontal_unit_to_metre = u,
      rc_area_of_use = None, rc_validity_domain = None, rc_ellipsoid = None, rc_integrato = None\<rparr>"

text \<open>\<open>PartialEq\<close> of \<open>serde_json::Value\<close>: the doubles are compared as doubles.\<close>

fun json_number_eq :: "json_number \<Rightarrow> json_number \<Rightarrow> bool" where
  "json_number_eq (PosInt a) (PosInt b) = (a = b)"
| "json_number_eq (NegInt a) (NegInt b) = (a = b)"
| "json_number_eq (JFloat a) (JFloat b) = f64_eq a b"
| "json_number_eq _ _ = False"

fun json_eq :: "json \<Rightarrow> json \<Rightarrow> bool"
  and json_eq_elenco :: "json list \<Rightarrow> json list \<Rightarrow> bool"
  and json_eq_voci :: "(string \<times> json) list \<Rightarrow> (string \<times> json) list \<Rightarrow> bool" where
  "json_eq JNull b = (b = JNull)"
| "json_eq (JBool x) b = (b = JBool x)"
| "json_eq (JNumber x) b = (case b of JNumber y \<Rightarrow> json_number_eq x y | _ \<Rightarrow> False)"
| "json_eq (JString x) b = (b = JString x)"
| "json_eq (JArray xs) b = (case b of JArray ys \<Rightarrow> json_eq_elenco xs ys | _ \<Rightarrow> False)"
| "json_eq (JObject xs) b = (case b of JObject ys \<Rightarrow> json_eq_voci xs ys | _ \<Rightarrow> False)"
| "json_eq_elenco [] ys = (ys = [])"
| "json_eq_elenco (x # xs) ys = (case ys of [] \<Rightarrow> False | y # ys \<Rightarrow> json_eq x y \<and> json_eq_elenco xs ys)"
| "json_eq_voci [] ys = (ys = [])"
| "json_eq_voci ((k, x) # xs) ys =
     (case ys of [] \<Rightarrow> False | (k', y) # ys \<Rightarrow> k = k' \<and> json_eq x y \<and> json_eq_voci xs ys)"

definition semantically_equals :: "resolved_crs \<Rightarrow> resolved_crs \<Rightarrow> bool" where
  "semantically_equals a b = json_eq (rc_canonical a) (rc_canonical b)"

definition identity_canonical :: "resolved_crs \<Rightarrow> json option" where
  "identity_canonical c =
     (if Option.bind (json_get (rc_canonical c) ''type'') json_as_str = Some ''BoundCRS''
      then json_get (rc_canonical c) ''source_crs'' else Some (rc_canonical c))"

text \<open>The direction of the axis at an index.\<close>

definition direzione_asse :: "json list \<Rightarrow> nat \<Rightarrow> string option" where
  "direzione_asse axes i =
     (if i < length axes then Option.bind (json_get (axes ! i) ''direction'') json_as_str else None)"

definition authority_axis_order :: "resolved_crs \<Rightarrow> axis_order option" where
  "authority_axis_order c =
     Option.bind (identity_canonical c) (\<lambda>v.
     Option.bind (json_get v ''coordinate_system'') (\<lambda>v.
     Option.bind (json_get v ''axis'') (\<lambda>v.
     Option.bind (json_as_array v) (\<lambda>axes.
     Option.bind (direzione_asse axes 0) (\<lambda>first.
     Option.bind (direzione_asse axes 1) (\<lambda>second.
       Some (if rc_kind c = KGeographic \<and> first = ''north'' \<and> second = ''east'' then LatLon
             else if rc_kind c = KGeographic \<and> first = ''east'' \<and> second = ''north'' then LonLat
             else if rc_kind c = KProjected \<and> first = ''east'' \<and> second = ''north'' then EastingNorthing
             else if rc_kind c = KProjected \<and> first = ''north'' \<and> second = ''east'' then NorthingEasting
             else AxisOther)))))))"

definition normalized_gis_axis_order :: "resolved_crs \<Rightarrow> axis_order" where
  "normalized_gis_axis_order c = (case rc_kind c of KGeographic \<Rightarrow> LonLat | KProjected \<Rightarrow> EastingNorthing)"

definition codice_autorita :: "json \<Rightarrow> nat option" where
  "codice_autorita code =
     (case code of
        JNumber number \<Rightarrow> map_option unat (number_as_u64 number)
      | JString text \<Rightarrow> parse_unsigned (2 ^ 64) text
      | _ \<Rightarrow> None)"

definition authority_identifier :: "resolved_crs \<Rightarrow> (string \<times> u32) option" where
  "authority_identifier c =
     Option.bind (identity_canonical c) (\<lambda>v.
     Option.bind (json_get v ''id'') (\<lambda>i.
     Option.bind (Option.bind (json_get i ''authority'') json_as_str) (\<lambda>authority.
     Option.bind (Option.bind (json_get i ''code'') codice_autorita) (\<lambda>code.
       if code < 2 ^ 32 then Some (authority, word_of_nat code) else None))))"

definition authority_srid :: "resolved_crs \<Rightarrow> u32 option" where
  "authority_srid c = map_option snd (authority_identifier c)"

definition GROUND_PRECISION_METRES :: f64 where
  "GROUND_PRECISION_METRES = num 0.01"

definition normale_positivo :: "f64 \<Rightarrow> f64 option" where
  "normale_positivo p = (if f64_is_normal p \<and> f64_lt 0 p then Some p else None)"

definition precisione_coordinate :: "resolved_crs \<Rightarrow> f64 option" where
  "precisione_coordinate c =
     (case rc_kind c of
        KGeographic \<Rightarrow>
          Option.bind (rc_ellipsoid c) (\<lambda>ellissoide.
            let a = semi_major_axis_metre ellissoide; inverso = inverse_flattening ellissoide
            in if f64_is_finite a \<and> f64_lt 0 a \<and> f64_is_finite inverso \<and> f64_lt (num 1) inverso
               then
                 (let raggio = f64_div a (f64_sub (num 1) (f64_div (num 1) inverso));
                      metri_per_grado = f64_to_radians raggio
                  in normale_positivo
                       (f64_mul (f64_div GROUND_PRECISION_METRES metri_per_grado)
                         (f64_sub (num 1) (num 0.000000000001))))
               else None)
      | KProjected \<Rightarrow>
          (case rc_horizontal_unit_to_metre c of
             Some u \<Rightarrow>
               (if f64_is_finite u \<and> f64_lt 0 u then normale_positivo (f64_div GROUND_PRECISION_METRES u) else None)
           | None \<Rightarrow> None))"

section \<open>Identifiers of an authority\<close>

text \<open>\<open>authority_code_srid\<close> and \<open>authority_code_identifier\<close>: the pair is read at the last colon.\<close>

definition authority_code_srid :: "string \<Rightarrow> u32 option" where
  "authority_code_srid crs_id =
     (case rsplit_once '':'' crs_id of
        None \<Rightarrow> None
      | Some (authority, code) \<Rightarrow>
          (if authority = [] \<or> code = [] \<or> \<not> list_all is_ascii_digit code then None
           else map_option word_of_nat (parse_unsigned (2 ^ 32) code)))"

definition authority_code_identifier :: "string \<Rightarrow> (string \<times> u32) option" where
  "authority_code_identifier crs_id =
     (case rsplit_once '':'' crs_id of
        None \<Rightarrow> None
      | Some (authority, code) \<Rightarrow>
          (if authority = [] \<or> CHR '':'' \<in> set authority \<or> code = [] \<or> \<not> list_all is_ascii_digit code then None
           else map_option (\<lambda>n. (authority, word_of_nat n)) (parse_unsigned (2 ^ 32) code)))"

definition codice_decimale :: "string \<Rightarrow> u32 option" where
  "codice_decimale codice =
     (if codice = [] \<or> \<not> list_all is_ascii_digit codice \<or> length codice > 1 \<and> starts_with codice ''0'' then None
      else map_option word_of_nat (parse_unsigned (2 ^ 32) codice))"

definition da_autorita :: "string \<Rightarrow> string \<Rightarrow> identificativo option" where
  "da_autorita autorita codice =
     (if eq_ignore_ascii_case autorita ''EPSG'' then map_option Epsg (codice_decimale codice)
      else if eq_ignore_ascii_case autorita ''OGC'' \<and> eq_ignore_ascii_case codice ''CRS84'' then Some OgcCrs84
      else None)"

definition versione_urn :: "string \<Rightarrow> bool" where
  "versione_urn versione \<longleftrightarrow>
     versione = [] \<or> list_all (\<lambda>parte. parte \<noteq> [] \<and> list_all is_ascii_digit parte) (split_char CHR ''.'' versione)"

definition identificativo :: "string \<Rightarrow> identificativo option" where
  "identificativo definizione =
     (case split_char CHR '':'' definizione of
        [autorita, codice] \<Rightarrow> da_autorita autorita codice
      | [urn, ogc, def, crs, autorita, versione, codice] \<Rightarrow>
          (if eq_ignore_ascii_case urn ''urn'' \<and> eq_ignore_ascii_case ogc ''ogc'' \<and> eq_ignore_ascii_case def ''def''
              \<and> eq_ignore_ascii_case crs ''crs'' \<and> versione_urn versione
           then da_autorita autorita codice else None)
      | _ \<Rightarrow> None)"

definition testo_identificativo :: "identificativo \<Rightarrow> string" where
  "testo_identificativo i =
     (case i of Epsg codice \<Rightarrow> ''EPSG:'' @ show_nat (unat codice) | OgcCrs84 \<Rightarrow> ''OGC:CRS84'')"

definition identificatori :: "string list" where
  "identificatori = map (testo_identificativo \<circ> ci_identificativo) (CRS84 # EPSG)"

section \<open>The built-in table\<close>

text \<open>\<open>slice::binary_search_by_key\<close> of the standard library: the half-open window \<open>base .. base + n\<close> is halved
  until one element is left.\<close>

function cerca_base :: "'k::linorder list \<Rightarrow> 'k \<Rightarrow> nat \<Rightarrow> nat \<Rightarrow> nat" where
  "cerca_base chiavi k base n =
     (if n \<le> 1 then base
      else let half = n div 2; mid = base + half
           in cerca_base chiavi k (if chiavi ! mid > k then base else mid) (n - half))"
  by pat_completeness auto
termination by (relation "measure (\<lambda>(_, _, _, n). n)") auto

declare cerca_base.simps [simp del]

definition binary_search_by_key :: "('a \<Rightarrow> 'k::linorder) \<Rightarrow> 'a list \<Rightarrow> 'k \<Rightarrow> nat option" where
  "binary_search_by_key f xs k =
     (if xs = [] then None
      else let i = cerca_base (map f xs) k 0 (length xs) in if f (xs ! i) = k then Some i else None)"

fun cerca :: "identificativo \<Rightarrow> crs_integrato option" where
  "cerca OgcCrs84 = Some CRS84"
| "cerca (Epsg codice) =
     (case binary_search_by_key codice_voce EPSG codice of
        None \<Rightarrow> None
      | Some indice \<Rightarrow> if indice < length EPSG then Some (EPSG ! indice) else None)"

definition asse_canonico :: "string \<Rightarrow> asse \<Rightarrow> json" where
  "asse_canonico unita a =
     json_object [(''name'', JString (as_nome a)), (''abbreviation'', JString (as_abbreviazione a)),
       (''direction'', JString (direzione_projjson (as_direzione a))), (''unit'', JString unita)]"

definition id_canonico :: "identificativo \<Rightarrow> json" where
  "id_canonico i =
     (case i of
        Epsg codice \<Rightarrow>
          json_object [(''authority'', JString ''EPSG''), (''code'', JNumber (PosInt (word_of_nat (unat codice))))]
      | OgcCrs84 \<Rightarrow> json_object [(''authority'', JString ''OGC''), (''code'', JString ''CRS84'')])"

definition canonico_crs :: "crs_integrato \<Rightarrow> json" where
  "canonico_crs voce =
     (let (tipo, sottotipo, unita) =
            (case ci_kind voce of
               KGeographic \<Rightarrow> (''GeographicCRS'', ''ellipsoidal'', ''degree'')
             | KProjected \<Rightarrow> (''ProjectedCRS'', ''Cartesian'', ''metre''))
      in json_object
           [(''type'', JString tipo), (''name'', JString (ci_nome voce)),
            (''coordinate_system'',
             json_object [(''subtype'', JString sottotipo), (''axis'', JArray (map (asse_canonico unita) (ci_assi voce)))]),
            (''id'', id_canonico (ci_identificativo voce))])"

definition risolvi_verificato :: "identificativo \<Rightarrow> string \<Rightarrow> resolved_crs option" where
  "risolvi_verificato i definizione =
     map_option (\<lambda>voce.
       \<lparr>rc_definition = definizione, rc_canonical = canonico_crs voce, rc_kind = ci_kind voce,
        rc_horizontal_unit_to_metre = (case ci_kind voce of KGeographic \<Rightarrow> None | KProjected \<Rightarrow> Some (num 1)),
        rc_area_of_use = Some (ci_area voce), rc_validity_domain = ci_dominio voce,
        rc_ellipsoid = Some (ci_ellissoide voce), rc_integrato = Some (ci_identificativo voce)\<rparr>) (cerca i)"

definition risolvi :: "string \<Rightarrow> resolved_crs option" where
  "risolvi definizione = Option.bind (identificativo definizione) (\<lambda>i. risolvi_verificato i definizione)"

section \<open>The form of a definition\<close>

record lettore =
  lt_albero :: "string \<Rightarrow> albero"
  lt_posizione :: "string \<Rightarrow> nat \<times> nat"
  lt_valore :: "string \<Rightarrow> json option" \<comment> \<open>\<open>serde_json::from_str::<Value>\<close>\<close>

datatype definition_form = FAuthorityCode | FProjjson | FWkt | FWkt2 | FOther

definition WKT1_KEYWORDS :: "string list" where
  "WKT1_KEYWORDS = [''PROJCS'', ''GEOGCS'', ''COMPD_CS'', ''GEOCCS'', ''VERT_CS'', ''LOCAL_CS'', ''FITTED_CS'']"

definition WKT2_KEYWORDS :: "string list" where
  "WKT2_KEYWORDS =
     [''PROJCRS'', ''PROJECTEDCRS'', ''DERIVEDPROJCRS'', ''GEODCRS'', ''GEODETICCRS'', ''GEOGCRS'', ''GEOGRAPHICCRS'',
      ''BOUNDCRS'', ''VERTCRS'', ''VERTICALCRS'', ''ENGCRS'', ''ENGINEERINGCRS'', ''PARAMETRICCRS'', ''TIMECRS'',
      ''COMPOUNDCRS'']"

definition starts_with_wkt_keyword :: "string \<Rightarrow> string list \<Rightarrow> bool" where
  "starts_with_wkt_keyword trimmed keywords =
     (case split_once ''[('' trimmed of
        None \<Rightarrow> False
      | Some (prima, _) \<Rightarrow> list_ex (\<lambda>keyword. eq_ignore_ascii_case (trim_end prima) keyword) keywords)"

definition definition_form :: "lettore \<Rightarrow> string \<Rightarrow> definition_form" where
  "definition_form l def =
     (if \<not> is_ok (ensure_no_duplicate_keys (lt_albero l) (lt_posizione l) def) then FOther
      else case lt_valore l def of
        Some (JObject _) \<Rightarrow> FProjjson
      | Some _ \<Rightarrow> FOther
      | None \<Rightarrow>
          (let trimmed = trim_start def
           in if starts_with_wkt_keyword trimmed WKT2_KEYWORDS then FWkt2
              else if starts_with_wkt_keyword trimmed WKT1_KEYWORDS then FWkt
              else if \<not> contains_white_space trimmed
                      \<and> (case rsplit_once '':'' trimmed of
                            None \<Rightarrow> False | Some (authority, code) \<Rightarrow> authority \<noteq> [] \<and> code \<noteq> [])
                   then FAuthorityCode
              else FOther))"

definition validate_definition_text :: "string \<Rightarrow> string \<Rightarrow> crs_error + unit" where
  "validate_definition_text v name =
     (if trim v = [] then Inl (CrsRequired name)
      else if length v > MAX_CRS_DEFINITION_BYTES then
        Inl (CrsInvalidDefinition name
          (''oltre il limite di '' @ show_nat MAX_CRS_DEFINITION_BYTES @ '' byte: '' @ show_nat (length v)))
      else if CHR 0x00 \<in> set v then Inl (CrsInvalidDefinition name ''contiene NUL'')
      else Inr ())"

definition required_definition :: "string option \<Rightarrow> string \<Rightarrow> crs_error + string" where
  "required_definition v name =
     try_bind (ok_or (CrsRequired name) v) (\<lambda>v. try_bind (validate_definition_text v name) (\<lambda>_. Inr v))"

section \<open>Requirements and domain\<close>

definition ensure_projected :: "resolved_crs \<Rightarrow> crs_error + unit" where
  "ensure_projected c =
     (if rc_kind c \<noteq> KProjected then Inl (CrsProjectedRequired (rc_kind c))
      else case rc_horizontal_unit_to_metre c of
        Some u \<Rightarrow> if f64_is_finite u \<and> f64_lt 0 u then Inr () else Inl CrsMissingLinearUnit
      | None \<Rightarrow> Inl CrsMissingLinearUnit)"

definition ensure_geographic :: "resolved_crs \<Rightarrow> crs_error + unit" where
  "ensure_geographic c =
     (if rc_kind c \<noteq> KGeographic then Inl (CrsGeographicRequired (rc_kind c)) else Inr ())"

definition validate_requirement :: "crs_requirement_kind \<Rightarrow> resolved_crs list \<Rightarrow> crs_error + unit" where
  "validate_requirement requirement inputs =
     (if inputs = [] then Inl (CrsInvalidContract ''nessun CRS di input'')
      else case requirement of
        CrsKnown \<Rightarrow> Inr ()
      | Projected \<Rightarrow> try_fold (\<lambda>_. ensure_projected) () inputs
      | Geographic \<Rightarrow> try_fold (\<lambda>_. ensure_geographic) () inputs
      | SameProjected \<Rightarrow>
          try_bind (try_fold (\<lambda>_. ensure_projected) () inputs) (\<lambda>_.
            if list_ex (\<lambda>c. \<not> semantically_equals (hd inputs) c) (tl inputs) then Inl CrsMismatch else Inr ())
      | Reprojection \<Rightarrow>
          (if length inputs \<noteq> 2
           then Inl (CrsInvalidContract ''reprojection richiede CRS sorgente e destinazione'') else Inr ()))"

definition violazione :: "resolved_crs \<Rightarrow> f64 \<times> f64 \<Rightarrow> coordinate_domain_violation option" where
  "violazione c xy =
     (case xy of (x, y) \<Rightarrow>
        if \<not> f64_is_finite x \<or> \<not> f64_is_finite y then Some NonFinite
        else case (rc_kind c, rc_validity_domain c) of
          (KGeographic, _) \<Rightarrow>
            (if \<not> f64_in (num (- 180)) (num 180) x then Some LongitudeOutOfRange
             else if \<not> f64_in (num (- 90)) (num 90) y then Some LatitudeOutOfRange
             else None)
        | (KProjected, Some domain) \<Rightarrow>
            (if \<not> f64_in (min_easting domain) (max_easting domain) x then Some EastingOutOfValidityDomain
             else if \<not> f64_in (min_northing domain) (max_northing domain) y then Some NorthingOutOfValidityDomain
             else None)
        | (KProjected, None) \<Rightarrow> None)"

definition validate_geometry_domain :: "(f64 \<times> f64) list \<Rightarrow> resolved_crs \<Rightarrow> crs_error + unit" where
  "validate_geometry_domain coordinates c =
     try_fold (\<lambda>_ xy.
       case violazione c xy of Some v \<Rightarrow> Inl (CrsCoordinateOutOfDomain v) | None \<Rightarrow> Inr ()) () coordinates"

section \<open>Codes\<close>

text \<open>Every error of the reference systems carries its stable code at the head of its message, and the code has the
  form \<open>^[A-Z][A-Z0-9_]{1,63}$\<close>.\<close>

theorem crs_code_heads_message:
  "(\<exists>r. crs_message mostra e = crs_code e @ '': '' @ r)
   \<and> 2 \<le> length (crs_code e) \<and> length (crs_code e) \<le> 64 \<and> is_ascii_uppercase (hd (crs_code e))
   \<and> list_all (\<lambda>c. is_ascii_uppercase c \<or> is_ascii_digit c \<or> c = CHR ''_'') (crs_code e)"
  by (cases e) (simp_all add: is_ascii_uppercase_def is_ascii_digit_def byte_of_def)

section \<open>The search\<close>

lemma cerca_base_finds:
  assumes "sorted_wrt (<) ks" and "1 \<le> n" and "base + n \<le> length ks"
    and "base = 0 \<or> ks ! base \<le> k" and "base + n = length ks \<or> k < ks ! (base + n)"
  defines "r \<equiv> cerca_base ks k base n"
  shows "r < length ks \<and> (r = 0 \<or> ks ! r \<le> k) \<and> (Suc r = length ks \<or> k < ks ! Suc r)"
  using assms(1-5) unfolding r_def
proof (induction ks k base n rule: cerca_base.induct)
  case (1 ks k base n)
  show ?case
  proof (cases "n \<le> 1")
    case True
    with 1(3) have "n = 1" by simp
    moreover have "cerca_base ks k base n = base" using True by (subst cerca_base.simps) simp
    ultimately show ?thesis using 1 by (simp add: Suc_le_eq)
  next
    case False
    let ?h = "n div 2"
    let ?b = "if ks ! (base + ?h) > k then base else base + ?h"
    have step: "cerca_base ks k base n = cerca_base ks k ?b (n - ?h)"
      using False by (subst cerca_base.simps) (simp add: Let_def)
    have h: "?h < n" "1 \<le> n - ?h" using False by auto
    show ?thesis
    proof (cases "ks ! (base + ?h) > k")
      case True
      have gap: "base + (n - ?h) = length ks \<or> k < ks ! (base + (n - ?h))"
      proof -
        have "base + ?h \<le> base + (n - ?h)" by simp
        moreover have "base + (n - ?h) \<le> length ks" using 1 by simp
        ultimately show ?thesis
          using True sorted_wrt_nth_less [OF 1(2), of "base + ?h" "base + (n - ?h)"]
          by (cases "base + (n - ?h) = length ks") (auto simp: le_less)
      qed
      show ?thesis
        unfolding step using 1(1) [OF False refl refl] True 1(2-6) h gap by simp
    next
      case False2: False
      have "base + ?h + (n - ?h) = base + n" using h by simp
      moreover have "cerca_base ks k base n = cerca_base ks k (base + ?h) (n - ?h)" using step False2 by simp
      ultimately show ?thesis
        using 1(1) [OF False refl refl] False2 1(2-6) h by (simp add: not_less)
    qed
  qed
qed

lemma binary_search_by_key_iff:
  assumes sorted: "sorted_wrt (<) (map f xs)"
  shows "binary_search_by_key f xs k = Some i \<longleftrightarrow> i < length xs \<and> f (xs ! i) = k"
proof (cases "xs = []")
  case False
  define r where "r = cerca_base (map f xs) k 0 (length xs)"
  have "r < length (map f xs) \<and> (r = 0 \<or> map f xs ! r \<le> k) \<and> (Suc r = length (map f xs) \<or> k < map f xs ! Suc r)"
    unfolding r_def using False by (intro cerca_base_finds [OF sorted]) (simp_all add: Suc_le_eq)
  then have r: "r < length xs" "r = 0 \<or> f (xs ! r) \<le> k" "Suc r = length xs \<or> k < f (xs ! Suc r)"
    by (metis length_map nth_map, metis nth_map length_map, metis Suc_lessI length_map nth_map)
  have mono: "f (xs ! a) < f (xs ! b)" if "a < b" "b < length xs" for a b
    using sorted_wrt_nth_less [OF sorted, of a b] that by simp
  have uniq: "i = r" if "i < length xs" "f (xs ! i) = k" for i
  proof (rule ccontr)
    assume "i \<noteq> r"
    then consider "i < r" | "r < i" by linarith
    then show False
    proof cases
      case 1
      then show ?thesis using mono [of i r] r that by auto
    next
      case 2
      then have "k < f (xs ! Suc r)" using r that by auto
      also have "\<dots> \<le> f (xs ! i)" using 2 mono [of "Suc r" i] that by (cases "Suc r = i") auto
      finally show ?thesis using that by simp
    qed
  qed
  have eq: "binary_search_by_key f xs k = (if f (xs ! r) = k then Some r else None)"
    using False by (simp add: binary_search_by_key_def Let_def flip: r_def)
  show ?thesis
  proof (cases "f (xs ! r) = k")
    case True
    with eq have "binary_search_by_key f xs k = Some i \<longleftrightarrow> i = r" by auto
    also have "\<dots> \<longleftrightarrow> i < length xs \<and> f (xs ! i) = k" using r(1) True uniq by blast
    finally show ?thesis .
  next
    case False
    with eq have "binary_search_by_key f xs k = None" by simp
    moreover have "\<not> (i < length xs \<and> f (xs ! i) = k)" using uniq False by blast
    ultimately show ?thesis by simp
  qed
qed (simp add: binary_search_by_key_def)

lemma codici_voce: "map codice_voce EPSG = codici_EPSG"
proof -
  have "map codice_voce EPSG = map (\<lambda>i. case i of Epsg c \<Rightarrow> c | OgcCrs84 \<Rightarrow> 0) (map ci_identificativo EPSG)"
    by (simp add: codice_voce_def)
  then show ?thesis by (simp add: EPSG_identificativi o_def)
qed

declare cerca.simps(2) [simp del]

lemma cerca_Epsg_iff: "cerca (Epsg c) = Some v \<longleftrightarrow> v \<in> set EPSG \<and> ci_identificativo v = Epsg c"
proof -
  have sorted: "sorted_wrt (<) (map codice_voce EPSG)" by (simp add: codici_voce codici_crescenti)
  note bs = binary_search_by_key_iff [OF sorted]
  have ident: "ci_identificativo u = Epsg (codice_voce u)" if "u \<in> set EPSG" for u
  proof -
    have "ci_identificativo u \<in> set (map Epsg codici_EPSG)"
      unfolding EPSG_identificativi [symmetric] using that by simp
    then show ?thesis by (auto simp: codice_voce_def)
  qed
  show ?thesis
  proof
    assume "cerca (Epsg c) = Some v"
    then show "v \<in> set EPSG \<and> ci_identificativo v = Epsg c"
      using bs ident by (auto simp: cerca.simps split: option.splits if_splits)
  next
    assume v: "v \<in> set EPSG \<and> ci_identificativo v = Epsg c"
    then obtain i where i: "i < length EPSG" "EPSG ! i = v" by (auto simp: in_set_conv_nth)
    moreover have "codice_voce v = c" using v by (simp add: codice_voce_def)
    ultimately have "binary_search_by_key codice_voce EPSG c = Some i" using bs by simp
    with i show "cerca (Epsg c) = Some v" by (simp add: cerca.simps)
  qed
qed

text \<open>The search of the built-in table is exact: a code is found exactly when some row carries it, and what is
  found is that row.\<close>

theorem cerca_exact:
  "cerca i = List.find (\<lambda>v. ci_identificativo v = i) (CRS84 # EPSG)"
proof (cases i)
  case OgcCrs84
  then show ?thesis by (simp add: CRS84_def)
next
  case (Epsg c)
  have [simp]: "ci_identificativo CRS84 = OgcCrs84" by (simp add: CRS84_def)
  show ?thesis
  proof (cases "cerca i")
    case None
    then have "\<forall>v \<in> set EPSG. ci_identificativo v \<noteq> Epsg c" using cerca_Epsg_iff [of c] Epsg by auto
    then have "List.find (\<lambda>v. ci_identificativo v = Epsg c) EPSG = None" by (simp add: find_None_all)
    then show ?thesis using Epsg None by simp
  next
    case (Some v)
    then have v: "v \<in> set EPSG" "ci_identificativo v = Epsg c" using cerca_Epsg_iff [of c] Epsg by auto
    obtain w where w: "List.find (\<lambda>v. ci_identificativo v = Epsg c) EPSG = Some w"
      using v find_None_all [of "\<lambda>v. ci_identificativo v = Epsg c" EPSG] by (metis (lifting) not_None_eq)
    then have "w \<in> set EPSG \<and> ci_identificativo w = Epsg c"
      by (auto simp: find_Some_iff)
    then have "cerca i = Some w" by (simp only: Epsg cerca_Epsg_iff)
    then show ?thesis using w Some Epsg by simp
  qed
qed

section \<open>The identifiers that are recognised\<close>

lemma codice_decimale_iff: "codice_decimale s = Some c \<longleftrightarrow> s = show_nat (unat c)"
proof
  assume c: "codice_decimale s = Some c"
  then have s: "s \<noteq> []" "list_all is_ascii_digit s" "length s > 1 \<Longrightarrow> \<not> starts_with s ''0''"
    and v: "map_option word_of_nat (parse_unsigned (2 ^ 32) s) = Some c"
    by (auto simp: codice_decimale_def split: if_splits)
  have "\<not> starts_with s ''+''" using s(2) by (auto simp: starts_with_iff is_ascii_digit_def byte_of_def)
  then have "valore_decimale s < 2 ^ 32" "c = word_of_nat (valore_decimale s)"
    using v s(1,2) by (auto simp: parse_unsigned_def strip_prefix_def split: if_splits)
  then have "unat c = valore_decimale s" by (simp add: unat_of_nat take_bit_nat_eq_self)
  moreover have "show_nat (valore_decimale s) = s"
    using s by (intro show_nat_valore_decimale) (auto simp: starts_with_iff neq_Nil_conv)
  ultimately show "s = show_nat (unat c)" by simp
next
  assume s: "s = show_nat (unat c)"
  have "unat c < 2 ^ 32" using unsigned_less [of c] by simp
  then have "parse_unsigned (2 ^ 32) s = Some (unat c)" using s parse_unsigned_show_nat by blast
  moreover have "\<not> (length s > 1 \<and> starts_with s ''0'')"
    using show_nat_canonico(2) [of "unat c"] s by (auto simp: starts_with_iff)
  ultimately show "codice_decimale s = Some c"
    using s show_nat_canonico(1) show_nat_digits by (simp add: codice_decimale_def)
qed

lemma to_ascii_lowercase_colon: "to_ascii_lowercase c = CHR '':'' \<longleftrightarrow> c = CHR '':''"
proof (cases "is_ascii_uppercase c")
  case True
  then have "byte_of (to_ascii_lowercase c) = byte_of c + 32" "65 \<le> byte_of c"
    by (simp_all add: to_ascii_lowercase_def is_ascii_uppercase_def byte_of_def)
  then show ?thesis using True by (auto simp: byte_of_def is_ascii_uppercase_def)
qed (simp add: to_ascii_lowercase_def)

lemma eq_ignore_ascii_case_colon:
  assumes "eq_ignore_ascii_case a b"
  shows "CHR '':'' \<in> set a \<longleftrightarrow> CHR '':'' \<in> set b"
proof -
  have "CHR '':'' \<in> set s \<longleftrightarrow> CHR '':'' \<in> set (map to_ascii_lowercase s)" for s
    using to_ascii_lowercase_colon by (metis (no_types, lifting) image_iff list.set_map)
  then show ?thesis using assms unfolding eq_ignore_ascii_case_def by metis
qed

lemma split_char_chars: "x \<in> set s \<Longrightarrow> x \<noteq> c \<Longrightarrow> \<exists>p \<in> set (split_char c s). x \<in> set p"
  by (induction c s rule: split_char.induct) (auto split: list.splits)

lemma versione_urn_no_colon: "versione_urn v \<Longrightarrow> CHR '':'' \<notin> set v"
proof
  assume v: "versione_urn v" and c: "CHR '':'' \<in> set v"
  then obtain p where "p \<in> set (split_char CHR ''.'' v)" "CHR '':'' \<in> set p"
    using split_char_chars [of "CHR '':''" v "CHR ''.''"] by auto
  moreover have "\<not> is_ascii_digit CHR '':''" by (simp add: is_ascii_digit_def byte_of_def)
  ultimately show False using v c by (auto simp: versione_urn_def list_all_iff)
qed

text \<open>The grammar of the identifiers: a pair, or the URN of the OGC around it.\<close>

definition forma_autorita :: "string \<Rightarrow> string \<Rightarrow> string \<Rightarrow> bool" where
  "forma_autorita s autorita codice \<longleftrightarrow>
     s = autorita @ CHR '':'' # codice
     \<or> (\<exists>u g d r v.
          eq_ignore_ascii_case u ''urn'' \<and> eq_ignore_ascii_case g ''ogc'' \<and> eq_ignore_ascii_case d ''def''
          \<and> eq_ignore_ascii_case r ''crs'' \<and> versione_urn v
          \<and> s = u @ CHR '':'' # g @ CHR '':'' # d @ CHR '':'' # r @ CHR '':'' # autorita @ CHR '':'' # v @ CHR '':'' # codice)"

fun nomina :: "string \<Rightarrow> string \<Rightarrow> identificativo \<Rightarrow> bool" where
  "nomina autorita codice (Epsg c) \<longleftrightarrow> eq_ignore_ascii_case autorita ''EPSG'' \<and> codice = show_nat (unat c)"
| "nomina autorita codice OgcCrs84 \<longleftrightarrow>
     eq_ignore_ascii_case autorita ''OGC'' \<and> eq_ignore_ascii_case codice ''CRS84''"

lemma da_autorita_iff: "da_autorita a k = Some i \<longleftrightarrow> nomina a k i"
proof (cases i)
  case OgcCrs84
  then show ?thesis
    by (auto simp: da_autorita_def eq_ignore_ascii_case_def to_ascii_lowercase_def is_ascii_uppercase_def byte_of_def)
qed (auto simp: da_autorita_def codice_decimale_iff)

lemma nomina_no_colon: "nomina a k i \<Longrightarrow> CHR '':'' \<notin> set a \<and> CHR '':'' \<notin> set k"
  using digits_no_char [OF show_nat_digits, of "CHR '':''"]
  by (cases i) (auto simp: eq_ignore_ascii_case_colon is_ascii_digit_def byte_of_def)

text \<open>C25. The identifiers that are recognised are exactly the pairs of an authority and its code, alone or in the URN
  form, with any case of the letters; a code is the canonical decimal writing of a 32-bit number, so each identifier of
  the EPSG registry has one code text.\<close>

theorem identificativo_exact:
  "identificativo s = Some i \<longleftrightarrow> (\<exists>autorita codice. forma_autorita s autorita codice \<and> nomina autorita codice i)"
proof
  assume i: "identificativo s = Some i"
  obtain t ts where p: "split_char CHR '':'' s = t # ts" by (cases "split_char CHR '':'' s") auto
  note s = split_char_join [OF p]
  from i p consider k where "ts = [k]" "nomina t k i"
    | g d r a v k where "ts = [g, d, r, a, v, k]" "eq_ignore_ascii_case t ''urn''" "eq_ignore_ascii_case g ''ogc''"
        "eq_ignore_ascii_case d ''def''" "eq_ignore_ascii_case r ''crs''" "versione_urn v" "nomina a k i"
    unfolding identificativo_def by (auto split: list.splits if_splits simp: da_autorita_iff)
  then show "\<exists>autorita codice. forma_autorita s autorita codice \<and> nomina autorita codice i"
  proof cases
    case 1
    then show ?thesis using s unfolding forma_autorita_def by auto
  next
    case (2 g d r a v k)
    then have "s = t @ CHR '':'' # g @ CHR '':'' # d @ CHR '':'' # r @ CHR '':'' # a @ CHR '':'' # v @ CHR '':'' # k"
      using s by simp
    then have "forma_autorita s a k" using 2 unfolding forma_autorita_def by blast
    then show ?thesis using 2 by blast
  qed
next
  assume "\<exists>autorita codice. forma_autorita s autorita codice \<and> nomina autorita codice i"
  then obtain a k where f: "forma_autorita s a k" and n: "nomina a k i" by blast
  note colon = nomina_no_colon [OF n]
  from f consider "s = a @ CHR '':'' # k"
    | u g d r v where "eq_ignore_ascii_case u ''urn''" "eq_ignore_ascii_case g ''ogc''" "eq_ignore_ascii_case d ''def''"
        "eq_ignore_ascii_case r ''crs''" "versione_urn v"
        "s = u @ CHR '':'' # g @ CHR '':'' # d @ CHR '':'' # r @ CHR '':'' # a @ CHR '':'' # v @ CHR '':'' # k"
    unfolding forma_autorita_def by blast
  then show "identificativo s = Some i"
  proof cases
    case 1
    then show ?thesis
      using colon n by (simp add: identificativo_def split_char_cons split_char_single da_autorita_iff)
  next
    case 2
    have "CHR '':'' \<notin> set u" "CHR '':'' \<notin> set g" "CHR '':'' \<notin> set d" "CHR '':'' \<notin> set r"
      using 2(1-4) by (simp_all add: eq_ignore_ascii_case_colon)
    then show ?thesis
      using colon n 2(1-5) versione_urn_no_colon [OF 2(5)]
      by (simp add: identificativo_def 2(6) split_char_cons split_char_single da_autorita_iff)
  qed
qed

section \<open>What a resolved system says\<close>

lemma json_get_object: "json_get (json_object kvs) k = map_of (rev kvs) k"
proof -
  have "bt_get (fold (\<lambda>(k, v). bt_insert k v) kvs m) k =
      (case map_of (rev kvs) k of Some v \<Rightarrow> Some v | None \<Rightarrow> bt_get m k)" for m :: "(string, json) btree"
    by (induction kvs arbitrary: m)
      (auto simp: bt_simps map_add_def bt_get_def map_of_bt_insert split: option.splits if_splits)
  then show ?thesis by (simp add: json_object_def bt_get_def split: option.splits)
qed

lemma json_eq_voci_get: "json_eq_voci xs ys \<Longrightarrow> rel_option json_eq (map_of xs k) (map_of ys k)"
proof (induction xs arbitrary: ys)
  case (Cons kx xs)
  then show ?case by (cases kx; cases ys) auto
qed simp

lemma json_eq_get: "json_eq a b \<Longrightarrow> rel_option json_eq (json_get a k) (json_get b k)"
  by (cases a; cases b) (auto simp: bt_get_def json_eq_voci_get)

lemma json_eq_voci_refl: "(\<And>kv. kv \<in> set m \<Longrightarrow> json_eq (snd kv) (snd kv)) \<Longrightarrow> json_eq_voci m m"
proof (induction m)
  case (Cons kv m)
  then show ?case using Cons.prems [of kv] by (cases kv) simp
qed simp

lemma json_eq_elenco_refl: "(\<And>v. v \<in> set vs \<Longrightarrow> json_eq v v) \<Longrightarrow> json_eq_elenco vs vs"
  by (induction vs) auto

lemma json_eq_object_refl:
  assumes "\<And>k v. (k, v) \<in> set kvs \<Longrightarrow> json_eq v v"
  shows "json_eq (json_object kvs) (json_object kvs)"
proof -
  have ins: "set (bt_insert k v m) \<subseteq> insert (k, v) (set m)" for k :: string and v :: json and m
    by (induction k v m rule: bt_insert.induct) auto
  have "set (fold (\<lambda>(k, v). bt_insert k v) kvs m) \<subseteq> set kvs \<union> set m" for m :: "(string, json) btree"
  proof (induction kvs arbitrary: m)
    case (Cons kv kvs)
    obtain k v where kv: "kv = (k, v)" by (cases kv)
    have "set (fold (\<lambda>(k, v). bt_insert k v) kvs (bt_insert k v m)) \<subseteq> set kvs \<union> set (bt_insert k v m)"
      by (rule Cons.IH)
    then show ?case using ins [of k v m] by (auto simp: kv)
  qed simp
  from this [of "[]"] assms show ?thesis
    unfolding json_object_def by (auto intro!: json_eq_voci_refl)
qed

lemma id_canonico_refl: "json_eq (id_canonico i) (id_canonico i)"
  by (cases i) (auto simp: id_canonico_def intro!: json_eq_object_refl)

lemma canonico_refl: "json_eq (canonico_crs v) (canonico_crs v)"
  unfolding canonico_crs_def asse_canonico_def
  by (auto simp: id_canonico_refl split: prod.splits intro!: json_eq_object_refl json_eq_elenco_refl)

lemma id_canonico_get:
  "json_get (id_canonico (Epsg c)) ''authority'' = Some (JString ''EPSG'')"
  "json_get (id_canonico (Epsg c)) ''code'' = Some (JNumber (PosInt (word_of_nat (unat c))))"
  "json_get (id_canonico OgcCrs84) ''authority'' = Some (JString ''OGC'')"
  "json_get (id_canonico OgcCrs84) ''code'' = Some (JString ''CRS84'')"
  by (simp_all add: id_canonico_def json_get_object)

lemma u32_lt: "unat (c :: u32) < 2 ^ 32"
  using unsigned_less [of c] by simp

lemma unat_word64_of_u32: "unat (word_of_nat (unat (c :: u32)) :: u64) = unat c"
proof -
  have "unat c < 2 ^ 64" using u32_lt [of c] by simp
  then show ?thesis unfolding unat_of_nat by simp
qed

lemma id_canonico_inj: "json_eq (id_canonico i) (id_canonico j) \<Longrightarrow> i = j"
proof -
  assume eq: "json_eq (id_canonico i) (id_canonico j)"
  note get = json_eq_get [OF eq, of "''authority''"] json_eq_get [OF eq, of "''code''"]
  show "i = j"
  proof (cases i; cases j)
    fix c d
    assume ij: "i = Epsg c" "j = Epsg d"
    then have "(word_of_nat (unat c) :: u64) = word_of_nat (unat d)"
      using get(2) by (simp add: id_canonico_get)
    then have "unat c = unat d" by (metis unat_word64_of_u32)
    then show ?thesis using ij by (simp add: word_unat_eq_iff)
  qed (use get(1) in \<open>simp_all add: id_canonico_get\<close>)
qed

lemma canonico_get:
  "json_get (canonico_crs v) ''id'' = Some (id_canonico (ci_identificativo v))"
  "json_get (canonico_crs v) ''type'' =
     Some (JString (case ci_kind v of KGeographic \<Rightarrow> ''GeographicCRS'' | KProjected \<Rightarrow> ''ProjectedCRS''))"
  "\<exists>u. Option.bind (json_get (canonico_crs v) ''coordinate_system'') (\<lambda>s. json_get s ''axis'') =
     Some (JArray (map (asse_canonico u) (ci_assi v)))"
proof -
  obtain t s u where e: "canonico_crs v = json_object
      [(''type'', JString t), (''name'', JString (ci_nome v)),
       (''coordinate_system'', json_object [(''subtype'', JString s), (''axis'', JArray (map (asse_canonico u) (ci_assi v)))]),
       (''id'', id_canonico (ci_identificativo v))]"
    and t: "t = (case ci_kind v of KGeographic \<Rightarrow> ''GeographicCRS'' | KProjected \<Rightarrow> ''ProjectedCRS'')"
    by (cases "ci_kind v") (simp_all add: canonico_crs_def)
  show "json_get (canonico_crs v) ''id'' = Some (id_canonico (ci_identificativo v))"
    by (simp add: e json_get_object)
  show "json_get (canonico_crs v) ''type'' =
     Some (JString (case ci_kind v of KGeographic \<Rightarrow> ''GeographicCRS'' | KProjected \<Rightarrow> ''ProjectedCRS''))"
    by (simp add: e t json_get_object)
  show "\<exists>u. Option.bind (json_get (canonico_crs v) ''coordinate_system'') (\<lambda>s. json_get s ''axis'') =
     Some (JArray (map (asse_canonico u) (ci_assi v)))"
    by (rule exI [of _ u]) (simp add: e json_get_object)
qed

lemma cerca_identificativo: "cerca i = Some v \<Longrightarrow> ci_identificativo v = i"
  by (cases i) (auto simp: cerca_Epsg_iff CRS84_def)

lemma cerca_assi: "cerca i = Some v \<Longrightarrow> length (ci_assi v) = 2"
  by (cases i) (auto simp: cerca_Epsg_iff EPSG_forma CRS84_def assi)

lemma risolvi_iff:
  "risolvi s = Some r \<longleftrightarrow> (\<exists>i. identificativo s = Some i \<and> risolvi_verificato i s = Some r)"
  by (auto simp: risolvi_def bind_eq_Some_conv)

text \<open>Two definitions that resolve describe the same system, in the sense of the canonical documents, exactly when
  they name the same identifier; the form in which they were written does not matter.\<close>

theorem risolvi_same_system:
  assumes "risolvi s = Some r" and "risolvi t = Some q"
  shows "semantically_equals r q \<longleftrightarrow> identificativo s = identificativo t"
proof -
  from assms obtain i j v w where i: "identificativo s = Some i" "cerca i = Some v" "rc_canonical r = canonico_crs v"
    and j: "identificativo t = Some j" "cerca j = Some w" "rc_canonical q = canonico_crs w"
    by (auto simp: risolvi_iff risolvi_verificato_def)
  have "i = j" if "json_eq (canonico_crs v) (canonico_crs w)"
    using json_eq_get [OF that, of "''id''"] id_canonico_inj cerca_identificativo i(2) j(2)
    by (auto simp: canonico_get)
  then show ?thesis using i j canonico_refl by (auto simp: semantically_equals_def)
qed

theorem risolvi_same_system_witness:
  "(\<exists>r q. risolvi ''ogc:crs84'' = Some r \<and> risolvi ''urn:ogc:def:crs:OGC:1.3:CRS84'' = Some q \<and> semantically_equals r q)"
proof -
  have i: "identificativo ''ogc:crs84'' = Some OgcCrs84" "identificativo ''urn:ogc:def:crs:OGC:1.3:CRS84'' = Some OgcCrs84"
    by (simp_all add: identificativo_def da_autorita_def eq_ignore_ascii_case_def versione_urn_def
        to_ascii_lowercase_def is_ascii_uppercase_def is_ascii_digit_def byte_of_def char_of_def bit_0)
  obtain r q where "risolvi ''ogc:crs84'' = Some r" "risolvi ''urn:ogc:def:crs:OGC:1.3:CRS84'' = Some q"
    using i by (simp add: risolvi_def risolvi_verificato_def)
  with risolvi_same_system [OF this] i show ?thesis by auto
qed

text \<open>The order that the two axes of a row mean.\<close>

fun ordine_assi :: "crs_kind \<Rightarrow> direzione \<Rightarrow> direzione \<Rightarrow> axis_order" where
  "ordine_assi KGeographic North East = LatLon"
| "ordine_assi KGeographic East North = LonLat"
| "ordine_assi KProjected East North = EastingNorthing"
| "ordine_assi KProjected North East = NorthingEasting"
| "ordine_assi _ _ _ = AxisOther"

text \<open>C26. What is read back from the canonical document of a resolved system is the row it came from: the pair of
  authority and code (none for a code that is not a number) and the order of the two axes.\<close>

theorem resolved_reads_back:
  assumes "risolvi s = Some r" and "identificativo s = Some i" and "cerca i = Some v"
  shows "rc_integrato r = Some i
    \<and> authority_identifier r = (case i of Epsg c \<Rightarrow> Some (''EPSG'', c) | OgcCrs84 \<Rightarrow> None)
    \<and> authority_axis_order r =
           Some (ordine_assi (ci_kind v) (as_direzione (ci_assi v ! 0)) (as_direzione (ci_assi v ! 1)))"
proof (intro conjI)
  from assms have r: "rc_canonical r = canonico_crs v" "rc_kind r = ci_kind v" "rc_integrato r = Some (ci_identificativo v)"
    by (auto simp: risolvi_iff risolvi_verificato_def)
  have i: "ci_identificativo v = i" using assms(3) by (rule cerca_identificativo)
  show "rc_integrato r = Some i" using r i by simp
  have ident: "identity_canonical r = Some (canonico_crs v)"
    by (cases "ci_kind v") (simp_all add: identity_canonical_def r canonico_get)
  show "authority_identifier r = (case i of Epsg c \<Rightarrow> Some (''EPSG'', c) | OgcCrs84 \<Rightarrow> None)"
    using u32_lt unat_word64_of_u32
    by (cases i) (simp_all add: authority_identifier_def ident canonico_get i id_canonico_get codice_autorita_def
        parse_unsigned_def strip_prefix_def is_ascii_digit_def byte_of_def)
  obtain a b where ab: "ci_assi v = [a, b]"
    using cerca_assi [OF assms(3)] by (auto simp: length_Suc_conv numeral_2_eq_2)
  obtain u where u: "Option.bind (json_get (canonico_crs v) ''coordinate_system'') (\<lambda>s. json_get s ''axis'') =
      Some (JArray (map (asse_canonico u) [a, b]))"
    using canonico_get(3) [of v] ab by auto
  then obtain cs where cs: "json_get (canonico_crs v) ''coordinate_system'' = Some cs"
    "json_get cs ''axis'' = Some (JArray (map (asse_canonico u) [a, b]))"
    by (auto simp: bind_eq_Some_conv)
  have dir: "json_get (asse_canonico u a) ''direction'' = Some (JString (direzione_projjson (as_direzione a)))" for a
    by (simp add: asse_canonico_def json_get_object)
  show "authority_axis_order r =
      Some (ordine_assi (ci_kind v) (as_direzione (ci_assi v ! 0)) (as_direzione (ci_assi v ! 1)))"
    by (cases "ci_kind v"; cases "as_direzione a"; cases "as_direzione b")
      (simp_all add: authority_axis_order_def ident cs direzione_asse_def dir ab r)
qed

theorem resolved_reads_back_witness:
  "\<exists>r. risolvi ''OGC:CRS84'' = Some r \<and> authority_identifier r = None \<and> authority_axis_order r = Some LonLat"
proof -
  have i: "identificativo ''OGC:CRS84'' = Some OgcCrs84"
    by (simp add: identificativo_def da_autorita_def eq_ignore_ascii_case_def
        to_ascii_lowercase_def is_ascii_uppercase_def byte_of_def char_of_def bit_0)
  then obtain r where r: "risolvi ''OGC:CRS84'' = Some r" by (simp add: risolvi_def risolvi_verificato_def)
  show ?thesis
    using resolved_reads_back [OF r i, of CRS84] r by (simp add: CRS84_def ASSI_LON_EAST_LAT_NORTH_def geografico_def)
qed

section \<open>The domain of the coordinates\<close>

lemma validate_geometry_domain_iff:
  "validate_geometry_domain cs c = Inr () \<longleftrightarrow> (\<forall>p \<in> set cs. violazione c p = None)"
  by (induction cs) (auto simp: validate_geometry_domain_def split: option.splits)

text \<open>C27. The domain check of a geographic system accepts exactly the lists of finite coordinates whose longitude is
  between -180 and 180 degrees and whose latitude is between -90 and 90 degrees, as exact values of the doubles.\<close>

theorem geographic_domain_exact:
  assumes "rc_kind c = KGeographic"
  shows "validate_geometry_domain cs c = Inr () \<longleftrightarrow>
    (\<forall>(x, y) \<in> set cs. f64_is_finite x \<and> f64_is_finite y
       \<and> \<bar>f64_rat x\<bar> \<le> 180 \<and> \<bar>f64_rat y\<bar> \<le> 90)"
proof -
  have "violazione c p = None \<longleftrightarrow>
      (case p of (x, y) \<Rightarrow> f64_is_finite x \<and> f64_is_finite y \<and> \<bar>f64_rat x\<bar> \<le> 180 \<and> \<bar>f64_rat y\<bar> \<le> 90)" for p
  proof (cases p)
    case (Pair x y)
    show ?thesis
    proof (cases "f64_is_finite x \<and> f64_is_finite y")
      case True
      then show ?thesis
        by (auto simp: Pair violazione_def assms f64_in_def f64_le_rat f64_gradi abs_le_iff)
    qed (auto simp: Pair violazione_def)
  qed
  then show ?thesis by (simp add: validate_geometry_domain_iff)
qed

theorem geographic_domain_exact_witness:
  "validate_geometry_domain [(num 180, num (- 90))] (from_resolved_parts ''EPSG:4326'' JNull KGeographic None) = Inr ()"
  using geographic_domain_exact [of "from_resolved_parts ''EPSG:4326'' JNull KGeographic None" "[(num 180, num (- 90))]"]
  by (simp add: from_resolved_parts_def f64_gradi)

section \<open>The requirement of an operation\<close>

text \<open>What a requirement asks of the systems of the inputs.\<close>

definition proiettato_valido :: "resolved_crs \<Rightarrow> bool" where
  "proiettato_valido c \<longleftrightarrow>
     rc_kind c = KProjected
     \<and> (\<exists>u. rc_horizontal_unit_to_metre c = Some u \<and> f64_is_finite u \<and> 0 < f64_rat u)"

fun requisito_soddisfatto :: "crs_requirement_kind \<Rightarrow> resolved_crs list \<Rightarrow> bool" where
  "requisito_soddisfatto CrsKnown cs = True"
| "requisito_soddisfatto Projected cs = (\<forall>c \<in> set cs. proiettato_valido c)"
| "requisito_soddisfatto Geographic cs = (\<forall>c \<in> set cs. rc_kind c = KGeographic)"
| "requisito_soddisfatto SameProjected cs =
     ((\<forall>c \<in> set cs. proiettato_valido c) \<and> (\<forall>c \<in> set (tl cs). semantically_equals (hd cs) c))"
| "requisito_soddisfatto Reprojection cs = (length cs = 2)"

lemma try_fold_unit: "try_fold (\<lambda>_. f) () xs = Inr () \<longleftrightarrow> (\<forall>x \<in> set xs. f x = Inr ())"
  by (induction xs) (auto split: sum.splits)

lemma ensure_projected_iff: "ensure_projected c = Inr () \<longleftrightarrow> proiettato_valido c"
proof -
  have z: "f64_is_finite 0" "f64_rat 0 = 0"
    by (simp_all add: f64_is_finite_def f64_raw_exponent_def f64_rat_def f64_unita_def f64_fraction_def)
  show ?thesis
    by (auto simp: ensure_projected_def proiettato_valido_def f64_lt_rat z split: option.splits)
qed

lemma ensure_geographic_iff: "ensure_geographic c = Inr () \<longleftrightarrow> rc_kind c = KGeographic"
  by (simp add: ensure_geographic_def)

text \<open>The requirement of an operation is met exactly when there is an input and the inputs have what it asks: the kind,
  a finite and positive linear unit for the projected ones, one and the same system, or a source and a target.\<close>

theorem requirement_exact:
  "validate_requirement req cs = Inr () \<longleftrightarrow> cs \<noteq> [] \<and> requisito_soddisfatto req cs"
proof (cases "cs = []")
  case False
  then show ?thesis
    by (cases req) (auto simp add: validate_requirement_def try_bind_Inr_iff try_fold_unit ensure_projected_iff
        ensure_geographic_iff list_ex_iff)
qed (simp add: validate_requirement_def)

end
