(* ===== verification/DatumPaths.thy ===== *)
theory DatumPaths
  imports DatumTable Crs "HOL-Library.Product_Lexorder"
begin

text \<open>
  The paths between two datums, \<open>crs/riproiezione/percorsi.rs\<close> and the searches of
  \<open>crs/riproiezione/tabella.rs\<close>: the depth-first visit of the transformations, their order of preference.
\<close>

section \<open>Searches of the tables\<close>

definition definizione :: "identificativo \<Rightarrow> definizione_crs option" where
  "definizione i = List.find (\<lambda>voce. df_crs voce = i) DEFINIZIONI"

definition datum_di :: "u32 \<Rightarrow> datum option" where
  "datum_di codice = List.find (\<lambda>voce. dt_codice voce = codice) DATUM"

definition trasformazione_di :: "u32 \<Rightarrow> trasformazione option" where
  "trasformazione_di codice = List.find (\<lambda>voce. tr_codice voce = codice) TRASFORMAZIONI"

section \<open>Steps and paths\<close>

record passo_percorso =
  pp_trasformazione :: trasformazione
  pp_inversa :: bool
  pp_convenzione :: bool

definition CODICE_ETRS89_WGS84 :: u32 where
  "CODICE_ETRS89_WGS84 = 1149"

definition MAX_PASSI_PERCORSO :: nat where
  "MAX_PASSI_PERCORSO = 3"

definition passo_codice :: "passo_percorso \<Rightarrow> u32" where
  "passo_codice p = tr_codice (pp_trasformazione p)"

definition passo_accuratezza_m :: "passo_percorso \<Rightarrow> f64" where
  "passo_accuratezza_m p = (if pp_convenzione p then 0 else tr_accuratezza_m (pp_trasformazione p))"

definition passo_a_griglia :: "passo_percorso \<Rightarrow> bool" where
  "passo_a_griglia p = a_griglia (pp_trasformazione p)"

record percorso_datum =
  pd_passi :: "passo_percorso list"
  pd_accuratezza_m :: f64

definition codici :: "percorso_datum \<Rightarrow> u32 list" where
  "codici p = map passo_codice (pd_passi p)"

text \<open>The sum of the boxes of the steps, in square degrees.\<close>

definition area_passo :: "passo_percorso \<Rightarrow> f64" where
  "area_passo passo =
     (let riquadro = tr_area (pp_trasformazione passo);
          larghezza = f64_sub (east_longitude riquadro) (west_longitude riquadro);
          larghezza = (if f64_lt larghezza 0 then f64_add larghezza (num 360) else larghezza)
      in f64_mul larghezza (f64_sub (north_latitude riquadro) (south_latitude riquadro)))"

definition area_percorso :: "percorso_datum \<Rightarrow> f64" where
  "area_percorso percorso = f64_sum (map area_passo (pd_passi percorso))"

section \<open>The visit\<close>

text \<open>The datum that a transformation leads to from \<open>corrente\<close>, and whether it is used backwards.\<close>

definition prossimo_datum :: "u32 \<Rightarrow> trasformazione \<Rightarrow> (u32 \<times> bool) option" where
  "prossimo_datum corrente t =
     (if tr_da t = corrente then Some (tr_a t, False)
      else if tr_a t = corrente then Some (tr_da t, True)
      else None)"

definition passo :: "bool \<Rightarrow> trasformazione \<Rightarrow> bool \<Rightarrow> passo_percorso" where
  "passo convenzione t inversa =
     \<lparr>pp_trasformazione = t, pp_inversa = inversa,
      pp_convenzione = (convenzione \<and> tr_codice t = CODICE_ETRS89_WGS84)\<rparr>"

text \<open>\<open>visita\<close> and its loop over the transformations; the result is what is pushed to \<open>trovati\<close>, in order.\<close>

definition nodi :: "trasformazione list \<Rightarrow> u32 set" where
  "nodi ts = tr_da ` set ts \<union> tr_a ` set ts"

lemma nodi_simps [simp]: "nodi [] = {}" "nodi (t # ts) = {tr_da t, tr_a t} \<union> nodi ts" "finite (nodi ts)"
  by (auto simp: nodi_def)

lemma prossimo_datum_nodi: "prossimo_datum c t = Some (n, i) \<Longrightarrow> n = tr_da t \<or> n = tr_a t"
  by (auto simp: prossimo_datum_def split: if_splits)

function visita :: "u32 \<Rightarrow> u32 \<Rightarrow> bool \<Rightarrow> trasformazione list \<Rightarrow> passo_percorso list \<Rightarrow> u32 list
      \<Rightarrow> passo_percorso list list"
  and visita_ciclo :: "u32 \<Rightarrow> u32 \<Rightarrow> bool \<Rightarrow> trasformazione list \<Rightarrow> trasformazione list \<Rightarrow> passo_percorso list
      \<Rightarrow> u32 list \<Rightarrow> passo_percorso list list" where
  "visita corrente arrivo convenzione usabili passi visitati =
     (if length passi = MAX_PASSI_PERCORSO then []
      else visita_ciclo corrente arrivo convenzione usabili usabili passi visitati)"
| "visita_ciclo corrente arrivo convenzione usabili [] passi visitati = []"
| "visita_ciclo corrente arrivo convenzione usabili (t # ts) passi visitati =
     (case prossimo_datum corrente t of
        None \<Rightarrow> []
      | Some (prossimo, inversa) \<Rightarrow>
          (if prossimo \<in> set visitati then []
           else if prossimo = arrivo then [passi @ [passo convenzione t inversa]]
           else visita prossimo arrivo convenzione usabili (passi @ [passo convenzione t inversa])
                  (visitati @ [prossimo])))
     @ visita_ciclo corrente arrivo convenzione usabili ts passi visitati"
  by pat_completeness auto

termination
  \<comment> \<open>each deeper visit has one more datum among the visited ones\<close>
proof (relation "measures
    [\<lambda>x. case x of
        Inl (_, _, _, usabili, _, visitati) \<Rightarrow> card (nodi usabili - set visitati)
      | Inr (_, _, _, usabili, resto, _, visitati) \<Rightarrow> card (nodi usabili \<union> nodi resto - set visitati),
     \<lambda>x. case x of
        Inl (_, _, _, usabili, _, _) \<Rightarrow> Suc (length usabili)
      | Inr (_, _, _, _, resto, _, _) \<Rightarrow> length resto]", goal_cases)
  case (3 corrente arrivo convenzione usabili t ts passi visitati pr prossimo inversa)
  let ?N = "nodi usabili \<union> nodi (t # ts)"
  have "nodi usabili - set (visitati @ [prossimo]) \<subset> ?N - set visitati"
    using 3 prossimo_datum_nodi [of corrente t prossimo inversa] by auto
  then have "card (nodi usabili - set (visitati @ [prossimo])) < card (?N - set visitati)"
    by (intro psubset_card_mono) auto
  then show ?case by simp
next
  case (4 corrente arrivo convenzione usabili t ts passi visitati)
  have "card (nodi usabili \<union> nodi ts - set visitati) \<le> card (nodi usabili \<union> nodi (t # ts) - set visitati)"
    by (intro card_mono) auto
  then show ?case by auto
qed auto

declare visita.simps [simp del]

section \<open>The order of preference\<close>

text \<open>\<open>Vec::cmp\<close> is lexicographic, and \<open>sort_by\<close> is stable.\<close>

definition percorso_cmp :: "percorso_datum \<Rightarrow> percorso_datum \<Rightarrow> ordering" where
  "percorso_cmp x y =
     and_then (f64_total_cmp (pd_accuratezza_m x) (pd_accuratezza_m y))
    (and_then (cmp (length (pd_passi x)) (length (pd_passi y)))
    (and_then (f64_total_cmp (area_percorso x) (area_percorso y))
    (and_then (cmp (codici x) (codici y))
      (cmp (map pp_inversa (pd_passi x)) (map pp_inversa (pd_passi y))))))"

fun inserisci_per :: "('a \<Rightarrow> 'a \<Rightarrow> ordering) \<Rightarrow> 'a \<Rightarrow> 'a list \<Rightarrow> 'a list" where
  "inserisci_per c x [] = [x]"
| "inserisci_per c x (y # ys) = (if c x y = Greater then y # inserisci_per c x ys else x # y # ys)"

definition sort_by :: "('a \<Rightarrow> 'a \<Rightarrow> ordering) \<Rightarrow> 'a list \<Rightarrow> 'a list" where
  "sort_by c xs = foldr (inserisci_per c) xs []"

definition usabili :: "u32 list \<Rightarrow> trasformazione list" where
  "usabili griglie = filter (\<lambda>t. \<not> a_griglia t \<or> tr_codice t \<in> set griglie) TRASFORMAZIONI"

definition con_accuratezza :: "passo_percorso list \<Rightarrow> percorso_datum" where
  "con_accuratezza passi = \<lparr>pd_passi = passi, pd_accuratezza_m = f64_sum (map passo_accuratezza_m passi)\<rparr>"

definition enumera :: "u32 \<Rightarrow> u32 \<Rightarrow> u32 list \<Rightarrow> bool \<Rightarrow> percorso_datum list" where
  "enumera da a griglie convenzione =
     (if da = a then [\<lparr>pd_passi = [], pd_accuratezza_m = 0\<rparr>]
      else sort_by percorso_cmp (map con_accuratezza (visita da a convenzione (usabili griglie) [] [da])))"

section \<open>The simple paths\<close>

text \<open>Where a step starts and ends, and a chain of steps from a datum to another.\<close>

definition prima :: "passo_percorso \<Rightarrow> u32" where
  "prima q = (if pp_inversa q then tr_a (pp_trasformazione q) else tr_da (pp_trasformazione q))"

definition dopo :: "passo_percorso \<Rightarrow> u32" where
  "dopo q = (if pp_inversa q then tr_da (pp_trasformazione q) else tr_a (pp_trasformazione q))"

fun catena :: "u32 \<Rightarrow> passo_percorso list \<Rightarrow> u32 \<Rightarrow> bool" where
  "catena da [] a \<longleftrightarrow> da = a"
| "catena da (q # qs) a \<longleftrightarrow> prima q = da \<and> catena (dopo q) qs a"

definition ammissibile :: "trasformazione list \<Rightarrow> bool \<Rightarrow> passo_percorso \<Rightarrow> bool" where
  "ammissibile ts convenzione q \<longleftrightarrow>
     pp_trasformazione q \<in> set ts
     \<and> pp_convenzione q = (convenzione \<and> tr_codice (pp_trasformazione q) = CODICE_ETRS89_WGS84)"

text \<open>A path of admissible steps, at most three, that never comes back to a datum.\<close>

definition percorso_semplice :: "u32 list \<Rightarrow> bool \<Rightarrow> u32 \<Rightarrow> u32 \<Rightarrow> passo_percorso list \<Rightarrow> bool" where
  "percorso_semplice griglie convenzione da a qs \<longleftrightarrow>
     length qs \<le> MAX_PASSI_PERCORSO \<and> catena da qs a \<and> distinct (da # map dopo qs)
     \<and> list_all (ammissibile (usabili griglie) convenzione) qs"

definition resto_valido :: "trasformazione list \<Rightarrow> bool \<Rightarrow> u32 \<Rightarrow> u32 \<Rightarrow> u32 set \<Rightarrow> passo_percorso list \<Rightarrow> bool" where
  "resto_valido us convenzione c a vis qs \<longleftrightarrow>
     qs \<noteq> [] \<and> catena c qs a \<and> list_all (ammissibile us convenzione) qs
     \<and> distinct (map dopo qs) \<and> dopo ` set qs \<inter> vis = {}"

lemma catena_last: "catena c qs a \<Longrightarrow> qs \<noteq> [] \<Longrightarrow> a \<in> dopo ` set qs"
proof (induction qs arbitrary: c)
  case (Cons q qs)
  then show ?case by (cases "qs = []") auto
qed simp

lemma prossimo_dopo: "prossimo_datum c t = Some (n, i) \<Longrightarrow> dopo (passo v t i) = n"
  by (auto simp: prossimo_datum_def dopo_def passo_def split: if_splits)

lemma passo_simps [simp]:
  "pp_trasformazione (passo v t i) = t" "pp_inversa (passo v t i) = i"
  "pp_convenzione (passo v t i) = (v \<and> tr_codice t = CODICE_ETRS89_WGS84)"
  by (simp_all add: passo_def)

lemma ammissibile_passo: "ammissibile us v q \<longleftrightarrow> pp_trasformazione q \<in> set us \<and> q = passo v (pp_trasformazione q) (pp_inversa q)"
  by (cases q) (auto simp: ammissibile_def passo_def)

lemma prossimo_iff:
  assumes "c \<in> vis"
  shows "prima q = c \<and> dopo q \<notin> vis \<longleftrightarrow>
    prossimo_datum c (pp_trasformazione q) = Some (dopo q, pp_inversa q) \<and> dopo q \<notin> vis"
  using assms by (auto simp: prossimo_datum_def prima_def dopo_def split: if_splits)

lemma resto_valido_Cons:
  assumes "c \<in> vis" and "a \<notin> vis"
  shows "resto_valido us v c a vis (q # qs) \<longleftrightarrow>
    pp_trasformazione q \<in> set us \<and> q = passo v (pp_trasformazione q) (pp_inversa q)
    \<and> prossimo_datum c (pp_trasformazione q) = Some (dopo q, pp_inversa q) \<and> dopo q \<notin> vis
    \<and> (if dopo q = a then qs = [] else resto_valido us v (dopo q) a (insert (dopo q) vis) qs)"
proof -
  have "resto_valido us v c a vis (q # qs) \<longleftrightarrow>
      ammissibile us v q \<and> (prima q = c \<and> dopo q \<notin> vis) \<and> catena (dopo q) qs a \<and> list_all (ammissibile us v) qs
      \<and> dopo q \<notin> dopo ` set qs \<and> distinct (map dopo qs) \<and> dopo ` set qs \<inter> vis = {}"
    by (auto simp: resto_valido_def)
  also have "\<dots> \<longleftrightarrow> ammissibile us v q \<and> (prima q = c \<and> dopo q \<notin> vis)
      \<and> (if dopo q = a then qs = [] else resto_valido us v (dopo q) a (insert (dopo q) vis) qs)"
    using catena_last [of "dopo q" qs a] by (auto simp: resto_valido_def)
  finally show ?thesis
    unfolding prossimo_iff [OF assms(1)] ammissibile_passo by blast
qed

lemma visita_exact:
  "length passi \<le> MAX_PASSI_PERCORSO \<Longrightarrow> c \<in> set vis \<Longrightarrow> a \<notin> set vis \<Longrightarrow>
    ps \<in> set (visita c a v us passi vis) \<longleftrightarrow>
      (\<exists>qs. ps = passi @ qs \<and> length ps \<le> MAX_PASSI_PERCORSO \<and> resto_valido us v c a (set vis) qs)"
  "length passi < MAX_PASSI_PERCORSO \<Longrightarrow> c \<in> set vis \<Longrightarrow> a \<notin> set vis \<Longrightarrow> set ts \<subseteq> set us \<Longrightarrow>
    ps \<in> set (visita_ciclo c a v us ts passi vis) \<longleftrightarrow>
      (\<exists>q qs. ps = passi @ q # qs \<and> length ps \<le> MAX_PASSI_PERCORSO \<and> pp_trasformazione q \<in> set ts
        \<and> resto_valido us v c a (set vis) (q # qs))"
proof (induction c a v us passi vis and c a v us ts passi vis rule: visita_visita_ciclo.induct)
  case (1 corrente arrivo convenzione usabili passi visitati)
  show ?case
  proof (cases "length passi = MAX_PASSI_PERCORSO")
    case True
    then show ?thesis by (auto simp: visita.simps resto_valido_def)
  next
    case False
    then have IH: "ps \<in> set (visita corrente arrivo convenzione usabili passi visitati) \<longleftrightarrow>
        (\<exists>q qs. ps = passi @ q # qs \<and> length ps \<le> MAX_PASSI_PERCORSO \<and> pp_trasformazione q \<in> set usabili
          \<and> resto_valido usabili convenzione corrente arrivo (set visitati) (q # qs))"
      using 1 by (simp add: visita.simps)
    show ?thesis
      unfolding IH by (auto simp: resto_valido_Cons [OF 1(3,4)] resto_valido_def neq_Nil_conv ammissibile_def) 
  qed
next
  case (3 corrente arrivo convenzione usabili t ts passi visitati)
  have later: "ps \<in> set (visita_ciclo corrente arrivo convenzione usabili ts passi visitati) \<longleftrightarrow>
      (\<exists>q qs. ps = passi @ q # qs \<and> length ps \<le> MAX_PASSI_PERCORSO \<and> pp_trasformazione q \<in> set ts
        \<and> resto_valido usabili convenzione corrente arrivo (set visitati) (q # qs))"
    using 3 by simp
  let ?primo = "case prossimo_datum corrente t of None \<Rightarrow> [] | Some (prossimo, inversa) \<Rightarrow>
      (if prossimo \<in> set visitati then []
       else if prossimo = arrivo then [passi @ [passo convenzione t inversa]]
       else visita prossimo arrivo convenzione usabili (passi @ [passo convenzione t inversa]) (visitati @ [prossimo]))"
  have first: "ps \<in> set ?primo \<longleftrightarrow>
      (\<exists>q qs. ps = passi @ q # qs \<and> length ps \<le> MAX_PASSI_PERCORSO \<and> pp_trasformazione q = t
        \<and> resto_valido usabili convenzione corrente arrivo (set visitati) (q # qs))"
  proof (cases "prossimo_datum corrente t")
    case None
    then show ?thesis by (auto simp: resto_valido_Cons [OF 3(4,5)])
  next
    case (Some ni)
    obtain n i where ni: "ni = (n, i)" by (cases ni)
    let ?q = "passo convenzione t i"
    have only: "(\<exists>q qs. ps = passi @ q # qs \<and> length ps \<le> MAX_PASSI_PERCORSO \<and> pp_trasformazione q = t
          \<and> resto_valido usabili convenzione corrente arrivo (set visitati) (q # qs)) \<longleftrightarrow>
        (\<exists>qs. ps = passi @ ?q # qs \<and> length ps \<le> MAX_PASSI_PERCORSO \<and> n \<notin> set visitati
          \<and> (if n = arrivo then qs = [] else resto_valido usabili convenzione n arrivo (insert n (set visitati)) qs))"
      (is "?lhs \<longleftrightarrow> ?rhs")
    proof
      assume ?lhs
      then obtain q qs where q: "ps = passi @ q # qs" "length ps \<le> MAX_PASSI_PERCORSO" "pp_trasformazione q = t"
          "resto_valido usabili convenzione corrente arrivo (set visitati) (q # qs)" by blast
      note v = q(4) [unfolded resto_valido_Cons [OF 3(4,5)]]
      then have "dopo q = n" "q = ?q" using Some ni q(3) by auto
      then show ?rhs using q v by metis
    next
      assume ?rhs
      then obtain qs where qs: "ps = passi @ ?q # qs" "length ps \<le> MAX_PASSI_PERCORSO" "n \<notin> set visitati"
          "if n = arrivo then qs = [] else resto_valido usabili convenzione n arrivo (insert n (set visitati)) qs" by blast
      have "dopo ?q = n" using Some ni by (simp add: prossimo_dopo)
      then have "resto_valido usabili convenzione corrente arrivo (set visitati) (?q # qs)"
        unfolding resto_valido_Cons [OF 3(4,5)] using qs(3,4) Some ni 3(6) by simp
      then show ?lhs using qs by (metis passo_simps(1))
    qed
    show ?thesis
    proof (cases "n \<in> set visitati \<or> n = arrivo")
      case True
      then show ?thesis unfolding only using Some ni 3(3) by auto
    next
      case False
      have "ps \<in> set ?primo \<longleftrightarrow> ps \<in> set (visita n arrivo convenzione usabili (passi @ [?q]) (visitati @ [n]))"
        using Some ni False by simp
      also have "\<dots> \<longleftrightarrow> (\<exists>qs. ps = (passi @ [?q]) @ qs \<and> length ps \<le> MAX_PASSI_PERCORSO
          \<and> resto_valido usabili convenzione n arrivo (set (visitati @ [n])) qs)"
        using 3 False Some ni by (intro 3(1)) auto
      finally show ?thesis unfolding only using False by simp
    qed
  qed
  show ?case using first later by (auto simp: visita_ciclo.simps)
qed simp

lemma resto_semplice:
  "da \<noteq> a \<Longrightarrow> length qs \<le> MAX_PASSI_PERCORSO \<and> resto_valido (usabili g) v da a {da} qs \<longleftrightarrow> percorso_semplice g v da a qs"
  by (auto simp: resto_valido_def percorso_semplice_def)

section \<open>The order is the order of the keys\<close>

definition chiave :: "percorso_datum \<Rightarrow> int \<times> nat \<times> int \<times> u32 list \<times> bool list" where
  "chiave p = (f64_total_key (pd_accuratezza_m p), length (pd_passi p), f64_total_key (area_percorso p), codici p,
     map pp_inversa (pd_passi p))"

lemma cmp_Pair: "cmp (a, b) (c, d) = and_then (cmp a c) (cmp b d)"
  by (auto simp: cmp_def and_then_def)

lemma percorso_cmp_chiave: "percorso_cmp p q = cmp (chiave p) (chiave q)"
  by (simp add: percorso_cmp_def chiave_def cmp_Pair f64_total_cmp_def)

lemma set_inserisci_per: "set (inserisci_per c x ys) = insert x (set ys)"
  by (induction ys) auto

lemma set_sort_by: "set (sort_by c xs) = set xs"
  unfolding sort_by_def by (induction xs) (auto simp: set_inserisci_per)

lemma distinct_inserisci_per: "distinct ys \<Longrightarrow> x \<notin> set ys \<Longrightarrow> distinct (inserisci_per c x ys)"
  by (induction ys) (auto simp: set_inserisci_per)

lemma distinct_sort_by: "distinct xs \<Longrightarrow> distinct (sort_by c xs)"
  using set_sort_by [of c] unfolding sort_by_def by (induction xs) (auto intro!: distinct_inserisci_per)

lemma sorted_sort_by: "sorted (map f (sort_by (\<lambda>x y. cmp (f x) (f y)) xs))"
proof -
  have "sorted (map f ys) \<Longrightarrow> sorted (map f (inserisci_per (\<lambda>x y. cmp (f x) (f y)) x ys))" for x ys
    by (induction ys) (auto simp: set_inserisci_per not_less)
  then show ?thesis unfolding sort_by_def by (induction xs) auto
qed

lemma codici_TRASFORMAZIONI: "distinct (map tr_codice TRASFORMAZIONI)"
proof -
  have "map tr_codice TRASFORMAZIONI = map fst (map (\<lambda>t. (tr_codice t, tr_da t, tr_a t, a_griglia t)) TRASFORMAZIONI)"
    by simp
  then have "sorted_wrt (<) (map tr_codice TRASFORMAZIONI)"
    unfolding chiavi_TRASFORMAZIONI list.map prod.sel
    by (simp only: sorted_wrt2 [OF transp_on_less] sorted_wrt1) simp
  then show ?thesis by (simp add: strict_sorted_iff)
qed

lemma distinct_usabili: "distinct (usabili g)"
  using codici_TRASFORMAZIONI by (auto simp: usabili_def distinct_map)

lemma distinct_visita:
  "length passi \<le> MAX_PASSI_PERCORSO \<Longrightarrow> c \<in> set vis \<Longrightarrow> a \<notin> set vis \<Longrightarrow> distinct us \<Longrightarrow>
    distinct (visita c a v us passi vis)"
  "length passi < MAX_PASSI_PERCORSO \<Longrightarrow> c \<in> set vis \<Longrightarrow> a \<notin> set vis \<Longrightarrow> distinct us \<Longrightarrow> set ts \<subseteq> set us \<Longrightarrow>
    distinct ts \<Longrightarrow> distinct (visita_ciclo c a v us ts passi vis)"
proof (induction c a v us passi vis and c a v us ts passi vis rule: visita_visita_ciclo.induct)
  case (1 c a v us passi vis)
  then show ?case by (simp add: visita.simps)
next
  case (3 c a v us t ts passi vis)
  let ?primo = "case prossimo_datum c t of None \<Rightarrow> [] | Some (prossimo, inversa) \<Rightarrow>
      (if prossimo \<in> set vis then []
       else if prossimo = a then [passi @ [passo v t inversa]]
       else visita prossimo a v us (passi @ [passo v t inversa]) (vis @ [prossimo]))"
  have later: "distinct (visita_ciclo c a v us ts passi vis)" using 3 by simp
  have "distinct ?primo" using 3 by (auto split: option.splits prod.splits)
  moreover have "set ?primo \<inter> set (visita_ciclo c a v us ts passi vis) = {}"
  proof (rule ccontr)
    assume "set ?primo \<inter> set (visita_ciclo c a v us ts passi vis) \<noteq> {}"
    then obtain ps where ps: "ps \<in> set ?primo" "ps \<in> set (visita_ciclo c a v us ts passi vis)" by auto
    have ts: "set ts \<subseteq> set us" using 3(7) by simp
    from ps(2) obtain q qs where q: "ps = passi @ q # qs" "pp_trasformazione q \<in> set ts"
      unfolding visita_exact(2) [OF 3(3,4,5) ts] by blast
    from ps(1) obtain i qs' where "ps = passi @ passo v t i # qs'"
      using visita_exact(1) [of "passi @ [passo v t _]" _ "vis @ [_]" a ps v us] 3(3,5)
      by (auto split: option.splits prod.splits if_splits)
    with q have "t \<in> set ts" by auto
    then show False using 3(8) by simp
  qed
  ultimately show ?case using later by (simp add: visita_ciclo.simps)
qed simp

lemma enumera_semplici_iff:
  "set (map pd_passi (enumera da a griglie convenzione)) = {qs. percorso_semplice griglie convenzione da a qs}"
proof (cases "da = a")
  case True
  have "percorso_semplice griglie convenzione da da qs \<longleftrightarrow> qs = []" for qs
    using catena_last [of da qs da] by (auto simp: percorso_semplice_def)
  then show ?thesis using True by (simp add: enumera_def)
next
  case False
  have "set (map pd_passi (enumera da a griglie convenzione)) = set (visita da a convenzione (usabili griglie) [] [da])"
    using False by (simp add: enumera_def set_sort_by image_image con_accuratezza_def)
  then show ?thesis
    using visita_exact(1) [of "[]" da "[da]" a _ convenzione "usabili griglie"] False resto_semplice [OF False]
    by auto
qed

text \<open>C28. The paths between two datums are exactly the simple ones: the chains of at most three transformations that
  need no grid or whose grid is given, each in one of its two directions, that never come back to a datum.\<close>

theorem enumera_exact:
  "set (map pd_passi (enumera da a griglie convenzione)) = {qs. percorso_semplice griglie convenzione da a qs}"
  by (rule enumera_semplici_iff)

lemma enumera_semplici: "q \<in> set (enumera da a g v) \<Longrightarrow> percorso_semplice g v da a (pd_passi q)"
  using enumera_semplici_iff [of da a g v] by auto

lemma percorso_determinato:
  assumes "percorso_semplice g v da a ps" and "percorso_semplice g v da a qs"
    and "map passo_codice ps = map passo_codice qs" and "map pp_inversa ps = map pp_inversa qs"
  shows "ps = qs"
proof (rule nth_equalityI)
  show len: "length ps = length qs" using assms(3) by (metis length_map)
  fix i
  assume i: "i < length ps"
  let ?p = "ps ! i" and ?q = "qs ! i"
  have p: "ammissibile (usabili g) v ?p" and q: "ammissibile (usabili g) v ?q"
    using assms(1,2) i len by (auto simp: percorso_semplice_def list_all_length)
  have "passo_codice ?p = passo_codice ?q" "pp_inversa ?p = pp_inversa ?q"
    using assms(3,4) i len by (metis nth_map)+
  note pari = this
  have t: "pp_trasformazione ?p = pp_trasformazione ?q"
    using pari(1) p q codici_TRASFORMAZIONI
    by (auto simp: ammissibile_def usabili_def passo_codice_def distinct_map inj_on_def)
  have "?p = passo v (pp_trasformazione ?p) (pp_inversa ?p)" using p by (simp only: ammissibile_passo)
  also have "\<dots> = passo v (pp_trasformazione ?q) (pp_inversa ?q)" by (simp only: t pari(2))
  also have "\<dots> = ?q" using q by (simp only: ammissibile_passo)
  finally show "?p = ?q" .
qed

lemma enumera_ordinata:
  "sorted_wrt (\<lambda>p q. percorso_cmp p q = Less) (enumera da a griglie convenzione)"
proof (cases "da = a")
  case False
  let ?xs = "map con_accuratezza (visita da a convenzione (usabili griglie) [] [da])"
  have e: "enumera da a griglie convenzione = sort_by (\<lambda>x y. cmp (chiave x) (chiave y)) ?xs"
    using False by (simp add: enumera_def percorso_cmp_chiave [abs_def])
  have "inj_on con_accuratezza S" for S by (auto simp: inj_on_def con_accuratezza_def)
  then have "distinct ?xs"
    using distinct_visita(1) [of "[]" da "[da]" a "usabili griglie" convenzione] False distinct_usabili
    by (simp add: distinct_map)
  then have d: "distinct (enumera da a griglie convenzione)" unfolding e by (rule distinct_sort_by)
  have inj: "inj_on chiave (set (enumera da a griglie convenzione))"
  proof (rule inj_onI)
    fix p q
    assume p: "p \<in> set (enumera da a griglie convenzione)" and q: "q \<in> set (enumera da a griglie convenzione)"
      and k: "chiave p = chiave q"
    have "percorso_semplice griglie convenzione da a (pd_passi p)" "percorso_semplice griglie convenzione da a (pd_passi q)"
      using p q by (simp_all add: enumera_semplici)
    then have "pd_passi p = pd_passi q"
      using k by (intro percorso_determinato) (simp_all add: chiave_def codici_def)
    moreover have "p = con_accuratezza (pd_passi p)" "q = con_accuratezza (pd_passi q)"
      using p q by (auto simp: e set_sort_by con_accuratezza_def)
    ultimately show "p = q" by metis
  qed
  have "sorted (map chiave (enumera da a griglie convenzione))" unfolding e by (rule sorted_sort_by)
  then have "sorted_wrt (<) (map chiave (enumera da a griglie convenzione))"
    using d inj by (simp add: strict_sorted_iff distinct_map)
  then show ?thesis by (simp add: percorso_cmp_chiave sorted_wrt_map)
qed (simp add: enumera_def)

text \<open>The order of preference is strict: of two paths of the enumeration the earlier one is preferred, so the same
  datums and grids always give the same first path.\<close>

theorem enumera_preference:
  "sorted_wrt (\<lambda>p q. percorso_cmp p q = Less) (enumera da a griglie convenzione)"
  by (rule enumera_ordinata)

end
