(* ===== verification/Ntv2.thy ===== *)
theory Ntv2
  imports Crs WkbBytes
begin

text \<open>
  The NTv2 grids that the user gives, \<open>crs/riproiezione/ntv2.rs\<close>: the reading of the file record by record, the
  check that the subgrids are a forest, the search of the finest subgrid at a point and the shift there, forwards and
  by iteration backwards.

  Where the code could fail to return (an index out of range, a loop over the children that never ends) the
  result is an option, and \<open>None\<close> stands for not returning; the theorems show that this does not happen.
  \<open>f64::hypot\<close>, whose rounding the language leaves open, is the parameter \<open>hypot\<close>.
\<close>

section \<open>Operations on doubles\<close>

text \<open>\<open>floor\<close>, \<open>round\<close> (halves away from zero), \<open>abs\<close>, the fused \<open>mul_add\<close>, the casts to and from \<open>usize\<close>
  and the widening of a \<open>f32\<close>.\<close>

type_synonym f32 = "32 word"

definition intero_f64 :: "bool \<Rightarrow> int \<Rightarrow> f64" where
  "intero_f64 negativo z = (if z = 0 then con_segno negativo 0 else f64_round (of_int z))"

definition f64_floor :: "f64 \<Rightarrow> f64" where
  "f64_floor x = (if \<not> f64_is_finite x then x else intero_f64 (f64_negative x) \<lfloor>f64_rat x\<rfloor>)"

definition f64_round_away :: "f64 \<Rightarrow> f64" where
  "f64_round_away x =
     (if \<not> f64_is_finite x then x
      else intero_f64 (f64_negative x)
             (if f64_rat x \<ge> 0 then \<lfloor>f64_rat x + 1 / 2\<rfloor> else - \<lfloor>- f64_rat x + 1 / 2\<rfloor>))"

definition f64_abs :: "f64 \<Rightarrow> f64" where
  "f64_abs x = x AND 0x7fffffffffffffff"

definition f64_mul_add :: "f64 \<Rightarrow> f64 \<Rightarrow> f64 \<Rightarrow> f64" where
  "f64_mul_add a b c =
     (if f64_is_finite a \<and> f64_is_finite b \<and> f64_is_finite c
         \<and> f64_rat a * f64_rat b + f64_rat c \<noteq> 0
      then f64_round (f64_rat a * f64_rat b + f64_rat c)
      else if f64_is_finite a \<and> f64_is_finite b \<and> f64_is_infinite c then c
      else f64_add (f64_mul a b) c)"

definition USIZE_MAX :: nat where
  "USIZE_MAX = 2 ^ 64 - 1"

definition f64_as_usize :: "f64 \<Rightarrow> nat" where
  "f64_as_usize x =
     (if f64_is_nan x then 0
      else if f64_is_infinite x then (if f64_negative x then 0 else USIZE_MAX)
      else min USIZE_MAX (nat \<lfloor>f64_rat x\<rfloor>))"

definition usize_as_f64 :: "nat \<Rightarrow> f64" where
  "usize_as_f64 n = f64_round (of_nat n)"

definition usize_checked :: "nat \<Rightarrow> nat option" where
  "usize_checked n = (if n \<le> USIZE_MAX then Some n else None)"

definition f32_raw_exponent :: "f32 \<Rightarrow> nat" where
  "f32_raw_exponent x = unat (drop_bit 23 x AND 0xff)"

definition f32_is_finite :: "f32 \<Rightarrow> bool" where
  "f32_is_finite x \<longleftrightarrow> f32_raw_exponent x \<noteq> 255"

text \<open>\<open>f64::from\<close> of a finite \<open>f32\<close>: exact.\<close>

definition f64_from_f32 :: "f32 \<Rightarrow> f64" where
  "f64_from_f32 x =
     (let frazione = unat (x AND 0x7fffff);
          unita = (if f32_raw_exponent x = 0 then frazione else (2 ^ 23 + frazione) * 2 ^ (f32_raw_exponent x - 1))
      in con_segno (bit x 31) (f64_round (of_nat unita / 2 ^ 149)))"

section \<open>Subgrids\<close>

definition RECORD_NTV2 :: nat where
  "RECORD_NTV2 = 16"

definition SECONDI_PER_GRADO :: f64 where
  "SECONDI_PER_GRADO = num 3600"

definition TOLLERANZA_INVERSA_GRADI :: f64 where
  "TOLLERANZA_INVERSA_GRADI = f64_div (f64_mul (num 0.000000000001) (num 180)) f64_PI"

record sottogriglia =
  sg_nome :: "u8 list"
  sg_padre :: "u8 list"
  sg_sud :: f64
  sg_nord :: f64
  sg_est :: f64
  sg_ovest :: f64
  sg_passo_lat :: f64
  sg_passo_lon :: f64
  sg_righe :: nat
  sg_colonne :: nat
  sg_spostamenti :: "(f32 \<times> f32) list"
  sg_figli :: "nat list"

definition contiene :: "sottogriglia \<Rightarrow> f64 \<Rightarrow> f64 \<Rightarrow> bool" where
  "contiene g lat_s lon_w \<longleftrightarrow> f64_in (sg_sud g) (sg_nord g) lat_s \<and> f64_in (sg_est g) (sg_ovest g) lon_w"

definition nodo :: "sottogriglia \<Rightarrow> nat \<Rightarrow> nat \<Rightarrow> (f64 \<times> f64) option" where
  "nodo g i j =
     Option.bind (usize_checked (j * sg_colonne g)) (\<lambda>k.
     Option.bind (usize_checked (k + i)) (\<lambda>k.
       if k < length (sg_spostamenti g)
       then (case sg_spostamenti g ! k of (dlat, dlon) \<Rightarrow> Some (f64_from_f32 dlat, f64_from_f32 dlon))
       else None))"

definition bilineare :: "f64 \<Rightarrow> f64 \<Rightarrow> f64 \<Rightarrow> f64 \<Rightarrow> f64 \<Rightarrow> f64 \<Rightarrow> f64" where
  "bilineare tx ty v0 v1 v2 v3 =
     (let basso = f64_mul_add (f64_sub v1 v0) tx v0; alto = f64_mul_add (f64_sub v3 v2) tx v2
      in f64_mul_add (f64_sub alto basso) ty basso)"

text \<open>The index of a cell along an axis of \<open>n\<close> nodes; none where there are fewer than two.\<close>

definition indice_cella :: "f64 \<Rightarrow> nat \<Rightarrow> nat option" where
  "indice_cella f n = (if n < 2 then None else Some (min (f64_as_usize (f64_max (f64_floor f) 0)) (n - 2)))"

definition spostamento :: "sottogriglia \<Rightarrow> f64 \<Rightarrow> f64 \<Rightarrow> (f64 \<times> f64) option" where
  "spostamento g lat_s lon_w =
     (let fx = f64_div (f64_sub lon_w (sg_est g)) (sg_passo_lon g);
          fy = f64_div (f64_sub lat_s (sg_sud g)) (sg_passo_lat g)
      in Option.bind (indice_cella fx (sg_colonne g)) (\<lambda>ix.
         Option.bind (indice_cella fy (sg_righe g)) (\<lambda>iy.
         let tx = f64_sub fx (usize_as_f64 ix); ty = f64_sub fy (usize_as_f64 iy) in
         Option.bind (nodo g ix iy) (\<lambda>(a0, b0).
         Option.bind (nodo g (ix + 1) iy) (\<lambda>(a1, b1).
         Option.bind (nodo g ix (iy + 1)) (\<lambda>(a2, b2).
         Option.bind (nodo g (ix + 1) (iy + 1)) (\<lambda>(a3, b3).
           Some (bilineare tx ty a0 a1 a2 a3, bilineare tx ty b0 b1 b2 b3))))))))"

record griglia_ntv2 =
  gr_sottogriglie :: "sottogriglia list"
  gr_radici :: "nat list"

section \<open>Reading\<close>

abbreviation difetto :: "string \<Rightarrow> crs_error" where
  "difetto \<equiv> GridInvalid"

record lettore_ntv2 =
  ln_byte :: "u8 list"
  ln_posizione :: nat
  ln_little_endian :: bool

definition get_range :: "'a list \<Rightarrow> nat \<Rightarrow> nat \<Rightarrow> 'a list option" where
  "get_range xs a b = (if a \<le> b \<and> b \<le> length xs then Some (take (b - a) (drop a xs)) else None)"

definition byte_string :: "string \<Rightarrow> u8 list" where
  "byte_string s = map (\<lambda>c. word_of_nat (byte_of c)) s"

definition u8_to_ascii_lowercase :: "u8 \<Rightarrow> u8" where
  "u8_to_ascii_lowercase b = (if 65 \<le> b \<and> b \<le> 90 then b + 32 else b)"

definition byte_eq_ignore_ascii_case :: "u8 list \<Rightarrow> u8 list \<Rightarrow> bool" where
  "byte_eq_ignore_ascii_case a b \<longleftrightarrow> map u8_to_ascii_lowercase a = map u8_to_ascii_lowercase b"

definition leggi_record :: "lettore_ntv2 \<Rightarrow> crs_error + (u8 list \<times> u8 list \<times> lettore_ntv2)" where
  "leggi_record l =
     try_bind (ok_or (difetto ''file troncato'') (usize_checked (ln_posizione l + RECORD_NTV2))) (\<lambda>fine.
     try_bind (ok_or (difetto ''file troncato'') (get_range (ln_byte l) (ln_posizione l) fine)) (\<lambda>r.
       Inr (take 8 r, drop 8 r, l\<lparr>ln_posizione := fine\<rparr>)))"

definition leggi_chiave :: "string \<Rightarrow> lettore_ntv2 \<Rightarrow> crs_error + (u8 list \<times> lettore_ntv2)" where
  "leggi_chiave attesa l =
     try_bind (leggi_record l) (\<lambda>(chiave, v, l').
       if \<not> byte_eq_ignore_ascii_case chiave (byte_string attesa)
       then Inl (difetto ''intestazione NTv2 con una chiave inattesa'') else Inr (v, l'))"

definition intero_ntv2 :: "bool \<Rightarrow> u8 list \<Rightarrow> int" where
  "intero_ntv2 little v =
     sint ((if little then from_le_bytes (take 4 v) else from_be_bytes (take 4 v)) :: u32)"

definition reale_ntv2 :: "bool \<Rightarrow> u8 list \<Rightarrow> crs_error + f64" where
  "reale_ntv2 little v =
     (let x = (if little then from_le_bytes v else from_be_bytes v) :: f64
      in if f64_is_finite x then Inr x else Inl (difetto ''valore non finito nell'intestazione''))"

definition intero_di :: "string \<Rightarrow> lettore_ntv2 \<Rightarrow> crs_error + (int \<times> lettore_ntv2)" where
  "intero_di chiave l = try_bind (leggi_chiave chiave l) (\<lambda>(v, l'). Inr (intero_ntv2 (ln_little_endian l) v, l'))"

definition reale_di :: "string \<Rightarrow> lettore_ntv2 \<Rightarrow> crs_error + (f64 \<times> lettore_ntv2)" where
  "reale_di chiave l =
     try_bind (leggi_chiave chiave l) (\<lambda>(v, l').
     try_bind (reale_ntv2 (ln_little_endian l) v) (\<lambda>x. Inr (x, l')))"

definition f32_a :: "lettore_ntv2 \<Rightarrow> nat \<Rightarrow> crs_error + f32" where
  "f32_a l posizione =
     try_bind (ok_or (difetto ''file troncato'') (get_range (ln_byte l) posizione (posizione + 4))) (\<lambda>b.
       let x = (if ln_little_endian l then from_le_bytes b else from_be_bytes b) :: f32
       in if f32_is_finite x then Inr x else Inl (difetto ''spostamento non finito''))"

definition nodi_ntv2 :: "f64 \<Rightarrow> f64 \<Rightarrow> f64 \<Rightarrow> crs_error + nat" where
  "nodi_ntv2 minimo massimo passo =
     (if f64_le passo 0 \<or> f64_le massimo minimo
      then Inl (difetto ''estensione o passo della sottogriglia non validi'')
      else
        (let intervalli = f64_div (f64_sub massimo minimo) passo;
             arrotondati = f64_round_away intervalli
         in if f64_lt (num 0.000001) (f64_abs (f64_sub intervalli arrotondati))
               \<or> \<not> f64_in (num 1) (num 10000000) arrotondati
            then Inl (difetto ''estensione non multipla del passo'')
            else Inr (f64_as_usize arrotondati + 1)))"

function leggi_spostamenti :: "lettore_ntv2 \<Rightarrow> nat \<Rightarrow> nat \<Rightarrow> crs_error + (f32 \<times> f32) list" where
  "leggi_spostamenti l posizione fine =
     (if posizione < fine then
        try_bind (f32_a l posizione) (\<lambda>dlat.
        try_bind (f32_a l (posizione + 4)) (\<lambda>dlon.
        try_bind (leggi_spostamenti l (posizione + RECORD_NTV2) fine) (\<lambda>resto. Inr ((dlat, dlon) # resto))))
      else Inr [])"
  by pat_completeness auto
termination by (relation "measure (\<lambda>(_, posizione, fine). fine - posizione)") (auto simp: RECORD_NTV2_def)

declare leggi_spostamenti.simps [simp del]

definition leggi_sottogriglia :: "lettore_ntv2 \<Rightarrow> crs_error + (sottogriglia \<times> lettore_ntv2)" where
  "leggi_sottogriglia l =
     try_bind (leggi_chiave ''SUB_NAME'' l) (\<lambda>(nome, l).
     try_bind (leggi_chiave ''PARENT  '' l) (\<lambda>(padre, l).
     try_bind (leggi_chiave ''CREATED '' l) (\<lambda>(_, l).
     try_bind (leggi_chiave ''UPDATED '' l) (\<lambda>(_, l).
     try_bind (reale_di ''S_LAT   '' l) (\<lambda>(sud, l).
     try_bind (reale_di ''N_LAT   '' l) (\<lambda>(nord, l).
     try_bind (reale_di ''E_LONG  '' l) (\<lambda>(est, l).
     try_bind (reale_di ''W_LONG  '' l) (\<lambda>(ovest, l).
     try_bind (reale_di ''LAT_INC '' l) (\<lambda>(passo_lat, l).
     try_bind (reale_di ''LONG_INC'' l) (\<lambda>(passo_lon, l).
     try_bind (intero_di ''GS_COUNT'' l) (\<lambda>(conteggio, l).
     try_bind (nodi_ntv2 sud nord passo_lat) (\<lambda>righe.
     try_bind (nodi_ntv2 est ovest passo_lon) (\<lambda>colonne.
     try_bind (case usize_checked (righe * colonne) of
         Some n \<Rightarrow> if conteggio = int n then Inr n else Inl (difetto ''GS_COUNT diverso da righe per colonne'')
       | None \<Rightarrow> Inl (difetto ''GS_COUNT diverso da righe per colonne'')) (\<lambda>attesi.
     try_bind (case Option.bind (usize_checked (attesi * RECORD_NTV2)) (\<lambda>n. usize_checked (n + ln_posizione l)) of
         Some fine \<Rightarrow> if fine \<le> length (ln_byte l) then Inr fine else Inl (difetto ''file troncato'')
       | None \<Rightarrow> Inl (difetto ''file troncato'')) (\<lambda>fine.
     try_bind (leggi_spostamenti l (ln_posizione l) fine) (\<lambda>spostamenti.
       Inr (\<lparr>sg_nome = nome, sg_padre = padre, sg_sud = sud, sg_nord = nord, sg_est = est, sg_ovest = ovest,
             sg_passo_lat = passo_lat, sg_passo_lon = passo_lon, sg_righe = righe, sg_colonne = colonne,
             sg_spostamenti = spostamenti, sg_figli = []\<rparr>, l\<lparr>ln_posizione := fine\<rparr>)))))))))))))))))"

section \<open>The hierarchy\<close>

definition padre_assente :: "u8 list \<Rightarrow> bool" where
  "padre_assente padre \<longleftrightarrow>
     byte_eq_ignore_ascii_case (take 4 padre) (byte_string ''NONE'')
     \<and> list_all (\<lambda>b. b = 32 \<or> b = 0) (drop 4 padre)"

text \<open>\<open>position\<close>: the first index whose element has the property.\<close>

definition posizione :: "('a \<Rightarrow> bool) \<Rightarrow> 'a list \<Rightarrow> nat option" where
  "posizione P xs = List.find (\<lambda>i. P (xs ! i)) [0..<length xs]"

definition fuori_dal_padre :: "sottogriglia \<Rightarrow> sottogriglia \<Rightarrow> bool" where
  "fuori_dal_padre figlio genitore \<longleftrightarrow>
     f64_lt (sg_sud figlio) (sg_sud genitore) \<or> f64_lt (sg_nord genitore) (sg_nord figlio)
     \<or> f64_lt (sg_est figlio) (sg_est genitore) \<or> f64_lt (sg_ovest genitore) (sg_ovest figlio)"

definition collega :: "sottogriglia list \<times> nat list \<Rightarrow> nat \<Rightarrow> crs_error + (sottogriglia list \<times> nat list)" where
  "collega = (\<lambda>(gs, radici) indice.
     if list_ex (\<lambda>altra. sg_nome altra = sg_nome (gs ! indice)) (take indice gs)
     then Inl (difetto ''due sottogriglie con lo stesso nome'')
     else if padre_assente (sg_padre (gs ! indice)) then Inr (gs, radici @ [indice])
     else
       (case posizione (\<lambda>candidata. sg_nome candidata = sg_padre (gs ! indice)) gs of
          None \<Rightarrow> Inl (difetto ''sottogriglia con un padre inesistente'')
        | Some p \<Rightarrow>
            (if p = indice then Inl (difetto ''sottogriglia con un padre inesistente'')
             else if fuori_dal_padre (gs ! indice) (gs ! p) then Inl (difetto ''sottogriglia fuori dal padre'')
             else Inr (gs[p := (gs ! p)\<lparr>sg_figli := sg_figli (gs ! p) @ [indice]\<rparr>], radici))))"

lemma count_False_update:
  "i < length bs \<Longrightarrow> \<not> bs ! i \<Longrightarrow> count_list (bs[i := True]) False < count_list bs False"
proof (induction bs arbitrary: i)
  case (Cons b bs)
  then show ?case by (cases i) auto
qed simp

text \<open>The visit from the roots, with a stack; \<open>raggiunte[indice]\<close> out of range would not return.\<close>

function visita_pila :: "sottogriglia list \<Rightarrow> bool list \<Rightarrow> nat list \<Rightarrow> (crs_error + bool list) option" where
  "visita_pila gs raggiunte pila =
     (if pila = [] then Some (Inr raggiunte)
      else
        (let indice = last pila in
         if indice \<ge> length raggiunte \<or> indice \<ge> length gs then None
         else if raggiunte ! indice then Some (Inl (difetto ''gerarchia delle sottogriglie non ad albero''))
         else visita_pila gs (raggiunte[indice := True]) (butlast pila @ sg_figli (gs ! indice))))"
  by pat_completeness auto

termination
  by (relation "measure (\<lambda>(gs, raggiunte, pila). count_list raggiunte False)") (auto simp: count_False_update not_le)

declare visita_pila.simps [simp del]

definition albero_ntv2 :: "sottogriglia list \<Rightarrow> (crs_error + (sottogriglia list \<times> nat list)) option" where
  "albero_ntv2 gs =
     (case try_fold collega (gs, []) [0..<length gs] of
        Inl e \<Rightarrow> Some (Inl e)
      | Inr (gs, radici) \<Rightarrow>
          (if radici = [] then Some (Inl (difetto ''nessuna sottogriglia radice''))
           else
             map_option (\<lambda>r. try_bind r (\<lambda>raggiunte.
               if list_ex Not raggiunte then Inl (difetto ''gerarchia delle sottogriglie non ad albero'')
               else Inr (gs, radici)))
             (visita_pila gs (replicate (length gs) False) radici)))"

definition leggi_sottogriglie :: "u8 list \<Rightarrow> crs_error + (sottogriglia list \<times> lettore_ntv2)" where
  "leggi_sottogriglie byte =
        try_bind (leggi_record \<lparr>ln_byte = byte, ln_posizione = 0, ln_little_endian = True\<rparr>) (\<lambda>(chiave, v, l).
        if \<not> byte_eq_ignore_ascii_case chiave (byte_string ''NUM_OREC'')
        then Inl (difetto ''non e' un file NTv2'')
        else
          try_bind (if intero_ntv2 True v = 11 then Inr True
                    else if intero_ntv2 False v = 11 then Inr False
                    else Inl (difetto ''NUM_OREC diverso da 11'')) (\<lambda>little.
          try_bind (intero_di ''NUM_SREC'' (l\<lparr>ln_little_endian := little\<rparr>)) (\<lambda>(num_srec, l).
          try_bind (ensure (num_srec = 11) (difetto ''NUM_SREC diverso da 11'')) (\<lambda>_.
          try_bind (intero_di ''NUM_FILE'' l) (\<lambda>(num_file, l).
          try_bind (ensure (1 \<le> num_file \<and> num_file \<le> 10000) (difetto ''NUM_FILE non valido'')) (\<lambda>_.
          try_bind (leggi_chiave ''GS_TYPE '' l) (\<lambda>(tipo, l).
          try_bind (ensure (byte_eq_ignore_ascii_case tipo (byte_string ''SECONDS ''))
                      (difetto ''unita' diverse dai secondi d'arco (GS_TYPE)'')) (\<lambda>_.
          try_bind (try_fold (\<lambda>l chiave. map_ok snd (leggi_chiave chiave l)) l
                      [''VERSION '', ''SYSTEM_F'', ''SYSTEM_T'', ''MAJOR_F '', ''MINOR_F '', ''MAJOR_T '', ''MINOR_T '']) (\<lambda>l.
          ripeti (nat num_file) (\<lambda>(gs, l).
            try_bind (leggi_sottogriglia l) (\<lambda>(g, l). Inr (gs @ [g], l))) ([], l))))))))))"

definition da_byte :: "u8 list \<Rightarrow> (crs_error + griglia_ntv2) option" where
  "da_byte byte =
     (case leggi_sottogriglie byte of
        Inl e \<Rightarrow> Some (Inl e)
      | Inr (gs, _) \<Rightarrow>
          map_option (map_ok (\<lambda>(gs, radici). \<lparr>gr_sottogriglie = gs, gr_radici = radici\<rparr>)) (albero_ntv2 gs))"

section \<open>The search and the shift\<close>

text \<open>The loop down the children: \<open>None\<close> when it does not end, or reads out of range.\<close>

definition figlio_che_contiene :: "sottogriglia list \<Rightarrow> f64 \<Rightarrow> f64 \<Rightarrow> nat list \<Rightarrow> nat option" where
  "figlio_che_contiene gs lat_s lon_w is = List.find (\<lambda>i. contiene (gs ! i) lat_s lon_w) is"

partial_function (option) scendi :: "sottogriglia list \<Rightarrow> f64 \<Rightarrow> f64 \<Rightarrow> nat \<Rightarrow> nat option" where
  "scendi gs lat_s lon_w corrente =
     (if corrente \<ge> length gs \<or> (list_ex (\<lambda>i. i \<ge> length gs) (sg_figli (gs ! corrente))) then None
      else case figlio_che_contiene gs lat_s lon_w (sg_figli (gs ! corrente)) of
             Some figlio \<Rightarrow> scendi gs lat_s lon_w figlio
           | None \<Rightarrow> Some corrente)"

definition indice :: "griglia_ntv2 \<Rightarrow> f64 \<Rightarrow> f64 \<Rightarrow> nat option option" where
  "indice g lat_s lon_w =
     (if list_ex (\<lambda>i. i \<ge> length (gr_sottogriglie g)) (gr_radici g) then None
      else case figlio_che_contiene (gr_sottogriglie g) lat_s lon_w (gr_radici g) of
             None \<Rightarrow> Some None
           | Some radice \<Rightarrow> map_option Some (scendi (gr_sottogriglie g) lat_s lon_w radice))"

definition cerca_ntv2 :: "griglia_ntv2 \<Rightarrow> f64 \<Rightarrow> f64 \<Rightarrow> sottogriglia option option" where
  "cerca_ntv2 g lat_s lon_w =
     map_option (\<lambda>r. Option.bind r (\<lambda>i. if i < length (gr_sottogriglie g) then Some (gr_sottogriglie g ! i) else None))
       (indice g lat_s lon_w)"

definition secondi :: "f64 \<Rightarrow> f64 \<Rightarrow> f64 \<times> f64" where
  "secondi lon lat = (f64_mul lat SECONDI_PER_GRADO, f64_mul (f64_neg lon) SECONDI_PER_GRADO)"

definition cella :: "griglia_ntv2 \<Rightarrow> f64 \<Rightarrow> f64 \<Rightarrow> (nat \<times> nat \<times> nat) option option" where
  "cella gr lon lat =
     (case secondi lon lat of (lat_s, lon_w) \<Rightarrow>
        map_option (\<lambda>r. Option.bind r (\<lambda>i.
          if i < length (gr_sottogriglie gr) then
            (let g = gr_sottogriglie gr ! i;
                 fx = f64_div (f64_sub lon_w (sg_est g)) (sg_passo_lon g);
                 fy = f64_div (f64_sub lat_s (sg_sud g)) (sg_passo_lat g)
             in Option.bind (indice_cella fx (sg_colonne g)) (\<lambda>ix.
                Option.bind (indice_cella fy (sg_righe g)) (\<lambda>iy. Some (i, ix, iy))))
          else None)) (indice gr lat_s lon_w))"

definition spostamento_gradi :: "griglia_ntv2 \<Rightarrow> f64 \<Rightarrow> f64 \<Rightarrow> (f64 \<times> f64) option option" where
  "spostamento_gradi gr lon lat =
     (case secondi lon lat of (lat_s, lon_w) \<Rightarrow>
        map_option (\<lambda>r. Option.bind r (\<lambda>g.
          map_option (\<lambda>(dlat, dlon_w).
            (f64_div (f64_neg dlon_w) SECONDI_PER_GRADO, f64_div dlat SECONDI_PER_GRADO)) (spostamento g lat_s lon_w)))
        (cerca_ntv2 gr lat_s lon_w))"

definition griglia_avanti :: "griglia_ntv2 \<Rightarrow> f64 \<Rightarrow> f64 \<Rightarrow> (f64 \<times> f64) option option" where
  "griglia_avanti gr lon lat =
     map_option (map_option (\<lambda>(dlon, dlat). (f64_add lon dlon, f64_add lat dlat))) (spostamento_gradi gr lon lat)"

fun inversa_ciclo :: "(f64 \<Rightarrow> f64 \<Rightarrow> f64) \<Rightarrow> griglia_ntv2 \<Rightarrow> f64 \<Rightarrow> f64 \<Rightarrow> nat \<Rightarrow> f64 \<Rightarrow> f64
    \<Rightarrow> (crs_error + (f64 \<times> f64) option) option" where
  "inversa_ciclo hypot gr lon lat 0 x y = Some (Inl ReprojectionNotConverged)"
| "inversa_ciclo hypot gr lon lat (Suc n) x y =
     (case spostamento_gradi gr x y of
        None \<Rightarrow> None
      | Some None \<Rightarrow> Some (Inr None)
      | Some (Some (dlon, dlat)) \<Rightarrow>
          (let ex = f64_sub (f64_add x dlon) lon; ey = f64_sub (f64_add y dlat) lat;
               x = f64_sub x ex; y = f64_sub y ey
           in if f64_le (hypot ex ey) TOLLERANZA_INVERSA_GRADI then Some (Inr (Some (x, y)))
              else inversa_ciclo hypot gr lon lat n x y))"

definition griglia_indietro :: "(f64 \<Rightarrow> f64 \<Rightarrow> f64) \<Rightarrow> griglia_ntv2 \<Rightarrow> f64 \<Rightarrow> f64
    \<Rightarrow> (crs_error + (f64 \<times> f64) option) option" where
  "griglia_indietro hypot gr lon lat =
     (case spostamento_gradi gr lon lat of
        None \<Rightarrow> None
      | Some None \<Rightarrow> Some (Inr None)
      | Some (Some (dlon, dlat)) \<Rightarrow> inversa_ciclo hypot gr lon lat 20 (f64_sub lon dlon) (f64_sub lat dlat))"

section \<open>The hierarchy is a forest\<close>

lemmas figlio_iff = figlio_che_contiene_def

definition nei_limiti :: "sottogriglia list \<Rightarrow> bool" where
  "nei_limiti gs \<longleftrightarrow> (\<forall>g \<in> set gs. \<forall>i \<in> set (sg_figli g). i < length gs)"

text \<open>A subgrid from which the search comes back, at a subgrid with no child around the point.\<close>

definition piu_fine :: "sottogriglia list \<Rightarrow> f64 \<Rightarrow> f64 \<Rightarrow> nat \<Rightarrow> bool" where
  "piu_fine gs lat_s lon_w k \<longleftrightarrow>
     k < length gs \<and> (\<forall>f \<in> set (sg_figli (gs ! k)). \<not> contiene (gs ! f) lat_s lon_w)"

definition scende :: "sottogriglia list \<Rightarrow> nat \<Rightarrow> bool" where
  "scende gs i \<longleftrightarrow> (\<forall>la lo. \<exists>k. scendi gs la lo i = Some k \<and> piu_fine gs la lo k \<and> (k = i \<or> contiene (gs ! k) la lo))"

lemma scende_step:
  assumes "i < length gs" and "\<And>f. f \<in> set (sg_figli (gs ! i)) \<Longrightarrow> f < length gs \<and> scende gs f"
  shows "scende gs i"
  unfolding scende_def
proof (intro allI)
  fix la lo
  have ok: "\<not> (i \<ge> length gs \<or> list_ex (\<lambda>i. i \<ge> length gs) (sg_figli (gs ! i)))"
    using assms by (auto simp: list_ex_iff not_le)
  show "\<exists>k. scendi gs la lo i = Some k \<and> piu_fine gs la lo k \<and> (k = i \<or> contiene (gs ! k) la lo)"
  proof (cases "figlio_che_contiene gs la lo (sg_figli (gs ! i))")
    case None
    then have "scendi gs la lo i = Some i" using ok by (subst scendi.simps) simp
    moreover have "piu_fine gs la lo i" using None assms(1) by (auto simp: figlio_iff find_None_all piu_fine_def)
    ultimately show ?thesis by blast
  next
    case (Some f)
    then have f: "f \<in> set (sg_figli (gs ! i))" "contiene (gs ! f) la lo"
      by (auto simp: figlio_iff find_Some_iff)
    have "scendi gs la lo i = scendi gs la lo f" using ok Some by (subst scendi.simps) simp
    moreover obtain k where "scendi gs la lo f = Some k" "piu_fine gs la lo k" "k = f \<or> contiene (gs ! k) la lo"
      using assms(2) [OF f(1)] unfolding scende_def by blast
    ultimately show ?thesis using f(2) by auto
  qed
qed

lemma visita_pila_spec:
  "visita_pila gs R pila = Some (Inr R') \<Longrightarrow>
     length R' = length R \<and> (\<forall>i < length R. R ! i \<longrightarrow> R' ! i)
     \<and> (\<forall>j \<in> set pila. j < length R \<and> j < length gs \<and> \<not> R ! j \<and> R' ! j)
     \<and> (\<forall>j < length R. R' ! j \<and> \<not> R ! j \<longrightarrow> scende gs j)"
proof (induction gs R pila rule: visita_pila.induct)
  case (1 gs R pila)
  show ?case
  proof (cases "pila = []")
    case True
    then show ?thesis using 1(2) by (auto simp: visita_pila.simps [of gs R "[]"])
  next
    case False
    let ?i = "last pila"
    have i: "?i < length R" "?i < length gs" "\<not> R ! ?i"
      and rec: "visita_pila gs (R[?i := True]) (butlast pila @ sg_figli (gs ! ?i)) = Some (Inr R')"
      using 1(2) False by (auto simp: visita_pila.simps [of gs R pila] Let_def split: if_splits)
    note IH = 1(1) [OF False refl _ i(3) rec]
    have IH: "length R' = length R" "\<And>j. j < length R \<Longrightarrow> R[?i := True] ! j \<Longrightarrow> R' ! j"
      "\<And>j. j \<in> set (butlast pila) \<union> set (sg_figli (gs ! ?i)) \<Longrightarrow> j < length R \<and> j < length gs \<and> \<not> R[?i := True] ! j \<and> R' ! j"
      "\<And>j. j < length R \<Longrightarrow> R' ! j \<Longrightarrow> \<not> R[?i := True] ! j \<Longrightarrow> scende gs j"
      using IH i by auto
    have ne: "j \<noteq> ?i" if "j < length R" "\<not> R[?i := True] ! j" for j using that by auto
    have figli: "f < length gs \<and> scende gs f" if "f \<in> set (sg_figli (gs ! ?i))" for f
      using IH(3) [of f] IH(4) [of f] that by auto
    have desc: "scende gs ?i" using i(2) figli by (rule scende_step)
    have up: "R' ! j" if "j < length R" "R ! j" for j
      using IH(2) [of j] that by (cases "j = ?i") auto
    have reached: "R' ! ?i" using IH(2) [of ?i] i(1) by simp
    have stack: "j < length R \<and> j < length gs \<and> \<not> R ! j \<and> R' ! j" if "j \<in> set pila" for j
    proof (cases "j = ?i")
      case True
      then show ?thesis using i reached by simp
    next
      case False2: False
      have "j \<in> set (butlast pila @ [?i])" using that False by simp
      then have "j \<in> set (butlast pila)" using False2 by auto
      then show ?thesis using IH(3) [of j] False2 by auto
    qed
    have new: "scende gs j" if "j < length R" "R' ! j" "\<not> R ! j" for j
      using that desc IH(4) [of j] by (cases "j = ?i") auto
    show ?thesis using IH(1) up stack new by blast
  qed
qed

lemma visita_pila_returns:
  "length R = length gs \<Longrightarrow> nei_limiti gs \<Longrightarrow> (\<forall>i \<in> set pila. i < length gs) \<Longrightarrow> visita_pila gs R pila \<noteq> None"
proof (induction gs R pila rule: visita_pila.induct)
  case (1 gs R pila)
  show ?case
  proof (cases "pila = []")
    case True
    then show ?thesis by (simp add: visita_pila.simps)
  next
    case False
    let ?i = "last pila"
    have i: "?i < length gs" using 1(4) False by auto
    have "set (sg_figli (gs ! ?i)) \<subseteq> {..<length gs}" using 1(3) i by (auto simp: nei_limiti_def)
    moreover have "set (butlast pila) \<subseteq> {..<length gs}" using 1(4) by (auto dest: in_set_butlastD)
    ultimately have "R ! ?i \<or> visita_pila gs (R[?i := True]) (butlast pila @ sg_figli (gs ! ?i)) \<noteq> None"
      using 1(1) [OF False refl] 1(2,3) i by auto
    then show ?thesis using False i 1(2) by (subst visita_pila.simps) (auto simp: Let_def)
  qed
qed

text \<open>What linking the children keeps: everything but the children.\<close>

definition senza_figli :: "sottogriglia \<Rightarrow> sottogriglia" where
  "senza_figli g = g\<lparr>sg_figli := []\<rparr>"

definition legami :: "sottogriglia list \<Rightarrow> sottogriglia list \<times> nat list \<Rightarrow> bool" where
  "legami gs0 = (\<lambda>(gs, radici).
     map senza_figli gs = map senza_figli gs0 \<and> nei_limiti gs \<and> (\<forall>r \<in> set radici. r < length gs))"

lemma legami_length: "legami gs0 (gs, radici) \<Longrightarrow> length gs = length gs0"
  unfolding legami_def by (metis (mono_tags, lifting) case_prod_conv length_map)

lemma posizione_Some: "posizione P xs = Some i \<Longrightarrow> i < length xs \<and> P (xs ! i)"
  by (auto simp: posizione_def find_Some_iff)

lemma collega_legami:
  assumes "legami gs0 s" and "i < length gs0" and "collega s i = Inr s'"
  shows "legami gs0 s'"
proof -
  obtain gs radici where s: "s = (gs, radici)" by (cases s)
  have len: "length gs = length gs0" using assms(1) legami_length s by blast
  have same: "senza_figli (g\<lparr>sg_figli := fs\<rparr>) = senza_figli g" for g fs by (simp add: senza_figli_def)
  from assms(3) consider "s' = (gs, radici @ [i])"
    | p where "p < length gs" "s' = (gs[p := (gs ! p)\<lparr>sg_figli := sg_figli (gs ! p) @ [i]\<rparr>], radici)"
    by (auto simp: collega_def s split: if_splits option.splits dest: posizione_Some)
  then show ?thesis
  proof cases
    case 1
    then show ?thesis using assms(1,2) len by (auto simp: legami_def s)
  next
    case (2 p)
    have "map senza_figli (gs[p := (gs ! p)\<lparr>sg_figli := sg_figli (gs ! p) @ [i]\<rparr>]) = map senza_figli gs"
      unfolding map_update same using list_update_id [of "map senza_figli gs" p] 2(1) by simp
    moreover have "nei_limiti (gs[p := (gs ! p)\<lparr>sg_figli := sg_figli (gs ! p) @ [i]\<rparr>])"
      unfolding nei_limiti_def
    proof (intro ballI)
      fix g j
      assume g: "g \<in> set (gs[p := (gs ! p)\<lparr>sg_figli := sg_figli (gs ! p) @ [i]\<rparr>])" and j: "j \<in> set (sg_figli g)"
      have lim: "\<And>g j. g \<in> set gs \<Longrightarrow> j \<in> set (sg_figli g) \<Longrightarrow> j < length gs"
        using assms(1) by (simp add: legami_def s nei_limiti_def)
      have "g \<in> set gs \<or> g = (gs ! p)\<lparr>sg_figli := sg_figli (gs ! p) @ [i]\<rparr>"
        using g set_update_subset_insert by fastforce
      then have "j < length gs"
        using j lim [of g j] lim [of "gs ! p" j] 2(1) assms(2) len by auto
      then show "j < length (gs[p := (gs ! p)\<lparr>sg_figli := sg_figli (gs ! p) @ [i]\<rparr>])" by simp
    qed
    ultimately show ?thesis using assms(1) 2 by (auto simp: legami_def s)
  qed
qed

lemma legami_iniziale:
  "(\<forall>g \<in> set gs. sg_figli g = []) \<Longrightarrow> legami gs (gs, [])"
  by (simp add: legami_def nei_limiti_def)

lemma collega_ciclo:
  assumes "\<forall>g \<in> set gs. sg_figli g = []" and "try_fold collega (gs, []) [0..<length gs] = Inr (gs', radici)"
  shows "legami gs (gs', radici)"
  by (rule try_fold_invariant [OF assms(2)]) (auto simp: legami_iniziale [OF assms(1)] intro: collega_legami)

lemma albero_returns:
  assumes "\<forall>g \<in> set gs. sg_figli g = []"
  shows "albero_ntv2 gs \<noteq> None"
proof (cases "try_fold collega (gs, []) [0..<length gs]")
  case (Inr s)
  obtain gs' radici where s: "s = (gs', radici)" by (cases s)
  have l: "legami gs (gs', radici)" using collega_ciclo [OF assms] Inr s by simp
  then have "visita_pila gs' (replicate (length gs') False) radici \<noteq> None"
    by (intro visita_pila_returns) (auto simp: legami_def)
  then show ?thesis using Inr s by (auto simp: albero_ntv2_def)
qed (simp add: albero_ntv2_def)

lemma albero_spec:
  assumes "albero_ntv2 gs = Some (Inr (gs', radici))"
  shows "radici \<noteq> []" and "\<forall>r \<in> set radici. r < length gs'" and "\<forall>i < length gs'. scende gs' i"
    and "(\<forall>g \<in> set gs. sg_figli g = []) \<Longrightarrow> legami gs (gs', radici)"
proof -
  obtain gs1 radici1 where t: "try_fold collega (gs, []) [0..<length gs] = Inr (gs1, radici1)"
    using assms by (cases "try_fold collega (gs, []) [0..<length gs]") (auto simp: albero_ntv2_def)
  have r1: "radici1 \<noteq> []" using assms t by (auto simp: albero_ntv2_def)
  then obtain e where e: "visita_pila gs1 (replicate (length gs1) False) radici1 = Some e"
      "try_bind e (\<lambda>raggiunte. if list_ex Not raggiunte
         then Inl (difetto ''gerarchia delle sottogriglie non ad albero'') else Inr (gs1, radici1)) = Inr (gs', radici)"
    using assms t by (auto simp: albero_ntv2_def)
  then obtain R where "e = Inr R" and all: "\<not> list_ex Not R" and eq: "gs1 = gs'" "radici1 = radici"
    by (cases e) (auto split: if_splits)
  then have v: "visita_pila gs' (replicate (length gs') False) radici = Some (Inr R)"
    and c: "try_fold collega (gs, []) [0..<length gs] = Inr (gs', radici)" and r: "radici \<noteq> []"
    using e t r1 by auto
  note spec = visita_pila_spec [OF v]
  show "radici \<noteq> []" by (rule r)
  show "\<forall>r \<in> set radici. r < length gs'" using spec by auto
  have len: "length R = length gs'" using spec by simp
  have "R ! i" if "i < length gs'" for i using all that len by (auto simp: list_ex_iff)
  then show "\<forall>i < length gs'. scende gs' i" using spec by auto
  show "(\<forall>g \<in> set gs. sg_figli g = []) \<Longrightarrow> legami gs (gs', radici)" by (rule collega_ciclo [OF _ c])
qed

text \<open>The index of a point is total on a checked hierarchy, and it is the finest subgrid.\<close>

lemma indice_spec:
  assumes "\<forall>r \<in> set (gr_radici g). r < length (gr_sottogriglie g)"
    and "\<forall>i < length (gr_sottogriglie g). scende (gr_sottogriglie g) i"
  shows "\<exists>r. indice g la lo = Some r
    \<and> (case r of None \<Rightarrow> \<forall>i \<in> set (gr_radici g). \<not> contiene (gr_sottogriglie g ! i) la lo
       | Some k \<Rightarrow> piu_fine (gr_sottogriglie g) la lo k \<and> contiene (gr_sottogriglie g ! k) la lo)"
proof -
  have ok: "\<not> list_ex (\<lambda>i. i \<ge> length (gr_sottogriglie g)) (gr_radici g)"
    using assms(1) by (auto simp: list_ex_iff not_le)
  show ?thesis
  proof (cases "figlio_che_contiene (gr_sottogriglie g) la lo (gr_radici g)")
    case None
    then have "indice g la lo = Some None" using ok by (simp add: indice_def)
    moreover have "\<forall>i \<in> set (gr_radici g). \<not> contiene (gr_sottogriglie g ! i) la lo"
      using None by (simp add: figlio_iff find_None_all)
    ultimately show ?thesis by auto
  next
    case (Some r)
    then have r: "r \<in> set (gr_radici g)" "contiene (gr_sottogriglie g ! r) la lo"
      by (auto simp: figlio_iff find_Some_iff)
    then obtain k where "scendi (gr_sottogriglie g) la lo r = Some k" "piu_fine (gr_sottogriglie g) la lo k"
        "k = r \<or> contiene (gr_sottogriglie g ! k) la lo"
      using assms unfolding scende_def by blast
    moreover have "indice g la lo = map_option Some (scendi (gr_sottogriglie g) la lo r)"
      using ok Some by (simp add: indice_def)
    ultimately show ?thesis using r by auto
  qed
qed

section \<open>The sizes of a subgrid\<close>

lemma f64_round_uno: "f64_round 1 = 0x3FF0000000000000"
  using f64_round_exact [of "2 ^ 52" 1022] by (simp add: scala_f64_def)

lemma f64_uno: "f64_is_finite (f64_round 1)" "f64_rat (f64_round 1) = 1" "f64_key (f64_round 1) > 0"
  unfolding f64_round_uno
  by (simp_all add: f64_is_finite_def f64_rat_def f64_unita_def f64_raw_exponent_def f64_fraction_def
      f64_negative_def f64_key_def scala_f64_def drop_bit_eq_div)

lemma f64_as_usize_ge_one:
  assumes "f64_le (f64_round 1) x"
  shows "1 \<le> f64_as_usize x"
proof (cases "f64_is_finite x")
  case True
  then have "1 \<le> f64_rat x" using assms f64_le_rat [OF f64_uno(1) True] f64_uno(2) by simp
  then have "nat 1 \<le> nat \<lfloor>f64_rat x\<rfloor>" by (intro nat_mono) (simp add: le_floor_iff)
  then show ?thesis
    using True by (auto simp: f64_as_usize_def f64_is_nan_def f64_is_finite_def f64_is_infinite_def USIZE_MAX_def)
next
  case False
  have "0 < f64_key x" using assms f64_uno(3) by (auto simp: f64_le_def)
  then have "\<not> f64_negative x" by (auto simp: f64_key_def split: if_splits)
  moreover have "\<not> f64_is_nan x" using assms by (simp add: f64_le_def)
  ultimately show ?thesis
    using False by (auto simp: f64_as_usize_def f64_is_nan_def f64_is_finite_def f64_is_infinite_def USIZE_MAX_def)
qed

lemma nodi_ntv2_ge: "nodi_ntv2 a b c = Inr n \<Longrightarrow> 2 \<le> n"
  using f64_as_usize_ge_one by (auto simp: nodi_ntv2_def Let_def f64_in_def split: if_splits)

lemma leggi_spostamenti_length:
  "leggi_spostamenti l p (p + RECORD_NTV2 * n) = Inr xs \<Longrightarrow> length xs = n"
proof (induction n arbitrary: p xs)
  case 0
  then show ?case by (simp add: leggi_spostamenti.simps [of l p])
next
  case (Suc n)
  have lt: "p < p + RECORD_NTV2 * Suc n" by (simp add: RECORD_NTV2_def)
  have "p + RECORD_NTV2 * Suc n = p + RECORD_NTV2 + RECORD_NTV2 * n" by simp
  moreover have "leggi_spostamenti l p (p + RECORD_NTV2 * Suc n) =
      try_bind (f32_a l p) (\<lambda>dlat. try_bind (f32_a l (p + 4)) (\<lambda>dlon.
      try_bind (leggi_spostamenti l (p + RECORD_NTV2) (p + RECORD_NTV2 * Suc n)) (\<lambda>resto. Inr ((dlat, dlon) # resto))))"
    using lt by (subst leggi_spostamenti.simps) (simp only: if_True)
  ultimately obtain y ys where "xs = y # ys"
      "leggi_spostamenti l (p + RECORD_NTV2) (p + RECORD_NTV2 + RECORD_NTV2 * n) = Inr ys"
    using Suc.prems by (auto simp only: try_bind_Inr_iff sum.inject)
  then show ?case using Suc.IH by simp
qed

definition dimensioni :: "sottogriglia \<Rightarrow> bool" where
  "dimensioni g \<longleftrightarrow>
     2 \<le> sg_righe g \<and> 2 \<le> sg_colonne g \<and> sg_righe g * sg_colonne g \<le> USIZE_MAX
     \<and> length (sg_spostamenti g) = sg_righe g * sg_colonne g"

lemma leggi_sottogriglia_ok:
  assumes "leggi_sottogriglia l = Inr (g, l')"
  shows "dimensioni g \<and> sg_figli g = []"
proof -
  let ?e = "difetto ''GS_COUNT diverso da righe per colonne''"
  obtain li a b c d e f conteggio righe colonne attesi fine where
      n: "nodi_ntv2 a b c = Inr righe" "nodi_ntv2 d e f = Inr colonne"
    and att: "(case usize_checked (righe * colonne) of
         Some n \<Rightarrow> if conteggio = int n then Inr n else Inl ?e | None \<Rightarrow> Inl ?e) = Inr attesi"
    and fine: "(case Option.bind (usize_checked (attesi * RECORD_NTV2)) (\<lambda>n. usize_checked (n + ln_posizione li)) of
         Some fine \<Rightarrow> if fine \<le> length (ln_byte li) then Inr fine else Inl (difetto ''file troncato'')
       | None \<Rightarrow> Inl (difetto ''file troncato'')) = Inr fine"
    and sp: "leggi_spostamenti li (ln_posizione li) fine = Inr (sg_spostamenti g)"
    and g: "sg_righe g = righe" "sg_colonne g = colonne" "sg_figli g = []"
    using assms unfolding leggi_sottogriglia_def
    by (auto simp: try_bind_Inr_iff simp del: nodi_ntv2_def)
  have "usize_checked (righe * colonne) = Some attesi"
    using att by (auto split: option.splits if_splits)
  then have a: "attesi = righe * colonne" "righe * colonne \<le> USIZE_MAX"
    by (auto simp: usize_checked_def split: if_splits)
  have "fine = ln_posizione li + RECORD_NTV2 * attesi"
    using fine by (auto simp: usize_checked_def split: option.splits if_splits)
  then have "length (sg_spostamenti g) = attesi" using sp leggi_spostamenti_length by blast
  then show ?thesis using a g nodi_ntv2_ge n by (auto simp: dimensioni_def)
qed

section \<open>The shift is defined everywhere\<close>

lemma indice_cella_Some: "2 \<le> n \<Longrightarrow> \<exists>i. indice_cella f n = Some i \<and> i + 1 < n"
  by (auto simp: indice_cella_def)

lemma nodo_Some:
  assumes "dimensioni g" and "i < sg_colonne g" and "j < sg_righe g"
  shows "nodo g i j \<noteq> None"
proof -
  have "Suc j * sg_colonne g \<le> sg_righe g * sg_colonne g" using assms(3) by (intro mult_right_mono) simp_all
  then have k: "j * sg_colonne g + i < sg_righe g * sg_colonne g" using assms(2) by simp
  moreover have "sg_righe g * sg_colonne g \<le> USIZE_MAX" "length (sg_spostamenti g) = sg_righe g * sg_colonne g"
    using assms(1) by (simp_all add: dimensioni_def)
  ultimately show ?thesis
    by (auto simp: nodo_def usize_checked_def split: prod.splits)
qed

lemma spostamento_Some:
  assumes "dimensioni g"
  shows "spostamento g lat_s lon_w \<noteq> None"
proof -
  let ?fx = "f64_div (f64_sub lon_w (sg_est g)) (sg_passo_lon g)"
  let ?fy = "f64_div (f64_sub lat_s (sg_sud g)) (sg_passo_lat g)"
  obtain ix iy where i: "indice_cella ?fx (sg_colonne g) = Some ix" "ix + 1 < sg_colonne g"
      "indice_cella ?fy (sg_righe g) = Some iy" "iy + 1 < sg_righe g"
    using assms indice_cella_Some unfolding dimensioni_def by metis
  have lt: "ix < sg_colonne g" "iy < sg_righe g" using i by simp_all
  obtain p0 p1 p2 p3 where
      n: "nodo g ix iy = Some p0" "nodo g (ix + 1) iy = Some p1" "nodo g ix (iy + 1) = Some p2"
        "nodo g (ix + 1) (iy + 1) = Some p3"
    using nodo_Some [OF assms lt] nodo_Some [OF assms i(2) lt(2)] nodo_Some [OF assms lt(1) i(4)]
      nodo_Some [OF assms i(2,4)] by blast
  show ?thesis
    unfolding spostamento_def Let_def i(1,3) bind.bind_lunit n by (simp split: prod.splits)
qed

definition griglia_ok :: "griglia_ntv2 \<Rightarrow> bool" where
  "griglia_ok g \<longleftrightarrow>
     (\<forall>r \<in> set (gr_radici g). r < length (gr_sottogriglie g))
     \<and> (\<forall>i < length (gr_sottogriglie g). scende (gr_sottogriglie g) i)
     \<and> (\<forall>s \<in> set (gr_sottogriglie g). dimensioni s)"

definition dentro :: "griglia_ntv2 \<Rightarrow> f64 \<Rightarrow> f64 \<Rightarrow> bool" where
  "dentro g lon lat \<longleftrightarrow>
     (\<exists>r \<in> set (gr_radici g). contiene (gr_sottogriglie g ! r) (fst (secondi lon lat)) (snd (secondi lon lat)))"

lemma indice_ok:
  assumes "griglia_ok g"
  obtains r where "indice g la lo = Some r"
    and "r = None \<longleftrightarrow> \<not> (\<exists>i \<in> set (gr_radici g). contiene (gr_sottogriglie g ! i) la lo)"
    and "\<And>k. r = Some k \<Longrightarrow> k < length (gr_sottogriglie g)"
proof -
  have "\<forall>r \<in> set (gr_radici g). r < length (gr_sottogriglie g)" "\<forall>i < length (gr_sottogriglie g). scende (gr_sottogriglie g) i"
    using assms by (simp_all add: griglia_ok_def)
  from indice_spec [OF this, of la lo] obtain r where r: "indice g la lo = Some r"
    "case r of None \<Rightarrow> \<forall>i \<in> set (gr_radici g). \<not> contiene (gr_sottogriglie g ! i) la lo
       | Some k \<Rightarrow> piu_fine (gr_sottogriglie g) la lo k \<and> contiene (gr_sottogriglie g ! k) la lo" by blast
  have fuori: "r = None" if "\<not> (\<exists>i \<in> set (gr_radici g). contiene (gr_sottogriglie g ! i) la lo)"
  proof -
    have "figlio_che_contiene (gr_sottogriglie g) la lo (gr_radici g) = None"
      using that by (simp add: figlio_iff find_None_all)
    then show ?thesis using r(1) by (auto simp: indice_def split: if_splits)
  qed
  show thesis
    using r fuori by (intro that [of r]) (auto simp: piu_fine_def split: option.splits)
qed

lemma spostamento_gradi_ok:
  assumes "griglia_ok g"
  shows "\<exists>r. spostamento_gradi g lon lat = Some r \<and> (r = None \<longleftrightarrow> \<not> dentro g lon lat)"
proof -
  obtain la lo where s: "secondi lon lat = (la, lo)" by (cases "secondi lon lat")
  obtain r where r: "indice g la lo = Some r"
    "r = None \<longleftrightarrow> \<not> (\<exists>i \<in> set (gr_radici g). contiene (gr_sottogriglie g ! i) la lo)"
    "\<And>k. r = Some k \<Longrightarrow> k < length (gr_sottogriglie g)"
    using indice_ok [OF assms] by blast
  show ?thesis
  proof (cases r)
    case None
    then have "spostamento_gradi g lon lat = Some None" using r(1) by (simp add: spostamento_gradi_def cerca_ntv2_def s)
    then show ?thesis using r(2) None by (simp add: dentro_def s)
  next
    case (Some k)
    have "dimensioni (gr_sottogriglie g ! k)" using assms r(3) Some by (simp add: griglia_ok_def)
    then obtain d where d: "spostamento (gr_sottogriglie g ! k) la lo = Some d" using spostamento_Some by blast
    obtain v where "spostamento_gradi g lon lat = Some (Some v)"
      using r(1,3) Some d by (simp add: spostamento_gradi_def cerca_ntv2_def s)
    then show ?thesis using r(2) Some by (simp add: dentro_def s)
  qed
qed

lemma inversa_ciclo_returns: "griglia_ok g \<Longrightarrow> inversa_ciclo hypot g lon lat n x y \<noteq> None"
proof (induction n arbitrary: x y)
  case (Suc n)
  then show ?case using spostamento_gradi_ok [OF Suc.prems, of x y] by (auto simp: Let_def split: option.splits prod.splits)
qed simp

lemma leggi_sottogriglie_ok:
  assumes "leggi_sottogriglie byte = Inr (gs, l)"
  shows "\<forall>g \<in> set gs. dimensioni g \<and> sg_figli g = []"
proof -
  let ?f = "\<lambda>(gs, l). try_bind (leggi_sottogriglia l) (\<lambda>(g, l). Inr (gs @ [g], l))"
  have step: "\<forall>g \<in> set (fst s'). dimensioni g \<and> sg_figli g = []"
    if "\<forall>g \<in> set (fst s). dimensioni g \<and> sg_figli g = []" and "?f s = Inr s'" for s s'
    using that leggi_sottogriglia_ok by (auto simp: try_bind_Inr_iff split: prod.splits)
  obtain n l0 where "ripeti n ?f ([], l0) = Inr (gs, l)"
    using assms unfolding leggi_sottogriglie_def by (auto simp: try_bind_Inr_iff split: prod.splits if_splits)
  then have "\<forall>g \<in> set (fst (gs, l)). dimensioni g \<and> sg_figli g = []"
    by (rule ripeti_invariant [where f = ?f, rotated 2]) (simp, rule step)
  then show ?thesis by simp
qed

lemma dimensioni_senza_figli: "dimensioni (senza_figli g) = dimensioni g"
  by (simp add: dimensioni_def senza_figli_def)

lemma legami_dimensioni:
  assumes "legami gs (gs', radici)" and "\<forall>g \<in> set gs. dimensioni g"
  shows "\<forall>g \<in> set gs'. dimensioni g"
proof
  fix g
  assume "g \<in> set gs'"
  then have "senza_figli g \<in> senza_figli ` set gs"
    using assms(1) unfolding legami_def by (metis (mono_tags, lifting) case_prod_conv image_eqI list.set_map)
  then show "dimensioni g" using assms(2) by (metis (mono_tags, lifting) dimensioni_senza_figli imageE)
qed

lemma da_byte_cases:
  assumes "da_byte byte = r"
  obtains e where "r = Some (Inl e)"
  | g where "r = Some (Inr g)" and "griglia_ok g"
proof (cases "leggi_sottogriglie byte")
  case (Inl e)
  then show thesis using assms that(1) [of e] by (simp add: da_byte_def)
next
  case (Inr s)
  obtain gs l where s: "s = (gs, l)" by (cases s)
  have gs: "\<forall>g \<in> set gs. dimensioni g \<and> sg_figli g = []" using leggi_sottogriglie_ok Inr s by blast
  then obtain q where q: "albero_ntv2 gs = Some q" using albero_returns by blast
  have r: "r = Some (map_ok (\<lambda>(gs, radici). \<lparr>gr_sottogriglie = gs, gr_radici = radici\<rparr>) q)"
    using assms Inr s q by (simp add: da_byte_def)
  show thesis
  proof (cases q)
    case (Inl e)
    then show thesis using r that(1) [of e] by simp
  next
    case (Inr t)
    obtain gs' radici where t: "t = (gs', radici)" by (cases t)
    note spec = albero_spec [OF q [unfolded Inr t]]
    have "\<forall>g \<in> set gs'. dimensioni g" using spec(4) gs legami_dimensioni by blast
    then have "griglia_ok \<lparr>gr_sottogriglie = gs', gr_radici = radici\<rparr>"
      using spec(2,3) by (simp add: griglia_ok_def)
    then show thesis using r that(2) Inr t by simp
  qed
qed

text \<open>The only errors of the reading are defects of the file.\<close>

definition solo_difetti :: "crs_error + 'a \<Rightarrow> bool" where
  "solo_difetti r \<longleftrightarrow> (\<forall>e. r = Inl e \<longrightarrow> (\<exists>motivo. e = GridInvalid motivo))"

lemma solo_difetti_simps [simp]:
  "solo_difetti (Inr x)" "solo_difetti (Inl (GridInvalid m))" "solo_difetti (ensure b (GridInvalid m))"
  "solo_difetti (ok_or (GridInvalid m) z)" "solo_difetti (map_ok h r) = solo_difetti r"
  by (cases b; cases z; cases r; simp add: solo_difetti_def)+

lemma solo_difetti_bind: "solo_difetti r \<Longrightarrow> (\<And>a. r = Inr a \<Longrightarrow> solo_difetti (f a)) \<Longrightarrow> solo_difetti (try_bind r f)"
  by (cases r) (auto simp: solo_difetti_def)

lemma solo_difetti_if: "solo_difetti a \<Longrightarrow> solo_difetti b \<Longrightarrow> solo_difetti (if c then a else b)"
  by simp

lemma solo_difetti_try_fold: "(\<And>s x. solo_difetti (f s x)) \<Longrightarrow> solo_difetti (try_fold f s xs)"
  by (induction xs arbitrary: s) (auto simp: solo_difetti_def split: sum.splits)

lemma solo_difetti_ripeti: "(\<And>s. solo_difetti (f s)) \<Longrightarrow> solo_difetti (ripeti n f s)"
  by (induction n arbitrary: s) (auto intro: solo_difetti_bind)

lemma solo_difetti_chiave [simp]:
  "solo_difetti (leggi_record l)" "solo_difetti (leggi_chiave c l)" "solo_difetti (intero_di c l)"
  "solo_difetti (reale_ntv2 b v)" "solo_difetti (reale_di c l)" "solo_difetti (f32_a l n)" "solo_difetti (nodi_ntv2 x y z)"
proof -
  show r: "solo_difetti (leggi_record l)" for l by (auto simp: leggi_record_def intro!: solo_difetti_bind)
  show c: "solo_difetti (leggi_chiave c l)" for c l
    by (auto simp: leggi_chiave_def r intro!: solo_difetti_bind split: prod.splits)
  show "solo_difetti (intero_di c l)" by (auto simp: intero_di_def c intro!: solo_difetti_bind split: prod.splits)
  show v: "solo_difetti (reale_ntv2 b v)" for b v by (simp add: reale_ntv2_def Let_def)
  show "solo_difetti (reale_di c l)" by (auto simp: reale_di_def c v intro!: solo_difetti_bind split: prod.splits)
  show "solo_difetti (f32_a l n)" by (auto simp: f32_a_def Let_def intro!: solo_difetti_bind)
  show "solo_difetti (nodi_ntv2 x y z)" by (simp add: nodi_ntv2_def Let_def)
qed

lemma solo_difetti_spostamenti [simp]: "solo_difetti (leggi_spostamenti l p fine)"
proof (induction l p fine rule: leggi_spostamenti.induct)
  case (1 l p fine)
  then show ?case by (subst leggi_spostamenti.simps) (auto intro!: solo_difetti_bind)
qed

lemma solo_difetti_sottogriglia [simp]: "solo_difetti (leggi_sottogriglia l)"
  unfolding leggi_sottogriglia_def
  by (auto intro!: solo_difetti_bind split: prod.splits option.splits)

lemma solo_difetti_sottogriglie [simp]: "solo_difetti (leggi_sottogriglie byte)"
  unfolding leggi_sottogriglie_def
  unfolding case_prod_beta
  by (intro solo_difetti_bind solo_difetti_if solo_difetti_try_fold solo_difetti_ripeti) simp_all

lemma visita_pila_difetti: "visita_pila gs R pila = Some r \<Longrightarrow> solo_difetti r"
proof (induction gs R pila rule: visita_pila.induct)
  case (1 gs R pila)
  then show ?case by (subst (asm) visita_pila.simps) (auto simp: Let_def split: if_splits)
qed

lemma albero_difetti:
  assumes "albero_ntv2 gs = Some r"
  shows "solo_difetti r"
proof -
  have c: "solo_difetti (collega s i)" for s i
    by (auto simp: collega_def split: prod.splits option.splits)
  have f: "solo_difetti (try_fold collega (gs, []) [0..<length gs])" by (rule solo_difetti_try_fold) (rule c)
  show ?thesis
  proof (cases "try_fold collega (gs, []) [0..<length gs]")
    case (Inl e)
    then have "r = Inl e" using assms by (simp add: albero_ntv2_def)
    then show ?thesis using f Inl by (simp add: solo_difetti_def)
  next
    case (Inr s)
    obtain gs' radici where s: "s = (gs', radici)" by (cases s)
    show ?thesis
    proof (cases "radici = []")
      case True
      then show ?thesis using assms Inr s by (auto simp: albero_ntv2_def)
    next
      case False
      then obtain v where v: "visita_pila gs' (replicate (length gs') False) radici = Some v"
          "r = try_bind v (\<lambda>raggiunte. if list_ex Not raggiunte
             then Inl (difetto ''gerarchia delle sottogriglie non ad albero'') else Inr (gs', radici))"
        using assms Inr s by (auto simp: albero_ntv2_def)
      show ?thesis unfolding v(2) using visita_pila_difetti [OF v(1)] by (intro solo_difetti_bind) simp_all
    qed
  qed
qed

lemma da_byte_difetti: "da_byte byte = Some (Inl e) \<Longrightarrow> \<exists>motivo. e = GridInvalid motivo"
  using solo_difetti_sottogriglie [of byte] albero_difetti
  by (fastforce simp: da_byte_def solo_difetti_def split: sum.splits prod.splits)

text \<open>C29. Reading a grid file never gets stuck: any bytes give a grid or a defect of the file.  On a grid that was read,
  the search of the finest subgrid and the shift of a point always return, forwards and backwards, and the shift
  forwards is missing exactly for the points outside every root.\<close>

theorem grid_never_stuck:
  "case da_byte byte of
     None \<Rightarrow> False
   | Some (Inl e) \<Rightarrow> \<exists>motivo. e = GridInvalid motivo
   | Some (Inr g) \<Rightarrow>
       indice g lat_s lon_w \<noteq> None \<and> cella g lon lat \<noteq> None \<and> griglia_indietro hypot g lon lat \<noteq> None
       \<and> griglia_avanti g lon lat \<noteq> None \<and> (griglia_avanti g lon lat = Some None \<longleftrightarrow> \<not> dentro g lon lat)"
proof (rule da_byte_cases [OF refl, of byte])
  fix g
  assume d: "da_byte byte = Some (Inr g)" and ok: "griglia_ok g"
  obtain s where s: "spostamento_gradi g lon lat = Some s" "s = None \<longleftrightarrow> \<not> dentro g lon lat"
    using spostamento_gradi_ok [OF ok] by blast
  have "indice g la lo \<noteq> None" for la lo
    using indice_ok [OF ok, of la lo] by auto
  moreover from this have "cella g lon lat \<noteq> None" by (auto simp: cella_def split: prod.splits)
  moreover have "griglia_indietro hypot g lon lat \<noteq> None"
    using s inversa_ciclo_returns [OF ok] by (auto simp: griglia_indietro_def split: option.splits)
  moreover have "griglia_avanti g lon lat = Some (map_option (\<lambda>(dlon, dlat). (f64_add lon dlon, f64_add lat dlat)) s)"
    using s by (simp add: griglia_avanti_def)
  ultimately show ?thesis using d s(2) by auto
qed (use da_byte_difetti in simp)

text \<open>C30. On a hierarchy that was accepted the search gives the finest subgrid: one that contains the point and none of
  whose children does; it gives none only when no root contains the point.\<close>

theorem search_gives_finest:
  assumes "albero_ntv2 gs = Some (Inr (gs', radici))"
  shows "(case indice \<lparr>gr_sottogriglie = gs', gr_radici = radici\<rparr> lat_s lon_w of
            None \<Rightarrow> False
          | Some None \<Rightarrow> \<forall>r \<in> set radici. \<not> contiene (gs' ! r) lat_s lon_w
          | Some (Some k) \<Rightarrow>
              k < length gs' \<and> contiene (gs' ! k) lat_s lon_w
              \<and> (\<forall>f \<in> set (sg_figli (gs' ! k)). \<not> contiene (gs' ! f) lat_s lon_w))"
proof -
  have "\<exists>r. indice \<lparr>gr_sottogriglie = gs', gr_radici = radici\<rparr> lat_s lon_w = Some r
    \<and> (case r of None \<Rightarrow> \<forall>i \<in> set radici. \<not> contiene (gs' ! i) lat_s lon_w
       | Some k \<Rightarrow> piu_fine gs' lat_s lon_w k \<and> contiene (gs' ! k) lat_s lon_w)"
    using indice_spec [of "\<lparr>gr_sottogriglie = gs', gr_radici = radici\<rparr>" lat_s lon_w]
      albero_spec(2,3) [OF assms] by (simp cong: option.case_cong)
  then show ?thesis by (auto simp: piu_fine_def split: option.splits)
qed

definition sottogriglia_esempio :: "u8 list \<Rightarrow> u8 list \<Rightarrow> f64 \<Rightarrow> sottogriglia" where
  "sottogriglia_esempio nome padre lato =
     \<lparr>sg_nome = nome, sg_padre = padre, sg_sud = 0, sg_nord = lato, sg_est = 0, sg_ovest = lato,
      sg_passo_lat = lato, sg_passo_lon = lato, sg_righe = 2, sg_colonne = 2, sg_spostamenti = replicate 4 (0, 0),
      sg_figli = []\<rparr>"

theorem search_gives_finest_witness:
  "\<exists>gs' radici. albero_ntv2 [sottogriglia_esempio (byte_string ''A       '') (byte_string ''NONE    '') 0x40AC200000000000,
       sottogriglia_esempio (byte_string ''B       '') (byte_string ''A       '') 0x409C200000000000] = Some (Inr (gs', radici))
     \<and> indice \<lparr>gr_sottogriglie = gs', gr_radici = radici\<rparr> 0 0 = Some (Some 1)"
proof -
  let ?a = "sottogriglia_esempio (byte_string ''A       '') (byte_string ''NONE    '') 0x40AC200000000000"
  let ?b = "sottogriglia_esempio (byte_string ''B       '') (byte_string ''A       '') 0x409C200000000000"
  have nome: "padre_assente (sg_padre ?a)" "\<not> padre_assente (sg_padre ?b)"
    by (simp_all add: sottogriglia_esempio_def padre_assente_def byte_string_def byte_of_def byte_eq_ignore_ascii_case_def
        u8_to_ascii_lowercase_def)
  have pos: "posizione (\<lambda>candidata. sg_nome candidata = sg_padre ?b) [?a, ?b] = Some 0"
    by (simp add: posizione_def sottogriglia_esempio_def byte_string_def byte_of_def upt_rec)
  have dentro: "\<not> fuori_dal_padre ?b ?a"
    by (simp add: fuori_dal_padre_def sottogriglia_esempio_def f64_lt_def f64_key_def f64_negative_def f64_is_nan_def)
  let ?gs = "[?a\<lparr>sg_figli := [1]\<rparr>, ?b]"
  have "try_fold collega ([?a, ?b], []) [0..<2] = Inr (?gs, [0])"
    using nome pos dentro by (simp add: collega_def upt_rec) (simp add: sottogriglia_esempio_def byte_string_def byte_of_def)
  moreover have "visita_pila ?gs [False, False] [0] = Some (Inr [True, True])"
    by (simp add: visita_pila.simps sottogriglia_esempio_def)
  ultimately have t: "albero_ntv2 [?a, ?b] = Some (Inr (?gs, [0]))"
    by (simp add: albero_ntv2_def numeral_2_eq_2)
  have c: "contiene (?gs ! 0) 0 0" "contiene (?gs ! 1) 0 0"
    by (simp_all add: contiene_def sottogriglia_esempio_def f64_in_def f64_le_def f64_key_def f64_negative_def
        f64_is_nan_def f64_raw_exponent_def f64_fraction_def)
  have f: "sg_figli (?gs ! 0) = [1]" "sg_figli (?gs ! 1) = []" by (simp_all add: sottogriglia_esempio_def)
  show ?thesis
    using t search_gives_finest [OF t, of 0 0] c f
    by (auto split: option.splits simp: less_Suc_eq nth_Cons')
qed

end
