(* ===== verification/Reprojection.thy ===== *)
theory Reprojection
  imports DatumPaths Ntv2
begin

text \<open>
  The reprojection between built-in systems, \<open>crs/riproiezione.rs\<close> and \<open>crs/riproiezione/datum.rs\<close>: the plan
  (which paths are admitted by the rule of the accuracy), the operations ready to apply, the transformation of a
  point.

  The functions of \<open>f64\<close> whose precision the language leaves open are the parameter \<open>libm\<close>.  The projections of
  \<open>proiezioni.rs\<close> are formulas over them; they are the parameter \<open>proiezioni\<close>, any values of its type.
\<close>

section \<open>Parameters\<close>

record libm =
  lm_sin_cos :: "f64 \<Rightarrow> f64 \<times> f64"
  lm_sqrt :: "f64 \<Rightarrow> f64"
  lm_atan2 :: "f64 \<Rightarrow> f64 \<Rightarrow> f64"
  lm_hypot :: "f64 \<Rightarrow> f64 \<Rightarrow> f64"

datatype errore_proiezione = FuoriDominio | Parametri | NonConvergente

record 'p proiezioni =
  pr_nuova :: "metodo_proiezione \<Rightarrow> ellipsoid \<Rightarrow> errore_proiezione + 'p"
  pr_avanti :: "'p \<Rightarrow> f64 \<Rightarrow> f64 \<Rightarrow> errore_proiezione + (f64 \<times> f64)"
  pr_indietro :: "'p \<Rightarrow> f64 \<Rightarrow> f64 \<Rightarrow> errore_proiezione + (f64 \<times> f64)"

section \<open>Changes of datum without a grid\<close>

definition f64_to_degrees :: "f64 \<Rightarrow> f64" where
  "f64_to_degrees x = f64_mul x (f64_div (num 180) f64_PI)"

text \<open>The remainder of \<open>f64\<close> is exact, with the sign of the dividend; \<open>rem_euclid\<close> makes it non-negative.\<close>

definition f64_rem :: "f64 \<Rightarrow> f64 \<Rightarrow> f64" where
  "f64_rem a b =
     (if f64_is_nan a \<or> f64_is_nan b \<or> f64_is_infinite a \<or> f64_is_zero b then f64_NAN
      else if f64_is_infinite b then a
      else let q = \<lfloor>\<bar>f64_rat a\<bar> / \<bar>f64_rat b\<bar>\<rfloor>
           in con_segno (f64_negative a) (f64_round (\<bar>f64_rat a\<bar> - of_int q * \<bar>f64_rat b\<bar>)))"

definition f64_rem_euclid :: "f64 \<Rightarrow> f64 \<Rightarrow> f64" where
  "f64_rem_euclid a b = (let r = f64_rem a b in if f64_lt r 0 then f64_add r (f64_abs b) else r)"

definition riduci_gradi :: "f64 \<Rightarrow> f64" where
  "riduci_gradi lon =
     (if f64_in (num (- 180)) (num 180) lon then lon
      else let ridotta = f64_rem_euclid lon (num 360)
           in if f64_lt (num 180) ridotta then f64_sub ridotta (num 360) else ridotta)"

record geocentrico =
  gc_a :: f64
  gc_b :: f64
  gc_e2 :: f64
  gc_ep2 :: f64
  gc_f :: f64

definition geocentrico_nuovo :: "ellipsoid \<Rightarrow> geocentrico" where
  "geocentrico_nuovo ellissoide =
     (let a = semi_major_axis_metre ellissoide;
          f = f64_div (num 1) (inverse_flattening ellissoide);
          e2 = f64_mul f (f64_sub (num 2) f)
      in \<lparr>gc_a = a, gc_b = f64_mul a (f64_sub (num 1) f), gc_e2 = e2, gc_ep2 = f64_div e2 (f64_sub (num 1) e2), gc_f = f\<rparr>)"

type_synonym vettore = "f64 \<times> f64 \<times> f64"

definition geocentrico_avanti :: "libm \<Rightarrow> geocentrico \<Rightarrow> f64 \<Rightarrow> f64 \<Rightarrow> vettore" where
  "geocentrico_avanti m g lon lat =
     (let (sl, cl) = lm_sin_cos m (f64_to_radians lon);
          (sp, cp) = lm_sin_cos m (f64_to_radians lat);
          n = f64_div (gc_a g) (lm_sqrt m (f64_sub (num 1) (f64_mul (f64_mul (gc_e2 g) sp) sp)))
      in (f64_mul (f64_mul n cp) cl, f64_mul (f64_mul n cp) sl, f64_mul (f64_mul n (f64_sub (num 1) (gc_e2 g))) sp))"

definition bowring :: "libm \<Rightarrow> geocentrico \<Rightarrow> f64 \<Rightarrow> f64 \<Rightarrow> f64 \<times> f64 \<Rightarrow> f64 \<times> f64" where
  "bowring m g p z = (\<lambda>(theta, phi).
     let (s, c) = lm_sin_cos m theta;
         phi = lm_atan2 m
           (f64_add z (f64_mul (f64_mul (f64_mul (f64_mul (gc_ep2 g) (gc_b g)) s) s) s))
           (f64_sub p (f64_mul (f64_mul (f64_mul (f64_mul (gc_e2 g) (gc_a g)) c) c) c));
         (sphi, cphi) = lm_sin_cos m phi;
         theta = lm_atan2 m (f64_mul (f64_sub (num 1) (gc_f g)) sphi) cphi
     in (theta, phi))"

definition geocentrico_indietro :: "libm \<Rightarrow> geocentrico \<Rightarrow> vettore \<Rightarrow> f64 \<times> f64" where
  "geocentrico_indietro m g = (\<lambda>(x, y, z).
     let p = lm_hypot m x y;
         lon = lm_atan2 m y x;
         theta = lm_atan2 m (f64_mul z (gc_a g)) (f64_mul p (gc_b g));
         (theta, phi) = (bowring m g p z ^^ 5) (theta, theta)
     in (f64_to_degrees lon, f64_to_degrees phi))"

record helmert =
  hm_t :: vettore
  hm_r :: "vettore \<times> vettore \<times> vettore"
  hm_scala :: f64

definition SECONDO_D_ARCO :: f64 where
  "SECONDO_D_ARCO = f64_div f64_PI (num 648000)"

definition sette :: "vettore \<Rightarrow> vettore \<Rightarrow> f64 \<Rightarrow> bool \<Rightarrow> helmert" where
  "sette t rotazioni ds vettore_posizione =
     (case rotazioni of (rx, ry, rz) \<Rightarrow>
        let rx = f64_mul rx SECONDO_D_ARCO; ry = f64_mul ry SECONDO_D_ARCO; rz = f64_mul rz SECONDO_D_ARCO;
            r = (if vettore_posizione
                 then ((num 1, f64_neg rz, ry), (rz, num 1, f64_neg rx), (f64_neg ry, rx, num 1))
                 else ((num 1, rz, f64_neg ry), (f64_neg rz, num 1, rx), (ry, f64_neg rx, num 1)))
        in \<lparr>hm_t = t, hm_r = r, hm_scala = f64_add (num 1) (f64_mul ds (num 0.000001))\<rparr>)"

definition da_metodo :: "metodo_trasformazione \<Rightarrow> helmert option" where
  "da_metodo metodo =
     (case metodo of
        Traslazioni tx ty tz \<Rightarrow>
          Some \<lparr>hm_t = (tx, ty, tz), hm_r = ((num 1, 0, 0), (0, num 1, 0), (0, 0, num 1)), hm_scala = num 1\<rparr>
      | TelaioCoordinate tx ty tz rx ry rz ds \<Rightarrow> Some (sette (tx, ty, tz) (rx, ry, rz) ds False)
      | VettorePosizione tx ty tz rx ry rz ds \<Rightarrow> Some (sette (tx, ty, tz) (rx, ry, rz) ds True)
      | MtGrigliaNtv2 _ \<Rightarrow> None)"

definition riga :: "vettore \<Rightarrow> vettore \<Rightarrow> f64" where
  "riga = (\<lambda>(a, b, c) (x, y, z). f64_add (f64_add (f64_mul a x) (f64_mul b y)) (f64_mul c z))"

definition helmert_avanti :: "helmert \<Rightarrow> vettore \<Rightarrow> vettore" where
  "helmert_avanti h v =
     (case (hm_t h, hm_r h) of ((t0, t1, t2), (r0, r1, r2)) \<Rightarrow>
        (f64_add (f64_mul (hm_scala h) (riga r0 v)) t0,
         f64_add (f64_mul (hm_scala h) (riga r1 v)) t1,
         f64_add (f64_mul (hm_scala h) (riga r2 v)) t2))"

definition helmert_indietro :: "helmert \<Rightarrow> vettore \<Rightarrow> vettore" where
  "helmert_indietro h = (\<lambda>(x, y, z).
     (case (hm_t h, hm_r h) of ((t0, t1, t2), ((a, b, c), (d, e, f), (g, i, j))) \<Rightarrow>
        let v = (f64_div (f64_sub x t0) (hm_scala h), f64_div (f64_sub y t1) (hm_scala h),
                 f64_div (f64_sub z t2) (hm_scala h))
        in (riga (a, d, g) v, riga (b, e, i) v, riga (c, f, j) v)))"

section \<open>The plan\<close>

record opzioni_riproiezione =
  op_accuratezza_accettata_m :: "f64 option"
  op_griglie :: "u32 list"
  op_trasformazioni :: "u32 list option"
  op_convenzione_wgs84_etrs89 :: "bool option"

definition TOLLERANZA_SOMMA_M :: f64 where
  "TOLLERANZA_SOMMA_M = num 0.000000001"

record 'p lato =
  la_definizione :: definizione_crs
  la_proiezione :: 'p
  la_datum :: string
  la_crs :: resolved_crs

definition lato_nuovo :: "'p proiezioni \<Rightarrow> resolved_crs \<Rightarrow> crs_error + 'p lato" where
  "lato_nuovo pr crs =
     try_bind (ok_or CrsNotBuiltin (rc_integrato crs)) (\<lambda>i.
     try_bind (ok_or CrsNotBuiltin (definizione i)) (\<lambda>d.
     try_bind (ok_or CrsNotBuiltin (datum_di (df_datum d))) (\<lambda>dt.
     try_bind (map_err (\<lambda>_. ReprojectionConfig ''parametri di proiezione non validi'')
                 (pr_nuova pr (df_metodo d) (dt_ellissoide dt))) (\<lambda>p.
       Inr \<lparr>la_definizione = d, la_proiezione = p, la_datum = dt_nome dt, la_crs = crs\<rparr>))))"

definition lato_regione :: "'p lato \<Rightarrow> f64 \<Rightarrow> f64 \<Rightarrow> crs_error + unit" where
  "lato_regione l lon lat =
     (case df_regione (la_definizione l) of
        None \<Rightarrow> Inr ()
      | Some regione \<Rightarrow>
          (if f64_in (south_latitude regione) (north_latitude regione) lat
              \<and> list_ex (f64_in (west_longitude regione) (east_longitude regione))
                  [lon, f64_sub lon (num 360), f64_add lon (num 360)]
           then Inr () else Inl (CrsCoordinateOutOfDomain OutsideProjectionRegion)))"

fun errore_di_proiezione :: "errore_proiezione \<Rightarrow> crs_error" where
  "errore_di_proiezione FuoriDominio = CrsCoordinateOutOfDomain OutsideProjectionRegion"
| "errore_di_proiezione Parametri = CrsCoordinateOutOfDomain OutsideProjectionRegion"
| "errore_di_proiezione NonConvergente = ReprojectionNotConverged"

record 'p piano =
  pi_sorgente :: "'p lato"
  pi_destinazione :: "'p lato"
  pi_percorsi :: "percorso_datum list"
  pi_identita :: bool

text \<open>\<open>griglie.insert\<close> of each code; the set is the list of its elements.\<close>

definition griglie_fornite :: "u32 list \<Rightarrow> crs_error + u32 list" where
  "griglie_fornite cs =
     try_fold (\<lambda>griglie codice.
       if \<not> (case trasformazione_di codice of None \<Rightarrow> False | Some t \<Rightarrow> a_griglia t)
       then Inl (ReprojectionConfig ''griglia: il codice non e' una trasformazione NTv2 della tabella'')
       else if codice \<in> set griglie then Inl (ReprojectionConfig ''griglia ripetuta'')
       else Inr (griglie @ [codice])) [] cs"

definition ammesso :: "opzioni_riproiezione \<Rightarrow> percorso_datum \<Rightarrow> bool" where
  "ammesso opzioni percorso \<longleftrightarrow>
     f64_le (pd_accuratezza_m percorso) GROUND_PRECISION_METRES
     \<or> (case op_accuratezza_accettata_m opzioni of
          None \<Rightarrow> False
        | Some accettata \<Rightarrow> f64_le (f64_sub (pd_accuratezza_m percorso) TOLLERANZA_SOMMA_M) accettata)"

text \<open>\<open>PartialEq\<close> of the method: the variant and its parameters, as doubles.\<close>

fun metodo_campi :: "metodo_proiezione \<Rightarrow> nat \<times> f64 list" where
  "metodo_campi MpGeografico = (0, [])"
| "metodo_campi (TrasversaDiMercatore a b c d e) = (1, [a, b, c, d, e])"
| "metodo_campi (MercatoreA a b c d e) = (2, [a, b, c, d, e])"
| "metodo_campi (PseudoMercatore a b c d) = (3, [a, b, c, d])"
| "metodo_campi (LambertConicaConforme2Sp a b c d e f) = (4, [a, b, c, d, e, f])"
| "metodo_campi (LambertAzimutaleEquivalente a b c d) = (5, [a, b, c, d])"
| "metodo_campi (StereograficaObliqua a b c d e) = (6, [a, b, c, d, e])"
| "metodo_campi (HotineObliquaB a b c d e f g) = (7, [a, b, c, d, e, f, g])"

definition metodo_eq :: "metodo_proiezione \<Rightarrow> metodo_proiezione \<Rightarrow> bool" where
  "metodo_eq m n \<longleftrightarrow>
     fst (metodo_campi m) = fst (metodo_campi n) \<and> list_all2 f64_eq (snd (metodo_campi m)) (snd (metodo_campi n))"

text \<open>The convention that is in force, and the candidates that the caller fixes.\<close>

definition convenzione_di :: "opzioni_riproiezione \<Rightarrow> bool" where
  "convenzione_di opzioni = (case op_convenzione_wgs84_etrs89 opzioni of None \<Rightarrow> True | Some b \<Rightarrow> b)"

definition fissati :: "opzioni_riproiezione \<Rightarrow> percorso_datum list \<Rightarrow> percorso_datum list" where
  "fissati opzioni candidati =
     (case op_trasformazioni opzioni of None \<Rightarrow> candidati | Some cs \<Rightarrow> filter (\<lambda>p. codici p = cs) candidati)"

definition piano_nuovo ::
    "'p proiezioni \<Rightarrow> resolved_crs \<Rightarrow> resolved_crs \<Rightarrow> opzioni_riproiezione \<Rightarrow> crs_error + 'p piano" where
  "piano_nuovo pr sorgente destinazione opzioni =
     try_bind (lato_nuovo pr sorgente) (\<lambda>sorgente.
     try_bind (lato_nuovo pr destinazione) (\<lambda>destinazione.
     try_bind (ensure (case op_accuratezza_accettata_m opzioni of
                 None \<Rightarrow> True | Some accettata \<Rightarrow> f64_is_finite accettata \<and> f64_le 0 accettata)
               (ReprojectionConfig ''accuratezza_accettata_m non finita o negativa'')) (\<lambda>_.
     try_bind (griglie_fornite (op_griglie opzioni)) (\<lambda>griglie.
     let da = df_datum (la_definizione sorgente);
         a = df_datum (la_definizione destinazione);
         candidati = enumera da a griglie (convenzione_di opzioni) in
     try_bind (ensure (op_convenzione_wgs84_etrs89 opzioni = None
                 \<or> list_ex (\<lambda>p. CODICE_ETRS89_WGS84 \<in> set (codici p)) candidati)
               (ReprojectionConfig
                 ''convenzione_wgs84_etrs89 senza effetto: nessun percorso passa da ETRS89 to WGS 84 (1)'')) (\<lambda>_.
     let candidati' = fissati opzioni candidati in
     try_bind (ensure (op_trasformazioni opzioni = None \<or> candidati' \<noteq> [])
               (ReprojectionConfig
                 ''trasformazioni: i codici non formano un percorso fra i due datum (griglie comprese solo se fornite)'')) (\<lambda>_.
     try_bind (ensure (candidati' \<noteq> []) ReprojectionPathUnavailable) (\<lambda>_.
     let migliore = foldl f64_min f64_INFINITY (map pd_accuratezza_m candidati');
         percorsi = filter (ammesso opzioni) candidati' in
     try_bind (ensure (percorsi \<noteq> []) (ReprojectionAccuracyNotAccepted migliore)) (\<lambda>_.
     try_bind (ensure (op_accuratezza_accettata_m opzioni = None
                 \<or> \<not> list_all (\<lambda>p. f64_le (pd_accuratezza_m p) GROUND_PRECISION_METRES) percorsi)
               (ReprojectionConfig
                 ''accuratezza_accettata_m senza effetto: ogni percorso ammesso sta entro la precisione di 1 cm'')) (\<lambda>_.
     try_bind (ensure (list_all (\<lambda>codice. list_ex (\<lambda>p. codice \<in> set (codici p)) percorsi) griglie)
               (ReprojectionConfig ''griglia senza effetto: nessun percorso ammesso la usa'')) (\<lambda>_.
       Inr \<lparr>pi_sorgente = sorgente, pi_destinazione = destinazione, pi_percorsi = percorsi,
            pi_identita = (da = a \<and> metodo_eq (df_metodo (la_definizione sorgente))
                                             (df_metodo (la_definizione destinazione)))\<rparr>))))))))))"

definition accuratezza_garantita_m :: "'p piano \<Rightarrow> f64" where
  "accuratezza_garantita_m p = foldl f64_max 0 (map pd_accuratezza_m (pi_percorsi p))"

text \<open>\<open>BTreeSet\<close> of the grids that the admitted paths use: sorted and without repetitions.\<close>

definition piano_griglie :: "'p piano \<Rightarrow> u32 list" where
  "piano_griglie p =
     sorted_list_of_set (set (map passo_codice (filter passo_a_griglia (concat (map pd_passi (pi_percorsi p))))))"

definition coincide_sorgente :: "'p piano \<Rightarrow> resolved_crs \<Rightarrow> bool" where
  "coincide_sorgente p crs = semantically_equals (la_crs (pi_sorgente p)) crs"

definition riproiettabile :: "resolved_crs \<Rightarrow> bool" where
  "riproiettabile crs \<longleftrightarrow> Option.bind (rc_integrato crs) definizione \<noteq> None"

section \<open>The operations of a plan\<close>

datatype operazione =
  OpNulla
| OpHelmert helmert geocentrico geocentrico
| OpGriglia nat

record 'p riproiettore =
  ri_piano :: "'p piano"
  ri_operazioni :: "(passo_percorso \<times> operazione) list list"
  ri_griglie :: "griglia_ntv2 list"

definition ellissoide_di :: "u32 \<Rightarrow> crs_error + geocentrico" where
  "ellissoide_di codice = ok_or CrsNotBuiltin (map_option (\<lambda>d. geocentrico_nuovo (dt_ellissoide d)) (datum_di codice))"

definition prepara :: "u32 list \<Rightarrow> trasformazione \<Rightarrow> crs_error + operazione" where
  "prepara chiavi t =
     (let con_helmert =
        try_bind (ok_or (ReprojectionConfig ''trasformazione senza parametri'') (da_metodo (tr_metodo t))) (\<lambda>h.
        try_bind (ellissoide_di (tr_da t)) (\<lambda>da.
        try_bind (ellissoide_di (tr_a t)) (\<lambda>a. Inr (OpHelmert h da a))))
      in case tr_metodo t of
        MtGrigliaNtv2 _ \<Rightarrow>
          map_ok OpGriglia (ok_or (ReprojectionConfig ''griglia del piano non fornita'')
            (posizione (\<lambda>c. c = tr_codice t) chiavi))
      | Traslazioni tx ty tz \<Rightarrow>
          (if f64_eq tx 0 \<and> f64_eq ty 0 \<and> f64_eq tz 0 then Inr OpNulla else con_helmert)
      | _ \<Rightarrow> con_helmert)"

definition riproiettore_nuovo :: "'p piano \<Rightarrow> (u32, griglia_ntv2) btree \<Rightarrow> crs_error + 'p riproiettore" where
  "riproiettore_nuovo piano griglie =
     (if piano_griglie piano \<noteq> bt_keys griglie
      then Inl (ReprojectionConfig ''le griglie fornite non sono quelle del piano'')
      else
        try_bind (try_map (\<lambda>percorso.
            try_map (\<lambda>q. map_ok (Pair q) (prepara (bt_keys griglie) (pp_trasformazione q))) (pd_passi percorso))
          (pi_percorsi piano)) (\<lambda>operazioni.
        Inr \<lparr>ri_piano = piano, ri_operazioni = operazioni, ri_griglie = bt_values griglie\<rparr>))"

section \<open>The transformation of a point\<close>

record punto_riproiettato =
  pu_x :: f64
  pu_y :: f64
  pu_lon_sorgente :: f64
  pu_lat_sorgente :: f64
  pu_celle :: "(nat \<times> nat \<times> nat) option list"

definition geografiche_sorgente :: "'p proiezioni \<Rightarrow> 'p riproiettore \<Rightarrow> f64 \<Rightarrow> f64 \<Rightarrow> crs_error + (f64 \<times> f64)" where
  "geografiche_sorgente pr ri x y =
     (let lato = pi_sorgente (ri_piano ri) in
      try_bind (validate_geometry_domain [(x, y)] (la_crs lato)) (\<lambda>_.
      try_bind (map_err errore_di_proiezione (pr_indietro pr (la_proiezione lato) x y)) (\<lambda>(lon, lat).
      try_bind (lato_regione lato lon lat) (\<lambda>_. Inr (lon, lat)))))"

text \<open>One step: the point after it, none outside the area or the grid, and the cell of a grid.  The outer option is
  whether the search of the grid returns.\<close>

definition applica :: "libm \<Rightarrow> griglia_ntv2 list \<Rightarrow> bool \<Rightarrow> operazione \<Rightarrow> f64 \<Rightarrow> f64
    \<Rightarrow> (crs_error + ((f64 \<times> f64) option \<times> (nat \<times> nat \<times> nat) option)) option" where
  "applica m griglie inversa operazione lon lat =
     (case operazione of
        OpNulla \<Rightarrow> Some (Inr (Some (lon, lat), None))
      | OpHelmert h da a \<Rightarrow>
          Some (Inr (Some
            (if inversa
             then geocentrico_indietro m da (helmert_indietro h (geocentrico_avanti m a lon lat))
             else geocentrico_indietro m a (helmert_avanti h (geocentrico_avanti m da lon lat))), None))
      | OpGriglia k \<Rightarrow>
          (if k \<ge> length griglie then Some (Inl (ReprojectionConfig ''griglia del piano non fornita''))
           else
             let griglia = griglie ! k in
             Option.bind (if inversa then griglia_indietro (lm_hypot m) griglia lon lat
                          else map_option Inr (griglia_avanti griglia lon lat)) (\<lambda>r.
             case r of
               Inl e \<Rightarrow> Some (Inl e)
             | Inr uscita \<Rightarrow>
                 (let (clon, clat) = (if inversa then (case uscita of None \<Rightarrow> (lon, lat) | Some p \<Rightarrow> p) else (lon, lat))
                  in map_option (\<lambda>c. Inr (uscita, c)) (cella griglia clon clat)))))"

fun segui :: "libm \<Rightarrow> griglia_ntv2 list \<Rightarrow> nat \<Rightarrow> (passo_percorso \<times> operazione) list \<Rightarrow> f64 \<Rightarrow> f64
    \<Rightarrow> (nat \<times> nat \<times> nat) option list
    \<Rightarrow> (crs_error + (f64 \<times> f64 \<times> (nat \<times> nat \<times> nat) option list) option) option" where
  "segui m griglie n [] lon lat celle = Some (Inr (Some (lon, lat, celle)))"
| "segui m griglie n ((q, operazione) # passi) lon lat celle =
     (let lon = riduci_gradi lon in
      if \<not> geo_contains (tr_area (pp_trasformazione q)) lon lat then Some (Inr None)
      else case applica m griglie (pp_inversa q) operazione lon lat of
             None \<Rightarrow> None
           | Some (Inl e) \<Rightarrow> Some (Inl e)
           | Some (Inr (None, _)) \<Rightarrow> Some (Inr None)
           | Some (Inr (Some (lon, lat), c)) \<Rightarrow>
               segui m griglie (Suc n) passi lon lat
                 (case operazione of OpGriglia _ \<Rightarrow> celle[n := c] | _ \<Rightarrow> celle))"

definition calcola :: "libm \<Rightarrow> 'p proiezioni \<Rightarrow> 'p riproiettore \<Rightarrow> nat \<Rightarrow> f64 \<Rightarrow> f64
    \<Rightarrow> (crs_error + punto_riproiettato option) option" where
  "calcola m pr ri percorso x y =
     (if percorso \<ge> length (ri_operazioni ri) then Some (Inl (ReprojectionConfig ''percorso inesistente''))
      else
        (let passi = ri_operazioni ri ! percorso; lato = pi_destinazione (ri_piano ri) in
         case geografiche_sorgente pr ri x y of
           Inl e \<Rightarrow> Some (Inl e)
         | Inr (lon_sorgente, lat_sorgente) \<Rightarrow>
             (if pi_identita (ri_piano ri) then
                Some (try_bind (lato_regione lato lon_sorgente lat_sorgente) (\<lambda>_.
                      try_bind (validate_geometry_domain [(x, y)] (la_crs lato)) (\<lambda>_.
                        Inr (Some \<lparr>pu_x = x, pu_y = y, pu_lon_sorgente = lon_sorgente, pu_lat_sorgente = lat_sorgente,
                                   pu_celle = replicate MAX_PASSI_PERCORSO None\<rparr>))))
              else
                map_option (\<lambda>r. try_bind r (\<lambda>arrivo.
                  case arrivo of
                    None \<Rightarrow> Inr None
                  | Some (lon, lat, celle) \<Rightarrow>
                      (let lon = riduci_gradi lon in
                       try_bind (lato_regione lato lon lat) (\<lambda>_.
                       try_bind (map_err errore_di_proiezione (pr_avanti pr (la_proiezione lato) lon lat)) (\<lambda>(x, y).
                       try_bind (validate_geometry_domain [(x, y)] (la_crs lato)) (\<lambda>_.
                         Inr (Some \<lparr>pu_x = x, pu_y = y, pu_lon_sorgente = lon_sorgente,
                                    pu_lat_sorgente = lat_sorgente, pu_celle = celle\<rparr>)))))))
                  (segui m (ri_griglie ri) 0 passi lon_sorgente lat_sorgente (replicate MAX_PASSI_PERCORSO None)))))"

definition trasforma :: "libm \<Rightarrow> 'p proiezioni \<Rightarrow> 'p riproiettore \<Rightarrow> nat \<Rightarrow> f64 \<Rightarrow> f64
    \<Rightarrow> (crs_error + (f64 \<times> f64) option) option" where
  "trasforma m pr ri percorso x y =
     map_option (map_ok (map_option (\<lambda>p. (pu_x p, pu_y p)))) (calcola m pr ri percorso x y)"

section \<open>The tables fit together\<close>

lemma find_map_find: "map_option f (List.find (\<lambda>x. f x = k) xs) = List.find (\<lambda>y. y = k) (map f xs)"
  by (induction xs) auto

lemma find_None_map: "List.find (\<lambda>x. f x = k) xs = None \<longleftrightarrow> k \<notin> set (map f xs)"
  by (auto simp: find_None_all)

lemma DEFINIZIONI_crs: "map df_crs DEFINIZIONI = OgcCrs84 # map Epsg codici_EPSG"
proof -
  have "map df_crs DEFINIZIONI = map fst (map (\<lambda>d. (df_crs d, df_datum d)) DEFINIZIONI)" by simp
  then show ?thesis unfolding chiavi_DEFINIZIONI codici_EPSG_def by simp
qed

lemma DEFINIZIONI_datum: "d \<in> set DEFINIZIONI \<Longrightarrow> df_datum d \<in> set (map dt_codice DATUM)"
proof -
  have "list_all (\<lambda>p. snd p \<in> set (map dt_codice DATUM)) (map (\<lambda>d. (df_crs d, df_datum d)) DEFINIZIONI)"
    unfolding chiavi_DEFINIZIONI chiavi_DATUM by simp
  then show "d \<in> set DEFINIZIONI \<Longrightarrow> df_datum d \<in> set (map dt_codice DATUM)"
    by (auto simp: list_all_iff)
qed

lemma TRASFORMAZIONI_datum:
  "t \<in> set TRASFORMAZIONI \<Longrightarrow> tr_da t \<in> set (map dt_codice DATUM) \<and> tr_a t \<in> set (map dt_codice DATUM)"
proof -
  have "list_all (\<lambda>p. fst (snd p) \<in> set (map dt_codice DATUM) \<and> fst (snd (snd p)) \<in> set (map dt_codice DATUM))
      (map (\<lambda>t. (tr_codice t, tr_da t, tr_a t, a_griglia t)) TRASFORMAZIONI)"
    unfolding chiavi_TRASFORMAZIONI chiavi_DATUM by simp
  then show "t \<in> set TRASFORMAZIONI \<Longrightarrow> tr_da t \<in> set (map dt_codice DATUM) \<and> tr_a t \<in> set (map dt_codice DATUM)"
    by (auto simp: list_all_iff)
qed

lemma datum_di_iff: "datum_di c = None \<longleftrightarrow> c \<notin> set (map dt_codice DATUM)"
  unfolding datum_di_def by (rule find_None_map)

text \<open>The tables fit together: a system is in the built-in table exactly when it has a definition for the
  reprojection, and the datum of every definition is in the table of the datums.\<close>

theorem tables_coherent:
  "(cerca i = None \<longleftrightarrow> definizione i = None)
   \<and> (case definizione i of None \<Rightarrow> True | Some d \<Rightarrow> df_crs d = i \<and> datum_di (df_datum d) \<noteq> None)"
proof
  have "cerca i = None \<longleftrightarrow> i \<notin> set (OgcCrs84 # map Epsg codici_EPSG)"
  proof (cases i)
    case (Epsg c)
    have "cerca (Epsg c) = None \<longleftrightarrow> Epsg c \<notin> set (map ci_identificativo EPSG)"
    proof (cases "cerca (Epsg c)")
      case None
      then show ?thesis using cerca_Epsg_iff [of c] by (metis (no_types, lifting) imageE list.set_map option.distinct(1))
    next
      case (Some v)
      then show ?thesis using cerca_Epsg_iff [of c v] by (metis (no_types, lifting) image_eqI list.set_map option.distinct(1))
    qed
    then show ?thesis unfolding EPSG_identificativi Epsg by auto
  qed simp
  also have "\<dots> \<longleftrightarrow> definizione i = None"
    unfolding definizione_def find_None_map DEFINIZIONI_crs by simp
  finally show "cerca i = None \<longleftrightarrow> definizione i = None" .
  show "case definizione i of None \<Rightarrow> True | Some d \<Rightarrow> df_crs d = i \<and> datum_di (df_datum d) \<noteq> None"
  proof (cases "definizione i")
    case (Some d)
    then have "d \<in> set DEFINIZIONI" "df_crs d = i" by (auto simp: definizione_def find_Some_iff)
    then show ?thesis using Some DEFINIZIONI_datum datum_di_iff by auto
  qed simp
qed

section \<open>The plan keeps the rule of the accuracy\<close>

lemma griglie_fornite_Inr:
  assumes "griglie_fornite cs = Inr gs"
  shows "gs = cs \<and> distinct cs"
proof -
  let ?f = "\<lambda>griglie codice.
       if \<not> (case trasformazione_di codice of None \<Rightarrow> False | Some t \<Rightarrow> a_griglia t)
       then Inl (ReprojectionConfig ''griglia: il codice non e' una trasformazione NTv2 della tabella'')
       else if codice \<in> set griglie then Inl (ReprojectionConfig ''griglia ripetuta'')
       else Inr (griglie @ [codice])"
  have "try_fold ?f acc cs = Inr gs \<Longrightarrow> distinct acc \<Longrightarrow> gs = acc @ cs \<and> distinct gs" for acc
  proof (induction cs arbitrary: acc)
    case (Cons c cs)
    from Cons.prems(1) have "try_fold ?f (acc @ [c]) cs = Inr gs" "c \<notin> set acc"
      by (auto split: if_splits sum.splits)
    then have "gs = (acc @ [c]) @ cs" "distinct gs" using Cons.IH [of "acc @ [c]"] Cons.prems(2) by auto
    then show ?case by auto
  qed simp
  from this [of "[]"] show ?thesis using assms by (auto simp: griglie_fornite_def)
qed

lemma piano_nuovo_Inr:
  assumes "piano_nuovo pr s d opz = Inr p"
  defines "da \<equiv> df_datum (la_definizione (pi_sorgente p))" and "a \<equiv> df_datum (la_definizione (pi_destinazione p))"
  shows "lato_nuovo pr s = Inr (pi_sorgente p)" and "lato_nuovo pr d = Inr (pi_destinazione p)"
    and "griglie_fornite (op_griglie opz) = Inr (op_griglie opz)"
    and "pi_percorsi p \<noteq> []"
    and "\<exists>P. pi_percorsi p = filter P (enumera da a (op_griglie opz) (convenzione_di opz))"
    and "list_all (ammesso opz) (pi_percorsi p)"
    and "list_all (\<lambda>c. list_ex (\<lambda>q. c \<in> set (codici q)) (pi_percorsi p)) (op_griglie opz)"
    and "case op_trasformazioni opz of None \<Rightarrow> True | Some cs \<Rightarrow> list_all (\<lambda>q. codici q = cs) (pi_percorsi p)"
    and "pi_identita p = (da = a \<and> metodo_eq (df_metodo (la_definizione (pi_sorgente p))) (df_metodo (la_definizione (pi_destinazione p))))"
proof -
  obtain src dst gs where l: "lato_nuovo pr s = Inr src" "lato_nuovo pr d = Inr dst"
    and g: "griglie_fornite (op_griglie opz) = Inr gs"
    and p: "p = \<lparr>pi_sorgente = src, pi_destinazione = dst,
        pi_percorsi = filter (ammesso opz) (fissati opz
          (enumera (df_datum (la_definizione src)) (df_datum (la_definizione dst)) gs (convenzione_di opz))),
        pi_identita = (df_datum (la_definizione src) = df_datum (la_definizione dst)
          \<and> metodo_eq (df_metodo (la_definizione src)) (df_metodo (la_definizione dst)))\<rparr>"
    and rest: "pi_percorsi p \<noteq> []" "list_all (\<lambda>c. list_ex (\<lambda>q. c \<in> set (codici q)) (pi_percorsi p)) gs"
    using assms(1) unfolding piano_nuovo_def Let_def try_bind_Inr_iff ensure_Inr_iff by force
  have gs: "gs = op_griglie opz" using griglie_fornite_Inr [OF g] by simp
  show "lato_nuovo pr s = Inr (pi_sorgente p)" "lato_nuovo pr d = Inr (pi_destinazione p)" using l p by simp_all
  show "griglie_fornite (op_griglie opz) = Inr (op_griglie opz)" using g gs by simp
  show "pi_percorsi p \<noteq> []" by (rule rest(1))
  show "list_all (ammesso opz) (pi_percorsi p)" unfolding p by (simp add: list_all_iff)
  show "list_all (\<lambda>c. list_ex (\<lambda>q. c \<in> set (codici q)) (pi_percorsi p)) (op_griglie opz)" using rest(2) gs by simp
  show "\<exists>P. pi_percorsi p = filter P (enumera da a (op_griglie opz) (convenzione_di opz))"
    unfolding da_def a_def p gs fissati_def by (cases "op_trasformazioni opz") auto
  show "case op_trasformazioni opz of None \<Rightarrow> True | Some cs \<Rightarrow> list_all (\<lambda>q. codici q = cs) (pi_percorsi p)"
    unfolding p fissati_def by (auto simp: list_all_iff split: option.splits)
  show "pi_identita p = (da = a \<and> metodo_eq (df_metodo (la_definizione (pi_sorgente p))) (df_metodo (la_definizione (pi_destinazione p))))"
    unfolding da_def a_def p by simp
qed

text \<open>C31. A plan has a path, and each of its paths is admitted by the rule of the accuracy: it is a simple path between
  the two datums over transformations without a grid or with a grid that was given, its accuracy is within a centimetre
  or within what the caller accepts, the paths are in the order of preference and each grid given is used.\<close>

theorem plan_keeps_accuracy:
  assumes "piano_nuovo pr s d opz = Inr p"
  shows "pi_percorsi p \<noteq> []
    \<and> list_all (\<lambda>q. ammesso opz q
        \<and> percorso_semplice (op_griglie opz) (convenzione_di opz) (df_datum (la_definizione (pi_sorgente p)))
            (df_datum (la_definizione (pi_destinazione p))) (pd_passi q)) (pi_percorsi p)
    \<and> sorted_wrt (\<lambda>q r. percorso_cmp q r = Less) (pi_percorsi p)
    \<and> list_all (\<lambda>c. list_ex (\<lambda>q. c \<in> set (codici q)) (pi_percorsi p)) (op_griglie opz)"
proof -
  note piano = piano_nuovo_Inr [OF assms]
  obtain P where P: "pi_percorsi p = filter P (enumera (df_datum (la_definizione (pi_sorgente p)))
      (df_datum (la_definizione (pi_destinazione p))) (op_griglie opz) (convenzione_di opz))"
    using piano(5) by blast
  have "sorted_wrt (\<lambda>q r. percorso_cmp q r = Less) (pi_percorsi p)"
    unfolding P by (rule sorted_wrt_filter) (rule enumera_ordinata)
  then show ?thesis
    using piano(4,6,7) enumera_semplici P by (auto simp: list_all_iff)
qed

lemma f64_round_nonneg: "0 \<le> r \<Longrightarrow> f64_le 0 (f64_round r)"
proof -
  assume r: "0 \<le> r"
  define y where "y = \<bar>r\<bar> * scala_f64"
  define s where "s = bit_length (nat \<lfloor>y\<rfloor>) - 53"
  define bits where "bits = int s * 2 ^ 52 + round_half_even (y / 2 ^ s)"
  have w: "f64_round r = (if bits \<ge> 0x7ff0000000000000 then f64_INFINITY else word_of_int bits)"
    using r by (simp add: f64_round_def Let_def y_def s_def bits_def)
  have zero: "\<not> f64_is_nan 0" "f64_key 0 = 0"
    by (simp_all add: f64_is_nan_def f64_raw_exponent_def f64_key_def)
  have "0 \<le> y" unfolding y_def by (intro mult_nonneg_nonneg) (simp_all add: less_imp_le)
  then have "0 \<le> round_half_even (y / 2 ^ s)" by (simp add: round_half_even_def Let_def)
  then have nonneg: "0 \<le> bits" by (simp add: bits_def)
  have "\<not> f64_negative (f64_round r) \<and> \<not> f64_is_nan (f64_round r)"
  proof (cases "bits \<ge> 0x7ff0000000000000")
    case True
    then show ?thesis
      by (simp add: w f64_INFINITY_def f64_negative_def f64_is_nan_def f64_fraction_def)
  next
    case False
    then have u: "uint (f64_round r) = bits"
      using nonneg by (simp add: w uint_word_of_int_eq take_bit_int_eq_self)
    then have lt: "unat (f64_round r) < 0x7ff * 2 ^ 52" using False nonneg by (simp add: unat_eq_nat_uint nat_less_iff)
    have "unat (f64_raw_exponent (f64_round r)) * 2 ^ 52 \<le> unat (f64_round r AND 0x7fffffffffffffff)"
      using f64_exponent_field [of "f64_round r"] by linarith
    also have "\<dots> \<le> unat (f64_round r)" by (simp add: word_le_nat_alt [symmetric] word_and_le2)
    finally have "unat (f64_raw_exponent (f64_round r)) * 2 ^ 52 < 0x7ff * 2 ^ 52"
      using lt by (rule order.strict_trans1)
    then have "unat (f64_raw_exponent (f64_round r)) < 0x7ff" by (simp only: mult_less_cancel2)
    then have "f64_raw_exponent (f64_round r) \<noteq> 0x7ff" by auto
    moreover have "\<not> bit (f64_round r) 63"
    proof -
      have "unat (f64_round r) div 2 ^ 63 = 0" using lt by simp
      then have "\<not> bit (unat (f64_round r)) 63" by (simp add: bit_iff_odd)
      then show ?thesis by (simp add: bit_unsigned_iff)
    qed
    ultimately show ?thesis by (simp add: f64_negative_def f64_is_nan_def)
  qed
  then show ?thesis by (simp add: f64_le_def zero f64_key_def)
qed

lemma definizione_OgcCrs84:
  obtains d dt where "definizione OgcCrs84 = Some d" and "datum_di (df_datum d) = Some dt"
proof -
  have "definizione OgcCrs84 \<noteq> None" unfolding definizione_def find_None_map DEFINIZIONI_crs by simp
  then obtain d where d: "definizione OgcCrs84 = Some d" by blast
  then have "d \<in> set DEFINIZIONI" by (auto simp: definizione_def find_Some_iff)
  then have "datum_di (df_datum d) \<noteq> None" using DEFINIZIONI_datum datum_di_iff by blast
  then show thesis using d that by blast
qed

text \<open>The plan from a system to itself, with no option.\<close>

definition crs84_esempio :: resolved_crs where
  "crs84_esempio = (from_resolved_parts ''OGC:CRS84'' JNull KGeographic None)\<lparr>rc_integrato := Some OgcCrs84\<rparr>"

definition opzioni_vuote :: opzioni_riproiezione where
  "opzioni_vuote = \<lparr>op_accuratezza_accettata_m = None, op_griglie = [], op_trasformazioni = None,
     op_convenzione_wgs84_etrs89 = None\<rparr>"

definition proiezioni_esempio :: "unit proiezioni" where
  "proiezioni_esempio =
     \<lparr>pr_nuova = (\<lambda>_ _. Inr ()), pr_avanti = (\<lambda>_ x y. Inr (x, y)), pr_indietro = (\<lambda>_ x y. Inr (x, y))\<rparr>"

lemma piano_esempio: "\<exists>p. piano_nuovo proiezioni_esempio crs84_esempio crs84_esempio opzioni_vuote = Inr p"
proof -
  obtain d dt where d: "definizione OgcCrs84 = Some d" "datum_di (df_datum d) = Some dt"
    by (rule definizione_OgcCrs84)
  have "f64_le 0 GROUND_PRECISION_METRES" unfolding GROUND_PRECISION_METRES_def by (rule f64_round_nonneg) simp
  then show ?thesis
    using d by (simp add: piano_nuovo_def lato_nuovo_def crs84_esempio_def opzioni_vuote_def proiezioni_esempio_def
        griglie_fornite_def enumera_def fissati_def ammesso_def)
qed

theorem plan_keeps_accuracy_witness:
  "\<exists>p. piano_nuovo proiezioni_esempio crs84_esempio crs84_esempio opzioni_vuote = Inr p \<and> pi_percorsi p \<noteq> []"
proof -
  obtain p where p: "piano_nuovo proiezioni_esempio crs84_esempio crs84_esempio opzioni_vuote = Inr p"
    using piano_esempio by blast
  then show ?thesis using plan_keeps_accuracy [OF p] by blast
qed

section \<open>A plan is ready once its grids are there\<close>

lemma percorso_TRASFORMAZIONI:
  assumes "piano_nuovo pr s d opz = Inr p" and "q \<in> set (pi_percorsi p)" and "x \<in> set (pd_passi q)"
  shows "pp_trasformazione x \<in> set TRASFORMAZIONI"
proof -
  obtain P where "pi_percorsi p = filter P (enumera (df_datum (la_definizione (pi_sorgente p)))
      (df_datum (la_definizione (pi_destinazione p))) (op_griglie opz) (convenzione_di opz))"
    using piano_nuovo_Inr(5) [OF assms(1)] by blast
  then have "percorso_semplice (op_griglie opz) (convenzione_di opz) (df_datum (la_definizione (pi_sorgente p)))
      (df_datum (la_definizione (pi_destinazione p))) (pd_passi q)"
    using assms(2) by (simp add: enumera_semplici)
  then show ?thesis
    using assms(3) by (auto simp: percorso_semplice_def list_all_iff ammissibile_def usabili_def)
qed

lemma ellissoide_di_Inr: "c \<in> set (map dt_codice DATUM) \<Longrightarrow> \<exists>e. ellissoide_di c = Inr e"
  using datum_di_iff [of c] by (auto simp: ellissoide_di_def)

lemma posizione_in: "x \<in> set xs \<Longrightarrow> posizione (\<lambda>c. c = x) xs \<noteq> None"
  by (auto simp: posizione_def find_None_iff in_set_conv_nth)

lemma prepara_Inr:
  assumes "t \<in> set TRASFORMAZIONI" and "a_griglia t \<Longrightarrow> tr_codice t \<in> set chiavi"
  shows "\<exists>op. prepara chiavi t = Inr op"
proof -
  obtain da a where e: "ellissoide_di (tr_da t) = Inr da" "ellissoide_di (tr_a t) = Inr a"
    using TRASFORMAZIONI_datum [OF assms(1)] ellissoide_di_Inr by blast
  show ?thesis
  proof (cases "tr_metodo t")
    case (MtGrigliaNtv2 f)
    then have "tr_codice t \<in> set chiavi" using assms(2) by (simp add: a_griglia_def)
    then show ?thesis using posizione_in MtGrigliaNtv2 by (fastforce simp: prepara_def)
  qed (auto simp: prepara_def da_metodo_def e Let_def)
qed

lemma try_map_Inr: "(\<And>x. x \<in> set xs \<Longrightarrow> \<exists>y. f x = Inr y) \<Longrightarrow> \<exists>ys. try_map f xs = Inr ys"
  by (induction xs) fastforce+

lemma try_map_Pair:
  assumes "try_map (\<lambda>q. map_ok (Pair q) (g q)) xs = Inr ys"
  shows "map fst ys = xs"
proof -
  have "list_all2 (\<lambda>x y. fst y = x) xs ys"
    using assms unfolding try_map_Inr_iff by (rule list_all2_mono) (auto simp: results)
  then show ?thesis by (induction rule: list_all2_induct) simp_all
qed

lemma try_map_Pair_elenchi:
  assumes "try_map (\<lambda>q. try_map (\<lambda>x. map_ok (Pair x) (g x)) (h q)) xs = Inr ys"
  shows "map (map fst) ys = map h xs"
proof -
  have "list_all2 (\<lambda>x y. map fst y = h x) xs ys"
    using assms unfolding try_map_Inr_iff [of _ xs] by (rule list_all2_mono) (rule try_map_Pair)
  then show ?thesis by (induction rule: list_all2_induct) simp_all
qed

text \<open>C32. A plan never fails later: once the grids that it names are given, its operations are ready, one list for
  each path, in the order of the paths.\<close>

theorem plan_is_ready:
  assumes "piano_nuovo pr s d opz = Inr p" and "bt_keys griglie = piano_griglie p"
  shows "\<exists>r. riproiettore_nuovo p griglie = Inr r \<and> ri_piano r = p
    \<and> map (map fst) (ri_operazioni r) = map pd_passi (pi_percorsi p)"
proof -
  have keys: "passo_codice x \<in> set (bt_keys griglie)"
    if "q \<in> set (pi_percorsi p)" "x \<in> set (pd_passi q)" "passo_a_griglia x" for q x
    using that unfolding assms(2) piano_griglie_def by auto
  let ?f = "\<lambda>q. map_ok (Pair q) (prepara (bt_keys griglie) (pp_trasformazione q))"
  have one: "\<exists>y. ?f x = Inr y" if "q \<in> set (pi_percorsi p)" "x \<in> set (pd_passi q)" for q x
    using prepara_Inr [OF percorso_TRASFORMAZIONI [OF assms(1) that], of "bt_keys griglie"] keys [OF that]
    by (auto simp: passo_a_griglia_def passo_codice_def)
  then have "\<exists>ys. try_map ?f (pd_passi q) = Inr ys" if "q \<in> set (pi_percorsi p)" for q
    using that by (intro try_map_Inr)
  then obtain ops where ops: "try_map (\<lambda>q. try_map ?f (pd_passi q)) (pi_percorsi p) = Inr ops"
    using try_map_Inr [of "pi_percorsi p" "\<lambda>q. try_map ?f (pd_passi q)"] by blast
  then have "map (map fst) ops = map pd_passi (pi_percorsi p)" by (rule try_map_Pair_elenchi)
  then show ?thesis using ops assms(2) by (simp add: riproiettore_nuovo_def)
qed

theorem plan_is_ready_witness:
  "\<exists>p r. piano_nuovo proiezioni_esempio crs84_esempio crs84_esempio opzioni_vuote = Inr p
     \<and> riproiettore_nuovo p (map (\<lambda>c. (c, \<lparr>gr_sottogriglie = [], gr_radici = []\<rparr>)) (piano_griglie p)) = Inr r"
proof -
  obtain p where p: "piano_nuovo proiezioni_esempio crs84_esempio crs84_esempio opzioni_vuote = Inr p"
    using piano_esempio by blast
  have "bt_keys (map (\<lambda>c. (c, \<lparr>gr_sottogriglie = [], gr_radici = []\<rparr>)) (piano_griglie p)) = piano_griglie p"
    by (simp add: bt_keys_def o_def)
  from plan_is_ready [OF p this] p show ?thesis by blast
qed

end
