(* ===== verification/FormulaParse.thy ===== *)
theory FormulaParse
  imports Errors Floats Strings
begin

text \<open>
  The text of \<open>table.formula\<close>: the parser of \<open>crates/plenora-kernels-table/src/formula.rs\<close> and the checks on the
  tree that it builds.

  The parser keeps the bytes it has left; its position is the length of the text less theirs.  The methods call each
  other and may call themselves on what another left, so they are one partial function of the method; it is shown to
  return on every text.  The text is a \<open>str\<close> and every slice is cut at ASCII bytes: the conversions of a slice back
  to a \<open>str\<close> succeed.
\<close>

section \<open>The tree\<close>

datatype formula_expr =
  FNumber f64
| FText string
| FColumn string
| FNeg formula_expr
| FBinary formula_expr char formula_expr

fun contiene_divisione :: "formula_expr \<Rightarrow> bool" where
  "contiene_divisione (FBinary left op right) \<longleftrightarrow>
     op = CHR ''/'' \<or> contiene_divisione left \<or> contiene_divisione right"
| "contiene_divisione (FNeg e) \<longleftrightarrow> contiene_divisione e"
| "contiene_divisione _ \<longleftrightarrow> False"

fun is_literal_zero :: "formula_expr \<Rightarrow> bool" where
  "is_literal_zero (FNumber x) \<longleftrightarrow> f64_eq x 0"
| "is_literal_zero (FNeg e) \<longleftrightarrow> is_literal_zero e"
| "is_literal_zero _ \<longleftrightarrow> False"

definition MESSAGGIO_ZERO_LETTERALE :: string where
  "MESSAGGIO_ZERO_LETTERALE =
     ''divisione per zero letterale nella formula: errore di configurazione, non di riga''"

fun reject_literal_zero_divisor :: "formula_expr \<Rightarrow> unit result" where
  "reject_literal_zero_divisor (FBinary left op right) =
     (if op = CHR ''/'' \<and> is_literal_zero right then Inl (InvalidPlan MESSAGGIO_ZERO_LETTERALE)
      else try_bind (reject_literal_zero_divisor left) (\<lambda>_. reject_literal_zero_divisor right))"
| "reject_literal_zero_divisor (FNeg e) = reject_literal_zero_divisor e"
| "reject_literal_zero_divisor _ = Inr ()"

section \<open>Tokens\<close>

definition is_ascii_whitespace :: "char \<Rightarrow> bool" where
  "is_ascii_whitespace c \<longleftrightarrow> c \<in> {CHR 0x20, CHR 0x09, CHR 0x0A, CHR 0x0C, CHR 0x0D}"

definition skip_space :: "string \<Rightarrow> string" where
  "skip_space = dropWhile is_ascii_whitespace"

definition is_ascii_alphabetic :: "char \<Rightarrow> bool" where
  "is_ascii_alphabetic c \<longleftrightarrow> is_ascii_uppercase c \<or> is_ascii_lowercase c"

fun testo :: "char \<Rightarrow> string \<Rightarrow> (string \<times> string) result" where
  "testo quote [] = Inl (InvalidPlan ''stringa formula non terminata'')"
| "testo quote (c # s) =
     (if c = quote then Inr ([], s)
      else if c = CHR 0x5C then Inl (InvalidPlan ''escape nelle stringhe formula non supportato'')
      else map_ok (\<lambda>(valore, resto). (c # valore, resto)) (testo quote s))"

text \<open>\<open>str::parse::<f64>\<close> on what \<open>number\<close> collects: digits and points, then perhaps an exponent.\<close>

definition parse_esponente :: "string \<Rightarrow> int" where
  "parse_esponente e =
     (case strip_prefix e ''-'' of
        Some d \<Rightarrow> - int (valore_decimale d)
      | None \<Rightarrow> int (valore_decimale (case strip_prefix e ''+'' of None \<Rightarrow> e | Some d \<Rightarrow> d)))"

definition parse_f64 :: "string \<Rightarrow> f64 option" where
  "parse_f64 t =
     (let (mantissa, esponente) =
            (case split_once ''eE'' t of None \<Rightarrow> (t, 0) | Some (m, e) \<Rightarrow> (m, parse_esponente e));
          (intera, frazione) = (case split_once ''.'' mantissa of None \<Rightarrow> (mantissa, []) | Some p \<Rightarrow> p);
          cifre = intera @ frazione
      in if cifre = [] \<or> \<not> list_all is_ascii_digit cifre then None
         else Some (f64_round (of_nat (valore_decimale cifre) * 10 powi (esponente - int (length frazione)))))"

definition cifra_o_punto :: "char \<Rightarrow> bool" where
  "cifra_o_punto c \<longleftrightarrow> is_ascii_digit c \<or> c = CHR ''.''"

definition segno_esponente :: "string \<Rightarrow> string \<times> string" where
  "segno_esponente s = (case s of [] \<Rightarrow> ([], []) | c # r \<Rightarrow> if c \<in> set ''+-'' then ([c], r) else ([], s))"

definition valore_numero :: "string \<Rightarrow> string \<Rightarrow> (formula_expr \<times> string) result" where
  "valore_numero token resto =
     try_bind (ok_or (InvalidPlan ''numero formula non valido'') (parse_f64 token)) (\<lambda>x.
       if \<not> f64_is_finite x then Inl (InvalidPlan ''numero formula non finito'') else Inr (FNumber x, resto))"

definition numero :: "string \<Rightarrow> (formula_expr \<times> string) result" where
  "numero s =
     (let mantissa = takeWhile cifra_o_punto s; dopo = dropWhile cifra_o_punto s
      in case dopo of
           c # resto \<Rightarrow>
             (if c \<in> set ''eE'' then
                (let (segno, resto) = segno_esponente resto; cifre = takeWhile is_ascii_digit resto
                 in if cifre = [] then Inl (InvalidPlan ''esponente formula non valido'')
                    else valore_numero (mantissa @ c # segno @ cifre) (dropWhile is_ascii_digit resto))
              else valore_numero mantissa dopo)
         | [] \<Rightarrow> valore_numero mantissa dopo)"

definition carattere_nome :: "char \<Rightarrow> bool" where
  "carattere_nome c \<longleftrightarrow> is_ascii_alphanumeric c \<or> c = CHR ''_''"

definition identificatore_formula :: "string \<Rightarrow> formula_expr \<times> string" where
  "identificatore_formula s = (FColumn (takeWhile carattere_nome s), dropWhile carattere_nome s)"

section \<open>The methods of the parser\<close>

datatype metodo =
  MExpression
| MTerm
| MFactor
| MSums formula_expr \<comment> \<open>the loop of \<open>expression\<close> with its \<open>left\<close>\<close>
| MProducts formula_expr \<comment> \<open>the loop of \<open>term\<close>\<close>

definition chiudi_parentesi :: "formula_expr \<times> string \<Rightarrow> (formula_expr \<times> string) result" where
  "chiudi_parentesi = (\<lambda>(e, s).
     case skip_space s of
       [] \<Rightarrow> Inl (InvalidPlan ''parentesi formula non bilanciate'')
     | c # resto \<Rightarrow>
         (if c = CHR '')'' then Inr (e, resto) else Inl (InvalidPlan ''parentesi formula non bilanciate'')))"

text \<open>The factors that call no other method: \<open>text\<close>, \<open>number\<close>, \<open>identifier\<close> and the refusal of a character.\<close>

definition foglia :: "nat \<Rightarrow> char \<Rightarrow> string \<Rightarrow> (formula_expr \<times> string) result" where
  "foglia lunghezza c s =
     (if c = CHR 0x27 \<or> c = CHR 0x22 then map_ok (\<lambda>(v, resto). (FText v, resto)) (testo c s)
      else if is_ascii_digit c \<or> c = CHR ''.'' then numero (c # s)
      else if is_ascii_alphabetic c \<or> c = CHR ''_'' then Inr (identificatore_formula (c # s))
      else Inl (InvalidPlan (''carattere formula non ammesso alla posizione ''
             @ show_nat (lunghezza - Suc (length s)) @ '' (byte, da zero)'')))"

text \<open>\<open>r?\<close> followed by the rest of the method, for methods that may not return.\<close>

definition poi :: "(formula_expr \<times> string) result option \<Rightarrow>
    (formula_expr \<Rightarrow> string \<Rightarrow> (formula_expr \<times> string) result option) \<Rightarrow> (formula_expr \<times> string) result option" where
  "poi r f = Option.bind r (\<lambda>r. case r of Inl e \<Rightarrow> Some (Inl e) | Inr p \<Rightarrow> f (fst p) (snd p))"

lemma poi_mono [partial_function_mono]:
  assumes "mono_option B" and "\<And>e s. mono_option (\<lambda>f. C f e s)"
  shows "mono_option (\<lambda>f. poi (B f) (\<lambda>e s. C f e s))"
  unfolding poi_def
proof (rule bind_mono [OF assms(1)])
  fix r :: "(formula_expr \<times> string) result"
  show "mono_option (\<lambda>f. case r of Inl e \<Rightarrow> Some (Inl e) | Inr p \<Rightarrow> C f (fst p) (snd p))"
    by (cases r) (simp_all add: assms(2) option.const_mono)
qed

partial_function (option) metodo_parser :: "nat \<Rightarrow> metodo \<Rightarrow> string \<Rightarrow> (formula_expr \<times> string) result option" where
  "metodo_parser n m s =
     (case m of
        MExpression \<Rightarrow> poi (metodo_parser n MTerm s) (\<lambda>left s. metodo_parser n (MSums left) s)
      | MSums left \<Rightarrow>
          (case skip_space s of
             [] \<Rightarrow> Some (Inr (left, []))
           | c # resto \<Rightarrow>
               if c \<in> {CHR ''+'', CHR ''-''} then
                 poi (metodo_parser n MTerm resto) (\<lambda>right s. metodo_parser n (MSums (FBinary left c right)) s)
               else Some (Inr (left, c # resto)))
      | MTerm \<Rightarrow> poi (metodo_parser n MFactor s) (\<lambda>left s. metodo_parser n (MProducts left) s)
      | MProducts left \<Rightarrow>
          (case skip_space s of
             [] \<Rightarrow> Some (Inr (left, []))
           | c # resto \<Rightarrow>
               if c \<in> {CHR ''*'', CHR ''/''} then
                 poi (metodo_parser n MFactor resto) (\<lambda>right s. metodo_parser n (MProducts (FBinary left c right)) s)
               else Some (Inr (left, c # resto)))
      | MFactor \<Rightarrow>
          (case skip_space s of
             [] \<Rightarrow> Some (Inl (InvalidPlan ''formula incompleta''))
           | c # resto \<Rightarrow>
               if c = CHR ''-'' then poi (metodo_parser n MFactor resto) (\<lambda>e s. Some (Inr (FNeg e, s)))
               else if c = CHR ''('' then
                 poi (metodo_parser n MExpression resto) (\<lambda>e s. Some (chiudi_parentesi (e, s)))
               else Some (foglia n c resto)))"

definition parse_formula :: "string \<Rightarrow> formula_expr result option" where
  "parse_formula input =
     map_option (\<lambda>r. try_bind r (\<lambda>(e, resto).
         try_bind (reject_literal_zero_divisor e) (\<lambda>_.
           if skip_space resto \<noteq> [] then Inl (InvalidPlan ''token extra nella formula'') else Inr e)))
       (metodo_parser (length input) MExpression input)"

section \<open>The stack\<close>

text \<open>
  The methods call one another with no limit of depth, and \<open>metodo_parser\<close> has no stack.  Here is the same parser on a
  stack with \<open>k\<close> frames: a call of \<open>expression\<close>, \<open>term\<close>, \<open>factor\<close>, \<open>reject_literal_zero_divisor\<close> or
  \<open>is_literal_zero\<close> takes one and gives it back when it returns, a loop stays in its frame, and \<open>None\<close> is the
  process that aborts for want of a frame.
\<close>

partial_function (option) parser_con_pila ::
    "nat \<Rightarrow> nat \<Rightarrow> metodo \<Rightarrow> string \<Rightarrow> (formula_expr \<times> string) result option" where
  "parser_con_pila k n m s =
     (if k = 0 then None
      else case m of
        MExpression \<Rightarrow> poi (parser_con_pila (k - 1) n MTerm s) (\<lambda>left s. parser_con_pila k n (MSums left) s)
      | MSums left \<Rightarrow>
          (case skip_space s of
             [] \<Rightarrow> Some (Inr (left, []))
           | c # resto \<Rightarrow>
               if c \<in> {CHR ''+'', CHR ''-''} then
                 poi (parser_con_pila (k - 1) n MTerm resto)
                   (\<lambda>right s. parser_con_pila k n (MSums (FBinary left c right)) s)
               else Some (Inr (left, c # resto)))
      | MTerm \<Rightarrow> poi (parser_con_pila (k - 1) n MFactor s) (\<lambda>left s. parser_con_pila k n (MProducts left) s)
      | MProducts left \<Rightarrow>
          (case skip_space s of
             [] \<Rightarrow> Some (Inr (left, []))
           | c # resto \<Rightarrow>
               if c \<in> {CHR ''*'', CHR ''/''} then
                 poi (parser_con_pila (k - 1) n MFactor resto)
                   (\<lambda>right s. parser_con_pila k n (MProducts (FBinary left c right)) s)
               else Some (Inr (left, c # resto)))
      | MFactor \<Rightarrow>
          (case skip_space s of
             [] \<Rightarrow> Some (Inl (InvalidPlan ''formula incompleta''))
           | c # resto \<Rightarrow>
               if c = CHR ''-'' then poi (parser_con_pila (k - 1) n MFactor resto) (\<lambda>e s. Some (Inr (FNeg e, s)))
               else if c = CHR ''('' then
                 poi (parser_con_pila (k - 1) n MExpression resto) (\<lambda>e s. Some (chiudi_parentesi (e, s)))
               else Some (foglia n c resto)))"

fun zero_con_pila :: "nat \<Rightarrow> formula_expr \<Rightarrow> bool option" where
  "zero_con_pila 0 _ = None"
| "zero_con_pila (Suc k) (FNeg e) = zero_con_pila k e"
| "zero_con_pila (Suc k) e = Some (is_literal_zero e)"

fun reject_con_pila :: "nat \<Rightarrow> formula_expr \<Rightarrow> unit result option" where
  "reject_con_pila 0 _ = None"
| "reject_con_pila (Suc k) (FBinary left op right) =
     (case (if op = CHR ''/'' then zero_con_pila k right else Some False) of
        None \<Rightarrow> None
      | Some zero \<Rightarrow>
          (if zero then Some (Inl (InvalidPlan MESSAGGIO_ZERO_LETTERALE))
           else (case reject_con_pila k left of Some (Inr _) \<Rightarrow> reject_con_pila k right | r \<Rightarrow> r)))"
| "reject_con_pila (Suc k) (FNeg e) = reject_con_pila k e"
| "reject_con_pila (Suc k) _ = Some (Inr ())"

definition parse_con_pila :: "nat \<Rightarrow> string \<Rightarrow> formula_expr result option" where
  "parse_con_pila k input =
     Option.bind (parser_con_pila k (length input) MExpression input) (\<lambda>r.
       case r of
         Inl e \<Rightarrow> Some (Inl e)
       | Inr (e, resto) \<Rightarrow>
           map_option (\<lambda>r. try_bind r (\<lambda>_.
               if skip_space resto \<noteq> [] then Inl (InvalidPlan ''token extra nella formula'') else Inr e))
             (reject_con_pila k e))"

section \<open>The grammar\<close>

text \<open>The grammar of the documentation, one rule per production; white space may precede every symbol.\<close>

definition spazi :: "string \<Rightarrow> bool" where
  "spazi w \<longleftrightarrow> list_all is_ascii_whitespace w"

definition token_numero :: "string \<Rightarrow> bool" where
  "token_numero t \<longleftrightarrow>
     (\<exists>mantissa resto. t = mantissa @ resto \<and> mantissa \<noteq> [] \<and> list_all cifra_o_punto mantissa
        \<and> (resto = [] \<or> (\<exists>c segno cifre. resto = c # segno @ cifre \<and> c \<in> set ''eE'' \<and> segno \<in> {[], ''+'', ''-''}
               \<and> cifre \<noteq> [] \<and> list_all is_ascii_digit cifre)))"

definition nome_formula :: "string \<Rightarrow> bool" where
  "nome_formula t \<longleftrightarrow>
     (\<exists>c s. t = c # s \<and> (is_ascii_alphabetic c \<or> c = CHR ''_'') \<and> list_all carattere_nome s)"

inductive formula_deriva :: "string \<Rightarrow> formula_expr \<Rightarrow> bool"
  and termine_deriva :: "string \<Rightarrow> formula_expr \<Rightarrow> bool"
  and fattore_deriva :: "string \<Rightarrow> formula_expr \<Rightarrow> bool" where
  un_termine: "termine_deriva t e \<Longrightarrow> formula_deriva t e"
| somma: "formula_deriva s l \<Longrightarrow> spazi w \<Longrightarrow> c \<in> {CHR ''+'', CHR ''-''} \<Longrightarrow> termine_deriva t r
    \<Longrightarrow> formula_deriva (s @ w @ c # t) (FBinary l c r)"
| un_fattore: "fattore_deriva t e \<Longrightarrow> termine_deriva t e"
| prodotto: "termine_deriva s l \<Longrightarrow> spazi w \<Longrightarrow> c \<in> {CHR ''*'', CHR ''/''} \<Longrightarrow> fattore_deriva t r
    \<Longrightarrow> termine_deriva (s @ w @ c # t) (FBinary l c r)"
| meno: "spazi w \<Longrightarrow> fattore_deriva t e \<Longrightarrow> fattore_deriva (w @ CHR ''-'' # t) (FNeg e)"
| parentesi: "spazi w \<Longrightarrow> formula_deriva t e \<Longrightarrow> spazi v \<Longrightarrow> fattore_deriva (w @ CHR ''('' # t @ v @ '')'') e"
| un_numero: "spazi w \<Longrightarrow> token_numero t \<Longrightarrow> parse_f64 t = Some x \<Longrightarrow> f64_is_finite x
    \<Longrightarrow> fattore_deriva (w @ t) (FNumber x)"
| un_testo: "spazi w \<Longrightarrow> q \<in> {CHR 0x27, CHR 0x22} \<Longrightarrow> set t \<inter> {q, CHR 0x5C} = {}
    \<Longrightarrow> fattore_deriva (w @ q # t @ [q]) (FText t)"
| una_colonna: "spazi w \<Longrightarrow> nome_formula t \<Longrightarrow> fattore_deriva (w @ t) (FColumn t)"

text \<open>A division by what is a literal zero, anywhere.\<close>

fun divide_per_zero :: "formula_expr \<Rightarrow> bool" where
  "divide_per_zero (FBinary l op r) \<longleftrightarrow>
     op = CHR ''/'' \<and> is_literal_zero r \<or> divide_per_zero l \<or> divide_per_zero r"
| "divide_per_zero (FNeg e) \<longleftrightarrow> divide_per_zero e"
| "divide_per_zero _ \<longleftrightarrow> False"

lemma reject_literal_zero_iff: "reject_literal_zero_divisor e = Inr () \<longleftrightarrow> \<not> divide_per_zero e"
proof (induction e)
  case (FBinary l op r)
  then show ?case by (cases "reject_literal_zero_divisor l") auto
qed simp_all

section \<open>What the parser accepts the grammar derives\<close>

lemma spazi_simps [simp]: "spazi []" "spazi (v @ w) \<longleftrightarrow> spazi v \<and> spazi w"
  by (simp_all add: spazi_def)

lemma skip_space_split: obtains w where "s = w @ skip_space s" and "spazi w"
  using that [of "takeWhile is_ascii_whitespace s"]
  by (simp add: skip_space_def spazi_def list_all_iff) (metis set_takeWhileD)

lemma testo_sound:
  "testo q s = Inr (v, resto) \<Longrightarrow> s = v @ q # resto \<and> set v \<inter> {q, CHR 0x5C} = {}"
proof (induction s arbitrary: v)
  case (Cons c s)
  then show ?case by (auto simp: results split: if_splits)
qed simp

lemma valore_numero_Inr [results]:
  "valore_numero t resto = Inr p \<longleftrightarrow> (\<exists>x. parse_f64 t = Some x \<and> f64_is_finite x \<and> p = (FNumber x, resto))"
  by (auto simp: valore_numero_def results)

lemma segno_esponente_split:
  "segno_esponente s = (segno, resto) \<Longrightarrow> s = segno @ resto \<and> segno \<in> {[], ''+'', ''-''}"
  by (auto simp: segno_esponente_def split: list.splits if_splits)

lemma numero_sound:
  assumes "numero s = Inr (e, resto)" and "s \<noteq> []" and "cifra_o_punto (hd s)"
  shows "\<exists>t x. s = t @ resto \<and> token_numero t \<and> parse_f64 t = Some x \<and> f64_is_finite x \<and> e = FNumber x"
proof -
  let ?m = "takeWhile cifra_o_punto s" and ?d = "dropWhile cifra_o_punto s"
  have m: "?m \<noteq> []" "list_all cifra_o_punto ?m" and s: "s = ?m @ ?d"
    using assms(2,3) by (cases s; auto simp: list_all_iff dest: set_takeWhileD)+
  show ?thesis
  proof (cases "\<exists>c r. ?d = c # r \<and> c \<in> set ''eE''")
    case True
    then obtain c r where d: "?d = c # r" "c \<in> set ''eE''" by blast
    obtain segno r' where segno: "segno_esponente r = (segno, r')" by (cases "segno_esponente r")
    let ?c = "takeWhile is_ascii_digit r'"
    have "?c \<noteq> []" and v: "valore_numero (?m @ c # segno @ ?c) (dropWhile is_ascii_digit r') = Inr (e, resto)"
      using assms(1) d by (auto simp: numero_def Let_def segno split: if_splits)
    then have "token_numero (?m @ c # segno @ ?c)"
      unfolding token_numero_def using m d(2) segno_esponente_split [OF segno]
      by (intro exI [of _ ?m] exI [of _ "c # segno @ ?c"]) (auto simp: list_all_iff dest: set_takeWhileD)
    moreover have "s = (?m @ c # segno @ ?c) @ dropWhile is_ascii_digit r'"
      using s d(1) segno_esponente_split [OF segno] by simp
    moreover from v obtain x where "parse_f64 (?m @ c # segno @ ?c) = Some x" "f64_is_finite x"
      "e = FNumber x" "resto = dropWhile is_ascii_digit r'" by (auto simp: results)
    ultimately show ?thesis by blast
  next
    case False
    then have "valore_numero ?m ?d = Inr (e, resto)"
      using assms(1) by (auto simp: numero_def Let_def split: list.splits if_splits)
    moreover have "token_numero ?m" unfolding token_numero_def using m by (intro exI [of _ ?m] exI [of _ "[]"]) simp
    ultimately show ?thesis using s by (metis valore_numero_Inr prod.inject)
  qed
qed

text \<open>What a method consumes, as a relation between the text and the tree: the loops extend what they are given.\<close>

fun consuma :: "metodo \<Rightarrow> string \<Rightarrow> formula_expr \<Rightarrow> bool" where
  "consuma MExpression p e \<longleftrightarrow> formula_deriva p e"
| "consuma MTerm p e \<longleftrightarrow> termine_deriva p e"
| "consuma MFactor p e \<longleftrightarrow> fattore_deriva p e"
| "consuma (MSums left) p e \<longleftrightarrow>
     p = [] \<and> e = left \<or> p \<noteq> [] \<and> (\<forall>t w. formula_deriva t left \<longrightarrow> spazi w \<longrightarrow> formula_deriva (t @ w @ p) e)"
| "consuma (MProducts left) p e \<longleftrightarrow>
     p = [] \<and> e = left \<or> p \<noteq> [] \<and> (\<forall>t w. termine_deriva t left \<longrightarrow> spazi w \<longrightarrow> termine_deriva (t @ w @ p) e)"

definition consumato :: "metodo \<Rightarrow> string \<Rightarrow> formula_expr \<Rightarrow> string \<Rightarrow> bool" where
  "consumato m s e resto \<longleftrightarrow> (\<exists>p w. s = p @ w @ resto \<and> spazi w \<and> consuma m p e)"

lemma consumato_ciclo:
  assumes sum: "ciclo = MSums \<and> testa = MTerm \<and> deriva = formula_deriva \<and> ops = {CHR ''+'', CHR ''-''} \<and> parte = termine_deriva
      \<or> ciclo = MProducts \<and> testa = MFactor \<and> deriva = termine_deriva \<and> ops = {CHR ''*'', CHR ''/''} \<and> parte = fattore_deriva"
    and s: "s = w0 @ c # r" "spazi w0" "c \<in> ops"
    and right: "consumato testa r right s1" and rest: "consumato (ciclo (FBinary left c right)) s1 e resto"
  shows "consumato (ciclo left) s e resto"
proof -
  from right obtain p1 w1 where 1: "r = p1 @ w1 @ s1" "spazi w1" "consuma testa p1 right" by (auto simp: consumato_def)
  from rest obtain p2 w2 where 2: "s1 = p2 @ w2 @ resto" "spazi w2" "consuma (ciclo (FBinary left c right)) p2 e"
    by (auto simp: consumato_def)
  have p1: "parte p1 right" using 1(3) sum by auto
  have passo: "deriva (t @ w @ w0 @ c # p1) (FBinary left c right)" if "deriva t left" "spazi w" for t w
    using somma [of t left "w @ w0" c p1 right] prodotto [of t left "w @ w0" c p1 right] that s p1 sum by auto
  show ?thesis
  proof (cases "p2 = []")
    case True
    then have "e = FBinary left c right" using 2(3) sum by auto
    then have "consuma (ciclo left) (w0 @ c # p1) e" using passo sum by auto
    moreover have "s = (w0 @ c # p1) @ (w1 @ w2) @ resto" using s(1) 1(1) 2(1) True by simp
    ultimately show ?thesis using 1(2) 2(2) unfolding consumato_def
      by (intro exI [of _ "w0 @ c # p1"] exI [of _ "w1 @ w2"]) simp
  next
    case False
    then have "deriva (t @ w1 @ p2) e" if "deriva t (FBinary left c right)" for t
      using 2(3) 1(2) that sum by auto
    from this [OF passo] have "consuma (ciclo left) (w0 @ c # p1 @ w1 @ p2) e" using sum by auto
    moreover have "s = (w0 @ c # p1 @ w1 @ p2) @ w2 @ resto" using s(1) 1(1) 2(1) by simp
    ultimately show ?thesis using 2(2) unfolding consumato_def by blast
  qed
qed

lemma consumato_testa:
  assumes sum: "ciclo = MSums \<and> testa = MTerm \<and> deriva = formula_deriva
      \<or> ciclo = MProducts \<and> testa = MFactor \<and> deriva = termine_deriva"
    and left: "consumato testa s left s1" and rest: "consumato (ciclo left) s1 e resto"
  shows "\<exists>p w. s = p @ w @ resto \<and> spazi w \<and> deriva p e"
proof -
  from left obtain p1 w1 where 1: "s = p1 @ w1 @ s1" "spazi w1" "consuma testa p1 left" by (auto simp: consumato_def)
  from rest obtain p2 w2 where 2: "s1 = p2 @ w2 @ resto" "spazi w2" "consuma (ciclo left) p2 e"
    by (auto simp: consumato_def)
  have d: "deriva p1 left" using 1(3) sum by (auto intro: un_termine un_fattore)
  show ?thesis
  proof (cases "p2 = []")
    case True
    then have "e = left" using 2(3) sum by auto
    then show ?thesis using d 1 2 True by (intro exI [of _ p1] exI [of _ "w1 @ w2"]) simp
  next
    case False
    then have "deriva (p1 @ w1 @ p2) e" using 2(3) 1(2) d sum by auto
    then show ?thesis using 1 2 by (intro exI [of _ "p1 @ w1 @ p2"] exI [of _ w2]) simp
  qed
qed

lemma foglia_sound:
  assumes "foglia n c s = Inr (e, resto)" and "spazi w"
  shows "\<exists>p. c # s = p @ resto \<and> fattore_deriva (w @ p) e"
proof -
  consider (testo) "c \<in> {CHR 0x27, CHR 0x22}" | (numero) "c \<notin> {CHR 0x27, CHR 0x22}" "cifra_o_punto c"
    | (nome) "c \<notin> {CHR 0x27, CHR 0x22}" "\<not> cifra_o_punto c" "is_ascii_alphabetic c \<or> c = CHR ''_''"
    | (altro) "c \<notin> {CHR 0x27, CHR 0x22}" "\<not> cifra_o_punto c" "\<not> (is_ascii_alphabetic c \<or> c = CHR ''_'')" by blast
  then show ?thesis
  proof cases
    case testo
    then obtain v where v: "testo c s = Inr (v, resto)" "e = FText v"
      using assms(1) by (auto simp: foglia_def results)
    then have "c # s = (c # v @ [c]) @ resto" "set v \<inter> {c, CHR 0x5C} = {}" using testo_sound [OF v(1)] by simp_all
    then show ?thesis using un_testo [OF assms(2) testo] v(2) by blast
  next
    case numero
    then have "numero (c # s) = Inr (e, resto)" using assms(1) by (auto simp: foglia_def cifra_o_punto_def)
    from numero_sound [OF this] numero(2) show ?thesis using un_numero [OF assms(2)] by fastforce
  next
    case nome
    then have e: "(e, resto) = identificatore_formula (c # s)"
      using assms(1) by (auto simp: foglia_def cifra_o_punto_def)
    have "carattere_nome c" using nome(3) by (auto simp: carattere_nome_def is_ascii_alphanumeric_def is_ascii_alphabetic_def)
    then have "nome_formula (takeWhile carattere_nome (c # s))"
      using nome(3) by (auto simp: nome_formula_def list_all_iff dest: set_takeWhileD)
    with e show ?thesis using una_colonna [OF assms(2)]
      by (intro exI [of _ "takeWhile carattere_nome (c # s)"]) (auto simp: identificatore_formula_def)
  next
    case altro
    then show ?thesis using assms(1) by (auto simp: foglia_def cifra_o_punto_def)
  qed
qed

lemma chiudi_sound:
  assumes "chiudi_parentesi (e, s) = Inr (e', resto)"
  shows "e' = e \<and> (\<exists>w. s = w @ CHR '')'' # resto \<and> spazi w)"
proof -
  obtain w where "s = w @ skip_space s" "spazi w" by (rule skip_space_split)
  then show ?thesis using assms by (auto simp: chiudi_parentesi_def split: list.splits if_splits)
qed

lemma poi_Some_Inr [results]:
  "poi r f = Some (Inr x) \<longleftrightarrow> (\<exists>e s. r = Some (Inr (e, s)) \<and> f e s = Some (Inr x))"
proof (cases r)
  case (Some y)
  then show ?thesis by (cases y) (auto simp: poi_def)
qed (simp add: poi_def)

lemma metodo_parser_step:
  assumes IH: "\<And>m s e resto. f n m s = Some (Inr (e, resto)) \<Longrightarrow> consumato m s e resto"
    and body: "(case m of
        MExpression \<Rightarrow> poi (f n MTerm s) (\<lambda>left s. f n (MSums left) s)
      | MSums left \<Rightarrow>
          (case skip_space s of
             [] \<Rightarrow> Some (Inr (left, []))
           | c # resto \<Rightarrow>
               if c \<in> {CHR ''+'', CHR ''-''} then
                 poi (f n MTerm resto) (\<lambda>right s. f n (MSums (FBinary left c right)) s)
               else Some (Inr (left, c # resto)))
      | MTerm \<Rightarrow> poi (f n MFactor s) (\<lambda>left s. f n (MProducts left) s)
      | MProducts left \<Rightarrow>
          (case skip_space s of
             [] \<Rightarrow> Some (Inr (left, []))
           | c # resto \<Rightarrow>
               if c \<in> {CHR ''*'', CHR ''/''} then
                 poi (f n MFactor resto) (\<lambda>right s. f n (MProducts (FBinary left c right)) s)
               else Some (Inr (left, c # resto)))
      | MFactor \<Rightarrow>
          (case skip_space s of
             [] \<Rightarrow> Some (Inl (InvalidPlan ''formula incompleta''))
           | c # resto \<Rightarrow>
               if c = CHR ''-'' then poi (f n MFactor resto) (\<lambda>e s. Some (Inr (FNeg e, s)))
               else if c = CHR ''('' then
                 poi (f n MExpression resto) (\<lambda>e s. Some (chiudi_parentesi (e, s)))
               else Some (foglia n c resto))) = Some (Inr (e, resto))"
  shows "consumato m s e resto"
proof -
  obtain w where w: "s = w @ skip_space s" "spazi w" by (rule skip_space_split)
  show ?thesis
  proof (cases m)
    case MExpression
    then obtain left s1 where 1: "f n MTerm s = Some (Inr (left, s1))" "f n (MSums left) s1 = Some (Inr (e, resto))"
      using body by (auto simp: results)
    from consumato_testa [of MSums MTerm formula_deriva, OF _ IH [OF 1(1)] IH [OF 1(2)]] show ?thesis
      unfolding consumato_def MExpression consuma.simps by blast
  next
    case MTerm
    then obtain left s1 where 1: "f n MFactor s = Some (Inr (left, s1))" "f n (MProducts left) s1 = Some (Inr (e, resto))"
      using body by (auto simp: results)
    from consumato_testa [of MProducts MFactor termine_deriva, OF _ IH [OF 1(1)] IH [OF 1(2)]] show ?thesis
      unfolding consumato_def MTerm consuma.simps by blast
  next
    case (MSums left)
    show ?thesis
    proof (cases "\<exists>c r. skip_space s = c # r \<and> c \<in> {CHR ''+'', CHR ''-''}")
      case True
      then obtain c r where c: "skip_space s = c # r" "c \<in> {CHR ''+'', CHR ''-''}" by blast
      then obtain right s1 where "f n MTerm r = Some (Inr (right, s1))"
        "f n (MSums (FBinary left c right)) s1 = Some (Inr (e, resto))"
        using body MSums by (auto simp: results)
      from consumato_ciclo [of MSums MTerm, OF _ w(1) [unfolded c(1)] w(2) c(2) IH [OF this(1)] IH [OF this(2)]]
      show ?thesis unfolding MSums by simp
    next
      case False
      then have "e = left \<and> resto = skip_space s" using body MSums by (auto split: list.splits)
      then show ?thesis using w MSums unfolding consumato_def by (intro exI [of _ "[]"] exI [of _ w]) simp
    qed
  next
    case (MProducts left)
    show ?thesis
    proof (cases "\<exists>c r. skip_space s = c # r \<and> c \<in> {CHR ''*'', CHR ''/''}")
      case True
      then obtain c r where c: "skip_space s = c # r" "c \<in> {CHR ''*'', CHR ''/''}" by blast
      then obtain right s1 where "f n MFactor r = Some (Inr (right, s1))"
        "f n (MProducts (FBinary left c right)) s1 = Some (Inr (e, resto))"
        using body MProducts by (auto simp: results)
      from consumato_ciclo [of MProducts MFactor, OF _ w(1) [unfolded c(1)] w(2) c(2) IH [OF this(1)] IH [OF this(2)]]
      show ?thesis unfolding MProducts by simp
    next
      case False
      then have "e = left \<and> resto = skip_space s" using body MProducts by (auto split: list.splits)
      then show ?thesis using w MProducts unfolding consumato_def by (intro exI [of _ "[]"] exI [of _ w]) simp
    qed
  next
    case MFactor
    then obtain c r where c: "skip_space s = c # r" using body by (cases "skip_space s") auto
    consider (meno) "c = CHR ''-''" | (aperta) "c = CHR ''(''" | (foglia) "c \<noteq> CHR ''-''" "c \<noteq> CHR ''(''" by blast
    then show ?thesis
    proof cases
      case meno
      then obtain e' where e': "f n MFactor r = Some (Inr (e', resto))" "e = FNeg e'"
        using body MFactor c by (auto simp: results)
      from IH [OF e'(1)] obtain p1 w1 where p1: "r = p1 @ w1 @ resto" "spazi w1" "fattore_deriva p1 e'"
        by (auto simp: consumato_def)
      have "s = (w @ CHR ''-'' # p1) @ w1 @ resto" using w(1) c p1(1) meno by simp
      moreover have "fattore_deriva (w @ CHR ''-'' # p1) e" using formula_deriva_termine_deriva_fattore_deriva.meno [OF w(2) p1(3)] e'(2) by simp
      ultimately show ?thesis using MFactor p1(2) unfolding consumato_def by (metis consuma.simps(3))
    next
      case aperta
      then obtain e' s1 where e': "f n MExpression r = Some (Inr (e', s1))" "chiudi_parentesi (e', s1) = Inr (e, resto)"
        using body MFactor c by (auto simp: results)
      from IH [OF e'(1)] obtain p1 w1 where p1: "r = p1 @ w1 @ s1" "spazi w1" "formula_deriva p1 e'"
        by (auto simp: consumato_def)
      from chiudi_sound [OF e'(2)] obtain w2 where w2: "e = e'" "s1 = w2 @ CHR '')'' # resto" "spazi w2" by blast
      have "s = (w @ CHR ''('' # p1 @ (w1 @ w2) @ '')'') @ [] @ resto" using w(1) c p1(1) w2(2) aperta by simp
      moreover have "fattore_deriva (w @ CHR ''('' # p1 @ (w1 @ w2) @ '')'') e"
        using parentesi [OF w(2) p1(3), of "w1 @ w2"] p1(2) w2 by simp
      ultimately show ?thesis using MFactor unfolding consumato_def by (metis consuma.simps(3) spazi_simps(1))
    next
      case foglia
      then have "foglia n c r = Inr (e, resto)" using body MFactor c by simp
      from foglia_sound [OF this w(2)] obtain p where "c # r = p @ resto" "fattore_deriva (w @ p) e" by blast
      moreover from this have "s = (w @ p) @ [] @ resto" using w(1) c by simp
      ultimately show ?thesis using MFactor unfolding consumato_def by (metis consuma.simps(3) spazi_simps(1))
    qed
  qed
qed

lemma metodo_parser_sound:
  assumes "metodo_parser n m s = Some (Inr (e, resto))"
  shows "consumato m s e resto"
proof -
  let ?P = "\<lambda>n m s (r :: (formula_expr \<times> string) result). \<forall>e resto. r = Inr (e, resto) \<longrightarrow> consumato m s e resto"
  have "?P n m s (Inr (e, resto))"
  proof (rule metodo_parser.raw_induct [where P = ?P, OF _ assms], intro allI impI, goal_cases)
    case (1 f n m s r e resto)
    show ?case by (rule metodo_parser_step [where f = f and n = n, OF _ "1"(2) [unfolded "1"(3)]]) (use "1"(1) in blast)
  qed
  then show ?thesis by blast
qed

section \<open>The parser returns\<close>

lemma deriva_non_vuota:
  "formula_deriva t e \<Longrightarrow> t \<noteq> []" "termine_deriva t e \<Longrightarrow> t \<noteq> []" "fattore_deriva t e \<Longrightarrow> t \<noteq> []"
  by (induction rule: formula_deriva_termine_deriva_fattore_deriva.inducts)
    (auto simp: token_numero_def nome_formula_def)

lemma metodo_parser_accorcia:
  assumes "metodo_parser n m s = Some (Inr (e, resto))" and "m \<in> {MExpression, MTerm, MFactor}"
  shows "length resto < length s"
proof -
  from metodo_parser_sound [OF assms(1)] obtain p w where s: "s = p @ w @ resto" and p: "consuma m p e"
    by (auto simp: consumato_def)
  then have "p \<noteq> []" using assms(2) deriva_non_vuota [of "[]" e] by auto
  then show ?thesis using s by simp
qed

lemma poi_returns: "r \<noteq> None \<Longrightarrow> (\<And>e s. r = Some (Inr (e, s)) \<Longrightarrow> f e s \<noteq> None) \<Longrightarrow> poi r f \<noteq> None"
  by (auto simp: poi_def split: sum.split)

fun rango :: "metodo \<Rightarrow> nat" where
  "rango MExpression = 2"
| "rango MTerm = 1"
| "rango _ = 0"

lemma length_skip_space: "skip_space s = c # r \<Longrightarrow> length r < length s"
  using length_dropWhile_le [of is_ascii_whitespace s] by (simp add: skip_space_def)

lemma metodo_parser_returns: "metodo_parser n m s \<noteq> None"
proof (induction "(length s, rango m)" arbitrary: m s rule: wf_induct_rule [OF wf_lex_prod [OF wf_less_than wf_less_than]])
  case 1
  then have IH: "metodo_parser n m' s' \<noteq> None"
    if "length s' < length s \<or> length s' = length s \<and> rango m' < rango m" for m' s'
    using that by simp
  have accorcia: "length s1 < length s'" if "metodo_parser n m' s' = Some (Inr (e, s1))"
    "m' \<in> {MExpression, MTerm, MFactor}" for m' s' e s1
    using metodo_parser_accorcia [OF that] .
  note run = metodo_parser.simps [of n m s]
  show ?case
  proof (cases m)
    case MExpression
    show ?thesis unfolding run unfolding MExpression metodo.case
      by (rule poi_returns; rule IH) (auto dest: accorcia simp: MExpression)
  next
    case MTerm
    show ?thesis unfolding run unfolding MTerm metodo.case
      by (rule poi_returns; rule IH) (auto dest: accorcia simp: MTerm)
  next
    case (MSums left)
    have "poi (metodo_parser n MTerm r) (\<lambda>right. metodo_parser n (MSums (FBinary left c right))) \<noteq> None"
      if "skip_space s = c # r" for c r
      by (rule poi_returns; rule IH) (use length_skip_space [OF that] in \<open>auto dest: accorcia\<close>)
    then show ?thesis unfolding run unfolding MSums metodo.case by (cases "skip_space s") simp_all
  next
    case (MProducts left)
    have "poi (metodo_parser n MFactor r) (\<lambda>right. metodo_parser n (MProducts (FBinary left c right))) \<noteq> None"
      if "skip_space s = c # r" for c r
      by (rule poi_returns; rule IH) (use length_skip_space [OF that] in \<open>auto dest: accorcia\<close>)
    then show ?thesis unfolding run unfolding MProducts metodo.case by (cases "skip_space s") simp_all
  next
    case MFactor
    have "poi (metodo_parser n m' r) (\<lambda>e s. Some (f e s)) \<noteq> None" if "skip_space s = c # r" for c r m' f
      by (rule poi_returns) (use length_skip_space [OF that] IH in simp_all)
    then show ?thesis unfolding run unfolding MFactor metodo.case by (cases "skip_space s") simp_all
  qed
qed

definition solo_piano :: "'a result \<Rightarrow> bool" where
  "solo_piano r \<longleftrightarrow> (\<forall>err. r = Inl err \<longrightarrow> (\<exists>m. err = InvalidPlan m))"

lemma solo_piano_simps [simp]:
  "solo_piano (Inr x)" "solo_piano (Inl err) \<longleftrightarrow> (\<exists>m. err = InvalidPlan m)"
  "solo_piano (map_ok g r) \<longleftrightarrow> solo_piano r"
  by (cases r; auto simp: solo_piano_def map_ok_def)+

lemma solo_piano_try_bind: "solo_piano r \<Longrightarrow> (\<And>x. solo_piano (f x)) \<Longrightarrow> solo_piano (try_bind r f)"
  by (cases r) simp_all

lemma testo_piano [simp]: "solo_piano (testo q s)"
  by (induction s) simp_all

lemma numero_piano [simp]: "solo_piano (numero s)"
  by (auto simp: numero_def valore_numero_def Let_def ok_or_def split: list.split prod.split option.split)

lemma foglia_piano [simp]: "solo_piano (foglia n c s)" "solo_piano (chiudi_parentesi p)"
  by (auto simp: foglia_def chiudi_parentesi_def split: list.split prod.split)

lemma metodo_parser_piano: "metodo_parser n m s = Some r \<Longrightarrow> solo_piano r"
proof (rule metodo_parser.raw_induct [where P = "\<lambda>_ _ _. solo_piano"], goal_cases)
  case (1 f n m s r)
  have poi: "solo_piano r" if "poi a g = Some r" "\<And>x. a = Some x \<Longrightarrow> solo_piano x"
    "\<And>e s x. g e s = Some x \<Longrightarrow> solo_piano x" for a g and r :: "(formula_expr \<times> string) result"
    using that by (cases a; cases "the a") (auto simp: poi_def)
  show ?case
    using "1"(3) by (auto split: metodo.splits list.splits if_splits intro: "1"(2) elim!: poi)
qed

section \<open>What the grammar derives the parser accepts\<close>

text \<open>A text after which no token goes on, and one that does not continue a product.\<close>

definition fine_token :: "string \<Rightarrow> bool" where
  "fine_token r \<longleftrightarrow> (\<forall>c s. r = c # s \<longrightarrow> \<not> carattere_nome c \<and> c \<noteq> CHR ''.'')"

definition fine_prodotto :: "string \<Rightarrow> bool" where
  "fine_prodotto r \<longleftrightarrow> (\<forall>c s. skip_space r = c # s \<longrightarrow> c \<notin> {CHR ''*'', CHR ''/''})"

lemma skip_space_spazi: "spazi w \<Longrightarrow> skip_space (w @ s) = skip_space s"
  by (induction w) (auto simp: skip_space_def spazi_def)

lemma skip_space_idem [simp]: "skip_space (skip_space s) = skip_space s"
  by (simp add: skip_space_def)

lemma skip_space_Cons: "\<not> is_ascii_whitespace c \<Longrightarrow> skip_space (c # s) = c # s"
  by (simp add: skip_space_def)

lemma simboli [simp]:
  "\<not> is_ascii_whitespace (CHR ''+'')" "\<not> is_ascii_whitespace (CHR ''-'')" "\<not> is_ascii_whitespace (CHR ''*'')"
  "\<not> is_ascii_whitespace (CHR ''/'')" "\<not> is_ascii_whitespace (CHR ''('')" "\<not> is_ascii_whitespace (CHR '')'')"
  "\<not> is_ascii_whitespace (CHR 0x27)" "\<not> is_ascii_whitespace (CHR 0x22)"
  by (simp_all add: is_ascii_whitespace_def)

lemma fine_token_spazi:
  assumes "spazi w" and "c \<in> {CHR ''+'', CHR ''-'', CHR ''*'', CHR ''/'', CHR '')''}"
  shows "fine_token (w @ c # s)"
  using assms
  by (cases w) (auto simp: fine_token_def spazi_def is_ascii_whitespace_def carattere_nome_def is_ascii_alphanumeric_def
      is_ascii_digit_def is_ascii_uppercase_def is_ascii_lowercase_def byte_of_def)

lemma takeWhile_token:
  "list_all P t \<Longrightarrow> (\<And>c s. r = c # s \<Longrightarrow> \<not> P c) \<Longrightarrow> takeWhile P (t @ r) = t \<and> dropWhile P (t @ r) = r"
  by (induction t) (cases r; simp)+

lemma testo_complete: "set v \<inter> {q, CHR 0x5C} = {} \<Longrightarrow> testo q (v @ q # r) = Inr (v, r)"
  by (induction v) auto

lemma carattere_nome_eE: "c \<in> set ''eE'' \<Longrightarrow> carattere_nome c \<and> \<not> cifra_o_punto c"
  by (auto simp: carattere_nome_def is_ascii_alphanumeric_def cifra_o_punto_def is_ascii_digit_def
      is_ascii_lowercase_def is_ascii_uppercase_def byte_of_def)

lemma digit_carattere_nome: "is_ascii_digit c \<Longrightarrow> carattere_nome c \<and> c \<notin> set ''+-''"
  by (auto simp: carattere_nome_def is_ascii_alphanumeric_def is_ascii_digit_def byte_of_def)

lemma numero_complete:
  assumes "token_numero t" and "parse_f64 t = Some x" and "f64_is_finite x" and "fine_token r"
  shows "numero (t @ r) = Inr (FNumber x, r)"
proof -
  obtain m e where t: "t = m @ e" "m \<noteq> []" "list_all cifra_o_punto m"
    and e: "e = [] \<or> (\<exists>c segno cifre. e = c # segno @ cifre \<and> c \<in> set ''eE'' \<and> segno \<in> {[], ''+'', ''-''}
               \<and> cifre \<noteq> [] \<and> list_all is_ascii_digit cifre)"
    using assms(1) unfolding token_numero_def by blast
  have v: "valore_numero t r = Inr (FNumber x, r)" using assms(2,3) by (simp add: results)
  from e show ?thesis
  proof (elim disjE exE conjE)
    assume e: "e = []"
    have "\<not> cifra_o_punto c \<and> c \<notin> set ''eE''" if "r = c # s" for c s
      using assms(4) that carattere_nome_eE [of c] digit_carattere_nome [of c] by (auto simp: fine_token_def cifra_o_punto_def)
    then show ?thesis using takeWhile_token [of cifra_o_punto m r] t e v
      by (auto simp: numero_def Let_def split: list.split)
  next
    fix c segno cifre
    assume e: "e = c # segno @ cifre" "c \<in> set ''eE''" "segno \<in> {[], ''+'', ''-''}" "cifre \<noteq> []" "list_all is_ascii_digit cifre"
    have "takeWhile cifra_o_punto (m @ e @ r) = m \<and> dropWhile cifra_o_punto (m @ e @ r) = e @ r"
      using t(3) e(1,2) carattere_nome_eE [of c] by (intro takeWhile_token) auto
    moreover have "takeWhile is_ascii_digit (cifre @ r) = cifre \<and> dropWhile is_ascii_digit (cifre @ r) = r"
      using e(5) assms(4) digit_carattere_nome by (intro takeWhile_token) (auto simp: fine_token_def)
    moreover have "segno_esponente (segno @ cifre @ r) = (segno, cifre @ r)"
      using e(3,4,5) digit_carattere_nome by (cases cifre) (auto simp: segno_esponente_def)
    ultimately show ?thesis using t v e by (simp add: numero_def)
  qed
qed

lemma metodo_parser_spazi:
  assumes "spazi w" and "m \<notin> {MExpression, MTerm}"
  shows "metodo_parser n m (w @ s) = metodo_parser n m s"
  using assms by (cases m) (simp_all add: metodo_parser.simps [of n _ "w @ s"] metodo_parser.simps [of n _ s] skip_space_spazi)

lemma MProducts_stop: "fine_prodotto r \<Longrightarrow> metodo_parser n (MProducts e) r = Some (Inr (e, skip_space r))"
  by (subst metodo_parser.simps) (auto simp: fine_prodotto_def split: list.split)

lemma MSums_skip: "metodo_parser n (MSums e) (skip_space r) = metodo_parser n (MSums e) r"
  by (simp add: metodo_parser.simps [of n _ "skip_space r"] metodo_parser.simps [of n _ r])

lemma poi_simps [simp]: "poi (Some (Inr (e, s))) f = f e s" "poi (Some (Inl x)) f = Some (Inl x)"
  by (simp_all add: poi_def)

lemma fine_prodotto_simboli: "spazi w \<Longrightarrow> c \<in> {CHR ''+'', CHR ''-'', CHR '')''} \<Longrightarrow> fine_prodotto (w @ c # s)"
  by (auto simp: fine_prodotto_def skip_space_spazi skip_space_Cons)

lemma MFactor_foglia:
  assumes "spazi w" and "\<not> is_ascii_whitespace c" and "c \<notin> {CHR ''-'', CHR ''(''}"
  shows "metodo_parser n MFactor (w @ c # s) = Some (foglia n c s)"
  using assms by (simp add: metodo_parser_spazi) (subst metodo_parser.simps, simp add: skip_space_Cons)

lemma whitespace_nome: "is_ascii_whitespace c \<Longrightarrow> \<not> carattere_nome c \<and> c \<noteq> CHR ''.''"
  by (auto simp: is_ascii_whitespace_def carattere_nome_def is_ascii_alphanumeric_def
      is_ascii_digit_def is_ascii_uppercase_def is_ascii_lowercase_def byte_of_def)

lemma inizio_token:
  "cifra_o_punto c \<Longrightarrow> \<not> is_ascii_whitespace c \<and> c \<notin> {CHR ''-'', CHR ''('', CHR 0x27, CHR 0x22}"
  "is_ascii_alphabetic c \<or> c = CHR ''_''
     \<Longrightarrow> \<not> is_ascii_whitespace c \<and> c \<notin> {CHR ''-'', CHR ''('', CHR 0x27, CHR 0x22} \<and> \<not> cifra_o_punto c \<and> carattere_nome c"
  by (auto simp: cifra_o_punto_def is_ascii_whitespace_def is_ascii_digit_def is_ascii_alphabetic_def carattere_nome_def
      is_ascii_alphanumeric_def is_ascii_uppercase_def is_ascii_lowercase_def byte_of_def)

lemma metodo_parser_complete:
  "formula_deriva t e \<Longrightarrow> fine_token r \<Longrightarrow> fine_prodotto r
     \<Longrightarrow> metodo_parser n MExpression (t @ r) = metodo_parser n (MSums e) r"
  "termine_deriva t e \<Longrightarrow> fine_token r \<Longrightarrow> metodo_parser n MTerm (t @ r) = metodo_parser n (MProducts e) r"
  "fattore_deriva t e \<Longrightarrow> fine_token r \<Longrightarrow> metodo_parser n MFactor (t @ r) = Some (Inr (e, r))"
proof (induction arbitrary: r and r and r rule: formula_deriva_termine_deriva_fattore_deriva.inducts)
  case (un_termine t e)
  then show ?case
    by (subst metodo_parser.simps) (simp add: MProducts_stop MSums_skip)
next
  case (somma s l w c t right)
  have "metodo_parser n MExpression (s @ w @ c # t @ r) = metodo_parser n (MSums l) (w @ c # t @ r)"
    using somma by (intro somma.IH(1) fine_token_spazi fine_prodotto_simboli) auto
  also have "\<dots> = metodo_parser n (MSums l) (c # t @ r)" using somma(2) by (simp add: metodo_parser_spazi)
  also have "\<dots> = poi (metodo_parser n MTerm (t @ r)) (\<lambda>right s. metodo_parser n (MSums (FBinary l c right)) s)"
    using somma(3) by (subst metodo_parser.simps) (auto simp: skip_space_Cons)
  also have "\<dots> = metodo_parser n (MSums (FBinary l c right)) r"
    using somma by (simp add: MProducts_stop MSums_skip)
  finally show ?case by simp
next
  case (un_fattore t e)
  then show ?case by (subst metodo_parser.simps) simp
next
  case (prodotto s l w c t right)
  have "metodo_parser n MTerm (s @ w @ c # t @ r) = metodo_parser n (MProducts l) (w @ c # t @ r)"
    using prodotto by (intro prodotto.IH(1) fine_token_spazi) auto
  also have "\<dots> = metodo_parser n (MProducts l) (c # t @ r)" using prodotto(2) by (simp add: metodo_parser_spazi)
  also have "\<dots> = poi (metodo_parser n MFactor (t @ r)) (\<lambda>right s. metodo_parser n (MProducts (FBinary l c right)) s)"
    using prodotto(3) by (subst metodo_parser.simps) (auto simp: skip_space_Cons)
  also have "\<dots> = metodo_parser n (MProducts (FBinary l c right)) r" using prodotto by simp
  finally show ?case by simp
next
  case (meno w t e)
  then show ?case
    by (simp add: metodo_parser_spazi) (subst metodo_parser.simps, simp add: skip_space_Cons)
next
  case (parentesi w t e v)
  have "metodo_parser n MExpression (t @ v @ CHR '')'' # r) = metodo_parser n (MSums e) (v @ CHR '')'' # r)"
    using parentesi by (intro parentesi.IH fine_token_spazi fine_prodotto_simboli) auto
  also have "\<dots> = Some (Inr (e, CHR '')'' # r))"
    using parentesi(3) by (subst metodo_parser.simps) (simp add: skip_space_spazi skip_space_Cons)
  finally show ?case using parentesi(1)
    by (simp add: metodo_parser_spazi) (subst metodo_parser.simps, simp add: skip_space_Cons chiudi_parentesi_def)
next
  case (un_numero w t x)
  obtain m resto where "t = m @ resto" "m \<noteq> []" "list_all cifra_o_punto m"
    using un_numero(2) unfolding token_numero_def by blast
  then obtain c t' where t: "t = c # t'" "cifra_o_punto c" by (cases m) auto
  have "foglia n c (t' @ r) = numero (t @ r)"
    using inizio_token(1) [OF t(2)] t by (auto simp: foglia_def cifra_o_punto_def)
  then show ?case
    using MFactor_foglia [of w c n "t' @ r"] inizio_token(1) [OF t(2)] t(1) un_numero(1)
      numero_complete [OF un_numero(2-4,5)] by simp
next
  case (un_testo w q t)
  then have "foglia n q (t @ q # r) = Inr (FText t, r)" using testo_complete [of t q r] by (auto simp: foglia_def)
  then show ?case using MFactor_foglia [of w q n "t @ q # r"] un_testo by auto
next
  case (una_colonna w t)
  obtain c t' where t: "t = c # t'" "is_ascii_alphabetic c \<or> c = CHR ''_''" "list_all carattere_nome t'"
    using una_colonna(2) by (auto simp: nome_formula_def)
  note c = inizio_token(2) [OF t(2)]
  have "takeWhile carattere_nome (t @ r) = t \<and> dropWhile carattere_nome (t @ r) = r"
    using t(1,3) c una_colonna(3) by (intro takeWhile_token) (auto simp: fine_token_def)
  then have "foglia n c (t' @ r) = Inr (FColumn t, r)"
    using c t(1,2) by (auto simp: foglia_def identificatore_formula_def cifra_o_punto_def)
  then show ?case using MFactor_foglia [of w c n "t' @ r"] c t(1) una_colonna(1) by simp
qed

lemma parse_formula_Inr:
  "parse_formula s = Some (Inr e) \<longleftrightarrow>
     (\<exists>resto. metodo_parser (length s) MExpression s = Some (Inr (e, resto))
        \<and> reject_literal_zero_divisor e = Inr () \<and> skip_space resto = [])"
proof (cases "metodo_parser (length s) MExpression s")
  case (Some r)
  then show ?thesis unfolding parse_formula_def by (cases r) (auto simp: try_bind_Inr_iff split: if_splits)
qed (simp add: parse_formula_def)

text \<open>C39. The parser accepts exactly the formulas of the documented grammar, sums and products grouping to the left, that
  do not divide by a literal zero; the tree it builds is the one the grammar gives.\<close>

theorem formula_grammar_exact:
  "parse_formula s = Some (Inr e) \<longleftrightarrow>
     (\<exists>t w. s = t @ w \<and> spazi w \<and> formula_deriva t e) \<and> \<not> divide_per_zero e"
proof
  assume "parse_formula s = Some (Inr e)"
  then obtain resto where run: "metodo_parser (length s) MExpression s = Some (Inr (e, resto))"
    and zero: "reject_literal_zero_divisor e = Inr ()" and fine: "skip_space resto = []"
    unfolding parse_formula_Inr by blast
  from metodo_parser_sound [OF run] obtain t w where t: "s = t @ w @ resto" "spazi w" "formula_deriva t e"
    by (auto simp: consumato_def)
  have "spazi resto" using fine by (auto simp: skip_space_def spazi_def list_all_iff)
  then have "s = t @ (w @ resto) \<and> spazi (w @ resto)" using t by simp
  then show "(\<exists>t w. s = t @ w \<and> spazi w \<and> formula_deriva t e) \<and> \<not> divide_per_zero e"
    using t(3) zero unfolding reject_literal_zero_iff by blast
next
  assume "(\<exists>t w. s = t @ w \<and> spazi w \<and> formula_deriva t e) \<and> \<not> divide_per_zero e"
  then obtain t w where t: "s = t @ w" "spazi w" "formula_deriva t e" and zero: "reject_literal_zero_divisor e = Inr ()"
    using reject_literal_zero_iff by blast
  have skip: "skip_space w = []" using t(2) skip_space_spazi [of w "[]"] by (simp add: skip_space_def)
  have "fine_token w" using t(2) by (cases w) (auto simp: fine_token_def spazi_def whitespace_nome)
  then have "metodo_parser (length s) MExpression s = metodo_parser (length s) (MSums e) w"
    unfolding t(1) using t(3) skip by (intro metodo_parser_complete) (auto simp: fine_prodotto_def)
  also have "\<dots> = Some (Inr (e, []))" using skip by (subst metodo_parser.simps) simp
  finally show "parse_formula s = Some (Inr e)"
    using zero unfolding parse_formula_Inr by (auto simp: skip_space_def)
qed

lemma metodo_parser_tutto: "\<exists>r. parse_formula s = Some r \<and> solo_piano r"
proof -
  obtain r where r: "metodo_parser (length s) MExpression s = Some r"
    using metodo_parser_returns by (metis not_Some_eq)
  have reject: "solo_piano (reject_literal_zero_divisor e)" for e
    by (induction e) (simp_all add: solo_piano_try_bind)
  show ?thesis unfolding parse_formula_def r
    by (auto intro!: solo_piano_try_bind metodo_parser_piano [OF r] reject)
qed

section \<open>The frames that the parser takes\<close>

lemma poi_come:
  assumes "poi a g = Some r" and "\<And>x. a = Some x \<Longrightarrow> a' = Some x" and "\<And>e s x. g e s = Some x \<Longrightarrow> g' e s = Some x"
  shows "poi a' g' = Some r"
proof -
  from assms(1) obtain x where x: "a = Some x" by (cases a) (simp_all add: poi_def)
  then have "a' = Some x" by (rule assms(2))
  then show ?thesis using assms(1,3) x by (cases x) (auto simp: poi_def)
qed

text \<open>A parser that has the frames it needs gives what the parser without a stack gives.\<close>

lemma parser_con_pila_sound: "parser_con_pila k n m s = Some r \<Longrightarrow> metodo_parser n m s = Some r"
proof (rule parser_con_pila.raw_induct [where P = "\<lambda>k n m s r. metodo_parser n m s = Some r"], goal_cases)
  case (1 f k n m s r)
  note run = metodo_parser.simps [of n m s]
  show ?case
    using "1"(3) unfolding run
    by (auto split: metodo.splits list.splits if_splits intro: "1"(2) elim!: poi_come)
qed

fun bisogno :: "metodo \<Rightarrow> nat" where
  "bisogno MExpression = 3"
| "bisogno MTerm = 2"
| "bisogno _ = 1"

lemma parser_con_pila_returns:
  "3 * length s + bisogno m \<le> k \<Longrightarrow> parser_con_pila k n m s \<noteq> None"
proof (induction "(length s, rango m)" arbitrary: m s k rule: wf_induct_rule [OF wf_lex_prod [OF wf_less_than wf_less_than]])
  case 1
  then have IH: "parser_con_pila k' n m' s' \<noteq> None"
    if "length s' < length s \<or> length s' = length s \<and> rango m' < rango m" "3 * length s' + bisogno m' \<le> k'" for m' s' k'
    using that by simp
  have accorcia: "length s1 < length s'" if "parser_con_pila k' n m' s' = Some (Inr (e, s1))"
    "m' \<in> {MExpression, MTerm, MFactor}" for m' s' e s1 k'
    using metodo_parser_accorcia [OF parser_con_pila_sound [OF that(1)] that(2)] .
  note k = "1.prems"
  have "k \<noteq> 0" using k by (cases m) simp_all
  note run = parser_con_pila.simps [of k n m s] if_not_P [OF this]
  show ?case
  proof (cases m)
    case MExpression
    show ?thesis unfolding run unfolding MExpression metodo.case
      by (rule poi_returns; rule IH) (use k in \<open>auto dest: accorcia simp: MExpression\<close>)
  next
    case MTerm
    show ?thesis unfolding run unfolding MTerm metodo.case
      by (rule poi_returns; rule IH) (use k in \<open>auto dest: accorcia simp: MTerm\<close>)
  next
    case (MSums left)
    have "poi (parser_con_pila (k - 1) n MTerm r) (\<lambda>right. parser_con_pila k n (MSums (FBinary left c right))) \<noteq> None"
      if "skip_space s = c # r" for c r
      by (rule poi_returns; rule IH) (use length_skip_space [OF that] k in \<open>auto dest: accorcia simp: MSums\<close>)
    then show ?thesis unfolding run unfolding MSums metodo.case by (cases "skip_space s") simp_all
  next
    case (MProducts left)
    have "poi (parser_con_pila (k - 1) n MFactor r) (\<lambda>right. parser_con_pila k n (MProducts (FBinary left c right))) \<noteq> None"
      if "skip_space s = c # r" for c r
      by (rule poi_returns; rule IH) (use length_skip_space [OF that] k in \<open>auto dest: accorcia simp: MProducts\<close>)
    then show ?thesis unfolding run unfolding MProducts metodo.case by (cases "skip_space s") simp_all
  next
    case MFactor
    have "poi (parser_con_pila (k - 1) n m' r) (\<lambda>e s. Some (f e s)) \<noteq> None"
      if "skip_space s = c # r" "bisogno m' \<le> 3" for c r m' f
      by (rule poi_returns; (rule IH)?) (use length_skip_space [OF that(1)] that(2) k in \<open>simp_all add: MFactor\<close>)
    then show ?thesis unfolding run unfolding MFactor metodo.case by (cases "skip_space s") simp_all
  qed
qed

text \<open>Nested parentheses take three frames each.\<close>

lemma parentesi_senza_pila:
  "k < 3 * d + bisogno m \<Longrightarrow> m \<in> {MExpression, MTerm, MFactor} \<Longrightarrow> parser_con_pila k n m (replicate d CHR ''('') = None"
proof (induction "(d, rango m)" arbitrary: d m k rule: wf_induct_rule [OF wf_lex_prod [OF wf_less_than wf_less_than]])
  case 1
  then have IH: "parser_con_pila k' n m' (replicate d' CHR ''('') = None"
    if "d' < d \<or> d' = d \<and> rango m' < rango m" "k' < 3 * d' + bisogno m'" "m' \<in> {MExpression, MTerm, MFactor}" for m' d' k'
    using that by simp
  note run = parser_con_pila.simps [of k n m]
  have [simp]: "poi None f = None" for f by (simp add: poi_def)
  consider "k = 0" | "k > 0" "m = MExpression" | "k > 0" "m = MTerm" | "k > 0" "m = MFactor" using "1.prems"(2) by blast
  then show ?case
  proof cases
    case 2
    then have "parser_con_pila (k - 1) n MTerm (replicate d CHR ''('') = None" using "1.prems"(1) by (intro IH) auto
    then show ?thesis unfolding run using 2 by simp
  next
    case 3
    then have "parser_con_pila (k - 1) n MFactor (replicate d CHR ''('') = None" using "1.prems"(1) by (intro IH) auto
    then show ?thesis unfolding run using 3 by simp
  next
    case 4
    then obtain d' where d: "d = Suc d'" using "1.prems"(1) by (cases d) auto
    then have "parser_con_pila (k - 1) n MExpression (replicate d' CHR ''('') = None"
      using "1.prems"(1) 4 by (intro IH) auto
    moreover have "skip_space (replicate d CHR ''('') = CHR ''('' # replicate d' CHR ''(''"
      by (simp add: d skip_space_def is_ascii_whitespace_def)
    ultimately show ?thesis unfolding run using 4 by simp
  next
    case 1
    then show ?thesis unfolding run by simp
  qed
qed

text \<open>The tree of a text is no higher than the text is long.\<close>

fun altezza :: "formula_expr \<Rightarrow> nat" where
  "altezza (FNeg e) = Suc (altezza e)"
| "altezza (FBinary l op r) = Suc (max (altezza l) (altezza r))"
| "altezza _ = 1"

lemma deriva_altezza:
  "formula_deriva t e \<Longrightarrow> altezza e \<le> length t" "termine_deriva t e \<Longrightarrow> altezza e \<le> length t"
  "fattore_deriva t e \<Longrightarrow> altezza e \<le> length t"
proof (induction rule: formula_deriva_termine_deriva_fattore_deriva.inducts)
  case (un_numero w t x)
  then have "t \<noteq> []" by (auto simp: token_numero_def)
  then show ?case by (cases t) simp_all
next
  case (una_colonna w t)
  then have "t \<noteq> []" by (auto simp: nome_formula_def)
  then show ?case by (cases t) simp_all
qed auto

lemma zero_con_pila_ok: "altezza e \<le> k \<Longrightarrow> zero_con_pila k e = Some (is_literal_zero e)"
proof (induction e arbitrary: k)
  case (FNeg e)
  then show ?case by (cases k) simp_all
qed (case_tac k; simp)+

lemma reject_con_pila_ok: "altezza e \<le> k \<Longrightarrow> reject_con_pila k e = Some (reject_literal_zero_divisor e)"
proof (induction e arbitrary: k)
  case (FBinary l op r)
  then obtain k' where k: "k = Suc k'" "altezza l \<le> k'" "altezza r \<le> k'" by (cases k) auto
  then have "reject_con_pila k' l = Some (reject_literal_zero_divisor l)"
    "reject_con_pila k' r = Some (reject_literal_zero_divisor r)" using FBinary.IH by blast+
  then show ?case
    using k by (cases "reject_literal_zero_divisor l") (simp_all add: zero_con_pila_ok)
next
  case (FNeg e)
  then show ?case by (cases k) simp_all
qed (case_tac k; simp)+

lemma parse_con_pila_returns:
  assumes "3 * length s + 3 \<le> k"
  shows "parse_con_pila k s = parse_formula s"
proof -
  obtain r where r: "parser_con_pila k (length s) MExpression s = Some r"
    using parser_con_pila_returns [of s MExpression k "length s"] assms by auto
  then have m: "metodo_parser (length s) MExpression s = Some r" by (rule parser_con_pila_sound)
  show ?thesis
  proof (cases r)
    case (Inr p)
    obtain e resto where p: "p = (e, resto)" by (cases p)
    then have "consumato MExpression s e resto" using metodo_parser_sound m Inr by blast
    then have "altezza e \<le> length s" using deriva_altezza(1) by (fastforce simp: consumato_def)
    then have "reject_con_pila k e = Some (reject_literal_zero_divisor e)" using assms by (intro reject_con_pila_ok) simp
    then show ?thesis by (simp add: parse_con_pila_def parse_formula_def r m Inr p)
  qed (simp add: parse_con_pila_def parse_formula_def r m)
qed

lemma parse_con_pila_parentesi: "parse_con_pila j (replicate d CHR ''('') = None \<longleftrightarrow> j < 3 * d + 3"
proof
  assume "parse_con_pila j (replicate d CHR ''('') = None"
  then show "j < 3 * d + 3"
    using parse_con_pila_returns [of "replicate d CHR ''(''" j] metodo_parser_tutto [of "replicate d CHR ''(''"] by force
next
  assume "j < 3 * d + 3"
  then show "parse_con_pila j (replicate d CHR ''('') = None"
    using parentesi_senza_pila [of j d MExpression d] by (simp add: parse_con_pila_def)
qed

text \<open>C40. The stack that the parser of a formula needs grows with the formula, with no bound in the code: with three
  frames per byte and three more it returns, a tree or a defect of the plan, as \<open>parse_formula\<close> does; on \<open>d\<close> open
  parentheses it aborts exactly with fewer than \<open>3 * d + 3\<close> frames.\<close>

theorem formula_parser_stack:
  assumes "3 * length s + 3 \<le> k"
  shows "(\<exists>r. parse_con_pila k s = Some r \<and> parse_formula s = Some r \<and> solo_piano r)
     \<and> (\<forall>j d. parse_con_pila j (replicate d CHR ''('') = None \<longleftrightarrow> j < 3 * d + 3)"
  using parse_con_pila_returns [OF assms] parse_con_pila_parentesi metodo_parser_tutto [of s] by metis

theorem formula_parser_stack_witness:
  "\<exists>r. parse_con_pila 12 ''1/0'' = Some r \<and> parse_formula ''1/0'' = Some r \<and> solo_piano r"
  using formula_parser_stack [of "''1/0''" 12] by simp

end
