(* ===== verification/PrimaryGeometry.thy ===== *)
theory PrimaryGeometry
  imports Publication
begin

text \<open>
  The primary geometry of a schema.  \<open>primary_geometry_position\<close> and \<open>emit_primary_geometry\<close> of
  \<open>crates/plenora-core/src/contract/arrow_schema.rs\<close> read and write it; \<open>geometry_provenance.rs\<close> of
  \<open>crates/plenora-kernels-table/src\<close> gives the schema of what a table kernel produces: the identities of the
  fields are made distinct again and the primary follows the column that it was.

  The lemmas show that what is written is read back, and that the primary follows its column.
\<close>

section \<open>Reading\<close>

definition PRIMARY_GEOMETRY_KEY :: string where
  "PRIMARY_GEOMETRY_KEY = ''plenora.primary_geometry''"

definition PLENORA_GEOMETRY_NAMESPACE_PREFIX :: string where
  "PLENORA_GEOMETRY_NAMESPACE_PREFIX = ''plenora.geometry.''"

definition field_declares_wkb_geometry :: "field \<Rightarrow> bool" where
  "field_declares_wkb_geometry campo \<longleftrightarrow>
     (case bt_get (campo_metadati campo) GEOARROW_EXTENSION_KEY of
        None \<Rightarrow> list_ex (\<lambda>k. starts_with k PLENORA_GEOMETRY_NAMESPACE_PREFIX) (bt_keys (campo_metadati campo))
      | Some extension \<Rightarrow> extension = GEOARROW_WKB_EXTENSION)"

definition estensione_wkb :: "field \<Rightarrow> bool" where
  "estensione_wkb campo \<longleftrightarrow> bt_get (campo_metadati campo) GEOARROW_EXTENSION_KEY = Some GEOARROW_WKB_EXTENSION"

definition primaria_non_conforme :: plenora_error where
  "primaria_non_conforme = Schema ''plenora.primary_geometry: dichiarazione non conforme''"

definition visita_geometria :: "nat list \<Rightarrow> nat \<times> field \<Rightarrow> nat list result" where
  "visita_geometria geometries voce =
     (let (position, campo) = voce
      in if bt_get (campo_metadati campo) PRIMARY_GEOMETRY_KEY \<noteq> None
            \<or> figlio_con_chiave (\<lambda>k. k = PRIMARY_GEOMETRY_KEY) (campo_tipo campo) then Inl primaria_non_conforme
         else Inr (if estensione_wkb campo then geometries @ [position] else geometries))"

definition scegli_primaria :: "field list \<Rightarrow> string \<Rightarrow> nat option \<Rightarrow> nat \<Rightarrow> nat option result" where
  "scegli_primaria campi raw selected position =
     (if bt_get (campo_metadati (campi ! position)) PLENORA_FIELD_ID_KEY = Some raw then
        (if selected \<noteq> None then Inl primaria_non_conforme else Inr (Some position))
      else Inr selected)"

definition primary_geometry_position :: "arrow_schema \<Rightarrow> nat option result" where
  "primary_geometry_position schema =
     (let campi = s_campi schema in
      try_bind (try_fold visita_geometria [] (enumerate 0 campi)) (\<lambda>geometries.
        case bt_get (s_metadati schema) PRIMARY_GEOMETRY_KEY of
          None \<Rightarrow> Inr (case geometries of [position] \<Rightarrow> Some position | _ \<Rightarrow> None)
        | Some raw \<Rightarrow>
            try_bind (verifica_identita_campi campi) (\<lambda>_.
              if geometries = [] then Inl primaria_non_conforme
              else if raw = ''none'' then Inr None
              else if raw = [] \<or> \<not> list_all is_ascii_digit raw \<or> length raw > 1 \<and> starts_with raw ''0'' then
                Inl primaria_non_conforme
              else
                try_bind (try_fold (scegli_primaria campi raw) None geometries) (\<lambda>selected.
                  map_ok Some (ok_or primaria_non_conforme selected)))))"

section \<open>Writing\<close>

definition aggiungi_versione :: "(string, string) btree \<Rightarrow> (string, string) btree result" where
  "aggiungi_versione metadata =
     (case bt_get metadata PLENORA_CONTRACT_VERSION_KEY of
        Some existing \<Rightarrow>
          if existing \<noteq> show_nat PLENORA_CONTRACT_VERSION then
            Inl (Schema (''chiave `'' @ PLENORA_CONTRACT_VERSION_KEY @
              ''` dello schema gia' presente con un valore diverso (il componente fallisce, non sovrascrive)''))
          else Inr metadata
      | None \<Rightarrow> Inr (bt_insert PLENORA_CONTRACT_VERSION_KEY (show_nat PLENORA_CONTRACT_VERSION) metadata))"

definition con_identita :: "field \<Rightarrow> nat \<Rightarrow> field" where
  "con_identita campo fid =
     Field (campo_nome campo) (campo_tipo campo) (campo_nullable campo)
       (bt_insert PLENORA_FIELD_ID_KEY (show_nat fid) (campo_metadati campo))"

text \<open>The block of a primary among several geometries: it has an identity, a new one if it had none.\<close>

definition identifica_primaria :: "field list \<Rightarrow> nat \<Rightarrow> field list result" where
  "identifica_primaria campi position =
     try_bind (verifica_identita_campi campi) (\<lambda>identities.
     try_bind (canonical_field_id (campi ! position)) (\<lambda>letta.
       if letta = None then
         (let next = (if identities = {} then 0 else Suc (unat (Max identities)))
          in if next < 2 ^ 32 then Inr (campi[position := con_identita (campi ! position) next])
             else Inl (Unsupported ''identita' pubbliche esaurite''))
       else Inr campi))"

definition emit_primary_geometry :: "arrow_schema \<Rightarrow> nat option \<Rightarrow> arrow_schema result" where
  "emit_primary_geometry schema primary =
     (let campi = s_campi schema; count = length (filter estensione_wkb campi);
          metadata = bt_remove PRIMARY_GEOMETRY_KEY (s_metadati schema)
      in if (case primary of None \<Rightarrow> False
             | Some p \<Rightarrow> p \<ge> length campi \<or> campo_tipo (campi ! p) \<noteq> Binary \<or> \<not> estensione_wkb (campi ! p))
         then Inl (Schema ''primaria assente dalle geometrie'')
         else
           try_bind
             (case primary of
                Some position \<Rightarrow>
                  if count > 1 then
                    try_bind (identifica_primaria campi position) (\<lambda>campi.
                      map_ok (\<lambda>metadata. (campi, metadata)) (aggiungi_versione metadata))
                  else Inr (campi, metadata)
              | None \<Rightarrow> Inr (campi, metadata))
             (\<lambda>(campi, metadata).
               map_ok (\<lambda>metadata. \<lparr>s_campi = campi, s_metadati = metadata\<rparr>)
                 (case primary of
                    None \<Rightarrow>
                      if count = 1 then aggiungi_versione (bt_insert PRIMARY_GEOMETRY_KEY ''none'' metadata)
                      else Inr metadata
                  | Some position \<Rightarrow>
                      if count \<ge> 2 then
                        map_ok (\<lambda>fid. bt_insert PRIMARY_GEOMETRY_KEY fid metadata)
                          (ok_or (Schema ''primaria senza identita' pubblica'')
                            (if position < length campi
                             then bt_get (campo_metadati (campi ! position)) PLENORA_FIELD_ID_KEY else None))
                      else Inr metadata)))"

section \<open>The schema of what a kernel produces\<close>

text \<open>The loop of \<open>prepare\<close>: a repeated identity becomes the next one, which is reserved too.\<close>

record stato_prepare =
  sp_campi :: "field list"
  sp_reserved :: "nat set"
  sp_seen :: "string set"
  sp_metadata :: "(string, string) btree"

definition riserva :: "nat set \<Rightarrow> field \<Rightarrow> nat set result" where
  "riserva reserved campo =
     (case bt_get (campo_metadati campo) PLENORA_FIELD_ID_KEY of
        None \<Rightarrow> Inr reserved
      | Some raw \<Rightarrow>
          map_ok (\<lambda>n. insert n reserved)
            (ok_or (Schema ''identita' pubblica non valida'') (parse_unsigned (2 ^ 32) raw)))"

definition disambigua :: "stato_prepare \<Rightarrow> field \<Rightarrow> stato_prepare result" where
  "disambigua st campo =
     (let old = bt_get (campo_metadati campo) PLENORA_FIELD_ID_KEY;
          duplicate = (case old of None \<Rightarrow> False | Some raw \<Rightarrow> raw \<in> sp_seen st);
          seen = (case old of None \<Rightarrow> sp_seen st | Some raw \<Rightarrow> insert raw (sp_seen st))
      in if duplicate then
           (let fid = (if sp_reserved st = {} then 0 else Suc (Max (sp_reserved st)))
            in if fid < 2 ^ 32 then
                 Inr \<lparr>sp_campi = sp_campi st @ [con_identita campo fid],
                      sp_reserved = insert fid (sp_reserved st), sp_seen = insert (show_nat fid) seen,
                      sp_metadata = bt_insert ''plenora.contract.version'' ''1'' (sp_metadata st)\<rparr>
               else Inl (Schema ''identita' pubbliche esaurite''))
         else Inr (st\<lparr>sp_campi := sp_campi st @ [campo], sp_seen := seen\<rparr>))"

definition prepare :: "field list \<Rightarrow> (string, string) btree \<Rightarrow> arrow_schema result" where
  "prepare campi metadata =
     try_bind (try_fold riserva {} campi) (\<lambda>reserved.
     try_bind (try_fold disambigua
         \<lparr>sp_campi = [], sp_reserved = reserved, sp_seen = {},
          sp_metadata = bt_remove PRIMARY_GEOMETRY_KEY metadata\<rparr> campi) (\<lambda>st.
       let schema = \<lparr>s_campi = sp_campi st, s_metadati = sp_metadata st\<rparr>
       in Inr (if schema_has_canonical_keys schema
                  \<and> bt_get (s_metadati schema) PLENORA_CONTRACT_VERSION_KEY = None
               then schema\<lparr>s_metadati := bt_insert PLENORA_CONTRACT_VERSION_KEY
                      (show_nat PLENORA_CONTRACT_VERSION) (s_metadati schema)\<rparr>
               else schema)))"

definition emit :: "field list \<Rightarrow> nat option \<Rightarrow> (string, string) btree \<Rightarrow> arrow_schema result" where
  "emit campi primary metadata =
     try_bind (prepare campi metadata) (\<lambda>schema. emit_primary_geometry schema primary)"

text \<open>Where a mapping of (input, source, output) sends the field \<open>p\<close> of the input \<open>i\<close>.\<close>

definition destinazione :: "(nat \<times> nat \<times> nat) list \<Rightarrow> nat \<Rightarrow> nat \<Rightarrow> nat option" where
  "destinazione mappings i p =
     map_option (\<lambda>(_, _, output). output) (List.find (\<lambda>(input, src, _). input = i \<and> src = p) mappings)"

definition compose ::
    "arrow_schema list \<Rightarrow> field list \<Rightarrow> (nat \<times> nat \<times> nat) list \<Rightarrow> bool \<Rightarrow> (string, string) btree \<Rightarrow>
     arrow_schema result" where
  "compose inputs campi mapping vertical metadata =
     try_bind (try_map primary_geometry_position inputs) (\<lambda>primaries.
       let mappings = filter (\<lambda>(input, src, output).
             field_declares_wkb_geometry (s_campi (inputs ! input) ! src)
             \<and> field_declares_wkb_geometry (campi ! output)) mapping;
           primary =
             (if vertical then
                (let targets = map (\<lambda>(i, primary). Option.bind primary (destinazione mappings i))
                       (enumerate 0 primaries)
                 in case targets of
                      Some p # _ \<Rightarrow> (if list_all (\<lambda>t. t = Some p) targets then Some p else None)
                    | _ \<Rightarrow> None)
              else
                (case remdups (map fst mappings) of
                   [input] \<Rightarrow> Option.bind (primaries ! input) (destinazione mappings input)
                 | _ \<Rightarrow> None))
       in emit campi primary metadata)"

text \<open>The fields of an output that have the name of a field of the input.\<close>

definition per_nome :: "nat \<Rightarrow> arrow_schema \<Rightarrow> field list \<Rightarrow> (nat \<times> nat \<times> nat) list" where
  "per_nome i input campi =
     List.map_filter (\<lambda>(output, campo).
       map_option (\<lambda>src. (i, src, output)) (index_of (s_campi input) (campo_nome campo))) (enumerate 0 campi)"

definition unary :: "arrow_schema \<Rightarrow> field list \<Rightarrow> arrow_schema result" where
  "unary input campi = compose [input] campi (per_nome 0 input campi) False (s_metadati input)"

definition vertical :: "arrow_schema list \<Rightarrow> field list \<Rightarrow> (string, string) btree \<Rightarrow> arrow_schema result" where
  "vertical inputs campi metadata =
     compose inputs campi (concat (map (\<lambda>(i, input). per_nome i input campi) (enumerate 0 inputs))) True metadata"

definition require_geometry_support :: "arrow_schema \<Rightarrow> unit result" where
  "require_geometry_support schema =
     try_bind (verifica_identita_campi (s_campi schema)) (\<lambda>_. map_ok (\<lambda>_. ()) (primary_geometry_position schema))"

section \<open>Identities\<close>

definition grezza :: "field \<Rightarrow> string option" where
  "grezza campo = bt_get (campo_metadati campo) PLENORA_FIELD_ID_KEY"

text \<open>An identity is written in the canonical form when it has no leading zero.\<close>

definition identita_canonica :: "field \<Rightarrow> bool" where
  "identita_canonica campo \<longleftrightarrow>
     (case grezza campo of
        None \<Rightarrow> True
      | Some raw \<Rightarrow> raw = show_nat (valore_decimale raw) \<and> valore_decimale raw < 2 ^ 32)"

definition identita_annidata :: "field \<Rightarrow> bool" where
  "identita_annidata campo \<longleftrightarrow> figlio_con_chiave (\<lambda>k. k = PLENORA_FIELD_ID_KEY) (campo_tipo campo)"

definition identita_di :: "field \<Rightarrow> field_id option" where
  "identita_di campo = (case canonical_field_id campo of Inr letta \<Rightarrow> letta | Inl _ \<Rightarrow> None)"

lemma map_filter_append: "List.map_filter f (xs @ ys) = List.map_filter f xs @ List.map_filter f ys"
  by (induction xs) (simp_all add: map_filter_simps split: option.split)

lemma set_map_filter_iff: "y \<in> set (List.map_filter f xs) \<longleftrightarrow> (\<exists>x \<in> set xs. f x = Some y)"
  by (induction xs) (auto simp: map_filter_simps split: option.split)

lemma distinct_map_filter_nth:
  "distinct (List.map_filter f xs) \<Longrightarrow> i < length xs \<Longrightarrow> j < length xs \<Longrightarrow> f (xs ! i) = Some y \<Longrightarrow>
     f (xs ! j) = Some y \<Longrightarrow> i = j"
proof (induction xs arbitrary: i j)
  case (Cons x xs)
  show ?case
  proof (cases "i = 0 \<or> j = 0")
    case True
    moreover have "f x = Some y \<Longrightarrow> \<not> (\<exists>z \<in> set xs. f z = Some y)"
      using Cons.prems(1) by (auto simp: map_filter_simps set_map_filter_iff)
    ultimately show ?thesis using Cons.prems by (auto simp: nth_Cons' split: if_splits)
  next
    case False
    then obtain i' j' where "i = Suc i'" "j = Suc j'" by (cases i; cases j) auto
    moreover have "distinct (List.map_filter f xs)"
      using Cons.prems(1) by (simp add: map_filter_simps split: option.splits)
    ultimately show ?thesis using Cons.IH [of i' j'] Cons.prems by simp
  qed
qed simp

lemma identita_campo_Inr:
  "identita_campo S c = Inr S' \<longleftrightarrow> is_ok (canonical_field_id c) \<and> \<not> identita_annidata c \<and>
     S' = S \<union> set_option (identita_di c) \<and> set_option (identita_di c) \<inter> S = {}"
  by (cases "canonical_field_id c")
    (auto simp: identita_campo_def identita_di_def identita_annidata_def results split: option.split)

lemma verifica_identita_iff:
  "verifica_identita_campi cs = Inr S \<longleftrightarrow>
     list_all (\<lambda>c. is_ok (canonical_field_id c) \<and> \<not> identita_annidata c) cs \<and>
     distinct (List.map_filter identita_di cs) \<and> S = set (List.map_filter identita_di cs)"
proof (induction cs arbitrary: S rule: rev_induct)
  case Nil
  show ?case by (auto simp: verifica_identita_campi_def map_filter_simps)
next
  case (snoc c cs)
  have "verifica_identita_campi (cs @ [c]) = Inr S \<longleftrightarrow>
      (\<exists>S'. verifica_identita_campi cs = Inr S' \<and> identita_campo S' c = Inr S)"
    by (simp add: verifica_identita_campi_def try_fold_snoc_Inr)
  then show ?case
    unfolding snoc.IH identita_campo_Inr
    by (auto simp: map_filter_append map_filter_simps split: option.splits)
qed

lemma canonica_letta:
  assumes "identita_canonica c"
  shows "canonical_field_id c = Inr (map_option (\<lambda>raw. of_nat (valore_decimale raw)) (grezza c))"
proof (cases "grezza c")
  case (Some raw)
  then have raw: "raw = show_nat (valore_decimale raw)" "valore_decimale raw < 2 ^ 32"
    using assms by (simp_all add: identita_canonica_def)
  have "raw \<noteq> []" "list_all is_ascii_digit raw" using raw(1) show_nat_digits show_nat_nonempty by metis+
  then show ?thesis using Some raw(2)
    by (simp add: canonical_field_id_def grezza_def parse_unsigned_decimal_def)
qed (simp add: canonical_field_id_def grezza_def)

lemma canonica_identita:
  "identita_canonica c \<Longrightarrow> identita_di c = map_option (\<lambda>raw. of_nat (valore_decimale raw)) (grezza c)"
  by (simp add: identita_di_def canonica_letta)

lemma canonica_stessa:
  assumes "identita_canonica c" "identita_canonica d" "grezza c = Some r" "grezza d = Some s"
    and "(of_nat (valore_decimale r) :: field_id) = of_nat (valore_decimale s)"
  shows "r = s"
proof -
  have "valore_decimale r < 2 ^ 32" "valore_decimale s < 2 ^ 32" "r = show_nat (valore_decimale r)"
    "s = show_nat (valore_decimale s)" using assms(1-4) by (simp_all add: identita_canonica_def)
  moreover from this assms(5) have "valore_decimale r = valore_decimale s"
    by (simp add: word_of_nat_eq_iff take_bit_nat_eq_self)
  ultimately show ?thesis by metis
qed

lemma distinte_canoniche:
  "list_all identita_canonica cs \<Longrightarrow>
     distinct (List.map_filter identita_di cs) \<longleftrightarrow> distinct (List.map_filter grezza cs)"
proof (induction cs)
  case (Cons c cs)
  have "(\<exists>d \<in> set cs. identita_di d = identita_di c) \<longleftrightarrow> (\<exists>d \<in> set cs. grezza d = grezza c)" if "grezza c \<noteq> None"
  proof -
    have "identita_di d = identita_di c \<longleftrightarrow> grezza d = grezza c" if "d \<in> set cs" for d
    proof -
      have "identita_canonica d" using Cons.prems that by (simp add: list_all_iff)
      then show ?thesis using canonica_stessa [of d c] Cons.prems \<open>grezza c \<noteq> None\<close>
        by (auto simp: canonica_identita)
    qed
    then show ?thesis by blast
  qed
  then show ?case using Cons
    by (cases "grezza c") (auto simp: map_filter_simps set_map_filter_iff canonica_identita)
qed simp

section \<open>What is written is read back\<close>

definition geometrie_da :: "nat \<Rightarrow> field list \<Rightarrow> nat list" where
  "geometrie_da n cs = map fst (filter (\<lambda>v. estensione_wkb (snd v)) (enumerate n cs))"

definition dichiara_primaria :: "field \<Rightarrow> bool" where
  "dichiara_primaria campo \<longleftrightarrow>
     bt_get (campo_metadati campo) PRIMARY_GEOMETRY_KEY \<noteq> None
     \<or> figlio_con_chiave (\<lambda>k. k = PRIMARY_GEOMETRY_KEY) (campo_tipo campo)"

lemma geometrie_da_simps [simp]:
  "geometrie_da n [] = []"
  "geometrie_da n (c # cs) = (if estensione_wkb c then [n] else []) @ geometrie_da (Suc n) cs"
  by (simp_all add: geometrie_da_def)

lemma geometrie_da_length: "length (geometrie_da n cs) = length (filter estensione_wkb cs)"
  by (induction cs arbitrary: n) simp_all

lemma geometrie_da_set: "p \<in> set (geometrie_da 0 cs) \<longleftrightarrow> p < length cs \<and> estensione_wkb (cs ! p)"
  by (auto simp: geometrie_da_def in_set_enumerate_eq image_iff Bex_def)

lemma geometrie_da_distinct: "distinct (geometrie_da n cs)"
  by (simp add: geometrie_da_def distinct_map_filter)

lemma visita_geometrie:
  "try_fold visita_geometria gs (enumerate n cs) =
     (if list_ex dichiara_primaria cs then Inl primaria_non_conforme else Inr (gs @ geometrie_da n cs))"
  by (induction cs arbitrary: n gs) (simp_all add: visita_geometria_def dichiara_primaria_def)

lemma scegli_unica:
  assumes "distinct gs" and p: "p \<in> set gs"
    and unica: "\<And>q. q \<in> set gs \<Longrightarrow> grezza (campi ! q) = Some raw \<longleftrightarrow> q = p"
  shows "try_fold (scegli_primaria campi raw) None gs = Inr (Some p)"
proof -
  have altre: "try_fold (scegli_primaria campi raw) sel qs = Inr sel" if "set qs \<subseteq> set gs - {p}" for qs sel
    using that unica by (induction qs) (auto simp: scegli_primaria_def grezza_def)
  obtain as bs where gs: "gs = as @ p # bs" using p by (meson split_list)
  then have "set as \<subseteq> set gs - {p}" "set bs \<subseteq> set gs - {p}" using assms(1) by auto
  then show ?thesis using unica [OF p] gs
    by (simp add: try_fold_append altre scegli_primaria_def grezza_def)
qed

lemma aggiungi_versione_get:
  "aggiungi_versione m = Inr m' \<Longrightarrow> k \<noteq> PLENORA_CONTRACT_VERSION_KEY \<Longrightarrow> bt_get m' k = bt_get m k"
  by (auto simp: aggiungi_versione_def bt_simps split: option.splits if_splits)

lemma chiavi_diverse [simp]:
  "PRIMARY_GEOMETRY_KEY \<noteq> PLENORA_CONTRACT_VERSION_KEY" "PLENORA_CONTRACT_VERSION_KEY \<noteq> PRIMARY_GEOMETRY_KEY"
  "PRIMARY_GEOMETRY_KEY \<noteq> PLENORA_FIELD_ID_KEY" "GEOARROW_EXTENSION_KEY \<noteq> PLENORA_FIELD_ID_KEY"
  by (simp_all add: PRIMARY_GEOMETRY_KEY_def PLENORA_CONTRACT_VERSION_KEY_def PLENORA_FIELD_ID_KEY_def
      GEOARROW_EXTENSION_KEY_def)

lemma con_identita_simps [simp]:
  "campo_nome (con_identita c n) = campo_nome c" "campo_tipo (con_identita c n) = campo_tipo c"
  "campo_nullable (con_identita c n) = campo_nullable c" "grezza (con_identita c n) = Some (show_nat n)"
  "k \<noteq> PLENORA_FIELD_ID_KEY \<Longrightarrow> bt_get (campo_metadati (con_identita c n)) k = bt_get (campo_metadati c) k"
  "estensione_wkb (con_identita c n) = estensione_wkb c"
  "dichiara_primaria (con_identita c n) = dichiara_primaria c"
  "identita_annidata (con_identita c n) = identita_annidata c"
  by (simp_all add: con_identita_def grezza_def estensione_wkb_def dichiara_primaria_def identita_annidata_def
      bt_simps)

lemma con_identita_canonica: "n < 2 ^ 32 \<Longrightarrow> identita_canonica (con_identita c n)"
  by (simp add: identita_canonica_def)

text \<open>A list of fields is \<open>pulito\<close> when its identities are verified and no field declares the primary.\<close>

definition pulito :: "field list \<Rightarrow> bool" where
  "pulito cs \<longleftrightarrow> list_all (\<lambda>c. is_ok (canonical_field_id c) \<and> \<not> identita_annidata c \<and> \<not> dichiara_primaria c) cs
     \<and> distinct (List.map_filter identita_di cs)"

lemma pulito_iff: "pulito cs \<longleftrightarrow> is_ok (verifica_identita_campi cs) \<and> \<not> list_ex dichiara_primaria cs"
  by (auto simp: pulito_def is_ok_iff verifica_identita_iff list_all_iff list_ex_iff)

lemma pulito_verificato:
  "pulito cs \<Longrightarrow> verifica_identita_campi cs = Inr (set (List.map_filter identita_di cs))"
  by (auto simp: pulito_def verifica_identita_iff list_all_iff)

lemma letta_grezza:
  assumes "is_ok (canonical_field_id c)" and "grezza c = Some raw"
  shows "raw \<noteq> [] \<and> list_all is_ascii_digit raw \<and> identita_di c = Some (of_nat (valore_decimale raw))"
  using assms
  by (auto simp: canonical_field_id_def grezza_def identita_di_def parse_unsigned_decimal_def split: if_splits)

lemma pulito_unica:
  assumes "pulito cs" "i < length cs" "j < length cs" "grezza (cs ! i) = Some raw" "grezza (cs ! j) = Some raw"
  shows "i = j"
proof -
  have "is_ok (canonical_field_id (cs ! i))" "is_ok (canonical_field_id (cs ! j))"
    using assms(1-3) by (simp_all add: pulito_def list_all_length)
  from letta_grezza [OF this(1) assms(4)] letta_grezza [OF this(2) assms(5)] show ?thesis
    using distinct_map_filter_nth [of identita_di cs i j] assms(1-3) by (simp add: pulito_def)
qed

text \<open>What \<open>primary_geometry_position\<close> reads when the key holds the identity of a geometry.\<close>

definition zero_iniziale :: "string \<Rightarrow> bool" where
  "zero_iniziale raw \<longleftrightarrow> length raw > 1 \<and> starts_with raw ''0''"

lemma lettura_riferita:
  assumes pulito: "pulito cs" and p: "p < length cs" "estensione_wkb (cs ! p)" "grezza (cs ! p) = Some raw"
    and m: "s_campi s = cs" "bt_get (s_metadati s) PRIMARY_GEOMETRY_KEY = Some raw"
  shows "primary_geometry_position s =
     (if zero_iniziale raw then Inl primaria_non_conforme else Inr (Some p))"
proof -
  have geo: "p \<in> set (geometrie_da 0 cs)" using p by (simp add: geometrie_da_set)
  have "try_fold (scegli_primaria cs raw) None (geometrie_da 0 cs) = Inr (Some p)"
  proof (rule scegli_unica [OF geometrie_da_distinct geo])
    fix q assume "q \<in> set (geometrie_da 0 cs)"
    then show "grezza (cs ! q) = Some raw \<longleftrightarrow> q = p"
      using pulito_unica [OF pulito, of q p raw] p by (auto simp: geometrie_da_set)
  qed
  moreover have "is_ok (canonical_field_id (cs ! p))" using pulito p(1) by (simp add: pulito_def list_all_length)
  then have "raw \<noteq> [] \<and> list_all is_ascii_digit raw" using letta_grezza p(3) by blast
  moreover from this have "raw \<noteq> ''none''" by (auto simp: is_ascii_digit_def byte_of_def)
  moreover have "\<not> list_ex dichiara_primaria cs" using pulito by (simp add: pulito_iff)
  moreover have "geometrie_da 0 cs \<noteq> []" using geo by auto
  ultimately show ?thesis
    using m pulito_verificato [OF pulito] by (auto simp: primary_geometry_position_def visita_geometrie zero_iniziale_def)
qed

lemma lettura_senza_chiave:
  assumes pulito: "pulito cs" and m: "s_campi s = cs" "bt_get (s_metadati s) PRIMARY_GEOMETRY_KEY = None"
    and p: "p = (case geometrie_da 0 cs of [q] \<Rightarrow> Some q | _ \<Rightarrow> None)"
  shows "primary_geometry_position s = Inr p"
proof -
  have "\<not> list_ex dichiara_primaria cs" using pulito by (simp add: pulito_iff)
  then show ?thesis using m p by (simp add: primary_geometry_position_def visita_geometrie)
qed

text \<open>Two fields that differ at most in an identity that one of them lacks or had in common with another.\<close>

definition simile :: "field \<Rightarrow> field \<Rightarrow> bool" where
  "simile c d \<longleftrightarrow> campo_nome d = campo_nome c \<and> campo_tipo d = campo_tipo c \<and> campo_nullable d = campo_nullable c
     \<and> (\<forall>k. k \<noteq> PLENORA_FIELD_ID_KEY \<longrightarrow> bt_get (campo_metadati d) k = bt_get (campo_metadati c) k)"

lemma simile_refl [simp]: "simile c c" "simile c (con_identita c n)"
  by (simp_all add: simile_def)

lemma simili_refl [simp]: "list_all2 simile cs cs"
  by (simp add: list_all2_same)

lemma simile_trans: "simile c d \<Longrightarrow> simile d e \<Longrightarrow> simile c e"
  by (simp add: simile_def)

lemma simile_wkb: "simile c d \<Longrightarrow> estensione_wkb d = estensione_wkb c"
  by (simp add: simile_def estensione_wkb_def)

lemma simile_dichiara: "simile c d \<Longrightarrow> dichiara_primaria d = dichiara_primaria c \<and> identita_annidata d = identita_annidata c"
  by (simp add: simile_def dichiara_primaria_def identita_annidata_def)

lemma simili_geometrie: "list_all2 simile cs ds \<Longrightarrow> geometrie_da n ds = geometrie_da n cs"
  by (induction arbitrary: n rule: list_all2_induct) (simp_all add: simile_wkb)

lemma simili_dichiarano:
  "list_all2 simile cs ds \<Longrightarrow> list_all (\<lambda>c. \<not> identita_annidata c \<and> \<not> dichiara_primaria c) cs \<Longrightarrow>
     list_all (\<lambda>c. \<not> identita_annidata c \<and> \<not> dichiara_primaria c) ds"
  by (induction rule: list_all2_induct) (simp_all add: simile_dichiara)

lemma identita_con_identita: "n < 2 ^ 32 \<Longrightarrow> canonical_field_id (con_identita c n) = Inr (Some (of_nat n))"
  using canonica_letta [OF con_identita_canonica, of n c] by simp

lemma aggiorna_pulito:
  assumes "pulito cs" "p < length cs" "grezza (cs ! p) = None" "n < 2 ^ 32"
    and "of_nat n \<notin> set (List.map_filter identita_di cs)"
  shows "pulito (cs[p := con_identita (cs ! p) n])"
proof -
  obtain as c bs where cs: "cs = as @ c # bs" and p: "p = length as"
    using id_take_nth_drop [OF assms(2)] assms(2) by (metis length_take min.absorb4)
  have "identita_di (con_identita c n) = Some (of_nat n)"
    using assms(4) by (simp add: identita_di_def identita_con_identita)
  then show ?thesis
    using assms(1,3-5)
    by (auto simp: cs p pulito_def list_update_append map_filter_append map_filter_simps identita_con_identita
        split: option.splits)
qed

text \<open>The identity that follows all the others is new.\<close>

lemma identita_nuova:
  fixes S :: "field_id set"
  assumes "finite S" and "n = (if S = {} then 0 else Suc (unat (Max S)))" and "n < 2 ^ 32"
  shows "of_nat n \<notin> S"
proof
  assume S: "of_nat n \<in> S"
  then have "(of_nat n :: field_id) \<le> Max S" using assms(1) by simp
  then have "n \<le> unat (Max S)"
    using assms(3) by (simp add: word_le_nat_alt unat_of_nat take_bit_nat_eq_self)
  moreover have "n = Suc (unat (Max S))" using assms(2) S by auto
  ultimately show False by simp
qed

lemma identifica_primaria_Inr:
  assumes "pulito cs" "p < length cs" and run: "identifica_primaria cs p = Inr ds"
  shows "pulito ds \<and> list_all2 simile cs ds \<and> grezza (ds ! p) \<noteq> None
     \<and> (list_all identita_canonica cs \<longrightarrow> list_all identita_canonica ds)"
proof (cases "grezza (cs ! p)")
  case None
  let ?S = "set (List.map_filter identita_di cs)"
  have "canonical_field_id (cs ! p) = Inr None" using None by (simp add: canonical_field_id_def grezza_def)
  then obtain n where ds: "ds = cs[p := con_identita (cs ! p) n]" and n: "n < 2 ^ 32"
      "n = (if ?S = {} then 0 else Suc (unat (Max ?S)))"
    using run assms(1) by (auto simp: identifica_primaria_def pulito_verificato Let_def split: if_splits)
  have "pulito ds"
    unfolding ds using assms(1,2) None n(1) identita_nuova [OF _ n(2) n(1)] by (intro aggiorna_pulito) auto
  then show ?thesis
    using assms(2) None n(1)
    by (auto simp: ds list_all2_conv_all_nth nth_list_update list_all_length con_identita_canonica)
next
  case (Some raw)
  have "is_ok (canonical_field_id (cs ! p))" using assms(1,2) by (simp add: pulito_def list_all_length)
  then have "canonical_field_id (cs ! p) \<noteq> Inr None"
    using letta_grezza [OF _ Some] by (auto simp: identita_di_def)
  then have "ds = cs" using run by (auto simp: identifica_primaria_def results)
  then show ?thesis using Some assms(1) by simp
qed

text \<open>What an emitted schema is, given the primary.\<close>

definition emesso :: "field list \<Rightarrow> arrow_schema \<Rightarrow> nat option \<Rightarrow> bool" where
  "emesso cs out p \<longleftrightarrow>
     pulito (s_campi out) \<and> list_all2 simile cs (s_campi out)
     \<and> (list_all identita_canonica cs \<longrightarrow> list_all identita_canonica (s_campi out))
     \<and> (case bt_get (s_metadati out) PRIMARY_GEOMETRY_KEY of
          None \<Rightarrow> p = (case geometrie_da 0 cs of [q] \<Rightarrow> Some q | _ \<Rightarrow> None)
        | Some raw \<Rightarrow> raw = ''none'' \<and> p = None \<and> geometrie_da 0 cs \<noteq> []
            \<or> (\<exists>q. p = Some q \<and> q < length cs \<and> estensione_wkb (cs ! q) \<and> grezza (s_campi out ! q) = Some raw))"

lemma emesso_senza_primaria:
  assumes "pulito (s_campi s)" and run: "emit_primary_geometry s None = Inr out"
  shows "emesso (s_campi s) out None"
proof (cases "length (filter estensione_wkb (s_campi s)) = 1")
  case True
  then have "s_campi out = s_campi s" "bt_get (s_metadati out) PRIMARY_GEOMETRY_KEY = Some ''none''"
    using run by (auto simp: emit_primary_geometry_def Let_def results aggiungi_versione_get bt_simps)
  moreover have "geometrie_da 0 (s_campi s) \<noteq> []"
    using True geometrie_da_length [of 0 "s_campi s"] by auto
  ultimately show ?thesis using assms(1) by (simp add: emesso_def)
next
  case False
  then have "s_campi out = s_campi s" "bt_get (s_metadati out) PRIMARY_GEOMETRY_KEY = None"
    using run by (auto simp: emit_primary_geometry_def Let_def results bt_simps)
  moreover have "length (geometrie_da 0 (s_campi s)) \<noteq> 1" using False by (simp add: geometrie_da_length)
  ultimately show ?thesis using assms(1) by (auto simp: emesso_def split: list.split)
qed

lemma emesso_con_primaria:
  assumes "pulito (s_campi s)" and run: "emit_primary_geometry s (Some p) = Inr out"
  shows "emesso (s_campi s) out (Some p)"
proof -
  let ?cs = "s_campi s" and ?n = "length (filter estensione_wkb (s_campi s))"
  have p: "p < length ?cs" "estensione_wkb (?cs ! p)"
    using run by (auto simp: emit_primary_geometry_def Let_def split: if_splits)
  then have geo: "p \<in> set (geometrie_da 0 ?cs)" by (simp add: geometrie_da_set)
  show ?thesis
  proof (cases "?n > 1")
    case True
    then obtain ds m where ds: "identifica_primaria ?cs p = Inr ds" "s_campi out = ds"
        "aggiungi_versione (bt_remove PRIMARY_GEOMETRY_KEY (s_metadati s)) = Inr m"
        "\<exists>raw. grezza (ds ! p) = Some raw \<and> s_metadati out = bt_insert PRIMARY_GEOMETRY_KEY raw m"
      using run by (auto simp: emit_primary_geometry_def Let_def results grezza_def split: if_splits)
    from identifica_primaria_Inr [OF assms(1) p(1) ds(1)] show ?thesis
      using ds(2,4) p by (auto simp: emesso_def bt_simps)
  next
    case False
    then have "s_campi out = ?cs" "bt_get (s_metadati out) PRIMARY_GEOMETRY_KEY = None"
      using run by (auto simp: emit_primary_geometry_def Let_def results bt_simps split: if_splits)
    moreover have "length (geometrie_da 0 ?cs) \<le> 1" using False by (simp add: geometrie_da_length)
    then have "geometrie_da 0 ?cs = [p]" using geo by (cases "geometrie_da 0 ?cs") auto
    ultimately show ?thesis using assms(1) by (simp add: emesso_def)
  qed
qed

lemma emesso_emit:
  "pulito (s_campi s) \<Longrightarrow> emit_primary_geometry s p = Inr out \<Longrightarrow> emesso (s_campi s) out p"
  by (cases p) (simp_all add: emesso_senza_primaria emesso_con_primaria)

lemma emesso_letto:
  assumes "emesso cs out p"
  shows "primary_geometry_position out =
     (case bt_get (s_metadati out) PRIMARY_GEOMETRY_KEY of
        None \<Rightarrow> Inr p
      | Some raw \<Rightarrow> if zero_iniziale raw then Inl primaria_non_conforme else Inr p)"
proof -
  have pulito: "pulito (s_campi out)" and simili: "list_all2 simile cs (s_campi out)"
    using assms by (simp_all add: emesso_def)
  then have geo: "geometrie_da 0 (s_campi out) = geometrie_da 0 cs" by (simp add: simili_geometrie)
  show ?thesis
  proof (cases "bt_get (s_metadati out) PRIMARY_GEOMETRY_KEY")
    case None
    then have "primary_geometry_position out = Inr p"
      using assms by (intro lettura_senza_chiave [OF pulito]) (simp_all add: emesso_def geo)
    then show ?thesis using None by simp
  next
    case (Some raw)
    then consider "raw = ''none''" "p = None" "geometrie_da 0 cs \<noteq> []"
      | q where "p = Some q" "q < length cs" "estensione_wkb (cs ! q)" "grezza (s_campi out ! q) = Some raw"
      using assms by (auto simp: emesso_def)
    then show ?thesis
    proof cases
      case 1
      have "\<not> list_ex dichiara_primaria (s_campi out)" using pulito by (simp add: pulito_iff)
      then show ?thesis using Some 1 geo pulito_verificato [OF pulito]
        by (simp add: primary_geometry_position_def visita_geometrie zero_iniziale_def)
    next
      case 2
      have "q < length (s_campi out)" "estensione_wkb (s_campi out ! q)"
        using simili 2(2,3) by (auto simp: list_all2_conv_all_nth simile_wkb)
      from lettura_riferita [OF pulito this 2(4) refl Some] show ?thesis using Some 2(1) by simp
    qed
  qed
qed

section \<open>Identities made distinct\<close>

text \<open>After a prefix of the fields: \<open>R\<close> is what the first loop has reserved.\<close>

definition preparato :: "nat set \<Rightarrow> field list \<Rightarrow> stato_prepare \<Rightarrow> bool" where
  "preparato R cs st \<longleftrightarrow>
     list_all2 simile cs (sp_campi st) \<and> list_all identita_canonica (sp_campi st)
     \<and> distinct (List.map_filter grezza (sp_campi st)) \<and> sp_seen st = set (List.map_filter grezza (sp_campi st))
     \<and> finite (sp_reserved st) \<and> R \<subseteq> sp_reserved st \<and> (\<forall>raw \<in> sp_seen st. valore_decimale raw \<in> sp_reserved st)
     \<and> (\<forall>raw \<in> sp_seen st. raw \<in> set (List.map_filter grezza cs) \<or> valore_decimale raw \<notin> R)
     \<and> bt_get (sp_metadata st) PRIMARY_GEOMETRY_KEY = None
     \<and> (\<forall>i < length cs. grezza (cs ! i) \<notin> grezza ` set (take i cs) - {None} \<longrightarrow> sp_campi st ! i = cs ! i)"

lemma riserva_canonici:
  "list_all identita_canonica cs \<Longrightarrow>
     try_fold riserva S cs = Inr (S \<union> valore_decimale ` set (List.map_filter grezza cs))"
proof (induction cs arbitrary: S)
  case (Cons c cs)
  have "riserva S c = Inr (S \<union> valore_decimale ` set_option (grezza c))"
  proof (cases "grezza c")
    case (Some raw)
    then have "raw = show_nat (valore_decimale raw)" "valore_decimale raw < 2 ^ 32"
      using Cons.prems by (simp_all add: identita_canonica_def)
    then have "parse_unsigned (2 ^ 32) raw = Some (valore_decimale raw)"
      using parse_unsigned_show_nat by metis
    then show ?thesis using Some by (simp add: riserva_def grezza_def)
  qed (simp add: riserva_def grezza_def)
  then show ?case using Cons
    by (cases "grezza c") (simp_all add: map_filter_simps)
qed (simp add: map_filter_simps)

lemma disambigua_preparato:
  assumes st: "preparato R cs st" and c: "identita_canonica c" and R: "valore_decimale ` set_option (grezza c) \<subseteq> R"
    and run: "disambigua st c = Inr st'"
  shows "preparato R (cs @ [c]) st'"
proof -
  have len: "length (sp_campi st) = length cs" using st by (auto simp: preparato_def dest: list_all2_lengthD)
  have vecchi: "sp_campi st' ! i = (cs @ [c]) ! i"
    if "i < length cs" "grezza ((cs @ [c]) ! i) \<notin> grezza ` set (take i (cs @ [c])) - {None}"
      "sp_campi st' = sp_campi st @ [d]" for i d
    using st that len by (auto simp: preparato_def nth_append)
  show ?thesis
  proof (cases "\<exists>raw. grezza c = Some raw \<and> raw \<in> sp_seen st")
    case True
    then obtain raw where raw: "grezza c = Some raw" "raw \<in> sp_seen st" by blast
    define n where "n = (if sp_reserved st = {} then 0 else Suc (Max (sp_reserved st)))"
    have st': "n < 2 ^ 32" "st' = \<lparr>sp_campi = sp_campi st @ [con_identita c n], sp_reserved = insert n (sp_reserved st),
        sp_seen = insert (show_nat n) (sp_seen st),
        sp_metadata = bt_insert ''plenora.contract.version'' ''1'' (sp_metadata st)\<rparr>"
      using run raw by (auto simp: disambigua_def grezza_def n_def Let_def insert_absorb split: if_splits)
    have "finite (sp_reserved st)" using st by (simp add: preparato_def)
    then have "n \<in> sp_reserved st \<Longrightarrow> n \<le> Max (sp_reserved st)" by (rule Max_ge)
    then have n: "n \<notin> sp_reserved st" by (force simp: n_def split: if_splits)
    moreover have "show_nat n \<in> sp_seen st \<Longrightarrow> valore_decimale (show_nat n) \<in> sp_reserved st"
      using st unfolding preparato_def by blast
    ultimately have nuovo: "show_nat n \<notin> sp_seen st" "n \<notin> R" using st by (auto simp: preparato_def)
    have "valore_decimale raw \<in> R" using R raw(1) by simp
    then have ripetuta: "raw \<in> set (List.map_filter grezza cs)" using st raw(2) by (auto simp: preparato_def)
    then have "grezza c \<in> grezza ` set cs" using raw(1) by (force simp: set_map_filter_iff image_iff)
    then show ?thesis
      using st nuovo vecchi [where d = "con_identita c n"] raw(1) st'(1) len
      by (auto simp: st'(2) preparato_def map_filter_append map_filter_simps con_identita_canonica less_Suc_eq
          bt_simps PLENORA_CONTRACT_VERSION_KEY_def [symmetric] intro: list_all2_appendI)
  next
    case False
    then have st': "st' = st\<lparr>sp_campi := sp_campi st @ [c],
        sp_seen := (case grezza c of None \<Rightarrow> sp_seen st | Some raw \<Rightarrow> insert raw (sp_seen st))\<rparr>"
      using run by (auto simp: disambigua_def grezza_def Let_def split: option.splits)
    then show ?thesis
      using st c R False vecchi [where d = c] len
      by (auto simp: preparato_def map_filter_append map_filter_simps less_Suc_eq nth_append
          intro: list_all2_appendI split: option.splits)
  qed
qed

lemma prepare_Inr:
  assumes cs: "list_all (\<lambda>c. identita_canonica c \<and> \<not> identita_annidata c \<and> \<not> dichiara_primaria c) cs"
    and run: "prepare cs metadata = Inr s"
  shows "pulito (s_campi s) \<and> list_all identita_canonica (s_campi s) \<and> list_all2 simile cs (s_campi s)
     \<and> bt_get (s_metadati s) PRIMARY_GEOMETRY_KEY = None
     \<and> (\<forall>i < length cs. grezza (cs ! i) \<notin> grezza ` set (take i cs) - {None} \<longrightarrow> s_campi s ! i = cs ! i)"
proof -
  let ?R = "valore_decimale ` set (List.map_filter grezza cs)"
  let ?st0 = "\<lparr>sp_campi = [], sp_reserved = ?R, sp_seen = {}, sp_metadata = bt_remove PRIMARY_GEOMETRY_KEY metadata\<rparr>"
  have canoniche: "list_all identita_canonica cs" using cs by (auto simp: list_all_iff)
  then obtain st where st: "try_fold disambigua ?st0 cs = Inr st"
    and s: "s_campi s = sp_campi st" "bt_get (s_metadati s) PRIMARY_GEOMETRY_KEY = bt_get (sp_metadata st) PRIMARY_GEOMETRY_KEY"
    using run by (auto simp: prepare_def riserva_canonici results bt_simps Let_def split: if_splits)
  have "preparato ?R ds st'" if "try_fold disambigua ?st0 ds = Inr st'" "set ds \<subseteq> set cs" for ds st'
    using that
  proof (induction ds arbitrary: st' rule: rev_induct)
    case Nil
    then show ?case by (auto simp: preparato_def map_filter_simps bt_simps)
  next
    case (snoc d ds)
    then obtain st1 where st1: "try_fold disambigua ?st0 ds = Inr st1" "disambigua st1 d = Inr st'"
      by (auto simp: try_fold_snoc_Inr)
    have "valore_decimale ` set_option (grezza d) \<subseteq> ?R"
      using snoc.prems(2) by (force simp: set_map_filter_iff)
    moreover have "identita_canonica d" using canoniche snoc.prems(2) by (simp add: list_all_iff)
    ultimately show ?case using disambigua_preparato [OF snoc.IH [OF st1(1)] _ _ st1(2)] snoc.prems(2) by simp
  qed
  from this [OF st] have P: "preparato ?R cs st" by simp
  then have simili: "list_all2 simile cs (sp_campi st)" and can: "list_all identita_canonica (sp_campi st)"
    by (simp_all add: preparato_def)
  have "list_all (\<lambda>c. \<not> identita_annidata c \<and> \<not> dichiara_primaria c) (sp_campi st)"
    using cs by (intro simili_dichiarano [OF simili]) (auto simp: list_all_iff)
  then have "pulito (sp_campi st)" using P can
    by (auto simp: pulito_def preparato_def distinte_canoniche list_all_iff canonica_letta)
  then show ?thesis using P s by (simp add: preparato_def)
qed

lemma canonica_senza_zero: "identita_canonica c \<Longrightarrow> grezza c = Some raw \<Longrightarrow> \<not> zero_iniziale raw"
  using show_nat_canonico [of "valore_decimale raw"]
  by (cases raw) (auto simp: identita_canonica_def zero_iniziale_def starts_with_iff)

lemma emit_campi:
  assumes cs: "list_all (\<lambda>c. identita_canonica c \<and> \<not> identita_annidata c \<and> \<not> dichiara_primaria c) cs"
    and run: "emit cs p metadata = Inr out"
  shows "list_all2 simile cs (s_campi out) \<and> pulito (s_campi out) \<and> primary_geometry_position out = Inr p"
proof -
  from run obtain s where s: "prepare cs metadata = Inr s" "emit_primary_geometry s p = Inr out"
    by (auto simp: emit_def results)
  note P = prepare_Inr [OF cs s(1)]
  have e: "emesso (s_campi s) out p" using P s(2) by (blast intro: emesso_emit)
  then have can: "list_all identita_canonica (s_campi out)" and simili: "list_all2 simile (s_campi s) (s_campi out)"
    using P by (simp_all add: emesso_def)
  have "\<not> zero_iniziale raw" if "bt_get (s_metadati out) PRIMARY_GEOMETRY_KEY = Some raw" for raw
  proof -
    from e that consider "raw = ''none''"
      | q where "q < length (s_campi out)" "grezza (s_campi out ! q) = Some raw"
      using list_all2_lengthD [OF simili] by (auto simp: emesso_def)
    then show ?thesis
    proof cases
      case 2
      then have "identita_canonica (s_campi out ! q)" using can by (simp add: list_all_length)
      then show ?thesis using 2(2) by (rule canonica_senza_zero)
    qed (simp add: zero_iniziale_def)
  qed
  then have "primary_geometry_position out = Inr p"
    using emesso_letto [OF e] by (simp split: option.split)
  moreover have "list_all2 simile cs (s_campi out)"
    using P by (intro list_all2_trans [OF simile_trans _ simili]) auto
  ultimately show ?thesis using e by (simp add: emesso_def)
qed

section \<open>The primary of an output\<close>

text \<open>Where the primary of an input is in the fields of an output: under its name, if they still hold geometries.\<close>

definition segue :: "arrow_schema \<Rightarrow> field list \<Rightarrow> nat option \<Rightarrow> nat option" where
  "segue input cs primary =
     Option.bind primary (\<lambda>p. Option.bind (index_of cs (campo_nome (s_campi input ! p)))
       (\<lambda>j. if field_declares_wkb_geometry (cs ! j) then Some j else None))"

lemma nome_presente: "i < length cs \<Longrightarrow> campo_nome (cs ! i) \<in> campo_nome ` set cs"
  by simp

lemma index_of_iff:
  "distinct (map campo_nome cs) \<Longrightarrow> index_of cs n = Some i \<longleftrightarrow> i < length cs \<and> campo_nome (cs ! i) = n"
proof (induction cs arbitrary: i)
  case (Cons c cs)
  then show ?case by (cases i) (auto, metis nome_presente)
qed simp

lemma set_enumerate_0: "set (enumerate 0 cs) = (\<lambda>i. (i, cs ! i)) ` {..<length cs}"
  by (auto simp: in_set_enumerate_eq image_iff)

lemma find_unica: "x \<in> set xs \<Longrightarrow> P x \<Longrightarrow> \<forall>y \<in> set xs. P y \<longrightarrow> y = x \<Longrightarrow> List.find P xs = Some x"
proof (induction xs)
  case (Cons a xs)
  have solo: "\<And>y. y = a \<or> y \<in> set xs \<Longrightarrow> P y \<Longrightarrow> y = x" using Cons.prems(3) by (metis set_ConsD list.set_intros)
  show ?case
  proof (cases "P a")
    case True
    then show ?thesis using solo [of a] by simp
  next
    case False
    then have "x \<in> set xs" using Cons.prems(1,2) by (metis set_ConsD)
    from Cons.IH [OF this Cons.prems(2)] solo have "List.find P xs = Some x" by blast
    then show ?thesis using False by simp
  qed
qed simp

lemma per_nome_set:
  "v \<in> set (per_nome i input cs) \<longleftrightarrow>
     (\<exists>src output. v = (i, src, output) \<and> output < length cs
        \<and> index_of (s_campi input) (campo_nome (cs ! output)) = Some src)"
  by (auto simp: per_nome_def set_map_filter_iff set_enumerate_0)

lemma visita_geometrie_wkb:
  assumes "primary_geometry_position s = Inr (Some p)"
  shows "p < length (s_campi s) \<and> estensione_wkb (s_campi s ! p)"
proof -
  have vis: "p \<in> set gs" if "try_fold (scegli_primaria (s_campi s) raw) sel gs = Inr (Some p)" "sel \<noteq> Some p" for raw sel gs
    using that by (induction gs arbitrary: sel) (auto simp: scegli_primaria_def split: if_splits)
  have "p \<in> set (geometrie_da 0 (s_campi s))"
    using assms vis [of _ None "geometrie_da 0 (s_campi s)"]
    by (auto simp: primary_geometry_position_def visita_geometrie results Let_def split: if_splits option.splits list.splits)
  then show ?thesis by (simp add: geometrie_da_set)
qed

lemma wkb_dichiarata: "estensione_wkb c \<Longrightarrow> field_declares_wkb_geometry c"
  by (simp add: estensione_wkb_def field_declares_wkb_geometry_def)

lemma destinazione_per_nome:
  assumes nomi: "distinct (map campo_nome (s_campi input))" "distinct (map campo_nome cs)"
    and p: "p < length (s_campi input)" "field_declares_wkb_geometry (s_campi input ! p)"
  shows "destinazione (filter (\<lambda>(_, src, output). field_declares_wkb_geometry (s_campi input ! src)
           \<and> field_declares_wkb_geometry (cs ! output)) (per_nome 0 input cs)) 0 p = segue input cs (Some p)"
    (is "destinazione ?m 0 p = _")
proof -
  have "(0, p, j) \<in> set ?m \<longleftrightarrow> index_of cs (campo_nome (s_campi input ! p)) = Some j
      \<and> field_declares_wkb_geometry (cs ! j)" for j
    using nomi p by (auto simp: per_nome_set index_of_iff)
  then have voce: "(0, p, j) \<in> set ?m \<longleftrightarrow> segue input cs (Some p) = Some j" for j
    by (auto simp: segue_def bind_eq_Some_conv)
  show ?thesis
  proof (cases "segue input cs (Some p)")
    case None
    then show ?thesis using voce by (force simp: destinazione_def find_None_iff)
  next
    case (Some j)
    have "List.find (\<lambda>(i, src, _). i = 0 \<and> src = p) ?m = Some (0, p, j)"
    proof (rule find_unica)
      show "(0, p, j) \<in> set ?m" using voce Some by simp
      have "k = j" if "(0, p, k) \<in> set ?m" for k
        using that unfolding voce using Some by simp
      then show "\<forall>y \<in> set ?m. (case y of (i, src, _) \<Rightarrow> i = 0 \<and> src = p) \<longrightarrow> y = (0, p, j)" by blast
    qed simp
    then show ?thesis using Some by (simp add: destinazione_def)
  qed
qed

lemma remdups_const: "set xs \<subseteq> {x} \<Longrightarrow> remdups xs = (if xs = [] then [] else [x])"
  by (induction xs) (auto split: if_splits simp: subset_singleton_iff)

lemma unary_emit:
  assumes nomi: "distinct (map campo_nome (s_campi input))" "distinct (map campo_nome cs)"
    and pr: "primary_geometry_position input = Inr pr"
  shows "unary input cs = emit cs (segue input cs pr) (s_metadati input)"
proof -
  let ?m = "filter (\<lambda>(_, src, output). field_declares_wkb_geometry (s_campi input ! src)
           \<and> field_declares_wkb_geometry (cs ! output)) (per_nome 0 input cs)"
  have m: "filter (\<lambda>(i, src, output). field_declares_wkb_geometry (s_campi ([input] ! i) ! src)
           \<and> field_declares_wkb_geometry (cs ! output)) (per_nome 0 input cs) = ?m"
    by (rule filter_cong [OF refl]) (auto simp: per_nome_set)
  have "set (map fst ?m) \<subseteq> {0}" by (auto simp: per_nome_set)
  then have uno: "remdups (map fst ?m) = (if ?m = [] then [] else [0])" using remdups_const by (metis map_is_Nil_conv)
  have "Option.bind pr (destinazione ?m 0) = segue input cs pr"
  proof (cases pr)
    case (Some p)
    then have "p < length (s_campi input)" "field_declares_wkb_geometry (s_campi input ! p)"
      using visita_geometrie_wkb pr wkb_dichiarata by blast+
    from destinazione_per_nome [OF nomi this] show ?thesis using Some by simp
  qed (simp add: segue_def)
  moreover have "destinazione ?m 0 = (\<lambda>_. None)" if "?m = []" using that by (simp add: destinazione_def fun_eq_iff)
  ultimately have "(case remdups (map fst ?m) of
        [i] \<Rightarrow> Option.bind ([pr] ! i) (destinazione ?m i) | _ \<Rightarrow> None) = segue input cs pr"
    unfolding uno by (cases "?m = []"; cases pr) simp_all
  then show ?thesis
    unfolding unary_def compose_def by (simp only: try_map.simps pr m Let_def if_False sum.case try_bind_simps)
qed

section \<open>Properties\<close>

lemma dichiara_primaria_update:
  "list_ex dichiara_primaria (cs[p := con_identita (cs ! p) n]) = list_ex dichiara_primaria cs"
proof (cases "p < length cs")
  case True
  then have "map dichiara_primaria (cs[p := con_identita (cs ! p) n]) = (map dichiara_primaria cs)[p := dichiara_primaria (cs ! p)]"
    by (simp add: map_update)
  also have "\<dots> = map dichiara_primaria cs" using True by (metis list_update_id nth_map)
  finally have "dichiara_primaria ` set (cs[p := con_identita (cs ! p) n]) = dichiara_primaria ` set cs"
    by (metis list.set_map)
  then show ?thesis unfolding list_ex_iff by (metis (full_types) image_iff)
qed (simp add: list_update_beyond)

lemma dichiara_primaria_identificata:
  "identifica_primaria cs p = Inr ds \<Longrightarrow> list_ex dichiara_primaria ds = list_ex dichiara_primaria cs"
  by (auto simp: identifica_primaria_def Let_def try_bind_Inr_iff dichiara_primaria_update split: if_splits)

lemma dichiara_primaria_emit:
  assumes "emit_primary_geometry s primary = Inr out"
  shows "list_ex dichiara_primaria (s_campi out) = list_ex dichiara_primaria (s_campi s)"
  using assms
  by (auto simp: emit_primary_geometry_def Let_def try_bind_Inr_iff map_ok_Inr_iff dichiara_primaria_identificata
      split: if_splits option.splits)

text \<open>C33. On a schema with verified identities, what \<open>emit_primary_geometry\<close> writes \<open>primary_geometry_position\<close>
  reads back, except that it refuses a schema where a field declares a primary itself, and one that refers to its
  primary by an identity with a leading zero.\<close>

theorem primary_roundtrip:
  assumes "is_ok (verifica_identita_campi (s_campi s))" and "emit_primary_geometry s primary = Inr out"
  shows "primary_geometry_position out =
     (if list_ex dichiara_primaria (s_campi s) then Inl primaria_non_conforme
      else case bt_get (s_metadati out) PRIMARY_GEOMETRY_KEY of
        None \<Rightarrow> Inr primary
      | Some raw \<Rightarrow> if zero_iniziale raw then Inl primaria_non_conforme else Inr primary)"
proof (cases "list_ex dichiara_primaria (s_campi s)")
  case True
  then show ?thesis
    using dichiara_primaria_emit [OF assms(2)] by (simp add: primary_geometry_position_def visita_geometrie)
next
  case False
  then have "pulito (s_campi s)" using assms(1) by (simp add: pulito_iff)
  then show ?thesis using False emesso_letto [OF emesso_emit [OF _ assms(2)]] by simp
qed

definition geometria_di_prova :: "string \<Rightarrow> string option \<Rightarrow> field" where
  "geometria_di_prova nome fid =
     Field nome Binary True ([(GEOARROW_EXTENSION_KEY, GEOARROW_WKB_EXTENSION)]
       @ (case fid of None \<Rightarrow> [] | Some raw \<Rightarrow> [(PLENORA_FIELD_ID_KEY, raw)]))"

definition due_geometrie :: "string \<Rightarrow> arrow_schema" where
  "due_geometrie raw = \<lparr>s_campi = [geometria_di_prova ''a'' (Some raw), geometria_di_prova ''b'' (Some ''3'')], s_metadati = []\<rparr>"

definition due_emesse :: "string \<Rightarrow> arrow_schema" where
  "due_emesse raw = (due_geometrie raw)\<lparr>s_metadati :=
     [(PLENORA_CONTRACT_VERSION_KEY, ''1''), (PRIMARY_GEOMETRY_KEY, raw)]\<rparr>"

text \<open>C34. When names are distinct, the primary of the input is read and the output fields have canonical identities, none
  nested, and declare no primary: what \<open>unary\<close> gives has as primary the field named as the input's, if it still
  declares a geometry, else none; identities are verified and only they may change.\<close>

theorem unary_primary_follows:
  assumes "distinct (map campo_nome (s_campi input))" and "distinct (map campo_nome cs)"
    and "primary_geometry_position input = Inr primary"
    and "list_all (\<lambda>c. identita_canonica c \<and> \<not> identita_annidata c \<and> \<not> dichiara_primaria c) cs"
    and "unary input cs = Inr out"
  shows "primary_geometry_position out = Inr (segue input cs primary)
     \<and> is_ok (verifica_identita_campi (s_campi out)) \<and> list_all2 simile cs (s_campi out)"
  using emit_campi [OF assms(4)] assms(5) unary_emit [OF assms(1-3)] by (simp add: pulito_iff)

lemmas prova_defs = due_geometrie_def due_emesse_def geometria_di_prova_def estensione_wkb_def canonical_field_id_def
  parse_unsigned_decimal_def verifica_identita_campi_def identita_campo_def aggiungi_versione_def bt_get_def
  bt_insert.simps bt_remove_def PRIMARY_GEOMETRY_KEY_def PLENORA_CONTRACT_VERSION_KEY_def PLENORA_FIELD_ID_KEY_def
  GEOARROW_EXTENSION_KEY_def GEOARROW_WKB_EXTENSION_def valore_decimale_def
  cifra_decimale_def is_ascii_digit_def byte_of_def

lemma versione_scritta: "show_nat PLENORA_CONTRACT_VERSION = ''1''"
  by code_simp

lemma prova_verificata:
  "is_ok (verifica_identita_campi (s_campi (due_geometrie ''07'')))"
  "\<not> list_ex dichiara_primaria (s_campi (due_geometrie ''07''))"
  by (simp_all add: prova_defs dichiara_primaria_def)

lemma prova_emit: "emit_primary_geometry (due_geometrie ''07'') (Some 0) = Inr (due_emesse ''07'')"
  by (simp add: emit_primary_geometry_def identifica_primaria_def prova_defs versione_scritta)

theorem primary_roundtrip_witness: "primary_geometry_position (due_emesse ''07'') = Inl primaria_non_conforme"
  using primary_roundtrip [OF prova_verificata(1) prova_emit] prova_verificata(2)
  by (simp add: due_emesse_def bt_get_def zero_iniziale_def PRIMARY_GEOMETRY_KEY_def PLENORA_CONTRACT_VERSION_KEY_def)

definition scambiate :: "field list" where
  "scambiate = [geometria_di_prova ''b'' (Some ''3''), geometria_di_prova ''a'' (Some ''7'')]"

lemma prova_letta: "primary_geometry_position (due_emesse ''7'') = Inr (Some 0)"
  by (simp add: primary_geometry_position_def visita_geometrie scegli_primaria_def prova_defs dichiara_primaria_def)

lemma prova_canonici:
  "list_all (\<lambda>c. identita_canonica c \<and> \<not> identita_annidata c \<and> \<not> dichiara_primaria c) scambiate"
proof -
  have "show_nat 3 = ''3''" "show_nat 7 = ''7''" by code_simp+
  then show ?thesis
    by (simp add: scambiate_def identita_canonica_def identita_annidata_def grezza_def dichiara_primaria_def prova_defs)
qed

lemma prova_segue: "segue (due_emesse ''7'') scambiate (Some 0) = Some 1"
  by (simp add: segue_def scambiate_def field_declares_wkb_geometry_def prova_defs)

lemma prova_nomi:
  "distinct (map campo_nome (s_campi (due_emesse ''7'')))" "distinct (map campo_nome scambiate)"
  by (simp_all add: scambiate_def prova_defs)

lemma prova_unary: "\<exists>out. unary (due_emesse ''7'') scambiate = Inr out"
proof -
  have "unary (due_emesse ''7'') scambiate = emit scambiate (Some 1) (s_metadati (due_emesse ''7''))"
    using unary_emit [OF prova_nomi prova_letta] by (simp only: prova_segue)
  then show ?thesis
    by (simp add: emit_def prepare_def scambiate_def riserva_def disambigua_def parse_unsigned_def strip_prefix_def
        emit_primary_geometry_def identifica_primaria_def prova_defs versione_scritta schema_has_canonical_keys_def
        canonica_def PLENORA_NAMESPACE_PREFIX_def bt_keys_def grezza_def)
qed

theorem unary_primary_follows_witness:
  "\<exists>out. unary (due_emesse ''7'') scambiate = Inr out \<and> primary_geometry_position out = Inr (Some 1)"
proof -
  obtain out where out: "unary (due_emesse ''7'') scambiate = Inr out" using prova_unary by blast
  from unary_primary_follows [OF prova_nomi prova_letta prova_canonici out] show ?thesis using out prova_segue by simp
qed

text \<open>C35. When \<open>prepare\<close> succeeds on fields with canonical identities, none nested, that declare no primary, it makes
  the identities distinct: all are verified, no field changes in anything but its identity, and a field changes only when
  an earlier field has the same identity.\<close>

theorem prepare_disambiguates:
  assumes "list_all (\<lambda>c. identita_canonica c \<and> \<not> identita_annidata c \<and> \<not> dichiara_primaria c) cs"
    and "prepare cs metadata = Inr s"
  shows "is_ok (verifica_identita_campi (s_campi s)) \<and> list_all2 simile cs (s_campi s)
     \<and> (\<forall>i < length cs. grezza (cs ! i) \<notin> grezza ` set (take i cs) - {None} \<longrightarrow> s_campi s ! i = cs ! i)"
  using prepare_Inr [OF assms] by (simp add: pulito_iff)

definition ripetuti :: "field list" where
  "ripetuti = map (\<lambda>nome. Field nome Utf8 True [(PLENORA_FIELD_ID_KEY, ''7'')]) [''a'', ''b'']"

lemma prova_ripetuti:
  "list_all (\<lambda>c. identita_canonica c \<and> \<not> identita_annidata c \<and> \<not> dichiara_primaria c) ripetuti"
  "\<exists>s. prepare ripetuti [] = Inr s \<and> s_campi s ! 1 = Field ''b'' Utf8 True [(PLENORA_FIELD_ID_KEY, ''8'')]"
proof -
  have "show_nat 7 = ''7''" "show_nat 8 = ''8''" by code_simp+
  then show "list_all (\<lambda>c. identita_canonica c \<and> \<not> identita_annidata c \<and> \<not> dichiara_primaria c) ripetuti"
    "\<exists>s. prepare ripetuti [] = Inr s \<and> s_campi s ! 1 = Field ''b'' Utf8 True [(PLENORA_FIELD_ID_KEY, ''8'')]"
    by (simp_all add: ripetuti_def identita_canonica_def identita_annidata_def grezza_def dichiara_primaria_def
        prova_defs prepare_def riserva_def disambigua_def parse_unsigned_def strip_prefix_def con_identita_def
        schema_has_canonical_keys_def canonica_def PLENORA_NAMESPACE_PREFIX_def bt_keys_def)
qed

theorem prepare_disambiguates_witness:
  "\<exists>s. prepare ripetuti [] = Inr s \<and> is_ok (verifica_identita_campi (s_campi s))
     \<and> s_campi s ! 1 = Field ''b'' Utf8 True [(PLENORA_FIELD_ID_KEY, ''8'')]"
  using prova_ripetuti(2) prepare_disambiguates [OF prova_ripetuti(1)] by blast

text \<open>Without canonical identities it does not: the identities are compared as they are written, and two spellings of
  one are kept.\<close>

definition due_grafie :: "field list" where
  "due_grafie = [Field ''a'' Utf8 True [(PLENORA_FIELD_ID_KEY, ''07'')], Field ''b'' Utf8 True [(PLENORA_FIELD_ID_KEY, ''7'')]]"

lemma prepare_leading_zero:
  "\<exists>s. prepare due_grafie [] = Inr s \<and> s_campi s = due_grafie \<and> \<not> is_ok (verifica_identita_campi (s_campi s))"
  by (simp add: due_grafie_def prova_defs prepare_def riserva_def disambigua_def parse_unsigned_def strip_prefix_def
      con_identita_def schema_has_canonical_keys_def canonica_def PLENORA_NAMESPACE_PREFIX_def bt_keys_def)

end
