(* ===== verification/TableKernel.thy ===== *)
theory TableKernel
  imports PrimaryGeometry Validation Floats
begin

text \<open>
  What the table kernels share, from \<open>crates/plenora-kernels-table/src/lib.rs\<close>: the batch of columns that a kernel
  reads, the column of a name, the column that a kernel writes (\<open>replace_or_append\<close>), the rows that it rejects
  (\<open>reject_rows\<close>) and the effects that it counts.

  A column is its Arrow array: the values of the three types that the kernels read directly, each with its null bit,
  and, of any other type, whether each cell is logically null and the text or error that \<open>scalar_as_string\<close> gives.
  What is not of the program is in \<open>kernel_env\<close>: how a double is shown, whether the text of a type can be
  written (the time zones are of \<open>chrono-tz\<close>) and whether Arrow accepts the columns of a schema.
\<close>

section \<open>Batches\<close>

datatype array =
  Float64Array "(f64 \<times> bool) list"
| Int64Array "(i64 \<times> bool) list"
| StringArray "(string \<times> bool) list"
| AltroArray data_type "(bool \<times> string option result) list"

fun tipo_array :: "array \<Rightarrow> data_type" where
  "tipo_array (Float64Array _) = Leaf ''Float64''"
| "tipo_array (Int64Array _) = Leaf ''Int64''"
| "tipo_array (StringArray _) = Utf8"
| "tipo_array (AltroArray t _) = t"

fun lunghezza_array :: "array \<Rightarrow> nat" where
  "lunghezza_array (Float64Array vs) = length vs"
| "lunghezza_array (Int64Array vs) = length vs"
| "lunghezza_array (StringArray vs) = length vs"
| "lunghezza_array (AltroArray _ vs) = length vs"

record batch =
  b_schema :: arrow_schema
  b_colonne :: "array list"
  b_righe :: nat

text \<open>What Arrow guarantees of a \<open>RecordBatch\<close>: its arrays have the types of its fields and its number of rows.\<close>

definition batch_coerente :: "batch \<Rightarrow> bool" where
  "batch_coerente b \<longleftrightarrow>
     map tipo_array (b_colonne b) = map campo_tipo (s_campi (b_schema b))
     \<and> list_all (\<lambda>c. lunghezza_array c = b_righe b) (b_colonne b)
     \<and> list_all (\<lambda>c. case c of AltroArray t _ \<Rightarrow> t \<notin> {Utf8, Leaf ''Int64'', Leaf ''Float64''} | _ \<Rightarrow> True) (b_colonne b)"

record kernel_env =
  ke_mostra :: "f64 \<Rightarrow> string"
  ke_testo :: "data_type \<Rightarrow> string \<Rightarrow> unit result"
  ke_arrow :: "arrow_schema \<Rightarrow> array list \<Rightarrow> nat \<Rightarrow> plenora_error option"

definition limits_dei_kernel_default :: kernel_limits where
  "limits_dei_kernel_default =
     \<lparr>kl_max_rows = 10000000, kl_max_columns = MAX_COLUMNS, kl_max_split_columns = MAX_SPLIT_COLUMNS,
      kl_max_string_bytes = DEFAULT_MAX_STRING_BYTES, kl_max_regex_bytes = DEFAULT_MAX_REGEX_BYTES,
      kl_max_governed_memory_bytes = DEFAULT_MAX_GOVERNED_MEMORY_BYTES_USIZE\<rparr>"

section \<open>Rejected rows\<close>

record row_rejection =
  rr_row :: nat
  rr_cause :: string
  rr_column :: "string option"

definition DIVISION_BY_ZERO_MESSAGE :: string where
  "DIVISION_BY_ZERO_MESSAGE = ''divisione per zero''"

definition NON_FINITE_INPUT_MESSAGE :: string where
  "NON_FINITE_INPUT_MESSAGE = ''numero non finito in ingresso''"

definition NON_FINITE_RESULT_MESSAGE :: string where
  "NON_FINITE_RESULT_MESSAGE = ''risultato non finito''"

definition INVALID_REGEX_MESSAGE :: string where
  "INVALID_REGEX_MESSAGE = ''regex calcolata non valida''"

fun row_eval_failure_cause :: "plenora_error \<Rightarrow> string option" where
  "row_eval_failure_cause (Schema message) =
     (if message = DIVISION_BY_ZERO_MESSAGE then Some ''evaluation.division_by_zero''
      else if message = NON_FINITE_INPUT_MESSAGE then Some ''evaluation.non_finite_input''
      else if message = NON_FINITE_RESULT_MESSAGE then Some ''evaluation.non_finite_result''
      else if message = INVALID_REGEX_MESSAGE then Some ''evaluation.invalid_regex''
      else None)"
| "row_eval_failure_cause _ = None"

definition EXAMPLES_LIMIT :: u64 where
  "EXAMPLES_LIMIT = 10"

definition conta_rifiuto ::
    "(string, u64) btree \<times> row_diagnostic_example list \<Rightarrow> row_rejection \<Rightarrow>
     ((string, u64) btree \<times> row_diagnostic_example list) result" where
  "conta_rifiuto st r =
     (let (counts, examples) = st
      in try_bind
           (ok_or (Internal ''overflow del conteggio causa row-scoped'')
             (checked_add (case bt_get counts (rr_cause r) of None \<Rightarrow> 0 | Some n \<Rightarrow> n) 1)) (\<lambda>count.
         try_bind (ok_or (Internal ''troppi esempi row-scoped'') (u64_from_usize (length examples))) (\<lambda>quanti.
         if quanti < EXAMPLES_LIMIT then
           map_ok (\<lambda>indice.
               (bt_insert (rr_cause r) count counts,
                examples @ [\<lparr>source_index = indice, cause = rr_cause r, column = rr_column r,
                             example_key = None, write_state = None\<rparr>]))
             (ok_or (Internal ''indice sorgente non rappresentabile'') (u64_from_usize (rr_row r)))
         else Inr (bt_insert (rr_cause r) count counts, examples))))"

definition rifiuti_per_riga :: "row_rejection list \<Rightarrow> (nat, row_rejection) btree" where
  "rifiuti_per_riga rejections = fold (\<lambda>r. bt_or_insert (rr_row r) r) rejections []"

definition reject_rows :: "row_rejection list \<Rightarrow> string \<Rightarrow> unit result" where
  "reject_rows rejections message =
     (if rejections = [] then Inr ()
      else
        let rows = rifiuti_per_riga rejections in
        try_bind (ok_or (Internal ''troppe rejection row-scoped'') (u64_from_usize (length rows))) (\<lambda>osservate.
        try_bind (try_fold conta_rifiuto ([], []) (bt_values rows)) (\<lambda>(conteggi, esempi).
          Inl (with_row_diagnostics
            \<lparr>contract = ROW_DIAGNOSTICS_CONTRACT, scope = ScopeRead, index_basis = ROW_DIAGNOSTICS_INDEX_BASIS,
             completeness = Complete, knowledge_limits = None, observed_total = osservate,
             total = Some osservate, input_total = None, counts = conteggi, examples_limit = EXAMPLES_LIMIT,
             examples_truncated = osservate > EXAMPLES_LIMIT, examples = esempi,
             diagnostic_state_counts = None, write_outcome = None\<rparr>
            (DataMapping message)))))"

section \<open>Effects\<close>

datatype on_division_by_zero = DivNull | DivError

text \<open>\<open>EffettiKernel\<close> is its counter of rows.\<close>

definition conta_divisione_per_zero :: "u64 \<Rightarrow> u64 result" where
  "conta_divisione_per_zero righe = ok_or (Internal ''conteggio delle divisioni per zero'') (checked_add righe 1)"

fun e_divisione_per_zero :: "plenora_error \<Rightarrow> bool" where
  "e_divisione_per_zero (Schema message) \<longleftrightarrow> message = DIVISION_BY_ZERO_MESSAGE"
| "e_divisione_per_zero _ \<longleftrightarrow> False"

definition verifica_testo_prodotto :: "string \<Rightarrow> nat \<Rightarrow> kernel_limits \<Rightarrow> unit result" where
  "verifica_testo_prodotto nome byte limits =
     (if byte > kl_max_string_bytes limits then
        Inl (ResourceLimit (nome @ '': testo prodotto oltre max_string_bytes''))
      else Inr ())"

section \<open>Columns\<close>

definition require_unique_names :: "arrow_schema \<Rightarrow> unit result" where
  "require_unique_names schema =
     (if distinct (map campo_nome (s_campi schema)) then Inr () else Inl (Schema ''nomi di colonna duplicati''))"

definition column_index :: "arrow_schema \<Rightarrow> string \<Rightarrow> nat result" where
  "column_index schema name =
     try_bind (require_unique_names schema) (\<lambda>_.
       ok_or (Schema (''colonna non trovata: '' @ name)) (index_of (s_campi schema) name))"

definition batch_with_rows :: "kernel_env \<Rightarrow> arrow_schema \<Rightarrow> array list \<Rightarrow> nat \<Rightarrow> batch result" where
  "batch_with_rows env schema columns rows_if_empty =
     (let rows = (case columns of [] \<Rightarrow> rows_if_empty | c # _ \<Rightarrow> lunghezza_array c)
      in case ke_arrow env schema columns rows of
           Some e \<Rightarrow> Inl e
         | None \<Rightarrow> Inr \<lparr>b_schema = schema, b_colonne = columns, b_righe = rows\<rparr>)"

definition replace_or_append ::
    "kernel_env \<Rightarrow> batch \<Rightarrow> string \<Rightarrow> data_type \<Rightarrow> bool \<Rightarrow> array \<Rightarrow> batch result" where
  "replace_or_append env b name tipo nullable array =
     (let schema = b_schema b; nuovo = Field name tipo nullable [] in
      try_bind (require_unique_names schema) (\<lambda>_.
      if lunghezza_array array \<noteq> b_righe b then
        Inl (Schema (''lunghezza output '' @ show_nat (lunghezza_array array) @ '' diversa dalle righe '' @
          show_nat (b_righe b)))
      else
        let (campi, columns) =
              (case index_of (s_campi schema) name of
                 Some index \<Rightarrow> ((s_campi schema)[index := nuovo], (b_colonne b)[index := array])
               | None \<Rightarrow> (s_campi schema @ [nuovo], b_colonne b @ [array]))
        in try_bind (unary schema campi) (\<lambda>schema. batch_with_rows env schema columns (b_righe b))))"

text \<open>\<open>require_non_geometry\<close>: a field, or a child of a list, a map or a struct, that declares a geometry.\<close>

fun celle_geometriche :: "field \<Rightarrow> bool" and figlio_geometrico :: "data_type \<Rightarrow> bool" where
  "celle_geometriche (Field nome tipo nullable metadati) \<longleftrightarrow>
     field_declares_wkb_geometry (Field nome tipo nullable metadati)
     \<or> list_ex (\<lambda>k. starts_with k ''plenora.geometry.'') (bt_keys metadati)
     \<or> (case bt_get metadati ''ARROW:extension:name'' of None \<Rightarrow> False | Some v \<Rightarrow> starts_with v ''geoarrow.'')
     \<or> figlio_geometrico tipo"
| "figlio_geometrico (ListOf c) \<longleftrightarrow> celle_geometriche c"
| "figlio_geometrico (LargeListOf c) \<longleftrightarrow> celle_geometriche c"
| "figlio_geometrico (FixedSizeList c n) \<longleftrightarrow> celle_geometriche c"
| "figlio_geometrico (MapOf c b) \<longleftrightarrow> celle_geometriche c"
| "figlio_geometrico (Struct cs) \<longleftrightarrow> list_ex celle_geometriche cs"
| "figlio_geometrico _ \<longleftrightarrow> False"

definition require_non_geometry :: "field \<Rightarrow> unit result" where
  "require_non_geometry campo =
     (if celle_geometriche campo then Inl (Crs ''operazione non supportata su celle geometriche'') else Inr ())"

definition validate_output_name :: "string \<Rightarrow> unit result" where
  "validate_output_name name =
     (if trim name = [] then Inl (InvalidPlan (''il nome della colonna di output e'' @ [CHR 0x27] @ '' vuoto''))
      else if length name > 1024 then Inl (InvalidPlan ''il nome della colonna supera 1024 byte'')
      else Inr ())"

section \<open>The rows of a rejection\<close>

lemma rifiuti_per_riga_fold:
  assumes "bt_wf m" and "list_all (\<lambda>(k, r). rr_row r = k) m"
  shows "bt_wf (fold (\<lambda>r. bt_or_insert (rr_row r) r) rs m)
     \<and> list_all (\<lambda>(k, r). rr_row r = k) (fold (\<lambda>r. bt_or_insert (rr_row r) r) rs m)
     \<and> set (bt_keys (fold (\<lambda>r. bt_or_insert (rr_row r) r) rs m)) = set (bt_keys m) \<union> rr_row ` set rs
     \<and> set (bt_values (fold (\<lambda>r. bt_or_insert (rr_row r) r) rs m)) \<subseteq> set (bt_values m) \<union> set rs"
  using assms
proof (induction rs arbitrary: m)
  case (Cons r rs)
  let ?m = "bt_or_insert (rr_row r) r m"
  have ins: "list_all (\<lambda>(k, r). rr_row r = k) (bt_insert (rr_row r) r n)
      \<and> set (bt_values (bt_insert (rr_row r) r n)) \<subseteq> insert r (set (bt_values n))"
    if "list_all (\<lambda>(k, r). rr_row r = k) n" for n
    using that by (induction "rr_row r" r n rule: bt_insert.induct) (auto simp: bt_values_def)
  have "bt_wf ?m" using Cons.prems(1) by (rule bt_wf_or_insert)
  moreover have "list_all (\<lambda>(k, r). rr_row r = k) ?m \<and> set (bt_values ?m) \<subseteq> insert r (set (bt_values m))"
    using ins [OF Cons.prems(2)] Cons.prems(2) by (auto simp: bt_or_insert_def split: option.split)
  moreover have "set (bt_keys ?m) = insert (rr_row r) (set (bt_keys m))"
    by (auto simp: bt_or_insert_def bt_keys_simps bt.keys_get split: option.split)
  ultimately show ?case using Cons.IH [of ?m] by auto
qed (simp add: bt_values_def)

lemma rifiuti_per_riga_keys:
  "bt_wf (rifiuti_per_riga rs)" "map rr_row (bt_values (rifiuti_per_riga rs)) = bt_keys (rifiuti_per_riga rs)"
  "set (bt_keys (rifiuti_per_riga rs)) = rr_row ` set rs" "set (bt_values (rifiuti_per_riga rs)) \<subseteq> set rs"
  "bt_keys (rifiuti_per_riga rs) = sorted_list_of_set (rr_row ` set rs)"
proof -
  have *: "bt_wf (rifiuti_per_riga rs) \<and> list_all (\<lambda>(k, r). rr_row r = k) (rifiuti_per_riga rs)
      \<and> set (bt_keys (rifiuti_per_riga rs)) = rr_row ` set rs \<and> set (bt_values (rifiuti_per_riga rs)) \<subseteq> set rs"
    using rifiuti_per_riga_fold [of "[]" rs] by (simp add: rifiuti_per_riga_def bt_wf_def bt_values_def bt_keys_def)
  then show "bt_wf (rifiuti_per_riga rs)" "set (bt_keys (rifiuti_per_riga rs)) = rr_row ` set rs"
    "set (bt_values (rifiuti_per_riga rs)) \<subseteq> set rs" by blast+
  show "map rr_row (bt_values (rifiuti_per_riga rs)) = bt_keys (rifiuti_per_riga rs)"
    using * by (auto simp: bt_values_def bt_keys_def list_all_iff)
  have "sorted_wrt (<) (bt_keys (rifiuti_per_riga rs))" using * by (simp add: bt_wf_def bt_keys_def)
  then show "bt_keys (rifiuti_per_riga rs) = sorted_list_of_set (rr_row ` set rs)"
    using * by (metis strict_sorted_equal sorted_list_of_set.sorted_sorted_key_list_of_set
        sorted_list_of_set.set_sorted_key_list_of_set strict_sorted_list_of_set finite_imageI List.finite_set)
qed

definition esempio_di :: "row_rejection \<Rightarrow> row_diagnostic_example" where
  "esempio_di r = \<lparr>source_index = of_nat (rr_row r), cause = rr_cause r, column = rr_column r,
     example_key = None, write_state = None\<rparr>"

definition conteggio_causa :: "(string, u64) btree \<Rightarrow> string \<Rightarrow> nat" where
  "conteggio_causa m c = (case bt_get m c of None \<Rightarrow> 0 | Some n \<Rightarrow> unat n)"

lemma somma_insert:
  "bt_wf m \<Longrightarrow> sum_list (map unat (bt_values (bt_insert k v m))) + conteggio_causa m k =
     sum_list (map unat (bt_values m)) + unat v"
proof (induction k v m rule: bt_insert.induct)
  case (2 k v k' v' m)
  have m: "bt_wf m" and k: "\<And>x y. (x, y) \<in> set m \<Longrightarrow> k' < x" using "2.prems" by (auto simp: bt_wf_def)
  consider "k < k'" | "k = k'" | "\<not> k < k'" "k \<noteq> k'" by blast
  then show ?case
  proof cases
    case 1
    then have "map_of m k = None" using k by (metis map_of_SomeD order.asym option.exhaust)
    then show ?thesis using 1 by (auto simp: bt_values_def conteggio_causa_def bt_get_def)
  next
    case 2
    then show ?thesis by (simp add: bt_values_def conteggio_causa_def bt_get_def)
  next
    case 3
    have "sum_list (map unat (bt_values (bt_insert k v m))) + conteggio_causa m k = sum_list (map unat (bt_values m)) + unat v"
      using "2.IH" 3 m by simp
    then show ?thesis using 3 by (simp add: bt_values_def conteggio_causa_def bt_get_def)
  qed
qed (simp add: bt_values_def conteggio_causa_def bt_get_def)

text \<open>The counts of the rejected rows \<open>vs\<close>.\<close>

definition conteggi_di :: "(string, u64) btree \<Rightarrow> row_rejection list \<Rightarrow> bool" where
  "conteggi_di m vs \<longleftrightarrow> bt_wf m \<and> 0 \<notin> set (bt_values m) \<and> sum_list (map unat (bt_values m)) = length vs
     \<and> (\<forall>c. conteggio_causa m c = length (filter (\<lambda>r. rr_cause r = c) vs)) \<and> set (bt_keys m) = rr_cause ` set vs"

lemma conteggi_di_get: "conteggi_di m vs \<Longrightarrow> r \<in> set vs \<Longrightarrow> \<exists>n. bt_get m (rr_cause r) = Some n"
  using bt.keys_get [of "rr_cause r" m] by (auto simp: conteggi_di_def)

lemma conta_rifiuti:
  assumes "length vs < 2 ^ 64" and "list_all (\<lambda>r. rr_row r < 2 ^ 64) vs"
  shows "\<exists>conteggi. try_fold conta_rifiuto ([], []) vs = Inr (conteggi, map esempio_di (take 10 vs))
     \<and> conteggi_di conteggi vs"
  using assms
proof (induction vs rule: rev_induct)
  case Nil
  show ?case by (simp add: conteggi_di_def bt_wf_def bt_values_def conteggio_causa_def bt_get_def bt_keys_def)
next
  case (snoc r vs)
  then obtain m where m: "try_fold conta_rifiuto ([], []) vs = Inr (m, map esempio_di (take 10 vs))" "bt_wf m"
      "0 \<notin> set (bt_values m)" "sum_list (map unat (bt_values m)) = length vs"
      "\<forall>c. conteggio_causa m c = length (filter (\<lambda>r. rr_cause r = c) vs)" "set (bt_keys m) = rr_cause ` set vs"
    by (auto simp: conteggi_di_def)
  let ?n = "case bt_get m (rr_cause r) of None \<Rightarrow> 0 | Some n \<Rightarrow> n"
  have n: "unat ?n = conteggio_causa m (rr_cause r)" by (simp add: conteggio_causa_def split: option.split)
  moreover have "conteggio_causa m (rr_cause r) \<le> length vs" using m(5) length_filter_le by metis
  ultimately have "unat ?n < 2 ^ 64 - 1" using snoc.prems(1) by simp
  then have "unat (?n + 1) = unat ?n + 1" by (simp add: unat_word_ariths)
  then have add: "checked_add ?n 1 = Some (?n + 1)" "unat (?n + 1) = Suc (conteggio_causa m (rr_cause r))"
    using n by (simp_all add: checked_add_Some_iff)
  let ?m = "bt_insert (rr_cause r) (?n + 1) m"
  have ex: "try_fold conta_rifiuto ([], []) (vs @ [r]) = Inr (?m, map esempio_di (take 10 (vs @ [r])))"
    using m(1) add(1) snoc.prems
    by (auto simp: try_fold_append conta_rifiuto_def u64_from_usize_def EXAMPLES_LIMIT_def esempio_di_def
        word_less_nat_alt unat_of_nat take_bit_nat_eq_self min_def)
  have "0 \<notin> set (bt_values ?m)"
    using m(2,3) add(2) by (auto simp: bt_values_iff bt_wf_insert bt_simps split: if_splits)
  moreover have "sum_list (map unat (bt_values ?m)) = length (vs @ [r])"
    using somma_insert [OF m(2), of "rr_cause r" "?n + 1"] m(4) add(2) by simp
  moreover have "conteggio_causa ?m c = length (filter (\<lambda>r. rr_cause r = c) (vs @ [r]))" for c
    using m(5) add(2) by (auto simp: conteggio_causa_def bt_simps)
  moreover have "set (bt_keys ?m) = rr_cause ` set (vs @ [r])" using m(6) by (simp add: bt_keys_simps)
  ultimately have "conteggi_di ?m (vs @ [r])" using m(2) by (simp add: conteggi_di_def bt_wf_insert)
  then show ?case using ex by blast
qed

section \<open>The diagnostics of rejected rows\<close>

definition colonna_ammessa :: "row_diagnostic_example \<Rightarrow> bool" where
  "colonna_ammessa e \<longleftrightarrow> (case column e of None \<Rightarrow> True | Some c \<Rightarrow> c \<noteq> [] \<and> chars_count c \<le> 256)"

lemma somma_cause_ok:
  "0 \<notin> set xs \<Longrightarrow> unat a + sum_list (map unat xs) < 2 ^ 64 \<Longrightarrow>
     \<exists>t. try_fold somma_cause a xs = Inr t \<and> unat t = unat a + sum_list (map unat xs)"
proof (induction xs arbitrary: a)
  case (Cons x xs)
  then have "unat a + unat x < 2 ^ 64" by simp
  then have "unat (a + x) = unat a + unat x" by (simp add: unat_word_ariths)
  then have "checked_add a x = Some (a + x)" "unat (a + x) + sum_list (map unat xs) < 2 ^ 64"
    using Cons.prems by (simp_all add: checked_add_Some_iff)
  then show ?case using Cons.IH [of "a + x"] Cons.prems \<open>unat (a + x) = _\<close>
    by (simp add: somma_cause_def [of a x] add.assoc)
qed simp

lemma visita_esempio_di:
  assumes "source_index e \<notin> source_indices s" "valid_cause (cause e)" "bt_get (counts d) (cause e) \<noteq> None"
    and "example_key e = None" "write_state e = None" and "cause_count s (cause e) < 100"
  shows "is_ok (visita_esempio d s e) \<longleftrightarrow> colonna_ammessa e"
proof -
  let ?n = "case bt_get (example_cause_counts s) (cause e) of None \<Rightarrow> 0 | Some c \<Rightarrow> c"
  have "unat ?n = cause_count s (cause e)" by (simp add: cause_count_def split: option.split)
  then have "unat (?n + 1) = unat ?n + 1" using assms(6) by (simp add: unat_word_ariths)
  then have "checked_add ?n 1 = Some (?n + 1)" by (simp add: checked_add_Some_iff)
  moreover have "esempio_valido d s e \<longleftrightarrow> colonna_ammessa e"
    using assms(1-3) by (auto simp: esempio_valido_def colonna_ammessa_def split: option.splits)
  ultimately show ?thesis using assms(4,5) by (auto simp: visita_esempio_def Let_def ensure_def is_ok_iff)
qed

lemma visita_esempi_di:
  assumes "distinct (map source_index es)" "set (map source_index es) \<inter> source_indices s = {}"
    and "\<forall>e \<in> set es. valid_cause (cause e) \<and> bt_get (counts d) (cause e) \<noteq> None \<and> example_key e = None
           \<and> write_state e = None"
    and "\<forall>c. cause_count s c + length es < 100"
  shows "is_ok (try_fold (visita_esempio d) s es) \<longleftrightarrow> list_all colonna_ammessa es"
  using assms
proof (induction es arbitrary: s)
  case (Cons e es)
  have v: "is_ok (visita_esempio d s e) \<longleftrightarrow> colonna_ammessa e"
    using Cons.prems by (intro visita_esempio_di) (auto dest: spec [of _ "cause e"])
  show ?case
  proof (cases "visita_esempio d s e")
    case (Inr t)
    note t = visita_esempio_Inr [OF Inr]
    have "is_ok (try_fold (visita_esempio d) t es) \<longleftrightarrow> list_all colonna_ammessa es"
    proof (rule Cons.IH)
      have "cause_count t c + length es < 100" for c using spec [OF Cons.prems(4), of c] t(5) [of c] by simp
      then show "\<forall>c. cause_count t c + length es < 100" by blast
      show "set (map source_index es) \<inter> source_indices t = {}" using Cons.prems(1,2) t(1) by auto
    qed (use Cons.prems in auto)
    then show ?thesis using v Inr by simp
  qed (use v in simp)
qed simp

lemma visita_esempi_cause:
  "try_fold (visita_esempio d) s es = Inr s' \<Longrightarrow>
     set (bt_keys (example_cause_counts s')) = set (bt_keys (example_cause_counts s)) \<union> cause ` set es"
proof (induction es arbitrary: s)
  case (Cons e es)
  then obtain t where t: "visita_esempio d s e = Inr t" "try_fold (visita_esempio d) t es = Inr s'"
    by (auto split: sum.splits)
  then have "set (bt_keys (example_cause_counts t)) = insert (cause e) (set (bt_keys (example_cause_counts s)))"
    by (auto simp: visita_esempio_def results Let_def bt_keys_simps split: option.splits)
  then show ?case using Cons.IH [OF t(2)] by auto
qed simp

text \<open>The report of \<open>reject_rows\<close> is valid exactly when the columns of its examples can be written in it.\<close>

definition rapporto :: "(string, u64) btree \<Rightarrow> row_rejection list \<Rightarrow> row_diagnostics" where
  "rapporto conteggi vs =
     \<lparr>contract = ROW_DIAGNOSTICS_CONTRACT, scope = ScopeRead, index_basis = ROW_DIAGNOSTICS_INDEX_BASIS,
      completeness = Complete, knowledge_limits = None, observed_total = of_nat (length vs),
      total = Some (of_nat (length vs)), input_total = None, counts = conteggi, examples_limit = EXAMPLES_LIMIT,
      examples_truncated = of_nat (length vs) > EXAMPLES_LIMIT, examples = map esempio_di (take 10 vs),
      diagnostic_state_counts = None, write_outcome = None\<rparr>"

lemma filter_take_le: "length (filter P (take n xs)) \<le> length (filter P xs)"
  by (metis append_take_drop_id filter_append length_append le_add1)

definition rifiuti_validi :: "row_rejection list \<Rightarrow> bool" where
  "rifiuti_validi vs \<longleftrightarrow> vs \<noteq> [] \<and> length vs < 2 ^ 64 \<and> distinct (map rr_row vs)
     \<and> list_all (\<lambda>r. valid_cause (rr_cause r) \<and> rr_row r < 2 ^ 64) vs"

lemma rapporto_simps [simp]:
  "examples (rapporto m vs) = map esempio_di (take 10 vs)" "counts (rapporto m vs) = m"
  "scope (rapporto m vs) = ScopeRead" "observed_total (rapporto m vs) = of_nat (length vs)"
  "examples_limit (rapporto m vs) = EXAMPLES_LIMIT"
  by (simp_all add: rapporto_def)

lemma esempi_distinti: "rifiuti_validi vs \<Longrightarrow> distinct (map source_index (map esempio_di (take 10 vs)))"
proof -
  assume vs: "rifiuti_validi vs"
  then have "inj_on (of_nat :: nat \<Rightarrow> u64) (rr_row ` set vs)"
    by (auto simp: rifiuti_validi_def inj_on_def list_all_iff word_of_nat_eq_iff take_bit_nat_eq_self)
  then have "distinct (map of_nat (map rr_row vs) :: u64 list)"
    using vs by (simp add: rifiuti_validi_def distinct_map comp_inj_on)
  then have "distinct (take 10 (map of_nat (map rr_row vs) :: u64 list))" by (rule distinct_take)
  then show ?thesis by (simp add: esempio_di_def take_map o_def)
qed

lemma rapporto_esempi:
  assumes vs: "rifiuti_validi vs" and m: "conteggi_di m vs"
  shows "is_ok (visita_esempi (rapporto m vs)) \<longleftrightarrow> list_all colonna_ammessa (map esempio_di (take 10 vs))"
proof -
  have "\<forall>e \<in> set (map esempio_di (take 10 vs)). valid_cause (cause e) \<and> bt_get m (cause e) \<noteq> None
      \<and> example_key e = None \<and> write_state e = None"
    using vs conteggi_di_get [OF m]
    by (auto simp: esempio_di_def rifiuti_validi_def list_all_iff dest!: in_set_takeD)
  then show ?thesis
    using visita_esempi_di [OF esempi_distinti [OF vs], of stato_esempi_iniziale "rapporto m vs"]
    by (simp add: visita_esempi_def)
qed

lemma rapporto_entro_i_conteggi:
  assumes m: "conteggi_di m vs" and run: "visita_esempi (rapporto m vs) = Inr s"
  shows "\<not> esempi_eccedono (rapporto m vs) s"
proof -
  let ?es = "map esempio_di (take 10 vs)"
  have s: "cause_count s c = length (filter (\<lambda>e. cause e = c) ?es)" "bt_wf (example_cause_counts s)" for c
    using visita_esempi_Inr [of "rapporto m vs" stato_esempi_iniziale ?es s] run by (auto simp: visita_esempi_def)
  have "cause_count s c \<le> conteggio_causa m c" for c
    using m filter_take_le [of "\<lambda>r. rr_cause r = c" 10 vs]
    by (simp add: s(1) conteggi_di_def filter_map o_def esempio_di_def)
  moreover have "\<exists>k. bt_get m c = Some k" if "bt_get (example_cause_counts s) c \<noteq> None" for c
  proof -
    have "set (bt_keys (example_cause_counts s)) = cause ` set ?es"
      using visita_esempi_cause [of "rapporto m vs" stato_esempi_iniziale ?es s] run
      by (simp add: visita_esempi_def stato_esempi_iniziale_def bt_keys_def)
    then have "c \<in> rr_cause ` set vs" using that bt.keys_get [of c "example_cause_counts s"]
      by (auto simp: esempio_di_def dest!: in_set_takeD)
    then show ?thesis using conteggi_di_get [OF m] by auto
  qed
  ultimately have "\<exists>k. bt_get m c = Some k \<and> n \<le> k" if "bt_get (example_cause_counts s) c = Some n" for c n
    using that by (fastforce simp: cause_count_def conteggio_causa_def word_le_nat_alt split: option.splits)
  then show ?thesis by (simp add: esempi_eccedono_iff [OF s(2)])
qed

lemma rapporto_valido:
  assumes vs: "rifiuti_validi vs" and m: "conteggi_di m vs"
  shows "is_ok (validate_for_emission (rapporto m vs)) \<longleftrightarrow> list_all colonna_ammessa (map esempio_di (take 10 vs))"
proof -
  let ?d = "rapporto m vs" and ?tot = "of_nat (length vs) :: u64" and ?n = "of_nat (min (length vs) 10) :: u64"
  have tot: "unat ?tot = length vs" "unat ?n = min (length vs) 10"
    using vs by (simp_all add: rifiuti_validi_def unat_of_nat take_bit_nat_eq_self min_def)
  then have n: "example_count ?d = Inr ?n" "\<not> EXAMPLES_LIMIT < ?n" "\<not> ?tot < ?n" "?tot \<noteq> 0"
    "EXAMPLES_LIMIT < ?tot \<longleftrightarrow> ?n < ?tot" "min ?tot EXAMPLES_LIMIT = ?n"
    using vs by (auto simp: rifiuti_validi_def example_count_def word_le_nat_alt word_less_nat_alt
        EXAMPLES_LIMIT_def min_def word_unat_eq_iff)
  obtain t where t: "somma_conteggi ?d = Inr t" "t = ?tot"
    using somma_cause_ok [of "bt_values m" 0] m vs tot(1)
    by (auto simp: somma_conteggi_def conteggi_di_def rifiuti_validi_def word_unat_eq_iff)
  have "valid_cause c" if "c \<in> set (bt_keys m)" for c
    using that vs m by (auto simp: conteggi_di_def rifiuti_validi_def list_all_iff)
  then have "conteggi_coerenti ?d ?tot ?n"
    using n by (auto simp: conteggi_coerenti_def rapporto_def list_ex_iff)
  moreover have "verifica_completezza ?d ?n = Inr ()"
    using n by (simp add: verifica_completezza_def rapporto_def ensure_def)
  moreover have "campi_radice_validi ?d" "limiti_di ?d = []" "verifica_read ?d = Inr ()"
    by (auto simp: campi_radice_validi_def rapporto_def limiti_di_def verifica_read_def list_ex_iff esempio_di_def
        EXAMPLES_LIMIT_def)
  ultimately have "is_ok (validate_for_emission ?d) \<longleftrightarrow> is_ok (visita_esempi ?d)"
    using n t rapporto_entro_i_conteggi [OF m] by (cases "visita_esempi ?d") (simp_all add: validate_for_emission_def)
  then show ?thesis using rapporto_esempi [OF vs m] by simp
qed

lemma reject_rows_rapporto:
  assumes rs: "rs \<noteq> []" "length rs < 2 ^ 64" "list_all (\<lambda>r. valid_cause (rr_cause r) \<and> rr_row r < 2 ^ 64) rs"
  obtains d where
    "reject_rows rs message =
       Inl (if list_all colonna_ammessa (examples d) then RowDiagnostics (DataMapping message) d
            else Internal ''row diagnostics interne non valide'')"
    "observed_total d = of_nat (length (bt_values (rifiuti_per_riga rs)))"
    "examples d = map esempio_di (take 10 (bt_values (rifiuti_per_riga rs)))"
    "rifiuti_validi (bt_values (rifiuti_per_riga rs))"
proof -
  let ?vs = "bt_values (rifiuti_per_riga rs)"
  have keys: "map rr_row ?vs = bt_keys (rifiuti_per_riga rs)" "set (bt_keys (rifiuti_per_riga rs)) = rr_row ` set rs"
    "set ?vs \<subseteq> set rs" "distinct (bt_keys (rifiuti_per_riga rs))"
    using rifiuti_per_riga_keys [of rs] by (simp_all add: bt_wf_distinct)
  have "length ?vs = card (rr_row ` set rs)"
    using keys by (metis distinct_card length_map)
  also have "... \<le> length rs" using card_image_le [of "set rs" rr_row] card_length [of rs] by simp
  finally have len: "length ?vs < 2 ^ 64" "length (rifiuti_per_riga rs) = length ?vs"
    using rs(2) by (simp_all add: bt_values_def)
  have "?vs \<noteq> []" using rs(1) keys(1,2) by auto
  then have vs: "rifiuti_validi ?vs"
    using len keys rs(3) by (auto simp: rifiuti_validi_def list_all_iff)
  then have "list_all (\<lambda>r. rr_row r < 2 ^ 64) ?vs" by (auto simp: rifiuti_validi_def list_all_iff)
  from conta_rifiuti [OF len(1) this] obtain m where
    m: "try_fold conta_rifiuto ([], []) ?vs = Inr (m, map esempio_di (take 10 ?vs))" "conteggi_di m ?vs" by blast
  have "reject_rows rs message = Inl (with_row_diagnostics (rapporto m ?vs) (DataMapping message))"
    using rs(1) len m(1) by (simp add: reject_rows_def Let_def u64_from_usize_def rapporto_def)
  then have "reject_rows rs message =
      Inl (if list_all colonna_ammessa (examples (rapporto m ?vs)) then RowDiagnostics (DataMapping message) (rapporto m ?vs)
           else Internal ''row diagnostics interne non valide'')"
    using rapporto_valido [OF vs m(2)] by (auto simp: with_row_diagnostics_def is_ok_iff split: sum.splits)
  from that [OF this] show ?thesis using vs by simp
qed

section \<open>Property\<close>

text \<open>C36. What \<open>reject_rows\<close> returns for rejected rows with well-formed causes: an error with a diagnostic that passes
  \<open>validate_for_emission\<close> and counts every row once, whose examples are its first ten rows, each with the cause and
  the column of one of its rejections.  A row whose column has an empty name, or one of over 256 characters, makes the
  diagnostic invalid: the error is then an internal one and the rows are lost.\<close>

theorem reject_rows_exact:
  assumes "rs \<noteq> []" and "length rs < 2 ^ 64"
    and "list_all (\<lambda>r. valid_cause (rr_cause r) \<and> rr_row r < 2 ^ 64) rs"
  shows "\<exists>d. reject_rows rs message =
       Inl (if list_all colonna_ammessa (examples d) then RowDiagnostics (DataMapping message) d
            else Internal ''row diagnostics interne non valide'')
     \<and> unat (observed_total d) = card (rr_row ` set rs)
     \<and> map (\<lambda>e. unat (source_index e)) (examples d) = take 10 (sorted_list_of_set (rr_row ` set rs))
     \<and> (\<forall>e \<in> set (examples d). \<exists>r \<in> set rs.
          rr_row r = unat (source_index e) \<and> rr_cause r = cause e \<and> rr_column r = column e)"
proof -
  let ?vs = "bt_values (rifiuti_per_riga rs)"
  obtain d where d: "reject_rows rs message =
       Inl (if list_all colonna_ammessa (examples d) then RowDiagnostics (DataMapping message) d
            else Internal ''row diagnostics interne non valide'')"
    and tot: "observed_total d = of_nat (length ?vs)" and es: "examples d = map esempio_di (take 10 ?vs)"
    and vs: "rifiuti_validi ?vs"
    using reject_rows_rapporto [OF assms] by metis
  note keys = rifiuti_per_riga_keys [of rs]
  have riga: "unat (source_index (esempio_di r)) = rr_row r" if "r \<in> set ?vs" for r
    using that vs by (auto simp: rifiuti_validi_def list_all_iff esempio_di_def unat_of_nat take_bit_nat_eq_self)
  have "length ?vs = card (rr_row ` set rs)"
    using keys(1-3) bt_wf_distinct [OF keys(1)] by (metis distinct_card length_map)
  then have "unat (observed_total d) = card (rr_row ` set rs)"
    using tot vs by (simp add: rifiuti_validi_def unat_of_nat take_bit_nat_eq_self)
  moreover have "map (\<lambda>e. unat (source_index e)) (examples d) = take 10 (map rr_row ?vs)"
    using riga by (auto simp: es take_map intro!: map_cong dest: in_set_takeD)
  moreover have "\<exists>r \<in> set rs. rr_row r = unat (source_index e) \<and> rr_cause r = cause e \<and> rr_column r = column e"
    if "e \<in> set (examples d)" for e
    using that keys(4) riga by (fastforce simp: es esempio_di_def dest!: in_set_takeD)
  ultimately show ?thesis using d keys(2,5) by auto
qed

theorem reject_rows_exact_witness:
  "reject_rows [\<lparr>rr_row = 3, rr_cause = ''conversion.invalid_datetime'', rr_column = Some []\<rparr>] ''m'' =
     Inl (Internal ''row diagnostics interne non valide'')"
proof -
  let ?rs = "[\<lparr>rr_row = 3, rr_cause = ''conversion.invalid_datetime'', rr_column = Some []\<rparr>]"
  have "valid_cause ''conversion.invalid_datetime''" by code_simp
  then have ok: "?rs \<noteq> []" "length ?rs < 2 ^ 64"
    "list_all (\<lambda>r. valid_cause (rr_cause r) \<and> rr_row r < 2 ^ 64) ?rs" by simp_all
  obtain d where d: "reject_rows ?rs ''m'' =
       Inl (if list_all colonna_ammessa (examples d) then RowDiagnostics (DataMapping ''m'') d
            else Internal ''row diagnostics interne non valide'')"
      and es: "map (\<lambda>e. unat (source_index e)) (examples d) = take 10 (sorted_list_of_set (rr_row ` set ?rs))"
        "\<forall>e \<in> set (examples d). \<exists>r \<in> set ?rs.
           rr_row r = unat (source_index e) \<and> rr_cause r = cause e \<and> rr_column r = column e"
    using reject_rows_exact [OF ok, of "''m''"] by blast
  from es(1) obtain e where "e \<in> set (examples d)" by (cases "examples d") auto
  moreover from this es(2) have "column e = Some []" by fastforce
  ultimately have "\<not> list_all colonna_ammessa (examples d)"
    by (auto simp: colonna_ammessa_def list_all_iff intro!: bexI [of _ e])
  then show ?thesis using d by simp
qed

end
