(* ===== verification/Formula.thy ===== *)
theory Formula
  imports FormulaParse TableKernel
begin

text \<open>
  The evaluation of \<open>table.formula\<close>, \<open>crates/plenora-kernels-table/src/formula.rs\<close>: the static type of the column, the
  interpreter on the tree of the formula, and the fast path, which compiles the tree once into a postfix program and runs
  it on one of two stack machines.

  The machines and the interpreter are written apart, as in the code; the theorems show that the fast path gives what
  the interpreter gives, and what the column of the output holds.
\<close>

section \<open>Configuration and values\<close>

record formula_config =
  fc_new_column :: string
  fc_formula :: string
  fc_on_division_by_zero :: "on_division_by_zero option"

definition divisione_per_zero :: "formula_config \<Rightarrow> on_division_by_zero" where
  "divisione_per_zero config = (case fc_on_division_by_zero config of None \<Rightarrow> DivNull | Some d \<Rightarrow> d)"

record esecuzione =
  es_divisione :: on_division_by_zero
  es_limits :: kernel_limits
  es_effetti :: u64

definition esecuzione_nuova :: "formula_config \<Rightarrow> kernel_limits \<Rightarrow> esecuzione" where
  "esecuzione_nuova config limits = \<lparr>es_divisione = divisione_per_zero config, es_limits = limits, es_effetti = 0\<rparr>"

definition nulla_su_zero :: "plenora_error \<Rightarrow> esecuzione \<Rightarrow> (bool \<times> esecuzione) result" where
  "nulla_su_zero errore es =
     (if es_divisione es = DivNull \<and> e_divisione_per_zero errore then
        map_ok (\<lambda>n. (True, es\<lparr>es_effetti := n\<rparr>)) (conta_divisione_per_zero (es_effetti es))
      else Inr (False, es))"

definition verifica_testo :: "esecuzione \<Rightarrow> string \<Rightarrow> unit result" where
  "verifica_testo es valore = verifica_testo_prodotto ''table.formula'' (length valore) (es_limits es)"

definition risultato_finito :: "f64 \<Rightarrow> f64 \<Rightarrow> f64 \<Rightarrow> f64 result" where
  "risultato_finito left right v =
     (if f64_is_finite v \<or> \<not> f64_is_finite left \<or> \<not> f64_is_finite right then Inr v
      else Inl (Schema NON_FINITE_RESULT_MESSAGE))"

definition integer_rounded :: "i64 \<Rightarrow> f64" where
  "integer_rounded v = f64_round (of_int (sint v))"

section \<open>The static type\<close>

datatype formula_type = TNumber | TText

fun formula_data_type :: "formula_type \<Rightarrow> data_type" where
  "formula_data_type TNumber = Leaf ''Float64''"
| "formula_data_type TText = Utf8"

definition column_formula_type :: "kernel_env \<Rightarrow> data_type \<Rightarrow> string \<Rightarrow> formula_type result" where
  "column_formula_type env tipo name =
     (if tipo = Leaf ''Int64'' \<or> tipo = Leaf ''Float64'' then Inr TNumber
      else map_ok (\<lambda>_. TText) (ke_testo env tipo name))"

definition tipo_binario :: "formula_type \<Rightarrow> char \<Rightarrow> formula_type \<Rightarrow> formula_type result" where
  "tipo_binario left operator right =
     (if operator = CHR ''+'' then Inr (if left = TNumber \<and> right = TNumber then TNumber else TText)
      else if left = TNumber \<and> right = TNumber \<and> operator \<in> {CHR ''-'', CHR ''*'', CHR ''/''} then Inr TNumber
      else Inl (InvalidPlan ''formula: operatore numerico su testo''))"

fun infer_expr_type :: "(string \<Rightarrow> formula_type result) \<Rightarrow> formula_expr \<Rightarrow> formula_type result" where
  "infer_expr_type kind (FNumber _) = Inr TNumber"
| "infer_expr_type kind (FText _) = Inr TText"
| "infer_expr_type kind (FColumn name) = kind name"
| "infer_expr_type kind (FNeg inner) =
     try_bind (infer_expr_type kind inner) (\<lambda>t.
       case t of TNumber \<Rightarrow> Inr TNumber | TText \<Rightarrow> Inl (InvalidPlan ''formula: negazione di testo''))"
| "infer_expr_type kind (FBinary left operator right) =
     try_bind (infer_expr_type kind left) (\<lambda>l.
     try_bind (infer_expr_type kind right) (\<lambda>r. tipo_binario l operator r))"

definition tipo_di_colonna :: "kernel_env \<Rightarrow> batch \<Rightarrow> string \<Rightarrow> formula_type result" where
  "tipo_di_colonna env b name =
     try_bind (column_index (b_schema b) name) (\<lambda>index.
       let campo = s_campi (b_schema b) ! index in
       try_bind (require_non_geometry campo) (\<lambda>_. column_formula_type env (campo_tipo campo) name))"

definition infer_formula_type ::
    "formula_config \<Rightarrow> (string \<Rightarrow> formula_type result) \<Rightarrow> formula_type result option" where
  "infer_formula_type config kind =
     map_option (\<lambda>r. try_bind r (infer_expr_type kind)) (parse_formula (fc_formula config))"

section \<open>The interpreter\<close>

datatype evaluated = ENull | ENumber f64 | EText string

fun display :: "kernel_env \<Rightarrow> evaluated \<Rightarrow> string" where
  "display env ENull = []"
| "display env (ENumber x) = ke_mostra env x"
| "display env (EText s) = s"

definition valore_cella :: "array \<Rightarrow> nat \<Rightarrow> evaluated result" where
  "valore_cella colonna row =
     (case colonna of
        Float64Array vs \<Rightarrow> Inr (if snd (vs ! row) then ENull else ENumber (fst (vs ! row)))
      | Int64Array vs \<Rightarrow> Inr (if snd (vs ! row) then ENull else ENumber (integer_rounded (fst (vs ! row))))
      | StringArray vs \<Rightarrow> Inr (if snd (vs ! row) then ENull else EText (fst (vs ! row)))
      | AltroArray _ cs \<Rightarrow>
          (if fst (cs ! row) then Inr ENull
           else map_ok (\<lambda>s. EText (case s of None \<Rightarrow> [] | Some s \<Rightarrow> s)) (snd (cs ! row))))"

definition binario_numerico :: "char \<Rightarrow> f64 \<Rightarrow> f64 \<Rightarrow> f64 result" where
  "binario_numerico operator left right =
     (if operator = CHR ''+'' then risultato_finito left right (f64_add left right)
      else if operator = CHR ''-'' then risultato_finito left right (f64_sub left right)
      else if operator = CHR ''*'' then risultato_finito left right (f64_mul left right)
      else if operator = CHR ''/'' then
        (if f64_eq right 0 then Inl (Schema DIVISION_BY_ZERO_MESSAGE)
         else risultato_finito left right (f64_div left right))
      else Inl (Schema ''operatore formula incompatibile con testo''))"

fun binario :: "kernel_env \<Rightarrow> char \<Rightarrow> evaluated \<Rightarrow> evaluated \<Rightarrow> evaluated result" where
  "binario env operator ENull _ = Inr ENull"
| "binario env operator _ ENull = Inr ENull"
| "binario env operator (ENumber left) (ENumber right) = map_ok ENumber (binario_numerico operator left right)"
| "binario env operator left right =
     (if operator = CHR ''+'' then Inr (EText (display env left @ display env right))
      else Inl (Schema ''operatore formula incompatibile con testo''))"

fun evaluate :: "kernel_env \<Rightarrow> batch \<Rightarrow> nat \<Rightarrow> formula_expr \<Rightarrow> evaluated result" where
  "evaluate env b row (FNumber x) = Inr (ENumber x)"
| "evaluate env b row (FText s) = Inr (EText s)"
| "evaluate env b row (FColumn name) =
     try_bind (column_index (b_schema b) name) (\<lambda>index. valore_cella (b_colonne b ! index) row)"
| "evaluate env b row (FNeg e) =
     try_bind (evaluate env b row e) (\<lambda>v.
       case v of ENumber x \<Rightarrow> Inr (ENumber (f64_neg x)) | ENull \<Rightarrow> Inr ENull
               | EText _ \<Rightarrow> Inl (Schema ''negazione di testo''))"
| "evaluate env b row (FBinary left operator right) =
     try_bind (evaluate env b row left) (\<lambda>l.
     try_bind (evaluate env b row right) (\<lambda>r. binario env operator l r))"

section \<open>The compiler\<close>

datatype fast_column =
  FF64 "(f64 \<times> bool) list"
| FI64 "(i64 \<times> bool) list"
| FStr "(string \<times> bool) list"

fun is_numeric :: "fast_column \<Rightarrow> bool" where
  "is_numeric (FStr _) \<longleftrightarrow> False"
| "is_numeric _ \<longleftrightarrow> True"

datatype fast_op =
  ONumber f64
| OText string
| OColumn fast_column
| OMissingColumn string
| ONeg
| OAdd
| OSubtract
| OMultiply
| ODivide

record fast_program =
  fp_ops :: "fast_op list"
  fp_depth :: nat
  fp_numeric :: bool

definition push_op :: "fast_op \<Rightarrow> int \<Rightarrow> fast_program \<times> nat \<Rightarrow> fast_program \<times> nat" where
  "push_op istr delta st =
     (let (p, depth) = st; n = (if delta > 0 then depth + 1 else if delta < 0 then depth - 1 else depth)
      in (p\<lparr>fp_ops := fp_ops p @ [istr], fp_depth := (if delta > 0 then max (fp_depth p) n else fp_depth p)\<rparr>, n))"

text \<open>The type of a column decides the downcast, and the constructor is that of the type.\<close>

fun fast_column_of :: "array \<Rightarrow> fast_column option" where
  "fast_column_of (Float64Array vs) = Some (FF64 vs)"
| "fast_column_of (Int64Array vs) = Some (FI64 vs)"
| "fast_column_of (StringArray vs) = Some (FStr vs)"
| "fast_column_of (AltroArray _ _) = None"

definition fast_operator :: "char \<Rightarrow> fast_op option" where
  "fast_operator c =
     (if c = CHR ''+'' then Some OAdd else if c = CHR ''-'' then Some OSubtract
      else if c = CHR ''*'' then Some OMultiply else if c = CHR ''/'' then Some ODivide else None)"

fun emit_ops :: "formula_expr \<Rightarrow> batch \<Rightarrow> fast_program \<times> nat \<Rightarrow> (bool \<times> fast_program \<times> nat) option" where
  "emit_ops (FNumber x) b st = Some (True, push_op (ONumber x) 1 st)"
| "emit_ops (FText s) b st = Some (False, push_op (OText s) 1 st)"
| "emit_ops (FColumn name) b st =
     (case column_index (b_schema b) name of
        Inl _ \<Rightarrow> Some (False, push_op (OMissingColumn name) 1 st)
      | Inr index \<Rightarrow>
          (case fast_column_of (b_colonne b ! index) of
             None \<Rightarrow> None
           | Some fast \<Rightarrow> Some (is_numeric fast, push_op (OColumn fast) 1 st)))"
| "emit_ops (FNeg inner) b st =
     (case emit_ops inner b st of
        None \<Rightarrow> None
      | Some (numeric, st) \<Rightarrow> Some (numeric, push_op ONeg 0 st))"
| "emit_ops (FBinary left operator right) b st =
     (case emit_ops left b st of
        None \<Rightarrow> None
      | Some (left_numeric, st) \<Rightarrow>
          (case emit_ops right b st of
             None \<Rightarrow> None
           | Some (right_numeric, st) \<Rightarrow>
               (case fast_operator operator of
                  None \<Rightarrow> None
                | Some istr \<Rightarrow> Some (left_numeric \<and> right_numeric, push_op istr (- 1) st))))"

definition compile_formula :: "formula_expr \<Rightarrow> batch \<Rightarrow> fast_program option" where
  "compile_formula e b =
     (case emit_ops e b (\<lparr>fp_ops = [], fp_depth = 0, fp_numeric = True\<rparr>, 0) of
        None \<Rightarrow> None
      | Some (numeric, p, depth) \<Rightarrow> Some (p\<lparr>fp_numeric := numeric\<rparr>))"

section \<open>The numeric machine\<close>

text \<open>The stacks have their top first.\<close>

definition underflow :: plenora_error where
  "underflow = Internal ''stack della formula in underflow''"

fun operazione_numerica :: "fast_op \<Rightarrow> f64 \<Rightarrow> f64 \<Rightarrow> f64 result" where
  "operazione_numerica OAdd left right = Inr (f64_add left right)"
| "operazione_numerica OSubtract left right = Inr (f64_sub left right)"
| "operazione_numerica OMultiply left right = Inr (f64_mul left right)"
| "operazione_numerica ODivide left right =
     (if f64_eq right 0 then Inl (Schema DIVISION_BY_ZERO_MESSAGE) else Inr (f64_div left right))"
| "operazione_numerica _ left right = Inl (Internal ''operatore non aritmetico nel ramo aritmetico'')"

definition binaria_numerica :: "fast_op \<Rightarrow> (f64 \<times> bool) list \<Rightarrow> (f64 \<times> bool) list result" where
  "binaria_numerica istr stack =
     (case stack of
        (right, right_null) # (left, left_null) # resto \<Rightarrow>
          (if left_null \<or> right_null then Inr ((0, True) # resto)
           else
             try_bind (operazione_numerica istr left right) (\<lambda>v.
             try_bind (risultato_finito left right v) (\<lambda>v. Inr ((v, False) # resto))))
      | _ \<Rightarrow> Inl underflow)"

definition passo_numerico :: "nat \<Rightarrow> (f64 \<times> bool) list \<Rightarrow> fast_op \<Rightarrow> (f64 \<times> bool) list result" where
  "passo_numerico row stack istr =
     (case istr of
        ONumber x \<Rightarrow> Inr ((x, False) # stack)
      | OColumn (FF64 vs) \<Rightarrow> Inr (vs ! row # stack)
      | OColumn (FI64 vs) \<Rightarrow>
          Inr ((if snd (vs ! row) then 0 else integer_rounded (fst (vs ! row)), snd (vs ! row)) # stack)
      | OColumn (FStr _) \<Rightarrow> Inl (Internal ''programma numerico senza testo'')
      | ONeg \<Rightarrow> (case stack of [] \<Rightarrow> Inl underflow | (v, null) # resto \<Rightarrow> Inr ((f64_neg v, null) # resto))
      | OText _ \<Rightarrow> Inl (Internal ''programma numerico senza testo'')
      | OMissingColumn _ \<Rightarrow> Inl (Internal ''programma numerico senza testo'')
      | _ \<Rightarrow> binaria_numerica istr stack)"

text \<open>\<open>pop\<close> of the result, which must be alone on the stack.\<close>

definition risultato_dello_stack :: "'v list \<Rightarrow> 'v result" where
  "risultato_dello_stack stack =
     (case stack of
        [] \<Rightarrow> Inl underflow
      | v # resto \<Rightarrow> (if resto = [] then Inr v else Inl (Internal ''stack della formula con operandi residui'')))"

definition eval_numeric_row :: "fast_program \<Rightarrow> nat \<Rightarrow> (f64 \<times> bool) result" where
  "eval_numeric_row p row = try_bind (try_fold (passo_numerico row) [] (fp_ops p)) risultato_dello_stack"

section \<open>The general machine\<close>

datatype slot = SNull | SNumber f64 | SText string

fun column_slot :: "fast_column \<Rightarrow> nat \<Rightarrow> slot" where
  "column_slot (FF64 vs) row = (if snd (vs ! row) then SNull else SNumber (fst (vs ! row)))"
| "column_slot (FI64 vs) row = (if snd (vs ! row) then SNull else SNumber (integer_rounded (fst (vs ! row))))"
| "column_slot (FStr vs) row = (if snd (vs ! row) then SNull else SText (fst (vs ! row)))"

fun display_slot :: "kernel_env \<Rightarrow> slot \<Rightarrow> string" where
  "display_slot env SNull = []"
| "display_slot env (SNumber x) = ke_mostra env x"
| "display_slot env (SText s) = s"

definition slot_numerico :: "fast_op \<Rightarrow> f64 \<Rightarrow> f64 \<Rightarrow> f64 result" where
  "slot_numerico istr left right =
     (case istr of
        OAdd \<Rightarrow> risultato_finito left right (f64_add left right)
      | OSubtract \<Rightarrow> risultato_finito left right (f64_sub left right)
      | OMultiply \<Rightarrow> risultato_finito left right (f64_mul left right)
      | ODivide \<Rightarrow>
          (if f64_eq right 0 then Inl (Schema DIVISION_BY_ZERO_MESSAGE)
           else risultato_finito left right (f64_div left right))
      | _ \<Rightarrow> Inl (Internal ''operatore non aritmetico su operandi numerici''))"

fun binary_slot :: "kernel_env \<Rightarrow> fast_op \<Rightarrow> slot \<Rightarrow> slot \<Rightarrow> slot result" where
  "binary_slot env istr SNull _ = Inr SNull"
| "binary_slot env istr _ SNull = Inr SNull"
| "binary_slot env istr (SNumber left) (SNumber right) = map_ok SNumber (slot_numerico istr left right)"
| "binary_slot env istr left right =
     (if istr = OAdd then Inr (SText (display_slot env left @ display_slot env right))
      else Inl (Schema ''operatore formula incompatibile con testo''))"

definition binaria_slot :: "kernel_env \<Rightarrow> fast_op \<Rightarrow> slot list \<Rightarrow> slot list result" where
  "binaria_slot env istr stack =
     (case stack of
        right # left # resto \<Rightarrow> map_ok (\<lambda>v. v # resto) (binary_slot env istr left right)
      | _ \<Rightarrow> Inl underflow)"

definition passo_slot :: "kernel_env \<Rightarrow> nat \<Rightarrow> slot list \<Rightarrow> fast_op \<Rightarrow> slot list result" where
  "passo_slot env row stack istr =
     (case istr of
        ONumber x \<Rightarrow> Inr (SNumber x # stack)
      | OText s \<Rightarrow> Inr (SText s # stack)
      | OColumn c \<Rightarrow> Inr (column_slot c row # stack)
      | OMissingColumn name \<Rightarrow> Inl (Schema (''colonna non trovata: '' @ name))
      | ONeg \<Rightarrow>
          (case stack of
             [] \<Rightarrow> Inl underflow
           | SNumber x # resto \<Rightarrow> Inr (SNumber (f64_neg x) # resto)
           | SNull # resto \<Rightarrow> Inr (SNull # resto)
           | SText _ # _ \<Rightarrow> Inl (Schema ''negazione di testo''))
      | _ \<Rightarrow> binaria_slot env istr stack)"

definition eval_slot_row :: "kernel_env \<Rightarrow> fast_program \<Rightarrow> nat \<Rightarrow> slot result" where
  "eval_slot_row env p row = try_bind (try_fold (passo_slot env row) [] (fp_ops p)) risultato_dello_stack"

section \<open>The rows of a batch\<close>

text \<open>
  The loop over the rows is written three times in the code, once per evaluator; here it is one definition, of the
  evaluator \<open>valuta\<close>, of the value \<open>vuoto\<close> that it pushes for a null or a rejected row and of the text \<open>testo_di\<close>
  that a value holds.
\<close>

definition raccogli ::
    "('v \<Rightarrow> string option) \<Rightarrow> 'v \<Rightarrow> (nat \<Rightarrow> 'v result) \<Rightarrow> esecuzione \<times> 'v list \<times> row_rejection list \<Rightarrow> nat \<Rightarrow>
     (esecuzione \<times> 'v list \<times> row_rejection list) result" where
  "raccogli testo_di vuoto valuta st row =
     (let (es, values, rejections) = st
      in case valuta row of
           Inr v \<Rightarrow>
             map_ok (\<lambda>_. (es, values @ [v], rejections))
               (case testo_di v of None \<Rightarrow> Inr () | Some t \<Rightarrow> verifica_testo es t)
         | Inl errore \<Rightarrow>
             try_bind (nulla_su_zero errore es) (\<lambda>(zero, es).
               if zero then Inr (es, values @ [vuoto], rejections)
               else (case row_eval_failure_cause errore of
                       None \<Rightarrow> Inl errore
                     | Some c \<Rightarrow>
                         Inr (es, values @ [vuoto], rejections @ [\<lparr>rr_row = row, rr_cause = c, rr_column = None\<rparr>]))))"

definition MESSAGGIO_RIFIUTI :: string where
  "MESSAGGIO_RIFIUTI = ''valori formula rifiutati; consultare row_diagnostics''"

definition righe_valutate ::
    "('v \<Rightarrow> string option) \<Rightarrow> 'v \<Rightarrow> (nat \<Rightarrow> 'v result) \<Rightarrow> esecuzione \<Rightarrow> nat \<Rightarrow> (esecuzione \<times> 'v list) result" where
  "righe_valutate testo_di vuoto valuta es n =
     try_bind (try_fold (raccogli testo_di vuoto valuta) (es, [], []) [0..<n]) (\<lambda>(es, values, rejections).
       map_ok (\<lambda>_. (es, values)) (reject_rows rejections MESSAGGIO_RIFIUTI))"

text \<open>\<open>Float64Array::from\<close> and \<open>StringArray::from\<close>: a null cell holds the default value.\<close>

definition float64_array :: "f64 option list \<Rightarrow> array" where
  "float64_array values = Float64Array (map (\<lambda>v. case v of None \<Rightarrow> (0, True) | Some x \<Rightarrow> (x, False)) values)"

definition string_array :: "string option list \<Rightarrow> array" where
  "string_array values = StringArray (map (\<lambda>v. case v of None \<Rightarrow> ([], True) | Some s \<Rightarrow> (s, False)) values)"

definition colonna_numerica ::
    "kernel_env \<Rightarrow> batch \<Rightarrow> formula_config \<Rightarrow> f64 option list \<Rightarrow> batch result" where
  "colonna_numerica env b config values =
     replace_or_append env b (fc_new_column config) (Leaf ''Float64'') True (float64_array values)"

definition colonna_testuale ::
    "kernel_env \<Rightarrow> batch \<Rightarrow> formula_config \<Rightarrow> string option list \<Rightarrow> batch result" where
  "colonna_testuale env b config values =
     replace_or_append env b (fc_new_column config) Utf8 True (string_array values)"

definition numero_atteso :: plenora_error where
  "numero_atteso = Internal ''formula: tipo statico Number ma valore testuale''"

definition testo_atteso :: plenora_error where
  "testo_atteso = Internal ''formula: tipo statico Text ma valore Number''"

definition run_numeric ::
    "kernel_env \<Rightarrow> fast_program \<Rightarrow> batch \<Rightarrow> formula_config \<Rightarrow> esecuzione \<Rightarrow> (batch \<times> esecuzione) result" where
  "run_numeric env p b config es =
     try_bind
       (righe_valutate (\<lambda>_. None) None
          (\<lambda>row. map_ok (\<lambda>(v, null). if null then None else Some v) (eval_numeric_row p row)) es (b_righe b))
       (\<lambda>(es, output). map_ok (\<lambda>u. (u, es)) (colonna_numerica env b config output))"

fun testo_slot :: "slot \<Rightarrow> string option" where
  "testo_slot (SText s) = Some s"
| "testo_slot _ = None"

fun numero_slot :: "slot \<Rightarrow> f64 option result" where
  "numero_slot (SNumber x) = Inr (Some x)"
| "numero_slot SNull = Inr None"
| "numero_slot (SText _) = Inl numero_atteso"

fun solo_testo_slot :: "slot \<Rightarrow> string option result" where
  "solo_testo_slot SNull = Inr None"
| "solo_testo_slot (SText s) = Inr (Some s)"
| "solo_testo_slot (SNumber _) = Inl testo_atteso"

definition run_slots ::
    "kernel_env \<Rightarrow> fast_program \<Rightarrow> batch \<Rightarrow> formula_config \<Rightarrow> formula_type \<Rightarrow> esecuzione \<Rightarrow>
     (batch \<times> esecuzione) result" where
  "run_slots env p b config kind es =
     try_bind (righe_valutate testo_slot SNull (eval_slot_row env p) es (b_righe b)) (\<lambda>(es, values).
       map_ok (\<lambda>u. (u, es))
         (if kind = TNumber then try_bind (try_map numero_slot values) (colonna_numerica env b config)
          else try_bind (try_map solo_testo_slot values) (colonna_testuale env b config)))"

definition run_program ::
    "kernel_env \<Rightarrow> fast_program \<Rightarrow> batch \<Rightarrow> formula_config \<Rightarrow> formula_type \<Rightarrow> esecuzione \<Rightarrow>
     (batch \<times> esecuzione) result" where
  "run_program env p b config kind es =
     (if fp_numeric p then
        (if kind \<noteq> TNumber then Inl (Internal ''formula: tier numerico con tipo statico Text'')
         else run_numeric env p b config es)
      else run_slots env p b config kind es)"

fun testo_valutato :: "evaluated \<Rightarrow> string option" where
  "testo_valutato (EText s) = Some s"
| "testo_valutato _ = None"

fun numero_valutato :: "evaluated \<Rightarrow> f64 option result" where
  "numero_valutato (ENumber x) = Inr (Some x)"
| "numero_valutato ENull = Inr None"
| "numero_valutato (EText _) = Inl numero_atteso"

fun solo_testo_valutato :: "evaluated \<Rightarrow> string option result" where
  "solo_testo_valutato ENull = Inr None"
| "solo_testo_valutato (EText s) = Inr (Some s)"
| "solo_testo_valutato (ENumber _) = Inl testo_atteso"

definition formula_generic ::
    "kernel_env \<Rightarrow> batch \<Rightarrow> formula_config \<Rightarrow> formula_expr \<Rightarrow> formula_type \<Rightarrow> esecuzione \<Rightarrow>
     (batch \<times> esecuzione) result" where
  "formula_generic env b config e kind es =
     try_bind (righe_valutate testo_valutato ENull (\<lambda>row. evaluate env b row e) es (b_righe b)) (\<lambda>(es, values).
       map_ok (\<lambda>u. (u, es))
         (if kind = TNumber then try_bind (try_map numero_valutato values) (colonna_numerica env b config)
          else try_bind (try_map solo_testo_valutato values) (colonna_testuale env b config)))"

section \<open>The operation\<close>

definition verifica_divisione :: "formula_config \<Rightarrow> formula_expr \<Rightarrow> unit result" where
  "verifica_divisione config e =
     (if fc_on_division_by_zero config \<noteq> None \<and> \<not> contiene_divisione e then
        Inl (InvalidPlan ''on_division_by_zero senza effetto: la formula non divide'')
      else Inr ())"

definition validate_formula :: "formula_config \<Rightarrow> nat \<Rightarrow> unit result option" where
  "validate_formula config max_bytes =
     (case validate_output_name (fc_new_column config) of
        Inl e \<Rightarrow> Some (Inl e)
      | Inr _ \<Rightarrow>
          (if fc_formula config = [] \<or> length (fc_formula config) > max_bytes then
             Some (Inl (InvalidPlan ''formula vuota o troppo grande''))
           else map_option (\<lambda>r. try_bind r (verifica_divisione config)) (parse_formula (fc_formula config))))"

definition esegui_formula ::
    "kernel_env \<Rightarrow> batch \<Rightarrow> formula_config \<Rightarrow> formula_expr \<Rightarrow> formula_type \<Rightarrow> esecuzione \<Rightarrow>
     (batch \<times> esecuzione) result" where
  "esegui_formula env b config e kind es =
     (case if b_righe b > 0 then compile_formula e b else None of
        Some p \<Rightarrow> run_program env p b config kind es
      | None \<Rightarrow> formula_generic env b config e kind es)"

definition valuta_formula ::
    "kernel_env \<Rightarrow> batch \<Rightarrow> formula_config \<Rightarrow> kernel_limits \<Rightarrow> formula_expr \<Rightarrow> (batch \<times> u64) result" where
  "valuta_formula env b config limits e =
     try_bind (verifica_divisione config e) (\<lambda>_.
     try_bind (infer_expr_type (tipo_di_colonna env b) e) (\<lambda>kind.
       map_ok (\<lambda>(u, es). (u, es_effetti es))
         (esegui_formula env b config e kind (esecuzione_nuova config limits))))"

definition formula_con_effetti ::
    "kernel_env \<Rightarrow> batch \<Rightarrow> formula_config \<Rightarrow> kernel_limits \<Rightarrow> (batch \<times> u64) result option" where
  "formula_con_effetti env b config limits =
     (case require_geometry_support (b_schema b) of
        Inl e \<Rightarrow> Some (Inl e)
      | Inr _ \<Rightarrow>
          map_option (\<lambda>r. try_bind r (valuta_formula env b config limits)) (parse_formula (fc_formula config)))"

definition formula :: "kernel_env \<Rightarrow> batch \<Rightarrow> formula_config \<Rightarrow> batch result option" where
  "formula env b config =
     (case require_geometry_support (b_schema b) of
        Inl e \<Rightarrow> Some (Inl e)
      | Inr _ \<Rightarrow> map_option (map_ok fst) (formula_con_effetti env b config limits_dei_kernel_default))"

section \<open>The machines run the interpreter\<close>

fun slot_di :: "evaluated \<Rightarrow> slot" where
  "slot_di ENull = SNull"
| "slot_di (ENumber x) = SNumber x"
| "slot_di (EText s) = SText s"

fun valore_numerico :: "f64 \<times> bool \<Rightarrow> evaluated" where
  "valore_numerico (x, null) = (if null then ENull else ENumber x)"

lemma colonna_slot:
  "fast_column_of colonna = Some c \<Longrightarrow> \<exists>v. valore_cella colonna row = Inr v \<and> column_slot c row = slot_di v"
  by (cases colonna) (auto simp: valore_cella_def)

lemma operatore_slot:
  assumes "fast_operator c = Some f"
  shows "binary_slot env f (slot_di l) (slot_di r) = map_ok slot_di (binario env c l r)"
  using assms
  by (cases l; cases r)
    (auto simp: fast_operator_def slot_numerico_def binario_numerico_def risultato_finito_def map_ok_def split: if_splits)

text \<open>A column that the types resolve is found by the compiler.\<close>

lemma tipo_di_colonna_Inr:
  "tipo_di_colonna env b name = Inr k \<Longrightarrow>
     \<exists>i. column_index (b_schema b) name = Inr i \<and> column_formula_type env (campo_tipo (s_campi (b_schema b) ! i)) name = Inr k"
  by (auto simp: tipo_di_colonna_def Let_def try_bind_Inr_iff)

lemma passo_slot_simps:
  "passo_slot env row stack (ONumber x) = Inr (SNumber x # stack)"
  "passo_slot env row stack (OText s) = Inr (SText s # stack)"
  "passo_slot env row stack (OColumn c) = Inr (column_slot c row # stack)"
  "passo_slot env row (slot_di v # stack) ONeg =
     (case v of EText _ \<Rightarrow> Inl (Schema ''negazione di testo'') | ENumber x \<Rightarrow> Inr (SNumber (f64_neg x) # stack)
              | ENull \<Rightarrow> Inr (SNull # stack))"
  by (simp_all add: passo_slot_def split: evaluated.split)

lemma passo_numerico_ONeg:
  "passo_numerico row ((x, null) # stack) ONeg = Inr ((f64_neg x, null) # stack)"
  by (simp add: passo_numerico_def)

lemma fast_operator_binary:
  assumes "fast_operator c = Some f"
  shows "passo_slot env row stack f = binaria_slot env f stack" "passo_numerico row st f = binaria_numerica f st"
  using assms by (auto simp: fast_operator_def passo_slot_def passo_numerico_def split: if_splits)

lemma emit_ops_slots:
  assumes "emit_ops e b st = Some (numeric, st')" and "infer_expr_type (tipo_di_colonna env b) e = Inr kind"
  shows "\<exists>ops. fp_ops (fst st') = fp_ops (fst st) @ ops
     \<and> (\<forall>stack. try_fold (passo_slot env row) stack ops = map_ok (\<lambda>v. slot_di v # stack) (evaluate env b row e))"
  using assms
proof (induction e arbitrary: st st' numeric kind)
  case (FColumn name)
  obtain i where i: "column_index (b_schema b) name = Inr i" using FColumn.prems(2) tipo_di_colonna_Inr by fastforce
  then obtain c where c: "fast_column_of (b_colonne b ! i) = Some c" "st' = push_op (OColumn c) 1 st"
    using FColumn.prems(1) by (auto split: option.splits)
  obtain v where "valore_cella (b_colonne b ! i) row = Inr v" "column_slot c row = slot_di v"
    using colonna_slot [OF c(1)] by blast
  then show ?case using i c(2) by (auto simp: push_op_def split_beta passo_slot_simps map_ok_def intro!: exI [of _ "[OColumn c]"])
next
  case (FNeg e)
  obtain st1 k where 1: "emit_ops e b st = Some (numeric, st1)" "st' = push_op ONeg 0 st1"
      "infer_expr_type (tipo_di_colonna env b) e = Inr k"
    using FNeg.prems by (auto simp: try_bind_Inr_iff split: option.splits)
  obtain ops where ops: "fp_ops (fst st1) = fp_ops (fst st) @ ops"
      "\<And>stack. try_fold (passo_slot env row) stack ops = map_ok (\<lambda>v. slot_di v # stack) (evaluate env b row e)"
    using FNeg.IH [OF 1(1,3)] by blast
  show ?case
    using ops 1(2) passo_slot_simps(4)
    by (cases "evaluate env b row e")
      (auto simp: push_op_def split_beta try_fold_append map_ok_def split: evaluated.split
        intro!: exI [of _ "ops @ [ONeg]"])
next
  case (FBinary l c r)
  obtain ln st1 rn st2 f where 1: "emit_ops l b st = Some (ln, st1)" "emit_ops r b st1 = Some (rn, st2)"
      "fast_operator c = Some f" "st' = push_op f (- 1) st2"
    using FBinary.prems(1) by (auto split: option.splits)
  obtain lk rk where 2: "infer_expr_type (tipo_di_colonna env b) l = Inr lk" "infer_expr_type (tipo_di_colonna env b) r = Inr rk"
    using FBinary.prems(2) by (auto simp: try_bind_Inr_iff)
  obtain lo ro where ops: "fp_ops (fst st1) = fp_ops (fst st) @ lo" "fp_ops (fst st2) = fp_ops (fst st1) @ ro"
      "\<And>stack. try_fold (passo_slot env row) stack lo = map_ok (\<lambda>v. slot_di v # stack) (evaluate env b row l)"
      "\<And>stack. try_fold (passo_slot env row) stack ro = map_ok (\<lambda>v. slot_di v # stack) (evaluate env b row r)"
    using FBinary.IH(1) [OF 1(1) 2(1)] FBinary.IH(2) [OF 1(2) 2(2)] by blast
  have "try_fold (passo_slot env row) stack (lo @ ro @ [f]) =
      map_ok (\<lambda>v. slot_di v # stack) (evaluate env b row (FBinary l c r))" for stack
    using operatore_slot [OF 1(3)]
    by (cases "evaluate env b row l"; cases "evaluate env b row r")
      (auto simp: try_fold_append ops fast_operator_binary [OF 1(3)] binaria_slot_def map_ok_def split: sum.splits)
  then show ?case using 1(4) ops(1,2) by (auto simp: push_op_def split_beta intro!: exI [of _ "lo @ ro @ [f]"])
qed (auto simp: push_op_def split_beta passo_slot_simps map_ok_def intro!: exI [of _ "[_]"])

text \<open>The step of the numeric machine, read as the value that it leaves.\<close>

definition numerico_come :: "(f64 \<times> bool) list result \<Rightarrow> (f64 \<times> bool) list \<Rightarrow> evaluated result \<Rightarrow> bool" where
  "numerico_come r stack v \<longleftrightarrow>
     (case v of Inl err \<Rightarrow> r = Inl err | Inr x \<Rightarrow> \<exists>c. r = Inr (c # stack) \<and> x = valore_numerico c)"

lemma operazione_binario:
  assumes "fast_operator c = Some f"
  shows "try_bind (operazione_numerica f x y) (risultato_finito x y) = binario_numerico c x y"
  using assms by (simp add: fast_operator_def binario_numerico_def split: if_splits)

lemma binaria_numerica_eq:
  assumes "fast_operator c = Some f"
  shows "binaria_numerica f ((y, n) # (x, m) # stack) =
     (if m \<or> n then Inr ((0, True) # stack) else map_ok (\<lambda>v. (v, False) # stack) (binario_numerico c x y))"
proof (cases "operazione_numerica f x y")
  case (Inr v)
  then show ?thesis
    using operazione_binario [OF assms, of x y]
    by (cases "risultato_finito x y v") (simp_all add: binaria_numerica_def map_ok_def flip: operazione_binario [OF assms])
qed (simp add: binaria_numerica_def map_ok_def flip: operazione_binario [OF assms])

lemma operatore_numerico:
  assumes "fast_operator c = Some f"
  shows "numerico_come (binaria_numerica f (r # l # stack)) stack (binario env c (valore_numerico l) (valore_numerico r))"
proof -
  obtain x m y n where [simp]: "l = (x, m)" "r = (y, n)" by fastforce
  show ?thesis
    by (cases m; cases n; cases "binario_numerico c x y")
      (simp_all add: binaria_numerica_eq [OF assms] numerico_come_def map_ok_def)
qed

lemma passo_numerico_colonna:
  "passo_numerico row stack (ONumber x) = Inr ((x, False) # stack)"
  "passo_numerico row stack (OColumn (FF64 vs)) = Inr (vs ! row # stack)"
  "passo_numerico row stack (OColumn (FI64 ws)) =
     Inr ((if snd (ws ! row) then 0 else integer_rounded (fst (ws ! row)), snd (ws ! row)) # stack)"
  by (simp_all add: passo_numerico_def)

lemma numerico_come_Inr: "x = valore_numerico c \<Longrightarrow> numerico_come (Inr (c # stack)) stack (Inr x)"
  by (simp add: numerico_come_def)

lemma colonna_numerica_fast:
  assumes "fast_column_of colonna = Some c" "is_numeric c"
  shows "numerico_come (passo_numerico row stack (OColumn c)) stack (valore_cella colonna row)"
proof (cases colonna)
  case (Float64Array vs)
  obtain x n where "vs ! row = (x, n)" by (cases "vs ! row")
  then show ?thesis
    using assms(1) Float64Array by (auto simp: passo_numerico_colonna valore_cella_def intro!: numerico_come_Inr)
next
  case (Int64Array vs)
  obtain x n where "vs ! row = (x, n)" by (cases "vs ! row")
  then show ?thesis
    using assms(1) Int64Array by (auto simp: passo_numerico_colonna valore_cella_def intro!: numerico_come_Inr)
qed (use assms in auto)

lemma try_fold_uno: "try_fold f s [x] = f s x"
  by (cases "f s x") simp_all

lemma emit_colonna:
  assumes "emit_ops (FColumn name) b st = Some (numeric, st')" and numeric
  shows "\<exists>i c. column_index (b_schema b) name = Inr i \<and> fast_column_of (b_colonne b ! i) = Some c \<and> is_numeric c
     \<and> st' = push_op (OColumn c) 1 st"
proof (cases "column_index (b_schema b) name")
  case (Inr i)
  then show ?thesis using assms by (cases "fast_column_of (b_colonne b ! i)") simp_all
qed (use assms in simp)

lemma emit_ops_numerico:
  assumes "emit_ops e b st = Some (True, st')"
  shows "\<exists>ops. fp_ops (fst st') = fp_ops (fst st) @ ops
     \<and> (\<forall>stack. numerico_come (try_fold (passo_numerico row) stack ops) stack (evaluate env b row e))"
  using assms
proof (induction e arbitrary: st st')
  case (FNumber x)
  then show ?case
    by (auto simp: push_op_def split_beta passo_numerico_colonna intro!: exI [of _ "[ONumber x]"] numerico_come_Inr)
next
  case (FColumn name)
  obtain i c where i: "column_index (b_schema b) name = Inr i" "fast_column_of (b_colonne b ! i) = Some c" "is_numeric c"
      "st' = push_op (OColumn c) 1 st"
    using emit_colonna [OF FColumn.prems TrueI] by blast
  have "numerico_come (try_fold (passo_numerico row) stack [OColumn c]) stack (evaluate env b row (FColumn name))" for stack
    using colonna_numerica_fast [OF i(2,3), of row stack] i(1) by (simp add: try_fold_uno del: try_fold.simps)
  then show ?case using i(4) by (auto simp: push_op_def split_beta intro!: exI [of _ "[OColumn c]"])
next
  case (FNeg e)
  obtain st1 where 1: "emit_ops e b st = Some (True, st1)" "st' = push_op ONeg 0 st1"
    using FNeg.prems by (auto split: option.splits)
  obtain ops where ops: "fp_ops (fst st1) = fp_ops (fst st) @ ops"
      "\<And>stack. numerico_come (try_fold (passo_numerico row) stack ops) stack (evaluate env b row e)"
    using FNeg.IH [OF 1(1)] by blast
  have "numerico_come (try_fold (passo_numerico row) stack (ops @ [ONeg])) stack (evaluate env b row (FNeg e))" for stack
  proof (cases "evaluate env b row e")
    case (Inr v)
    then obtain x n where "try_fold (passo_numerico row) stack ops = Inr ((x, n) # stack)" "v = valore_numerico (x, n)"
      using ops(2) [of stack] by (auto simp: numerico_come_def)
    then show ?thesis using Inr
      by (cases n) (simp_all add: try_fold_append passo_numerico_ONeg numerico_come_def)
  qed (use ops(2) [of stack] in \<open>simp add: numerico_come_def try_fold_append\<close>)
  then show ?case using 1(2) ops(1) by (auto simp: push_op_def split_beta intro!: exI [of _ "ops @ [ONeg]"])
next
  case (FBinary l c r)
  obtain st1 st2 f where 1: "emit_ops l b st = Some (True, st1)" "emit_ops r b st1 = Some (True, st2)"
      "fast_operator c = Some f" "st' = push_op f (- 1) st2"
    using FBinary.prems by (auto split: option.splits)
  obtain lo ro where ops: "fp_ops (fst st1) = fp_ops (fst st) @ lo" "fp_ops (fst st2) = fp_ops (fst st1) @ ro"
      "\<And>stack. numerico_come (try_fold (passo_numerico row) stack lo) stack (evaluate env b row l)"
      "\<And>stack. numerico_come (try_fold (passo_numerico row) stack ro) stack (evaluate env b row r)"
    using FBinary.IH(1) [OF 1(1)] FBinary.IH(2) [OF 1(2)] by blast
  have "numerico_come (try_fold (passo_numerico row) stack (lo @ ro @ [f])) stack (evaluate env b row (FBinary l c r))"
    for stack
  proof (cases "evaluate env b row l")
    case (Inr v)
    then obtain x where x: "try_fold (passo_numerico row) stack lo = Inr (x # stack)" "v = valore_numerico x"
      using ops(3) [of stack] by (auto simp: numerico_come_def)
    show ?thesis
    proof (cases "evaluate env b row r")
      case (Inr w)
      then obtain y where y: "try_fold (passo_numerico row) (x # stack) ro = Inr (y # x # stack)" "w = valore_numerico y"
        using ops(4) [of "x # stack"] by (auto simp: numerico_come_def)
      have "try_fold (passo_numerico row) stack (lo @ ro @ [f]) = binaria_numerica f (y # x # stack)"
        using x y fast_operator_binary(2) [OF 1(3)] by (simp add: try_fold_append split: sum.split)
      moreover have "evaluate env b row (FBinary l c r) = binario env c (valore_numerico x) (valore_numerico y)"
        using x y Inr \<open>evaluate env b row l = Inr v\<close> by simp
      ultimately show ?thesis using operatore_numerico [OF 1(3)] by metis
    qed (use ops(4) [of "x # stack"] x Inr in \<open>simp add: numerico_come_def try_fold_append\<close>)
  qed (use ops(3) [of stack] in \<open>simp add: numerico_come_def try_fold_append\<close>)
  then show ?case using 1(4) ops(1,2) by (auto simp: push_op_def split_beta intro!: exI [of _ "lo @ ro @ [f]"])
qed simp

section \<open>The static type is the type of the values\<close>

lemma column_index_coerente:
  assumes "batch_coerente b" and "column_index (b_schema b) name = Inr i"
  shows "tipo_array (b_colonne b ! i) = campo_tipo (s_campi (b_schema b) ! i)" "b_colonne b ! i \<in> set (b_colonne b)"
proof -
  have i: "i < length (s_campi (b_schema b))"
    using assms(2) by (auto simp: column_index_def try_bind_Inr_iff results dest: index_of_Some)
  have *: "map tipo_array (b_colonne b) = map campo_tipo (s_campi (b_schema b))"
    using assms(1) by (simp add: batch_coerente_def)
  then have "length (b_colonne b) = length (s_campi (b_schema b))" by (metis length_map)
  then show "tipo_array (b_colonne b ! i) = campo_tipo (s_campi (b_schema b) ! i)" "b_colonne b ! i \<in> set (b_colonne b)"
    using i * by (metis nth_map, simp)
qed

text \<open>The array that a column of a type has.\<close>

lemma tipo_della_colonna:
  assumes "batch_coerente b" and "tipo_di_colonna env b name = Inr kind" and "column_index (b_schema b) name = Inr i"
  shows "(kind = TNumber) = (\<exists>c. fast_column_of (b_colonne b ! i) = Some c \<and> is_numeric c)"
proof -
  have k: "column_formula_type env (tipo_array (b_colonne b ! i)) name = Inr kind"
    using assms tipo_di_colonna_Inr [OF assms(2)] column_index_coerente(1) [OF assms(1,3)] by auto
  have "case b_colonne b ! i of AltroArray t _ \<Rightarrow> t \<notin> {Utf8, Leaf ''Int64'', Leaf ''Float64''} | _ \<Rightarrow> True"
    using assms(1) column_index_coerente(2) [OF assms(1,3)] by (auto simp: batch_coerente_def list_all_iff)
  then show ?thesis
    using k by (cases "b_colonne b ! i") (auto simp: column_formula_type_def results)
qed

lemma emit_ops_tipo:
  assumes "batch_coerente b"
  shows "emit_ops e b st = Some (numeric, st') \<Longrightarrow> infer_expr_type (tipo_di_colonna env b) e = Inr kind \<Longrightarrow>
     numeric = (kind = TNumber)"
proof (induction e arbitrary: st st' numeric kind)
  case (FColumn name)
  then obtain i where i: "column_index (b_schema b) name = Inr i" using tipo_di_colonna_Inr by fastforce
  then obtain c where c: "fast_column_of (b_colonne b ! i) = Some c" "numeric = is_numeric c"
    using FColumn.prems(1) by (auto split: option.splits)
  then show ?case using tipo_della_colonna [OF assms _ i] FColumn.prems(2) by simp
next
  case (FNeg e)
  then obtain st1 k where "emit_ops e b st = Some (numeric, st1)" "infer_expr_type (tipo_di_colonna env b) e = Inr k"
      "k = TNumber" "kind = TNumber"
    by (auto simp: try_bind_Inr_iff split: option.splits formula_type.splits)
  then show ?case using FNeg.IH by blast
next
  case (FBinary l c r)
  obtain ln st1 rn st2 f where 1: "emit_ops l b st = Some (ln, st1)" "emit_ops r b st1 = Some (rn, st2)"
      "fast_operator c = Some f" "numeric = (ln \<and> rn)"
    using FBinary.prems(1) by (auto split: option.splits)
  obtain lk rk where 2: "infer_expr_type (tipo_di_colonna env b) l = Inr lk"
      "infer_expr_type (tipo_di_colonna env b) r = Inr rk" "tipo_binario lk c rk = Inr kind"
    using FBinary.prems(2) by (auto simp: try_bind_Inr_iff)
  have "ln = (lk = TNumber)" "rn = (rk = TNumber)"
    using FBinary.IH(1) [OF 1(1) 2(1)] FBinary.IH(2) [OF 1(2) 2(2)] by blast+
  then show ?case using 1(4) 2(3) by (auto simp: tipo_binario_def split: if_splits)
qed auto

definition di_tipo :: "formula_type \<Rightarrow> evaluated \<Rightarrow> bool" where
  "di_tipo kind v \<longleftrightarrow> (case v of ENull \<Rightarrow> True | ENumber _ \<Rightarrow> kind = TNumber | EText _ \<Rightarrow> kind = TText)"

lemma valore_cella_tipo:
  assumes "valore_cella colonna row = Inr v"
  shows "di_tipo (if \<exists>c. fast_column_of colonna = Some c \<and> is_numeric c then TNumber else TText) v"
  using assms by (cases colonna) (auto simp: valore_cella_def di_tipo_def map_ok_Inr_iff split: if_splits)

lemma binario_tipo:
  assumes "di_tipo lk l" "di_tipo rk r" "tipo_binario lk c rk = Inr kind" "binario env c l r = Inr v"
  shows "di_tipo kind v"
  using assms
  by (cases l; cases r) (auto simp: di_tipo_def tipo_binario_def map_ok_Inr_iff split: if_splits)

lemma evaluate_tipo:
  assumes "batch_coerente b"
  shows "infer_expr_type (tipo_di_colonna env b) e = Inr kind \<Longrightarrow> evaluate env b row e = Inr v \<Longrightarrow> di_tipo kind v"
proof (induction e arbitrary: kind v)
  case (FColumn name)
  then obtain i where i: "column_index (b_schema b) name = Inr i" "valore_cella (b_colonne b ! i) row = Inr v"
    by (auto simp: try_bind_Inr_iff)
  have "kind = (if \<exists>c. fast_column_of (b_colonne b ! i) = Some c \<and> is_numeric c then TNumber else TText)"
    using tipo_della_colonna [OF assms _ i(1)] FColumn.prems(1) by (cases kind) auto
  then show ?case using valore_cella_tipo [OF i(2)] by simp
next
  case (FNeg e)
  obtain w k where w: "evaluate env b row e = Inr w" "infer_expr_type (tipo_di_colonna env b) e = Inr k"
    using FNeg.prems by (auto simp: try_bind_Inr_iff)
  then have "kind = TNumber" "k = TNumber" using FNeg.prems(1) by (cases k; simp)+
  then show ?case using FNeg.IH [OF w(2,1)] FNeg.prems(2) w(1) by (cases w) (auto simp: di_tipo_def)
next
  case (FBinary l c r)
  obtain lk rk lv rv where "infer_expr_type (tipo_di_colonna env b) l = Inr lk" "evaluate env b row l = Inr lv"
      "infer_expr_type (tipo_di_colonna env b) r = Inr rk" "evaluate env b row r = Inr rv"
      and t: "tipo_binario lk c rk = Inr kind" "binario env c lv rv = Inr v"
    using FBinary.prems by (auto simp: try_bind_Inr_iff)
  then have "di_tipo lk lv" "di_tipo rk rv" using FBinary.IH by blast+
  then show ?case using t by (rule binario_tipo)
qed (auto simp: di_tipo_def)

section \<open>The loop over the rows\<close>

lemma raccogli_map:
  assumes "\<And>row. valuta' row = map_ok f (valuta row)" and "\<And>row v. valuta row = Inr v \<Longrightarrow> testo' (f v) = testo_di v"
  shows "try_fold (raccogli testo' (f vuoto) valuta') (es, map f vs, rj) rs =
     map_ok (\<lambda>(es, vs, rj). (es, map f vs, rj)) (try_fold (raccogli testo_di vuoto valuta) (es, vs, rj) rs)"
proof (induction rs arbitrary: es vs rj)
  case (Cons row rs)
  let ?g = "\<lambda>(es, vs, rj). (es, map f vs, rj)"
  have "raccogli testo' (f vuoto) valuta' (es, map f vs, rj) row =
      map_ok ?g (raccogli testo_di vuoto valuta (es, vs, rj) row)"
  proof (cases "valuta row")
    case (Inl err)
    then show ?thesis
      by (cases "nulla_su_zero err es") (auto simp: raccogli_def assms(1) map_ok_def split: option.split)
  next
    case (Inr v)
    then show ?thesis
      using assms(2) [OF Inr]
      by (cases "testo_di v"; cases "verifica_testo es (the (testo_di v))") (simp_all add: raccogli_def assms(1) map_ok_def)
  qed
  then show ?case
    by (cases "raccogli testo_di vuoto valuta (es, vs, rj) row") (auto simp: Cons.IH map_ok_def)
qed (simp add: map_ok_def)

lemma righe_valutate_map:
  assumes "\<And>row. valuta' row = map_ok f (valuta row)" and "\<And>row v. valuta row = Inr v \<Longrightarrow> testo' (f v) = testo_di v"
  shows "righe_valutate testo' (f vuoto) valuta' es n =
     map_ok (\<lambda>(es, vs). (es, map f vs)) (righe_valutate testo_di vuoto valuta es n)"
proof -
  have *: "try_fold (raccogli testo' (f vuoto) valuta') (es, [], []) [0..<n] =
      map_ok (\<lambda>(es, vs, rj). (es, map f vs, rj)) (try_fold (raccogli testo_di vuoto valuta) (es, [], []) [0..<n])"
    using raccogli_map [of valuta' f valuta testo' testo_di vuoto es "[]" "[]"] assms by simp
  show ?thesis
  proof (cases "try_fold (raccogli testo_di vuoto valuta) (es, [], []) [0..<n]")
    case (Inr st)
    obtain es' vs rj where "st = (es', vs, rj)" by (cases st)
    then show ?thesis
      using * Inr by (cases "reject_rows rj MESSAGGIO_RIFIUTI") (simp_all add: righe_valutate_def map_ok_def)
  qed (use * in \<open>simp add: righe_valutate_def map_ok_def\<close>)
qed

lemma righe_valutate_valori:
  assumes "righe_valutate testo_di vuoto valuta es n = Inr (es', vs)"
  shows "\<forall>v \<in> set vs. v = vuoto \<or> (\<exists>row. valuta row = Inr v)"
proof -
  obtain rj where *: "try_fold (raccogli testo_di vuoto valuta) (es, [], []) [0..<n] = Inr (es', vs, rj)"
    using assms by (auto simp: righe_valutate_def try_bind_Inr_iff map_ok_Inr_iff)
  define P where "P v \<longleftrightarrow> v = vuoto \<or> (\<exists>row. valuta row = Inr v)" for v
  have P: "P vuoto" "\<And>row v. valuta row = Inr v \<Longrightarrow> P v" by (auto simp: P_def)
  have "case (es', vs, rj) of (_, vs, _) \<Rightarrow> list_all P vs"
    by (rule try_fold_invariant [OF *])
      (auto simp: raccogli_def try_bind_Inr_iff map_ok_Inr_iff P split: sum.splits if_splits option.splits)
  then show ?thesis by (simp add: P_def list_all_iff)
qed

text \<open>What a row gives: a value, a null for a division by zero that the policy nulls, or a rejection.\<close>

definition riga_nulla :: "on_division_by_zero \<Rightarrow> evaluated result \<Rightarrow> bool" where
  "riga_nulla d r \<longleftrightarrow> d = DivNull \<and> (case r of Inl err \<Rightarrow> e_divisione_per_zero err | Inr _ \<Rightarrow> False)"

definition riga_buona :: "on_division_by_zero \<Rightarrow> kernel_limits \<Rightarrow> evaluated result \<Rightarrow> bool" where
  "riga_buona d limits r \<longleftrightarrow>
     (case r of
        Inl _ \<Rightarrow> riga_nulla d r
      | Inr v \<Rightarrow> (case v of EText s \<Rightarrow> length s \<le> kl_max_string_bytes limits | _ \<Rightarrow> True))"

definition cella_di :: "evaluated result \<Rightarrow> evaluated" where
  "cella_di r = (case r of Inl _ \<Rightarrow> ENull | Inr v \<Rightarrow> v)"

definition numero_di :: "evaluated \<Rightarrow> f64 option" where
  "numero_di v = (case v of ENumber x \<Rightarrow> Some x | _ \<Rightarrow> None)"

definition formula_array :: "formula_type \<Rightarrow> evaluated list \<Rightarrow> array" where
  "formula_array kind vs =
     (case kind of TNumber \<Rightarrow> float64_array (map numero_di vs) | TText \<Rightarrow> string_array (map testo_valutato vs))"

lemma raccogli_Inr:
  assumes "es_effetti es = of_nat k" and "Suc k < 2 ^ 64"
  shows "raccogli testo_valutato ENull valuta (es, vs, rj) row = Inr (es', vs', []) \<longleftrightarrow>
     rj = [] \<and> riga_buona (es_divisione es) (es_limits es) (valuta row) \<and> vs' = vs @ [cella_di (valuta row)]
     \<and> es' = es\<lparr>es_effetti := of_nat (if riga_nulla (es_divisione es) (valuta row) then Suc k else k)\<rparr>"
proof (cases "valuta row")
  case (Inl err)
  have "unat (word_of_nat k :: u64) = k" "unat (word_of_nat (Suc k) :: u64) = Suc k"
    using assms(2) by (simp_all add: unat_of_nat take_bit_nat_eq_self del: of_nat_Suc)
  then have "checked_add (es_effetti es) 1 = Some (of_nat (Suc k))"
    using assms(1) by (simp add: checked_add_Some_iff del: of_nat_Suc)
  then show ?thesis
    using Inl assms(1)
    by (auto simp: raccogli_def nulla_su_zero_def conta_divisione_per_zero_def riga_buona_def riga_nulla_def cella_di_def
        map_ok_def split: option.splits)
next
  case (Inr v)
  then show ?thesis
    using assms(1)
    by (cases v)
      (auto simp: raccogli_def riga_buona_def riga_nulla_def cella_di_def verifica_testo_def verifica_testo_prodotto_def
        map_ok_def)
qed

lemma raccogli_resto:
  "raccogli testo_di vuoto valuta (es, vs, rj) row = Inr (es', vs', []) \<Longrightarrow> rj = []"
  by (auto simp: raccogli_def try_bind_Inr_iff map_ok_Inr_iff split: sum.splits if_splits option.splits)

lemma righe_raccolte:
  assumes "es_effetti es = 0" and "n < 2 ^ 64"
  shows "try_fold (raccogli testo_valutato ENull valuta) (es, [], []) [0..<n] = Inr (es', vs, []) \<longleftrightarrow>
     (\<forall>row < n. riga_buona (es_divisione es) (es_limits es) (valuta row)) \<and> vs = map (\<lambda>row. cella_di (valuta row)) [0..<n]
     \<and> es' = es\<lparr>es_effetti := of_nat (length (filter (\<lambda>row. riga_nulla (es_divisione es) (valuta row)) [0..<n]))\<rparr>"
  using assms(2)
proof (induction n arbitrary: es' vs)
  case 0
  then show ?case using assms(1) by auto
next
  case (Suc n)
  let ?k = "length (filter (\<lambda>row. riga_nulla (es_divisione es) (valuta row)) [0..<n])"
  let ?es = "es\<lparr>es_effetti := of_nat ?k\<rparr>"
  have k: "Suc ?k < 2 ^ 64"
    using Suc.prems length_filter_le [of "\<lambda>row. riga_nulla (es_divisione es) (valuta row)" "[0..<n]"] by simp
  have "try_fold (raccogli testo_valutato ENull valuta) (es, [], []) [0..<Suc n] = Inr (es', vs, []) \<longleftrightarrow>
      (\<exists>es1 vs1. try_fold (raccogli testo_valutato ENull valuta) (es, [], []) [0..<n] = Inr (es1, vs1, [])
        \<and> raccogli testo_valutato ENull valuta (es1, vs1, []) n = Inr (es', vs, []))"
    by (auto simp: try_fold_snoc_Inr dest: raccogli_resto)
  also have "\<dots> \<longleftrightarrow> (\<forall>row < n. riga_buona (es_divisione es) (es_limits es) (valuta row))
      \<and> raccogli testo_valutato ENull valuta (?es, map (\<lambda>row. cella_di (valuta row)) [0..<n], []) n = Inr (es', vs, [])"
    using Suc.IH Suc.prems by auto
  also have "\<dots> \<longleftrightarrow> (\<forall>row < Suc n. riga_buona (es_divisione es) (es_limits es) (valuta row))
      \<and> vs = map (\<lambda>row. cella_di (valuta row)) [0..<Suc n]
      \<and> es' = ?es\<lparr>es_effetti := of_nat (if riga_nulla (es_divisione es) (valuta n) then Suc ?k else ?k)\<rparr>"
    using raccogli_Inr [of ?es ?k valuta "map (\<lambda>row. cella_di (valuta row)) [0..<n]" "[]" n es' vs] k
    by (auto simp: less_Suc_eq simp del: of_nat_Suc)
  finally show ?case by (cases "riga_nulla (es_divisione es) (valuta n)") (simp_all del: of_nat_Suc)
qed

lemma reject_rows_Inr: "reject_rows rj m = Inr () \<longleftrightarrow> rj = []"
  by (auto simp: reject_rows_def Let_def try_bind_Inr_iff split: prod.splits)

lemma righe_valutate_exact:
  assumes "es_effetti es = 0" and "n < 2 ^ 64"
  shows "righe_valutate testo_valutato ENull valuta es n = Inr (es', vs) \<longleftrightarrow>
     (\<forall>row < n. riga_buona (es_divisione es) (es_limits es) (valuta row)) \<and> vs = map (\<lambda>row. cella_di (valuta row)) [0..<n]
     \<and> es' = es\<lparr>es_effetti := of_nat (length (filter (\<lambda>row. riga_nulla (es_divisione es) (valuta row)) [0..<n]))\<rparr>"
proof -
  have "righe_valutate testo_valutato ENull valuta es n = Inr (es', vs) \<longleftrightarrow>
      try_fold (raccogli testo_valutato ENull valuta) (es, [], []) [0..<n] = Inr (es', vs, [])"
    by (auto simp: righe_valutate_def try_bind_Inr_iff map_ok_Inr_iff reject_rows_Inr)
  then show ?thesis using righe_raccolte [OF assms] by simp
qed

section \<open>The fast path and the interpreter\<close>

lemma compile_formula_Some:
  assumes "compile_formula e b = Some p"
  obtains numeric st where "emit_ops e b (\<lparr>fp_ops = [], fp_depth = 0, fp_numeric = True\<rparr>, 0) = Some (numeric, st)"
    and "fp_ops p = fp_ops (fst st)" and "fp_numeric p = numeric"
  using assms by (auto simp: compile_formula_def split: option.splits)

lemma eval_slot_row_evaluate:
  assumes "compile_formula e b = Some p" and "infer_expr_type (tipo_di_colonna env b) e = Inr kind"
  shows "eval_slot_row env p row = map_ok slot_di (evaluate env b row e)"
proof -
  obtain numeric st where st: "emit_ops e b (\<lparr>fp_ops = [], fp_depth = 0, fp_numeric = True\<rparr>, 0) = Some (numeric, st)"
      "fp_ops p = fp_ops (fst st)" using compile_formula_Some [OF assms(1)] by metis
  have "try_fold (passo_slot env row) [] (fp_ops p) = map_ok (\<lambda>v. [slot_di v]) (evaluate env b row e)"
    using emit_ops_slots [OF st(1) assms(2), of row] st(2) by auto
  then show ?thesis
    by (cases "evaluate env b row e") (simp_all add: eval_slot_row_def map_ok_def risultato_dello_stack_def)
qed

lemma eval_numeric_row_evaluate:
  assumes "compile_formula e b = Some p" and "fp_numeric p"
  shows "map_ok (\<lambda>(v, null). if null then None else Some v) (eval_numeric_row p row) = map_ok numero_di (evaluate env b row e)"
proof -
  obtain st where st: "emit_ops e b (\<lparr>fp_ops = [], fp_depth = 0, fp_numeric = True\<rparr>, 0) = Some (True, st)"
      "fp_ops p = fp_ops (fst st)" using compile_formula_Some [OF assms(1)] assms(2) by metis
  have *: "numerico_come (try_fold (passo_numerico row) [] (fp_ops p)) [] (evaluate env b row e)"
    using emit_ops_numerico [OF st(1), of row env] st(2) by auto
  show ?thesis
  proof (cases "evaluate env b row e")
    case (Inr v)
    then obtain x n where "try_fold (passo_numerico row) [] (fp_ops p) = Inr [(x, n)]" "v = valore_numerico (x, n)"
      using * by (auto simp: numerico_come_def)
    then show ?thesis
      using Inr by (simp add: eval_numeric_row_def risultato_dello_stack_def map_ok_def numero_di_def)
  qed (use * in \<open>simp add: numerico_come_def eval_numeric_row_def map_ok_def\<close>)
qed

lemma slot_di_values:
  "try_map numero_slot (map slot_di vs) = try_map numero_valutato vs"
  "try_map solo_testo_slot (map slot_di vs) = try_map solo_testo_valutato vs"
proof -
  have "numero_slot (slot_di v) = numero_valutato v" "solo_testo_slot (slot_di v) = solo_testo_valutato v" for v
    by (cases v; simp)+
  then show "try_map numero_slot (map slot_di vs) = try_map numero_valutato vs"
    "try_map solo_testo_slot (map slot_di vs) = try_map solo_testo_valutato vs"
    by (induction vs) (simp_all split: sum.split)
qed

text \<open>Values of the static type become the column that the type declares.\<close>

lemma numeri_di_tipo:
  assumes "\<forall>v \<in> set vs. di_tipo TNumber v"
  shows "try_map numero_valutato vs = Inr (map numero_di vs)"
proof (rule try_map_ok)
  fix v assume "v \<in> set vs"
  with assms have "di_tipo TNumber v" by blast
  then show "numero_valutato v = Inr (numero_di v)" by (cases v) (simp_all add: di_tipo_def numero_di_def)
qed

lemma testi_di_tipo:
  assumes "\<forall>v \<in> set vs. di_tipo TText v"
  shows "try_map solo_testo_valutato vs = Inr (map testo_valutato vs)"
proof (rule try_map_ok)
  fix v assume "v \<in> set vs"
  with assms have "di_tipo TText v" by blast
  then show "solo_testo_valutato v = Inr (testo_valutato v)" by (cases v) (simp_all add: di_tipo_def)
qed

lemma righe_di_tipo:
  assumes "batch_coerente b" and "infer_expr_type (tipo_di_colonna env b) e = Inr kind"
    and "righe_valutate testo_valutato ENull (\<lambda>row. evaluate env b row e) es n = Inr (es', vs)"
  shows "\<forall>v \<in> set vs. di_tipo kind v"
  using righe_valutate_valori [OF assms(3)] evaluate_tipo [OF assms(1,2)] by (auto simp: di_tipo_def)

lemma run_slots_generic:
  assumes "compile_formula e b = Some p" and "infer_expr_type (tipo_di_colonna env b) e = Inr kind"
  shows "run_slots env p b config kind es = formula_generic env b config e kind es"
proof -
  have t: "testo_slot (slot_di v) = testo_valutato v" for v by (cases v) simp_all
  have "righe_valutate testo_slot SNull (eval_slot_row env p) es (b_righe b) = map_ok (\<lambda>(es, vs). (es, map slot_di vs))
      (righe_valutate testo_valutato ENull (\<lambda>row. evaluate env b row e) es (b_righe b))"
    using righe_valutate_map [of "eval_slot_row env p" slot_di "\<lambda>row. evaluate env b row e" testo_slot testo_valutato ENull]
      eval_slot_row_evaluate [OF assms] t by simp
  then show ?thesis
    by (cases "righe_valutate testo_valutato ENull (\<lambda>row. evaluate env b row e) es (b_righe b)")
      (auto simp: run_slots_def formula_generic_def map_ok_def slot_di_values)
qed

lemma run_numeric_generic:
  assumes "batch_coerente b" and "infer_expr_type (tipo_di_colonna env b) e = Inr TNumber"
    and "compile_formula e b = Some p" and "fp_numeric p"
  shows "run_numeric env p b config es = formula_generic env b config e TNumber es"
proof -
  let ?R = "righe_valutate testo_valutato ENull (\<lambda>row. evaluate env b row e) es (b_righe b)"
  have "testo_valutato v = None" if "evaluate env b row e = Inr v" for row v
    using evaluate_tipo [OF assms(1,2) that] by (cases v) (auto simp: di_tipo_def)
  moreover have "None = numero_di ENull" by (simp add: numero_di_def)
  ultimately have *: "righe_valutate (\<lambda>_. None) None
      (\<lambda>row. map_ok (\<lambda>(v, null). if null then None else Some v) (eval_numeric_row p row)) es (b_righe b) =
      map_ok (\<lambda>(es, vs). (es, map numero_di vs)) ?R"
    using righe_valutate_map [of "\<lambda>row. map_ok (\<lambda>(v, null). if null then None else Some v) (eval_numeric_row p row)"
        numero_di "\<lambda>row. evaluate env b row e" "\<lambda>_. None" testo_valutato ENull]
      eval_numeric_row_evaluate [OF assms(3,4)] by simp
  show ?thesis
  proof (cases ?R)
    case (Inr r)
    obtain es' vs where r: "r = (es', vs)" by (cases r)
    have "try_map numero_valutato vs = Inr (map numero_di vs)"
      using righe_di_tipo [OF assms(1,2)] Inr r by (blast intro: numeri_di_tipo)
    then show ?thesis using * Inr r by (simp add: run_numeric_def formula_generic_def map_ok_def)
  qed (use * in \<open>simp add: run_numeric_def formula_generic_def map_ok_def\<close>)
qed

lemma compile_formula_numeric:
  assumes "batch_coerente b" and "infer_expr_type (tipo_di_colonna env b) e = Inr kind" and "compile_formula e b = Some p"
  shows "fp_numeric p = (kind = TNumber)"
  using compile_formula_Some [OF assms(3)] emit_ops_tipo [OF assms(1) _ assms(2)] by metis

lemma esegui_formula_generic:
  assumes "batch_coerente b" and "infer_expr_type (tipo_di_colonna env b) e = Inr kind"
  shows "esegui_formula env b config e kind es = formula_generic env b config e kind es"
proof -
  have "run_program env p b config kind es = formula_generic env b config e kind es" if "compile_formula e b = Some p" for p
    using compile_formula_numeric [OF assms that] run_slots_generic [OF that assms(2)] run_numeric_generic [OF assms(1) _ that]
      assms(2)
    by (simp add: run_program_def)
  then show ?thesis by (simp add: esegui_formula_def split: option.split)
qed

text \<open>C37. The fast path of \<open>table.formula\<close> is the interpreter: on a batch of Arrow and a formula that its schema
  types, the postfix program that the tree compiles to, on the numeric machine or on the general one, gives the same
  batch, the same effects and the same errors, rejected rows included, as the evaluation of the tree row by row; and the
  numeric machine is taken exactly for the formulas of static type Number.\<close>

theorem compiled_formula_exact:
  assumes "batch_coerente b" and "infer_expr_type (tipo_di_colonna env b) e = Inr kind"
  shows "esegui_formula env b config e kind es = formula_generic env b config e kind es
    \<and> (\<forall>p. compile_formula e b = Some p \<longrightarrow> fp_numeric p = (kind = TNumber))"
  using esegui_formula_generic [OF assms] compile_formula_numeric [OF assms] by blast

lemma formula_generic_Inr:
  assumes "batch_coerente b" and "infer_expr_type (tipo_di_colonna env b) e = Inr kind"
    and "b_righe b < 2 ^ 64" and "es_effetti es = 0"
  shows "formula_generic env b config e kind es = Inr (u, es') \<longleftrightarrow>
     (\<forall>row < b_righe b. riga_buona (es_divisione es) (es_limits es) (evaluate env b row e))
     \<and> es' = es\<lparr>es_effetti := of_nat (length (filter (\<lambda>row. riga_nulla (es_divisione es) (evaluate env b row e)) [0..<b_righe b]))\<rparr>
     \<and> replace_or_append env b (fc_new_column config) (formula_data_type kind) True
         (formula_array kind (map (\<lambda>row. cella_di (evaluate env b row e)) [0..<b_righe b])) = Inr u"
proof -
  let ?R = "righe_valutate testo_valutato ENull (\<lambda>row. evaluate env b row e) es (b_righe b)"
  have "formula_generic env b config e kind es = Inr (u, es') \<longleftrightarrow>
      (\<exists>vs. ?R = Inr (es', vs) \<and> replace_or_append env b (fc_new_column config) (formula_data_type kind) True
         (formula_array kind vs) = Inr u)"
  proof (cases ?R)
    case (Inr r)
    obtain es1 vs where r: "r = (es1, vs)" by (cases r)
    have t: "\<forall>v \<in> set vs. di_tipo kind v" using righe_di_tipo [OF assms(1,2)] Inr r by blast
    show ?thesis
      using Inr r t
      by (cases kind)
        (auto simp: formula_generic_def numeri_di_tipo testi_di_tipo colonna_numerica_def colonna_testuale_def
          formula_array_def map_ok_Inr_iff)
  qed (simp add: formula_generic_def)
  then show ?thesis using righe_valutate_exact [OF assms(4,3)] by auto
qed

text \<open>C38. On an Arrow batch, \<open>table.formula\<close> succeeds exactly when the geometry is supported, the formula parses,
  divides if it sets a zero policy, has a static type, no row is refused and \<open>replace_or_append\<close> takes its column: the
  row values, null for a nulled zero division, and those are counted.\<close>

theorem formula_column_exact:
  assumes "batch_coerente b" and "b_righe b < 2 ^ 64"
  shows "formula_con_effetti env b config limits = Some (Inr (u, n)) \<longleftrightarrow>
    (\<exists>e kind. require_geometry_support (b_schema b) = Inr () \<and> parse_formula (fc_formula config) = Some (Inr e)
      \<and> (fc_on_division_by_zero config = None \<or> contiene_divisione e)
      \<and> infer_expr_type (tipo_di_colonna env b) e = Inr kind
      \<and> (\<forall>row < b_righe b. riga_buona (divisione_per_zero config) limits (evaluate env b row e))
      \<and> replace_or_append env b (fc_new_column config) (formula_data_type kind) True
           (formula_array kind (map (\<lambda>row. cella_di (evaluate env b row e)) [0..<b_righe b])) = Inr u
      \<and> n = of_nat (length (filter (\<lambda>row. riga_nulla (divisione_per_zero config) (evaluate env b row e)) [0..<b_righe b])))"
proof -
  let ?es = "esecuzione_nuova config limits"
  have es: "es_effetti ?es = 0" "es_divisione ?es = divisione_per_zero config" "es_limits ?es = limits"
    by (simp_all add: esecuzione_nuova_def)
  have esegui: "esegui_formula env b config e kind ?es = formula_generic env b config e kind ?es"
    if "infer_expr_type (tipo_di_colonna env b) e = Inr kind" for e kind
    using esegui_formula_generic [OF assms(1) that] .
  have "verifica_divisione config e = Inr () \<longleftrightarrow> fc_on_division_by_zero config = None \<or> contiene_divisione e" for e
    by (auto simp: verifica_divisione_def)
  moreover have "map_ok (\<lambda>(u, es). (u, es_effetti es)) (formula_generic env b config e kind ?es) = Inr (u, n) \<longleftrightarrow>
      (\<forall>row < b_righe b. riga_buona (divisione_per_zero config) limits (evaluate env b row e))
      \<and> replace_or_append env b (fc_new_column config) (formula_data_type kind) True
           (formula_array kind (map (\<lambda>row. cella_di (evaluate env b row e)) [0..<b_righe b])) = Inr u
      \<and> n = of_nat (length (filter (\<lambda>row. riga_nulla (divisione_per_zero config) (evaluate env b row e)) [0..<b_righe b]))"
    if "infer_expr_type (tipo_di_colonna env b) e = Inr kind" for e kind
    using formula_generic_Inr [OF assms(1) that assms(2) es(1)] es by (auto simp: map_ok_Inr_iff)
  ultimately show ?thesis
    using esegui
    by (auto simp: formula_con_effetti_def valuta_formula_def try_bind_Inr_iff split: sum.splits)
qed

section \<open>A formula that divides\<close>

definition campi_di_prova :: "field list" where
  "campi_di_prova = [Field ''a'' (Leaf ''Float64'') True [], Field ''b'' (Leaf ''Float64'') True []]"

definition batch_di_prova :: batch where
  "batch_di_prova = \<lparr>b_schema = \<lparr>s_campi = campi_di_prova, s_metadati = []\<rparr>,
     b_colonne = [Float64Array [(0x4014000000000000, False), (0, True)], Float64Array [(0, False), (0, False)]],
     b_righe = 2\<rparr>"

definition env_di_prova :: kernel_env where
  "env_di_prova = \<lparr>ke_mostra = (\<lambda>_. ''x''), ke_testo = (\<lambda>_ _. Inr ()), ke_arrow = (\<lambda>_ _ _. None)\<rparr>"

definition formula_di_prova :: formula_config where
  "formula_di_prova = \<lparr>fc_new_column = ''c'', fc_formula = ''a / b'', fc_on_division_by_zero = None\<rparr>"

definition divisione_di_prova :: formula_expr where
  "divisione_di_prova = FBinary (FColumn ''a'') CHR ''/'' (FColumn ''b'')"

lemma prova_coerente: "batch_coerente batch_di_prova" "b_righe batch_di_prova < 2 ^ 64"
proof -
  show "batch_coerente batch_di_prova" by code_simp
  show "b_righe batch_di_prova < 2 ^ 64" by (simp add: batch_di_prova_def)
qed

lemma prova_tipo: "infer_expr_type (tipo_di_colonna env_di_prova batch_di_prova) divisione_di_prova = Inr TNumber"
  by code_simp

lemma poi_valori:
  "FormulaParse.poi (Some (Inr (e, s))) f = f e s" "FormulaParse.poi (Some (Inl err)) f = Some (Inl err)"
  by (simp_all add: FormulaParse.poi_def)

lemma poi_cong: "r = r' \<Longrightarrow> FormulaParse.poi r f = FormulaParse.poi r' f"
  by simp

lemma prova_lessico:
  "skip_space ''a / b'' = ''a / b''" "skip_space '' / b'' = ''/ b''" "skip_space '' b'' = ''b''" "skip_space [] = []"
  "foglia 5 CHR ''a'' '' / b'' = Inr (FColumn ''a'', '' / b'')" "foglia 5 CHR ''b'' [] = Inr (FColumn ''b'', [])"
  "reject_literal_zero_divisor (FBinary (FColumn ''a'') CHR ''/'' (FColumn ''b'')) = Inr ()"
  by code_simp+

lemma prova_metodo:
  "metodo_parser 5 MExpression ''a / b'' = Some (Inr (FBinary (FColumn ''a'') CHR ''/'' (FColumn ''b''), []))"
  by (simp add: metodo_parser.simps poi_valori prova_lessico cong: poi_cong)

lemma prova_parse: "parse_formula (fc_formula formula_di_prova) = Some (Inr divisione_di_prova)"
proof -
  have lunga: "length ''a / b'' = 5" by simp
  show ?thesis
    by (simp add: parse_formula_def formula_di_prova_def divisione_di_prova_def lunga prova_metodo prova_lessico
        del: list.size)
qed

lemma prova_geometria: "require_geometry_support (b_schema batch_di_prova) = Inr ()"
  by code_simp

lemma prova_righe:
  "evaluate env_di_prova batch_di_prova 0 divisione_di_prova = Inl (Schema DIVISION_BY_ZERO_MESSAGE)"
  "evaluate env_di_prova batch_di_prova 1 divisione_di_prova = Inr ENull"
  by code_simp+

lemma prova_colonna:
  "map_ok b_colonne (replace_or_append env_di_prova batch_di_prova ''c'' (Leaf ''Float64'') True
     (Float64Array [(0, True), (0, True)])) = Inr (b_colonne batch_di_prova @ [Float64Array [(0, True), (0, True)]])"
  by code_simp

lemma prova_compilata: "\<exists>p. compile_formula divisione_di_prova batch_di_prova = Some p"
proof -
  have "\<not> Option.is_none (compile_formula divisione_di_prova batch_di_prova)" by code_simp
  then show ?thesis by (simp add: Option.is_none_def)
qed

theorem compiled_formula_exact_witness:
  "(\<exists>p. compile_formula divisione_di_prova batch_di_prova = Some p \<and> fp_numeric p)
   \<and> esegui_formula env_di_prova batch_di_prova formula_di_prova divisione_di_prova TNumber
        (esecuzione_nuova formula_di_prova limits_dei_kernel_default) =
      formula_generic env_di_prova batch_di_prova formula_di_prova divisione_di_prova TNumber
        (esecuzione_nuova formula_di_prova limits_dei_kernel_default)"
  using compiled_formula_exact [OF prova_coerente(1) prova_tipo] prova_compilata by blast

theorem formula_column_exact_witness:
  "\<exists>u. formula_con_effetti env_di_prova batch_di_prova formula_di_prova limits_dei_kernel_default = Some (Inr (u, 1))
     \<and> b_colonne u = b_colonne batch_di_prova @ [Float64Array [(0, True), (0, True)]]"
proof -
  obtain u where u: "replace_or_append env_di_prova batch_di_prova ''c'' (Leaf ''Float64'') True
      (Float64Array [(0, True), (0, True)]) = Inr u" "b_colonne u = b_colonne batch_di_prova @ [Float64Array [(0, True), (0, True)]]"
    using prova_colonna by (auto simp: map_ok_Inr_iff)
  have n: "b_righe batch_di_prova = 2" by (simp add: batch_di_prova_def)
  have "formula_con_effetti env_di_prova batch_di_prova formula_di_prova limits_dei_kernel_default = Some (Inr (u, 1))"
    unfolding formula_column_exact [OF prova_coerente] n
    using prova_geometria prova_parse prova_tipo prova_righe u(1)
    by (intro exI [of _ divisione_di_prova] exI [of _ TNumber])
      (auto simp: less_Suc_eq numeral_2_eq_2 riga_buona_def riga_nulla_def cella_di_def formula_array_def float64_array_def
        numero_di_def formula_di_prova_def divisione_per_zero_def)
  then show ?thesis using u(2) by blast
qed

end
