(* ===== verification/Spec2Isabelle.thy ===== *)
theory Spec2Isabelle
  imports CostData Memory Runner ExactCompare Publication GeoParquetScan Reprojection Formula
begin

text \<open>
  A verification development for plenora-data-tools.

  The program is a Rust workspace that runs pipelines of operations on Arrow tables.  A plan (JSON) names its inputs,
  its steps and its outputs; \<open>crates/plenora-pipeline\<close> validates it against the schemas of the inputs and runs it;
  \<open>crates/plenora-kernels-table\<close> and \<open>crates/plenora-kernels-geo\<close> hold the operations; \<open>crates/plenora-core\<close> holds what
  they share: errors, limits, the catalogue, the data contracts of the tables and the reference systems;
  \<open>crates/plenora-io\<close> reads and writes files.  The validation gives every step a contract, the names it reads and the
  provenance of its rows; the runner loads the tables, refuses a step whose predicted memory does not fit, calls the
  kernel, accounts the live bytes of what it returns and frees what no later step reads.

  \<^bold>\<open>Conventions.\<close>  \<open>Prelude\<close>: Rust's \<open>Result\<close> is the sum type, \<open>Inl\<close> the error, with \<open>try_bind\<close> for \<open>?\<close>, \<open>try_fold\<close> and
  \<open>try_map\<close> for loops that return early (\<open>Loops\<close> for counted ones) and the collection \<open>results\<close> that inverts them.
  Integers of a fixed width are words, with the checked and saturating operations of Rust; \<open>usize\<close> is \<open>nat\<close>, with its bound
  an argument where the code meets it.  A text is the list of its UTF-8 bytes (\<open>Strings\<close>).  A double is its 64 bits
  (\<open>Floats\<close>, with the arithmetic defined by exact rationals and one rounding).  A \<open>BTreeMap\<close> is a sorted association
  list (\<open>BTree\<close>, whose locale \<open>map_ops\<close> states the laws of a map and is interpreted on it).  \<open>Ordering\<close> has the three-way
  comparisons.  Messages are those of the code.

  \<^bold>\<open>Core.\<close>
  \<^item> \<open>Diagnostics\<close> (\<open>diagnostics.rs\<close>): the payload of the rejected rows and its validator, block by block; a payload
    that passes is coherent, and removing the attribution of its rows keeps it valid.
  \<^item> \<open>Errors\<close> (\<open>error.rs\<close>, \<open>error/pubblico.rs\<close>): the variants, the wrappers, and the four public axes; an error
    never offers an automatic retry over an effect that may be visible.
  \<^item> \<open>RunLimits\<close> (\<open>limits.rs\<close>): the limits and the guard on the expansion of rows, exact for every double.
  \<^item> \<open>Catalog\<close>, \<open>CatalogData\<close> (\<open>catalog.rs\<close>, \<open>catalog_op.rs\<close>): descriptors, decisions and the entries one by one; the
    look-ups are exact.
  \<^item> \<open>Memory\<close> (\<open>memoria.rs\<close>): the live bytes of tables.  The locale \<open>contatore\<close> is what the runner needs of a measure.
  \<^item> \<open>ContractTypes\<close>, \<open>FieldIds\<close>, \<open>Contract\<close>, \<open>Publication\<close> (\<open>contract.rs\<close>, \<open>contract/arrow_schema.rs\<close>,
    \<open>contract/arrow_metadata.rs\<close>): the vocabularies, the allocator of identities (a step relation over all its
    operations, and the locale \<open>fresh_source\<close> for any source of identities), the contract of a table with its validation
    and its construction from origins, and the identities of a published schema.
  \<^item> \<open>PrimaryGeometry\<close> (\<open>contract/arrow_schema.rs\<close> and \<open>geometry_provenance.rs\<close> of the table kernels): the primary geometry
    as it is read and written, and the schema of what a kernel produces; what is written is read back, but for one case
    that the theorem names, and the primary follows its column.
  \<^item> \<open>Json\<close> (\<open>json.rs\<close>, \<open>crs/definizioni/numeri.rs\<close>): the guards on repeated and reserved keys and on numbers, and the
    equality of written decimals.
  \<^item> \<open>CrsTypes\<close>, \<open>CrsTable\<close>, \<open>Crs\<close> (\<open>crs.rs\<close>, \<open>crs/integrati.rs\<close>, \<open>crs/epsg_integrati.rs\<close>): the resolved systems, the table
    row by row, its search, the identifiers, the requirements of an operation and the domains of coordinates.
  \<^item> \<open>DatumTable\<close>, \<open>DatumPaths\<close>, \<open>Ntv2\<close>, \<open>Reprojection\<close> (\<open>crs/riproiezione.rs\<close> and its modules): the registry of
    transformations, the simple paths between two datums in their order of preference, the grids read from bytes, and the
    plan of a reprojection, which is admitted by its accuracy and never fails once its grids are given.

  \<^bold>\<open>Pipeline.\<close>
  \<^item> \<open>Budget\<close>, \<open>CostData\<close> (\<open>budget.rs\<close>, \<open>costi_operazioni.rs\<close>, \<open>costi_geo.rs\<close>): the cost model in 128-bit
    arithmetic and the measured tables.
  \<^item> \<open>Plan\<close>, \<open>Validation\<close>, \<open>Provenance\<close> (\<open>piano.rs\<close>, \<open>validazione.rs\<close>): the plan, its validation in the order of the code, and
    what a validated plan satisfies: single assignment, sources before uses, the base of the row indices.
  \<^item> \<open>Execution\<close>, \<open>Residency\<close>, \<open>Runner\<close> (\<open>esecuzione.rs\<close>): every function of the runner; the refinement to an abstract
    runner that frees nothing; the account of the memory, the refusal before the kernel, the interruption and the base of
    the diagnostics.

  \<^bold>\<open>Kernels and files.\<close>
  \<^item> \<open>ExactCompare\<close> (\<open>exact_compare.rs\<close>): the comparison of a decimal with a double over 512-bit integers.
  \<^item> \<open>TableKernel\<close> (\<open>lib.rs\<close> of the table kernels): batches, the rows that a kernel rejects with their diagnostic, the
    column of a name and the column that a kernel writes.
  \<^item> \<open>FormulaParse\<close> (\<open>formula.rs\<close>): the parser of \<open>table.formula\<close>, which accepts exactly the grammar of the
    documentation, and the stack that it needs.
  \<^item> \<open>Formula\<close> (\<open>formula.rs\<close>): the evaluation of \<open>table.formula\<close>.  The interpreter on the tree is the specification of
    the fast path, a compiler to a postfix program with a numeric and a general stack machine; the two agree on every
    typed formula, and the column that the operation writes is given row by row.
  \<^item> \<open>WkbBytes\<close>, \<open>WkbDecode\<close>, \<open>WkbEncode\<close>, \<open>WkbRoundtrip\<close>, \<open>WkbPreflight\<close> (\<open>lib.rs\<close>, \<open>wkb_decoder.rs\<close>,
    \<open>rust_backend/wkb.rs\<close>, \<open>decoded_size.rs\<close> of the geometry kernels): the cursor, the structural validator and the
    decoder, which agree on every payload, the encoder, which the decoder inverts, and the heap of a decoding.
  \<^item> \<open>GeoParquetScan\<close> (\<open>wkb.rs\<close> of \<open>plenora-io\<close>): the scan of the cells of a file; it accepts what the kernels decode.

  \<^bold>\<open>Bounds, fuel and termination.\<close>  No definition takes fuel of its own: the bounds are those of the code.  The
  recursion of the WKB walks stops at the \<open>max_depth\<close> that the code passes, the inverse of a grid shift at its twenty
  iterations, and every other loop at the end of the data it visits.  Where a loop of the code could go on for ever, or read
  out of range, its value is an option with \<open>None\<close> for that, and it is shown to return: the parser of a formula
  (a \<open>partial_function\<close>: every call is on a shorter text, or on the same one by a method of lower rank), the visit of
  the hierarchy of a grid and the descent into its subgrids (\<open>grid_never_stuck\<close>: no subgrid is entered twice).  The
  searches by bisection and the visits of trees are functions with a measure.  The stack of the process is modelled for
  the parser of a formula alone (\<open>parse_con_pila\<close>, whose frames are an argument): it needs no more than three frames per
  byte and three more, which nested parentheses do need, and the code sets no limit to them.  The other recursions on a
  formula, its evaluation and its release, have no stack in the model.

  \<^bold>\<open>What is a parameter.\<close>  What is not under \<open>src\<close>: the parser of \<open>serde_json\<close>, the constructors of Arrow arrays and of
  \<open>RecordBatch\<close>, the constructors of \<open>geo-types\<close>, the time zones, the functions of \<open>f64\<close> whose precision Rust leaves
  open and, with them, the formulas of the projections; the text of a double; the address and the capacity of a buffer.
  The kernels are parameters of the runner, and so is what the analysis of an operation gives the validation: the
  theorems hold for every kernel and every analysis, a kernel that panics included.

  \<^bold>\<open>Not modelled.\<close>  The kernels on Arrow arrays other than the parts above, which are hundreds of loops over array types, and
  the analysis of their contracts; the algorithms of the geometry kernels, which are floating-point geometry over a
  vendored crate; the parsers of WKT and PROJJSON; the geometry metadata but for the primary; the reading of the plan from
  its text; the files and their formats; the command line and the Python binding, which are input and output; the display
  texts and the JSON projection of errors; the panic hook, a global of the process.  What Rust guarantees (a slice within its
  bounds, a text of valid UTF-8) is a property of the types of the model.
\<close>

end
